(* ===== verification/Py_Prelude.thy ===== *)
theory Py_Prelude
  imports Main "HOL-Library.Char_ord" "HOL-Library.List_Lexorder" "HOL-Library.Product_Lexorder"
begin

text \<open>
  The part of the Python language every component uses: exceptions as values, the string
  methods and regular expressions of the validators, and the generic lemmas on results and
  sorted lists.

  A Python \<open>str\<close> is a HOL \<open>string\<close>: a list of characters with code points below 256
  (Latin-1). \<open>isinstance\<close> and exact-type checks of the source are discharged by HOL's types
  and have no branch here.
\<close>

section \<open>Exceptions as values\<close>

text \<open>
  One constructor per exception class the modelled code raises, with the message of the
  \<open>raise\<close> statement. The store errors are those of
  \<^verbatim>\<open>reservation_execution/sqlite_store.py\<close> and \<^verbatim>\<open>reservation_followup/sqlite_store.py\<close>.
\<close>

datatype py_error =
    ValueError string
  | TypeError string
  | DataCorruption string
  | ConcurrencyConflict string
  | IdentityConflict string
  | UnsupportedEffect string
  | StaleLease string
  | DispatchAlreadyFenced string
  | WorkflowNotFound string
  | CommandNotFound string
  | OutboxNotFound string
  | OverflowError string
  | PaymentNotFound string
  | HandoffNotFound string

type_synonym 'a res = "py_error + 'a"

definition bind_res :: "'a res \<Rightarrow> ('a \<Rightarrow> 'b res) \<Rightarrow> 'b res" where
  "bind_res m f = (case m of Inl e \<Rightarrow> Inl e | Inr x \<Rightarrow> f x)"

fun map_res :: "('a \<Rightarrow> 'b res) \<Rightarrow> 'a list \<Rightarrow> 'b list res" where
  "map_res f [] = Inr []"
| "map_res f (x # xs) = bind_res (f x) (\<lambda>y. bind_res (map_res f xs) (\<lambda>ys. Inr (y # ys)))"

definition is_ok :: "'a res \<Rightarrow> bool" where
  "is_ok m \<longleftrightarrow> (case m of Inl _ \<Rightarrow> False | Inr _ \<Rightarrow> True)"

lemma bind_res_simps [simp]:
  "bind_res (Inl e) f = Inl e"
  "bind_res (Inr x) f = f x"
  by (simp_all add: bind_res_def)

lemma bind_res_Inr_iff: "bind_res m f = Inr y \<longleftrightarrow> (\<exists>x. m = Inr x \<and> f x = Inr y)"
  by (cases m) auto

lemma bind_res_Inl_iff: "bind_res m f = Inl e \<longleftrightarrow> m = Inl e \<or> (\<exists>x. m = Inr x \<and> f x = Inl e)"
  by (cases m) auto

text \<open>
  What a computation guarantees when it does not raise, with the rules that take a definition
  apart along its binds, guards and matches.
\<close>

definition ensures :: "('a \<Rightarrow> bool) \<Rightarrow> 'a res \<Rightarrow> bool" where
  "ensures p m \<longleftrightarrow> (case m of Inl _ \<Rightarrow> True | Inr x \<Rightarrow> p x)"

lemma ensures_Inl [simp]: "ensures p (Inl e)"
  by (simp add: ensures_def)

lemma ensures_Inr [simp]: "ensures p (Inr x) = p x"
  by (simp add: ensures_def)

lemma ensuresD: "ensures p m \<Longrightarrow> m = Inr x \<Longrightarrow> p x"
  by simp

lemma ensures_bind: "(\<And>x. m = Inr x \<Longrightarrow> ensures p (f x)) \<Longrightarrow> ensures p (bind_res m f)"
  by (cases m) simp_all

lemma ensures_if: "(b \<Longrightarrow> ensures p x) \<Longrightarrow> (\<not> b \<Longrightarrow> ensures p y) \<Longrightarrow> ensures p (if b then x else y)"
  by simp

lemma ensures_option:
  "(v = None \<Longrightarrow> ensures p x) \<Longrightarrow> (\<And>y. v = Some y \<Longrightarrow> ensures p (f y)) \<Longrightarrow>
     ensures p (case v of None \<Rightarrow> x | Some y \<Rightarrow> f y)"
  by (cases v) simp_all

lemma ensures_prod: "(\<And>x y. v = (x, y) \<Longrightarrow> ensures p (f x y)) \<Longrightarrow> ensures p (case v of (x, y) \<Rightarrow> f x y)"
  by (cases v) simp

lemmas ensures_rules = ensures_bind ensures_if ensures_option ensures_prod

lemma guard_Inr_iff: "(if b then Inl e else r) = Inr x \<longleftrightarrow> \<not> b \<and> r = Inr x"
  by simp

lemma is_ok_iff: "is_ok m \<longleftrightarrow> (\<exists>x. m = Inr x)"
  by (cases m) (auto simp: is_ok_def)

lemma is_ok_simps [simp]: "is_ok (Inr x)" "\<not> is_ok (Inl e)"
  by (simp_all add: is_ok_def)

lemma map_res_id: "(\<And>x. x \<in> set xs \<Longrightarrow> f x = Inr x) \<Longrightarrow> map_res f xs = Inr xs"
  by (induction xs) auto

lemma map_res_Inr_length: "map_res f xs = Inr ys \<Longrightarrow> length ys = length xs"
  by (induction xs arbitrary: ys) (auto simp: bind_res_Inr_iff)

lemma map_res_Inr_set:
  "map_res f xs = Inr ys \<Longrightarrow> y \<in> set ys \<Longrightarrow> \<exists>x\<in>set xs. f x = Inr y"
  by (induction xs arbitrary: ys) (auto simp: bind_res_Inr_iff)

text \<open>\<open>except (TypeError, ValueError)\<close> turned into \<open>DataCorruption\<close>.\<close>

definition as_corruption :: "string \<Rightarrow> 'a res \<Rightarrow> 'a res" where
  "as_corruption msg r =
     (case r of
        Inl (ValueError _) \<Rightarrow> Inl (DataCorruption msg)
      | Inl (TypeError _) \<Rightarrow> Inl (DataCorruption msg)
      | _ \<Rightarrow> r)"

lemma as_corruption_Inr [simp]: "as_corruption msg r = Inr x \<longleftrightarrow> r = Inr x"
  by (auto simp: as_corruption_def split: sum.splits py_error.splits)

text \<open>A check of a value that may be \<open>None\<close>, which passes it.\<close>

definition opt_all :: "('a \<Rightarrow> bool) \<Rightarrow> 'a option \<Rightarrow> bool" where
  "opt_all p v \<longleftrightarrow> (case v of None \<Rightarrow> True | Some x \<Rightarrow> p x)"

text \<open>
  \<open>res_simps\<close> inverts a successful run of a validator or handler: every guard it passed and
  every intermediate value becomes an assumption.
\<close>

lemmas res_simps = bind_res_Inr_iff guard_Inr_iff

section \<open>Characters and string methods\<close>

definition ordc :: "char \<Rightarrow> nat" where
  "ordc c = of_char c"

definition in_range :: "nat \<Rightarrow> nat \<Rightarrow> char \<Rightarrow> bool" where
  "in_range lo hi c \<longleftrightarrow> lo \<le> ordc c \<and> ordc c \<le> hi"

definition is_digit :: "char \<Rightarrow> bool" where
  "is_digit c \<longleftrightarrow> in_range 48 57 c"

definition is_upper_az :: "char \<Rightarrow> bool" where
  "is_upper_az c \<longleftrightarrow> in_range 65 90 c"

definition is_lower_az :: "char \<Rightarrow> bool" where
  "is_lower_az c \<longleftrightarrow> in_range 97 122 c"

definition is_alnum :: "char \<Rightarrow> bool" where
  "is_alnum c \<longleftrightarrow> is_digit c \<or> is_upper_az c \<or> is_lower_az c"

text \<open>\<open>str.isspace\<close> on Latin-1: tab to carriage return, the four separators, space, NEL, NBSP.\<close>

definition is_space :: "char \<Rightarrow> bool" where
  "is_space c \<longleftrightarrow> in_range 9 13 c \<or> in_range 28 32 c \<or> ordc c = 133 \<or> ordc c = 160"

definition lstrip :: "string \<Rightarrow> string" where
  "lstrip s = dropWhile is_space s"

definition strip :: "string \<Rightarrow> string" where
  "strip s = rev (lstrip (rev (lstrip s)))"

text \<open>\<open>str.lower\<close> and \<open>str.upper\<close> on Latin-1; \<open>upper\<close> expands sharp s to two letters, and
  the two characters whose upper case lies outside Latin-1 are kept.\<close>

definition lower_char :: "char \<Rightarrow> char" where
  "lower_char c =
     (if is_upper_az c \<or> (in_range 192 222 c \<and> ordc c \<noteq> 215) then char_of (ordc c + 32) else c)"

definition lower :: "string \<Rightarrow> string" where
  "lower s = map lower_char s"

definition upper_char :: "char \<Rightarrow> string" where
  "upper_char c =
     (if is_lower_az c \<or> (in_range 224 254 c \<and> ordc c \<noteq> 247) then [char_of (ordc c - 32)]
      else if ordc c = 223 then ''SS'' else [c])"

definition upper :: "string \<Rightarrow> string" where
  "upper s = concat (map upper_char s)"

fun join :: "string \<Rightarrow> string list \<Rightarrow> string" where
  "join sep [] = []"
| "join sep [w] = w"
| "join sep (w # v # ws) = w @ sep @ join sep (v # ws)"

text \<open>\<open>str.split()\<close> with no argument: the maximal runs of non-space characters.\<close>

fun split_ws :: "string \<Rightarrow> string \<Rightarrow> string list" where
  "split_ws acc [] = (if acc = [] then [] else [rev acc])"
| "split_ws acc (c # cs) =
     (if is_space c then (if acc = [] then split_ws [] cs else rev acc # split_ws [] cs)
      else split_ws (c # acc) cs)"

definition normalize_spaces :: "string \<Rightarrow> string" where
  "normalize_spaces s = join '' '' (split_ws [] s)"

fun show_nat :: "nat \<Rightarrow> string" where
  "show_nat n =
     (if n < 10 then [char_of (48 + n)] else show_nat (n div 10) @ [char_of (48 + n mod 10)])"

declare show_nat.simps [simp del]

definition show_int :: "int \<Rightarrow> string" where
  "show_int i = (if i < 0 then CHR ''-'' # show_nat (nat (- i)) else show_nat (nat i))"

definition zfill :: "nat \<Rightarrow> string \<Rightarrow> string" where
  "zfill w s = replicate (w - length s) (CHR ''0'') @ s"

section \<open>The regular expressions of the validators (all used with fullmatch)\<close>

definition id_char :: "char \<Rightarrow> bool" where
  "id_char c \<longleftrightarrow> is_alnum c \<or> c \<in> {CHR ''.'', CHR ''_'', CHR '':'', CHR ''-''}"

fun id_re :: "string \<Rightarrow> bool" where
  "id_re [] = False"
| "id_re (c # cs) = (is_alnum c \<and> 2 \<le> length cs \<and> length cs \<le> 127 \<and> list_all id_char cs)"

definition hex_char :: "char \<Rightarrow> bool" where
  "hex_char c \<longleftrightarrow> in_range 97 102 c \<or> is_digit c"

definition hash_re :: "string \<Rightarrow> bool" where
  "hash_re s \<longleftrightarrow> length s = 64 \<and> list_all hex_char s"

definition currency_re :: "string \<Rightarrow> bool" where
  "currency_re s \<longleftrightarrow> length s = 3 \<and> list_all is_upper_az s"

definition country_re :: "string \<Rightarrow> bool" where
  "country_re s \<longleftrightarrow> length s = 2 \<and> list_all is_upper_az s"

fun phone_re :: "string \<Rightarrow> bool" where
  "phone_re (p # d # ds) =
     (p = CHR ''+'' \<and> in_range 49 57 d \<and> 7 \<le> length ds \<and> length ds \<le> 14 \<and> list_all is_digit ds)"
| "phone_re _ = False"

fun time_re :: "string \<Rightarrow> bool" where
  "time_re [a, b, colon, c, d] =
     (((a = CHR ''0'' \<or> a = CHR ''1'') \<and> is_digit b \<or> a = CHR ''2'' \<and> in_range 48 51 b)
      \<and> colon = CHR '':'' \<and> in_range 48 53 c \<and> is_digit d)"
| "time_re _ = False"

section \<open>Normalisation is idempotent\<close>

text \<open>
  The validators normalise (\<open>strip\<close>, \<open>lower\<close>, \<open>upper\<close>, single spaces) before they match. These
  lemmas say that a value which already matched is left alone, so that a value object rebuilt
  from its own fields (as \<open>dataclasses.replace\<close> does) is the same value object.
\<close>

lemma ordc_char_of [simp]: "n < 256 \<Longrightarrow> ordc (char_of n) = n"
  by (simp add: ordc_def)

lemma ordc_lits [simp]:
  "ordc (CHR ''.'') = 46" "ordc (CHR ''_'') = 95" "ordc (CHR '':'') = 58" "ordc (CHR ''-'') = 45"
  "ordc (CHR ''+'') = 43" "ordc (CHR ''0'') = 48" "ordc (CHR ''1'') = 49" "ordc (CHR ''2'') = 50"
  by (simp_all add: ordc_def)

lemmas char_class_defs =
  in_range_def is_digit_def is_upper_az_def is_lower_az_def is_alnum_def is_space_def id_char_def
  hex_char_def

definition no_space :: "string \<Rightarrow> bool" where
  "no_space s \<longleftrightarrow> list_all (\<lambda>c. \<not> is_space c) s"

lemma dropWhile_none: "list_all (\<lambda>c. \<not> p c) s \<Longrightarrow> dropWhile p s = s"
  by (cases s) auto

lemma strip_no_space: "no_space s \<Longrightarrow> strip s = s"
  by (simp add: strip_def lstrip_def no_space_def dropWhile_none list_all_rev)

lemma strip_Nil [simp]: "strip [] = []"
  by (simp add: strip_def lstrip_def)

lemma dropWhile_rev_dropWhile:
  "dropWhile p (rev (dropWhile p (rev (dropWhile p s)))) = rev (dropWhile p (rev (dropWhile p s)))"
proof (cases "dropWhile p s")
  case Nil
  show ?thesis unfolding Nil by simp
next
  case (Cons c cs)
  then have c: "\<not> p c" by (metis hd_dropWhile list.distinct(1) list.sel(1))
  have "\<exists>ds. dropWhile p (rev cs @ [c]) = ds @ [c]"
    using c by (cases "\<exists>x\<in>set cs. \<not> p x") (auto simp: dropWhile_append3 dropWhile_append)
  then obtain ds where "dropWhile p (rev cs @ [c]) = ds @ [c]" by blast
  with Cons c show ?thesis by simp
qed

lemma lstrip_idem [simp]: "lstrip (lstrip s) = lstrip s"
  by (simp add: lstrip_def)

lemma strip_idem [simp]: "strip (strip s) = strip s"
  by (simp add: strip_def lstrip_def dropWhile_rev_dropWhile)

lemma set_strip: "set (strip s) \<subseteq> set s"
  unfolding strip_def lstrip_def by (auto dest!: set_dropWhileD)

lemma id_char_no_space: "id_char c \<Longrightarrow> \<not> is_space c"
  by (auto simp: char_class_defs)

lemma is_alnum_id_char: "is_alnum c \<Longrightarrow> id_char c"
  by (simp add: id_char_def)

lemma id_re_chars: "id_re s \<Longrightarrow> list_all id_char s"
  by (cases s) (auto simp: is_alnum_id_char)

lemma id_re_length: "id_re s \<Longrightarrow> 3 \<le> length s \<and> length s \<le> 128"
  by (cases s) auto

lemma id_re_no_space: "id_re s \<Longrightarrow> no_space s"
  using id_re_chars [of s] id_char_no_space unfolding no_space_def list_all_iff by blast

lemma strip_id_re [simp]: "id_re s \<Longrightarrow> strip s = s"
  by (simp add: id_re_no_space strip_no_space)

lemma ordc_bound: "ordc c < 256"
  by (simp add: ordc_def)

lemma ordc_inject: "ordc c = ordc d \<longleftrightarrow> c = d"
  by (simp add: ordc_def)

lemma ordc_lower_char:
  "ordc (lower_char c) =
     (if is_upper_az c \<or> (in_range 192 222 c \<and> ordc c \<noteq> 215) then ordc c + 32 else ordc c)"
  by (auto simp: lower_char_def char_class_defs)

lemma lower_char_idem [simp]: "lower_char (lower_char c) = lower_char c"
proof -
  have "ordc (lower_char (lower_char c)) = ordc (lower_char c)"
    by (auto simp: ordc_lower_char char_class_defs)
  then show ?thesis by (simp add: ordc_inject)
qed

lemma is_space_lower_char [simp]: "is_space (lower_char c) \<longleftrightarrow> is_space c"
  by (auto simp: is_space_def in_range_def ordc_lower_char is_upper_az_def)

lemma lower_idem [simp]: "lower (lower s) = lower s"
  by (simp add: lower_def)

lemma lower_lstrip: "lower (lstrip s) = lstrip (lower s)"
  by (simp add: lower_def lstrip_def dropWhile_map comp_def)

lemma lower_rev: "lower (rev s) = rev (lower s)"
  by (simp add: lower_def rev_map)

lemma lower_strip: "lower (strip s) = strip (lower s)"
  by (simp add: strip_def lower_rev lower_lstrip)

lemma lower_fixed: "list_all (\<lambda>c. \<not> is_upper_az c \<and> ordc c < 128) s \<Longrightarrow> lower s = s"
  by (induction s) (auto simp: lower_def lower_char_def in_range_def)

lemma hex_char_props: "hex_char c \<Longrightarrow> \<not> is_space c \<and> \<not> is_upper_az c \<and> ordc c < 128 \<and> id_char c"
  by (auto simp: char_class_defs)

lemma hash_re_normal: "hash_re s \<Longrightarrow> lower (strip s) = s"
proof -
  assume s: "hash_re s"
  then have "no_space s" "list_all (\<lambda>c. \<not> is_upper_az c \<and> ordc c < 128) s"
    by (auto simp: hash_re_def no_space_def list_all_iff dest: hex_char_props)
  then show ?thesis by (simp add: strip_no_space lower_fixed)
qed

lemma upper_fixed: "list_all is_upper_az s \<Longrightarrow> upper s = s"
  by (induction s) (auto simp: upper_def upper_char_def char_class_defs)

lemma upper_az_no_space: "list_all is_upper_az s \<Longrightarrow> no_space s"
  by (auto simp: no_space_def list_all_iff char_class_defs)

lemma upper_strip_fixed: "list_all is_upper_az s \<Longrightarrow> upper (strip s) = s"
  by (simp add: upper_az_no_space strip_no_space upper_fixed)

lemma phone_re_no_space: "phone_re s \<Longrightarrow> no_space s"
  by (cases s rule: phone_re.cases)
     (auto simp: no_space_def list_all_iff char_class_defs)

lemma strip_phone_re [simp]: "phone_re s \<Longrightarrow> strip s = s"
  by (simp add: phone_re_no_space strip_no_space)

lemma time_re_no_space: "time_re s \<Longrightarrow> no_space s"
  by (cases s rule: time_re.cases) (auto simp: no_space_def char_class_defs)

lemma strip_time_re [simp]: "time_re s \<Longrightarrow> strip s = s"
  by (simp add: time_re_no_space strip_no_space)

subsection \<open>Splitting on white space and joining with one space\<close>

definition is_word :: "string \<Rightarrow> bool" where
  "is_word w \<longleftrightarrow> w \<noteq> [] \<and> no_space w"

lemma split_ws_words: "no_space acc \<Longrightarrow> list_all is_word (split_ws acc s)"
  by (induction acc s rule: split_ws.induct) (auto simp: is_word_def no_space_def list_all_rev)

lemma split_ws_append: "no_space w \<Longrightarrow> split_ws acc (w @ s) = split_ws (rev w @ acc) s"
  by (induction w arbitrary: acc) (auto simp: no_space_def)

lemma is_space_blank [simp]: "is_space (CHR '' '')"
  by (simp add: is_space_def in_range_def ordc_def)

lemma split_ws_join: "list_all is_word ws \<Longrightarrow> split_ws [] (join '' '' ws) = ws"
proof (induction "'' ''" ws rule: join.induct)
  case 1
  then show ?case by simp
next
  case (2 w)
  then show ?case using split_ws_append [of w "[]" "[]"] by (simp add: is_word_def)
next
  case (3 w v ws)
  then show ?case by (simp add: is_word_def split_ws_append)
qed

lemma normalize_spaces_idem [simp]: "normalize_spaces (normalize_spaces s) = normalize_spaces s"
  by (simp add: normalize_spaces_def split_ws_join split_ws_words no_space_def)

subsection \<open>Sorting tuples as the constructors do\<close>

lemma sort_key_idem [simp]: "sort_key f (sort_key f xs) = sort_key f xs"
  by (simp add: sorted_sort_id sort_key_id_if_sorted)

lemma sort_key_Nil_iff [simp]: "sort_key f xs = [] \<longleftrightarrow> xs = []"
  by (metis length_0_conv length_sort)

lemma distinct_map_sort_key [simp]: "distinct (map g (sort_key f xs)) = distinct (map g xs)"
  by (simp add: distinct_map)

end
