(* ===== verification/Py_Json.thy ===== *)
theory Py_Json
  imports Py_Prelude
begin

text \<open>
  Python's \<open>json.dumps(v, ensure_ascii=False, sort_keys=True, separators=(",", ":"))\<close>, the one
  printer the program hashes: objects with their keys sorted by code point, no white space,
  and the escapes of \<open>ensure_ascii=False\<close> (quotation mark, backslash, control characters).
\<close>

datatype json =
    JNull
  | JBool bool
  | JInt int
  | JStr string
  | JArr "json list"
  | JObj "(string \<times> json) list"

definition hex_digit :: "nat \<Rightarrow> char" where
  "hex_digit n = (if n < 10 then char_of (48 + n) else char_of (87 + n))"

definition escape_char :: "char \<Rightarrow> string" where
  "escape_char c =
     (if ordc c = 34 then [char_of (92::nat), char_of (34::nat)]
      else if ordc c = 92 then [char_of (92::nat), char_of (92::nat)]
      else if ordc c = 10 then [char_of (92::nat), CHR ''n'']
      else if ordc c = 13 then [char_of (92::nat), CHR ''r'']
      else if ordc c = 9 then [char_of (92::nat), CHR ''t'']
      else if ordc c = 12 then [char_of (92::nat), CHR ''f'']
      else if ordc c = 8 then [char_of (92::nat), CHR ''b'']
      else if ordc c < 32
        then [char_of (92::nat), CHR ''u'', CHR ''0'', CHR ''0'',
              hex_digit (ordc c div 16), hex_digit (ordc c mod 16)]
      else [c])"

definition quote :: char where
  "quote = char_of (34::nat)"

definition json_string :: "string \<Rightarrow> string" where
  "json_string s = [quote] @ concat (map escape_char s) @ [quote]"

definition json_member :: "string \<times> string \<Rightarrow> string" where
  "json_member kv = json_string (fst kv) @ '':'' @ snd kv"

fun dumps :: "json \<Rightarrow> string" where
  "dumps JNull = ''null''"
| "dumps (JBool b) = (if b then ''true'' else ''false'')"
| "dumps (JInt i) = show_int i"
| "dumps (JStr s) = json_string s"
| "dumps (JArr vs) = ''['' @ join '','' (map dumps vs) @ '']''"
| "dumps (JObj kvs) =
     ''{'' @ join '','' (map json_member (sort_key fst (map (\<lambda>kv. (fst kv, dumps (snd kv))) kvs))) @ ''}''"

definition json_opt :: "('a \<Rightarrow> json) \<Rightarrow> 'a option \<Rightarrow> json" where
  "json_opt f v = (case v of None \<Rightarrow> JNull | Some x \<Rightarrow> f x)"

end
