(* ===== verification/Py_Sha256.thy ===== *)
theory Py_Sha256
  imports Py_Json "HOL-Library.Word"
begin

unbundle bit_operations_syntax

text \<open>
  \<open>hashlib.sha256(text.encode("utf-8")).hexdigest()\<close>: the UTF-8 encoding of a string and
  SHA-256 (FIPS 180-4) on 32-bit words, with the hexadecimal text of the digest. The proofs of
  the development use one fact about it, that the digest is 64 lower-case hexadecimal digits;
  everything else they prove holds whatever the digest's bits are.
\<close>

type_synonym u32 = "32 word"

definition utf8_char :: "char \<Rightarrow> nat list" where
  "utf8_char c = (if ordc c < 128 then [ordc c] else [192 + ordc c div 64, 128 + ordc c mod 64])"

definition utf8 :: "string \<Rightarrow> nat list" where
  "utf8 s = concat (map utf8_char s)"

text \<open>
  The constants of SHA-256 are the first 32 bits of the fractional parts of the cube roots
  (rounds) and square roots (initial state) of the first primes. \<open>integer_root k n\<close> is the
  largest number below \<open>2 ^ 40\<close> whose k-th power is at most \<open>n\<close>; the word keeps its low 32 bits.
\<close>

definition integer_root :: "nat \<Rightarrow> nat \<Rightarrow> nat" where
  "integer_root k n =
     foldl (\<lambda>r i. if (r + 2 ^ i) ^ k \<le> n then r + 2 ^ i else r) 0 (rev [0..<40])"

definition root_fraction :: "nat \<Rightarrow> nat \<Rightarrow> u32" where
  "root_fraction k p = of_nat (integer_root k (p * 2 ^ (32 * k)))"

definition small_primes :: "nat list" where
  "small_primes = filter (\<lambda>n. list_all (\<lambda>d. n mod d \<noteq> 0) [2..<n]) [2..<312]"

definition round_constants :: "u32 list" where
  "round_constants = map (root_fraction 3) small_primes"

definition rotr :: "nat \<Rightarrow> u32 \<Rightarrow> u32" where
  "rotr n x = (drop_bit n x) OR (push_bit (32 - n) x)"

fun be_words :: "nat list \<Rightarrow> u32 list" where
  "be_words (a # b # c # d # bs) =
     (push_bit 24 (of_nat a) OR push_bit 16 (of_nat b) OR push_bit 8 (of_nat c) OR of_nat d) # be_words bs"
| "be_words _ = []"

definition be_bytes :: "nat \<Rightarrow> nat \<Rightarrow> nat list" where
  "be_bytes k n = map (\<lambda>i. n div 256 ^ i mod 256) (rev [0..<k])"

definition padded :: "nat list \<Rightarrow> nat list" where
  "padded bs = bs @ [128] @ replicate (nat ((55 - int (length bs)) mod 64)) 0 @ be_bytes 8 (8 * length bs)"

text \<open>The message schedule, built with the newest word first.\<close>

definition small_sigma0 :: "u32 \<Rightarrow> u32" where
  "small_sigma0 x = rotr 7 x XOR rotr 18 x XOR drop_bit 3 x"

definition small_sigma1 :: "u32 \<Rightarrow> u32" where
  "small_sigma1 x = rotr 17 x XOR rotr 19 x XOR drop_bit 10 x"

fun extend_schedule :: "nat \<Rightarrow> u32 list \<Rightarrow> u32 list" where
  "extend_schedule 0 ws = ws"
| "extend_schedule (Suc n) ws =
     extend_schedule n
       ((small_sigma1 (ws ! 1) + ws ! 6 + small_sigma0 (ws ! 14) + ws ! 15) # ws)"

type_synonym sha_state = "u32 \<times> u32 \<times> u32 \<times> u32 \<times> u32 \<times> u32 \<times> u32 \<times> u32"

fun sha_round :: "sha_state \<Rightarrow> u32 \<times> u32 \<Rightarrow> sha_state" where
  "sha_round (a, b, c, d, e, f, g, h) (k, w) =
     (let s1 = rotr 6 e XOR rotr 11 e XOR rotr 25 e;
          ch = (e AND f) XOR (NOT e AND g);
          t1 = h + s1 + ch + k + w;
          s0 = rotr 2 a XOR rotr 13 a XOR rotr 22 a;
          maj = (a AND b) XOR (a AND c) XOR (b AND c);
          t2 = s0 + maj
      in (t1 + t2, a, b, c, d + t1, e, f, g))"

fun add_state :: "sha_state \<Rightarrow> sha_state \<Rightarrow> sha_state" where
  "add_state (a, b, c, d, e, f, g, h) (a', b', c', d', e', f', g', h') =
     (a + a', b + b', c + c', d + d', e + e', f + f', g + g', h + h')"

definition compress :: "sha_state \<Rightarrow> u32 list \<Rightarrow> sha_state" where
  "compress st block =
     add_state st (foldl sha_round st (zip round_constants (rev (extend_schedule 48 (rev block)))))"

fun sha_blocks :: "nat \<Rightarrow> sha_state \<Rightarrow> u32 list \<Rightarrow> sha_state" where
  "sha_blocks 0 st ws = st"
| "sha_blocks (Suc n) st ws = sha_blocks n (compress st (take 16 ws)) (drop 16 ws)"

definition initial_state :: sha_state where
  "initial_state =
     (root_fraction 2 2, root_fraction 2 3, root_fraction 2 5, root_fraction 2 7,
      root_fraction 2 11, root_fraction 2 13, root_fraction 2 17, root_fraction 2 19)"

definition hex_word :: "u32 \<Rightarrow> string" where
  "hex_word w = map (\<lambda>i. hex_digit (unat w div 16 ^ i mod 16)) (rev [0..<8])"

fun hex_state :: "sha_state \<Rightarrow> string" where
  "hex_state (a, b, c, d, e, f, g, h) =
     hex_word a @ hex_word b @ hex_word c @ hex_word d @ hex_word e @ hex_word f @ hex_word g @ hex_word h"

definition sha256_bytes :: "nat list \<Rightarrow> string" where
  "sha256_bytes bs =
     (let ws = be_words (padded bs) in hex_state (sha_blocks (length ws div 16) initial_state ws))"

definition sha256_hex :: "string \<Rightarrow> string" where
  "sha256_hex s = sha256_bytes (utf8 s)"

section \<open>The shape of a digest\<close>

lemma hex_char_hex_digit: "n < 16 \<Longrightarrow> hex_char (hex_digit n)"
  by (auto simp: hex_digit_def char_class_defs)

lemma hex_word_shape: "length (hex_word w) = 8 \<and> list_all hex_char (hex_word w)"
  by (simp add: hex_word_def list_all_iff hex_char_hex_digit)

lemma hex_state_shape: "hash_re (hex_state st)"
  using hex_word_shape by (cases st rule: hex_state.cases) (simp add: hash_re_def)

lemma sha256_hex_hash_re [simp]: "hash_re (sha256_hex s)"
  by (simp add: sha256_hex_def sha256_bytes_def Let_def hex_state_shape)

lemma sha256_hex_length [simp]: "length (sha256_hex s) = 64"
  using sha256_hex_hash_re [of s] by (simp add: hash_re_def)

lemma sha256_hex_chars: "list_all hex_char (sha256_hex s)"
  using sha256_hex_hash_re [of s] by (simp add: hash_re_def)

end
