(* ===== verification/Py_Time.thy ===== *)
theory Py_Time
  imports Py_Prelude
begin

text \<open>
  The dates and instants of Python's \<open>datetime\<close> module as the program uses them.

  A \<open>date\<close> is its proleptic Gregorian ordinal (\<open>date.toordinal()\<close>, day 1 is 0001-01-01).
  An aware \<open>datetime\<close>, normalised to UTC as every validator of the program does, is its number
  of microseconds since 0001-01-01T00:00:00Z; comparison of instants is comparison of integers
  and a \<open>timedelta\<close> is a number of microseconds. The naive-datetime branch of the validators
  has no counterpart. \<open>isoformat\<close> is written out, since identities hash its text.
\<close>

type_synonym date = int
type_synonym timestamp = int
type_synonym timedelta = int

definition us_per_day :: int where
  "us_per_day = 86400000000"

definition max_timestamp :: timestamp where
  "max_timestamp = 3652059 * us_per_day - 1"

definition is_leap :: "int \<Rightarrow> bool" where
  "is_leap y \<longleftrightarrow> y mod 4 = 0 \<and> (y mod 100 \<noteq> 0 \<or> y mod 400 = 0)"

definition days_in_month :: "int \<Rightarrow> int \<Rightarrow> int" where
  "days_in_month y m =
     (if m = 2 then (if is_leap y then 29 else 28)
      else if m = 4 \<or> m = 6 \<or> m = 9 \<or> m = 11 then 30 else 31)"

definition days_before_month :: "int \<Rightarrow> int \<Rightarrow> int" where
  "days_before_month y m = (\<Sum>k \<leftarrow> [1..m - 1]. days_in_month y k)"

text \<open>The year, month and day of an ordinal, by cycles of 400, 100, 4 and 1 years.\<close>

definition ord2ymd :: "date \<Rightarrow> int \<times> int \<times> int" where
  "ord2ymd ord =
     (let n = ord - 1;
          n400 = n div 146097; n = n mod 146097;
          n100 = n div 36524; n = n mod 36524;
          n4 = n div 1461; n = n mod 1461;
          n1 = n div 365; n = n mod 365;
          year = n400 * 400 + 1 + n100 * 100 + n4 * 4 + n1
      in if n1 = 4 \<or> n100 = 4 then (year - 1, 12, 31)
         else let m = (n + 50) div 32;
                  month = (if days_before_month year m > n then m - 1 else m)
              in (year, month, n - days_before_month year month + 1))"

definition date_isoformat :: "date \<Rightarrow> string" where
  "date_isoformat d =
     (case ord2ymd d of (y, m, dd) \<Rightarrow>
        zfill 4 (show_int y) @ ''-'' @ zfill 2 (show_int m) @ ''-'' @ zfill 2 (show_int dd))"

definition isoformat :: "timestamp \<Rightarrow> string" where
  "isoformat t =
     (let day = t div us_per_day; us = t mod us_per_day;
          secs = us div 1000000; frac = us mod 1000000
      in date_isoformat (day + 1) @ ''T''
         @ zfill 2 (show_int (secs div 3600)) @ '':''
         @ zfill 2 (show_int (secs div 60 mod 60)) @ '':''
         @ zfill 2 (show_int (secs mod 60))
         @ (if frac = 0 then '''' else ''.'' @ zfill 6 (show_int frac))
         @ ''+00:00'')"

text \<open>\<open>datetime + timedelta\<close> raises \<open>OverflowError\<close> outside the years 1 to 9999.\<close>

definition add_timedelta :: "timestamp \<Rightarrow> timedelta \<Rightarrow> timestamp option" where
  "add_timedelta t d = (if 0 \<le> t + d \<and> t + d \<le> max_timestamp then Some (t + d) else None)"

lemma add_timedelta_Some [simp]:
  "add_timedelta t d = Some u \<longleftrightarrow> u = t + d \<and> 0 \<le> u \<and> u \<le> max_timestamp"
  by (auto simp: add_timedelta_def)

end
