(* ===== verification/Domain_Values.thy ===== *)
theory Domain_Values
  imports Py_Sha256 Py_Time
begin

text \<open>
  The value objects of \<^verbatim>\<open>reservation_domain/types.py\<close>: enumerations, money, people, economic
  terms, search queries, lookup evidence and offers.

  A frozen dataclass is a record (its fields carry a short prefix, since Isabelle's field names
  are global) with a constructor \<open>mk_...\<close> that is its \<open>__post_init__\<close>: the checks in the
  source's order, each with its message, and the normalised fields. \<open>wf_...\<close> is the invariant
  the constructor establishes.
\<close>

section \<open>Scalar validators\<close>

definition require_id :: "string \<Rightarrow> string \<Rightarrow> string res" where
  "require_id value field_name =
     (let normalized = strip value
      in if \<not> id_re normalized then Inl (ValueError (field_name @ '' must be an opaque identifier''))
         else Inr normalized)"

definition require_hash :: "string \<Rightarrow> string \<Rightarrow> string res" where
  "require_hash value field_name =
     (let normalized = lower (strip value)
      in if \<not> hash_re normalized
         then Inl (ValueError (field_name @ '' must be a lowercase SHA-256 hex digest''))
         else Inr normalized)"

definition stable_hash :: "json \<Rightarrow> string" where
  "stable_hash payload = sha256_hex (dumps payload)"

section \<open>Enumerations\<close>

datatype service_kind = LODGING | ACTIVITY

datatype lookup_status = POSITIVE | NEGATIVE | UNCERTAIN

datatype confirmation_decision_kind = ACCEPT | REJECT | ADJUST | AMBIGUOUS

datatype execution_certainty = NOT_CALLED | CALLED_NO_EFFECT | EFFECT_CONFIRMED | CALLED_UNKNOWN

datatype transition_status = APPLIED | IGNORED | REJECTED

datatype workflow_phase =
    COLLECTING | SEARCHING | OFFERED | SELECTED | READY_TO_SUMMARIZE | AWAITING_CONFIRMATION
  | AWAITING_ADJUSTMENT | EXECUTION_QUEUED | EXECUTING | SUCCEEDED | FAILED_BEFORE_PROVIDER
  | FAILED_NO_EFFECT | PHASE_UNCERTAIN | MANUAL_REVIEW | CANCELLED | EXPIRED

datatype reservation_operation = RESERVE_LODGING | BOOK_ACTIVITY | RESERVE_PACKAGE

fun service_value :: "service_kind \<Rightarrow> string" where
  "service_value LODGING = ''lodging''"
| "service_value ACTIVITY = ''activity''"

fun lookup_status_value :: "lookup_status \<Rightarrow> string" where
  "lookup_status_value POSITIVE = ''positive''"
| "lookup_status_value NEGATIVE = ''negative''"
| "lookup_status_value UNCERTAIN = ''uncertain''"

fun decision_value :: "confirmation_decision_kind \<Rightarrow> string" where
  "decision_value ACCEPT = ''accept''"
| "decision_value REJECT = ''reject''"
| "decision_value ADJUST = ''adjust''"
| "decision_value AMBIGUOUS = ''ambiguous''"

fun certainty_value :: "execution_certainty \<Rightarrow> string" where
  "certainty_value NOT_CALLED = ''not_called''"
| "certainty_value CALLED_NO_EFFECT = ''called_no_effect''"
| "certainty_value EFFECT_CONFIRMED = ''effect_confirmed''"
| "certainty_value CALLED_UNKNOWN = ''called_unknown''"

fun operation_value :: "reservation_operation \<Rightarrow> string" where
  "operation_value RESERVE_LODGING = ''reserve_lodging''"
| "operation_value BOOK_ACTIVITY = ''book_activity''"
| "operation_value RESERVE_PACKAGE = ''reserve_package''"

section \<open>Money\<close>

text \<open>
  A \<open>Decimal\<close> is a sign, a coefficient and an exponent, an infinity or a NaN. \<open>quantize_cents\<close>
  is \<open>Decimal.quantize(Decimal("0.01"))\<close> in the default context: round half to even, at most 28
  digits, \<open>None\<close> for \<open>InvalidOperation\<close>. The sign survives on zero, as it does in Python.
\<close>

datatype decimal = Finite bool nat int | Infinite bool | Quiet_NaN | Signaling_NaN

definition round_half_even :: "nat \<Rightarrow> nat \<Rightarrow> nat" where
  "round_half_even n d =
     (let q = n div d; r = n mod d
      in if 2 * r < d \<or> (2 * r = d \<and> even q) then q else q + 1)"

fun quantize_cents :: "decimal \<Rightarrow> decimal option" where
  "quantize_cents (Finite s c e) =
     (let c' = (if e \<ge> -2 then c * 10 ^ nat (e + 2) else round_half_even c (10 ^ nat (-2 - e)))
      in if c' < 10 ^ 28 then Some (Finite s c' (-2)) else None)"
| "quantize_cents (Infinite s) = None"
| "quantize_cents Quiet_NaN = Some Quiet_NaN"
| "quantize_cents Signaling_NaN = None"

record money =
  money_negative :: bool
  money_cents :: nat
  money_currency :: string

text \<open>The amount argument is \<open>None\<close> when its text is no decimal at all.\<close>

definition mk_money :: "decimal option \<Rightarrow> string \<Rightarrow> money res" where
  "mk_money amount currency =
     (case Option.bind amount quantize_cents of
        None \<Rightarrow> Inl (ValueError ''amount must be a decimal'')
      | Some normalized \<Rightarrow>
          (case normalized of
             Finite s c e \<Rightarrow>
               if s \<and> 0 < c then Inl (ValueError ''amount must be finite and non-negative'')
               else let cur = upper (strip currency)
                    in if \<not> currency_re cur
                       then Inl (ValueError ''currency must be an ISO-style three-letter code'')
                       else Inr \<lparr>money_negative = s, money_cents = c, money_currency = cur\<rparr>
           | _ \<Rightarrow> Inl (ValueError ''amount must be finite and non-negative'')))"

definition wf_money :: "money \<Rightarrow> bool" where
  "wf_money m \<longleftrightarrow> \<not> (money_negative m \<and> 0 < money_cents m) \<and> money_cents m < 10 ^ 28
     \<and> currency_re (money_currency m)"

text \<open>\<open>format(amount, "f")\<close> of a two-decimal amount.\<close>

definition format_amount :: "money \<Rightarrow> string" where
  "format_amount m =
     (if money_negative m then ''-'' else '''') @ show_nat (money_cents m div 100) @ ''.''
     @ zfill 2 (show_nat (money_cents m mod 100))"

text \<open>Python's \<open>==\<close> on two \<open>Money\<close> values: decimals compare by value, so the sign of zero is ignored.\<close>

definition money_py_eq :: "money \<Rightarrow> money \<Rightarrow> bool" where
  "money_py_eq a b \<longleftrightarrow>
     money_cents a = money_cents b \<and> (money_negative a = money_negative b \<or> money_cents a = 0)
     \<and> money_currency a = money_currency b"

section \<open>People\<close>

record party =
  adults :: int
  children :: int

definition mk_party :: "int \<Rightarrow> int \<Rightarrow> party res" where
  "mk_party a c =
     (if a < 1 then Inl (ValueError ''adults must be an integer >= 1'')
      else if c < 0 then Inl (ValueError ''children must be an integer >= 0'')
      else Inr \<lparr>adults = a, children = c\<rparr>)"

definition wf_party :: "party \<Rightarrow> bool" where
  "wf_party p \<longleftrightarrow> 1 \<le> adults p \<and> 0 \<le> children p"

record passenger_facts =
  pf_position :: int
  pf_participant_type :: string
  pf_full_name :: string
  pf_birth_date :: date
  pf_gender :: string
  pf_country_code :: string

definition mk_passenger_facts ::
  "int \<Rightarrow> string \<Rightarrow> string \<Rightarrow> date \<Rightarrow> string \<Rightarrow> string \<Rightarrow> passenger_facts res" where
  "mk_passenger_facts position participant_type full_name birth_date gender country_code =
     (if position < 1 then Inl (ValueError ''passenger.position must be an integer >= 1'')
      else if participant_type \<notin> {''adult'', ''child''}
      then Inl (ValueError ''passenger.participant_type must be adult or child'')
      else let name = normalize_spaces full_name
           in if name = [] \<or> length name > 200
              then Inl (ValueError ''passenger.full_name must contain 1..200 normalized characters'')
              else if gender \<notin> {''m'', ''f''} then Inl (ValueError ''passenger.gender must be m or f'')
              else let country = upper (strip country_code)
                   in if \<not> country_re country
                      then Inl (ValueError ''passenger.country_code must contain two letters'')
                      else Inr \<lparr>pf_position = position, pf_participant_type = participant_type,
                                pf_full_name = name, pf_birth_date = birth_date,
                                pf_gender = gender, pf_country_code = country\<rparr>)"

definition wf_name :: "string \<Rightarrow> bool" where
  "wf_name n \<longleftrightarrow> n \<noteq> [] \<and> length n \<le> 200 \<and> normalize_spaces n = n"

definition wf_passenger :: "passenger_facts \<Rightarrow> bool" where
  "wf_passenger p \<longleftrightarrow> 1 \<le> pf_position p \<and> pf_participant_type p \<in> {''adult'', ''child''}
     \<and> wf_name (pf_full_name p) \<and> pf_gender p \<in> {''m'', ''f''} \<and> country_re (pf_country_code p)"

record customer_facts =
  cf_customer_ref :: string
  cf_full_name :: string
  cf_email :: string
  cf_phone_e164 :: string
  cf_country_code :: string
  cf_birth_date :: "date option"
  cf_gender :: "string option"
  cf_passengers :: "passenger_facts list"

definition email_ok :: "string \<Rightarrow> bool" where
  "email_ok e \<longleftrightarrow> length e \<le> 254 \<and> count_list e (CHR ''@'') = 1 \<and> list_all (\<lambda>c. \<not> is_space c) e
     \<and> hd e \<noteq> CHR ''@'' \<and> last e \<noteq> CHR ''@''"

definition mk_customer_facts ::
  "string \<Rightarrow> string \<Rightarrow> string \<Rightarrow> string \<Rightarrow> string \<Rightarrow> date option \<Rightarrow> string option
   \<Rightarrow> passenger_facts list \<Rightarrow> customer_facts res" where
  "mk_customer_facts customer_ref full_name email phone_e164 country_code birth_date gender passengers =
     bind_res (require_id customer_ref ''customer_ref'') (\<lambda>ref.
       let name = normalize_spaces full_name
       in if name = [] \<or> length name > 200
          then Inl (ValueError ''full_name must contain 1..200 normalized characters'')
          else let mail = lower (strip email)
          in if \<not> email_ok mail then Inl (ValueError ''email must be a normalized address'')
          else let phone = strip phone_e164
          in if \<not> phone_re phone then Inl (ValueError ''phone_e164 must use E.164 format'')
          else let country = upper (strip country_code)
          in if \<not> country_re country then Inl (ValueError ''country_code must contain two letters'')
          else if gender \<noteq> None \<and> gender \<noteq> Some ''m'' \<and> gender \<noteq> Some ''f''
          then Inl (ValueError ''customer.gender must be m, f or None'')
          else if map pf_position passengers \<noteq> [1..int (length passengers)]
          then Inl (ValueError ''customer.passengers positions must be contiguous from 1'')
          else Inr \<lparr>cf_customer_ref = ref, cf_full_name = name, cf_email = mail,
                    cf_phone_e164 = phone, cf_country_code = country, cf_birth_date = birth_date,
                    cf_gender = gender, cf_passengers = passengers\<rparr>)"

definition wf_customer :: "customer_facts \<Rightarrow> bool" where
  "wf_customer c \<longleftrightarrow> id_re (cf_customer_ref c) \<and> wf_name (cf_full_name c)
     \<and> email_ok (cf_email c) \<and> lower (cf_email c) = cf_email c \<and> phone_re (cf_phone_e164 c)
     \<and> country_re (cf_country_code c) \<and> cf_gender c \<in> {None, Some ''m'', Some ''f''}
     \<and> list_all wf_passenger (cf_passengers c)
     \<and> map pf_position (cf_passengers c) = [1..int (length (cf_passengers c))]"

definition effective_passengers :: "customer_facts \<Rightarrow> party \<Rightarrow> passenger_facts list res" where
  "effective_passengers customer party =
     (let ps = cf_passengers customer
      in if ps \<noteq> []
         then let n_adults = int (length (filter (\<lambda>p. pf_participant_type p = ''adult'') ps));
                  n_children = int (length (filter (\<lambda>p. pf_participant_type p = ''child'') ps))
              in if int (length ps) \<noteq> adults party + children party
                    \<or> n_adults \<noteq> adults party \<or> n_children \<noteq> children party
                 then Inl (ValueError ''passenger manifest does not match party'')
                 else Inr ps
         else if party \<noteq> \<lparr>adults = 1, children = 0\<rparr>
         then Inl (ValueError ''group booking requires an explicit passenger manifest'')
         else (case (cf_birth_date customer, cf_gender customer) of
                 (Some birth, Some g) \<Rightarrow>
                   bind_res (mk_passenger_facts 1 ''adult'' (cf_full_name customer) birth g
                               (cf_country_code customer))
                     (\<lambda>p. Inr [p])
               | _ \<Rightarrow> Inl (ValueError ''single passenger profile requires birth_date and gender'')))"

section \<open>Economic terms\<close>

record add_on =
  ao_code :: string
  ao_quantity :: int
  ao_unit_price :: money

definition mk_add_on :: "string \<Rightarrow> int \<Rightarrow> money \<Rightarrow> add_on res" where
  "mk_add_on code quantity unit_price =
     bind_res (require_id code ''add_on.code'') (\<lambda>c.
       if quantity < 1 then Inl (ValueError ''add_on.quantity must be an integer >= 1'')
       else Inr \<lparr>ao_code = c, ao_quantity = quantity, ao_unit_price = unit_price\<rparr>)"

definition add_on_total :: "add_on \<Rightarrow> money res" where
  "add_on_total a =
     mk_money (Some (Finite (money_negative (ao_unit_price a))
                       (money_cents (ao_unit_price a) * nat (ao_quantity a)) (-2)))
       (money_currency (ao_unit_price a))"

definition wf_add_on :: "add_on \<Rightarrow> bool" where
  "wf_add_on a \<longleftrightarrow> id_re (ao_code a) \<and> 1 \<le> ao_quantity a \<and> wf_money (ao_unit_price a)"

record economic_terms =
  et_payment_method :: string
  et_add_ons :: "add_on list"

definition add_on_key :: "add_on \<Rightarrow> string \<times> int" where
  "add_on_key a = (ao_code a, ao_quantity a)"

definition add_on_currencies :: "economic_terms \<Rightarrow> string set" where
  "add_on_currencies t = set (map (\<lambda>a. money_currency (ao_unit_price a)) (et_add_ons t))"

definition mk_economic_terms :: "string \<Rightarrow> add_on list \<Rightarrow> economic_terms res" where
  "mk_economic_terms payment_method add_ons =
     (let payment = lower (strip payment_method)
      in if \<not> id_re payment then Inl (ValueError ''payment_method must be a canonical identifier'')
         else let ordered = sort_key add_on_key add_ons
         in if \<not> distinct (map ao_code ordered) then Inl (ValueError ''add_on codes must be unique'')
         else if card (set (map (\<lambda>a. money_currency (ao_unit_price a)) ordered)) > 1
         then Inl (ValueError ''all add_ons must use one currency'')
         else Inr \<lparr>et_payment_method = payment, et_add_ons = ordered\<rparr>)"

definition wf_terms :: "economic_terms \<Rightarrow> bool" where
  "wf_terms t \<longleftrightarrow> id_re (et_payment_method t) \<and> lower (et_payment_method t) = et_payment_method t
     \<and> list_all wf_add_on (et_add_ons t) \<and> sort_key add_on_key (et_add_ons t) = et_add_ons t
     \<and> distinct (map ao_code (et_add_ons t)) \<and> card (add_on_currencies t) \<le> 1"

section \<open>Search, evidence and offers\<close>

definition period_error :: "service_kind \<Rightarrow> date \<Rightarrow> date option \<Rightarrow> string \<Rightarrow> string option" where
  "period_error service start_date end_date lodging_message =
     (case service of
        LODGING \<Rightarrow>
          (case end_date of None \<Rightarrow> Some lodging_message
           | Some e \<Rightarrow> if e \<le> start_date then Some lodging_message else None)
      | ACTIVITY \<Rightarrow>
          (case end_date of None \<Rightarrow> None
           | Some e \<Rightarrow> if e < start_date then Some ''end_date cannot precede start_date'' else None))"

definition normal_start_time :: "string option \<Rightarrow> string option res" where
  "normal_start_time t =
     (case t of None \<Rightarrow> Inr None
      | Some v \<Rightarrow>
          let normalized = strip v
          in if \<not> time_re normalized then Inl (ValueError ''start_time must use HH:MM'')
             else Inr (Some normalized))"

definition wf_period :: "service_kind \<Rightarrow> date \<Rightarrow> date option \<Rightarrow> bool" where
  "wf_period service s e \<longleftrightarrow> period_error service s e [] = None"

definition wf_start_time :: "string option \<Rightarrow> bool" where
  "wf_start_time t \<longleftrightarrow> (case t of None \<Rightarrow> True | Some v \<Rightarrow> time_re v)"

record search_query =
  sq_service :: service_kind
  sq_start_date :: date
  sq_end_date :: "date option"
  sq_start_time :: "string option"
  sq_party :: party

definition mk_search_query ::
  "service_kind \<Rightarrow> date \<Rightarrow> date option \<Rightarrow> string option \<Rightarrow> party \<Rightarrow> search_query res" where
  "mk_search_query service start_date end_date start_time party =
     (case period_error service start_date end_date
             ''lodging query requires end_date after start_date'' of
        Some msg \<Rightarrow> Inl (ValueError msg)
      | None \<Rightarrow>
          bind_res (normal_start_time start_time) (\<lambda>st.
            Inr \<lparr>sq_service = service, sq_start_date = start_date, sq_end_date = end_date,
                 sq_start_time = st, sq_party = party\<rparr>))"

definition party_json :: "party \<Rightarrow> json" where
  "party_json p = JObj [(''adults'', JInt (adults p)), (''children'', JInt (children p))]"

definition query_signature :: "search_query \<Rightarrow> string" where
  "query_signature q =
     stable_hash (JObj
       [(''service'', JStr (service_value (sq_service q))),
        (''start_date'', JStr (date_isoformat (sq_start_date q))),
        (''end_date'', json_opt (\<lambda>d. JStr (date_isoformat d)) (sq_end_date q)),
        (''start_time'', json_opt JStr (sq_start_time q)),
        (''party'', party_json (sq_party q))])"

definition wf_query :: "search_query \<Rightarrow> bool" where
  "wf_query q \<longleftrightarrow> wf_period (sq_service q) (sq_start_date q) (sq_end_date q)
     \<and> wf_start_time (sq_start_time q) \<and> wf_party (sq_party q)"

record lookup_evidence =
  le_lookup_id :: string
  le_service :: service_kind
  le_query_signature :: string
  le_observed_at :: timestamp
  le_expires_at :: timestamp
  le_snapshot_hash :: string
  le_status :: lookup_status

definition mk_lookup_evidence ::
  "string \<Rightarrow> service_kind \<Rightarrow> string \<Rightarrow> timestamp \<Rightarrow> timestamp \<Rightarrow> string \<Rightarrow> lookup_status
   \<Rightarrow> lookup_evidence res" where
  "mk_lookup_evidence lookup_id service query_sig observed_at expires_at snapshot_hash status =
     bind_res (require_id lookup_id ''lookup_id'') (\<lambda>lid.
     bind_res (require_hash query_sig ''query_signature'') (\<lambda>qsig.
     bind_res (require_hash snapshot_hash ''snapshot_hash'') (\<lambda>snap.
       if expires_at \<le> observed_at then Inl (ValueError ''expires_at must be after observed_at'')
       else Inr \<lparr>le_lookup_id = lid, le_service = service, le_query_signature = qsig,
                 le_observed_at = observed_at, le_expires_at = expires_at,
                 le_snapshot_hash = snap, le_status = status\<rparr>)))"

definition is_fresh :: "lookup_evidence \<Rightarrow> timestamp \<Rightarrow> bool" where
  "is_fresh e instant \<longleftrightarrow> le_observed_at e \<le> instant \<and> instant < le_expires_at e"

definition wf_evidence :: "lookup_evidence \<Rightarrow> bool" where
  "wf_evidence e \<longleftrightarrow> id_re (le_lookup_id e) \<and> hash_re (le_query_signature e)
     \<and> hash_re (le_snapshot_hash e) \<and> le_observed_at e < le_expires_at e"

record offer_snapshot =
  of_offer_id :: string
  of_lookup_id :: string
  of_service :: service_kind
  of_provider_ref :: string
  of_public_label :: string
  of_start_date :: date
  of_end_date :: "date option"
  of_start_time :: "string option"
  of_party :: party
  of_total :: money
  of_available :: bool

definition mk_offer_snapshot ::
  "string \<Rightarrow> string \<Rightarrow> service_kind \<Rightarrow> string \<Rightarrow> string \<Rightarrow> date \<Rightarrow> date option \<Rightarrow> string option
   \<Rightarrow> party \<Rightarrow> money \<Rightarrow> bool \<Rightarrow> offer_snapshot res" where
  "mk_offer_snapshot offer_id lookup_id service provider_ref public_label start_date end_date
     start_time party total_price available =
     bind_res (require_id offer_id ''offer_id'') (\<lambda>oid.
     bind_res (require_id lookup_id ''lookup_id'') (\<lambda>lid.
     bind_res (require_id provider_ref ''provider_ref'') (\<lambda>pref.
       let label = strip public_label
       in if label = [] then Inl (ValueError ''public_label is required for presentation'')
          else (case period_error service start_date end_date
                       ''lodging offer requires an end_date after start_date'' of
                  Some msg \<Rightarrow> Inl (ValueError msg)
                | None \<Rightarrow>
                    bind_res (normal_start_time start_time) (\<lambda>st.
                      Inr \<lparr>of_offer_id = oid, of_lookup_id = lid, of_service = service,
                           of_provider_ref = pref, of_public_label = label,
                           of_start_date = start_date, of_end_date = end_date,
                           of_start_time = st, of_party = party, of_total = total_price,
                           of_available = available\<rparr>)))))"

definition wf_offer :: "offer_snapshot \<Rightarrow> bool" where
  "wf_offer f \<longleftrightarrow> id_re (of_offer_id f) \<and> id_re (of_lookup_id f) \<and> id_re (of_provider_ref f)
     \<and> of_public_label f \<noteq> [] \<and> strip (of_public_label f) = of_public_label f
     \<and> wf_period (of_service f) (of_start_date f) (of_end_date f)
     \<and> wf_start_time (of_start_time f) \<and> wf_party (of_party f) \<and> wf_money (of_total f)"

section \<open>Every constructor establishes its invariant\<close>

lemma require_id_Inr: "require_id v f = Inr x \<longleftrightarrow> x = strip v \<and> id_re x"
  by (auto simp: require_id_def Let_def)

lemma require_hash_Inr: "require_hash v f = Inr x \<longleftrightarrow> x = lower (strip v) \<and> hash_re x"
  by (auto simp: require_hash_def Let_def)

lemma require_id_fixed [simp]: "id_re v \<Longrightarrow> require_id v f = Inr v"
  by (simp add: require_id_Inr)

lemma require_hash_fixed [simp]: "hash_re v \<Longrightarrow> require_hash v f = Inr v"
  by (simp add: require_hash_Inr hash_re_normal)

lemma quantize_cents_Some: "quantize_cents d = Some (Finite s c e) \<Longrightarrow> c < 10 ^ 28"
  by (cases d) (auto simp: Let_def split: if_splits)

lemma mk_money_wf: "mk_money a cur = Inr m \<Longrightarrow> wf_money m"
  by (cases a)
     (auto simp: mk_money_def wf_money_def Let_def split: option.splits decimal.splits if_splits
        dest: quantize_cents_Some)

lemma mk_party_wf: "mk_party a c = Inr p \<Longrightarrow> wf_party p"
  by (auto simp: mk_party_def wf_party_def split: if_splits)

lemma mk_passenger_wf: "mk_passenger_facts p t n b g c = Inr x \<Longrightarrow> wf_passenger x"
  by (auto simp: mk_passenger_facts_def wf_passenger_def wf_name_def Let_def split: if_splits)

lemma mk_customer_wf:
  "list_all wf_passenger ps \<Longrightarrow> mk_customer_facts r n e ph c b g ps = Inr x \<Longrightarrow> wf_customer x"
  by (auto simp: mk_customer_facts_def wf_customer_def wf_name_def Let_def res_simps require_id_Inr)

lemma mk_add_on_wf: "wf_money m \<Longrightarrow> mk_add_on c q m = Inr a \<Longrightarrow> wf_add_on a"
  by (auto simp: mk_add_on_def wf_add_on_def res_simps require_id_Inr)

lemma mk_terms_wf: "list_all wf_add_on as \<Longrightarrow> mk_economic_terms p as = Inr t \<Longrightarrow> wf_terms t"
  by (auto simp: mk_economic_terms_def wf_terms_def Let_def res_simps list_all_iff
      add_on_currencies_def)

lemma normal_start_time_wf: "normal_start_time t = Inr u \<Longrightarrow> wf_start_time u"
  by (auto simp: normal_start_time_def wf_start_time_def Let_def split: option.splits if_splits)

lemma period_error_None: "period_error k s e m = None \<longleftrightarrow> wf_period k s e"
  by (auto simp: period_error_def wf_period_def split: service_kind.splits option.splits if_splits)

lemma mk_query_wf: "wf_party p \<Longrightarrow> mk_search_query k s e t p = Inr q \<Longrightarrow> wf_query q"
  by (auto simp: mk_search_query_def wf_query_def res_simps period_error_None
      split: option.splits dest: normal_start_time_wf)

lemma mk_evidence_wf: "mk_lookup_evidence l k q oa ea sh st = Inr e \<Longrightarrow> wf_evidence e"
  by (auto simp: mk_lookup_evidence_def wf_evidence_def res_simps require_id_Inr require_hash_Inr)

lemma mk_offer_wf:
  "wf_party p \<Longrightarrow> wf_money m \<Longrightarrow> mk_offer_snapshot i l k r lab s e t p m av = Inr f \<Longrightarrow> wf_offer f"
  by (auto simp: mk_offer_snapshot_def wf_offer_def res_simps require_id_Inr Let_def
      period_error_None split: option.splits dest: normal_start_time_wf)

lemma query_signature_hash [simp]: "hash_re (query_signature q)"
  by (simp add: query_signature_def stable_hash_def)

text \<open>The constructors of the pure facts are total on wf values, and rebuild them unchanged.\<close>

lemma mk_passenger_fixed:
  "wf_passenger p \<Longrightarrow>
     mk_passenger_facts (pf_position p) (pf_participant_type p) (pf_full_name p) (pf_birth_date p)
       (pf_gender p) (pf_country_code p) = Inr p"
  by (auto simp: mk_passenger_facts_def wf_passenger_def wf_name_def country_re_def Let_def
      upper_strip_fixed)

lemma mk_offer_fixed:
  "wf_offer f \<Longrightarrow>
     mk_offer_snapshot (of_offer_id f) (of_lookup_id f) (of_service f) (of_provider_ref f)
       (of_public_label f) (of_start_date f) (of_end_date f) (of_start_time f) (of_party f)
       (of_total f) (of_available f) = Inr f"
  by (auto simp: mk_offer_snapshot_def wf_offer_def Let_def normal_start_time_def wf_start_time_def
      period_error_None [THEN iffD2] split: option.splits)

end
