(* ===== verification/Domain_Signature.thy ===== *)
theory Domain_Signature
  imports Domain_Values "HOL-Library.Multiset"
begin

text \<open>
  \<^verbatim>\<open>reservation_domain/signature.py\<close>: the canonical commercial subject and its SHA-256
  signature, the operation of a set of components, the deterministic identity of a command and
  the monotone algebra of execution certainties. The split of a package command is in
  \<open>Domain_Package\<close>, after the command type.
\<close>

section \<open>The canonical subject\<close>

definition money_payload :: "money \<Rightarrow> json" where
  "money_payload m = JObj [(''amount'', JStr (format_amount m)), (''currency'', JStr (money_currency m))]"

definition offer_payload :: "offer_snapshot \<Rightarrow> json" where
  "offer_payload f = JObj
     [(''offer_id'', JStr (of_offer_id f)),
      (''service'', JStr (service_value (of_service f))),
      (''provider_ref'', JStr (of_provider_ref f)),
      (''start_date'', JStr (date_isoformat (of_start_date f))),
      (''end_date'', json_opt (\<lambda>d. JStr (date_isoformat d)) (of_end_date f)),
      (''start_time'', json_opt JStr (of_start_time f)),
      (''party'', party_json (of_party f)),
      (''total'', money_payload (of_total f)),
      (''available'', JBool (of_available f))]"

definition terms_payload :: "economic_terms \<Rightarrow> json" where
  "terms_payload t = JObj
     [(''payment_method'', JStr (et_payment_method t)),
      (''add_ons'', JArr (map (\<lambda>a. JObj
          [(''code'', JStr (ao_code a)),
           (''quantity'', JInt (ao_quantity a)),
           (''unit_price'', money_payload (ao_unit_price a))])
        (sort_key add_on_key (et_add_ons t))))]"

definition customer_payload :: "customer_facts \<Rightarrow> json" where
  "customer_payload c = JObj (
     [(''customer_ref'', JStr (cf_customer_ref c)),
      (''full_name'', JStr (cf_full_name c)),
      (''email'', JStr (cf_email c)),
      (''phone_e164'', JStr (cf_phone_e164 c)),
      (''country_code'', JStr (cf_country_code c))]
     @ (case cf_birth_date c of None \<Rightarrow> [] | Some d \<Rightarrow> [(''birth_date'', JStr (date_isoformat d))])
     @ (case cf_gender c of None \<Rightarrow> [] | Some g \<Rightarrow> [(''gender'', JStr g)])
     @ (if cf_passengers c = [] then []
        else [(''passengers'', JArr (map (\<lambda>p. JObj
          [(''position'', JInt (pf_position p)),
           (''participant_type'', JStr (pf_participant_type p)),
           (''full_name'', JStr (pf_full_name p)),
           (''birth_date'', JStr (date_isoformat (pf_birth_date p))),
           (''gender'', JStr (pf_gender p)),
           (''country_code'', JStr (pf_country_code p))]) (cf_passengers c)))]))"

definition canonical_subject ::
  "offer_snapshot list \<Rightarrow> customer_facts \<Rightarrow> economic_terms \<Rightarrow> json res" where
  "canonical_subject components customer terms =
     (let ordered = sort_key of_offer_id components
      in if ordered = [] then Inl (ValueError ''canonical subject requires components'')
         else Inr (JObj
           [(''components'', JArr (map offer_payload ordered)),
            (''customer'', customer_payload customer),
            (''terms'', terms_payload terms)]))"

definition subject_signature ::
  "offer_snapshot list \<Rightarrow> customer_facts \<Rightarrow> economic_terms \<Rightarrow> string res" where
  "subject_signature components customer terms =
     bind_res (canonical_subject components customer terms) (\<lambda>subject. Inr (stable_hash subject))"

section \<open>Operation and command identity\<close>

definition operation_for_components :: "offer_snapshot list \<Rightarrow> reservation_operation res" where
  "operation_for_components components =
     (let services = remdups (map of_service components)
      in if length services > 1 then Inr RESERVE_PACKAGE
         else (case services of
                 [] \<Rightarrow> Inl (ValueError ''operation requires components'')
               | service # _ \<Rightarrow>
                   if service_value service = ''lodging'' then Inr RESERVE_LODGING
                   else Inr BOOK_ACTIVITY))"

definition command_identity ::
  "string \<Rightarrow> string \<Rightarrow> int \<Rightarrow> string \<Rightarrow> reservation_operation \<Rightarrow> string \<times> string" where
  "command_identity workflow_id draft_id draft_version signature operation =
     (let raw = join ''|'' [workflow_id, draft_id, show_int draft_version, signature,
                            operation_value operation];
          digest = sha256_hex raw
      in (''cmd:'' @ take 32 digest, ''idem:'' @ digest))"

section \<open>Aggregation of certainties\<close>

definition combine_execution_outcomes :: "execution_certainty list \<Rightarrow> execution_certainty" where
  "combine_execution_outcomes values =
     (if values = [] then NOT_CALLED
      else if CALLED_UNKNOWN \<in> set values then CALLED_UNKNOWN
      else if EFFECT_CONFIRMED \<in> set values then EFFECT_CONFIRMED
      else if CALLED_NO_EFFECT \<in> set values then CALLED_NO_EFFECT
      else NOT_CALLED)"

text \<open>
  The order of criticality: not called, called without effect, effect confirmed, unknown. The
  aggregate is the maximum of this linear order.
\<close>

fun criticality :: "execution_certainty \<Rightarrow> nat" where
  "criticality NOT_CALLED = 0"
| "criticality CALLED_NO_EFFECT = 1"
| "criticality EFFECT_CONFIRMED = 2"
| "criticality CALLED_UNKNOWN = 3"

lemma criticality_inject: "criticality a = criticality b \<longleftrightarrow> a = b"
  by (cases a; cases b) simp_all

instantiation execution_certainty :: linorder
begin

definition less_eq_execution_certainty :: "execution_certainty \<Rightarrow> execution_certainty \<Rightarrow> bool" where
  "less_eq_execution_certainty a b \<longleftrightarrow> criticality a \<le> criticality b"

definition less_execution_certainty :: "execution_certainty \<Rightarrow> execution_certainty \<Rightarrow> bool" where
  "less_execution_certainty a b \<longleftrightarrow> criticality a < criticality b"

instance
  by standard
     (auto simp: less_eq_execution_certainty_def less_execution_certainty_def criticality_inject)

end

lemma NOT_CALLED_least [simp]: "NOT_CALLED \<le> c"
  by (simp add: less_eq_execution_certainty_def)

lemma certainty_le_iff:
  "a \<le> b \<longleftrightarrow> criticality a \<le> criticality b" for a b :: execution_certainty
  by (simp add: less_eq_execution_certainty_def)

lemma combine_upper: "c \<in> set cs \<Longrightarrow> c \<le> combine_execution_outcomes cs"
  by (cases c) (auto simp: combine_execution_outcomes_def certainty_le_iff)

lemma combine_member: "combine_execution_outcomes cs \<in> insert NOT_CALLED (set cs)"
  by (auto simp: combine_execution_outcomes_def)

lemma combine_eq_Max: "combine_execution_outcomes cs = Max (insert NOT_CALLED (set cs))"
  by (rule Max_eqI [symmetric]) (auto simp: combine_upper combine_member [simplified])

lemma combine_append:
  "combine_execution_outcomes (cs @ ds) =
     max (combine_execution_outcomes cs) (combine_execution_outcomes ds)"
  unfolding combine_eq_Max
  by (subst Max_Un [symmetric]) (auto intro: arg_cong [where f = Max])

section \<open>Facts about signatures and identities\<close>

lemma stable_hash_hash [simp]: "hash_re (stable_hash j)"
  by (simp add: stable_hash_def)

lemma subject_signature_Inr:
  "subject_signature cs c t = Inr s \<Longrightarrow> hash_re s \<and> cs \<noteq> []"
  by (auto simp: subject_signature_def canonical_subject_def Let_def res_simps)

lemma subject_signature_total: "cs \<noteq> [] \<Longrightarrow> \<exists>s. subject_signature cs c t = Inr s"
  by (auto simp: subject_signature_def canonical_subject_def Let_def)

lemma subject_signature_sort [simp]:
  "subject_signature (sort_key of_offer_id cs) c t = subject_signature cs c t"
  by (simp add: subject_signature_def canonical_subject_def)

lemma id_re_prefix:
  "is_alnum p \<Longrightarrow> list_all id_char ps \<Longrightarrow> list_all hex_char ds \<Longrightarrow>
     2 \<le> length ps + length ds \<Longrightarrow> length ps + length ds \<le> 127 \<Longrightarrow> id_re (p # ps @ ds)"
  by (auto simp: list_all_iff dest: hex_char_props)

lemma list_all_take: "list_all p xs \<Longrightarrow> list_all p (take n xs)"
  by (auto simp: list_all_iff dest: in_set_takeD)

lemma prefix_chars [simp]:
  "is_alnum (CHR ''c'')" "id_char (CHR ''m'')" "id_char (CHR ''d'')" "id_char (CHR '':'')"
  "is_alnum (CHR ''i'')" "id_char (CHR ''e'')" "id_char (CHR ''b'')" "id_char (CHR ''o'')"
  "id_char (CHR ''u'')" "id_char (CHR ''t'')" "id_char (CHR ''x'')" "is_alnum (CHR ''o'')"
  by (simp_all add: char_class_defs ordc_def)

lemma command_identity_ids:
  "command_identity w d v s p = (cid, key) \<Longrightarrow> id_re cid \<and> id_re key"
  using id_re_prefix [of "CHR ''c''" "''md:''" "take 32 (sha256_hex r)" for r]
    id_re_prefix [of "CHR ''i''" "''dem:''" "sha256_hex r" for r]
  by (auto simp: command_identity_def Let_def list_all_take sha256_hex_chars simp del: id_re.simps)

lemma operation_total: "cs \<noteq> [] \<Longrightarrow> \<exists>op. operation_for_components cs = Inr op"
  by (auto simp: operation_for_components_def Let_def split: list.splits)

lemma operation_Inr_nonempty: "operation_for_components cs = Inr op \<Longrightarrow> cs \<noteq> []"
  by (auto simp: operation_for_components_def)

text \<open>
  Sorting by a key that is unique among the elements gives the same list for every order of the
  input: the reason why the signature does not depend on the order of components or add-ons.
\<close>

lemma sort_key_permutation:
  assumes "mset xs = mset ys" "inj_on f (set xs)"
  shows "sort_key f xs = sort_key f ys"
proof (rule properties_for_sort_key)
  show "mset (sort_key f ys) = mset xs" using assms(1) by simp
  show "sorted (map f (sort_key f ys))" by simp
  fix k assume "k \<in> set (sort_key f ys)"
  then have "k \<in> set xs" using mset_eq_setD [OF assms(1)] by simp
  with assms have uniq: "\<And>z. z \<in> set xs \<Longrightarrow> f k = f z \<Longrightarrow> k = z"
    by (auto simp: inj_on_def)
  have rep: "filter (\<lambda>x. f k = f x) zs = replicate (count (mset zs) k) k"
    if "set zs = set xs" for zs
  proof -
    have "filter (\<lambda>x. f k = f x) zs = filter (\<lambda>x. k = x) zs"
      using that uniq by (intro filter_cong) auto
    then show ?thesis by (simp add: replicate_count_mset_eq_filter_eq [symmetric])
  qed
  show "filter (\<lambda>x. f k = f x) (sort_key f ys) = filter (\<lambda>x. f k = f x) xs"
    using rep [of "sort_key f ys"] rep [of xs] mset_eq_setD [OF assms(1)]
    by (simp add: assms(1))
qed

end
