(* ===== verification/Domain_Records.thy ===== *)
theory Domain_Records
  imports Domain_Signature
begin

text \<open>
  The composite records of \<^verbatim>\<open>reservation_domain/types.py\<close> (draft, summary, confirmation, command,
  outcome, workflow metadata) with their constructors, and \<open>build_commercial_draft\<close> of
  \<^verbatim>\<open>signature.py\<close>, which builds such a record. Its sibling \<open>split_package_command\<close> is in
  \<open>Domain_Package\<close>.
\<close>

section \<open>Commercial draft\<close>

definition component_currencies :: "offer_snapshot list \<Rightarrow> string set" where
  "component_currencies cs = set (map (\<lambda>c. money_currency (of_total c)) cs)"

definition validate_commercial_components ::
  "offer_snapshot list \<Rightarrow> economic_terms \<Rightarrow> unit res" where
  "validate_commercial_components components terms =
     (if list_ex (\<lambda>c. \<not> of_available c) components
      then Inl (ValueError ''commercial components must be available'')
      else if card (component_currencies components) \<noteq> 1
      then Inl (ValueError ''commercial components must use one currency'')
      else if add_on_currencies terms \<noteq> {} \<and> add_on_currencies terms \<noteq> component_currencies components
      then Inl (ValueError ''add_on currency must match commercial components'')
      else Inr ())"

record commercial_draft =
  dr_draft_id :: string
  dr_version :: int
  dr_created_at :: timestamp
  dr_components :: "offer_snapshot list"
  dr_customer :: customer_facts
  dr_terms :: economic_terms
  dr_subject_signature :: string

definition mk_commercial_draft ::
  "string \<Rightarrow> int \<Rightarrow> timestamp \<Rightarrow> offer_snapshot list \<Rightarrow> customer_facts \<Rightarrow> economic_terms
   \<Rightarrow> string \<Rightarrow> commercial_draft res" where
  "mk_commercial_draft draft_id version created_at components customer terms sig =
     bind_res (require_id draft_id ''draft_id'') (\<lambda>did.
       if version < 1 then Inl (ValueError ''draft.version must be an integer >= 1'')
       else let ordered = sort_key of_offer_id components
       in if ordered = [] then Inl (ValueError ''draft requires at least one component'')
       else if \<not> distinct (map of_offer_id ordered)
       then Inl (ValueError ''draft component offer_ids must be unique'')
       else bind_res (validate_commercial_components ordered terms) (\<lambda>_.
            bind_res (require_hash sig ''subject_signature'') (\<lambda>signature.
            bind_res (subject_signature ordered customer terms) (\<lambda>expected.
              if signature \<noteq> expected
              then Inl (ValueError ''draft subject_signature does not match canonical subject'')
              else Inr \<lparr>dr_draft_id = did, dr_version = version, dr_created_at = created_at,
                        dr_components = ordered, dr_customer = customer, dr_terms = terms,
                        dr_subject_signature = signature\<rparr>))))"

definition build_commercial_draft ::
  "string \<Rightarrow> int \<Rightarrow> timestamp \<Rightarrow> offer_snapshot list \<Rightarrow> customer_facts \<Rightarrow> economic_terms
   \<Rightarrow> commercial_draft res" where
  "build_commercial_draft draft_id version created_at components customer terms =
     bind_res (subject_signature components customer terms) (\<lambda>sig.
       mk_commercial_draft draft_id version created_at components customer terms sig)"

definition wf_components :: "offer_snapshot list \<Rightarrow> economic_terms \<Rightarrow> bool" where
  "wf_components cs t \<longleftrightarrow> cs \<noteq> [] \<and> list_all wf_offer cs \<and> sort_key of_offer_id cs = cs
     \<and> validate_commercial_components cs t = Inr ()"

definition wf_draft :: "commercial_draft \<Rightarrow> bool" where
  "wf_draft d \<longleftrightarrow> id_re (dr_draft_id d) \<and> 1 \<le> dr_version d
     \<and> wf_components (dr_components d) (dr_terms d) \<and> distinct (map of_offer_id (dr_components d))
     \<and> wf_customer (dr_customer d) \<and> wf_terms (dr_terms d)
     \<and> subject_signature (dr_components d) (dr_customer d) (dr_terms d) = Inr (dr_subject_signature d)"

section \<open>Summary and confirmation\<close>

record summary_presented =
  sp_summary_event_id :: string
  sp_draft_id :: string
  sp_draft_version :: int
  sp_subject_signature :: string
  sp_outbox_message_id :: string
  sp_presented_at :: timestamp

definition mk_summary_presented ::
  "string \<Rightarrow> string \<Rightarrow> int \<Rightarrow> string \<Rightarrow> string \<Rightarrow> timestamp \<Rightarrow> summary_presented res" where
  "mk_summary_presented summary_event_id draft_id draft_version sig outbox_message_id presented_at =
     bind_res (require_id summary_event_id ''summary_event_id'') (\<lambda>sid.
     bind_res (require_id draft_id ''draft_id'') (\<lambda>did.
       if draft_version < 1 then Inl (ValueError ''summary draft_version must be >= 1'')
       else bind_res (require_hash sig ''subject_signature'') (\<lambda>s.
            bind_res (require_id outbox_message_id ''outbox_message_id'') (\<lambda>oid.
              Inr \<lparr>sp_summary_event_id = sid, sp_draft_id = did, sp_draft_version = draft_version,
                   sp_subject_signature = s, sp_outbox_message_id = oid,
                   sp_presented_at = presented_at\<rparr>))))"

definition wf_summary :: "summary_presented \<Rightarrow> bool" where
  "wf_summary s \<longleftrightarrow> id_re (sp_summary_event_id s) \<and> id_re (sp_draft_id s) \<and> 1 \<le> sp_draft_version s
     \<and> hash_re (sp_subject_signature s) \<and> id_re (sp_outbox_message_id s)"

record confirmation_record =
  cr_confirmation_event_id :: string
  cr_decision :: confirmation_decision_kind
  cr_target_draft_version :: int
  cr_subject_signature :: string
  cr_decided_at :: timestamp

definition mk_confirmation_record ::
  "string \<Rightarrow> confirmation_decision_kind \<Rightarrow> int \<Rightarrow> string \<Rightarrow> timestamp \<Rightarrow> confirmation_record res" where
  "mk_confirmation_record confirmation_event_id decision target_draft_version sig decided_at =
     bind_res (require_id confirmation_event_id ''confirmation_event_id'') (\<lambda>cid.
       if target_draft_version < 1 then Inl (ValueError ''target_draft_version must be >= 1'')
       else bind_res (require_hash sig ''subject_signature'') (\<lambda>s.
              Inr \<lparr>cr_confirmation_event_id = cid, cr_decision = decision,
                   cr_target_draft_version = target_draft_version, cr_subject_signature = s,
                   cr_decided_at = decided_at\<rparr>))"

definition wf_confirmation :: "confirmation_record \<Rightarrow> bool" where
  "wf_confirmation c \<longleftrightarrow> id_re (cr_confirmation_event_id c) \<and> 1 \<le> cr_target_draft_version c
     \<and> hash_re (cr_subject_signature c)"

section \<open>Execution outcome\<close>

record execution_outcome =
  eo_command_id :: string
  eo_certainty :: execution_certainty
  eo_normalized_status :: string
  eo_provider_reference :: "string option"
  eo_evidence :: "string list"

definition optional_id :: "string option \<Rightarrow> string \<Rightarrow> string option res" where
  "optional_id v field_name =
     (case v of None \<Rightarrow> Inr None | Some x \<Rightarrow> bind_res (require_id x field_name) (\<lambda>y. Inr (Some y)))"

definition mk_execution_outcome ::
  "string \<Rightarrow> execution_certainty \<Rightarrow> string \<Rightarrow> string option \<Rightarrow> string list \<Rightarrow> execution_outcome res" where
  "mk_execution_outcome command_id certainty normalized_status provider_reference evidence =
     bind_res (require_id command_id ''command_id'') (\<lambda>cid.
       let status = lower (strip normalized_status)
       in if \<not> id_re status then Inl (ValueError ''normalized_status must be a canonical identifier'')
       else bind_res (optional_id provider_reference ''provider_reference'') (\<lambda>pref.
            bind_res (map_res (\<lambda>item. require_hash item ''evidence'') evidence) (\<lambda>hashes.
              let normalized_evidence = sort (remdups hashes)
              in if certainty = EFFECT_CONFIRMED \<and> pref = None
              then Inl (ValueError ''effect_confirmed requires provider_reference'')
              else if certainty = EFFECT_CONFIRMED \<and> normalized_evidence = []
              then Inl (ValueError ''effect_confirmed requires evidence'')
              else if certainty = NOT_CALLED \<and> pref \<noteq> None
              then Inl (ValueError ''not_called forbids provider_reference'')
              else Inr \<lparr>eo_command_id = cid, eo_certainty = certainty, eo_normalized_status = status,
                        eo_provider_reference = pref, eo_evidence = normalized_evidence\<rparr>)))"

definition wf_outcome :: "execution_outcome \<Rightarrow> bool" where
  "wf_outcome u \<longleftrightarrow> id_re (eo_command_id u) \<and> id_re (eo_normalized_status u)
     \<and> lower (eo_normalized_status u) = eo_normalized_status u
     \<and> (case eo_provider_reference u of None \<Rightarrow> True | Some r \<Rightarrow> id_re r)
     \<and> list_all hash_re (eo_evidence u) \<and> sort (remdups (eo_evidence u)) = eo_evidence u
     \<and> (eo_certainty u = EFFECT_CONFIRMED \<longrightarrow> eo_provider_reference u \<noteq> None \<and> eo_evidence u \<noteq> [])
     \<and> (eo_certainty u = NOT_CALLED \<longrightarrow> eo_provider_reference u = None)"

section \<open>Reservation command\<close>

record command_payload =
  cp_components :: "offer_snapshot list"
  cp_customer :: customer_facts
  cp_terms :: economic_terms

definition mk_command_payload ::
  "offer_snapshot list \<Rightarrow> customer_facts \<Rightarrow> economic_terms \<Rightarrow> command_payload res" where
  "mk_command_payload components customer terms =
     (let ordered = sort_key of_offer_id components
      in if ordered = [] then Inl (ValueError ''command payload requires components'')
         else bind_res (validate_commercial_components ordered terms) (\<lambda>_.
                Inr \<lparr>cp_components = ordered, cp_customer = customer, cp_terms = terms\<rparr>))"

definition wf_payload :: "command_payload \<Rightarrow> bool" where
  "wf_payload p \<longleftrightarrow> wf_components (cp_components p) (cp_terms p) \<and> wf_customer (cp_customer p)
     \<and> wf_terms (cp_terms p)"

record reservation_command =
  rc_command_id :: string
  rc_idempotency_key :: string
  rc_workflow_id :: string
  rc_draft_id :: string
  rc_draft_version :: int
  rc_subject_signature :: string
  rc_operation :: reservation_operation
  rc_payload :: command_payload
  rc_created_at :: timestamp

definition payload_signature :: "command_payload \<Rightarrow> string res" where
  "payload_signature p = subject_signature (cp_components p) (cp_customer p) (cp_terms p)"

definition mk_reservation_command ::
  "string \<Rightarrow> string \<Rightarrow> string \<Rightarrow> string \<Rightarrow> int \<Rightarrow> string \<Rightarrow> reservation_operation \<Rightarrow> command_payload
   \<Rightarrow> timestamp \<Rightarrow> reservation_command res" where
  "mk_reservation_command command_id idempotency_key workflow_id draft_id draft_version sig
     operation payload created_at =
     bind_res (require_id command_id ''command_id'') (\<lambda>cid.
     bind_res (require_id idempotency_key ''idempotency_key'') (\<lambda>key.
     bind_res (require_id workflow_id ''workflow_id'') (\<lambda>wid.
     bind_res (require_id draft_id ''draft_id'') (\<lambda>did.
       if draft_version < 1 then Inl (ValueError ''command draft_version must be >= 1'')
       else bind_res (require_hash sig ''subject_signature'') (\<lambda>s.
            bind_res (payload_signature payload) (\<lambda>expected_signature.
              if s \<noteq> expected_signature
              then Inl (ValueError ''command signature does not match canonical payload'')
              else bind_res (operation_for_components (cp_components payload)) (\<lambda>expected_operation.
                if operation \<noteq> expected_operation
                then Inl (ValueError ''command operation does not match component services'')
                else if (cid, key) \<noteq> command_identity wid did draft_version s operation
                then Inl (ValueError ''command identity is not deterministic for its subject'')
                else Inr \<lparr>rc_command_id = cid, rc_idempotency_key = key, rc_workflow_id = wid,
                          rc_draft_id = did, rc_draft_version = draft_version,
                          rc_subject_signature = s, rc_operation = operation,
                          rc_payload = payload, rc_created_at = created_at\<rparr>)))))))"

definition wf_command :: "reservation_command \<Rightarrow> bool" where
  "wf_command c \<longleftrightarrow> id_re (rc_workflow_id c) \<and> id_re (rc_draft_id c) \<and> 1 \<le> rc_draft_version c
     \<and> wf_payload (rc_payload c) \<and> payload_signature (rc_payload c) = Inr (rc_subject_signature c)
     \<and> operation_for_components (cp_components (rc_payload c)) = Inr (rc_operation c)
     \<and> command_identity (rc_workflow_id c) (rc_draft_id c) (rc_draft_version c)
         (rc_subject_signature c) (rc_operation c) = (rc_command_id c, rc_idempotency_key c)"

definition command_outcome ::
  "reservation_command \<Rightarrow> execution_certainty \<Rightarrow> string \<Rightarrow> string option \<Rightarrow> string list
   \<Rightarrow> execution_outcome res" where
  "command_outcome c certainty normalized_status provider_reference evidence =
     mk_execution_outcome (rc_command_id c) certainty normalized_status provider_reference evidence"

section \<open>Workflow metadata\<close>

record state_meta =
  sm_workflow_id :: string
  sm_revision :: int
  sm_last_event_at :: timestamp
  sm_seen_event_ids :: "string list"
  sm_seen_event_hashes :: "string list"
  sm_command_ids :: "string list"

definition mk_state_meta ::
  "string \<Rightarrow> int \<Rightarrow> timestamp \<Rightarrow> string list \<Rightarrow> string list \<Rightarrow> string list \<Rightarrow> state_meta res" where
  "mk_state_meta workflow_id revision last_event_at seen_ids seen_hashes command_ids =
     bind_res (require_id workflow_id ''workflow_id'') (\<lambda>wid.
       if revision < 0 then Inl (ValueError ''revision must be >= 0'')
       else if \<not> distinct seen_ids then Inl (ValueError ''seen_event_ids must be unique'')
       else if revision \<noteq> int (length seen_ids)
       then Inl (ValueError ''revision must equal the number of processed event IDs'')
       else if length seen_hashes \<noteq> length seen_ids
       then Inl (ValueError ''every processed event ID must have a payload hash'')
       else if \<not> distinct command_ids then Inl (ValueError ''command_ids must be unique'')
       else if length command_ids > 1
       then Inl (ValueError ''a workflow may contain at most one command ID'')
       else bind_res (map_res (\<lambda>v. require_id v ''seen_event_id'') seen_ids) (\<lambda>_.
            bind_res (map_res (\<lambda>v. require_hash v ''seen_event_hash'') seen_hashes) (\<lambda>_.
            bind_res (map_res (\<lambda>v. require_id v ''command_id'') command_ids) (\<lambda>_.
              Inr \<lparr>sm_workflow_id = wid, sm_revision = revision, sm_last_event_at = last_event_at,
                   sm_seen_event_ids = seen_ids, sm_seen_event_hashes = seen_hashes,
                   sm_command_ids = command_ids\<rparr>))))"

definition wf_meta :: "state_meta \<Rightarrow> bool" where
  "wf_meta m \<longleftrightarrow> id_re (sm_workflow_id m) \<and> distinct (sm_seen_event_ids m)
     \<and> sm_revision m = int (length (sm_seen_event_ids m))
     \<and> length (sm_seen_event_hashes m) = length (sm_seen_event_ids m)
     \<and> length (sm_command_ids m) \<le> 1 \<and> list_all id_re (sm_seen_event_ids m)
     \<and> list_all hash_re (sm_seen_event_hashes m) \<and> list_all id_re (sm_command_ids m)"

section \<open>Constructors succeed on wf parts and establish the invariant\<close>

lemma wf_draft_hash: "wf_draft d \<Longrightarrow> hash_re (dr_subject_signature d)"
  by (auto simp: wf_draft_def dest: subject_signature_Inr)

lemma wf_command_hash: "wf_command c \<Longrightarrow> hash_re (rc_subject_signature c)"
  by (auto simp: wf_command_def payload_signature_def dest: subject_signature_Inr)

lemma wf_command_ids: "wf_command c \<Longrightarrow> id_re (rc_command_id c) \<and> id_re (rc_idempotency_key c)"
  by (auto simp: wf_command_def dest: command_identity_ids)

lemma component_currencies_sort [simp]:
  "component_currencies (sort_key f cs) = component_currencies cs"
  by (simp add: component_currencies_def)

lemma list_ex_sort [simp]: "list_ex p (sort_key f xs) = list_ex p xs"
  by (simp add: list_ex_iff)

lemma list_all_sort [simp]: "list_all p (sort_key f xs) = list_all p xs"
  by (simp add: list_all_iff)

lemma validate_components_sort [simp]:
  "validate_commercial_components (sort_key f cs) t = validate_commercial_components cs t"
  by (simp add: validate_commercial_components_def)

lemma build_draft_wf:
  assumes "build_commercial_draft did v t cs c e = Inr d"
    and "list_all wf_offer cs" "wf_customer c" "wf_terms e"
  shows "wf_draft d \<and> dr_draft_id d = strip did \<and> dr_version d = v \<and> dr_created_at d = t
    \<and> dr_components d = sort_key of_offer_id cs \<and> dr_customer d = c \<and> dr_terms d = e"
  using assms
  by (auto simp: build_commercial_draft_def mk_commercial_draft_def wf_draft_def wf_components_def
      Let_def res_simps require_id_Inr require_hash_Inr)

lemma build_draft_total:
  assumes "id_re did" "1 \<le> v" "cs \<noteq> []" "distinct (map of_offer_id cs)"
    and "validate_commercial_components cs e = Inr ()"
  shows "\<exists>d. build_commercial_draft did v t cs c e = Inr d"
proof -
  obtain s where s: "subject_signature cs c e = Inr s"
    using subject_signature_total [OF assms(3)] by blast
  then have "hash_re s" by (auto dest: subject_signature_Inr)
  with s assms show ?thesis
    by (simp add: build_commercial_draft_def mk_commercial_draft_def Let_def)
qed

lemma mk_summary_total:
  assumes "id_re i" "id_re d" "1 \<le> v" "hash_re s" "id_re m"
  shows "mk_summary_presented i d v s m t =
     Inr \<lparr>sp_summary_event_id = i, sp_draft_id = d, sp_draft_version = v, sp_subject_signature = s,
          sp_outbox_message_id = m, sp_presented_at = t\<rparr>"
  using assms by (simp add: mk_summary_presented_def)

lemma mk_confirmation_total:
  assumes "id_re i" "1 \<le> v" "hash_re s"
  shows "mk_confirmation_record i k v s t =
     Inr \<lparr>cr_confirmation_event_id = i, cr_decision = k, cr_target_draft_version = v,
          cr_subject_signature = s, cr_decided_at = t\<rparr>"
  using assms by (simp add: mk_confirmation_record_def)

lemma map_res_require_hash: "map_res (\<lambda>v. require_hash v f) xs = Inr ys \<Longrightarrow> list_all hash_re ys"
  by (auto simp: list_all_iff require_hash_Inr dest: map_res_Inr_set)

lemma map_res_hash_fixed: "list_all hash_re xs \<Longrightarrow> map_res (\<lambda>v. require_hash v f) xs = Inr xs"
  by (rule map_res_id) (simp add: list_all_iff)

lemma map_res_ids_fixed: "list_all id_re xs \<Longrightarrow> map_res (\<lambda>v. require_id v f) xs = Inr xs"
  by (rule map_res_id) (simp add: list_all_iff)

lemma mk_outcome_wf: "mk_execution_outcome c k s r e = Inr u \<Longrightarrow> wf_outcome u"
  by (auto simp: mk_execution_outcome_def wf_outcome_def optional_id_def Let_def res_simps
      require_id_Inr list_all_iff remdups_id_iff_distinct sort_key_id_if_sorted
      split: option.splits dest!: map_res_require_hash)

lemma mk_meta_fixed:
  assumes "wf_meta m"
  shows "mk_state_meta (sm_workflow_id m) (sm_revision m) t (sm_seen_event_ids m)
     (sm_seen_event_hashes m) (sm_command_ids m) = Inr (m\<lparr>sm_last_event_at := t\<rparr>)"
proof -
  have "distinct (sm_command_ids m)"
    using assms by (cases "sm_command_ids m") (auto simp: wf_meta_def)
  with assms show ?thesis
    by (simp add: wf_meta_def mk_state_meta_def map_res_ids_fixed map_res_hash_fixed)
qed

lemma mk_meta_wf: "mk_state_meta w r t i h c = Inr m \<Longrightarrow> (\<forall>x\<in>set i. id_re x) \<Longrightarrow>
    (\<forall>x\<in>set h. hash_re x) \<Longrightarrow> (\<forall>x\<in>set c. id_re x) \<Longrightarrow> wf_meta m"
  by (auto simp: mk_state_meta_def wf_meta_def res_simps require_id_Inr list_all_iff)

end
