(* ===== verification/Domain_States.thy ===== *)
theory Domain_States
  imports Domain_Records
begin

text \<open>
  The sixteen workflow states and twelve events of \<^verbatim>\<open>reservation_domain/types.py\<close>. A state class
  is a constructor of \<open>state\<close>, with its \<open>meta\<close> first and its other fields in the source's order;
  \<open>mk_..._state\<close> is the class's \<open>__post_init__\<close>, and \<open>rebuild_state\<close> runs the one that fits, which
  is what \<open>dataclasses.replace\<close> does. \<open>wf_state\<close> is the invariant of reachable states.
\<close>

section \<open>States\<close>

datatype state =
    CollectingState (st_meta: state_meta)
  | SearchingState (st_meta: state_meta) search_query
  | OfferedState (st_meta: state_meta) search_query lookup_evidence "offer_snapshot list"
  | SelectedState (st_meta: state_meta) search_query lookup_evidence offer_snapshot
  | ReadyToSummarizeState (st_meta: state_meta) commercial_draft
  | AwaitingConfirmationState (st_meta: state_meta) commercial_draft summary_presented
  | AwaitingAdjustmentState (st_meta: state_meta) commercial_draft summary_presented confirmation_record
  | ExecutionQueuedState (st_meta: state_meta) commercial_draft summary_presented confirmation_record
      reservation_command
  | ExecutingState (st_meta: state_meta) commercial_draft summary_presented confirmation_record
      reservation_command int
  | SucceededState (st_meta: state_meta) reservation_command execution_outcome
  | FailedBeforeProviderState (st_meta: state_meta) reservation_command execution_outcome
  | FailedNoEffectState (st_meta: state_meta) reservation_command execution_outcome
  | UncertainState (st_meta: state_meta) reservation_command execution_outcome
  | ManualReviewState (st_meta: state_meta) reservation_command execution_outcome string
  | CancelledState (st_meta: state_meta) workflow_phase string
  | ExpiredState (st_meta: state_meta) workflow_phase string

fun phase :: "state \<Rightarrow> workflow_phase" where
  "phase (CollectingState _) = COLLECTING"
| "phase (SearchingState _ _) = SEARCHING"
| "phase (OfferedState _ _ _ _) = OFFERED"
| "phase (SelectedState _ _ _ _) = SELECTED"
| "phase (ReadyToSummarizeState _ _) = READY_TO_SUMMARIZE"
| "phase (AwaitingConfirmationState _ _ _) = AWAITING_CONFIRMATION"
| "phase (AwaitingAdjustmentState _ _ _ _) = AWAITING_ADJUSTMENT"
| "phase (ExecutionQueuedState _ _ _ _ _) = EXECUTION_QUEUED"
| "phase (ExecutingState _ _ _ _ _ _) = EXECUTING"
| "phase (SucceededState _ _ _) = SUCCEEDED"
| "phase (FailedBeforeProviderState _ _ _) = FAILED_BEFORE_PROVIDER"
| "phase (FailedNoEffectState _ _ _) = FAILED_NO_EFFECT"
| "phase (UncertainState _ _ _) = PHASE_UNCERTAIN"
| "phase (ManualReviewState _ _ _ _) = MANUAL_REVIEW"
| "phase (CancelledState _ _ _) = CANCELLED"
| "phase (ExpiredState _ _ _) = EXPIRED"

text \<open>\<open>getattr(state, "command", None)\<close>: the command of the seven command-bearing states.\<close>

fun state_command :: "state \<Rightarrow> reservation_command option" where
  "state_command (ExecutionQueuedState _ _ _ _ c) = Some c"
| "state_command (ExecutingState _ _ _ _ c _) = Some c"
| "state_command (SucceededState _ c _) = Some c"
| "state_command (FailedBeforeProviderState _ c _) = Some c"
| "state_command (FailedNoEffectState _ c _) = Some c"
| "state_command (UncertainState _ c _) = Some c"
| "state_command (ManualReviewState _ c _ _) = Some c"
| "state_command _ = None"

section \<open>Bindings between the parts of a state\<close>

definition offer_matches_query :: "offer_snapshot \<Rightarrow> search_query \<Rightarrow> bool" where
  "offer_matches_query f q \<longleftrightarrow>
     (let dates_match =
            (if sq_service q = ACTIVITY
             then of_end_date f = None \<and> of_start_date f \<ge> sq_start_date q
                  \<and> (case sq_end_date q of None \<Rightarrow> True | Some e \<Rightarrow> of_start_date f \<le> e)
             else of_start_date f = sq_start_date q \<and> of_end_date f = sq_end_date q)
      in of_service f = sq_service q \<and> dates_match
         \<and> (sq_start_time q = None \<or> of_start_time f = sq_start_time q)
         \<and> of_party f = sq_party q)"

definition validate_offer_evidence ::
  "search_query \<Rightarrow> lookup_evidence \<Rightarrow> offer_snapshot list \<Rightarrow> unit res" where
  "validate_offer_evidence query evidence offers =
     (if le_status evidence \<noteq> POSITIVE \<or> le_service evidence \<noteq> sq_service query
         \<or> le_query_signature evidence \<noteq> query_signature query
      then Inl (ValueError ''offer state evidence does not match its query'')
      else if list_ex (\<lambda>f. \<not> of_available f \<or> of_lookup_id f \<noteq> le_lookup_id evidence
             \<or> of_service f \<noteq> le_service evidence \<or> \<not> offer_matches_query f query) offers
      then Inl (ValueError ''offer state contains an offer outside its evidence/query'')
      else Inr ())"

definition validate_summary_binding :: "commercial_draft \<Rightarrow> summary_presented \<Rightarrow> unit res" where
  "validate_summary_binding draft summary =
     (if sp_draft_id summary \<noteq> dr_draft_id draft \<or> sp_draft_version summary \<noteq> dr_version draft
         \<or> sp_subject_signature summary \<noteq> dr_subject_signature draft
         \<or> sp_presented_at summary < dr_created_at draft
      then Inl (ValueError ''summary does not bind to the current commercial draft'')
      else Inr ())"

text \<open>Python's \<open>==\<close> on offers and terms, which compares amounts by value.\<close>

definition offer_py_eq :: "offer_snapshot \<Rightarrow> offer_snapshot \<Rightarrow> bool" where
  "offer_py_eq a b \<longleftrightarrow> money_py_eq (of_total a) (of_total b) \<and> a\<lparr>of_total := of_total b\<rparr> = b"

definition add_on_py_eq :: "add_on \<Rightarrow> add_on \<Rightarrow> bool" where
  "add_on_py_eq a b \<longleftrightarrow>
     money_py_eq (ao_unit_price a) (ao_unit_price b) \<and> a\<lparr>ao_unit_price := ao_unit_price b\<rparr> = b"

definition terms_py_eq :: "economic_terms \<Rightarrow> economic_terms \<Rightarrow> bool" where
  "terms_py_eq a b \<longleftrightarrow> et_payment_method a = et_payment_method b
     \<and> list_all2 add_on_py_eq (et_add_ons a) (et_add_ons b)"

definition validate_authorization_binding ::
  "commercial_draft \<Rightarrow> summary_presented \<Rightarrow> confirmation_record \<Rightarrow> reservation_command \<Rightarrow> unit res" where
  "validate_authorization_binding draft summary confirmation command =
     bind_res (validate_summary_binding draft summary) (\<lambda>_.
       if cr_decision confirmation \<noteq> ACCEPT
          \<or> cr_target_draft_version confirmation \<noteq> dr_version draft
          \<or> cr_subject_signature confirmation \<noteq> dr_subject_signature draft
          \<or> cr_decided_at confirmation \<le> sp_presented_at summary
       then Inl (ValueError ''confirmation does not authorize the presented draft'')
       else if rc_draft_id command \<noteq> dr_draft_id draft
          \<or> rc_draft_version command \<noteq> dr_version draft
          \<or> rc_subject_signature command \<noteq> dr_subject_signature draft
          \<or> \<not> list_all2 offer_py_eq (cp_components (rc_payload command)) (dr_components draft)
          \<or> cp_customer (rc_payload command) \<noteq> dr_customer draft
          \<or> \<not> terms_py_eq (cp_terms (rc_payload command)) (dr_terms draft)
          \<or> rc_created_at command \<noteq> cr_decided_at confirmation
       then Inl (ValueError ''command does not bind to the authorized draft'')
       else Inr ())"

definition validate_outcome_binding ::
  "reservation_command \<Rightarrow> execution_outcome \<Rightarrow> execution_certainty \<Rightarrow> unit res" where
  "validate_outcome_binding command outcome certainty =
     (if eo_command_id outcome \<noteq> rc_command_id command \<or> eo_certainty outcome \<noteq> certainty
      then Inl (ValueError ''execution outcome does not match command/state certainty'')
      else Inr ())"

definition canonical_reason :: "string \<Rightarrow> string res" where
  "canonical_reason value =
     (let reason = lower (strip value)
      in if \<not> id_re reason then Inl (ValueError ''state reason must be a canonical identifier'')
         else Inr reason)"

section \<open>The constructors of the states that check something\<close>

definition mk_offered_state ::
  "state_meta \<Rightarrow> search_query \<Rightarrow> lookup_evidence \<Rightarrow> offer_snapshot list \<Rightarrow> state res" where
  "mk_offered_state m query evidence offers =
     (let ordered = sort_key of_offer_id offers
      in if ordered = [] then Inl (ValueError ''offered state requires offers'')
         else if \<not> distinct (map of_offer_id ordered)
         then Inl (ValueError ''offered state offer_ids must be unique'')
         else bind_res (validate_offer_evidence query evidence ordered) (\<lambda>_.
                Inr (OfferedState m query evidence ordered)))"

definition mk_selected_state ::
  "state_meta \<Rightarrow> search_query \<Rightarrow> lookup_evidence \<Rightarrow> offer_snapshot \<Rightarrow> state res" where
  "mk_selected_state m query evidence offer =
     bind_res (validate_offer_evidence query evidence [offer]) (\<lambda>_.
       Inr (SelectedState m query evidence offer))"

definition mk_awaiting_confirmation_state ::
  "state_meta \<Rightarrow> commercial_draft \<Rightarrow> summary_presented \<Rightarrow> state res" where
  "mk_awaiting_confirmation_state m draft summary =
     bind_res (validate_summary_binding draft summary) (\<lambda>_.
       Inr (AwaitingConfirmationState m draft summary))"

definition mk_awaiting_adjustment_state ::
  "state_meta \<Rightarrow> commercial_draft \<Rightarrow> summary_presented \<Rightarrow> confirmation_record \<Rightarrow> state res" where
  "mk_awaiting_adjustment_state m draft summary decision =
     bind_res (validate_summary_binding draft summary) (\<lambda>_.
       if cr_decision decision \<noteq> ADJUST
          \<or> cr_target_draft_version decision \<noteq> dr_version draft
          \<or> cr_subject_signature decision \<noteq> dr_subject_signature draft
          \<or> cr_decided_at decision \<le> sp_presented_at summary
       then Inl (ValueError ''adjustment decision does not bind to presented draft'')
       else Inr (AwaitingAdjustmentState m draft summary decision))"

definition mk_execution_queued_state ::
  "state_meta \<Rightarrow> commercial_draft \<Rightarrow> summary_presented \<Rightarrow> confirmation_record
   \<Rightarrow> reservation_command \<Rightarrow> state res" where
  "mk_execution_queued_state m draft summary confirmation command =
     bind_res (validate_authorization_binding draft summary confirmation command) (\<lambda>_.
       Inr (ExecutionQueuedState m draft summary confirmation command))"

definition mk_executing_state ::
  "state_meta \<Rightarrow> commercial_draft \<Rightarrow> summary_presented \<Rightarrow> confirmation_record
   \<Rightarrow> reservation_command \<Rightarrow> int \<Rightarrow> state res" where
  "mk_executing_state m draft summary confirmation command attempt =
     bind_res (validate_authorization_binding draft summary confirmation command) (\<lambda>_.
       if attempt \<noteq> 1 then Inl (ValueError ''Phase 2 permits exactly one execution attempt'')
       else Inr (ExecutingState m draft summary confirmation command attempt))"

definition mk_succeeded_state ::
  "state_meta \<Rightarrow> reservation_command \<Rightarrow> execution_outcome \<Rightarrow> state res" where
  "mk_succeeded_state m command outcome =
     bind_res (validate_outcome_binding command outcome EFFECT_CONFIRMED) (\<lambda>_.
       Inr (SucceededState m command outcome))"

definition mk_failed_before_provider_state ::
  "state_meta \<Rightarrow> reservation_command \<Rightarrow> execution_outcome \<Rightarrow> state res" where
  "mk_failed_before_provider_state m command outcome =
     bind_res (validate_outcome_binding command outcome NOT_CALLED) (\<lambda>_.
       Inr (FailedBeforeProviderState m command outcome))"

definition mk_failed_no_effect_state ::
  "state_meta \<Rightarrow> reservation_command \<Rightarrow> execution_outcome \<Rightarrow> state res" where
  "mk_failed_no_effect_state m command outcome =
     bind_res (validate_outcome_binding command outcome CALLED_NO_EFFECT) (\<lambda>_.
       Inr (FailedNoEffectState m command outcome))"

definition mk_uncertain_state ::
  "state_meta \<Rightarrow> reservation_command \<Rightarrow> execution_outcome \<Rightarrow> state res" where
  "mk_uncertain_state m command outcome =
     bind_res (validate_outcome_binding command outcome CALLED_UNKNOWN) (\<lambda>_.
       Inr (UncertainState m command outcome))"

definition mk_manual_review_state ::
  "state_meta \<Rightarrow> reservation_command \<Rightarrow> execution_outcome \<Rightarrow> string \<Rightarrow> state res" where
  "mk_manual_review_state m command outcome reason =
     bind_res (validate_outcome_binding command outcome CALLED_UNKNOWN) (\<lambda>_.
     bind_res (canonical_reason reason) (\<lambda>r.
       Inr (ManualReviewState m command outcome r)))"

definition mk_cancelled_state :: "state_meta \<Rightarrow> workflow_phase \<Rightarrow> string \<Rightarrow> state res" where
  "mk_cancelled_state m previous_phase reason =
     bind_res (canonical_reason reason) (\<lambda>r. Inr (CancelledState m previous_phase r))"

definition mk_expired_state :: "state_meta \<Rightarrow> workflow_phase \<Rightarrow> string \<Rightarrow> state res" where
  "mk_expired_state m previous_phase reason =
     bind_res (canonical_reason reason) (\<lambda>r. Inr (ExpiredState m previous_phase r))"

fun rebuild_state :: "state \<Rightarrow> state res" where
  "rebuild_state (CollectingState m) = Inr (CollectingState m)"
| "rebuild_state (SearchingState m q) = Inr (SearchingState m q)"
| "rebuild_state (OfferedState m q e fs) = mk_offered_state m q e fs"
| "rebuild_state (SelectedState m q e f) = mk_selected_state m q e f"
| "rebuild_state (ReadyToSummarizeState m d) = Inr (ReadyToSummarizeState m d)"
| "rebuild_state (AwaitingConfirmationState m d s) = mk_awaiting_confirmation_state m d s"
| "rebuild_state (AwaitingAdjustmentState m d s c) = mk_awaiting_adjustment_state m d s c"
| "rebuild_state (ExecutionQueuedState m d s c k) = mk_execution_queued_state m d s c k"
| "rebuild_state (ExecutingState m d s c k n) = mk_executing_state m d s c k n"
| "rebuild_state (SucceededState m k u) = mk_succeeded_state m k u"
| "rebuild_state (FailedBeforeProviderState m k u) = mk_failed_before_provider_state m k u"
| "rebuild_state (FailedNoEffectState m k u) = mk_failed_no_effect_state m k u"
| "rebuild_state (UncertainState m k u) = mk_uncertain_state m k u"
| "rebuild_state (ManualReviewState m k u r) = mk_manual_review_state m k u r"
| "rebuild_state (CancelledState m p r) = mk_cancelled_state m p r"
| "rebuild_state (ExpiredState m p r) = mk_expired_state m p r"

fun set_meta :: "state_meta \<Rightarrow> state \<Rightarrow> state" where
  "set_meta m (CollectingState _) = CollectingState m"
| "set_meta m (SearchingState _ q) = SearchingState m q"
| "set_meta m (OfferedState _ q e fs) = OfferedState m q e fs"
| "set_meta m (SelectedState _ q e f) = SelectedState m q e f"
| "set_meta m (ReadyToSummarizeState _ d) = ReadyToSummarizeState m d"
| "set_meta m (AwaitingConfirmationState _ d s) = AwaitingConfirmationState m d s"
| "set_meta m (AwaitingAdjustmentState _ d s c) = AwaitingAdjustmentState m d s c"
| "set_meta m (ExecutionQueuedState _ d s c k) = ExecutionQueuedState m d s c k"
| "set_meta m (ExecutingState _ d s c k n) = ExecutingState m d s c k n"
| "set_meta m (SucceededState _ k u) = SucceededState m k u"
| "set_meta m (FailedBeforeProviderState _ k u) = FailedBeforeProviderState m k u"
| "set_meta m (FailedNoEffectState _ k u) = FailedNoEffectState m k u"
| "set_meta m (UncertainState _ k u) = UncertainState m k u"
| "set_meta m (ManualReviewState _ k u r) = ManualReviewState m k u r"
| "set_meta m (CancelledState _ p r) = CancelledState m p r"
| "set_meta m (ExpiredState _ p r) = ExpiredState m p r"

section \<open>Cross-object consistency\<close>

fun internal_times :: "state \<Rightarrow> timestamp list" where
  "internal_times (ReadyToSummarizeState _ d) = [dr_created_at d]"
| "internal_times (AwaitingConfirmationState _ d _) = [dr_created_at d]"
| "internal_times (AwaitingAdjustmentState _ d s c) =
     [dr_created_at d, sp_presented_at s, cr_decided_at c]"
| "internal_times (ExecutionQueuedState _ d s c k) =
     [dr_created_at d, sp_presented_at s, cr_decided_at c, rc_created_at k]"
| "internal_times (ExecutingState _ d s c k _) =
     [dr_created_at d, sp_presented_at s, cr_decided_at c, rc_created_at k]"
| "internal_times (SucceededState _ k _) = [rc_created_at k]"
| "internal_times (FailedBeforeProviderState _ k _) = [rc_created_at k]"
| "internal_times (FailedNoEffectState _ k _) = [rc_created_at k]"
| "internal_times (UncertainState _ k _) = [rc_created_at k]"
| "internal_times (ManualReviewState _ k _ _) = [rc_created_at k]"
| "internal_times _ = []"

definition validate_state_consistency :: "state \<Rightarrow> unit res" where
  "validate_state_consistency s =
     bind_res
       (case state_command s of
          Some c \<Rightarrow>
            if rc_workflow_id c \<noteq> sm_workflow_id (st_meta s)
            then Inl (ValueError ''state command belongs to a different workflow'')
            else if sm_command_ids (st_meta s) \<noteq> [rc_command_id c]
            then Inl (ValueError ''command-bearing state must record exactly its command ID'')
            else Inr ()
        | None \<Rightarrow>
            if sm_command_ids (st_meta s) \<noteq> []
            then Inl (ValueError ''pre-command or non-command state cannot record command IDs'')
            else Inr ())
       (\<lambda>_. if list_ex (\<lambda>t. t > sm_last_event_at (st_meta s)) (internal_times s)
            then Inl (ValueError ''state metadata predates an embedded domain record'')
            else Inr ())"

section \<open>Events\<close>

datatype event =
    StartSearch (event_id: string) (occurred_at: timestamp) search_query
  | LookupRecorded (event_id: string) (occurred_at: timestamp) lookup_evidence "offer_snapshot list"
  | OfferChosen (event_id: string) (occurred_at: timestamp) string
  | DraftRequested (event_id: string) (occurred_at: timestamp) string customer_facts economic_terms
  | DraftAdjusted (event_id: string) (occurred_at: timestamp) customer_facts economic_terms
  | SummaryRecorded (event_id: string) (occurred_at: timestamp) string int string string
  | ConfirmationReceived (event_id: string) (occurred_at: timestamp) string
      confirmation_decision_kind int string
  | ExecutionStarted (event_id: string) (occurred_at: timestamp) string
  | ExecutionFinished (event_id: string) (occurred_at: timestamp) string execution_outcome
  | ManualReviewRequested (event_id: string) (occurred_at: timestamp) string
  | WorkflowCancelled (event_id: string) (occurred_at: timestamp) string
  | WorkflowExpired (event_id: string) (occurred_at: timestamp) string

definition event_reason :: "string \<Rightarrow> string res" where
  "event_reason value =
     (let reason = lower (strip value)
      in if \<not> id_re reason then Inl (ValueError ''reason must be a canonical identifier'')
         else Inr reason)"

text \<open>The \<open>__post_init__\<close> of the event classes, base class first.\<close>

definition with_event_id :: "string \<Rightarrow> (string \<Rightarrow> event res) \<Rightarrow> event res" where
  "with_event_id i k = bind_res (require_id i ''event_id'') k"

fun mk_event :: "event \<Rightarrow> event res" where
  "mk_event (StartSearch i t q) = with_event_id i (\<lambda>i. Inr (StartSearch i t q))"
| "mk_event (LookupRecorded i t e fs) = with_event_id i (\<lambda>i. Inr (LookupRecorded i t e fs))"
| "mk_event (OfferChosen i t oid) = with_event_id i (\<lambda>i.
     bind_res (require_id oid ''offer_id'') (\<lambda>oid. Inr (OfferChosen i t oid)))"
| "mk_event (DraftRequested i t did c e) = with_event_id i (\<lambda>i.
     bind_res (require_id did ''draft_id'') (\<lambda>did. Inr (DraftRequested i t did c e)))"
| "mk_event (DraftAdjusted i t c e) = with_event_id i (\<lambda>i. Inr (DraftAdjusted i t c e))"
| "mk_event (SummaryRecorded i t sid v s oid) = with_event_id i (\<lambda>i.
     bind_res (require_id sid ''summary_event_id'') (\<lambda>sid.
       if v < 1 then Inl (ValueError ''draft_version must be >= 1'')
       else bind_res (require_hash s ''subject_signature'') (\<lambda>s.
            bind_res (require_id oid ''outbox_message_id'') (\<lambda>oid.
              Inr (SummaryRecorded i t sid v s oid)))))"
| "mk_event (ConfirmationReceived i t cid k v s) = with_event_id i (\<lambda>i.
     bind_res (require_id cid ''confirmation_event_id'') (\<lambda>cid.
       if v < 1 then Inl (ValueError ''target_draft_version must be >= 1'')
       else bind_res (require_hash s ''subject_signature'') (\<lambda>s.
              Inr (ConfirmationReceived i t cid k v s))))"
| "mk_event (ExecutionStarted i t cid) = with_event_id i (\<lambda>i.
     bind_res (require_id cid ''command_id'') (\<lambda>cid. Inr (ExecutionStarted i t cid)))"
| "mk_event (ExecutionFinished i t cid u) = with_event_id i (\<lambda>i.
     bind_res (require_id cid ''command_id'') (\<lambda>cid. Inr (ExecutionFinished i t cid u)))"
| "mk_event (ManualReviewRequested i t r) = with_event_id i (\<lambda>i.
     bind_res (event_reason r) (\<lambda>r. Inr (ManualReviewRequested i t r)))"
| "mk_event (WorkflowCancelled i t r) = with_event_id i (\<lambda>i.
     bind_res (event_reason r) (\<lambda>r. Inr (WorkflowCancelled i t r)))"
| "mk_event (WorkflowExpired i t r) = with_event_id i (\<lambda>i.
     bind_res (event_reason r) (\<lambda>r. Inr (WorkflowExpired i t r)))"

section \<open>Invariants\<close>

definition wf_reason :: "string \<Rightarrow> bool" where
  "wf_reason r \<longleftrightarrow> id_re r \<and> lower r = r"

fun wf_event_fields :: "event \<Rightarrow> bool" where
  "wf_event_fields (StartSearch _ _ q) = wf_query q"
| "wf_event_fields (LookupRecorded _ _ e fs) = (wf_evidence e \<and> list_all wf_offer fs)"
| "wf_event_fields (OfferChosen _ _ oid) = id_re oid"
| "wf_event_fields (DraftRequested _ _ did c e) = (id_re did \<and> wf_customer c \<and> wf_terms e)"
| "wf_event_fields (DraftAdjusted _ _ c e) = (wf_customer c \<and> wf_terms e)"
| "wf_event_fields (SummaryRecorded _ _ sid v s oid) = (id_re sid \<and> 1 \<le> v \<and> hash_re s \<and> id_re oid)"
| "wf_event_fields (ConfirmationReceived _ _ cid k v s) = (id_re cid \<and> 1 \<le> v \<and> hash_re s)"
| "wf_event_fields (ExecutionStarted _ _ cid) = id_re cid"
| "wf_event_fields (ExecutionFinished _ _ cid u) = (id_re cid \<and> wf_outcome u)"
| "wf_event_fields (ManualReviewRequested _ _ r) = wf_reason r"
| "wf_event_fields (WorkflowCancelled _ _ r) = wf_reason r"
| "wf_event_fields (WorkflowExpired _ _ r) = wf_reason r"

definition wf_event :: "event \<Rightarrow> bool" where
  "wf_event e \<longleftrightarrow> id_re (event_id e) \<and> wf_event_fields e"

fun wf_fields :: "state \<Rightarrow> bool" where
  "wf_fields (CollectingState _) = True"
| "wf_fields (SearchingState _ q) = wf_query q"
| "wf_fields (OfferedState _ q e fs) = (wf_query q \<and> wf_evidence e \<and> list_all wf_offer fs)"
| "wf_fields (SelectedState _ q e f) = (wf_query q \<and> wf_evidence e \<and> wf_offer f)"
| "wf_fields (ReadyToSummarizeState _ d) = wf_draft d"
| "wf_fields (AwaitingConfirmationState _ d s) = (wf_draft d \<and> wf_summary s)"
| "wf_fields (AwaitingAdjustmentState _ d s c) = (wf_draft d \<and> wf_summary s \<and> wf_confirmation c)"
| "wf_fields (ExecutionQueuedState _ d s c k) =
     (wf_draft d \<and> wf_summary s \<and> wf_confirmation c \<and> wf_command k)"
| "wf_fields (ExecutingState _ d s c k _) =
     (wf_draft d \<and> wf_summary s \<and> wf_confirmation c \<and> wf_command k)"
| "wf_fields (SucceededState _ k u) = (wf_command k \<and> wf_outcome u)"
| "wf_fields (FailedBeforeProviderState _ k u) = (wf_command k \<and> wf_outcome u)"
| "wf_fields (FailedNoEffectState _ k u) = (wf_command k \<and> wf_outcome u)"
| "wf_fields (UncertainState _ k u) = (wf_command k \<and> wf_outcome u)"
| "wf_fields (ManualReviewState _ k u r) = (wf_command k \<and> wf_outcome u)"
| "wf_fields (CancelledState _ _ _) = True"
| "wf_fields (ExpiredState _ _ _) = True"

definition wf_state :: "state \<Rightarrow> bool" where
  "wf_state s \<longleftrightarrow> wf_meta (st_meta s) \<and> wf_fields s \<and> rebuild_state s = Inr s
     \<and> validate_state_consistency s = Inr ()"

lemmas mk_state_defs =
  mk_offered_state_def mk_selected_state_def mk_awaiting_confirmation_state_def
  mk_awaiting_adjustment_state_def mk_execution_queued_state_def mk_executing_state_def
  mk_succeeded_state_def mk_failed_before_provider_state_def mk_failed_no_effect_state_def
  mk_uncertain_state_def mk_manual_review_state_def mk_cancelled_state_def mk_expired_state_def

lemmas binding_defs =
  validate_summary_binding_def validate_authorization_binding_def validate_outcome_binding_def

section \<open>Basic facts\<close>

lemma set_meta_simps [simp]:
  "st_meta (set_meta m s) = m"
  "state_command (set_meta m s) = state_command s"
  "internal_times (set_meta m s) = internal_times s"
  "wf_fields (set_meta m s) = wf_fields s"
  "phase (set_meta m s) = phase s"
  "set_meta m (set_meta m' s) = set_meta m s"
  by (cases s; simp)+

lemma set_meta_self [simp]: "set_meta (st_meta s) s = s"
  by (cases s) simp_all

lemma canonical_reason_Inr: "canonical_reason v = Inr r \<longleftrightarrow> r = lower (strip v) \<and> id_re r"
  by (auto simp: canonical_reason_def Let_def)

lemma event_reason_Inr: "event_reason v = Inr r \<longleftrightarrow> r = lower (strip v) \<and> id_re r"
  by (auto simp: event_reason_def Let_def)

lemma canonical_reason_fixed [simp]: "wf_reason r \<Longrightarrow> canonical_reason r = Inr r"
  by (auto simp: wf_reason_def canonical_reason_Inr)

text \<open>Rebuilding looks at every field but the metadata, so it commutes with replacing them.\<close>

lemma rebuild_set_meta: "rebuild_state s = Inr s \<Longrightarrow> rebuild_state (set_meta m s) = Inr (set_meta m s)"
  by (cases s) (auto simp: mk_state_defs Let_def bind_res_Inr_iff split: if_splits)

lemma lower_strip_fixed: "id_re (lower (strip v)) \<Longrightarrow> wf_reason (lower (strip v))"
  by (simp add: wf_reason_def)

text \<open>Every successfully built event is well formed, provided its parts are.\<close>

lemma mk_event_wf:
  assumes "mk_event e = Inr e'"
    and "case e of StartSearch _ _ q \<Rightarrow> wf_query q
         | LookupRecorded _ _ v fs \<Rightarrow> wf_evidence v \<and> list_all wf_offer fs
         | DraftRequested _ _ _ c x \<Rightarrow> wf_customer c \<and> wf_terms x
         | DraftAdjusted _ _ c x \<Rightarrow> wf_customer c \<and> wf_terms x
         | ExecutionFinished _ _ _ u \<Rightarrow> wf_outcome u | _ \<Rightarrow> True"
  shows "wf_event e'"
  using assms
  by (cases e)
     (auto simp: wf_event_def with_event_id_def res_simps require_id_Inr require_hash_Inr
        event_reason_Inr wf_reason_def)

lemma money_py_eq_refl [simp]: "money_py_eq m m"
  by (simp add: money_py_eq_def)

lemma offer_py_eq_refl [simp]: "offer_py_eq f f"
  by (simp add: offer_py_eq_def)

lemma terms_py_eq_refl [simp]: "terms_py_eq t t"
  by (simp add: terms_py_eq_def add_on_py_eq_def list_all2_same)

lemma offers_py_eq_refl [simp]: "list_all2 offer_py_eq fs fs"
  by (simp add: list_all2_same)

end
