(* ===== verification/Domain_Encoding.thy ===== *)
theory Domain_Encoding
  imports Domain_States
begin

text \<open>
  The writing half of \<^verbatim>\<open>reservation_domain/serialization.py\<close>. \<open>_encode\<close> walks a dataclass by its
  fields; here it is one function per class, with the class's field names. \<open>dumps_...\<close> wraps
  the encoded value in the versioned envelope and prints it canonically. The reading half
  (\<open>_decode_value\<close>, \<open>loads_...\<close>) is not modelled.
\<close>

definition encode_money :: "money \<Rightarrow> json" where
  "encode_money m = JObj [(''amount'', JStr (format_amount m)), (''currency'', JStr (money_currency m))]"

definition encode_party :: "party \<Rightarrow> json" where
  "encode_party p = JObj [(''adults'', JInt (adults p)), (''children'', JInt (children p))]"

definition encode_date :: "date \<Rightarrow> json" where
  "encode_date d = JStr (date_isoformat d)"

definition encode_time :: "timestamp \<Rightarrow> json" where
  "encode_time t = JStr (isoformat t)"

definition encode_passenger :: "passenger_facts \<Rightarrow> json" where
  "encode_passenger p = JObj
     [(''position'', JInt (pf_position p)), (''participant_type'', JStr (pf_participant_type p)),
      (''full_name'', JStr (pf_full_name p)), (''birth_date'', encode_date (pf_birth_date p)),
      (''gender'', JStr (pf_gender p)), (''country_code'', JStr (pf_country_code p))]"

definition encode_customer :: "customer_facts \<Rightarrow> json" where
  "encode_customer c = JObj (
     [(''customer_ref'', JStr (cf_customer_ref c)), (''full_name'', JStr (cf_full_name c)),
      (''email'', JStr (cf_email c)), (''phone_e164'', JStr (cf_phone_e164 c)),
      (''country_code'', JStr (cf_country_code c))]
     @ (case cf_birth_date c of None \<Rightarrow> [] | Some d \<Rightarrow> [(''birth_date'', encode_date d)])
     @ (case cf_gender c of None \<Rightarrow> [] | Some g \<Rightarrow> [(''gender'', JStr g)])
     @ (if cf_passengers c = [] then []
        else [(''passengers'', JArr (map encode_passenger (cf_passengers c)))]))"

definition encode_terms :: "economic_terms \<Rightarrow> json" where
  "encode_terms t = JObj
     [(''payment_method'', JStr (et_payment_method t)),
      (''add_ons'', JArr (map (\<lambda>a. JObj
         [(''code'', JStr (ao_code a)), (''quantity'', JInt (ao_quantity a)),
          (''unit_price'', encode_money (ao_unit_price a))]) (et_add_ons t)))]"

definition encode_query :: "search_query \<Rightarrow> json" where
  "encode_query q = JObj
     [(''service'', JStr (service_value (sq_service q))), (''start_date'', encode_date (sq_start_date q)),
      (''end_date'', json_opt encode_date (sq_end_date q)),
      (''start_time'', json_opt JStr (sq_start_time q)), (''party'', encode_party (sq_party q))]"

definition encode_evidence :: "lookup_evidence \<Rightarrow> json" where
  "encode_evidence e = JObj
     [(''lookup_id'', JStr (le_lookup_id e)), (''service'', JStr (service_value (le_service e))),
      (''query_signature'', JStr (le_query_signature e)), (''observed_at'', encode_time (le_observed_at e)),
      (''expires_at'', encode_time (le_expires_at e)), (''snapshot_hash'', JStr (le_snapshot_hash e)),
      (''status'', JStr (lookup_status_value (le_status e)))]"

definition encode_offer :: "offer_snapshot \<Rightarrow> json" where
  "encode_offer f = JObj
     [(''offer_id'', JStr (of_offer_id f)), (''lookup_id'', JStr (of_lookup_id f)),
      (''service'', JStr (service_value (of_service f))), (''provider_ref'', JStr (of_provider_ref f)),
      (''public_label'', JStr (of_public_label f)), (''start_date'', encode_date (of_start_date f)),
      (''end_date'', json_opt encode_date (of_end_date f)),
      (''start_time'', json_opt JStr (of_start_time f)), (''party'', encode_party (of_party f)),
      (''total'', encode_money (of_total f)), (''available'', JBool (of_available f))]"

definition encode_payload :: "command_payload \<Rightarrow> json" where
  "encode_payload p = JObj
     [(''components'', JArr (map encode_offer (cp_components p))),
      (''customer'', encode_customer (cp_customer p)), (''terms'', encode_terms (cp_terms p))]"

definition encode_command :: "reservation_command \<Rightarrow> json" where
  "encode_command c = JObj
     [(''command_id'', JStr (rc_command_id c)), (''idempotency_key'', JStr (rc_idempotency_key c)),
      (''workflow_id'', JStr (rc_workflow_id c)), (''draft_id'', JStr (rc_draft_id c)),
      (''draft_version'', JInt (rc_draft_version c)),
      (''subject_signature'', JStr (rc_subject_signature c)),
      (''operation'', JStr (operation_value (rc_operation c))),
      (''payload'', encode_payload (rc_payload c)), (''created_at'', encode_time (rc_created_at c))]"

definition encode_outcome :: "execution_outcome \<Rightarrow> json" where
  "encode_outcome u = JObj
     [(''command_id'', JStr (eo_command_id u)), (''certainty'', JStr (certainty_value (eo_certainty u))),
      (''normalized_status'', JStr (eo_normalized_status u)),
      (''provider_reference'', json_opt JStr (eo_provider_reference u)),
      (''evidence'', JArr (map JStr (eo_evidence u)))]"

fun event_type :: "event \<Rightarrow> string" where
  "event_type (StartSearch _ _ _) = ''start_search''"
| "event_type (LookupRecorded _ _ _ _) = ''lookup_recorded''"
| "event_type (OfferChosen _ _ _) = ''offer_chosen''"
| "event_type (DraftRequested _ _ _ _ _) = ''draft_requested''"
| "event_type (DraftAdjusted _ _ _ _) = ''draft_adjusted''"
| "event_type (SummaryRecorded _ _ _ _ _ _) = ''summary_recorded''"
| "event_type (ConfirmationReceived _ _ _ _ _ _) = ''confirmation_received''"
| "event_type (ExecutionStarted _ _ _) = ''execution_started''"
| "event_type (ExecutionFinished _ _ _ _) = ''execution_finished''"
| "event_type (ManualReviewRequested _ _ _) = ''manual_review_requested''"
| "event_type (WorkflowCancelled _ _ _) = ''workflow_cancelled''"
| "event_type (WorkflowExpired _ _ _) = ''workflow_expired''"

fun encode_event_fields :: "event \<Rightarrow> (string \<times> json) list" where
  "encode_event_fields (StartSearch _ _ q) = [(''query'', encode_query q)]"
| "encode_event_fields (LookupRecorded _ _ e fs) =
     [(''evidence'', encode_evidence e), (''offers'', JArr (map encode_offer fs))]"
| "encode_event_fields (OfferChosen _ _ oid) = [(''offer_id'', JStr oid)]"
| "encode_event_fields (DraftRequested _ _ did c e) =
     [(''draft_id'', JStr did), (''customer'', encode_customer c), (''terms'', encode_terms e)]"
| "encode_event_fields (DraftAdjusted _ _ c e) =
     [(''customer'', encode_customer c), (''terms'', encode_terms e)]"
| "encode_event_fields (SummaryRecorded _ _ sid v s oid) =
     [(''summary_event_id'', JStr sid), (''draft_version'', JInt v),
      (''subject_signature'', JStr s), (''outbox_message_id'', JStr oid)]"
| "encode_event_fields (ConfirmationReceived _ _ cid k v s) =
     [(''confirmation_event_id'', JStr cid), (''decision'', JStr (decision_value k)),
      (''target_draft_version'', JInt v), (''subject_signature'', JStr s)]"
| "encode_event_fields (ExecutionStarted _ _ cid) = [(''command_id'', JStr cid)]"
| "encode_event_fields (ExecutionFinished _ _ cid u) =
     [(''command_id'', JStr cid), (''outcome'', encode_outcome u)]"
| "encode_event_fields (ManualReviewRequested _ _ r) = [(''reason'', JStr r)]"
| "encode_event_fields (WorkflowCancelled _ _ r) = [(''reason'', JStr r)]"
| "encode_event_fields (WorkflowExpired _ _ r) = [(''reason'', JStr r)]"

definition encode_event :: "event \<Rightarrow> json" where
  "encode_event e = JObj
     ([(''event_id'', JStr (event_id e)), (''occurred_at'', encode_time (occurred_at e))]
      @ encode_event_fields e)"

section \<open>States\<close>

definition encode_draft :: "commercial_draft \<Rightarrow> json" where
  "encode_draft d = JObj
     [(''draft_id'', JStr (dr_draft_id d)), (''version'', JInt (dr_version d)),
      (''created_at'', encode_time (dr_created_at d)),
      (''components'', JArr (map encode_offer (dr_components d))),
      (''customer'', encode_customer (dr_customer d)), (''terms'', encode_terms (dr_terms d)),
      (''subject_signature'', JStr (dr_subject_signature d))]"

definition encode_summary :: "summary_presented \<Rightarrow> json" where
  "encode_summary p = JObj
     [(''summary_event_id'', JStr (sp_summary_event_id p)), (''draft_id'', JStr (sp_draft_id p)),
      (''draft_version'', JInt (sp_draft_version p)),
      (''subject_signature'', JStr (sp_subject_signature p)),
      (''outbox_message_id'', JStr (sp_outbox_message_id p)),
      (''presented_at'', encode_time (sp_presented_at p))]"

definition encode_confirmation :: "confirmation_record \<Rightarrow> json" where
  "encode_confirmation c = JObj
     [(''confirmation_event_id'', JStr (cr_confirmation_event_id c)),
      (''decision'', JStr (decision_value (cr_decision c))),
      (''target_draft_version'', JInt (cr_target_draft_version c)),
      (''subject_signature'', JStr (cr_subject_signature c)),
      (''decided_at'', encode_time (cr_decided_at c))]"

definition encode_meta :: "state_meta \<Rightarrow> json" where
  "encode_meta m = JObj
     [(''workflow_id'', JStr (sm_workflow_id m)), (''revision'', JInt (sm_revision m)),
      (''last_event_at'', encode_time (sm_last_event_at m)),
      (''seen_event_ids'', JArr (map JStr (sm_seen_event_ids m))),
      (''seen_event_hashes'', JArr (map JStr (sm_seen_event_hashes m))),
      (''command_ids'', JArr (map JStr (sm_command_ids m)))]"

fun phase_value :: "workflow_phase \<Rightarrow> string" where
  "phase_value COLLECTING = ''collecting''"
| "phase_value SEARCHING = ''searching''"
| "phase_value OFFERED = ''offered''"
| "phase_value SELECTED = ''selected''"
| "phase_value READY_TO_SUMMARIZE = ''ready_to_summarize''"
| "phase_value AWAITING_CONFIRMATION = ''awaiting_confirmation''"
| "phase_value AWAITING_ADJUSTMENT = ''awaiting_adjustment''"
| "phase_value EXECUTION_QUEUED = ''execution_queued''"
| "phase_value EXECUTING = ''executing''"
| "phase_value SUCCEEDED = ''succeeded''"
| "phase_value FAILED_BEFORE_PROVIDER = ''failed_before_provider''"
| "phase_value FAILED_NO_EFFECT = ''failed_no_effect''"
| "phase_value PHASE_UNCERTAIN = ''uncertain''"
| "phase_value MANUAL_REVIEW = ''manual_review''"
| "phase_value CANCELLED = ''cancelled''"
| "phase_value EXPIRED = ''expired''"

text \<open>The \<open>TYPE\<close> tag of a state class is the value of its phase.\<close>

fun encode_state_fields :: "state \<Rightarrow> (string \<times> json) list" where
  "encode_state_fields (CollectingState _) = []"
| "encode_state_fields (SearchingState _ q) = [(''query'', encode_query q)]"
| "encode_state_fields (OfferedState _ q e fs) =
     [(''query'', encode_query q), (''evidence'', encode_evidence e), (''offers'', JArr (map encode_offer fs))]"
| "encode_state_fields (SelectedState _ q e f) =
     [(''query'', encode_query q), (''evidence'', encode_evidence e), (''offer'', encode_offer f)]"
| "encode_state_fields (ReadyToSummarizeState _ d) = [(''draft'', encode_draft d)]"
| "encode_state_fields (AwaitingConfirmationState _ d p) =
     [(''draft'', encode_draft d), (''summary'', encode_summary p)]"
| "encode_state_fields (AwaitingAdjustmentState _ d p c) =
     [(''draft'', encode_draft d), (''summary'', encode_summary p), (''decision'', encode_confirmation c)]"
| "encode_state_fields (ExecutionQueuedState _ d p c k) =
     [(''draft'', encode_draft d), (''summary'', encode_summary p),
      (''confirmation'', encode_confirmation c), (''command'', encode_command k)]"
| "encode_state_fields (ExecutingState _ d p c k n) =
     [(''draft'', encode_draft d), (''summary'', encode_summary p),
      (''confirmation'', encode_confirmation c), (''command'', encode_command k), (''attempt'', JInt n)]"
| "encode_state_fields (SucceededState _ k u) =
     [(''command'', encode_command k), (''outcome'', encode_outcome u)]"
| "encode_state_fields (FailedBeforeProviderState _ k u) =
     [(''command'', encode_command k), (''outcome'', encode_outcome u)]"
| "encode_state_fields (FailedNoEffectState _ k u) =
     [(''command'', encode_command k), (''outcome'', encode_outcome u)]"
| "encode_state_fields (UncertainState _ k u) =
     [(''command'', encode_command k), (''outcome'', encode_outcome u)]"
| "encode_state_fields (ManualReviewState _ k u r) =
     [(''command'', encode_command k), (''outcome'', encode_outcome u), (''reason'', JStr r)]"
| "encode_state_fields (CancelledState _ p r) =
     [(''previous_phase'', JStr (phase_value p)), (''reason'', JStr r)]"
| "encode_state_fields (ExpiredState _ p r) =
     [(''previous_phase'', JStr (phase_value p)), (''reason'', JStr r)]"

definition encode_state :: "state \<Rightarrow> json" where
  "encode_state s = JObj ((''meta'', encode_meta (st_meta s)) # encode_state_fields s)"

section \<open>Envelopes\<close>

definition envelope :: "json \<Rightarrow> string \<Rightarrow> json" where
  "envelope encoded type_tag =
     JObj [(''schema_version'', JInt 1), (''type'', JStr type_tag), (''data'', encoded)]"

definition dumps_envelope :: "json \<Rightarrow> string \<Rightarrow> string" where
  "dumps_envelope encoded type_tag = dumps (envelope encoded type_tag)"

definition dumps_state :: "state \<Rightarrow> string res" where
  "dumps_state s =
     bind_res (validate_state_consistency s) (\<lambda>_.
       Inr (dumps_envelope (encode_state s) (phase_value (phase s))))"

definition dumps_event :: "event \<Rightarrow> string" where
  "dumps_event e = dumps_envelope (encode_event e) (event_type e)"

definition command_envelope :: "reservation_command \<Rightarrow> json" where
  "command_envelope c = envelope (encode_command c) ''reservation_command''"

definition dumps_command :: "reservation_command \<Rightarrow> string" where
  "dumps_command c = dumps (command_envelope c)"

definition dumps_outcome :: "execution_outcome \<Rightarrow> string" where
  "dumps_outcome u = dumps_envelope (encode_outcome u) ''execution_outcome''"

end
