(* ===== verification/Domain_Reducer.thy ===== *)
theory Domain_Reducer
  imports Domain_Encoding
begin

text \<open>
  \<^verbatim>\<open>reservation_domain/reducer.py\<close>: the pure reducer of the reservation workflow. A registered
  handler is a function from the fields its state and event carry to a decision; \<open>handle\<close> is
  the table \<open>_HANDLERS\<close>, \<open>None\<close> where no handler is registered; \<open>reduce\<close> is the whole step, with
  the duplicate and out-of-order checks before the handler and \<open>finalize\<close> after it.
\<close>

section \<open>Transitions\<close>

record decision =
  de_state :: state
  de_status :: transition_status
  de_reason :: string
  de_commands :: "reservation_command list"

record transition =
  tr_state :: state
  tr_status :: transition_status
  tr_reason :: string
  tr_commands :: "reservation_command list"

definition decide :: "state \<Rightarrow> transition_status \<Rightarrow> string \<Rightarrow> decision res" where
  "decide s status reason =
     Inr \<lparr>de_state = s, de_status = status, de_reason = reason, de_commands = []\<rparr>"

definition applied :: "state res \<Rightarrow> string \<Rightarrow> decision res" where
  "applied s reason = bind_res s (\<lambda>s. decide s APPLIED reason)"

definition new_workflow :: "string \<Rightarrow> timestamp \<Rightarrow> state res" where
  "new_workflow workflow_id started_at =
     bind_res (mk_state_meta workflow_id 0 started_at [] [] []) (\<lambda>m.
       let s = CollectingState m
       in bind_res (validate_state_consistency s) (\<lambda>_. Inr s))"

definition event_digest :: "event \<Rightarrow> string" where
  "event_digest e = sha256_hex (dumps_event e)"

definition add_command_ids :: "string list \<Rightarrow> string list \<Rightarrow> string list" where
  "add_command_ids old new = foldl (\<lambda>ids c. if c \<in> set ids then ids else ids @ [c]) old new"

definition advance_meta :: "state_meta \<Rightarrow> event \<Rightarrow> string list \<Rightarrow> state_meta res" where
  "advance_meta m e command_ids =
     (let new = event_id e \<notin> set (sm_seen_event_ids m)
      in mk_state_meta (sm_workflow_id m) (sm_revision m + 1)
           (max (sm_last_event_at m) (occurred_at e))
           (if new then sm_seen_event_ids m @ [event_id e] else sm_seen_event_ids m)
           (if new then sm_seen_event_hashes m @ [event_digest e] else sm_seen_event_hashes m)
           (add_command_ids (sm_command_ids m) command_ids))"

definition with_meta :: "state \<Rightarrow> state_meta \<Rightarrow> state res" where
  "with_meta s m = rebuild_state (set_meta m s)"

definition finalize :: "decision \<Rightarrow> event \<Rightarrow> transition res" where
  "finalize d e =
     bind_res (advance_meta (st_meta (de_state d)) e (map rc_command_id (de_commands d))) (\<lambda>m.
     bind_res (with_meta (de_state d) m) (\<lambda>s.
     bind_res (validate_state_consistency s) (\<lambda>_.
       Inr \<lparr>tr_state = s, tr_status = de_status d, tr_reason = de_reason d,
            tr_commands = de_commands d\<rparr>)))"

section \<open>Handlers\<close>

definition terms_match_component_currencies :: "offer_snapshot list \<Rightarrow> economic_terms \<Rightarrow> bool" where
  "terms_match_component_currencies components terms \<longleftrightarrow>
     card (component_currencies components) = 1
     \<and> (add_on_currencies terms = {} \<or> add_on_currencies terms = component_currencies components)"

definition command_for :: "string \<Rightarrow> commercial_draft \<Rightarrow> timestamp \<Rightarrow> reservation_command res" where
  "command_for workflow_id draft created_at =
     bind_res (operation_for_components (dr_components draft)) (\<lambda>operation.
       case command_identity workflow_id (dr_draft_id draft) (dr_version draft)
              (dr_subject_signature draft) operation of
         (command_id, idempotency_key) \<Rightarrow>
           bind_res (mk_command_payload (dr_components draft) (dr_customer draft) (dr_terms draft))
             (\<lambda>payload. mk_reservation_command command_id idempotency_key workflow_id
                (dr_draft_id draft) (dr_version draft) (dr_subject_signature draft) operation
                payload created_at))"

definition start_search :: "state \<Rightarrow> search_query \<Rightarrow> decision res" where
  "start_search s query = decide (SearchingState (st_meta s) query) APPLIED ''search_started''"

definition record_lookup ::
  "state \<Rightarrow> search_query \<Rightarrow> timestamp \<Rightarrow> lookup_evidence \<Rightarrow> offer_snapshot list \<Rightarrow> decision res" where
  "record_lookup s query at evidence offers =
     (let valid = le_status evidence = POSITIVE
            \<and> le_service evidence = sq_service query
            \<and> le_query_signature evidence = query_signature query
            \<and> is_fresh evidence at
            \<and> offers \<noteq> []
            \<and> distinct (map of_offer_id offers)
            \<and> list_all (\<lambda>f. of_available f \<and> of_lookup_id f = le_lookup_id evidence
                \<and> of_service f = le_service evidence \<and> offer_matches_query f query) offers
      in if \<not> valid then decide s REJECTED ''lookup_not_fresh_positive_or_consistent''
         else applied (mk_offered_state (st_meta s) query evidence offers)
                ''positive_offers_recorded'')"

definition choose_offer ::
  "state \<Rightarrow> search_query \<Rightarrow> lookup_evidence \<Rightarrow> offer_snapshot list \<Rightarrow> timestamp \<Rightarrow> string
   \<Rightarrow> decision res" where
  "choose_offer s query evidence offers at offer_id =
     (if \<not> is_fresh evidence at then decide s REJECTED ''offer_evidence_expired''
      else (case filter (\<lambda>f. of_offer_id f = offer_id) offers of
              [offer] \<Rightarrow> applied (mk_selected_state (st_meta s) query evidence offer)
                           ''offer_selected_by_id''
            | _ \<Rightarrow> decide s REJECTED ''offer_id_not_uniquely_available''))"

definition request_draft ::
  "state \<Rightarrow> lookup_evidence \<Rightarrow> offer_snapshot \<Rightarrow> timestamp \<Rightarrow> string \<Rightarrow> customer_facts
   \<Rightarrow> economic_terms \<Rightarrow> decision res" where
  "request_draft s evidence offer at draft_id customer terms =
     (if \<not> is_fresh evidence at then decide s REJECTED ''selected_offer_evidence_expired''
      else if \<not> terms_match_component_currencies [offer] terms
      then decide s REJECTED ''economic_terms_currency_mismatch''
      else bind_res (build_commercial_draft draft_id 1 at [offer] customer terms) (\<lambda>draft.
             decide (ReadyToSummarizeState (st_meta s) draft) APPLIED ''commercial_draft_created''))"

definition adjust_draft ::
  "state \<Rightarrow> commercial_draft \<Rightarrow> timestamp \<Rightarrow> customer_facts \<Rightarrow> economic_terms \<Rightarrow> decision res" where
  "adjust_draft s current at customer terms =
     (if \<not> terms_match_component_currencies (dr_components current) terms
      then decide s REJECTED ''economic_terms_currency_mismatch''
      else bind_res (build_commercial_draft (dr_draft_id current) (dr_version current + 1) at
                       (dr_components current) customer terms) (\<lambda>draft.
             if dr_subject_signature draft = dr_subject_signature current
             then decide s REJECTED ''adjustment_did_not_change_subject''
             else decide (ReadyToSummarizeState (st_meta s) draft) APPLIED
                    ''commercial_draft_version_incremented''))"

definition record_summary ::
  "state \<Rightarrow> commercial_draft \<Rightarrow> timestamp \<Rightarrow> string \<Rightarrow> int \<Rightarrow> string \<Rightarrow> string \<Rightarrow> decision res" where
  "record_summary s draft at summary_event_id draft_version sig outbox_message_id =
     (let valid = draft_version = dr_version draft \<and> sig = dr_subject_signature draft
                  \<and> at \<ge> dr_created_at draft
      in if \<not> valid then decide s REJECTED ''summary_does_not_match_current_draft''
         else bind_res (mk_summary_presented summary_event_id (dr_draft_id draft) (dr_version draft)
                          (dr_subject_signature draft) outbox_message_id at) (\<lambda>summary.
                applied (mk_awaiting_confirmation_state (st_meta s) draft summary)
                  ''summary_presentation_recorded''))"

definition receive_confirmation ::
  "state \<Rightarrow> commercial_draft \<Rightarrow> summary_presented \<Rightarrow> timestamp \<Rightarrow> string
   \<Rightarrow> confirmation_decision_kind \<Rightarrow> int \<Rightarrow> string \<Rightarrow> decision res" where
  "receive_confirmation s draft summary at confirmation_event_id kind target_version sig =
     (if \<not> (target_version = dr_version draft \<and> sig = dr_subject_signature draft
             \<and> sig = sp_subject_signature summary)
      then decide s REJECTED ''confirmation_does_not_match_presented_draft''
      else if at \<le> sp_presented_at summary
      then decide s REJECTED ''confirmation_not_posterior_to_summary''
      else bind_res (mk_confirmation_record confirmation_event_id kind target_version sig at) (\<lambda>rec.
        case kind of
          REJECT \<Rightarrow> applied (mk_cancelled_state (st_meta s) (phase s) ''lead_rejected_current_draft'')
                      ''current_draft_rejected''
        | ADJUST \<Rightarrow> applied (mk_awaiting_adjustment_state (st_meta s) draft summary rec)
                      ''lead_requested_adjustment''
        | AMBIGUOUS \<Rightarrow> decide s APPLIED ''confirmation_ambiguous''
        | ACCEPT \<Rightarrow>
            bind_res (command_for (sm_workflow_id (st_meta s)) draft at) (\<lambda>command.
            bind_res (mk_execution_queued_state (st_meta s) draft summary rec command) (\<lambda>s'.
              Inr \<lparr>de_state = s', de_status = APPLIED, de_reason = ''reservation_command_created'',
                   de_commands = [command]\<rparr>))))"

definition start_execution ::
  "state \<Rightarrow> commercial_draft \<Rightarrow> summary_presented \<Rightarrow> confirmation_record \<Rightarrow> reservation_command
   \<Rightarrow> string \<Rightarrow> decision res" where
  "start_execution s draft summary confirmation command command_id =
     (if command_id \<noteq> rc_command_id command then decide s REJECTED ''execution_command_id_mismatch''
      else applied (mk_executing_state (st_meta s) draft summary confirmation command 1)
             ''execution_started_once'')"

definition finish_execution ::
  "state \<Rightarrow> reservation_command \<Rightarrow> string \<Rightarrow> execution_outcome \<Rightarrow> decision res" where
  "finish_execution s command command_id outcome =
     (if command_id \<noteq> rc_command_id command \<or> eo_command_id outcome \<noteq> rc_command_id command
      then decide s REJECTED ''execution_outcome_command_id_mismatch''
      else (case eo_certainty outcome of
              EFFECT_CONFIRMED \<Rightarrow> applied (mk_succeeded_state (st_meta s) command outcome)
                ''provider_effect_confirmed''
            | CALLED_UNKNOWN \<Rightarrow> applied (mk_uncertain_state (st_meta s) command outcome)
                ''provider_effect_uncertain''
            | NOT_CALLED \<Rightarrow> applied (mk_failed_before_provider_state (st_meta s) command outcome)
                ''provider_proven_not_called''
            | CALLED_NO_EFFECT \<Rightarrow> applied (mk_failed_no_effect_state (st_meta s) command outcome)
                ''provider_called_without_effect''))"

definition request_manual_review ::
  "state \<Rightarrow> reservation_command \<Rightarrow> execution_outcome \<Rightarrow> string \<Rightarrow> decision res" where
  "request_manual_review s command outcome reason =
     applied (mk_manual_review_state (st_meta s) command outcome reason) ''manual_review_required''"

definition cancel_workflow :: "state \<Rightarrow> string \<Rightarrow> decision res" where
  "cancel_workflow s reason =
     applied (mk_cancelled_state (st_meta s) (phase s) reason) ''workflow_cancelled_before_command''"

definition expire_workflow :: "state \<Rightarrow> string \<Rightarrow> decision res" where
  "expire_workflow s reason =
     applied (mk_expired_state (st_meta s) (phase s) reason) ''workflow_expired_before_command''"

fun is_pre_command :: "state \<Rightarrow> bool" where
  "is_pre_command (CollectingState _) = True"
| "is_pre_command (SearchingState _ _) = True"
| "is_pre_command (OfferedState _ _ _ _) = True"
| "is_pre_command (SelectedState _ _ _ _) = True"
| "is_pre_command (ReadyToSummarizeState _ _) = True"
| "is_pre_command (AwaitingConfirmationState _ _ _) = True"
| "is_pre_command (AwaitingAdjustmentState _ _ _ _) = True"
| "is_pre_command _ = False"

text \<open>The draft of the three states an adjustment applies to.\<close>

fun adjustable_draft :: "state \<Rightarrow> commercial_draft option" where
  "adjustable_draft (ReadyToSummarizeState _ d) = Some d"
| "adjustable_draft (AwaitingConfirmationState _ d _) = Some d"
| "adjustable_draft (AwaitingAdjustmentState _ d _ _) = Some d"
| "adjustable_draft _ = None"

section \<open>Dispatch\<close>

definition handle :: "state \<Rightarrow> event \<Rightarrow> decision res option" where
  "handle s e =
     (case e of
        StartSearch _ _ q \<Rightarrow> if is_pre_command s then Some (start_search s q) else None
      | LookupRecorded _ t v fs \<Rightarrow>
          (case s of SearchingState _ q \<Rightarrow> Some (record_lookup s q t v fs) | _ \<Rightarrow> None)
      | OfferChosen _ t oid \<Rightarrow>
          (case s of OfferedState _ q v fs \<Rightarrow> Some (choose_offer s q v fs t oid) | _ \<Rightarrow> None)
      | DraftRequested _ t did c x \<Rightarrow>
          (case s of SelectedState _ _ v f \<Rightarrow> Some (request_draft s v f t did c x) | _ \<Rightarrow> None)
      | DraftAdjusted _ t c x \<Rightarrow>
          (case adjustable_draft s of Some d \<Rightarrow> Some (adjust_draft s d t c x) | None \<Rightarrow> None)
      | SummaryRecorded _ t sid v sig oid \<Rightarrow>
          (case s of ReadyToSummarizeState _ d \<Rightarrow> Some (record_summary s d t sid v sig oid) | _ \<Rightarrow> None)
      | ConfirmationReceived _ t cid k v sig \<Rightarrow>
          (case s of AwaitingConfirmationState _ d p \<Rightarrow> Some (receive_confirmation s d p t cid k v sig)
           | _ \<Rightarrow> None)
      | ExecutionStarted _ _ cid \<Rightarrow>
          (case s of ExecutionQueuedState _ d p c k \<Rightarrow> Some (start_execution s d p c k cid) | _ \<Rightarrow> None)
      | ExecutionFinished _ _ cid u \<Rightarrow>
          (case s of ExecutingState _ _ _ _ k _ \<Rightarrow> Some (finish_execution s k cid u) | _ \<Rightarrow> None)
      | ManualReviewRequested _ _ r \<Rightarrow>
          (case s of UncertainState _ k u \<Rightarrow> Some (request_manual_review s k u r) | _ \<Rightarrow> None)
      | WorkflowCancelled _ _ r \<Rightarrow> if is_pre_command s then Some (cancel_workflow s r) else None
      | WorkflowExpired _ _ r \<Rightarrow> if is_pre_command s then Some (expire_workflow s r) else None)"

fun index_of :: "'a \<Rightarrow> 'a list \<Rightarrow> nat" where
  "index_of x [] = 0"
| "index_of x (y # ys) = (if x = y then 0 else Suc (index_of x ys))"

definition reduce :: "state \<Rightarrow> event \<Rightarrow> transition res" where
  "reduce s e =
     bind_res (validate_state_consistency s) (\<lambda>_.
       if event_id e \<in> set (sm_seen_event_ids (st_meta s))
       then let index = index_of (event_id e) (sm_seen_event_ids (st_meta s))
            in if sm_seen_event_hashes (st_meta s) ! index \<noteq> event_digest e
               then Inr \<lparr>tr_state = s, tr_status = REJECTED,
                         tr_reason = ''conflicting_duplicate_event'', tr_commands = []\<rparr>
               else Inr \<lparr>tr_state = s, tr_status = IGNORED,
                         tr_reason = ''duplicate_event'', tr_commands = []\<rparr>
       else if occurred_at e < sm_last_event_at (st_meta s)
       then bind_res (decide s REJECTED ''out_of_order_event'') (\<lambda>d. finalize d e)
       else (case handle s e of
               None \<Rightarrow> bind_res (decide s IGNORED ''event_not_applicable_in_phase'') (\<lambda>d. finalize d e)
             | Some d \<Rightarrow> bind_res d (\<lambda>d. finalize d e)))"

section \<open>The explicit policy matrix\<close>

fun policy_codes :: "workflow_phase \<Rightarrow> string" where
  "policy_codes COLLECTING = ''EIIIIIIIIIEE''"
| "policy_codes SEARCHING = ''EEIIIIIIIIEE''"
| "policy_codes OFFERED = ''EIEIIIIIIIEE''"
| "policy_codes SELECTED = ''EIIEIIIIIIEE''"
| "policy_codes READY_TO_SUMMARIZE = ''EIIIEEIIIIEE''"
| "policy_codes AWAITING_CONFIRMATION = ''EIIIEIEIIIEE''"
| "policy_codes AWAITING_ADJUSTMENT = ''EIIIEIIIIIEE''"
| "policy_codes EXECUTION_QUEUED = ''IIIIIIIEIIII''"
| "policy_codes EXECUTING = ''IIIIIIIIEIII''"
| "policy_codes PHASE_UNCERTAIN = ''IIIIIIIIIEII''"
| "policy_codes _ = ''IIIIIIIIIIII''"

fun event_column :: "event \<Rightarrow> nat" where
  "event_column (StartSearch _ _ _) = 0"
| "event_column (LookupRecorded _ _ _ _) = 1"
| "event_column (OfferChosen _ _ _) = 2"
| "event_column (DraftRequested _ _ _ _ _) = 3"
| "event_column (DraftAdjusted _ _ _ _) = 4"
| "event_column (SummaryRecorded _ _ _ _ _ _) = 5"
| "event_column (ConfirmationReceived _ _ _ _ _ _) = 6"
| "event_column (ExecutionStarted _ _ _) = 7"
| "event_column (ExecutionFinished _ _ _ _) = 8"
| "event_column (ManualReviewRequested _ _ _) = 9"
| "event_column (WorkflowCancelled _ _ _) = 10"
| "event_column (WorkflowExpired _ _ _) = 11"

definition matrix_evaluates :: "workflow_phase \<Rightarrow> nat \<Rightarrow> bool" where
  "matrix_evaluates p column \<longleftrightarrow> policy_codes p ! column = CHR ''E''"

end
