(* ===== verification/Event_Sourcing.thy ===== *)
theory Event_Sourcing
  imports Py_Prelude
begin

text \<open>
  The contract every reducer of the program keeps: a step takes a state and an event and either
  raises or yields a transition holding the next state. \<open>run\<close> folds a list of events over it, as
  a history replay does. The first locale asks that an accepted step keeps the invariant; the
  second adds that the step never raises on well-formed arguments.
\<close>

fun run :: "('s \<Rightarrow> 'e \<Rightarrow> 't res) \<Rightarrow> ('t \<Rightarrow> 's) \<Rightarrow> 's \<Rightarrow> 'e list \<Rightarrow> 't list res" where
  "run step target s [] = Inr []"
| "run step target s (e # es) =
     bind_res (step s e) (\<lambda>t. bind_res (run step target (target t) es) (\<lambda>ts. Inr (t # ts)))"

definition final_state :: "('t \<Rightarrow> 's) \<Rightarrow> 's \<Rightarrow> 't list \<Rightarrow> 's" where
  "final_state target s ts = (if ts = [] then s else target (last ts))"

lemma final_state_simps [simp]:
  "final_state target s [] = s"
  "final_state target s (t # ts) = final_state target (target t) ts"
  by (simp_all add: final_state_def)

lemma run_length: "run step target s es = Inr ts \<Longrightarrow> length ts = length es"
  by (induction es arbitrary: s ts) (auto simp: bind_res_Inr_iff)

locale event_sourced =
  fixes step :: "'s \<Rightarrow> 'e \<Rightarrow> 't res"
    and target :: "'t \<Rightarrow> 's"
    and good :: "'s \<Rightarrow> bool"
    and admissible :: "'e \<Rightarrow> bool"
  assumes step_keeps: "good s \<Longrightarrow> admissible e \<Longrightarrow> step s e = Inr t \<Longrightarrow> good (target t)"
begin

lemma run_keeps:
  "good s \<Longrightarrow> list_all admissible es \<Longrightarrow> run step target s es = Inr ts \<Longrightarrow>
     list_all (\<lambda>t. good (target t)) ts \<and> good (final_state target s ts)"
  by (induction es arbitrary: s ts) (auto simp: bind_res_Inr_iff dest: step_keeps)

text \<open>
  A quantity that every accepted step changes by at most what the step emits is bounded along a
  whole run: the form in which "at most one command" lifts from a step to a history.
\<close>

lemma run_emits:
  fixes emitted :: "'t \<Rightarrow> nat" and budget :: "'s \<Rightarrow> nat"
  assumes local: "\<And>s e t. good s \<Longrightarrow> admissible e \<Longrightarrow> step s e = Inr t \<Longrightarrow>
      emitted t + budget (target t) \<le> budget s"
    and "good s" "list_all admissible es" "run step target s es = Inr ts"
  shows "sum_list (map emitted ts) + budget (final_state target s ts) \<le> budget s"
  using assms(2-)
proof (induction es arbitrary: s ts)
  case Nil
  then show ?case by simp
next
  case (Cons e es)
  then obtain t ts' where t: "step s e = Inr t" and ts': "run step target (target t) es = Inr ts'"
    and ts: "ts = t # ts'" by (auto simp: bind_res_Inr_iff)
  have "good (target t)" using Cons.prems t by (auto dest: step_keeps)
  with Cons ts' have "sum_list (map emitted ts') + budget (final_state target (target t) ts')
      \<le> budget (target t)" by auto
  moreover have "emitted t + budget (target t) \<le> budget s" using Cons.prems t by (auto intro: local)
  ultimately show ?case using ts by simp
qed

text \<open>
  Labels that a step may emit only above a level of its state, raising the level to them, never
  repeat and only grow along a run.
\<close>

lemma run_increasing:
  fixes labels :: "'t \<Rightarrow> 'l::linorder list" and level :: "'s \<Rightarrow> 'l"
  assumes local: "\<And>s e t. good s \<Longrightarrow> admissible e \<Longrightarrow> step s e = Inr t \<Longrightarrow>
      sorted_wrt (<) (labels t) \<and> level s \<le> level (target t)
      \<and> (\<forall>x \<in> set (labels t). level s < x \<and> x \<le> level (target t))"
    and "good s" "list_all admissible es" "run step target s es = Inr ts"
  shows "sorted_wrt (<) (concat (map labels ts)) \<and> (\<forall>x \<in> set (concat (map labels ts)). level s < x)"
  using assms(2-)
proof (induction es arbitrary: s ts)
  case Nil
  then show ?case by simp
next
  case (Cons e es)
  then obtain t ts' where t: "step s e = Inr t" and ts': "run step target (target t) es = Inr ts'"
    and ts: "ts = t # ts'" by (auto simp: bind_res_Inr_iff)
  have good: "good (target t)" using Cons.prems t by (auto dest: step_keeps)
  have l: "sorted_wrt (<) (labels t)" "level s \<le> level (target t)"
    "\<forall>x \<in> set (labels t). level s < x \<and> x \<le> level (target t)"
    using local [OF Cons.prems(1) _ t] Cons.prems(2) by auto
  have "sorted_wrt (<) (concat (map labels ts'))" "\<forall>x \<in> set (concat (map labels ts')). level (target t) < x"
    using Cons.IH [OF good _ ts'] Cons.prems(2) by auto
  with l show ?case by (force simp: ts sorted_wrt_append)
qed

text \<open>A relation that every step respects and that composes holds from start to end of a run.\<close>

lemma run_relates:
  assumes local: "\<And>s e t. good s \<Longrightarrow> admissible e \<Longrightarrow> step s e = Inr t \<Longrightarrow> r s (target t)"
    and refl: "\<And>s. r s s" and trans: "\<And>a b c. r a b \<Longrightarrow> r b c \<Longrightarrow> r a c"
    and "good s" "list_all admissible es" "run step target s es = Inr ts"
  shows "r s (final_state target s ts)"
  using assms(4-)
proof (induction es arbitrary: s ts)
  case Nil
  then show ?case by (simp add: refl)
next
  case (Cons e es)
  then obtain t ts' where t: "step s e = Inr t" and ts': "run step target (target t) es = Inr ts'"
    and ts: "ts = t # ts'" by (auto simp: bind_res_Inr_iff)
  have "r s (target t)" "good (target t)"
    using Cons.prems t by (auto intro: local dest: step_keeps)
  then show ?case using Cons.IH [of "target t" ts'] Cons.prems ts ts' trans by auto
qed

end

locale total_event_sourced = event_sourced +
  assumes step_total: "good s \<Longrightarrow> admissible e \<Longrightarrow> \<exists>t. step s e = Inr t"
begin

lemma run_total: "good s \<Longrightarrow> list_all admissible es \<Longrightarrow> \<exists>ts. run step target s es = Inr ts"
proof (induction es arbitrary: s)
  case Nil
  then show ?case by simp
next
  case (Cons e es)
  then obtain t where t: "step s e = Inr t" using step_total [of s e] by auto
  then have "good (target t)" using Cons.prems by (auto dest: step_keeps)
  with Cons obtain ts where "run step target (target t) es = Inr ts" by auto
  with t show ?case by simp
qed

end

end
