(* ===== verification/Domain_Reducer_Laws.thy ===== *)
theory Domain_Reducer_Laws
  imports Domain_Reducer Event_Sourcing
begin

text \<open>
  The laws of the reservation reducer: it never raises on well-formed arguments and keeps every
  state well formed, one event advances the metadata by one, a workflow emits at most one command
  and only by an accepted confirmation of the draft that was presented, and the registered
  handlers are those of the explicit policy matrix.
\<close>

section \<open>Finalisation\<close>

text \<open>What a handler must deliver for \<open>finalize\<close> to succeed.\<close>

definition decision_ok :: "state \<Rightarrow> timestamp \<Rightarrow> decision \<Rightarrow> bool" where
  "decision_ok s bound d \<longleftrightarrow>
     st_meta (de_state d) = st_meta s \<and> wf_fields (de_state d)
     \<and> rebuild_state (de_state d) = Inr (de_state d)
     \<and> (\<forall>t \<in> set (internal_times (de_state d)). t \<le> bound)
     \<and> (case state_command (de_state d) of
          None \<Rightarrow> sm_command_ids (st_meta s) = [] \<and> de_commands d = []
        | Some c \<Rightarrow> rc_workflow_id c = sm_workflow_id (st_meta s) \<and> id_re (rc_command_id c)
            \<and> (if de_commands d = [] then sm_command_ids (st_meta s) = [rc_command_id c]
               else sm_command_ids (st_meta s) = [] \<and> de_commands d = [c]))"

lemma event_digest_hash [simp]: "hash_re (event_digest e)"
  by (simp add: event_digest_def)

definition next_meta :: "state_meta \<Rightarrow> event \<Rightarrow> string list \<Rightarrow> state_meta" where
  "next_meta m e new_commands =
     \<lparr>sm_workflow_id = sm_workflow_id m, sm_revision = sm_revision m + 1,
      sm_last_event_at = max (sm_last_event_at m) (occurred_at e),
      sm_seen_event_ids = sm_seen_event_ids m @ [event_id e],
      sm_seen_event_hashes = sm_seen_event_hashes m @ [event_digest e],
      sm_command_ids = sm_command_ids m @ new_commands\<rparr>"

lemma next_meta_wf:
  assumes "wf_meta m" "id_re (event_id e)" "event_id e \<notin> set (sm_seen_event_ids m)"
    and "length (sm_command_ids m @ cs) \<le> 1" "list_all id_re cs"
  shows "wf_meta (next_meta m e cs)"
  using assms by (auto simp: wf_meta_def next_meta_def)

lemma add_command_ids_fresh:
  "length (ids @ new) \<le> 1 \<Longrightarrow> add_command_ids ids new = ids @ new"
  by (cases ids; cases new) (auto simp: add_command_ids_def)

lemma advance_meta_eq:
  assumes "wf_meta m" "id_re (event_id e)" "event_id e \<notin> set (sm_seen_event_ids m)"
    and "length (sm_command_ids m @ cs) \<le> 1" "list_all id_re cs"
  shows "advance_meta m e cs = Inr (next_meta m e cs)"
proof -
  have "wf_meta (next_meta m e cs)" using assms by (rule next_meta_wf)
  from mk_meta_fixed [OF this, of "sm_last_event_at (next_meta m e cs)"] assms(3,4)
  show ?thesis by (simp add: advance_meta_def Let_def add_command_ids_fresh) (simp add: next_meta_def)
qed

lemma finalize_total:
  assumes m: "wf_meta (st_meta s)" and e: "id_re (event_id e)"
    and new: "event_id e \<notin> set (sm_seen_event_ids (st_meta s))"
    and d: "decision_ok s (max (sm_last_event_at (st_meta s)) (occurred_at e)) d"
  shows "\<exists>s'. finalize d e =
      Inr \<lparr>tr_state = s', tr_status = de_status d, tr_reason = de_reason d, tr_commands = de_commands d\<rparr>
    \<and> s' = set_meta (next_meta (st_meta s) e (map rc_command_id (de_commands d))) (de_state d)
    \<and> wf_state s'"
proof -
  let ?cs = "map rc_command_id (de_commands d)"
  let ?m = "next_meta (st_meta s) e ?cs"
  have cs: "length (sm_command_ids (st_meta s) @ ?cs) \<le> 1" "list_all id_re ?cs"
    using d m by (auto simp: decision_ok_def wf_meta_def split: option.splits if_splits)
  have meta: "st_meta (de_state d) = st_meta s" using d by (simp add: decision_ok_def)
  have adv: "advance_meta (st_meta (de_state d)) e ?cs = Inr ?m"
    using advance_meta_eq [OF m e new cs] by (simp add: meta)
  have reb: "rebuild_state (set_meta ?m (de_state d)) = Inr (set_meta ?m (de_state d))"
    using d by (intro rebuild_set_meta) (simp add: decision_ok_def)
  have cons: "validate_state_consistency (set_meta ?m (de_state d)) = Inr ()"
    using d by (auto simp: validate_state_consistency_def decision_ok_def next_meta_def list_ex_iff
        not_less split: option.splits if_splits)
  have "wf_state (set_meta ?m (de_state d))"
    using next_meta_wf [OF m e new cs] d reb cons by (simp add: wf_state_def decision_ok_def)
  then show ?thesis using adv reb cons by (simp add: finalize_def with_meta_def)
qed

section \<open>Handlers deliver\<close>

lemma wf_state_times:
  "wf_state s \<Longrightarrow> t \<in> set (internal_times s) \<Longrightarrow> t \<le> sm_last_event_at (st_meta s)"
  by (auto simp: wf_state_def validate_state_consistency_def bind_res_Inr_iff list_ex_iff not_less
      split: if_splits)

lemma wf_state_no_command:
  "wf_state s \<Longrightarrow> state_command s = None \<Longrightarrow> sm_command_ids (st_meta s) = []"
  by (auto simp: wf_state_def validate_state_consistency_def bind_res_Inr_iff split: if_splits)

lemma wf_state_command:
  "wf_state s \<Longrightarrow> state_command s = Some c \<Longrightarrow>
     sm_command_ids (st_meta s) = [rc_command_id c] \<and> rc_workflow_id c = sm_workflow_id (st_meta s)
     \<and> wf_command c \<and> id_re (rc_command_id c)"
  by (cases s)
     (auto simp: wf_state_def validate_state_consistency_def bind_res_Inr_iff wf_command_ids
        split: if_splits)

lemma keep_ok:
  assumes "wf_state s" "sm_last_event_at (st_meta s) \<le> bound"
  shows "decision_ok s bound \<lparr>de_state = s, de_status = st, de_reason = r, de_commands = []\<rparr>"
  using assms wf_state_times [OF assms(1)] wf_state_no_command [OF assms(1)] wf_state_command [OF assms(1)]
  by (fastforce simp: decision_ok_def wf_state_def split: option.splits)

lemma command_for_total:
  assumes d: "wf_draft d" and w: "id_re w"
  shows "\<exists>c. command_for w d t = Inr c \<and> wf_command c \<and> rc_workflow_id c = w
    \<and> rc_draft_id c = dr_draft_id d \<and> rc_draft_version c = dr_version d
    \<and> rc_subject_signature c = dr_subject_signature d \<and> rc_created_at c = t
    \<and> rc_payload c = \<lparr>cp_components = dr_components d, cp_customer = dr_customer d, cp_terms = dr_terms d\<rparr>"
proof -
  have comps: "wf_components (dr_components d) (dr_terms d)" using d by (simp add: wf_draft_def)
  then obtain opr where opr: "operation_for_components (dr_components d) = Inr opr"
    using operation_total by (auto simp: wf_components_def)
  obtain cid key where ids:
    "command_identity w (dr_draft_id d) (dr_version d) (dr_subject_signature d) opr = (cid, key)"
    by fastforce
  have "id_re cid" "id_re key" using command_identity_ids [OF ids] by auto
  moreover have "hash_re (dr_subject_signature d)" using d by (rule wf_draft_hash)
  ultimately show ?thesis using d w opr ids comps
    by (simp add: command_for_def mk_command_payload_def mk_reservation_command_def wf_draft_def
        wf_components_def payload_signature_def wf_command_def wf_payload_def)
qed

lemma wf_reason_lits [simp]: "wf_reason ''lead_rejected_current_draft''"
  by (simp add: wf_reason_def char_class_defs lower_def lower_char_def ordc_def)


text \<open>A handler delivers when it does not raise and its decision can be finalised.\<close>

definition delivers :: "state \<Rightarrow> timestamp \<Rightarrow> decision res \<Rightarrow> bool" where
  "delivers s bound r \<longleftrightarrow> (\<exists>d. r = Inr d \<and> decision_ok s bound d)"

lemma delivers_decide:
  "wf_state s \<Longrightarrow> sm_last_event_at (st_meta s) \<le> bound \<Longrightarrow> delivers s bound (decide s st r)"
  by (auto simp: delivers_def decide_def intro: keep_ok)

text \<open>Moving from a state without a command to another one.\<close>

lemma delivers_fresh:
  assumes "wf_state s" "state_command s = None" "state_command s' = None"
    and "st_meta s' = st_meta s" "wf_fields s'" "rebuild_state s' = Inr s'"
    and "\<And>t. t \<in> set (internal_times s') \<Longrightarrow> t \<le> bound"
  shows "delivers s bound (decide s' st r)"
  using assms wf_state_no_command [OF assms(1)]
  by (auto simp: delivers_def decide_def decision_ok_def)

text \<open>Moving from a command-bearing state to another one that holds the same command.\<close>

lemma delivers_same_command:
  assumes "wf_state s" "state_command s = Some c" "state_command s' = Some c"
    and "st_meta s' = st_meta s" "wf_fields s'" "rebuild_state s' = Inr s'"
    and "\<And>t. t \<in> set (internal_times s') \<Longrightarrow> t \<le> bound"
  shows "delivers s bound (decide s' st r)"
  using assms wf_state_command [OF assms(1,2)]
  by (auto simp: delivers_def decide_def decision_ok_def)

lemma delivers_applied [simp]: "delivers s b (applied (Inr s') r) = delivers s b (decide s' APPLIED r)"
  by (simp add: applied_def)

lemma pre_command_none: "is_pre_command s \<Longrightarrow> state_command s = None"
  by (cases s) simp_all

lemma adjustable_pre: "adjustable_draft s = Some d \<Longrightarrow> is_pre_command s"
  by (cases s) simp_all

lemma adjustable_wf: "wf_state s \<Longrightarrow> adjustable_draft s = Some d \<Longrightarrow> wf_draft d"
  by (cases s) (auto simp: wf_state_def)

lemma start_search_delivers:
  assumes "wf_state s" "is_pre_command s" "wf_query q"
  shows "delivers s b (start_search s q)"
  unfolding start_search_def
  by (rule delivers_fresh) (use assms in \<open>simp_all add: pre_command_none\<close>)

lemma record_lookup_delivers:
  assumes s: "wf_state s" "s = SearchingState m q" and b: "sm_last_event_at m \<le> b"
    and e: "wf_evidence v" "list_all wf_offer fs"
  shows "delivers s b (record_lookup s q t v fs)"
proof (cases "le_status v = POSITIVE \<and> le_service v = sq_service q
      \<and> le_query_signature v = query_signature q \<and> is_fresh v t \<and> fs \<noteq> []
      \<and> distinct (map of_offer_id fs)
      \<and> list_all (\<lambda>f. of_available f \<and> of_lookup_id f = le_lookup_id v
          \<and> of_service f = le_service v \<and> offer_matches_query f q) fs")
  case True
  have mk: "mk_offered_state m q v fs = Inr (OfferedState m q v (sort_key of_offer_id fs))"
    using True by (auto simp: mk_offered_state_def validate_offer_evidence_def list_ex_iff list_all_iff)
  have "delivers s b (decide (OfferedState m q v (sort_key of_offer_id fs)) APPLIED
      ''positive_offers_recorded'')"
    by (rule delivers_fresh)
      (use s e mk in \<open>auto simp: wf_state_def mk_offered_state_def Let_def bind_res_Inr_iff\<close>)
  moreover have "record_lookup s q t v fs = applied (mk_offered_state (st_meta s) q v fs)
      ''positive_offers_recorded''"
    unfolding record_lookup_def Let_def by (rule if_not_P) (use True in blast)
  ultimately show ?thesis using mk s by simp
next
  case False
  have "record_lookup s q t v fs = decide s REJECTED ''lookup_not_fresh_positive_or_consistent''"
    unfolding record_lookup_def Let_def by (rule if_P) (fact False)
  then show ?thesis using s b by (simp add: delivers_decide)
qed

lemma wf_state_offered:
  "wf_state (OfferedState m q v fs) \<Longrightarrow> validate_offer_evidence q v fs = Inr ()
     \<and> list_all wf_offer fs \<and> wf_evidence v \<and> wf_query q \<and> distinct (map of_offer_id fs)"
  by (auto simp: wf_state_def mk_offered_state_def Let_def bind_res_Inr_iff split: if_splits)

lemma validate_offer_evidence_Inr:
  "validate_offer_evidence q v fs = Inr () \<longleftrightarrow>
     le_status v = POSITIVE \<and> le_service v = sq_service q \<and> le_query_signature v = query_signature q
     \<and> (\<forall>f \<in> set fs. of_available f \<and> of_lookup_id f = le_lookup_id v \<and> of_service f = le_service v
          \<and> offer_matches_query f q)"
  by (auto simp: validate_offer_evidence_def list_ex_iff)

lemma choose_offer_delivers:
  assumes s: "wf_state s" "s = OfferedState m q v fs" and b: "sm_last_event_at m \<le> b"
  shows "delivers s b (choose_offer s q v fs t oid)"
proof -
  have rej: "delivers s b (decide s REJECTED r)" for r using s b by (simp add: delivers_decide)
  have "delivers s b (applied (mk_selected_state (st_meta s) q v f) r)"
    if "filter (\<lambda>f. of_offer_id f = oid) fs = [f]" for f r
  proof -
    have f: "f \<in> set fs" using that filter_set [of "\<lambda>f. of_offer_id f = oid" fs] by auto
    have "validate_offer_evidence q v [f] = Inr ()" "wf_offer f" "wf_evidence v" "wf_query q"
      using wf_state_offered [of m q v fs] s f
      by (auto simp: validate_offer_evidence_Inr list_all_iff)
    then have "delivers s b (decide (SelectedState m q v f) APPLIED r)"
      by (intro delivers_fresh) (use s in \<open>auto simp: mk_selected_state_def\<close>)
    then show ?thesis using s \<open>validate_offer_evidence q v [f] = Inr ()\<close>
      by (simp add: mk_selected_state_def)
  qed
  with rej show ?thesis by (auto simp: choose_offer_def split: list.splits)
qed


lemma terms_match_validate:
  assumes "terms_match_component_currencies cs x" "list_all of_available cs"
  shows "validate_commercial_components cs x = Inr ()"
  using assms
  by (auto simp: terms_match_component_currencies_def validate_commercial_components_def
      list_ex_iff list_all_iff)

lemma ready_delivers:
  assumes "wf_state s" "state_command s = None" "wf_draft d" "dr_created_at d = b"
  shows "delivers s b (decide (ReadyToSummarizeState (st_meta s) d) APPLIED r)"
  by (rule delivers_fresh) (use assms in auto)

lemma request_draft_delivers:
  assumes s: "wf_state s" "s = SelectedState m q v f" and b: "sm_last_event_at m \<le> b"
    and e: "id_re did" "wf_customer c" "wf_terms x"
  shows "delivers s b (request_draft s v f b did c x)"
proof -
  have rej: "delivers s b (decide s REJECTED r)" for r using s b by (simp add: delivers_decide)
  have f: "wf_offer f" "of_available f"
    using s by (auto simp: wf_state_def mk_selected_state_def bind_res_Inr_iff validate_offer_evidence_Inr)
  have "\<exists>d. build_commercial_draft did 1 b [f] c x = Inr d \<and> wf_draft d \<and> dr_created_at d = b"
    if "terms_match_component_currencies [f] x"
    using build_draft_total [of did 1 "[f]" x b c] terms_match_validate [OF that] f e
      build_draft_wf [of did 1 b "[f]" c x] by auto
  then show ?thesis
    using rej s ready_delivers [of s _ b] by (auto simp: request_draft_def)
qed

lemma adjustable_times:
  "wf_state s \<Longrightarrow> adjustable_draft s = Some d \<Longrightarrow> dr_created_at d \<le> sm_last_event_at (st_meta s)"
  using wf_state_times [of s] by (cases s) auto

lemma wf_draft_parts:
  "wf_draft d \<Longrightarrow> id_re (dr_draft_id d) \<and> 1 \<le> dr_version d \<and> dr_components d \<noteq> []
     \<and> distinct (map of_offer_id (dr_components d)) \<and> list_all of_available (dr_components d)
     \<and> list_all wf_offer (dr_components d)"
  by (auto simp: wf_draft_def wf_components_def validate_commercial_components_def list_ex_iff
      list_all_iff split: if_splits)

lemma adjust_draft_delivers:
  assumes s: "wf_state s" "adjustable_draft s = Some cur" and b: "sm_last_event_at (st_meta s) \<le> b"
    and e: "wf_customer c" "wf_terms x"
  shows "delivers s b (adjust_draft s cur b c x)"
proof -
  have rej: "delivers s b (decide s REJECTED r)" for r using s b by (simp add: delivers_decide)
  note cur = wf_draft_parts [OF adjustable_wf [OF s]]
  show ?thesis
  proof (cases "terms_match_component_currencies (dr_components cur) x")
    case False
    then show ?thesis using rej by (simp add: adjust_draft_def)
  next
    case True
    obtain d where d: "build_commercial_draft (dr_draft_id cur) (dr_version cur + 1) b
        (dr_components cur) c x = Inr d"
      using build_draft_total [of "dr_draft_id cur" "dr_version cur + 1" "dr_components cur" x b c]
        terms_match_validate [OF True] cur by auto
    have "wf_draft d" "dr_created_at d = b" using build_draft_wf [OF d] cur e by simp_all
    then have "delivers s b (decide (ReadyToSummarizeState (st_meta s) d) APPLIED r)" for r
      using s pre_command_none [OF adjustable_pre [OF s(2)]] by (intro ready_delivers)
    with rej True d show ?thesis by (simp add: adjust_draft_def)
  qed
qed

lemma record_summary_delivers:
  assumes s: "wf_state s" "s = ReadyToSummarizeState m d" and b: "sm_last_event_at m \<le> b"
    and e: "id_re sid" "id_re oid"
  shows "delivers s b (record_summary s d b sid v sig oid)"
proof -
  have rej: "delivers s b (decide s REJECTED r)" for r using s b by (simp add: delivers_decide)
  have d: "wf_draft d" "dr_created_at d \<le> b"
    using adjustable_wf [of s d] adjustable_times [of s d] s b by auto
  let ?p = "\<lparr>sp_summary_event_id = sid, sp_draft_id = dr_draft_id d, sp_draft_version = dr_version d,
      sp_subject_signature = dr_subject_signature d, sp_outbox_message_id = oid, sp_presented_at = b\<rparr>"
  have mk: "mk_summary_presented sid (dr_draft_id d) (dr_version d) (dr_subject_signature d) oid b = Inr ?p"
    using d e wf_draft_parts [OF d(1)] wf_draft_hash [OF d(1)] by (simp add: mk_summary_total)
  have p: "wf_summary ?p"
    using d e wf_draft_parts [OF d(1)] wf_draft_hash [OF d(1)] by (simp add: wf_summary_def)
  have "delivers s b (applied (mk_awaiting_confirmation_state (st_meta s) d ?p) r)" for r
    using d p s
    by (simp add: mk_awaiting_confirmation_state_def validate_summary_binding_def)
      (rule delivers_fresh; simp add: mk_awaiting_confirmation_state_def validate_summary_binding_def)
  with rej mk show ?thesis by (simp add: record_summary_def Let_def)
qed


lemma id_wf_meta: "wf_state s \<Longrightarrow> id_re (sm_workflow_id (st_meta s))"
  by (simp add: wf_state_def wf_meta_def)

text \<open>The command made from a draft binds to it.\<close>

lemma authorization_total:
  assumes "validate_summary_binding d p = Inr ()" "sp_presented_at p < at"
    and "rc_draft_id c = dr_draft_id d" "rc_draft_version c = dr_version d"
    and "rc_subject_signature c = dr_subject_signature d" "rc_created_at c = at"
    and "rc_payload c = \<lparr>cp_components = dr_components d, cp_customer = dr_customer d, cp_terms = dr_terms d\<rparr>"
  shows "validate_authorization_binding d p
     \<lparr>cr_confirmation_event_id = i, cr_decision = ACCEPT, cr_target_draft_version = dr_version d,
      cr_subject_signature = dr_subject_signature d, cr_decided_at = at\<rparr> c = Inr ()"
  using assms by (simp add: validate_authorization_binding_def)

lemma wf_state_awaiting:
  "wf_state (AwaitingConfirmationState m d p) \<Longrightarrow> wf_draft d \<and> wf_summary p
     \<and> validate_summary_binding d p = Inr () \<and> dr_created_at d \<le> sm_last_event_at m
     \<and> sm_command_ids m = [] \<and> id_re (sm_workflow_id m)"
  using wf_state_times [of "AwaitingConfirmationState m d p"]
    wf_state_no_command [of "AwaitingConfirmationState m d p"]
    id_wf_meta [of "AwaitingConfirmationState m d p"]
  by (auto simp: wf_state_def mk_awaiting_confirmation_state_def bind_res_Inr_iff)

lemma accept_delivers:
  assumes s: "wf_state (AwaitingConfirmationState m d p)" and b: "sm_last_event_at m \<le> b"
    and at: "sp_presented_at p < b" and cid: "id_re cid"
    and rec: "rec = \<lparr>cr_confirmation_event_id = cid, cr_decision = ACCEPT,
      cr_target_draft_version = dr_version d, cr_subject_signature = dr_subject_signature d,
      cr_decided_at = b\<rparr>"
  shows "\<exists>c. command_for (sm_workflow_id m) d b = Inr c
     \<and> mk_execution_queued_state m d p rec c = Inr (ExecutionQueuedState m d p rec c)
     \<and> decision_ok (AwaitingConfirmationState m d p) b
         \<lparr>de_state = ExecutionQueuedState m d p rec c, de_status = APPLIED, de_reason = r,
          de_commands = [c]\<rparr>"
proof -
  note st = wf_state_awaiting [OF s]
  then obtain c where c: "command_for (sm_workflow_id m) d b = Inr c" "wf_command c"
      "rc_workflow_id c = sm_workflow_id m" "rc_draft_id c = dr_draft_id d"
      "rc_draft_version c = dr_version d" "rc_subject_signature c = dr_subject_signature d"
      "rc_created_at c = b" and payload: "rc_payload c =
        \<lparr>cp_components = dr_components d, cp_customer = dr_customer d, cp_terms = dr_terms d\<rparr>"
    using command_for_total [of d "sm_workflow_id m" b] by blast
  have auth: "validate_authorization_binding d p rec c = Inr ()"
    unfolding rec using st at c payload by (intro authorization_total) simp_all
  then have mk: "mk_execution_queued_state m d p rec c = Inr (ExecutionQueuedState m d p rec c)"
    by (simp add: mk_execution_queued_state_def)
  have "wf_confirmation rec" "id_re (rc_command_id c)"
    using rec cid st wf_draft_parts [of d] wf_draft_hash [of d] wf_command_ids [OF c(2)]
    by (auto simp: wf_confirmation_def)
  moreover have "cr_decided_at rec = b" by (simp add: rec)
  ultimately show ?thesis using c mk st at b
    by (intro exI [of _ c]) (auto simp: decision_ok_def)
qed

lemma canonical_applied_delivers:
  assumes "wf_state s" "state_command s = None" "wf_reason r"
  shows "delivers s b (applied (mk_cancelled_state (st_meta s) q r) x)"
    and "delivers s b (applied (mk_expired_state (st_meta s) q r) x)"
proof -
  have "delivers s b (decide (CancelledState (st_meta s) q r) APPLIED x)"
    by (rule delivers_fresh) (use assms in \<open>simp_all add: mk_cancelled_state_def\<close>)
  then show "delivers s b (applied (mk_cancelled_state (st_meta s) q r) x)"
    using assms by (simp add: mk_cancelled_state_def)
  have "delivers s b (decide (ExpiredState (st_meta s) q r) APPLIED x)"
    by (rule delivers_fresh) (use assms in \<open>simp_all add: mk_expired_state_def\<close>)
  then show "delivers s b (applied (mk_expired_state (st_meta s) q r) x)"
    using assms by (simp add: mk_expired_state_def)
qed

lemma adjust_request_delivers:
  assumes s: "wf_state s" "s = AwaitingConfirmationState m d p" and b: "sm_last_event_at m \<le> b"
    and at: "sp_presented_at p < b" and cid: "id_re cid"
    and rec: "rec = \<lparr>cr_confirmation_event_id = cid, cr_decision = ADJUST,
      cr_target_draft_version = dr_version d, cr_subject_signature = dr_subject_signature d,
      cr_decided_at = b\<rparr>"
  shows "delivers s b (applied (mk_awaiting_adjustment_state m d p rec) r)"
proof -
  note st = wf_state_awaiting [OF s(1) [unfolded s(2)]]
  have mk: "mk_awaiting_adjustment_state m d p rec = Inr (AwaitingAdjustmentState m d p rec)"
    using st at by (simp add: mk_awaiting_adjustment_state_def rec)
  have "wf_confirmation rec"
    using rec cid st wf_draft_parts [of d] wf_draft_hash [of d] by (auto simp: wf_confirmation_def)
  then have "delivers s b (decide (AwaitingAdjustmentState m d p rec) APPLIED r)"
    by (intro delivers_fresh) (use s st mk at b in \<open>auto simp: rec\<close>)
  with mk show ?thesis by simp
qed

lemma receive_confirmation_delivers:
  assumes s: "wf_state s" "s = AwaitingConfirmationState m d p" and b: "sm_last_event_at m \<le> b"
    and e: "id_re cid" "1 \<le> v" "hash_re sig"
  shows "delivers s b (receive_confirmation s d p b cid k v sig)"
proof -
  have rej: "delivers s b (decide s st r)" for st r using s b by (simp add: delivers_decide)
  note st = wf_state_awaiting [OF s(1) [unfolded s(2)]]
  have mk: "mk_confirmation_record cid k v sig b = Inr
      \<lparr>cr_confirmation_event_id = cid, cr_decision = k, cr_target_draft_version = v,
       cr_subject_signature = sig, cr_decided_at = b\<rparr>" using e by (rule mk_confirmation_total)
  show ?thesis
  proof (cases "v = dr_version d \<and> sig = dr_subject_signature d \<and> sig = sp_subject_signature p
      \<and> sp_presented_at p < b")
    case False
    then show ?thesis using rej by (auto simp: receive_confirmation_def)
  next
    case True
    then have eqs: "dr_version d = v" "dr_subject_signature d = sig" "sp_subject_signature p = sig"
      "sp_presented_at p < b" "\<not> b \<le> sp_presented_at p" by auto
    show ?thesis
    proof (cases k)
      case ACCEPT
      with s accept_delivers [OF s(1) [unfolded s(2)] b eqs(4) e(1) refl] mk show ?thesis
        by (fastforce simp: receive_confirmation_def delivers_def eqs)
    next
      case REJECT
      have "wf_reason ''lead_rejected_current_draft''" by simp
      from canonical_applied_delivers(1) [OF s(1) _ this] REJECT mk s show ?thesis
        by (simp add: receive_confirmation_def eqs)
    next
      case ADJUST
      with mk s adjust_request_delivers [OF s b eqs(4) e(1) refl] show ?thesis
        by (simp add: receive_confirmation_def eqs)
    next
      case AMBIGUOUS
      with mk rej show ?thesis by (simp add: receive_confirmation_def eqs)
    qed
  qed
qed


lemma wf_state_times_le:
  "wf_state s \<Longrightarrow> sm_last_event_at (st_meta s) \<le> b \<Longrightarrow> \<forall>t \<in> set (internal_times s). t \<le> b"
  using wf_state_times [of s] by fastforce

lemma start_execution_delivers:
  assumes s: "wf_state s" "s = ExecutionQueuedState m d p c k" and b: "sm_last_event_at m \<le> b"
  shows "delivers s b (start_execution s d p c k cid)"
proof -
  have rej: "delivers s b (decide s REJECTED r)" for r using s b by (simp add: delivers_decide)
  have mk: "mk_executing_state m d p c k 1 = Inr (ExecutingState m d p c k 1)"
    using s by (auto simp: wf_state_def mk_execution_queued_state_def mk_executing_state_def
        bind_res_Inr_iff)
  have "delivers s b (decide (ExecutingState m d p c k 1) APPLIED r)" for r
    by (rule delivers_same_command [where c = k])
      (use s mk wf_state_times_le [OF s(1), of b] b in \<open>auto simp: wf_state_def\<close>)
  with rej mk s show ?thesis by (simp add: start_execution_def)
qed

lemma finish_execution_delivers:
  assumes s: "wf_state s" "s = ExecutingState m d p c k n" and b: "sm_last_event_at m \<le> b"
    and u: "wf_outcome u"
  shows "delivers s b (finish_execution s k cid u)"
proof (cases "cid = rc_command_id k \<and> eo_command_id u = rc_command_id k")
  case False
  then show ?thesis using s b by (auto simp: finish_execution_def delivers_decide)
next
  case True
  have k: "rc_created_at k \<le> b" "wf_command k"
    using s b wf_state_times_le [OF s(1), of b] by (auto simp: wf_state_def)
  note go = delivers_same_command [OF s(1), where c = k and bound = b]
  have "delivers s b (decide (SucceededState m k u) APPLIED r)" if "eo_certainty u = EFFECT_CONFIRMED" for r
    using s k u True that
    by (intro go) (auto simp: mk_succeeded_state_def validate_outcome_binding_def)
  moreover have "delivers s b (decide (UncertainState m k u) APPLIED r)" if "eo_certainty u = CALLED_UNKNOWN" for r
    using s k u True that
    by (intro go) (auto simp: mk_uncertain_state_def validate_outcome_binding_def)
  moreover have "delivers s b (decide (FailedBeforeProviderState m k u) APPLIED r)"
    if "eo_certainty u = NOT_CALLED" for r using s k u True that
    by (intro go) (auto simp: mk_failed_before_provider_state_def validate_outcome_binding_def)
  moreover have "delivers s b (decide (FailedNoEffectState m k u) APPLIED r)"
    if "eo_certainty u = CALLED_NO_EFFECT" for r using s k u True that
    by (intro go) (auto simp: mk_failed_no_effect_state_def validate_outcome_binding_def)
  ultimately show ?thesis using True s
    by (simp add: finish_execution_def mk_state_defs validate_outcome_binding_def
        split: execution_certainty.split)
qed

lemma manual_review_delivers:
  assumes s: "wf_state s" "s = UncertainState m k u" and b: "sm_last_event_at m \<le> b"
    and r: "wf_reason r"
  shows "delivers s b (request_manual_review s k u r)"
proof -
  have mk: "mk_manual_review_state m k u r = Inr (ManualReviewState m k u r)"
    using s r by (auto simp: wf_state_def mk_uncertain_state_def mk_manual_review_state_def
        bind_res_Inr_iff)
  have "delivers s b (decide (ManualReviewState m k u r) APPLIED x)" for x
    by (rule delivers_same_command [where c = k])
      (use s mk b wf_state_times_le [OF s(1), of b] in \<open>auto simp: wf_state_def\<close>)
  with mk s show ?thesis by (simp add: request_manual_review_def)
qed

lemma handle_delivers:
  assumes s: "wf_state s" and e: "wf_event e" and b: "sm_last_event_at (st_meta s) \<le> occurred_at e"
    and h: "handle s e = Some r"
  shows "delivers s (occurred_at e) r"
proof (cases e)
  case (StartSearch i t q)
  then show ?thesis using assms by (auto simp: handle_def wf_event_def start_search_delivers split: if_splits)
next
  case (LookupRecorded i t v fs)
  then show ?thesis using assms
    by (cases s) (auto simp: handle_def wf_event_def intro!: record_lookup_delivers)
next
  case (OfferChosen i t x)
  then show ?thesis using assms by (cases s) (auto simp: handle_def intro!: choose_offer_delivers)
next
  case (DraftRequested i t x c y)
  then show ?thesis using assms
    by (cases s) (auto simp: handle_def wf_event_def intro!: request_draft_delivers)
next
  case (DraftAdjusted i t c x)
  then show ?thesis using assms
    by (auto simp: handle_def wf_event_def intro!: adjust_draft_delivers split: option.splits)
next
  case (SummaryRecorded i t x v y z)
  then show ?thesis using assms
    by (cases s) (auto simp: handle_def wf_event_def intro!: record_summary_delivers)
next
  case (ConfirmationReceived i t x k v y)
  then show ?thesis using assms
    by (cases s) (auto simp: handle_def wf_event_def intro!: receive_confirmation_delivers)
next
  case (ExecutionStarted i t x)
  then show ?thesis using assms by (cases s) (auto simp: handle_def intro!: start_execution_delivers)
next
  case (ExecutionFinished i t x u)
  then show ?thesis using assms
    by (cases s) (auto simp: handle_def wf_event_def intro!: finish_execution_delivers)
next
  case (ManualReviewRequested i t x)
  then show ?thesis using assms
    by (cases s) (auto simp: handle_def wf_event_def intro!: manual_review_delivers)
next
  case (WorkflowCancelled i t x)
  then show ?thesis using assms
    by (auto simp: handle_def wf_event_def cancel_workflow_def canonical_applied_delivers
        pre_command_none split: if_splits)
next
  case (WorkflowExpired i t x)
  then show ?thesis using assms
    by (auto simp: handle_def wf_event_def expire_workflow_def canonical_applied_delivers
        pre_command_none split: if_splits)
qed


section \<open>One step\<close>

text \<open>The decision of a step on an event that was not seen before.\<close>

definition chosen :: "state \<Rightarrow> event \<Rightarrow> decision res" where
  "chosen s e =
     (if occurred_at e < sm_last_event_at (st_meta s) then decide s REJECTED ''out_of_order_event''
      else (case handle s e of
              None \<Rightarrow> decide s IGNORED ''event_not_applicable_in_phase'' | Some d \<Rightarrow> d))"

definition seen :: "state \<Rightarrow> event \<Rightarrow> bool" where
  "seen s e \<longleftrightarrow> event_id e \<in> set (sm_seen_event_ids (st_meta s))"

lemma wf_state_consistent [simp]: "wf_state s \<Longrightarrow> validate_state_consistency s = Inr ()"
  by (simp add: wf_state_def)

lemma reduce_new:
  "wf_state s \<Longrightarrow> \<not> seen s e \<Longrightarrow> reduce s e = bind_res (chosen s e) (\<lambda>d. finalize d e)"
  by (simp add: reduce_def chosen_def seen_def decide_def split: option.split)

lemma reduce_seen:
  "wf_state s \<Longrightarrow> seen s e \<Longrightarrow> reduce s e = Inr
     (if sm_seen_event_hashes (st_meta s) ! index_of (event_id e) (sm_seen_event_ids (st_meta s))
           = event_digest e
      then \<lparr>tr_state = s, tr_status = IGNORED, tr_reason = ''duplicate_event'', tr_commands = []\<rparr>
      else \<lparr>tr_state = s, tr_status = REJECTED, tr_reason = ''conflicting_duplicate_event'',
            tr_commands = []\<rparr>)"
  by (simp add: reduce_def seen_def Let_def)

lemma chosen_delivers:
  assumes "wf_state s" "wf_event e"
  shows "delivers s (max (sm_last_event_at (st_meta s)) (occurred_at e)) (chosen s e)"
proof (cases "occurred_at e < sm_last_event_at (st_meta s)")
  case True
  then show ?thesis using assms by (simp add: chosen_def delivers_decide)
next
  case False
  then have "delivers s (occurred_at e) (chosen s e)"
    using assms handle_delivers [OF assms]
    by (auto simp: chosen_def delivers_decide split: option.split)
  with False show ?thesis by (simp add: max_def)
qed

lemma wf_event_id: "wf_event e \<Longrightarrow> id_re (event_id e)"
  by (simp add: wf_event_def)

lemma wf_state_meta: "wf_state s \<Longrightarrow> wf_meta (st_meta s)"
  by (simp add: wf_state_def)

text \<open>The whole result of a step on a new event, from its decision.\<close>

lemma reduce_new_result:
  assumes "wf_state s" "wf_event e" "\<not> seen s e"
  obtains d where "chosen s e = Inr d" "st_meta (de_state d) = st_meta s"
    "reduce s e = Inr \<lparr>tr_state = set_meta (next_meta (st_meta s) e (map rc_command_id (de_commands d)))
         (de_state d), tr_status = de_status d, tr_reason = de_reason d, tr_commands = de_commands d\<rparr>"
    "wf_state (set_meta (next_meta (st_meta s) e (map rc_command_id (de_commands d))) (de_state d))"
    "decision_ok s (max (sm_last_event_at (st_meta s)) (occurred_at e)) d"
proof -
  from chosen_delivers [OF assms(1,2)] obtain d where d: "chosen s e = Inr d"
    and ok: "decision_ok s (max (sm_last_event_at (st_meta s)) (occurred_at e)) d"
    by (auto simp: delivers_def)
  from finalize_total [OF wf_state_meta [OF assms(1)] wf_event_id [OF assms(2)] _ ok] assms(3) d
    reduce_new [OF assms(1,3)] ok
  show ?thesis by (intro that) (auto simp: seen_def decision_ok_def)
qed

lemma reduce_cases [consumes 2, case_names seen new]:
  assumes "wf_state s" "wf_event e"
  obtains (seen) st r where "seen s e" "st \<noteq> APPLIED"
    "reduce s e = Inr \<lparr>tr_state = s, tr_status = st, tr_reason = r, tr_commands = []\<rparr>"
  | (new) d where "\<not> seen s e" "chosen s e = Inr d" "st_meta (de_state d) = st_meta s"
    "reduce s e = Inr \<lparr>tr_state = set_meta (next_meta (st_meta s) e (map rc_command_id (de_commands d)))
         (de_state d), tr_status = de_status d, tr_reason = de_reason d, tr_commands = de_commands d\<rparr>"
    "wf_state (set_meta (next_meta (st_meta s) e (map rc_command_id (de_commands d))) (de_state d))"
    "decision_ok s (max (sm_last_event_at (st_meta s)) (occurred_at e)) d"
proof (cases "seen s e")
  case True
  then show ?thesis using that(1) reduce_seen [OF assms(1) True] by (auto split: if_splits)
next
  case False
  from reduce_new_result [OF assms False] that(2) [OF False] show ?thesis by blast
qed

lemma reduce_keeps: "wf_state s \<Longrightarrow> wf_event e \<Longrightarrow> reduce s e = Inr t \<Longrightarrow> wf_state (tr_state t)"
  by (frule (1) reduce_cases [of s e, where thesis = "wf_state (tr_state t)"]) auto

lemma reduce_returns: "wf_state s \<Longrightarrow> wf_event e \<Longrightarrow> \<exists>t. reduce s e = Inr t"
  by (erule reduce_cases [of s e]) auto

interpretation workflow: total_event_sourced reduce tr_state wf_state wf_event
  by unfold_locales (auto intro: reduce_keeps reduce_returns)

text \<open>How many commands a workflow may still emit.\<close>

definition command_budget :: "state \<Rightarrow> nat" where
  "command_budget s = 1 - length (sm_command_ids (st_meta s))"

lemma reduce_emits:
  assumes "wf_state s" "wf_event e" "reduce s e = Inr t"
  shows "length (tr_commands t) + command_budget (tr_state t) \<le> command_budget s"
  using assms(1,2)
proof (cases rule: reduce_cases)
  case (seen st r)
  with assms(3) show ?thesis by auto
next
  case (new d)
  from new(4) assms(3) have t: "tr_commands t = de_commands d"
    "st_meta (tr_state t) = next_meta (st_meta s) e (map rc_command_id (de_commands d))" by auto
  from new(6) have "de_commands d = [] \<or> length (de_commands d) = 1 \<and> sm_command_ids (st_meta s) = []"
    by (auto simp: decision_ok_def split: option.splits if_splits)
  with t show ?thesis by (auto simp: command_budget_def next_meta_def)
qed

lemma new_workflow_total:
  assumes "id_re w"
  shows "\<exists>s. new_workflow w t = Inr s \<and> wf_state s
    \<and> s = CollectingState \<lparr>sm_workflow_id = w, sm_revision = 0, sm_last_event_at = t,
        sm_seen_event_ids = [], sm_seen_event_hashes = [], sm_command_ids = []\<rparr>"
  using assms
  by (simp add: new_workflow_def mk_state_meta_def wf_state_def wf_meta_def Let_def
      validate_state_consistency_def)

text \<open>Where a handler can lead: what each event does to a state it applies to.\<close>

lemma handle_none_terminal: "phase s \<in> {SUCCEEDED, FAILED_BEFORE_PROVIDER, FAILED_NO_EFFECT,
    MANUAL_REVIEW, CANCELLED, EXPIRED} \<Longrightarrow> handle s e = None"
  by (cases s; cases e) (simp_all add: handle_def)

lemmas handler_defs =
  start_search_def record_lookup_def choose_offer_def request_draft_def adjust_draft_def
  record_summary_def receive_confirmation_def start_execution_def finish_execution_def
  request_manual_review_def cancel_workflow_def expire_workflow_def decide_def applied_def

lemma bind_decide_commands:
  "bind_res r f = Inr d \<Longrightarrow> (\<And>x. r = Inr x \<Longrightarrow> f x = Inr d \<Longrightarrow> P) \<Longrightarrow> P"
  by (cases r) simp_all

text \<open>Only one branch of one handler emits a command.\<close>

lemma handle_emits:
  assumes "handle s e = Some (Inr d)" "de_commands d \<noteq> []"
  obtains m dr p i t cid where "s = AwaitingConfirmationState m dr p"
    "e = ConfirmationReceived i t cid ACCEPT (dr_version dr) (dr_subject_signature dr)"
    "sp_presented_at p < t"
proof (cases e)
  case (ConfirmationReceived i t cid k v sig)
  then obtain m dr p where s: "s = AwaitingConfirmationState m dr p"
    using assms by (cases s) (simp_all add: handle_def)
  have "k = ACCEPT \<and> v = dr_version dr \<and> sig = dr_subject_signature dr \<and> sp_presented_at p < t"
    using assms ConfirmationReceived s
    by (cases k)
       (auto simp: handle_def receive_confirmation_def decide_def applied_def bind_res_Inr_iff not_le
          split: if_splits)
  with that s ConfirmationReceived show ?thesis by blast
qed (use assms in \<open>auto simp: handle_def handler_defs Let_def bind_res_Inr_iff
      split: if_splits state.splits option.splits list.splits execution_certainty.splits\<close>)

end
