(* ===== verification/Domain_Example.thy ===== *)
theory Domain_Example
  imports Domain_Reducer_Laws
begin

text \<open>
  A concrete booking: one lodging offer for two adults, its draft, the state that waits for the
  lead's confirmation and the events that follow. Every well-formedness condition of the reducer
  laws is discharged here, so that the properties can be applied to these values.
\<close>

section \<open>Offer and draft\<close>

definition sample_party :: party where
  "sample_party = \<lparr>adults = 2, children = 0\<rparr>"

definition sample_query :: search_query where
  "sample_query = \<lparr>sq_service = LODGING, sq_start_date = 738000, sq_end_date = Some 738002,
     sq_start_time = None, sq_party = sample_party\<rparr>"

definition sample_money :: money where
  "sample_money = \<lparr>money_negative = False, money_cents = 125000, money_currency = ''BRL''\<rparr>"

definition sample_offer :: offer_snapshot where
  "sample_offer = \<lparr>of_offer_id = ''offer:1'', of_lookup_id = ''lookup:1'', of_service = LODGING,
     of_provider_ref = ''room:7'', of_public_label = ''Suite'', of_start_date = 738000,
     of_end_date = Some 738002, of_start_time = None, of_party = sample_party,
     of_total = sample_money, of_available = True\<rparr>"

definition sample_customer :: customer_facts where
  "sample_customer = \<lparr>cf_customer_ref = ''guest:1'', cf_full_name = ''Ana Silva'',
     cf_email = ''ana@example.com'', cf_phone_e164 = ''+5511999990000'', cf_country_code = ''BR'',
     cf_birth_date = None, cf_gender = None, cf_passengers = []\<rparr>"

definition sample_terms :: economic_terms where
  "sample_terms = \<lparr>et_payment_method = ''pix'', et_add_ons = []\<rparr>"

definition sample_draft :: commercial_draft where
  "sample_draft = projr (build_commercial_draft ''draft:1'' 1 1000 [sample_offer] sample_customer
     sample_terms)"

lemmas evaluate_text = char_class_defs ordc_def strip_def lstrip_def

lemma sample_offer_wf: "wf_offer sample_offer" "of_available sample_offer"
  by (simp_all add: wf_offer_def sample_offer_def sample_party_def sample_money_def wf_period_def
      period_error_def wf_start_time_def wf_party_def wf_money_def currency_re_def evaluate_text)

lemma sample_customer_wf: "wf_customer sample_customer"
  by code_simp

lemma sample_terms_wf: "wf_terms sample_terms"
  by code_simp

lemma sample_query_wf: "wf_query sample_query"
  by code_simp

lemma sample_currencies: "validate_commercial_components [sample_offer] sample_terms = Inr ()"
  by (simp add: validate_commercial_components_def component_currencies_def add_on_currencies_def
      sample_offer_def sample_terms_def)

lemma sample_ids:
  "id_re ''wf:1''" "id_re ''summary:1''" "id_re ''outbox:1''" "id_re ''event:9''" "id_re ''confirm:1''"
  "id_re ''event:1''" "id_re ''event:2''" "id_re ''draft:1''"
  by (simp_all add: evaluate_text)

lemmas sample_id_rules = sample_ids sample_ids [THEN strip_id_re] sample_ids [THEN require_id_fixed]

lemma sample_draft_built:
  "build_commercial_draft ''draft:1'' 1 1000 [sample_offer] sample_customer sample_terms
     = Inr sample_draft"
proof -
  obtain d where "build_commercial_draft ''draft:1'' 1 1000 [sample_offer] sample_customer
      sample_terms = Inr d"
    using build_draft_total [OF sample_ids(8), of 1 "[sample_offer]" sample_terms 1000 sample_customer]
      sample_currencies by auto
  then show ?thesis by (simp add: sample_draft_def)
qed

lemma sample_draft_wf: "wf_draft sample_draft"
  and sample_draft_fields: "dr_draft_id sample_draft = ''draft:1''" "dr_version sample_draft = 1"
    "dr_created_at sample_draft = 1000" "dr_components sample_draft = [sample_offer]"
    "dr_customer sample_draft = sample_customer" "dr_terms sample_draft = sample_terms"
  using build_draft_wf [OF sample_draft_built] sample_offer_wf sample_customer_wf sample_terms_wf
    strip_id_re [OF sample_ids(8)]
  by auto

section \<open>The state that awaits confirmation, and the lead's answer\<close>

definition sample_summary :: summary_presented where
  "sample_summary = \<lparr>sp_summary_event_id = ''summary:1'', sp_draft_id = ''draft:1'',
     sp_draft_version = 1, sp_subject_signature = dr_subject_signature sample_draft,
     sp_outbox_message_id = ''outbox:1'', sp_presented_at = 2000\<rparr>"

definition sample_meta :: state_meta where
  "sample_meta = \<lparr>sm_workflow_id = ''wf:1'', sm_revision = 0, sm_last_event_at = 2000,
     sm_seen_event_ids = [], sm_seen_event_hashes = [], sm_command_ids = []\<rparr>"

definition sample_awaiting :: state where
  "sample_awaiting = AwaitingConfirmationState sample_meta sample_draft sample_summary"

definition sample_accept :: event where
  "sample_accept = ConfirmationReceived ''event:9'' 3000 ''confirm:1'' ACCEPT 1
     (dr_subject_signature sample_draft)"

lemma sample_meta_wf: "wf_meta sample_meta"
  by (simp add: sample_meta_def wf_meta_def sample_ids del: id_re.simps)

lemma sample_summary_wf: "wf_summary sample_summary"
  using wf_draft_hash [OF sample_draft_wf] by (simp add: sample_summary_def wf_summary_def sample_ids del: id_re.simps)

lemma sample_awaiting_wf: "wf_state sample_awaiting"
  using sample_meta_wf sample_summary_wf sample_draft_wf
  by (simp add: wf_state_def sample_awaiting_def mk_awaiting_confirmation_state_def
      validate_summary_binding_def sample_draft_fields validate_state_consistency_def)
    (simp add: sample_summary_def sample_meta_def sample_draft_fields)

lemma sample_accept_wf: "wf_event sample_accept"
  using wf_draft_hash [OF sample_draft_wf] by (simp add: wf_event_def sample_accept_def sample_ids del: id_re.simps)

text \<open>The answer is accepted and a command is created.\<close>

lemma sample_accept_emits:
  "\<exists>t c. reduce sample_awaiting sample_accept = Inr t \<and> tr_commands t = [c]
     \<and> tr_status t = APPLIED \<and> phase (tr_state t) = EXECUTION_QUEUED
     \<and> state_command (tr_state t) = Some c"
proof -
  let ?rec = "\<lparr>cr_confirmation_event_id = ''confirm:1'', cr_decision = ACCEPT,
      cr_target_draft_version = dr_version sample_draft,
      cr_subject_signature = dr_subject_signature sample_draft, cr_decided_at = 3000\<rparr>"
  obtain c where c: "command_for (sm_workflow_id sample_meta) sample_draft 3000 = Inr c"
    "mk_execution_queued_state sample_meta sample_draft sample_summary ?rec c
       = Inr (ExecutionQueuedState sample_meta sample_draft sample_summary ?rec c)"
    using accept_delivers [of sample_meta sample_draft sample_summary 3000 "''confirm:1''" ?rec]
      sample_awaiting_wf sample_ids(5)
    by (auto simp: sample_awaiting_def sample_meta_def sample_summary_def)
  have mk: "mk_confirmation_record ''confirm:1'' ACCEPT 1 (dr_subject_signature sample_draft) 3000
      = Inr ?rec"
    using wf_draft_hash [OF sample_draft_wf] by (simp add: mk_confirmation_total sample_draft_fields sample_ids del: id_re.simps)
  have h: "handle sample_awaiting sample_accept = Some (Inr
      \<lparr>de_state = ExecutionQueuedState sample_meta sample_draft sample_summary ?rec c,
       de_status = APPLIED, de_reason = ''reservation_command_created'', de_commands = [c]\<rparr>)"
    using c mk
    by (simp add: handle_def sample_awaiting_def sample_accept_def receive_confirmation_def
        sample_draft_fields) (simp add: sample_summary_def)
  have new: "\<not> seen sample_awaiting sample_accept"
    by (simp add: seen_def sample_awaiting_def sample_meta_def)
  have ch: "chosen sample_awaiting sample_accept = the (handle sample_awaiting sample_accept)"
    using h by (simp add: chosen_def sample_accept_def sample_awaiting_def sample_meta_def)
  obtain d where d: "chosen sample_awaiting sample_accept = Inr d"
    "reduce sample_awaiting sample_accept = Inr \<lparr>tr_state = set_meta (next_meta
       (st_meta sample_awaiting) sample_accept (map rc_command_id (de_commands d))) (de_state d),
       tr_status = de_status d, tr_reason = de_reason d, tr_commands = de_commands d\<rparr>"
    using reduce_new_result [OF sample_awaiting_wf sample_accept_wf new] by blast
  then show ?thesis using ch h by auto
qed

end
