(* ===== verification/Domain_Workflow.thy ===== *)
theory Domain_Workflow
  imports Domain_Example
begin

text \<open>
  The properties of the reservation workflow: totality and preservation of well-formedness for a
  step and for every history, the single command, what authorises it, duplicate and late events,
  the policy matrix and the absorbing phases.
\<close>

section \<open>Totality and the invariant\<close>

text \<open>
  C18: on a well-formed state and event the reducer never raises, and the state it returns is
  well formed again: every constructor check of the new state and of its metadata, the rebuilding
  of the state with the new metadata and the cross-object consistency check succeed.
\<close>
theorem reduce_total:
  assumes "wf_state s" and "wf_event e"
  shows "\<exists>t. reduce s e = Inr t \<and> wf_state (tr_state t)"
  using reduce_returns [OF assms] reduce_keeps [OF assms] by blast

theorem reduce_total_witness:
  "\<exists>t. reduce sample_awaiting sample_accept = Inr t \<and> wf_state (tr_state t)"
  by (rule reduce_total [OF sample_awaiting_wf sample_accept_wf])

text \<open>
  C1: from a new workflow with a valid identifier, every history of well-formed events, in any
  order and with any duplicates, is processed to the end, every intermediate state is well formed,
  and the whole history emits at most one reservation command.
\<close>
theorem history_total_single_command:
  assumes "id_re w" and "list_all wf_event es"
  shows "\<exists>s ts. new_workflow w t0 = Inr s \<and> run reduce tr_state s es = Inr ts
    \<and> list_all (\<lambda>t. wf_state (tr_state t)) ts \<and> length (concat (map tr_commands ts)) \<le> 1"
proof -
  obtain s where s: "new_workflow w t0 = Inr s" "wf_state s" "command_budget s = 1"
    using new_workflow_total [OF assms(1), of t0] by (auto simp: command_budget_def)
  obtain ts where ts: "run reduce tr_state s es = Inr ts"
    using workflow.run_total [OF s(2) assms(2)] by blast
  have "sum_list (map (\<lambda>t. length (tr_commands t)) ts) + command_budget (final_state tr_state s ts)
      \<le> command_budget s"
    using reduce_emits s(2) assms(2) ts by (rule workflow.run_emits)
  then show ?thesis
    using s ts workflow.run_keeps [OF s(2) assms(2) ts] by (auto simp: length_concat comp_def)
qed

theorem history_total_single_command_witness:
  "\<exists>s ts. new_workflow ''wf:1'' 0 = Inr s
    \<and> run reduce tr_state s [StartSearch ''event:1'' 5 sample_query, sample_accept, sample_accept] = Inr ts
    \<and> list_all (\<lambda>t. wf_state (tr_state t)) ts \<and> length (concat (map tr_commands ts)) \<le> 1"
  by (rule history_total_single_command)
    (simp_all add: sample_ids sample_accept_wf sample_query_wf wf_event_def [of "StartSearch _ _ _"]
      del: id_re.simps)

section \<open>Authority for the command\<close>

text \<open>
  C2: a command comes only from an in-order, not yet seen acceptance, strictly after the summary
  was presented, of the version and subject signature of the draft that awaits confirmation; it
  carries that draft's components, customer and terms, the identity derived from the workflow,
  draft, version, signature and operation, and the workflow is then queued with this command.
\<close>
theorem command_authorized:
  assumes "wf_state s" and "wf_event e" and "reduce s e = Inr t" and "c \<in> set (tr_commands t)"
  shows "\<exists>m d p i at cid. s = AwaitingConfirmationState m d p
    \<and> e = ConfirmationReceived i at cid ACCEPT (dr_version d) (dr_subject_signature d)
    \<and> i \<notin> set (sm_seen_event_ids m) \<and> sm_last_event_at m \<le> at \<and> sp_presented_at p < at
    \<and> tr_commands t = [c] \<and> phase (tr_state t) = EXECUTION_QUEUED \<and> state_command (tr_state t) = Some c
    \<and> rc_payload c = \<lparr>cp_components = dr_components d, cp_customer = dr_customer d, cp_terms = dr_terms d\<rparr>
    \<and> rc_created_at c = at
    \<and> (rc_command_id c, rc_idempotency_key c) = command_identity (sm_workflow_id m) (dr_draft_id d)
         (dr_version d) (dr_subject_signature d) (rc_operation c)"
  using assms(1,2)
proof (cases rule: reduce_cases)
  case (seen st r)
  with assms(3,4) show ?thesis by auto
next
  case (new dec)
  have cmds: "de_commands dec = tr_commands t"
    "tr_state t = set_meta (next_meta (st_meta s) e (map rc_command_id (de_commands dec))) (de_state dec)"
    using new(4) assms(3) by auto
  have h: "handle s e = Some (Inr dec)" and ord: "sm_last_event_at (st_meta s) \<le> occurred_at e"
    using new(2) cmds assms(4) by (auto simp: chosen_def decide_def split: if_splits option.splits)
  from h cmds assms(4) have "de_commands dec \<noteq> []" by auto
  with h obtain m d p i at cid where s: "s = AwaitingConfirmationState m d p"
    and e: "e = ConfirmationReceived i at cid ACCEPT (dr_version d) (dr_subject_signature d)"
    and at: "sp_presented_at p < at" by (rule handle_emits)
  note st = wf_state_awaiting [OF assms(1) [unfolded s]]
  obtain k where k: "command_for (sm_workflow_id m) d at = Inr k" "wf_command k"
    "rc_workflow_id k = sm_workflow_id m" "rc_draft_id k = dr_draft_id d"
    "rc_draft_version k = dr_version d" "rc_subject_signature k = dr_subject_signature d"
    "rc_created_at k = at" "rc_payload k =
       \<lparr>cp_components = dr_components d, cp_customer = dr_customer d, cp_terms = dr_terms d\<rparr>"
    using command_for_total [of d "sm_workflow_id m" at] st by blast
  have "de_commands dec = [k] \<and> phase (de_state dec) = EXECUTION_QUEUED
      \<and> state_command (de_state dec) = Some k"
    using h s e k(1) \<open>de_commands dec \<noteq> []\<close>
    by (auto simp: handle_def receive_confirmation_def decide_def bind_res_Inr_iff
        mk_execution_queued_state_def split: if_splits)
  moreover from this cmds assms(4) have "c = k" by simp
  moreover have "(rc_command_id k, rc_idempotency_key k) = command_identity (sm_workflow_id m)
      (dr_draft_id d) (dr_version d) (dr_subject_signature d) (rc_operation k)"
    using k by (simp add: wf_command_def)
  ultimately show ?thesis using new(1) s e at ord cmds k(7,8) by (simp add: seen_def)
qed

theorem command_authorized_witness:
  "\<exists>t c m d p. reduce sample_awaiting sample_accept = Inr t \<and> c \<in> set (tr_commands t)
    \<and> sample_awaiting = AwaitingConfirmationState m d p \<and> cp_customer (rc_payload c) = dr_customer d"
proof -
  obtain t c where t: "reduce sample_awaiting sample_accept = Inr t" "c \<in> set (tr_commands t)"
    using sample_accept_emits by auto
  from command_authorized [OF sample_awaiting_wf sample_accept_wf t] t show ?thesis by fastforce
qed


section \<open>Duplicates and late events\<close>

lemma index_of_append: "x \<notin> set xs \<Longrightarrow> index_of x (xs @ [x]) = length xs"
  by (induction xs) auto

lemma chosen_meta_seen:
  "wf_state s \<Longrightarrow> \<not> seen s e \<Longrightarrow>
     index_of (event_id e) (sm_seen_event_ids (next_meta (st_meta s) e cs)) = length (sm_seen_event_hashes (st_meta s))"
  using wf_state_meta [of s] by (simp add: next_meta_def seen_def index_of_append wf_meta_def)

text \<open>What a state remembers of the events it processed is never forgotten.\<close>

definition remembers :: "state \<Rightarrow> state \<Rightarrow> bool" where
  "remembers a b \<longleftrightarrow> (\<exists>xs ys. sm_seen_event_ids (st_meta b) = sm_seen_event_ids (st_meta a) @ xs
     \<and> sm_seen_event_hashes (st_meta b) = sm_seen_event_hashes (st_meta a) @ ys)"

lemma remembers_refl [simp]: "remembers s s"
  by (simp add: remembers_def)

lemma remembers_trans: "remembers a b \<Longrightarrow> remembers b c \<Longrightarrow> remembers a c"
  by (auto simp: remembers_def)

lemma reduce_remembers:
  assumes "wf_state s" "wf_event e" "reduce s e = Inr t"
  shows "remembers s (tr_state t)"
  using assms(1,2)
proof (cases rule: reduce_cases)
  case (seen st r)
  with assms(3) show ?thesis by auto
next
  case (new d)
  with assms(3) show ?thesis by (auto simp: remembers_def next_meta_def)
qed

lemma index_of_in: "x \<in> set xs \<Longrightarrow> index_of x (xs @ ys) = index_of x xs \<and> index_of x xs < length xs"
  by (induction xs) auto

lemma remembers_digest:
  assumes "remembers a b" "wf_state a" "i \<in> set (sm_seen_event_ids (st_meta a))"
  shows "i \<in> set (sm_seen_event_ids (st_meta b))
    \<and> sm_seen_event_hashes (st_meta b) ! index_of i (sm_seen_event_ids (st_meta b))
      = sm_seen_event_hashes (st_meta a) ! index_of i (sm_seen_event_ids (st_meta a))"
proof -
  have "length (sm_seen_event_hashes (st_meta a)) = length (sm_seen_event_ids (st_meta a))"
    using wf_state_meta [OF assms(2)] by (simp add: wf_meta_def)
  then show ?thesis using assms(1,3) index_of_in [OF assms(3)] by (auto simp: remembers_def nth_append)
qed

text \<open>
  C33: an event delivered again, after whatever else was processed since, changes nothing and
  emits nothing: the state stays as it is, metadata included. A different event under the same
  identifier, told apart by the digest of its serialised payload, is rejected and changes nothing
  either.
\<close>
theorem redelivery_no_op:
  assumes "wf_state s" and "wf_event e" and "event_id e \<notin> set (sm_seen_event_ids (st_meta s))"
    and "reduce s e = Inr t" and "list_all wf_event es" and "run reduce tr_state (tr_state t) es = Inr ts"
    and "event_id e' = event_id e"
  shows "reduce (final_state tr_state (tr_state t) ts) e' = Inr
     \<lparr>tr_state = final_state tr_state (tr_state t) ts,
      tr_status = (if event_digest e' = event_digest e then IGNORED else REJECTED),
      tr_reason = (if event_digest e' = event_digest e then ''duplicate_event''
                   else ''conflicting_duplicate_event''), tr_commands = []\<rparr>"
proof -
  let ?s = "final_state tr_state (tr_state t) ts"
  have new: "\<not> seen s e" using assms(3) by (simp add: seen_def)
  obtain cs where m: "st_meta (tr_state t) = next_meta (st_meta s) e cs" and wf: "wf_state (tr_state t)"
    using reduce_new_result [OF assms(1,2) new] assms(4) by (metis Inr_inject select_convs(1)
        set_meta_simps(1) transition.select_convs(1))
  have mem: "event_id e' \<in> set (sm_seen_event_ids (st_meta (tr_state t)))"
    using m assms(7) new by (simp add: seen_def next_meta_def)
  have dig: "sm_seen_event_hashes (st_meta (tr_state t))
      ! index_of (event_id e') (sm_seen_event_ids (st_meta (tr_state t))) = event_digest e"
    using chosen_meta_seen [OF assms(1) new] assms(7) m by simp (simp add: next_meta_def)
  have "remembers (tr_state t) ?s"
    by (rule workflow.run_relates [where r = remembers, OF reduce_remembers remembers_refl remembers_trans wf assms(5,6)])
  note kept = remembers_digest [OF this wf mem]
  have "wf_state ?s" using workflow.run_keeps [OF wf assms(5,6)] by simp
  then show ?thesis using reduce_seen [of ?s e'] kept dig by (auto simp: seen_def)
qed

theorem redelivery_no_op_witness:
  "\<exists>t ts. reduce sample_awaiting sample_accept = Inr t
     \<and> run reduce tr_state (tr_state t) [WorkflowCancelled ''event:1'' 4000 ''lead_rejected_current_draft''] = Inr ts
     \<and> reduce (final_state tr_state (tr_state t) ts) sample_accept = Inr
         \<lparr>tr_state = final_state tr_state (tr_state t) ts, tr_status = IGNORED,
          tr_reason = ''duplicate_event'', tr_commands = []\<rparr>"
proof -
  obtain t where t: "reduce sample_awaiting sample_accept = Inr t"
    using sample_accept_emits by auto
  have new: "event_id sample_accept \<notin> set (sm_seen_event_ids (st_meta sample_awaiting))"
    by (simp add: sample_awaiting_def sample_meta_def)
  have wf: "wf_state (tr_state t)" using t reduce_keeps sample_awaiting_wf sample_accept_wf by blast
  have "wf_reason ''lead_rejected_current_draft''" by simp
  then have es: "list_all wf_event [WorkflowCancelled ''event:1'' 4000 ''lead_rejected_current_draft'']"
    by (simp add: wf_event_def sample_ids del: id_re.simps)
  obtain ts where ts: "run reduce tr_state (tr_state t)
      [WorkflowCancelled ''event:1'' 4000 ''lead_rejected_current_draft''] = Inr ts"
    using workflow.run_total [OF wf es] by blast
  from redelivery_no_op [OF sample_awaiting_wf sample_accept_wf new t es ts refl] t ts show ?thesis by simp
qed

text \<open>
  an event older than the last processed one is recorded and rejected: the state keeps every
  field but the metadata, so no delayed confirmation reaches the draft, and nothing is emitted.
\<close>
theorem late_event_rejected:
  assumes "wf_state s" and "wf_event e" and "event_id e \<notin> set (sm_seen_event_ids (st_meta s))"
    and "occurred_at e < sm_last_event_at (st_meta s)"
  shows "reduce s e = Inr \<lparr>tr_state = set_meta (next_meta (st_meta s) e []) s, tr_status = REJECTED,
     tr_reason = ''out_of_order_event'', tr_commands = []\<rparr>"
proof -
  have "chosen s e = Inr \<lparr>de_state = s, de_status = REJECTED, de_reason = ''out_of_order_event'',
      de_commands = []\<rparr>" using assms(4) by (simp add: chosen_def decide_def)
  with reduce_new_result [OF assms(1,2)] assms(3) show ?thesis by (auto simp: seen_def)
qed

theorem late_event_rejected_witness:
  "reduce sample_awaiting (StartSearch ''event:1'' 1999 sample_query) = Inr
     \<lparr>tr_state = set_meta (next_meta sample_meta (StartSearch ''event:1'' 1999 sample_query) [])
        sample_awaiting, tr_status = REJECTED, tr_reason = ''out_of_order_event'', tr_commands = []\<rparr>"
  using late_event_rejected [OF sample_awaiting_wf, of "StartSearch ''event:1'' 1999 sample_query"]
  by (simp add: wf_event_def sample_ids sample_query_wf sample_awaiting_def sample_meta_def
      del: id_re.simps)

section \<open>Policy matrix and phases\<close>

text \<open>
  the handlers registered for pairs of a state and an event class are exactly the cells the
  explicit policy matrix marks as evaluated.
\<close>
theorem matrix_agrees_with_handlers:
  "handle s e \<noteq> None \<longleftrightarrow> matrix_evaluates (phase s) (event_column e)"
  by (cases s; cases e) (simp_all add: handle_def matrix_evaluates_def)

definition terminal_phases :: "workflow_phase set" where
  "terminal_phases = {SUCCEEDED, FAILED_BEFORE_PROVIDER, FAILED_NO_EFFECT, MANUAL_REVIEW, CANCELLED, EXPIRED}"

lemma set_meta_trans: "b = set_meta m a \<Longrightarrow> c = set_meta m' b \<Longrightarrow> c = set_meta m' a"
  by simp

definition same_content :: "state \<Rightarrow> state \<Rightarrow> bool" where
  "same_content a b \<longleftrightarrow> b = set_meta (st_meta b) a"

lemma same_content_refl [simp]: "same_content a a"
  by (simp add: same_content_def)

lemma same_content_trans: "same_content a b \<Longrightarrow> same_content b c \<Longrightarrow> same_content a c"
  unfolding same_content_def by (metis set_meta_simps(6))

lemma same_content_set_meta [simp]: "same_content a (set_meta m a)"
  by (simp add: same_content_def)

lemma terminal_step:
  assumes "wf_state s" "wf_event e" "reduce s e = Inr t" "phase s \<in> terminal_phases"
  shows "same_content s (tr_state t) \<and> tr_commands t = []"
  using assms(1,2)
proof (cases rule: reduce_cases)
  case (seen st r)
  with assms(3) show ?thesis by auto
next
  case (new d)
  have "handle s e = None" using assms(4) handle_none_terminal [of s e]
    by (simp add: terminal_phases_def)
  then have "de_state d = s \<and> de_commands d = []"
    using new(2) by (auto simp: chosen_def decide_def split: if_splits)
  with new(4) assms(3) show ?thesis by auto
qed

interpretation terminal: event_sourced reduce tr_state
  "\<lambda>s. wf_state s \<and> phase s \<in> terminal_phases" wf_event
proof
  fix s e t
  assume a: "wf_state s \<and> phase s \<in> terminal_phases" "wf_event e" "reduce s e = Inr t"
  then have "same_content s (tr_state t)" using terminal_step by blast
  then have "phase (tr_state t) = phase s" unfolding same_content_def by (metis set_meta_simps(5))
  with a show "wf_state (tr_state t) \<and> phase (tr_state t) \<in> terminal_phases"
    using reduce_keeps by auto
qed

text \<open>
  the six final phases absorb every history: no later event changes the command, the outcome,
  the reason or the phase, and no command is emitted; only the metadata advances.
\<close>
theorem terminal_phases_absorb:
  assumes "wf_state s" and "list_all wf_event es" and "phase s \<in> terminal_phases"
    and "run reduce tr_state s es = Inr ts"
  shows "final_state tr_state s ts = set_meta (st_meta (final_state tr_state s ts)) s
    \<and> concat (map tr_commands ts) = []"
proof -
  have g: "wf_state s \<and> phase s \<in> terminal_phases" using assms by simp
  have "same_content s (final_state tr_state s ts)"
    by (rule terminal.run_relates [OF _ _ _ g assms(2,4)])
      (auto dest: terminal_step intro: same_content_trans)
  moreover have "sum_list (map (\<lambda>t. length (tr_commands t)) ts) + 0 \<le> 0"
    using terminal.run_emits [OF _ g assms(2,4), of "\<lambda>t. length (tr_commands t)" "\<lambda>_. 0"] terminal_step
    by fastforce
  ultimately show ?thesis by (auto simp: same_content_def)
qed


definition sample_cancelled :: state where
  "sample_cancelled = CancelledState sample_meta AWAITING_CONFIRMATION ''lead_rejected_current_draft''"

lemma sample_cancelled_wf: "wf_state sample_cancelled"
proof -
  have "wf_reason ''lead_rejected_current_draft''" by simp
  then show ?thesis using sample_meta_wf
    by (simp add: wf_state_def sample_cancelled_def mk_cancelled_state_def
        validate_state_consistency_def) (simp add: sample_meta_def)
qed

theorem terminal_phases_absorb_witness:
  "\<exists>ts. run reduce tr_state sample_cancelled [sample_accept] = Inr ts
    \<and> final_state tr_state sample_cancelled ts
        = set_meta (st_meta (final_state tr_state sample_cancelled ts)) sample_cancelled"
proof -
  have es: "list_all wf_event [sample_accept]" using sample_accept_wf by simp
  obtain ts where ts: "run reduce tr_state sample_cancelled [sample_accept] = Inr ts"
    using workflow.run_total [OF sample_cancelled_wf es] by blast
  have "phase sample_cancelled \<in> terminal_phases"
    by (simp add: sample_cancelled_def terminal_phases_def)
  from terminal_phases_absorb [OF sample_cancelled_wf es this ts] ts show ?thesis by simp
qed

section \<open>The command is kept\<close>

text \<open>How far the execution of a command has come.\<close>

fun execution_rank :: "workflow_phase \<Rightarrow> nat" where
  "execution_rank EXECUTION_QUEUED = 1"
| "execution_rank EXECUTING = 2"
| "execution_rank SUCCEEDED = 3"
| "execution_rank FAILED_BEFORE_PROVIDER = 3"
| "execution_rank FAILED_NO_EFFECT = 3"
| "execution_rank PHASE_UNCERTAIN = 3"
| "execution_rank MANUAL_REVIEW = 4"
| "execution_rank _ = 0"

definition command_progress :: "state \<Rightarrow> state \<Rightarrow> bool" where
  "command_progress a b \<longleftrightarrow>
     (state_command a \<noteq> None \<longrightarrow> state_command b = state_command a)
     \<and> execution_rank (phase a) \<le> execution_rank (phase b)"

lemma command_progress_refl [simp]: "command_progress a a"
  by (simp add: command_progress_def)

lemma command_progress_trans: "command_progress a b \<Longrightarrow> command_progress b c \<Longrightarrow> command_progress a c"
  by (auto simp: command_progress_def)

lemma command_progress_set_meta [simp]: "command_progress a (set_meta m b) = command_progress a b"
  by (simp add: command_progress_def)

lemma pre_command_progress:
  "is_pre_command s \<Longrightarrow> command_progress s s'"
  by (cases s) (simp_all add: command_progress_def)

lemma start_execution_progress:
  "start_execution (ExecutionQueuedState m d p c k) d p c k cid = Inr x \<Longrightarrow>
     command_progress (ExecutionQueuedState m d p c k) (de_state x)"
  by (auto simp: start_execution_def decide_def applied_def mk_executing_state_def bind_res_Inr_iff
      command_progress_def split: if_splits)

lemma finish_execution_progress:
  "finish_execution (ExecutingState m d p c k n) k cid u = Inr x \<Longrightarrow>
     command_progress (ExecutingState m d p c k n) (de_state x)"
  by (auto simp: finish_execution_def decide_def applied_def mk_succeeded_state_def
      mk_uncertain_state_def mk_failed_before_provider_state_def mk_failed_no_effect_state_def
      bind_res_Inr_iff command_progress_def split: if_splits execution_certainty.splits)

lemma manual_review_progress:
  "request_manual_review (UncertainState m k u) k u r = Inr x \<Longrightarrow>
     command_progress (UncertainState m k u) (de_state x)"
  by (auto simp: request_manual_review_def decide_def applied_def mk_manual_review_state_def
      bind_res_Inr_iff command_progress_def)

lemma handle_progress:
  assumes "handle s e = Some (Inr d)"
  shows "command_progress s (de_state d)"
proof (cases "is_pre_command s")
  case True
  then show ?thesis by (rule pre_command_progress)
next
  case False
  with assms show ?thesis
    by (cases s; cases e; simp add: handle_def)
      (blast dest: start_execution_progress finish_execution_progress manual_review_progress)+
qed

lemma reduce_progress:
  assumes "wf_state s" "wf_event e" "reduce s e = Inr t"
  shows "command_progress s (tr_state t)"
  using assms(1,2)
proof (cases rule: reduce_cases)
  case (seen st r)
  with assms(3) show ?thesis by auto
next
  case (new d)
  have "command_progress s (de_state d)"
    using new(2) handle_progress [of s e d]
    by (auto simp: chosen_def decide_def split: if_splits option.splits)
  with new(4) assms(3) show ?thesis by auto
qed

text \<open>
  C32: once a command exists, every history keeps exactly this command and its identifier in the
  metadata, and the execution only advances: from queued to executing to an outcome to manual
  review, never back.
\<close>
theorem command_kept_and_execution_advances:
  assumes "wf_state s" and "list_all wf_event es" and "state_command s = Some c"
    and "run reduce tr_state s es = Inr ts"
  shows "state_command (final_state tr_state s ts) = Some c
    \<and> sm_command_ids (st_meta (final_state tr_state s ts)) = [rc_command_id c]
    \<and> execution_rank (phase s) \<le> execution_rank (phase (final_state tr_state s ts))"
proof -
  have "command_progress s (final_state tr_state s ts)"
    by (rule workflow.run_relates [where r = command_progress, OF reduce_progress _ _ assms(1,2,4)])
      (auto intro: command_progress_trans)
  moreover have "wf_state (final_state tr_state s ts)"
    using workflow.run_keeps [OF assms(1,2,4)] by simp
  ultimately show ?thesis using assms(3) wf_state_command by (auto simp: command_progress_def)
qed

theorem command_kept_and_execution_advances_witness:
  "\<exists>t c ts. reduce sample_awaiting sample_accept = Inr t \<and> state_command (tr_state t) = Some c
    \<and> run reduce tr_state (tr_state t) [WorkflowCancelled ''event:1'' 4000 ''lead_rejected_current_draft'']
        = Inr ts
    \<and> state_command (final_state tr_state (tr_state t) ts) = Some c"
proof -
  obtain t c where t: "reduce sample_awaiting sample_accept = Inr t" "state_command (tr_state t) = Some c"
    using sample_accept_emits by auto
  have wf: "wf_state (tr_state t)" using t reduce_keeps sample_awaiting_wf sample_accept_wf by blast
  have "wf_reason ''lead_rejected_current_draft''" by simp
  then have es: "list_all wf_event [WorkflowCancelled ''event:1'' 4000 ''lead_rejected_current_draft'']"
    by (simp add: wf_event_def sample_ids del: id_re.simps)
  obtain ts where ts: "run reduce tr_state (tr_state t)
      [WorkflowCancelled ''event:1'' 4000 ''lead_rejected_current_draft''] = Inr ts"
    using workflow.run_total [OF wf es] by blast
  from command_kept_and_execution_advances [OF wf es t(2) ts] t ts show ?thesis by blast
qed

end
