(* ===== verification/Exec_Types.thy ===== *)
theory Exec_Types
  imports Domain_Reducer_Laws
begin

text \<open>
  \<^verbatim>\<open>reservation_execution/types.py\<close> and \<^verbatim>\<open>adapter.py\<close>: the values of durable execution. A class is a
  record, its \<open>__post_init__\<close> the constructor \<open>mk_...\<close>. A field that holds a canonical JSON
  object keeps its text; the constructor takes the object the text stands for, since a text is
  accepted exactly when it is the canonical print of an object.
\<close>

section \<open>Helpers\<close>

definition exact_hash :: "string \<Rightarrow> string \<Rightarrow> string res" where
  "exact_hash value field =
     (if hash_re value then Inr value
      else Inl (ValueError (field @ '' must be a lowercase SHA-256 hex digest'')))"

definition canonical_json_object :: "json \<Rightarrow> string \<Rightarrow> string res" where
  "canonical_json_object value field =
     (case value of JObj kvs \<Rightarrow> Inr (dumps (JObj kvs))
      | _ \<Rightarrow> Inl (ValueError (field @ '' root must be a JSON object'')))"

definition max_preparation_failures :: int where
  "max_preparation_failures = 3"

datatype ledger_status =
    QUEUED | PREPARING | DISPATCH_FENCED | OUTCOME_RECORDED | LEDGER_MANUAL_REVIEW

datatype outbox_status = PENDING | LEASED | DELIVERED

datatype outbox_kind =
    KIND_SUMMARY_PRESENTED | KIND_EXECUTION_SUCCEEDED | KIND_EXECUTION_FAILED_NO_EFFECT
  | KIND_EXECUTION_NOT_CALLED | KIND_EXECUTION_MANUAL_REVIEW

datatype preparation_disposition = REQUEUED | TERMINAL_NOT_CALLED

section \<open>Leases and claims\<close>

record lease =
  lease_owner :: string
  lease_token :: int
  lease_acquired :: timestamp
  lease_expires :: timestamp

definition mk_lease :: "string \<Rightarrow> int \<Rightarrow> timestamp \<Rightarrow> timestamp \<Rightarrow> lease res" where
  "mk_lease owner token acquired_at expires_at =
     bind_res (require_id owner ''lease.owner'') (\<lambda>own.
       if token < 1 then Inl (ValueError ''lease.fencing_token must be an integer >= 1'')
       else if expires_at \<le> acquired_at
       then Inl (ValueError ''lease.expires_at must be after lease.acquired_at'')
       else Inr \<lparr>lease_owner = own, lease_token = token, lease_acquired = acquired_at,
                 lease_expires = expires_at\<rparr>)"

record command_claim =
  cl_command :: reservation_command
  cl_workflow_revision :: int
  cl_lease :: lease
  cl_claim_count :: int
  cl_preparation_failures :: int

definition mk_command_claim ::
  "reservation_command \<Rightarrow> int \<Rightarrow> lease \<Rightarrow> int \<Rightarrow> int \<Rightarrow> command_claim res" where
  "mk_command_claim command revision lease claim_count failures =
     (if revision < 0 then Inl (ValueError ''workflow_revision must be an integer >= 0'')
      else if claim_count < 1 then Inl (ValueError ''claim_count must be an integer >= 1'')
      else if failures < 0 then Inl (ValueError ''preparation_failures must be an integer >= 0'')
      else if failures > max_preparation_failures
      then Inl (ValueError ''preparation_failures must be <= 3'')
      else Inr \<lparr>cl_command = command, cl_workflow_revision = revision, cl_lease = lease,
                cl_claim_count = claim_count, cl_preparation_failures = failures\<rparr>)"

section \<open>Dispatch\<close>

record dispatch_request =
  dq_command_id :: string
  dq_idempotency_key :: string
  dq_operation :: reservation_operation
  dq_canonical_payload :: string
  dq_payload_hash :: string

definition mk_dispatch_request ::
  "string \<Rightarrow> string \<Rightarrow> reservation_operation \<Rightarrow> json \<Rightarrow> string \<Rightarrow> dispatch_request res" where
  "mk_dispatch_request command_id idempotency_key operation payload payload_hash =
     bind_res (require_id command_id ''dispatch_request.command_id'') (\<lambda>cid.
     bind_res (require_id idempotency_key ''dispatch_request.idempotency_key'') (\<lambda>key.
     bind_res (canonical_json_object payload ''dispatch_request.canonical_payload'') (\<lambda>text.
     bind_res (exact_hash payload_hash ''dispatch_request.payload_hash'') (\<lambda>h.
       if h \<noteq> sha256_hex text
       then Inl (ValueError ''dispatch_request.payload_hash does not match canonical_payload'')
       else Inr \<lparr>dq_command_id = cid, dq_idempotency_key = key, dq_operation = operation,
                 dq_canonical_payload = text, dq_payload_hash = h\<rparr>))))"

definition dispatch_request_from_command ::
  "reservation_command \<Rightarrow> json \<Rightarrow> dispatch_request res" where
  "dispatch_request_from_command command payload =
     bind_res (canonical_json_object payload ''dispatch_request.canonical_payload'') (\<lambda>text.
       mk_dispatch_request (rc_command_id command) (rc_idempotency_key command)
         (rc_operation command) payload (sha256_hex text))"

record dispatch_permit =
  pm_command_id :: string
  pm_lease :: lease
  pm_dispatch_slot :: int
  pm_request_hash :: string
  pm_fenced_at :: timestamp

definition mk_dispatch_permit ::
  "string \<Rightarrow> lease \<Rightarrow> int \<Rightarrow> string \<Rightarrow> timestamp \<Rightarrow> dispatch_permit res" where
  "mk_dispatch_permit command_id lease slot request_hash fenced_at =
     bind_res (require_id command_id ''dispatch_permit.command_id'') (\<lambda>cid.
       if slot \<noteq> 1 then Inl (ValueError ''dispatch_slot must be exactly 1'')
       else bind_res (exact_hash request_hash ''dispatch_permit.request_hash'') (\<lambda>h.
              Inr \<lparr>pm_command_id = cid, pm_lease = lease, pm_dispatch_slot = slot,
                   pm_request_hash = h, pm_fenced_at = fenced_at\<rparr>))"

section \<open>Outbox\<close>

record outbox_message =
  om_message_id :: string
  om_idempotency_key :: string
  om_workflow_id :: string
  om_command_id :: "string option"
  om_kind :: outbox_kind
  om_template_id :: string
  om_canonical_payload :: string
  om_payload_hash :: string
  om_created_at :: timestamp

definition mk_outbox_message ::
  "string \<Rightarrow> string \<Rightarrow> string \<Rightarrow> string option \<Rightarrow> outbox_kind \<Rightarrow> string \<Rightarrow> json \<Rightarrow> string \<Rightarrow> timestamp
   \<Rightarrow> outbox_message res" where
  "mk_outbox_message message_id idempotency_key workflow_id command_id kind template_id payload
     payload_hash created_at =
     bind_res (require_id message_id ''outbox_message.message_id'') (\<lambda>mid.
     bind_res (require_id idempotency_key ''outbox_message.idempotency_key'') (\<lambda>key.
     bind_res (require_id workflow_id ''outbox_message.workflow_id'') (\<lambda>wid.
     bind_res (optional_id command_id ''outbox_message.command_id'') (\<lambda>cid.
     bind_res (require_id template_id ''outbox_message.template_id'') (\<lambda>tid.
     bind_res (canonical_json_object payload ''outbox_message.canonical_payload'') (\<lambda>text.
     bind_res (exact_hash payload_hash ''outbox_message.payload_hash'') (\<lambda>h.
       if h \<noteq> sha256_hex text
       then Inl (ValueError ''outbox_message.payload_hash does not match canonical_payload'')
       else Inr \<lparr>om_message_id = mid, om_idempotency_key = key, om_workflow_id = wid,
                 om_command_id = cid, om_kind = kind, om_template_id = tid,
                 om_canonical_payload = text, om_payload_hash = h, om_created_at = created_at\<rparr>)))))))"

record outbox_claim =
  oc_message :: outbox_message
  oc_lease :: lease
  oc_delivery_attempts :: int

definition mk_outbox_claim :: "outbox_message \<Rightarrow> lease \<Rightarrow> int \<Rightarrow> outbox_claim res" where
  "mk_outbox_claim message lease attempts =
     (if attempts < 1
      then Inl (ValueError ''outbox_claim.delivery_attempts must be an integer >= 1'')
      else if attempts \<noteq> lease_token lease
      then Inl (ValueError ''outbox claim attempts must equal its fencing token'')
      else Inr \<lparr>oc_message = message, oc_lease = lease, oc_delivery_attempts = attempts\<rparr>)"

record outbox_snapshot =
  os_message :: outbox_message
  os_status :: outbox_status
  os_lease :: "lease option"
  os_fencing_token :: int
  os_delivery_attempts :: int
  os_delivered_at :: "timestamp option"
  os_receipt_hash :: "string option"
  os_updated_at :: timestamp

definition optional_hash :: "string option \<Rightarrow> string \<Rightarrow> string option res" where
  "optional_hash v field =
     (case v of None \<Rightarrow> Inr None | Some h \<Rightarrow> bind_res (exact_hash h field) (\<lambda>x. Inr (Some x)))"

definition outbox_matrix_valid :: "outbox_snapshot \<Rightarrow> bool" where
  "outbox_matrix_valid s =
     (case os_status s of
        PENDING \<Rightarrow> os_lease s = None \<and> os_delivered_at s = None \<and> os_receipt_hash s = None
      | LEASED \<Rightarrow>
          (case os_lease s of None \<Rightarrow> False
           | Some l \<Rightarrow> os_delivery_attempts s \<ge> 1 \<and> lease_token l = os_fencing_token s
               \<and> lease_acquired l = os_updated_at s
               \<and> os_delivered_at s = None \<and> os_receipt_hash s = None)
      | DELIVERED \<Rightarrow>
          os_lease s = None \<and> os_delivery_attempts s \<ge> 1 \<and> os_receipt_hash s \<noteq> None
          \<and> (case os_delivered_at s of None \<Rightarrow> False
             | Some d \<Rightarrow> om_created_at (os_message s) \<le> d \<and> d \<le> os_updated_at s))"

definition check_outbox_snapshot :: "outbox_snapshot \<Rightarrow> outbox_snapshot res" where
  "check_outbox_snapshot s =
     (if os_fencing_token s < 0
      then Inl (ValueError ''outbox_snapshot.fencing_token must be an integer >= 0'')
      else if os_delivery_attempts s < 0
      then Inl (ValueError ''outbox_snapshot.delivery_attempts must be an integer >= 0'')
      else if os_fencing_token s \<noteq> os_delivery_attempts s
      then Inl (ValueError ''outbox fencing token must equal delivery attempts'')
      else if os_updated_at s < om_created_at (os_message s)
      then Inl (ValueError ''outbox snapshot update predates message creation'')
      else bind_res (optional_hash (os_receipt_hash s) ''outbox_snapshot.receipt_hash'') (\<lambda>_.
        if \<not> outbox_matrix_valid s
        then Inl (ValueError ''outbox snapshot status matrix is inconsistent'')
        else Inr s))"

record delivery_receipt =
  dlr_message_id :: string
  dlr_delivery_reference :: string
  dlr_receipt_hash :: string
  dlr_delivered_at :: timestamp

definition receipt_material :: "string \<Rightarrow> string \<Rightarrow> timestamp \<Rightarrow> string" where
  "receipt_material message_id delivery_reference delivered_at =
     dumps (JObj [(''message_id'', JStr message_id),
                  (''delivery_reference'', JStr delivery_reference),
                  (''delivered_at'', JStr (isoformat delivered_at))])"

definition mk_delivery_receipt ::
  "string \<Rightarrow> string \<Rightarrow> string \<Rightarrow> timestamp \<Rightarrow> delivery_receipt res" where
  "mk_delivery_receipt message_id delivery_reference receipt_hash delivered_at =
     bind_res (require_id message_id ''delivery_receipt.message_id'') (\<lambda>mid.
     bind_res (require_id delivery_reference ''delivery_receipt.delivery_reference'') (\<lambda>ref.
     bind_res (exact_hash receipt_hash ''delivery_receipt.receipt_hash'') (\<lambda>h.
       if h \<noteq> sha256_hex (receipt_material mid ref delivered_at)
       then Inl (ValueError ''delivery_receipt.receipt_hash does not match canonical receipt'')
       else Inr \<lparr>dlr_message_id = mid, dlr_delivery_reference = ref, dlr_receipt_hash = h,
                 dlr_delivered_at = delivered_at\<rparr>)))"

section \<open>Preparation failures\<close>

definition preparation_failure_reasons :: "string list" where
  "preparation_failure_reasons =
     [''active_handoff'', ''booking_profile_incomplete'', ''canary_passenger_count_unsupported'',
      ''command_serialization_failed'', ''package_peer_manual_review'', ''command_validation_failed'',
      ''effect_guard_unavailable'', ''private_binding_component_count'', ''private_binding_mismatch'',
      ''private_binding_resolver_unavailable'', ''private_binding_unavailable'',
      ''synthetic_preparation_failure'', ''synthetic_timeout'', ''unsupported_operation'',
      ''write_gate_closed'']"

definition require_preparation_failure_reason :: "string \<Rightarrow> string res" where
  "require_preparation_failure_reason value =
     bind_res (require_id value ''preparation_failure.reason'') (\<lambda>reason.
       if reason \<notin> set preparation_failure_reasons
       then Inl (ValueError ''preparation_failure.reason is outside the closed vocabulary'')
       else Inr reason)"

record preparation_failure =
  fl_reason :: string
  fl_retryable :: bool
  fl_evidence :: "string list"

definition mk_preparation_failure ::
  "string \<Rightarrow> bool \<Rightarrow> string list \<Rightarrow> preparation_failure res" where
  "mk_preparation_failure reason retryable evidence =
     bind_res (require_preparation_failure_reason reason) (\<lambda>r.
     bind_res (map_res (\<lambda>item. exact_hash item ''preparation_failure.evidence'') evidence) (\<lambda>hashes.
       Inr \<lparr>fl_reason = r, fl_retryable = retryable, fl_evidence = sort (remdups hashes)\<rparr>))"

end
