(* ===== verification/Exec_Projection.thy ===== *)
theory Exec_Projection
  imports Exec_Types
begin

text \<open>
  \<^verbatim>\<open>reservation_execution/projection.py\<close>: the ledger snapshot with its status matrix, and the
  deterministic messages that an execution outcome projects into the outbox. The stored text of
  an outcome is kept as the outcome it encodes, beside the stored hash.
\<close>

section \<open>Ledger rows\<close>

record ledger_snapshot =
  lg_command_id :: string
  lg_status :: ledger_status
  lg_claim_owner :: "string option"
  lg_fencing_token :: int
  lg_lease_acquired_at :: "timestamp option"
  lg_lease_expires_at :: "timestamp option"
  lg_claim_count :: int
  lg_preparation_failures :: int
  lg_dispatch_slots :: int
  lg_request_hash :: "string option"
  lg_fenced_at :: "timestamp option"
  lg_outcome :: "execution_outcome option"
  lg_outcome_hash :: "string option"
  lg_updated_at :: timestamp

definition lease_empty :: "ledger_snapshot \<Rightarrow> bool" where
  "lease_empty r \<longleftrightarrow> lg_claim_owner r = None \<and> lg_lease_acquired_at r = None \<and> lg_lease_expires_at r = None"

definition lease_full :: "ledger_snapshot \<Rightarrow> bool" where
  "lease_full r \<longleftrightarrow> lg_claim_owner r \<noteq> None \<and> lg_lease_acquired_at r \<noteq> None \<and> lg_lease_expires_at r \<noteq> None"

definition ledger_status_valid :: "ledger_snapshot \<Rightarrow> bool" where
  "ledger_status_valid r =
     (case lg_status r of
        QUEUED \<Rightarrow> lg_claim_owner r = None \<and> lg_dispatch_slots r = 0 \<and> lg_outcome r = None
      | PREPARING \<Rightarrow> lg_claim_owner r \<noteq> None \<and> lg_claim_count r \<ge> 1 \<and> lg_dispatch_slots r = 0
          \<and> lg_outcome r = None
      | DISPATCH_FENCED \<Rightarrow> lg_claim_owner r \<noteq> None \<and> lg_claim_count r \<ge> 1 \<and> lg_dispatch_slots r = 1
          \<and> lg_outcome r = None
      | OUTCOME_RECORDED \<Rightarrow> lg_claim_owner r = None \<and> lg_outcome r \<noteq> None
      | LEDGER_MANUAL_REVIEW \<Rightarrow> lg_claim_owner r = None \<and> lg_dispatch_slots r = 1 \<and> lg_outcome r \<noteq> None)"

definition check_ledger_snapshot :: "ledger_snapshot \<Rightarrow> ledger_snapshot res" where
  "check_ledger_snapshot r =
     (if \<not> id_re (lg_command_id r) then Inl (ValueError ''command_id must be an opaque identifier'')
      else if \<not> opt_all id_re (lg_claim_owner r)
      then Inl (ValueError ''claim_owner must be an opaque identifier or None'')
      else if lg_fencing_token r < 0
      then Inl (ValueError ''fencing_token must be an integer in 0 or greater'')
      else if lg_claim_count r < 0 then Inl (ValueError ''claim_count must be an integer in 0 or greater'')
      else if lg_preparation_failures r < 0 \<or> 3 < lg_preparation_failures r
      then Inl (ValueError ''preparation_failures must be an integer in 0..3'')
      else if lg_dispatch_slots r < 0 \<or> 1 < lg_dispatch_slots r
      then Inl (ValueError ''dispatch_slots_consumed must be an integer in 0..1'')
      else if \<not> opt_all hash_re (lg_request_hash r)
      then Inl (ValueError ''dispatch_request_hash must be a lowercase SHA-256 hex digest'')
      else if \<not> opt_all hash_re (lg_outcome_hash r)
      then Inl (ValueError ''outcome_hash must be a lowercase SHA-256 hex digest'')
      else if \<not> (lease_empty r \<or> lease_full r)
      then Inl (ValueError ''ledger lease tuple must be empty or complete'')
      else if lease_full r
              \<and> (lg_fencing_token r < 1 \<or> the (lg_lease_expires_at r) \<le> the (lg_lease_acquired_at r))
      then Inl (ValueError ''active ledger lease is invalid'')
      else if \<not> (lg_dispatch_slots r = 0 \<and> lg_request_hash r = None \<and> lg_fenced_at r = None
                 \<or> lg_dispatch_slots r = 1 \<and> lg_request_hash r \<noteq> None \<and> lg_fenced_at r \<noteq> None)
      then Inl (ValueError ''ledger dispatch tuple is inconsistent'')
      else if (lg_outcome r = None) \<noteq> (lg_outcome_hash r = None)
      then Inl (ValueError ''ledger outcome tuple is inconsistent'')
      else if \<not> ledger_status_valid r
      then Inl (ValueError ''ledger status matrix is inconsistent'')
      else Inr r)"

section \<open>Messages\<close>

definition outcome_template :: "execution_certainty \<Rightarrow> outbox_kind \<times> string \<times> string" where
  "outcome_template c =
     (case c of
        EFFECT_CONFIRMED \<Rightarrow>
          (KIND_EXECUTION_SUCCEEDED, ''reservation.execution.succeeded.v1'', ''execution_succeeded'')
      | NOT_CALLED \<Rightarrow>
          (KIND_EXECUTION_NOT_CALLED, ''reservation.execution.not_called.v1'', ''execution_not_called'')
      | CALLED_NO_EFFECT \<Rightarrow>
          (KIND_EXECUTION_FAILED_NO_EFFECT, ''reservation.execution.no_effect.v1'',
           ''execution_failed_no_effect'')
      | CALLED_UNKNOWN \<Rightarrow>
          (KIND_EXECUTION_MANUAL_REVIEW, ''reservation.execution.manual_review.v1'',
           ''manual_review_required''))"

definition execution_message_id :: "string \<Rightarrow> execution_certainty \<Rightarrow> string \<Rightarrow> string" where
  "execution_message_id command_id c template_id =
     ''outbox:'' @ sha256_hex (join ''|'' [command_id, certainty_value c, template_id])"

definition execution_message ::
  "reservation_command \<Rightarrow> execution_certainty \<Rightarrow> outbox_kind \<Rightarrow> string \<Rightarrow> string \<Rightarrow> timestamp
   \<Rightarrow> outbox_message res" where
  "execution_message command c kind template_id public_status created_at =
     (let payload = JObj [(''certainty'', JStr (certainty_value c)), (''status'', JStr public_status)];
          message_id = execution_message_id (rc_command_id command) c template_id
      in mk_outbox_message message_id message_id (rc_workflow_id command) (Some (rc_command_id command))
           kind template_id payload (sha256_hex (dumps payload)) created_at)"

definition project_preparation_failure_outbox ::
  "reservation_command \<Rightarrow> execution_outcome \<Rightarrow> timestamp \<Rightarrow> outbox_message res" where
  "project_preparation_failure_outbox command outcome created_at =
     (if eo_command_id outcome \<noteq> rc_command_id command \<or> eo_certainty outcome \<noteq> NOT_CALLED
         \<or> eo_provider_reference outcome \<noteq> None
      then Inl (ValueError ''preparation projection requires matching not_called outcome'')
      else bind_res (require_preparation_failure_reason (eo_normalized_status outcome)) (\<lambda>_.
        execution_message command NOT_CALLED KIND_EXECUTION_NOT_CALLED
          ''reservation.execution.not_called.v1'' ''preparation_failed'' created_at))"

definition project_outcome_outbox ::
  "reservation_command \<Rightarrow> execution_outcome \<Rightarrow> timestamp \<Rightarrow> outbox_message res" where
  "project_outcome_outbox command outcome created_at =
     (if eo_command_id outcome \<noteq> rc_command_id command
      then Inl (ValueError ''outcome projection requires its authorized command'')
      else if eo_certainty outcome = NOT_CALLED
      then project_preparation_failure_outbox command outcome created_at
      else (case outcome_template (eo_certainty outcome) of (kind, template_id, public_status) \<Rightarrow>
              execution_message command (eo_certainty outcome) kind template_id public_status created_at))"

section \<open>Basic facts\<close>

lemma outbox_id_ok: "id_re (execution_message_id c k t)"
proof -
  have "list_all id_char ''utbox:''" by (simp add: char_class_defs ordc_def)
  then show ?thesis
    using id_re_prefix [of "CHR ''o''" "''utbox:''" "sha256_hex r" for r]
    by (simp add: execution_message_id_def sha256_hex_chars del: id_re.simps)
qed

lemma template_ids_ok:
  "id_re ''reservation.execution.succeeded.v1''" "id_re ''reservation.execution.not_called.v1''"
  "id_re ''reservation.execution.no_effect.v1''" "id_re ''reservation.execution.manual_review.v1''"
  by (simp_all add: char_class_defs ordc_def)

lemma hash_re_exact [simp]: "hash_re h \<Longrightarrow> exact_hash h f = Inr h"
  by (simp add: exact_hash_def)

lemma execution_message_total:
  assumes "id_re (rc_workflow_id c)" "id_re (rc_command_id c)" "id_re t"
  shows "\<exists>m. execution_message c k kind t st at = Inr m \<and> om_message_id m = execution_message_id (rc_command_id c) k t
    \<and> om_command_id m = Some (rc_command_id c) \<and> om_workflow_id m = rc_workflow_id c
    \<and> om_created_at m = at \<and> om_kind m = kind"
  using assms outbox_id_ok [of "rc_command_id c" k t]
  by (simp add: execution_message_def Let_def mk_outbox_message_def optional_id_def
      canonical_json_object_def del: id_re.simps)

lemma project_outcome_total:
  assumes "wf_command c" "eo_command_id u = rc_command_id c" "eo_certainty u \<noteq> NOT_CALLED"
  shows "\<exists>m. project_outcome_outbox c u at = Inr m \<and> om_command_id m = Some (rc_command_id c)
    \<and> om_created_at m = at \<and> om_workflow_id m = rc_workflow_id c"
  using assms wf_command_ids [OF assms(1)] template_ids_ok
    execution_message_total [of c "fst (snd (outcome_template (eo_certainty u)))" "eo_certainty u"
      "fst (outcome_template (eo_certainty u))" "snd (snd (outcome_template (eo_certainty u)))" at]
  by (cases "eo_certainty u")
     (auto simp: project_outcome_outbox_def outcome_template_def wf_command_def simp del: id_re.simps)

end
