(* ===== verification/Exec_Tables.thy ===== *)
theory Exec_Tables
  imports Py_Prelude
begin

text \<open>
  SQL tables as lists of rows, with the four statements the store uses: a lookup by primary key,
  an \<open>UPDATE ... WHERE\<close> whose row count must be one, an \<open>INSERT\<close> and an ordered scan, and what
  a lookup returns after each.
\<close>

definition find_row :: "('r \<Rightarrow> 'k) \<Rightarrow> 'k \<Rightarrow> 'r list \<Rightarrow> 'r option" where
  "find_row key k rows = List.find (\<lambda>r. key r = k) rows"

definition update_where :: "('r \<Rightarrow> bool) \<Rightarrow> ('r \<Rightarrow> 'r) \<Rightarrow> 'r list \<Rightarrow> 'r list" where
  "update_where p f rows = map (\<lambda>r. if p r then f r else r) rows"

definition count_where :: "('r \<Rightarrow> bool) \<Rightarrow> 'r list \<Rightarrow> nat" where
  "count_where p rows = length (filter p rows)"

text \<open>An update guarded by its row count: the compare-and-swap of the store.\<close>

definition swap_one :: "('r \<Rightarrow> bool) \<Rightarrow> ('r \<Rightarrow> 'r) \<Rightarrow> py_error \<Rightarrow> 'r list \<Rightarrow> 'r list res" where
  "swap_one p f err rows =
     (if count_where p rows \<noteq> 1 then Inl err else Inr (update_where p f rows))"

lemma find_row_Nil [simp]: "find_row key k [] = None"
  by (simp add: find_row_def)

lemma find_row_Cons [simp]:
  "find_row key k (r # rs) = (if key r = k then Some r else find_row key k rs)"
  by (simp add: find_row_def)

lemma find_row_Some: "find_row key k rows = Some r \<Longrightarrow> r \<in> set rows \<and> key r = k"
  by (induction rows) (auto split: if_splits)

lemma find_row_None: "find_row key k rows = None \<longleftrightarrow> k \<notin> key ` set rows"
  by (induction rows) auto

lemma find_row_append:
  "find_row key k (xs @ ys) = (case find_row key k xs of Some r \<Rightarrow> Some r | None \<Rightarrow> find_row key k ys)"
  by (induction xs) auto

lemma find_row_unique:
  "distinct (map key rows) \<Longrightarrow> r \<in> set rows \<Longrightarrow> find_row key (key r) rows = Some r"
  by (induction rows) (auto simp: image_iff)

lemma set_update_where: "x \<in> set (update_where p f rows) \<Longrightarrow>
    x \<in> set rows \<and> \<not> p x \<or> (\<exists>y \<in> set rows. p y \<and> x = f y)"
  by (auto simp: update_where_def)

lemma swap_one_Inr: "swap_one p f err rows = Inr rows' \<longleftrightarrow> count_where p rows = 1 \<and> rows' = update_where p f rows"
  by (auto simp: swap_one_def)

lemma count_where_one:
  assumes "distinct (map key rows)" "find_row key k rows = Some r"
    and "\<And>x. x \<in> set rows \<Longrightarrow> p x \<Longrightarrow> key x = k" and "p r"
  shows "count_where p rows = 1"
  using assms
proof (induction rows)
  case Nil
  then show ?case by simp
next
  case (Cons x xs)
  show ?case
  proof (cases "key x = k")
    case True
    then have "filter p xs = []"
      using Cons.prems by (auto simp: filter_empty_conv)
    then show ?thesis using True Cons.prems by (simp add: count_where_def)
  next
    case False
    then have "\<not> p x" using Cons.prems by auto
    with False Cons show ?thesis by (auto simp: count_where_def)
  qed
qed

lemma find_update:
  "(\<And>r. p r \<Longrightarrow> key (f r) = key r) \<Longrightarrow>
     find_row key k (update_where p f rows) = map_option (\<lambda>r. if p r then f r else r) (find_row key k rows)"
  by (induction rows) (auto simp: update_where_def)

text \<open>A successful swap whose condition names the key hit the row of that key.\<close>

lemma swap_one_hits:
  assumes "swap_one p f err rows = Inr rows'" "distinct (map key rows)"
    and "\<And>r. p r \<Longrightarrow> key r = k" and "\<And>r. p r \<Longrightarrow> key (f r) = key r"
  shows "\<exists>r. find_row key k rows = Some r \<and> p r \<and> find_row key k rows' = Some (f r)"
proof -
  have rows': "rows' = update_where p f rows" and "filter p rows \<noteq> []"
    using assms(1) by (auto simp: swap_one_Inr count_where_def)
  then obtain r where r: "r \<in> set rows" "p r" by (auto simp: filter_empty_conv)
  with assms(2,3) have "find_row key k rows = Some r" using find_row_unique by metis
  with r show ?thesis by (simp add: rows' find_update assms(4))
qed

text \<open>The smallest row that a scan with \<open>ORDER BY ... LIMIT 1\<close> returns.\<close>

definition first_by :: "('r \<Rightarrow> 'o::linorder) \<Rightarrow> ('r \<Rightarrow> bool) \<Rightarrow> 'r list \<Rightarrow> 'r option" where
  "first_by order p rows =
     (case sort_key order (filter p rows) of [] \<Rightarrow> None | r # _ \<Rightarrow> Some r)"

lemma first_by_Some: "first_by order p rows = Some r \<Longrightarrow>
    r \<in> set rows \<and> p r \<and> (\<forall>x \<in> set rows. p x \<longrightarrow> order r \<le> order x)"
proof -
  assume "first_by order p rows = Some r"
  then obtain rs where rs: "sort_key order (filter p rows) = r # rs"
    by (auto simp: first_by_def split: list.splits)
  have mem: "set (r # rs) = {x \<in> set rows. p x}" using rs by (metis set_filter set_sort)
  have "sorted (map order (r # rs))" using rs by (metis sorted_sort_key)
  with mem show ?thesis by auto
qed

lemma first_by_None: "first_by order p rows = None \<longleftrightarrow> (\<forall>x \<in> set rows. \<not> p x)"
proof -
  have "sort_key order (filter p rows) = [] \<longleftrightarrow> filter p rows = []"
    by (metis length_0_conv length_sort)
  moreover have "first_by order p rows = None \<longleftrightarrow> sort_key order (filter p rows) = []"
    unfolding first_by_def by (cases "sort_key order (filter p rows)") simp_all
  ultimately show ?thesis by (simp add: filter_empty_conv)
qed

end
