(* ===== verification/Exec_Store.thy ===== *)
theory Exec_Store
  imports Exec_Projection Exec_Tables
begin

text \<open>
  \<^verbatim>\<open>reservation_execution/sqlite_store.py\<close>, the tables and the reads. A row that stores a
  serialised value beside its hash keeps the value; the comparison of stored and recomputed bytes
  is then the comparison of the printed values. The five tables are lists of rows. An operation
  returns \<open>Inl\<close> with the exception, in which case the transaction has rolled back, or the new
  store with its result. The store is the one \<open>SQLiteUnitOfWork.open\<close> gives, without the
  boundary relay receipts of schema version 6, so a replay starts from \<open>new_workflow\<close>.

  The renderer that recomputes a summary artifact (\<^verbatim>\<open>reservation_confirmation\<close>) is a parameter,
  \<open>summary_validator\<close>: the function \<open>validate_summary_outbox\<close>.
\<close>

section \<open>Tables\<close>

record workflow_row =
  wr_state :: state
  wr_created_at :: timestamp
  wr_updated_at :: timestamp

record event_row =
  ev_event :: event
  ev_workflow_id :: string
  ev_revision :: int

record store =
  db_workflows :: "workflow_row list"
  db_events :: "event_row list"
  db_commands :: "reservation_command list"
  db_ledger :: "ledger_snapshot list"
  db_outbox :: "outbox_snapshot list"

record persisted_transition =
  pt_state :: state
  pt_status :: transition_status
  pt_reason :: string
  pt_commands :: "reservation_command list"
  pt_duplicate :: bool

definition from_domain :: "transition \<Rightarrow> persisted_transition" where
  "from_domain t = \<lparr>pt_state = tr_state t, pt_status = tr_status t, pt_reason = tr_reason t,
     pt_commands = tr_commands t, pt_duplicate = False\<rparr>"

type_synonym summary_validator = "state \<Rightarrow> event \<Rightarrow> outbox_message \<Rightarrow> outbox_message res"

definition workflow_key :: "workflow_row \<Rightarrow> string" where
  "workflow_key r = sm_workflow_id (st_meta (wr_state r))"

definition event_key :: "event_row \<Rightarrow> string" where
  "event_key r = event_id (ev_event r)"

definition outbox_key :: "outbox_snapshot \<Rightarrow> string" where
  "outbox_key r = om_message_id (os_message r)"

definition exact_id :: "string \<Rightarrow> string \<Rightarrow> string res" where
  "exact_id value field =
     (if id_re value then Inr value
      else Inl (ValueError (field @ '' must be an exact opaque identifier'')))"

definition derived_id :: "string \<Rightarrow> string list \<Rightarrow> string" where
  "derived_id prefix parts = prefix @ '':'' @ sha256_hex (join ''|'' parts)"

section \<open>Reading workflows, commands and the ledger\<close>

definition state_from_row :: "workflow_row \<Rightarrow> state res" where
  "state_from_row r =
     (let s = wr_state r
      in bind_res (as_corruption ''workflow state serialization is invalid'' (dumps_state s)) (\<lambda>_.
         if wr_updated_at r \<noteq> sm_last_event_at (st_meta s)
         then Inl (DataCorruption ''workflow updated_at disagrees with serialized state'')
         else if wr_created_at r > wr_updated_at r
                 \<or> sm_revision (st_meta s) = 0 \<and> wr_created_at r \<noteq> wr_updated_at r
         then Inl (DataCorruption ''workflow created_at is inconsistent with its revision'')
         else Inr s))"

definition load_workflow :: "store \<Rightarrow> string \<Rightarrow> state res" where
  "load_workflow db workflow_id =
     bind_res (exact_id workflow_id ''workflow_id'') (\<lambda>wid.
       case find_row workflow_key wid (db_workflows db) of
         None \<Rightarrow> Inl (WorkflowNotFound (''workflow not found: '' @ wid))
       | Some row \<Rightarrow> state_from_row row)"

definition load_command :: "store \<Rightarrow> string \<Rightarrow> reservation_command res" where
  "load_command db command_id =
     bind_res (exact_id command_id ''command_id'') (\<lambda>cid.
       case find_row rc_command_id cid (db_commands db) of
         None \<Rightarrow> Inl (CommandNotFound (''command not found: '' @ cid))
       | Some c \<Rightarrow> Inr c)"

definition ledger_timeline :: "reservation_command \<Rightarrow> ledger_snapshot \<Rightarrow> unit res" where
  "ledger_timeline command s =
     (if lg_updated_at s < rc_created_at command
      then Inl (DataCorruption ''execution ledger predates its command'')
      else if lg_status s = QUEUED \<and> lg_claim_count s = 0 \<and> lg_updated_at s \<noteq> rc_created_at command
      then Inl (DataCorruption ''initial queued ledger timestamp disagrees with command'')
      else if lg_status s \<in> {PREPARING, DISPATCH_FENCED}
         \<and> (case (lg_lease_acquired_at s, lg_lease_expires_at s) of
              (Some a, Some x) \<Rightarrow> \<not> (a \<le> lg_updated_at s \<and> lg_updated_at s < x)
            | _ \<Rightarrow> True)
      then Inl (DataCorruption ''active execution lease timeline is impossible'')
      else if lg_status s = DISPATCH_FENCED
         \<and> (case (lg_fenced_at s, lg_lease_acquired_at s) of
              (Some f, Some a) \<Rightarrow> f \<noteq> lg_updated_at s \<or> f < a
            | _ \<Rightarrow> True)
      then Inl (DataCorruption ''dispatch fence timeline is impossible'')
      else if \<not> opt_all (\<lambda>f. f \<le> lg_updated_at s) (lg_fenced_at s)
      then Inl (DataCorruption ''dispatch fence timestamp exceeds ledger update'')
      else Inr ())"

definition outcome_ledger_status :: "execution_outcome \<Rightarrow> ledger_status" where
  "outcome_ledger_status u =
     (if eo_certainty u = CALLED_UNKNOWN then LEDGER_MANUAL_REVIEW else OUTCOME_RECORDED)"

definition ledger_outcome_check :: "reservation_command \<Rightarrow> ledger_snapshot \<Rightarrow> unit res" where
  "ledger_outcome_check command s =
     (case lg_outcome s of
        None \<Rightarrow> Inr ()
      | Some u \<Rightarrow>
          if lg_outcome_hash s \<noteq> Some (sha256_hex (dumps_outcome u))
          then Inl (DataCorruption ''execution outcome hash mismatch'')
          else if eo_command_id u \<noteq> rc_command_id command
          then Inl (DataCorruption ''execution outcome belongs to another command'')
          else if lg_dispatch_slots s = 0
          then (if lg_status s \<noteq> OUTCOME_RECORDED \<or> eo_certainty u \<noteq> NOT_CALLED
                then Inl (DataCorruption ''pre-dispatch outcome certainty/status matrix is invalid'')
                else Inr ())
          else (if eo_certainty u = NOT_CALLED \<or> lg_status s \<noteq> outcome_ledger_status u
                then Inl (DataCorruption ''post-dispatch outcome certainty/status matrix is invalid'')
                else Inr ()))"

definition load_ledger :: "store \<Rightarrow> string \<Rightarrow> ledger_snapshot res" where
  "load_ledger db command_id =
     bind_res (load_command db command_id) (\<lambda>command.
       case find_row lg_command_id (rc_command_id command) (db_ledger db) of
         None \<Rightarrow> Inl (DataCorruption ''authorized command has no execution ledger'')
       | Some row \<Rightarrow>
           bind_res (as_corruption ''execution ledger row is invalid'' (check_ledger_snapshot row)) (\<lambda>s.
           bind_res (ledger_timeline command s) (\<lambda>_.
           bind_res (ledger_outcome_check command s) (\<lambda>_. Inr s))))"

section \<open>Replaying the event history\<close>

fun replay_rows ::
  "state \<Rightarrow> string \<Rightarrow> int option \<Rightarrow> int \<Rightarrow> state \<Rightarrow> state option \<Rightarrow> event_row list
   \<Rightarrow> (state \<times> state option) res" where
  "replay_rows current wid before expected s historical [] = Inr (s, historical)"
| "replay_rows current wid before expected s historical (row # rows) =
     (if ev_workflow_id row \<noteq> wid \<or> ev_revision row \<noteq> expected
      then Inl (DataCorruption ''workflow event history has a revision gap or owner mismatch'')
      else if ev_revision row < 1 then Inl (DataCorruption ''event revision is invalid'')
      else if sm_seen_event_ids (st_meta current) ! nat (expected - 1) \<noteq> event_id (ev_event row)
         \<or> sm_seen_event_hashes (st_meta current) ! nat (expected - 1) \<noteq> event_digest (ev_event row)
      then Inl (DataCorruption ''workflow metadata disagrees with durable event history'')
      else let historical' = (if before = Some expected then Some s else historical)
      in bind_res (reduce s (ev_event row)) (\<lambda>t.
         if sm_revision (st_meta (tr_state t)) \<noteq> expected
         then Inl (DataCorruption ''historical reducer replay did not advance one revision'')
         else replay_rows current wid before (expected + 1) (tr_state t) historical' rows))"

definition workflow_event_rows :: "store \<Rightarrow> string \<Rightarrow> event_row list" where
  "workflow_event_rows db wid = sort_key ev_revision (filter (\<lambda>r. ev_workflow_id r = wid) (db_events db))"

definition replay_workflow_history :: "store \<Rightarrow> string \<Rightarrow> int option \<Rightarrow> state res" where
  "replay_workflow_history db workflow_id before =
     (case find_row workflow_key workflow_id (db_workflows db) of
        None \<Rightarrow> Inl (DataCorruption ''event history references a missing workflow'')
      | Some row \<Rightarrow>
          bind_res (state_from_row row) (\<lambda>current.
          if \<not> opt_all (\<lambda>b. 1 \<le> b \<and> b \<le> sm_revision (st_meta current)) before
          then Inl (DataCorruption ''historical target revision is outside the workflow'')
          else bind_res (new_workflow workflow_id (wr_created_at row)) (\<lambda>s0.
          let rows = workflow_event_rows db workflow_id
          in if int (length rows) \<noteq> sm_revision (st_meta current)
          then Inl (DataCorruption ''workflow event row count disagrees with revision'')
          else bind_res (replay_rows current workflow_id before 1 s0 None rows) (\<lambda>(s, historical).
          if s \<noteq> current
          then Inl (DataCorruption ''workflow state diverges from full reducer replay'')
          else (case before of
                  None \<Rightarrow> Inr s
                | Some _ \<Rightarrow>
                    (case historical of
                       None \<Rightarrow> Inl (DataCorruption ''historical target revision was not found'')
                     | Some h \<Rightarrow> Inr h))))))"

end
