(* ===== verification/Exec_History.thy ===== *)
theory Exec_History
  imports Exec_Store
begin

text \<open>
  The verifying reads of \<^verbatim>\<open>sqlite_store.py\<close>: an outbox message is only returned when the event
  history of its workflow, replayed through the reducer, proves that it is the message its summary
  event or execution outcome projects.
\<close>

definition terminal_state_matches_outcome :: "state \<Rightarrow> reservation_command \<Rightarrow> execution_outcome \<Rightarrow> bool" where
  "terminal_state_matches_outcome s command outcome \<longleftrightarrow>
     phase s = (case eo_certainty outcome of
                  EFFECT_CONFIRMED \<Rightarrow> SUCCEEDED
                | CALLED_NO_EFFECT \<Rightarrow> FAILED_NO_EFFECT
                | CALLED_UNKNOWN \<Rightarrow> MANUAL_REVIEW
                | NOT_CALLED \<Rightarrow> FAILED_BEFORE_PROVIDER)
     \<and> state_command s = Some command
     \<and> (case s of
          SucceededState _ _ u \<Rightarrow> u = outcome
        | FailedBeforeProviderState _ _ u \<Rightarrow> u = outcome
        | FailedNoEffectState _ _ u \<Rightarrow> u = outcome
        | ManualReviewState _ _ u _ \<Rightarrow> u = outcome
        | _ \<Rightarrow> False)
     \<and> sm_command_ids (st_meta s) = [rc_command_id command]"

text \<open>The identifier of the event that finishes an execution.\<close>

definition finished_event_id :: "reservation_command \<Rightarrow> execution_outcome \<Rightarrow> string \<Rightarrow> string" where
  "finished_event_id command outcome outcome_hash =
     (if eo_certainty outcome = NOT_CALLED
      then derived_id ''event'' [''preparation_not_called'', rc_command_id command]
      else derived_id ''event'' [''execution_outcome'', rc_command_id command, outcome_hash])"

definition review_event_id :: "reservation_command \<Rightarrow> string \<Rightarrow> string" where
  "review_event_id command outcome_hash =
     derived_id ''event'' [''manual_review'', rc_command_id command, outcome_hash]"

fun is_finish_or_review :: "event \<Rightarrow> bool" where
  "is_finish_or_review (ExecutionFinished _ _ _ _) = True"
| "is_finish_or_review (ManualReviewRequested _ _ _) = True"
| "is_finish_or_review _ = False"

definition verify_execution_outcome_history ::
  "store \<Rightarrow> reservation_command \<Rightarrow> execution_outcome \<Rightarrow> ledger_snapshot \<Rightarrow> unit res" where
  "verify_execution_outcome_history db command outcome ledger =
     bind_res (replay_workflow_history db (rc_workflow_id command) None) (\<lambda>s.
     if \<not> terminal_state_matches_outcome s command outcome
        \<or> sm_last_event_at (st_meta s) \<noteq> lg_updated_at ledger
     then Inl (DataCorruption ''execution outcome disagrees with terminal workflow state'')
     else
       let rows = filter (\<lambda>r. is_finish_or_review (ev_event r)) (workflow_event_rows db (rc_workflow_id command));
           unknown = eo_certainty outcome = CALLED_UNKNOWN;
           expected_count = (if unknown then 2 else 1 :: nat);
           outcome_hash = the (lg_outcome_hash ledger)
       in if length rows \<noteq> expected_count
          then Inl (DataCorruption ''execution outcome has the wrong terminal event count'')
          else
            let finished = ev_event (rows ! 0); finished_revision = ev_revision (rows ! 0)
            in if (case finished of
                     ExecutionFinished i at cid u \<Rightarrow>
                       i \<noteq> finished_event_id command outcome outcome_hash
                       \<or> cid \<noteq> rc_command_id command \<or> u \<noteq> outcome \<or> at \<noteq> lg_updated_at ledger
                       \<or> finished_revision \<noteq> sm_revision (st_meta s) - (int expected_count - 1)
                   | _ \<Rightarrow> True)
               then Inl (DataCorruption ''execution outcome has no exact owning finished event'')
               else if \<not> unknown then Inr ()
               else if (case (ev_event (rows ! 1), s) of
                          (ManualReviewRequested i at r, ManualReviewState _ _ _ reason) \<Rightarrow>
                            i \<noteq> review_event_id command outcome_hash
                            \<or> r \<noteq> ''provider_effect_uncertain'' \<or> at \<noteq> lg_updated_at ledger
                            \<or> ev_revision (rows ! 1) \<noteq> sm_revision (st_meta s) \<or> reason \<noteq> r
                        | _ \<Rightarrow> True)
               then Inl (DataCorruption ''uncertain outcome has no exact manual-review event'')
               else Inr ())"

definition verify_execution_outbox_projection :: "store \<Rightarrow> outbox_message \<Rightarrow> unit res" where
  "verify_execution_outbox_projection db message =
     (case om_command_id message of
        None \<Rightarrow> Inl (DataCorruption ''execution outbox requires an authorized command'')
      | Some cid \<Rightarrow>
          bind_res (load_command db cid) (\<lambda>command.
          bind_res (load_ledger db (rc_command_id command)) (\<lambda>ledger.
          case lg_outcome ledger of
            None \<Rightarrow> Inl (DataCorruption ''execution outbox has no matching durable outcome'')
          | Some outcome \<Rightarrow>
              if om_workflow_id message \<noteq> rc_workflow_id command \<or> lg_outcome_hash ledger = None
                 \<or> lg_updated_at ledger \<noteq> om_created_at message
              then Inl (DataCorruption ''execution outbox has no matching durable outcome'')
              else bind_res (as_corruption ''execution outbox projection is invalid''
                (bind_res (verify_execution_outcome_history db command outcome ledger) (\<lambda>_.
                 if lg_dispatch_slots ledger = 0
                 then (if lg_status ledger \<noteq> OUTCOME_RECORDED \<or> eo_certainty outcome \<noteq> NOT_CALLED
                       then Inl (ValueError ''preparation outcome matrix is invalid'')
                       else project_preparation_failure_outbox command outcome (om_created_at message))
                 else (if eo_certainty outcome = NOT_CALLED
                          \<or> lg_status ledger \<notin> {OUTCOME_RECORDED, LEDGER_MANUAL_REVIEW}
                       then Inl (ValueError ''post-fence outcome matrix is invalid'')
                       else project_outcome_outbox command outcome (om_created_at message))))) (\<lambda>expected.
              if message \<noteq> expected
              then Inl (DataCorruption ''execution outbox diverges from its durable outcome'')
              else Inr ()))))"

text \<open>The summary events of a workflow that name an outbox message.\<close>

fun summary_message_of :: "event \<Rightarrow> string option" where
  "summary_message_of (SummaryRecorded _ _ _ _ _ oid) = Some oid"
| "summary_message_of _ = None"

definition verify_summary_outbox_projection ::
  "summary_validator \<Rightarrow> store \<Rightarrow> outbox_message \<Rightarrow> unit res" where
  "verify_summary_outbox_projection validate db message =
     (case filter (\<lambda>r. summary_message_of (ev_event r) = Some (om_message_id message))
             (workflow_event_rows db (om_workflow_id message)) of
        [] \<Rightarrow> Inl (DataCorruption ''summary outbox has no owning SummaryRecorded event'')
      | [row] \<Rightarrow>
          bind_res (replay_workflow_history db (om_workflow_id message) (Some (ev_revision row))) (\<lambda>historical.
          bind_res (as_corruption ''summary outbox diverges from its historical Phase 4 artifact''
                     (validate historical (ev_event row) message)) (\<lambda>_. Inr ()))
      | _ \<Rightarrow> Inl (DataCorruption ''multiple summary events reference one outbox message''))"

definition outbox_snapshot_from_row :: "store \<Rightarrow> outbox_snapshot \<Rightarrow> outbox_snapshot res" where
  "outbox_snapshot_from_row db row =
     bind_res (as_corruption ''outbox message row is invalid''
       (bind_res (case os_lease row of
                    None \<Rightarrow> Inr None
                  | Some l \<Rightarrow> bind_res (mk_lease (lease_owner l) (os_fencing_token row)
                                (lease_acquired l) (lease_expires l)) (\<lambda>l'. Inr (Some l'))) (\<lambda>l.
        check_outbox_snapshot (row\<lparr>os_lease := l\<rparr>)))) (\<lambda>s.
     if os_status s = LEASED
        \<and> (case os_lease s of None \<Rightarrow> True
           | Some l \<Rightarrow> lease_acquired l \<noteq> os_updated_at s \<or> os_updated_at s \<ge> lease_expires l)
     then Inl (DataCorruption ''leased outbox timeline is invalid'')
     else (case om_command_id (os_message s) of
             None \<Rightarrow> Inr s
           | Some cid \<Rightarrow>
               bind_res (load_command db cid) (\<lambda>command.
                 if rc_workflow_id command \<noteq> om_workflow_id (os_message s)
                 then Inl (DataCorruption ''outbox command belongs to another workflow'')
                 else Inr s)))"

definition load_outbox_snapshot :: "summary_validator \<Rightarrow> store \<Rightarrow> string \<Rightarrow> outbox_snapshot res" where
  "load_outbox_snapshot validate db message_id =
     bind_res (exact_id message_id ''message_id'') (\<lambda>mid.
       case find_row outbox_key mid (db_outbox db) of
         None \<Rightarrow> Inl (OutboxNotFound (''outbox message not found: '' @ mid))
       | Some row \<Rightarrow>
           bind_res (outbox_snapshot_from_row db row) (\<lambda>s.
           bind_res (if om_kind (os_message s) = KIND_SUMMARY_PRESENTED
                     then verify_summary_outbox_projection validate db (os_message s)
                     else verify_execution_outbox_projection db (os_message s)) (\<lambda>_. Inr s)))"

definition load_outbox :: "summary_validator \<Rightarrow> store \<Rightarrow> string \<Rightarrow> outbox_message res" where
  "load_outbox validate db message_id =
     bind_res (load_outbox_snapshot validate db message_id) (\<lambda>s. Inr (os_message s))"

end
