(* ===== verification/Exec_Apply.thy ===== *)
theory Exec_Apply
  imports Exec_History
begin

text \<open>
  The writing helpers of \<^verbatim>\<open>sqlite_store.py\<close> with \<open>create_workflow\<close> and \<open>apply_event\<close>. A unique or
  primary key violation is SQLite's \<open>IntegrityError\<close>, which the transaction turns into
  \<open>DataCorruption\<close>; foreign keys always hold because the referenced row was read before.
\<close>

section \<open>Writing rows\<close>

definition integrity_error :: "string \<Rightarrow> py_error" where
  "integrity_error operation = DataCorruption (operation @ '' violated SQLite integrity'')"

definition event_exists :: "store \<Rightarrow> string \<Rightarrow> bool" where
  "event_exists db eid \<longleftrightarrow> find_row event_key eid (db_events db) \<noteq> None"

definition insert_event :: "string \<Rightarrow> store \<Rightarrow> string \<Rightarrow> event \<Rightarrow> int \<Rightarrow> store res" where
  "insert_event operation db workflow_id e revision =
     (if event_exists db (event_id e)
         \<or> list_ex (\<lambda>r. ev_workflow_id r = workflow_id \<and> ev_revision r = revision) (db_events db)
      then Inl (integrity_error operation)
      else Inr (db\<lparr>db_events := db_events db
             @ [\<lparr>ev_event = e, ev_workflow_id = workflow_id, ev_revision = revision\<rparr>]\<rparr>))"

definition state_hash :: "state \<Rightarrow> string res" where
  "state_hash s = bind_res (dumps_state s) (\<lambda>raw. Inr (sha256_hex raw))"

definition update_state_compare_and_swap :: "store \<Rightarrow> state \<Rightarrow> state \<Rightarrow> store res" where
  "update_state_compare_and_swap db current next_state =
     bind_res (state_hash current) (\<lambda>current_hash.
     bind_res (dumps_state next_state) (\<lambda>_.
     bind_res (swap_one
       (\<lambda>r. workflow_key r = sm_workflow_id (st_meta current)
            \<and> sm_revision (st_meta (wr_state r)) = sm_revision (st_meta current)
            \<and> state_hash (wr_state r) = Inr current_hash)
       (\<lambda>r. r\<lparr>wr_state := next_state, wr_updated_at := sm_last_event_at (st_meta next_state)\<rparr>)
       (ConcurrencyConflict ''workflow compare-and-swap did not update one row'') (db_workflows db)) (\<lambda>rows.
     Inr (db\<lparr>db_workflows := rows\<rparr>))))"

definition insert_immutable_command :: "store \<Rightarrow> reservation_command \<Rightarrow> store res" where
  "insert_immutable_command db command =
     (if list_ex (\<lambda>c. rc_command_id c = rc_command_id command
                   \<or> rc_idempotency_key c = rc_idempotency_key command
                   \<or> rc_workflow_id c = rc_workflow_id command) (db_commands db)
      then Inl (IdentityConflict ''authorized command identity already exists'')
      else Inr (db\<lparr>db_commands := db_commands db @ [command]\<rparr>))"

definition initial_ledger :: "reservation_command \<Rightarrow> ledger_snapshot" where
  "initial_ledger command =
     \<lparr>lg_command_id = rc_command_id command, lg_status = QUEUED, lg_claim_owner = None,
      lg_fencing_token = 0, lg_lease_acquired_at = None, lg_lease_expires_at = None,
      lg_claim_count = 0, lg_preparation_failures = 0, lg_dispatch_slots = 0,
      lg_request_hash = None, lg_fenced_at = None, lg_outcome = None, lg_outcome_hash = None,
      lg_updated_at = rc_created_at command\<rparr>"

definition insert_initial_ledger :: "store \<Rightarrow> reservation_command \<Rightarrow> store res" where
  "insert_initial_ledger db command =
     (if find_row lg_command_id (rc_command_id command) (db_ledger db) \<noteq> None
      then Inl (IdentityConflict ''authorized command already has an execution ledger'')
      else Inr (db\<lparr>db_ledger := db_ledger db @ [initial_ledger command]\<rparr>))"

definition insert_outbox :: "store \<Rightarrow> outbox_message \<Rightarrow> store res" where
  "insert_outbox db message =
     (if list_ex (\<lambda>r. outbox_key r = om_message_id message
                   \<or> om_idempotency_key (os_message r) = om_idempotency_key message) (db_outbox db)
      then Inl (IdentityConflict ''outbox identity already exists'')
      else Inr (db\<lparr>db_outbox := db_outbox db @
        [\<lparr>os_message = message, os_status = PENDING, os_lease = None, os_fencing_token = 0,
          os_delivery_attempts = 0, os_delivered_at = None, os_receipt_hash = None,
          os_updated_at = om_created_at message\<rparr>]\<rparr>))"

section \<open>Creating a workflow\<close>

definition create_workflow :: "store \<Rightarrow> state \<Rightarrow> (store \<times> unit) res" where
  "create_workflow db s =
     (if sm_revision (st_meta s) \<noteq> 0 \<or> sm_seen_event_ids (st_meta s) \<noteq> []
         \<or> sm_seen_event_hashes (st_meta s) \<noteq> [] \<or> sm_command_ids (st_meta s) \<noteq> []
      then Inl (ValueError ''create_workflow requires revision 0 with zero events and commands'')
      else bind_res (dumps_state s) (\<lambda>serialized.
        case find_row workflow_key (sm_workflow_id (st_meta s)) (db_workflows db) of
          Some row \<Rightarrow>
            bind_res (state_from_row row) (\<lambda>current.
              if current \<noteq> s \<or> dumps_state current \<noteq> Inr serialized
              then Inl (IdentityConflict ''workflow identity already exists with divergent state'')
              else Inr (db, ()))
        | None \<Rightarrow>
            Inr (db\<lparr>db_workflows := db_workflows db @
              [\<lparr>wr_state = s, wr_created_at = sm_last_event_at (st_meta s),
                wr_updated_at = sm_last_event_at (st_meta s)\<rparr>]\<rparr>, ())))"

section \<open>Applying an event\<close>

fun is_operational :: "event \<Rightarrow> bool" where
  "is_operational (ExecutionStarted _ _ _) = True"
| "is_operational (ExecutionFinished _ _ _ _) = True"
| "is_operational (ManualReviewRequested _ _ _) = True"
| "is_operational _ = False"

fun is_summary :: "event \<Rightarrow> bool" where
  "is_summary (SummaryRecorded _ _ _ _ _ _) = True"
| "is_summary _ = False"

definition outbox_shape :: "event \<Rightarrow> outbox_message list \<Rightarrow> unit res" where
  "outbox_shape e outbox =
     (if is_summary e
      then (if length outbox \<noteq> 1
            then Inl (ValueError ''SummaryRecorded requires exactly one outbox message'') else Inr ())
      else if outbox \<noteq> []
      then Inl (ValueError ''caller-provided outbox is only allowed for SummaryRecorded'')
      else Inr ())"

definition as_identity_conflict :: "string \<Rightarrow> 'a res \<Rightarrow> 'a res" where
  "as_identity_conflict msg r =
     (case r of
        Inl (ValueError _) \<Rightarrow> Inl (IdentityConflict msg)
      | Inl (TypeError _) \<Rightarrow> Inl (IdentityConflict msg)
      | _ \<Rightarrow> r)"

definition validate_new_outbox ::
  "summary_validator \<Rightarrow> state \<Rightarrow> event \<Rightarrow> outbox_message list \<Rightarrow> outbox_message list res" where
  "validate_new_outbox validate current e outbox =
     bind_res (outbox_shape e outbox) (\<lambda>_.
       if is_summary e
       then bind_res (as_identity_conflict ''summary outbox does not match event/artifact''
              (validate current e (hd outbox))) (\<lambda>m. Inr [m])
       else Inr [])"

definition validate_applied_summary_transition ::
  "event \<Rightarrow> outbox_message \<Rightarrow> transition \<Rightarrow> unit res" where
  "validate_applied_summary_transition e message t =
     (case (tr_status t, tr_state t, e) of
        (APPLIED, AwaitingConfirmationState _ _ p, SummaryRecorded _ _ sid v sig oid) \<Rightarrow>
          if sp_summary_event_id p \<noteq> sid \<or> sp_outbox_message_id p \<noteq> om_message_id message
             \<or> sp_draft_version p \<noteq> v \<or> sp_subject_signature p \<noteq> sig
             \<or> sp_presented_at p \<noteq> om_created_at message
          then Inl (DataCorruption ''applied summary state disagrees with event/outbox'')
          else Inr ()
      | _ \<Rightarrow> Inl (IdentityConflict ''SummaryRecorded must produce an applied summary transition''))"

definition resolve_duplicate ::
  "event_row \<Rightarrow> string \<Rightarrow> event \<Rightarrow> state \<Rightarrow> persisted_transition res" where
  "resolve_duplicate row workflow_id e current =
     (if ev_revision row < 1 then Inl (DataCorruption ''event revision is invalid'')
      else if ev_workflow_id row \<noteq> workflow_id
      then Inl (IdentityConflict ''event identity belongs to a different workflow'')
      else if ev_event row \<noteq> e \<or> event_digest (ev_event row) \<noteq> event_digest e
      then Inl (IdentityConflict ''event identity already exists with divergent payload'')
      else if \<not> (1 \<le> ev_revision row \<and> ev_revision row \<le> sm_revision (st_meta current))
      then Inl (DataCorruption ''event revision is outside the workflow revision'')
      else if event_id e \<notin> set (sm_seen_event_ids (st_meta current))
      then Inl (DataCorruption ''event row is absent from workflow event history'')
      else
        let index = index_of (event_id e) (sm_seen_event_ids (st_meta current))
        in if ev_revision row \<noteq> int index + 1
           then Inl (DataCorruption ''event row revision disagrees with workflow history order'')
           else if sm_seen_event_hashes (st_meta current) ! index \<noteq> event_digest (ev_event row)
           then Inl (DataCorruption ''event row hash disagrees with workflow event history'')
           else Inr \<lparr>pt_state = current, pt_status = IGNORED, pt_reason = ''duplicate_event'',
                     pt_commands = [], pt_duplicate = True\<rparr>)"

definition validate_duplicate_outbox ::
  "summary_validator \<Rightarrow> store \<Rightarrow> event \<Rightarrow> outbox_message list \<Rightarrow> unit res" where
  "validate_duplicate_outbox validate db e outbox =
     bind_res (outbox_shape e outbox) (\<lambda>_.
       case summary_message_of e of
         None \<Rightarrow> Inr ()
       | Some oid \<Rightarrow>
           if om_message_id (hd outbox) \<noteq> oid
           then Inl (IdentityConflict ''summary replay references another outbox identity'')
           else (case load_outbox validate db oid of
                   Inl (OutboxNotFound _) \<Rightarrow>
                     Inl (DataCorruption ''summary event has no durable outbox message'')
                 | Inl err \<Rightarrow> Inl err
                 | Inr persisted \<Rightarrow>
                     if hd outbox \<noteq> persisted
                     then Inl (IdentityConflict ''summary replay contains divergent outbox content'')
                     else Inr ()))"

definition validate_transition_commands :: "state \<Rightarrow> transition \<Rightarrow> unit res" where
  "validate_transition_commands current t =
     (let before = sm_command_ids (st_meta current); after = sm_command_ids (st_meta (tr_state t))
      in case tr_commands t of
           [] \<Rightarrow> if after \<noteq> before
                 then Inl (DataCorruption ''state command IDs changed without a reducer command'')
                 else Inr ()
         | command # _ \<Rightarrow>
             if rc_workflow_id command \<noteq> sm_workflow_id (st_meta current)
             then Inl (DataCorruption ''reducer command belongs to another workflow'')
             else if before \<noteq> [] \<or> after \<noteq> [rc_command_id command]
             then Inl (DataCorruption ''reducer command disagrees with next state identity'')
             else if state_command (tr_state t) \<noteq> Some command
             then Inl (DataCorruption ''next state does not embed the authorized command'')
             else Inr ())"

definition assert_current_command_projection :: "store \<Rightarrow> state \<Rightarrow> unit res" where
  "assert_current_command_projection db current =
     (case sm_command_ids (st_meta current) of
        [] \<Rightarrow> Inr ()
      | [cid] \<Rightarrow>
          bind_res (load_command db cid) (\<lambda>command.
            if state_command current \<noteq> Some command
            then Inl (DataCorruption ''workflow state command disagrees with durable command'')
            else bind_res (load_ledger db (rc_command_id command)) (\<lambda>_. Inr ()))
      | _ \<Rightarrow> Inl (DataCorruption ''workflow contains more than one command identity''))"

text \<open>The inserts for the at most one command of a transition.\<close>

fun insert_commands :: "store \<Rightarrow> reservation_command list \<Rightarrow> store res" where
  "insert_commands db [] = Inr db"
| "insert_commands db (c # cs) =
     bind_res (insert_immutable_command db c) (\<lambda>db.
     bind_res (insert_initial_ledger db c) (\<lambda>db. insert_commands db cs))"

fun insert_messages :: "store \<Rightarrow> outbox_message list \<Rightarrow> store res" where
  "insert_messages db [] = Inr db"
| "insert_messages db (m # ms) = bind_res (insert_outbox db m) (\<lambda>db. insert_messages db ms)"

definition apply_event ::
  "summary_validator \<Rightarrow> store \<Rightarrow> string \<Rightarrow> int \<Rightarrow> event \<Rightarrow> outbox_message list
   \<Rightarrow> (store \<times> persisted_transition) res" where
  "apply_event validate db workflow_id expected_revision e outbox =
     bind_res (exact_id workflow_id ''workflow_id'') (\<lambda>wid.
     if expected_revision < 0 then Inl (ValueError ''expected_revision must be an integer >= 0'')
     else if is_operational e
     then Inl (UnsupportedEffect ''operational event requires a specialized atomic store method'')
     else case find_row workflow_key wid (db_workflows db) of
       None \<Rightarrow> Inl (WorkflowNotFound (''workflow not found: '' @ wid))
     | Some wrow \<Rightarrow>
         bind_res (state_from_row wrow) (\<lambda>current.
         case find_row event_key (event_id e) (db_events db) of
           Some existing \<Rightarrow>
             bind_res (outbox_shape e outbox) (\<lambda>_.
             bind_res (resolve_duplicate existing wid e current) (\<lambda>result.
             bind_res (validate_duplicate_outbox validate db e outbox) (\<lambda>_.
             bind_res (assert_current_command_projection db current) (\<lambda>_.
               Inr (db, result)))))
         | None \<Rightarrow>
             if sm_revision (st_meta current) \<noteq> expected_revision
             then Inl (ConcurrencyConflict (''expected revision '' @ show_int expected_revision
                    @ '', found '' @ show_int (sm_revision (st_meta current))))
             else
             bind_res (validate_new_outbox validate current e outbox) (\<lambda>validated.
             bind_res (reduce current e) (\<lambda>t.
             bind_res (if is_summary e then validate_applied_summary_transition e (hd validated) t
                       else Inr ()) (\<lambda>_.
             if length (tr_commands t) > 1
             then Inl (DataCorruption ''reducer emitted more than one authorized command'')
             else if sm_revision (st_meta (tr_state t)) \<noteq> sm_revision (st_meta current) + 1
             then Inl (DataCorruption ''reducer transition did not advance exactly one revision'')
             else
             bind_res (validate_transition_commands current t) (\<lambda>_.
             bind_res (insert_event ''transaction'' db wid e (sm_revision (st_meta (tr_state t)))) (\<lambda>db.
             bind_res (update_state_compare_and_swap db current (tr_state t)) (\<lambda>db.
             bind_res (insert_commands db (tr_commands t)) (\<lambda>db.
             bind_res (insert_messages db validated) (\<lambda>db.
               Inr (db, from_domain t)))))))))))"

end
