(* ===== verification/Exec_Dispatch.thy ===== *)
theory Exec_Dispatch
  imports Exec_Apply
begin

text \<open>
  The command ledger of \<^verbatim>\<open>sqlite_store.py\<close>: claiming a command under a lease, renewing the lease,
  fencing the single dispatch, releasing a preparation failure and recovering expired preparations.
  Every write is the source's compare-and-swap on the row it read.
\<close>

section \<open>Leases\<close>

definition require_lease_ttl :: "timedelta \<Rightarrow> timedelta res" where
  "require_lease_ttl ttl =
     (if ttl \<le> 0 then Inl (ValueError ''lease_ttl must be a positive timedelta'') else Inr ttl)"

definition lease_deadline :: "timestamp \<Rightarrow> timedelta \<Rightarrow> timestamp res" where
  "lease_deadline now ttl =
     bind_res (require_lease_ttl ttl) (\<lambda>ttl.
       case add_timedelta now ttl of
         None \<Rightarrow> Inl (ValueError ''lease_ttl overflows datetime range'')
       | Some x \<Rightarrow> Inr x)"

definition expired_by :: "timestamp \<Rightarrow> ledger_snapshot \<Rightarrow> bool" where
  "expired_by now r \<longleftrightarrow> (case lg_lease_expires_at r of None \<Rightarrow> False | Some x \<Rightarrow> x \<le> now)"

definition live_after :: "timestamp \<Rightarrow> ledger_snapshot \<Rightarrow> bool" where
  "live_after now r \<longleftrightarrow> (case lg_lease_expires_at r of None \<Rightarrow> False | Some x \<Rightarrow> now < x)"

definition claim_from_projection ::
  "reservation_command \<Rightarrow> state \<Rightarrow> ledger_snapshot \<Rightarrow> command_claim res" where
  "claim_from_projection command s ledger =
     (case (lg_status ledger, lg_claim_owner ledger, lg_lease_acquired_at ledger, lg_lease_expires_at ledger) of
        (PREPARING, Some owner, Some acquired, Some expires) \<Rightarrow>
          bind_res (mk_lease owner (lg_fencing_token ledger) acquired expires) (\<lambda>lease.
            mk_command_claim command (sm_revision (st_meta s)) lease (lg_claim_count ledger)
              (lg_preparation_failures ledger))
      | _ \<Rightarrow> Inl (DataCorruption ''claim projection requires a complete preparing lease''))"

text \<open>The condition on the workflow that every live claim and permit has.\<close>

definition executing_command :: "state \<Rightarrow> reservation_command \<Rightarrow> bool" where
  "executing_command s command \<longleftrightarrow> phase s = EXECUTING \<and> state_command s = Some command
     \<and> sm_command_ids (st_meta s) = [rc_command_id command]"

definition assert_live_preparation_claim ::
  "store \<Rightarrow> command_claim \<Rightarrow> timestamp \<Rightarrow> (reservation_command \<times> ledger_snapshot \<times> state) res" where
  "assert_live_preparation_claim db claim now =
     bind_res (load_command db (rc_command_id (cl_command claim))) (\<lambda>command.
     bind_res (load_ledger db (rc_command_id command)) (\<lambda>ledger.
     bind_res (load_workflow db (rc_workflow_id command)) (\<lambda>s.
     let lease = cl_lease claim
     in if command \<noteq> cl_command claim \<or> sm_revision (st_meta s) \<noteq> cl_workflow_revision claim
     then Inl (StaleLease ''claim command or workflow revision is no longer current'')
     else if \<not> executing_command s command
     then Inl (DataCorruption ''live preparation claim requires exact executing workflow command'')
     else if lg_status ledger \<noteq> PREPARING \<or> lg_dispatch_slots ledger \<noteq> 0
        \<or> lg_claim_owner ledger \<noteq> Some (lease_owner lease)
        \<or> lg_fencing_token ledger \<noteq> lease_token lease
        \<or> lg_lease_acquired_at ledger \<noteq> Some (lease_acquired lease)
        \<or> lg_lease_expires_at ledger \<noteq> Some (lease_expires lease)
        \<or> lg_claim_count ledger \<noteq> cl_claim_count claim
        \<or> lg_preparation_failures ledger \<noteq> cl_preparation_failures claim
        \<or> now < lg_updated_at ledger \<or> now < lease_acquired lease \<or> now \<ge> lease_expires lease
     then Inl (StaleLease ''preparation lease is stale or expired'')
     else Inr (command, ledger, s))))"

definition update_ledger ::
  "store \<Rightarrow> (ledger_snapshot \<Rightarrow> bool) \<Rightarrow> (ledger_snapshot \<Rightarrow> ledger_snapshot) \<Rightarrow> py_error \<Rightarrow> store res" where
  "update_ledger db p f err =
     bind_res (swap_one p f err (db_ledger db)) (\<lambda>rows. Inr (db\<lparr>db_ledger := rows\<rparr>))"

section \<open>Claiming\<close>

text \<open>
  The rows the claim query selects: not dispatched, free or expired, and no other command of the
  same draft version being prepared or dispatched.
\<close>

definition sibling_busy :: "store \<Rightarrow> reservation_command \<Rightarrow> bool" where
  "sibling_busy db command \<longleftrightarrow>
     list_ex (\<lambda>sibling. rc_draft_id sibling = rc_draft_id command
        \<and> rc_draft_version sibling = rc_draft_version command
        \<and> rc_command_id sibling \<noteq> rc_command_id command
        \<and> list_ex (\<lambda>r. lg_command_id r = rc_command_id sibling
                    \<and> lg_status r \<in> {PREPARING, DISPATCH_FENCED}) (db_ledger db))
       (db_commands db)"

definition claimable :: "store \<Rightarrow> timestamp \<Rightarrow> ledger_snapshot \<Rightarrow> bool" where
  "claimable db now r \<longleftrightarrow>
     lg_status r \<in> {QUEUED, PREPARING} \<and> lg_dispatch_slots r = 0
     \<and> (lg_claim_owner r = None \<or> expired_by now r)
     \<and> (case find_row rc_command_id (lg_command_id r) (db_commands db) of
          None \<Rightarrow> False | Some command \<Rightarrow> \<not> sibling_busy db command)"

definition claim_order :: "store \<Rightarrow> ledger_snapshot \<Rightarrow> timestamp \<times> string" where
  "claim_order db r =
     (case find_row rc_command_id (lg_command_id r) (db_commands db) of
        None \<Rightarrow> (0, lg_command_id r) | Some command \<Rightarrow> (rc_created_at command, lg_command_id r))"

definition start_claimed ::
  "store \<Rightarrow> reservation_command \<Rightarrow> state \<Rightarrow> timestamp \<Rightarrow> (store \<times> state) res" where
  "start_claimed db command s now =
     bind_res (mk_event (ExecutionStarted (derived_id ''event'' [''execution_started'', rc_command_id command])
                 now (rc_command_id command))) (\<lambda>e.
     if event_exists db (event_id e)
     then Inl (DataCorruption ''queued workflow already has an execution-start event'')
     else bind_res (reduce s e) (\<lambda>t.
     if tr_status t \<noteq> APPLIED \<or> phase (tr_state t) \<noteq> EXECUTING \<or> tr_commands t \<noteq> []
     then Inl (DataCorruption ''claim did not produce the exact executing transition'')
     else bind_res (insert_event ''claim_command'' db (rc_workflow_id command) e
                      (sm_revision (st_meta (tr_state t)))) (\<lambda>db.
          bind_res (update_state_compare_and_swap db s (tr_state t)) (\<lambda>db. Inr (db, tr_state t)))))"

definition claim_command ::
  "store \<Rightarrow> string \<Rightarrow> timestamp \<Rightarrow> timedelta \<Rightarrow> (store \<times> command_claim option) res" where
  "claim_command db worker_id now lease_ttl =
     bind_res (exact_id worker_id ''worker_id'') (\<lambda>worker.
     bind_res (lease_deadline now lease_ttl) (\<lambda>expires_at.
     case first_by (claim_order db) (claimable db now) (db_ledger db) of
       None \<Rightarrow> Inr (db, None)
     | Some candidate \<Rightarrow>
         bind_res (load_command db (lg_command_id candidate)) (\<lambda>command.
         bind_res (load_ledger db (rc_command_id command)) (\<lambda>ledger.
         bind_res (load_workflow db (rc_workflow_id command)) (\<lambda>s.
         if now < rc_created_at command \<or> now < lg_updated_at ledger
         then Inl (ValueError ''claim time cannot predate command or ledger state'')
         else if state_command s \<noteq> Some command
         then Inl (DataCorruption ''claim workflow does not embed its durable command'')
         else if phase s \<notin> {EXECUTION_QUEUED, EXECUTING}
         then Inl (DataCorruption ''eligible ledger has a non-claimable workflow state'')
         else
         bind_res (update_ledger db
           (\<lambda>r. lg_command_id r = rc_command_id command
                \<and> lg_fencing_token r = lg_fencing_token ledger \<and> lg_claim_count r = lg_claim_count ledger
                \<and> lg_dispatch_slots r = 0
                \<and> (lg_status r = QUEUED \<and> lg_claim_owner r = None
                   \<or> lg_status r = PREPARING \<and> expired_by now r))
           (\<lambda>r. r\<lparr>lg_status := PREPARING, lg_claim_owner := Some worker,
                  lg_fencing_token := lg_fencing_token r + 1, lg_lease_acquired_at := Some now,
                  lg_lease_expires_at := Some expires_at, lg_claim_count := lg_claim_count r + 1,
                  lg_updated_at := now\<rparr>)
           (ConcurrencyConflict ''eligible command claim lost its compare-and-swap'')) (\<lambda>db.
         bind_res (if phase s = EXECUTION_QUEUED then start_claimed db command s now else Inr (db, s)) (\<lambda>(db, s).
         bind_res (load_ledger db (rc_command_id command)) (\<lambda>updated.
         bind_res (claim_from_projection command s updated) (\<lambda>claim.
           Inr (db, Some claim))))))))))"

definition preparation_block :: "store \<Rightarrow> string \<Rightarrow> (string \<times> string option) option res" where
  "preparation_block db command_id =
     bind_res (load_command db command_id) (\<lambda>command.
       Inr (case List.find (\<lambda>r. lg_status r = LEDGER_MANUAL_REVIEW
                 \<and> lg_command_id r \<noteq> rc_command_id command
                 \<and> (case find_row rc_command_id (lg_command_id r) (db_commands db) of
                      None \<Rightarrow> False
                    | Some sibling \<Rightarrow> rc_draft_id sibling = rc_draft_id command
                        \<and> rc_draft_version sibling = rc_draft_version command))
               (db_ledger db) of
              None \<Rightarrow> None
            | Some r \<Rightarrow> Some (''package_peer_manual_review'', lg_outcome_hash r)))"

section \<open>Renewing and fencing\<close>

definition renew_command_lease ::
  "store \<Rightarrow> command_claim \<Rightarrow> timestamp \<Rightarrow> timedelta \<Rightarrow> (store \<times> command_claim) res" where
  "renew_command_lease db claim now lease_ttl =
     bind_res (lease_deadline now lease_ttl) (\<lambda>expires_at.
     bind_res (assert_live_preparation_claim db claim now) (\<lambda>(command, ledger, s).
     let lease = cl_lease claim
     in if expires_at \<le> lease_expires lease
     then Inl (ValueError ''renewed lease must extend the current expiry'')
     else
     bind_res (update_ledger db
       (\<lambda>r. lg_command_id r = rc_command_id command \<and> lg_status r = PREPARING
            \<and> lg_claim_owner r = Some (lease_owner lease) \<and> lg_fencing_token r = lease_token lease
            \<and> lg_lease_acquired_at r = Some (lease_acquired lease)
            \<and> lg_lease_expires_at r = Some (lease_expires lease) \<and> lg_dispatch_slots r = 0)
       (\<lambda>r. r\<lparr>lg_lease_expires_at := Some expires_at, lg_updated_at := now\<rparr>)
       (StaleLease ''preparation lease changed during renewal'')) (\<lambda>db.
     bind_res (load_ledger db (rc_command_id command)) (\<lambda>updated.
     if lg_claim_count updated \<noteq> lg_claim_count ledger
     then Inl (DataCorruption ''renewal changed claim count'')
     else bind_res (claim_from_projection command s updated) (\<lambda>claim'. Inr (db, claim'))))))"

definition fence_dispatch ::
  "store \<Rightarrow> command_claim \<Rightarrow> dispatch_request \<Rightarrow> timestamp \<Rightarrow> (store \<times> dispatch_permit) res" where
  "fence_dispatch db claim request now =
     bind_res (load_command db (rc_command_id (cl_command claim))) (\<lambda>command.
     bind_res (load_ledger db (rc_command_id command)) (\<lambda>ledger.
     let lease = cl_lease claim
     in if lg_dispatch_slots ledger = 1
     then (if lg_claim_owner ledger = Some (lease_owner lease) \<and> lg_fencing_token ledger = lease_token lease
           then Inl (DispatchAlreadyFenced ''command already consumed its durable dispatch slot'')
           else Inl (StaleLease ''dispatch slot belongs to another lease''))
     else
     bind_res (assert_live_preparation_claim db claim now) (\<lambda>(command, _, _).
     bind_res (dispatch_request_from_command command (command_envelope command)) (\<lambda>expected.
     if request \<noteq> expected
     then Inl (ValueError ''dispatch request diverges from the authorized command'')
     else
     bind_res (update_ledger db
       (\<lambda>r. lg_command_id r = rc_command_id command \<and> lg_status r = PREPARING
            \<and> lg_claim_owner r = Some (lease_owner lease) \<and> lg_fencing_token r = lease_token lease
            \<and> live_after now r \<and> lg_dispatch_slots r = 0)
       (\<lambda>r. r\<lparr>lg_status := DISPATCH_FENCED, lg_dispatch_slots := 1,
              lg_request_hash := Some (dq_payload_hash request), lg_fenced_at := Some now,
              lg_updated_at := now\<rparr>)
       (StaleLease ''dispatch fence lost its lease compare-and-swap'')) (\<lambda>db.
     bind_res (load_ledger db (rc_command_id command)) (\<lambda>persisted.
     if lg_status persisted \<noteq> DISPATCH_FENCED \<or> lg_dispatch_slots persisted \<noteq> 1
        \<or> lg_request_hash persisted \<noteq> Some (dq_payload_hash request) \<or> lg_fenced_at persisted \<noteq> Some now
     then Inl (DataCorruption ''dispatch fence projection is inconsistent'')
     else bind_res (mk_dispatch_permit (rc_command_id command) lease 1 (dq_payload_hash request) now)
            (\<lambda>permit. Inr (db, permit))))))))"

end
