(* ===== verification/Exec_Outcome.thy ===== *)
theory Exec_Outcome
  imports Exec_Dispatch
begin

text \<open>
  The end of an execution in \<^verbatim>\<open>sqlite_store.py\<close>: a failed preparation, a recorded outcome, and the
  two recoveries of expired leases. Each moves the ledger row, the workflow state, its event
  history and the outbox in one transaction.
\<close>

section \<open>A failed preparation\<close>

definition release_preparation_failure ::
  "store \<Rightarrow> command_claim \<Rightarrow> preparation_failure \<Rightarrow> timestamp \<Rightarrow> (store \<times> preparation_disposition) res" where
  "release_preparation_failure db claim failure now =
     bind_res (assert_live_preparation_claim db claim now) (\<lambda>(command, ledger, s).
     let failures = lg_preparation_failures ledger + 1;
         lease = cl_lease claim;
         held = (\<lambda>r. lg_command_id r = rc_command_id command \<and> lg_status r = PREPARING
                  \<and> lg_claim_owner r = Some (lease_owner lease) \<and> lg_fencing_token r = lease_token lease
                  \<and> live_after now r \<and> lg_dispatch_slots r = 0)
     in if failures > max_preparation_failures
     then Inl (DataCorruption ''preparation failure budget was already exhausted'')
     else if fl_retryable failure \<and> failures < max_preparation_failures
     then bind_res (update_ledger db held
            (\<lambda>r. r\<lparr>lg_status := QUEUED, lg_claim_owner := None, lg_lease_acquired_at := None,
                   lg_lease_expires_at := None, lg_preparation_failures := failures, lg_updated_at := now\<rparr>)
            (StaleLease ''preparation release lost its lease compare-and-swap'')) (\<lambda>db. Inr (db, REQUEUED))
     else
     bind_res (command_outcome command NOT_CALLED (fl_reason failure) None (fl_evidence failure)) (\<lambda>outcome.
     bind_res (mk_event (ExecutionFinished
         (derived_id ''event'' [''preparation_not_called'', rc_command_id command]) now
         (rc_command_id command) outcome)) (\<lambda>e.
     bind_res (reduce s e) (\<lambda>t.
     if tr_status t \<noteq> APPLIED \<or> phase (tr_state t) \<noteq> FAILED_BEFORE_PROVIDER \<or> tr_commands t \<noteq> []
     then Inl (DataCorruption ''terminal preparation failure did not produce failed-before-provider'')
     else
     bind_res (project_preparation_failure_outbox command outcome now) (\<lambda>message.
     bind_res (insert_event ''release_preparation_failure'' db (rc_workflow_id command) e
                 (sm_revision (st_meta (tr_state t)))) (\<lambda>db.
     bind_res (update_state_compare_and_swap db s (tr_state t)) (\<lambda>db.
     bind_res (update_ledger db (\<lambda>r. held r \<and> lg_outcome r = None)
       (\<lambda>r. r\<lparr>lg_status := OUTCOME_RECORDED, lg_claim_owner := None, lg_lease_acquired_at := None,
              lg_lease_expires_at := None, lg_preparation_failures := failures,
              lg_outcome := Some outcome, lg_outcome_hash := Some (sha256_hex (dumps_outcome outcome)),
              lg_updated_at := now\<rparr>)
       (StaleLease ''terminal preparation failure lost its lease compare-and-swap'')) (\<lambda>db.
     bind_res (insert_outbox db message) (\<lambda>db. Inr (db, TERMINAL_NOT_CALLED))))))))))"

section \<open>Recording an outcome\<close>

definition assert_live_dispatch_permit ::
  "store \<Rightarrow> dispatch_permit \<Rightarrow> timestamp \<Rightarrow> (reservation_command \<times> ledger_snapshot \<times> state) res" where
  "assert_live_dispatch_permit db permit now =
     bind_res (load_command db (pm_command_id permit)) (\<lambda>command.
     bind_res (load_ledger db (rc_command_id command)) (\<lambda>ledger.
     bind_res (load_workflow db (rc_workflow_id command)) (\<lambda>s.
     bind_res (dispatch_request_from_command command (command_envelope command)) (\<lambda>expected.
     let lease = pm_lease permit
     in if lg_status ledger \<noteq> DISPATCH_FENCED \<or> lg_outcome ledger \<noteq> None
        \<or> lg_claim_owner ledger \<noteq> Some (lease_owner lease)
        \<or> lg_fencing_token ledger \<noteq> lease_token lease
        \<or> lg_lease_acquired_at ledger \<noteq> Some (lease_acquired lease)
        \<or> lg_lease_expires_at ledger \<noteq> Some (lease_expires lease)
        \<or> lg_dispatch_slots ledger \<noteq> pm_dispatch_slot permit
        \<or> lg_request_hash ledger \<noteq> Some (pm_request_hash permit)
        \<or> lg_fenced_at ledger \<noteq> Some (pm_fenced_at permit)
        \<or> pm_request_hash permit \<noteq> dq_payload_hash expected
        \<or> lg_updated_at ledger > now \<or> pm_fenced_at permit > now
        \<or> \<not> live_after now ledger
     then Inl (StaleLease ''dispatch permit is no longer current'')
     else if \<not> executing_command s command
     then Inl (DataCorruption ''live dispatch permit requires exact executing workflow command'')
     else Inr (command, ledger, s)))))"

definition resolve_duplicate_outcome ::
  "summary_validator \<Rightarrow> store \<Rightarrow> dispatch_permit \<Rightarrow> execution_outcome \<Rightarrow> ledger_snapshot \<Rightarrow> timestamp
   \<Rightarrow> persisted_transition res" where
  "resolve_duplicate_outcome validate db permit outcome ledger now =
     (if lease_token (pm_lease permit) \<noteq> lg_fencing_token ledger
         \<or> Some (pm_request_hash permit) \<noteq> lg_request_hash ledger
         \<or> Some (pm_fenced_at permit) \<noteq> lg_fenced_at ledger
         \<or> lg_dispatch_slots ledger \<noteq> 1 \<or> now < lg_updated_at ledger
      then Inl (StaleLease ''completed outcome belongs to another dispatch permit'')
      else if map_option dumps_outcome (lg_outcome ledger) \<noteq> Some (dumps_outcome outcome)
         \<or> lg_outcome_hash ledger \<noteq> Some (sha256_hex (dumps_outcome outcome))
      then Inl (IdentityConflict ''completed command already has a divergent outcome'')
      else
      bind_res (load_command db (pm_command_id permit)) (\<lambda>command.
      bind_res (load_workflow db (rc_workflow_id command)) (\<lambda>s.
      if lg_status ledger \<noteq> outcome_ledger_status outcome
         \<or> \<not> terminal_state_matches_outcome s command outcome
      then Inl (DataCorruption ''completed outcome projection is inconsistent'')
      else
      bind_res (project_outcome_outbox command outcome (lg_updated_at ledger)) (\<lambda>message.
      bind_res (load_outbox validate db (om_message_id message)) (\<lambda>stored.
      if stored \<noteq> message
      then Inl (DataCorruption ''completed outcome outbox is inconsistent'')
      else Inr \<lparr>pt_state = s, pt_status = APPLIED, pt_reason = ''execution_outcome_duplicate'',
                pt_commands = [], pt_duplicate = True\<rparr>)))))"

definition outcome_phase :: "execution_certainty \<Rightarrow> workflow_phase" where
  "outcome_phase c =
     (case c of
        EFFECT_CONFIRMED \<Rightarrow> SUCCEEDED
      | CALLED_NO_EFFECT \<Rightarrow> FAILED_NO_EFFECT
      | CALLED_UNKNOWN \<Rightarrow> PHASE_UNCERTAIN
      | NOT_CALLED \<Rightarrow> FAILED_BEFORE_PROVIDER)"

text \<open>
  The one or two events of an outcome after the fence, with the transition they end in: an unknown
  effect is at once sent to manual review.
\<close>

definition review_transition ::
  "string \<Rightarrow> reservation_command \<Rightarrow> state \<Rightarrow> string \<Rightarrow> timestamp \<Rightarrow> (event \<times> transition) res" where
  "review_transition msg command s outcome_hash now =
     bind_res (mk_event (ManualReviewRequested (review_event_id command outcome_hash) now
                 ''provider_effect_uncertain'')) (\<lambda>review.
     bind_res (reduce s review) (\<lambda>t.
     if tr_status t \<noteq> APPLIED \<or> phase (tr_state t) \<noteq> MANUAL_REVIEW \<or> tr_commands t \<noteq> []
     then Inl (DataCorruption msg) else Inr (review, t)))"

definition record_outcome ::
  "summary_validator \<Rightarrow> store \<Rightarrow> dispatch_permit \<Rightarrow> execution_outcome \<Rightarrow> timestamp
   \<Rightarrow> (store \<times> persisted_transition) res" where
  "record_outcome validate db permit outcome now =
     (if eo_command_id outcome \<noteq> pm_command_id permit
      then Inl (ValueError ''outcome command does not match dispatch permit'')
      else if eo_certainty outcome = NOT_CALLED
      then Inl (ValueError ''post-fence not_called outcome is forbidden'')
      else
      bind_res (load_ledger db (pm_command_id permit)) (\<lambda>existing.
      if lg_outcome existing \<noteq> None
      then bind_res (resolve_duplicate_outcome validate db permit outcome existing now) (\<lambda>p. Inr (db, p))
      else
      bind_res (assert_live_dispatch_permit db permit now) (\<lambda>(command, ledger, s).
      let outcome_hash = sha256_hex (dumps_outcome outcome)
      in bind_res (mk_event (ExecutionFinished (finished_event_id command outcome outcome_hash) now
                     (rc_command_id command) outcome)) (\<lambda>finished.
      bind_res (reduce s finished) (\<lambda>t1.
      if tr_status t1 \<noteq> APPLIED \<or> phase (tr_state t1) \<noteq> outcome_phase (eo_certainty outcome)
         \<or> tr_commands t1 \<noteq> []
      then Inl (DataCorruption ''execution outcome did not produce its terminal state'')
      else
      bind_res (if eo_certainty outcome = CALLED_UNKNOWN
                then bind_res (review_transition ''uncertain outcome did not produce mandatory manual review''
                       command (tr_state t1) outcome_hash now) (\<lambda>(review, t2).
                       Inr ([(finished, sm_revision (st_meta (tr_state t1))),
                             (review, sm_revision (st_meta (tr_state t2)))], t2))
                else Inr ([(finished, sm_revision (st_meta (tr_state t1)))], t1)) (\<lambda>(events, final).
      bind_res (project_outcome_outbox command outcome now) (\<lambda>message.
      bind_res (foldl (\<lambda>acc er. bind_res acc (\<lambda>db. insert_event ''record_outcome'' db
                  (rc_workflow_id command) (fst er) (snd er))) (Inr db) events) (\<lambda>db.
      bind_res (update_state_compare_and_swap db s (tr_state final)) (\<lambda>db.
      let final_status = outcome_ledger_status outcome; lease = pm_lease permit
      in bind_res (update_ledger db
        (\<lambda>r. lg_command_id r = rc_command_id command \<and> lg_status r = DISPATCH_FENCED
             \<and> lg_claim_owner r = Some (lease_owner lease) \<and> lg_fencing_token r = lease_token lease
             \<and> lg_lease_acquired_at r = Some (lease_acquired lease)
             \<and> lg_lease_expires_at r = Some (lease_expires lease) \<and> live_after now r
             \<and> lg_dispatch_slots r = 1 \<and> lg_request_hash r = Some (pm_request_hash permit)
             \<and> lg_fenced_at r = Some (pm_fenced_at permit) \<and> lg_outcome r = None
             \<and> lg_outcome_hash r = None)
        (\<lambda>r. r\<lparr>lg_status := final_status, lg_claim_owner := None, lg_lease_acquired_at := None,
               lg_lease_expires_at := None, lg_outcome := Some outcome,
               lg_outcome_hash := Some outcome_hash, lg_updated_at := now\<rparr>)
        (StaleLease ''record outcome lost its dispatch permit compare-and-swap'')) (\<lambda>db.
      bind_res (insert_outbox db message) (\<lambda>db.
      bind_res (load_ledger db (rc_command_id command)) (\<lambda>persisted.
      if lg_status persisted \<noteq> final_status
         \<or> map_option dumps_outcome (lg_outcome persisted) \<noteq> Some (dumps_outcome outcome)
         \<or> lg_outcome_hash persisted \<noteq> Some outcome_hash \<or> \<not> lease_empty persisted
      then Inl (DataCorruption ''persisted outcome ledger is inconsistent'')
      else Inr (db, from_domain final)))))))))))))"

end
