(* ===== verification/Exec_Recovery.thy ===== *)
theory Exec_Recovery
  imports Exec_Outcome
begin

text \<open>
  The recoveries of \<^verbatim>\<open>sqlite_store.py\<close> that \<^verbatim>\<open>reconciliation.py\<close> runs: an expired preparation goes
  back to the queue, an expired dispatch fence becomes an unknown effect under manual review.
\<close>

fun recover_all :: "(store \<Rightarrow> string \<Rightarrow> store res) \<Rightarrow> store \<Rightarrow> string list \<Rightarrow> int \<Rightarrow> (store \<times> int) res" where
  "recover_all step db [] n = Inr (db, n)"
| "recover_all step db (cid # cids) n =
     bind_res (step db cid) (\<lambda>db. recover_all step db cids (n + 1))"

definition expired_ids :: "store \<Rightarrow> timestamp \<Rightarrow> ledger_status \<Rightarrow> int \<Rightarrow> string list" where
  "expired_ids db now status slots =
     sort (map lg_command_id (filter (\<lambda>r. lg_status r = status \<and> lg_dispatch_slots r = slots
        \<and> lg_outcome r = None \<and> expired_by now r) (db_ledger db)))"

section \<open>Expired preparations\<close>

definition release_expired_row :: "timestamp \<Rightarrow> store \<Rightarrow> string \<Rightarrow> store res" where
  "release_expired_row now db command_id =
     bind_res (load_command db command_id) (\<lambda>command.
     bind_res (load_ledger db (rc_command_id command)) (\<lambda>ledger.
     bind_res (load_workflow db (rc_workflow_id command)) (\<lambda>s.
     if \<not> executing_command s command \<or> lg_status ledger \<noteq> PREPARING \<or> lg_dispatch_slots ledger \<noteq> 0
        \<or> lg_outcome ledger \<noteq> None
        \<or> (case (lg_claim_owner ledger, lg_lease_acquired_at ledger, lg_lease_expires_at ledger) of
             (Some _, Some a, Some x) \<Rightarrow> \<not> (a \<le> lg_updated_at ledger \<and> lg_updated_at ledger < x) \<or> now < x
           | _ \<Rightarrow> True)
        \<or> now < lg_updated_at ledger
     then Inl (DataCorruption ''expired pre-dispatch lease has an impossible projection'')
     else
     bind_res (update_ledger db
       (\<lambda>r. lg_command_id r = rc_command_id command \<and> lg_status r = PREPARING
            \<and> lg_claim_owner r = lg_claim_owner ledger \<and> lg_fencing_token r = lg_fencing_token ledger
            \<and> lg_lease_acquired_at r = lg_lease_acquired_at ledger
            \<and> lg_lease_expires_at r = lg_lease_expires_at ledger
            \<and> lg_updated_at r = lg_updated_at ledger \<and> lg_claim_count r = lg_claim_count ledger
            \<and> lg_preparation_failures r = lg_preparation_failures ledger \<and> expired_by now r
            \<and> lg_dispatch_slots r = 0 \<and> lg_outcome r = None \<and> lg_outcome_hash r = None)
       (\<lambda>r. r\<lparr>lg_status := QUEUED, lg_claim_owner := None, lg_lease_acquired_at := None,
              lg_lease_expires_at := None, lg_updated_at := now\<rparr>)
       (ConcurrencyConflict ''expired pre-dispatch release lost its compare-and-swap'')) (\<lambda>db.
     bind_res (load_ledger db (rc_command_id command)) (\<lambda>updated.
     if lg_status updated \<noteq> QUEUED \<or> lg_claim_owner updated \<noteq> None \<or> lg_dispatch_slots updated \<noteq> 0
        \<or> lg_fencing_token updated \<noteq> lg_fencing_token ledger
        \<or> lg_claim_count updated \<noteq> lg_claim_count ledger
     then Inl (DataCorruption ''released pre-dispatch ledger projection is invalid'')
     else Inr db)))))"

definition release_expired_pre_dispatch :: "store \<Rightarrow> timestamp \<Rightarrow> (store \<times> int) res" where
  "release_expired_pre_dispatch db now =
     recover_all (release_expired_row now) db (expired_ids db now PREPARING 0) 0"

section \<open>Expired dispatch fences\<close>

definition mark_unknown_row :: "timestamp \<Rightarrow> store \<Rightarrow> string \<Rightarrow> store res" where
  "mark_unknown_row now db command_id =
     bind_res (load_command db command_id) (\<lambda>command.
     bind_res (load_ledger db (rc_command_id command)) (\<lambda>ledger.
     bind_res (load_workflow db (rc_workflow_id command)) (\<lambda>s.
     bind_res (dispatch_request_from_command command (command_envelope command)) (\<lambda>expected.
     if \<not> executing_command s command \<or> lg_status ledger \<noteq> DISPATCH_FENCED \<or> lg_dispatch_slots ledger \<noteq> 1
        \<or> lg_request_hash ledger \<noteq> Some (dq_payload_hash expected)
        \<or> (case (lg_claim_owner ledger, lg_fenced_at ledger, lg_lease_acquired_at ledger,
                 lg_lease_expires_at ledger) of
             (Some _, Some f, Some a, Some x) \<Rightarrow>
               \<not> (a \<le> f \<and> f = lg_updated_at ledger \<and> lg_updated_at ledger < x) \<or> now < x
           | _ \<Rightarrow> True)
        \<or> lg_outcome ledger \<noteq> None \<or> now < lg_updated_at ledger
     then Inl (DataCorruption ''expired dispatch fence has an impossible projection'')
     else
     bind_res (command_outcome command CALLED_UNKNOWN ''dispatch_outcome_unknown_after_expiry'' None
                 [the (lg_request_hash ledger)]) (\<lambda>outcome.
     let outcome_hash = sha256_hex (dumps_outcome outcome)
     in bind_res (mk_event (ExecutionFinished (finished_event_id command outcome outcome_hash) now
                    (rc_command_id command) outcome)) (\<lambda>finished.
     if event_exists db (event_id finished)
     then Inl (DataCorruption ''expired dispatch fence already has its outcome event'')
     else
     bind_res (reduce s finished) (\<lambda>t1.
     if tr_status t1 \<noteq> APPLIED \<or> phase (tr_state t1) \<noteq> PHASE_UNCERTAIN \<or> tr_commands t1 \<noteq> []
     then Inl (DataCorruption ''reconciled unknown did not produce uncertain state'')
     else if event_exists db (review_event_id command outcome_hash)
     then Inl (DataCorruption ''expired dispatch fence already has its review event'')
     else
     bind_res (review_transition ''reconciled unknown did not produce mandatory manual review''
                 command (tr_state t1) outcome_hash now) (\<lambda>(review, t2).
     bind_res (project_outcome_outbox command outcome now) (\<lambda>message.
     bind_res (insert_event ''mark_expired_fenced_unknown'' db (rc_workflow_id command) finished
                 (sm_revision (st_meta (tr_state t1)))) (\<lambda>db.
     bind_res (insert_event ''mark_expired_fenced_unknown'' db (rc_workflow_id command) review
                 (sm_revision (st_meta (tr_state t2)))) (\<lambda>db.
     bind_res (update_state_compare_and_swap db s (tr_state t2)) (\<lambda>db.
     bind_res (update_ledger db
       (\<lambda>r. lg_command_id r = rc_command_id command \<and> lg_status r = DISPATCH_FENCED
            \<and> lg_claim_owner r = lg_claim_owner ledger \<and> lg_fencing_token r = lg_fencing_token ledger
            \<and> lg_lease_acquired_at r = lg_lease_acquired_at ledger
            \<and> lg_lease_expires_at r = lg_lease_expires_at ledger
            \<and> lg_updated_at r = lg_updated_at ledger \<and> lg_claim_count r = lg_claim_count ledger
            \<and> lg_preparation_failures r = lg_preparation_failures ledger \<and> expired_by now r
            \<and> lg_dispatch_slots r = 1 \<and> lg_request_hash r = lg_request_hash ledger
            \<and> lg_fenced_at r = lg_fenced_at ledger \<and> lg_outcome r = None \<and> lg_outcome_hash r = None)
       (\<lambda>r. r\<lparr>lg_status := LEDGER_MANUAL_REVIEW, lg_claim_owner := None, lg_lease_acquired_at := None,
              lg_lease_expires_at := None, lg_outcome := Some outcome,
              lg_outcome_hash := Some outcome_hash, lg_updated_at := now\<rparr>)
       (ConcurrencyConflict ''expired dispatch reconciliation lost its compare-and-swap'')) (\<lambda>db.
     bind_res (insert_outbox db message) (\<lambda>db.
     bind_res (load_ledger db (rc_command_id command)) (\<lambda>persisted.
     if lg_status persisted \<noteq> LEDGER_MANUAL_REVIEW \<or> lg_dispatch_slots persisted \<noteq> 1
        \<or> map_option dumps_outcome (lg_outcome persisted) \<noteq> Some (dumps_outcome outcome)
        \<or> lg_outcome_hash persisted \<noteq> Some outcome_hash \<or> lg_claim_owner persisted \<noteq> None
     then Inl (DataCorruption ''reconciled dispatch outcome projection is invalid'')
     else Inr db)))))))))))))))"

definition mark_expired_fenced_unknown :: "store \<Rightarrow> timestamp \<Rightarrow> (store \<times> int) res" where
  "mark_expired_fenced_unknown db now =
     recover_all (mark_unknown_row now) db (expired_ids db now DISPATCH_FENCED 1) 0"

end
