(* ===== verification/Exec_Worker.thy ===== *)
theory Exec_Worker
  imports Exec_Recovery
begin

text \<open>
  \<^verbatim>\<open>reservation_execution/worker.py\<close> and \<^verbatim>\<open>reconciliation.py\<close>: one run of the command worker over an
  execution adapter, one run of the reconciler, and the end-to-end consistency check it starts and
  ends with. The adapter is a parameter: what its \<open>prepare\<close> does with a command, and the outcome
  its \<open>dispatch\<close> returns, \<open>None\<close> when it raises. An adapter runs while the store is in the state the
  last transaction committed, and may look at it: that store is an argument of \<open>dispatch\<close>, so the
  model says at which point of the run the adapter is called. Each store call is a transaction of
  its own, so the store as of the last commit is returned also when a later call raises.
\<close>

section \<open>The command worker\<close>

datatype prepared = Prepared dispatch_request | PreparationFailed preparation_failure | PrepareRaised py_error

datatype worker_result =
    WorkerIdle
  | WorkerPreparation preparation_disposition
  | WorkerCompleted persisted_transition

text \<open>The outcome the worker records after the fence, whatever the adapter returned.\<close>

definition unknown_outcome :: "reservation_command \<Rightarrow> string \<Rightarrow> dispatch_permit \<Rightarrow> execution_outcome res" where
  "unknown_outcome command status permit =
     command_outcome command CALLED_UNKNOWN status None [pm_request_hash permit]"

definition dispatched_outcome ::
  "reservation_command \<Rightarrow> dispatch_permit \<Rightarrow> execution_outcome option \<Rightarrow> execution_outcome res" where
  "dispatched_outcome command permit returned =
     bind_res (case returned of
                 None \<Rightarrow> unknown_outcome command ''dispatch_exception'' permit
               | Some u \<Rightarrow>
                   if eo_command_id u \<noteq> rc_command_id command
                   then unknown_outcome command ''dispatch_exception'' permit
                   else Inr u) (\<lambda>u.
       if eo_certainty u = NOT_CALLED
       then unknown_outcome command ''invalid_post_fence_not_called'' permit
       else Inr u)"

definition prepare_claimed ::
  "(reservation_command \<Rightarrow> prepared) \<Rightarrow> store \<Rightarrow> command_claim \<Rightarrow> prepared" where
  "prepare_claimed prepare db claim =
     (case preparation_block db (rc_command_id (cl_command claim)) of
        Inl err \<Rightarrow> PrepareRaised err
      | Inr (Some (reason, evidence)) \<Rightarrow>
          (case mk_preparation_failure reason False (case evidence of None \<Rightarrow> [''''] | Some h \<Rightarrow> [h]) of
             Inl err \<Rightarrow> PrepareRaised err
           | Inr failure \<Rightarrow> PreparationFailed failure)
      | Inr None \<Rightarrow> prepare (cl_command claim))"

definition worker_run_once ::
  "summary_validator \<Rightarrow> (reservation_command \<Rightarrow> prepared)
   \<Rightarrow> (store \<Rightarrow> dispatch_permit \<Rightarrow> dispatch_request \<Rightarrow> execution_outcome option)
   \<Rightarrow> store \<Rightarrow> string \<Rightarrow> timestamp \<Rightarrow> timedelta \<Rightarrow> store \<times> worker_result res" where
  "worker_run_once validate prepare dispatch db worker_id now lease_ttl =
     (case claim_command db worker_id now lease_ttl of
        Inl err \<Rightarrow> (db, Inl err)
      | Inr (db, None) \<Rightarrow> (db, Inr WorkerIdle)
      | Inr (db, Some claim) \<Rightarrow>
          (case prepare_claimed prepare db claim of
             PrepareRaised err \<Rightarrow> (db, Inl err)
           | PreparationFailed failure \<Rightarrow>
               (case release_preparation_failure db claim failure now of
                  Inl err \<Rightarrow> (db, Inl err)
                | Inr (db, disposition) \<Rightarrow> (db, Inr (WorkerPreparation disposition)))
           | Prepared request \<Rightarrow>
               (case fence_dispatch db claim request now of
                  Inl err \<Rightarrow> (db, Inl err)
                | Inr (db, permit) \<Rightarrow>
                    (case bind_res (dispatched_outcome (cl_command claim) permit (dispatch db permit request))
                            (\<lambda>outcome. record_outcome validate db permit outcome now) of
                       Inl err \<Rightarrow> (db, Inl err)
                     | Inr (db, transition) \<Rightarrow> (db, Inr (WorkerCompleted transition))))))"

section \<open>End-to-end consistency\<close>

text \<open>\<open>raise DataCorruption\<close> unless the condition holds, and a check for each element of a list.\<close>

definition ensure :: "bool \<Rightarrow> string \<Rightarrow> unit res" where
  "ensure b msg = (if b then Inr () else Inl (DataCorruption msg))"

definition for_each :: "('a \<Rightarrow> unit res) \<Rightarrow> 'a list \<Rightarrow> unit res" where
  "for_each check xs = bind_res (map_res check xs) (\<lambda>_. Inr ())"

fun is_execution_started :: "event \<Rightarrow> bool" where
  "is_execution_started (ExecutionStarted _ _ _) = True"
| "is_execution_started _ = False"

definition status_fits_phase :: "workflow_phase \<Rightarrow> ledger_snapshot \<Rightarrow> bool" where
  "status_fits_phase p r =
     (case p of
        EXECUTION_QUEUED \<Rightarrow> lg_status r = QUEUED
      | EXECUTING \<Rightarrow> lg_status r \<in> {QUEUED, PREPARING, DISPATCH_FENCED}
      | FAILED_BEFORE_PROVIDER \<Rightarrow> lg_status r = OUTCOME_RECORDED \<and> lg_dispatch_slots r = 0
      | SUCCEEDED \<Rightarrow> lg_status r = OUTCOME_RECORDED \<and> lg_dispatch_slots r = 1
      | FAILED_NO_EFFECT \<Rightarrow> lg_status r = OUTCOME_RECORDED \<and> lg_dispatch_slots r = 1
      | MANUAL_REVIEW \<Rightarrow> lg_status r = LEDGER_MANUAL_REVIEW \<and> lg_dispatch_slots r = 1
      | _ \<Rightarrow> False)"

definition claim_counters_fit :: "workflow_phase \<Rightarrow> nat \<Rightarrow> ledger_snapshot \<Rightarrow> bool" where
  "claim_counters_fit p started r \<longleftrightarrow>
     lg_fencing_token r = lg_claim_count r \<and> lg_preparation_failures r \<le> lg_claim_count r
     \<and> (if p = EXECUTION_QUEUED
        then started = 0 \<and> lg_fencing_token r = 0 \<and> lg_claim_count r = 0 \<and> lg_preparation_failures r = 0
        else started = 1 \<and> 1 \<le> lg_claim_count r)
     \<and> (p \<noteq> FAILED_BEFORE_PROVIDER \<or> 1 \<le> lg_preparation_failures r)"

definition check_command_consistency ::
  "summary_validator \<Rightarrow> store \<Rightarrow> state \<Rightarrow> nat \<Rightarrow> string \<Rightarrow> unit res" where
  "check_command_consistency validate db s started command_id =
     bind_res (load_command db command_id) (\<lambda>command.
     bind_res (load_ledger db (rc_command_id command)) (\<lambda>ledger.
     bind_res (ensure (claim_counters_fit (phase s) started ledger)
       ''execution claim counters violate their event history'') (\<lambda>_.
     bind_res (ensure (state_command s = Some command)
       ''workflow state does not embed its authorized command'') (\<lambda>_.
     bind_res (dispatch_request_from_command command (command_envelope command)) (\<lambda>expected.
     bind_res (ensure (lg_dispatch_slots ledger \<noteq> 1 \<or> lg_request_hash ledger = Some (dq_payload_hash expected))
       ''dispatch fence does not bind the canonical command request'') (\<lambda>_.
     bind_res (ensure (opt_all (\<lambda>f. f \<le> lg_updated_at ledger) (lg_fenced_at ledger))
       ''dispatch fence timestamp exceeds ledger update'') (\<lambda>_.
     bind_res (ensure (status_fits_phase (phase s) ledger)
       ''workflow execution state disagrees with its ledger status'') (\<lambda>_.
     bind_res (ensure (opt_all (terminal_state_matches_outcome s command) (lg_outcome ledger))
       ''terminal workflow state disagrees with durable outcome'') (\<lambda>_.
     let messages = sort (map outbox_key
           (filter (\<lambda>r. om_command_id (os_message r) = Some (rc_command_id command)) (db_outbox db)))
     in bind_res (ensure (length messages = (if lg_outcome ledger = None then 0 else 1))
          ''execution outcome and outbox cardinality disagree'') (\<lambda>_.
        for_each (\<lambda>m. bind_res (load_outbox validate db m) (\<lambda>_. Inr ())) messages))))))))))"

definition check_workflow_consistency :: "summary_validator \<Rightarrow> store \<Rightarrow> string \<Rightarrow> string list res" where
  "check_workflow_consistency validate db workflow_id =
     bind_res (replay_workflow_history db workflow_id None) (\<lambda>s.
     let rows = map ev_event (workflow_event_rows db workflow_id);
         summary_ids = List.map_filter summary_message_of rows;
         started = length (filter is_execution_started rows);
         actual_summary_ids = sort (map outbox_key
           (filter (\<lambda>r. om_workflow_id (os_message r) = workflow_id
                     \<and> om_kind (os_message r) = KIND_SUMMARY_PRESENTED) (db_outbox db)));
         durable_ids = map rc_command_id
           (sort_key rc_command_id (filter (\<lambda>c. rc_workflow_id c = workflow_id) (db_commands db)))
     in bind_res (ensure (distinct summary_ids \<and> sort summary_ids = actual_summary_ids)
          ''summary events and durable outbox cardinality disagree'') (\<lambda>_.
        bind_res (for_each (\<lambda>m. bind_res (load_outbox validate db m) (\<lambda>_. Inr ())) actual_summary_ids) (\<lambda>_.
        case sm_command_ids (st_meta s) of
          [] \<Rightarrow>
            bind_res (ensure (durable_ids = [] \<and> started = 0)
              ''workflow without command metadata owns execution history'') (\<lambda>_. Inr [])
        | cid # others \<Rightarrow>
            bind_res (ensure (others = [] \<and> durable_ids = [cid])
              ''workflow command metadata disagrees with durable commands'') (\<lambda>_.
            bind_res (check_command_consistency validate db s started cid) (\<lambda>_. Inr [cid])))))"

definition assert_execution_consistency :: "summary_validator \<Rightarrow> store \<Rightarrow> unit res" where
  "assert_execution_consistency validate db =
     (let command_ids = map rc_command_id (db_commands db); ledger_ids = map lg_command_id (db_ledger db)
      in bind_res (ensure (distinct command_ids \<and> set command_ids = set ledger_ids)
           ''command and ledger identity sets disagree'') (\<lambda>_.
         bind_res (map_res (check_workflow_consistency validate db)
                    (sort (map workflow_key (db_workflows db)))) (\<lambda>represented.
         bind_res (ensure (set (concat represented) = set command_ids)
           ''durable command is absent from its workflow state'') (\<lambda>_.
         for_each (\<lambda>m. bind_res (load_outbox validate db m) (\<lambda>_. Inr ()))
           (sort (map outbox_key (db_outbox db)))))))"

record reconciliation_result =
  pre_dispatch_released :: int
  called_unknown :: int

definition reconcile_once ::
  "summary_validator \<Rightarrow> store \<Rightarrow> timestamp \<Rightarrow> store \<times> reconciliation_result res" where
  "reconcile_once validate db now =
     (case assert_execution_consistency validate db of
        Inl err \<Rightarrow> (db, Inl err)
      | Inr _ \<Rightarrow>
          (case release_expired_pre_dispatch db now of
             Inl err \<Rightarrow> (db, Inl err)
           | Inr (db, released) \<Rightarrow>
               (case mark_expired_fenced_unknown db now of
                  Inl err \<Rightarrow> (db, Inl err)
                | Inr (db, unknown) \<Rightarrow>
                    (case assert_execution_consistency validate db of
                       Inl err \<Rightarrow> (db, Inl err)
                     | Inr _ \<Rightarrow> (db, Inr \<lparr>pre_dispatch_released = released, called_unknown = unknown\<rparr>)))))"

end
