(* ===== verification/Exec_Outbox.thy ===== *)
theory Exec_Outbox
  imports Exec_History Exec_Apply Exec_Dispatch
begin

text \<open>
  The outbox of \<^verbatim>\<open>sqlite_store.py\<close> and the delivery worker of \<^verbatim>\<open>outbox.py\<close>: a message is leased,
  delivered with a receipt or released, and a delivered message stays delivered. The delivery port
  is a parameter: \<open>None\<close> when it raises.
\<close>

definition assert_live_outbox_claim :: "outbox_claim \<Rightarrow> outbox_snapshot \<Rightarrow> timestamp \<Rightarrow> unit res" where
  "assert_live_outbox_claim claim s now =
     (if os_status s \<noteq> LEASED \<or> os_message s \<noteq> oc_message claim \<or> os_lease s \<noteq> Some (oc_lease claim)
         \<or> os_fencing_token s \<noteq> lease_token (oc_lease claim)
         \<or> os_delivery_attempts s \<noteq> oc_delivery_attempts claim
         \<or> os_updated_at s \<noteq> lease_acquired (oc_lease claim) \<or> now < os_updated_at s
         \<or> now \<ge> lease_expires (oc_lease claim)
      then Inl (StaleLease ''outbox claim is stale, expired, or divergent'')
      else Inr ())"

definition update_outbox ::
  "store \<Rightarrow> (outbox_snapshot \<Rightarrow> bool) \<Rightarrow> (outbox_snapshot \<Rightarrow> outbox_snapshot) \<Rightarrow> py_error \<Rightarrow> store res" where
  "update_outbox db p f err =
     bind_res (swap_one p f err (db_outbox db)) (\<lambda>rows. Inr (db\<lparr>db_outbox := rows\<rparr>))"

definition outbox_expired :: "timestamp \<Rightarrow> outbox_snapshot \<Rightarrow> bool" where
  "outbox_expired now s \<longleftrightarrow> (case os_lease s of None \<Rightarrow> False | Some l \<Rightarrow> lease_expires l \<le> now)"

definition outbox_candidate :: "timestamp \<Rightarrow> outbox_snapshot \<Rightarrow> bool" where
  "outbox_candidate now s \<longleftrightarrow>
     os_status s \<in> {PENDING, LEASED} \<and> (os_status s = PENDING \<or> outbox_expired now s)"

definition claim_outbox ::
  "summary_validator \<Rightarrow> store \<Rightarrow> string \<Rightarrow> timestamp \<Rightarrow> timedelta \<Rightarrow> (store \<times> outbox_claim option) res" where
  "claim_outbox validate db worker_id now lease_ttl =
     bind_res (exact_id worker_id ''worker_id'') (\<lambda>worker.
     bind_res (lease_deadline now lease_ttl) (\<lambda>expires_at.
     case first_by (\<lambda>s. (om_created_at (os_message s), outbox_key s)) (outbox_candidate now) (db_outbox db) of
       None \<Rightarrow> Inr (db, None)
     | Some candidate \<Rightarrow>
         bind_res (load_outbox_snapshot validate db (outbox_key candidate)) (\<lambda>s.
         if now < om_created_at (os_message s) \<or> now < os_updated_at s
         then Inl (ValueError ''outbox claim time cannot predate durable message state'')
         else if \<not> (os_status s = PENDING \<or> os_status s = LEASED \<and> outbox_expired now s)
         then Inl (DataCorruption ''eligible outbox row has an impossible lease state'')
         else
         let token = os_fencing_token s + 1; attempts = os_delivery_attempts s + 1
         in if token \<noteq> attempts
         then Inl (DataCorruption ''outbox token and delivery attempts diverged'')
         else
         bind_res (update_outbox db
           (\<lambda>r. outbox_key r = outbox_key s
                \<and> (if os_status s = PENDING then os_status r = PENDING \<and> os_lease r = None
                   else os_status r = LEASED \<and> os_lease r = os_lease s)
                \<and> os_fencing_token r = os_fencing_token s
                \<and> os_delivery_attempts r = os_delivery_attempts s \<and> os_updated_at r = os_updated_at s
                \<and> os_delivered_at r = None \<and> os_receipt_hash r = None)
           (\<lambda>r. r\<lparr>os_status := LEASED,
                  os_lease := Some \<lparr>lease_owner = worker, lease_token = token, lease_acquired = now,
                                    lease_expires = expires_at\<rparr>,
                  os_fencing_token := token, os_delivery_attempts := attempts, os_updated_at := now\<rparr>)
           (ConcurrencyConflict ''outbox claim lost its compare-and-swap'')) (\<lambda>db.
         bind_res (load_outbox_snapshot validate db (outbox_key s)) (\<lambda>persisted.
         bind_res (mk_lease worker token now expires_at) (\<lambda>lease.
         if os_status persisted \<noteq> LEASED \<or> os_lease persisted \<noteq> Some lease
            \<or> os_delivery_attempts persisted \<noteq> attempts \<or> os_message persisted \<noteq> os_message s
         then Inl (DataCorruption ''persisted outbox claim projection is invalid'')
         else bind_res (mk_outbox_claim (os_message persisted) lease attempts) (\<lambda>claim.
                Inr (db, Some claim))))))))"

text \<open>The predicate of the two updates that end a claim.\<close>

definition outbox_held :: "outbox_claim \<Rightarrow> timestamp \<Rightarrow> outbox_snapshot \<Rightarrow> bool" where
  "outbox_held claim now r \<longleftrightarrow>
     outbox_key r = om_message_id (oc_message claim) \<and> os_status r = LEASED
     \<and> os_lease r = Some (oc_lease claim) \<and> os_fencing_token r = lease_token (oc_lease claim)
     \<and> os_delivery_attempts r = oc_delivery_attempts claim
     \<and> os_updated_at r = lease_acquired (oc_lease claim) \<and> lease_expires (oc_lease claim) > now
     \<and> os_delivered_at r = None \<and> os_receipt_hash r = None"

definition complete_outbox ::
  "summary_validator \<Rightarrow> store \<Rightarrow> outbox_claim \<Rightarrow> delivery_receipt \<Rightarrow> timestamp
   \<Rightarrow> (store \<times> outbox_snapshot) res" where
  "complete_outbox validate db claim receipt now =
     (if dlr_message_id receipt \<noteq> om_message_id (oc_message claim)
      then Inl (IdentityConflict ''delivery receipt belongs to another outbox message'')
      else if dlr_delivered_at receipt > now
      then Inl (ValueError ''receipt.delivered_at cannot exceed completion time'')
      else
      bind_res (load_outbox_snapshot validate db (om_message_id (oc_message claim))) (\<lambda>s.
      if os_message s \<noteq> oc_message claim
      then Inl (IdentityConflict ''outbox claim contains divergent message bytes'')
      else if os_status s = DELIVERED
      then (if os_receipt_hash s = Some (dlr_receipt_hash receipt)
               \<and> os_delivered_at s = Some (dlr_delivered_at receipt)
            then Inr (db, s)
            else Inl (IdentityConflict ''delivered outbox has a divergent receipt''))
      else
      bind_res (assert_live_outbox_claim claim s now) (\<lambda>_.
      if dlr_delivered_at receipt < lease_acquired (oc_lease claim)
      then Inl (ValueError ''receipt.delivered_at predates the delivery claim'')
      else
      bind_res (update_outbox db (outbox_held claim now)
        (\<lambda>r. r\<lparr>os_status := DELIVERED, os_lease := None, os_delivered_at := Some (dlr_delivered_at receipt),
               os_receipt_hash := Some (dlr_receipt_hash receipt), os_updated_at := now\<rparr>)
        (StaleLease ''outbox completion lost its compare-and-swap'')) (\<lambda>db.
      bind_res (load_outbox_snapshot validate db (om_message_id (oc_message claim))) (\<lambda>persisted.
      if os_status persisted \<noteq> DELIVERED \<or> os_receipt_hash persisted \<noteq> Some (dlr_receipt_hash receipt)
         \<or> os_delivered_at persisted \<noteq> Some (dlr_delivered_at receipt) \<or> os_lease persisted \<noteq> None
      then Inl (DataCorruption ''persisted outbox receipt projection is invalid'')
      else Inr (db, persisted))))))"

definition release_outbox ::
  "summary_validator \<Rightarrow> store \<Rightarrow> outbox_claim \<Rightarrow> timestamp \<Rightarrow> (store \<times> outbox_snapshot) res" where
  "release_outbox validate db claim now =
     bind_res (load_outbox_snapshot validate db (om_message_id (oc_message claim))) (\<lambda>s.
     bind_res (assert_live_outbox_claim claim s now) (\<lambda>_.
     bind_res (update_outbox db (outbox_held claim now)
       (\<lambda>r. r\<lparr>os_status := PENDING, os_lease := None, os_updated_at := now\<rparr>)
       (StaleLease ''outbox release lost its compare-and-swap'')) (\<lambda>db.
     bind_res (load_outbox_snapshot validate db (om_message_id (oc_message claim))) (\<lambda>persisted.
     if os_status persisted \<noteq> PENDING \<or> os_lease persisted \<noteq> None
        \<or> os_fencing_token persisted \<noteq> lease_token (oc_lease claim)
        \<or> os_delivery_attempts persisted \<noteq> oc_delivery_attempts claim
     then Inl (DataCorruption ''released outbox projection is invalid'')
     else Inr (db, persisted)))))"

section \<open>The delivery worker\<close>

datatype outbox_worker_result = OutboxIdle | OutboxDelivered string | OutboxRetryableFailure string

text \<open>
  One run. The claim commits before the port is called and the completion after it, so the store
  is returned also when the completion raises.
\<close>

definition outbox_run_once ::
  "summary_validator \<Rightarrow> (outbox_message \<Rightarrow> delivery_receipt option) \<Rightarrow> store \<Rightarrow> string \<Rightarrow> timestamp \<Rightarrow> timedelta
   \<Rightarrow> store \<times> outbox_worker_result res" where
  "outbox_run_once validate deliver db worker_id now lease_ttl =
     (case claim_outbox validate db worker_id now lease_ttl of
        Inl err \<Rightarrow> (db, Inl err)
      | Inr (db, None) \<Rightarrow> (db, Inr OutboxIdle)
      | Inr (db, Some claim) \<Rightarrow>
          (case deliver (oc_message claim) of
             None \<Rightarrow>
               (case release_outbox validate db claim now of
                  Inl err \<Rightarrow> (db, Inl err)
                | Inr (db, _) \<Rightarrow> (db, Inr (OutboxRetryableFailure (om_message_id (oc_message claim)))))
           | Some receipt \<Rightarrow>
               (case complete_outbox validate db claim receipt now of
                  Inl err \<Rightarrow> (db, Inl err)
                | Inr (db, _) \<Rightarrow> (db, Inr (OutboxDelivered (om_message_id (oc_message claim)))))))"

end
