(* ===== verification/Fenced_Rows.thy ===== *)
theory Fenced_Rows
  imports Exec_Tables
begin

text \<open>
  The interfaces of the tables of both stores. A row is never removed and an update only moves it
  along a transitive relation; where the row carries a fencing token that does not fall along the
  relation, a lease whose token the row has passed fits it never again. The ledgers and outboxes of
  both stores interpret the second, their other tables the first.
\<close>

definition table_evolves ::
  "('r \<Rightarrow> 'k) \<Rightarrow> ('r \<Rightarrow> 'r \<Rightarrow> bool) \<Rightarrow> 'r list \<Rightarrow> 'r list \<Rightarrow> bool" where
  "table_evolves key evolves rows rows' \<longleftrightarrow>
     (\<forall>k r. find_row key k rows = Some r \<longrightarrow> (\<exists>r'. find_row key k rows' = Some r' \<and> evolves r r'))"

locale keyed_rows =
  fixes key :: "'r \<Rightarrow> string" and evolves :: "'r \<Rightarrow> 'r \<Rightarrow> bool"
  assumes evolves_refl [simp]: "evolves r r"
    and evolves_trans: "evolves a b \<Longrightarrow> evolves b c \<Longrightarrow> evolves a c"
    and evolves_key: "evolves a b \<Longrightarrow> key b = key a"
begin

lemma table_refl [simp]: "table_evolves key evolves rows rows"
  by (simp add: table_evolves_def)

lemma table_trans:
  "table_evolves key evolves a b \<Longrightarrow> table_evolves key evolves b c \<Longrightarrow> table_evolves key evolves a c"
  unfolding table_evolves_def by (meson evolves_trans)

lemma table_append [simp]: "table_evolves key evolves rows (rows @ new)"
  by (simp add: table_evolves_def find_row_append)

lemma table_update:
  assumes "\<And>r. r \<in> set rows \<Longrightarrow> p r \<Longrightarrow> evolves r (f r)"
  shows "table_evolves key evolves rows (update_where p f rows)
    \<and> map key (update_where p f rows) = map key rows"
  using assms
proof (induction rows)
  case Nil
  then show ?case by (simp add: table_evolves_def update_where_def)
next
  case (Cons x xs)
  let ?x = "if p x then f x else x"
  have x: "evolves x ?x" using Cons.prems by auto
  have IH: "table_evolves key evolves xs (update_where p f xs)"
    "map key (update_where p f xs) = map key xs" using Cons by auto
  have u: "update_where p f (x # xs) = ?x # update_where p f xs" by (simp add: update_where_def)
  show ?case using IH x evolves_key [OF x] unfolding u table_evolves_def by auto
qed

end

locale fenced_rows = keyed_rows key evolves
  for key :: "'r \<Rightarrow> string" and evolves :: "'r \<Rightarrow> 'r \<Rightarrow> bool" +
  fixes token :: "'r \<Rightarrow> int"
  assumes evolves_token: "evolves a b \<Longrightarrow> token a \<le> token b"
begin

text \<open>A lease whose token the row has passed never fits the row again.\<close>

lemma stale_forever:
  assumes "table_evolves key evolves rows rows'" "find_row key k rows = Some r" "t < token r"
  shows "\<exists>r'. find_row key k rows' = Some r' \<and> token r' \<noteq> t"
  using assms evolves_token unfolding table_evolves_def by fastforce

end

end
