(* ===== verification/Exec_Laws.thy ===== *)
theory Exec_Laws
  imports Exec_Worker Exec_Outbox Fenced_Rows
begin

text \<open>
  How the tables of the execution store evolve: rows are never removed, commands and events never
  change, a ledger row's counters and fencing token only grow, its single dispatch slot is never
  given back and a recorded outcome is final, and a delivered message stays delivered. The
  ledger and the outbox interpret the interface of a table of fenced rows.
\<close>

section \<open>Ledger rows and outbox rows\<close>

definition ledger_evolves :: "ledger_snapshot \<Rightarrow> ledger_snapshot \<Rightarrow> bool" where
  "ledger_evolves a b \<longleftrightarrow>
     lg_command_id b = lg_command_id a \<and> lg_fencing_token a \<le> lg_fencing_token b
     \<and> lg_claim_count a \<le> lg_claim_count b \<and> lg_preparation_failures a \<le> lg_preparation_failures b
     \<and> (lg_dispatch_slots a \<noteq> 0 \<longrightarrow> lg_dispatch_slots b = lg_dispatch_slots a
          \<and> lg_fencing_token b = lg_fencing_token a \<and> lg_request_hash b = lg_request_hash a
          \<and> lg_fenced_at b = lg_fenced_at a)
     \<and> (lg_outcome a \<noteq> None \<longrightarrow> b = a)"

definition outbox_evolves :: "outbox_snapshot \<Rightarrow> outbox_snapshot \<Rightarrow> bool" where
  "outbox_evolves a b \<longleftrightarrow>
     os_message b = os_message a \<and> os_fencing_token a \<le> os_fencing_token b
     \<and> os_delivery_attempts a \<le> os_delivery_attempts b
     \<and> (os_status a = DELIVERED \<longrightarrow> b = a)"

text \<open>The status matrix ties the two readings of "dispatched" together.\<close>

definition ledger_ok :: "ledger_snapshot \<Rightarrow> bool" where
  "ledger_ok r \<longleftrightarrow> check_ledger_snapshot r = Inr r"

lemma ledger_ok_iff:
  "ledger_ok r \<longleftrightarrow> id_re (lg_command_id r) \<and> opt_all id_re (lg_claim_owner r) \<and> 0 \<le> lg_fencing_token r
     \<and> 0 \<le> lg_claim_count r \<and> 0 \<le> lg_preparation_failures r \<and> lg_preparation_failures r \<le> 3
     \<and> opt_all hash_re (lg_request_hash r) \<and> opt_all hash_re (lg_outcome_hash r)
     \<and> (lease_empty r \<or> lease_full r)
     \<and> (lease_full r \<longrightarrow> 1 \<le> lg_fencing_token r \<and> the (lg_lease_acquired_at r) < the (lg_lease_expires_at r))
     \<and> (lg_dispatch_slots r = 0 \<and> lg_request_hash r = None \<and> lg_fenced_at r = None
        \<or> lg_dispatch_slots r = 1 \<and> lg_request_hash r \<noteq> None \<and> lg_fenced_at r \<noteq> None)
     \<and> (lg_outcome r = None) = (lg_outcome_hash r = None) \<and> ledger_status_valid r"
  unfolding ledger_ok_def check_ledger_snapshot_def guard_Inr_iff
  by (auto simp del: id_re.simps)

lemma ledger_ok_slots:
  "ledger_ok r \<Longrightarrow> lg_dispatch_slots r = 1 \<Longrightarrow> lg_status r \<notin> {QUEUED, PREPARING}"
  by (auto simp: ledger_ok_iff ledger_status_valid_def simp del: id_re.simps split: ledger_status.splits)

interpretation ledger: fenced_rows lg_command_id ledger_evolves lg_fencing_token
  by unfold_locales (auto simp: ledger_evolves_def)

interpretation outbox: fenced_rows outbox_key outbox_evolves os_fencing_token
  by unfold_locales (auto simp: outbox_evolves_def outbox_key_def)


section \<open>Invariant of the store\<close>

text \<open>
  A command is in flight while its row is prepared or dispatched. Two commands of one draft
  version, as the parts of a package have, are never in flight together.
\<close>

definition in_flight :: "ledger_snapshot \<Rightarrow> bool" where
  "in_flight r \<longleftrightarrow> lg_status r \<in> {PREPARING, DISPATCH_FENCED}"

definition flights :: "store \<Rightarrow> string set" where
  "flights db = lg_command_id ` {r \<in> set (db_ledger db). in_flight r}"

definition same_version :: "reservation_command \<Rightarrow> reservation_command \<Rightarrow> bool" where
  "same_version c d \<longleftrightarrow> rc_draft_id c = rc_draft_id d \<and> rc_draft_version c = rc_draft_version d"

definition exclusive :: "store \<Rightarrow> bool" where
  "exclusive db \<longleftrightarrow>
     (\<forall>c \<in> set (db_commands db). \<forall>d \<in> set (db_commands db).
        rc_command_id c \<in> flights db \<and> rc_command_id d \<in> flights db \<and> same_version c d
        \<longrightarrow> rc_command_id c = rc_command_id d)"

lemma exclusive_mono: "exclusive db \<Longrightarrow> flights db' \<subseteq> flights db \<Longrightarrow> db_commands db' = db_commands db \<Longrightarrow> exclusive db'"
  unfolding exclusive_def by (metis subsetD)

lemma exclusive_frame [simp]:
  "exclusive (db\<lparr>db_workflows := x\<rparr>) = exclusive db" "exclusive (db\<lparr>db_events := y\<rparr>) = exclusive db"
  "exclusive (db\<lparr>db_outbox := z\<rparr>) = exclusive db"
  by (simp_all add: exclusive_def flights_def)

text \<open>What an update may do to a row of the ledger without starting a flight.\<close>

definition row_step :: "ledger_snapshot \<Rightarrow> ledger_snapshot \<Rightarrow> bool" where
  "row_step r r' \<longleftrightarrow> ledger_ok r' \<and> ledger_evolves r r'"

definition store_ok :: "store \<Rightarrow> bool" where
  "store_ok db \<longleftrightarrow>
     distinct (map workflow_key (db_workflows db)) \<and> distinct (map event_key (db_events db))
     \<and> distinct (map rc_command_id (db_commands db)) \<and> distinct (map lg_command_id (db_ledger db))
     \<and> distinct (map outbox_key (db_outbox db))
     \<and> (\<forall>r \<in> set (db_workflows db). wf_state (wr_state r))
     \<and> (\<forall>c \<in> set (db_commands db). wf_command c)
     \<and> (\<forall>r \<in> set (db_ledger db). ledger_ok r)
     \<and> (\<forall>r \<in> set (db_ledger db). lg_command_id r \<in> rc_command_id ` set (db_commands db))
     \<and> exclusive db"

definition store_evolves :: "store \<Rightarrow> store \<Rightarrow> bool" where
  "store_evolves a b \<longleftrightarrow>
     table_evolves lg_command_id ledger_evolves (db_ledger a) (db_ledger b)
     \<and> table_evolves outbox_key outbox_evolves (db_outbox a) (db_outbox b)
     \<and> (\<exists>new. db_commands b = db_commands a @ new) \<and> (\<exists>new. db_events b = db_events a @ new)"

lemma store_evolves_refl [simp]: "store_evolves a a"
  by (simp add: store_evolves_def)

lemma store_evolves_trans: "store_evolves a b \<Longrightarrow> store_evolves b c \<Longrightarrow> store_evolves a c"
  unfolding store_evolves_def
  by (auto intro: ledger.table_trans outbox.table_trans)

text \<open>What every committed operation does to the store.\<close>

definition good_step :: "store \<Rightarrow> store \<Rightarrow> bool" where
  "good_step a b \<longleftrightarrow> (store_ok a \<longrightarrow> store_ok b \<and> store_evolves a b)"

lemma good_step_refl [simp]: "good_step a a"
  by (simp add: good_step_def)

lemma good_step_trans: "good_step a b \<Longrightarrow> good_step b c \<Longrightarrow> good_step a c"
  unfolding good_step_def by (meson store_evolves_trans)

section \<open>The writing helpers keep the invariant\<close>

lemma find_event_None: "find_row event_key i rows = None \<longleftrightarrow> i \<notin> event_key ` set rows"
  by (rule find_row_None)

lemma insert_event_good: "insert_event opn db wid e n = Inr db' \<Longrightarrow> good_step db db'"
  by (auto simp: insert_event_def event_exists_def good_step_def store_ok_def store_evolves_def
      find_event_None event_key_def image_iff split: if_splits)

lemma insert_event_tables:
  "insert_event opn db wid e n = Inr db' \<Longrightarrow> db_ledger db' = db_ledger db
     \<and> db_workflows db' = db_workflows db \<and> db_commands db' = db_commands db \<and> db_outbox db' = db_outbox db"
  by (auto simp: insert_event_def split: if_splits)

lemma distinct_keys_update:
  "(\<And>r. r \<in> set rows \<Longrightarrow> p r \<Longrightarrow> key (f r) = key r) \<Longrightarrow>
     map key (update_where p f rows) = map key rows"
  by (induction rows) (auto simp: update_where_def)

lemma update_state_good:
  assumes "update_state_compare_and_swap db cur nxt = Inr db'"
    and "wf_state nxt" and "sm_workflow_id (st_meta nxt) = sm_workflow_id (st_meta cur)"
  shows "good_step db db'"
proof -
  obtain p where db': "db' = db\<lparr>db_workflows := update_where p
      (\<lambda>r. r\<lparr>wr_state := nxt, wr_updated_at := sm_last_event_at (st_meta nxt)\<rparr>) (db_workflows db)\<rparr>"
    and p: "\<And>r. p r \<Longrightarrow> workflow_key r = sm_workflow_id (st_meta cur)"
    using assms(1)
    by (auto simp: update_state_compare_and_swap_def bind_res_Inr_iff swap_one_Inr)
  have "map workflow_key (db_workflows db') = map workflow_key (db_workflows db)"
    unfolding db' by (simp, rule distinct_keys_update) (simp add: p workflow_key_def [of "_\<lparr>wr_state := _, wr_updated_at := _\<rparr>"] assms(3))
  moreover have "\<forall>r \<in> set (db_workflows db'). wf_state (wr_state r)" if "store_ok db"
    using that assms(2) unfolding db' by (auto simp: store_ok_def dest!: set_update_where)
  ultimately show ?thesis
    using db' by (auto simp: good_step_def store_ok_def store_evolves_def)
qed

lemma update_state_tables:
  "update_state_compare_and_swap db cur nxt = Inr db' \<Longrightarrow> db_ledger db' = db_ledger db
     \<and> db_commands db' = db_commands db \<and> db_outbox db' = db_outbox db \<and> db_events db' = db_events db"
  by (auto simp: update_state_compare_and_swap_def bind_res_Inr_iff)

lemma insert_outbox_good: "insert_outbox db m = Inr db' \<Longrightarrow> good_step db db'"
  by (force simp: insert_outbox_def good_step_def store_ok_def store_evolves_def list_ex_iff
      outbox_key_def [of "\<lparr>os_message = _, os_status = _, os_lease = _, os_fencing_token = _,
        os_delivery_attempts = _, os_delivered_at = _, os_receipt_hash = _, os_updated_at = _\<rparr>"]
      image_iff split: if_splits)

lemma insert_outbox_tables:
  "insert_outbox db m = Inr db' \<Longrightarrow> db_ledger db' = db_ledger db \<and> db_commands db' = db_commands db
     \<and> db_workflows db' = db_workflows db \<and> db_events db' = db_events db"
  by (auto simp: insert_outbox_def split: if_splits)

lemma initial_ledger_ok: "id_re (rc_command_id c) \<Longrightarrow> ledger_ok (initial_ledger c)"
  by (simp add: ledger_ok_iff initial_ledger_def opt_all_def lease_empty_def lease_full_def
      ledger_status_valid_def del: id_re.simps)

lemma insert_command_good:
  assumes "insert_immutable_command db c = Inr db1" "insert_initial_ledger db1 c = Inr db2" "wf_command c"
  shows "good_step db db2"
proof -
  have db1: "db1 = db\<lparr>db_commands := db_commands db @ [c]\<rparr>"
    and new: "\<forall>x \<in> set (db_commands db). rc_command_id x \<noteq> rc_command_id c"
    using assms(1) by (auto simp: insert_immutable_command_def list_ex_iff split: if_splits)
  have db2: "db2 = db1\<lparr>db_ledger := db_ledger db1 @ [initial_ledger c]\<rparr>"
    and newl: "rc_command_id c \<notin> lg_command_id ` set (db_ledger db1)"
    using assms(2) by (auto simp: insert_initial_ledger_def find_row_None split: if_splits)
  have "id_re (rc_command_id c)" using wf_command_ids [OF assms(3)] by simp
  moreover have "lg_command_id (initial_ledger c) = rc_command_id c" by (simp add: initial_ledger_def)
  moreover have "exclusive db2" if "store_ok db"
  proof -
    have "flights db2 = flights db" by (auto simp: flights_def db1 db2 in_flight_def initial_ledger_def)
    moreover have "rc_command_id c \<notin> flights db" using newl by (auto simp: flights_def db1)
    ultimately show ?thesis using that by (auto simp: store_ok_def exclusive_def db1 db2)
  qed
  ultimately show ?thesis
    using new newl assms(3) initial_ledger_ok [of c] unfolding db1 db2
    by (auto simp: good_step_def store_ok_def store_evolves_def image_iff simp del: id_re.simps)
qed

lemma insert_commands_good:
  "insert_commands db cs = Inr db' \<Longrightarrow> list_all wf_command cs \<Longrightarrow> good_step db db'"
proof (induction cs arbitrary: db)
  case Nil
  then show ?case by simp
next
  case (Cons c cs)
  then obtain db1 db2 where "insert_immutable_command db c = Inr db1"
    "insert_initial_ledger db1 c = Inr db2" "insert_commands db2 cs = Inr db'"
    by (auto simp: bind_res_Inr_iff)
  moreover have "wf_command c" "list_all wf_command cs" using Cons.prems by simp_all
  ultimately show ?case using Cons.IH insert_command_good by (meson good_step_trans)
qed

lemma insert_messages_good: "insert_messages db ms = Inr db' \<Longrightarrow> good_step db db'"
  by (induction ms arbitrary: db)
     (auto simp: bind_res_Inr_iff intro: good_step_trans insert_outbox_good)

text \<open>
  One update of the ledger, by the condition \<open>p\<close> and the change \<open>f\<close> of its statement: it may start
  the flight of a command only while no command of the same draft version is in flight.
\<close>

lemma update_ledger_step:
  assumes up: "update_ledger db p f err = Inr db'"
    and row: "\<And>r. r \<in> set (db_ledger db) \<Longrightarrow> ledger_ok r \<Longrightarrow> p r \<Longrightarrow> row_step r (f r)"
    and fly: "store_ok db \<Longrightarrow> exclusive db'"
  shows "good_step db db'"
proof -
  have db': "db' = db\<lparr>db_ledger := update_where p f (db_ledger db)\<rparr>"
    using up by (auto simp: update_ledger_def bind_res_Inr_iff swap_one_Inr)
  show ?thesis unfolding good_step_def
  proof
    assume ok: "store_ok db"
    then have *: "\<And>r. r \<in> set (db_ledger db) \<Longrightarrow> p r \<Longrightarrow> ledger_evolves r (f r) \<and> ledger_ok (f r)"
      using row by (auto simp: store_ok_def row_step_def)
    note up = ledger.table_update [of "db_ledger db" p f]
    have "\<forall>r \<in> set (update_where p f (db_ledger db)). ledger_ok r
        \<and> lg_command_id r \<in> rc_command_id ` set (db_commands db)"
      using ok * by (auto simp: store_ok_def ledger_evolves_def dest!: set_update_where)
    with ok up * fly [OF ok] show "store_ok db' \<and> store_evolves db db'"
      unfolding db' by (auto simp: store_ok_def store_evolves_def)
  qed
qed

lemma flights_update:
  assumes "\<And>r. r \<in> set (db_ledger db) \<Longrightarrow> p r \<Longrightarrow> lg_command_id (f r) = lg_command_id r"
  shows "flights (db\<lparr>db_ledger := update_where p f (db_ledger db)\<rparr>)
    \<subseteq> flights db \<union> lg_command_id ` {r \<in> set (db_ledger db). p r \<and> in_flight (f r) \<and> \<not> in_flight r}"
  using assms by (auto simp: flights_def dest!: set_update_where)

lemma update_ledger_good:
  assumes up: "update_ledger db p f err = Inr db'"
    and row: "\<And>r. r \<in> set (db_ledger db) \<Longrightarrow> ledger_ok r \<Longrightarrow> p r \<Longrightarrow>
      row_step r (f r) \<and> (in_flight (f r) \<longrightarrow> in_flight r)"
  shows "good_step db db'"
proof (rule update_ledger_step [OF up])
  show "row_step r (f r)" if "r \<in> set (db_ledger db)" "ledger_ok r" "p r" for r
    using row that by blast
  assume ok: "store_ok db"
  have db': "db' = db\<lparr>db_ledger := update_where p f (db_ledger db)\<rparr>"
    using up by (auto simp: update_ledger_def bind_res_Inr_iff swap_one_Inr)
  have "lg_command_id (f r) = lg_command_id r \<and> \<not> (p r \<and> in_flight (f r) \<and> \<not> in_flight r)"
    if "r \<in> set (db_ledger db)" "p r" for r
    using row [of r] that ok by (auto simp: store_ok_def row_step_def ledger_evolves_def)
  then have "flights db' \<subseteq> flights db" using flights_update [of db p f] unfolding db' by auto
  with ok show "exclusive db'" by (auto simp: db' store_ok_def intro: exclusive_mono)
qed

text \<open>The claim is the update that starts a flight.\<close>

lemma update_claim_good:
  assumes up: "update_ledger db p f err = Inr db'"
    and row: "\<And>r. r \<in> set (db_ledger db) \<Longrightarrow> ledger_ok r \<Longrightarrow> p r \<Longrightarrow> row_step r (f r)"
    and p: "\<And>r. p r \<Longrightarrow> lg_command_id r = rc_command_id c"
    and c: "c \<in> set (db_commands db)" and free: "\<not> sibling_busy db c"
  shows "good_step db db'"
proof (rule update_ledger_step [OF up row])
  assume ok: "store_ok db"
  have db': "db' = db\<lparr>db_ledger := update_where p f (db_ledger db)\<rparr>"
    using up by (auto simp: update_ledger_def bind_res_Inr_iff swap_one_Inr)
  have "lg_command_id (f r) = lg_command_id r" if "r \<in> set (db_ledger db)" "p r" for r
    using row [of r] that ok by (auto simp: store_ok_def row_step_def ledger_evolves_def)
  then have fl: "flights db' \<subseteq> insert (rc_command_id c) (flights db)"
    using flights_update [of db p f] p unfolding db' by fastforce
  have alone: "rc_command_id d = rc_command_id c"
    if "d \<in> set (db_commands db)" "rc_command_id d \<in> flights db" "same_version c d" for d
    using free that by (auto simp: sibling_busy_def list_ex_iff flights_def in_flight_def same_version_def)
  have unique: "d = c" if "d \<in> set (db_commands db)" "rc_command_id d = rc_command_id c" for d
    using ok c that by (auto simp: store_ok_def distinct_map inj_on_def)
  have sym: "same_version a b \<Longrightarrow> same_version b a" for a b by (simp add: same_version_def)
  show "exclusive db'"
    unfolding exclusive_def
  proof (intro ballI impI; elim conjE)
    fix d e
    assume "d \<in> set (db_commands db')" "e \<in> set (db_commands db')" and v: "same_version d e"
      and "rc_command_id d \<in> flights db'" "rc_command_id e \<in> flights db'"
    then have "d \<in> set (db_commands db)" "e \<in> set (db_commands db)"
      "rc_command_id d = rc_command_id c \<or> rc_command_id d \<in> flights db"
      "rc_command_id e = rc_command_id c \<or> rc_command_id e \<in> flights db"
      using fl by (auto simp: db')
    then show "rc_command_id d = rc_command_id e"
      using alone unique v sym ok unfolding store_ok_def exclusive_def by metis
  qed
qed

text \<open>The same when the statement names the row that was read before.\<close>

lemma update_loaded_good:
  assumes "update_ledger db p f err = Inr db'" "find_row lg_command_id cid (db_ledger db) = Some l"
    and "\<And>r. p r \<Longrightarrow> lg_command_id r = cid"
    and "ledger_ok l \<Longrightarrow> p l \<Longrightarrow> row_step l (f l) \<and> (in_flight (f l) \<longrightarrow> in_flight l)"
  shows "good_step db db'"
proof (cases "distinct (map lg_command_id (db_ledger db))")
  case True
  then have "r = l" if "r \<in> set (db_ledger db)" "p r" for r
    using assms(2,3) that find_row_unique [of lg_command_id "db_ledger db" r] by auto
  with assms show ?thesis by (intro update_ledger_good [OF assms(1)]) auto
next
  case False
  then show ?thesis by (simp add: good_step_def store_ok_def)
qed

lemma update_ledger_tables:
  "update_ledger db p f err = Inr db' \<Longrightarrow> db_commands db' = db_commands db
     \<and> db_workflows db' = db_workflows db \<and> db_outbox db' = db_outbox db \<and> db_events db' = db_events db"
  by (auto simp: update_ledger_def bind_res_Inr_iff)

lemma update_outbox_good:
  assumes "update_outbox db p f err = Inr db'" and "\<And>r. p r \<Longrightarrow> outbox_evolves r (f r)"
  shows "good_step db db'"
proof -
  have db': "db' = db\<lparr>db_outbox := update_where p f (db_outbox db)\<rparr>"
    using assms(1) by (auto simp: update_outbox_def bind_res_Inr_iff swap_one_Inr)
  with outbox.table_update [of "db_outbox db" p f] assms(2) show ?thesis
    by (auto simp: good_step_def store_ok_def store_evolves_def)
qed

end
