(* ===== verification/Exec_Steps.thy ===== *)
theory Exec_Steps
  imports Exec_Laws
begin

text \<open>
  Every operation of the execution store, when it commits, keeps the invariant of the store and
  only lets its tables evolve. Each lemma composes the facts about the writes the operation makes.
\<close>

section \<open>What the reads return\<close>

lemma load_command_Inr:
  "load_command db cid = Inr c \<Longrightarrow> rc_command_id c = cid \<and> c \<in> set (db_commands db) \<and> id_re cid
     \<and> find_row rc_command_id cid (db_commands db) = Some c"
  by (auto simp: load_command_def bind_res_Inr_iff exact_id_def simp del: id_re.simps
      split: option.splits if_splits dest: find_row_Some)

lemma load_command_wf: "store_ok db \<Longrightarrow> load_command db cid = Inr c \<Longrightarrow> wf_command c"
  by (auto dest!: load_command_Inr simp: store_ok_def)

lemma state_from_row_Inr: "state_from_row r = Inr s \<Longrightarrow> s = wr_state r"
  by (auto simp: state_from_row_def bind_res_Inr_iff Let_def split: if_splits)

lemma load_workflow_Inr:
  assumes "load_workflow db wid = Inr s"
  shows "sm_workflow_id (st_meta s) = wid" "\<exists>r \<in> set (db_workflows db). wr_state r = s"
proof -
  obtain r where "find_row workflow_key wid (db_workflows db) = Some r" "state_from_row r = Inr s"
    using assms by (auto simp: load_workflow_def bind_res_Inr_iff exact_id_def split: option.splits if_splits)
  then show "sm_workflow_id (st_meta s) = wid" "\<exists>r \<in> set (db_workflows db). wr_state r = s"
    by (auto dest!: find_row_Some state_from_row_Inr simp: workflow_key_def)
qed

lemma load_workflow_wf: "store_ok db \<Longrightarrow> load_workflow db wid = Inr s \<Longrightarrow> wf_state s"
  using load_workflow_Inr(2) [of db wid s] by (auto simp: store_ok_def)

lemma check_ledger_same: "check_ledger_snapshot r = Inr s \<Longrightarrow> s = r \<and> ledger_ok r"
  unfolding ledger_ok_def check_ledger_snapshot_def guard_Inr_iff by auto

lemma load_ledger_Inr:
  assumes "load_ledger db cid = Inr l"
  shows "ledger_ok l" "lg_command_id l = cid" "find_row lg_command_id cid (db_ledger db) = Some l"
    "\<exists>c. load_command db cid = Inr c \<and> ledger_timeline c l = Inr () \<and> ledger_outcome_check c l = Inr ()"
proof -
  obtain c row where c: "load_command db cid = Inr c"
    and row: "find_row lg_command_id (rc_command_id c) (db_ledger db) = Some row"
    "check_ledger_snapshot row = Inr l" "ledger_timeline c l = Inr ()" "ledger_outcome_check c l = Inr ()"
    using assms by (auto simp: load_ledger_def bind_res_Inr_iff split: option.splits)
  have "l = row" "ledger_ok row" using check_ledger_same [OF row(2)] by auto
  with c row load_command_Inr [OF c] show "ledger_ok l" "lg_command_id l = cid"
    "find_row lg_command_id cid (db_ledger db) = Some l"
    "\<exists>c. load_command db cid = Inr c \<and> ledger_timeline c l = Inr () \<and> ledger_outcome_check c l = Inr ()"
    by (auto dest: find_row_Some)
qed

lemma reduce_result_facts:
  assumes "wf_state s" "wf_event e" "reduce s e = Inr t"
  shows "wf_state (tr_state t)" "sm_workflow_id (st_meta (tr_state t)) = sm_workflow_id (st_meta s)"
    "list_all wf_command (tr_commands t)"
proof -
  show wf: "wf_state (tr_state t)" using reduce_keeps assms by blast
  have "sm_workflow_id (st_meta (tr_state t)) = sm_workflow_id (st_meta s)
      \<and> (tr_commands t = [] \<or> (\<exists>c. tr_commands t = [c] \<and> state_command (tr_state t) = Some c))"
    using assms(1,2)
  proof (cases rule: reduce_cases)
    case (seen st r)
    with assms(3) show ?thesis by auto
  next
    case (new d)
    from new(6) have "de_commands d = [] \<or> (\<exists>c. de_commands d = [c] \<and> state_command (de_state d) = Some c)"
      by (auto simp: decision_ok_def split: option.splits if_splits)
    with new(4) assms(3) show ?thesis by (auto simp: next_meta_def)
  qed
  then show "sm_workflow_id (st_meta (tr_state t)) = sm_workflow_id (st_meta s)"
    "list_all wf_command (tr_commands t)" using wf_state_command [OF wf] by auto
qed

section \<open>Creating and applying\<close>

text \<open>The admissible step of the store: the invariant is kept and the tables evolve.\<close>

definition commits :: "store \<Rightarrow> store \<Rightarrow> bool" where
  "commits a b \<longleftrightarrow> store_ok b \<and> store_evolves a b"

lemma commits_good: "store_ok a \<Longrightarrow> good_step a b \<Longrightarrow> commits a b"
  by (simp add: commits_def good_step_def)

lemma commits_trans: "commits a b \<Longrightarrow> commits b c \<Longrightarrow> commits a c"
  by (auto simp: commits_def intro: store_evolves_trans)

lemma commits_refl: "store_ok a \<Longrightarrow> commits a a"
  by (simp add: commits_def)

lemma commits_ok: "commits a b \<Longrightarrow> store_ok b"
  by (simp add: commits_def)

lemma commits_step: "commits a b \<Longrightarrow> good_step b c \<Longrightarrow> commits a c"
  by (meson commits_good commits_ok commits_trans)

lemma create_workflow_commits:
  assumes "store_ok db" "wf_state s" "create_workflow db s = Inr (db', r)"
  shows "commits db db'"
proof -
  have "db' = db \<or> (find_row workflow_key (sm_workflow_id (st_meta s)) (db_workflows db) = None
      \<and> db' = db\<lparr>db_workflows := db_workflows db @
          [\<lparr>wr_state = s, wr_created_at = sm_last_event_at (st_meta s),
            wr_updated_at = sm_last_event_at (st_meta s)\<rparr>]\<rparr>)"
    using assms(3) by (auto simp: create_workflow_def bind_res_Inr_iff split: if_splits option.splits)
  with assms(1,2) show ?thesis
    by (auto simp: commits_def store_ok_def store_evolves_def find_row_None
        workflow_key_def [of "\<lparr>wr_state = _, wr_created_at = _, wr_updated_at = _\<rparr>"])
qed

lemma apply_event_commits:
  assumes ok: "store_ok db" and e: "wf_event e"
    and app: "apply_event v db wid n e outbox = Inr (db', r)"
  shows "commits db db'"
proof -
  obtain wrow current where w: "find_row workflow_key wid (db_workflows db) = Some wrow"
    and cur: "state_from_row wrow = Inr current"
    and rest: "db' = db \<or> (\<exists>t ms db1 db2 db3. reduce current e = Inr t
      \<and> insert_event ''transaction'' db wid e (sm_revision (st_meta (tr_state t))) = Inr db1
      \<and> update_state_compare_and_swap db1 current (tr_state t) = Inr db2
      \<and> insert_commands db2 (tr_commands t) = Inr db3 \<and> insert_messages db3 ms = Inr db')"
    using app by (fastforce simp: apply_event_def bind_res_Inr_iff exact_id_def
        split: option.splits if_splits)
  have "wf_state current"
    using ok w cur by (auto simp: store_ok_def dest!: find_row_Some state_from_row_Inr)
  note facts = reduce_result_facts [OF this e]
  show ?thesis using rest
  proof
    assume "db' = db"
    then show ?thesis using ok commits_refl by simp
  next
    assume "\<exists>t ms db1 db2 db3. reduce current e = Inr t
      \<and> insert_event ''transaction'' db wid e (sm_revision (st_meta (tr_state t))) = Inr db1
      \<and> update_state_compare_and_swap db1 current (tr_state t) = Inr db2
      \<and> insert_commands db2 (tr_commands t) = Inr db3 \<and> insert_messages db3 ms = Inr db'"
    then obtain t ms db1 db2 db3 where "reduce current e = Inr t"
      and s: "insert_event ''transaction'' db wid e (sm_revision (st_meta (tr_state t))) = Inr db1"
        "update_state_compare_and_swap db1 current (tr_state t) = Inr db2"
        "insert_commands db2 (tr_commands t) = Inr db3" "insert_messages db3 ms = Inr db'" by blast
    then show ?thesis
      using insert_event_good [OF s(1)] update_state_good [OF s(2)] insert_commands_good [OF s(3)]
        insert_messages_good [OF s(4)] facts ok
      by (meson commits_good commits_step)
  qed
qed


section \<open>The command ledger\<close>

lemma lease_deadline_Inr: "lease_deadline now ttl = Inr x \<Longrightarrow> now < x"
  by (auto simp: lease_deadline_def require_lease_ttl_def split: if_splits option.splits)

lemmas ledger_row_defs =
  ledger_ok_iff ledger_evolves_def ledger_status_valid_def opt_all_def lease_empty_def lease_full_def

lemma ledger_ok_counters: "ledger_ok r \<Longrightarrow> id_re (lg_command_id r) \<and> 0 \<le> lg_fencing_token r
    \<and> 0 \<le> lg_claim_count r \<and> 0 \<le> lg_preparation_failures r \<and> lg_preparation_failures r \<le> 3"
  by (simp add: ledger_ok_iff del: id_re.simps)

lemma ledger_ok_open:
  "ledger_ok r \<Longrightarrow> lg_status r \<in> {QUEUED, PREPARING, DISPATCH_FENCED} \<Longrightarrow>
     lg_outcome r = None \<and> lg_outcome_hash r = None"
  by (auto simp: ledger_ok_iff ledger_status_valid_def simp del: id_re.simps)

lemma ledger_ok_undispatched:
  "ledger_ok r \<Longrightarrow> lg_status r \<in> {QUEUED, PREPARING} \<Longrightarrow>
     lg_dispatch_slots r = 0 \<and> lg_request_hash r = None \<and> lg_fenced_at r = None"
  by (auto simp: ledger_ok_iff ledger_status_valid_def simp del: id_re.simps)

lemma ledger_ok_fenced:
  "ledger_ok r \<Longrightarrow> lg_status r = DISPATCH_FENCED \<Longrightarrow>
     lg_dispatch_slots r = 1 \<and> opt_all hash_re (lg_request_hash r) \<and> lg_request_hash r \<noteq> None
     \<and> lg_fenced_at r \<noteq> None"
  by (auto simp: ledger_ok_iff ledger_status_valid_def simp del: id_re.simps)

lemma ledger_ok_leased:
  "ledger_ok r \<Longrightarrow> lg_status r \<in> {PREPARING, DISPATCH_FENCED} \<Longrightarrow>
     lg_claim_count r \<ge> 1 \<and> lg_fencing_token r \<ge> 1
     \<and> (\<exists>w a x. lg_claim_owner r = Some w \<and> lg_lease_acquired_at r = Some a \<and> lg_lease_expires_at r = Some x
          \<and> id_re w \<and> a < x)"
  by (auto simp: ledger_ok_iff ledger_status_valid_def lease_full_def lease_empty_def opt_all_def
      simp del: id_re.simps split: option.splits)

text \<open>The updates of a ledger row, each with the condition its statement guarantees.\<close>

lemma claim_row_good:
  assumes "ledger_ok r" "lg_dispatch_slots r = 0" "lg_status r \<in> {QUEUED, PREPARING}" "id_re w" "now < x"
  shows "row_step r (r\<lparr>lg_status := PREPARING, lg_claim_owner := Some w,
      lg_fencing_token := lg_fencing_token r + 1, lg_lease_acquired_at := Some now,
      lg_lease_expires_at := Some x, lg_claim_count := lg_claim_count r + 1, lg_updated_at := now\<rparr>)"
  using ledger_ok_counters [OF assms(1)] ledger_ok_open [OF assms(1)] ledger_ok_undispatched [OF assms(1)] assms(3-)
  by (auto simp: ledger_row_defs row_step_def in_flight_def simp del: id_re.simps)

lemma renew_row_good:
  assumes "ledger_ok r" "lg_status r = PREPARING" "lg_lease_expires_at r = Some y" "y < x"
  shows "row_step r (r\<lparr>lg_lease_expires_at := Some x, lg_updated_at := now\<rparr>)
    \<and> (in_flight (r\<lparr>lg_lease_expires_at := Some x, lg_updated_at := now\<rparr>) \<longrightarrow> in_flight r)"
  using ledger_ok_counters [OF assms(1)] ledger_ok_open [OF assms(1)] ledger_ok_undispatched [OF assms(1)]
    ledger_ok_leased [OF assms(1)] assms(2-)
  by (auto simp: ledger_row_defs row_step_def in_flight_def simp del: id_re.simps)

lemma fence_row_good:
  assumes "ledger_ok r" "lg_status r = PREPARING" "hash_re h"
  shows "row_step r (r\<lparr>lg_status := DISPATCH_FENCED, lg_dispatch_slots := 1, lg_request_hash := Some h,
      lg_fenced_at := Some now, lg_updated_at := now\<rparr>)
    \<and> (in_flight (r\<lparr>lg_status := DISPATCH_FENCED, lg_dispatch_slots := 1, lg_request_hash := Some h,
      lg_fenced_at := Some now, lg_updated_at := now\<rparr>) \<longrightarrow> in_flight r)"
  using ledger_ok_counters [OF assms(1)] ledger_ok_open [OF assms(1)] ledger_ok_undispatched [OF assms(1)]
    ledger_ok_leased [OF assms(1)] assms(2-)
  by (auto simp: ledger_row_defs row_step_def in_flight_def simp del: id_re.simps)

lemma requeue_row_good:
  assumes "ledger_ok r" "lg_status r = PREPARING" "lg_preparation_failures r \<le> n" "n \<le> 3"
  shows "row_step r (r\<lparr>lg_status := QUEUED, lg_claim_owner := None, lg_lease_acquired_at := None,
      lg_lease_expires_at := None, lg_preparation_failures := n, lg_updated_at := now\<rparr>)
    \<and> (in_flight (r\<lparr>lg_status := QUEUED, lg_claim_owner := None, lg_lease_acquired_at := None,
      lg_lease_expires_at := None, lg_preparation_failures := n, lg_updated_at := now\<rparr>) \<longrightarrow> in_flight r)"
  using ledger_ok_counters [OF assms(1)] ledger_ok_open [OF assms(1)] ledger_ok_undispatched [OF assms(1)] assms(2-)
  by (simp add: ledger_row_defs row_step_def in_flight_def del: id_re.simps)

lemma release_row_good:
  assumes "ledger_ok r" "lg_status r = PREPARING"
  shows "row_step r (r\<lparr>lg_status := QUEUED, lg_claim_owner := None, lg_lease_acquired_at := None,
      lg_lease_expires_at := None, lg_updated_at := now\<rparr>)
    \<and> (in_flight (r\<lparr>lg_status := QUEUED, lg_claim_owner := None, lg_lease_acquired_at := None,
      lg_lease_expires_at := None, lg_updated_at := now\<rparr>) \<longrightarrow> in_flight r)"
  using ledger_ok_counters [OF assms(1)] ledger_ok_open [OF assms(1)] ledger_ok_undispatched [OF assms(1)] assms(2-)
  by (simp add: ledger_row_defs row_step_def in_flight_def del: id_re.simps)

lemma not_called_row_good:
  assumes "ledger_ok r" "lg_status r = PREPARING" "lg_preparation_failures r \<le> n" "n \<le> 3" "hash_re h"
  shows "row_step r (r\<lparr>lg_status := OUTCOME_RECORDED, lg_claim_owner := None, lg_lease_acquired_at := None,
      lg_lease_expires_at := None, lg_preparation_failures := n, lg_outcome := Some u,
      lg_outcome_hash := Some h, lg_updated_at := now\<rparr>)
    \<and> (in_flight (r\<lparr>lg_status := OUTCOME_RECORDED, lg_claim_owner := None, lg_lease_acquired_at := None,
      lg_lease_expires_at := None, lg_preparation_failures := n, lg_outcome := Some u,
      lg_outcome_hash := Some h, lg_updated_at := now\<rparr>) \<longrightarrow> in_flight r)"
  using ledger_ok_counters [OF assms(1)] ledger_ok_open [OF assms(1)] ledger_ok_undispatched [OF assms(1)] assms(2-)
  by (simp add: ledger_row_defs row_step_def in_flight_def del: id_re.simps)

lemma outcome_row_good:
  assumes "ledger_ok r" "lg_status r = DISPATCH_FENCED" "hash_re h"
    and "st = OUTCOME_RECORDED \<or> st = LEDGER_MANUAL_REVIEW"
  shows "row_step r (r\<lparr>lg_status := st, lg_claim_owner := None, lg_lease_acquired_at := None,
      lg_lease_expires_at := None, lg_outcome := Some u, lg_outcome_hash := Some h, lg_updated_at := now\<rparr>)
    \<and> (in_flight (r\<lparr>lg_status := st, lg_claim_owner := None, lg_lease_acquired_at := None,
      lg_lease_expires_at := None, lg_outcome := Some u, lg_outcome_hash := Some h, lg_updated_at := now\<rparr>) \<longrightarrow> in_flight r)"
  using ledger_ok_counters [OF assms(1)] ledger_ok_open [OF assms(1)] ledger_ok_fenced [OF assms(1)] assms(2-)
  by (auto simp: ledger_row_defs row_step_def in_flight_def simp del: id_re.simps)

lemma assert_live_Inr:
  assumes "assert_live_preparation_claim db claim now = Inr (c, l, s)"
  shows "load_command db (rc_command_id (cl_command claim)) = Inr c" "load_ledger db (rc_command_id c) = Inr l"
    "load_workflow db (rc_workflow_id c) = Inr s" "c = cl_command claim"
    "executing_command s c" "lg_status l = PREPARING" "lg_dispatch_slots l = 0"
    "lg_fencing_token l = lease_token (cl_lease claim)" "lg_claim_owner l = Some (lease_owner (cl_lease claim))"
    "lg_updated_at l \<le> now" "now < lease_expires (cl_lease claim)"
    "lg_preparation_failures l = cl_preparation_failures claim"
    "lg_lease_expires_at l = Some (lease_expires (cl_lease claim))"
  using assms
  by (auto simp: assert_live_preparation_claim_def bind_res_Inr_iff Let_def split: if_splits)

lemma start_claimed_commits:
  assumes "store_ok db" "wf_state s" "start_claimed db c s now = Inr (db', s')"
  shows "commits db db'" and "db_ledger db' = db_ledger db"
proof -
  obtain e t db1 where e: "mk_event (ExecutionStarted (derived_id ''event'' [''execution_started'', rc_command_id c])
      now (rc_command_id c)) = Inr e" and t: "reduce s e = Inr t"
    and i: "insert_event ''claim_command'' db (rc_workflow_id c) e (sm_revision (st_meta (tr_state t))) = Inr db1"
    and u: "update_state_compare_and_swap db1 s (tr_state t) = Inr db'"
    using assms(3) by (fastforce simp: start_claimed_def bind_res_Inr_iff split: if_splits)
  have "wf_event e" using mk_event_wf [OF e] by simp
  from reduce_result_facts [OF assms(2) this t] show "commits db db'"
    using insert_event_good [OF i] update_state_good [OF u] assms(1)
    by (meson commits_good commits_step)
  show "db_ledger db' = db_ledger db"
    using insert_event_tables [OF i] update_state_tables [OF u] by simp
qed

text \<open>An operation commits when its result, if it has one, is a store the old one commits to.\<close>

abbreviation committing :: "store \<Rightarrow> (store \<times> 'a) res \<Rightarrow> bool" where
  "committing db \<equiv> ensures (\<lambda>result. commits db (fst result))"

lemma claim_command_commits:
  assumes ok: "store_ok db"
  shows "committing db (claim_command db w now ttl)"
  unfolding claim_command_def
proof (intro ensures_rules; simp add: commits_refl [OF ok])
  fix x y candidate c l s db1 p db2 s2 l2 claim
  assume w: "exact_id w ''worker_id'' = Inr x" and y: "lease_deadline now ttl = Inr y"
    and cand: "first_by (claim_order db) (claimable db now) (db_ledger db) = Some candidate"
    and c: "load_command db (lg_command_id candidate) = Inr c"
    and s: "load_workflow db (rc_workflow_id c) = Inr s"
    and up: "update_ledger db
           (\<lambda>r. lg_command_id r = rc_command_id c
                \<and> lg_fencing_token r = lg_fencing_token l \<and> lg_claim_count r = lg_claim_count l
                \<and> lg_dispatch_slots r = 0
                \<and> (lg_status r = QUEUED \<and> lg_claim_owner r = None
                   \<or> lg_status r = PREPARING \<and> expired_by now r))
           (\<lambda>r. r\<lparr>lg_status := PREPARING, lg_claim_owner := Some x,
                  lg_fencing_token := lg_fencing_token r + 1, lg_lease_acquired_at := Some now,
                  lg_lease_expires_at := Some y, lg_claim_count := lg_claim_count r + 1,
                  lg_updated_at := now\<rparr>)
           (ConcurrencyConflict ''eligible command claim lost its compare-and-swap'') = Inr db1"
    and start: "(if phase s = EXECUTION_QUEUED then start_claimed db1 c s now else Inr (db1, s)) = Inr (db2, s2)"
  have "id_re x" "now < y" using w lease_deadline_Inr [OF y] by (auto simp: exact_id_def split: if_splits)
  moreover have "\<not> sibling_busy db c" "c \<in> set (db_commands db)"
    using first_by_Some [OF cand] load_command_Inr [OF c] by (auto simp: claimable_def)
  ultimately have "good_step db db1" by (intro update_claim_good [OF up, where c = c] claim_row_good) auto
  then have c1: "commits db db1" using ok by (rule commits_good [rotated])
  have "commits db1 db2"
    using start start_claimed_commits(1) [OF commits_ok [OF c1] load_workflow_wf [OF ok s]]
      commits_refl [OF commits_ok [OF c1]] by (auto split: if_splits)
  with c1 show "commits db db2" by (rule commits_trans)
qed

lemma renew_command_lease_commits:
  assumes ok: "store_ok db"
  shows "committing db (renew_command_lease db claim now ttl)"
  unfolding renew_command_lease_def Let_def
proof (intro ensures_rules; simp)
  fix y c l s db1
  assume live: "assert_live_preparation_claim db claim now = Inr (c, l, s)"
    and ext: "\<not> y \<le> lease_expires (cl_lease claim)"
    and up: "update_ledger db
       (\<lambda>r. lg_command_id r = rc_command_id c \<and> lg_status r = PREPARING
            \<and> lg_claim_owner r = Some (lease_owner (cl_lease claim))
            \<and> lg_fencing_token r = lease_token (cl_lease claim)
            \<and> lg_lease_acquired_at r = Some (lease_acquired (cl_lease claim))
            \<and> lg_lease_expires_at r = Some (lease_expires (cl_lease claim)) \<and> lg_dispatch_slots r = 0)
       (\<lambda>r. r\<lparr>lg_lease_expires_at := Some y, lg_updated_at := now\<rparr>)
       (StaleLease ''preparation lease changed during renewal'') = Inr db1"
  have "good_step db db1"
    by (rule update_ledger_good [OF up]) (rule renew_row_good [where y = "lease_expires (cl_lease claim)"],
      use ext in auto)
  then show "commits db db1" using ok by (rule commits_good [rotated])
qed

lemma fence_dispatch_commits:
  assumes ok: "store_ok db"
  shows "committing db (fence_dispatch db claim request now)"
  unfolding fence_dispatch_def Let_def
proof (intro ensures_rules; simp)
  fix c l c2 l2 s expected db1 l3 permit
  assume ex: "dispatch_request_from_command c2 (command_envelope c2) = Inr expected"
    and up: "update_ledger db
       (\<lambda>r. lg_command_id r = rc_command_id c2 \<and> lg_status r = PREPARING
            \<and> lg_claim_owner r = Some (lease_owner (cl_lease claim))
            \<and> lg_fencing_token r = lease_token (cl_lease claim)
            \<and> live_after now r \<and> lg_dispatch_slots r = 0)
       (\<lambda>r. r\<lparr>lg_status := DISPATCH_FENCED, lg_dispatch_slots := 1,
              lg_request_hash := Some (dq_payload_hash expected), lg_fenced_at := Some now,
              lg_updated_at := now\<rparr>)
       (StaleLease ''dispatch fence lost its lease compare-and-swap'') = Inr db1"
  have "hash_re (dq_payload_hash expected)"
    using ex by (auto simp: dispatch_request_from_command_def mk_dispatch_request_def bind_res_Inr_iff
        exact_hash_def simp del: id_re.simps split: if_splits)
  then have "good_step db db1" by (intro update_ledger_good [OF up] fence_row_good) auto
  then show "commits db db1" using ok by (rule commits_good [rotated])
qed


section \<open>Outcomes and recovery\<close>

text \<open>An operational event built from a well-formed outcome or reason is well formed.\<close>

lemma operational_event_wf:
  "mk_event (ExecutionFinished i t c u) = Inr e \<Longrightarrow> wf_outcome u \<Longrightarrow> wf_event e"
  "mk_event (ManualReviewRequested i t r) = Inr e \<Longrightarrow> wf_event e"
  by (rule mk_event_wf, assumption, simp)+

lemma command_outcome_wf: "command_outcome c k s r e = Inr u \<Longrightarrow> wf_outcome u"
  by (auto simp: command_outcome_def dest: mk_outcome_wf)

lemma lists_loaded:
  "assert_live_preparation_claim db claim now = Inr (c, l, s) \<Longrightarrow>
     find_row lg_command_id (rc_command_id c) (db_ledger db) = Some l \<and> ledger_ok l"
  by (auto dest!: assert_live_Inr(2) dest: load_ledger_Inr)

lemma release_preparation_failure_commits:
  assumes ok: "store_ok db"
  shows "committing db (release_preparation_failure db claim failure now)"
  unfolding release_preparation_failure_def Let_def
proof (intro ensures_rules; simp only: ensures_Inl ensures_Inr fst_conv)
  fix c l s db1
  assume live: "assert_live_preparation_claim db claim now = Inr (c, l, s)"
    and budget: "fl_retryable failure \<and> lg_preparation_failures l + 1 < max_preparation_failures"
    and up: "update_ledger db
       (\<lambda>r. lg_command_id r = rc_command_id c \<and> lg_status r = PREPARING
            \<and> lg_claim_owner r = Some (lease_owner (cl_lease claim))
            \<and> lg_fencing_token r = lease_token (cl_lease claim)
            \<and> live_after now r \<and> lg_dispatch_slots r = 0)
       (\<lambda>r. r\<lparr>lg_status := QUEUED, lg_claim_owner := None, lg_lease_acquired_at := None,
              lg_lease_expires_at := None, lg_preparation_failures := lg_preparation_failures l + 1,
              lg_updated_at := now\<rparr>)
       (StaleLease ''preparation release lost its lease compare-and-swap'') = Inr db1"
  have "good_step db db1"
    using lists_loaded [OF live] budget
    by (intro update_loaded_good [OF up, where cid = "rc_command_id c" and l = l] requeue_row_good)
      (auto simp: max_preparation_failures_def)
  then show "commits db db1" using ok by (rule commits_good [rotated])
next
  fix c l s u e t m db1 db2 db3 db4
  assume live: "assert_live_preparation_claim db claim now = Inr (c, l, s)"
    and budget: "\<not> lg_preparation_failures l + 1 > max_preparation_failures"
    and u: "command_outcome c NOT_CALLED (fl_reason failure) None (fl_evidence failure) = Inr u"
    and e: "mk_event (ExecutionFinished
         (derived_id ''event'' [''preparation_not_called'', rc_command_id c]) now (rc_command_id c) u) = Inr e"
    and t: "reduce s e = Inr t"
    and ins: "insert_event ''release_preparation_failure'' db (rc_workflow_id c) e
                 (sm_revision (st_meta (tr_state t))) = Inr db1"
    and swap: "update_state_compare_and_swap db1 s (tr_state t) = Inr db2"
    and up: "update_ledger db2 (\<lambda>r. (lg_command_id r = rc_command_id c \<and> lg_status r = PREPARING
            \<and> lg_claim_owner r = Some (lease_owner (cl_lease claim))
            \<and> lg_fencing_token r = lease_token (cl_lease claim)
            \<and> live_after now r \<and> lg_dispatch_slots r = 0) \<and> lg_outcome r = None)
       (\<lambda>r. r\<lparr>lg_status := OUTCOME_RECORDED, lg_claim_owner := None, lg_lease_acquired_at := None,
              lg_lease_expires_at := None, lg_preparation_failures := lg_preparation_failures l + 1,
              lg_outcome := Some u, lg_outcome_hash := Some (sha256_hex (dumps_outcome u)),
              lg_updated_at := now\<rparr>)
       (StaleLease ''terminal preparation failure lost its lease compare-and-swap'') = Inr db3"
    and out: "insert_outbox db3 m = Inr db4"
  have s: "wf_state s" using load_workflow_wf [OF ok assert_live_Inr(3) [OF live]] .
  have "wf_event e" using operational_event_wf(1) [OF e command_outcome_wf [OF u]] .
  note facts = reduce_result_facts [OF s this t]
  have "db_ledger db2 = db_ledger db"
    using insert_event_tables [OF ins] update_state_tables [OF swap] by simp
  then have "good_step db2 db3"
    using lists_loaded [OF live] budget
    by (intro update_loaded_good [OF up, where cid = "rc_command_id c" and l = l] not_called_row_good)
      (auto simp: max_preparation_failures_def)
  then show "commits db db4"
    using insert_event_good [OF ins] update_state_good [OF swap facts(1,2)] insert_outbox_good [OF out] ok
    by (meson commits_good commits_step)
qed

lemma assert_permit_Inr:
  assumes "assert_live_dispatch_permit db permit now = Inr (c, l, s)"
  shows "load_command db (pm_command_id permit) = Inr c" "load_ledger db (rc_command_id c) = Inr l"
    "load_workflow db (rc_workflow_id c) = Inr s" "executing_command s c" "lg_status l = DISPATCH_FENCED"
    "lg_fencing_token l = lease_token (pm_lease permit)"
    "lg_request_hash l = Some (pm_request_hash permit)" "live_after now l" "lg_updated_at l \<le> now"
  using assms
  by (auto simp: assert_live_dispatch_permit_def bind_res_Inr_iff Let_def split: if_splits)

lemma foldl_Inl: "foldl (\<lambda>acc er. bind_res acc (\<lambda>db. f db er)) (Inl x) es = Inl x"
  by (induction es) simp_all

lemma insert_events_good:
  "foldl (\<lambda>acc er. bind_res acc (\<lambda>db. insert_event opn db wid (fst er) (snd er))) (Inr db) es = Inr db' \<Longrightarrow>
     good_step db db' \<and> db_ledger db' = db_ledger db"
proof (induction es arbitrary: db)
  case Nil
  then show ?case by simp
next
  case (Cons er es)
  then obtain db1 where i: "insert_event opn db wid (fst er) (snd er) = Inr db1"
    by (cases "insert_event opn db wid (fst er) (snd er)") (simp_all add: foldl_Inl)
  with Cons show ?case
    using insert_event_good [OF i] insert_event_tables [OF i] by (auto intro: good_step_trans)
qed

lemma review_transition_facts:
  assumes "review_transition msg c s h now = Inr (e, t)" "wf_state s"
  shows "wf_state (tr_state t)" "sm_workflow_id (st_meta (tr_state t)) = sm_workflow_id (st_meta s)"
    "phase (tr_state t) = MANUAL_REVIEW"
proof -
  have e: "mk_event (ManualReviewRequested (review_event_id c h) now ''provider_effect_uncertain'') = Inr e"
    and t: "reduce s e = Inr t" and "phase (tr_state t) = MANUAL_REVIEW"
    using assms(1) by (auto simp: review_transition_def bind_res_Inr_iff simp del: mk_event.simps split: if_splits)
  with reduce_result_facts [OF assms(2) operational_event_wf(2) [OF e] t]
  show "wf_state (tr_state t)" "sm_workflow_id (st_meta (tr_state t)) = sm_workflow_id (st_meta s)"
    "phase (tr_state t) = MANUAL_REVIEW" by auto
qed

text \<open>The writes that end an execution after the fence, shared by the outcome and the recovery.\<close>

lemma outcome_writes_commit:
  assumes ok: "store_ok db"
    and l: "load_ledger db cid = Inr l" "lg_status l = DISPATCH_FENCED"
    and ins: "good_step db db1" "db_ledger db1 = db_ledger db"
    and swap: "update_state_compare_and_swap db1 s s' = Inr db2"
    and s': "wf_state s'" "sm_workflow_id (st_meta s') = sm_workflow_id (st_meta s)"
    and up: "update_ledger db2 p (\<lambda>r. r\<lparr>lg_status := st, lg_claim_owner := None, lg_lease_acquired_at := None,
        lg_lease_expires_at := None, lg_outcome := Some u, lg_outcome_hash := Some (sha256_hex h),
        lg_updated_at := now\<rparr>) err = Inr db3"
    and p: "\<And>r. p r \<Longrightarrow> lg_command_id r = cid" and st: "st = OUTCOME_RECORDED \<or> st = LEDGER_MANUAL_REVIEW"
    and out: "insert_outbox db3 m = Inr db4"
  shows "commits db db4"
proof -
  have "good_step db2 db3"
    using load_ledger_Inr [OF l(1)] l(2) ins(2) update_state_tables [OF swap] st
    by (intro update_loaded_good [OF up, where cid = cid and l = l] outcome_row_good) (auto dest: p)
  then show ?thesis
    using ins(1) update_state_good [OF swap s'] insert_outbox_good [OF out] ok
    by (meson commits_good commits_step)
qed

lemma record_outcome_commits:
  assumes ok: "store_ok db" and u: "wf_outcome u"
  shows "committing db (record_outcome v db permit u now)"
  unfolding record_outcome_def Let_def
proof (intro ensures_rules; (simp only: ensures_Inl ensures_Inr fst_conv commits_refl [OF ok])?)
  fix existing c l s e t1 evs final m db1 db2 db3 db4
  assume live: "assert_live_dispatch_permit db permit now = Inr (c, l, s)"
    and e: "mk_event (ExecutionFinished (finished_event_id c u (sha256_hex (dumps_outcome u))) now
        (rc_command_id c) u) = Inr e"
    and t1: "reduce s e = Inr t1"
    and fin: "(if eo_certainty u = CALLED_UNKNOWN
                then bind_res (review_transition ''uncertain outcome did not produce mandatory manual review''
                       c (tr_state t1) (sha256_hex (dumps_outcome u)) now) (\<lambda>(review, t2).
                       Inr ([(e, sm_revision (st_meta (tr_state t1))),
                             (review, sm_revision (st_meta (tr_state t2)))], t2))
                else Inr ([(e, sm_revision (st_meta (tr_state t1)))], t1)) = Inr (evs, final)"
    and ins: "foldl (\<lambda>acc er. bind_res acc (\<lambda>db. insert_event ''record_outcome'' db
                  (rc_workflow_id c) (fst er) (snd er))) (Inr db) evs = Inr db1"
    and swap: "update_state_compare_and_swap db1 s (tr_state final) = Inr db2"
    and up: "update_ledger db2
        (\<lambda>r. lg_command_id r = rc_command_id c \<and> lg_status r = DISPATCH_FENCED
             \<and> lg_claim_owner r = Some (lease_owner (pm_lease permit))
             \<and> lg_fencing_token r = lease_token (pm_lease permit)
             \<and> lg_lease_acquired_at r = Some (lease_acquired (pm_lease permit))
             \<and> lg_lease_expires_at r = Some (lease_expires (pm_lease permit)) \<and> live_after now r
             \<and> lg_dispatch_slots r = 1 \<and> lg_request_hash r = Some (pm_request_hash permit)
             \<and> lg_fenced_at r = Some (pm_fenced_at permit) \<and> lg_outcome r = None
             \<and> lg_outcome_hash r = None)
        (\<lambda>r. r\<lparr>lg_status := outcome_ledger_status u, lg_claim_owner := None, lg_lease_acquired_at := None,
               lg_lease_expires_at := None, lg_outcome := Some u,
               lg_outcome_hash := Some (sha256_hex (dumps_outcome u)), lg_updated_at := now\<rparr>)
        (StaleLease ''record outcome lost its dispatch permit compare-and-swap'') = Inr db3"
    and out: "insert_outbox db3 m = Inr db4"
  have s: "wf_state s" using load_workflow_wf [OF ok assert_permit_Inr(3) [OF live]] .
  note f1 = reduce_result_facts [OF s operational_event_wf(1) [OF e u] t1]
  have "wf_state (tr_state final) \<and> sm_workflow_id (st_meta (tr_state final)) = sm_workflow_id (st_meta s)"
    using fin f1 review_transition_facts [OF _ f1(1)]
    by (fastforce simp: bind_res_Inr_iff split: if_splits)
  then show "commits db db4"
    using insert_events_good [OF ins]
    by (intro outcome_writes_commit [OF ok assert_permit_Inr(2,5) [OF live] _ _ swap _ _ up _ _ out])
       (auto simp: outcome_ledger_status_def)
qed

lemma recover_all_commits:
  assumes step: "\<And>db cid db'. store_ok db \<Longrightarrow> step db cid = Inr db' \<Longrightarrow> commits db db'"
  shows "store_ok db \<Longrightarrow> committing db (recover_all step db cids n)"
proof (induction cids arbitrary: db n)
  case Nil
  then show ?case by (simp add: commits_refl)
next
  case (Cons c cs)
  show ?case
  proof (cases "step db c")
    case (Inr db1)
    then have c: "commits db db1" using step Cons.prems by blast
    then have "committing db1 (recover_all step db1 cs (n + 1))" using Cons.IH commits_ok by blast
    with c Inr show ?thesis
      by (cases "recover_all step db1 cs (n + 1)") (auto intro: commits_trans)
  qed simp
qed

lemma release_expired_row_commits:
  assumes ok: "store_ok db" and up: "release_expired_row now db cid = Inr db'"
  shows "commits db db'"
proof -
  have "ensures (commits db) (release_expired_row now db cid)"
    unfolding release_expired_row_def
  proof (intro ensures_rules; (simp only: ensures_Inl ensures_Inr)?)
    fix c l s db1 l2
    assume up: "update_ledger db
       (\<lambda>r. lg_command_id r = rc_command_id c \<and> lg_status r = PREPARING
            \<and> lg_claim_owner r = lg_claim_owner l \<and> lg_fencing_token r = lg_fencing_token l
            \<and> lg_lease_acquired_at r = lg_lease_acquired_at l
            \<and> lg_lease_expires_at r = lg_lease_expires_at l
            \<and> lg_updated_at r = lg_updated_at l \<and> lg_claim_count r = lg_claim_count l
            \<and> lg_preparation_failures r = lg_preparation_failures l \<and> expired_by now r
            \<and> lg_dispatch_slots r = 0 \<and> lg_outcome r = None \<and> lg_outcome_hash r = None)
       (\<lambda>r. r\<lparr>lg_status := QUEUED, lg_claim_owner := None, lg_lease_acquired_at := None,
              lg_lease_expires_at := None, lg_updated_at := now\<rparr>)
       (ConcurrencyConflict ''expired pre-dispatch release lost its compare-and-swap'') = Inr db1"
    have "good_step db db1" by (intro update_ledger_good [OF up] release_row_good) auto
    then show "commits db db1" using ok by (rule commits_good [rotated])
  qed
  with up show ?thesis by simp
qed

lemma mark_unknown_row_commits:
  assumes ok: "store_ok db" and up: "mark_unknown_row now db cid = Inr db'"
  shows "commits db db'"
proof -
  have "ensures (commits db) (mark_unknown_row now db cid)"
    unfolding mark_unknown_row_def Let_def
  proof (intro ensures_rules; (simp only: ensures_Inl ensures_Inr)?)
    fix c l s ex u e t1 review t2 m db1 db2 db3 db4 db5
    assume live: "load_ledger db (rc_command_id c) = Inr l" "load_workflow db (rc_workflow_id c) = Inr s"
      and st: "\<not> (\<not> executing_command s c \<or> lg_status l \<noteq> DISPATCH_FENCED \<or> lg_dispatch_slots l \<noteq> 1
        \<or> lg_request_hash l \<noteq> Some (dq_payload_hash ex)
        \<or> (case (lg_claim_owner l, lg_fenced_at l, lg_lease_acquired_at l, lg_lease_expires_at l) of
             (Some _, Some f, Some a, Some x) \<Rightarrow>
               \<not> (a \<le> f \<and> f = lg_updated_at l \<and> lg_updated_at l < x) \<or> now < x
           | _ \<Rightarrow> True)
        \<or> lg_outcome l \<noteq> None \<or> now < lg_updated_at l)"
      and u: "command_outcome c CALLED_UNKNOWN ''dispatch_outcome_unknown_after_expiry'' None
                 [the (lg_request_hash l)] = Inr u"
      and e: "mk_event (ExecutionFinished (finished_event_id c u (sha256_hex (dumps_outcome u))) now
                    (rc_command_id c) u) = Inr e"
      and t1: "reduce s e = Inr t1"
      and t2: "review_transition ''reconciled unknown did not produce mandatory manual review''
                 c (tr_state t1) (sha256_hex (dumps_outcome u)) now = Inr (review, t2)"
      and ins: "insert_event ''mark_expired_fenced_unknown'' db (rc_workflow_id c) e
                 (sm_revision (st_meta (tr_state t1))) = Inr db1"
        "insert_event ''mark_expired_fenced_unknown'' db1 (rc_workflow_id c) review
                 (sm_revision (st_meta (tr_state t2))) = Inr db2"
      and swap: "update_state_compare_and_swap db2 s (tr_state t2) = Inr db3"
      and up: "update_ledger db3
       (\<lambda>r. lg_command_id r = rc_command_id c \<and> lg_status r = DISPATCH_FENCED
            \<and> lg_claim_owner r = lg_claim_owner l \<and> lg_fencing_token r = lg_fencing_token l
            \<and> lg_lease_acquired_at r = lg_lease_acquired_at l
            \<and> lg_lease_expires_at r = lg_lease_expires_at l
            \<and> lg_updated_at r = lg_updated_at l \<and> lg_claim_count r = lg_claim_count l
            \<and> lg_preparation_failures r = lg_preparation_failures l \<and> expired_by now r
            \<and> lg_dispatch_slots r = 1 \<and> lg_request_hash r = lg_request_hash l
            \<and> lg_fenced_at r = lg_fenced_at l \<and> lg_outcome r = None \<and> lg_outcome_hash r = None)
       (\<lambda>r. r\<lparr>lg_status := LEDGER_MANUAL_REVIEW, lg_claim_owner := None, lg_lease_acquired_at := None,
              lg_lease_expires_at := None, lg_outcome := Some u,
              lg_outcome_hash := Some (sha256_hex (dumps_outcome u)), lg_updated_at := now\<rparr>)
       (ConcurrencyConflict ''expired dispatch reconciliation lost its compare-and-swap'') = Inr db4"
      and out: "insert_outbox db4 m = Inr db5"
    note f1 = reduce_result_facts [OF load_workflow_wf [OF ok live(2)]
        operational_event_wf(1) [OF e command_outcome_wf [OF u]] t1]
    note f2 = review_transition_facts [OF t2 f1(1)]
    have "good_step db db2" "db_ledger db2 = db_ledger db"
      using insert_event_good [OF ins(1)] insert_event_good [OF ins(2)]
        insert_event_tables [OF ins(1)] insert_event_tables [OF ins(2)]
      by (auto intro: good_step_trans)
    then show "commits db db5"
      using st f1 f2
      by (intro outcome_writes_commit [OF ok live(1) _ _ _ swap _ _ up _ _ out]) auto
  qed
  with up show ?thesis by simp
qed

lemma reconciliation_commits:
  assumes "store_ok db"
  shows "committing db (release_expired_pre_dispatch db now)"
    and "committing db (mark_expired_fenced_unknown db now)"
  unfolding release_expired_pre_dispatch_def mark_expired_fenced_unknown_def
  by (rule recover_all_commits [OF _ assms], erule (1) release_expired_row_commits)
     (rule recover_all_commits [OF _ assms], erule (1) mark_unknown_row_commits)

section \<open>The outbox\<close>

lemma claim_outbox_commits:
  assumes ok: "store_ok db"
  shows "committing db (claim_outbox v db w now ttl)"
  unfolding claim_outbox_def Let_def
proof (intro ensures_rules; (simp only: ensures_Inl ensures_Inr fst_conv commits_refl [OF ok])?)
  fix x y candidate s db1 persisted l claim
  assume up: "update_outbox db
           (\<lambda>r. outbox_key r = outbox_key s
                \<and> (if os_status s = PENDING then os_status r = PENDING \<and> os_lease r = None
                   else os_status r = LEASED \<and> os_lease r = os_lease s)
                \<and> os_fencing_token r = os_fencing_token s
                \<and> os_delivery_attempts r = os_delivery_attempts s \<and> os_updated_at r = os_updated_at s
                \<and> os_delivered_at r = None \<and> os_receipt_hash r = None)
           (\<lambda>r. r\<lparr>os_status := LEASED,
                  os_lease := Some \<lparr>lease_owner = x, lease_token = os_fencing_token s + 1,
                                    lease_acquired = now, lease_expires = y\<rparr>,
                  os_fencing_token := os_fencing_token s + 1,
                  os_delivery_attempts := os_delivery_attempts s + 1, os_updated_at := now\<rparr>)
           (ConcurrencyConflict ''outbox claim lost its compare-and-swap'') = Inr db1"
  have "good_step db db1"
    by (rule update_outbox_good [OF up]) (auto simp: outbox_evolves_def split: if_splits)
  then show "commits db db1" using ok by (rule commits_good [rotated])
qed

lemma complete_outbox_commits:
  assumes ok: "store_ok db"
  shows "committing db (complete_outbox v db claim receipt now)"
  unfolding complete_outbox_def
proof (intro ensures_rules; (simp only: ensures_Inl ensures_Inr fst_conv commits_refl [OF ok])?)
  fix s db1 persisted
  assume up: "update_outbox db (outbox_held claim now)
        (\<lambda>r. r\<lparr>os_status := DELIVERED, os_lease := None, os_delivered_at := Some (dlr_delivered_at receipt),
               os_receipt_hash := Some (dlr_receipt_hash receipt), os_updated_at := now\<rparr>)
        (StaleLease ''outbox completion lost its compare-and-swap'') = Inr db1"
  have "good_step db db1"
    by (rule update_outbox_good [OF up]) (auto simp: outbox_evolves_def outbox_held_def)
  then show "commits db db1" using ok by (rule commits_good [rotated])
qed

lemma release_outbox_commits:
  assumes ok: "store_ok db"
  shows "committing db (release_outbox v db claim now)"
  unfolding release_outbox_def
proof (intro ensures_rules; (simp only: ensures_Inl ensures_Inr fst_conv)?)
  fix s db1 persisted
  assume up: "update_outbox db (outbox_held claim now)
       (\<lambda>r. r\<lparr>os_status := PENDING, os_lease := None, os_updated_at := now\<rparr>)
       (StaleLease ''outbox release lost its compare-and-swap'') = Inr db1"
  have "good_step db db1"
    by (rule update_outbox_good [OF up]) (auto simp: outbox_evolves_def outbox_held_def)
  then show "commits db db1" using ok by (rule commits_good [rotated])
qed

end
