(* ===== verification/Exec_Facts.thy ===== *)
theory Exec_Facts
  imports Exec_Steps
begin

text \<open>
  What a committed operation of the command ledger did: the row it read, the row it left, and what
  it answered. Each lemma is the functional description of one operation; the properties that span
  operations are built on them.
\<close>

section \<open>The row an update hits\<close>

lemma store_ok_ledger: "store_ok db \<Longrightarrow> find_row lg_command_id cid (db_ledger db) = Some l \<Longrightarrow>
    ledger_ok l \<and> lg_command_id l = cid"
  by (auto dest!: find_row_Some simp: store_ok_def)

lemma update_ledger_hits:
  assumes "update_ledger db p f err = Inr db'" "store_ok db"
    and "\<And>r. p r \<Longrightarrow> lg_command_id r = cid" and "\<And>r. lg_command_id (f r) = lg_command_id r"
  shows "\<exists>l. find_row lg_command_id cid (db_ledger db) = Some l \<and> p l \<and> ledger_ok l
    \<and> find_row lg_command_id cid (db_ledger db') = Some (f l)"
proof -
  obtain rows where "swap_one p f err (db_ledger db) = Inr rows" "db' = db\<lparr>db_ledger := rows\<rparr>"
    using assms(1) by (auto simp: update_ledger_def bind_res_Inr_iff)
  moreover have "distinct (map lg_command_id (db_ledger db))" using assms(2) by (simp add: store_ok_def)
  ultimately show ?thesis
    using swap_one_hits [of p f err "db_ledger db" rows lg_command_id cid] assms(2-) store_ok_ledger
    by fastforce
qed

text \<open>The row of a command, and of a command that is being prepared or was dispatched.\<close>

abbreviation row_of :: "store \<Rightarrow> string \<Rightarrow> ledger_snapshot option" where
  "row_of db cid \<equiv> find_row lg_command_id cid (db_ledger db)"

section \<open>Claim\<close>

definition claimed_row :: "string \<Rightarrow> timestamp \<Rightarrow> timestamp \<Rightarrow> ledger_snapshot \<Rightarrow> ledger_snapshot" where
  "claimed_row w now x r = r\<lparr>lg_status := PREPARING, lg_claim_owner := Some w,
     lg_fencing_token := lg_fencing_token r + 1, lg_lease_acquired_at := Some now,
     lg_lease_expires_at := Some x, lg_claim_count := lg_claim_count r + 1, lg_updated_at := now\<rparr>"

definition claim_post :: "store \<Rightarrow> string \<Rightarrow> timestamp \<Rightarrow> store \<Rightarrow> command_claim \<Rightarrow> bool" where
  "claim_post db w now db' claim \<longleftrightarrow>
     (\<exists>l x. row_of db (rc_command_id (cl_command claim)) = Some l
        \<and> (lg_status l = QUEUED \<or> lg_status l = PREPARING \<and> expired_by now l)
        \<and> lg_dispatch_slots l = 0 \<and> now < x
        \<and> row_of db' (rc_command_id (cl_command claim)) = Some (claimed_row w now x l)
        \<and> cl_lease claim = \<lparr>lease_owner = w, lease_token = lg_fencing_token l + 1,
             lease_acquired = now, lease_expires = x\<rparr>
        \<and> cl_claim_count claim = lg_claim_count l + 1
        \<and> find_row rc_command_id (rc_command_id (cl_command claim)) (db_commands db) = Some (cl_command claim)
        \<and> \<not> sibling_busy db (cl_command claim))"

lemma claim_from_projection_Inr:
  assumes "claim_from_projection c s r = Inr claim"
  shows "cl_command claim = c" "cl_claim_count claim = lg_claim_count r" "lg_status r = PREPARING"
    "\<exists>w a x. lg_claim_owner r = Some w \<and> lg_lease_acquired_at r = Some a \<and> lg_lease_expires_at r = Some x
      \<and> cl_lease claim = \<lparr>lease_owner = strip w, lease_token = lg_fencing_token r, lease_acquired = a, lease_expires = x\<rparr>
      \<and> id_re (strip w)"
  using assms
  by (auto simp: claim_from_projection_def mk_lease_def mk_command_claim_def bind_res_Inr_iff require_id_def Let_def
      simp del: id_re.simps split: ledger_status.splits option.splits if_splits)

lemma start_claimed_ledger: "start_claimed db c s now = Inr (db', s') \<Longrightarrow> db_ledger db' = db_ledger db"
  by (auto simp: start_claimed_def bind_res_Inr_iff split: if_splits
      dest!: insert_event_tables update_state_tables)

lemma claim_command_facts:
  assumes ok: "store_ok db"
  shows "ensures (\<lambda>(db', reply). case reply of None \<Rightarrow> db' = db | Some claim \<Rightarrow> claim_post db w now db' claim)
    (claim_command db w now ttl)"
  unfolding claim_command_def
proof (intro ensures_rules; (simp only: ensures_Inl ensures_Inr prod.case option.case)?)
  fix x y candidate c l s db1 p db2 s2 l2 claim
  assume w: "exact_id w ''worker_id'' = Inr x" and y: "lease_deadline now ttl = Inr y"
    and cand: "first_by (claim_order db) (claimable db now) (db_ledger db) = Some candidate"
    and c: "load_command db (lg_command_id candidate) = Inr c"
    and up: "update_ledger db
           (\<lambda>r. lg_command_id r = rc_command_id c
                \<and> lg_fencing_token r = lg_fencing_token l \<and> lg_claim_count r = lg_claim_count l
                \<and> lg_dispatch_slots r = 0
                \<and> (lg_status r = QUEUED \<and> lg_claim_owner r = None
                   \<or> lg_status r = PREPARING \<and> expired_by now r))
           (\<lambda>r. r\<lparr>lg_status := PREPARING, lg_claim_owner := Some x,
                  lg_fencing_token := lg_fencing_token r + 1, lg_lease_acquired_at := Some now,
                  lg_lease_expires_at := Some y, lg_claim_count := lg_claim_count r + 1,
                  lg_updated_at := now\<rparr>)
           (ConcurrencyConflict ''eligible command claim lost its compare-and-swap'') = Inr db1"
    and s: "load_workflow db (rc_workflow_id c) = Inr s"
    and start: "(if phase s = EXECUTION_QUEUED then start_claimed db1 c s now else Inr (db1, s)) = Inr (db2, s2)"
    and l2: "load_ledger db2 (rc_command_id c) = Inr l2"
    and claim: "claim_from_projection c s2 l2 = Inr claim"
  have x: "x = w" "strip w = w" and y: "now < y"
    using w lease_deadline_Inr [OF y] by (auto simp: exact_id_def split: if_splits)
  obtain r where r: "row_of db (rc_command_id c) = Some r"
      "lg_status r = QUEUED \<or> lg_status r = PREPARING \<and> expired_by now r" "lg_dispatch_slots r = 0"
    and db1: "row_of db1 (rc_command_id c) = Some (claimed_row w now y r)"
    using update_ledger_hits [OF up ok, of "rc_command_id c"] by (auto simp: claimed_row_def x)
  have same: "db_ledger db2 = db_ledger db1"
    using start start_claimed_ledger by (auto split: if_splits)
  then have l2: "l2 = claimed_row w now y r" using load_ledger_Inr(3) [OF l2] db1 by simp
  have "claimable db now candidate" using first_by_Some [OF cand] by blast
  then have "\<not> sibling_busy db c" using load_command_Inr [OF c] by (auto simp: claimable_def)
  then show "claim_post db w now db2 claim"
    using claim_from_projection_Inr [OF claim] r db1 y x load_command_Inr [OF c] same
    unfolding claim_post_def l2 claimed_row_def by auto
qed

section \<open>Renew and fence\<close>

text \<open>What the live claim a call presents agrees with.\<close>

definition claim_held :: "store \<Rightarrow> command_claim \<Rightarrow> timestamp \<Rightarrow> ledger_snapshot \<Rightarrow> bool" where
  "claim_held db claim now l \<longleftrightarrow>
     row_of db (rc_command_id (cl_command claim)) = Some l
     \<and> lg_status l = PREPARING \<and> lg_dispatch_slots l = 0
     \<and> lg_claim_owner l = Some (lease_owner (cl_lease claim))
     \<and> lg_fencing_token l = lease_token (cl_lease claim)
     \<and> lg_lease_expires_at l = Some (lease_expires (cl_lease claim)) \<and> now < lease_expires (cl_lease claim)
     \<and> lg_preparation_failures l = cl_preparation_failures claim
     \<and> find_row rc_command_id (rc_command_id (cl_command claim)) (db_commands db) = Some (cl_command claim)"

lemma assert_live_held:
  assumes "assert_live_preparation_claim db claim now = Inr (c, l, s)"
  shows "claim_held db claim now l" "c = cl_command claim"
  using assert_live_Inr [OF assms] load_ledger_Inr [OF assert_live_Inr(2) [OF assms]]
    load_command_Inr [OF assert_live_Inr(1) [OF assms]]
  by (auto simp: claim_held_def)

definition fenced_row :: "string \<Rightarrow> timestamp \<Rightarrow> ledger_snapshot \<Rightarrow> ledger_snapshot" where
  "fenced_row h now r = r\<lparr>lg_status := DISPATCH_FENCED, lg_dispatch_slots := 1,
     lg_request_hash := Some h, lg_fenced_at := Some now, lg_updated_at := now\<rparr>"

definition fence_post ::
  "store \<Rightarrow> command_claim \<Rightarrow> dispatch_request \<Rightarrow> timestamp \<Rightarrow> store \<Rightarrow> dispatch_permit \<Rightarrow> bool" where
  "fence_post db claim request now db' permit \<longleftrightarrow>
     (\<exists>l. claim_held db claim now l
        \<and> row_of db' (rc_command_id (cl_command claim)) = Some (fenced_row (dq_payload_hash request) now l))
     \<and> dispatch_request_from_command (cl_command claim) (command_envelope (cl_command claim)) = Inr request
     \<and> permit = \<lparr>pm_command_id = rc_command_id (cl_command claim), pm_lease = cl_lease claim,
          pm_dispatch_slot = 1, pm_request_hash = dq_payload_hash request, pm_fenced_at = now\<rparr>"

lemma fence_dispatch_facts:
  assumes ok: "store_ok db"
  shows "ensures (\<lambda>(db', permit). fence_post db claim request now db' permit) (fence_dispatch db claim request now)"
  unfolding fence_dispatch_def Let_def
proof (intro ensures_rules; (simp only: ensures_Inl ensures_Inr prod.case)?)
  fix c l p q c2 l2 s expected db1 l3 permit
  assume live: "assert_live_preparation_claim db claim now = Inr (c2, l2, s)"
    and ex: "dispatch_request_from_command c2 (command_envelope c2) = Inr expected"
    and req: "\<not> request \<noteq> expected"
    and up: "update_ledger db
       (\<lambda>r. lg_command_id r = rc_command_id c2 \<and> lg_status r = PREPARING
            \<and> lg_claim_owner r = Some (lease_owner (cl_lease claim))
            \<and> lg_fencing_token r = lease_token (cl_lease claim)
            \<and> live_after now r \<and> lg_dispatch_slots r = 0)
       (\<lambda>r. r\<lparr>lg_status := DISPATCH_FENCED, lg_dispatch_slots := 1,
              lg_request_hash := Some (dq_payload_hash request), lg_fenced_at := Some now,
              lg_updated_at := now\<rparr>)
       (StaleLease ''dispatch fence lost its lease compare-and-swap'') = Inr db1"
    and permit: "mk_dispatch_permit (rc_command_id c2) (cl_lease claim) 1 (dq_payload_hash request) now = Inr permit"
  note held = assert_live_held [OF live]
  have "row_of db1 (rc_command_id c2) = Some (fenced_row (dq_payload_hash request) now l2)"
    using update_ledger_hits [OF up ok, of "rc_command_id c2"] held
    by (auto simp: fenced_row_def claim_held_def)
  moreover have "strip (rc_command_id c2) = rc_command_id c2"
    using load_command_Inr [OF assert_live_Inr(1) [OF live]] held by (simp del: id_re.simps)
  ultimately show "fence_post db claim request now db1 permit"
    using held ex req permit
    by (auto simp: fence_post_def mk_dispatch_permit_def bind_res_Inr_iff require_id_def exact_hash_def Let_def
        simp del: id_re.simps split: if_splits)
qed

lemma renew_command_lease_facts:
  assumes ok: "store_ok db"
  shows "ensures (\<lambda>(db', claim'). (\<exists>l x. claim_held db claim now l \<and> lease_expires (cl_lease claim) < x
      \<and> row_of db' (rc_command_id (cl_command claim)) = Some (l\<lparr>lg_lease_expires_at := Some x, lg_updated_at := now\<rparr>)
      \<and> lease_token (cl_lease claim') = lease_token (cl_lease claim)
      \<and> lease_expires (cl_lease claim') = x))
    (renew_command_lease db claim now ttl)"
  unfolding renew_command_lease_def Let_def
proof (intro ensures_rules; (simp only: ensures_Inl ensures_Inr prod.case)?)
  fix y p q c l s db1 l2 claim'
  assume live: "assert_live_preparation_claim db claim now = Inr (c, l, s)"
    and y: "\<not> y \<le> lease_expires (cl_lease claim)"
    and up: "update_ledger db
       (\<lambda>r. lg_command_id r = rc_command_id c \<and> lg_status r = PREPARING
            \<and> lg_claim_owner r = Some (lease_owner (cl_lease claim)) \<and> lg_fencing_token r = lease_token (cl_lease claim)
            \<and> lg_lease_acquired_at r = Some (lease_acquired (cl_lease claim))
            \<and> lg_lease_expires_at r = Some (lease_expires (cl_lease claim)) \<and> lg_dispatch_slots r = 0)
       (\<lambda>r. r\<lparr>lg_lease_expires_at := Some y, lg_updated_at := now\<rparr>)
       (StaleLease ''preparation lease changed during renewal'') = Inr db1"
    and l2: "load_ledger db1 (rc_command_id c) = Inr l2"
    and claim': "claim_from_projection c s l2 = Inr claim'"
  note held = assert_live_held [OF live]
  have row: "row_of db1 (rc_command_id c) = Some (l\<lparr>lg_lease_expires_at := Some y, lg_updated_at := now\<rparr>)"
    using update_ledger_hits [OF up ok, of "rc_command_id c"] held by (auto simp: claim_held_def)
  then have "l2 = l\<lparr>lg_lease_expires_at := Some y, lg_updated_at := now\<rparr>" using load_ledger_Inr(3) [OF l2] by simp
  then show "\<exists>l x. claim_held db claim now l \<and> lease_expires (cl_lease claim) < x
      \<and> row_of db1 (rc_command_id (cl_command claim)) = Some (l\<lparr>lg_lease_expires_at := Some x, lg_updated_at := now\<rparr>)
      \<and> lease_token (cl_lease claim') = lease_token (cl_lease claim)
      \<and> lease_expires (cl_lease claim') = x"
    using held row y claim_from_projection_Inr(4) [OF claim'] by (auto simp: claim_held_def)
qed

section \<open>A failed preparation\<close>

definition requeued_row :: "int \<Rightarrow> timestamp \<Rightarrow> ledger_snapshot \<Rightarrow> ledger_snapshot" where
  "requeued_row n now r = r\<lparr>lg_status := QUEUED, lg_claim_owner := None, lg_lease_acquired_at := None,
     lg_lease_expires_at := None, lg_preparation_failures := n, lg_updated_at := now\<rparr>"

definition closed_row ::
  "ledger_status \<Rightarrow> execution_outcome \<Rightarrow> timestamp \<Rightarrow> ledger_snapshot \<Rightarrow> ledger_snapshot" where
  "closed_row st u now r = r\<lparr>lg_status := st, lg_claim_owner := None, lg_lease_acquired_at := None,
     lg_lease_expires_at := None, lg_outcome := Some u, lg_outcome_hash := Some (sha256_hex (dumps_outcome u)),
     lg_updated_at := now\<rparr>"

definition release_post ::
  "store \<Rightarrow> command_claim \<Rightarrow> preparation_failure \<Rightarrow> timestamp \<Rightarrow> store \<Rightarrow> preparation_disposition \<Rightarrow> bool" where
  "release_post db claim failure now db' disposition \<longleftrightarrow>
     (let cid = rc_command_id (cl_command claim); n = cl_preparation_failures claim + 1 in
      \<exists>l. claim_held db claim now l \<and> n \<le> 3
        \<and> (if fl_retryable failure \<and> n < 3
           then disposition = REQUEUED \<and> row_of db' cid = Some (requeued_row n now l)
             \<and> db_workflows db' = db_workflows db \<and> db_outbox db' = db_outbox db
           else disposition = TERMINAL_NOT_CALLED
             \<and> (\<exists>u. command_outcome (cl_command claim) NOT_CALLED (fl_reason failure) None (fl_evidence failure)
                    = Inr u
                 \<and> row_of db' cid = Some (closed_row OUTCOME_RECORDED u now l\<lparr>lg_preparation_failures := n\<rparr>))))"

lemma release_preparation_failure_facts:
  assumes ok: "store_ok db"
  shows "ensures (\<lambda>(db', d). release_post db claim failure now db' d)
    (release_preparation_failure db claim failure now)"
  unfolding release_preparation_failure_def Let_def
proof (intro ensures_rules; (simp only: ensures_Inl ensures_Inr prod.case)?)
  fix p q c l s db1
  assume live: "assert_live_preparation_claim db claim now = Inr (c, l, s)"
    and budget: "fl_retryable failure \<and> lg_preparation_failures l + 1 < max_preparation_failures"
    and up: "update_ledger db
       (\<lambda>r. lg_command_id r = rc_command_id c \<and> lg_status r = PREPARING
            \<and> lg_claim_owner r = Some (lease_owner (cl_lease claim))
            \<and> lg_fencing_token r = lease_token (cl_lease claim)
            \<and> live_after now r \<and> lg_dispatch_slots r = 0)
       (\<lambda>r. r\<lparr>lg_status := QUEUED, lg_claim_owner := None, lg_lease_acquired_at := None,
              lg_lease_expires_at := None, lg_preparation_failures := lg_preparation_failures l + 1,
              lg_updated_at := now\<rparr>)
       (StaleLease ''preparation release lost its lease compare-and-swap'') = Inr db1"
  note held = assert_live_held [OF live]
  have "row_of db1 (rc_command_id c) = Some (requeued_row (lg_preparation_failures l + 1) now l)"
    using update_ledger_hits [OF up ok, of "rc_command_id c"] held by (auto simp: claim_held_def requeued_row_def)
  then show "release_post db claim failure now db1 REQUEUED"
    using held budget update_ledger_tables [OF up]
    by (auto simp: release_post_def Let_def max_preparation_failures_def claim_held_def)
next
  fix p q c l s u e t m db1 db2 db3 db4
  assume live: "assert_live_preparation_claim db claim now = Inr (c, l, s)"
    and budget: "\<not> lg_preparation_failures l + 1 > max_preparation_failures"
      "\<not> (fl_retryable failure \<and> lg_preparation_failures l + 1 < max_preparation_failures)"
    and u: "command_outcome c NOT_CALLED (fl_reason failure) None (fl_evidence failure) = Inr u"
    and e: "mk_event (ExecutionFinished
         (derived_id ''event'' [''preparation_not_called'', rc_command_id c]) now (rc_command_id c) u) = Inr e"
    and t: "reduce s e = Inr t"
    and ins: "insert_event ''release_preparation_failure'' db (rc_workflow_id c) e
                 (sm_revision (st_meta (tr_state t))) = Inr db1"
    and swap: "update_state_compare_and_swap db1 s (tr_state t) = Inr db2"
    and up: "update_ledger db2 (\<lambda>r. (lg_command_id r = rc_command_id c \<and> lg_status r = PREPARING
            \<and> lg_claim_owner r = Some (lease_owner (cl_lease claim))
            \<and> lg_fencing_token r = lease_token (cl_lease claim)
            \<and> live_after now r \<and> lg_dispatch_slots r = 0) \<and> lg_outcome r = None)
       (\<lambda>r. r\<lparr>lg_status := OUTCOME_RECORDED, lg_claim_owner := None, lg_lease_acquired_at := None,
              lg_lease_expires_at := None, lg_preparation_failures := lg_preparation_failures l + 1,
              lg_outcome := Some u, lg_outcome_hash := Some (sha256_hex (dumps_outcome u)),
              lg_updated_at := now\<rparr>)
       (StaleLease ''terminal preparation failure lost its lease compare-and-swap'') = Inr db3"
    and out: "insert_outbox db3 m = Inr db4"
  note held = assert_live_held [OF live]
  have s: "wf_state s" using load_workflow_wf [OF ok assert_live_Inr(3) [OF live]] .
  note facts = reduce_result_facts [OF s operational_event_wf(1) [OF e command_outcome_wf [OF u]] t]
  have "store_ok db2"
    using insert_event_good [OF ins] update_state_good [OF swap facts(1,2)] ok
    by (meson commits_good commits_step commits_ok)
  moreover have "db_ledger db2 = db_ledger db"
    using insert_event_tables [OF ins] update_state_tables [OF swap] by simp
  ultimately have "row_of db4 (rc_command_id c) =
      Some (closed_row OUTCOME_RECORDED u now l\<lparr>lg_preparation_failures := lg_preparation_failures l + 1\<rparr>)"
    using update_ledger_hits [OF up, of "rc_command_id c"] held insert_outbox_tables [OF out]
    by (auto simp: claim_held_def closed_row_def)
  then show "release_post db claim failure now db4 TERMINAL_NOT_CALLED"
    using held budget u
    by (auto simp: release_post_def Let_def max_preparation_failures_def claim_held_def)
qed

section \<open>The end of an execution\<close>

definition workflow_in :: "store \<Rightarrow> string \<Rightarrow> state \<Rightarrow> bool" where
  "workflow_in db wid s \<longleftrightarrow> map_option wr_state (find_row workflow_key wid (db_workflows db)) = Some s"

definition message_pending :: "store \<Rightarrow> outbox_message \<Rightarrow> bool" where
  "message_pending db m \<longleftrightarrow>
     (\<exists>r \<in> set (db_outbox db). os_message r = m \<and> os_status r = PENDING \<and> os_delivery_attempts r = 0)"

lemma update_state_hits:
  assumes "update_state_compare_and_swap db cur nxt = Inr db'" "store_ok db"
    and "sm_workflow_id (st_meta nxt) = sm_workflow_id (st_meta cur)"
  shows "workflow_in db' (sm_workflow_id (st_meta cur)) nxt"
proof -
  obtain h rows where "swap_one
       (\<lambda>r. workflow_key r = sm_workflow_id (st_meta cur)
            \<and> sm_revision (st_meta (wr_state r)) = sm_revision (st_meta cur) \<and> state_hash (wr_state r) = Inr h)
       (\<lambda>r. r\<lparr>wr_state := nxt, wr_updated_at := sm_last_event_at (st_meta nxt)\<rparr>)
       (ConcurrencyConflict ''workflow compare-and-swap did not update one row'') (db_workflows db) = Inr rows"
    and db': "db' = db\<lparr>db_workflows := rows\<rparr>"
    using assms(1) by (auto simp: update_state_compare_and_swap_def bind_res_Inr_iff)
  note swap_one_hits [OF this(1), of workflow_key "sm_workflow_id (st_meta cur)"]
  then show ?thesis
    using assms(2,3) by (auto simp: workflow_in_def db' store_ok_def workflow_key_def)
qed

lemma insert_outbox_pending: "insert_outbox db m = Inr db' \<Longrightarrow> message_pending db' m"
  by (auto simp: insert_outbox_def message_pending_def split: if_splits)

text \<open>The writes that close an execution leave the closed row, the new state and the message.\<close>

definition closed_post ::
  "store \<Rightarrow> reservation_command \<Rightarrow> ledger_snapshot \<Rightarrow> state \<Rightarrow> ledger_status \<Rightarrow> execution_outcome \<Rightarrow> timestamp
   \<Rightarrow> store \<Rightarrow> bool" where
  "closed_post db c l s' st u now db' \<longleftrightarrow>
     row_of db (rc_command_id c) = Some l \<and> row_of db' (rc_command_id c) = Some (closed_row st u now l)
     \<and> workflow_in db' (rc_workflow_id c) s'
     \<and> (\<exists>m. project_outcome_outbox c u now = Inr m \<and> message_pending db' m)"

lemma outcome_writes_close:
  assumes ok: "store_ok db"
    and l: "load_ledger db (rc_command_id c) = Inr l"
    and s: "sm_workflow_id (st_meta s) = rc_workflow_id c"
    and ins: "good_step db db1" "db_ledger db1 = db_ledger db"
    and swap: "update_state_compare_and_swap db1 s s' = Inr db2"
    and s': "wf_state s'" "sm_workflow_id (st_meta s') = sm_workflow_id (st_meta s)"
    and up: "update_ledger db2 p (\<lambda>r. r\<lparr>lg_status := st, lg_claim_owner := None, lg_lease_acquired_at := None,
        lg_lease_expires_at := None, lg_outcome := Some u, lg_outcome_hash := Some (sha256_hex (dumps_outcome u)),
        lg_updated_at := now\<rparr>) err = Inr db3"
    and p: "\<And>r. p r \<Longrightarrow> lg_command_id r = rc_command_id c"
    and m: "project_outcome_outbox c u now = Inr m" and out: "insert_outbox db3 m = Inr db4"
  shows "closed_post db c l s' st u now db4"
proof -
  have ok1: "store_ok db1" and ok2: "store_ok db2"
    using ins(1) update_state_good [OF swap s'] ok by (auto simp: good_step_def)
  have row: "row_of db (rc_command_id c) = Some l" using load_ledger_Inr(3) [OF l] .
  then have "row_of db3 (rc_command_id c) = Some (closed_row st u now l)"
    using update_ledger_hits [OF up ok2 p] ins(2) update_state_tables [OF swap]
    by (auto simp: closed_row_def)
  moreover have "workflow_in db2 (rc_workflow_id c) s'" using update_state_hits [OF swap ok1 s'(2)] s by simp
  ultimately show ?thesis
    using row m update_ledger_tables [OF up] insert_outbox_tables [OF out] insert_outbox_pending [OF out]
    by (auto simp: closed_post_def workflow_in_def)
qed

definition record_post ::
  "store \<Rightarrow> dispatch_permit \<Rightarrow> execution_outcome \<Rightarrow> timestamp \<Rightarrow> store \<Rightarrow> persisted_transition \<Rightarrow> bool" where
  "record_post db permit u now db' p \<longleftrightarrow>
     eo_command_id u = pm_command_id permit \<and> eo_certainty u \<noteq> NOT_CALLED
     \<and> (\<exists>l. row_of db (pm_command_id permit) = Some l
          \<and> lg_fencing_token l = lease_token (pm_lease permit)
          \<and> lg_request_hash l = Some (pm_request_hash permit) \<and> lg_dispatch_slots l = 1
          \<and> (db' = db \<and> pt_duplicate p \<and> map_option dumps_outcome (lg_outcome l) = Some (dumps_outcome u)
             \<or> lg_outcome l = None \<and> lg_status l = DISPATCH_FENCED \<and> live_after now l
               \<and> phase (pt_state p) = (if eo_certainty u = CALLED_UNKNOWN then MANUAL_REVIEW
                                       else outcome_phase (eo_certainty u))
               \<and> (\<exists>c. load_command db (pm_command_id permit) = Inr c
                    \<and> closed_post db c l (pt_state p) (outcome_ledger_status u) u now db')))"

lemma record_outcome_facts:
  assumes ok: "store_ok db" and u: "wf_outcome u"
  shows "ensures (\<lambda>(db', p). record_post db permit u now db' p) (record_outcome v db permit u now)"
  unfolding record_outcome_def Let_def
proof (intro ensures_rules; (simp only: ensures_Inl ensures_Inr prod.case)?)
  fix l p
  assume "\<not> eo_command_id u \<noteq> pm_command_id permit" "eo_certainty u \<noteq> NOT_CALLED"
    and l: "load_ledger db (pm_command_id permit) = Inr l"
    and "resolve_duplicate_outcome v db permit u l now = Inr p"
  then show "record_post db permit u now db p"
    using load_ledger_Inr(3) [OF l]
    by (auto simp: record_post_def resolve_duplicate_outcome_def bind_res_Inr_iff split: if_splits)
next
  fix existing p q c l s e t1 evs final m db1 db2 db3 db4 l2
  assume g: "\<not> eo_command_id u \<noteq> pm_command_id permit" "eo_certainty u \<noteq> NOT_CALLED"
    and existing: "load_ledger db (pm_command_id permit) = Inr existing" "\<not> lg_outcome existing \<noteq> None"
    and live: "assert_live_dispatch_permit db permit now = Inr (c, l, s)"
    and e: "mk_event (ExecutionFinished (finished_event_id c u (sha256_hex (dumps_outcome u))) now
        (rc_command_id c) u) = Inr e"
    and t1: "reduce s e = Inr t1"
    and ph: "\<not> (tr_status t1 \<noteq> APPLIED \<or> phase (tr_state t1) \<noteq> outcome_phase (eo_certainty u) \<or> tr_commands t1 \<noteq> [])"
    and fin: "(if eo_certainty u = CALLED_UNKNOWN
                then bind_res (review_transition ''uncertain outcome did not produce mandatory manual review''
                       c (tr_state t1) (sha256_hex (dumps_outcome u)) now) (\<lambda>(review, t2).
                       Inr ([(e, sm_revision (st_meta (tr_state t1))),
                             (review, sm_revision (st_meta (tr_state t2)))], t2))
                else Inr ([(e, sm_revision (st_meta (tr_state t1)))], t1)) = Inr (evs, final)"
    and m: "project_outcome_outbox c u now = Inr m"
    and ins: "foldl (\<lambda>acc er. bind_res acc (\<lambda>db. insert_event ''record_outcome'' db
                  (rc_workflow_id c) (fst er) (snd er))) (Inr db) evs = Inr db1"
    and swap: "update_state_compare_and_swap db1 s (tr_state final) = Inr db2"
    and up: "update_ledger db2
        (\<lambda>r. lg_command_id r = rc_command_id c \<and> lg_status r = DISPATCH_FENCED
             \<and> lg_claim_owner r = Some (lease_owner (pm_lease permit))
             \<and> lg_fencing_token r = lease_token (pm_lease permit)
             \<and> lg_lease_acquired_at r = Some (lease_acquired (pm_lease permit))
             \<and> lg_lease_expires_at r = Some (lease_expires (pm_lease permit)) \<and> live_after now r
             \<and> lg_dispatch_slots r = 1 \<and> lg_request_hash r = Some (pm_request_hash permit)
             \<and> lg_fenced_at r = Some (pm_fenced_at permit) \<and> lg_outcome r = None
             \<and> lg_outcome_hash r = None)
        (\<lambda>r. r\<lparr>lg_status := outcome_ledger_status u, lg_claim_owner := None, lg_lease_acquired_at := None,
               lg_lease_expires_at := None, lg_outcome := Some u,
               lg_outcome_hash := Some (sha256_hex (dumps_outcome u)), lg_updated_at := now\<rparr>)
        (StaleLease ''record outcome lost its dispatch permit compare-and-swap'') = Inr db3"
    and out: "insert_outbox db3 m = Inr db4"
  note live' = assert_permit_Inr [OF live]
  have s: "wf_state s" using load_workflow_wf [OF ok live'(3)] .
  have sid: "sm_workflow_id (st_meta s) = rc_workflow_id c" using load_workflow_Inr(1) [OF live'(3)] .
  note f1 = reduce_result_facts [OF s operational_event_wf(1) [OF e u] t1]
  have fin: "wf_state (tr_state final) \<and> sm_workflow_id (st_meta (tr_state final)) = sm_workflow_id (st_meta s)
      \<and> phase (tr_state final) = (if eo_certainty u = CALLED_UNKNOWN then MANUAL_REVIEW
                                  else outcome_phase (eo_certainty u))"
    using fin f1 ph review_transition_facts [OF _ f1(1)]
    by (fastforce simp: bind_res_Inr_iff split: if_splits)
  then have closed: "closed_post db c l (tr_state final) (outcome_ledger_status u) u now db4"
    using insert_events_good [OF ins]
    by (intro outcome_writes_close [OF ok live'(2) sid _ _ swap _ _ up _ m out]) auto
  have "rc_command_id c = pm_command_id permit" using load_command_Inr [OF live'(1)] by simp
  then have l: "existing = l" "row_of db (pm_command_id permit) = Some l" "ledger_ok l"
    using existing(1) live'(2) load_ledger_Inr [OF existing(1)] by auto
  show "record_post db permit u now db4 (from_domain final)"
    using g existing(2) l live' closed fin ledger_ok_fenced [OF l(3)]
    unfolding record_post_def from_domain_def by auto
qed

section \<open>Recovery of expired leases\<close>

lemma release_expired_row_facts:
  assumes ok: "store_ok db" and rel: "release_expired_row now db cid = Inr db'"
  shows "\<exists>l. row_of db cid = Some l \<and> lg_status l = PREPARING \<and> lg_dispatch_slots l = 0 \<and> expired_by now l
    \<and> row_of db' cid = Some (requeued_row (lg_preparation_failures l) now l)"
proof -
  have "ensures (\<lambda>db'. \<exists>l. row_of db cid = Some l \<and> lg_status l = PREPARING \<and> lg_dispatch_slots l = 0
      \<and> expired_by now l \<and> row_of db' cid = Some (requeued_row (lg_preparation_failures l) now l))
    (release_expired_row now db cid)"
    unfolding release_expired_row_def
  proof (intro ensures_rules; (simp only: ensures_Inl ensures_Inr)?)
    fix c l s db1 l2
    assume c: "load_command db cid = Inr c"
      and up: "update_ledger db
       (\<lambda>r. lg_command_id r = rc_command_id c \<and> lg_status r = PREPARING
            \<and> lg_claim_owner r = lg_claim_owner l \<and> lg_fencing_token r = lg_fencing_token l
            \<and> lg_lease_acquired_at r = lg_lease_acquired_at l
            \<and> lg_lease_expires_at r = lg_lease_expires_at l
            \<and> lg_updated_at r = lg_updated_at l \<and> lg_claim_count r = lg_claim_count l
            \<and> lg_preparation_failures r = lg_preparation_failures l \<and> expired_by now r
            \<and> lg_dispatch_slots r = 0 \<and> lg_outcome r = None \<and> lg_outcome_hash r = None)
       (\<lambda>r. r\<lparr>lg_status := QUEUED, lg_claim_owner := None, lg_lease_acquired_at := None,
              lg_lease_expires_at := None, lg_updated_at := now\<rparr>)
       (ConcurrencyConflict ''expired pre-dispatch release lost its compare-and-swap'') = Inr db1"
    show "\<exists>l. row_of db cid = Some l \<and> lg_status l = PREPARING \<and> lg_dispatch_slots l = 0
      \<and> expired_by now l \<and> row_of db1 cid = Some (requeued_row (lg_preparation_failures l) now l)"
      using update_ledger_hits [OF up ok, of "rc_command_id c"] load_command_Inr [OF c]
      by (auto simp: requeued_row_def)
  qed
  with rel show ?thesis by simp
qed

definition unknown_post :: "store \<Rightarrow> string \<Rightarrow> timestamp \<Rightarrow> store \<Rightarrow> bool" where
  "unknown_post db cid now db' \<longleftrightarrow>
     (\<exists>c l u s'. load_command db cid = Inr c \<and> rc_command_id c = cid
        \<and> lg_status l = DISPATCH_FENCED \<and> eo_certainty u = CALLED_UNKNOWN
        \<and> phase s' = MANUAL_REVIEW \<and> closed_post db c l s' LEDGER_MANUAL_REVIEW u now db')"

lemma command_outcome_certainty: "command_outcome c k st ref ev = Inr u \<Longrightarrow> eo_certainty u = k"
  by (auto simp: command_outcome_def mk_execution_outcome_def bind_res_Inr_iff Let_def split: if_splits)

lemma mark_unknown_row_facts:
  assumes ok: "store_ok db" and up: "mark_unknown_row now db cid = Inr db'"
  shows "unknown_post db cid now db'"
proof -
  have "ensures (unknown_post db cid now) (mark_unknown_row now db cid)"
    unfolding mark_unknown_row_def Let_def
  proof (intro ensures_rules; (simp only: ensures_Inl ensures_Inr)?)
    fix c l s ex u e t1 review t2 m db1 db2 db3 db4 db5
    assume c: "load_command db cid = Inr c"
      and live: "load_ledger db (rc_command_id c) = Inr l" "load_workflow db (rc_workflow_id c) = Inr s"
      and st: "\<not> (\<not> executing_command s c \<or> lg_status l \<noteq> DISPATCH_FENCED \<or> lg_dispatch_slots l \<noteq> 1
        \<or> lg_request_hash l \<noteq> Some (dq_payload_hash ex)
        \<or> (case (lg_claim_owner l, lg_fenced_at l, lg_lease_acquired_at l, lg_lease_expires_at l) of
             (Some _, Some f, Some a, Some x) \<Rightarrow>
               \<not> (a \<le> f \<and> f = lg_updated_at l \<and> lg_updated_at l < x) \<or> now < x
           | _ \<Rightarrow> True)
        \<or> lg_outcome l \<noteq> None \<or> now < lg_updated_at l)"
      and u: "command_outcome c CALLED_UNKNOWN ''dispatch_outcome_unknown_after_expiry'' None
                 [the (lg_request_hash l)] = Inr u"
      and e: "mk_event (ExecutionFinished (finished_event_id c u (sha256_hex (dumps_outcome u))) now
                    (rc_command_id c) u) = Inr e"
      and t1: "reduce s e = Inr t1"
      and t2: "review_transition ''reconciled unknown did not produce mandatory manual review''
                 c (tr_state t1) (sha256_hex (dumps_outcome u)) now = Inr (review, t2)"
      and m: "project_outcome_outbox c u now = Inr m"
      and ins: "insert_event ''mark_expired_fenced_unknown'' db (rc_workflow_id c) e
                 (sm_revision (st_meta (tr_state t1))) = Inr db1"
        "insert_event ''mark_expired_fenced_unknown'' db1 (rc_workflow_id c) review
                 (sm_revision (st_meta (tr_state t2))) = Inr db2"
      and swap: "update_state_compare_and_swap db2 s (tr_state t2) = Inr db3"
      and up: "update_ledger db3
       (\<lambda>r. lg_command_id r = rc_command_id c \<and> lg_status r = DISPATCH_FENCED
            \<and> lg_claim_owner r = lg_claim_owner l \<and> lg_fencing_token r = lg_fencing_token l
            \<and> lg_lease_acquired_at r = lg_lease_acquired_at l
            \<and> lg_lease_expires_at r = lg_lease_expires_at l
            \<and> lg_updated_at r = lg_updated_at l \<and> lg_claim_count r = lg_claim_count l
            \<and> lg_preparation_failures r = lg_preparation_failures l \<and> expired_by now r
            \<and> lg_dispatch_slots r = 1 \<and> lg_request_hash r = lg_request_hash l
            \<and> lg_fenced_at r = lg_fenced_at l \<and> lg_outcome r = None \<and> lg_outcome_hash r = None)
       (\<lambda>r. r\<lparr>lg_status := LEDGER_MANUAL_REVIEW, lg_claim_owner := None, lg_lease_acquired_at := None,
              lg_lease_expires_at := None, lg_outcome := Some u,
              lg_outcome_hash := Some (sha256_hex (dumps_outcome u)), lg_updated_at := now\<rparr>)
       (ConcurrencyConflict ''expired dispatch reconciliation lost its compare-and-swap'') = Inr db4"
      and out: "insert_outbox db4 m = Inr db5"
    note f1 = reduce_result_facts [OF load_workflow_wf [OF ok live(2)]
        operational_event_wf(1) [OF e command_outcome_wf [OF u]] t1]
    note f2 = review_transition_facts [OF t2 f1(1)]
    have "good_step db db2" "db_ledger db2 = db_ledger db"
      using insert_event_good [OF ins(1)] insert_event_good [OF ins(2)]
        insert_event_tables [OF ins(1)] insert_event_tables [OF ins(2)]
      by (auto intro: good_step_trans)
    then have "closed_post db c l (tr_state t2) LEDGER_MANUAL_REVIEW u now db5"
      using f1 f2
      by (intro outcome_writes_close [OF ok live(1) load_workflow_Inr(1) [OF live(2)] _ _ swap _ _ up _ m out])
         auto
    then show "unknown_post db cid now db5"
      using c st f2(3) command_outcome_certainty [OF u] load_command_Inr [OF c]
      unfolding unknown_post_def by auto
  qed
  with up show ?thesis by simp
qed

text \<open>A run over a list of rows: what one step establishes and every later step keeps, all rows have.\<close>

lemma recover_all_establishes:
  assumes step: "\<And>db cid db'. store_ok db \<Longrightarrow> step db cid = Inr db' \<Longrightarrow> commits db db' \<and> settled db' cid"
    and keep: "\<And>db db' cid. commits db db' \<Longrightarrow> settled db cid \<Longrightarrow> settled db' cid"
  shows "store_ok db \<Longrightarrow> recover_all step db cids n = Inr (db', m) \<Longrightarrow>
    commits db db' \<and> (\<forall>cid \<in> set cids. settled db' cid) \<and> m = n + int (length cids)"
proof (induction cids arbitrary: db n)
  case Nil
  then show ?case by (simp add: commits_refl)
next
  case (Cons c cs)
  then obtain db1 where s: "step db c = Inr db1" and r: "recover_all step db1 cs (n + 1) = Inr (db', m)"
    by (auto simp: bind_res_Inr_iff)
  have c: "commits db db1" "settled db1 c" using step [OF Cons.prems(1) s] by auto
  then show ?case
    using Cons.IH [OF commits_ok [OF c(1)] r] keep [of db1 db' c] commits_trans [OF c(1)] by auto
qed

lemma expired_ids_rows:
  "store_ok db \<Longrightarrow> cid \<in> set (expired_ids db now st n) \<longleftrightarrow>
     (\<exists>l. row_of db cid = Some l \<and> lg_status l = st \<and> lg_dispatch_slots l = n \<and> lg_outcome l = None
        \<and> expired_by now l)"
  by (auto simp: expired_ids_def store_ok_def dest: find_row_unique [of lg_command_id] find_row_Some)

text \<open>The release of expired preparations is one update of the ledger table and nothing else.\<close>

definition requeue :: "timestamp \<Rightarrow> ledger_snapshot \<Rightarrow> ledger_snapshot" where
  "requeue now r = requeued_row (lg_preparation_failures r) now r"

lemma requeue_id [simp]: "lg_command_id (requeue now r) = lg_command_id r"
  by (simp add: requeue_def requeued_row_def)

lemma requeue_eq: "r\<lparr>lg_status := QUEUED, lg_claim_owner := None, lg_lease_acquired_at := None,
    lg_lease_expires_at := None, lg_updated_at := now\<rparr> = requeue now r"
  by (cases r) (simp add: requeue_def requeued_row_def)

lemma release_expired_row_exact:
  assumes ok: "store_ok db" and rel: "release_expired_row now db cid = Inr db'"
  shows "db' = db\<lparr>db_ledger := update_where (\<lambda>r. lg_command_id r = cid) (requeue now) (db_ledger db)\<rparr>"
proof -
  have "ensures (\<lambda>db'. \<exists>p err. (\<forall>r. p r \<longrightarrow> lg_command_id r = cid) \<and> update_ledger db p (requeue now) err = Inr db')
    (release_expired_row now db cid)"
    unfolding release_expired_row_def requeue_eq
  proof (intro ensures_rules; (simp only: ensures_Inl ensures_Inr)?)
    fix c l s db1 l2
    assume c: "load_command db cid = Inr c"
      and up: "update_ledger db
       (\<lambda>r. lg_command_id r = rc_command_id c \<and> lg_status r = PREPARING
            \<and> lg_claim_owner r = lg_claim_owner l \<and> lg_fencing_token r = lg_fencing_token l
            \<and> lg_lease_acquired_at r = lg_lease_acquired_at l
            \<and> lg_lease_expires_at r = lg_lease_expires_at l
            \<and> lg_updated_at r = lg_updated_at l \<and> lg_claim_count r = lg_claim_count l
            \<and> lg_preparation_failures r = lg_preparation_failures l \<and> expired_by now r
            \<and> lg_dispatch_slots r = 0 \<and> lg_outcome r = None \<and> lg_outcome_hash r = None)
       (requeue now)
       (ConcurrencyConflict ''expired pre-dispatch release lost its compare-and-swap'') = Inr db1"
    show "\<exists>p err. (\<forall>r. p r \<longrightarrow> lg_command_id r = cid) \<and> update_ledger db p (requeue now) err = Inr db1"
      by (intro exI conjI, rule allI, rule impI, erule conjE, rule trans, assumption)
         (use load_command_Inr [OF c] up in auto)
  qed
  then obtain p err where p: "\<And>r. p r \<Longrightarrow> lg_command_id r = cid"
    and up: "update_ledger db p (requeue now) err = Inr db'" using rel by auto
  obtain l where l: "row_of db cid = Some l" "p l"
    using update_ledger_hits [OF up ok p] by auto
  have "p r \<longleftrightarrow> lg_command_id r = cid" if "r \<in> set (db_ledger db)" for r
    using p [of r] l find_row_unique [of lg_command_id "db_ledger db" r] ok that by (auto simp: store_ok_def)
  then have "update_where p (requeue now) (db_ledger db)
      = update_where (\<lambda>r. lg_command_id r = cid) (requeue now) (db_ledger db)"
    by (simp add: update_where_def)
  then show ?thesis using up by (auto simp: update_ledger_def bind_res_Inr_iff swap_one_Inr)
qed

lemma release_all_exact:
  "store_ok db \<Longrightarrow> distinct cids \<Longrightarrow> recover_all (release_expired_row now) db cids n = Inr (db', m) \<Longrightarrow>
     db' = db\<lparr>db_ledger := update_where (\<lambda>r. lg_command_id r \<in> set cids) (requeue now) (db_ledger db)\<rparr>
     \<and> m = n + int (length cids)"
proof (induction cids arbitrary: db n)
  case Nil
  then show ?case by (simp add: update_where_def)
next
  case (Cons c cs)
  then obtain db1 where s: "release_expired_row now db c = Inr db1"
    and r: "recover_all (release_expired_row now) db1 cs (n + 1) = Inr (db', m)"
    by (auto simp: bind_res_Inr_iff)
  have db1: "db1 = db\<lparr>db_ledger := update_where (\<lambda>r. lg_command_id r = c) (requeue now) (db_ledger db)\<rparr>"
    using release_expired_row_exact [OF Cons.prems(1) s] .
  have "store_ok db1" using release_expired_row_commits [OF Cons.prems(1) s] by (rule commits_ok)
  with Cons.IH [OF this _ r] Cons.prems(2) show ?case
    by (auto simp: db1 update_where_def)
qed

end
