(* ===== verification/Exec_Progress.thy ===== *)
theory Exec_Progress
  imports Exec_Facts
begin

text \<open>
  The operations do succeed: for each, the conditions under which it commits. The safety facts say
  what a committed call did; these say that a legitimate call is not refused.
\<close>

section \<open>The reducer along an execution\<close>

lemma start_applies:
  assumes "wf_state s" "wf_event e" "\<not> seen s e" "sm_last_event_at (st_meta s) \<le> occurred_at e"
    and "s = ExecutionQueuedState m d p c k" "e = ExecutionStarted i at (rc_command_id k)"
  shows "\<exists>t. reduce s e = Inr t \<and> tr_status t = APPLIED \<and> phase (tr_state t) = EXECUTING
    \<and> tr_commands t = [] \<and> state_command (tr_state t) = Some k"
proof -
  obtain x where x: "chosen s e = Inr x" "reduce s e = Inr \<lparr>tr_state =
      set_meta (next_meta (st_meta s) e (map rc_command_id (de_commands x))) (de_state x),
      tr_status = de_status x, tr_reason = de_reason x, tr_commands = de_commands x\<rparr>"
    using reduce_new_result [OF assms(1-3)] by blast
  have "de_status x = APPLIED \<and> phase (de_state x) = EXECUTING \<and> de_commands x = []
      \<and> state_command (de_state x) = Some k"
    using x(1) assms(4-)
    by (auto simp: chosen_def handle_def start_execution_def applied_def mk_executing_state_def
        decide_def bind_res_Inr_iff split: if_splits)
  with x(2) show ?thesis by auto
qed

lemma finish_applies:
  assumes "wf_state s" "wf_event e" "\<not> seen s e" "sm_last_event_at (st_meta s) \<le> occurred_at e"
    and "s = ExecutingState m d p c k n" "e = ExecutionFinished i at (rc_command_id k) u"
    and "eo_command_id u = rc_command_id k"
  shows "\<exists>t. reduce s e = Inr t \<and> tr_status t = APPLIED \<and> phase (tr_state t) = outcome_phase (eo_certainty u)
    \<and> tr_commands t = [] \<and> state_command (tr_state t) = Some k
    \<and> (eo_certainty u = CALLED_UNKNOWN \<longrightarrow> (\<exists>m'. tr_state t = UncertainState m' k u))"
proof -
  obtain x where x: "chosen s e = Inr x" "reduce s e = Inr \<lparr>tr_state =
      set_meta (next_meta (st_meta s) e (map rc_command_id (de_commands x))) (de_state x),
      tr_status = de_status x, tr_reason = de_reason x, tr_commands = de_commands x\<rparr>"
    using reduce_new_result [OF assms(1-3)] by blast
  have "de_status x = APPLIED \<and> phase (de_state x) = outcome_phase (eo_certainty u) \<and> de_commands x = []
      \<and> state_command (de_state x) = Some k
      \<and> (eo_certainty u = CALLED_UNKNOWN \<longrightarrow> de_state x = UncertainState m k u)"
    using x(1) assms(4-)
    by (auto simp: chosen_def handle_def finish_execution_def applied_def mk_succeeded_state_def
        mk_uncertain_state_def mk_failed_before_provider_state_def mk_failed_no_effect_state_def
        outcome_phase_def decide_def bind_res_Inr_iff split: if_splits execution_certainty.splits)
  with x(2) show ?thesis by auto
qed

lemma review_applies:
  assumes "wf_state s" "wf_event e" "\<not> seen s e" "sm_last_event_at (st_meta s) \<le> occurred_at e"
    and "s = UncertainState m k u" "e = ManualReviewRequested i at r"
  shows "\<exists>t. reduce s e = Inr t \<and> tr_status t = APPLIED \<and> phase (tr_state t) = MANUAL_REVIEW \<and> tr_commands t = []"
proof -
  obtain x where x: "chosen s e = Inr x" "reduce s e = Inr \<lparr>tr_state =
      set_meta (next_meta (st_meta s) e (map rc_command_id (de_commands x))) (de_state x),
      tr_status = de_status x, tr_reason = de_reason x, tr_commands = de_commands x\<rparr>"
    using reduce_new_result [OF assms(1-3)] by blast
  have "de_status x = APPLIED \<and> phase (de_state x) = MANUAL_REVIEW \<and> de_commands x = []"
    using x(1) assms(4-)
    by (auto simp: chosen_def handle_def request_manual_review_def applied_def mk_manual_review_state_def
        decide_def bind_res_Inr_iff split: if_splits)
  with x(2) show ?thesis by auto
qed

section \<open>Updating a row that was read\<close>

definition set_row :: "store \<Rightarrow> ledger_snapshot \<Rightarrow> store" where
  "set_row db r = db\<lparr>db_ledger := update_where (\<lambda>x. lg_command_id x = lg_command_id r) (\<lambda>_. r) (db_ledger db)\<rparr>"

lemma set_row_tables [simp]:
  "db_commands (set_row db r) = db_commands db" "db_workflows (set_row db r) = db_workflows db"
  "db_events (set_row db r) = db_events db" "db_outbox (set_row db r) = db_outbox db"
  by (simp_all add: set_row_def)

lemma row_of_set_row:
  "row_of (set_row db r) cid = map_option (\<lambda>x. if cid = lg_command_id r then r else x) (row_of db cid)"
  by (cases "row_of db cid") (auto simp: set_row_def find_update dest: find_row_Some)

lemma update_ledger_hit:
  assumes "store_ok db" "row_of db cid = Some l" "p l" "\<And>r. p r \<Longrightarrow> lg_command_id r = cid"
    and "lg_command_id (f l) = cid"
  shows "update_ledger db p f err = Inr (set_row db (f l))"
proof -
  have d: "distinct (map lg_command_id (db_ledger db))" using assms(1) by (simp add: store_ok_def)
  have one: "r = l" if "r \<in> set (db_ledger db)" "lg_command_id r = cid" for r
    using find_row_unique [OF d that(1)] that(2) assms(2) by simp
  have "update_where p f (db_ledger db) = update_where (\<lambda>x. lg_command_id x = cid) (\<lambda>_. f l) (db_ledger db)"
    using one assms(3,4) by (auto simp: update_where_def)
  moreover have "count_where p (db_ledger db) = 1"
    using assms(2-4) d by (intro count_where_one [of lg_command_id _ cid l]) auto
  ultimately show ?thesis by (simp add: update_ledger_def swap_one_def set_row_def assms(5))
qed

lemma load_command_tables: "db_commands db' = db_commands db \<Longrightarrow> load_command db' cid = load_command db cid"
  by (simp add: load_command_def)

lemma load_workflow_tables: "db_workflows db' = db_workflows db \<Longrightarrow> load_workflow db' wid = load_workflow db wid"
  by (simp add: load_workflow_def)

lemma load_ledger_row:
  assumes "load_command db cid = Inr c" "row_of db (rc_command_id c) = Some r" "ledger_ok r"
    and "ledger_timeline c r = Inr ()" "ledger_outcome_check c r = Inr ()"
  shows "load_ledger db cid = Inr r"
  using assms by (simp add: load_ledger_def ledger_ok_def as_corruption_def)

lemma dispatch_request_enabled:
  assumes "wf_command c"
  shows "\<exists>q. dispatch_request_from_command c (command_envelope c) = Inr q \<and> hash_re (dq_payload_hash q)"
  using wf_command_ids [OF assms]
  by (simp add: dispatch_request_from_command_def mk_dispatch_request_def canonical_json_object_def
      command_envelope_def envelope_def sha256_hex_chars del: id_re.simps)

section \<open>The fence\<close>

text \<open>A live claim is fenced by the canonical request of its command, at any time in its lease.\<close>

lemma fence_dispatch_enabled:
  assumes ok: "store_ok db" and live: "assert_live_preparation_claim db claim now = Inr (c, l, s)"
    and q: "dispatch_request_from_command c (command_envelope c) = Inr q"
  shows "\<exists>permit. fence_dispatch db claim q now = Inr (set_row db (fenced_row (dq_payload_hash q) now l), permit)
    \<and> assert_live_dispatch_permit (set_row db (fenced_row (dq_payload_hash q) now l)) permit now
        = Inr (c, fenced_row (dq_payload_hash q) now l, s)"
proof -
  note a = assert_live_Inr [OF live]
  let ?r = "fenced_row (dq_payload_hash q) now l" let ?db = "set_row db ?r"
  have wf: "wf_command c" using load_command_wf [OF ok a(1)] .
  have h: "hash_re (dq_payload_hash q)" using dispatch_request_enabled [OF wf] q by auto
  have l: "ledger_ok l" "lg_command_id l = rc_command_id c" "row_of db (rc_command_id c) = Some l"
    "ledger_timeline c l = Inr ()"
    using load_ledger_Inr [OF a(2)] a(1,4) by auto
  have times: "lg_lease_acquired_at l = Some (lease_acquired (cl_lease claim))" "lease_acquired (cl_lease claim) \<le> now"
    "lg_lease_expires_at l = Some (lease_expires (cl_lease claim))" "now < lease_expires (cl_lease claim)"
    using live by (auto simp: assert_live_preparation_claim_def bind_res_Inr_iff Let_def split: if_splits)
  have up: "update_ledger db
       (\<lambda>r. lg_command_id r = rc_command_id c \<and> lg_status r = PREPARING
            \<and> lg_claim_owner r = Some (lease_owner (cl_lease claim))
            \<and> lg_fencing_token r = lease_token (cl_lease claim)
            \<and> live_after now r \<and> lg_dispatch_slots r = 0)
       (\<lambda>r. r\<lparr>lg_status := DISPATCH_FENCED, lg_dispatch_slots := 1,
              lg_request_hash := Some (dq_payload_hash q), lg_fenced_at := Some now, lg_updated_at := now\<rparr>)
       err = Inr ?db" for err
    unfolding fenced_row_def
    by (rule update_ledger_hit [OF ok l(3)]) (use a l(2) times in \<open>auto simp: live_after_def\<close>)
  have cmd: "load_command ?db (rc_command_id c) = Inr c" "load_command db (rc_command_id c) = Inr c"
    "load_command db (rc_command_id (cl_command claim)) = Inr c"
    using a(1) load_command_Inr [OF a(1)] by (simp_all add: load_command_tables [of ?db db])
  have okr: "ledger_ok ?r" using fence_row_good [OF l(1) a(6) h] by (simp add: row_step_def fenced_row_def)
  have load: "load_ledger ?db (rc_command_id c) = Inr ?r"
    using okr l times a(10) ledger_ok_open [OF l(1)] a(6)
    by (intro load_ledger_row [OF cmd(1)])
       (auto simp: row_of_set_row fenced_row_def ledger_timeline_def ledger_outcome_check_def opt_all_def
         split: if_splits)
  have "id_re (rc_command_id c)" using wf_command_ids [OF wf] by simp
  then have permit: "mk_dispatch_permit (rc_command_id c) (cl_lease claim) 1 (dq_payload_hash q) now
      = Inr \<lparr>pm_command_id = rc_command_id c, pm_lease = cl_lease claim, pm_dispatch_slot = 1,
             pm_request_hash = dq_payload_hash q, pm_fenced_at = now\<rparr>"
    using h by (simp add: mk_dispatch_permit_def del: id_re.simps)
  have "fence_dispatch db claim q now = Inr (?db, \<lparr>pm_command_id = rc_command_id c, pm_lease = cl_lease claim,
      pm_dispatch_slot = 1, pm_request_hash = dq_payload_hash q, pm_fenced_at = now\<rparr>)"
    unfolding fence_dispatch_def
    using a(2,7) q permit load live cmd
    by (simp add: up) (simp add: fenced_row_def)
  moreover have "assert_live_dispatch_permit ?db \<lparr>pm_command_id = rc_command_id c, pm_lease = cl_lease claim,
      pm_dispatch_slot = 1, pm_request_hash = dq_payload_hash q, pm_fenced_at = now\<rparr> now = Inr (c, ?r, s)"
    unfolding assert_live_dispatch_permit_def
    using cmd load a q times ledger_ok_open [OF l(1)] load_workflow_tables [of ?db db]
    by (simp add: fenced_row_def live_after_def)
  ultimately show ?thesis by blast
qed

section \<open>Writing the workflow and its history\<close>

lemma derived_id_ok: "id_re (derived_id ''event'' parts)"
proof -
  have "list_all id_char ''vent:''" "is_alnum CHR ''e''" by (simp_all add: char_class_defs ordc_def)
  then show ?thesis
    using id_re_prefix [of "CHR ''e''" "''vent:''" "sha256_hex r" for r]
    by (simp add: derived_id_def sha256_hex_chars del: id_re.simps)
qed

text \<open>An event that the workflow in this state has not had: a new identity and the next revision.\<close>

definition fresh_event :: "store \<Rightarrow> state \<Rightarrow> string \<Rightarrow> bool" where
  "fresh_event db s eid \<longleftrightarrow>
     \<not> event_exists db eid \<and> eid \<notin> set (sm_seen_event_ids (st_meta s))
     \<and> list_all (\<lambda>r. ev_workflow_id r = sm_workflow_id (st_meta s) \<longrightarrow>
          ev_revision r \<le> sm_revision (st_meta s)) (db_events db)"

lemma insert_event_enabled:
  assumes "fresh_event db s (event_id e)" "wid = sm_workflow_id (st_meta s)" "sm_revision (st_meta s) < n"
  shows "insert_event opn db wid e n = Inr (db\<lparr>db_events := db_events db
    @ [\<lparr>ev_event = e, ev_workflow_id = wid, ev_revision = n\<rparr>]\<rparr>)"
  using assms by (auto simp: insert_event_def fresh_event_def list_ex_iff list_all_iff)

lemma reduce_advances:
  assumes "wf_state s" "wf_event e" "\<not> seen s e" "reduce s e = Inr t"
  shows "sm_revision (st_meta (tr_state t)) = sm_revision (st_meta s) + 1"
    "sm_last_event_at (st_meta (tr_state t)) = max (sm_last_event_at (st_meta s)) (occurred_at e)"
    "sm_seen_event_ids (st_meta (tr_state t)) = sm_seen_event_ids (st_meta s) @ [event_id e]"
proof -
  obtain x where x: "chosen s e = Inr x" "reduce s e = Inr \<lparr>tr_state =
      set_meta (next_meta (st_meta s) e (map rc_command_id (de_commands x))) (de_state x),
      tr_status = de_status x, tr_reason = de_reason x, tr_commands = de_commands x\<rparr>"
    using reduce_new_result [OF assms(1-3)] by blast
  from x(2) assms(4) have "st_meta (tr_state t) = next_meta (st_meta s) e (map rc_command_id (de_commands x))" by auto
  then show "sm_revision (st_meta (tr_state t)) = sm_revision (st_meta s) + 1"
    "sm_last_event_at (st_meta (tr_state t)) = max (sm_last_event_at (st_meta s)) (occurred_at e)"
    "sm_seen_event_ids (st_meta (tr_state t)) = sm_seen_event_ids (st_meta s) @ [event_id e]"
    by (simp_all add: next_meta_def)
qed

lemma load_workflow_iff:
  "load_workflow db wid = Inr s \<longleftrightarrow> id_re wid \<and> (\<exists>r. find_row workflow_key wid (db_workflows db) = Some r
     \<and> state_from_row r = Inr s)"
  by (auto simp: load_workflow_def exact_id_def bind_res_Inr_iff simp del: id_re.simps split: option.splits if_splits)

lemma dumps_state_total: "wf_state s \<Longrightarrow> \<exists>text. dumps_state s = Inr text"
  by (simp add: dumps_state_def)

lemma state_from_row_iff:
  assumes "wf_state (wr_state r)"
  shows "state_from_row r = Inr s \<longleftrightarrow> s = wr_state r
     \<and> wr_updated_at r = sm_last_event_at (st_meta (wr_state r)) \<and> wr_created_at r \<le> wr_updated_at r
     \<and> (sm_revision (st_meta (wr_state r)) = 0 \<longrightarrow> wr_created_at r = wr_updated_at r)"
proof -
  obtain raw where "dumps_state (wr_state r) = Inr raw" using dumps_state_total [OF assms] ..
  then show ?thesis by (auto simp: state_from_row_def bind_res_Inr_iff Let_def split: if_splits)
qed

lemma update_state_enabled:
  assumes ok: "store_ok db" and cur: "load_workflow db wid = Inr cur" and nxt: "wf_state nxt"
    and same: "sm_workflow_id (st_meta nxt) = sm_workflow_id (st_meta cur)"
    and time: "sm_last_event_at (st_meta cur) \<le> sm_last_event_at (st_meta nxt)"
    and rev: "sm_revision (st_meta cur) < sm_revision (st_meta nxt)"
  shows "\<exists>rows. update_state_compare_and_swap db cur nxt = Inr (db\<lparr>db_workflows := rows\<rparr>)
    \<and> load_workflow (db\<lparr>db_workflows := rows\<rparr>) wid = Inr nxt"
proof -
  obtain r where r: "id_re wid" "find_row workflow_key wid (db_workflows db) = Some r" "state_from_row r = Inr cur"
    using cur by (auto simp: load_workflow_iff simp del: id_re.simps)
  have wid: "sm_workflow_id (st_meta cur) = wid" using load_workflow_Inr(1) [OF cur] .
  have wf: "wf_state (wr_state r)" using ok find_row_Some [OF r(2)] by (auto simp: store_ok_def)
  have row: "wr_state r = cur" "wr_created_at r \<le> sm_last_event_at (st_meta cur)"
    using r(3) state_from_row_iff [OF wf, of cur] by auto
  obtain h where h: "state_hash cur = Inr h"
    using dumps_state_total [of cur] wf row by (auto simp: state_hash_def)
  obtain raw where raw: "dumps_state nxt = Inr raw" using dumps_state_total [OF nxt] ..
  let ?p = "\<lambda>r. workflow_key r = sm_workflow_id (st_meta cur)
      \<and> sm_revision (st_meta (wr_state r)) = sm_revision (st_meta cur) \<and> state_hash (wr_state r) = Inr h"
  let ?f = "\<lambda>r. r\<lparr>wr_state := nxt, wr_updated_at := sm_last_event_at (st_meta nxt)\<rparr>"
  let ?rows = "update_where ?p ?f (db_workflows db)"
  have d: "distinct (map workflow_key (db_workflows db))" using ok by (simp add: store_ok_def)
  have p: "?p r" using find_row_Some [OF r(2)] wid row h by simp
  then have one: "count_where ?p (db_workflows db) = 1"
    using count_where_one [OF d r(2), of ?p] wid by simp
  have "find_row workflow_key wid ?rows = Some (?f r)"
    using r(2) p wid same by (subst find_update) (auto simp: workflow_key_def)
  moreover have "sm_revision (st_meta nxt) \<noteq> 0"
    using rev wf row wf_state_meta [of cur] by (auto simp: wf_meta_def)
  then have "state_from_row (?f r) = Inr nxt"
    using state_from_row_iff [of "?f r" nxt] nxt row time by simp
  moreover have "update_state_compare_and_swap db cur nxt = Inr (db\<lparr>db_workflows := ?rows\<rparr>)"
    using h one raw by (simp add: update_state_compare_and_swap_def swap_one_def)
  ultimately show ?thesis using r(1) by (intro exI [of _ ?rows]) (simp add: load_workflow_iff del: id_re.simps)
qed

section \<open>Claiming\<close>

lemma mk_started: "id_re cid \<Longrightarrow> mk_event (ExecutionStarted (derived_id ''event'' ps) now cid)
    = Inr (ExecutionStarted (derived_id ''event'' ps) now cid)"
  using derived_id_ok [of ps] by (simp add: with_event_id_def del: id_re.simps)

lemma mk_finished: "id_re cid \<Longrightarrow> mk_event (ExecutionFinished (derived_id ''event'' ps) now cid u)
    = Inr (ExecutionFinished (derived_id ''event'' ps) now cid u)"
  using derived_id_ok [of ps] by (simp add: with_event_id_def del: id_re.simps)

definition started_event_id :: "reservation_command \<Rightarrow> string" where
  "started_event_id c = derived_id ''event'' [''execution_started'', rc_command_id c]"

text \<open>The first claim of a command starts the execution of its workflow.\<close>

lemma start_claimed_enabled:
  assumes ok: "store_ok db" and s: "load_workflow db wid = Inr s" "s = ExecutionQueuedState m d p c k"
    and wid: "wid = rc_workflow_id k" and time: "sm_last_event_at (st_meta s) \<le> now"
    and fresh: "fresh_event db s (started_event_id k)"
  shows "\<exists>db' s'. start_claimed db k s now = Inr (db', s') \<and> load_workflow db' wid = Inr s'
    \<and> executing_command s' k \<and> sm_last_event_at (st_meta s') = now
    \<and> db_commands db' = db_commands db \<and> db_ledger db' = db_ledger db"
proof -
  let ?e = "ExecutionStarted (started_event_id k) now (rc_command_id k)"
  have wf: "wf_state s" using load_workflow_wf [OF ok s(1)] .
  have k: "id_re (rc_command_id k)" using wf s(2) wf_command_ids [of k] by (simp add: wf_state_def del: id_re.simps)
  have e: "wf_event ?e" using k derived_id_ok by (simp add: wf_event_def started_event_id_def del: id_re.simps)
  have new: "\<not> seen s ?e" using fresh by (simp add: seen_def fresh_event_def)
  obtain t where t: "reduce s ?e = Inr t" "tr_status t = APPLIED" "phase (tr_state t) = EXECUTING"
      "tr_commands t = []" "state_command (tr_state t) = Some k"
    using start_applies [OF wf e new _ s(2)] time by auto
  note adv = reduce_advances [OF wf e new t(1)] and facts = reduce_result_facts [OF wf e t(1)]
  have sid: "sm_workflow_id (st_meta s) = wid" using load_workflow_Inr(1) [OF s(1)] .
  obtain db1 where i: "insert_event ''claim_command'' db wid ?e (sm_revision (st_meta (tr_state t))) = Inr db1"
    using insert_event_enabled [of db s ?e wid] fresh sid adv(1) by simp
  note tab = insert_event_tables [OF i]
  have ok1: "store_ok db1" using insert_event_good [OF i] ok by (simp add: good_step_def)
  have s1: "load_workflow db1 wid = Inr s" using s(1) tab load_workflow_tables by metis
  obtain rows where u: "update_state_compare_and_swap db1 s (tr_state t) = Inr (db1\<lparr>db_workflows := rows\<rparr>)"
    "load_workflow (db1\<lparr>db_workflows := rows\<rparr>) wid = Inr (tr_state t)"
    using update_state_enabled [OF ok1 s1 facts(1,2)] adv by auto
  have "sm_command_ids (st_meta (tr_state t)) = [rc_command_id k]"
    using wf_state_command [OF facts(1) t(5)] facts(1) t(5)
    by (auto simp: wf_state_def validate_state_consistency_def bind_res_Inr_iff split: if_splits)
  then have "executing_command (tr_state t) k" using t by (simp add: executing_command_def)
  moreover have "start_claimed db k s now = Inr (db1\<lparr>db_workflows := rows\<rparr>, tr_state t)"
    using mk_started [OF k] fresh t i u wid
    by (simp add: start_claimed_def started_event_id_def fresh_event_def)
  ultimately show ?thesis using u(2) adv(2) tab time by auto
qed

definition claim_starts :: "store \<Rightarrow> reservation_command \<Rightarrow> state \<Rightarrow> timestamp \<Rightarrow> bool" where
  "claim_starts db c s now \<longleftrightarrow>
     executing_command s c
     \<or> (\<exists>m d p r. s = ExecutionQueuedState m d p r c) \<and> sm_last_event_at (st_meta s) \<le> now
        \<and> fresh_event db s (started_event_id c)"

lemma claim_command_enabled:
  assumes ok: "store_ok db" and w: "id_re w" and x: "lease_deadline now ttl = Inr x"
    and cand: "first_by (claim_order db) (claimable db now) (db_ledger db) = Some r"
    and c: "load_command db (lg_command_id r) = Inr c" and l: "load_ledger db (rc_command_id c) = Inr l"
    and s: "load_workflow db (rc_workflow_id c) = Inr s"
    and time: "lg_updated_at l \<le> now" and start: "claim_starts db c s now"
  shows "\<exists>db' claim s'. claim_command db w now ttl = Inr (db', Some claim) \<and> cl_command claim = c
    \<and> cl_lease claim = \<lparr>lease_owner = w, lease_token = lg_fencing_token l + 1, lease_acquired = now, lease_expires = x\<rparr>
    \<and> assert_live_preparation_claim db' claim now = Inr (c, claimed_row w now x l, s')
    \<and> (phase s \<noteq> EXECUTION_QUEUED \<longrightarrow> db' = set_row db (claimed_row w now x l) \<and> s' = s)"
proof -
  let ?r = "claimed_row w now x l" let ?db = "set_row db ?r"
  have cid: "lg_command_id r = rc_command_id c" "load_command db (rc_command_id c) = Inr c"
    using load_command_Inr [OF c] c by (simp_all del: id_re.simps)
  have row: "ledger_ok l" "lg_command_id l = rc_command_id c" "row_of db (rc_command_id c) = Some l"
    "ledger_timeline c l = Inr ()"
    using load_ledger_Inr [OF l] cid by auto
  have cr: "claimable db now r" "r \<in> set (db_ledger db)" using first_by_Some [OF cand] by auto
  then have rl: "r = l" using row(3) cid ok find_row_unique [of lg_command_id "db_ledger db" r] by (simp add: store_ok_def)
  have nx: "now < x" using lease_deadline_Inr [OF x] .
  have st: "lg_status l \<in> {QUEUED, PREPARING}" "lg_dispatch_slots l = 0"
      "lg_status l = QUEUED \<and> lg_claim_owner l = None \<or> lg_status l = PREPARING \<and> expired_by now l"
    using cr(1) ledger_ok_leased [OF row(1)] row(1) unfolding rl claimable_def
    by (auto simp: ledger_ok_iff ledger_status_valid_def simp del: id_re.simps)
  have created: "rc_created_at c \<le> now" using row(4) time by (auto simp: ledger_timeline_def split: if_splits)
  have up: "update_ledger db
           (\<lambda>r. lg_command_id r = rc_command_id c
                \<and> lg_fencing_token r = lg_fencing_token l \<and> lg_claim_count r = lg_claim_count l
                \<and> lg_dispatch_slots r = 0
                \<and> (lg_status r = QUEUED \<and> lg_claim_owner r = None
                   \<or> lg_status r = PREPARING \<and> expired_by now r))
           (\<lambda>r. r\<lparr>lg_status := PREPARING, lg_claim_owner := Some w,
                  lg_fencing_token := lg_fencing_token r + 1, lg_lease_acquired_at := Some now,
                  lg_lease_expires_at := Some x, lg_claim_count := lg_claim_count r + 1,
                  lg_updated_at := now\<rparr>) err = Inr ?db" for err
    unfolding claimed_row_def
    by (rule update_ledger_hit [OF ok row(3)]) (use row st in auto)
  have okr: "ledger_ok ?r"
    using claim_row_good [OF row(1) st(2,1) w nx] by (simp add: row_step_def claimed_row_def)
  have free: "c \<in> set (db_commands db)" "\<not> sibling_busy db c"
    using cr(1) cid(1) load_command_Inr [OF cid(2)] by (auto simp: claimable_def simp del: id_re.simps)
  have "good_step db ?db"
    by (intro update_claim_good [OF up, where c = c] claim_row_good) (use free w nx in auto)
  then have okd: "store_ok ?db" using ok by (simp add: good_step_def)
  have timeline: "ledger_timeline c ?r = Inr ()" "ledger_outcome_check c ?r = Inr ()"
    using row(4) created nx ledger_ok_open [OF row(1)] ledger_ok_undispatched [OF row(1)] st(1)
    by (auto simp: ledger_timeline_def ledger_outcome_check_def claimed_row_def opt_all_def)
  have s': "load_workflow ?db (rc_workflow_id c) = Inr s" using s load_workflow_tables [of ?db db] by simp
  have sc: "state_command s = Some c" "phase s \<in> {EXECUTION_QUEUED, EXECUTING}"
    using start by (auto simp: claim_starts_def executing_command_def)
  obtain db2 s2 where go: "(if phase s = EXECUTION_QUEUED then start_claimed ?db c s now else Inr (?db, s)) = Inr (db2, s2)"
    and s2: "load_workflow db2 (rc_workflow_id c) = Inr s2" "executing_command s2 c"
    and tab: "db_commands db2 = db_commands db" "db_ledger db2 = db_ledger ?db"
  proof (cases "phase s = EXECUTION_QUEUED")
    case True
    then obtain m d p q where q: "s = ExecutionQueuedState m d p q c" "sm_last_event_at (st_meta s) \<le> now"
        "fresh_event ?db s (started_event_id c)"
      using start by (auto simp: claim_starts_def executing_command_def fresh_event_def event_exists_def)
    then show ?thesis using start_claimed_enabled [OF okd s' q(1) refl q(2,3)] True that by auto
  next
    case False
    then show ?thesis using start s' that by (auto simp: claim_starts_def)
  qed
  have load: "load_ledger db2 (rc_command_id c) = Inr ?r"
    using load_command_tables [OF tab(1)] cid row okr timeline tab(2)
    by (intro load_ledger_row) (auto simp: row_of_set_row claimed_row_def)
  define claim where "claim = \<lparr>cl_command = c, cl_workflow_revision = sm_revision (st_meta s2),
     cl_lease = \<lparr>lease_owner = w, lease_token = lg_fencing_token l + 1, lease_acquired = now, lease_expires = x\<rparr>,
     cl_claim_count = lg_claim_count l + 1, cl_preparation_failures = lg_preparation_failures l\<rparr>"
  have "store_ok db2"
  proof (cases "phase s = EXECUTION_QUEUED")
    case True
    then show ?thesis
      using go start_claimed_commits(1) [OF okd load_workflow_wf [OF ok s]] commits_ok by (metis (full_types))
  qed (use go okd in simp)
  then have "wf_state s2" using load_workflow_wf [OF _ s2(1)] by blast
  then have "0 \<le> sm_revision (st_meta s2)" using wf_state_meta by (auto simp: wf_meta_def)
  then have "claim_from_projection c s2 ?r = Inr claim"
    using w nx ledger_ok_counters [OF row(1)]
    by (simp add: claim_from_projection_def claimed_row_def mk_lease_def mk_command_claim_def claim_def
        max_preparation_failures_def del: id_re.simps)
  then have "claim_command db w now ttl = Inr (db2, Some claim)"
    using w x cand c l s time created sc go load
    by (simp add: claim_command_def exact_id_def up del: id_re.simps)
  moreover have "assert_live_preparation_claim db2 claim now = Inr (c, ?r, s2)"
    using load s2 cid nx load_command_tables [OF tab(1)] st
    by (simp add: assert_live_preparation_claim_def claim_def) (simp add: claimed_row_def)
  moreover have "phase s \<noteq> EXECUTION_QUEUED \<longrightarrow> db2 = ?db \<and> s2 = s" using go by (auto split: if_splits)
  ultimately show ?thesis by (intro exI [of _ db2] exI [of _ claim] exI [of _ s2]) (simp add: claim_def)
qed

section \<open>Recording the outcome\<close>

lemma insert_events_tables:
  "foldl (\<lambda>acc er. bind_res acc (\<lambda>db. insert_event opn db wid (fst er) (snd er))) (Inr db) es = Inr db' \<Longrightarrow>
     db_workflows db' = db_workflows db \<and> db_commands db' = db_commands db \<and> db_outbox db' = db_outbox db"
proof (induction es arbitrary: db)
  case Nil
  then show ?case by simp
next
  case (Cons er es)
  then obtain db1 where i: "insert_event opn db wid (fst er) (snd er) = Inr db1"
    by (cases "insert_event opn db wid (fst er) (snd er)") (simp_all add: foldl_Inl)
  with Cons show ?case using insert_event_tables [OF i] by auto
qed

definition outbox_fresh :: "store \<Rightarrow> outbox_message \<Rightarrow> bool" where
  "outbox_fresh db m \<longleftrightarrow> list_all (\<lambda>r. outbox_key r \<noteq> om_message_id m
     \<and> om_idempotency_key (os_message r) \<noteq> om_idempotency_key m) (db_outbox db)"

lemma insert_outbox_enabled: "outbox_fresh db m \<Longrightarrow> \<exists>db'. insert_outbox db m = Inr db'"
  by (auto simp: insert_outbox_def outbox_fresh_def list_ex_iff list_all_iff)

text \<open>
  The outcome of a dispatched command is new to the store: its events, the message it projects
  and, for an unknown effect, the review event.
\<close>

definition outcome_fresh :: "store \<Rightarrow> reservation_command \<Rightarrow> state \<Rightarrow> execution_outcome \<Rightarrow> timestamp \<Rightarrow> bool" where
  "outcome_fresh db c s u now \<longleftrightarrow>
     (let h = sha256_hex (dumps_outcome u); f = finished_event_id c u h; r = review_event_id c h in
      fresh_event db s f \<and> sm_last_event_at (st_meta s) \<le> now
      \<and> (eo_certainty u = CALLED_UNKNOWN \<longrightarrow> fresh_event db s r \<and> r \<noteq> f)
      \<and> (case project_outcome_outbox c u now of Inl _ \<Rightarrow> True | Inr m \<Rightarrow> outbox_fresh db m))"

lemma executing_command_state:
  "executing_command s c \<Longrightarrow> \<exists>m d p q n. s = ExecutingState m d p q c n"
  by (cases s) (auto simp: executing_command_def)

lemma reason_uncertain: "wf_reason ''provider_effect_uncertain''" "event_reason ''provider_effect_uncertain'' = Inr ''provider_effect_uncertain''"
  by code_simp+

lemma mk_review: "mk_event (ManualReviewRequested (derived_id ''event'' ps) now ''provider_effect_uncertain'')
    = Inr (ManualReviewRequested (derived_id ''event'' ps) now ''provider_effect_uncertain'')"
  using derived_id_ok [of ps] reason_uncertain by (simp add: with_event_id_def del: id_re.simps)

lemma finish_then_review:
  assumes wf: "wf_state s" and ex: "executing_command s c" and u: "wf_outcome u" "eo_command_id u = rc_command_id c"
    and k: "eo_certainty u \<noteq> NOT_CALLED" and fresh: "outcome_fresh db c s u now"
    and h: "h = sha256_hex (dumps_outcome u)"
    and e: "e = ExecutionFinished (finished_event_id c u h) now (rc_command_id c) u"
  shows "\<exists>t1 events final. reduce s e = Inr t1 \<and> tr_status t1 = APPLIED \<and> tr_commands t1 = []
    \<and> phase (tr_state t1) = outcome_phase (eo_certainty u)
    \<and> (if eo_certainty u = CALLED_UNKNOWN
                then bind_res (review_transition ''uncertain outcome did not produce mandatory manual review''
                       c (tr_state t1) h now) (\<lambda>(review, t2).
                       Inr ([(e, sm_revision (st_meta (tr_state t1))),
                             (review, sm_revision (st_meta (tr_state t2)))], t2))
                else Inr ([(e, sm_revision (st_meta (tr_state t1)))], t1)) = Inr (events, final)
    \<and> (\<exists>db1. foldl (\<lambda>acc er. bind_res acc (\<lambda>db. insert_event opn db (sm_workflow_id (st_meta s)) (fst er) (snd er)))
          (Inr db) events = Inr db1)
    \<and> wf_state (tr_state final) \<and> sm_workflow_id (st_meta (tr_state final)) = sm_workflow_id (st_meta s)
    \<and> sm_last_event_at (st_meta s) \<le> sm_last_event_at (st_meta (tr_state final))
    \<and> sm_revision (st_meta s) < sm_revision (st_meta (tr_state final))"
proof -
  obtain m d p q n where s: "s = ExecutingState m d p q c n" using executing_command_state [OF ex] by blast
  have fr: "fresh_event db s (finished_event_id c u h)" "sm_last_event_at (st_meta s) \<le> now"
    "eo_certainty u = CALLED_UNKNOWN \<Longrightarrow> fresh_event db s (review_event_id c h)
       \<and> review_event_id c h \<noteq> finished_event_id c u h"
    using fresh by (auto simp: outcome_fresh_def Let_def h)
  have c: "id_re (rc_command_id c)" using wf s wf_command_ids [of c] by (simp add: wf_state_def del: id_re.simps)
  have e1: "wf_event e" using u c k derived_id_ok by (simp add: wf_event_def e finished_event_id_def del: id_re.simps)
  have n1: "\<not> seen s e" using fr(1) by (simp add: seen_def fresh_event_def e)
  obtain t1 where t1: "reduce s e = Inr t1" "tr_status t1 = APPLIED" "tr_commands t1 = []"
      "phase (tr_state t1) = outcome_phase (eo_certainty u)"
      "eo_certainty u = CALLED_UNKNOWN \<Longrightarrow> \<exists>m'. tr_state t1 = UncertainState m' c u"
    using finish_applies [OF wf e1 n1 _ s e u(2)] fr(2) by (auto simp: e)
  note a1 = reduce_advances [OF wf e1 n1 t1(1)] and f1 = reduce_result_facts [OF wf e1 t1(1)]
  define db1 where "db1 = db\<lparr>db_events := db_events db @ [\<lparr>ev_event = e,
      ev_workflow_id = sm_workflow_id (st_meta s), ev_revision = sm_revision (st_meta (tr_state t1))\<rparr>]\<rparr>"
  have i1: "insert_event opn db (sm_workflow_id (st_meta s)) e (sm_revision (st_meta (tr_state t1))) = Inr db1"
    unfolding db1_def using fr(1) a1(1) by (intro insert_event_enabled [where s = s]) (auto simp: e)
  show ?thesis
  proof (cases "eo_certainty u = CALLED_UNKNOWN")
    case False
    have "foldl (\<lambda>acc er. bind_res acc (\<lambda>db. insert_event opn db (sm_workflow_id (st_meta s)) (fst er) (snd er)))
        (Inr db) [(e, sm_revision (st_meta (tr_state t1)))] = Inr db1" using i1 by simp
    then show ?thesis using False t1 f1 a1 by (intro exI [of _ t1]) auto
  next
    case True
    let ?r = "ManualReviewRequested (review_event_id c h) now ''provider_effect_uncertain''"
    obtain m' where s1: "tr_state t1 = UncertainState m' c u" using t1(5) True by blast
    have e2: "wf_event ?r" using derived_id_ok reason_uncertain(1)
      by (simp add: wf_event_def review_event_id_def del: id_re.simps)
    have n2: "\<not> seen (tr_state t1) ?r"
      using fr(3) [OF True] a1(3) by (auto simp: seen_def fresh_event_def e)
    have "sm_last_event_at (st_meta (tr_state t1)) \<le> occurred_at ?r" using a1(2) fr(2) by (simp add: e)
    from review_applies [OF f1(1) e2 n2 this s1 refl] obtain t2 where t2: "reduce (tr_state t1) ?r = Inr t2"
        "tr_status t2 = APPLIED" "phase (tr_state t2) = MANUAL_REVIEW" "tr_commands t2 = []" by blast
    note a2 = reduce_advances [OF f1(1) e2 n2 t2(1)] and f2 = reduce_result_facts [OF f1(1) e2 t2(1)]
    have rt: "review_transition msg c (tr_state t1) h now = Inr (?r, t2)" for msg
      using t2 mk_review by (simp add: review_transition_def review_event_id_def)
    have "fresh_event db1 (tr_state t1) (review_event_id c h)"
      using fr(3) [OF True] a1 f1 by (fastforce simp: fresh_event_def db1_def event_exists_def find_row_append event_key_def e
          list_all_iff split: option.splits)
    then obtain db2 where i2: "insert_event opn db1 (sm_workflow_id (st_meta s)) ?r (sm_revision (st_meta (tr_state t2))) = Inr db2"
      using insert_event_enabled [of db1 "tr_state t1" ?r "sm_workflow_id (st_meta s)"] f1 a2 by auto
    have "foldl (\<lambda>acc er. bind_res acc (\<lambda>db. insert_event opn db (sm_workflow_id (st_meta s)) (fst er) (snd er)))
        (Inr db) [(e, sm_revision (st_meta (tr_state t1))), (?r, sm_revision (st_meta (tr_state t2)))] = Inr db2"
      using i1 i2 by simp
    then show ?thesis using True t1 rt f2 f1 a1 a2 by (intro exI [of _ t1]) auto
  qed
qed

lemma record_outcome_enabled:
  assumes ok: "store_ok db" and live: "assert_live_dispatch_permit db permit now = Inr (c, l, s)"
    and u: "wf_outcome u" "eo_command_id u = rc_command_id c" "eo_certainty u \<noteq> NOT_CALLED"
    and fresh: "outcome_fresh db c s u now"
  shows "\<exists>db' p. record_outcome v db permit u now = Inr (db', p)"
proof -
  note a = assert_permit_Inr [OF live]
  define h where "h = sha256_hex (dumps_outcome u)"
  let ?e = "ExecutionFinished (finished_event_id c u h) now (rc_command_id c) u"
  have wf: "wf_state s" "wf_command c" using load_workflow_wf [OF ok a(3)] load_command_wf [OF ok a(1)] by auto
  have sid: "sm_workflow_id (st_meta s) = rc_workflow_id c" using load_workflow_Inr(1) [OF a(3)] .
  have cid: "pm_command_id permit = rc_command_id c" "load_command db (rc_command_id c) = Inr c"
    using load_command_Inr [OF a(1)] a(1) by (simp_all del: id_re.simps)
  have row: "ledger_ok l" "lg_command_id l = rc_command_id c" "row_of db (rc_command_id c) = Some l"
    "ledger_timeline c l = Inr ()"
    using load_ledger_Inr [OF a(2)] cid by auto
  have times: "lg_claim_owner l = Some (lease_owner (pm_lease permit))"
    "lg_lease_acquired_at l = Some (lease_acquired (pm_lease permit))"
    "lg_lease_expires_at l = Some (lease_expires (pm_lease permit))" "lg_dispatch_slots l = pm_dispatch_slot permit"
    "lg_fenced_at l = Some (pm_fenced_at permit)" "pm_fenced_at permit \<le> now" "lg_outcome l = None"
    using live by (auto simp: assert_live_dispatch_permit_def bind_res_Inr_iff Let_def split: if_splits)
  note fenced = ledger_ok_fenced [OF row(1) a(5)] and opened = ledger_ok_open [OF row(1)]
  obtain t1 events final db1 where t1: "reduce s ?e = Inr t1" "tr_status t1 = APPLIED" "tr_commands t1 = []"
      "phase (tr_state t1) = outcome_phase (eo_certainty u)"
    and fin: "(if eo_certainty u = CALLED_UNKNOWN
                then bind_res (review_transition ''uncertain outcome did not produce mandatory manual review''
                       c (tr_state t1) h now) (\<lambda>(review, t2).
                       Inr ([(?e, sm_revision (st_meta (tr_state t1))),
                             (review, sm_revision (st_meta (tr_state t2)))], t2))
                else Inr ([(?e, sm_revision (st_meta (tr_state t1)))], t1)) = Inr (events, final)"
    and ins: "foldl (\<lambda>acc er. bind_res acc (\<lambda>db. insert_event ''record_outcome'' db (rc_workflow_id c) (fst er) (snd er)))
          (Inr db) events = Inr db1"
    and final: "wf_state (tr_state final)" "sm_workflow_id (st_meta (tr_state final)) = sm_workflow_id (st_meta s)"
      "sm_last_event_at (st_meta s) \<le> sm_last_event_at (st_meta (tr_state final))"
      "sm_revision (st_meta s) < sm_revision (st_meta (tr_state final))"
    using finish_then_review [OF wf(1) a(4) u(1,2,3) fresh h_def refl, of "''record_outcome''"] unfolding sid by blast
  obtain m where m: "project_outcome_outbox c u now = Inr m"
    using project_outcome_total [OF wf(2) u(2,3), of now] by auto
  note i = insert_events_good [OF ins]
  have ok1: "store_ok db1" using i ok by (simp add: good_step_def)
  have tab1: "db_workflows db1 = db_workflows db \<and> db_commands db1 = db_commands db \<and> db_outbox db1 = db_outbox db"
    using insert_events_tables [OF ins] by simp
  have s1: "load_workflow db1 (rc_workflow_id c) = Inr s" using a(3) tab1 load_workflow_tables [of db1 db] by simp
  obtain rows where swap: "update_state_compare_and_swap db1 s (tr_state final) = Inr (db1\<lparr>db_workflows := rows\<rparr>)"
    using update_state_enabled [OF ok1 s1 final] by blast
  let ?db2 = "db1\<lparr>db_workflows := rows\<rparr>" and ?r = "closed_row (outcome_ledger_status u) u now l"
  have ok2: "store_ok ?db2" using update_state_good [OF swap final(1,2)] ok1 by (simp add: good_step_def)
  have row2: "row_of ?db2 (rc_command_id c) = Some l" using row(3) i by simp
  have up: "update_ledger ?db2
        (\<lambda>r. lg_command_id r = rc_command_id c \<and> lg_status r = DISPATCH_FENCED
             \<and> lg_claim_owner r = Some (lease_owner (pm_lease permit))
             \<and> lg_fencing_token r = lease_token (pm_lease permit)
             \<and> lg_lease_acquired_at r = Some (lease_acquired (pm_lease permit))
             \<and> lg_lease_expires_at r = Some (lease_expires (pm_lease permit)) \<and> live_after now r
             \<and> lg_dispatch_slots r = 1 \<and> lg_request_hash r = Some (pm_request_hash permit)
             \<and> lg_fenced_at r = Some (pm_fenced_at permit) \<and> lg_outcome r = None
             \<and> lg_outcome_hash r = None)
        (\<lambda>r. r\<lparr>lg_status := outcome_ledger_status u, lg_claim_owner := None, lg_lease_acquired_at := None,
               lg_lease_expires_at := None, lg_outcome := Some u,
               lg_outcome_hash := Some h, lg_updated_at := now\<rparr>) err = Inr (set_row ?db2 ?r)" for err
    unfolding closed_row_def h_def
    by (rule update_ledger_hit [OF ok2 row2]) (use a row(2) times fenced opened in auto)
  obtain db4 where out: "insert_outbox (set_row ?db2 ?r) m = Inr db4"
    using insert_outbox_enabled [of "set_row ?db2 ?r" m] fresh m tab1
    by (auto simp: outcome_fresh_def Let_def outbox_fresh_def)
  note tab4 = insert_outbox_tables [OF out]
  have okr: "ledger_ok ?r"
    using outcome_row_good [OF row(1) a(5), where h = h and st = "outcome_ledger_status u" and u = u and now = now]
    by (auto simp: row_step_def closed_row_def h_def outcome_ledger_status_def)
  have "load_command db4 (rc_command_id c) = Inr c"
    using cid(2) tab4 tab1 load_command_tables [of db4 db] by simp
  then have load: "load_ledger db4 (rc_command_id c) = Inr ?r"
  proof (rule load_ledger_row [OF _ _ okr])
    show "row_of db4 (rc_command_id c) = Some ?r"
      using tab4 row2 row(2) row_of_set_row [where db = ?db2 and r = ?r and cid = "rc_command_id c"] by (simp add: closed_row_def)
    show "ledger_timeline c ?r = Inr ()"
      using row(4) a(9) times by (auto simp: ledger_timeline_def closed_row_def opt_all_def outcome_ledger_status_def split: if_splits)
    show "ledger_outcome_check c ?r = Inr ()"
      using u fenced by (simp add: ledger_outcome_check_def closed_row_def)
  qed
  have mk: "mk_event ?e = Inr ?e" using mk_finished wf_command_ids [OF wf(2)] u(3) by (simp add: finished_event_id_def)
  have "record_outcome v db permit u now = Inr (db4, from_domain final)"
    unfolding record_outcome_def Let_def h_def [symmetric]
    using u cid a(2) times(7) live mk t1 fin m ins swap out load
    by (simp add: up del: mk_event.simps) (simp add: closed_row_def lease_empty_def h_def)
  then show ?thesis by blast
qed

end
