(* ===== verification/Exec_Service.thy ===== *)
theory Exec_Service
  imports Exec_Facts Event_Sourcing
begin

text \<open>
  The execution store as a service: its calls, each one transaction that either commits or leaves
  the store as it was, and histories of calls in any order, by any number of workers. The store is
  an interpretation of the event-sourcing interface, from which the properties of whole histories
  are lifted.
\<close>

section \<open>Calls\<close>

datatype store_call =
    CreateWorkflow state
  | ApplyEvent string int event "outbox_message list"
  | ClaimCommand string timestamp timedelta
  | RenewLease command_claim timestamp timedelta
  | FenceDispatch command_claim dispatch_request timestamp
  | ReleaseFailure command_claim preparation_failure timestamp
  | RecordOutcome dispatch_permit execution_outcome timestamp
  | ReleaseExpired timestamp
  | MarkUnknown timestamp
  | ClaimOutbox string timestamp timedelta
  | CompleteOutbox outbox_claim delivery_receipt timestamp
  | ReleaseOutbox outbox_claim timestamp

datatype store_reply =
    Raised py_error
  | WorkflowCreated
  | EventApplied persisted_transition
  | CommandClaimed "command_claim option"
  | LeaseRenewed command_claim
  | DispatchPermitted dispatch_permit
  | FailureReleased preparation_disposition
  | OutcomeRecorded persisted_transition
  | Recovered int
  | OutboxLeased "outbox_claim option"
  | OutboxStored outbox_snapshot

text \<open>\<open>BEGIN IMMEDIATE ... COMMIT\<close>, with the rollback of a call that raises.\<close>

definition transaction :: "store \<Rightarrow> ('a \<Rightarrow> store_reply) \<Rightarrow> (store \<times> 'a) res \<Rightarrow> store \<times> store_reply" where
  "transaction db reply result =
     (case result of Inl err \<Rightarrow> (db, Raised err) | Inr (db', x) \<Rightarrow> (db', reply x))"

fun serve :: "summary_validator \<Rightarrow> store \<Rightarrow> store_call \<Rightarrow> store \<times> store_reply" where
  "serve v db (CreateWorkflow s) = transaction db (\<lambda>_. WorkflowCreated) (create_workflow db s)"
| "serve v db (ApplyEvent wid n e ms) = transaction db EventApplied (apply_event v db wid n e ms)"
| "serve v db (ClaimCommand w now ttl) = transaction db CommandClaimed (claim_command db w now ttl)"
| "serve v db (RenewLease claim now ttl) = transaction db LeaseRenewed (renew_command_lease db claim now ttl)"
| "serve v db (FenceDispatch claim q now) = transaction db DispatchPermitted (fence_dispatch db claim q now)"
| "serve v db (ReleaseFailure claim failure now) =
     transaction db FailureReleased (release_preparation_failure db claim failure now)"
| "serve v db (RecordOutcome permit u now) = transaction db OutcomeRecorded (record_outcome v db permit u now)"
| "serve v db (ReleaseExpired now) = transaction db Recovered (release_expired_pre_dispatch db now)"
| "serve v db (MarkUnknown now) = transaction db Recovered (mark_expired_fenced_unknown db now)"
| "serve v db (ClaimOutbox w now ttl) = transaction db OutboxLeased (claim_outbox v db w now ttl)"
| "serve v db (CompleteOutbox claim receipt now) =
     transaction db OutboxStored (complete_outbox v db claim receipt now)"
| "serve v db (ReleaseOutbox claim now) = transaction db OutboxStored (release_outbox v db claim now)"

text \<open>Arguments that the constructors of the source can build.\<close>

fun wf_call :: "store_call \<Rightarrow> bool" where
  "wf_call (CreateWorkflow s) = wf_state s"
| "wf_call (ApplyEvent _ _ e _) = wf_event e"
| "wf_call (RecordOutcome _ u _) = wf_outcome u"
| "wf_call _ = True"

lemma transaction_commits:
  "store_ok db \<Longrightarrow> committing db r \<Longrightarrow> commits db (fst (transaction db f r))"
  by (cases r) (auto simp: transaction_def commits_refl split: prod.splits)

lemmas operation_commits =
  claim_command_commits renew_command_lease_commits fence_dispatch_commits
  release_preparation_failure_commits record_outcome_commits reconciliation_commits
  claim_outbox_commits complete_outbox_commits release_outbox_commits

lemma serve_commits:
  assumes "store_ok db" "wf_call c"
  shows "commits db (fst (serve v db c))"
proof (cases c)
  case (CreateWorkflow s)
  have "committing db (create_workflow db s)"
    using assms create_workflow_commits [of db s] CreateWorkflow by (cases "create_workflow db s") auto
  then show ?thesis using CreateWorkflow assms by (simp add: transaction_commits)
next
  case (ApplyEvent wid n e ms)
  have "committing db (apply_event v db wid n e ms)"
    using assms apply_event_commits [of db e v wid n ms] ApplyEvent by (cases "apply_event v db wid n e ms") auto
  then show ?thesis using ApplyEvent assms by (simp add: transaction_commits)
qed (use assms in \<open>simp_all add: transaction_commits operation_commits\<close>)

lemma serve_evolves: "store_ok db \<Longrightarrow> wf_call c \<Longrightarrow> serve v db c = t \<Longrightarrow> store_evolves db (fst t)"
  using serve_commits by (auto simp: commits_def)

section \<open>Histories\<close>

fun history :: "summary_validator \<Rightarrow> store \<Rightarrow> store_call list \<Rightarrow> (store \<times> store_reply) list" where
  "history v db [] = []"
| "history v db (c # cs) = (let t = serve v db c in t # history v (fst t) cs)"

definition store_after :: "summary_validator \<Rightarrow> store \<Rightarrow> store_call list \<Rightarrow> store" where
  "store_after v db calls = final_state fst db (history v db calls)"

interpretation service: total_event_sourced "\<lambda>db c. Inr (serve v db c)" fst store_ok wf_call for v
proof unfold_locales
  fix db c t
  assume "store_ok db" "wf_call c" "(Inr (serve v db c) :: (store \<times> store_reply) res) = Inr t"
  then show "store_ok (fst t)" using serve_commits commits_ok by fastforce
qed simp

lemma history_run: "run (\<lambda>db c. Inr (serve v db c)) fst db calls = Inr (history v db calls)"
  by (induction calls arbitrary: db) (simp_all add: Let_def)

lemma store_after_simps [simp]:
  "store_after v db [] = db"
  "store_after v db (c # cs) = store_after v (fst (serve v db c)) cs"
  by (simp_all add: store_after_def Let_def)

lemma store_after_commits:
  assumes "store_ok db" "list_all wf_call calls"
  shows "commits db (store_after v db calls)"
proof -
  have "store_evolves db (store_after v db calls)"
    unfolding store_after_def
    by (rule service.run_relates [OF _ store_evolves_refl store_evolves_trans assms history_run])
       (auto intro: serve_evolves)
  moreover have "store_ok (store_after v db calls)"
    unfolding store_after_def using service.run_keeps [OF assms history_run] by blast
  ultimately show ?thesis by (simp add: commits_def)
qed

lemma commits_row:
  assumes "commits db db'" "row_of db cid = Some l"
  shows "\<exists>l'. row_of db' cid = Some l' \<and> ledger_evolves l l'"
  using assms by (simp add: commits_def store_evolves_def table_evolves_def)

end
