(* ===== verification/Exec_Example.thy ===== *)
theory Exec_Example
  imports Exec_Progress Exec_Service Domain_Example
begin

text \<open>
  A concrete store: the sample booking after the lead accepted it, with its command queued, then
  prepared and then dispatched. The properties of the execution store are applied to these values.
\<close>

section \<open>The accepted booking\<close>

definition sample_queued :: state where
  "sample_queued = tr_state (projr (reduce sample_awaiting sample_accept))"

definition sample_command :: reservation_command where
  "sample_command = hd (tr_commands (projr (reduce sample_awaiting sample_accept)))"

lemma sample_queued_facts:
  "wf_state sample_queued" "phase sample_queued = EXECUTION_QUEUED"
  "state_command sample_queued = Some sample_command" "wf_command sample_command"
  "sm_workflow_id (st_meta sample_queued) = ''wf:1''" "sm_last_event_at (st_meta sample_queued) = 3000"
  "sm_revision (st_meta sample_queued) = 1" "sm_seen_event_ids (st_meta sample_queued) = [''event:9'']"
proof -
  obtain t c where t: "reduce sample_awaiting sample_accept = Inr t" "tr_commands t = [c]"
      "phase (tr_state t) = EXECUTION_QUEUED" "state_command (tr_state t) = Some c"
    using sample_accept_emits by blast
  have q: "sample_queued = tr_state t" "sample_command = c" by (simp_all add: sample_queued_def sample_command_def t)
  have new: "\<not> seen sample_awaiting sample_accept" by (simp add: seen_def sample_awaiting_def sample_meta_def)
  note f = reduce_result_facts [OF sample_awaiting_wf sample_accept_wf t(1)]
    and a = reduce_advances [OF sample_awaiting_wf sample_accept_wf new t(1)]
  show "wf_state sample_queued" "phase sample_queued = EXECUTION_QUEUED"
    "state_command sample_queued = Some sample_command" "wf_command sample_command"
    "sm_workflow_id (st_meta sample_queued) = ''wf:1''" "sm_last_event_at (st_meta sample_queued) = 3000"
    "sm_revision (st_meta sample_queued) = 1" "sm_seen_event_ids (st_meta sample_queued) = [''event:9'']"
    using t f a by (auto simp: q sample_awaiting_def sample_meta_def sample_accept_def)
qed

lemma queued_created:
  "wf_state s \<Longrightarrow> phase s = EXECUTION_QUEUED \<Longrightarrow> state_command s = Some c \<Longrightarrow>
     rc_created_at c \<le> sm_last_event_at (st_meta s)"
  using wf_state_times_le [of s "sm_last_event_at (st_meta s)"] by (cases s) auto

lemma queued_state:
  "phase s = EXECUTION_QUEUED \<Longrightarrow> state_command s = Some c \<Longrightarrow> \<exists>m d p r. s = ExecutionQueuedState m d p r c"
  by (cases s) auto

lemma sample_command_facts:
  "rc_workflow_id sample_command = ''wf:1''" "rc_created_at sample_command \<le> 3000"
  "id_re (rc_command_id sample_command)"
proof -
  note q = sample_queued_facts
  show "rc_workflow_id sample_command = ''wf:1''"
    using q(1,3,5) by (auto simp: wf_state_def validate_state_consistency_def bind_res_Inr_iff split: if_splits)
  show "id_re (rc_command_id sample_command)" using wf_command_ids [OF q(4)] by simp
  show "rc_created_at sample_command \<le> 3000"
    using queued_created [OF q(1-3)] q(6) by simp
qed

section \<open>The store\<close>

definition sample_store :: store where
  "sample_store = \<lparr>
     db_workflows = [\<lparr>wr_state = sample_queued, wr_created_at = 2000, wr_updated_at = 3000\<rparr>],
     db_events = [\<lparr>ev_event = sample_accept, ev_workflow_id = ''wf:1'', ev_revision = 1\<rparr>],
     db_commands = [sample_command], db_ledger = [initial_ledger sample_command], db_outbox = []\<rparr>"

lemma sample_store_ok: "store_ok sample_store"
  using sample_queued_facts sample_command_facts initial_ledger_ok [of sample_command]
  by (simp add: store_ok_def sample_store_def exclusive_def initial_ledger_def del: id_re.simps)

lemma sample_ids_worker: "id_re ''worker:1''" "id_re ''event:10''" "id_re ''booked''" "id_re ''timeout''" "id_re ''booking:77''"
  by (simp_all add: evaluate_text)

lemma sample_load:
  "load_command sample_store (rc_command_id sample_command) = Inr sample_command"
  "load_ledger sample_store (rc_command_id sample_command) = Inr (initial_ledger sample_command)"
  "load_workflow sample_store ''wf:1'' = Inr sample_queued"
proof -
  note q = sample_queued_facts and c = sample_command_facts
  show cmd: "load_command sample_store (rc_command_id sample_command) = Inr sample_command"
    using c by (simp add: load_command_def exact_id_def sample_store_def del: id_re.simps)
  show "load_ledger sample_store (rc_command_id sample_command) = Inr (initial_ledger sample_command)"
    using initial_ledger_ok [OF c(3)]
    by (intro load_ledger_row [OF cmd])
       (simp_all add: sample_store_def initial_ledger_def ledger_timeline_def ledger_outcome_check_def opt_all_def)
  show "load_workflow sample_store ''wf:1'' = Inr sample_queued"
    using q sample_ids(1) by (simp add: load_workflow_iff sample_store_def workflow_key_def state_from_row_iff del: id_re.simps)
qed

lemma derived_id_length: "length (derived_id ''event'' ps) = 70"
  using sha256_hex_hash_re [of "join ''|'' ps"] by (simp add: derived_id_def hash_re_def)

lemma derived_id_long: "length i \<noteq> 70 \<Longrightarrow> derived_id ''event'' ps \<noteq> i" "length i \<noteq> 70 \<Longrightarrow> i \<noteq> derived_id ''event'' ps"
  using derived_id_length [of ps] by auto

lemma sample_claim_conditions:
  "lease_deadline 4000 1000 = Inr 5000"
  "first_by (claim_order sample_store) (claimable sample_store 4000) (db_ledger sample_store)
      = Some (initial_ledger sample_command)"
  "claim_starts sample_store sample_command sample_queued 4000"
  "lg_updated_at (initial_ledger sample_command) \<le> 4000"
proof -
  note q = sample_queued_facts
  obtain m d p r where st: "sample_queued = ExecutionQueuedState m d p r sample_command"
    using queued_state [OF q(2,3)] by blast
  show "lease_deadline 4000 1000 = Inr 5000"
    by (simp add: lease_deadline_def require_lease_ttl_def add_timedelta_def max_timestamp_def us_per_day_def)
  show "first_by (claim_order sample_store) (claimable sample_store 4000) (db_ledger sample_store)
      = Some (initial_ledger sample_command)"
    by (simp add: sample_store_def first_by_def claimable_def initial_ledger_def sibling_busy_def)
  show "claim_starts sample_store sample_command sample_queued 4000"
    using st q derived_id_long [of "''event:9''"]
    by (auto simp: claim_starts_def fresh_event_def event_exists_def started_event_id_def sample_store_def
        event_key_def sample_accept_def)
  show "lg_updated_at (initial_ledger sample_command) \<le> 4000"
    using sample_command_facts by (simp add: initial_ledger_def)
qed

section \<open>The booking in execution\<close>

definition sample_started :: event where
  "sample_started = ExecutionStarted ''event:10'' 3500 (rc_command_id sample_command)"

definition sample_executing :: state where
  "sample_executing = tr_state (projr (reduce sample_queued sample_started))"

lemma sample_executing_facts:
  "reduce sample_queued sample_started = Inr (projr (reduce sample_queued sample_started))"
  "wf_state sample_executing" "executing_command sample_executing sample_command"
  "sm_workflow_id (st_meta sample_executing) = ''wf:1''" "sm_last_event_at (st_meta sample_executing) = 3500"
  "sm_revision (st_meta sample_executing) = 2"
  "sm_seen_event_ids (st_meta sample_executing) = [''event:9'', ''event:10'']"
proof -
  note q = sample_queued_facts and c = sample_command_facts
  obtain m d p r where st: "sample_queued = ExecutionQueuedState m d p r sample_command"
    using queued_state [OF q(2,3)] by blast
  have e: "wf_event sample_started"
    using sample_ids_worker(2) c(3) by (simp add: sample_started_def wf_event_def del: id_re.simps)
  have new: "\<not> seen sample_queued sample_started" by (simp add: seen_def q sample_started_def)
  obtain t where t: "reduce sample_queued sample_started = Inr t" "phase (tr_state t) = EXECUTING"
      "state_command (tr_state t) = Some sample_command"
    using start_applies [OF q(1) e new _ st sample_started_def] q(6) by (auto simp: sample_started_def)
  have x: "sample_executing = tr_state t" by (simp add: sample_executing_def t)
  note f = reduce_result_facts [OF q(1) e t(1)] and a = reduce_advances [OF q(1) e new t(1)]
  have "sm_command_ids (st_meta (tr_state t)) = [rc_command_id sample_command]"
    using f(1) t(3) by (auto simp: wf_state_def validate_state_consistency_def bind_res_Inr_iff split: if_splits)
  then show "reduce sample_queued sample_started = Inr (projr (reduce sample_queued sample_started))"
    "wf_state sample_executing" "executing_command sample_executing sample_command"
    "sm_workflow_id (st_meta sample_executing) = ''wf:1''" "sm_last_event_at (st_meta sample_executing) = 3500"
    "sm_revision (st_meta sample_executing) = 2"
    "sm_seen_event_ids (st_meta sample_executing) = [''event:9'', ''event:10'']"
    using t f a q by (auto simp: x executing_command_def sample_started_def)
qed

definition sample_row :: ledger_snapshot where
  "sample_row = claimed_row ''worker:1'' 4000 5000 (initial_ledger sample_command)"

definition sample_preparing :: store where
  "sample_preparing = \<lparr>
     db_workflows = [\<lparr>wr_state = sample_executing, wr_created_at = 2000, wr_updated_at = 3500\<rparr>],
     db_events = [\<lparr>ev_event = sample_accept, ev_workflow_id = ''wf:1'', ev_revision = 1\<rparr>,
                  \<lparr>ev_event = sample_started, ev_workflow_id = ''wf:1'', ev_revision = 2\<rparr>],
     db_commands = [sample_command], db_ledger = [sample_row], db_outbox = []\<rparr>"

definition sample_claim :: command_claim where
  "sample_claim = \<lparr>cl_command = sample_command, cl_workflow_revision = 2,
     cl_lease = \<lparr>lease_owner = ''worker:1'', lease_token = 1, lease_acquired = 4000, lease_expires = 5000\<rparr>,
     cl_claim_count = 1, cl_preparation_failures = 0\<rparr>"

lemma sample_row_ok: "ledger_ok sample_row"
  using claim_row_good [of "initial_ledger sample_command" "''worker:1''" 4000 5000]
    initial_ledger_ok [OF sample_command_facts(3)] sample_ids_worker(1)
  by (simp add: sample_row_def claimed_row_def row_step_def initial_ledger_def del: id_re.simps)

lemma sample_row_fields:
  "lg_command_id sample_row = rc_command_id sample_command" "lg_status sample_row = PREPARING"
  "lg_fencing_token sample_row = 1" "lg_claim_count sample_row = 1" "lg_claim_owner sample_row = Some ''worker:1''"
  "lg_lease_acquired_at sample_row = Some 4000" "lg_lease_expires_at sample_row = Some 5000"
  "lg_dispatch_slots sample_row = 0" "lg_outcome sample_row = None" "lg_updated_at sample_row = 4000"
  "lg_preparation_failures sample_row = 0" "lg_fenced_at sample_row = None"
  "lg_outcome_hash sample_row = None"
  by (simp_all add: sample_row_def claimed_row_def initial_ledger_def)

lemma sample_preparing_ok: "store_ok sample_preparing"
  using sample_executing_facts sample_queued_facts(4) sample_row_ok
  by (simp add: store_ok_def sample_preparing_def exclusive_def sample_row_fields event_key_def
      sample_accept_def sample_started_def)

lemma sample_live:
  assumes "4000 \<le> now" "now < 5000"
  shows "assert_live_preparation_claim sample_preparing sample_claim now
    = Inr (sample_command, sample_row, sample_executing)"
proof -
  note e = sample_executing_facts and c = sample_command_facts
  have cmd: "load_command sample_preparing (rc_command_id sample_command) = Inr sample_command"
    using c by (simp add: load_command_def exact_id_def sample_preparing_def del: id_re.simps)
  have "load_ledger sample_preparing (rc_command_id sample_command) = Inr sample_row"
    using c(2) sample_row_ok
    by (intro load_ledger_row [OF cmd])
       (simp_all add: sample_preparing_def ledger_timeline_def ledger_outcome_check_def opt_all_def sample_row_fields)
  moreover have "load_workflow sample_preparing ''wf:1'' = Inr sample_executing"
    using e sample_ids(1)
    by (simp add: load_workflow_iff sample_preparing_def workflow_key_def state_from_row_iff del: id_re.simps)
  ultimately show ?thesis
    using cmd c(1) e assms
    by (simp add: assert_live_preparation_claim_def sample_claim_def sample_row_fields)
qed

definition sample_request :: dispatch_request where
  "sample_request = projr (dispatch_request_from_command sample_command (command_envelope sample_command))"

lemma sample_request_built:
  "dispatch_request_from_command sample_command (command_envelope sample_command) = Inr sample_request"
  using dispatch_request_enabled [OF sample_queued_facts(4)] by (auto simp: sample_request_def)

lemma fence_post_permit: "fence_post db claim q now db' permit \<Longrightarrow>
    pm_command_id permit = rc_command_id (cl_command claim) \<and> pm_lease permit = cl_lease claim"
  by (auto simp: fence_post_def)

definition sample_dispatched :: store where
  "sample_dispatched = fst (projr (fence_dispatch sample_preparing sample_claim sample_request 4500))"

definition sample_permit :: dispatch_permit where
  "sample_permit = snd (projr (fence_dispatch sample_preparing sample_claim sample_request 4500))"

lemma sample_fence:
  "fence_dispatch sample_preparing sample_claim sample_request 4500 = Inr (sample_dispatched, sample_permit)"
  "assert_live_dispatch_permit sample_dispatched sample_permit 4500 = Inr (sample_command,
     fenced_row (dq_payload_hash sample_request) 4500 sample_row, sample_executing)"
  "sample_dispatched = set_row sample_preparing (fenced_row (dq_payload_hash sample_request) 4500 sample_row)"
  "store_ok sample_dispatched" "pm_command_id sample_permit = rc_command_id sample_command"
proof -
  obtain permit where f: "fence_dispatch sample_preparing sample_claim sample_request 4500
      = Inr (set_row sample_preparing (fenced_row (dq_payload_hash sample_request) 4500 sample_row), permit)"
    and live: "assert_live_dispatch_permit (set_row sample_preparing
        (fenced_row (dq_payload_hash sample_request) 4500 sample_row)) permit 4500
      = Inr (sample_command, fenced_row (dq_payload_hash sample_request) 4500 sample_row, sample_executing)"
    using fence_dispatch_enabled [OF sample_preparing_ok sample_live sample_request_built, of 4500] by auto
  then show *: "fence_dispatch sample_preparing sample_claim sample_request 4500 = Inr (sample_dispatched, sample_permit)"
    and "sample_dispatched = set_row sample_preparing (fenced_row (dq_payload_hash sample_request) 4500 sample_row)"
    and "assert_live_dispatch_permit sample_dispatched sample_permit 4500 = Inr (sample_command,
     fenced_row (dq_payload_hash sample_request) 4500 sample_row, sample_executing)"
    by (simp_all add: sample_dispatched_def sample_permit_def)
  show "store_ok sample_dispatched"
    using ensuresD [OF fence_dispatch_commits [OF sample_preparing_ok] *] commits_ok by auto
  show "pm_command_id sample_permit = rc_command_id sample_command"
    using ensuresD [OF fence_dispatch_facts [OF sample_preparing_ok] *]
    by (auto dest!: fence_post_permit simp: sample_claim_def)
qed

section \<open>Outcomes of the booking\<close>

definition sample_outcome :: execution_outcome where
  "sample_outcome = \<lparr>eo_command_id = rc_command_id sample_command, eo_certainty = EFFECT_CONFIRMED,
     eo_normalized_status = ''booked'', eo_provider_reference = Some ''booking:77'',
     eo_evidence = [sha256_hex ''receipt'']\<rparr>"

lemma sample_outcome_wf: "wf_outcome sample_outcome"
  using sample_command_facts(3) sample_ids_worker sha256_hex_hash_re [of "''receipt''"]
  by (simp add: wf_outcome_def sample_outcome_def del: id_re.simps) (simp add: lower_def lower_char_def evaluate_text)

lemma sample_fresh_event:
  assumes "db_events db = db_events sample_preparing"
  shows "fresh_event db sample_executing (derived_id ''event'' ps)"
  using sample_executing_facts(4,6,7) derived_id_long [of "''event:9''"] derived_id_long [of "''event:10''"]
  by (simp add: fresh_event_def assms event_exists_def sample_preparing_def event_key_def
      sample_accept_def sample_started_def)

lemma sample_outcome_fresh:
  assumes "db_events db = db_events sample_preparing" "db_outbox db = []" "3500 \<le> now"
  shows "outcome_fresh db sample_command sample_executing sample_outcome now"
  using sample_executing_facts(5) sample_fresh_event [OF assms(1)] assms(3)
  by (simp add: outcome_fresh_def Let_def finished_event_id_def sample_outcome_def outbox_fresh_def assms(2)
      split: sum.split)

lemma sample_recorded:
  "\<exists>db p. record_outcome v sample_dispatched sample_permit sample_outcome 4500 = Inr (db, p)"
  by (rule record_outcome_enabled [OF sample_fence(4,2) sample_outcome_wf _ _ sample_outcome_fresh])
     (simp_all add: sample_outcome_def sample_fence(3) sample_preparing_def)

text \<open>A renderer that accepts the message it is given, for the examples.\<close>

definition sample_validator :: summary_validator where
  "sample_validator s e m = Inr m"

end
