(* ===== verification/Domain_Honest.thy ===== *)
theory Domain_Honest
  imports Domain_Workflow Exec_Example
begin

text \<open>
  What the outcome phases of the reservation workflow prove about the provider: the phase, the
  outcome a state reports, the event that brought it and the constructor that built it.
\<close>

section \<open>The outcome of a state\<close>

text \<open>The certainty that each phase after execution stands for.\<close>

fun phase_certainty :: "workflow_phase \<Rightarrow> execution_certainty option" where
  "phase_certainty SUCCEEDED = Some EFFECT_CONFIRMED"
| "phase_certainty FAILED_BEFORE_PROVIDER = Some NOT_CALLED"
| "phase_certainty FAILED_NO_EFFECT = Some CALLED_NO_EFFECT"
| "phase_certainty PHASE_UNCERTAIN = Some CALLED_UNKNOWN"
| "phase_certainty MANUAL_REVIEW = Some CALLED_UNKNOWN"
| "phase_certainty _ = None"

fun state_outcome :: "state \<Rightarrow> execution_outcome option" where
  "state_outcome (SucceededState _ _ u) = Some u"
| "state_outcome (FailedBeforeProviderState _ _ u) = Some u"
| "state_outcome (FailedNoEffectState _ _ u) = Some u"
| "state_outcome (UncertainState _ _ u) = Some u"
| "state_outcome (ManualReviewState _ _ u _) = Some u"
| "state_outcome _ = None"

lemma outcome_binding_Inr:
  "validate_outcome_binding k u x = Inr () \<longleftrightarrow> eo_command_id u = rc_command_id k \<and> eo_certainty u = x"
  by (simp add: validate_outcome_binding_def)

lemma wf_state_outcome:
  "wf_state s \<Longrightarrow> (case state_outcome s of
     None \<Rightarrow> phase_certainty (phase s) = None
   | Some u \<Rightarrow> wf_outcome u \<and> phase_certainty (phase s) = Some (eo_certainty u)
       \<and> (\<exists>c. state_command s = Some c \<and> eo_command_id u = rc_command_id c))"
  by (cases s; simp)
     (auto simp: wf_state_def mk_succeeded_state_def mk_uncertain_state_def
        mk_failed_before_provider_state_def mk_failed_no_effect_state_def mk_manual_review_state_def
        bind_res_Inr_iff outcome_binding_Inr)

lemma set_meta_outcome [simp]: "state_outcome (set_meta m s) = state_outcome s"
  by (cases s) simp_all

lemma pre_command_outcome: "is_pre_command s \<Longrightarrow> state_outcome s = None"
  by (cases s) simp_all

lemma adjustable_outcome: "adjustable_draft s = Some d \<Longrightarrow> state_outcome s = None"
  by (cases s) simp_all

section \<open>Where an outcome comes from\<close>

text \<open>The report an event of the executor carries.\<close>

fun reported :: "event \<Rightarrow> execution_outcome option" where
  "reported (ExecutionFinished _ _ _ u) = Some u"
| "reported _ = None"

text \<open>
  An event as the program builds it: the report of an execution is a value of the constructor
  \<open>ExecutionOutcome\<close> under valid identifiers, any other event is well formed.
\<close>

definition constructed :: "event \<Rightarrow> bool" where
  "constructed e \<longleftrightarrow> (case e of
     ExecutionFinished i at cid u \<Rightarrow> id_re i \<and> id_re cid
       \<and> (\<exists>c k st ref ev. mk_execution_outcome c k st ref ev = Inr u)
   | _ \<Rightarrow> wf_event e)"

lemma constructed_wf: "constructed e \<Longrightarrow> wf_event e"
  by (auto simp: constructed_def wf_event_def dest: mk_outcome_wf split: event.splits)

lemmas handler_defs = start_search_def record_lookup_def choose_offer_def request_draft_def
  adjust_draft_def record_summary_def receive_confirmation_def start_execution_def
  finish_execution_def request_manual_review_def cancel_workflow_def expire_workflow_def

lemma confirmation_outcome:
  "receive_confirmation s d p t cid k v sig = Inr x \<Longrightarrow> state_outcome (de_state x) \<in> {state_outcome s, None}"
  by (cases k) (auto simp: receive_confirmation_def applied_def decide_def mk_state_defs bind_res_Inr_iff
      split: if_splits)

lemma finish_outcome:
  "finish_execution s k cid u = Inr d \<Longrightarrow> state_outcome (de_state d) \<in> {state_outcome s, Some u}"
  by (auto simp: finish_execution_def applied_def decide_def mk_state_defs bind_res_Inr_iff
      split: if_splits execution_certainty.splits)

lemma handle_outcome:
  assumes "handle s e = Some (Inr d)"
  shows "state_outcome (de_state d) = state_outcome s
    \<or> reported e \<noteq> None \<and> state_outcome (de_state d) = reported e"
proof (cases e)
  case (ExecutionFinished i t cid u)
  with assms show ?thesis
    by (auto simp: handle_def dest!: finish_outcome split: state.splits)
next
  case (ConfirmationReceived i t cid k v sig)
  with assms show ?thesis
    by (auto simp: handle_def dest!: confirmation_outcome split: state.splits)
qed (use assms in \<open>auto simp: handle_def handler_defs applied_def decide_def mk_state_defs Let_def
    bind_res_Inr_iff pre_command_outcome adjustable_outcome
    split: if_splits state.splits list.splits option.splits\<close>)

lemma reduce_outcome:
  assumes "wf_state s" "wf_event e" "reduce s e = Inr t"
  shows "state_outcome (tr_state t) = state_outcome s
    \<or> reported e \<noteq> None \<and> state_outcome (tr_state t) = reported e"
  using assms(1,2)
proof (cases rule: reduce_cases)
  case (seen st r)
  with assms(3) show ?thesis by auto
next
  case (new d)
  then have "d = \<lparr>de_state = s, de_status = de_status d, de_reason = de_reason d, de_commands = de_commands d\<rparr>
      \<or> handle s e = Some (Inr d)"
    by (auto simp: chosen_def decide_def split: if_splits option.splits)
  then have "state_outcome (de_state d) = state_outcome s
      \<or> reported e \<noteq> None \<and> state_outcome (de_state d) = reported e"
    using handle_outcome by (metis decision.select_convs(1))
  with new(4) assms(3) show ?thesis by auto
qed

lemma run_outcome:
  "wf_state s \<Longrightarrow> list_all wf_event es \<Longrightarrow> run reduce tr_state s es = Inr ts \<Longrightarrow>
     state_outcome (final_state tr_state s ts) = state_outcome s
     \<or> (\<exists>e \<in> set es. reported e \<noteq> None \<and> state_outcome (final_state tr_state s ts) = reported e)"
proof (induction es arbitrary: s ts)
  case Nil
  then show ?case by simp
next
  case (Cons e es)
  then obtain t ts' where t: "reduce s e = Inr t" "run reduce tr_state (tr_state t) es = Inr ts'" "ts = t # ts'"
    by (auto simp: bind_res_Inr_iff)
  have "wf_state (tr_state t)" using reduce_keeps Cons.prems t(1) by auto
  from Cons.IH [OF this _ t(2)] Cons.prems reduce_outcome [OF _ _ t(1)] show ?case by (auto simp: t(3))
qed

text \<open>What the constructor of an outcome guarantees about a reported provider.\<close>

lemma constructed_outcome:
  "mk_execution_outcome c k st ref ev = Inr u \<Longrightarrow>
     (eo_certainty u = EFFECT_CONFIRMED \<longrightarrow> eo_provider_reference u \<noteq> None \<and> eo_evidence u \<noteq> [])
     \<and> (eo_certainty u = NOT_CALLED \<longrightarrow> eo_provider_reference u = None) \<and> list_all hash_re (eo_evidence u)"
  by (drule mk_outcome_wf) (simp add: wf_outcome_def)

lemma constructed_report:
  "constructed e \<Longrightarrow> reported e = Some u \<Longrightarrow> \<exists>c k st ref ev. mk_execution_outcome c k st ref ev = Inr u"
  by (cases e) (auto simp: constructed_def)

section \<open>The property\<close>

lemma executing_state:
  "phase s = EXECUTING \<Longrightarrow> state_command s = Some c \<Longrightarrow> \<exists>m d p r n. s = ExecutingState m d p r c n"
  by (cases s) auto

text \<open>
  C35: start from a workflow whose command has not been executed yet, for instance a new one, and
  feed it any events the program can build, each execution report built by the outcome's
  constructor from raw values. The state at the end has an outcome only if one of these reports
  brought it, for the command the workflow holds, and its phase is the one of the certainty that
  report states: succeeded comes with a provider reference and at least one evidence hash, failed
  before the provider with no reference, uncertain and manual review only with an unknown effect.
  Without such a report the phase is none of these.
\<close>
theorem outcome_phase_is_honest:
  assumes "wf_state s" and "state_outcome s = None" and "list_all constructed es"
    and "run reduce tr_state s es = Inr ts"
  shows "case state_outcome (final_state tr_state s ts) of
      None \<Rightarrow> phase_certainty (phase (final_state tr_state s ts)) = None
    | Some u \<Rightarrow> (\<exists>i at cid. ExecutionFinished i at cid u \<in> set es)
        \<and> (\<exists>c. state_command (final_state tr_state s ts) = Some c \<and> eo_command_id u = rc_command_id c)
        \<and> (case phase (final_state tr_state s ts) of
             SUCCEEDED \<Rightarrow> eo_certainty u = EFFECT_CONFIRMED
               \<and> (\<exists>ref. eo_provider_reference u = Some ref) \<and> eo_evidence u \<noteq> []
           | FAILED_BEFORE_PROVIDER \<Rightarrow> eo_certainty u = NOT_CALLED \<and> eo_provider_reference u = None
           | FAILED_NO_EFFECT \<Rightarrow> eo_certainty u = CALLED_NO_EFFECT
           | PHASE_UNCERTAIN \<Rightarrow> eo_certainty u = CALLED_UNKNOWN
           | MANUAL_REVIEW \<Rightarrow> eo_certainty u = CALLED_UNKNOWN
           | _ \<Rightarrow> False)"
proof -
  have es: "list_all wf_event es" using assms(3) by (auto simp: list_all_iff intro: constructed_wf)
  note final = wf_state_outcome [OF conjunct2 [OF workflow.run_keeps [OF assms(1) es assms(4)]]]
  show ?thesis
  proof (cases "state_outcome (final_state tr_state s ts)")
    case None
    with final show ?thesis by simp
  next
    case (Some u)
    then obtain e where e: "e \<in> set es" "reported e = Some u"
      using run_outcome [OF assms(1) es assms(4)] assms(2) by auto
    moreover have "\<exists>i at cid. e = ExecutionFinished i at cid u" using e(2) by (cases e) auto
    moreover obtain c k st ref ev where "mk_execution_outcome c k st ref ev = Inr u"
      using e assms(3) constructed_report [of e u] by (auto simp: list_all_iff)
    note constructed_outcome [OF this]
    ultimately show ?thesis using e final Some
      by (auto split: workflow_phase.splits)
  qed
qed

lemma sample_report_built:
  "mk_execution_outcome (rc_command_id sample_command) EFFECT_CONFIRMED ''booked'' (Some ''booking:77'')
     [sha256_hex ''receipt''] = Inr sample_outcome"
  using sample_outcome_wf
  by (simp add: mk_execution_outcome_def sample_outcome_def wf_outcome_def optional_id_def Let_def del: id_re.simps)

theorem outcome_phase_is_honest_witness:
  "\<exists>ts. run reduce tr_state sample_executing
       [ExecutionFinished ''event:11'' 4600 (rc_command_id sample_command) sample_outcome] = Inr ts
     \<and> phase (final_state tr_state sample_executing ts) = SUCCEEDED
     \<and> state_outcome (final_state tr_state sample_executing ts) = Some sample_outcome
     \<and> eo_certainty sample_outcome = EFFECT_CONFIRMED \<and> eo_provider_reference sample_outcome \<noteq> None"
proof -
  let ?e = "ExecutionFinished ''event:11'' 4600 (rc_command_id sample_command) sample_outcome"
  note x = sample_executing_facts
  have i: "id_re ''event:11''" by (simp add: evaluate_text)
  have c: "constructed ?e"
    unfolding constructed_def using i sample_command_facts(3)
    by (simp del: id_re.simps) (use sample_report_built in blast)
  obtain m d p r n where st: "sample_executing = ExecutingState m d p r sample_command n"
    using executing_state [of sample_executing sample_command] x(3) unfolding executing_command_def by blast
  have none: "state_outcome sample_executing = None" by (simp add: st)
  obtain t where t: "reduce sample_executing ?e = Inr t" "phase (tr_state t) = SUCCEEDED"
    using finish_applies [OF x(2) constructed_wf [OF c] _ _ st refl] x
    by (auto simp: seen_def sample_outcome_def outcome_phase_def)
  then have r: "run reduce tr_state sample_executing [?e] = Inr [t]" by simp
  from outcome_phase_is_honest [OF x(2) none _ r] c t wf_state_outcome [of "tr_state t"]
    workflow.run_keeps [OF x(2) _ r] constructed_wf [OF c]
  show ?thesis by (auto simp: r split: option.splits)
qed

end
