(* ===== verification/Py_Json_Read.thy ===== *)
theory Py_Json_Read
  imports Py_Json
begin

text \<open>
  Python's \<open>json.loads\<close> on Latin-1 text: white space, literals, integers, strings with their escapes,
  arrays and objects. An object keeps its members in the order of the text, duplicates included, so
  that both an \<open>object_pairs_hook\<close> and the plain dictionary (\<open>dict_get\<close>: the last member of a key
  wins) can be stated over it. \<open>None\<close> is \<open>JSONDecodeError\<close>; it also stands for a float and for an
  escape beyond Latin-1, which no reader of the program accepts in a field.
\<close>

section \<open>Reading\<close>

type_synonym 'a reader = "string \<Rightarrow> ('a \<times> string) option"

definition json_ws :: "char \<Rightarrow> bool" where
  "json_ws c \<longleftrightarrow> ordc c \<in> {9, 10, 13, 32}"

definition skip_ws :: "string \<Rightarrow> string" where
  "skip_ws s = dropWhile json_ws s"

definition hex_value :: "char \<Rightarrow> nat option" where
  "hex_value c =
     (if is_digit c then Some (ordc c - 48)
      else if in_range 97 102 c then Some (ordc c - 87)
      else if in_range 65 70 c then Some (ordc c - 55) else None)"

definition code_point :: "char \<Rightarrow> char \<Rightarrow> char \<Rightarrow> char \<Rightarrow> nat option" where
  "code_point a b c d =
     (case (hex_value a, hex_value b, hex_value c, hex_value d) of
        (Some w, Some x, Some y, Some z) \<Rightarrow> Some (((w * 16 + x) * 16 + y) * 16 + z)
      | _ \<Rightarrow> None)"

definition simple_escape :: "char \<Rightarrow> char option" where
  "simple_escape e =
     (if ordc e \<in> {34, 92, 47} then Some e
      else if e = CHR ''b'' then Some (char_of (8::nat))
      else if e = CHR ''f'' then Some (char_of (12::nat))
      else if e = CHR ''n'' then Some (char_of (10::nat))
      else if e = CHR ''r'' then Some (char_of (13::nat))
      else if e = CHR ''t'' then Some (char_of (9::nat)) else None)"

definition prepend :: "'a \<Rightarrow> ('a list \<times> string) option \<Rightarrow> ('a list \<times> string) option" where
  "prepend x m = map_option (\<lambda>(xs, r). (x # xs, r)) m"

text \<open>The characters of a string, up to and past its closing quotation mark.\<close>

fun read_chars :: "string reader" where
  "read_chars [] = None"
| "read_chars (c # cs) =
     (if ordc c = 34 then Some ([], cs)
      else if ordc c = 92
      then (case cs of
              [] \<Rightarrow> None
            | e # r \<Rightarrow>
                if e = CHR ''u''
                then (case r of
                        h # i # j # k # r' \<Rightarrow>
                          (case code_point h i j k of
                             None \<Rightarrow> None
                           | Some n \<Rightarrow> if n < 256 then prepend (char_of n) (read_chars r') else None)
                      | _ \<Rightarrow> None)
                else (case simple_escape e of None \<Rightarrow> None | Some d \<Rightarrow> prepend d (read_chars r)))
      else if ordc c < 32 then None
      else prepend c (read_chars cs))"

definition digits_value :: "string \<Rightarrow> nat" where
  "digits_value ds = foldl (\<lambda>n d. n * 10 + (ordc d - 48)) 0 ds"

text \<open>A fraction or an exponent, which makes the number a float.\<close>

definition float_tail :: "string \<Rightarrow> bool" where
  "float_tail s \<longleftrightarrow>
     (case s of
        c # d # r \<Rightarrow>
          c = CHR ''.'' \<and> is_digit d
          \<or> c \<in> {CHR ''e'', CHR ''E''}
            \<and> (is_digit d \<or> d \<in> {CHR ''+'', CHR ''-''} \<and> (case r of [] \<Rightarrow> False | e # _ \<Rightarrow> is_digit e))
      | _ \<Rightarrow> False)"

definition read_natural :: "nat reader" where
  "read_natural s =
     (case s of
        [] \<Rightarrow> None
      | c # cs \<Rightarrow>
          if c = CHR ''0'' then (if float_tail cs then None else Some (0, cs))
          else if is_digit c
          then (if float_tail (dropWhile is_digit s) then None
                else Some (digits_value (takeWhile is_digit s), dropWhile is_digit s))
          else None)"

definition read_number :: "int reader" where
  "read_number s =
     (case s of
        [] \<Rightarrow> None
      | c # cs \<Rightarrow>
          if c = CHR ''-'' then map_option (\<lambda>(n, r). (- int n, r)) (read_natural cs)
          else map_option (\<lambda>(n, r). (int n, r)) (read_natural s))"

text \<open>
  A value spends a character for the item list it opens, and an item list none for its first value,
  so twice the length of the text is enough fuel.
\<close>

fun read_value :: "nat \<Rightarrow> json reader"
and read_items :: "nat \<Rightarrow> json list reader"
and read_members :: "nat \<Rightarrow> (string \<times> json) list reader" where
  "read_value 0 s = None"
| "read_value (Suc n) s =
     (case s of
        [] \<Rightarrow> None
      | c # cs \<Rightarrow>
          if ordc c = 34 then map_option (\<lambda>(t, r). (JStr t, r)) (read_chars cs)
          else if c = CHR ''{''
          then (case skip_ws cs of
                  [] \<Rightarrow> None
                | d # r \<Rightarrow> if d = CHR ''}'' then Some (JObj [], r)
                    else map_option (\<lambda>(m, r). (JObj m, r)) (read_members n (d # r)))
          else if c = CHR ''[''
          then (case skip_ws cs of
                  [] \<Rightarrow> None
                | d # r \<Rightarrow> if d = CHR '']'' then Some (JArr [], r)
                    else map_option (\<lambda>(vs, r). (JArr vs, r)) (read_items n (d # r)))
          else if take 4 s = ''null'' then Some (JNull, drop 4 s)
          else if take 4 s = ''true'' then Some (JBool True, drop 4 s)
          else if take 5 s = ''false'' then Some (JBool False, drop 5 s)
          else map_option (\<lambda>(i, r). (JInt i, r)) (read_number s))"
| "read_items 0 s = None"
| "read_items (Suc n) s =
     (case read_value n s of
        None \<Rightarrow> None
      | Some (v, r) \<Rightarrow>
          (case skip_ws r of
             [] \<Rightarrow> None
           | d # r' \<Rightarrow> if d = CHR '','' then prepend v (read_items n (skip_ws r'))
               else if d = CHR '']'' then Some ([v], r') else None))"
| "read_members 0 s = None"
| "read_members (Suc n) s =
     (case s of
        [] \<Rightarrow> None
      | q # cs \<Rightarrow>
          if ordc q \<noteq> 34 then None
          else (case read_chars cs of
                  None \<Rightarrow> None
                | Some (k, r) \<Rightarrow>
                    (case skip_ws r of
                       [] \<Rightarrow> None
                     | d # r' \<Rightarrow>
                         if d \<noteq> CHR '':'' then None
                         else (case read_value n (skip_ws r') of
                                 None \<Rightarrow> None
                               | Some (v, r) \<Rightarrow>
                                   (case skip_ws r of
                                      [] \<Rightarrow> None
                                    | d # r' \<Rightarrow> if d = CHR '','' then prepend (k, v) (read_members n (skip_ws r'))
                                        else if d = CHR ''}'' then Some ([(k, v)], r') else None)))))"

definition json_loads :: "string \<Rightarrow> json option" where
  "json_loads s =
     (case read_value (Suc (2 * length s)) (skip_ws s) of
        Some (v, r) \<Rightarrow> if skip_ws r = [] then Some v else None
      | None \<Rightarrow> None)"

text \<open>A dictionary keeps the last member of a key.\<close>

definition dict_get :: "(string \<times> json) list \<Rightarrow> string \<Rightarrow> json option" where
  "dict_get kvs k = map_of (rev kvs) k"

text \<open>What \<open>_unique_object\<close> accepts: no key twice, at any depth.\<close>

fun unique_members :: "json \<Rightarrow> bool" where
  "unique_members (JArr vs) \<longleftrightarrow> list_all unique_members vs"
| "unique_members (JObj kvs) \<longleftrightarrow> distinct (map fst kvs) \<and> list_all (\<lambda>kv. unique_members (snd kv)) kvs"
| "unique_members _ \<longleftrightarrow> True"

section \<open>The fuel is enough\<close>

text \<open>A reader leaves less than it was given, so that a text as long as the fuel is read to its end.\<close>

lemma dropWhile_length: "length (dropWhile p s) \<le> length s"
  by (induction s) auto

lemma skip_ws_length: "skip_ws s = c # r \<Longrightarrow> length r < length s"
  using dropWhile_length [of json_ws s] by (simp add: skip_ws_def)

lemma skip_ws_le: "length (skip_ws s) \<le> length s"
  by (simp add: skip_ws_def dropWhile_length)

lemma prepend_Some: "prepend x m = Some (ys, r) \<longleftrightarrow> (\<exists>xs. m = Some (xs, r) \<and> ys = x # xs)"
  by (cases m) (auto simp: prepend_def)

lemma read_chars_shorter: "read_chars s = Some (t, r) \<Longrightarrow> length r < length s"
proof (induction s arbitrary: t r rule: length_induct)
  case (1 s)
  show ?case
  proof (cases s)
    case (Cons c cs)
    have IH: "read_chars u = Some (t', r) \<Longrightarrow> length u \<le> length cs \<Longrightarrow> length r < length s" for u t'
      using 1(1) [rule_format, of u t' r] by (simp add: Cons)
    show ?thesis using 1(2) IH unfolding Cons
      by (auto simp: prepend_Some split: if_splits list.splits option.splits)
  qed (use 1 in simp)
qed

lemma read_number_shorter: "read_number s = Some (i, r) \<Longrightarrow> length r < length s"
proof -
  have nat: "read_natural s = Some (n, r) \<Longrightarrow> length r < length s" for s n
    using dropWhile_length [of is_digit "tl s"] by (cases s) (auto simp: read_natural_def split: if_splits)
  show "read_number s = Some (i, r) \<Longrightarrow> length r < length s"
    by (cases s) (auto simp: read_number_def split: if_splits dest: nat)
qed

lemma read_shorter:
  "read_value n s = Some (v, r) \<Longrightarrow> length r < length s"
  "read_items n s = Some (vs, r) \<Longrightarrow> length r < length s"
  "read_members n s = Some (kvs, r) \<Longrightarrow> length r < length s"
proof (induction n arbitrary: s v vs kvs r)
  case (Suc n)
  {
    case 1
    then obtain c cs where s: "s = c # cs" by (cases s) auto
    show ?case using 1 unfolding s
      by (auto split: if_splits list.splits dest!: Suc.IH(2,3) read_chars_shorter read_number_shorter skip_ws_length
          simp del: read_chars.simps)
  next
    case 2
    then obtain v r1 d r2 where v: "read_value n s = Some (v, r1)" "skip_ws r1 = d # r2" by (auto split: option.splits list.splits)
    have "length r2 < length s" using Suc.IH(1) [OF v(1)] skip_ws_length [OF v(2)] by simp
    then show ?case using 2 v Suc.IH(2) [of "skip_ws r2"] skip_ws_le [of r2]
      by (auto simp: prepend_Some split: if_splits)
  next
    case 3
    then obtain q cs k r1 d r2 where k: "s = q # cs" "read_chars cs = Some (k, r1)" "skip_ws r1 = d # r2"
      by (auto split: option.splits list.splits if_splits)
    with 3 obtain v r3 e r4 where v: "read_value n (skip_ws r2) = Some (v, r3)" "skip_ws r3 = e # r4"
      by (auto split: option.splits list.splits if_splits)
    have "length r4 < length s"
      using Suc.IH(1) [OF v(1)] skip_ws_length [OF v(2)] skip_ws_le [of r2] skip_ws_length [OF k(3)]
        read_chars_shorter [OF k(2)] k(1) by simp
    then show ?case using 3 k v Suc.IH(3) [of "skip_ws r4"] skip_ws_le [of r4]
      by (auto simp: prepend_Some split: if_splits)
  }
qed simp_all

theorem fuel_enough:
  "2 * length s < n \<Longrightarrow> 2 * length s < m \<Longrightarrow> read_value n s = read_value m s"
  "2 * length s + 1 < n \<Longrightarrow> 2 * length s + 1 < m \<Longrightarrow> read_items n s = read_items m s"
  "2 * length s + 1 < n \<Longrightarrow> 2 * length s + 1 < m \<Longrightarrow> read_members n s = read_members m s"
proof (induction n arbitrary: m s)
  case (Suc n)
  {
    case 1
    then obtain k where m: "m = Suc k" by (cases m) auto
    show ?case
    proof (cases s)
      case (Cons c cs)
      have "read_members n (d # r) = read_members k (d # r)" "read_items n (d # r) = read_items k (d # r)"
        if "skip_ws cs = d # r" for d r
        using Suc.IH(2,3) [of "d # r" k] 1 skip_ws_le [of cs] by (simp_all add: that Cons m)
      then show ?thesis by (simp add: m Cons split: list.split)
    qed (simp add: m)
  next
    case 2
    then obtain k where m: "m = Suc k" by (cases m) auto
    have same: "read_value n s = read_value k s" using Suc.IH(1) [of s k] 2 by (simp add: m)
    have "read_items n (skip_ws r') = read_items k (skip_ws r')"
      if "read_value k s = Some (v, r)" "skip_ws r = d # r'" for v r d r'
      using Suc.IH(2) [of "skip_ws r'" k] 2 read_shorter(1) [OF that(1)] skip_ws_length [OF that(2)] skip_ws_le [of r']
      by (simp add: m)
    then show ?case by (auto simp: m same split: option.split list.split)
  next
    case 3
    then obtain k where m: "m = Suc k" by (cases m) auto
    have same: "read_value n (skip_ws r') = read_value k (skip_ws r')"
      and rest: "\<And>v r1 e r2. read_value k (skip_ws r') = Some (v, r1) \<Longrightarrow> skip_ws r1 = e # r2 \<Longrightarrow>
        read_members n (skip_ws r2) = read_members k (skip_ws r2)"
      if "s = q # cs" "read_chars cs = Some (t, r)" "skip_ws r = d # r'" for q cs t r d r'
    proof -
      have less: "length r' < length s"
        using read_chars_shorter [OF that(2)] skip_ws_length [OF that(3)] by (simp add: that(1))
      show "read_value n (skip_ws r') = read_value k (skip_ws r')"
        using Suc.IH(1) [of "skip_ws r'" k] 3 less skip_ws_le [of r'] by (simp add: m)
      fix v r1 e r2
      assume a: "read_value k (skip_ws r') = Some (v, r1)" "skip_ws r1 = e # r2"
      show "read_members n (skip_ws r2) = read_members k (skip_ws r2)"
        using Suc.IH(3) [of "skip_ws r2" k] 3 less skip_ws_le [of r'] skip_ws_le [of r2]
          read_shorter(1) [OF a(1)] skip_ws_length [OF a(2)] by (simp add: m)
    qed
    show ?case using same rest by (auto simp: m split: option.split list.split)
  }
qed simp_all

section \<open>What was printed is read back\<close>

text \<open>The printer sorts the members of an object.\<close>

fun canon :: "json \<Rightarrow> json" where
  "canon (JArr vs) = JArr (map canon vs)"
| "canon (JObj kvs) = JObj (sort_key fst (map (\<lambda>kv. (fst kv, canon (snd kv))) kvs))"
| "canon j = j"

lemma skip_ws_simps [simp]: "skip_ws [] = []" "skip_ws (c # cs) = (if json_ws c then skip_ws cs else c # cs)"
  by (simp_all add: skip_ws_def)

lemma prepend_simps [simp]: "prepend x None = None" "prepend x (Some (xs, r)) = Some (x # xs, r)"
  by (simp_all add: prepend_def)

lemma hex_value_digit: "n < 16 \<Longrightarrow> hex_value (hex_digit n) = Some n"
  by (auto simp: hex_digit_def hex_value_def is_digit_def in_range_def)

lemma escape_length: "escape_char c \<noteq> []"
  by (simp add: escape_char_def)

lemma read_escaped: "read_chars (escape_char c @ s) = prepend c (read_chars s)"
proof -
  let ?n = "ordc c"
  have c: "char_of ?n = c" by (simp add: ordc_def)
  have not_u: "ordc (CHR ''u'') = 117" by (simp add: ordc_def)
  have zero: "hex_value (CHR ''0'') = Some 0" by (simp add: hex_value_def is_digit_def in_range_def)
  have u: "code_point (CHR ''0'') (CHR ''0'') (hex_digit (?n div 16)) (hex_digit (?n mod 16)) = Some ?n" if "?n < 32"
  proof -
    have "?n div 16 < 16" "?n mod 16 < 16" using that by simp_all
    then show ?thesis by (simp add: code_point_def hex_value_digit zero)
  qed
  consider "?n = 34" | "?n = 92" | "?n = 10" | "?n = 13" | "?n = 9" | "?n = 12" | "?n = 8"
    | "?n < 32" "?n \<notin> {8, 9, 10, 12, 13}" | "\<not> ?n < 32" "?n \<notin> {34, 92}" by blast
  then show ?thesis
  proof cases
    case 8
    then show ?thesis using u c by (simp add: escape_char_def)
  next
    case 9
    then show ?thesis by (simp add: escape_char_def)
  qed (use c not_u in \<open>auto simp: escape_char_def simple_escape_def ordc_def\<close>)
qed

lemma read_string: "read_chars (concat (map escape_char s) @ quote # r) = Some (s, r)"
  by (induction s) (simp_all add: read_escaped quote_def)

lemma dropWhile_digits: "list_all is_digit ds \<Longrightarrow> r = [] \<or> \<not> is_digit (hd r) \<Longrightarrow>
    takeWhile is_digit (ds @ r) = ds \<and> dropWhile is_digit (ds @ r) = r"
  by (induction ds) (cases r; simp)+

lemma digit_char: "(n::nat) < 10 \<Longrightarrow> is_digit (char_of (48 + n))"
  by (simp add: is_digit_def in_range_def)

lemma show_nat_digits: "list_all is_digit (show_nat n) \<and> show_nat n \<noteq> []"
proof (induction n rule: show_nat.induct)
  case (1 n)
  then show ?case by (cases "n < 10") (simp_all add: show_nat.simps [of n] digit_char)
qed

lemma digits_snoc: "digits_value (ds @ [d]) = digits_value ds * 10 + (ordc d - 48)"
  by (simp add: digits_value_def)

lemma digits_show: "digits_value (show_nat n) = n"
proof (induction n rule: show_nat.induct)
  case (1 n)
  show ?case
  proof (cases "n < 10")
    case True
    then show ?thesis by (simp add: show_nat.simps [of n] digits_value_def)
  next
    case False
    then show ?thesis using 1 by (simp add: show_nat.simps [of n] digits_snoc)
  qed
qed

lemma show_nat_head: "0 < n \<Longrightarrow> hd (show_nat n) \<noteq> CHR ''0''"
proof (induction n rule: show_nat.induct)
  case (1 n)
  show ?case
  proof (cases "n < 10")
    case True
    have "ordc (char_of (48 + n)) = 48 + n" using True by simp
    then show ?thesis using True 1(2) by (metis Nat.add_0_right add_left_cancel list.sel(1) nat_neq_iff ordc_lits(6) show_nat.simps)
  next
    case False
    then have "hd (show_nat n) = hd (show_nat (n div 10))"
      using show_nat_digits [of "n div 10"] by (simp add: show_nat.simps [of n])
    then show ?thesis using 1(1) False by simp
  qed
qed

text \<open>What may follow a printed value.\<close>

definition ends :: "string \<Rightarrow> bool" where
  "ends r \<longleftrightarrow> r = [] \<or> hd r \<in> {CHR '','', CHR '']'', CHR ''}''}"

lemma ends_simps [simp]: "ends []" "ends (CHR '','' # r)" "ends (CHR '']'' # r)" "ends (CHR ''}'' # r)"
  by (simp_all add: ends_def)

lemma ends_not: "ends r \<Longrightarrow> (r = [] \<or> \<not> is_digit (hd r)) \<and> \<not> float_tail r"
  by (cases r) (auto simp: ends_def is_digit_def in_range_def ordc_def float_tail_def split: list.splits)

lemma read_shown: assumes "ends r" shows "read_natural (show_nat n @ r) = Some (n, r)"
proof (cases "n = 0")
  case True
  have "ordc (char_of (48::nat)) = ordc (CHR ''0'')" by (simp add: ordc_char_of)
  then have "(char_of (48::nat) :: char) = CHR ''0''" by (simp only: ordc_inject)
  then have "show_nat n = ''0''" using True by (simp add: show_nat.simps [of 0])
  then show ?thesis using ends_not [OF assms] True by (simp add: read_natural_def)
next
  case False
  obtain d ds where d: "show_nat n = d # ds" using show_nat_digits [of n] by (cases "show_nat n") auto
  have "d \<noteq> CHR ''0''" "is_digit d" using show_nat_head [of n] show_nat_digits [of n] False by (simp_all add: d)
  moreover have "takeWhile is_digit (show_nat n @ r) = show_nat n \<and> dropWhile is_digit (show_nat n @ r) = r"
    using dropWhile_digits show_nat_digits ends_not [OF assms] by blast
  ultimately show ?thesis using digits_show [of n] ends_not [OF assms] by (simp add: read_natural_def d)
qed

lemma read_int: assumes "ends r" shows "read_number (show_int i @ r) = Some (i, r)"
proof (cases "i < 0")
  case True
  then show ?thesis using read_shown [OF assms] by (simp add: read_number_def show_int_def)
next
  case False
  obtain d ds where d: "show_nat (nat i) = d # ds" using show_nat_digits [of "nat i"] by (cases "show_nat (nat i)") auto
  have "is_digit d" using show_nat_digits [of "nat i"] by (simp add: d)
  then have "d \<noteq> CHR ''-''" by (auto simp: is_digit_def in_range_def)
  then show ?thesis using False read_shown [OF assms, of "nat i"] by (simp add: read_number_def show_int_def d)
qed

lemma sort_key_pairs:
  "sort_key fst (map (\<lambda>kv. (fst kv, f (snd kv))) kvs) = map (\<lambda>kv. (fst kv, f (snd kv))) (sort_key fst kvs)"
proof -
  have ins: "insort_key fst (fst kv, f (snd kv)) (map (\<lambda>kv. (fst kv, f (snd kv))) xs)
      = map (\<lambda>kv. (fst kv, f (snd kv))) (insort_key fst kv xs)" for kv and xs
    by (induction xs) auto
  show ?thesis by (induction kvs) (simp_all add: ins)
qed

lemma quote_char: "quote = CHR 0x22"
proof -
  have "ordc quote = ordc (CHR 0x22)" by (simp add: quote_def ordc_def)
  then show ?thesis by (simp only: ordc_inject)
qed

lemma quote_not: "quote \<notin> {CHR '','', CHR '']'', CHR ''}''}" "\<not> json_ws quote"
  by (simp_all add: quote_char json_ws_def ordc_def)

text \<open>The first character of a printed value tells its kind.\<close>

lemma dumps_head: "\<exists>c cs. dumps j = c # cs \<and> \<not> json_ws c \<and> c \<notin> {CHR '','', CHR '']'', CHR ''}''}"
proof (cases j)
  case (JInt i)
  obtain d ds where "show_nat (nat \<bar>i\<bar>) = d # ds" "is_digit d"
    using show_nat_digits [of "nat \<bar>i\<bar>"] by (cases "show_nat (nat \<bar>i\<bar>)") auto
  then show ?thesis using JInt
    by (cases "i < 0") (auto simp: show_int_def json_ws_def ordc_def is_digit_def in_range_def)
next
  case (JStr s)
  then show ?thesis using quote_not by (simp add: json_string_def)
qed (auto simp: json_ws_def ordc_def)

lemma skip_dumps [simp]: "skip_ws (dumps j @ r) = dumps j @ r"
  using dumps_head [of j] by auto

lemma read_items_printed:
  assumes "\<And>v r n. v \<in> set vs \<Longrightarrow> ends r \<Longrightarrow> length (dumps v) < n \<Longrightarrow> read_value n (dumps v @ r) = Some (canon v, r)"
    and "vs \<noteq> []" "length (join '','' (map dumps vs)) + 1 < n"
  shows "read_items n (join '','' (map dumps vs) @ CHR '']'' # r) = Some (map canon vs, r)"
  using assms
proof (induction vs arbitrary: n)
  case (Cons v vs)
  obtain m where n: "n = Suc m" using Cons.prems(3) by (cases n) auto
  show ?case
  proof (cases vs)
    case Nil
    then show ?thesis using Cons.prems(1) [of v "CHR '']'' # r" m] Cons.prems(3) by (simp add: n json_ws_def ordc_def)
  next
    case (Cons w ws)
    let ?rest = "join '','' (map dumps vs) @ CHR '']'' # r"
    have split: "join '','' (dumps v # map dumps vs) = dumps v @ '','' @ join '','' (map dumps vs)" by (simp add: Cons)
    have "read_value m (dumps v @ CHR '','' # ?rest) = Some (canon v, CHR '','' # ?rest)"
      using Cons.prems(1) [of v "CHR '','' # ?rest" m] Cons.prems(3) by (simp add: n split)
    moreover have "read_items m ?rest = Some (map canon vs, r)"
      using Cons.prems(1,3) by (intro Cons.IH) (simp_all add: n split, simp add: Cons)
    moreover have "skip_ws ?rest = ?rest" by (cases ws) (simp_all add: Cons)
    ultimately show ?thesis by (simp add: n split json_ws_def ordc_def del: skip_ws_simps(2)) (simp add: json_ws_def ordc_def)
  qed
qed simp

lemma read_members_printed:
  assumes "\<And>v r n. v \<in> snd ` set kvs \<Longrightarrow> ends r \<Longrightarrow> length (dumps v) < n \<Longrightarrow> read_value n (dumps v @ r) = Some (canon v, r)"
    and "kvs \<noteq> []" "length (join '','' (map (\<lambda>kv. json_member (fst kv, dumps (snd kv))) kvs)) + 1 < n"
  shows "read_members n (join '','' (map (\<lambda>kv. json_member (fst kv, dumps (snd kv))) kvs) @ CHR ''}'' # r)
    = Some (map (\<lambda>kv. (fst kv, canon (snd kv))) kvs, r)"
  using assms
proof (induction kvs arbitrary: n)
  case (Cons kv kvs)
  obtain k v where kv: "kv = (k, v)" by (cases kv)
  obtain m where n: "n = Suc m" using Cons.prems(3) by (cases n) auto
  let ?p = "\<lambda>kv. json_member (fst kv, dumps (snd kv))"
  have member: "json_member (k, dumps v) @ s = quote # concat (map escape_char k) @ quote # CHR '':'' # dumps v @ s" for s
    by (simp add: json_member_def json_string_def)
  have colon: "\<not> json_ws (CHR '':'')" "\<not> json_ws (CHR '','')" "\<not> json_ws (CHR ''}'')" by (simp_all add: json_ws_def ordc_def)
  have q: "ordc quote = 34" by (simp add: quote_def)
  have len: "length (dumps v) + 3 \<le> length (json_member (k, dumps v))" by (simp add: json_member_def json_string_def)
  show ?case
  proof (cases kvs)
    case Nil
    then show ?thesis using Cons.prems(1) [of v "CHR ''}'' # r" m] Cons.prems(3) len
      by (simp add: n kv member q read_string colon)
  next
    case (Cons w ws)
    let ?rest = "join '','' (map ?p kvs) @ CHR ''}'' # r"
    have split: "join '','' (json_member (k, dumps v) # map ?p kvs) = json_member (k, dumps v) @ '','' @ join '','' (map ?p kvs)"
      by (simp add: Cons)
    have len2: "length (dumps v) < m" "length (join '','' (map ?p kvs)) + 1 < m"
      using Cons.prems(3) len by (simp_all add: n kv split)
    have "read_value m (dumps v @ CHR '','' # ?rest) = Some (canon v, CHR '','' # ?rest)"
      using Cons.prems(1) [of v "CHR '','' # ?rest" m] len2(1) by (simp add: kv)
    moreover have "read_members m ?rest = Some (map (\<lambda>kv. (fst kv, canon (snd kv))) kvs, r)"
      using Cons.prems(1) len2(2) by (intro Cons.IH) (simp_all add: Cons)
    moreover have "skip_ws ?rest = ?rest"
      using quote_not(2) by (cases ws) (simp_all add: Cons json_member_def json_string_def)
    ultimately show ?thesis by (simp add: n kv split member q read_string colon)
  qed
qed simp

theorem read_printed: "ends r \<Longrightarrow> length (dumps j) < n \<Longrightarrow> read_value n (dumps j @ r) = Some (canon j, r)"
proof (induction j arbitrary: r n rule: dumps.induct)
  case 1
  then show ?case by (cases n) (simp_all add: ordc_def)
next
  case (2 b)
  then show ?case by (cases n) (simp_all add: ordc_def)
next
  case (3 i)
  then obtain m where n: "n = Suc m" by (cases n) auto
  obtain c cs where c: "show_int i = c # cs" "c = CHR ''-'' \<or> is_digit c"
    using show_nat_digits [of "nat \<bar>i\<bar>"]
    by (cases "i < 0"; cases "show_nat (nat \<bar>i\<bar>)") (auto simp: show_int_def)
  have "ordc c \<noteq> 34" "c \<noteq> CHR ''{''" "c \<noteq> CHR ''[''" "c \<noteq> CHR ''n''" "c \<noteq> CHR ''t''" "c \<noteq> CHR ''f''"
    using c(2) by (auto simp: is_digit_def in_range_def ordc_def)
  then show ?case using read_int [OF 3(1), of i] by (simp add: n c(1))
next
  case (4 s)
  then obtain m where n: "n = Suc m" by (cases n) auto
  have "ordc quote = 34" by (simp add: quote_def)
  then show ?case by (simp add: n json_string_def read_string)
next
  case (5 vs)
  then obtain m where n: "n = Suc m" by (cases n) auto
  show ?case
  proof (cases vs)
    case Nil
    then show ?thesis by (simp add: n ordc_def json_ws_def)
  next
    case (Cons v ws)
    have "read_items m (join '','' (map dumps vs) @ CHR '']'' # r) = Some (map canon vs, r)"
      by (rule read_items_printed) (use 5 in \<open>simp_all add: n Cons\<close>)
    moreover obtain c cs where "join '','' (map dumps vs) @ CHR '']'' # r = c # cs" "\<not> json_ws c" "c \<noteq> CHR '']''"
      using dumps_head [of v] by (cases ws) (auto simp: Cons)
    ultimately show ?thesis by (simp add: n ordc_def)
  qed
next
  case (6 kvs)
  then obtain m where n: "n = Suc m" by (cases n) auto
  let ?kvs = "sort_key fst kvs" and ?p = "\<lambda>kv. json_member (fst kv, dumps (snd kv))"
  have printed: "dumps (JObj kvs) = CHR ''{'' # join '','' (map ?p ?kvs) @ ''}''"
    by (simp add: sort_key_pairs comp_def)
  show ?case
  proof (cases kvs)
    case Nil
    then show ?thesis by (simp add: n ordc_def json_ws_def)
  next
    case (Cons v ws)
    then obtain w xs where w: "?kvs = w # xs" by (metis length_0_conv length_sort list.exhaust list.simps(3))
    have "read_members m (join '','' (map ?p ?kvs) @ CHR ''}'' # r) = Some (map (\<lambda>kv. (fst kv, canon (snd kv))) ?kvs, r)"
    proof (rule read_members_printed)
      show "?kvs \<noteq> []" by (simp add: w)
      show "length (join '','' (map ?p ?kvs)) + 1 < m" using 6(3) unfolding printed by (simp add: n)
      fix v r n
      assume "v \<in> snd ` set ?kvs" "ends r" "length (dumps v) < n"
      then show "read_value n (dumps v @ r) = Some (canon v, r)" using 6(1) by auto
    qed
    moreover obtain cs where "join '','' (map ?p ?kvs) @ CHR ''}'' # r = quote # cs"
      unfolding w by (cases xs) (auto simp: json_member_def json_string_def)
    ultimately show ?thesis using quote_not unfolding printed by (simp add: n ordc_def sort_key_pairs)
  qed
qed

corollary json_loads_dumps: "json_loads (dumps j) = Some (canon j)"
proof -
  have "read_value (Suc (2 * length (dumps j))) (dumps j @ []) = Some (canon j, [])" by (rule read_printed) simp_all
  then show ?thesis using skip_dumps [of j "[]"] by (simp add: json_loads_def)
qed

end
