(* ===== verification/Domain_Package.thy ===== *)
theory Domain_Package
  imports Domain_Example Py_Json_Read
begin

text \<open>
  \<open>split_package_command\<close> of \<^verbatim>\<open>reservation_domain/signature.py\<close>: a package of one lodging and one
  activity becomes two child commands of deterministic child workflows; and the properties of
  subject signatures, certainty aggregation, passenger manifests and amounts.
\<close>

section \<open>Splitting a package\<close>







lemma service_univ: "x = LODGING \<or> x = ACTIVITY"
  by (cases x) simp_all















definition sample_activity :: offer_snapshot where
  "sample_activity = \<lparr>of_offer_id = ''offer:2'', of_lookup_id = ''lookup:2'', of_service = ACTIVITY,
     of_provider_ref = ''dive:3'', of_public_label = ''Dive'', of_start_date = 738001,
     of_end_date = None, of_start_time = Some ''09:30'', of_party = sample_party,
     of_total = sample_money, of_available = True\<rparr>"




section \<open>What the subject signature depends on\<close>

lemma offer_payload_relabel [simp]:
  "offer_payload (f\<lparr>of_public_label := l, of_lookup_id := k\<rparr>) = offer_payload f"
  by (simp add: offer_payload_def)

lemma insort_key_map: "insort_key k (g x) (map g ys) = map g (insort_key (\<lambda>a. k (g a)) x ys)"
  by (induction ys) simp_all

lemma sort_key_map: "sort_key k (map g xs) = map g (sort_key (\<lambda>a. k (g a)) xs)"
  by (induction xs) (simp_all add: insort_key_map)

lemma canonical_subject_map:
  assumes "\<And>f. of_offer_id (g f) = of_offer_id f" "\<And>f. offer_payload (g f) = offer_payload f"
  shows "canonical_subject (map g cs) c t = canonical_subject cs c t"
proof -
  have "map offer_payload (sort_key of_offer_id (map g cs)) = map offer_payload (sort_key of_offer_id cs)"
    using assms by (simp add: sort_key_map)
  moreover have "sort_key of_offer_id (map g cs) = [] \<longleftrightarrow> sort_key of_offer_id cs = []"
    by (metis length_0_conv length_map length_sort)
  ultimately show ?thesis by (simp add: canonical_subject_def Let_def)
qed

text \<open>
  the subject signature does not depend on the order in which components and add-ons are
  listed, nor on the public label and the lookup identifier of a component.
\<close>
theorem signature_stable:
  assumes "distinct (map of_offer_id cs)" and "mset cs' = mset cs"
    and "distinct (map ao_code (et_add_ons t))" and "mset (et_add_ons t') = mset (et_add_ons t)"
    and "et_payment_method t' = et_payment_method t"
  shows "subject_signature (map (\<lambda>f. f\<lparr>of_public_label := label f, of_lookup_id := lookup f\<rparr>) cs') c t'
    = subject_signature cs c t"
proof -
  have inj: "inj_on of_offer_id (set cs')"
    using assms(1,2) by (metis distinct_map mset_eq_setD)
  have "sort_key of_offer_id cs' = sort_key of_offer_id cs"
    by (rule sort_key_permutation [OF assms(2) inj])
  then have c1: "canonical_subject cs' c t' = canonical_subject cs c t'"
    by (simp add: canonical_subject_def)
  have "inj_on add_on_key (set (et_add_ons t'))"
    using assms(3) mset_eq_setD [OF assms(4)] by (auto simp: distinct_map inj_on_def add_on_key_def)
  then have "sort_key add_on_key (et_add_ons t') = sort_key add_on_key (et_add_ons t)"
    by (rule sort_key_permutation [OF assms(4)])
  then have "terms_payload t' = terms_payload t" by (simp add: terms_payload_def assms(5))
  then have c2: "canonical_subject cs c t' = canonical_subject cs c t" by (simp add: canonical_subject_def)
  have c0: "canonical_subject (map (\<lambda>f. f\<lparr>of_public_label := label f, of_lookup_id := lookup f\<rparr>) cs') c t'
      = canonical_subject cs' c t'"
    by (rule canonical_subject_map) simp_all
  show ?thesis unfolding subject_signature_def c0 c1 c2 ..
qed

theorem signature_stable_witness:
  "subject_signature (map (\<lambda>f. f\<lparr>of_public_label := ''Quarto'', of_lookup_id := ''lookup:9''\<rparr>)
     [sample_activity, sample_offer]) sample_customer sample_terms
   = subject_signature [sample_offer, sample_activity] sample_customer sample_terms"
  by (rule signature_stable)
    (simp_all add: sample_offer_def sample_activity_def sample_terms_def add_mset_commute)


section \<open>Certainties, manifests and amounts\<close>

lemma combine_single: "combine_execution_outcomes [a] = a"
  by (cases a) (simp_all add: combine_execution_outcomes_def)

text \<open>
  the certainty of a package is the maximum of the certainties of its parts in the order not
  called, called without effect, effect confirmed, unknown: it is reached by a part (or nothing was
  called), bounds every part, and aggregating in two stages gives the same.
\<close>
theorem combine_is_maximum:
  "combine_execution_outcomes cs = Max (insert NOT_CALLED (set cs))
   \<and> combine_execution_outcomes (cs @ ds)
       = combine_execution_outcomes [combine_execution_outcomes cs, combine_execution_outcomes ds]"
  using combine_append [of cs ds]
    combine_append [of "[combine_execution_outcomes cs]" "[combine_execution_outcomes ds]"]
  by (simp add: combine_single combine_eq_Max [symmetric])

text \<open>
  the effective manifest, when there is one, names every member of the party exactly once, at
  positions 1 to its size, with as many adults and children as the party has; a lone adult without
  a manifest is completed from the customer's own facts, and a group without one is an error.
\<close>
theorem effective_manifest_matches_party:
  assumes "wf_customer c" and "wf_party p"
  shows "case effective_passengers c p of
      Inr ps \<Rightarrow> list_all wf_passenger ps \<and> map pf_position ps = [1..adults p + children p]
        \<and> int (length (filter (\<lambda>x. pf_participant_type x = ''adult'') ps)) = adults p
        \<and> int (length (filter (\<lambda>x. pf_participant_type x = ''child'') ps)) = children p
    | Inl _ \<Rightarrow> cf_passengers c \<noteq> []
        \<or> p \<noteq> \<lparr>adults = 1, children = 0\<rparr> \<or> cf_birth_date c = None \<or> cf_gender c = None"
proof (cases "cf_passengers c = []")
  case False
  then show ?thesis using assms
    by (auto simp: effective_passengers_def Let_def wf_customer_def split: sum.splits if_splits)
next
  case True
  show ?thesis
  proof (cases "p = \<lparr>adults = 1, children = 0\<rparr> \<and> cf_birth_date c \<noteq> None \<and> cf_gender c \<noteq> None")
    case False
    with True show ?thesis by (auto simp: effective_passengers_def split: sum.splits option.splits)
  next
    case pr: True
    then obtain b g where bg: "cf_birth_date c = Some b" "cf_gender c = Some g" by auto
    define x where "x = \<lparr>pf_position = 1, pf_participant_type = ''adult'', pf_full_name = cf_full_name c,
      pf_birth_date = b, pf_gender = g, pf_country_code = cf_country_code c\<rparr>"
    have "wf_passenger x" using assms bg by (auto simp: x_def wf_passenger_def wf_customer_def)
    from this mk_passenger_fixed [OF this] pr True bg show ?thesis
      by (simp add: effective_passengers_def x_def)
  qed
qed

theorem effective_manifest_matches_party_witness:
  "case effective_passengers (sample_customer\<lparr>cf_birth_date := Some 720000, cf_gender := Some ''f''\<rparr>)
      \<lparr>adults = 1, children = 0\<rparr> of
     Inr ps \<Rightarrow> map pf_position ps = [1..1] | Inl _ \<Rightarrow> False"
proof -
  let ?c = "sample_customer\<lparr>cf_birth_date := Some 720000, cf_gender := Some ''f''\<rparr>"
  let ?p = "\<lparr>adults = 1, children = 0\<rparr>"
  have "wf_customer ?c" using sample_customer_wf by (simp add: wf_customer_def)
  moreover have "wf_party ?p" by (simp add: wf_party_def)
  ultimately show ?thesis using effective_manifest_matches_party [of ?c ?p]
    by (auto simp: sample_customer_def split: sum.splits)
qed

text \<open>
  Two printed objects are equal only if every member of one is a member of the other under the same
  key, so the printed subject tells its components' payloads apart.
\<close>

lemma dumps_canon: "dumps x = dumps y \<Longrightarrow> canon x = canon y"
  using json_loads_dumps [of x] json_loads_dumps [of y] by simp

lemma canon_member:
  assumes "canon (JObj kvs) = canon (JObj kvs')" and "(k, v) \<in> set kvs"
  shows "\<exists>v'. (k, v') \<in> set kvs' \<and> canon v = canon v'"
proof -
  have "(k, canon v) \<in> set (sort_key fst (map (\<lambda>kv. (fst kv, canon (snd kv))) kvs))"
    using assms(2) by force
  also have "\<dots> = set (sort_key fst (map (\<lambda>kv. (fst kv, canon (snd kv))) kvs'))" using assms(1) by simp
  finally show ?thesis by auto
qed

lemma offer_text_amount:
  assumes "canon (offer_payload f) = canon (offer_payload g)"
  shows "format_amount (of_total f) = format_amount (of_total g)"
proof -
  have "canon (money_payload (of_total f)) = canon (money_payload (of_total g))"
    using canon_member [OF assms [unfolded offer_payload_def], of "''total''"] by auto
  from canon_member [OF this [unfolded money_payload_def], of "''amount''"] show ?thesis by auto
qed

lemma sort_key_pointwise:
  assumes "\<And>z. z \<in> set zs \<Longrightarrow> k (fst z) = k (snd z)"
  shows "sort_key k (map fst zs) = map fst (sort_key (\<lambda>z. k (fst z)) zs)"
    and "sort_key k (map snd zs) = map snd (sort_key (\<lambda>z. k (fst z)) zs)"
proof -
  show "sort_key k (map fst zs) = map fst (sort_key (\<lambda>z. k (fst z)) zs)" by (rule sort_key_map)
  have "insort_key k (snd z) (map snd ys) = map snd (insort_key (\<lambda>z. k (fst z)) z ys)"
    if "z \<in> set zs" "set ys \<subseteq> set zs" for z ys
    using that assms by (induction ys) auto
  then have "sort_key k (map snd ws) = map snd (sort_key (\<lambda>z. k (fst z)) ws)"
    if "set ws \<subseteq> set zs" for ws using that by (induction ws) auto
  then show "sort_key k (map snd zs) = map snd (sort_key (\<lambda>z. k (fst z)) zs)" by blast
qed

text \<open>A component whose printed price changes, changes the printed subject.\<close>

lemma subject_text_price:
  assumes "of_offer_id f = of_offer_id g" "format_amount (of_total f) \<noteq> format_amount (of_total g)"
  shows "\<exists>x y. canonical_subject (pre @ f # post) c t = Inr x \<and> canonical_subject (pre @ g # post) c t = Inr y
    \<and> dumps x \<noteq> dumps y"
proof -
  define zs where "zs = map (\<lambda>h. (h, h)) pre @ (f, g) # map (\<lambda>h. (h, h)) post"
  define sorted where "sorted = sort_key (\<lambda>z. of_offer_id (fst z)) zs"
  define subject where "subject fs = JObj [(''components'', JArr (map offer_payload fs)),
      (''customer'', customer_payload c), (''terms'', terms_payload t)]" for fs
  have key: "\<And>z. z \<in> set zs \<Longrightarrow> of_offer_id (fst z) = of_offer_id (snd z)"
    using assms(1) by (auto simp: zs_def)
  have proj: "map fst zs = pre @ f # post" "map snd zs = pre @ g # post"
    by (simp_all add: zs_def comp_def)
  have "(f, g) \<in> set sorted" by (simp add: sorted_def zs_def)
  then have ne: "map fst sorted \<noteq> []" "map snd sorted \<noteq> []" by auto
  have x: "canonical_subject (pre @ f # post) c t = Inr (subject (map fst sorted))"
    and y: "canonical_subject (pre @ g # post) c t = Inr (subject (map snd sorted))"
    using sort_key_pointwise [of zs of_offer_id, OF key] ne
    by (simp_all add: canonical_subject_def Let_def proj sorted_def [symmetric] subject_def)
  have "dumps (subject (map fst sorted)) \<noteq> dumps (subject (map snd sorted))"
  proof
    assume "dumps (subject (map fst sorted)) = dumps (subject (map snd sorted))"
    then have "canon (JArr (map offer_payload (map fst sorted))) = canon (JArr (map offer_payload (map snd sorted)))"
      using canon_member [of _ _ "''components''"] unfolding subject_def by (fastforce dest!: dumps_canon)
    then have "canon (offer_payload f) = canon (offer_payload g)"
      using \<open>(f, g) \<in> set sorted\<close> by (auto simp: map_eq_conv)
    with assms(2) offer_text_amount show False by blast
  qed
  with x y show ?thesis by blast
qed

text \<open>
  C38: an amount that rounds to zero keeps the sign of its decimal. Every negative decimal whose
  cents round to zero is accepted as a price, and an offer at this price equals the same offer at
  the zero price under the equality of the domain's values; yet the one prints minus zero, and in
  any list of components, for any customer and terms, the two offers give subjects with different
  texts, so their signatures, the SHA-256 of these texts, agree only on a collision.
\<close>
theorem negative_zero_signs_differently:
  assumes "quantize_cents d = Some (Finite True 0 (-2))" and "currency_re (upper (strip cur))"
  shows "\<exists>a b. mk_money (Some d) cur = Inr a \<and> mk_money (Some (Finite False 0 0)) cur = Inr b
    \<and> offer_py_eq (f\<lparr>of_total := a\<rparr>) (f\<lparr>of_total := b\<rparr>)
    \<and> format_amount a = ''-0.00'' \<and> format_amount b = ''0.00''
    \<and> (\<exists>x y. subject_signature (pre @ f\<lparr>of_total := a\<rparr> # post) c t = Inr (sha256_hex x)
        \<and> subject_signature (pre @ f\<lparr>of_total := b\<rparr> # post) c t = Inr (sha256_hex y) \<and> x \<noteq> y)"
proof -
  let ?m = "\<lambda>n. \<lparr>money_negative = n, money_cents = 0, money_currency = upper (strip cur)\<rparr>"
  have z: "show_nat 0 = ''0''" "zfill 2 ''0'' = ''00''" by code_simp+
  have m: "mk_money (Some d) cur = Inr (?m True)" "mk_money (Some (Finite False 0 0)) cur = Inr (?m False)"
    using assms by (simp_all add: mk_money_def)
  have p: "format_amount (?m True) = ''-0.00''" "format_amount (?m False) = ''0.00''"
    by (simp_all add: format_amount_def z)
  obtain x y where "canonical_subject (pre @ f\<lparr>of_total := ?m True\<rparr> # post) c t = Inr x"
    "canonical_subject (pre @ f\<lparr>of_total := ?m False\<rparr> # post) c t = Inr y" "dumps x \<noteq> dumps y"
    using subject_text_price [of "f\<lparr>of_total := ?m True\<rparr>" "f\<lparr>of_total := ?m False\<rparr>" pre post c t] p by auto
  then have "\<exists>x y. subject_signature (pre @ f\<lparr>of_total := ?m True\<rparr> # post) c t = Inr (sha256_hex x)
      \<and> subject_signature (pre @ f\<lparr>of_total := ?m False\<rparr> # post) c t = Inr (sha256_hex y) \<and> x \<noteq> y"
    by (simp add: subject_signature_def stable_hash_def) blast
  moreover have "offer_py_eq (f\<lparr>of_total := ?m True\<rparr>) (f\<lparr>of_total := ?m False\<rparr>)"
    by (simp add: offer_py_eq_def money_py_eq_def)
  ultimately show ?thesis using m p by blast
qed

theorem negative_zero_signs_differently_witness:
  "\<exists>a b x y. mk_money (Some (Finite True 1 (-3))) ''BRL'' = Inr a
    \<and> mk_money (Some (Finite False 0 0)) ''BRL'' = Inr b
    \<and> offer_py_eq (sample_offer\<lparr>of_total := a\<rparr>) (sample_offer\<lparr>of_total := b\<rparr>)
    \<and> subject_signature [sample_offer\<lparr>of_total := a\<rparr>] sample_customer sample_terms = Inr (sha256_hex x)
    \<and> subject_signature [sample_offer\<lparr>of_total := b\<rparr>] sample_customer sample_terms = Inr (sha256_hex y) \<and> x \<noteq> y"
proof -
  have cur: "currency_re (upper (strip ''BRL''))"
    by (simp add: currency_re_def evaluate_text upper_def upper_char_def)
  have q: "quantize_cents (Finite True 1 (-3)) = Some (Finite True 0 (-2))"
    by (simp add: round_half_even_def)
  from negative_zero_signs_differently [OF q cur, of sample_offer "[]" "[]" sample_customer sample_terms]
  show ?thesis by (simp only: append_Nil) blast
qed

end
