(* ===== verification/Exec_Contract.thy ===== *)
theory Exec_Contract
  imports Exec_Example
begin

text \<open>
  The contract of each operation of the execution store and of the workers that use it: when it
  succeeds, what exactly it changes, and what it answers.
\<close>

section \<open>Claiming and fencing\<close>

text \<open>
  C29: A worker that asks for work is given it: when the first eligible row belongs to a command
  whose workflow can be executed, and the clock is not behind the row, the claim succeeds, hands
  out that command with the next fencing token, and the claim is live in the new store.
\<close>

theorem eligible_command_is_claimed:
  assumes "store_ok db" "id_re w" "lease_deadline now ttl = Inr x"
    and "first_by (claim_order db) (claimable db now) (db_ledger db) = Some r"
    and "load_command db (lg_command_id r) = Inr c" "load_ledger db (rc_command_id c) = Inr l"
    and "load_workflow db (rc_workflow_id c) = Inr s"
    and "lg_updated_at l \<le> now" "claim_starts db c s now"
  shows "\<exists>db' claim s'. claim_command db w now ttl = Inr (db', Some claim) \<and> cl_command claim = c
    \<and> lease_token (cl_lease claim) = lg_fencing_token l + 1
    \<and> assert_live_preparation_claim db' claim now = Inr (c, claimed_row w now x l, s')"
  using claim_command_enabled [OF assms] by fastforce

theorem eligible_command_is_claimed_witness:
  "\<exists>db claim s. claim_command sample_store ''worker:1'' 4000 1000 = Inr (db, Some claim)
     \<and> lease_token (cl_lease claim) = 1
     \<and> assert_live_preparation_claim db claim 4000
         = Inr (sample_command, claimed_row ''worker:1'' 4000 5000 (initial_ledger sample_command), s)"
proof -
  have "lg_fencing_token (initial_ledger sample_command) = 0"
    "lg_command_id (initial_ledger sample_command) = rc_command_id sample_command"
    by (simp_all add: initial_ledger_def)
  then show ?thesis
    using eligible_command_is_claimed [OF sample_store_ok sample_ids_worker(1) sample_claim_conditions(1,2)
        _ sample_load(2) _ sample_claim_conditions(4,3)] sample_load(1,3) sample_command_facts(1)
    by auto
qed

text \<open>
  C24: A dispatch is permitted exactly when the presented claim is the live one and the request is
  the canonical request of its command; the permit then names that command, lease and request, and
  the row of the command is all that changes in the store.
\<close>

theorem fence_dispatch_exact:
  assumes "store_ok db"
  shows "fence_dispatch db claim q now = Inr (db', permit) \<longleftrightarrow>
    (\<exists>c l s. assert_live_preparation_claim db claim now = Inr (c, l, s)
       \<and> dispatch_request_from_command c (command_envelope c) = Inr q
       \<and> db' = set_row db (fenced_row (dq_payload_hash q) now l)
       \<and> permit = \<lparr>pm_command_id = rc_command_id c, pm_lease = cl_lease claim, pm_dispatch_slot = 1,
            pm_request_hash = dq_payload_hash q, pm_fenced_at = now\<rparr>)" (is "?l \<longleftrightarrow> ?r")
proof
  assume f: ?l
  obtain c l s where live: "assert_live_preparation_claim db claim now = Inr (c, l, s)"
    using f by (auto simp: fence_dispatch_def Let_def bind_res_Inr_iff split: if_splits)
  have post: "fence_post db claim q now db' permit" using ensuresD [OF fence_dispatch_facts [OF assms] f] by simp
  have c: "c = cl_command claim" using assert_live_held [OF live] by simp
  then have q: "dispatch_request_from_command c (command_envelope c) = Inr q" using post by (simp add: fence_post_def)
  from fence_dispatch_enabled [OF assms live q] f live q post c show ?r by (auto simp: fence_post_def)
next
  assume ?r
  then obtain c l s where live: "assert_live_preparation_claim db claim now = Inr (c, l, s)"
    and q: "dispatch_request_from_command c (command_envelope c) = Inr q"
    and db': "db' = set_row db (fenced_row (dq_payload_hash q) now l)"
    and permit: "permit = \<lparr>pm_command_id = rc_command_id c, pm_lease = cl_lease claim, pm_dispatch_slot = 1,
            pm_request_hash = dq_payload_hash q, pm_fenced_at = now\<rparr>" by blast
  obtain p where f: "fence_dispatch db claim q now = Inr (set_row db (fenced_row (dq_payload_hash q) now l), p)"
    using fence_dispatch_enabled [OF assms live q] by blast
  have "fence_post db claim q now (set_row db (fenced_row (dq_payload_hash q) now l)) p"
    using ensuresD [OF fence_dispatch_facts [OF assms] f] by simp
  with f db' permit assert_live_held(2) [OF live] show ?l by (simp add: fence_post_def)
qed

theorem fence_dispatch_exact_witness:
  "\<exists>c l s. assert_live_preparation_claim sample_preparing sample_claim 4500 = Inr (c, l, s)
     \<and> sample_dispatched = set_row sample_preparing (fenced_row (dq_payload_hash sample_request) 4500 l)"
  using fence_dispatch_exact [OF sample_preparing_ok, of sample_claim sample_request 4500 sample_dispatched
      sample_permit] sample_fence(1) by blast

section \<open>Outcomes\<close>

text \<open>
  C30: The outcome of a dispatched command is always recordable under its live permit when it is
  the outcome of that command, is not the claim that the provider was never called, and its events
  and message are new: then the ledger row is closed with it, the workflow is in the phase the
  outcome means (an unknown effect is under manual review), and its message waits in the outbox.
\<close>

theorem dispatched_outcome_is_recorded:
  assumes "store_ok db" "assert_live_dispatch_permit db permit now = Inr (c, l, s)"
    and "wf_outcome u" "eo_command_id u = rc_command_id c" "eo_certainty u \<noteq> NOT_CALLED"
    and "outcome_fresh db c s u now"
  shows "\<exists>db' p. record_outcome v db permit u now = Inr (db', p)
    \<and> phase (pt_state p) = (if eo_certainty u = CALLED_UNKNOWN then MANUAL_REVIEW
                            else outcome_phase (eo_certainty u))
    \<and> closed_post db c l (pt_state p) (outcome_ledger_status u) u now db'"
proof -
  obtain db' p where r: "record_outcome v db permit u now = Inr (db', p)"
    using record_outcome_enabled [OF assms] by blast
  note a = assert_permit_Inr [OF assms(2)]
  have post: "record_post db permit u now db' p"
    using ensuresD [OF record_outcome_facts [OF assms(1,3)] r] by simp
  have c: "rc_command_id c = pm_command_id permit" using load_command_Inr [OF a(1)] by simp
  then have row: "row_of db (pm_command_id permit) = Some l" using load_ledger_Inr(3) [OF a(2)] by simp
  have "lg_outcome l = None"
    using ledger_ok_open [of l] load_ledger_Inr(1) [OF a(2)] a(5) by simp
  with post row a(1) have "phase (pt_state p) = (if eo_certainty u = CALLED_UNKNOWN then MANUAL_REVIEW
                            else outcome_phase (eo_certainty u))
    \<and> closed_post db c l (pt_state p) (outcome_ledger_status u) u now db'"
    by (auto simp: record_post_def)
  with r show ?thesis by blast
qed

theorem dispatched_outcome_is_recorded_witness:
  "\<exists>db p. record_outcome sample_validator sample_dispatched sample_permit sample_outcome 4500 = Inr (db, p)
     \<and> phase (pt_state p) = SUCCEEDED"
proof -
  have u: "eo_command_id sample_outcome = rc_command_id sample_command" "eo_certainty sample_outcome = EFFECT_CONFIRMED"
    by (simp_all add: sample_outcome_def)
  moreover have "db_events sample_dispatched = db_events sample_preparing" "db_outbox sample_dispatched = []"
    by (simp_all add: sample_fence(3)) (simp add: sample_preparing_def)
  ultimately show ?thesis
    using dispatched_outcome_is_recorded [OF sample_fence(4,2) sample_outcome_wf u(1) _ sample_outcome_fresh,
        of sample_validator] by (auto simp: outcome_phase_def)
qed

text \<open>
  C16: What a recorded outcome did. The outcome is for the command of the permit and never says
  that the provider was not called; either it repeats the recorded outcome byte for byte and
  changes nothing, or it closes the dispatched row whose token and request the permit carries.
\<close>

theorem record_outcome_honest:
  assumes "store_ok db" "wf_outcome u" "record_outcome v db permit u now = Inr (db', p)"
  shows "eo_command_id u = pm_command_id permit \<and> eo_certainty u \<noteq> NOT_CALLED
    \<and> (\<exists>l. row_of db (pm_command_id permit) = Some l
         \<and> lg_fencing_token l = lease_token (pm_lease permit)
         \<and> lg_request_hash l = Some (pm_request_hash permit) \<and> lg_dispatch_slots l = 1
         \<and> (db' = db \<and> pt_duplicate p \<and> map_option dumps_outcome (lg_outcome l) = Some (dumps_outcome u)
            \<or> lg_outcome l = None \<and> lg_status l = DISPATCH_FENCED
              \<and> row_of db' (pm_command_id permit) = Some (closed_row (outcome_ledger_status u) u now l)
              \<and> phase (pt_state p) = (if eo_certainty u = CALLED_UNKNOWN then MANUAL_REVIEW
                                      else outcome_phase (eo_certainty u))))"
  using ensuresD [OF record_outcome_facts [OF assms(1,2)] assms(3)] load_command_Inr
  by (fastforce simp: record_post_def closed_post_def)

theorem record_outcome_honest_witness:
  "\<exists>db p. record_outcome sample_validator sample_dispatched sample_permit sample_outcome 4500 = Inr (db, p)
     \<and> eo_certainty sample_outcome \<noteq> NOT_CALLED"
  using sample_recorded record_outcome_honest [OF sample_fence(4) sample_outcome_wf] by blast

section \<open>Failed preparations\<close>

text \<open>
  A failed preparation never reaches the provider and never repeats for ever: it presents the
  live claim, counts at most three failures, goes back to the queue exactly when it may be retried
  and fewer than three failed, and is otherwise closed with an outcome that says the provider was
  not called. No dispatch slot is taken.
\<close>

theorem preparation_failures_bounded:
  assumes "store_ok db" "release_preparation_failure db claim failure now = Inr (db', d)"
  shows "\<exists>l l'. claim_held db claim now l \<and> row_of db' (rc_command_id (cl_command claim)) = Some l'
    \<and> lg_preparation_failures l' = lg_preparation_failures l + 1 \<and> lg_preparation_failures l' \<le> 3
    \<and> lg_dispatch_slots l' = 0
    \<and> (if fl_retryable failure \<and> lg_preparation_failures l' < 3
       then d = REQUEUED \<and> lg_status l' = QUEUED \<and> lg_outcome l' = None
       else d = TERMINAL_NOT_CALLED \<and> lg_status l' = OUTCOME_RECORDED
         \<and> map_option eo_certainty (lg_outcome l') = Some NOT_CALLED)"
proof -
  have "release_post db claim failure now db' d"
    using ensuresD [OF release_preparation_failure_facts [OF assms(1)] assms(2)] by simp
  then obtain l where held: "claim_held db claim now l" and le: "cl_preparation_failures claim + 1 \<le> 3"
    and post0: "if fl_retryable failure \<and> cl_preparation_failures claim + 1 < 3
       then d = REQUEUED \<and> row_of db' (rc_command_id (cl_command claim))
              = Some (requeued_row (cl_preparation_failures claim + 1) now l) \<and> db_workflows db' = db_workflows db
              \<and> db_outbox db' = db_outbox db
       else d = TERMINAL_NOT_CALLED
         \<and> (\<exists>u. command_outcome (cl_command claim) NOT_CALLED (fl_reason failure) None (fl_evidence failure) = Inr u
              \<and> row_of db' (rc_command_id (cl_command claim))
                  = Some (closed_row OUTCOME_RECORDED u now l\<lparr>lg_preparation_failures := cl_preparation_failures claim + 1\<rparr>))"
    unfolding release_post_def Let_def by blast
  have n: "cl_preparation_failures claim = lg_preparation_failures l" using held by (simp add: claim_held_def)
  note le = le [unfolded n] and post = post0 [unfolded n]
  have l: "lg_dispatch_slots l = 0" "lg_outcome l = None"
    using held ledger_ok_open [of l] store_ok_ledger [OF assms(1)] by (auto simp: claim_held_def)
  show ?thesis
  proof (cases "fl_retryable failure \<and> lg_preparation_failures l + 1 < 3")
    case True
    then show ?thesis
      using held l post le
      by (intro exI [of _ l] exI [of _ "requeued_row (lg_preparation_failures l + 1) now l"]) (simp add: requeued_row_def)
  next
    case False
    then obtain u where u0: "command_outcome (cl_command claim) NOT_CALLED (fl_reason failure) None (fl_evidence failure) = Inr u"
      and u: "d = TERMINAL_NOT_CALLED" "row_of db' (rc_command_id (cl_command claim))
           = Some (closed_row OUTCOME_RECORDED u now l\<lparr>lg_preparation_failures := lg_preparation_failures l + 1\<rparr>)"
      using post by (auto simp only: if_False)
    with False held l le command_outcome_certainty [OF u0] show ?thesis
      by (intro exI [of _ l] exI [of _ "closed_row OUTCOME_RECORDED u now l\<lparr>lg_preparation_failures := lg_preparation_failures l + 1\<rparr>"])
         (auto simp: closed_row_def)
  qed
qed

definition sample_failure :: preparation_failure where
  "sample_failure = \<lparr>fl_reason = ''synthetic_timeout'', fl_retryable = True, fl_evidence = []\<rparr>"

theorem preparation_failures_bounded_witness:
  "\<exists>db d l'. release_preparation_failure sample_preparing sample_claim sample_failure 4500 = Inr (db, d)
     \<and> row_of db (rc_command_id sample_command) = Some l' \<and> lg_preparation_failures l' \<le> 3"
proof -
  have row: "row_of sample_preparing (rc_command_id sample_command) = Some sample_row"
    using load_ledger_Inr(3) [OF assert_live_Inr(2) [OF sample_live [of 4500]]] by simp
  have up: "update_ledger sample_preparing
      (\<lambda>r. lg_command_id r = rc_command_id sample_command \<and> lg_status r = PREPARING
         \<and> lg_claim_owner r = Some (lease_owner (cl_lease sample_claim))
         \<and> lg_fencing_token r = lease_token (cl_lease sample_claim) \<and> live_after 4500 r \<and> lg_dispatch_slots r = 0)
      (\<lambda>r. r\<lparr>lg_status := QUEUED, lg_claim_owner := None, lg_lease_acquired_at := None,
           lg_lease_expires_at := None, lg_preparation_failures := lg_preparation_failures sample_row + 1,
           lg_updated_at := 4500\<rparr>) err
    = Inr (set_row sample_preparing (requeued_row 1 4500 sample_row))" for err
    unfolding requeued_row_def
    by (rule update_ledger_hit [OF sample_preparing_ok row, THEN trans])
       (simp_all add: sample_row_fields sample_claim_def live_after_def)
  have "release_preparation_failure sample_preparing sample_claim sample_failure 4500
      = Inr (set_row sample_preparing (requeued_row 1 4500 sample_row), REQUEUED)"
    unfolding release_preparation_failure_def Let_def sample_live [of 4500, simplified] bind_res_simps prod.case up
    by (simp add: sample_failure_def max_preparation_failures_def sample_row_fields)
  then show ?thesis
    using preparation_failures_bounded [OF sample_preparing_ok] by (fastforce simp: sample_claim_def)
qed

section \<open>Recoveries\<close>

text \<open>
  The release of expired preparations is one update of the ledger table: every row that is
  prepared, not dispatched and past its lease goes back to the queue with its token and counters,
  no other row and no other table changes, and the number of such rows is the answer.
\<close>

theorem release_expired_is_one_update:
  assumes "store_ok db" "release_expired_pre_dispatch db now = Inr (db', n)"
  shows "db' = db\<lparr>db_ledger := update_where (\<lambda>r. lg_status r = PREPARING \<and> lg_dispatch_slots r = 0
         \<and> lg_outcome r = None \<and> expired_by now r) (requeue now) (db_ledger db)\<rparr>
    \<and> n = int (count_where (\<lambda>r. lg_status r = PREPARING \<and> lg_dispatch_slots r = 0
         \<and> lg_outcome r = None \<and> expired_by now r) (db_ledger db))"
proof -
  let ?p = "\<lambda>r. lg_status r = PREPARING \<and> lg_dispatch_slots r = 0 \<and> lg_outcome r = None \<and> expired_by now r"
  let ?ids = "expired_ids db now PREPARING 0"
  have d: "distinct (map lg_command_id (db_ledger db))" using assms(1) by (simp add: store_ok_def)
  have dist: "distinct ?ids"
    using d by (simp add: expired_ids_def distinct_map inj_on_def)
  have mem: "lg_command_id r \<in> set ?ids \<longleftrightarrow> ?p r" if "r \<in> set (db_ledger db)" for r
    using expired_ids_rows [OF assms(1), of "lg_command_id r" now PREPARING 0] find_row_unique [OF d that] by auto
  have len: "length ?ids = count_where ?p (db_ledger db)"
    by (simp add: expired_ids_def count_where_def)
  have "update_where (\<lambda>r. lg_command_id r \<in> set ?ids) (requeue now) (db_ledger db)
      = update_where ?p (requeue now) (db_ledger db)"
    using mem by (auto simp: update_where_def)
  with release_all_exact [OF assms(1) dist assms(2) [unfolded release_expired_pre_dispatch_def]] len
  show ?thesis by simp
qed

theorem release_expired_is_one_update_witness:
  "\<exists>db. release_expired_pre_dispatch sample_preparing 6000 = Inr (db, 1)
     \<and> db = sample_preparing\<lparr>db_ledger := [requeue 6000 sample_row]\<rparr>"
proof -
  note l = assert_live_Inr [OF sample_live [of 4500], simplified]
  have row: "row_of sample_preparing (rc_command_id sample_command) = Some sample_row"
    using load_ledger_Inr(3) [OF l(2)] .
  have cmd: "load_command sample_preparing (rc_command_id sample_command) = Inr sample_command"
    using l(1) by (simp add: sample_claim_def)
  let ?r = "requeue 6000 sample_row"
  have okr: "ledger_ok ?r"
    using release_row_good [OF sample_row_ok sample_row_fields(2), of 6000] by (simp add: row_step_def requeue_eq)
  have "load_ledger (set_row sample_preparing ?r) (rc_command_id sample_command) = Inr ?r"
  proof (rule load_ledger_row [OF _ _ okr])
    show "load_command (set_row sample_preparing ?r) (rc_command_id sample_command) = Inr sample_command"
      using cmd load_command_tables [of "set_row sample_preparing ?r" sample_preparing] by simp
    show "row_of (set_row sample_preparing ?r) (rc_command_id sample_command) = Some ?r"
      using row by (simp add: row_of_set_row sample_row_fields)
    show "ledger_timeline sample_command ?r = Inr ()"
      using sample_command_facts(2) by (simp add: ledger_timeline_def opt_all_def requeue_def requeued_row_def sample_row_fields)
    show "ledger_outcome_check sample_command ?r = Inr ()"
      by (simp add: ledger_outcome_check_def requeue_def requeued_row_def sample_row_fields)
  qed
  note new = this
  have up: "update_ledger sample_preparing
      (\<lambda>r. lg_command_id r = rc_command_id sample_command \<and> lg_status r = PREPARING
         \<and> lg_claim_owner r = lg_claim_owner sample_row \<and> lg_fencing_token r = lg_fencing_token sample_row
         \<and> lg_lease_acquired_at r = lg_lease_acquired_at sample_row
         \<and> lg_lease_expires_at r = lg_lease_expires_at sample_row
         \<and> lg_updated_at r = lg_updated_at sample_row \<and> lg_claim_count r = lg_claim_count sample_row
         \<and> lg_preparation_failures r = lg_preparation_failures sample_row \<and> expired_by 6000 r
         \<and> lg_dispatch_slots r = 0 \<and> lg_outcome r = None \<and> lg_outcome_hash r = None)
      (requeue 6000) err = Inr (set_row sample_preparing ?r)" for err
    by (rule update_ledger_hit [OF sample_preparing_ok row])
       (simp_all add: sample_row_fields expired_by_def requeue_def requeued_row_def)
  have "release_expired_row 6000 sample_preparing (rc_command_id sample_command)
      = bind_res (load_ledger (set_row sample_preparing ?r) (rc_command_id sample_command)) (\<lambda>updated.
          if lg_status updated \<noteq> QUEUED \<or> lg_claim_owner updated \<noteq> None \<or> lg_dispatch_slots updated \<noteq> 0
             \<or> lg_fencing_token updated \<noteq> lg_fencing_token sample_row
             \<or> lg_claim_count updated \<noteq> lg_claim_count sample_row
          then Inl (DataCorruption ''released pre-dispatch ledger projection is invalid'')
          else Inr (set_row sample_preparing ?r))"
    unfolding release_expired_row_def requeue_eq cmd bind_res_simps l(2) l(3) up
    by (rule if_not_P) (use l(5) in \<open>simp add: sample_row_fields\<close>)
  then have step: "release_expired_row 6000 sample_preparing (rc_command_id sample_command)
      = Inr (set_row sample_preparing ?r)"
    unfolding new bind_res_simps by (simp add: requeue_def requeued_row_def sample_row_fields)
  have "expired_ids sample_preparing 6000 PREPARING 0 = [rc_command_id sample_command]"
    by (simp add: expired_ids_def sample_preparing_def sample_row_fields expired_by_def)
  then have run: "release_expired_pre_dispatch sample_preparing 6000 = Inr (set_row sample_preparing ?r, 1)"
    using step by (simp add: release_expired_pre_dispatch_def)
  from release_expired_is_one_update [OF sample_preparing_ok run] run show ?thesis
    by (simp add: sample_preparing_def update_where_def sample_row_fields expired_by_def)
qed

end
