(* ===== verification/Exec_Safety.thy ===== *)
theory Exec_Safety
  imports Exec_Example
begin

text \<open>
  The properties of the execution store over whole histories: any calls, by any number of workers,
  in any order, some of which fail and roll back. They are what keeps a reservation from being
  sent to a provider twice and an answer of the provider from being lost or overwritten.
\<close>

section \<open>Invariant and monotonicity\<close>

text \<open>
  C6: Whatever calls the store serves, its invariant holds (keys are unique, every stored state,
  command and ledger row is well formed, every ledger row has its command, and commands of one
  draft version are not in flight together) and it only evolves: events and commands are appended
  and never changed, counters and fencing tokens of a ledger row only grow, its dispatch slot is
  never given back, and a recorded outcome or a delivered message is final.
\<close>

theorem store_history_safe:
  assumes "store_ok db" "list_all wf_call calls"
  shows "store_ok (store_after v db calls) \<and> store_evolves db (store_after v db calls)"
  using store_after_commits [OF assms] by (simp add: commits_def)

theorem store_history_safe_witness:
  "store_ok (store_after sample_validator sample_store [ClaimCommand ''worker:1'' 4000 1000])
     \<and> store_evolves sample_store (store_after sample_validator sample_store [ClaimCommand ''worker:1'' 4000 1000])"
  by (rule store_history_safe) (simp_all add: sample_store_ok)

section \<open>At most one dispatch\<close>

fun permits :: "string \<Rightarrow> store_reply \<Rightarrow> bool" where
  "permits cid (DispatchPermitted p) = (pm_command_id p = cid)"
| "permits cid _ = False"

definition dispatch_budget :: "string \<Rightarrow> store \<Rightarrow> nat" where
  "dispatch_budget cid db =
     (case row_of db cid of None \<Rightarrow> 1 | Some l \<Rightarrow> if lg_dispatch_slots l = 0 then 1 else 0)"

lemma permits_fence:
  assumes ok: "store_ok db" and "permits cid (snd (serve v db c))"
  shows "dispatch_budget cid db = 1 \<and> dispatch_budget cid (fst (serve v db c)) = 0"
proof -
  obtain claim q now where c: "c = FenceDispatch claim q now"
    using assms(2) by (cases c) (auto simp: transaction_def split: sum.splits)
  obtain db' p where f: "fence_dispatch db claim q now = Inr (db', p)" and p: "pm_command_id p = cid"
    using assms(2) by (auto simp: c transaction_def split: sum.splits)
  have "fence_post db claim q now db' p" using ensuresD [OF fence_dispatch_facts [OF ok] f] by simp
  moreover have "rc_command_id (cl_command claim) = cid"
    using calculation p by (auto simp: fence_post_def)
  ultimately show ?thesis
    by (auto simp: fence_post_def claim_held_def dispatch_budget_def fenced_row_def c f transaction_def)
qed

lemma store_evolves_row: "store_evolves a b \<Longrightarrow> row_of a cid = Some l \<Longrightarrow>
    \<exists>l'. row_of b cid = Some l' \<and> ledger_evolves l l'"
  by (simp add: store_evolves_def table_evolves_def)

lemma budget_evolves:
  assumes "store_evolves a b"
  shows "dispatch_budget cid b \<le> dispatch_budget cid a"
proof (cases "row_of a cid")
  case (Some l)
  then show ?thesis
    using store_evolves_row [OF assms Some] by (auto simp: dispatch_budget_def ledger_evolves_def)
qed (simp add: dispatch_budget_def split: option.split)

lemma length_filter_sum: "length (filter p xs) = sum_list (map (\<lambda>t. if p t then 1 else 0 :: nat) xs)"
  by (induction xs) auto

text \<open>
  C4: In any history of calls, with any interleaving of claims, expiries, renewals and retries, at
  most one dispatch permit is ever given out for a command, and none for a command that was
  already dispatched when the history began.
\<close>

theorem single_dispatch:
  assumes "store_ok db" "list_all wf_call calls"
  shows "length (filter (\<lambda>t. permits cid (snd t)) (history v db calls)) \<le> dispatch_budget cid db"
proof -
  have "sum_list (map (\<lambda>t. if permits cid (snd t) then 1 else 0 :: nat) (history v db calls))
      + dispatch_budget cid (final_state fst db (history v db calls)) \<le> dispatch_budget cid db"
  proof (rule service.run_emits [OF _ assms history_run])
    fix db c t
    assume *: "store_ok db" "wf_call c" "(Inr (serve v db c) :: (store \<times> store_reply) res) = Inr t"
    then show "(if permits cid (snd t) then 1 else 0) + dispatch_budget cid (fst t) \<le> dispatch_budget cid db"
      using permits_fence [OF *(1)] budget_evolves [OF serve_evolves [OF *(1,2)]] by auto
  qed
  then show ?thesis by (simp add: length_filter_sum)
qed

theorem single_dispatch_witness:
  "length (filter (\<lambda>t. permits (rc_command_id sample_command) (snd t))
     (history sample_validator sample_preparing [FenceDispatch sample_claim sample_request 4500,
        FenceDispatch sample_claim sample_request 4500])) \<le> 1"
proof -
  have "dispatch_budget (rc_command_id sample_command) sample_preparing = 1"
    by (simp add: dispatch_budget_def sample_preparing_def sample_row_fields)
  then show ?thesis
    using single_dispatch [OF sample_preparing_ok, of "[FenceDispatch sample_claim sample_request 4500,
        FenceDispatch sample_claim sample_request 4500]" "rc_command_id sample_command" sample_validator] by simp
qed

section \<open>Fencing tokens\<close>

fun claimed_tokens :: "string \<Rightarrow> store_reply \<Rightarrow> int list" where
  "claimed_tokens cid (CommandClaimed (Some claim)) =
     (if rc_command_id (cl_command claim) = cid then [lease_token (cl_lease claim)] else [])"
| "claimed_tokens cid _ = []"

definition token_level :: "string \<Rightarrow> store \<Rightarrow> int" where
  "token_level cid db = (case row_of db cid of None \<Rightarrow> 0 | Some l \<Rightarrow> lg_fencing_token l)"

lemma token_level_evolves:
  assumes "store_ok b" "store_evolves a b"
  shows "token_level cid a \<le> token_level cid b"
proof (cases "row_of a cid")
  case None
  then show ?thesis
    using store_ok_ledger [OF assms(1), of cid] ledger_ok_counters
    by (auto simp: token_level_def split: option.split)
next
  case (Some l)
  then show ?thesis
    using store_evolves_row [OF assms(2) Some] by (auto simp: token_level_def ledger_evolves_def)
qed

lemma claimed_tokens_claim:
  assumes ok: "store_ok db"
  shows "sorted_wrt (<) (claimed_tokens cid (snd (serve v db c)))
    \<and> (\<forall>x \<in> set (claimed_tokens cid (snd (serve v db c))).
         token_level cid db < x \<and> x \<le> token_level cid (fst (serve v db c)))"
proof (cases "claimed_tokens cid (snd (serve v db c))")
  case (Cons x xs)
  then obtain claim where cl: "snd (serve v db c) = CommandClaimed (Some claim)" "xs = []"
      "rc_command_id (cl_command claim) = cid" "x = lease_token (cl_lease claim)"
    by (cases "snd (serve v db c)") (auto split: if_splits elim!: claimed_tokens.elims)
  then obtain w now ttl db' where c: "c = ClaimCommand w now ttl" and k: "claim_command db w now ttl = Inr (db', Some claim)"
    by (cases c) (auto simp: transaction_def split: sum.splits)
  have "claim_post db w now db' claim" using ensuresD [OF claim_command_facts [OF ok] k] by simp
  then show ?thesis
    using cl by (auto simp: claim_post_def claimed_row_def token_level_def c k transaction_def)
qed simp

text \<open>
  C17: The claims of a command that a history hands out carry strictly increasing fencing tokens:
  no two workers ever hold the same token, and a later holder always has the larger one.
\<close>

theorem claims_never_share_a_token:
  assumes "store_ok db" "list_all wf_call calls"
  shows "sorted_wrt (<) (concat (map (\<lambda>t. claimed_tokens cid (snd t)) (history v db calls)))"
proof -
  have "sorted_wrt (<) (concat (map (\<lambda>t. claimed_tokens cid (snd t)) (history v db calls)))
    \<and> (\<forall>x \<in> set (concat (map (\<lambda>t. claimed_tokens cid (snd t)) (history v db calls))). token_level cid db < x)"
  proof (rule service.run_increasing [OF _ assms history_run])
    fix db c t
    assume *: "store_ok db" "wf_call c" "(Inr (serve v db c) :: (store \<times> store_reply) res) = Inr t"
    then have t: "t = serve v db c" by simp
    have "token_level cid db \<le> token_level cid (fst t)"
      using serve_commits [OF *(1,2)] token_level_evolves by (simp add: t commits_def)
    then show "sorted_wrt (<) (claimed_tokens cid (snd t)) \<and> token_level cid db \<le> token_level cid (fst t)
      \<and> (\<forall>x \<in> set (claimed_tokens cid (snd t)). token_level cid db < x \<and> x \<le> token_level cid (fst t))"
      using claimed_tokens_claim [OF *(1)] by (simp add: t)
  qed
  then show ?thesis ..
qed

theorem claims_never_share_a_token_witness:
  "sorted_wrt (<) (concat (map (\<lambda>t. claimed_tokens (rc_command_id sample_command) (snd t))
     (history sample_validator sample_store [ClaimCommand ''worker:1'' 4000 1000, ClaimCommand ''worker:2'' 6000 1000])))"
  by (rule claims_never_share_a_token) (simp_all add: sample_store_ok)

section \<open>Stale holders\<close>

text \<open>A second worker takes the sample booking over once the first lease has expired.\<close>

lemma sample_reclaimed:
  "\<exists>db claim s. claim_command sample_preparing ''worker:2'' 6000 1000 = Inr (db, Some claim)
     \<and> cl_command claim = sample_command \<and> store_ok db
     \<and> assert_live_preparation_claim db claim 6000 = Inr (sample_command, claimed_row ''worker:2'' 6000 7000 sample_row, s)
     \<and> db = set_row sample_preparing (claimed_row ''worker:2'' 6000 7000 sample_row) \<and> s = sample_executing
     \<and> row_of db (rc_command_id sample_command) = Some (claimed_row ''worker:2'' 6000 7000 sample_row)"
proof -
  note e = sample_executing_facts and c = sample_command_facts
  have x: "lease_deadline 6000 1000 = Inr 7000"
    by (simp add: lease_deadline_def require_lease_ttl_def add_timedelta_def max_timestamp_def us_per_day_def)
  have w: "id_re ''worker:2''" by (simp add: evaluate_text)
  have first: "first_by (claim_order sample_preparing) (claimable sample_preparing 6000) (db_ledger sample_preparing)
      = Some sample_row"
    by (simp add: sample_preparing_def first_by_def claimable_def sample_row_fields expired_by_def sibling_busy_def)
  note l = assert_live_Inr [OF sample_live [of 4500], simplified]
  have starts: "claim_starts sample_preparing sample_command sample_executing 6000"
    using e(3) by (simp add: claim_starts_def)
  have cmd: "load_command sample_preparing (rc_command_id sample_command) = Inr sample_command"
    using l(1) by (simp add: sample_claim_def)
  obtain db claim s where k: "claim_command sample_preparing ''worker:2'' 6000 1000 = Inr (db, Some claim)"
      "cl_command claim = sample_command"
      "assert_live_preparation_claim db claim 6000 = Inr (sample_command, claimed_row ''worker:2'' 6000 7000 sample_row, s)"
      "phase sample_executing \<noteq> EXECUTION_QUEUED \<longrightarrow>
         db = set_row sample_preparing (claimed_row ''worker:2'' 6000 7000 sample_row) \<and> s = sample_executing"
    using claim_command_enabled [OF sample_preparing_ok w x first _ l(2,3) _ starts] cmd
    by (auto simp: sample_row_fields)
  moreover have "phase sample_executing \<noteq> EXECUTION_QUEUED"
    using e(3) by (simp add: executing_command_def)
  moreover have "store_ok db"
    using ensuresD [OF claim_command_commits [OF sample_preparing_ok] k(1)] commits_ok by auto
  moreover have "row_of db (rc_command_id sample_command) = Some (claimed_row ''worker:2'' 6000 7000 sample_row)"
    using load_ledger_Inr(3) [OF assert_live_Inr(2) [OF k(3)]] .
  ultimately show ?thesis by blast
qed

text \<open>
  C23: A worker whose lease was taken over is refused for ever: once the row of its command carries
  a larger fencing token, its claim can neither be renewed nor fenced nor released and its permit
  can record nothing, at any later time and after any further calls.
\<close>

theorem stale_holder_refused:
  assumes "store_ok db" "list_all wf_call calls" "wf_outcome u"
    and "row_of db (rc_command_id (cl_command claim)) = Some l" "lease_token (cl_lease claim) < lg_fencing_token l"
    and "pm_command_id permit = rc_command_id (cl_command claim)" "pm_lease permit = cl_lease claim"
  shows "\<exists>e1 e2 e3 e4. fence_dispatch (store_after v db calls) claim q now = Inl e1
    \<and> renew_command_lease (store_after v db calls) claim now ttl = Inl e2
    \<and> release_preparation_failure (store_after v db calls) claim failure now = Inl e3
    \<and> record_outcome v (store_after v db calls) permit u now = Inl e4"
proof -
  let ?db = "store_after v db calls"
  have c: "commits db ?db" using store_after_commits [OF assms(1,2)] .
  then have ok: "store_ok ?db" by (rule commits_ok)
  have "table_evolves lg_command_id ledger_evolves (db_ledger db) (db_ledger ?db)"
    using c by (simp add: commits_def store_evolves_def)
  from ledger.stale_forever [OF this assms(4,5)] obtain l' where l':
    "row_of ?db (rc_command_id (cl_command claim)) = Some l'" "lg_fencing_token l' \<noteq> lease_token (cl_lease claim)"
    by blast
  then have not_held: "\<not> claim_held ?db claim now x" for x by (auto simp: claim_held_def)
  have "\<exists>e. fence_dispatch ?db claim q now = Inl e"
    using fence_dispatch_facts [OF ok, of claim q now] not_held
    by (cases "fence_dispatch ?db claim q now") (auto simp: fence_post_def)
  moreover have "\<exists>e. renew_command_lease ?db claim now ttl = Inl e"
    using renew_command_lease_facts [OF ok, of claim now ttl] not_held
    by (cases "renew_command_lease ?db claim now ttl") auto
  moreover have "\<exists>e. release_preparation_failure ?db claim failure now = Inl e"
    using release_preparation_failure_facts [OF ok, of claim failure now] not_held
    by (cases "release_preparation_failure ?db claim failure now") (auto simp: release_post_def Let_def)
  moreover have "\<exists>e. record_outcome v ?db permit u now = Inl e"
    using record_outcome_facts [OF ok assms(3), where v = v and permit = permit and now = now] l' assms(6,7)
    by (cases "record_outcome v ?db permit u now") (auto simp: record_post_def)
  ultimately show ?thesis by blast
qed

theorem stale_holder_refused_witness:
  "\<exists>db claim e. claim_command sample_preparing ''worker:2'' 6000 1000 = Inr (db, Some claim)
     \<and> fence_dispatch (store_after sample_validator db [ReleaseExpired 9000]) sample_claim sample_request 6500 = Inl e"
proof -
  obtain db claim where k: "claim_command sample_preparing ''worker:2'' 6000 1000 = Inr (db, Some claim)"
    and ok: "store_ok db"
    and row: "row_of db (rc_command_id sample_command) = Some (claimed_row ''worker:2'' 6000 7000 sample_row)"
    using sample_reclaimed by blast
  let ?permit = "\<lparr>pm_command_id = rc_command_id sample_command, pm_lease = cl_lease sample_claim,
      pm_dispatch_slot = 1, pm_request_hash = dq_payload_hash sample_request, pm_fenced_at = 6000\<rparr>"
  have "list_all wf_call [ReleaseExpired 9000]"
    "row_of db (rc_command_id (cl_command sample_claim)) = Some (claimed_row ''worker:2'' 6000 7000 sample_row)"
    "lease_token (cl_lease sample_claim) < lg_fencing_token (claimed_row ''worker:2'' 6000 7000 sample_row)"
    "pm_command_id ?permit = rc_command_id (cl_command sample_claim)" "pm_lease ?permit = cl_lease sample_claim"
    using row by (simp_all add: sample_claim_def claimed_row_def sample_row_fields)
  from stale_holder_refused [OF ok this(1) sample_outcome_wf this(2-), of sample_validator sample_request 6500] k
  show ?thesis by blast
qed

section \<open>Dispatched rows\<close>

lemma sample_dispatched_row:
  "row_of sample_dispatched (rc_command_id sample_command)
     = Some (fenced_row (dq_payload_hash sample_request) 4500 sample_row)"
  "load_command sample_dispatched (rc_command_id sample_command) = Inr sample_command"
  using load_ledger_Inr(3) [OF assert_permit_Inr(2) [OF sample_fence(2)]]
    assert_permit_Inr(1) [OF sample_fence(2)] sample_fence(5) by simp_all

text \<open>
  C12: A dispatched command is never prepared or queued again: in every later store its row still
  holds the dispatch slot, the request and the time of the one dispatch, and its status is
  dispatched, closed or under manual review.
\<close>

theorem dispatched_never_requeued:
  assumes "store_ok db" "list_all wf_call calls" "row_of db cid = Some l" "lg_dispatch_slots l = 1"
  shows "\<exists>l'. row_of (store_after v db calls) cid = Some l'
    \<and> lg_status l' \<in> {DISPATCH_FENCED, OUTCOME_RECORDED, LEDGER_MANUAL_REVIEW}
    \<and> lg_dispatch_slots l' = 1 \<and> lg_request_hash l' = lg_request_hash l \<and> lg_fenced_at l' = lg_fenced_at l
    \<and> lg_fencing_token l' = lg_fencing_token l"
proof -
  have c: "commits db (store_after v db calls)" using store_after_commits [OF assms(1,2)] .
  from commits_row [OF c assms(3)] obtain l' where l': "row_of (store_after v db calls) cid = Some l'"
    "ledger_evolves l l'" by blast
  have "ledger_ok l'" using store_ok_ledger [OF commits_ok [OF c] l'(1)] by simp
  then have "lg_status l' \<notin> {QUEUED, PREPARING}"
    using ledger_ok_slots l'(2) assms(4) by (auto simp: ledger_evolves_def)
  then have "lg_status l' \<in> {DISPATCH_FENCED, OUTCOME_RECORDED, LEDGER_MANUAL_REVIEW}"
    by (cases "lg_status l'") auto
  with l' assms(4) show ?thesis by (auto simp: ledger_evolves_def)
qed

theorem dispatched_never_requeued_witness:
  "\<exists>l. row_of (store_after sample_validator sample_dispatched [ReleaseExpired 9000, MarkUnknown 9000,
       ClaimCommand ''worker:2'' 9000 1000]) (rc_command_id sample_command) = Some l
     \<and> lg_status l \<in> {DISPATCH_FENCED, OUTCOME_RECORDED, LEDGER_MANUAL_REVIEW}"
proof -
  have "lg_dispatch_slots (fenced_row (dq_payload_hash sample_request) 4500 sample_row) = 1"
    by (simp add: fenced_row_def)
  from dispatched_never_requeued [OF sample_fence(4) _ sample_dispatched_row(1) this, of "[ReleaseExpired 9000,
       MarkUnknown 9000, ClaimCommand ''worker:2'' 9000 1000]" sample_validator]
  show ?thesis by auto
qed

end
