(* ===== verification/Exec_Recovery_Progress.thy ===== *)
theory Exec_Recovery_Progress
  imports Exec_Progress
begin

text \<open>
  The recovery of expired dispatches succeeds: when every overdue row can be read and belongs to a
  workflow that is executing its command, and the events and the message the recovery derives from
  it are new, one pass closes all of them. Each row is closed in a store the earlier rows of the
  same pass have written, so the lemmas say what one closing leaves untouched.
\<close>

section \<open>One overdue row\<close>

text \<open>What the recovery reads of a dispatched row, and the outcome it derives from it.\<close>

definition overdue_work ::
  "store \<Rightarrow> string \<Rightarrow> (reservation_command \<times> ledger_snapshot \<times> state \<times> execution_outcome) res" where
  "overdue_work db cid =
     bind_res (load_command db cid) (\<lambda>c.
     bind_res (load_ledger db (rc_command_id c)) (\<lambda>l.
     bind_res (load_workflow db (rc_workflow_id c)) (\<lambda>s.
     bind_res (dispatch_request_from_command c (command_envelope c)) (\<lambda>q.
     bind_res (command_outcome c CALLED_UNKNOWN ''dispatch_outcome_unknown_after_expiry'' None
                 [the (lg_request_hash l)]) (\<lambda>u.
     if executing_command s c \<and> lg_request_hash l = Some (dq_payload_hash q) then Inr (c, l, s, u)
     else Inl (DataCorruption ''expired dispatch fence has an impossible projection''))))))"

text \<open>The identifiers a recovery of the row uses: its two events and its message.\<close>

definition unknown_events :: "store \<Rightarrow> string \<Rightarrow> string list" where
  "unknown_events db cid =
     (case overdue_work db cid of
        Inl _ \<Rightarrow> []
      | Inr (c, l, s, u) \<Rightarrow>
          [finished_event_id c u (sha256_hex (dumps_outcome u)),
           review_event_id c (sha256_hex (dumps_outcome u))])"

definition unknown_message :: "string \<Rightarrow> string" where
  "unknown_message cid = execution_message_id cid CALLED_UNKNOWN ''reservation.execution.manual_review.v1''"

definition recoverable :: "store \<Rightarrow> timestamp \<Rightarrow> string \<Rightarrow> bool" where
  "recoverable db now cid \<longleftrightarrow>
     (case overdue_work db cid of
        Inl _ \<Rightarrow> False
      | Inr (c, l, s, u) \<Rightarrow>
          sm_last_event_at (st_meta s) \<le> now \<and> list_all (fresh_event db s) (unknown_events db cid)
          \<and> list_all (\<lambda>r. outbox_key r \<noteq> unknown_message cid
              \<and> om_idempotency_key (os_message r) \<noteq> unknown_message cid) (db_outbox db))"

lemma overdue_work_Inr:
  assumes "overdue_work db cid = Inr (c, l, s, u)"
  shows "load_command db cid = Inr c" "rc_command_id c = cid" "load_ledger db cid = Inr l"
    "load_workflow db (rc_workflow_id c) = Inr s" "executing_command s c"
    "\<exists>q. dispatch_request_from_command c (command_envelope c) = Inr q \<and> lg_request_hash l = Some (dq_payload_hash q)"
    "command_outcome c CALLED_UNKNOWN ''dispatch_outcome_unknown_after_expiry'' None [the (lg_request_hash l)] = Inr u"
  using assms load_command_Inr [of db cid c]
  by (auto simp: overdue_work_def bind_res_Inr_iff simp del: id_re.simps split: if_splits)

lemma unknown_outcome_facts:
  assumes "command_outcome c CALLED_UNKNOWN st None ev = Inr u" "wf_command c"
  shows "wf_outcome u \<and> eo_command_id u = rc_command_id c \<and> eo_certainty u = CALLED_UNKNOWN"
  using command_outcome_wf [OF assms(1)] command_outcome_certainty [OF assms(1)] assms wf_command_ids [OF assms(2)]
  by (auto simp: command_outcome_def mk_execution_outcome_def bind_res_Inr_iff Let_def simp del: id_re.simps split: if_splits)

lemma unknown_message_projected:
  assumes "wf_command c" "eo_command_id u = rc_command_id c" "eo_certainty u = CALLED_UNKNOWN"
  shows "\<exists>m. project_outcome_outbox c u now = Inr m \<and> om_message_id m = unknown_message (rc_command_id c)
    \<and> om_idempotency_key m = unknown_message (rc_command_id c)"
proof -
  have "id_re (unknown_message (rc_command_id c))" unfolding unknown_message_def by (rule outbox_id_ok)
  moreover have "id_re (rc_workflow_id c)" "id_re (rc_command_id c)" using wf_command_ids [OF assms(1)] assms(1)
    by (auto simp: wf_command_def simp del: id_re.simps)
  ultimately show ?thesis
    using template_ids_ok assms(2,3)
    by (simp add: project_outcome_outbox_def outcome_template_def execution_message_def Let_def
        mk_outbox_message_def optional_id_def canonical_json_object_def unknown_message_def del: id_re.simps)
qed

text \<open>What one closing writes, and what it leaves of other commands and workflows.\<close>

definition closes :: "store \<Rightarrow> reservation_command \<Rightarrow> string list \<Rightarrow> store \<Rightarrow> bool" where
  "closes db c eids db' \<longleftrightarrow>
     db_commands db' = db_commands db
     \<and> (\<forall>cid. cid \<noteq> rc_command_id c \<longrightarrow> row_of db' cid = row_of db cid)
     \<and> (\<forall>wid. wid \<noteq> rc_workflow_id c \<longrightarrow>
          find_row workflow_key wid (db_workflows db') = find_row workflow_key wid (db_workflows db))
     \<and> (\<exists>es. db_events db' = db_events db @ es \<and> map event_key es = eids
          \<and> list_all (\<lambda>e. ev_workflow_id e = rc_workflow_id c) es)
     \<and> (\<exists>m. db_outbox db' = db_outbox db @ [m] \<and> outbox_key m = unknown_message (rc_command_id c)
          \<and> om_idempotency_key (os_message m) = unknown_message (rc_command_id c))"

lemma review_transition_msg:
  "review_transition m c s h now = Inr x \<Longrightarrow> review_transition m' c s h now = Inr x"
  by (auto simp: review_transition_def bind_res_Inr_iff split: if_splits)

lemma review_transition_id: "review_transition m c s h now = Inr (review, t) \<Longrightarrow> event_id review = review_event_id c h"
  by (auto simp: review_transition_def review_event_id_def mk_review bind_res_Inr_iff simp del: mk_event.simps
      split: if_splits)

lemma find_update_other:
  "(\<And>r. p r \<Longrightarrow> key r = k') \<Longrightarrow> (\<And>r. p r \<Longrightarrow> key (f r) = k') \<Longrightarrow> k \<noteq> k' \<Longrightarrow>
     find_row key k (update_where p f rows) = find_row key k rows"
  by (induction rows) (auto simp: find_row_def update_where_def)

lemma update_state_others:
  assumes "update_state_compare_and_swap db cur nxt = Inr db'"
    and "sm_workflow_id (st_meta nxt) = sm_workflow_id (st_meta cur)" "wid \<noteq> sm_workflow_id (st_meta cur)"
  shows "find_row workflow_key wid (db_workflows db') = find_row workflow_key wid (db_workflows db)"
proof -
  obtain h p f where "db_workflows db' = update_where p f (db_workflows db)"
    "\<And>r. p r \<Longrightarrow> workflow_key r = sm_workflow_id (st_meta cur)"
    "\<And>r. workflow_key (f r) = sm_workflow_id (st_meta nxt)"
    using assms(1) by (auto simp: update_state_compare_and_swap_def bind_res_Inr_iff swap_one_Inr workflow_key_def)
  then show ?thesis using assms(2,3) find_update_other [of p workflow_key] by metis
qed

lemma overdue_times:
  assumes "store_ok db" "load_ledger db cid = Inr l" "load_command db cid = Inr c" "lg_status l = DISPATCH_FENCED"
    and "expired_by now l"
  shows "\<exists>w f a x. lg_claim_owner l = Some w \<and> lg_fenced_at l = Some f \<and> lg_lease_acquired_at l = Some a
    \<and> lg_lease_expires_at l = Some x \<and> a \<le> f \<and> f = lg_updated_at l \<and> lg_updated_at l < x \<and> x \<le> now"
  using load_ledger_Inr [OF assms(2)] ledger_ok_fenced [of l] ledger_ok_leased [of l] assms(3-)
  by (auto simp: ledger_timeline_def expired_by_def split: if_splits option.splits)

text \<open>The two events of the recovery, as its two inserts write them.\<close>

lemma recovery_events:
  assumes wf: "wf_state s" and ex: "executing_command s c" and sid: "sm_workflow_id (st_meta s) = rc_workflow_id c"
    and u: "wf_outcome u" "eo_command_id u = rc_command_id c" "eo_certainty u = CALLED_UNKNOWN"
    and fresh: "outcome_fresh db c s u now" and h: "h = sha256_hex (dumps_outcome u)"
    and e: "e = ExecutionFinished (finished_event_id c u h) now (rc_command_id c) u"
  shows "\<exists>t1 review final db1 db2. reduce s e = Inr t1 \<and> tr_status t1 = APPLIED \<and> tr_commands t1 = []
    \<and> phase (tr_state t1) = PHASE_UNCERTAIN
    \<and> review_transition ''reconciled unknown did not produce mandatory manual review''
        c (tr_state t1) h now = Inr (review, final)
    \<and> insert_event opn db (rc_workflow_id c) e (sm_revision (st_meta (tr_state t1))) = Inr db1
    \<and> insert_event opn db1 (rc_workflow_id c) review (sm_revision (st_meta (tr_state final))) = Inr db2
    \<and> event_id review = review_event_id c h
    \<and> wf_state (tr_state final) \<and> sm_workflow_id (st_meta (tr_state final)) = sm_workflow_id (st_meta s)
    \<and> sm_last_event_at (st_meta s) \<le> sm_last_event_at (st_meta (tr_state final))
    \<and> sm_revision (st_meta s) < sm_revision (st_meta (tr_state final))"
proof -
  have "eo_certainty u \<noteq> NOT_CALLED" using u(3) by simp
  from finish_then_review [OF wf ex u(1,2) this fresh h e, of opn] obtain t1 events final db2
    where t1: "reduce s e = Inr t1" "tr_status t1 = APPLIED" "tr_commands t1 = []" "phase (tr_state t1) = PHASE_UNCERTAIN"
    and fin: "bind_res (review_transition ''uncertain outcome did not produce mandatory manual review''
                       c (tr_state t1) h now) (\<lambda>(review, t2).
                       Inr ([(e, sm_revision (st_meta (tr_state t1))),
                             (review, sm_revision (st_meta (tr_state t2)))], t2)) = Inr (events, final)"
    and ins: "foldl (\<lambda>acc er. bind_res acc (\<lambda>db. insert_event opn db (rc_workflow_id c) (fst er) (snd er)))
          (Inr db) events = Inr db2"
    and final: "wf_state (tr_state final)" "sm_workflow_id (st_meta (tr_state final)) = sm_workflow_id (st_meta s)"
      "sm_last_event_at (st_meta s) \<le> sm_last_event_at (st_meta (tr_state final))"
      "sm_revision (st_meta s) < sm_revision (st_meta (tr_state final))"
    using u(3) sid by (auto simp: outcome_phase_def)
  obtain review where rt: "review_transition ''uncertain outcome did not produce mandatory manual review''
        c (tr_state t1) h now = Inr (review, final)"
    and events: "events = [(e, sm_revision (st_meta (tr_state t1))), (review, sm_revision (st_meta (tr_state final)))]"
    using fin by (auto simp: bind_res_Inr_iff)
  have "event_id review = review_event_id c h" using review_transition_id [OF rt] .
  with t1 rt final ins show ?thesis
    by (auto simp: events bind_res_Inr_iff dest: review_transition_msg)
qed

lemma update_ledger_others:
  assumes "update_ledger db p f err = Inr db'" "\<And>r. p r \<Longrightarrow> lg_command_id r = cid" "\<And>r. lg_command_id (f r) = lg_command_id r"
    and "k \<noteq> cid"
  shows "row_of db' k = row_of db k"
proof -
  have "db_ledger db' = update_where (\<lambda>r. lg_command_id r = cid \<and> p r) f (db_ledger db)"
    using assms(1,2) by (auto simp: update_ledger_def bind_res_Inr_iff swap_one_Inr update_where_def)
  moreover have "find_row lg_command_id k (update_where (\<lambda>r. lg_command_id r = cid \<and> p r) f rows) = find_row lg_command_id k rows"
    for rows using assms(3,4) by (induction rows) (auto simp: update_where_def)
  ultimately show ?thesis by simp
qed

text \<open>A closing that committed wrote exactly its two events and its message.\<close>

lemma mark_unknown_row_closes:
  assumes ok: "store_ok db" and run: "mark_unknown_row now db cid = Inr db'"
    and work: "overdue_work db cid = Inr (c, l, s, u)"
  shows "closes db c (unknown_events db cid) db'"
proof -
  note w = overdue_work_Inr [OF work]
  have "ensures (closes db c (unknown_events db cid)) (mark_unknown_row now db cid)"
    unfolding mark_unknown_row_def Let_def
  proof (intro ensures_rules; (simp only: ensures_Inl ensures_Inr)?)
    fix c' l' s' ex u' e t1 review t2 m db1 db2 db3 db4 db5
    assume c: "load_command db cid = Inr c'"
      and live: "load_ledger db (rc_command_id c') = Inr l'" "load_workflow db (rc_workflow_id c') = Inr s'"
      and u: "command_outcome c' CALLED_UNKNOWN ''dispatch_outcome_unknown_after_expiry'' None
                 [the (lg_request_hash l')] = Inr u'"
      and e: "mk_event (ExecutionFinished (finished_event_id c' u' (sha256_hex (dumps_outcome u'))) now
                    (rc_command_id c') u') = Inr e"
      and t1: "reduce s' e = Inr t1"
      and t2: "review_transition ''reconciled unknown did not produce mandatory manual review''
                 c' (tr_state t1) (sha256_hex (dumps_outcome u')) now = Inr (review, t2)"
      and m: "project_outcome_outbox c' u' now = Inr m"
      and ins: "insert_event ''mark_expired_fenced_unknown'' db (rc_workflow_id c') e
                 (sm_revision (st_meta (tr_state t1))) = Inr db1"
        "insert_event ''mark_expired_fenced_unknown'' db1 (rc_workflow_id c') review
                 (sm_revision (st_meta (tr_state t2))) = Inr db2"
      and swap: "update_state_compare_and_swap db2 s' (tr_state t2) = Inr db3"
      and up: "update_ledger db3
       (\<lambda>r. lg_command_id r = rc_command_id c' \<and> lg_status r = DISPATCH_FENCED
            \<and> lg_claim_owner r = lg_claim_owner l' \<and> lg_fencing_token r = lg_fencing_token l'
            \<and> lg_lease_acquired_at r = lg_lease_acquired_at l'
            \<and> lg_lease_expires_at r = lg_lease_expires_at l'
            \<and> lg_updated_at r = lg_updated_at l' \<and> lg_claim_count r = lg_claim_count l'
            \<and> lg_preparation_failures r = lg_preparation_failures l' \<and> expired_by now r
            \<and> lg_dispatch_slots r = 1 \<and> lg_request_hash r = lg_request_hash l'
            \<and> lg_fenced_at r = lg_fenced_at l' \<and> lg_outcome r = None \<and> lg_outcome_hash r = None)
       (\<lambda>r. r\<lparr>lg_status := LEDGER_MANUAL_REVIEW, lg_claim_owner := None, lg_lease_acquired_at := None,
              lg_lease_expires_at := None, lg_outcome := Some u',
              lg_outcome_hash := Some (sha256_hex (dumps_outcome u')), lg_updated_at := now\<rparr>)
       (ConcurrencyConflict ''expired dispatch reconciliation lost its compare-and-swap'') = Inr db4"
      and out: "insert_outbox db4 m = Inr db5"
    have same: "c' = c" "l' = l" "s' = s" "u' = u" using c live u w(1-4,7) by auto
    have wf: "wf_state s" "wf_command c" using load_workflow_wf [OF ok w(4)] load_command_wf [OF ok w(1)] by auto
    have sid: "sm_workflow_id (st_meta s) = rc_workflow_id c" using load_workflow_Inr(1) [OF w(4)] .
    note u = unknown_outcome_facts [OF w(7) wf(2)]
    note f1 = reduce_result_facts [OF wf(1) operational_event_wf(1) [OF e [unfolded same] conjunct1 [OF u]] t1 [unfolded same]]
    note f2 = review_transition_facts [OF t2 f1(1)]
    have ids: "event_id e = finished_event_id c u (sha256_hex (dumps_outcome u))"
        "event_id review = review_event_id c (sha256_hex (dumps_outcome u))"
      using e mk_finished wf_command_ids [OF wf(2)] u review_transition_id [OF t2]
      by (auto simp: same finished_event_id_def simp del: mk_event.simps)
    have "om_message_id m = unknown_message (rc_command_id c)" "om_idempotency_key m = unknown_message (rc_command_id c)"
      using unknown_message_projected [OF wf(2), of u now] u m by (auto simp: same)
    then have outb: "\<exists>m. db_outbox db5 = db_outbox db4 @ [m] \<and> outbox_key m = unknown_message (rc_command_id c)
          \<and> om_idempotency_key (os_message m) = unknown_message (rc_command_id c)"
      using out by (auto simp: insert_outbox_def outbox_key_def split: if_splits)
    note tabs = insert_event_tables [OF ins(1)] insert_event_tables [OF ins(2)] update_state_tables [OF swap]
      insert_outbox_tables [OF out]
    have tab4: "db_commands db4 = db_commands db3" "db_events db4 = db_events db3" "db_outbox db4 = db_outbox db3"
        "db_workflows db4 = db_workflows db3"
      using up by (auto simp: update_ledger_def bind_res_Inr_iff)
    have "\<exists>es. db_events db2 = db_events db @ es \<and> map event_key es = unknown_events db cid
          \<and> list_all (\<lambda>e. ev_workflow_id e = rc_workflow_id c) es"
      using ins ids by (auto simp: insert_event_def unknown_events_def work event_key_def same split: if_splits)
    then show "closes db c (unknown_events db cid) db5"
      unfolding closes_def
      using tabs tab4 outb update_ledger_others [OF up, of "rc_command_id c"]
        update_state_others [OF swap [unfolded same]] f2 f1 sid by (auto simp: same)
  qed
  with run show ?thesis by simp
qed

text \<open>One step of a run that succeeds: a call that returns, and a guard that does not hold.\<close>

lemma bind_res_InrI: "a = Inr x \<Longrightarrow> f x = r \<Longrightarrow> bind_res a f = r"
  by simp

lemma if_notI: "\<not> b \<Longrightarrow> x = r \<Longrightarrow> (if b then y else x) = r"
  by simp

lemma pair_caseI: "f a b = r \<Longrightarrow> (case (a, b) of (x, y) \<Rightarrow> f x y) = r"
  by simp

lemma mark_unknown_row_enabled:
  assumes ok: "store_ok db" and work: "overdue_work db cid = Inr (c, l, s, u)"
    and st: "lg_status l = DISPATCH_FENCED" and late: "expired_by now l"
    and fresh: "outcome_fresh db c s u now"
  shows "\<exists>db'. mark_unknown_row now db cid = Inr db'"
proof -
  note w = overdue_work_Inr [OF work]
  define h where "h = sha256_hex (dumps_outcome u)"
  let ?e = "ExecutionFinished (finished_event_id c u h) now (rc_command_id c) u"
  have wf: "wf_state s" "wf_command c" using load_workflow_wf [OF ok w(4)] load_command_wf [OF ok w(1)] by auto
  have sid: "sm_workflow_id (st_meta s) = rc_workflow_id c" using load_workflow_Inr(1) [OF w(4)] .
  note u = unknown_outcome_facts [OF w(7) wf(2)]
  have row: "ledger_ok l" "lg_command_id l = rc_command_id c" "row_of db (rc_command_id c) = Some l"
    "ledger_timeline c l = Inr ()"
    using load_ledger_Inr [OF w(3)] w(1,2) by auto
  note fenced = ledger_ok_fenced [OF row(1) st] and opened = ledger_ok_open [OF row(1)]
  note times = overdue_times [OF ok w(3,1) st late]
  obtain q where q: "dispatch_request_from_command c (command_envelope c) = Inr q"
    "lg_request_hash l = Some (dq_payload_hash q)" using w(6) by blast
  obtain t1 review final db1 db2 where t1: "reduce s ?e = Inr t1" "tr_status t1 = APPLIED" "tr_commands t1 = []"
      "phase (tr_state t1) = PHASE_UNCERTAIN"
    and rt: "review_transition ''reconciled unknown did not produce mandatory manual review''
        c (tr_state t1) h now = Inr (review, final)"
    and i1: "insert_event ''mark_expired_fenced_unknown'' db (rc_workflow_id c) ?e (sm_revision (st_meta (tr_state t1))) = Inr db1"
    and i2: "insert_event ''mark_expired_fenced_unknown'' db1 (rc_workflow_id c) review (sm_revision (st_meta (tr_state final))) = Inr db2"
    and final: "wf_state (tr_state final)" "sm_workflow_id (st_meta (tr_state final)) = sm_workflow_id (st_meta s)"
      "sm_last_event_at (st_meta s) \<le> sm_last_event_at (st_meta (tr_state final))"
      "sm_revision (st_meta s) < sm_revision (st_meta (tr_state final))"
    using recovery_events [OF wf(1) w(5) sid _ _ _ fresh h_def refl, of "''mark_expired_fenced_unknown''"] u by blast
  have exists: "\<not> event_exists db (finished_event_id c u h)" "\<not> event_exists db (review_event_id c h)"
    using fresh u by (auto simp: outcome_fresh_def Let_def h_def fresh_event_def)
  obtain m where m: "project_outcome_outbox c u now = Inr m"
    using unknown_message_projected [OF wf(2)] u by blast
  have i: "good_step db db2" "db_ledger db2 = db_ledger db"
    using insert_event_good [OF i1] insert_event_good [OF i2] insert_event_tables [OF i1] insert_event_tables [OF i2]
    by (auto intro: good_step_trans)
  have tab2: "db_workflows db2 = db_workflows db \<and> db_commands db2 = db_commands db \<and> db_outbox db2 = db_outbox db"
    using insert_event_tables [OF i1] insert_event_tables [OF i2] by simp
  have ok2: "store_ok db2" using i ok by (simp add: good_step_def)
  have s2: "load_workflow db2 (rc_workflow_id c) = Inr s" using w(4) tab2 load_workflow_tables [of db2 db] by simp
  obtain rows where swap: "update_state_compare_and_swap db2 s (tr_state final) = Inr (db2\<lparr>db_workflows := rows\<rparr>)"
    using update_state_enabled [OF ok2 s2 final] by blast
  let ?db3 = "db2\<lparr>db_workflows := rows\<rparr>" and ?r = "closed_row LEDGER_MANUAL_REVIEW u now l"
  have ok3: "store_ok ?db3" using update_state_good [OF swap final(1,2)] ok2 by (simp add: good_step_def)
  have row3: "row_of ?db3 (rc_command_id c) = Some l" using row(3) i by simp
  have up: "update_ledger ?db3
       (\<lambda>r. lg_command_id r = rc_command_id c \<and> lg_status r = DISPATCH_FENCED
            \<and> lg_claim_owner r = lg_claim_owner l \<and> lg_fencing_token r = lg_fencing_token l
            \<and> lg_lease_acquired_at r = lg_lease_acquired_at l
            \<and> lg_lease_expires_at r = lg_lease_expires_at l
            \<and> lg_updated_at r = lg_updated_at l \<and> lg_claim_count r = lg_claim_count l
            \<and> lg_preparation_failures r = lg_preparation_failures l \<and> expired_by now r
            \<and> lg_dispatch_slots r = 1 \<and> lg_request_hash r = lg_request_hash l
            \<and> lg_fenced_at r = lg_fenced_at l \<and> lg_outcome r = None \<and> lg_outcome_hash r = None)
       (\<lambda>r. r\<lparr>lg_status := LEDGER_MANUAL_REVIEW, lg_claim_owner := None, lg_lease_acquired_at := None,
              lg_lease_expires_at := None, lg_outcome := Some u,
              lg_outcome_hash := Some h, lg_updated_at := now\<rparr>) err = Inr (set_row ?db3 ?r)" for err
    unfolding closed_row_def h_def
    by (rule update_ledger_hit [OF ok3 row3]) (use st late row(2) fenced opened in auto)
  obtain db5 where out: "insert_outbox (set_row ?db3 ?r) m = Inr db5"
    using insert_outbox_enabled [of "set_row ?db3 ?r" m] fresh m tab2
    by (auto simp: outcome_fresh_def Let_def outbox_fresh_def)
  note tab5 = insert_outbox_tables [OF out]
  have load: "load_ledger db5 (rc_command_id c) = Inr ?r"
  proof (rule load_ledger_row)
    show "load_command db5 (rc_command_id c) = Inr c"
      using w(1,2) tab5 tab2 load_command_tables [of db5 db] by simp
    show "ledger_ok ?r"
      using outcome_row_good [OF row(1) st, where h = h and st = LEDGER_MANUAL_REVIEW and u = u and now = now]
      by (auto simp: row_step_def closed_row_def h_def)
    show "row_of db5 (rc_command_id c) = Some ?r"
      using tab5 row3 row(2) row_of_set_row [where db = ?db3 and r = ?r and cid = "rc_command_id c"] by (simp add: closed_row_def)
    show "ledger_timeline c ?r = Inr ()"
      using row(4) times by (auto simp: ledger_timeline_def closed_row_def opt_all_def split: if_splits)
    show "ledger_outcome_check c ?r = Inr ()"
      using u fenced by (simp add: ledger_outcome_check_def closed_row_def outcome_ledger_status_def)
  qed
  have mk: "mk_event ?e = Inr ?e" using mk_finished wf_command_ids [OF wf(2)] u by (simp add: finished_event_id_def)
  have run: "mark_unknown_row now db cid = Inr db5"
    unfolding mark_unknown_row_def Let_def
    by (intro bind_res_InrI [OF w(1)] bind_res_InrI [OF w(3) [folded w(2)]] bind_res_InrI [OF w(4)]
        bind_res_InrI [OF q(1)] bind_res_InrI [OF w(7)] bind_res_InrI [OF mk [unfolded h_def]]
        bind_res_InrI [OF t1(1) [unfolded h_def]] bind_res_InrI [OF rt [unfolded h_def]] bind_res_InrI [OF m]
        bind_res_InrI [OF i1 [unfolded h_def]] bind_res_InrI [OF i2] bind_res_InrI [OF swap]
        bind_res_InrI [OF up [unfolded h_def]] bind_res_InrI [OF out] bind_res_InrI [OF load] if_notI pair_caseI refl)
       (use w(5) q(2) st fenced times opened t1 exists in \<open>auto simp: closed_row_def h_def lease_empty_def\<close>)
  then show ?thesis by blast
qed

section \<open>The whole pass\<close>

lemma executing_unique: "executing_command s c \<Longrightarrow> executing_command s c' \<Longrightarrow> c = c'"
  by (auto simp: executing_command_def)

lemma overdue_workflows:
  assumes "overdue_work db cid = Inr (c, l, s, u)" "overdue_work db cid' = Inr (c', l', s', u')" "cid \<noteq> cid'"
  shows "rc_workflow_id c \<noteq> rc_workflow_id c'"
proof
  assume "rc_workflow_id c = rc_workflow_id c'"
  then have "s = s'" using overdue_work_Inr(4) [OF assms(1)] overdue_work_Inr(4) [OF assms(2)] by simp
  then have "c = c'"
    using executing_unique [OF overdue_work_Inr(5) [OF assms(1)]] overdue_work_Inr(5) [OF assms(2)] by simp
  with overdue_work_Inr(2) [OF assms(1)] overdue_work_Inr(2) [OF assms(2)] assms(3) show False by simp
qed

lemma overdue_work_kept:
  assumes cl: "closes db c eids db'" and work: "overdue_work db cid' = Inr (c', l', s', u')"
    and new: "cid' \<noteq> rc_command_id c" "rc_workflow_id c' \<noteq> rc_workflow_id c"
  shows "overdue_work db' cid' = Inr (c', l', s', u')"
proof -
  note k = overdue_work_Inr [OF work]
  have cmd: "load_command db' cid' = Inr c'" using cl k(1) by (simp add: closes_def load_command_def)
  moreover have "load_ledger db' (rc_command_id c') = Inr l'"
    using cl new k(1-3) cmd by (simp add: closes_def load_ledger_def)
  moreover have "load_workflow db' (rc_workflow_id c') = Inr s'"
    using cl new k(4) by (simp add: closes_def load_workflow_iff del: id_re.simps)
  ultimately show ?thesis using k(5-7) by (auto simp: overdue_work_def)
qed

lemma fresh_event_kept:
  assumes "fresh_event db s i" "db_events db' = db_events db @ es" "i \<notin> set (map event_key es)"
    and "list_all (\<lambda>e. ev_workflow_id e \<noteq> sm_workflow_id (st_meta s)) es"
  shows "fresh_event db' s i"
  using assms by (auto simp: fresh_event_def event_exists_def find_row_append list_all_iff find_row_def
      find_None_iff split: option.splits)

definition overdue_fence :: "store \<Rightarrow> timestamp \<Rightarrow> string \<Rightarrow> bool" where
  "overdue_fence db now cid \<longleftrightarrow>
     (\<exists>l. row_of db cid = Some l \<and> lg_status l = DISPATCH_FENCED \<and> expired_by now l)"

text \<open>
  One step of the pass: it succeeds when the two event identifiers differ, and another overdue row
  stays recoverable when its identifiers are not those of this one.
\<close>

lemma recoverable_Inr:
  assumes "recoverable db now cid" "overdue_fence db now cid"
  shows "\<exists>c l s u. overdue_work db cid = Inr (c, l, s, u) \<and> lg_status l = DISPATCH_FENCED \<and> expired_by now l"
proof -
  obtain c l s u where work: "overdue_work db cid = Inr (c, l, s, u)"
    using assms(1) by (auto simp: recoverable_def split: sum.splits)
  note w = overdue_work_Inr [OF work]
  have "row_of db cid = Some l" using load_ledger_Inr(3) [OF w(3)] w(1,2) by auto
  with work assms(2) show ?thesis by (auto simp: overdue_fence_def)
qed

lemma mark_unknown_succeeds:
  assumes ok: "store_ok db" and rec: "recoverable db now cid" and due: "overdue_fence db now cid"
    and new: "distinct (unknown_events db cid)"
  shows "\<exists>db'. mark_unknown_row now db cid = Inr db'"
proof -
  obtain c l s u where work: "overdue_work db cid = Inr (c, l, s, u)"
    and l: "lg_status l = DISPATCH_FENCED" "expired_by now l" using recoverable_Inr [OF rec due] by blast
  note w = overdue_work_Inr [OF work]
  have wf: "wf_command c" using load_command_wf [OF ok w(1)] .
  obtain m where m: "project_outcome_outbox c u now = Inr m" "om_message_id m = unknown_message (rc_command_id c)"
      "om_idempotency_key m = unknown_message (rc_command_id c)"
    using unknown_message_projected [OF wf] unknown_outcome_facts [OF w(7) wf] by blast
  have "outcome_fresh db c s u now"
    using rec new m w(2)
    by (auto simp: recoverable_def work unknown_events_def outcome_fresh_def Let_def outbox_fresh_def)
  from mark_unknown_row_enabled [OF ok work l this] show ?thesis .
qed

lemma overdue_kept:
  assumes ok: "store_ok db" and work: "overdue_work db cid = Inr w" and run: "mark_unknown_row now db cid = Inr db'"
    and k: "k \<noteq> cid" "overdue_work db k = Inr w'"
  shows "overdue_work db' k = Inr w'" "unknown_events db' k = unknown_events db k"
proof -
  obtain c l s u c' l' s' u' where w: "w = (c, l, s, u)" "w' = (c', l', s', u')" by (cases w, cases w')
  note works = work [unfolded w] k(2) [unfolded w]
  have "rc_workflow_id c' \<noteq> rc_workflow_id c" using overdue_workflows [OF works(2,1)] k(1) by simp
  then show "overdue_work db' k = Inr w'"
    using overdue_work_kept [OF mark_unknown_row_closes [OF ok run works(1)] works(2)] overdue_work_Inr(2) [OF works(1)] k(1) w
    by simp
  with k(2) show "unknown_events db' k = unknown_events db k" by (simp add: unknown_events_def)
qed

lemma recoverable_work: "recoverable db now k \<Longrightarrow> \<exists>w. overdue_work db k = Inr w"
  by (auto simp: recoverable_def split: sum.splits)

lemma recoverable_kept:
  assumes ok: "store_ok db" and rec: "recoverable db now cid" and run: "mark_unknown_row now db cid = Inr db'"
    and k: "k \<noteq> cid" "recoverable db now k"
    and new: "set (unknown_events db k) \<inter> set (unknown_events db cid) = {}" "unknown_message k \<noteq> unknown_message cid"
  shows "recoverable db' now k"
proof -
  obtain c l s u where work: "overdue_work db cid = Inr (c, l, s, u)" using recoverable_work [OF rec] by fastforce
  obtain c' l' s' u' where work': "overdue_work db k = Inr (c', l', s', u')" using recoverable_work [OF k(2)] by fastforce
  note w = overdue_work_Inr [OF work] and w' = overdue_work_Inr [OF work']
  note cl = mark_unknown_row_closes [OF ok run work] and kept = overdue_kept [OF ok work run k(1) work']
  have wid: "rc_workflow_id c' \<noteq> rc_workflow_id c" using overdue_workflows [OF work' work] k(1) by simp
  have sid: "sm_workflow_id (st_meta s') = rc_workflow_id c'" using load_workflow_Inr(1) [OF w'(4)] .
  obtain es where es: "db_events db' = db_events db @ es" "map event_key es = unknown_events db cid"
      "list_all (\<lambda>e. ev_workflow_id e = rc_workflow_id c) es" using cl by (auto simp: closes_def)
  have foreign: "list_all (\<lambda>e. ev_workflow_id e \<noteq> sm_workflow_id (st_meta s')) es"
    using es(3) wid sid by (auto simp: list_all_iff)
  have "fresh_event db' s' i" if "fresh_event db s' i" "i \<in> set (unknown_events db k)" for i
  proof (rule fresh_event_kept [OF that(1) es(1) _ foreign])
    show "i \<notin> set (map event_key es)" using that(2) new(1) unfolding es(2) by blast
  qed
  moreover obtain m where "db_outbox db' = db_outbox db @ [m]" "outbox_key m = unknown_message cid"
      "om_idempotency_key (os_message m) = unknown_message cid" using cl w(2) by (auto simp: closes_def)
  ultimately show ?thesis
    using k(2) new(2) kept work' by (auto simp: recoverable_def list_all_iff)
qed

text \<open>The pass over all overdue rows: it succeeds when no two of the identifiers it derives collide.\<close>

lemma mark_unknown_enabled:
  assumes "store_ok db" "distinct (concat (map (unknown_events db) cids))" "distinct (map unknown_message cids)"
    and "\<forall>cid \<in> set cids. recoverable db now cid \<and> overdue_fence db now cid" and "distinct cids"
  shows "\<exists>db'. recover_all (mark_unknown_row now) db cids n = Inr (db', n + int (length cids))"
  using assms
proof (induction cids arbitrary: db n)
  case Nil
  then show ?case by simp
next
  case (Cons cid cids)
  note ok = Cons.prems(1)
  have rec: "recoverable db now cid" using Cons.prems(4) by simp
  obtain db' where run: "mark_unknown_row now db cid = Inr db'"
    using mark_unknown_succeeds [OF ok rec] Cons.prems(2,4) by auto
  have ok': "store_ok db'" using mark_unknown_row_commits [OF ok run] commits_ok by blast
  obtain w where work: "overdue_work db cid = Inr w" using recoverable_work [OF rec] by blast
  obtain c l s u where w: "w = (c, l, s, u)" by (cases w)
  have rest: "recoverable db' now k \<and> overdue_fence db' now k \<and> unknown_events db' k = unknown_events db k"
    if k: "k \<in> set cids" for k
  proof -
    have new: "k \<noteq> cid" "recoverable db now k" "unknown_message k \<noteq> unknown_message cid" "overdue_fence db now k"
        "set (unknown_events db k) \<inter> set (unknown_events db cid) = {}"
      using k Cons.prems(2-) by (auto simp: image_iff)
    obtain w' where "overdue_work db k = Inr w'" using recoverable_work [OF new(2)] by blast
    moreover have "overdue_fence db' now k"
      using new(1,4) mark_unknown_row_closes [OF ok run work [unfolded w]] overdue_work_Inr(2) [OF work [unfolded w]]
      by (simp add: overdue_fence_def closes_def)
    ultimately show ?thesis
      using recoverable_kept [OF ok rec run new(1,2,5,3)] overdue_kept(2) [OF ok work run new(1)] by blast
  qed
  then have "map (unknown_events db') cids = map (unknown_events db) cids" by simp
  then have new': "distinct (concat (map (unknown_events db') cids))" using Cons.prems(2) by (simp del: map_eq_conv)
  have "\<exists>db2. recover_all (mark_unknown_row now) db' cids (n + 1) = Inr (db2, n + 1 + int (length cids))"
    using Cons.prems(3-) rest by (intro Cons.IH [OF ok' new']) auto
  with run show ?case by auto
qed

text \<open>And only then: the identifiers are keys of the tables the pass writes.\<close>

lemma mark_unknown_writes:
  assumes "store_ok db" "recover_all (mark_unknown_row now) db cids n = Inr (db', m)" "distinct cids"
    and "\<forall>cid \<in> set cids. \<exists>w. overdue_work db cid = Inr w"
  shows "store_ok db' \<and> map event_key (db_events db') = map event_key (db_events db) @ concat (map (unknown_events db) cids)
    \<and> map outbox_key (db_outbox db') = map outbox_key (db_outbox db) @ map unknown_message cids"
  using assms
proof (induction cids arbitrary: db n)
  case Nil
  then show ?case by simp
next
  case (Cons cid cids)
  note ok = Cons.prems(1)
  obtain db1 where run: "mark_unknown_row now db cid = Inr db1"
    and more: "recover_all (mark_unknown_row now) db1 cids (n + 1) = Inr (db', m)"
    using Cons.prems(2) by (auto simp: bind_res_Inr_iff)
  have ok': "store_ok db1" using mark_unknown_row_commits [OF ok run] commits_ok by blast
  obtain w where work: "overdue_work db cid = Inr w" using Cons.prems(4) by auto
  obtain c l s u where w: "w = (c, l, s, u)" by (cases w)
  have kept: "(\<exists>w. overdue_work db1 k = Inr w) \<and> unknown_events db1 k = unknown_events db k" if k: "k \<in> set cids" for k
  proof -
    have new: "k \<noteq> cid" using k Cons.prems(3) by auto
    obtain w' where "overdue_work db k = Inr w'" using bspec [OF Cons.prems(4) list.set_intros(2) [OF k]] by blast
    from overdue_kept [OF ok work run new this] show ?thesis by blast
  qed
  have "closes db c (unknown_events db cid) db1" "rc_command_id c = cid"
    using mark_unknown_row_closes [OF ok run work [unfolded w]] overdue_work_Inr(2) [OF work [unfolded w]] by auto
  then have "map event_key (db_events db1) = map event_key (db_events db) @ unknown_events db cid"
      "map outbox_key (db_outbox db1) = map outbox_key (db_outbox db) @ [unknown_message cid]"
    by (auto simp: closes_def)
  moreover have "map (unknown_events db1) cids = map (unknown_events db) cids" using kept by simp
  ultimately show ?case using Cons.IH [OF ok' more] Cons.prems(3) kept by (simp del: map_eq_conv)
qed

lemma mark_unknown_iff:
  assumes ok: "store_ok db" and ready: "\<forall>cid \<in> set cids. recoverable db now cid \<and> overdue_fence db now cid"
    and "distinct cids"
  shows "(\<exists>db'. recover_all (mark_unknown_row now) db cids n = Inr (db', n + int (length cids)))
    \<longleftrightarrow> distinct (concat (map (unknown_events db) cids)) \<and> distinct (map unknown_message cids)" (is "?l \<longleftrightarrow> ?r")
proof
  assume ?l
  moreover have "\<forall>cid \<in> set cids. \<exists>w. overdue_work db cid = Inr w" using ready recoverable_work by blast
  ultimately obtain db' where "store_ok db'"
      "map event_key (db_events db') = map event_key (db_events db) @ concat (map (unknown_events db) cids)"
      "map outbox_key (db_outbox db') = map outbox_key (db_outbox db) @ map unknown_message cids"
    using mark_unknown_writes [OF ok _ assms(3)] by blast
  then show ?r by (metis store_ok_def distinct_append)
qed (use mark_unknown_enabled [OF ok _ _ ready assms(3)] in blast)

end
