(* ===== verification/Exec_Loops.thy ===== *)
theory Exec_Loops
  imports Exec_Contract Exec_Safety Exec_Recovery_Progress
begin

text \<open>
  The recovery of expired dispatches and the runs of the command worker and the reconciler: what a
  run leaves behind whatever the adapter does, and what it never does.
\<close>

section \<open>Expired dispatches\<close>

definition in_review :: "store \<Rightarrow> string \<Rightarrow> bool" where
  "in_review db cid \<longleftrightarrow>
     (\<exists>l u. row_of db cid = Some l \<and> lg_status l = LEDGER_MANUAL_REVIEW \<and> lg_dispatch_slots l = 1
        \<and> lg_outcome l = Some u \<and> eo_certainty u = CALLED_UNKNOWN)"

lemma in_review_kept: "commits db db' \<Longrightarrow> in_review db cid \<Longrightarrow> in_review db' cid"
proof -
  assume c: "commits db db'" and "in_review db cid"
  then obtain l u where l: "row_of db cid = Some l" "lg_status l = LEDGER_MANUAL_REVIEW" "lg_dispatch_slots l = 1"
      "lg_outcome l = Some u" "eo_certainty u = CALLED_UNKNOWN" by (auto simp: in_review_def)
  obtain l' where "row_of db' cid = Some l'" "ledger_evolves l l'" using commits_row [OF c l(1)] by blast
  with l show "in_review db' cid" by (auto simp: in_review_def ledger_evolves_def)
qed

lemma mark_unknown_row_settles:
  assumes ok: "store_ok db" and up: "mark_unknown_row now db cid = Inr db'"
  shows "commits db db' \<and> in_review db' cid"
proof -
  from mark_unknown_row_facts [OF assms] obtain c l u s' where
    u: "rc_command_id c = cid" "lg_status l = DISPATCH_FENCED" "eo_certainty u = CALLED_UNKNOWN"
      "closed_post db c l s' LEDGER_MANUAL_REVIEW u now db'"
    by (auto simp: unknown_post_def)
  have "row_of db cid = Some l" and row: "row_of db' cid = Some (closed_row LEDGER_MANUAL_REVIEW u now l)"
    using u(1,4) by (auto simp: closed_post_def)
  then have "lg_dispatch_slots l = 1" using ledger_ok_fenced u(2) store_ok_ledger [OF ok] by blast
  then have "in_review db' cid" using row u(3) by (simp add: in_review_def closed_row_def)
  then show ?thesis using mark_unknown_row_commits [OF assms] by simp
qed

lemma mark_unknown_settles:
  "store_ok db \<Longrightarrow> recover_all (mark_unknown_row now) db cids n = Inr (db', m) \<Longrightarrow>
     commits db db' \<and> (\<forall>cid \<in> set cids. in_review db' cid) \<and> m = n + int (length cids)"
  by (rule recover_all_establishes [where step = "mark_unknown_row now" and settled = in_review])
     (erule (1) mark_unknown_row_settles, erule (1) in_review_kept, assumption+)

lemma overdue_ids:
  "store_ok db \<Longrightarrow> cid \<in> set (expired_ids db now DISPATCH_FENCED 1) \<longleftrightarrow> overdue_fence db now cid"
  using ledger_ok_fenced ledger_ok_open store_ok_ledger
  by (fastforce simp: expired_ids_rows overdue_fence_def)

lemma expired_ids_distinct: "store_ok db \<Longrightarrow> distinct (expired_ids db now st n)"
  by (simp add: store_ok_def expired_ids_def distinct_map inj_on_def)

text \<open>
  C26: A dispatch whose lease ran out does not stay open. When every overdue dispatched row can be
  read, is executed by its workflow, carries the canonical request of its command, and the clock is
  not behind its workflow nor are the events and the message derived from it already in the store,
  one reconciliation moves all of them to manual review with an outcome that says the provider may
  have been called, keeps the single dispatch slot of each, and answers their number; unless two of
  the identifiers it derives with SHA-256 from different rows or for the two events of one row are
  equal, and only then, it raises and changes nothing.
\<close>

theorem expired_dispatches_reach_review:
  assumes "store_ok db" "ids = expired_ids db now DISPATCH_FENCED 1"
    and "\<forall>cid \<in> set ids. recoverable db now cid"
  shows "\<exists>db' reply. serve v db (MarkUnknown now) = (db', reply)
    \<and> (if distinct (concat (map (unknown_events db) ids)) \<and> distinct (map unknown_message ids)
       then reply = Recovered (int (length ids))
         \<and> (\<forall>cid l. row_of db cid = Some l \<and> lg_status l = DISPATCH_FENCED \<and> expired_by now l
              \<longrightarrow> in_review db' cid)
       else db' = db \<and> (\<exists>err. reply = Raised err))"
proof -
  have ready: "\<forall>cid \<in> set ids. recoverable db now cid \<and> overdue_fence db now cid"
    using overdue_ids [OF assms(1)] assms(2,3) by blast
  have run: "mark_expired_fenced_unknown db now = recover_all (mark_unknown_row now) db ids 0"
    by (simp add: mark_expired_fenced_unknown_def assms(2))
  note iff = mark_unknown_iff [OF assms(1) ready, of 0] and d = expired_ids_distinct [OF assms(1)]
  show ?thesis
  proof (cases "recover_all (mark_unknown_row now) db ids 0")
    case (Inl err)
    then show ?thesis using iff run d assms(2) by (auto simp: transaction_def)
  next
    case (Inr p)
    then obtain db' n where p: "recover_all (mark_unknown_row now) db ids 0 = Inr (db', n)" by (cases p) auto
    from mark_unknown_settles [OF assms(1) p] have n: "n = int (length ids)" and rev: "\<forall>cid \<in> set ids. in_review db' cid"
      by auto
    have "in_review db' cid" if "row_of db cid = Some l" "lg_status l = DISPATCH_FENCED" "expired_by now l" for cid l
      using rev overdue_ids [OF assms(1), of cid now] that by (auto simp: overdue_fence_def assms(2))
    then show ?thesis using iff p n run d assms(2) by (auto simp: transaction_def)
  qed
qed

text \<open>The dispatched sample booking, whose worker never came back.\<close>

lemma sample_overdue:
  "expired_ids sample_dispatched 6000 DISPATCH_FENCED 1 = [rc_command_id sample_command]"
  by (simp add: expired_ids_def sample_fence(3) set_row_def sample_preparing_def update_where_def fenced_row_def
      sample_row_fields expired_by_def)

lemma unknown_outcome_total:
  assumes "id_re (rc_command_id c)" "hash_re h"
  shows "\<exists>u. command_outcome c CALLED_UNKNOWN ''dispatch_outcome_unknown_after_expiry'' None [h] = Inr u"
proof -
  have "id_re ''dispatch_outcome_unknown_after_expiry''"
    "lower (strip ''dispatch_outcome_unknown_after_expiry'') = ''dispatch_outcome_unknown_after_expiry''" by code_simp+
  then show ?thesis
    using assms by (simp add: command_outcome_def mk_execution_outcome_def optional_id_def del: id_re.simps)
qed

lemma sample_recoverable: "recoverable sample_dispatched 6000 (rc_command_id sample_command)"
proof -
  note a = assert_permit_Inr [OF sample_fence(2)]
  let ?l = "fenced_row (dq_payload_hash sample_request) 4500 sample_row"
  have h: "lg_request_hash ?l = Some (dq_payload_hash sample_request)" by (simp add: fenced_row_def)
  have "ledger_ok ?l" using load_ledger_Inr(1) [OF a(2)] .
  then have "hash_re (dq_payload_hash sample_request)" using h by (auto simp: ledger_ok_iff opt_all_def)
  from unknown_outcome_total [OF sample_command_facts(3) this] obtain u
    where u: "command_outcome sample_command CALLED_UNKNOWN ''dispatch_outcome_unknown_after_expiry'' None
      [dq_payload_hash sample_request] = Inr u" by blast
  have work: "overdue_work sample_dispatched (rc_command_id sample_command) = Inr (sample_command, ?l, sample_executing, u)"
    using a(1-4) sample_fence(5) sample_request_built u h by (simp add: overdue_work_def)
  have tables: "db_events sample_dispatched = db_events sample_preparing" "db_outbox sample_dispatched = []"
    by (simp_all add: sample_fence(3)) (simp add: sample_preparing_def)
  have "list_all (fresh_event sample_dispatched sample_executing) (unknown_events sample_dispatched (rc_command_id sample_command))"
    using sample_fresh_event [OF tables(1)] by (simp add: unknown_events_def work finished_event_id_def review_event_id_def)
  then show ?thesis using sample_executing_facts(5) tables(2) by (simp add: recoverable_def work)
qed

theorem expired_dispatches_reach_review_witness:
  "\<exists>db' reply. serve sample_validator sample_dispatched (MarkUnknown 6000) = (db', reply)
     \<and> (if distinct (unknown_events sample_dispatched (rc_command_id sample_command))
        then reply = Recovered 1 \<and> in_review db' (rc_command_id sample_command)
        else db' = sample_dispatched \<and> (\<exists>err. reply = Raised err))"
proof -
  let ?l = "fenced_row (dq_payload_hash sample_request) 4500 sample_row"
  have "row_of sample_dispatched (rc_command_id sample_command) = Some ?l" by (rule sample_dispatched_row(1))
  moreover have "lg_status ?l = DISPATCH_FENCED" "expired_by 6000 ?l"
    by (simp_all add: fenced_row_def expired_by_def sample_row_fields)
  moreover obtain db' reply where "serve sample_validator sample_dispatched (MarkUnknown 6000) = (db', reply)"
      "if distinct (unknown_events sample_dispatched (rc_command_id sample_command))
       then reply = Recovered 1 \<and> (\<forall>cid l. row_of sample_dispatched cid = Some l \<and> lg_status l = DISPATCH_FENCED
              \<and> expired_by 6000 l \<longrightarrow> in_review db' cid)
       else db' = sample_dispatched \<and> (\<exists>err. reply = Raised err)"
    using expired_dispatches_reach_review [OF sample_fence(4) sample_overdue [symmetric], of sample_validator]
      sample_recoverable by (auto cong: if_cong)
  ultimately show ?thesis by (intro exI [of _ db'] exI [of _ reply]) auto
qed

section \<open>The command worker\<close>






definition fenced_for :: "store \<Rightarrow> dispatch_permit \<Rightarrow> dispatch_request \<Rightarrow> bool" where
  "fenced_for db permit request \<longleftrightarrow>
     (\<exists>l. row_of db (pm_command_id permit) = Some l \<and> lg_status l = DISPATCH_FENCED
        \<and> lg_dispatch_slots l = 1 \<and> lg_fencing_token l = lease_token (pm_lease permit)
        \<and> lg_request_hash l = Some (dq_payload_hash request))"

lemma fence_dispatch_fenced:
  assumes "store_ok db" "fence_dispatch db claim request now = Inr (db', permit)"
  shows "commits db db' \<and> fenced_for db' permit request
    \<and> pm_command_id permit = rc_command_id (cl_command claim)"
proof -
  have "commits db db'"
    using ensuresD [OF fence_dispatch_commits [OF assms(1)] assms(2)] by simp
  moreover have "fence_post db claim request now db' permit"
    using ensuresD [OF fence_dispatch_facts [OF assms(1)] assms(2)] by simp
  ultimately show ?thesis
    by (auto simp: fence_post_def fenced_for_def fenced_row_def claim_held_def)
qed


lemma claimed_commits: "store_ok db \<Longrightarrow> claim_command db w now ttl = Inr (db', x) \<Longrightarrow> commits db db'"
  using ensuresD [OF claim_command_commits] by fastforce




text \<open>The second worker, with an adapter that confirms the booking.\<close>

lemma sample_rerun:
  "\<exists>db t. worker_run_once sample_validator (\<lambda>_. Prepared sample_request) (\<lambda>_ _ _. Some sample_outcome)
     sample_preparing ''worker:2'' 6000 1000 = (db, Inr (WorkerCompleted t))"
proof -
  obtain db1 claim where k: "claim_command sample_preparing ''worker:2'' 6000 1000 = Inr (db1, Some claim)"
      "cl_command claim = sample_command" "store_ok db1"
      "assert_live_preparation_claim db1 claim 6000
         = Inr (sample_command, claimed_row ''worker:2'' 6000 7000 sample_row, sample_executing)"
    and db1: "db1 = set_row sample_preparing (claimed_row ''worker:2'' 6000 7000 sample_row)"
    using sample_reclaimed by blast
  let ?db = "set_row db1 (fenced_row (dq_payload_hash sample_request) 6000 (claimed_row ''worker:2'' 6000 7000 sample_row))"
  have "preparation_block db1 (rc_command_id sample_command) = Inr None"
    using assert_live_Inr(1) [OF k(4)] k(2)
    by (simp add: preparation_block_def db1 set_row_def sample_preparing_def update_where_def claimed_row_def
        sample_row_fields)
  then have prep: "prepare_claimed (\<lambda>_. Prepared sample_request) db1 claim = Prepared sample_request"
    by (simp add: prepare_claimed_def k(2))
  obtain permit where f: "fence_dispatch db1 claim sample_request 6000 = Inr (?db, permit)"
    and live: "assert_live_dispatch_permit ?db permit 6000 = Inr (sample_command,
       fenced_row (dq_payload_hash sample_request) 6000 (claimed_row ''worker:2'' 6000 7000 sample_row), sample_executing)"
    using fence_dispatch_enabled [OF k(3,4) sample_request_built] by blast
  have ok: "store_ok ?db" using fence_dispatch_fenced [OF k(3) f] commits_ok by blast
  have fresh: "outcome_fresh ?db sample_command sample_executing sample_outcome 6000"
    by (rule sample_outcome_fresh) (simp_all add: db1 sample_preparing_def)
  have out: "eo_command_id sample_outcome = rc_command_id sample_command" "eo_certainty sample_outcome \<noteq> NOT_CALLED"
    by (simp_all add: sample_outcome_def)
  have "dispatched_outcome sample_command permit (Some sample_outcome) = Inr sample_outcome"
    by (simp add: dispatched_outcome_def sample_outcome_def)
  moreover obtain db3 t where "record_outcome sample_validator ?db permit sample_outcome 6000 = Inr (db3, t)"
    using record_outcome_enabled [OF ok live sample_outcome_wf out fresh, of sample_validator] by blast
  ultimately show ?thesis
    using k(1,2) prep f by (auto simp: worker_run_once_def)
qed


text \<open>
  C25: The adapter is called behind the fence: the store it runs in is one that a transaction of this
  run committed, in which the slot of its permit is consumed for that very request. A run depends on
  nothing else of the adapter: two adapters that agree on such stores, permits and requests give the
  same run, whatever they would do in a store where the fence is missing.
\<close>

theorem adapter_called_behind_fence:
  assumes "store_ok db"
    and "\<forall>db1 permit request. commits db db1 \<and> fenced_for db1 permit request \<longrightarrow>
           dispatch db1 permit request = dispatch' db1 permit request"
  shows "worker_run_once v prepare dispatch db w now ttl = worker_run_once v prepare dispatch' db w now ttl"
proof -
  have "dispatch db2 permit request = dispatch' db2 permit request"
    if "claim_command db w now ttl = Inr (db1, c)" "fence_dispatch db1 claim request now = Inr (db2, permit)"
    for db1 c claim request db2 permit
    using assms(2) claimed_commits [OF assms(1) that(1)] fence_dispatch_fenced [OF _ that(2)]
      commits_trans commits_ok by blast
  then show ?thesis
    by (auto simp: worker_run_once_def split: sum.split prod.split option.split prepared.split)
qed

text \<open>An adapter that looks: it books only when it finds the dispatch slot of its permit consumed.\<close>

definition looking_adapter :: "store \<Rightarrow> dispatch_permit \<Rightarrow> dispatch_request \<Rightarrow> execution_outcome option" where
  "looking_adapter db permit request =
     (case row_of db (pm_command_id permit) of
        None \<Rightarrow> None
      | Some l \<Rightarrow>
          if lg_dispatch_slots l = 1 \<and> lg_request_hash l = Some (dq_payload_hash request)
          then Some sample_outcome else None)"

theorem adapter_called_behind_fence_witness:
  "\<exists>db t. worker_run_once sample_validator (\<lambda>_. Prepared sample_request) looking_adapter
      sample_preparing ''worker:2'' 6000 1000 = (db, Inr (WorkerCompleted t))"
proof -
  have "\<forall>db1 permit request. commits sample_preparing db1 \<and> fenced_for db1 permit request \<longrightarrow>
      (\<lambda>_ _ _. Some sample_outcome) db1 permit request = looking_adapter db1 permit request"
    by (auto simp: fenced_for_def looking_adapter_def)
  from adapter_called_behind_fence [OF sample_preparing_ok this] sample_rerun show ?thesis by simp
qed

section \<open>The reconciler\<close>

definition overdue :: "timestamp \<Rightarrow> ledger_snapshot \<Rightarrow> bool" where
  "overdue now r \<longleftrightarrow> lg_status r \<in> {PREPARING, DISPATCH_FENCED} \<and> expired_by now r"

lemma mark_unknown_row_ledger:
  assumes "mark_unknown_row now db cid = Inr db'"
  shows "\<forall>x \<in> set (db_ledger db'). x \<in> set (db_ledger db) \<or> lg_status x = LEDGER_MANUAL_REVIEW"
proof -
  have "ensures (\<lambda>db'. \<forall>x \<in> set (db_ledger db'). x \<in> set (db_ledger db) \<or> lg_status x = LEDGER_MANUAL_REVIEW)
    (mark_unknown_row now db cid)"
    unfolding mark_unknown_row_def Let_def
  proof (intro ensures_rules; (simp only: ensures_Inl ensures_Inr)?)
    fix c l s ex u e t1 review t2 m db1 db2 db3 db4 db5
    assume ins: "insert_event ''mark_expired_fenced_unknown'' db (rc_workflow_id c) e
                 (sm_revision (st_meta (tr_state t1))) = Inr db1"
        "insert_event ''mark_expired_fenced_unknown'' db1 (rc_workflow_id c) review
                 (sm_revision (st_meta (tr_state t2))) = Inr db2"
      and swap: "update_state_compare_and_swap db2 s (tr_state t2) = Inr db3"
      and up: "update_ledger db3
       (\<lambda>r. lg_command_id r = rc_command_id c \<and> lg_status r = DISPATCH_FENCED
            \<and> lg_claim_owner r = lg_claim_owner l \<and> lg_fencing_token r = lg_fencing_token l
            \<and> lg_lease_acquired_at r = lg_lease_acquired_at l
            \<and> lg_lease_expires_at r = lg_lease_expires_at l
            \<and> lg_updated_at r = lg_updated_at l \<and> lg_claim_count r = lg_claim_count l
            \<and> lg_preparation_failures r = lg_preparation_failures l \<and> expired_by now r
            \<and> lg_dispatch_slots r = 1 \<and> lg_request_hash r = lg_request_hash l
            \<and> lg_fenced_at r = lg_fenced_at l \<and> lg_outcome r = None \<and> lg_outcome_hash r = None)
       (\<lambda>r. r\<lparr>lg_status := LEDGER_MANUAL_REVIEW, lg_claim_owner := None, lg_lease_acquired_at := None,
              lg_lease_expires_at := None, lg_outcome := Some u,
              lg_outcome_hash := Some (sha256_hex (dumps_outcome u)), lg_updated_at := now\<rparr>)
       (ConcurrencyConflict ''expired dispatch reconciliation lost its compare-and-swap'') = Inr db4"
      and out: "insert_outbox db4 m = Inr db5"
    have "db_ledger db3 = db_ledger db"
      using insert_event_tables [OF ins(1)] insert_event_tables [OF ins(2)] update_state_tables [OF swap] by simp
    then show "\<forall>x \<in> set (db_ledger db5). x \<in> set (db_ledger db) \<or> lg_status x = LEDGER_MANUAL_REVIEW"
      using up insert_outbox_tables [OF out]
      by (auto simp: update_ledger_def bind_res_Inr_iff swap_one_Inr dest!: set_update_where)
  qed
  with assms show ?thesis by simp
qed

lemma mark_unknown_ledger:
  "recover_all (mark_unknown_row now) db cids n = Inr (db', m) \<Longrightarrow>
     \<forall>x \<in> set (db_ledger db'). x \<in> set (db_ledger db) \<or> lg_status x = LEDGER_MANUAL_REVIEW"
proof (induction cids arbitrary: db n)
  case (Cons c cs)
  then obtain db1 where "mark_unknown_row now db c = Inr db1" "recover_all (mark_unknown_row now) db1 cs (n + 1) = Inr (db', m)"
    by (auto simp: bind_res_Inr_iff)
  then show ?case using Cons.IH mark_unknown_row_ledger by blast
qed simp

lemma released_not_overdue:
  assumes "store_ok db" "release_expired_pre_dispatch db now = Inr (db', n)"
  shows "\<forall>x \<in> set (db_ledger db'). lg_status x = PREPARING \<longrightarrow> \<not> expired_by now x"
proof
  fix x assume x: "x \<in> set (db_ledger db')"
  let ?ids = "expired_ids db now PREPARING 0"
  have d: "distinct (map lg_command_id (db_ledger db))" using assms(1) by (simp add: store_ok_def)
  then have "distinct ?ids" by (simp add: expired_ids_def distinct_map inj_on_def)
  from release_all_exact [OF assms(1) this assms(2) [unfolded release_expired_pre_dispatch_def]]
  have "db_ledger db' = update_where (\<lambda>r. lg_command_id r \<in> set ?ids) (requeue now) (db_ledger db)" by simp
  with x consider "x \<in> set (db_ledger db)" "lg_command_id x \<notin> set ?ids" | y where "x = requeue now y"
    by (auto dest: set_update_where)
  then show "lg_status x = PREPARING \<longrightarrow> \<not> expired_by now x"
  proof cases
    case 1
    then have row: "row_of db (lg_command_id x) = Some x" using find_row_unique [OF d] by blast
    show ?thesis
      using 1(2) expired_ids_rows [OF assms(1), of "lg_command_id x" now PREPARING 0] row
        ledger_ok_open ledger_ok_undispatched store_ok_ledger [OF assms(1) row] by auto
  next
    case 2
    then show ?thesis by (simp add: requeue_def requeued_row_def)
  qed
qed

text \<open>
  A run of the reconciler, whether it returns or raises half way, leaves a legal store that is
  an evolution of the one it met; when it returns, no prepared and no dispatched command is past its
  lease any more.
\<close>

theorem reconciler_clears_overdue:
  assumes "store_ok db"
  shows "case reconcile_once v db now of (db', r) \<Rightarrow>
    commits db db' \<and> (case r of Inl _ \<Rightarrow> True | Inr _ \<Rightarrow> list_all (\<lambda>x. \<not> overdue now x) (db_ledger db'))"
proof -
  have post: "commits db db2 \<and> list_all (\<lambda>x. \<not> overdue now x) (db_ledger db2)"
    if rel: "release_expired_pre_dispatch db now = Inr (db1, n)" and mark: "mark_expired_fenced_unknown db1 now = Inr (db2, m)"
    for db1 n db2 m
  proof
    have c1: "commits db db1" using ensuresD [OF reconciliation_commits(1) [OF assms] rel] by simp
    note mark' = mark [unfolded mark_expired_fenced_unknown_def]
    have c2: "commits db1 db2" and rev: "\<forall>cid \<in> set (expired_ids db1 now DISPATCH_FENCED 1). in_review db2 cid"
      using mark_unknown_settles [OF commits_ok [OF c1] mark'] by auto
    show "commits db db2" using commits_trans [OF c1 c2] .
    note ok2 = commits_ok [OF c2]
    have "\<not> overdue now x" if x: "x \<in> set (db_ledger db2)" for x
    proof
      assume over: "overdue now x"
      then have x1: "x \<in> set (db_ledger db1)"
        using mark_unknown_ledger [OF mark'] x by (auto simp: overdue_def)
      then have fenced: "lg_status x = DISPATCH_FENCED"
        using over released_not_overdue [OF assms rel] by (auto simp: overdue_def)
      have row: "row_of db1 (lg_command_id x) = Some x" "row_of db2 (lg_command_id x) = Some x"
        using find_row_unique [of lg_command_id] x x1 ok2 commits_ok [OF c1] by (auto simp: store_ok_def)
      have "lg_dispatch_slots x = 1" "lg_outcome x = None"
        using ledger_ok_fenced ledger_ok_open store_ok_ledger [OF commits_ok [OF c1] row(1)] fenced by auto
      then have "in_review db2 (lg_command_id x)"
        using rev expired_ids_rows [OF commits_ok [OF c1]] row(1) fenced over by (auto simp: overdue_def)
      then show False using row(2) fenced by (auto simp: in_review_def)
    qed
    then show "list_all (\<lambda>x. \<not> overdue now x) (db_ledger db2)" by (simp add: list_all_iff)
  qed
  have "commits db db1" if "release_expired_pre_dispatch db now = Inr (db1, n)" for db1 n
    using ensuresD [OF reconciliation_commits(1) [OF assms] that] by simp
  with post assms show ?thesis
    by (auto simp: reconcile_once_def commits_refl split: sum.splits)
qed

theorem reconciler_clears_overdue_witness:
  "case reconcile_once sample_validator sample_preparing 6000 of (db', r) \<Rightarrow>
     (case r of Inl _ \<Rightarrow> True | Inr _ \<Rightarrow> list_all (\<lambda>x. \<not> overdue 6000 x) (db_ledger db'))"
  using reconciler_clears_overdue [OF sample_preparing_ok, where v = sample_validator and now = 6000] by (auto split: prod.splits)

end
