(* ===== verification/Followup_Types.thy ===== *)
theory Followup_Types
  imports Domain_Encoding
begin

text \<open>
  The shared contracts of \<^verbatim>\<open>reservation_followup/types.py\<close>: the confirmed reservation a follow-up is
  anchored to, the effect policies and the economic subject of a payment. A class is a record and
  its \<open>__post_init__\<close> the constructor \<open>mk_...\<close>, which takes the record of the arguments and
  returns the record of the normalised fields or the error. A value is canonical when its
  constructor returns it unchanged.
\<close>

section \<open>Scalar validators\<close>

definition canonical_hash :: "string \<Rightarrow> string \<Rightarrow> string res" where
  "canonical_hash value field_name =
     (if \<not> hash_re value then Inl (ValueError (field_name @ '' must be a lowercase SHA-256 hex digest''))
      else Inr value)"

definition positive_int :: "int \<Rightarrow> string \<Rightarrow> int res" where
  "positive_int value field_name =
     (if value < 1 then Inl (ValueError (field_name @ '' must be an integer >= 1'')) else Inr value)"

definition canonical_currency :: "string \<Rightarrow> string \<Rightarrow> string res" where
  "canonical_currency value field_name =
     (if \<not> currency_re value
      then Inl (ValueError (field_name @ '' must be a three-letter uppercase currency''))
      else Inr value)"

lemma canonical_hash_Inr [simp]: "canonical_hash v f = Inr x \<longleftrightarrow> x = v \<and> hash_re v"
  by (auto simp: canonical_hash_def)

lemma positive_int_Inr [simp]: "positive_int v f = Inr x \<longleftrightarrow> x = v \<and> 1 \<le> v"
  by (auto simp: positive_int_def)

lemma canonical_currency_Inr [simp]: "canonical_currency v f = Inr x \<longleftrightarrow> x = v \<and> currency_re v"
  by (auto simp: canonical_currency_def)

section \<open>Enumerations\<close>

datatype business_unit = HOSTEL | AGENCY

datatype payment_method = PIX | WISE | STRIPE

datatype effect_requirement = EFFECT_REQUIRED | EFFECT_OPTIONAL | EFFECT_DISABLED

datatype handoff_status =
    HANDOFF_REQUESTED | HANDOFF_ACTIVE | HANDOFF_ACKNOWLEDGEMENT_PENDING | HANDOFF_ACKNOWLEDGED
  | HANDOFF_MANUAL_REVIEW | HANDOFF_COMPLETED | HANDOFF_CANCELLED

datatype payment_status =
    PAY_AWAITING_METHOD | PAY_AWAITING_FINANCIAL_CONFIRMATION | PAY_AWAITING_EVIDENCE
  | PAY_EVIDENCE_VERIFIED | PAY_SETTLEMENT_QUEUED | PAY_SETTLING | PAY_PAID | PAY_RETRYABLE
  | PAY_MANUAL_REVIEW | PAY_EXPIRED | PAY_CANCELLED

datatype settlement_certainty =
    NOT_DISPATCHED | DISPATCHED_NO_EFFECT | SETTLED | PARTIAL_SETTLEMENT | DISPATCHED_UNKNOWN

fun unit_value :: "business_unit \<Rightarrow> string" where
  "unit_value HOSTEL = ''hostel''"
| "unit_value AGENCY = ''agency''"

fun method_value :: "payment_method \<Rightarrow> string" where
  "method_value PIX = ''pix''"
| "method_value WISE = ''wise''"
| "method_value STRIPE = ''stripe''"

section \<open>The confirmed reservation\<close>

record confirmed_anchor =
  an_workflow_id :: string
  an_command_id :: string
  an_subject_signature :: string
  an_outcome_hash :: string
  an_outcome :: execution_outcome
  an_provider_reference :: string
  an_service :: service_kind
  an_unit :: business_unit
  an_target_id :: string
  an_amount_minor :: int
  an_currency :: string
  an_receiver_id :: string
  an_confirmed_at :: timestamp
  an_deadline :: "timestamp option"

definition outcome_hash :: "execution_outcome \<Rightarrow> string" where
  "outcome_hash u = sha256_hex (dumps_outcome u)"

definition mk_anchor :: "confirmed_anchor \<Rightarrow> confirmed_anchor res" where
  "mk_anchor a =
     bind_res (require_id (an_workflow_id a) ''confirmed_anchor.reservation_workflow_id'') (\<lambda>workflow_id.
     bind_res (require_id (an_command_id a) ''confirmed_anchor.reservation_command_id'') (\<lambda>command_id.
     bind_res (canonical_hash (an_subject_signature a) ''confirmed_anchor.reservation_subject_signature'')
       (\<lambda>subject_signature.
     bind_res (canonical_hash (an_outcome_hash a) ''confirmed_anchor.reservation_outcome_hash'') (\<lambda>hash.
     let outcome = an_outcome a
     in if eo_certainty outcome \<noteq> EFFECT_CONFIRMED
     then Inl (ValueError ''confirmed anchor requires effect_confirmed outcome'')
     else if command_id \<noteq> eo_command_id outcome
     then Inl (ValueError ''confirmed anchor command does not match outcome'')
     else bind_res (require_id (an_provider_reference a) ''confirmed_anchor.provider_reference'')
       (\<lambda>provider_reference.
     if eo_provider_reference outcome = Some [] \<or> eo_provider_reference outcome \<noteq> Some provider_reference
     then Inl (ValueError ''confirmed anchor provider reference does not match outcome'')
     else if hash \<noteq> outcome_hash outcome
     then Inl (ValueError ''confirmed anchor outcome hash does not match outcome'')
     else bind_res (require_id (an_target_id a) ''confirmed_anchor.payment_target_id'') (\<lambda>target_id.
     bind_res (positive_int (an_amount_minor a) ''confirmed_anchor.amount_minor'') (\<lambda>_.
     bind_res (canonical_currency (an_currency a) ''confirmed_anchor.currency'') (\<lambda>_.
     bind_res (require_id (an_receiver_id a) ''confirmed_anchor.receiver_profile_id'') (\<lambda>receiver_id.
     if (case an_deadline a of None \<Rightarrow> False | Some d \<Rightarrow> d \<le> an_confirmed_at a)
     then Inl (ValueError ''confirmed_anchor.payment_deadline must be after confirmed_at'')
     else Inr (a\<lparr>an_workflow_id := workflow_id, an_command_id := command_id,
       an_subject_signature := subject_signature, an_outcome_hash := hash,
       an_provider_reference := provider_reference, an_target_id := target_id,
       an_receiver_id := receiver_id\<rparr>))))))))))"

definition wf_anchor :: "confirmed_anchor \<Rightarrow> bool" where
  "wf_anchor a \<longleftrightarrow> mk_anchor a = Inr a"

lemma mk_anchor_Inr:
  assumes "mk_anchor a = Inr b"
  shows "b = a\<lparr>an_workflow_id := strip (an_workflow_id a), an_command_id := strip (an_command_id a),
      an_provider_reference := strip (an_provider_reference a), an_target_id := strip (an_target_id a),
      an_receiver_id := strip (an_receiver_id a)\<rparr>"
    and "id_re (an_workflow_id b) \<and> id_re (an_command_id b) \<and> hash_re (an_subject_signature b)
      \<and> hash_re (an_outcome_hash b) \<and> eo_certainty (an_outcome b) = EFFECT_CONFIRMED
      \<and> an_command_id b = eo_command_id (an_outcome b) \<and> id_re (an_provider_reference b)
      \<and> eo_provider_reference (an_outcome b) = Some (an_provider_reference b)
      \<and> an_outcome_hash b = outcome_hash (an_outcome b) \<and> id_re (an_target_id b) \<and> 1 \<le> an_amount_minor b
      \<and> currency_re (an_currency b) \<and> id_re (an_receiver_id b)
      \<and> (case an_deadline b of None \<Rightarrow> True | Some d \<Rightarrow> an_confirmed_at b < d)"
  using assms unfolding mk_anchor_def Let_def
  by (auto simp add: bind_res_Inr_iff require_id_Inr guard_Inr_iff simp del: strip_id_re split: option.splits)

lemma mk_anchor_wf: "mk_anchor a = Inr b \<Longrightarrow> wf_anchor b"
  using mk_anchor_Inr(2) [of a b] unfolding wf_anchor_def mk_anchor_def Let_def
  by (auto simp: canonical_hash_def positive_int_def canonical_currency_def split: option.splits)

section \<open>Effect policies\<close>

record handoff_policy =
  hp_queue_state :: effect_requirement
  hp_acknowledgement :: effect_requirement
  hp_internal_email :: effect_requirement

definition mk_handoff_policy :: "handoff_policy \<Rightarrow> handoff_policy res" where
  "mk_handoff_policy p =
     (if hp_queue_state p \<noteq> EFFECT_REQUIRED then Inl (ValueError ''queue_state must be required'')
      else if hp_acknowledgement p \<noteq> EFFECT_REQUIRED
      then Inl (ValueError ''customer_acknowledgement must be required'')
      else if hp_internal_email p \<notin> {EFFECT_OPTIONAL, EFFECT_DISABLED}
      then Inl (ValueError ''internal_email must be optional or disabled'')
      else Inr p)"

definition default_email_disabled :: "handoff_policy res" where
  "default_email_disabled = mk_handoff_policy \<lparr>hp_queue_state = EFFECT_REQUIRED,
     hp_acknowledgement = EFFECT_REQUIRED, hp_internal_email = EFFECT_DISABLED\<rparr>"

record payment_policy =
  pp_paid_transition :: effect_requirement
  pp_customer_confirmation :: effect_requirement
  pp_internal_email :: effect_requirement
  pp_booking_form :: effect_requirement

definition mk_payment_policy :: "payment_policy \<Rightarrow> payment_policy res" where
  "mk_payment_policy p =
     (if pp_paid_transition p \<noteq> EFFECT_REQUIRED
      then Inl (ValueError ''paid_state_transition must be required'')
      else if pp_customer_confirmation p \<noteq> EFFECT_REQUIRED
      then Inl (ValueError ''customer_payment_confirmation must be required'')
      else if pp_internal_email p \<notin> {EFFECT_OPTIONAL, EFFECT_DISABLED}
      then Inl (ValueError ''internal_payment_email must be optional or disabled'')
      else Inr p)"

section \<open>The subject of a payment\<close>

record payment_subject =
  ps_payment_id :: string
  ps_version :: int
  ps_anchor :: confirmed_anchor
  ps_amount_minor :: int
  ps_currency :: string
  ps_receiver_id :: string
  ps_unit :: business_unit
  ps_target_id :: string
  ps_method :: "payment_method option"
  ps_signature :: string

definition economic_signature :: "int \<Rightarrow> string \<Rightarrow> string \<Rightarrow> business_unit \<Rightarrow> string \<Rightarrow> string" where
  "economic_signature amount_minor currency receiver_id unit target_id =
     sha256_hex (dumps (JObj [
       (''amount_minor'', JInt amount_minor), (''business_unit'', JStr (unit_value unit)),
       (''currency'', JStr currency), (''payment_target_id'', JStr target_id),
       (''receiver_profile_id'', JStr receiver_id)]))"

definition matches_anchor :: "payment_subject \<Rightarrow> bool" where
  "matches_anchor s \<longleftrightarrow>
     ps_amount_minor s = an_amount_minor (ps_anchor s) \<and> ps_currency s = an_currency (ps_anchor s)
     \<and> ps_receiver_id s = an_receiver_id (ps_anchor s) \<and> ps_unit s = an_unit (ps_anchor s)
     \<and> ps_target_id s = an_target_id (ps_anchor s)"

definition mk_subject :: "payment_subject \<Rightarrow> payment_subject res" where
  "mk_subject s =
     bind_res (require_id (ps_payment_id s) ''payment_subject.payment_id'') (\<lambda>payment_id.
     bind_res (positive_int (ps_version s) ''payment_subject.payment_version'') (\<lambda>_.
     bind_res (positive_int (ps_amount_minor s) ''payment_subject.amount_minor'') (\<lambda>_.
     bind_res (canonical_currency (ps_currency s) ''payment_subject.currency'') (\<lambda>_.
     bind_res (require_id (ps_receiver_id s) ''payment_subject.receiver_profile_id'') (\<lambda>receiver_id.
     bind_res (require_id (ps_target_id s) ''payment_subject.payment_target_id'') (\<lambda>target_id.
     bind_res (canonical_hash (ps_signature s) ''payment_subject.economic_signature'') (\<lambda>signature.
     let clean = s\<lparr>ps_payment_id := payment_id, ps_receiver_id := receiver_id, ps_target_id := target_id\<rparr>
     in if signature
          \<noteq> economic_signature (ps_amount_minor s) (ps_currency s) receiver_id (ps_unit s) target_id
     then Inl (ValueError ''payment_subject.economic_signature does not match canonical economics'')
     else if matches_anchor clean \<and> ps_version s = 2
     then Inl (ValueError ''payment_version 2 requires economics revised from the anchor'')
     else if \<not> matches_anchor clean \<and> ps_version s = 1
     then Inl (ValueError ''revised economics require payment_version >= 2'')
     else Inr clean)))))))"

definition wf_subject :: "payment_subject \<Rightarrow> bool" where
  "wf_subject s \<longleftrightarrow> wf_anchor (ps_anchor s) \<and> mk_subject s = Inr s"

lemma mk_subject_Inr:
  assumes "mk_subject s = Inr t"
  shows "t = s\<lparr>ps_payment_id := strip (ps_payment_id s), ps_receiver_id := strip (ps_receiver_id s),
      ps_target_id := strip (ps_target_id s)\<rparr>"
    "id_re (ps_payment_id t)" "id_re (ps_receiver_id t)" "id_re (ps_target_id t)" "1 \<le> ps_version s"
    "1 \<le> ps_amount_minor s" "currency_re (ps_currency s)" "hash_re (ps_signature s)"
    "ps_signature t = economic_signature (ps_amount_minor t) (ps_currency t) (ps_receiver_id t) (ps_unit t) (ps_target_id t)"
    "\<not> (matches_anchor t \<and> ps_version t = 2)" "\<not> (\<not> matches_anchor t \<and> ps_version t = 1)"
  using assms unfolding mk_subject_def Let_def
  by (auto simp add: bind_res_Inr_iff require_id_Inr simp del: strip_id_re split: if_splits)

lemma mk_subject_idem:
  assumes "mk_subject s = Inr t"
  shows "mk_subject t = Inr t"
proof -
  note m = mk_subject_Inr [OF assms]
  have "1 \<le> ps_version t" "1 \<le> ps_amount_minor t" "currency_re (ps_currency t)" "hash_re (ps_signature t)"
    using m(5-8) by (simp_all add: m(1))
  moreover have "t\<lparr>ps_payment_id := ps_payment_id t, ps_receiver_id := ps_receiver_id t,
      ps_target_id := ps_target_id t\<rparr> = t" by simp
  ultimately show ?thesis
    unfolding mk_subject_def Let_def
    using m(2-4,9-11) by (simp add: canonical_hash_def positive_int_def canonical_currency_def)
qed

lemma mk_subject_wf: "mk_subject s = Inr t \<Longrightarrow> wf_anchor (ps_anchor s) \<Longrightarrow> wf_subject t"
  using mk_subject_idem [of s t] mk_subject_Inr(1) [of s t] by (simp add: wf_subject_def)

text \<open>
  \<open>PaymentSubject.from_anchor\<close> with the arguments that default to the anchor's own economics;
  \<open>revised\<close> holds the amount, currency, receiver, unit and target a caller overrides.
\<close>

record revised_economics =
  re_amount_minor :: "int option"
  re_currency :: "string option"
  re_receiver_id :: "string option"
  re_unit :: "business_unit option"
  re_target_id :: "string option"

definition same_economics :: revised_economics where
  "same_economics = \<lparr>re_amount_minor = None, re_currency = None, re_receiver_id = None, re_unit = None,
     re_target_id = None\<rparr>"

definition or_else :: "'a option \<Rightarrow> 'a \<Rightarrow> 'a" where
  "or_else v d = (case v of None \<Rightarrow> d | Some x \<Rightarrow> x)"

definition subject_from_anchor ::
  "confirmed_anchor \<Rightarrow> string \<Rightarrow> payment_method option \<Rightarrow> revised_economics \<Rightarrow> int option
   \<Rightarrow> payment_subject res" where
  "subject_from_anchor original payment_id method revised payment_version =
     (let raw = an_outcome original
      in bind_res (mk_execution_outcome (eo_command_id raw) (eo_certainty raw) (eo_normalized_status raw)
                     (eo_provider_reference raw) (eo_evidence raw)) (\<lambda>outcome.
     bind_res (mk_anchor (original\<lparr>an_outcome := outcome\<rparr>)) (\<lambda>anchor.
     if anchor \<noteq> original then Inl (ValueError ''anchor contains noncanonical values'')
     else
     let amount = or_else (re_amount_minor revised) (an_amount_minor anchor);
         currency = or_else (re_currency revised) (an_currency anchor);
         receiver = or_else (re_receiver_id revised) (an_receiver_id anchor);
         unit = or_else (re_unit revised) (an_unit anchor);
         target = or_else (re_target_id revised) (an_target_id anchor)
     in bind_res (positive_int amount ''payment_subject.amount_minor'') (\<lambda>_.
     bind_res (canonical_currency currency ''payment_subject.currency'') (\<lambda>_.
     bind_res (require_id receiver ''payment_subject.receiver_profile_id'') (\<lambda>receiver.
     bind_res (require_id target ''payment_subject.payment_target_id'') (\<lambda>target.
     let changed = amount \<noteq> an_amount_minor anchor \<or> currency \<noteq> an_currency anchor
           \<or> receiver \<noteq> an_receiver_id anchor \<or> unit \<noteq> an_unit anchor \<or> target \<noteq> an_target_id anchor;
         expected = (if changed then 2 else 1)
     in bind_res (case payment_version of
                    None \<Rightarrow> Inr expected
                  | Some v \<Rightarrow> bind_res (positive_int v ''payment_subject.payment_version'') (\<lambda>v.
                      if v = 1 \<and> changed
                      then Inl (ValueError ''payment_version 1 cannot contain revised economics'')
                      else Inr v)) (\<lambda>version.
     mk_subject \<lparr>ps_payment_id = payment_id, ps_version = version, ps_anchor = anchor,
       ps_amount_minor = amount, ps_currency = currency, ps_receiver_id = receiver, ps_unit = unit,
       ps_target_id = target, ps_method = method,
       ps_signature = economic_signature amount currency receiver unit target\<rparr>))))))))"

lemma from_anchor_wf:
  assumes "subject_from_anchor a pid m r v = Inr s"
  shows "wf_subject s \<and> ps_anchor s = a \<and> ps_payment_id s = strip pid \<and> ps_method s = m"
proof -
  have "ensures (\<lambda>s. wf_subject s \<and> ps_anchor s = a \<and> ps_payment_id s = strip pid \<and> ps_method s = m)
    (subject_from_anchor a pid m r v)"
    unfolding subject_from_anchor_def Let_def
  proof (intro ensures_rules; (simp only: ensures_Inl)?)
    fix u b am cu rv tv n
    assume anchor: "mk_anchor (a\<lparr>an_outcome := u\<rparr>) = Inr b" "\<not> b \<noteq> a"
    let ?raw = "\<lparr>ps_payment_id = pid, ps_version = n, ps_anchor = b,
       ps_amount_minor = or_else (re_amount_minor r) (an_amount_minor b),
       ps_currency = or_else (re_currency r) (an_currency b), ps_receiver_id = rv,
       ps_unit = or_else (re_unit r) (an_unit b), ps_target_id = tv, ps_method = m,
       ps_signature = economic_signature (or_else (re_amount_minor r) (an_amount_minor b))
         (or_else (re_currency r) (an_currency b)) rv (or_else (re_unit r) (an_unit b)) tv\<rparr>"
    have "wf_anchor (ps_anchor ?raw)" using mk_anchor_wf [OF anchor(1)] by simp
    then show "ensures (\<lambda>s. wf_subject s \<and> ps_anchor s = a \<and> ps_payment_id s = strip pid \<and> ps_method s = m)
      (mk_subject ?raw)"
      using mk_subject_wf [of ?raw] mk_subject_Inr(1) [of ?raw] anchor(2)
      by (cases "mk_subject ?raw") simp_all
  qed
  with assms show ?thesis by simp
qed

end
