(* ===== verification/Followup_Handoff.thy ===== *)
theory Followup_Handoff
  imports Followup_Types Event_Sourcing
begin

text \<open>
  \<^verbatim>\<open>reservation_followup/handoff.py\<close>: the hand-over of a conversation to a person. The events and
  the workflow with their validating constructors, the transition matrix, the reducer and the
  public projection, in the order of the source.
\<close>

section \<open>Identifiers\<close>

definition strict_id :: "string \<Rightarrow> string \<Rightarrow> string res" where
  "strict_id value field_name =
     (let normalized = strip value
      in if \<not> id_re normalized then Inl (ValueError (field_name @ '' must be an opaque identifier''))
         else if normalized \<noteq> value
         then Inl (ValueError (field_name @ '' must be canonical without outer whitespace''))
         else Inr normalized)"

lemma strict_id_Inr [simp]: "strict_id v f = Inr x \<longleftrightarrow> x = v \<and> id_re v"
  by (auto simp: strict_id_def Let_def)

datatype handoff_reason = CUSTOMER_REQUESTED | SAFETY_REVIEW | PROVIDER_UNCERTAIN | OPERATIONAL_REVIEW

datatype handoff_effect_kind = CUSTOMER_ACKNOWLEDGEMENT | INTERNAL_EMAIL

datatype handoff_failure_code = EFFECT_UNAVAILABLE | EFFECT_REJECTED | EFFECT_UNKNOWN

datatype handoff_cancellation_code = REQUEST_WITHDRAWN | OPERATOR_CANCELLED

datatype handoff_transition_status = HT_APPLIED | HT_NOOP | HT_CONFLICT | HT_REJECTED

datatype handoff_transition_reason =
    HANDOFF_OPENED | HT_IDENTICAL_REPLAY | DIVERGENT_INCIDENT | ACKNOWLEDGEMENT_RECORDED
  | EFFECT_FAILURE_RECORDED | HANDOFF_CANCELLED_REASON | HT_EVENT_NOT_APPLICABLE

datatype public_next_action = WAIT_FOR_HUMAN | NO_ACTION

fun effect_kind_value :: "handoff_effect_kind \<Rightarrow> string" where
  "effect_kind_value CUSTOMER_ACKNOWLEDGEMENT = ''customer_acknowledgement''"
| "effect_kind_value INTERNAL_EMAIL = ''internal_email''"

text \<open>The material joins its three parts with a NUL character.\<close>

definition effect_id :: "string \<Rightarrow> string \<Rightarrow> handoff_effect_kind \<Rightarrow> string" where
  "effect_id handoff_id incident_key kind =
     ''handoff-effect:'' @ sha256_hex (join [char_of (0::nat)] [handoff_id, incident_key, effect_kind_value kind])"

section \<open>Events\<close>

record handoff_requested =
  hr_handoff_id :: string
  hr_lead_key_hash :: string
  hr_incident_key :: string
  hr_reason :: handoff_reason
  hr_source_event_id :: string
  hr_anchor :: "confirmed_anchor option"
  hr_requested_at :: timestamp

record handoff_acknowledged =
  ha_handoff_id :: string
  ha_incident_key :: string
  ha_effect_id :: string
  ha_receipt_id :: string
  ha_acknowledged_at :: timestamp

record handoff_effect_failed =
  hf_handoff_id :: string
  hf_incident_key :: string
  hf_effect_id :: string
  hf_kind :: handoff_effect_kind
  hf_code :: handoff_failure_code
  hf_failed_at :: timestamp

record handoff_cancelled =
  hc_handoff_id :: string
  hc_incident_key :: string
  hc_code :: handoff_cancellation_code
  hc_cancelled_at :: timestamp

datatype handoff_event =
    HandoffRequested handoff_requested
  | HandoffAcknowledged handoff_acknowledged
  | HandoffEffectFailed handoff_effect_failed
  | HandoffCancelled handoff_cancelled

definition mk_handoff_requested :: "handoff_requested \<Rightarrow> handoff_requested res" where
  "mk_handoff_requested r =
     bind_res (strict_id (hr_handoff_id r) ''handoff_requested.handoff_id'') (\<lambda>_.
     bind_res (canonical_hash (hr_lead_key_hash r) ''handoff_requested.lead_key_hash'') (\<lambda>_.
     bind_res (strict_id (hr_incident_key r) ''handoff_requested.incident_key'') (\<lambda>_.
     bind_res (strict_id (hr_source_event_id r) ''handoff_requested.source_event_id'') (\<lambda>_.
     if (case hr_anchor r of None \<Rightarrow> False | Some a \<Rightarrow> hr_requested_at r < an_confirmed_at a)
     then Inl (ValueError ''handoff request predates its confirmed reservation anchor'')
     else Inr r))))"

definition mk_handoff_acknowledged :: "handoff_acknowledged \<Rightarrow> handoff_acknowledged res" where
  "mk_handoff_acknowledged a =
     bind_res (strict_id (ha_handoff_id a) ''handoff_acknowledged.handoff_id'') (\<lambda>_.
     bind_res (strict_id (ha_incident_key a) ''handoff_acknowledged.incident_key'') (\<lambda>_.
     bind_res (strict_id (ha_effect_id a) ''handoff_acknowledged.effect_id'') (\<lambda>_.
     bind_res (strict_id (ha_receipt_id a) ''handoff_acknowledged.receipt_id'') (\<lambda>_. Inr a))))"

definition mk_handoff_effect_failed :: "handoff_effect_failed \<Rightarrow> handoff_effect_failed res" where
  "mk_handoff_effect_failed f =
     bind_res (strict_id (hf_handoff_id f) ''handoff_effect_failed.handoff_id'') (\<lambda>_.
     bind_res (strict_id (hf_incident_key f) ''handoff_effect_failed.incident_key'') (\<lambda>_.
     bind_res (strict_id (hf_effect_id f) ''handoff_effect_failed.effect_id'') (\<lambda>_. Inr f)))"

definition mk_handoff_cancelled :: "handoff_cancelled \<Rightarrow> handoff_cancelled res" where
  "mk_handoff_cancelled c =
     bind_res (strict_id (hc_handoff_id c) ''handoff_cancelled.handoff_id'') (\<lambda>_.
     bind_res (strict_id (hc_incident_key c) ''handoff_cancelled.incident_key'') (\<lambda>_. Inr c))"

section \<open>The workflow\<close>

record handoff_workflow =
  hw_request :: handoff_requested
  hw_policy :: handoff_policy
  hw_status :: handoff_status
  hw_queue_active :: bool
  hw_acknowledgement :: "handoff_acknowledged option"
  hw_failures :: "handoff_effect_failed list"
  hw_cancellation :: "handoff_cancelled option"
  hw_conflicting :: "handoff_requested option"

definition event_binding :: "handoff_requested \<Rightarrow> string \<Rightarrow> string \<Rightarrow> unit res" where
  "event_binding request handoff_id incident_key =
     (if handoff_id \<noteq> hr_handoff_id request \<or> incident_key \<noteq> hr_incident_key request
      then Inl (ValueError ''handoff event belongs to another workflow or incident'')
      else Inr ())"

definition check_acknowledgement :: "handoff_workflow \<Rightarrow> unit res" where
  "check_acknowledgement w =
     (case hw_acknowledgement w of
        None \<Rightarrow> Inr ()
      | Some a \<Rightarrow>
          bind_res (event_binding (hw_request w) (ha_handoff_id a) (ha_incident_key a)) (\<lambda>_.
          if ha_effect_id a
               \<noteq> effect_id (hr_handoff_id (hw_request w)) (hr_incident_key (hw_request w)) CUSTOMER_ACKNOWLEDGEMENT
          then Inl (ValueError ''handoff acknowledgement has divergent effect ID'')
          else if ha_acknowledged_at a < hr_requested_at (hw_request w)
          then Inl (ValueError ''handoff acknowledgement predates the request'')
          else Inr ()))"

definition check_failure :: "handoff_workflow \<Rightarrow> handoff_effect_failed \<Rightarrow> unit res" where
  "check_failure w f =
     bind_res (event_binding (hw_request w) (hf_handoff_id f) (hf_incident_key f)) (\<lambda>_.
     if hf_kind f = INTERNAL_EMAIL \<and> hp_internal_email (hw_policy w) \<noteq> EFFECT_OPTIONAL
     then Inl (ValueError ''handoff workflow records a disabled e-mail failure'')
     else if hf_effect_id f \<noteq> effect_id (hr_handoff_id (hw_request w)) (hr_incident_key (hw_request w)) (hf_kind f)
     then Inl (ValueError ''handoff workflow failure has divergent effect ID'')
     else if hf_failed_at f < hr_requested_at (hw_request w)
     then Inl (ValueError ''handoff effect failure predates the request'')
     else Inr ())"

definition check_cancellation :: "handoff_workflow \<Rightarrow> unit res" where
  "check_cancellation w =
     (case hw_cancellation w of
        None \<Rightarrow> Inr ()
      | Some c \<Rightarrow>
          bind_res (event_binding (hw_request w) (hc_handoff_id c) (hc_incident_key c)) (\<lambda>_.
          if hc_cancelled_at c < hr_requested_at (hw_request w)
          then Inl (ValueError ''handoff cancellation predates the request'')
          else Inr ()))"

definition related_request :: "handoff_requested \<Rightarrow> handoff_requested \<Rightarrow> bool" where
  "related_request a b \<longleftrightarrow> hr_incident_key a = hr_incident_key b \<or> hr_handoff_id a = hr_handoff_id b"

definition check_conflict :: "handoff_workflow \<Rightarrow> unit res" where
  "check_conflict w =
     (case hw_conflicting w of
        None \<Rightarrow> Inr ()
      | Some r \<Rightarrow>
          if r = hw_request w then Inl (ValueError ''conflicting request cannot equal the original request'')
          else if \<not> related_request r (hw_request w)
          then Inl (ValueError ''conflicting request is unrelated to the workflow'')
          else if hr_requested_at r < hr_requested_at (hw_request w)
          then Inl (ValueError ''conflicting request predates the original request'')
          else Inr ())"

definition required_failures :: "handoff_workflow \<Rightarrow> handoff_effect_failed list" where
  "required_failures w = filter (\<lambda>f. hf_kind f = CUSTOMER_ACKNOWLEDGEMENT) (hw_failures w)"

definition recorded_times :: "handoff_workflow \<Rightarrow> timestamp list" where
  "recorded_times w =
     map hf_failed_at (hw_failures w)
     @ (case hw_acknowledgement w of None \<Rightarrow> [] | Some a \<Rightarrow> [ha_acknowledged_at a])
     @ (case hw_conflicting w of None \<Rightarrow> [] | Some r \<Rightarrow> [hr_requested_at r])"

fun check_status :: "handoff_status \<Rightarrow> handoff_workflow \<Rightarrow> unit res" where
  "check_status HANDOFF_REQUESTED w =
     (if \<not> (\<not> hw_queue_active w \<and> hw_acknowledgement w = None \<and> hw_failures w = []
            \<and> hw_cancellation w = None \<and> hw_conflicting w = None)
      then Inl (ValueError ''requested handoff cannot contain lifecycle history'') else Inr ())"
| "check_status HANDOFF_ACTIVE w =
     (if \<not> (hw_queue_active w \<and> hw_acknowledgement w = None \<and> hw_cancellation w = None
            \<and> hw_conflicting w = None \<and> required_failures w = [])
      then Inl (ValueError ''active handoff status/history is inconsistent'') else Inr ())"
| "check_status HANDOFF_ACKNOWLEDGEMENT_PENDING w =
     (if \<not> (hw_queue_active w \<and> hw_acknowledgement w = None \<and> hw_cancellation w = None
            \<and> hw_conflicting w = None \<and> required_failures w = [])
      then Inl (ValueError ''pending handoff status matrix is inconsistent'') else Inr ())"
| "check_status HANDOFF_ACKNOWLEDGED w =
     (if \<not> (hw_queue_active w \<and> hw_acknowledgement w \<noteq> None \<and> hw_cancellation w = None
            \<and> hw_conflicting w = None)
      then Inl (ValueError ''acknowledged handoff requires queue and receipt'') else Inr ())"
| "check_status HANDOFF_MANUAL_REVIEW w =
     (if \<not> (hw_queue_active w \<and> hw_cancellation w = None
            \<and> (hw_conflicting w \<noteq> None \<or> required_failures w \<noteq> [] \<and> hw_acknowledgement w = None))
      then Inl (ValueError ''manual-review handoff must keep queue active'') else Inr ())"
| "check_status HANDOFF_COMPLETED w =
     (if \<not> (\<not> hw_queue_active w \<and> hw_acknowledgement w \<noteq> None \<and> hw_cancellation w = None
            \<and> hw_conflicting w = None)
      then Inl (ValueError ''completed handoff status/history is inconsistent'') else Inr ())"
| "check_status HANDOFF_CANCELLED w =
     (if hw_queue_active w \<or> hw_cancellation w = None
      then Inl (ValueError ''cancelled handoff requires cancellation and closed queue'') else Inr ())"

definition mk_handoff_workflow :: "handoff_workflow \<Rightarrow> handoff_workflow res" where
  "mk_handoff_workflow w =
     bind_res (check_acknowledgement w) (\<lambda>_.
     bind_res (map_res (check_failure w) (hw_failures w)) (\<lambda>_.
     if \<not> distinct (map hf_effect_id (hw_failures w))
     then Inl (ValueError ''handoff_workflow has duplicate effect failures'')
     else
     bind_res (check_cancellation w) (\<lambda>_.
     bind_res (check_conflict w) (\<lambda>_.
     if (case hw_cancellation w of
           None \<Rightarrow> False
         | Some c \<Rightarrow> recorded_times w \<noteq> [] \<and> hc_cancelled_at c < Max (set (recorded_times w)))
     then Inl (ValueError ''handoff cancellation predates recorded history'')
     else bind_res (check_status (hw_status w) w) (\<lambda>_. Inr w)))))"

definition handoff_from_request :: "handoff_requested \<Rightarrow> handoff_policy \<Rightarrow> handoff_workflow res" where
  "handoff_from_request r policy = mk_handoff_workflow
     \<lparr>hw_request = r, hw_policy = policy, hw_status = HANDOFF_ACKNOWLEDGEMENT_PENDING,
      hw_queue_active = True, hw_acknowledgement = None, hw_failures = [], hw_cancellation = None,
      hw_conflicting = None\<rparr>"

section \<open>Effect jobs\<close>

record handoff_job =
  hj_effect_id :: string
  hj_handoff_id :: string
  hj_incident_key :: string
  hj_kind :: handoff_effect_kind
  hj_required :: bool
  hj_created_at :: timestamp

definition mk_handoff_job :: "handoff_job \<Rightarrow> handoff_job res" where
  "mk_handoff_job j =
     bind_res (strict_id (hj_effect_id j) ''handoff_effect_job.effect_id'') (\<lambda>_.
     bind_res (strict_id (hj_handoff_id j) ''handoff_effect_job.handoff_id'') (\<lambda>_.
     bind_res (strict_id (hj_incident_key j) ''handoff_effect_job.incident_key'') (\<lambda>_.
     if hj_kind j = CUSTOMER_ACKNOWLEDGEMENT \<and> \<not> hj_required j
     then Inl (ValueError ''customer acknowledgement job must be required'')
     else if hj_kind j = INTERNAL_EMAIL \<and> hj_required j
     then Inl (ValueError ''internal e-mail job must be optional'')
     else if hj_effect_id j \<noteq> effect_id (hj_handoff_id j) (hj_incident_key j) (hj_kind j)
     then Inl (ValueError ''handoff_effect_job.effect_id is not canonical'')
     else Inr j)))"

definition acknowledgement_job :: "handoff_workflow \<Rightarrow> handoff_job res" where
  "acknowledgement_job w =
     (let r = hw_request w
      in mk_handoff_job
           \<lparr>hj_effect_id = effect_id (hr_handoff_id r) (hr_incident_key r) CUSTOMER_ACKNOWLEDGEMENT,
            hj_handoff_id = hr_handoff_id r, hj_incident_key = hr_incident_key r,
            hj_kind = CUSTOMER_ACKNOWLEDGEMENT, hj_required = True, hj_created_at = hr_requested_at r\<rparr>)"

definition email_job :: "handoff_workflow \<Rightarrow> handoff_job res" where
  "email_job w =
     (if hp_internal_email (hw_policy w) \<noteq> EFFECT_OPTIONAL
      then Inl (ValueError ''internal e-mail effect is not enabled'')
      else let r = hw_request w
      in mk_handoff_job
           \<lparr>hj_effect_id = effect_id (hr_handoff_id r) (hr_incident_key r) INTERNAL_EMAIL,
            hj_handoff_id = hr_handoff_id r, hj_incident_key = hr_incident_key r,
            hj_kind = INTERNAL_EMAIL, hj_required = False, hj_created_at = hr_requested_at r\<rparr>)"

section \<open>Transitions\<close>

record handoff_transition =
  ht_state :: handoff_workflow
  ht_status :: handoff_transition_status
  ht_reason :: handoff_transition_reason
  ht_events :: "handoff_event list"
  ht_jobs :: "handoff_job list"

definition handoff_step ::
  "handoff_workflow \<Rightarrow> handoff_transition_status \<Rightarrow> handoff_transition_reason \<Rightarrow> handoff_event list
   \<Rightarrow> handoff_job list \<Rightarrow> handoff_transition res" where
  "handoff_step w status reason events jobs =
     (if status \<in> {HT_NOOP, HT_REJECTED} \<and> (events \<noteq> [] \<or> jobs \<noteq> [])
      then Inl (ValueError ''non-applied transition cannot emit events or jobs'')
      else if status = HT_CONFLICT \<and> (length events \<noteq> 1 \<or> jobs \<noteq> [])
      then Inl (ValueError ''conflict transition must record one event and no jobs'')
      else if status = HT_APPLIED \<and> events = []
      then Inl (ValueError ''applied transition must record an event'')
      else Inr \<lparr>ht_state = w, ht_status = status, ht_reason = reason, ht_events = events, ht_jobs = jobs\<rparr>)"

datatype handoff_action =
    EvaluateRequest | RejectEvent | ApplyCancellation | ApplyAcknowledgement | RecordEffectFailure | ReplayOnly

fun handoff_matrix :: "handoff_status \<Rightarrow> handoff_event \<Rightarrow> handoff_action" where
  "handoff_matrix HANDOFF_REQUESTED e =
     (case e of HandoffRequested _ \<Rightarrow> EvaluateRequest | HandoffAcknowledged _ \<Rightarrow> RejectEvent
      | HandoffEffectFailed _ \<Rightarrow> RejectEvent | HandoffCancelled _ \<Rightarrow> ApplyCancellation)"
| "handoff_matrix HANDOFF_COMPLETED e =
     (case e of HandoffRequested _ \<Rightarrow> ReplayOnly | HandoffAcknowledged _ \<Rightarrow> ReplayOnly
      | HandoffEffectFailed _ \<Rightarrow> ReplayOnly | HandoffCancelled _ \<Rightarrow> RejectEvent)"
| "handoff_matrix HANDOFF_CANCELLED e =
     (case e of HandoffRequested _ \<Rightarrow> ReplayOnly | HandoffAcknowledged _ \<Rightarrow> ReplayOnly
      | HandoffEffectFailed _ \<Rightarrow> ReplayOnly | HandoffCancelled _ \<Rightarrow> ApplyCancellation)"
| "handoff_matrix _ e =
     (case e of HandoffRequested _ \<Rightarrow> EvaluateRequest | HandoffAcknowledged _ \<Rightarrow> ApplyAcknowledgement
      | HandoffEffectFailed _ \<Rightarrow> RecordEffectFailure | HandoffCancelled _ \<Rightarrow> ApplyCancellation)"

definition new_handoff :: "handoff_requested \<Rightarrow> handoff_policy \<Rightarrow> handoff_transition res" where
  "new_handoff r policy =
     bind_res (handoff_from_request r policy) (\<lambda>w.
     bind_res (acknowledgement_job w) (\<lambda>ack.
     bind_res (if hp_internal_email policy = EFFECT_OPTIONAL
               then bind_res (email_job w) (\<lambda>email. Inr [ack, email]) else Inr [ack]) (\<lambda>jobs.
     handoff_step w HT_APPLIED HANDOFF_OPENED [HandoffRequested r] jobs)))"

definition reduce_request :: "handoff_workflow \<Rightarrow> handoff_requested \<Rightarrow> bool \<Rightarrow> handoff_transition res" where
  "reduce_request w r replay_only =
     (if r = hw_request w \<or> Some r = hw_conflicting w then handoff_step w HT_NOOP HT_IDENTICAL_REPLAY [] []
      else if hw_conflicting w \<noteq> None
      then Inl (ValueError ''handoff already records a different conflicting request'')
      else if replay_only
      then (if related_request r (hw_request w)
            then Inl (ValueError ''terminal handoff rejects divergent request replay'')
            else Inl (ValueError ''handoff request is unrelated to the workflow''))
      else if \<not> related_request r (hw_request w)
      then Inl (ValueError ''handoff request is unrelated to the workflow'')
      else bind_res (mk_handoff_workflow (w\<lparr>hw_status := HANDOFF_MANUAL_REVIEW, hw_queue_active := True,
                       hw_conflicting := Some r\<rparr>)) (\<lambda>conflicted.
           handoff_step conflicted HT_CONFLICT DIVERGENT_INCIDENT [HandoffRequested r] []))"

definition reduce_acknowledgement ::
  "handoff_workflow \<Rightarrow> handoff_acknowledged \<Rightarrow> bool \<Rightarrow> handoff_transition res" where
  "reduce_acknowledgement w a replay_only =
     bind_res (event_binding (hw_request w) (ha_handoff_id a) (ha_incident_key a)) (\<lambda>_.
     bind_res (acknowledgement_job w) (\<lambda>expected.
     if ha_effect_id a \<noteq> hj_effect_id expected
     then Inl (ValueError ''acknowledgement references a divergent effect'')
     else case hw_acknowledgement w of
       Some existing \<Rightarrow>
         if a = existing then handoff_step w HT_NOOP HT_IDENTICAL_REPLAY [] []
         else Inl (ValueError ''acknowledgement replay has divergent receipt'')
     | None \<Rightarrow>
         if replay_only then handoff_step w HT_REJECTED HT_EVENT_NOT_APPLICABLE [] []
         else bind_res (mk_handoff_workflow (w\<lparr>
                hw_status := (if hw_conflicting w \<noteq> None then HANDOFF_MANUAL_REVIEW else HANDOFF_ACKNOWLEDGED),
                hw_queue_active := True, hw_acknowledgement := Some a\<rparr>)) (\<lambda>acknowledged.
              handoff_step acknowledged HT_APPLIED ACKNOWLEDGEMENT_RECORDED [HandoffAcknowledged a] [])))"

definition expected_failure_job :: "handoff_workflow \<Rightarrow> handoff_effect_kind \<Rightarrow> handoff_job res" where
  "expected_failure_job w kind =
     (case kind of CUSTOMER_ACKNOWLEDGEMENT \<Rightarrow> acknowledgement_job w | INTERNAL_EMAIL \<Rightarrow> email_job w)"

definition reduce_effect_failure ::
  "handoff_workflow \<Rightarrow> handoff_effect_failed \<Rightarrow> bool \<Rightarrow> handoff_transition res" where
  "reduce_effect_failure w f replay_only =
     bind_res (event_binding (hw_request w) (hf_handoff_id f) (hf_incident_key f)) (\<lambda>_.
     bind_res (expected_failure_job w (hf_kind f)) (\<lambda>expected.
     if hf_effect_id f \<noteq> hj_effect_id expected
     then Inl (ValueError ''effect failure references a divergent effect'')
     else case List.find (\<lambda>x. hf_effect_id x = hf_effect_id f) (hw_failures w) of
       Some existing \<Rightarrow>
         if existing = f then handoff_step w HT_NOOP HT_IDENTICAL_REPLAY [] []
         else Inl (ValueError ''effect failure replay has divergent payload'')
     | None \<Rightarrow>
         if replay_only then handoff_step w HT_REJECTED HT_EVENT_NOT_APPLICABLE [] []
         else bind_res (mk_handoff_workflow (w\<lparr>
                hw_status := (if hf_kind f = CUSTOMER_ACKNOWLEDGEMENT \<and> hw_acknowledgement w = None
                              then HANDOFF_MANUAL_REVIEW else hw_status w),
                hw_queue_active := True, hw_failures := hw_failures w @ [f]\<rparr>)) (\<lambda>failed.
              handoff_step failed HT_APPLIED EFFECT_FAILURE_RECORDED [HandoffEffectFailed f] [])))"

definition reduce_cancellation :: "handoff_workflow \<Rightarrow> handoff_cancelled \<Rightarrow> bool \<Rightarrow> handoff_transition res" where
  "reduce_cancellation w c reject =
     bind_res (event_binding (hw_request w) (hc_handoff_id c) (hc_incident_key c)) (\<lambda>_.
     case hw_cancellation w of
       Some existing \<Rightarrow>
         if c = existing then handoff_step w HT_NOOP HT_IDENTICAL_REPLAY [] []
         else Inl (ValueError ''cancellation replay has divergent payload'')
     | None \<Rightarrow>
         if reject then handoff_step w HT_REJECTED HT_EVENT_NOT_APPLICABLE [] []
         else bind_res (mk_handoff_workflow (w\<lparr>hw_status := HANDOFF_CANCELLED, hw_queue_active := False,
                hw_cancellation := Some c\<rparr>)) (\<lambda>cancelled.
              handoff_step cancelled HT_APPLIED HANDOFF_CANCELLED_REASON [HandoffCancelled c] []))"

definition reduce_handoff :: "handoff_workflow \<Rightarrow> handoff_event \<Rightarrow> handoff_transition res" where
  "reduce_handoff w e =
     (let action = handoff_matrix (hw_status w) e
      in if action = RejectEvent then handoff_step w HT_REJECTED HT_EVENT_NOT_APPLICABLE [] []
         else case e of
           HandoffRequested r \<Rightarrow> reduce_request w r (action = ReplayOnly)
         | HandoffAcknowledged a \<Rightarrow> reduce_acknowledgement w a (action = ReplayOnly)
         | HandoffEffectFailed f \<Rightarrow> reduce_effect_failure w f (action = ReplayOnly)
         | HandoffCancelled c \<Rightarrow> reduce_cancellation w c (action = RejectEvent))"

section \<open>The public projection\<close>

text \<open>The Portuguese sentences of the source, with their accented letters by code point.\<close>

definition no_reservation_text :: string where
  "no_reservation_text =
     ''N'' @ [CHR 0xE3] @ ''o h'' @ [CHR 0xE1] @ '' informa'' @ [CHR 0xE7] @ [CHR 0xE3] @ ''o can'' @
     [CHR 0xF4] @ ''nica sobre uma reserva neste atendimento.''"

definition reservation_made_text :: string where
  "reservation_made_text = ''A reserva foi criada.''"

definition reservation_not_made_text :: string where
  "reservation_not_made_text = ''A reserva n'' @ [CHR 0xE3] @ ''o foi criada.''"

definition reservation_unknown_text :: string where
  "reservation_unknown_text = ''Ainda n'' @ [CHR 0xE3] @ ''o sabemos se a reserva foi criada.''"

definition reservation_sentence :: "execution_outcome option \<Rightarrow> string" where
  "reservation_sentence outcome =
     (case outcome of
        None \<Rightarrow> no_reservation_text
      | Some u \<Rightarrow>
          (case eo_certainty u of
             EFFECT_CONFIRMED \<Rightarrow> reservation_made_text
           | NOT_CALLED \<Rightarrow> reservation_not_made_text
           | CALLED_NO_EFFECT \<Rightarrow> reservation_not_made_text
           | CALLED_UNKNOWN \<Rightarrow> reservation_unknown_text))"

definition immediate_text :: string where
  "immediate_text =
     ''Uma pessoa da nossa equipe vai assumir a conversa e continuar seu atendimento por aqui.''"

definition operational_text :: "execution_outcome option \<Rightarrow> string" where
  "operational_text outcome =
     (case outcome of
        None \<Rightarrow> ''J'' @ [CHR 0xE1] @
     '' reunimos os detalhes do seu atendimento. Uma pessoa da nossa equipe vai assumir a conversa e concluir essa etapa por aqui.''
      | Some u \<Rightarrow>
          (if eo_certainty u = EFFECT_CONFIRMED
           then ''Uma pessoa da nossa equipe vai assumir a conversa e ajudar voc'' @ [CHR 0xEA] @
     '' a finalizar o atendimento por aqui.''
           else ''J'' @ [CHR 0xE1] @
     '' temos seus dados e os detalhes da reserva. Uma pessoa da nossa equipe vai assumir a conversa e concluir essa etapa por aqui.''))"

definition cancelled_text :: string where
  "cancelled_text = ''O atendimento humano foi cancelado.''"

definition completed_text :: string where
  "completed_text = ''O atendimento humano foi conclu'' @ [CHR 0xED] @ ''do.''"

definition active_handoff_texts :: "execution_outcome option \<Rightarrow> string list" where
  "active_handoff_texts outcome = [immediate_text, operational_text outcome]"

definition active_handoff_text :: "execution_outcome option \<Rightarrow> handoff_reason \<Rightarrow> string" where
  "active_handoff_text outcome reason =
     (if reason \<in> {PROVIDER_UNCERTAIN, OPERATIONAL_REVIEW} then operational_text outcome else immediate_text)"

record public_projection =
  pr_text :: string
  pr_next_action :: public_next_action
  pr_outcome :: "execution_outcome option"

definition handoff_texts :: "execution_outcome option \<Rightarrow> public_next_action \<Rightarrow> string list" where
  "handoff_texts outcome action =
     (case action of
        WAIT_FOR_HUMAN \<Rightarrow> active_handoff_texts outcome
      | NO_ACTION \<Rightarrow> [cancelled_text, completed_text])"

definition mk_projection :: "public_projection \<Rightarrow> public_projection res" where
  "mk_projection p =
     (let canonical = normalize_spaces (pr_text p)
      in if canonical = [] \<or> canonical \<noteq> pr_text p
         then Inl (ValueError ''public_handoff_projection.public_text is not canonical'')
         else if canonical \<notin> set (map (\<lambda>t. reservation_sentence (pr_outcome p) @ '' '' @ t)
                                    (handoff_texts (pr_outcome p) (pr_next_action p)))
         then Inl (ValueError ''public_handoff_projection.public_text is not a safe projection'')
         else Inr p)"

definition optional_text :: "string option \<Rightarrow> string \<Rightarrow> string option res" where
  "optional_text value field_name =
     (case value of
        None \<Rightarrow> Inr None
      | Some s \<Rightarrow> let normalized = normalize_spaces s
          in if normalized = [] then Inl (ValueError (field_name @ '' must not be empty''))
             else Inr (Some normalized))"

definition project_handoff_public_reply ::
  "handoff_workflow \<Rightarrow> execution_outcome option \<Rightarrow> string option \<Rightarrow> string option \<Rightarrow> string option
   \<Rightarrow> public_projection res" where
  "project_handoff_public_reply w outcome stale_confirmation stale_slots prior_text =
     bind_res (optional_text stale_confirmation ''stale_confirmation_question'') (\<lambda>_.
     bind_res (optional_text stale_slots ''stale_missing_slots_question'') (\<lambda>_.
     bind_res (optional_text prior_text ''prior_followup_text'') (\<lambda>_.
     bind_res (case hr_anchor (hw_request w) of
                 None \<Rightarrow> Inr outcome
               | Some a \<Rightarrow>
                   (case outcome of
                      None \<Rightarrow> Inr (Some (an_outcome a))
                    | Some u \<Rightarrow>
                        if u \<noteq> an_outcome a
                        then Inl (ValueError ''reservation outcome diverges from the confirmed anchor'')
                        else Inr (Some u))) (\<lambda>outcome.
     let (handoff_text, action) =
       (case hw_status w of
          HANDOFF_CANCELLED \<Rightarrow> (cancelled_text, NO_ACTION)
        | HANDOFF_COMPLETED \<Rightarrow> (completed_text, NO_ACTION)
        | _ \<Rightarrow> (active_handoff_text outcome (hr_reason (hw_request w)), WAIT_FOR_HUMAN))
     in mk_projection \<lparr>pr_text = join '' '' [reservation_sentence outcome, handoff_text],
          pr_next_action = action, pr_outcome = outcome\<rparr>))))"

end
