(* ===== verification/Followup_Handoff_Laws.thy ===== *)
theory Followup_Handoff_Laws
  imports Followup_Handoff
begin

text \<open>
  What the hand-over reducer guarantees: every accepted event keeps the workflow canonical and only
  adds to what it records, a cancelled hand-over is final, an open one stays with a person and
  accepts every first causal event, and its public reply never claims more than the outcome.
\<close>

section \<open>The invariant\<close>

definition wf_handoff :: "handoff_workflow \<Rightarrow> bool" where
  "wf_handoff w \<longleftrightarrow> mk_handoff_workflow w = Inr w
     \<and> mk_handoff_requested (hw_request w) = Inr (hw_request w)
     \<and> mk_handoff_policy (hw_policy w) = Inr (hw_policy w)"

text \<open>The workflows the reducer builds: an open one is queued, a cancelled one is not.\<close>

definition opened :: "handoff_workflow \<Rightarrow> bool" where
  "opened w \<longleftrightarrow> wf_handoff w \<and> hw_status w \<in> {HANDOFF_ACKNOWLEDGEMENT_PENDING, HANDOFF_ACKNOWLEDGED,
     HANDOFF_MANUAL_REVIEW, HANDOFF_CANCELLED}"

lemma mk_handoff_workflow_Inr:
  assumes "mk_handoff_workflow w = Inr v"
  shows "v = w" "check_status (hw_status w) w = Inr ()"
  using assms by (auto simp: mk_handoff_workflow_def bind_res_Inr_iff split: if_splits)

lemma handoff_step_Inr:
  assumes "handoff_step w s r es js = Inr t"
  shows "t = \<lparr>ht_state = w, ht_status = s, ht_reason = r, ht_events = es, ht_jobs = js\<rparr>"
  using assms by (auto simp: handoff_step_def split: if_splits)

lemma opened_queue: "opened w \<Longrightarrow> (hw_queue_active w \<longleftrightarrow> hw_status w \<noteq> HANDOFF_CANCELLED)
    \<and> (hw_cancellation w = None \<longleftrightarrow> hw_status w \<noteq> HANDOFF_CANCELLED)"
  using mk_handoff_workflow_Inr(2) [of w w]
  by (auto simp: opened_def wf_handoff_def split: if_splits)

section \<open>What one event does\<close>

definition handoff_grows :: "handoff_workflow \<Rightarrow> handoff_workflow \<Rightarrow> bool" where
  "handoff_grows a b \<longleftrightarrow>
     hw_request b = hw_request a \<and> hw_policy b = hw_policy a
     \<and> (hw_acknowledgement a \<noteq> None \<longrightarrow> hw_acknowledgement b = hw_acknowledgement a)
     \<and> (hw_conflicting a \<noteq> None \<longrightarrow> hw_conflicting b = hw_conflicting a)
     \<and> take (length (hw_failures a)) (hw_failures b) = hw_failures a
     \<and> (hw_status a = HANDOFF_CANCELLED \<longrightarrow> b = a)"

lemma handoff_grows_refl: "handoff_grows a a"
  by (simp add: handoff_grows_def)

lemma handoff_grows_trans:
  assumes "handoff_grows a b" "handoff_grows b c"
  shows "handoff_grows a c"
proof -
  have "take (length (hw_failures a)) (hw_failures c) = take (length (hw_failures a)) (hw_failures b)"
    using assms unfolding handoff_grows_def by (metis length_take min_def take_take)
  then show ?thesis using assms by (auto simp: handoff_grows_def)
qed

text \<open>Every accepted event either changes nothing or rebuilds the workflow with one addition.\<close>

definition handoff_post :: "handoff_workflow \<Rightarrow> handoff_transition \<Rightarrow> bool" where
  "handoff_post w t \<longleftrightarrow> ht_jobs t = []
     \<and> (ht_state t = w \<and> ht_status t \<in> {HT_NOOP, HT_REJECTED} \<and> ht_events t = []
       \<or> mk_handoff_workflow (ht_state t) = Inr (ht_state t) \<and> ht_status t \<in> {HT_APPLIED, HT_CONFLICT}
         \<and> length (ht_events t) = 1 \<and> hw_status w \<noteq> HANDOFF_CANCELLED \<and> handoff_grows w (ht_state t)
         \<and> (hw_status (ht_state t) = hw_status w
            \<or> hw_status (ht_state t) \<in> {HANDOFF_ACKNOWLEDGED, HANDOFF_MANUAL_REVIEW, HANDOFF_CANCELLED}))"

lemma handoff_rebuilt:
  assumes "mk_handoff_workflow w' = Inr v" "handoff_step v s r [e] [] = Inr t"
    and "s \<in> {HT_APPLIED, HT_CONFLICT}" "hw_status w \<noteq> HANDOFF_CANCELLED" "handoff_grows w w'"
    and "hw_status w' = hw_status w \<or> hw_status w' \<in> {HANDOFF_ACKNOWLEDGED, HANDOFF_MANUAL_REVIEW, HANDOFF_CANCELLED}"
  shows "handoff_post w t"
  using assms mk_handoff_workflow_Inr(1) [OF assms(1)] handoff_step_Inr [OF assms(2)]
  by (auto simp: handoff_post_def)

lemma handoff_kept: "handoff_step w s r [] [] = Inr t \<Longrightarrow> s \<in> {HT_NOOP, HT_REJECTED} \<Longrightarrow> handoff_post w t"
  using handoff_step_Inr [of w s r "[]" "[]" t] by (auto simp: handoff_post_def)

lemma live_not_cancelled: "\<not> handoff_matrix (hw_status w) e = ReplayOnly \<Longrightarrow>
    \<not> handoff_matrix (hw_status w) e = RejectEvent \<Longrightarrow> (\<And>c. e \<noteq> HandoffCancelled c) \<Longrightarrow>
    hw_status w \<noteq> HANDOFF_CANCELLED"
  by (cases e) auto

lemma reduce_handoff_post:
  assumes "opened w" "reduce_handoff w e = Inr t"
  shows "handoff_post w t"
proof (cases "handoff_matrix (hw_status w) e = RejectEvent")
  case True
  then show ?thesis using assms handoff_kept by (auto simp: reduce_handoff_def Let_def)
next
  case False
  note q = opened_queue [OF assms(1)]
  show ?thesis
  proof (cases e)
    case (HandoffRequested r)
    have live: "hw_status w \<noteq> HANDOFF_CANCELLED" if "handoff_matrix (hw_status w) e \<noteq> ReplayOnly"
      using that False HandoffRequested by (auto intro: live_not_cancelled)
    have "ensures (handoff_post w) (reduce_request w r (handoff_matrix (hw_status w) e = ReplayOnly))"
      unfolding reduce_request_def
      by (intro ensures_rules; (simp only: ensures_Inl)?)
         (auto simp: ensures_def split: sum.split intro: handoff_kept,
          (erule (1) handoff_rebuilt; use live in \<open>auto simp: handoff_grows_def\<close>)+)
    then show ?thesis using assms(2) False HandoffRequested by (simp add: reduce_handoff_def ensuresD)
  next
    case (HandoffAcknowledged a)
    have live: "hw_status w \<noteq> HANDOFF_CANCELLED" if "handoff_matrix (hw_status w) e \<noteq> ReplayOnly"
      using that False HandoffAcknowledged by (auto intro: live_not_cancelled)
    have "ensures (handoff_post w) (reduce_acknowledgement w a (handoff_matrix (hw_status w) e = ReplayOnly))"
      unfolding reduce_acknowledgement_def
      by (intro ensures_rules; (simp only: ensures_Inl)?)
         (auto simp: ensures_def split: sum.split intro: handoff_kept,
          (erule (1) handoff_rebuilt; use live in \<open>auto simp: handoff_grows_def\<close>)+)
    then show ?thesis using assms(2) False HandoffAcknowledged by (simp add: reduce_handoff_def ensuresD)
  next
    case (HandoffEffectFailed f)
    have live: "hw_status w \<noteq> HANDOFF_CANCELLED" if "handoff_matrix (hw_status w) e \<noteq> ReplayOnly"
      using that False HandoffEffectFailed by (auto intro: live_not_cancelled)
    have "ensures (handoff_post w) (reduce_effect_failure w f (handoff_matrix (hw_status w) e = ReplayOnly))"
      unfolding reduce_effect_failure_def
      by (intro ensures_rules; (simp only: ensures_Inl)?)
         (auto simp: ensures_def split: sum.split intro: handoff_kept,
          (erule (1) handoff_rebuilt; use live in \<open>auto simp: handoff_grows_def\<close>)+)
    then show ?thesis using assms(2) False HandoffEffectFailed by (simp add: reduce_handoff_def ensuresD)
  next
    case (HandoffCancelled c)
    have "ensures (handoff_post w) (reduce_cancellation w c (handoff_matrix (hw_status w) e = RejectEvent))"
      unfolding reduce_cancellation_def
      by (intro ensures_rules; (simp only: ensures_Inl)?)
         (auto simp: ensures_def split: sum.split intro: handoff_kept,
          (erule (1) handoff_rebuilt; use q in \<open>auto simp: handoff_grows_def\<close>)+)
    then show ?thesis using assms(2) False HandoffCancelled by (simp add: reduce_handoff_def ensuresD)
  qed
qed

section \<open>Histories\<close>

interpretation handoff: event_sourced reduce_handoff ht_state opened "\<lambda>_. True"
proof unfold_locales
  fix w e t
  assume w: "opened w" and r: "reduce_handoff w e = Inr t"
  from reduce_handoff_post [OF this] show "opened (ht_state t)"
    using w by (auto simp: handoff_post_def opened_def wf_handoff_def handoff_grows_def)
qed

lemma handoff_step_grows: "opened w \<Longrightarrow> reduce_handoff w e = Inr t \<Longrightarrow> handoff_grows w (ht_state t)"
  using reduce_handoff_post [of w e t] handoff_grows_refl by (auto simp: handoff_post_def)

lemma handoff_run_jobs:
  "opened w \<Longrightarrow> run reduce_handoff ht_state w es = Inr ts \<Longrightarrow> list_all (\<lambda>t. ht_jobs t = []) ts"
proof (induction es arbitrary: w ts)
  case (Cons e es)
  then obtain t ts' where t: "reduce_handoff w e = Inr t" "run reduce_handoff ht_state (ht_state t) es = Inr ts'"
    and ts: "ts = t # ts'" by (auto simp: bind_res_Inr_iff)
  have "opened (ht_state t)" "ht_jobs t = []"
    using handoff.step_keeps [OF Cons.prems(1) _ t(1)] reduce_handoff_post [OF Cons.prems(1) t(1)]
    by (simp_all add: handoff_post_def)
  then show ?case using Cons.IH t ts by simp
qed simp

text \<open>
  C39: A hand-over keeps what it records: along any accepted list of events the request, the policy,
  a first receipt, a first conflict and every recorded failure stay as they are, no further effect
  is asked for, the conversation stays queued for a person exactly while it is not cancelled, and
  a cancelled hand-over does not change any more.
\<close>

theorem handoff_history_keeps:
  assumes "opened w" "run reduce_handoff ht_state w es = Inr ts"
  shows "handoff_grows w (final_state ht_state w ts) \<and> opened (final_state ht_state w ts)
    \<and> (hw_queue_active (final_state ht_state w ts)
         \<longleftrightarrow> hw_status (final_state ht_state w ts) \<noteq> HANDOFF_CANCELLED)
    \<and> list_all (\<lambda>t. ht_jobs t = []) ts"
proof -
  have "opened (final_state ht_state w ts)" using handoff.run_keeps [OF assms(1) _ assms(2)] by (simp add: list_all_iff)
  moreover have "handoff_grows w (final_state ht_state w ts)"
    by (rule handoff.run_relates [where r = handoff_grows, OF _ handoff_grows_refl handoff_grows_trans assms(1) _ assms(2)])
       (simp_all add: list_all_iff handoff_step_grows)
  ultimately show ?thesis using opened_queue handoff_run_jobs [OF assms] by blast
qed

section \<open>A first hand-over\<close>

definition sample_handoff_request :: handoff_requested where
  "sample_handoff_request = \<lparr>hr_handoff_id = ''handoff:1'', hr_lead_key_hash = sha256_hex ''lead'',
     hr_incident_key = ''incident:1'', hr_reason = CUSTOMER_REQUESTED, hr_source_event_id = ''event:1'',
     hr_anchor = None, hr_requested_at = 1000\<rparr>"

definition sample_handoff_policy :: handoff_policy where
  "sample_handoff_policy = \<lparr>hp_queue_state = EFFECT_REQUIRED, hp_acknowledgement = EFFECT_REQUIRED,
     hp_internal_email = EFFECT_OPTIONAL\<rparr>"

definition sample_handoff :: handoff_workflow where
  "sample_handoff = \<lparr>hw_request = sample_handoff_request, hw_policy = sample_handoff_policy,
     hw_status = HANDOFF_ACKNOWLEDGEMENT_PENDING, hw_queue_active = True, hw_acknowledgement = None,
     hw_failures = [], hw_cancellation = None, hw_conflicting = None\<rparr>"

lemma sample_handoff_ids: "id_re ''handoff:1''" "id_re ''incident:1''" "id_re ''event:1''" "id_re ''receipt:1''"
  by (simp_all add: char_class_defs ordc_def)

lemma sample_handoff_opened: "opened sample_handoff"
  using sample_handoff_ids
  by (simp add: opened_def wf_handoff_def sample_handoff_def sample_handoff_request_def sample_handoff_policy_def
      mk_handoff_workflow_def check_acknowledgement_def check_cancellation_def check_conflict_def
      required_failures_def mk_handoff_requested_def mk_handoff_policy_def strict_id_def canonical_hash_def
      del: id_re.simps)

definition sample_handoff_cancellation :: handoff_cancelled where
  "sample_handoff_cancellation = \<lparr>hc_handoff_id = ''handoff:1'', hc_incident_key = ''incident:1'',
     hc_code = REQUEST_WITHDRAWN, hc_cancelled_at = 2000\<rparr>"

lemma sample_handoff_cancelled:
  "\<exists>t. reduce_handoff sample_handoff (HandoffCancelled sample_handoff_cancellation) = Inr t
     \<and> hw_status (ht_state t) = HANDOFF_CANCELLED"
  by (simp add: reduce_handoff_def reduce_cancellation_def sample_handoff_def sample_handoff_request_def
      sample_handoff_cancellation_def event_binding_def mk_handoff_workflow_def check_acknowledgement_def
      check_cancellation_def check_conflict_def recorded_times_def handoff_step_def)

theorem handoff_history_keeps_witness:
  "\<exists>ts. run reduce_handoff ht_state sample_handoff [HandoffCancelled sample_handoff_cancellation] = Inr ts
     \<and> \<not> hw_queue_active (final_state ht_state sample_handoff ts)"
proof -
  obtain t where t: "reduce_handoff sample_handoff (HandoffCancelled sample_handoff_cancellation) = Inr t"
    "hw_status (ht_state t) = HANDOFF_CANCELLED" using sample_handoff_cancelled by blast
  then have run: "run reduce_handoff ht_state sample_handoff [HandoffCancelled sample_handoff_cancellation] = Inr [t]"
    by simp
  from handoff_history_keeps [OF sample_handoff_opened run] run t(2) show ?thesis by auto
qed

section \<open>Closing a hand-over\<close>

lemma checks_unchanged [simp]:
  "check_acknowledgement (w\<lparr>hw_status := st, hw_queue_active := q, hw_cancellation := c\<rparr>) = check_acknowledgement w"
  "check_failure (w\<lparr>hw_status := st, hw_queue_active := q, hw_cancellation := c\<rparr>) = check_failure w"
  "check_conflict (w\<lparr>hw_status := st, hw_queue_active := q, hw_cancellation := c\<rparr>) = check_conflict w"
  "recorded_times (w\<lparr>hw_status := st, hw_queue_active := q, hw_cancellation := c\<rparr>) = recorded_times w"
  by (auto simp: check_acknowledgement_def check_failure_def check_conflict_def recorded_times_def split: option.split)

lemma wf_handoff_checks:
  assumes "wf_handoff w"
  shows "check_acknowledgement w = Inr ()" "map_res (check_failure w) (hw_failures w) = Inr (replicate (length (hw_failures w)) ())"
    "distinct (map hf_effect_id (hw_failures w))" "check_conflict w = Inr ()"
proof -
  obtain us where us: "check_acknowledgement w = Inr ()" "map_res (check_failure w) (hw_failures w) = Inr us"
      "distinct (map hf_effect_id (hw_failures w))" "check_conflict w = Inr ()"
    using assms by (auto simp: wf_handoff_def mk_handoff_workflow_def bind_res_Inr_iff split: if_splits)
  moreover have "us = replicate (length (hw_failures w)) ()"
    using map_res_Inr_length [OF us(2)] by (metis (full_types) old.unit.exhaust replicate_length_same)
  ultimately show "check_acknowledgement w = Inr ()" "map_res (check_failure w) (hw_failures w)
      = Inr (replicate (length (hw_failures w)) ())" "distinct (map hf_effect_id (hw_failures w))" "check_conflict w = Inr ()"
    by simp_all
qed

text \<open>
  A hand-over that is not cancelled yet can be closed exactly by a cancellation that names it
  and is not earlier than the request and everything recorded since; then the conversation leaves
  the queue, and any other cancellation is refused with the reason.
\<close>

theorem handoff_closes_exactly:
  assumes "opened w" "hw_status w \<noteq> HANDOFF_CANCELLED"
  shows "reduce_handoff w (HandoffCancelled c) =
    (if hc_handoff_id c \<noteq> hr_handoff_id (hw_request w) \<or> hc_incident_key c \<noteq> hr_incident_key (hw_request w)
     then Inl (ValueError ''handoff event belongs to another workflow or incident'')
     else if hc_cancelled_at c < hr_requested_at (hw_request w)
     then Inl (ValueError ''handoff cancellation predates the request'')
     else if list_ex (\<lambda>x. hc_cancelled_at c < x) (recorded_times w)
     then Inl (ValueError ''handoff cancellation predates recorded history'')
     else Inr \<lparr>ht_state = w\<lparr>hw_status := HANDOFF_CANCELLED, hw_queue_active := False, hw_cancellation := Some c\<rparr>,
       ht_status = HT_APPLIED, ht_reason = HANDOFF_CANCELLED_REASON, ht_events = [HandoffCancelled c], ht_jobs = []\<rparr>)"
proof -
  have wf: "wf_handoff w" and none: "hw_cancellation w = None"
    using assms opened_queue by (auto simp: opened_def)
  have m: "handoff_matrix (hw_status w) (HandoffCancelled c) = ApplyCancellation"
    using assms by (auto simp: opened_def)
  have late: "recorded_times w \<noteq> [] \<and> hc_cancelled_at c < Max (set (recorded_times w))
      \<longleftrightarrow> list_ex (\<lambda>x. hc_cancelled_at c < x) (recorded_times w)"
    by (cases "recorded_times w = []") (simp_all add: Max_gr_iff list_ex_iff)
  show ?thesis
    unfolding reduce_handoff_def Let_def m reduce_cancellation_def none mk_handoff_workflow_def
    using wf_handoff_checks [OF wf] late
    by (simp add: event_binding_def check_cancellation_def handoff_step_def)
qed

theorem handoff_closes_exactly_witness:
  "\<exists>t. reduce_handoff sample_handoff (HandoffCancelled sample_handoff_cancellation) = Inr t
     \<and> \<not> hw_queue_active (ht_state t)"
  using handoff_closes_exactly [OF sample_handoff_opened, of sample_handoff_cancellation]
  by (simp add: sample_handoff_def sample_handoff_request_def sample_handoff_cancellation_def recorded_times_def)

section \<open>The public reply\<close>

definition canonical_text :: "string \<Rightarrow> bool" where
  "canonical_text s \<longleftrightarrow> s \<noteq> [] \<and> normalize_spaces s = s"

lemma canonical_text_words: "canonical_text s \<longleftrightarrow> (\<exists>ws. ws \<noteq> [] \<and> list_all is_word ws \<and> s = join '' '' ws)"
proof
  assume "canonical_text s"
  then show "\<exists>ws. ws \<noteq> [] \<and> list_all is_word ws \<and> s = join '' '' ws"
    by (intro exI [of _ "split_ws [] s"])
       (auto simp: canonical_text_def normalize_spaces_def split_ws_words no_space_def)
next
  assume "\<exists>ws. ws \<noteq> [] \<and> list_all is_word ws \<and> s = join '' '' ws"
  then obtain ws where "ws \<noteq> []" "list_all is_word ws" "s = join '' '' ws" by blast
  moreover have "join '' '' ws \<noteq> []" if "ws \<noteq> []" "list_all is_word ws" for ws
    using that by (cases ws; cases "tl ws") (auto simp: is_word_def)
  ultimately show "canonical_text s"
    by (simp add: canonical_text_def normalize_spaces_def split_ws_join)
qed

lemma join_append: "xs \<noteq> [] \<Longrightarrow> ys \<noteq> [] \<Longrightarrow> join sep (xs @ ys) = join sep xs @ sep @ join sep ys"
  by (induction sep xs rule: join.induct) (auto simp: neq_Nil_conv)

lemma canonical_text_join:
  assumes "canonical_text a" "canonical_text b"
  shows "canonical_text (a @ '' '' @ b)"
proof -
  obtain xs ys where "xs \<noteq> []" "list_all is_word xs" "a = join '' '' xs" "ys \<noteq> []" "list_all is_word ys" "b = join '' '' ys"
    using assms unfolding canonical_text_words by blast
  then show ?thesis
    unfolding canonical_text_words by (intro exI [of _ "xs @ ys"]) (simp add: join_append)
qed

text \<open>The white space of Latin-1, one character at a time.\<close>

lemma is_space_set: "is_space c \<longleftrightarrow> c = CHR '' '' \<or> c = CHR 0x09 \<or> c = CHR 0x0A \<or> c = CHR 0x0B \<or> c = CHR 0x0C \<or> c = CHR 0x0D
  \<or> c = CHR 0x1C \<or> c = CHR 0x1D \<or> c = CHR 0x1E \<or> c = CHR 0x1F \<or> c = CHR 0x85 \<or> c = CHR 0xA0"
proof -
  have n: "9 \<le> n \<and> n \<le> 13 \<or> 28 \<le> n \<and> n \<le> 32 \<or> n = 133 \<or> n = 160 \<longleftrightarrow>
      n = 32 \<or> n = 9 \<or> n = 10 \<or> n = 11 \<or> n = 12 \<or> n = 13 \<or> n = 28 \<or> n = 29 \<or> n = 30 \<or> n = 31
      \<or> n = 133 \<or> n = 160" for n :: nat
    by presburger
  have o: "ordc c = ordc d \<longleftrightarrow> c = d" for d by (rule ordc_inject)
  show ?thesis
    unfolding is_space_def in_range_def disj_assoc n
    unfolding o [symmetric] by (simp only: ordc_def) simp
qed

lemma public_texts_canonical:
  "canonical_text no_reservation_text" "canonical_text reservation_made_text"
  "canonical_text reservation_not_made_text" "canonical_text reservation_unknown_text"
  "canonical_text immediate_text" "canonical_text cancelled_text" "canonical_text completed_text"
  by (simp_all add: canonical_text_def normalize_spaces_def is_space_set
      no_reservation_text_def reservation_made_text_def
      reservation_not_made_text_def reservation_unknown_text_def immediate_text_def cancelled_text_def completed_text_def)

lemma operational_text_canonical: "canonical_text (operational_text u)"
proof -
  have "canonical_text (operational_text None)"
    by (simp add: canonical_text_def normalize_spaces_def is_space_set operational_text_def)
  moreover have "canonical_text (operational_text (Some v))" for v
  proof (cases "eo_certainty v = EFFECT_CONFIRMED")
    case True
    then show ?thesis unfolding operational_text_def option.case if_P [OF True]
      by (simp add: canonical_text_def normalize_spaces_def is_space_set)
  next
    case False
    then show ?thesis unfolding operational_text_def option.case if_not_P [OF False]
      by (simp add: canonical_text_def normalize_spaces_def is_space_set)
  qed
  ultimately show ?thesis by (cases u) simp_all
qed

lemma reservation_sentence_canonical: "canonical_text (reservation_sentence u)"
  using public_texts_canonical(1-4) by (simp add: reservation_sentence_def split: option.split execution_certainty.split)

lemma reservation_sentence_made:
  "reservation_sentence u = reservation_made_text \<longleftrightarrow> map_option eo_certainty u = Some EFFECT_CONFIRMED"
  by (simp add: reservation_sentence_def reservation_made_text_def no_reservation_text_def
      reservation_not_made_text_def reservation_unknown_text_def split: option.split execution_certainty.split)

definition known_outcome :: "handoff_workflow \<Rightarrow> execution_outcome option \<Rightarrow> execution_outcome option" where
  "known_outcome w outcome =
     (case hr_anchor (hw_request w) of None \<Rightarrow> outcome | Some a \<Rightarrow> Some (an_outcome a))"

definition handoff_line :: "handoff_workflow \<Rightarrow> execution_outcome option \<Rightarrow> string" where
  "handoff_line w outcome =
     (if hw_status w = HANDOFF_CANCELLED then cancelled_text
      else if hw_status w = HANDOFF_COMPLETED then completed_text
      else active_handoff_text outcome (hr_reason (hw_request w)))"

text \<open>
  C40: The public reply of a hand-over is always produced when the caller's outcome does not
  contradict the confirmed reservation and the stale texts are not blank; it consists of one
  sentence on the reservation and one on the hand-over, ignores the stale texts, and says that the
  reservation was made exactly when its outcome is a confirmed effect.
\<close>

theorem public_reply_honest:
  assumes "case hr_anchor (hw_request w) of None \<Rightarrow> True | Some a \<Rightarrow> outcome \<in> {None, Some (an_outcome a)}"
    and "is_ok (optional_text a ''stale_confirmation_question'')" "is_ok (optional_text b ''stale_missing_slots_question'')"
    and "is_ok (optional_text c ''prior_followup_text'')"
  shows "project_handoff_public_reply w outcome a b c = Inr
      \<lparr>pr_text = reservation_sentence (known_outcome w outcome) @ '' '' @ handoff_line w (known_outcome w outcome),
       pr_next_action = (if hw_status w \<in> {HANDOFF_CANCELLED, HANDOFF_COMPLETED} then NO_ACTION else WAIT_FOR_HUMAN),
       pr_outcome = known_outcome w outcome\<rparr>
    \<and> (reservation_sentence (known_outcome w outcome) = reservation_made_text
       \<longleftrightarrow> map_option eo_certainty (known_outcome w outcome) = Some EFFECT_CONFIRMED)"
proof -
  let ?u = "known_outcome w outcome"
  let ?act = "if hw_status w \<in> {HANDOFF_CANCELLED, HANDOFF_COMPLETED} then NO_ACTION else WAIT_FOR_HUMAN"
  obtain x y z where o: "optional_text a ''stale_confirmation_question'' = Inr x"
      "optional_text b ''stale_missing_slots_question'' = Inr y" "optional_text c ''prior_followup_text'' = Inr z"
    using assms(2-4) by (auto simp: is_ok_iff)
  have u: "(case hr_anchor (hw_request w) of
                 None \<Rightarrow> Inr outcome
               | Some a \<Rightarrow>
                   (case outcome of
                      None \<Rightarrow> Inr (Some (an_outcome a))
                    | Some u \<Rightarrow>
                        if u \<noteq> an_outcome a
                        then Inl (ValueError ''reservation outcome diverges from the confirmed anchor'')
                        else Inr (Some u))) = Inr ?u"
    using assms(1) by (auto simp: known_outcome_def split: option.split)
  have line: "(case hw_status w of
          HANDOFF_CANCELLED \<Rightarrow> (cancelled_text, NO_ACTION)
        | HANDOFF_COMPLETED \<Rightarrow> (completed_text, NO_ACTION)
        | _ \<Rightarrow> (active_handoff_text ?u (hr_reason (hw_request w)), WAIT_FOR_HUMAN)) = (handoff_line w ?u, ?act)"
    by (simp add: handoff_line_def split: handoff_status.split)
  have "canonical_text (handoff_line w ?u)"
    using public_texts_canonical operational_text_canonical by (simp add: handoff_line_def active_handoff_text_def)
  then have canonical: "canonical_text (reservation_sentence ?u @ '' '' @ handoff_line w ?u)"
    by (rule canonical_text_join [OF reservation_sentence_canonical])
  have "handoff_line w ?u \<in> set (handoff_texts ?u ?act)"
    by (simp add: handoff_line_def handoff_texts_def active_handoff_texts_def active_handoff_text_def)
  then have "mk_projection \<lparr>pr_text = reservation_sentence ?u @ '' '' @ handoff_line w ?u,
       pr_next_action = ?act, pr_outcome = ?u\<rparr> = Inr \<lparr>pr_text = reservation_sentence ?u @ '' '' @ handoff_line w ?u,
       pr_next_action = ?act, pr_outcome = ?u\<rparr>"
    using canonical by (auto simp: mk_projection_def canonical_text_def Let_def)
  then show ?thesis
    unfolding project_handoff_public_reply_def o u bind_res_simps line Let_def prod.case join.simps
    using reservation_sentence_made by blast
qed

theorem public_reply_honest_witness:
  "\<exists>p. project_handoff_public_reply sample_handoff None (Some ''ok?'') None None = Inr p
     \<and> pr_outcome p = None \<and> pr_next_action p = WAIT_FOR_HUMAN"
proof -
  have "case hr_anchor (hw_request sample_handoff) of None \<Rightarrow> True | Some a \<Rightarrow> None \<in> {None, Some (an_outcome a)}"
    by (simp add: sample_handoff_def sample_handoff_request_def)
  moreover have "is_ok (optional_text (Some ''ok?'') ''stale_confirmation_question'')"
    by (simp add: optional_text_def normalize_spaces_def is_space_set)
  moreover have "is_ok (optional_text None f)" for f by (simp add: optional_text_def)
  ultimately show ?thesis
    using public_reply_honest [where w = sample_handoff and outcome = None and a = "Some ''ok?''" and b = None and c = None]
    by (simp add: known_outcome_def sample_handoff_def sample_handoff_request_def)
qed

end
