(* ===== verification/Followup_Evidence.thy ===== *)
theory Followup_Evidence
  imports Followup_Types
begin

text \<open>
  The evidence half of \<^verbatim>\<open>reservation_followup/payment.py\<close>: Pix proofs, Wise credits, Stripe events and
  visually validated transfers with their constructors, the digests that seal them, the claim key
  that identifies one payment for the whole system, and \<open>validate_evidence\<close>, which accepts evidence
  for one economic subject and one trust configuration.
\<close>

section \<open>Scalar validators\<close>

definition opaque_id :: "string \<Rightarrow> string \<Rightarrow> string res" where
  "opaque_id value field_name =
     (if \<not> id_re value then Inl (ValueError (field_name @ '' must be a canonical opaque identifier''))
      else Inr value)"

definition digest_hash :: "string \<Rightarrow> string \<Rightarrow> string res" where
  "digest_hash value field_name =
     (if \<not> hash_re value then Inl (ValueError (field_name @ '' must be a lowercase SHA-256 digest''))
      else Inr value)"

definition upper_currency :: "string \<Rightarrow> string \<Rightarrow> string res" where
  "upper_currency value field_name =
     (if \<not> currency_re value
      then Inl (ValueError (field_name @ '' must be an uppercase three-letter currency''))
      else Inr value)"

lemma opaque_id_Inr [simp]: "opaque_id v f = Inr x \<longleftrightarrow> x = v \<and> id_re v"
  by (auto simp: opaque_id_def)

lemma digest_hash_Inr [simp]: "digest_hash v f = Inr x \<longleftrightarrow> x = v \<and> hash_re v"
  by (auto simp: digest_hash_def)

lemma upper_currency_Inr [simp]: "upper_currency v f = Inr x \<longleftrightarrow> x = v \<and> currency_re v"
  by (auto simp: upper_currency_def)

text \<open>\<open>if condition: raise ValueError(message)\<close>, as a step of a chain of checks.\<close>

definition reject_if :: "bool \<Rightarrow> string \<Rightarrow> unit res" where
  "reject_if b msg = (if b then Inl (ValueError msg) else Inr ())"

lemma reject_if_Inr [simp]: "reject_if b msg = Inr u \<longleftrightarrow> \<not> b"
  by (simp add: reject_if_def)

lemma reject_if_simps [simp]: "reject_if False msg = Inr ()" "reject_if True msg = Inl (ValueError msg)"
  by (simp_all add: reject_if_def)

section \<open>Shapes of identifiers\<close>

definition is_upper_alnum :: "char \<Rightarrow> bool" where
  "is_upper_alnum c \<longleftrightarrow> is_digit c \<or> is_upper_az c"

definition e2e_re :: "string \<Rightarrow> bool" where
  "e2e_re s \<longleftrightarrow> length s = 28 \<and> take 1 s = ''E'' \<and> list_all is_digit (take 16 (drop 1 s))
     \<and> list_all is_upper_alnum (drop 17 s)"

definition stripe_event_re :: "string \<Rightarrow> bool" where
  "stripe_event_re s \<longleftrightarrow> take 4 s = ''evt_'' \<and> 16 \<le> length (drop 4 s) \<and> length (drop 4 s) \<le> 64
     \<and> list_all is_alnum (drop 4 s)"

definition placeholder_parts :: "string list" where
  "placeholder_parts = [''PLACEHOLDER'', ''EXAMPLE'', ''SAMPLE'', ''DUMMY'', ''FAKE'', ''DEMO'', ''UNKNOWN'', ''TEST'']"

definition has_part :: "string \<Rightarrow> string \<Rightarrow> bool" where
  "has_part s part \<longleftrightarrow> list_ex (\<lambda>i. take (length part) (drop i s) = part) [0..<Suc (length s)]"

definition repeats :: "string \<Rightarrow> nat \<Rightarrow> bool" where
  "repeats s period \<longleftrightarrow>
     s = take (length s) (concat (replicate ((length s + period - 1) div period) (take period s)))"

definition high_entropy_digest :: "string \<Rightarrow> bool" where
  "high_entropy_digest s \<longleftrightarrow> hash_re s \<and> 10 \<le> length (remdups s)
     \<and> \<not> list_ex (repeats s) [1..<Suc (length s div 2)]"

definition digits_value :: "string \<Rightarrow> int" where
  "digits_value s = foldl (\<lambda>n c. 10 * n + (int (ordc c) - 48)) 0 s"

text \<open>\<open>datetime.strptime(text, "%Y%m%d")\<close> succeeds, for a text of eight digits.\<close>

definition is_date :: "string \<Rightarrow> bool" where
  "is_date s \<longleftrightarrow>
     (let y = digits_value (take 4 s); m = digits_value (take 2 (drop 4 s)); d = digits_value (drop 6 s)
      in 1 \<le> y \<and> 1 \<le> m \<and> m \<le> 12 \<and> 1 \<le> d \<and> d \<le> days_in_month y m)"

definition canonical_e2e :: "string \<Rightarrow> bool" where
  "canonical_e2e s \<longleftrightarrow> e2e_re s \<and> is_date (take 8 (drop 9 s)) \<and> take 8 (drop 1 s) \<noteq> ''00000000''
     \<and> 6 \<le> length (remdups (drop 17 s)) \<and> \<not> list_ex (has_part (drop 17 s)) placeholder_parts"

definition canonical_stripe_event_id :: "string \<Rightarrow> bool" where
  "canonical_stripe_event_id s \<longleftrightarrow> stripe_event_re s \<and> 8 \<le> length (remdups (drop 4 s))
     \<and> \<not> list_ex (has_part (upper (drop 4 s))) placeholder_parts"

definition stripe_target_fingerprint :: "string \<Rightarrow> string res" where
  "stripe_target_fingerprint target_id =
     bind_res (opaque_id target_id ''payment_target_id'') (\<lambda>target.
       Inr (sha256_hex (''stripe-payment-target:'' @ target)))"

definition wise_target_fingerprint :: "string \<Rightarrow> string res" where
  "wise_target_fingerprint target_id =
     bind_res (opaque_id target_id ''payment_target_id'') (\<lambda>target.
       Inr (sha256_hex (''wise-payment-target:'' @ target)))"

section \<open>Trust and evidence\<close>

record evidence_trust =
  et_pix_receiver_id :: string
  et_wise_signer_id :: string
  et_wise_account_id :: string
  et_stripe_account_id :: string

definition mk_trust :: "evidence_trust \<Rightarrow> evidence_trust res" where
  "mk_trust t =
     bind_res (opaque_id (et_pix_receiver_id t) ''payment_evidence_trust.pix_receiver_profile_id'') (\<lambda>_.
     bind_res (opaque_id (et_wise_signer_id t) ''payment_evidence_trust.wise_signer_profile_id'') (\<lambda>_.
     bind_res (opaque_id (et_wise_account_id t) ''payment_evidence_trust.wise_account_profile_id'') (\<lambda>_.
     bind_res (opaque_id (et_stripe_account_id t) ''payment_evidence_trust.stripe_account_profile_id'') (\<lambda>_.
     Inr t))))"

datatype pix_proof_status = PIX_PAID | PIX_COMPLETED | PIX_PENDING | PIX_SCHEDULED

datatype stripe_event_type = INTENT_SUCCEEDED | INTENT_FAILED | INTENT_PROCESSING

fun pix_status_value :: "pix_proof_status \<Rightarrow> string" where
  "pix_status_value PIX_PAID = ''paid''"
| "pix_status_value PIX_COMPLETED = ''completed''"
| "pix_status_value PIX_PENDING = ''pending''"
| "pix_status_value PIX_SCHEDULED = ''scheduled''"

fun stripe_type_value :: "stripe_event_type \<Rightarrow> string" where
  "stripe_type_value INTENT_SUCCEEDED = ''payment_intent.succeeded''"
| "stripe_type_value INTENT_FAILED = ''payment_intent.failed''"
| "stripe_type_value INTENT_PROCESSING = ''payment_intent.processing''"

record pix_evidence =
  px_amount_minor :: int
  px_currency :: string
  px_receiver_id :: string
  px_status :: pix_proof_status
  px_e2e :: string
  px_observed_at :: timestamp
  px_extractor_id :: string
  px_extractor_version :: string
  px_hash :: string

definition mk_pix :: "pix_evidence \<Rightarrow> pix_evidence res" where
  "mk_pix e =
     bind_res (positive_int (px_amount_minor e) ''pix.proof_amount_minor'') (\<lambda>_.
     bind_res (upper_currency (px_currency e) ''pix.proof_currency'') (\<lambda>_.
     bind_res (opaque_id (px_receiver_id e) ''pix.proof_receiver_profile_id'') (\<lambda>_.
     bind_res (reject_if (\<not> canonical_e2e (px_e2e e)) ''pix.normalized_e2e must use the closed canonical format'') (\<lambda>_.
     bind_res (opaque_id (px_extractor_id e) ''pix.extractor_id'') (\<lambda>_.
     bind_res (opaque_id (px_extractor_version e) ''pix.extractor_version'') (\<lambda>_.
     bind_res (digest_hash (px_hash e) ''pix.evidence_hash'') (\<lambda>_. Inr e)))))))"

record wise_credit =
  wi_signer_id :: string
  wi_account_id :: string
  wi_amount_minor :: int
  wi_currency :: string
  wi_credited_at :: timestamp
  wi_transaction :: string
  wi_payer :: "string option"
  wi_reference :: "string option"
  wi_signature_verified :: bool
  wi_hash :: string

definition optional_digest :: "string option \<Rightarrow> string \<Rightarrow> unit res" where
  "optional_digest v field_name =
     (case v of None \<Rightarrow> Inr () | Some h \<Rightarrow> bind_res (digest_hash h field_name) (\<lambda>_. Inr ()))"

definition mk_wise :: "wise_credit \<Rightarrow> wise_credit res" where
  "mk_wise e =
     bind_res (opaque_id (wi_signer_id e) ''wise.signer_profile_id'') (\<lambda>_.
     bind_res (opaque_id (wi_account_id e) ''wise.account_profile_id'') (\<lambda>_.
     bind_res (positive_int (wi_amount_minor e) ''wise.amount_minor'') (\<lambda>_.
     bind_res (upper_currency (wi_currency e) ''wise.currency'') (\<lambda>_.
     bind_res (digest_hash (wi_transaction e) ''wise.transaction_fingerprint'') (\<lambda>_.
     bind_res (optional_digest (wi_payer e) ''wise.payer_fingerprint'') (\<lambda>_.
     bind_res (optional_digest (wi_reference e) ''wise.reference_fingerprint'') (\<lambda>_.
     bind_res (digest_hash (wi_hash e) ''wise.verification_hash'') (\<lambda>_. Inr e))))))))"

record stripe_event =
  st_account_id :: string
  st_event_id :: string
  st_intent :: string
  st_amount_minor :: int
  st_currency :: string
  st_type :: stripe_event_type
  st_signature_verified :: bool
  st_observed_at :: timestamp
  st_hash :: string

definition mk_stripe :: "stripe_event \<Rightarrow> stripe_event res" where
  "mk_stripe e =
     bind_res (opaque_id (st_account_id e) ''stripe.stripe_account_profile_id'') (\<lambda>_.
     bind_res (reject_if (\<not> canonical_stripe_event_id (st_event_id e))
       ''stripe.event_id must use the canonical provider format'') (\<lambda>_.
     bind_res (digest_hash (st_intent e) ''stripe.payment_intent_fingerprint'') (\<lambda>_.
     bind_res (positive_int (st_amount_minor e) ''stripe.amount_minor'') (\<lambda>_.
     bind_res (upper_currency (st_currency e) ''stripe.currency'') (\<lambda>_.
     bind_res (digest_hash (st_hash e) ''stripe.verification_hash'') (\<lambda>_. Inr e))))))"

record visual_transfer =
  vt_method :: payment_method
  vt_amount_minor :: int
  vt_currency :: string
  vt_receiver_id :: string
  vt_transaction_id :: string
  vt_observed_at :: timestamp
  vt_validated_at :: timestamp
  vt_source_event_id :: string
  vt_source_sha256 :: string
  vt_recipient_identifier :: string
  vt_recipient_name :: string
  vt_payer_name :: string
  vt_assessment_hash :: string

definition visual_text :: "string \<Rightarrow> string \<Rightarrow> unit res" where
  "visual_text value name =
     reject_if (value = [] \<or> value \<noteq> strip value \<or> 256 < length value \<or> char_of (0::nat) \<in> set value)
       (''visual field is invalid: '' @ name)"

definition mk_visual :: "visual_transfer \<Rightarrow> visual_transfer res" where
  "mk_visual e =
     bind_res (reject_if (vt_method e \<notin> {PIX, WISE}) ''visual transfer method must be Pix or Wise'') (\<lambda>_.
     bind_res (positive_int (vt_amount_minor e) ''visual.amount_minor'') (\<lambda>_.
     bind_res (upper_currency (vt_currency e) ''visual.currency'') (\<lambda>_.
     bind_res (opaque_id (vt_receiver_id e) ''visual.receiver'') (\<lambda>_.
     bind_res (digest_hash (vt_source_sha256 e) ''source_sha256'') (\<lambda>_.
     bind_res (digest_hash (vt_assessment_hash e) ''assessment_hash'') (\<lambda>_.
     bind_res (visual_text (vt_transaction_id e) ''transaction_id'') (\<lambda>_.
     bind_res (visual_text (vt_source_event_id e) ''source_event_id'') (\<lambda>_.
     bind_res (visual_text (vt_recipient_identifier e) ''recipient_identifier'') (\<lambda>_.
     bind_res (visual_text (vt_recipient_name e) ''recipient_name'') (\<lambda>_.
     bind_res (visual_text (vt_payer_name e) ''payer_name'') (\<lambda>_.
     bind_res (reject_if (vt_validated_at e < vt_observed_at e) ''visual transaction is future-dated'') (\<lambda>_.
     bind_res (reject_if (vt_method e = PIX
         \<and> \<not> (length (vt_transaction_id e) = 32 \<and> list_all is_alnum (vt_transaction_id e)))
       ''visual Pix needs a canonical E2E'') (\<lambda>_.
     bind_res (reject_if (vt_method e = WISE
         \<and> \<not> (list_all is_digit (vt_transaction_id e) \<and> take 1 (vt_transaction_id e) \<noteq> ''0''))
       ''visual Wise needs its numeric transfer ID'') (\<lambda>_. Inr e))))))))))))))"

datatype payment_evidence =
    PixEvidence pix_evidence
  | WiseEvidence wise_credit
  | StripeEvidence stripe_event
  | VisualEvidence visual_transfer

section \<open>Digests\<close>

definition canonical_digest :: "json \<Rightarrow> string" where
  "canonical_digest payload = sha256_hex (dumps payload)"

definition visual_hash :: "visual_transfer \<Rightarrow> string" where
  "visual_hash e = canonical_digest (JObj [
     (''method'', JStr (method_value (vt_method e))), (''amount_minor'', JInt (vt_amount_minor e)),
     (''currency'', JStr (vt_currency e)), (''receiver_profile_id'', JStr (vt_receiver_id e)),
     (''transaction_id'', JStr (vt_transaction_id e)), (''observed_at'', JStr (isoformat (vt_observed_at e))),
     (''validated_at'', JStr (isoformat (vt_validated_at e))), (''source_event_id'', JStr (vt_source_event_id e)),
     (''source_sha256'', JStr (vt_source_sha256 e)), (''recipient_identifier'', JStr (vt_recipient_identifier e)),
     (''recipient_name'', JStr (vt_recipient_name e)), (''payer_name'', JStr (vt_payer_name e)),
     (''assessment_hash'', JStr (vt_assessment_hash e))])"

definition pix_hash :: "pix_evidence \<Rightarrow> string" where
  "pix_hash e = canonical_digest (JObj [
     (''type'', JStr ''pix_visual_evidence''), (''proof_amount_minor'', JInt (px_amount_minor e)),
     (''proof_currency'', JStr (px_currency e)), (''proof_receiver_profile_id'', JStr (px_receiver_id e)),
     (''proof_status'', JStr (pix_status_value (px_status e))), (''normalized_e2e'', JStr (px_e2e e)),
     (''observed_at'', JStr (isoformat (px_observed_at e))), (''extractor_id'', JStr (px_extractor_id e)),
     (''extractor_version'', JStr (px_extractor_version e))])"

definition wise_hash :: "wise_credit \<Rightarrow> string" where
  "wise_hash e = canonical_digest (JObj [
     (''type'', JStr ''verified_wise_credit''), (''signer_profile_id'', JStr (wi_signer_id e)),
     (''account_profile_id'', JStr (wi_account_id e)), (''amount_minor'', JInt (wi_amount_minor e)),
     (''currency'', JStr (wi_currency e)), (''credited_at'', JStr (isoformat (wi_credited_at e))),
     (''transaction_fingerprint'', JStr (wi_transaction e)), (''payer_fingerprint'', json_opt JStr (wi_payer e)),
     (''reference_fingerprint'', json_opt JStr (wi_reference e)),
     (''signature_verified'', JBool (wi_signature_verified e))])"

definition stripe_hash :: "stripe_event \<Rightarrow> string" where
  "stripe_hash e = canonical_digest (JObj [
     (''type'', JStr ''verified_stripe_event''), (''stripe_account_profile_id'', JStr (st_account_id e)),
     (''event_id'', JStr (st_event_id e)), (''payment_intent_fingerprint'', JStr (st_intent e)),
     (''amount_minor'', JInt (st_amount_minor e)), (''currency'', JStr (st_currency e)),
     (''event_type'', JStr (stripe_type_value (st_type e))), (''signature_verified'', JBool (st_signature_verified e)),
     (''observed_at'', JStr (isoformat (st_observed_at e)))])"

section \<open>Revalidation\<close>

fun mk_evidence :: "payment_evidence \<Rightarrow> payment_evidence res" where
  "mk_evidence (PixEvidence e) = bind_res (mk_pix e) (\<lambda>e. Inr (PixEvidence e))"
| "mk_evidence (WiseEvidence e) = bind_res (mk_wise e) (\<lambda>e. Inr (WiseEvidence e))"
| "mk_evidence (StripeEvidence e) = bind_res (mk_stripe e) (\<lambda>e. Inr (StripeEvidence e))"
| "mk_evidence (VisualEvidence e) = bind_res (mk_visual e) (\<lambda>e. Inr (VisualEvidence e))"

definition revalidate_evidence :: "payment_evidence \<Rightarrow> payment_evidence res" where
  "revalidate_evidence e =
     bind_res (mk_evidence e) (\<lambda>clean.
       if clean \<noteq> e then Inl (ValueError ''payment evidence contains noncanonical values'') else Inr clean)"

definition revalidate_trust :: "evidence_trust \<Rightarrow> evidence_trust res" where
  "revalidate_trust t =
     bind_res (mk_trust t) (\<lambda>clean.
       if clean \<noteq> t then Inl (ValueError ''payment evidence trust contains noncanonical values'') else Inr clean)"

definition revalidate_subject :: "payment_subject \<Rightarrow> payment_subject res" where
  "revalidate_subject s =
     bind_res (mk_anchor (ps_anchor s)) (\<lambda>anchor.
     bind_res (mk_subject (s\<lparr>ps_anchor := anchor\<rparr>)) (\<lambda>clean.
       if clean \<noteq> s then Inl (ValueError ''payment subject contains noncanonical values'') else Inr clean))"

fun intrinsic_integrity :: "payment_evidence \<Rightarrow> unit res" where
  "intrinsic_integrity (VisualEvidence e) = bind_res (mk_visual e) (\<lambda>_. Inr ())"
| "intrinsic_integrity (PixEvidence e) =
     bind_res (reject_if (px_status e \<notin> {PIX_PAID, PIX_COMPLETED}) ''Pix claim requires completed/paid evidence'') (\<lambda>_.
     bind_res (reject_if (\<not> canonical_e2e (px_e2e e)) ''Pix claim requires canonical E2E identity'') (\<lambda>_.
     reject_if (px_hash e \<noteq> pix_hash e) ''Pix claim evidence hash is not canonical''))"
| "intrinsic_integrity (WiseEvidence e) =
     bind_res (reject_if (\<not> wi_signature_verified e) ''Wise claim requires a verified signature'') (\<lambda>_.
     bind_res (reject_if (\<not> high_entropy_digest (wi_transaction e))
       ''Wise claim requires a high-entropy transaction digest'') (\<lambda>_.
     reject_if (wi_hash e \<noteq> wise_hash e) ''Wise claim verification hash is not canonical''))"
| "intrinsic_integrity (StripeEvidence e) =
     bind_res (reject_if (\<not> st_signature_verified e) ''Stripe claim requires a verified signature'') (\<lambda>_.
     bind_res (reject_if (st_type e \<noteq> INTENT_SUCCEEDED) ''Stripe claim requires a successful event'') (\<lambda>_.
     bind_res (reject_if (\<not> canonical_stripe_event_id (st_event_id e))
       ''Stripe claim requires canonical event identity'') (\<lambda>_.
     reject_if (st_hash e \<noteq> stripe_hash e) ''Stripe claim verification hash is not canonical'')))"

section \<open>Claim keys\<close>

definition evidence_claim_key :: "payment_evidence \<Rightarrow> string res" where
  "evidence_claim_key evidence =
     bind_res (revalidate_evidence evidence) (\<lambda>clean.
     bind_res (intrinsic_integrity clean) (\<lambda>_.
     Inr (case clean of
            VisualEvidence e \<Rightarrow>
              if vt_method e = PIX then ''pix:'' @ vt_transaction_id e
              else ''wise:'' @ sha256_hex (vt_transaction_id e)
          | PixEvidence e \<Rightarrow> ''pix:'' @ px_e2e e
          | WiseEvidence e \<Rightarrow> ''wise:'' @ wi_transaction e
          | StripeEvidence e \<Rightarrow> ''stripe:'' @ st_account_id e @ '':'' @ st_event_id e)))"

text \<open>\<open>rsplit(":", 1)\<close>, unpacked into two parts.\<close>

definition rsplit_colon :: "string \<Rightarrow> (string \<times> string) option" where
  "rsplit_colon s =
     (if CHR '':'' \<notin> set s then None
      else Some (rev (tl (dropWhile (\<lambda>c. c \<noteq> CHR '':'') (rev s))), rev (takeWhile (\<lambda>c. c \<noteq> CHR '':'') (rev s))))"

definition require_evidence_claim_key :: "string \<Rightarrow> string res" where
  "require_evidence_claim_key value =
     (if take 4 value = ''pix:''
      then bind_res (reject_if (\<not> (canonical_e2e (drop 4 value)
                       \<or> length (drop 4 value) = 32 \<and> list_all is_alnum (drop 4 value)))
             ''Pix evidence claim key is not canonical'') (\<lambda>_. Inr value)
      else if take 5 value = ''wise:''
      then bind_res (reject_if (\<not> high_entropy_digest (drop 5 value))
             ''Wise evidence claim key is not canonical'') (\<lambda>_. Inr value)
      else if take 7 value = ''stripe:''
      then (case rsplit_colon (drop 7 value) of
              None \<Rightarrow> Inl (ValueError ''Stripe evidence claim key is not canonical'')
            | Some (account_id, eid) \<Rightarrow>
                bind_res (opaque_id account_id ''stripe claim account profile'') (\<lambda>_.
                bind_res (reject_if (\<not> canonical_stripe_event_id eid)
                  ''Stripe evidence claim event is not canonical'') (\<lambda>_. Inr value)))
      else Inl (ValueError ''unknown evidence claim key method''))"

section \<open>Evidence for a subject\<close>

definition validate_window :: "payment_subject \<Rightarrow> timestamp \<Rightarrow> bool \<Rightarrow> unit res" where
  "validate_window s observed_at require_deadline =
     (let a = ps_anchor s
      in bind_res (reject_if (observed_at < an_confirmed_at a)
           ''payment evidence predates the confirmed reservation'') (\<lambda>_.
         bind_res (reject_if (require_deadline \<and> an_deadline a = None)
           ''payment evidence requires a configured verification window'') (\<lambda>_.
         reject_if (case an_deadline a of None \<Rightarrow> False | Some d \<Rightarrow> d < observed_at)
           ''payment evidence is outside the configured window'')))"

definition validate_pix :: "payment_subject \<Rightarrow> pix_evidence \<Rightarrow> evidence_trust \<Rightarrow> string res" where
  "validate_pix s e t =
     bind_res (reject_if (px_amount_minor e \<noteq> ps_amount_minor s) ''Pix proof amount does not match payment subject'') (\<lambda>_.
     bind_res (reject_if (px_currency e \<noteq> ps_currency s) ''Pix proof currency does not match payment subject'') (\<lambda>_.
     bind_res (reject_if (ps_receiver_id s \<noteq> et_pix_receiver_id t)
       ''payment receiver does not match trusted Pix configuration'') (\<lambda>_.
     bind_res (reject_if (px_receiver_id e \<noteq> et_pix_receiver_id t)
       ''Pix receiver profile does not match trusted configuration'') (\<lambda>_.
     bind_res (reject_if (px_status e \<notin> {PIX_PAID, PIX_COMPLETED}) ''Pix proof status is not completed/paid'') (\<lambda>_.
     bind_res (reject_if (\<not> canonical_e2e (px_e2e e)) ''Pix E2E is not canonical'') (\<lambda>_.
     bind_res (reject_if (px_hash e \<noteq> pix_hash e) ''Pix evidence hash does not match canonical evidence'') (\<lambda>_.
     bind_res (validate_window s (px_observed_at e) False) (\<lambda>_. Inr (px_hash e)))))))))"

definition validate_wise :: "payment_subject \<Rightarrow> wise_credit \<Rightarrow> evidence_trust \<Rightarrow> string res" where
  "validate_wise s e t =
     bind_res (reject_if (wi_signer_id e \<noteq> et_wise_signer_id t)
       ''Wise signer profile does not match trusted configuration'') (\<lambda>_.
     bind_res (reject_if (wi_account_id e \<noteq> et_wise_account_id t)
       ''Wise account profile does not match trusted configuration'') (\<lambda>_.
     bind_res (reject_if (wi_amount_minor e \<noteq> ps_amount_minor s \<or> wi_currency e \<noteq> ps_currency s)
       ''Wise economics do not match payment subject'') (\<lambda>_.
     bind_res (reject_if (\<not> wi_signature_verified e) ''Wise evidence requires verified signature'') (\<lambda>_.
     bind_res (reject_if (\<not> high_entropy_digest (wi_transaction e))
       ''Wise transaction fingerprint has insufficient entropy'') (\<lambda>_.
     bind_res (wise_target_fingerprint (ps_target_id s)) (\<lambda>target.
     bind_res (reject_if (wi_reference e \<noteq> Some target) ''Wise credit is ambiguous for the payment target'') (\<lambda>_.
     bind_res (reject_if (wi_hash e \<noteq> wise_hash e)
       ''Wise verification hash does not match canonical evidence'') (\<lambda>_.
     bind_res (validate_window s (wi_credited_at e) True) (\<lambda>_. Inr (wi_hash e))))))))))"

definition validate_stripe :: "payment_subject \<Rightarrow> stripe_event \<Rightarrow> evidence_trust \<Rightarrow> string res" where
  "validate_stripe s e t =
     bind_res (reject_if (st_account_id e \<noteq> et_stripe_account_id t)
       ''Stripe account profile does not match trusted configuration'') (\<lambda>_.
     bind_res (stripe_target_fingerprint (ps_target_id s)) (\<lambda>target.
     bind_res (reject_if (st_intent e \<noteq> target) ''Stripe event does not bind the expected payment target'') (\<lambda>_.
     bind_res (reject_if (st_amount_minor e \<noteq> ps_amount_minor s \<or> st_currency e \<noteq> ps_currency s)
       ''Stripe economics do not match payment subject'') (\<lambda>_.
     bind_res (reject_if (st_type e \<noteq> INTENT_SUCCEEDED)
       ''Stripe event type is not a successful payment event'') (\<lambda>_.
     bind_res (reject_if (\<not> st_signature_verified e) ''Stripe evidence requires verified signature'') (\<lambda>_.
     bind_res (reject_if (st_hash e \<noteq> stripe_hash e)
       ''Stripe verification hash does not match canonical evidence'') (\<lambda>_.
     bind_res (validate_window s (st_observed_at e) True) (\<lambda>_. Inr (st_hash e)))))))))"

definition validate_visual :: "payment_subject \<Rightarrow> visual_transfer \<Rightarrow> evidence_trust \<Rightarrow> unit res" where
  "validate_visual s e t =
     bind_res (reject_if (Some (vt_method e) \<noteq> ps_method s) ''visual method mismatch'') (\<lambda>_.
     bind_res (reject_if (vt_amount_minor e \<noteq> ps_amount_minor s \<or> vt_currency e \<noteq> ps_currency s
         \<or> vt_receiver_id e \<noteq> ps_receiver_id s) ''visual economics/receiver mismatch'') (\<lambda>_.
     bind_res (reject_if ((if vt_method e = PIX then et_pix_receiver_id t else et_wise_account_id t) \<noteq> ps_receiver_id s)
       ''visual receiver is not trusted'') (\<lambda>_.
     bind_res (validate_window s (vt_observed_at e) True) (\<lambda>_.
     validate_window s (vt_validated_at e) True))))"

record verified_evidence =
  ve_payment_id :: string
  ve_version :: int
  ve_signature :: string
  ve_method :: payment_method
  ve_claim_key :: string
  ve_hash :: string
  ve_evidence :: payment_evidence

fun evidence_method :: "payment_evidence \<Rightarrow> payment_method" where
  "evidence_method (VisualEvidence e) = vt_method e"
| "evidence_method (PixEvidence e) = PIX"
| "evidence_method (WiseEvidence e) = WISE"
| "evidence_method (StripeEvidence e) = STRIPE"

fun evidence_digest :: "payment_evidence \<Rightarrow> string" where
  "evidence_digest (VisualEvidence e) = visual_hash e"
| "evidence_digest (PixEvidence e) = pix_hash e"
| "evidence_digest (WiseEvidence e) = wise_hash e"
| "evidence_digest (StripeEvidence e) = stripe_hash e"

definition mk_verified :: "verified_evidence \<Rightarrow> verified_evidence res" where
  "mk_verified v =
     bind_res (opaque_id (ve_payment_id v) ''verified_evidence.payment_id'') (\<lambda>_.
     bind_res (positive_int (ve_version v) ''verified_evidence.payment_version'') (\<lambda>_.
     bind_res (digest_hash (ve_signature v) ''verified_evidence.economic_signature'') (\<lambda>_.
     bind_res (reject_if (ve_method v \<noteq> evidence_method (ve_evidence v))
       ''verified evidence method does not match evidence type'') (\<lambda>_.
     bind_res (evidence_claim_key (ve_evidence v)) (\<lambda>key.
     bind_res (reject_if (ve_claim_key v \<noteq> key) ''verified evidence claim key is not canonical'') (\<lambda>_.
     bind_res (digest_hash (ve_hash v) ''verified_evidence.evidence_hash'') (\<lambda>_.
     bind_res (reject_if (ve_hash v \<noteq> evidence_digest (ve_evidence v))
       ''verified evidence hash does not match its evidence'') (\<lambda>_. Inr v))))))))"

definition validate_evidence ::
  "payment_subject \<Rightarrow> payment_evidence \<Rightarrow> evidence_trust \<Rightarrow> verified_evidence res" where
  "validate_evidence subject evidence trust =
     bind_res (revalidate_subject subject) (\<lambda>s.
     bind_res (revalidate_evidence evidence) (\<lambda>e.
     bind_res (revalidate_trust trust) (\<lambda>t.
     case ps_method s of
       None \<Rightarrow> Inl (ValueError ''payment method must be selected before evidence validation'')
     | Some method \<Rightarrow>
         bind_res (case e of
             VisualEvidence x \<Rightarrow> bind_res (validate_visual s x t) (\<lambda>_. Inr (visual_hash x))
           | _ \<Rightarrow> bind_res (reject_if (evidence_method e \<noteq> method)
                    ''payment evidence type does not match selected method'') (\<lambda>_.
                  case e of
                    PixEvidence x \<Rightarrow> validate_pix s x t
                  | WiseEvidence x \<Rightarrow> validate_wise s x t
                  | StripeEvidence x \<Rightarrow> validate_stripe s x t
                  | VisualEvidence x \<Rightarrow> Inr (visual_hash x))) (\<lambda>hash.
         bind_res (evidence_claim_key e) (\<lambda>key.
         mk_verified \<lparr>ve_payment_id = ps_payment_id s, ve_version = ps_version s,
           ve_signature = ps_signature s, ve_method = method, ve_claim_key = key, ve_hash = hash,
           ve_evidence = e\<rparr>)))))"

end
