(* ===== verification/Followup_Payment.thy ===== *)
theory Followup_Payment
  imports Followup_Evidence Event_Sourcing
begin

text \<open>
  The workflow half of \<^verbatim>\<open>reservation_followup/payment.py\<close> with \<^verbatim>\<open>projection.py\<close>: the events of a
  payment, the settlement command, the workflow whose constructor replays its own history, and
  the reducer. The core of a workflow is what the replay computes; the workflow adds its policy
  and its history to it.
\<close>

section \<open>Settlement outcomes\<close>

record settlement_outcome =
  so_certainty :: settlement_certainty
  so_payment_registered :: bool
  so_target_confirmed :: bool
  so_provider_reference :: "string option"
  so_requires_reconciliation :: bool
  so_claim_evidence :: "string list"

definition outcome_shape :: "settlement_outcome \<Rightarrow> unit res" where
  "outcome_shape u =
     (case so_certainty u of
        NOT_DISPATCHED \<Rightarrow>
          reject_if (so_payment_registered u \<or> so_target_confirmed u \<or> so_provider_reference u \<noteq> None
              \<or> so_requires_reconciliation u \<or> so_claim_evidence u \<noteq> [])
            ''not_dispatched must prove no financial dispatch/effect''
      | certainty \<Rightarrow>
          bind_res (reject_if (so_claim_evidence u = [])
            ''dispatched settlement outcome requires claim evidence'') (\<lambda>_.
          case certainty of
            SETTLED \<Rightarrow>
              bind_res (reject_if (\<not> so_payment_registered u \<or> \<not> so_target_confirmed u)
                ''settled requires payment and target confirmation'') (\<lambda>_.
              reject_if (so_provider_reference u = None \<or> so_requires_reconciliation u)
                ''settled requires provider proof without reconciliation'')
          | PARTIAL_SETTLEMENT \<Rightarrow>
              bind_res (reject_if (so_payment_registered u = so_target_confirmed u)
                ''partial settlement requires exactly one confirmed effect'') (\<lambda>_.
              reject_if (so_provider_reference u = None \<or> \<not> so_requires_reconciliation u)
                ''partial settlement requires provider proof and reconciliation'')
          | DISPATCHED_UNKNOWN \<Rightarrow>
              bind_res (reject_if (so_payment_registered u \<and> so_target_confirmed u)
                ''fully confirmed outcome must use settled certainty'') (\<lambda>_.
              reject_if (\<not> so_requires_reconciliation u) ''dispatched_unknown requires reconciliation'')
          | _ \<Rightarrow>
              bind_res (reject_if (so_payment_registered u \<or> so_target_confirmed u)
                ''dispatched_no_effect cannot claim an applied effect'') (\<lambda>_.
              reject_if (so_provider_reference u = None \<or> \<not> so_requires_reconciliation u)
                ''dispatched_no_effect requires dispatch proof and reconciliation'')))"

definition mk_settlement_outcome :: "settlement_outcome \<Rightarrow> settlement_outcome res" where
  "mk_settlement_outcome u =
     bind_res (case so_provider_reference u of
                 None \<Rightarrow> Inr ()
               | Some h \<Rightarrow> bind_res (digest_hash h ''settlement_outcome.provider_reference_fingerprint'')
                             (\<lambda>_. Inr ())) (\<lambda>_.
     bind_res (map_res (\<lambda>h. digest_hash h ''settlement_outcome.claim_evidence'') (so_claim_evidence u)) (\<lambda>_.
     bind_res (reject_if (\<not> distinct (so_claim_evidence u)) ''claim_evidence must not contain duplicates'') (\<lambda>_.
     bind_res (outcome_shape u) (\<lambda>_. Inr u))))"

definition project_settlement_outcome :: "settlement_outcome \<Rightarrow> bool \<Rightarrow> payment_status res" where
  "project_settlement_outcome u dispatch_fenced =
     bind_res (mk_settlement_outcome u) (\<lambda>clean.
     Inr (case so_certainty clean of
            SETTLED \<Rightarrow> PAY_PAID
          | NOT_DISPATCHED \<Rightarrow> if dispatch_fenced then PAY_MANUAL_REVIEW else PAY_RETRYABLE
          | _ \<Rightarrow> PAY_MANUAL_REVIEW))"

section \<open>Effects of an outcome\<close>

datatype payment_effect_kind =
    PAID_STATE_TRANSITION | CUSTOMER_PAYMENT_CONFIRMATION | INTERNAL_PAYMENT_EMAIL | BOOKING_FORM
  | MANUAL_REVIEW_EFFECT

record payment_job =
  pj_kind :: payment_effect_kind
  pj_required :: bool
  pj_outcome :: settlement_outcome

definition mk_payment_job :: "payment_effect_kind \<Rightarrow> bool \<Rightarrow> settlement_outcome \<Rightarrow> payment_job res" where
  "mk_payment_job kind required outcome =
     bind_res (mk_settlement_outcome outcome) (\<lambda>clean.
     if clean \<noteq> outcome then Inl (ValueError ''payment effect outcome is noncanonical'')
     else if so_certainty clean = SETTLED
     then (if kind = MANUAL_REVIEW_EFFECT
           then Inl (ValueError ''settled outcome cannot create manual review effect'')
           else if kind \<in> {PAID_STATE_TRANSITION, CUSTOMER_PAYMENT_CONFIRMATION} \<and> \<not> required
           then Inl (ValueError ''core settled effects must be required'')
           else Inr \<lparr>pj_kind = kind, pj_required = required, pj_outcome = clean\<rparr>)
     else if kind \<noteq> MANUAL_REVIEW_EFFECT \<or> \<not> required
     then Inl (ValueError ''non-settled outcome requires one required manual review effect'')
     else Inr \<lparr>pj_kind = kind, pj_required = required, pj_outcome = clean\<rparr>)"

definition required_payment_effects :: "settlement_outcome \<Rightarrow> payment_policy \<Rightarrow> payment_job list res" where
  "required_payment_effects outcome policy =
     bind_res (mk_settlement_outcome outcome) (\<lambda>clean.
     if clean \<noteq> outcome then Inl (ValueError ''outcome must be canonical'')
     else if so_certainty clean \<noteq> SETTLED
     then bind_res (mk_payment_job MANUAL_REVIEW_EFFECT True clean) (\<lambda>j. Inr [j])
     else map_res (\<lambda>(kind, required). mk_payment_job kind required clean)
       ([(PAID_STATE_TRANSITION, True), (CUSTOMER_PAYMENT_CONFIRMATION, True)]
        @ (if pp_internal_email policy = EFFECT_OPTIONAL then [(INTERNAL_PAYMENT_EMAIL, False)] else [])
        @ (if pp_booking_form policy \<noteq> EFFECT_DISABLED
           then [(BOOKING_FORM, pp_booking_form policy = EFFECT_REQUIRED)] else [])))"

section \<open>The settlement command\<close>

definition stable_id :: "string \<Rightarrow> json list \<Rightarrow> string" where
  "stable_id namespace parts =
     namespace @ '':'' @ take 32 (sha256_hex (dumps (JArr (JStr namespace # parts))))"

datatype settlement_operation = REGISTER_AND_CONFIRM

fun settlement_operation_value :: "settlement_operation \<Rightarrow> string" where
  "settlement_operation_value REGISTER_AND_CONFIRM = ''register_and_confirm''"

record settlement_command =
  sc_id :: string
  sc_payment_id :: string
  sc_version :: int
  sc_signature :: string
  sc_claim_key :: string
  sc_operation :: settlement_operation
  sc_idempotency_key :: string
  sc_payload :: string

definition settlement_payload_keys :: "string list" where
  "settlement_payload_keys = [''amount_minor'', ''business_unit'', ''currency'', ''economic_signature'',
     ''evidence_claim_key'', ''evidence_hash'', ''method'', ''operation'', ''payment_id'',
     ''payment_target_id'', ''payment_version'', ''receiver_profile_id'', ''schema_version'']"

text \<open>
  A payload object as \<open>json.loads\<close> returns it: the integers and texts of its members, \<open>None\<close>
  when the member has another type.
\<close>

definition json_int :: "(string \<times> json) list \<Rightarrow> string \<Rightarrow> int option" where
  "json_int kvs k = (case map_of kvs k of Some (JInt i) \<Rightarrow> Some i | _ \<Rightarrow> None)"

definition json_text :: "(string \<times> json) list \<Rightarrow> string \<Rightarrow> string option" where
  "json_text kvs k = (case map_of kvs k of Some (JStr s) \<Rightarrow> Some s | _ \<Rightarrow> None)"

definition unit_of :: "string \<Rightarrow> business_unit option" where
  "unit_of s = List.find (\<lambda>u. unit_value u = s) [HOSTEL, AGENCY]"

definition method_of :: "string \<Rightarrow> payment_method option" where
  "method_of s = List.find (\<lambda>m. method_value m = s) [PIX, WISE, STRIPE]"

definition settlement_ids :: "string \<Rightarrow> int \<Rightarrow> string \<Rightarrow> string \<times> string" where
  "settlement_ids payment_id version signature =
     (stable_id ''settlement'' [JStr payment_id, JInt version, JStr signature],
      stable_id ''payment-idem'' [JStr payment_id, JInt version, JStr signature])"

definition check_settlement_payload :: "settlement_command \<Rightarrow> (string \<times> json) list \<Rightarrow> unit res" where
  "check_settlement_payload c kvs =
     bind_res (reject_if (set (map fst kvs) \<noteq> set settlement_payload_keys)
       ''settlement command payload fields are not closed'') (\<lambda>_.
     bind_res (reject_if (dumps (JObj kvs) \<noteq> sc_payload c) ''settlement command payload is not canonical JSON'') (\<lambda>_.
     bind_res (reject_if (json_int kvs ''schema_version'' \<noteq> Some 1)
       ''settlement command schema_version must be exact integer 1'') (\<lambda>_.
     bind_res (reject_if (case json_int kvs ''payment_version'' of None \<Rightarrow> True | Some v \<Rightarrow> v < 1)
       ''settlement command payload version must be a positive integer'') (\<lambda>_.
     bind_res (reject_if (case json_int kvs ''amount_minor'' of None \<Rightarrow> True | Some v \<Rightarrow> v < 1)
       ''settlement command payload amount must be a positive integer'') (\<lambda>_.
     bind_res (map_res (\<lambda>k. reject_if (json_text kvs k = None)
         (''settlement command payload '' @ k @ '' must be text''))
       [''business_unit'', ''currency'', ''economic_signature'', ''evidence_claim_key'', ''evidence_hash'',
        ''method'', ''operation'', ''payment_id'', ''payment_target_id'', ''receiver_profile_id'']) (\<lambda>_.
     let txt_of = (\<lambda>k. the (json_text kvs k));
         amount = the (json_int kvs ''amount_minor'')
     in case (unit_of (txt_of ''business_unit''), method_of (txt_of ''method'')) of
          (Some unit, Some method) \<Rightarrow>
     bind_res (upper_currency (txt_of ''currency'') ''settlement command payload currency'') (\<lambda>_.
     bind_res (digest_hash (txt_of ''economic_signature'') ''settlement command payload economic signature'') (\<lambda>_.
     bind_res (digest_hash (txt_of ''evidence_hash'') ''settlement command payload evidence hash'') (\<lambda>_.
     bind_res (require_evidence_claim_key (txt_of ''evidence_claim_key'')) (\<lambda>key.
     bind_res (reject_if (take (length (method_value method) + 1) key \<noteq> method_value method @ '':'')
       ''settlement command method does not match evidence claim'') (\<lambda>_.
     bind_res (opaque_id (txt_of ''payment_id'') ''settlement command payload payment id'') (\<lambda>_.
     bind_res (opaque_id (txt_of ''payment_target_id'') ''settlement command payload target id'') (\<lambda>_.
     bind_res (opaque_id (txt_of ''receiver_profile_id'') ''settlement command payload receiver id'') (\<lambda>_.
     bind_res (reject_if (txt_of ''economic_signature'' \<noteq> canonical_digest (JObj [
         (''amount_minor'', JInt amount), (''business_unit'', JStr (txt_of ''business_unit'')),
         (''currency'', JStr (txt_of ''currency'')), (''payment_target_id'', JStr (txt_of ''payment_target_id'')),
         (''receiver_profile_id'', JStr (txt_of ''receiver_profile_id''))]))
       ''settlement command payload economics are not canonical'') (\<lambda>_.
     reject_if (txt_of ''payment_id'' \<noteq> sc_payment_id c
         \<or> json_int kvs ''payment_version'' \<noteq> Some (sc_version c)
         \<or> txt_of ''economic_signature'' \<noteq> sc_signature c
         \<or> txt_of ''evidence_claim_key'' \<noteq> sc_claim_key c
         \<or> txt_of ''operation'' \<noteq> settlement_operation_value (sc_operation c))
       ''settlement command payload diverges from command identity'')))))))))
        | _ \<Rightarrow> Inl (ValueError ''settlement command payload enum is invalid'')))))))"

text \<open>The payload argument is the object the command's payload text stands for.\<close>

definition mk_settlement_command :: "settlement_command \<Rightarrow> (string \<times> json) list \<Rightarrow> settlement_command res" where
  "mk_settlement_command c payload =
     bind_res (opaque_id (sc_id c) ''settlement_command.id'') (\<lambda>_.
     bind_res (opaque_id (sc_payment_id c) ''settlement_command.payment_id'') (\<lambda>_.
     bind_res (positive_int (sc_version c) ''settlement_command.payment_version'') (\<lambda>_.
     bind_res (digest_hash (sc_signature c) ''settlement_command.economic_signature'') (\<lambda>_.
     bind_res (require_evidence_claim_key (sc_claim_key c)) (\<lambda>_.
     bind_res (opaque_id (sc_idempotency_key c) ''settlement_command.idempotency_key'') (\<lambda>_.
     let (command_id, idempotency_key) = settlement_ids (sc_payment_id c) (sc_version c) (sc_signature c)
     in bind_res (reject_if (sc_id c \<noteq> command_id) ''settlement command id is not canonical'') (\<lambda>_.
     bind_res (reject_if (sc_idempotency_key c \<noteq> idempotency_key)
       ''settlement command idempotency key is not canonical'') (\<lambda>_.
     bind_res (check_settlement_payload c payload) (\<lambda>_. Inr c)))))))))"

definition settlement_payload :: "payment_subject \<Rightarrow> verified_evidence \<Rightarrow> (string \<times> json) list" where
  "settlement_payload s v =
     [(''amount_minor'', JInt (ps_amount_minor s)), (''business_unit'', JStr (unit_value (ps_unit s))),
      (''currency'', JStr (ps_currency s)), (''economic_signature'', JStr (ps_signature s)),
      (''evidence_claim_key'', JStr (ve_claim_key v)), (''evidence_hash'', JStr (ve_hash v)),
      (''method'', JStr (method_value (ve_method v))),
      (''operation'', JStr (settlement_operation_value REGISTER_AND_CONFIRM)),
      (''payment_id'', JStr (ps_payment_id s)), (''payment_target_id'', JStr (ps_target_id s)),
      (''payment_version'', JInt (ps_version s)), (''receiver_profile_id'', JStr (ps_receiver_id s)),
      (''schema_version'', JInt 1)]"

definition settlement_command_for :: "payment_subject \<Rightarrow> verified_evidence \<Rightarrow> settlement_command res" where
  "settlement_command_for s v =
     (let (command_id, idempotency_key) = settlement_ids (ps_payment_id s) (ps_version s) (ps_signature s)
      in mk_settlement_command
           \<lparr>sc_id = command_id, sc_payment_id = ps_payment_id s, sc_version = ps_version s,
            sc_signature = ps_signature s, sc_claim_key = ve_claim_key v,
            sc_operation = REGISTER_AND_CONFIRM, sc_idempotency_key = idempotency_key,
            sc_payload = dumps (JObj (settlement_payload s v))\<rparr>
           (settlement_payload s v))"

section \<open>Events\<close>

record method_selected =
  ms_event_id :: string
  ms_payment_id :: string
  ms_method :: payment_method
  ms_selected_at :: timestamp

record financial_summary =
  fs_event_id :: string
  fs_subject :: payment_subject
  fs_hash :: string
  fs_recorded_at :: timestamp

record financial_confirmation =
  fc_event_id :: string
  fc_payment_id :: string
  fc_version :: int
  fc_signature :: string
  fc_summary_hash :: string
  fc_confirmation_id :: string
  fc_confirmed_at :: timestamp

record evidence_recorded =
  er_event_id :: string
  er_payment_id :: string
  er_version :: int
  er_signature :: string
  er_evidence :: payment_evidence
  er_trust :: evidence_trust
  er_recorded_at :: timestamp

record settlement_started =
  ss_event_id :: string
  ss_payment_id :: string
  ss_version :: int
  ss_signature :: string
  ss_command_id :: string
  ss_idempotency_key :: string
  ss_started_at :: timestamp

record settlement_finished =
  sf_event_id :: string
  sf_payment_id :: string
  sf_version :: int
  sf_signature :: string
  sf_command_id :: string
  sf_outcome :: settlement_outcome
  sf_finished_at :: timestamp

record payment_expired =
  xp_event_id :: string
  xp_payment_id :: string
  xp_version :: int
  xp_signature :: string
  xp_expired_at :: timestamp

record payment_cancelled =
  cn_event_id :: string
  cn_payment_id :: string
  cn_version :: int
  cn_signature :: string
  cn_cancellation_id :: string
  cn_cancelled_at :: timestamp

datatype payment_event =
    PaymentMethodSelected method_selected
  | FinancialSummaryRecorded financial_summary
  | FinancialConfirmationReceived financial_confirmation
  | PaymentEvidenceRecorded evidence_recorded
  | SettlementStarted settlement_started
  | SettlementFinished settlement_finished
  | PaymentExpired payment_expired
  | PaymentCancelled payment_cancelled

definition financial_summary_hash :: "payment_subject \<Rightarrow> string res" where
  "financial_summary_hash subject =
     bind_res (revalidate_subject subject) (\<lambda>s.
     case ps_method s of
       None \<Rightarrow> Inl (ValueError ''financial summary requires a selected payment method'')
     | Some method \<Rightarrow> Inr (canonical_digest (JObj [
         (''amount_minor'', JInt (ps_amount_minor s)), (''business_unit'', JStr (unit_value (ps_unit s))),
         (''currency'', JStr (ps_currency s)), (''economic_signature'', JStr (ps_signature s)),
         (''method'', JStr (method_value method)), (''payment_id'', JStr (ps_payment_id s)),
         (''payment_target_id'', JStr (ps_target_id s)), (''payment_version'', JInt (ps_version s)),
         (''receiver_profile_id'', JStr (ps_receiver_id s)), (''type'', JStr ''financial_summary'')])))"

definition mk_method_selected :: "method_selected \<Rightarrow> unit res" where
  "mk_method_selected e =
     bind_res (opaque_id (ms_event_id e) ''payment_method_selected.event_id'') (\<lambda>_.
     bind_res (opaque_id (ms_payment_id e) ''payment_method_selected.payment_id'') (\<lambda>_. Inr ()))"

definition mk_financial_summary :: "financial_summary \<Rightarrow> unit res" where
  "mk_financial_summary e =
     bind_res (opaque_id (fs_event_id e) ''financial_summary.event_id'') (\<lambda>_.
     bind_res (revalidate_subject (fs_subject e)) (\<lambda>s.
     bind_res (reject_if (ps_method s = None) ''financial summary requires a selected method'') (\<lambda>_.
     bind_res (digest_hash (fs_hash e) ''financial_summary.summary_hash'') (\<lambda>_.
     bind_res (financial_summary_hash s) (\<lambda>hash.
     bind_res (reject_if (fs_hash e \<noteq> hash) ''financial summary hash is not canonical'') (\<lambda>_.
     reject_if (fs_recorded_at e < an_confirmed_at (ps_anchor s))
       ''financial summary predates the reservation anchor''))))))"

definition mk_financial_confirmation :: "financial_confirmation \<Rightarrow> unit res" where
  "mk_financial_confirmation e =
     bind_res (opaque_id (fc_event_id e) ''financial_confirmation.event_id'') (\<lambda>_.
     bind_res (opaque_id (fc_payment_id e) ''financial_confirmation.payment_id'') (\<lambda>_.
     bind_res (positive_int (fc_version e) ''financial_confirmation.payment_version'') (\<lambda>_.
     bind_res (digest_hash (fc_signature e) ''financial_confirmation.economic_signature'') (\<lambda>_.
     bind_res (digest_hash (fc_summary_hash e) ''financial_confirmation.summary_hash'') (\<lambda>_.
     bind_res (opaque_id (fc_confirmation_id e) ''financial_confirmation.confirmation_id'') (\<lambda>_. Inr ()))))))"

fun observed_time :: "payment_evidence \<Rightarrow> timestamp" where
  "observed_time (WiseEvidence e) = wi_credited_at e"
| "observed_time (PixEvidence e) = px_observed_at e"
| "observed_time (StripeEvidence e) = st_observed_at e"
| "observed_time (VisualEvidence e) = vt_observed_at e"

definition mk_evidence_recorded :: "evidence_recorded \<Rightarrow> unit res" where
  "mk_evidence_recorded e =
     bind_res (opaque_id (er_event_id e) ''payment_evidence_recorded.event_id'') (\<lambda>_.
     bind_res (opaque_id (er_payment_id e) ''payment_evidence_recorded.payment_id'') (\<lambda>_.
     bind_res (positive_int (er_version e) ''payment_evidence_recorded.payment_version'') (\<lambda>_.
     bind_res (digest_hash (er_signature e) ''payment_evidence_recorded.economic_signature'') (\<lambda>_.
     bind_res (revalidate_evidence (er_evidence e)) (\<lambda>clean.
     bind_res (revalidate_trust (er_trust e)) (\<lambda>_.
     reject_if (er_recorded_at e < observed_time clean) ''payment evidence record predates the evidence''))))))"

definition mk_settlement_started :: "settlement_started \<Rightarrow> unit res" where
  "mk_settlement_started e =
     bind_res (opaque_id (ss_event_id e) ''settlement_started.event_id'') (\<lambda>_.
     bind_res (opaque_id (ss_payment_id e) ''settlement_started.payment_id'') (\<lambda>_.
     bind_res (positive_int (ss_version e) ''settlement_started.payment_version'') (\<lambda>_.
     bind_res (digest_hash (ss_signature e) ''settlement_started.economic_signature'') (\<lambda>_.
     bind_res (opaque_id (ss_command_id e) ''settlement_started.command_id'') (\<lambda>_.
     bind_res (opaque_id (ss_idempotency_key e) ''settlement_started.idempotency_key'') (\<lambda>_. Inr ()))))))"

definition mk_settlement_finished :: "settlement_finished \<Rightarrow> unit res" where
  "mk_settlement_finished e =
     bind_res (opaque_id (sf_event_id e) ''settlement_finished.event_id'') (\<lambda>_.
     bind_res (opaque_id (sf_payment_id e) ''settlement_finished.payment_id'') (\<lambda>_.
     bind_res (positive_int (sf_version e) ''settlement_finished.payment_version'') (\<lambda>_.
     bind_res (digest_hash (sf_signature e) ''settlement_finished.economic_signature'') (\<lambda>_.
     bind_res (opaque_id (sf_command_id e) ''settlement_finished.command_id'') (\<lambda>_.
     bind_res (mk_settlement_outcome (sf_outcome e)) (\<lambda>_. Inr ()))))))"

definition mk_payment_expired :: "payment_expired \<Rightarrow> unit res" where
  "mk_payment_expired e =
     bind_res (opaque_id (xp_event_id e) ''payment_expired.event_id'') (\<lambda>_.
     bind_res (opaque_id (xp_payment_id e) ''payment_expired.payment_id'') (\<lambda>_.
     bind_res (positive_int (xp_version e) ''payment_expired.payment_version'') (\<lambda>_.
     bind_res (digest_hash (xp_signature e) ''payment_expired.economic_signature'') (\<lambda>_. Inr ()))))"

definition mk_payment_cancelled :: "payment_cancelled \<Rightarrow> unit res" where
  "mk_payment_cancelled e =
     bind_res (opaque_id (cn_event_id e) ''payment_cancelled.event_id'') (\<lambda>_.
     bind_res (opaque_id (cn_payment_id e) ''payment_cancelled.payment_id'') (\<lambda>_.
     bind_res (positive_int (cn_version e) ''payment_cancelled.payment_version'') (\<lambda>_.
     bind_res (digest_hash (cn_signature e) ''payment_cancelled.economic_signature'') (\<lambda>_.
     bind_res (opaque_id (cn_cancellation_id e) ''payment_cancelled.cancellation_id'') (\<lambda>_. Inr ())))))"

text \<open>The constructor of an event's class; none of them changes a field.\<close>

fun mk_payment_event :: "payment_event \<Rightarrow> unit res" where
  "mk_payment_event (PaymentMethodSelected e) = mk_method_selected e"
| "mk_payment_event (FinancialSummaryRecorded e) = mk_financial_summary e"
| "mk_payment_event (FinancialConfirmationReceived e) = mk_financial_confirmation e"
| "mk_payment_event (PaymentEvidenceRecorded e) = mk_evidence_recorded e"
| "mk_payment_event (SettlementStarted e) = mk_settlement_started e"
| "mk_payment_event (SettlementFinished e) = mk_settlement_finished e"
| "mk_payment_event (PaymentExpired e) = mk_payment_expired e"
| "mk_payment_event (PaymentCancelled e) = mk_payment_cancelled e"

fun payment_event_time :: "payment_event \<Rightarrow> timestamp" where
  "payment_event_time (PaymentMethodSelected e) = ms_selected_at e"
| "payment_event_time (FinancialSummaryRecorded e) = fs_recorded_at e"
| "payment_event_time (FinancialConfirmationReceived e) = fc_confirmed_at e"
| "payment_event_time (PaymentEvidenceRecorded e) = er_recorded_at e"
| "payment_event_time (SettlementStarted e) = ss_started_at e"
| "payment_event_time (SettlementFinished e) = sf_finished_at e"
| "payment_event_time (PaymentExpired e) = xp_expired_at e"
| "payment_event_time (PaymentCancelled e) = cn_cancelled_at e"

fun payment_event_id :: "payment_event \<Rightarrow> string" where
  "payment_event_id (PaymentMethodSelected e) = ms_event_id e"
| "payment_event_id (FinancialSummaryRecorded e) = fs_event_id e"
| "payment_event_id (FinancialConfirmationReceived e) = fc_event_id e"
| "payment_event_id (PaymentEvidenceRecorded e) = er_event_id e"
| "payment_event_id (SettlementStarted e) = ss_event_id e"
| "payment_event_id (SettlementFinished e) = sf_event_id e"
| "payment_event_id (PaymentExpired e) = xp_event_id e"
| "payment_event_id (PaymentCancelled e) = cn_event_id e"

end
