(* ===== verification/Followup_Workflow.thy ===== *)
theory Followup_Workflow
  imports Followup_Payment
begin

text \<open>
  The payment workflow of \<^verbatim>\<open>reservation_followup/payment.py\<close>: the transition matrix, the replay of a
  history, the constructor that checks a workflow against that replay, and the reducer.
\<close>

section \<open>The transition matrix\<close>

datatype payment_action = HANDLE | REJECT_EVENT | REPLAY_ONLY | TERMINAL_NOOP

fun payment_matrix :: "payment_status \<Rightarrow> payment_event \<Rightarrow> payment_action" where
  "payment_matrix PAY_AWAITING_METHOD e =
     (case e of PaymentMethodSelected _ \<Rightarrow> HANDLE | PaymentExpired _ \<Rightarrow> HANDLE | PaymentCancelled _ \<Rightarrow> HANDLE
      | _ \<Rightarrow> REJECT_EVENT)"
| "payment_matrix PAY_AWAITING_FINANCIAL_CONFIRMATION e =
     (case e of PaymentEvidenceRecorded _ \<Rightarrow> REJECT_EVENT | SettlementStarted _ \<Rightarrow> REJECT_EVENT
      | SettlementFinished _ \<Rightarrow> REJECT_EVENT | _ \<Rightarrow> HANDLE)"
| "payment_matrix PAY_AWAITING_EVIDENCE e =
     (case e of FinancialConfirmationReceived _ \<Rightarrow> REJECT_EVENT | SettlementStarted _ \<Rightarrow> REJECT_EVENT
      | SettlementFinished _ \<Rightarrow> REJECT_EVENT | _ \<Rightarrow> HANDLE)"
| "payment_matrix PAY_EVIDENCE_VERIFIED e = REJECT_EVENT"
| "payment_matrix PAY_SETTLEMENT_QUEUED e =
     (case e of SettlementStarted _ \<Rightarrow> HANDLE | SettlementFinished _ \<Rightarrow> HANDLE | _ \<Rightarrow> REJECT_EVENT)"
| "payment_matrix PAY_SETTLING e =
     (case e of SettlementStarted _ \<Rightarrow> REPLAY_ONLY | SettlementFinished _ \<Rightarrow> HANDLE | _ \<Rightarrow> REJECT_EVENT)"
| "payment_matrix PAY_RETRYABLE e = REPLAY_ONLY"
| "payment_matrix _ e = TERMINAL_NOOP"

section \<open>The workflow\<close>

record payment_core =
  pc_subject :: payment_subject
  pc_status :: payment_status
  pc_summary :: "financial_summary option"
  pc_confirmation :: "financial_confirmation option"
  pc_record :: "evidence_recorded option"
  pc_verified :: "verified_evidence option"
  pc_command :: "settlement_command option"
  pc_start :: "settlement_started option"
  pc_finish :: "settlement_finished option"
  pc_expiration :: "payment_expired option"
  pc_cancellation :: "payment_cancelled option"

record payment_workflow =
  pw_core :: payment_core
  pw_policy :: payment_policy
  pw_history :: "payment_event list"

section \<open>Binding an event to the current subject\<close>

definition version_binding :: "payment_subject \<Rightarrow> string \<Rightarrow> int \<Rightarrow> string \<Rightarrow> unit res" where
  "version_binding s payment_id version signature =
     bind_res (reject_if (payment_id \<noteq> ps_payment_id s) ''payment event belongs to another payment'') (\<lambda>_.
     bind_res (reject_if (version \<noteq> ps_version s) ''payment event uses a stale payment version'') (\<lambda>_.
     reject_if (signature \<noteq> ps_signature s) ''payment event uses a stale economic signature''))"

fun payment_binding :: "payment_event \<Rightarrow> payment_subject \<Rightarrow> unit res" where
  "payment_binding (FinancialSummaryRecorded e) s =
     bind_res (revalidate_subject (fs_subject e)) (\<lambda>candidate.
     bind_res (reject_if (ps_payment_id candidate \<noteq> ps_payment_id s) ''financial summary belongs to another payment'') (\<lambda>_.
     bind_res (reject_if (ps_anchor candidate \<noteq> ps_anchor s) ''financial summary changed the reservation anchor'') (\<lambda>_.
     bind_res (reject_if (ps_method candidate \<noteq> ps_method s) ''financial summary method is stale'') (\<lambda>_.
     bind_res (reject_if (ps_version candidate < ps_version s) ''financial summary uses a stale payment version'') (\<lambda>_.
     reject_if (ps_version candidate = ps_version s \<and> ps_signature candidate \<noteq> ps_signature s)
       ''financial summary diverges within the current version'')))))"
| "payment_binding (PaymentMethodSelected e) s =
     reject_if (ms_payment_id e \<noteq> ps_payment_id s) ''payment event belongs to another payment''"
| "payment_binding (FinancialConfirmationReceived e) s =
     version_binding s (fc_payment_id e) (fc_version e) (fc_signature e)"
| "payment_binding (PaymentEvidenceRecorded e) s =
     version_binding s (er_payment_id e) (er_version e) (er_signature e)"
| "payment_binding (SettlementStarted e) s =
     version_binding s (ss_payment_id e) (ss_version e) (ss_signature e)"
| "payment_binding (SettlementFinished e) s =
     version_binding s (sf_payment_id e) (sf_version e) (sf_signature e)"
| "payment_binding (PaymentExpired e) s =
     version_binding s (xp_payment_id e) (xp_version e) (xp_signature e)"
| "payment_binding (PaymentCancelled e) s =
     version_binding s (cn_payment_id e) (cn_version e) (cn_signature e)"

section \<open>Replaying a history\<close>

text \<open>The fields a new method or summary resets.\<close>

definition reset_core :: "payment_subject \<Rightarrow> financial_summary option \<Rightarrow> payment_core \<Rightarrow> payment_core" where
  "reset_core s summary c = c\<lparr>pc_subject := s, pc_status := PAY_AWAITING_FINANCIAL_CONFIRMATION,
     pc_summary := summary, pc_confirmation := None, pc_record := None, pc_verified := None,
     pc_command := None, pc_start := None, pc_finish := None\<rparr>"

definition replay_method :: "payment_core \<Rightarrow> method_selected \<Rightarrow> payment_core res" where
  "replay_method c e =
     bind_res (reject_if (ms_selected_at e < an_confirmed_at (ps_anchor (pc_subject c)))
       ''method selection predates reservation confirmation'') (\<lambda>_.
     bind_res (reject_if (ps_method (pc_subject c) = Some (ms_method e) \<and> pc_summary c = None)
       ''payment history contains a method no-op'') (\<lambda>_.
     bind_res (mk_subject ((pc_subject c)\<lparr>ps_method := Some (ms_method e)\<rparr>)) (\<lambda>s.
     Inr (reset_core s None c))))"

definition replay_summary :: "payment_core \<Rightarrow> financial_summary \<Rightarrow> payment_core res" where
  "replay_summary c e =
     bind_res (revalidate_subject (fs_subject e)) (\<lambda>candidate.
     bind_res (if ps_signature candidate = ps_signature (pc_subject c)
               then reject_if (ps_version candidate \<noteq> ps_version (pc_subject c))
                      ''unchanged economics cannot change payment version''
               else reject_if (ps_version candidate \<noteq> ps_version (pc_subject c) + 1)
                      ''economic changes require the next payment version'') (\<lambda>_.
     bind_res (reject_if (map_option fs_subject (pc_summary c) = Some candidate)
       ''payment history contains a summary no-op'') (\<lambda>_.
     Inr (reset_core candidate (Some e) c))))"

definition replay_confirmation :: "payment_core \<Rightarrow> financial_confirmation \<Rightarrow> payment_core res" where
  "replay_confirmation c e =
     (case pc_summary c of
        None \<Rightarrow> Inl (ValueError ''payment history contains a stale financial confirmation'')
      | Some summary \<Rightarrow>
          bind_res (reject_if (fc_summary_hash e \<noteq> fs_hash summary)
            ''payment history contains a stale financial confirmation'') (\<lambda>_.
          bind_res (reject_if (fc_confirmed_at e < fs_recorded_at summary)
            ''financial confirmation predates its summary'') (\<lambda>_.
          Inr (c\<lparr>pc_status := PAY_AWAITING_EVIDENCE, pc_confirmation := Some e\<rparr>))))"

definition replay_evidence :: "payment_core \<Rightarrow> evidence_recorded \<Rightarrow> payment_core res" where
  "replay_evidence c e =
     bind_res (reject_if (case pc_confirmation c of None \<Rightarrow> True | Some f \<Rightarrow> er_recorded_at e < fc_confirmed_at f)
       ''payment history contains evidence before confirmation'') (\<lambda>_.
     bind_res (validate_evidence (pc_subject c) (er_evidence e) (er_trust e)) (\<lambda>verified.
     bind_res (settlement_command_for (pc_subject c) verified) (\<lambda>command.
     Inr (c\<lparr>pc_status := PAY_SETTLEMENT_QUEUED, pc_record := Some e, pc_verified := Some verified,
            pc_command := Some command\<rparr>))))"

definition replay_start :: "payment_core \<Rightarrow> settlement_started \<Rightarrow> payment_core res" where
  "replay_start c e =
     (case pc_command c of
        None \<Rightarrow> Inl (ValueError ''payment history starts settlement without a command'')
      | Some command \<Rightarrow>
          bind_res (reject_if (ss_command_id e \<noteq> sc_id command \<or> ss_idempotency_key e \<noteq> sc_idempotency_key command
              \<or> (case pc_record c of None \<Rightarrow> False | Some r \<Rightarrow> ss_started_at e < er_recorded_at r))
            ''payment history contains a divergent settlement start'') (\<lambda>_.
          Inr (c\<lparr>pc_status := PAY_SETTLING, pc_start := Some e\<rparr>)))"

definition boundary_time :: "payment_core \<Rightarrow> timestamp option" where
  "boundary_time c =
     (case pc_start c of Some s \<Rightarrow> Some (ss_started_at s) | None \<Rightarrow> map_option er_recorded_at (pc_record c))"

definition replay_finish :: "payment_core \<Rightarrow> settlement_finished \<Rightarrow> payment_core res" where
  "replay_finish c e =
     bind_res (reject_if (map_option sc_id (pc_command c) \<noteq> Some (sf_command_id e))
       ''payment history finishes an unknown settlement command'') (\<lambda>_.
     bind_res (reject_if (so_certainty (sf_outcome e) \<noteq> NOT_DISPATCHED \<and> pc_start c = None)
       ''dispatched settlement history requires a dispatch fence'') (\<lambda>_.
     bind_res (reject_if (case boundary_time c of None \<Rightarrow> True | Some b \<Rightarrow> sf_finished_at e < b)
       ''settlement finish predates its boundary event'') (\<lambda>_.
     bind_res (project_settlement_outcome (sf_outcome e) (pc_start c \<noteq> None)) (\<lambda>status.
     Inr (c\<lparr>pc_status := status, pc_finish := Some e\<rparr>)))))"

definition replay_expired :: "payment_core \<Rightarrow> payment_expired \<Rightarrow> payment_core res" where
  "replay_expired c e =
     bind_res (reject_if (case an_deadline (ps_anchor (pc_subject c)) of None \<Rightarrow> True | Some d \<Rightarrow> xp_expired_at e < d)
       ''payment history expires before its configured deadline'') (\<lambda>_.
     Inr (c\<lparr>pc_status := PAY_EXPIRED, pc_expiration := Some e\<rparr>))"

definition replay_cancelled :: "payment_core \<Rightarrow> payment_cancelled \<Rightarrow> payment_core res" where
  "replay_cancelled c e =
     bind_res (reject_if (cn_cancelled_at e < an_confirmed_at (ps_anchor (pc_subject c)))
       ''payment history cancellation predates confirmation'') (\<lambda>_.
     Inr (c\<lparr>pc_status := PAY_CANCELLED, pc_cancellation := Some e\<rparr>))"

definition replay_event :: "payment_core \<Rightarrow> payment_event \<Rightarrow> payment_core res" where
  "replay_event c e =
     bind_res (mk_payment_event e) (\<lambda>_.
     bind_res (payment_binding e (pc_subject c)) (\<lambda>_.
     bind_res (reject_if (payment_matrix (pc_status c) e \<noteq> HANDLE)
       ''payment history contains an event the reducer would not apply'') (\<lambda>_.
     case e of
       PaymentMethodSelected x \<Rightarrow> replay_method c x
     | FinancialSummaryRecorded x \<Rightarrow> replay_summary c x
     | FinancialConfirmationReceived x \<Rightarrow> replay_confirmation c x
     | PaymentEvidenceRecorded x \<Rightarrow> replay_evidence c x
     | SettlementStarted x \<Rightarrow> replay_start c x
     | SettlementFinished x \<Rightarrow> replay_finish c x
     | PaymentExpired x \<Rightarrow> replay_expired c x
     | PaymentCancelled x \<Rightarrow> replay_cancelled c x)))"

fun replay_events :: "payment_core \<Rightarrow> payment_event list \<Rightarrow> payment_core res" where
  "replay_events c [] = Inr c"
| "replay_events c (e # es) = bind_res (replay_event c e) (\<lambda>c. replay_events c es)"

definition initial_core :: "payment_subject \<Rightarrow> payment_core" where
  "initial_core s = \<lparr>pc_subject = s, pc_status = PAY_AWAITING_METHOD, pc_summary = None, pc_confirmation = None,
     pc_record = None, pc_verified = None, pc_command = None, pc_start = None, pc_finish = None,
     pc_expiration = None, pc_cancellation = None\<rparr>"

definition replay_payment_history :: "payment_subject \<Rightarrow> payment_event list \<Rightarrow> payment_core res" where
  "replay_payment_history final_subject events =
     bind_res (subject_from_anchor (ps_anchor final_subject) (ps_payment_id final_subject) None same_economics None)
       (\<lambda>s. replay_events (initial_core s) events)"

section \<open>The constructor of a workflow\<close>

definition check_history :: "payment_event list \<Rightarrow> unit res" where
  "check_history events =
     bind_res (reject_if (\<not> distinct (map payment_event_id events))
       ''payment workflow history contains duplicate event id'') (\<lambda>_.
     reject_if (\<not> sorted (map payment_event_time events)) ''payment workflow history is not chronological'')"

definition check_method :: "payment_core \<Rightarrow> unit res" where
  "check_method c =
     bind_res (reject_if (pc_status c = PAY_AWAITING_METHOD \<and> ps_method (pc_subject c) \<noteq> None)
       ''awaiting_method workflow cannot have a selected method'') (\<lambda>_.
     reject_if (pc_status c \<notin> {PAY_AWAITING_METHOD, PAY_EXPIRED, PAY_CANCELLED} \<and> ps_method (pc_subject c) = None)
       ''active payment workflow requires a selected method'')"

definition check_confirmation :: "payment_core \<Rightarrow> unit res" where
  "check_confirmation c =
     bind_res (reject_if (pc_confirmation c \<noteq> None \<and> pc_summary c = None)
       ''financial confirmation requires a summary'') (\<lambda>_.
     bind_res (reject_if (case pc_summary c of None \<Rightarrow> False | Some s \<Rightarrow> fs_subject s \<noteq> pc_subject c)
       ''financial summary does not match current subject'') (\<lambda>_.
     reject_if (case (pc_confirmation c, pc_summary c) of
         (Some f, Some s) \<Rightarrow> fc_payment_id f \<noteq> ps_payment_id (pc_subject c) \<or> fc_version f \<noteq> ps_version (pc_subject c)
           \<or> fc_signature f \<noteq> ps_signature (pc_subject c) \<or> fc_summary_hash f \<noteq> fs_hash s
           \<or> fc_confirmed_at f < fs_recorded_at s
       | _ \<Rightarrow> False) ''financial confirmation is stale or noncanonical''))"

definition check_evidence :: "payment_core \<Rightarrow> unit res" where
  "check_evidence c =
     bind_res (reject_if (case pc_record c of
         None \<Rightarrow> False
       | Some r \<Rightarrow> er_payment_id r \<noteq> ps_payment_id (pc_subject c) \<or> er_version r \<noteq> ps_version (pc_subject c)
           \<or> er_signature r \<noteq> ps_signature (pc_subject c)
           \<or> (case pc_confirmation c of None \<Rightarrow> True | Some f \<Rightarrow> er_recorded_at r < fc_confirmed_at f))
       ''payment evidence record is stale or noncanonical'') (\<lambda>_.
     bind_res (case pc_verified c of
         None \<Rightarrow> Inr ()
       | Some v \<Rightarrow>
           (case pc_record c of
              None \<Rightarrow> Inl (ValueError ''verified evidence requires its raw record'')
            | Some r \<Rightarrow>
                bind_res (validate_evidence (pc_subject c) (er_evidence r) (er_trust r)) (\<lambda>expected.
                reject_if (expected \<noteq> v) ''verified evidence is not derived from workflow inputs''))) (\<lambda>_.
     case pc_command c of
       None \<Rightarrow> Inr ()
     | Some command \<Rightarrow>
         (case pc_verified c of
            None \<Rightarrow> Inl (ValueError ''settlement command requires verified evidence'')
          | Some v \<Rightarrow>
              bind_res (settlement_command_for (pc_subject c) v) (\<lambda>expected.
              reject_if (expected \<noteq> command) ''settlement command is not canonical for the workflow''))))"

definition check_start :: "payment_core \<Rightarrow> unit res" where
  "check_start c =
     (case pc_start c of
        None \<Rightarrow> Inr ()
      | Some s \<Rightarrow>
          (case pc_command c of
             None \<Rightarrow> Inl (ValueError ''settlement start requires a command'')
           | Some command \<Rightarrow>
               reject_if (ss_payment_id s \<noteq> ps_payment_id (pc_subject c) \<or> ss_version s \<noteq> ps_version (pc_subject c)
                   \<or> ss_signature s \<noteq> ps_signature (pc_subject c) \<or> ss_command_id s \<noteq> sc_id command
                   \<or> ss_idempotency_key s \<noteq> sc_idempotency_key command
                   \<or> (case pc_record c of None \<Rightarrow> False | Some r \<Rightarrow> ss_started_at s < er_recorded_at r))
                 ''settlement start does not match workflow command''))"

definition check_finish :: "payment_core \<Rightarrow> unit res" where
  "check_finish c =
     (case pc_finish c of
        None \<Rightarrow> Inr ()
      | Some f \<Rightarrow>
          (case pc_command c of
             None \<Rightarrow> Inl (ValueError ''settlement finish requires a command'')
           | Some command \<Rightarrow>
               bind_res (reject_if (so_certainty (sf_outcome f) \<noteq> NOT_DISPATCHED \<and> pc_start c = None)
                 ''dispatched settlement finish requires a dispatch fence'') (\<lambda>_.
               bind_res (reject_if (sf_payment_id f \<noteq> ps_payment_id (pc_subject c) \<or> sf_version f \<noteq> ps_version (pc_subject c)
                   \<or> sf_signature f \<noteq> ps_signature (pc_subject c) \<or> sf_command_id f \<noteq> sc_id command
                   \<or> (case pc_start c of None \<Rightarrow> False | Some s \<Rightarrow> sf_finished_at f < ss_started_at s))
                 ''settlement finish does not match workflow command'') (\<lambda>_.
               bind_res (project_settlement_outcome (sf_outcome f) (pc_start c \<noteq> None)) (\<lambda>expected.
               reject_if (pc_status c \<noteq> expected) ''payment status does not match settlement outcome'')))))"

definition check_terminal :: "payment_core \<Rightarrow> unit res" where
  "check_terminal c =
     bind_res (reject_if (pc_status c = PAY_PAID
         \<and> map_option (\<lambda>f. so_certainty (sf_outcome f)) (pc_finish c) \<noteq> Some SETTLED)
       ''paid workflow requires a settled outcome'') (\<lambda>_.
     bind_res (reject_if (pc_status c = PAY_EVIDENCE_VERIFIED)
       ''evidence_verified is not a reachable persisted status'') (\<lambda>_.
     bind_res (reject_if (pc_expiration c \<noteq> None \<and> pc_cancellation c \<noteq> None)
       ''payment workflow cannot be expired and cancelled'') (\<lambda>_.
     bind_res (reject_if (case pc_expiration c of
         None \<Rightarrow> False
       | Some x \<Rightarrow> xp_payment_id x \<noteq> ps_payment_id (pc_subject c) \<or> xp_version x \<noteq> ps_version (pc_subject c)
           \<or> xp_signature x \<noteq> ps_signature (pc_subject c)) ''payment expiration is stale'') (\<lambda>_.
     reject_if (case pc_cancellation c of
         None \<Rightarrow> False
       | Some x \<Rightarrow> cn_payment_id x \<noteq> ps_payment_id (pc_subject c) \<or> cn_version x \<noteq> ps_version (pc_subject c)
           \<or> cn_signature x \<noteq> ps_signature (pc_subject c)) ''payment cancellation is stale''))))"

definition bound_events :: "payment_core \<Rightarrow> payment_event list" where
  "bound_events c = concat [
     (case pc_summary c of None \<Rightarrow> [] | Some e \<Rightarrow> [FinancialSummaryRecorded e]),
     (case pc_confirmation c of None \<Rightarrow> [] | Some e \<Rightarrow> [FinancialConfirmationReceived e]),
     (case pc_record c of None \<Rightarrow> [] | Some e \<Rightarrow> [PaymentEvidenceRecorded e]),
     (case pc_start c of None \<Rightarrow> [] | Some e \<Rightarrow> [SettlementStarted e]),
     (case pc_finish c of None \<Rightarrow> [] | Some e \<Rightarrow> [SettlementFinished e]),
     (case pc_expiration c of None \<Rightarrow> [] | Some e \<Rightarrow> [PaymentExpired e]),
     (case pc_cancellation c of None \<Rightarrow> [] | Some e \<Rightarrow> [PaymentCancelled e])]"

definition check_provenance :: "payment_core \<Rightarrow> unit res" where
  "check_provenance c =
     bind_res (reject_if (pc_status c \<in> {PAY_SETTLEMENT_QUEUED, PAY_SETTLING, PAY_PAID, PAY_RETRYABLE, PAY_MANUAL_REVIEW}
         \<and> (pc_summary c = None \<or> pc_confirmation c = None \<or> pc_record c = None \<or> pc_verified c = None
           \<or> pc_command c = None)) ''post-evidence status requires complete financial provenance'') (\<lambda>_.
     bind_res (reject_if (pc_status c = PAY_SETTLEMENT_QUEUED \<and> (pc_start c \<noteq> None \<or> pc_finish c \<noteq> None))
       ''settlement_queued cannot already contain dispatch outcome'') (\<lambda>_.
     bind_res (reject_if (pc_status c = PAY_SETTLING \<and> (pc_start c = None \<or> pc_finish c \<noteq> None))
       ''settling requires a start and no finish'') (\<lambda>_.
     bind_res (reject_if (pc_status c \<in> {PAY_PAID, PAY_RETRYABLE, PAY_MANUAL_REVIEW} \<and> pc_finish c = None)
       ''terminal settlement projection requires an outcome'') (\<lambda>_.
     bind_res (reject_if (pc_status c = PAY_AWAITING_EVIDENCE \<and> (pc_summary c = None \<or> pc_confirmation c = None
         \<or> pc_record c \<noteq> None \<or> pc_command c \<noteq> None))
       ''awaiting_evidence requires confirmation and no evidence command'') (\<lambda>_.
     bind_res (reject_if (pc_status c = PAY_EXPIRED \<and> pc_expiration c = None)
       ''expired workflow requires expiration event'') (\<lambda>_.
     reject_if (pc_status c = PAY_CANCELLED \<and> pc_cancellation c = None)
       ''cancelled workflow requires cancellation event''))))))"

definition mk_payment_workflow :: "payment_workflow \<Rightarrow> payment_workflow res" where
  "mk_payment_workflow w =
     (let c = pw_core w
      in bind_res (revalidate_subject (pc_subject c)) (\<lambda>clean.
     bind_res (mk_payment_policy (pw_policy w)) (\<lambda>_.
     bind_res (check_history (pw_history w)) (\<lambda>_.
     bind_res (check_method c) (\<lambda>_.
     bind_res (check_confirmation c) (\<lambda>_.
     bind_res (check_evidence c) (\<lambda>_.
     bind_res (check_start c) (\<lambda>_.
     bind_res (check_finish c) (\<lambda>_.
     bind_res (check_terminal c) (\<lambda>_.
     bind_res (reject_if (\<not> list_all (\<lambda>e. e \<in> set (pw_history w)) (bound_events c))
       ''payment workflow binding is absent from event history'') (\<lambda>_.
     bind_res (check_provenance c) (\<lambda>_.
     bind_res (replay_payment_history clean (pw_history w)) (\<lambda>expected.
     bind_res (reject_if (c \<noteq> expected)
       ''payment workflow is not reachable by canonical reducer replay'') (\<lambda>_. Inr w))))))))))))))"

section \<open>The reducer\<close>

datatype payment_transition_status = PT_APPLIED | PT_NOOP | PT_REJECTED | PT_CONFLICT

datatype payment_transition_reason =
    PAYMENT_OPENED | METHOD_SELECTED | FINANCIAL_SUMMARY_RECORDED | FINANCIAL_CONFIRMATION_RECORDED
  | EVIDENCE_VERIFIED_AND_QUEUED | SETTLEMENT_STARTED | SETTLEMENT_FINISHED | PAYMENT_EXPIRED
  | PAYMENT_CANCELLED | PT_IDENTICAL_REPLAY | PT_EVENT_NOT_APPLICABLE

record payment_transition =
  pt_next :: payment_workflow
  pt_result :: payment_transition_status
  pt_reason :: payment_transition_reason
  pt_events :: "payment_event list"
  pt_commands :: "settlement_command list"

definition noop :: "payment_workflow \<Rightarrow> payment_transition" where
  "noop w = \<lparr>pt_next = w, pt_result = PT_NOOP, pt_reason = PT_IDENTICAL_REPLAY, pt_events = [], pt_commands = []\<rparr>"

definition not_applicable :: "payment_workflow \<Rightarrow> payment_transition" where
  "not_applicable w =
     \<lparr>pt_next = w, pt_result = PT_NOOP, pt_reason = PT_EVENT_NOT_APPLICABLE, pt_events = [], pt_commands = []\<rparr>"

definition applied ::
  "payment_workflow \<Rightarrow> payment_event \<Rightarrow> payment_transition_reason \<Rightarrow> settlement_command list
   \<Rightarrow> payment_core \<Rightarrow> payment_transition res" where
  "applied w e reason commands core =
     bind_res (mk_payment_workflow (w\<lparr>pw_core := core, pw_history := pw_history w @ [e]\<rparr>)) (\<lambda>next_state.
     Inr \<lparr>pt_next = next_state, pt_result = PT_APPLIED, pt_reason = reason, pt_events = [e],
          pt_commands = commands\<rparr>)"

definition new_payment :: "confirmed_anchor \<Rightarrow> payment_policy \<Rightarrow> payment_transition res" where
  "new_payment anchor policy =
     bind_res (mk_payment_policy policy) (\<lambda>clean_policy.
     bind_res (subject_from_anchor anchor
         (stable_id ''payment'' [JStr (an_workflow_id anchor), JStr (an_target_id anchor)]) None same_economics None) (\<lambda>s.
     bind_res (mk_payment_workflow \<lparr>pw_core = initial_core s, pw_policy = clean_policy, pw_history = []\<rparr>) (\<lambda>w.
     Inr \<lparr>pt_next = w, pt_result = PT_APPLIED, pt_reason = PAYMENT_OPENED, pt_events = [], pt_commands = []\<rparr>)))"

definition reduce_method :: "payment_workflow \<Rightarrow> method_selected \<Rightarrow> payment_transition res" where
  "reduce_method w e =
     (let c = pw_core w
      in bind_res (reject_if (ms_selected_at e < an_confirmed_at (ps_anchor (pc_subject c)))
           ''method selection predates reservation confirmation'') (\<lambda>_.
         if ps_method (pc_subject c) = Some (ms_method e) \<and> pc_summary c = None then Inr (not_applicable w)
         else bind_res (mk_subject ((pc_subject c)\<lparr>ps_method := Some (ms_method e)\<rparr>)) (\<lambda>s.
              applied w (PaymentMethodSelected e) METHOD_SELECTED [] (reset_core s None c))))"

definition reduce_summary :: "payment_workflow \<Rightarrow> financial_summary \<Rightarrow> payment_transition res" where
  "reduce_summary w e =
     (let c = pw_core w; current = pc_subject c
      in bind_res (revalidate_subject (fs_subject e)) (\<lambda>candidate.
         bind_res (reject_if (ps_payment_id candidate \<noteq> ps_payment_id current)
           ''financial summary belongs to another payment'') (\<lambda>_.
         bind_res (reject_if (ps_anchor candidate \<noteq> ps_anchor current)
           ''financial summary changed the reservation anchor'') (\<lambda>_.
         bind_res (reject_if (ps_method candidate \<noteq> ps_method current)
           ''method changes require PaymentMethodSelected'') (\<lambda>_.
         bind_res (if ps_signature candidate = ps_signature current
                   then reject_if (ps_version candidate \<noteq> ps_version current)
                          ''unchanged economics cannot change payment version''
                   else reject_if (ps_version candidate \<noteq> ps_version current + 1)
                          ''economic changes require the next payment version'') (\<lambda>_.
         if map_option fs_subject (pc_summary c) = Some candidate then Inr (not_applicable w)
         else applied w (FinancialSummaryRecorded e) FINANCIAL_SUMMARY_RECORDED []
                (reset_core candidate (Some e) c)))))))"

definition reduce_confirmation :: "payment_workflow \<Rightarrow> financial_confirmation \<Rightarrow> payment_transition res" where
  "reduce_confirmation w e =
     (let c = pw_core w
      in case pc_summary c of
           None \<Rightarrow> Inl (ValueError ''financial confirmation requires a recorded summary'')
         | Some summary \<Rightarrow>
             bind_res (reject_if (fc_summary_hash e \<noteq> fs_hash summary)
               ''financial confirmation references a stale summary'') (\<lambda>_.
             bind_res (reject_if (fc_confirmed_at e < fs_recorded_at summary)
               ''financial confirmation predates its summary'') (\<lambda>_.
             applied w (FinancialConfirmationReceived e) FINANCIAL_CONFIRMATION_RECORDED []
               (c\<lparr>pc_status := PAY_AWAITING_EVIDENCE, pc_confirmation := Some e\<rparr>))))"

definition reduce_evidence :: "payment_workflow \<Rightarrow> evidence_recorded \<Rightarrow> payment_transition res" where
  "reduce_evidence w e =
     (let c = pw_core w
      in case pc_confirmation c of
           None \<Rightarrow> Inl (ValueError ''payment evidence requires financial confirmation'')
         | Some f \<Rightarrow>
             bind_res (reject_if (er_recorded_at e < fc_confirmed_at f)
               ''payment evidence record predates financial confirmation'') (\<lambda>_.
             case pc_record c of
               Some r \<Rightarrow>
                 if er_evidence r = er_evidence e then Inr (not_applicable w)
                 else Inl (ValueError ''payment evidence replay diverges from the claimed evidence'')
             | None \<Rightarrow>
                 bind_res (validate_evidence (pc_subject c) (er_evidence e) (er_trust e)) (\<lambda>verified.
                 bind_res (settlement_command_for (pc_subject c) verified) (\<lambda>command.
                 applied w (PaymentEvidenceRecorded e) EVIDENCE_VERIFIED_AND_QUEUED [command]
                   (c\<lparr>pc_status := PAY_SETTLEMENT_QUEUED, pc_record := Some e, pc_verified := Some verified,
                      pc_command := Some command\<rparr>)))))"

definition reduce_start :: "payment_workflow \<Rightarrow> settlement_started \<Rightarrow> payment_transition res" where
  "reduce_start w e =
     (let c = pw_core w
      in case pc_command c of
           None \<Rightarrow> Inl (ValueError ''settlement start requires a queued command'')
         | Some command \<Rightarrow>
             bind_res (reject_if (ss_command_id e \<noteq> sc_id command \<or> ss_idempotency_key e \<noteq> sc_idempotency_key command)
               ''settlement start does not match queued command'') (\<lambda>_.
             bind_res (reject_if (case pc_record c of None \<Rightarrow> False | Some r \<Rightarrow> ss_started_at e < er_recorded_at r)
               ''settlement start predates evidence recording'') (\<lambda>_.
             applied w (SettlementStarted e) SETTLEMENT_STARTED []
               (c\<lparr>pc_status := PAY_SETTLING, pc_start := Some e\<rparr>))))"

definition reduce_finish :: "payment_workflow \<Rightarrow> settlement_finished \<Rightarrow> payment_transition res" where
  "reduce_finish w e =
     (let c = pw_core w
      in bind_res (reject_if (map_option sc_id (pc_command c) \<noteq> Some (sf_command_id e))
           ''settlement finish does not match queued command'') (\<lambda>_.
         bind_res (reject_if (so_certainty (sf_outcome e) \<noteq> NOT_DISPATCHED \<and> pc_start c = None)
           ''dispatched settlement outcome requires a dispatch fence'') (\<lambda>_.
         bind_res (reject_if (case boundary_time c of None \<Rightarrow> False | Some b \<Rightarrow> sf_finished_at e < b)
           ''settlement finish predates its boundary event'') (\<lambda>_.
         bind_res (project_settlement_outcome (sf_outcome e) (pc_start c \<noteq> None)) (\<lambda>status.
         applied w (SettlementFinished e) SETTLEMENT_FINISHED []
           (c\<lparr>pc_status := status, pc_finish := Some e\<rparr>))))))"

definition reduce_expired :: "payment_workflow \<Rightarrow> payment_expired \<Rightarrow> payment_transition res" where
  "reduce_expired w e =
     (let c = pw_core w
      in bind_res (reject_if (case an_deadline (ps_anchor (pc_subject c)) of None \<Rightarrow> True | Some d \<Rightarrow> xp_expired_at e < d)
           ''payment cannot expire before its configured deadline'') (\<lambda>_.
         applied w (PaymentExpired e) PAYMENT_EXPIRED []
           (c\<lparr>pc_status := PAY_EXPIRED, pc_expiration := Some e\<rparr>)))"

definition reduce_cancelled :: "payment_workflow \<Rightarrow> payment_cancelled \<Rightarrow> payment_transition res" where
  "reduce_cancelled w e =
     (let c = pw_core w
      in bind_res (reject_if (cn_cancelled_at e < an_confirmed_at (ps_anchor (pc_subject c)))
           ''payment cancellation predates reservation confirmation'') (\<lambda>_.
         applied w (PaymentCancelled e) PAYMENT_CANCELLED []
           (c\<lparr>pc_status := PAY_CANCELLED, pc_cancellation := Some e\<rparr>)))"

text \<open>The replay of evidence that was already recorded, whatever event id it comes with.\<close>

definition replayed_evidence :: "payment_workflow \<Rightarrow> evidence_recorded \<Rightarrow> evidence_recorded \<Rightarrow> payment_transition res" where
  "replayed_evidence w r e =
     bind_res (mk_evidence_recorded (e\<lparr>er_event_id := er_event_id r\<rparr>)) (\<lambda>_.
     if e\<lparr>er_event_id := er_event_id r\<rparr> = r
     then bind_res (validate_evidence (pc_subject (pw_core w)) (er_evidence e) (er_trust e)) (\<lambda>expected.
          bind_res (reject_if (Some expected \<noteq> pc_verified (pw_core w))
            ''payment evidence replay no longer validates'') (\<lambda>_. Inr (noop w)))
     else Inl (ValueError ''payment evidence replay has divergent payload''))"

definition dispatch_payment :: "payment_workflow \<Rightarrow> payment_event \<Rightarrow> payment_transition res" where
  "dispatch_payment w e =
     (case payment_matrix (pc_status (pw_core w)) e of
        TERMINAL_NOOP \<Rightarrow> Inr (not_applicable w)
      | REPLAY_ONLY \<Rightarrow> Inl (ValueError ''payment status accepts only an identical replay'')
      | REJECT_EVENT \<Rightarrow> Inl (ValueError ''payment event is not applicable to current status'')
      | HANDLE \<Rightarrow>
          (case e of
             PaymentMethodSelected x \<Rightarrow> reduce_method w x
           | FinancialSummaryRecorded x \<Rightarrow> reduce_summary w x
           | FinancialConfirmationReceived x \<Rightarrow> reduce_confirmation w x
           | PaymentEvidenceRecorded x \<Rightarrow> reduce_evidence w x
           | SettlementStarted x \<Rightarrow> reduce_start w x
           | SettlementFinished x \<Rightarrow> reduce_finish w x
           | PaymentExpired x \<Rightarrow> reduce_expired w x
           | PaymentCancelled x \<Rightarrow> reduce_cancelled w x))"

definition reduce_payment :: "payment_workflow \<Rightarrow> payment_event \<Rightarrow> payment_transition res" where
  "reduce_payment w e =
     bind_res (payment_binding e (pc_subject (pw_core w))) (\<lambda>_.
     case List.find (\<lambda>x. payment_event_id x = payment_event_id e) (pw_history w) of
       Some previous \<Rightarrow>
         if previous = e then Inr (noop w)
         else Inl (ValueError ''payment event id replay has divergent payload'')
     | None \<Rightarrow>
         (case (e, pc_record (pw_core w)) of
            (PaymentEvidenceRecorded x, Some r) \<Rightarrow> replayed_evidence w r x
          | _ \<Rightarrow> dispatch_payment w e))"

end
