(* ===== verification/Followup_Payment_Laws.thy ===== *)
theory Followup_Payment_Laws
  imports Followup_Workflow
begin

text \<open>
  The payment workflow is its history: the many checks of the constructor hold exactly for the
  replay of a chronological history without repeated event ids, and the reducer applies exactly the
  events the replay accepts. What the replay establishes is therefore true of every workflow.
\<close>

section \<open>Small facts\<close>

lemma revalidate_subject_Inr: "revalidate_subject s = Inr t \<longleftrightarrow> t = s \<and> wf_subject s"
proof
  assume "revalidate_subject s = Inr t"
  then obtain a where a: "mk_anchor (ps_anchor s) = Inr a" "mk_subject (s\<lparr>ps_anchor := a\<rparr>) = Inr t" "t = s"
    by (cases "mk_anchor (ps_anchor s)"; cases "mk_subject (s\<lparr>ps_anchor := projr (mk_anchor (ps_anchor s))\<rparr>)";
        simp add: revalidate_subject_def split: if_split_asm)
  have "ps_anchor t = a" using mk_subject_Inr(1) [OF a(2)] by simp
  then have "a = ps_anchor s" using a(3) by simp
  then have "mk_subject s = Inr s" "mk_anchor (ps_anchor s) = Inr (ps_anchor s)" using a by simp_all
  then show "t = s \<and> wf_subject s" using a(3) by (simp add: wf_subject_def wf_anchor_def)
next
  assume "t = s \<and> wf_subject s"
  then show "revalidate_subject s = Inr t"
    by (simp add: revalidate_subject_def wf_subject_def wf_anchor_def)
qed

lemma matches_anchor_method [simp]: "matches_anchor (s\<lparr>ps_method := m\<rparr>) = matches_anchor s"
  by (simp add: matches_anchor_def)

lemma subject_method: "wf_subject s \<Longrightarrow> mk_subject (s\<lparr>ps_method := m\<rparr>) = Inr (s\<lparr>ps_method := m\<rparr>)"
proof -
  assume "wf_subject s"
  then have s: "mk_subject s = Inr s" by (simp add: wf_subject_def)
  let ?t = "s\<lparr>ps_method := m\<rparr>"
  note f = mk_subject_Inr [OF s]
  have "s\<lparr>ps_method := m, ps_payment_id := ps_payment_id s, ps_receiver_id := ps_receiver_id s,
      ps_target_id := ps_target_id s\<rparr> = s\<lparr>ps_method := m\<rparr>" by simp
  then show ?thesis
    unfolding mk_subject_def Let_def
    using f(2-11) by (simp add: canonical_hash_def positive_int_def canonical_currency_def)
qed

lemma wf_subject_method: "wf_subject s \<Longrightarrow> wf_subject (s\<lparr>ps_method := m\<rparr>)"
  using subject_method [of s m] by (simp add: wf_subject_def)

section \<open>What a replay establishes\<close>

definition core_shape :: "payment_core \<Rightarrow> bool" where
  "core_shape c \<longleftrightarrow>
     (pc_status c \<in> {PAY_AWAITING_METHOD, PAY_AWAITING_FINANCIAL_CONFIRMATION, PAY_AWAITING_EVIDENCE} \<longrightarrow>
        pc_record c = None \<and> pc_verified c = None \<and> pc_command c = None \<and> pc_start c = None \<and> pc_finish c = None)
     \<and> (pc_status c \<in> {PAY_AWAITING_METHOD, PAY_AWAITING_FINANCIAL_CONFIRMATION} \<longrightarrow> pc_confirmation c = None)
     \<and> (pc_status c = PAY_AWAITING_METHOD \<longrightarrow> pc_summary c = None)
     \<and> (pc_status c \<notin> {PAY_EXPIRED, PAY_CANCELLED} \<longrightarrow> pc_expiration c = None \<and> pc_cancellation c = None)"

lemmas core_checks = check_method_def check_confirmation_def check_evidence_def check_start_def check_finish_def
  check_terminal_def check_provenance_def

definition core_ok :: "payment_core \<Rightarrow> payment_event list \<Rightarrow> bool" where
  "core_ok c es \<longleftrightarrow> wf_subject (pc_subject c) \<and> list_all (\<lambda>e. e \<in> set es) (bound_events c) \<and> core_shape c
     \<and> check_method c = Inr () \<and> check_confirmation c = Inr () \<and> check_evidence c = Inr ()
     \<and> check_start c = Inr () \<and> check_finish c = Inr () \<and> check_terminal c = Inr () \<and> check_provenance c = Inr ()"

text \<open>Each check reads only some of the fields.\<close>

lemma check_frames [simp]:
  "check_confirmation (c\<lparr>pc_status := st\<rparr>) = check_confirmation c"
  "check_confirmation (c\<lparr>pc_record := a\<rparr>) = check_confirmation c"
  "check_confirmation (c\<lparr>pc_verified := b\<rparr>) = check_confirmation c"
  "check_confirmation (c\<lparr>pc_command := d\<rparr>) = check_confirmation c"
  "check_confirmation (c\<lparr>pc_start := e\<rparr>) = check_confirmation c"
  "check_confirmation (c\<lparr>pc_finish := f\<rparr>) = check_confirmation c"
  "check_confirmation (c\<lparr>pc_expiration := g\<rparr>) = check_confirmation c"
  "check_confirmation (c\<lparr>pc_cancellation := h\<rparr>) = check_confirmation c"
  "check_evidence (c\<lparr>pc_status := st\<rparr>) = check_evidence c"
  "check_evidence (c\<lparr>pc_start := e\<rparr>) = check_evidence c"
  "check_evidence (c\<lparr>pc_finish := f\<rparr>) = check_evidence c"
  "check_evidence (c\<lparr>pc_expiration := g\<rparr>) = check_evidence c"
  "check_evidence (c\<lparr>pc_cancellation := h\<rparr>) = check_evidence c"
  "check_start (c\<lparr>pc_status := st\<rparr>) = check_start c"
  "check_start (c\<lparr>pc_finish := f\<rparr>) = check_start c"
  "check_start (c\<lparr>pc_expiration := g\<rparr>) = check_start c"
  "check_start (c\<lparr>pc_cancellation := h\<rparr>) = check_start c"
  "check_finish (c\<lparr>pc_expiration := g\<rparr>) = check_finish c"
  "check_finish (c\<lparr>pc_cancellation := h\<rparr>) = check_finish c"
  by (simp_all add: check_confirmation_def check_evidence_def check_start_def check_finish_def cong: option.case_cong)

lemma core_ok_shape: "core_ok c es \<Longrightarrow> core_shape c"
  by (simp add: core_ok_def)

lemma early_core:
  assumes "core_ok c es"
    and "pc_status c \<in> {PAY_AWAITING_METHOD, PAY_AWAITING_FINANCIAL_CONFIRMATION, PAY_AWAITING_EVIDENCE}"
  shows "pc_record c = None" "pc_verified c = None" "pc_command c = None" "pc_start c = None" "pc_finish c = None"
    "pc_expiration c = None" "pc_cancellation c = None"
  using core_ok_shape [OF assms(1), unfolded core_shape_def] assms(2) by fastforce+

lemma late_core:
  assumes "core_ok c es" "pc_status c \<in> {PAY_SETTLEMENT_QUEUED, PAY_SETTLING, PAY_PAID, PAY_RETRYABLE, PAY_MANUAL_REVIEW}"
  shows "\<exists>sm f r v k m. pc_summary c = Some sm \<and> pc_confirmation c = Some f \<and> pc_record c = Some r
    \<and> pc_verified c = Some v \<and> pc_command c = Some k \<and> ps_method (pc_subject c) = Some m"
proof -
  have "check_provenance c = Inr ()" "check_method c = Inr ()" using assms(1) by (auto simp: core_ok_def)
  then have "\<not> (pc_status c \<in> {PAY_SETTLEMENT_QUEUED, PAY_SETTLING, PAY_PAID, PAY_RETRYABLE, PAY_MANUAL_REVIEW}
         \<and> (pc_summary c = None \<or> pc_confirmation c = None \<or> pc_record c = None \<or> pc_verified c = None
           \<or> pc_command c = None))"
      and "\<not> (pc_status c \<notin> {PAY_AWAITING_METHOD, PAY_EXPIRED, PAY_CANCELLED} \<and> ps_method (pc_subject c) = None)"
    unfolding check_provenance_def check_method_def bind_res_Inr_iff reject_if_Inr by blast+
  moreover have "pc_status c \<notin> {PAY_AWAITING_METHOD, PAY_EXPIRED, PAY_CANCELLED}" using assms(2) by auto
  ultimately have "pc_summary c \<noteq> None \<and> pc_confirmation c \<noteq> None \<and> pc_record c \<noteq> None \<and> pc_verified c \<noteq> None
      \<and> pc_command c \<noteq> None \<and> ps_method (pc_subject c) \<noteq> None"
    using assms(2) by (simp del: insert_iff not_None_eq)
  then show ?thesis by (simp add: not_None_eq)
qed

lemma initial_core_ok: "wf_subject s \<Longrightarrow> ps_method s = None \<Longrightarrow> core_ok (initial_core s) []"
  by (simp add: core_ok_def initial_core_def core_shape_def core_checks bound_events_def)

lemma bound_events_mono: "list_all (\<lambda>e. e \<in> set es) xs \<Longrightarrow> list_all (\<lambda>e. e \<in> set (es @ [x])) xs"
  by (auto simp: list_all_iff)

lemma version_binding_Inr [simp]: "version_binding s p v g = Inr u \<longleftrightarrow>
    p = ps_payment_id s \<and> v = ps_version s \<and> g = ps_signature s"
  by (auto simp: version_binding_def bind_res_Inr_iff)

lemma reset_core_ok:
  assumes ok: "core_ok c es" and s: "wf_subject s" "ps_method s \<noteq> None"
    and st: "pc_status c \<in> {PAY_AWAITING_METHOD, PAY_AWAITING_FINANCIAL_CONFIRMATION, PAY_AWAITING_EVIDENCE}"
    and summary: "case summary of None \<Rightarrow> True | Some f \<Rightarrow> fs_subject f = s \<and> e = FinancialSummaryRecorded f"
  shows "core_ok (reset_core s summary c) (es @ [e])"
proof -
  have "pc_expiration c = None" "pc_cancellation c = None" using ok st by (auto simp: core_ok_def core_shape_def)
  then show ?thesis
    using s summary
    by (auto simp: core_ok_def core_shape_def core_checks reset_core_def bound_events_def split: option.splits)
qed

lemma replay_method_ok:
  assumes "core_ok c es" "replay_event c (PaymentMethodSelected e) = Inr c'"
  shows "core_ok c' (es @ [PaymentMethodSelected e])"
proof -
  have w: "wf_subject (pc_subject c)" using assms(1) by (simp add: core_ok_def)
  have "c' = reset_core ((pc_subject c)\<lparr>ps_method := Some (ms_method e)\<rparr>) None c"
    and h: "payment_matrix (pc_status c) (PaymentMethodSelected e) = HANDLE"
    using assms(2) subject_method [OF w] by (auto simp: replay_event_def replay_method_def bind_res_Inr_iff)
  moreover have "pc_status c \<in> {PAY_AWAITING_METHOD, PAY_AWAITING_FINANCIAL_CONFIRMATION, PAY_AWAITING_EVIDENCE}"
    using h by (cases "pc_status c") auto
  ultimately show ?thesis using reset_core_ok [OF assms(1) wf_subject_method [OF w]] by simp
qed

lemma replay_summary_ok:
  assumes "core_ok c es" "replay_event c (FinancialSummaryRecorded e) = Inr c'"
  shows "core_ok c' (es @ [FinancialSummaryRecorded e])"
proof -
  have "c' = reset_core (fs_subject e) (Some e) c" "wf_subject (fs_subject e)"
    and h: "payment_matrix (pc_status c) (FinancialSummaryRecorded e) = HANDLE"
    and m: "ps_method (fs_subject e) \<noteq> None"
    using assms(2)
    by (auto simp: replay_event_def replay_summary_def bind_res_Inr_iff revalidate_subject_Inr mk_financial_summary_def)
  moreover have "pc_status c \<in> {PAY_AWAITING_METHOD, PAY_AWAITING_FINANCIAL_CONFIRMATION, PAY_AWAITING_EVIDENCE}"
    using h by (cases "pc_status c") auto
  ultimately show ?thesis using reset_core_ok [OF assms(1)] by simp
qed

lemma replay_confirmation_ok:
  assumes "core_ok c es" "replay_event c (FinancialConfirmationReceived e) = Inr c'"
  shows "core_ok c' (es @ [FinancialConfirmationReceived e])"
proof -
  have h: "payment_matrix (pc_status c) (FinancialConfirmationReceived e) = HANDLE"
    and v: "fc_payment_id e = ps_payment_id (pc_subject c)" "fc_version e = ps_version (pc_subject c)"
      "fc_signature e = ps_signature (pc_subject c)"
    and r: "replay_confirmation c e = Inr c'"
    using assms(2) by (auto simp: replay_event_def bind_res_Inr_iff)
  obtain s where s: "pc_summary c = Some s" "fc_summary_hash e = fs_hash s" "fs_recorded_at s \<le> fc_confirmed_at e"
    and c': "c' = c\<lparr>pc_status := PAY_AWAITING_EVIDENCE, pc_confirmation := Some e\<rparr>"
    using r by (auto simp: replay_confirmation_def bind_res_Inr_iff split: option.splits)
  have st: "pc_status c = PAY_AWAITING_FINANCIAL_CONFIRMATION" using h by (cases "pc_status c") auto
  note shape = assms(1) [unfolded core_ok_def core_shape_def core_checks bound_events_def]
  show ?thesis
    using shape st s v
    by (simp add: c' core_ok_def core_shape_def core_checks bound_events_def bind_res_Inr_iff)
qed

lemma replay_evidence_ok:
  assumes "core_ok c es" "replay_event c (PaymentEvidenceRecorded e) = Inr c'"
  shows "core_ok c' (es @ [PaymentEvidenceRecorded e])"
proof -
  have h: "payment_matrix (pc_status c) (PaymentEvidenceRecorded e) = HANDLE"
    and v: "er_payment_id e = ps_payment_id (pc_subject c)" "er_version e = ps_version (pc_subject c)"
      "er_signature e = ps_signature (pc_subject c)"
    and r: "replay_evidence c e = Inr c'"
    using assms(2) by (auto simp: replay_event_def bind_res_Inr_iff)
  obtain f ve cmd where s: "pc_confirmation c = Some f" "fc_confirmed_at f \<le> er_recorded_at e"
      "validate_evidence (pc_subject c) (er_evidence e) (er_trust e) = Inr ve"
      "settlement_command_for (pc_subject c) ve = Inr cmd"
    and c': "c' = c\<lparr>pc_status := PAY_SETTLEMENT_QUEUED, pc_record := Some e, pc_verified := Some ve,
            pc_command := Some cmd\<rparr>"
    using r by (auto simp: replay_evidence_def bind_res_Inr_iff split: option.splits)
  have st: "pc_status c = PAY_AWAITING_EVIDENCE" using h by (cases "pc_status c") auto
  note shape = assms(1) [unfolded core_ok_def core_shape_def core_checks bound_events_def]
  obtain sm where sm: "pc_summary c = Some sm" using shape st by (auto simp: bind_res_Inr_iff)
  show ?thesis
    using shape st s v sm
    by (simp add: c' core_ok_def core_shape_def core_checks bound_events_def bind_res_Inr_iff)
qed

lemma replay_start_ok:
  assumes "core_ok c es" "replay_event c (SettlementStarted e) = Inr c'"
  shows "core_ok c' (es @ [SettlementStarted e])"
proof -
  have h: "payment_matrix (pc_status c) (SettlementStarted e) = HANDLE"
    and v: "ss_payment_id e = ps_payment_id (pc_subject c)" "ss_version e = ps_version (pc_subject c)"
      "ss_signature e = ps_signature (pc_subject c)"
    and r: "replay_start c e = Inr c'"
    using assms(2) by (auto simp: replay_event_def bind_res_Inr_iff)
  obtain cmd where s: "pc_command c = Some cmd" "ss_command_id e = sc_id cmd" "ss_idempotency_key e = sc_idempotency_key cmd"
      "case pc_record c of None \<Rightarrow> True | Some x \<Rightarrow> er_recorded_at x \<le> ss_started_at e"
    and c': "c' = c\<lparr>pc_status := PAY_SETTLING, pc_start := Some e\<rparr>"
    using r by (auto simp: replay_start_def bind_res_Inr_iff split: option.splits)
  have st: "pc_status c = PAY_SETTLEMENT_QUEUED" using h by (cases "pc_status c") auto
  note shape = assms(1) [unfolded core_ok_def core_shape_def core_checks bound_events_def]
  obtain sm f rec ve where sm: "pc_summary c = Some sm" "pc_confirmation c = Some f" "pc_record c = Some rec"
    "pc_verified c = Some ve" using shape st by (auto simp: bind_res_Inr_iff)
  show ?thesis
    using shape st s v sm
    by (simp add: c' core_ok_def core_shape_def core_checks bound_events_def bind_res_Inr_iff)
qed

lemma mk_settlement_outcome_Inr: "mk_settlement_outcome u = Inr v \<Longrightarrow> v = u"
  by (auto simp: mk_settlement_outcome_def bind_res_Inr_iff)

lemma project_settlement_status:
  assumes "project_settlement_outcome u fenced = Inr st"
  shows "st \<in> {PAY_PAID, PAY_RETRYABLE, PAY_MANUAL_REVIEW} \<and> (st = PAY_PAID \<longleftrightarrow> so_certainty u = SETTLED)
     \<and> (st = PAY_RETRYABLE \<longleftrightarrow> so_certainty u = NOT_DISPATCHED \<and> \<not> fenced)"
proof -
  obtain v where v: "mk_settlement_outcome u = Inr v" and st: "st = (case so_certainty v of
            SETTLED \<Rightarrow> PAY_PAID
          | NOT_DISPATCHED \<Rightarrow> if fenced then PAY_MANUAL_REVIEW else PAY_RETRYABLE
          | _ \<Rightarrow> PAY_MANUAL_REVIEW)"
    using assms unfolding project_settlement_outcome_def bind_res_Inr_iff by blast
  show ?thesis unfolding st mk_settlement_outcome_Inr [OF v] by (cases "so_certainty u") simp_all
qed

lemma replay_finish_ok:
  assumes "core_ok c es" "replay_event c (SettlementFinished e) = Inr c'"
  shows "core_ok c' (es @ [SettlementFinished e])"
proof -
  have h: "payment_matrix (pc_status c) (SettlementFinished e) = HANDLE"
    and v: "sf_payment_id e = ps_payment_id (pc_subject c)" "sf_version e = ps_version (pc_subject c)"
      "sf_signature e = ps_signature (pc_subject c)"
    and r: "replay_finish c e = Inr c'"
    using assms(2) by (auto simp: replay_event_def bind_res_Inr_iff)
  obtain cmd st' where s: "pc_command c = Some cmd" "sf_command_id e = sc_id cmd"
      "so_certainty (sf_outcome e) \<noteq> NOT_DISPATCHED \<longrightarrow> pc_start c \<noteq> None"
      "case pc_start c of None \<Rightarrow> True | Some x \<Rightarrow> ss_started_at x \<le> sf_finished_at e"
      "project_settlement_outcome (sf_outcome e) (pc_start c \<noteq> None) = Inr st'"
    and c': "c' = c\<lparr>pc_status := st', pc_finish := Some e\<rparr>"
    using r by (auto simp: replay_finish_def boundary_time_def bind_res_Inr_iff split: option.splits)
  have st: "pc_status c \<in> {PAY_SETTLEMENT_QUEUED, PAY_SETTLING}" using h by (cases "pc_status c") auto
  note p = project_settlement_status [OF s(5)]
  have late: "pc_status c \<in> {PAY_SETTLEMENT_QUEUED, PAY_SETTLING, PAY_PAID, PAY_RETRYABLE, PAY_MANUAL_REVIEW}"
    using st by auto
  obtain sm f rec ve m where sm: "pc_summary c = Some sm" "pc_confirmation c = Some f" "pc_record c = Some rec"
    "pc_verified c = Some ve" "ps_method (pc_subject c) = Some m" using late_core [OF assms(1) late] by blast
  have none: "pc_expiration c = None" "pc_cancellation c = None"
    using core_ok_shape [OF assms(1)] st by (auto simp: core_shape_def)
  have "check_finish c' = Inr ()"
    using s v p by (cases "pc_start c") (auto simp: c' check_finish_def bind_res_Inr_iff)
  moreover have "check_terminal c' = Inr ()" "check_provenance c' = Inr ()" "check_method c' = Inr ()" "core_shape c'"
    using p sm s(1) none
    by (auto simp: c' check_terminal_def check_provenance_def check_method_def core_shape_def bind_res_Inr_iff)
  moreover have "list_all (\<lambda>x. x \<in> set (es @ [SettlementFinished e])) (bound_events c')"
    using assms(1) by (auto simp: c' core_ok_def bound_events_def list_all_iff split: option.splits)
  ultimately show ?thesis using assms(1) by (simp add: core_ok_def c')
qed

lemma replay_expired_ok:
  assumes "core_ok c es" "replay_event c (PaymentExpired x) = Inr c'"
  shows "core_ok c' (es @ [PaymentExpired x])"
proof -
  have h: "payment_matrix (pc_status c) (PaymentExpired x) = HANDLE"
    and v: "xp_payment_id x = ps_payment_id (pc_subject c)" "xp_version x = ps_version (pc_subject c)"
      "xp_signature x = ps_signature (pc_subject c)"
    and c': "c' = c\<lparr>pc_status := PAY_EXPIRED, pc_expiration := Some x\<rparr>"
    using assms(2) by (auto simp: replay_event_def replay_expired_def bind_res_Inr_iff)
  have "pc_status c \<in> {PAY_AWAITING_METHOD, PAY_AWAITING_FINANCIAL_CONFIRMATION, PAY_AWAITING_EVIDENCE}"
    using h by (cases "pc_status c") auto
  note none = early_core [OF assms(1) this]
  have "check_finish c' = Inr ()" "check_terminal c' = Inr ()" "check_provenance c' = Inr ()" "check_method c' = Inr ()"
    "core_shape c'"
    using v none
    by (auto simp: c' check_finish_def check_terminal_def check_provenance_def check_method_def core_shape_def
        bind_res_Inr_iff)
  moreover have "list_all (\<lambda>e. e \<in> set (es @ [PaymentExpired x])) (bound_events c')"
    using assms(1) none by (auto simp: c' core_ok_def bound_events_def list_all_iff)
  ultimately show ?thesis using assms(1) by (simp add: core_ok_def c')
qed

lemma replay_cancelled_ok:
  assumes "core_ok c es" "replay_event c (PaymentCancelled x) = Inr c'"
  shows "core_ok c' (es @ [PaymentCancelled x])"
proof -
  have h: "payment_matrix (pc_status c) (PaymentCancelled x) = HANDLE"
    and v: "cn_payment_id x = ps_payment_id (pc_subject c)" "cn_version x = ps_version (pc_subject c)"
      "cn_signature x = ps_signature (pc_subject c)"
    and c': "c' = c\<lparr>pc_status := PAY_CANCELLED, pc_cancellation := Some x\<rparr>"
    using assms(2) by (auto simp: replay_event_def replay_cancelled_def bind_res_Inr_iff)
  have "pc_status c \<in> {PAY_AWAITING_METHOD, PAY_AWAITING_FINANCIAL_CONFIRMATION, PAY_AWAITING_EVIDENCE}"
    using h by (cases "pc_status c") auto
  note none = early_core [OF assms(1) this]
  have "check_finish c' = Inr ()" "check_terminal c' = Inr ()" "check_provenance c' = Inr ()" "check_method c' = Inr ()"
    "core_shape c'"
    using v none
    by (auto simp: c' check_finish_def check_terminal_def check_provenance_def check_method_def core_shape_def
        bind_res_Inr_iff)
  moreover have "list_all (\<lambda>e. e \<in> set (es @ [PaymentCancelled x])) (bound_events c')"
    using assms(1) none by (auto simp: c' core_ok_def bound_events_def list_all_iff)
  ultimately show ?thesis using assms(1) by (simp add: core_ok_def c')
qed

lemma replay_event_ok: "core_ok c es \<Longrightarrow> replay_event c e = Inr c' \<Longrightarrow> core_ok c' (es @ [e])"
  by (cases e)
     (simp_all add: replay_method_ok replay_summary_ok replay_confirmation_ok replay_evidence_ok replay_start_ok
        replay_finish_ok replay_expired_ok replay_cancelled_ok)

lemma replay_events_ok: "core_ok c es \<Longrightarrow> replay_events c fs = Inr c' \<Longrightarrow> core_ok c' (es @ fs)"
proof (induction fs arbitrary: c es)
  case (Cons f fs)
  then show ?case using replay_event_ok by (fastforce simp: bind_res_Inr_iff)
qed simp

section \<open>The constructor is the replay\<close>

definition wf_payment :: "payment_workflow \<Rightarrow> bool" where
  "wf_payment w \<longleftrightarrow> mk_payment_workflow w = Inr w"

lemma mk_payment_workflow_Inr:
  assumes "mk_payment_workflow w = Inr v"
  shows "v = w" "wf_subject (pc_subject (pw_core w))" "mk_payment_policy (pw_policy w) = Inr (pw_policy w)"
    "check_history (pw_history w) = Inr ()"
    "replay_payment_history (pc_subject (pw_core w)) (pw_history w) = Inr (pw_core w)"
proof -
  obtain clean p expected where *: "revalidate_subject (pc_subject (pw_core w)) = Inr clean"
      "mk_payment_policy (pw_policy w) = Inr p" "check_history (pw_history w) = Inr ()"
      "replay_payment_history clean (pw_history w) = Inr expected" "pw_core w = expected" "v = w"
    using assms unfolding mk_payment_workflow_def Let_def bind_res_Inr_iff by auto
  have "p = pw_policy w" using *(2) by (auto simp: mk_payment_policy_def split: if_splits)
  with * show "v = w" "wf_subject (pc_subject (pw_core w))" "mk_payment_policy (pw_policy w) = Inr (pw_policy w)"
    "check_history (pw_history w) = Inr ()"
    "replay_payment_history (pc_subject (pw_core w)) (pw_history w) = Inr (pw_core w)"
    by (auto simp: revalidate_subject_Inr)
qed

lemma replay_payment_ok:
  assumes "replay_payment_history s es = Inr c"
  shows "core_ok c es"
proof -
  obtain s0 where s0: "subject_from_anchor (ps_anchor s) (ps_payment_id s) None same_economics None = Inr s0"
      "replay_events (initial_core s0) es = Inr c"
    using assms by (auto simp: replay_payment_history_def bind_res_Inr_iff)
  have "core_ok (initial_core s0) []" using from_anchor_wf [OF s0(1)] initial_core_ok by blast
  from replay_events_ok [OF this s0(2)] show ?thesis by simp
qed

lemma replayed_workflow:
  assumes "wf_subject (pc_subject (pw_core w))" "mk_payment_policy (pw_policy w) = Inr (pw_policy w)"
    "check_history (pw_history w) = Inr ()"
    "replay_payment_history (pc_subject (pw_core w)) (pw_history w) = Inr (pw_core w)"
  shows "mk_payment_workflow w = Inr w"
  using replay_payment_ok [OF assms(4)] assms
  by (simp add: mk_payment_workflow_def core_ok_def revalidate_subject_Inr [THEN iffD2])

lemma wf_payment_core: "wf_payment w \<Longrightarrow> core_ok (pw_core w) (pw_history w)"
  unfolding wf_payment_def using mk_payment_workflow_Inr(5) replay_payment_ok by blast

section \<open>One event more\<close>

lemma replay_events_append: "replay_events c (es @ fs) = bind_res (replay_events c es) (\<lambda>c. replay_events c fs)"
  by (induction es arbitrary: c) (auto simp: bind_res_def split: sum.split)

lemma replay_event_identity:
  assumes ok: "core_ok c es" and r: "replay_event c e = Inr c'"
  shows "ps_anchor (pc_subject c') = ps_anchor (pc_subject c) \<and> ps_payment_id (pc_subject c') = ps_payment_id (pc_subject c)"
proof (cases e)
  case (PaymentMethodSelected x)
  have w: "wf_subject (pc_subject c)" using ok by (simp add: core_ok_def)
  show ?thesis
    using r subject_method [OF w] PaymentMethodSelected
    by (auto simp: replay_event_def replay_method_def bind_res_Inr_iff reset_core_def)
next
  case (FinancialSummaryRecorded x)
  then show ?thesis
    using r by (auto simp: replay_event_def replay_summary_def bind_res_Inr_iff reset_core_def revalidate_subject_Inr)
next
  case (FinancialConfirmationReceived x)
  then show ?thesis
    using r by (auto simp: replay_event_def replay_confirmation_def bind_res_Inr_iff split: option.splits)
next
  case (PaymentEvidenceRecorded x)
  then show ?thesis
    using r by (auto simp: replay_event_def replay_evidence_def bind_res_Inr_iff)
next
  case (SettlementStarted x)
  then show ?thesis
    using r by (auto simp: replay_event_def replay_start_def bind_res_Inr_iff split: option.splits)
next
  case (SettlementFinished x)
  then show ?thesis
    using r by (auto simp: replay_event_def replay_finish_def bind_res_Inr_iff)
next
  case (PaymentExpired x)
  then show ?thesis
    using r by (auto simp: replay_event_def replay_expired_def bind_res_Inr_iff)
next
  case (PaymentCancelled x)
  then show ?thesis
    using r by (auto simp: replay_event_def replay_cancelled_def bind_res_Inr_iff)
qed

text \<open>What a successor state must satisfy besides the replay: a new id and a time not before the last.\<close>

definition in_order :: "payment_workflow \<Rightarrow> payment_event \<Rightarrow> bool" where
  "in_order w e \<longleftrightarrow> payment_event_id e \<notin> set (map payment_event_id (pw_history w))
     \<and> list_all (\<lambda>x. payment_event_time x \<le> payment_event_time e) (pw_history w)"

definition extended :: "payment_workflow \<Rightarrow> payment_event \<Rightarrow> payment_core \<Rightarrow> payment_workflow" where
  "extended w e c = w\<lparr>pw_core := c, pw_history := pw_history w @ [e]\<rparr>"

lemma check_history_snoc:
  "check_history es = Inr () \<Longrightarrow> check_history (es @ [e]) = Inr ()
     \<longleftrightarrow> payment_event_id e \<notin> set (map payment_event_id es) \<and> list_all (\<lambda>x. payment_event_time x \<le> payment_event_time e) es"
  by (auto simp: check_history_def bind_res_Inr_iff sorted_append list_all_iff)

lemma applied_iff:
  assumes w: "wf_payment w" and r: "replay_event (pw_core w) e = Inr c'"
  shows "applied w e reason cmds c' =
    (if payment_event_id e \<in> set (map payment_event_id (pw_history w))
     then Inl (ValueError ''payment workflow history contains duplicate event id'')
     else if \<not> list_all (\<lambda>x. payment_event_time x \<le> payment_event_time e) (pw_history w)
     then Inl (ValueError ''payment workflow history is not chronological'')
     else Inr \<lparr>pt_next = extended w e c', pt_result = PT_APPLIED, pt_reason = reason, pt_events = [e],
            pt_commands = cmds\<rparr>)"
proof -
  note f = mk_payment_workflow_Inr [OF w [unfolded wf_payment_def]]
  have ok: "core_ok (pw_core w) (pw_history w)" using wf_payment_core [OF w] .
  have ok': "wf_subject (pc_subject c')" using replay_event_ok [OF ok r] by (simp add: core_ok_def)
  obtain s0 where s0: "subject_from_anchor (ps_anchor (pc_subject (pw_core w))) (ps_payment_id (pc_subject (pw_core w)))
        None same_economics None = Inr s0" "replay_events (initial_core s0) (pw_history w) = Inr (pw_core w)"
    using f(5) by (auto simp: replay_payment_history_def bind_res_Inr_iff)
  have rep: "replay_payment_history (pc_subject c') (pw_history w @ [e]) = Inr c'"
    using s0 r replay_event_identity [OF ok r] by (simp add: replay_payment_history_def replay_events_append)
  show ?thesis
  proof (cases "in_order w e")
    case True
    then have "check_history (pw_history w @ [e]) = Inr ()"
      using check_history_snoc [OF f(4)] by (simp add: in_order_def)
    then have "mk_payment_workflow (extended w e c') = Inr (extended w e c')"
      using replayed_workflow [of "extended w e c'"] ok' f(3) rep by (simp add: extended_def)
    then show ?thesis using True by (simp add: applied_def extended_def in_order_def)
  next
    case False
    have "check_history (pw_history w @ [e]) =
      (if payment_event_id e \<in> set (map payment_event_id (pw_history w))
       then Inl (ValueError ''payment workflow history contains duplicate event id'')
       else Inl (ValueError ''payment workflow history is not chronological''))"
      using f(4) False
      by (auto simp: check_history_def reject_if_def bind_res_def in_order_def sorted_append list_all_iff split: if_splits)
    then show ?thesis
      using False ok' f(3)
      by (auto simp: applied_def mk_payment_workflow_def revalidate_subject_Inr [THEN iffD2] in_order_def split: if_splits)
  qed
qed

section \<open>The reducer applies what the replay accepts\<close>

fun applied_reason :: "payment_event \<Rightarrow> payment_transition_reason" where
  "applied_reason (PaymentMethodSelected _) = METHOD_SELECTED"
| "applied_reason (FinancialSummaryRecorded _) = FINANCIAL_SUMMARY_RECORDED"
| "applied_reason (FinancialConfirmationReceived _) = FINANCIAL_CONFIRMATION_RECORDED"
| "applied_reason (PaymentEvidenceRecorded _) = EVIDENCE_VERIFIED_AND_QUEUED"
| "applied_reason (SettlementStarted _) = SETTLEMENT_STARTED"
| "applied_reason (SettlementFinished _) = SETTLEMENT_FINISHED"
| "applied_reason (PaymentExpired _) = PAYMENT_EXPIRED"
| "applied_reason (PaymentCancelled _) = PAYMENT_CANCELLED"

definition applied_commands :: "payment_event \<Rightarrow> payment_core \<Rightarrow> settlement_command list" where
  "applied_commands e c =
     (case (e, pc_command c) of (PaymentEvidenceRecorded _, Some k) \<Rightarrow> [k] | _ \<Rightarrow> [])"

definition applied_step :: "payment_workflow \<Rightarrow> payment_event \<Rightarrow> payment_core \<Rightarrow> payment_transition" where
  "applied_step w e c = \<lparr>pt_next = extended w e c, pt_result = PT_APPLIED, pt_reason = applied_reason e,
     pt_events = [e], pt_commands = applied_commands e c\<rparr>"

lemma applied_Inr:
  assumes "wf_payment w" "replay_event (pw_core w) e = Inr c'" "applied w e (applied_reason e) (applied_commands e c') c' = Inr t"
  shows "in_order w e \<and> t = applied_step w e c'"
  using assms(3) applied_iff [OF assms(1,2)]
  by (auto simp: in_order_def applied_step_def split: if_splits)

lemma core_record:
  assumes "core_ok c es" "pc_command c = Some k"
  shows "pc_record c \<noteq> None"
proof -
  obtain v where "pc_verified c = Some v"
    using assms by (auto simp: core_ok_def check_evidence_def bind_res_Inr_iff split: option.splits)
  then show ?thesis using assms by (auto simp: core_ok_def check_evidence_def bind_res_Inr_iff split: option.splits)
qed

text \<open>Handling an event, under the guards that replay and reducer share.\<close>

definition handles :: "payment_workflow \<Rightarrow> payment_event \<Rightarrow> payment_transition res \<Rightarrow> bool" where
  "handles w e r \<longleftrightarrow>
     (\<forall>t. r = Inr t \<longrightarrow> t = not_applicable w
        \<or> (\<exists>c'. replay_event (pw_core w) e = Inr c' \<and> applied w e (applied_reason e) (applied_commands e c') c' = Inr t))
     \<and> (\<forall>c'. replay_event (pw_core w) e = Inr c' \<longrightarrow> r = applied w e (applied_reason e) (applied_commands e c') c')"

lemma handlesI:
  assumes "\<And>t. r = Inr t \<Longrightarrow> t = not_applicable w
      \<or> (\<exists>c'. replay_event (pw_core w) e = Inr c' \<and> applied w e (applied_reason e) (applied_commands e c') c' = Inr t)"
    and "\<And>c'. replay_event (pw_core w) e = Inr c' \<Longrightarrow> r = applied w e (applied_reason e) (applied_commands e c') c'"
  shows "handles w e r"
  using assms by (auto simp: handles_def)

definition ready :: "payment_workflow \<Rightarrow> payment_event \<Rightarrow> bool" where
  "ready w e \<longleftrightarrow> wf_payment w \<and> mk_payment_event e = Inr () \<and> payment_binding e (pc_subject (pw_core w)) = Inr ()
     \<and> payment_matrix (pc_status (pw_core w)) e = HANDLE"

lemma ready_replay:
  assumes "ready w e"
  shows "replay_event (pw_core w) e =
    (case e of
       PaymentMethodSelected x \<Rightarrow> replay_method (pw_core w) x
     | FinancialSummaryRecorded x \<Rightarrow> replay_summary (pw_core w) x
     | FinancialConfirmationReceived x \<Rightarrow> replay_confirmation (pw_core w) x
     | PaymentEvidenceRecorded x \<Rightarrow> replay_evidence (pw_core w) x
     | SettlementStarted x \<Rightarrow> replay_start (pw_core w) x
     | SettlementFinished x \<Rightarrow> replay_finish (pw_core w) x
     | PaymentExpired x \<Rightarrow> replay_expired (pw_core w) x
     | PaymentCancelled x \<Rightarrow> replay_cancelled (pw_core w) x)"
  using assms by (simp add: ready_def replay_event_def)

lemma handles_method: "ready w (PaymentMethodSelected x) \<Longrightarrow> handles w (PaymentMethodSelected x) (reduce_method w x)"
  unfolding handles_def
  by (auto simp: ready_replay reduce_method_def replay_method_def Let_def bind_res_Inr_iff applied_commands_def)

lemma handles_summary:
  assumes "ready w (FinancialSummaryRecorded x)"
  shows "handles w (FinancialSummaryRecorded x) (reduce_summary w x)"
proof -
  have "revalidate_subject (fs_subject x) = Inr (fs_subject x)" "ps_payment_id (fs_subject x) = ps_payment_id (pc_subject (pw_core w))"
    "ps_anchor (fs_subject x) = ps_anchor (pc_subject (pw_core w))" "ps_method (fs_subject x) = ps_method (pc_subject (pw_core w))"
    using assms by (auto simp: ready_def bind_res_Inr_iff revalidate_subject_Inr)
  then show ?thesis
    unfolding handles_def ready_replay [OF assms]
    by (auto simp: reduce_summary_def replay_summary_def Let_def bind_res_Inr_iff applied_commands_def)
qed

lemma handles_confirmation:
  assumes "ready w (FinancialConfirmationReceived x)"
  shows "handles w (FinancialConfirmationReceived x) (reduce_confirmation w x)"
  unfolding handles_def ready_replay [OF assms]
  by (cases "pc_summary (pw_core w)")
     (auto simp: reduce_confirmation_def replay_confirmation_def Let_def bind_res_Inr_iff applied_commands_def)

lemma handles_evidence:
  assumes "ready w (PaymentEvidenceRecorded x)" "pc_record (pw_core w) = None"
  shows "handles w (PaymentEvidenceRecorded x) (reduce_evidence w x)"
  unfolding handles_def ready_replay [OF assms(1)]
  by (cases "pc_confirmation (pw_core w)")
     (auto simp: reduce_evidence_def replay_evidence_def Let_def bind_res_Inr_iff applied_commands_def assms(2))

lemma handles_start:
  assumes "ready w (SettlementStarted x)"
  shows "handles w (SettlementStarted x) (reduce_start w x)"
  unfolding handles_def ready_replay [OF assms]
  by (cases "pc_command (pw_core w)")
     (auto simp: reduce_start_def replay_start_def Let_def bind_res_Inr_iff applied_commands_def)

lemma handles_finish:
  assumes "ready w (SettlementFinished x)"
  shows "handles w (SettlementFinished x) (reduce_finish w x)"
proof -
  have "boundary_time (pw_core w) \<noteq> None" if "pc_command (pw_core w) = Some k" for k
    using core_record [OF wf_payment_core that] assms by (auto simp: ready_def boundary_time_def split: option.split)
  then have "(case boundary_time (pw_core w) of None \<Rightarrow> True | Some b \<Rightarrow> sf_finished_at x < b)
      = (case boundary_time (pw_core w) of None \<Rightarrow> False | Some b \<Rightarrow> sf_finished_at x < b)"
    if "map_option sc_id (pc_command (pw_core w)) = Some (sf_command_id x)"
    using that by (cases "boundary_time (pw_core w)") auto
  then show ?thesis
    unfolding handles_def ready_replay [OF assms]
    by (auto simp: reduce_finish_def replay_finish_def Let_def bind_res_Inr_iff applied_commands_def)
qed

lemma handles_closing:
  "ready w (PaymentExpired x) \<Longrightarrow> handles w (PaymentExpired x) (reduce_expired w x)"
  "ready w (PaymentCancelled y) \<Longrightarrow> handles w (PaymentCancelled y) (reduce_cancelled w y)"
  unfolding handles_def
  by (auto simp: ready_replay reduce_expired_def replay_expired_def reduce_cancelled_def replay_cancelled_def Let_def
      bind_res_Inr_iff applied_commands_def)

lemma handles_dispatch:
  assumes "ready w e" "\<And>x. e = PaymentEvidenceRecorded x \<Longrightarrow> pc_record (pw_core w) = None"
  shows "handles w e (dispatch_payment w e)"
  using assms
  by (cases e)
     (simp_all add: ready_def dispatch_payment_def handles_method handles_summary handles_confirmation
       handles_evidence handles_start handles_finish handles_closing [unfolded ready_def])

text \<open>One step of the reducer: nothing changes, or the replay accepts the event and it is appended.\<close>

lemma reduce_payment_cases:
  assumes w: "wf_payment w" and e: "mk_payment_event e = Inr ()" and r: "reduce_payment w e = Inr t"
  shows "pt_result t = PT_NOOP \<and> pt_next t = w \<and> pt_events t = [] \<and> pt_commands t = []
    \<or> (\<exists>c'. replay_event (pw_core w) e = Inr c' \<and> in_order w e \<and> t = applied_step w e c')"
proof -
  have b: "payment_binding e (pc_subject (pw_core w)) = Inr ()"
    using r by (auto simp: reduce_payment_def bind_res_Inr_iff)
  show ?thesis
  proof (cases "List.find (\<lambda>x. payment_event_id x = payment_event_id e) (pw_history w)")
    case (Some p)
    then show ?thesis using r b by (auto simp: reduce_payment_def noop_def split: if_splits)
  next
    case None
    have d: "dispatch_payment w e = Inr t \<or> t = noop w" "dispatch_payment w e = Inr t \<Longrightarrow> t \<noteq> noop w
        \<Longrightarrow> \<exists>x. e = PaymentEvidenceRecorded x \<Longrightarrow> pc_record (pw_core w) = None"
      using r b None
      by (auto simp: reduce_payment_def replayed_evidence_def bind_res_Inr_iff split: payment_event.splits option.splits if_splits)
    show ?thesis
    proof (cases "t = noop w")
      case True
      then show ?thesis by (simp add: noop_def)
    next
      case False
      then have dp: "dispatch_payment w e = Inr t" using d(1) by blast
      show ?thesis
      proof (cases "payment_matrix (pc_status (pw_core w)) e")
        case HANDLE
        have "handles w e (dispatch_payment w e)"
          by (rule handles_dispatch) (use w e b HANDLE d(2) [OF dp False] in \<open>auto simp: ready_def\<close>)
        then consider "t = not_applicable w"
          | c' where "replay_event (pw_core w) e = Inr c'" "applied w e (applied_reason e) (applied_commands e c') c' = Inr t"
          using dp by (auto simp: handles_def)
        then show ?thesis using applied_Inr [OF w] by cases (auto simp: not_applicable_def)
      qed (use dp in \<open>auto simp: dispatch_payment_def not_applicable_def\<close>)
    qed
  qed
qed

lemma replay_is_applied:
  assumes w: "wf_payment w" and r: "replay_event (pw_core w) e = Inr c'" and o: "in_order w e"
  shows "reduce_payment w e = Inr (applied_step w e c')"
proof -
  have *: "mk_payment_event e = Inr ()" "payment_binding e (pc_subject (pw_core w)) = Inr ()"
    "payment_matrix (pc_status (pw_core w)) e = HANDLE"
    using r by (auto simp: replay_event_def bind_res_Inr_iff)
  have find: "List.find (\<lambda>x. payment_event_id x = payment_event_id e) (pw_history w) = None"
    using o unfolding in_order_def find_None_iff by (metis image_eqI set_map)
  have rec: "pc_record (pw_core w) = None" if "e = PaymentEvidenceRecorded x" for x
  proof -
    have "pc_status (pw_core w) = PAY_AWAITING_EVIDENCE" using *(3) that by (cases "pc_status (pw_core w)") auto
    then show ?thesis using early_core(1) [OF wf_payment_core [OF w]] by simp
  qed
  have "handles w e (dispatch_payment w e)"
    by (rule handles_dispatch) (use w * rec in \<open>auto simp: ready_def\<close>)
  then have "dispatch_payment w e = applied w e (applied_reason e) (applied_commands e c') c'"
    using r by (auto simp: handles_def)
  also have "\<dots> = Inr (applied_step w e c')"
    using applied_iff [OF w r] o by (auto simp: in_order_def applied_step_def)
  finally have dp: "dispatch_payment w e = Inr (applied_step w e c')" .
  show ?thesis
    unfolding reduce_payment_def *(2) bind_res_simps find option.case
    using dp rec by (cases e) simp_all
qed

end
