(* ===== verification/Followup_Claims.thy ===== *)
theory Followup_Claims
  imports Followup_Payment_Laws
begin

text \<open>
  The claim key, which one payment in the world has for the whole system: what it names, that the
  key a piece of evidence gets is one the key validator accepts, and that evidence accepted for a
  subject always yields a settlement command.
\<close>

section \<open>Splitting a key\<close>

lemma takeWhile_no_colon: "CHR '':'' \<notin> set b \<Longrightarrow> takeWhile (\<lambda>c. c \<noteq> CHR '':'') (rev b @ CHR '':'' # xs) = rev b"
  by (induction b rule: rev_induct) auto

lemma dropWhile_no_colon:
  "CHR '':'' \<notin> set b \<Longrightarrow> dropWhile (\<lambda>c. c \<noteq> CHR '':'') (rev b @ CHR '':'' # xs) = CHR '':'' # xs"
  by (induction b rule: rev_induct) auto

lemma rsplit_colon_append: "CHR '':'' \<notin> set b \<Longrightarrow> rsplit_colon (a @ '':'' @ b) = Some (a, b)"
  using takeWhile_no_colon [of b "rev a"] dropWhile_no_colon [of b "rev a"] by (simp add: rsplit_colon_def)

lemma alnum_no_colon: "list_all is_alnum s \<Longrightarrow> CHR '':'' \<notin> set s"
  by (auto simp: list_all_iff char_class_defs ordc_def)

lemma stripe_id_no_colon:
  assumes "canonical_stripe_event_id s"
  shows "CHR '':'' \<notin> set s"
proof -
  have "take 4 s = ''evt_''" "list_all is_alnum (drop 4 s)"
    using assms by (simp_all add: canonical_stripe_event_id_def stripe_event_re_def)
  then have "CHR '':'' \<notin> set (take 4 s)" "CHR '':'' \<notin> set (drop 4 s)" by (simp_all add: alnum_no_colon)
  then show ?thesis by (metis Un_iff append_take_drop_id set_append)
qed

text \<open>The transaction a piece of evidence claims, as the parts its key is made of.\<close>

fun claimed_transaction :: "payment_evidence \<Rightarrow> string list" where
  "claimed_transaction (PixEvidence e) = [''pix'', px_e2e e]"
| "claimed_transaction (WiseEvidence e) = [''wise'', wi_transaction e]"
| "claimed_transaction (StripeEvidence e) = [''stripe'', st_account_id e, st_event_id e]"
| "claimed_transaction (VisualEvidence e) =
     (if vt_method e = PIX then [''pix'', vt_transaction_id e] else [''wise'', sha256_hex (vt_transaction_id e)])"

definition key_parts :: "string \<Rightarrow> string list" where
  "key_parts k =
     (if take 4 k = ''pix:'' then [''pix'', drop 4 k]
      else if take 5 k = ''wise:'' then [''wise'', drop 5 k]
      else case rsplit_colon (drop 7 k) of None \<Rightarrow> [] | Some (a, b) \<Rightarrow> [''stripe'', a, b])"

text \<open>The digest of a visually validated Wise transfer must also look random.\<close>

fun random_digest :: "payment_evidence \<Rightarrow> bool" where
  "random_digest (VisualEvidence e) = (vt_method e = WISE \<longrightarrow> high_entropy_digest (sha256_hex (vt_transaction_id e)))"
| "random_digest _ = True"

lemma revalidate_evidence_Inr: "revalidate_evidence e = Inr x \<Longrightarrow> x = e"
  by (auto simp: revalidate_evidence_def bind_res_Inr_iff split: if_splits)

lemma revalidate_trust_Inr: "revalidate_trust t = Inr x \<Longrightarrow> x = t"
  by (auto simp: revalidate_trust_def bind_res_Inr_iff split: if_splits)

lemma mk_verified_Inr: "mk_verified v = Inr x \<Longrightarrow> x = v"
  by (auto simp: mk_verified_def bind_res_Inr_iff)

lemma claim_key_cases:
  assumes "evidence_claim_key e = Inr k"
  shows "mk_evidence e = Inr e" "intrinsic_integrity e = Inr ()"
    "k = (case e of
            VisualEvidence e \<Rightarrow>
              if vt_method e = PIX then ''pix:'' @ vt_transaction_id e
              else ''wise:'' @ sha256_hex (vt_transaction_id e)
          | PixEvidence e \<Rightarrow> ''pix:'' @ px_e2e e
          | WiseEvidence e \<Rightarrow> ''wise:'' @ wi_transaction e
          | StripeEvidence e \<Rightarrow> ''stripe:'' @ st_account_id e @ '':'' @ st_event_id e)"
proof -
  obtain c where c: "revalidate_evidence e = Inr c" using assms by (auto simp: evidence_claim_key_def bind_res_Inr_iff)
  note e = revalidate_evidence_Inr [OF this]
  show "mk_evidence e = Inr e"
    using c by (cases "mk_evidence e") (simp_all add: revalidate_evidence_def split: if_split_asm)
  show "intrinsic_integrity e = Inr ()"
    using assms unfolding evidence_claim_key_def c bind_res_simps e by (simp add: bind_res_Inr_iff)
  show "k = (case e of
            VisualEvidence e \<Rightarrow>
              if vt_method e = PIX then ''pix:'' @ vt_transaction_id e
              else ''wise:'' @ sha256_hex (vt_transaction_id e)
          | PixEvidence e \<Rightarrow> ''pix:'' @ px_e2e e
          | WiseEvidence e \<Rightarrow> ''wise:'' @ wi_transaction e
          | StripeEvidence e \<Rightarrow> ''stripe:'' @ st_account_id e @ '':'' @ st_event_id e)"
    using assms unfolding evidence_claim_key_def c bind_res_simps e by (simp add: bind_res_Inr_iff)
qed

lemma visual_method_cases: "mk_visual e = Inr x \<Longrightarrow> vt_method e = PIX \<or> vt_method e = WISE"
  by (auto simp: mk_visual_def bind_res_Inr_iff)

lemma visual_pix_id: "mk_visual e = Inr x \<Longrightarrow> vt_method e = PIX
    \<Longrightarrow> length (vt_transaction_id e) = 32 \<and> list_all is_alnum (vt_transaction_id e)"
  by (auto simp: mk_visual_def bind_res_Inr_iff)

lemma claim_key_facts:
  assumes "evidence_claim_key e = Inr k"
  shows "key_parts k = claimed_transaction e"
    and "require_evidence_claim_key k = Inr k \<longleftrightarrow> random_digest e"
    and "take (length (method_value (evidence_method e)) + 1) k = method_value (evidence_method e) @ '':''"
proof -
  note m = claim_key_cases(1) [OF assms] and i = claim_key_cases(2) [OF assms] and key = claim_key_cases(3) [OF assms]
  have "key_parts k = claimed_transaction e \<and> (require_evidence_claim_key k = Inr k \<longleftrightarrow> random_digest e)
      \<and> take (length (method_value (evidence_method e)) + 1) k = method_value (evidence_method e) @ '':''"
  proof (cases e)
    case (PixEvidence x)
    then have k: "k = ''pix:'' @ px_e2e x" and c: "canonical_e2e (px_e2e x)"
      using key i by (simp_all add: bind_res_Inr_iff)
    show ?thesis using c PixEvidence by (simp add: k key_parts_def require_evidence_claim_key_def)
  next
    case (WiseEvidence x)
    then have k: "k = ''wise:'' @ wi_transaction x" and c: "high_entropy_digest (wi_transaction x)"
      using key i by (simp_all add: bind_res_Inr_iff)
    show ?thesis using c WiseEvidence by (simp add: k key_parts_def require_evidence_claim_key_def)
  next
    case (StripeEvidence x)
    then have k: "k = ''stripe:'' @ st_account_id x @ '':'' @ st_event_id x" and c: "canonical_stripe_event_id (st_event_id x)"
      using key i by (simp_all add: bind_res_Inr_iff)
    have a: "id_re (st_account_id x)" using m StripeEvidence by (auto simp: mk_stripe_def bind_res_Inr_iff)
    have "rsplit_colon (st_account_id x @ '':'' @ st_event_id x) = Some (st_account_id x, st_event_id x)"
      by (rule rsplit_colon_append [OF stripe_id_no_colon [OF c]])
    then show ?thesis using a c StripeEvidence
      by (simp add: k key_parts_def require_evidence_claim_key_def opaque_id_def)
  next
    case (VisualEvidence x)
    then have k: "k = (if vt_method x = PIX then ''pix:'' @ vt_transaction_id x else ''wise:'' @ sha256_hex (vt_transaction_id x))"
      using key by simp
    have v: "mk_visual x = Inr x" using m VisualEvidence by (auto simp: bind_res_Inr_iff)
    from visual_method_cases [OF v] show ?thesis
    proof
      assume "vt_method x = PIX"
      then show ?thesis using VisualEvidence visual_pix_id [OF v]
        by (simp add: k key_parts_def require_evidence_claim_key_def)
    next
      assume "vt_method x = WISE"
      then show ?thesis using VisualEvidence
        by (simp add: k key_parts_def require_evidence_claim_key_def reject_if_def)
    qed
  qed
  then show "key_parts k = claimed_transaction e" "require_evidence_claim_key k = Inr k \<longleftrightarrow> random_digest e"
    "take (length (method_value (evidence_method e)) + 1) k = method_value (evidence_method e) @ '':''" by blast+
qed

section \<open>The command of accepted evidence\<close>

lemma hex_prefix_id: "list_all id_char ps \<Longrightarrow> is_alnum p \<Longrightarrow> length ps \<le> 64 \<Longrightarrow> id_re ((p # ps) @ take 32 (sha256_hex r))"
  using id_re_prefix [of p ps "take 32 (sha256_hex r)"] by (simp add: list_all_take sha256_hex_chars)

lemma settlement_ids_ok: "id_re (fst (settlement_ids p v g))" "id_re (snd (settlement_ids p v g))"
proof -
  have "list_all id_char ''ettlement:''" "list_all id_char ''ayment-idem:''" "is_alnum (CHR ''s'')" "is_alnum (CHR ''p'')"
    by (simp_all add: char_class_defs ordc_def)
  from hex_prefix_id [OF this(1,3)] hex_prefix_id [OF this(2,4)]
  show "id_re (fst (settlement_ids p v g))" "id_re (snd (settlement_ids p v g))"
    by (simp_all add: settlement_ids_def stable_id_def del: id_re.simps)
qed

lemma validate_evidence_parts:
  assumes "validate_evidence s e t = Inr v"
  shows "wf_subject s" "evidence_claim_key e = Inr (ve_claim_key v)" "hash_re (ve_hash v)"
    "ve_method v = evidence_method e" "ps_method s = Some (ve_method v)" "ve_evidence v = e"
    "ve_payment_id v = ps_payment_id s" "ve_version v = ps_version s" "ve_signature v = ps_signature s"
    "mk_trust t = Inr t"
proof -
  obtain x u t' where a: "revalidate_subject s = Inr x" "revalidate_evidence e = Inr u" "revalidate_trust t = Inr t'"
    using assms by (auto simp: validate_evidence_def bind_res_Inr_iff)
  have x: "x = s" "wf_subject s" and u: "u = e" and t': "t' = t"
    using a revalidate_subject_Inr revalidate_evidence_Inr revalidate_trust_Inr by blast+
  show "wf_subject s" by (rule x)
  show "mk_trust t = Inr t" using a(3) by (cases "mk_trust t") (simp_all add: revalidate_trust_def split: if_split_asm)
  obtain m where m: "ps_method s = Some m"
    using assms unfolding validate_evidence_def a bind_res_simps x u t' by (cases "ps_method s") simp_all
  obtain h k where k: "evidence_claim_key e = Inr k"
    and v: "mk_verified \<lparr>ve_payment_id = ps_payment_id s, ve_version = ps_version s,
           ve_signature = ps_signature s, ve_method = m, ve_claim_key = k, ve_hash = h, ve_evidence = e\<rparr> = Inr v"
    using assms unfolding validate_evidence_def a bind_res_simps x u t' m option.case bind_res_Inr_iff by blast
  note w = mk_verified_Inr [OF v]
  show "evidence_claim_key e = Inr (ve_claim_key v)" "ps_method s = Some (ve_method v)" "ve_evidence v = e"
    "ve_payment_id v = ps_payment_id s" "ve_version v = ps_version s" "ve_signature v = ps_signature s"
    using w k m by simp_all
  show "hash_re (ve_hash v)" "ve_method v = evidence_method e"
    using v w unfolding mk_verified_def by (auto simp: bind_res_Inr_iff)
qed

lemma unit_of_value [simp]: "unit_of (unit_value u) = Some u"
  by (cases u) (simp_all add: unit_of_def)

lemma method_of_value [simp]: "method_of (method_value m) = Some m"
  by (cases m) (simp_all add: method_of_def)

lemma payload_checked:
  assumes s: "wf_subject s" and v: "require_evidence_claim_key (ve_claim_key v) = Inr (ve_claim_key v)"
    and h: "hash_re (ve_hash v)"
    and p: "take (length (method_value (ve_method v)) + 1) (ve_claim_key v) = method_value (ve_method v) @ '':''"
    and c: "sc_payment_id c = ps_payment_id s" "sc_version c = ps_version s" "sc_signature c = ps_signature s"
      "sc_claim_key c = ve_claim_key v" "sc_operation c = REGISTER_AND_CONFIRM"
      "sc_payload c = dumps (JObj (settlement_payload s v))"
  shows "check_settlement_payload c (settlement_payload s v) = Inr ()"
proof -
  note f = mk_subject_Inr [OF s [unfolded wf_subject_def, THEN conjunct2]]
  have int: "json_int (settlement_payload s v) ''schema_version'' = Some 1"
    "json_int (settlement_payload s v) ''payment_version'' = Some (ps_version s)"
    "json_int (settlement_payload s v) ''amount_minor'' = Some (ps_amount_minor s)"
    by (simp_all add: json_int_def settlement_payload_def)
  have str: "json_text (settlement_payload s v) ''business_unit'' = Some (unit_value (ps_unit s))"
    "json_text (settlement_payload s v) ''currency'' = Some (ps_currency s)"
    "json_text (settlement_payload s v) ''economic_signature'' = Some (ps_signature s)"
    "json_text (settlement_payload s v) ''evidence_claim_key'' = Some (ve_claim_key v)"
    "json_text (settlement_payload s v) ''evidence_hash'' = Some (ve_hash v)"
    "json_text (settlement_payload s v) ''method'' = Some (method_value (ve_method v))"
    "json_text (settlement_payload s v) ''operation'' = Some ''register_and_confirm''"
    "json_text (settlement_payload s v) ''payment_id'' = Some (ps_payment_id s)"
    "json_text (settlement_payload s v) ''payment_target_id'' = Some (ps_target_id s)"
    "json_text (settlement_payload s v) ''receiver_profile_id'' = Some (ps_receiver_id s)"
    by (simp_all add: json_text_def settlement_payload_def)
  have keys: "set (map fst (settlement_payload s v)) = set settlement_payload_keys"
    by (simp add: settlement_payload_def settlement_payload_keys_def)
  show ?thesis
    unfolding check_settlement_payload_def Let_def int str keys c
    using f(2-9) v h p
    by (simp add: str opaque_id_def digest_hash_def upper_currency_def economic_signature_def canonical_digest_def)
qed

lemma settlement_command_total:
  assumes "validate_evidence s e t = Inr v" "random_digest e"
  shows "\<exists>k. settlement_command_for s v = Inr k \<and> sc_claim_key k = ve_claim_key v
    \<and> sc_payment_id k = ps_payment_id s \<and> sc_version k = ps_version s \<and> sc_signature k = ps_signature s
    \<and> sc_id k = fst (settlement_ids (ps_payment_id s) (ps_version s) (ps_signature s))
    \<and> sc_idempotency_key k = snd (settlement_ids (ps_payment_id s) (ps_version s) (ps_signature s))"
proof -
  note f = validate_evidence_parts [OF assms(1)]
  note g = claim_key_facts [OF f(2)]
  note q = mk_subject_Inr [OF f(1) [unfolded wf_subject_def, THEN conjunct2]]
  let ?k = "\<lparr>sc_id = fst (settlement_ids (ps_payment_id s) (ps_version s) (ps_signature s)),
      sc_payment_id = ps_payment_id s, sc_version = ps_version s,
      sc_signature = ps_signature s, sc_claim_key = ve_claim_key v, sc_operation = REGISTER_AND_CONFIRM,
      sc_idempotency_key = snd (settlement_ids (ps_payment_id s) (ps_version s) (ps_signature s)),
      sc_payload = dumps (JObj (settlement_payload s v))\<rparr>"
  have key: "require_evidence_claim_key (ve_claim_key v) = Inr (ve_claim_key v)" using g(2) assms(2) by simp
  have "check_settlement_payload ?k (settlement_payload s v) = Inr ()"
    by (rule payload_checked [OF f(1) key f(3)]) (use g(3) f(4) in simp_all)
  then have "mk_settlement_command ?k (settlement_payload s v) = Inr ?k"
    unfolding mk_settlement_command_def case_prod_beta Let_def
    using settlement_ids_ok q(2,5,8) key by (simp add: opaque_id_def digest_hash_def positive_int_def del: id_re.simps)
  then have "settlement_command_for s v = Inr ?k" by (simp add: settlement_command_for_def Let_def case_prod_beta)
  then show ?thesis by simp
qed

end
