(* ===== verification/Followup_Sample.thy ===== *)
theory Followup_Sample
  imports Followup_Claims
begin

text \<open>
  A concrete payment for the witnesses: a confirmed reservation, its payment, the customer's choice
  of Pix, a Pix proof with its seal, and the payment's whole life up to the settlement.
\<close>

section \<open>A sample payment\<close>

definition sample_paid_outcome :: execution_outcome where
  "sample_paid_outcome = \<lparr>eo_command_id = ''command:1'', eo_certainty = EFFECT_CONFIRMED,
     eo_normalized_status = ''booked'', eo_provider_reference = Some ''booking:77'',
     eo_evidence = [sha256_hex ''receipt'']\<rparr>"

definition sample_anchor :: confirmed_anchor where
  "sample_anchor = \<lparr>an_workflow_id = ''wf:1'', an_command_id = ''command:1'',
     an_subject_signature = sha256_hex ''subject'', an_outcome_hash = outcome_hash sample_paid_outcome,
     an_outcome = sample_paid_outcome, an_provider_reference = ''booking:77'', an_service = LODGING,
     an_unit = HOSTEL, an_target_id = ''target:1'', an_amount_minor = 10000, an_currency = ''BRL'',
     an_receiver_id = ''receiver:1'', an_confirmed_at = 1000, an_deadline = Some 9000\<rparr>"

definition sample_pid :: string where
  "sample_pid = stable_id ''payment'' [JStr ''wf:1'', JStr ''target:1'']"

definition sample_subject :: payment_subject where
  "sample_subject = \<lparr>ps_payment_id = sample_pid, ps_version = 1, ps_anchor = sample_anchor,
     ps_amount_minor = 10000, ps_currency = ''BRL'', ps_receiver_id = ''receiver:1'', ps_unit = HOSTEL,
     ps_target_id = ''target:1'', ps_method = None,
     ps_signature = economic_signature 10000 ''BRL'' ''receiver:1'' HOSTEL ''target:1''\<rparr>"

definition sample_payment_policy :: payment_policy where
  "sample_payment_policy = \<lparr>pp_paid_transition = EFFECT_REQUIRED, pp_customer_confirmation = EFFECT_REQUIRED,
     pp_internal_email = EFFECT_DISABLED, pp_booking_form = EFFECT_OPTIONAL\<rparr>"

definition sample_payment :: payment_workflow where
  "sample_payment = \<lparr>pw_core = initial_core sample_subject, pw_policy = sample_payment_policy, pw_history = []\<rparr>"

definition sample_choice :: method_selected where
  "sample_choice = \<lparr>ms_event_id = ''event:1'', ms_payment_id = sample_pid, ms_method = PIX, ms_selected_at = 2000\<rparr>"

lemma sample_pid_id [simp]: "id_re sample_pid"
proof -
  have "list_all id_char ''ayment:''" "is_alnum (CHR ''p'')" by (simp_all add: char_class_defs ordc_def)
  from hex_prefix_id [OF this] show ?thesis by (simp add: sample_pid_def stable_id_def del: id_re.simps)
qed

lemma sample_payment_ids: "id_re ''wf:1''" "id_re ''command:1''" "id_re ''booking:77''" "id_re ''target:1''"
    "id_re ''receiver:1''" "id_re sample_pid" "id_re ''event:1''" "id_re ''booked''" "currency_re ''BRL''"
  using sample_pid_id by (simp_all add: char_class_defs ordc_def currency_re_def)

lemma sample_anchor_wf: "wf_anchor sample_anchor"
  using sample_payment_ids
  by (simp add: wf_anchor_def mk_anchor_def Let_def sample_anchor_def sample_paid_outcome_def canonical_hash_def positive_int_def
      canonical_currency_def outcome_hash_def del: id_re.simps)

lemma sample_subject_wf: "wf_subject sample_subject"
  using sample_payment_ids sample_anchor_wf
  by (simp add: wf_subject_def mk_subject_def Let_def sample_subject_def sample_anchor_def matches_anchor_def canonical_hash_def
      positive_int_def canonical_currency_def economic_signature_def del: id_re.simps)

lemma sample_paid_outcome_built:
  "mk_execution_outcome (eo_command_id sample_paid_outcome) (eo_certainty sample_paid_outcome)
     (eo_normalized_status sample_paid_outcome) (eo_provider_reference sample_paid_outcome) (eo_evidence sample_paid_outcome)
   = Inr sample_paid_outcome"
  using sample_payment_ids
  by (simp add: mk_execution_outcome_def Let_def sample_paid_outcome_def optional_id_def del: id_re.simps)
     (simp add: lower_def lower_char_def char_class_defs ordc_def)

lemma sample_subject_built: "subject_from_anchor sample_anchor sample_pid None same_economics None = Inr sample_subject"
proof -
  have "mk_anchor (sample_anchor\<lparr>an_outcome := sample_paid_outcome\<rparr>) = Inr sample_anchor"
    using sample_anchor_wf by (simp add: wf_anchor_def sample_anchor_def)
  moreover have "mk_subject sample_subject = Inr sample_subject" using sample_subject_wf by (simp add: wf_subject_def)
  ultimately show ?thesis
    using sample_paid_outcome_built sample_payment_ids
    by (simp add: subject_from_anchor_def Let_def sample_anchor_def same_economics_def or_else_def positive_int_def
        canonical_currency_def sample_subject_def del: id_re.simps)
qed

lemma sample_payment_wf: "wf_payment sample_payment"
  unfolding wf_payment_def
proof (rule replayed_workflow)
  show "replay_payment_history (pc_subject (pw_core sample_payment)) (pw_history sample_payment) = Inr (pw_core sample_payment)"
    using sample_subject_built
    by (simp add: replay_payment_history_def sample_payment_def initial_core_def) (simp add: sample_subject_def)
qed (use sample_subject_wf in \<open>simp_all add: sample_payment_def initial_core_def check_history_def mk_payment_policy_def
      sample_payment_policy_def\<close>)

lemma sample_choice_wf: "mk_payment_event (PaymentMethodSelected sample_choice) = Inr ()"
  using sample_payment_ids by (simp add: mk_method_selected_def sample_choice_def opaque_id_def del: id_re.simps)

lemma sample_choice_replayed:
  "replay_event (pw_core sample_payment) (PaymentMethodSelected sample_choice)
     = Inr (reset_core (sample_subject\<lparr>ps_method := Some PIX\<rparr>) None (initial_core sample_subject))"
  using sample_choice_wf subject_method [OF sample_subject_wf]
  by (simp add: replay_event_def replay_method_def sample_payment_def initial_core_def sample_choice_def)
     (simp add: sample_subject_def sample_anchor_def)

section \<open>A Pix proof\<close>

definition sample_pix :: pix_evidence where
  "sample_pix = (let e = \<lparr>px_amount_minor = 10000, px_currency = ''BRL'', px_receiver_id = ''receiver:1'',
     px_status = PIX_PAID, px_e2e = ''E1234567820240115ABC12DEF34G'', px_observed_at = 3500,
     px_extractor_id = ''extractor:1'', px_extractor_version = ''1.0'', px_hash = []\<rparr>
     in e\<lparr>px_hash := pix_hash e\<rparr>)"

definition sample_trust :: evidence_trust where
  "sample_trust = \<lparr>et_pix_receiver_id = ''receiver:1'', et_wise_signer_id = ''signer:1'',
     et_wise_account_id = ''account:1'', et_stripe_account_id = ''account:2''\<rparr>"

definition pix_subject :: payment_subject where
  "pix_subject = sample_subject\<lparr>ps_method := Some PIX\<rparr>"

definition sample_verified :: verified_evidence where
  "sample_verified = \<lparr>ve_payment_id = sample_pid, ve_version = 1, ve_signature = ps_signature sample_subject,
     ve_method = PIX, ve_claim_key = ''pix:E1234567820240115ABC12DEF34G'', ve_hash = pix_hash sample_pix,
     ve_evidence = PixEvidence sample_pix\<rparr>"

lemma pix_hash_unsealed [simp]: "pix_hash (e\<lparr>px_hash := h\<rparr>) = pix_hash e"
  by (simp add: pix_hash_def)

lemma sample_e2e: "canonical_e2e ''E1234567820240115ABC12DEF34G''"
  by code_simp

lemma sample_pix_fields [simp]:
  "px_amount_minor sample_pix = 10000" "px_currency sample_pix = ''BRL''" "px_receiver_id sample_pix = ''receiver:1''"
  "px_status sample_pix = PIX_PAID" "px_e2e sample_pix = ''E1234567820240115ABC12DEF34G''"
  "px_observed_at sample_pix = 3500" "px_extractor_id sample_pix = ''extractor:1''"
  "px_extractor_version sample_pix = ''1.0''" "px_hash sample_pix = pix_hash sample_pix"
  by (simp_all add: sample_pix_def Let_def) (simp add: pix_hash_def)

lemma sample_profile_ids: "id_re ''receiver:1''" "id_re ''extractor:1''" "id_re ''1.0''" "id_re ''signer:1''"
    "id_re ''account:1''" "id_re ''account:2''" "currency_re ''BRL''"
  by (simp_all add: char_class_defs ordc_def currency_re_def)

lemma sample_pix_built: "mk_evidence (PixEvidence sample_pix) = Inr (PixEvidence sample_pix)"
  using sample_profile_ids sample_e2e
  by (simp add: mk_pix_def opaque_id_def upper_currency_def positive_int_def digest_hash_def pix_hash_def
      canonical_digest_def del: id_re.simps)

lemma sample_trust_built: "mk_trust sample_trust = Inr sample_trust"
  using sample_profile_ids by (simp add: mk_trust_def sample_trust_def opaque_id_def del: id_re.simps)

lemma sample_key: "evidence_claim_key (PixEvidence sample_pix) = Inr ''pix:E1234567820240115ABC12DEF34G''"
  using sample_pix_built sample_e2e by (simp add: evidence_claim_key_def revalidate_evidence_def)

lemma pix_subject_wf: "wf_subject pix_subject"
  using wf_subject_method [OF sample_subject_wf] by (simp add: pix_subject_def)

lemma sample_verified_built:
  "validate_evidence pix_subject (PixEvidence sample_pix) sample_trust = Inr sample_verified"
proof -
  have "revalidate_subject pix_subject = Inr pix_subject" using pix_subject_wf by (simp add: revalidate_subject_Inr)
  moreover have "revalidate_evidence (PixEvidence sample_pix) = Inr (PixEvidence sample_pix)"
    using sample_pix_built by (simp add: revalidate_evidence_def del: mk_evidence.simps)
  moreover have "revalidate_trust sample_trust = Inr sample_trust"
    using sample_trust_built by (simp add: revalidate_trust_def)
  moreover have "validate_pix pix_subject sample_pix sample_trust = Inr (pix_hash sample_pix)"
    using sample_e2e
    by (simp add: validate_pix_def validate_window_def Let_def pix_subject_def sample_subject_def sample_anchor_def sample_trust_def)
  moreover have "mk_verified sample_verified = Inr sample_verified"
    using sample_payment_ids sample_key
    by (simp add: mk_verified_def sample_verified_def opaque_id_def positive_int_def digest_hash_def pix_hash_def
        canonical_digest_def sample_subject_def economic_signature_def del: id_re.simps)
  ultimately show ?thesis
    using sample_key by (simp add: validate_evidence_def) (simp add: pix_subject_def sample_subject_def sample_verified_def)
qed

section \<open>A paid payment\<close>

definition sample_summary :: financial_summary where
  "sample_summary = \<lparr>fs_event_id = ''event:2'', fs_subject = pix_subject,
     fs_hash = projr (financial_summary_hash pix_subject), fs_recorded_at = 3000\<rparr>"

definition sample_confirmation :: financial_confirmation where
  "sample_confirmation = \<lparr>fc_event_id = ''event:3'', fc_payment_id = sample_pid, fc_version = 1,
     fc_signature = ps_signature sample_subject, fc_summary_hash = fs_hash sample_summary,
     fc_confirmation_id = ''confirmation:1'', fc_confirmed_at = 4000\<rparr>"

definition sample_record :: evidence_recorded where
  "sample_record = \<lparr>er_event_id = ''event:4'', er_payment_id = sample_pid, er_version = 1,
     er_signature = ps_signature sample_subject, er_evidence = PixEvidence sample_pix, er_trust = sample_trust,
     er_recorded_at = 5000\<rparr>"

definition sample_settlement_ids :: "string \<times> string" where
  "sample_settlement_ids = settlement_ids sample_pid 1 (ps_signature sample_subject)"

definition sample_start :: settlement_started where
  "sample_start = \<lparr>ss_event_id = ''event:5'', ss_payment_id = sample_pid, ss_version = 1,
     ss_signature = ps_signature sample_subject, ss_command_id = fst sample_settlement_ids,
     ss_idempotency_key = snd sample_settlement_ids, ss_started_at = 6000\<rparr>"

definition sample_settled :: settlement_outcome where
  "sample_settled = \<lparr>so_certainty = SETTLED, so_payment_registered = True, so_target_confirmed = True,
     so_provider_reference = Some (sha256_hex ''provider''), so_requires_reconciliation = False,
     so_claim_evidence = [sha256_hex ''claim'']\<rparr>"

definition sample_finish :: settlement_finished where
  "sample_finish = \<lparr>sf_event_id = ''event:6'', sf_payment_id = sample_pid, sf_version = 1,
     sf_signature = ps_signature sample_subject, sf_command_id = fst sample_settlement_ids,
     sf_outcome = sample_settled, sf_finished_at = 7000\<rparr>"

definition sample_history :: "payment_event list" where
  "sample_history = [PaymentMethodSelected sample_choice, FinancialSummaryRecorded sample_summary,
     FinancialConfirmationReceived sample_confirmation, PaymentEvidenceRecorded sample_record,
     SettlementStarted sample_start, SettlementFinished sample_finish]"

lemma sample_event_ids: "id_re ''event:2''" "id_re ''event:3''" "id_re ''event:4''" "id_re ''event:5''"
    "id_re ''event:6''" "id_re ''confirmation:1''"
  by (simp_all add: char_class_defs ordc_def)

lemma sample_subject_fields [simp]: "ps_payment_id sample_subject = sample_pid" "ps_version sample_subject = 1"
    "ps_anchor sample_subject = sample_anchor" "an_confirmed_at sample_anchor = 1000" "ps_method sample_subject = None"
    "an_deadline sample_anchor = Some 9000" "hash_re (ps_signature sample_subject)"
  by (simp_all add: sample_subject_def sample_anchor_def economic_signature_def)

lemma sample_summary_built: "mk_financial_summary sample_summary = Inr ()"
  using pix_subject_wf sample_event_ids
  by (simp add: mk_financial_summary_def sample_summary_def opaque_id_def digest_hash_def financial_summary_hash_def
      revalidate_subject_Inr [THEN iffD2] pix_subject_def canonical_digest_def del: id_re.simps)

lemma sample_outcome_built: "mk_settlement_outcome sample_settled = Inr sample_settled"
  by (simp add: mk_settlement_outcome_def sample_settled_def digest_hash_def outcome_shape_def)

lemma sample_events_built:
  "mk_financial_confirmation sample_confirmation = Inr ()" "mk_evidence_recorded sample_record = Inr ()"
  "mk_settlement_started sample_start = Inr ()" "mk_settlement_finished sample_finish = Inr ()"
proof -
  have "hash_re (fs_hash sample_summary)"
    using sample_summary_built by (auto simp: mk_financial_summary_def bind_res_Inr_iff)
  then show "mk_financial_confirmation sample_confirmation = Inr ()"
    using sample_event_ids sample_payment_ids
    by (simp add: mk_financial_confirmation_def sample_confirmation_def opaque_id_def digest_hash_def positive_int_def
        del: id_re.simps)
  show "mk_evidence_recorded sample_record = Inr ()"
    using sample_event_ids sample_payment_ids sample_pix_built sample_trust_built
    by (simp add: mk_evidence_recorded_def sample_record_def opaque_id_def digest_hash_def positive_int_def
        revalidate_evidence_def revalidate_trust_def del: id_re.simps mk_evidence.simps)
  show "mk_settlement_started sample_start = Inr ()" "mk_settlement_finished sample_finish = Inr ()"
    using sample_event_ids sample_payment_ids sample_outcome_built settlement_ids_ok
    by (simp_all add: mk_settlement_started_def mk_settlement_finished_def sample_start_def sample_finish_def
        sample_settlement_ids_def opaque_id_def digest_hash_def positive_int_def del: id_re.simps)
qed

lemma sample_command:
  obtains k where "settlement_command_for pix_subject sample_verified = Inr k" "sc_id k = fst sample_settlement_ids"
    "sc_idempotency_key k = snd sample_settlement_ids"
proof -
  have "ps_payment_id pix_subject = sample_pid" "ps_version pix_subject = 1"
    "ps_signature pix_subject = ps_signature sample_subject" by (simp_all add: pix_subject_def)
  then show thesis
    using settlement_command_total [OF sample_verified_built] that
    by (auto simp: sample_settlement_ids_def)
qed

text \<open>The cores the payment goes through.\<close>

definition chosen_core :: payment_core where
  "chosen_core = reset_core pix_subject None (initial_core sample_subject)"

definition summarised_core :: payment_core where
  "summarised_core = reset_core pix_subject (Some sample_summary) chosen_core"

definition agreed_core :: payment_core where
  "agreed_core = summarised_core\<lparr>pc_status := PAY_AWAITING_EVIDENCE, pc_confirmation := Some sample_confirmation\<rparr>"

definition queued_core :: "settlement_command \<Rightarrow> payment_core" where
  "queued_core k = agreed_core\<lparr>pc_status := PAY_SETTLEMENT_QUEUED, pc_record := Some sample_record,
     pc_verified := Some sample_verified, pc_command := Some k\<rparr>"

lemmas sample_core_defs = chosen_core_def summarised_core_def agreed_core_def queued_core_def reset_core_def

lemma pix_subject_fields [simp]: "ps_anchor pix_subject = sample_anchor" "ps_payment_id pix_subject = sample_pid"
    "ps_version pix_subject = 1" "ps_method pix_subject = Some PIX" "ps_signature pix_subject = ps_signature sample_subject"
  by (simp_all add: pix_subject_def)

lemma chosen_replayed:
  "replay_event (initial_core sample_subject) (PaymentMethodSelected sample_choice) = Inr chosen_core"
proof -
  have "mk_subject (sample_subject\<lparr>ps_method := Some PIX\<rparr>) = Inr pix_subject"
    using subject_method [OF sample_subject_wf] by (simp add: pix_subject_def)
  moreover have "ms_payment_id sample_choice = sample_pid" "ms_method sample_choice = PIX" "ms_selected_at sample_choice = 2000"
    by (simp_all add: sample_choice_def)
  ultimately show ?thesis
    using sample_choice_wf by (simp add: replay_event_def replay_method_def initial_core_def chosen_core_def)
qed

lemma summarised_replayed:
  "replay_event chosen_core (FinancialSummaryRecorded sample_summary) = Inr summarised_core"
proof -
  have "revalidate_subject pix_subject = Inr pix_subject" using pix_subject_wf by (simp add: revalidate_subject_Inr)
  then show ?thesis
    using sample_summary_built
    by (simp add: replay_event_def replay_summary_def sample_core_defs sample_summary_def)
qed

lemma agreed_replayed:
  "replay_event summarised_core (FinancialConfirmationReceived sample_confirmation) = Inr agreed_core"
  using sample_events_built
  by (simp add: replay_event_def replay_confirmation_def sample_core_defs sample_confirmation_def version_binding_def)
     (simp add: sample_summary_def)

lemma queued_replayed:
  assumes "settlement_command_for pix_subject sample_verified = Inr k"
  shows "replay_event agreed_core (PaymentEvidenceRecorded sample_record) = Inr (queued_core k)"
  using sample_events_built sample_verified_built assms
  by (simp add: replay_event_def replay_evidence_def sample_core_defs sample_record_def version_binding_def)
     (simp add: sample_confirmation_def)

lemma sample_replayed:
  "\<exists>c. replay_events (initial_core sample_subject) sample_history = Inr c \<and> pc_status c = PAY_PAID
     \<and> pc_subject c = pix_subject \<and> pc_record c = Some sample_record"
proof -
  obtain k where k: "settlement_command_for pix_subject sample_verified = Inr k" "sc_id k = fst sample_settlement_ids"
    "sc_idempotency_key k = snd sample_settlement_ids" by (rule sample_command)
  let ?c4 = "queued_core k"
  have 5: "replay_event ?c4 (SettlementStarted sample_start)
      = Inr (?c4\<lparr>pc_status := PAY_SETTLING, pc_start := Some sample_start\<rparr>)" (is "_ = Inr ?c5")
    using sample_events_built k
    by (simp add: replay_event_def replay_start_def sample_core_defs sample_start_def version_binding_def)
       (simp add: sample_record_def)
  have 6: "replay_event ?c5 (SettlementFinished sample_finish)
      = Inr (?c5\<lparr>pc_status := PAY_PAID, pc_finish := Some sample_finish\<rparr>)"
    using sample_events_built k sample_outcome_built
    by (simp add: replay_event_def replay_finish_def sample_core_defs sample_finish_def version_binding_def boundary_time_def
        project_settlement_outcome_def)
       (simp add: sample_start_def sample_settled_def)
  show ?thesis
    unfolding sample_history_def replay_events.simps chosen_replayed summarised_replayed agreed_replayed queued_replayed [OF k(1)] 5 6
      bind_res_simps
    by (simp add: sample_core_defs)
qed

lemma sample_paid:
  "\<exists>w. wf_payment w \<and> pc_status (pw_core w) = PAY_PAID \<and> pc_record (pw_core w) = Some sample_record"
proof -
  obtain c where c: "replay_events (initial_core sample_subject) sample_history = Inr c" "pc_status c = PAY_PAID"
    "pc_subject c = pix_subject" "pc_record c = Some sample_record" using sample_replayed by blast
  let ?w = "\<lparr>pw_core = c, pw_policy = sample_payment_policy, pw_history = sample_history\<rparr>"
  have "wf_payment ?w"
    unfolding wf_payment_def
  proof (rule replayed_workflow)
    show "replay_payment_history (pc_subject (pw_core ?w)) (pw_history ?w) = Inr (pw_core ?w)"
      using sample_subject_built c by (simp add: replay_payment_history_def)
    show "check_history (pw_history ?w) = Inr ()"
      by (simp add: check_history_def sample_history_def sample_choice_def sample_summary_def sample_confirmation_def
          sample_record_def sample_start_def sample_finish_def)
  qed (use pix_subject_wf c in \<open>simp_all add: mk_payment_policy_def sample_payment_policy_def\<close>)
  with c show ?thesis by (intro exI [of _ ?w]) simp
qed

end
