(* ===== verification/Followup_Payment_Safety.thy ===== *)
theory Followup_Payment_Safety
  imports Followup_Sample
begin

text \<open>
  The properties of the payment workflow: it is its own history, its reducer applies what the replay
  accepts, it commands at most one settlement, it is paid only behind a fence and for evidence of its
  own economics, and the claim key of its evidence can be read back.
\<close>

section \<open>The workflow and its history\<close>

text \<open>
  C19: The constructor of a payment workflow, with its forty checks, accepts exactly the states that
  the replay of their history yields for a canonical subject and policy, where the history has no
  event id twice and is in chronological order.
\<close>

theorem payment_workflow_is_its_history:
  "mk_payment_workflow w = Inr w \<longleftrightarrow>
     wf_subject (pc_subject (pw_core w)) \<and> mk_payment_policy (pw_policy w) = Inr (pw_policy w)
     \<and> distinct (map payment_event_id (pw_history w)) \<and> sorted (map payment_event_time (pw_history w))
     \<and> replay_payment_history (pc_subject (pw_core w)) (pw_history w) = Inr (pw_core w)"
proof -
  have "check_history es = Inr () \<longleftrightarrow> distinct (map payment_event_id es) \<and> sorted (map payment_event_time es)" for es
    by (auto simp: check_history_def bind_res_Inr_iff)
  then show ?thesis using mk_payment_workflow_Inr [of w w] replayed_workflow [of w] by blast
qed

interpretation payment: event_sourced reduce_payment pt_next wf_payment "\<lambda>e. mk_payment_event e = Inr ()"
proof unfold_locales
  fix w e t
  assume w: "wf_payment w" and e: "mk_payment_event e = Inr ()" and r: "reduce_payment w e = Inr t"
  from reduce_payment_cases [OF this] consider "pt_next t = w"
    | c' where "replay_event (pw_core w) e = Inr c'" "in_order w e" "t = applied_step w e c'" by blast
  then show "wf_payment (pt_next t)"
  proof cases
    case 2
    have "applied w e (applied_reason e) (applied_commands e c') c' = Inr t"
      using applied_iff [OF w 2(1)] 2(2,3) by (simp add: in_order_def applied_step_def)
    then obtain v where "mk_payment_workflow (extended w e c') = Inr v" "pt_next t = v"
      by (auto simp: applied_def extended_def bind_res_Inr_iff)
    then show ?thesis using mk_payment_workflow_Inr(1) by (fastforce simp: wf_payment_def)
  qed (use w in simp)
qed

section \<open>The reducer and the replay\<close>

text \<open>
  C13: The reducer and the replay, which the source writes twice, agree: for a valid workflow and
  event the reducer applies the event exactly when the replay accepts it, its id is new and it is
  not earlier than the history; the next state is the replayed core with the event appended, and
  an event that is not applied changes nothing and asks for nothing.
\<close>

theorem reducer_agrees_with_replay:
  assumes "wf_payment w" "mk_payment_event e = Inr ()"
  shows "(reduce_payment w e = Inr t \<and> pt_result t = PT_APPLIED
      \<longleftrightarrow> (\<exists>c. replay_event (pw_core w) e = Inr c \<and> in_order w e \<and> t = applied_step w e c))
    \<and> (reduce_payment w e = Inr t \<and> pt_result t \<noteq> PT_APPLIED
      \<longrightarrow> pt_next t = w \<and> pt_events t = [] \<and> pt_commands t = [])"
proof -
  have "reduce_payment w e = Inr t \<Longrightarrow> pt_result t = PT_APPLIED \<Longrightarrow>
      \<exists>c. replay_event (pw_core w) e = Inr c \<and> in_order w e \<and> t = applied_step w e c"
    using reduce_payment_cases [OF assms] by fastforce
  moreover have "reduce_payment w e = Inr t" "pt_result t = PT_APPLIED"
    if "replay_event (pw_core w) e = Inr c" "in_order w e" "t = applied_step w e c" for c
    using replay_is_applied [OF assms(1) that(1,2)] that(3) by (simp_all add: applied_step_def)
  moreover have "reduce_payment w e = Inr t \<Longrightarrow> pt_result t \<noteq> PT_APPLIED \<Longrightarrow>
      pt_next t = w \<and> pt_events t = [] \<and> pt_commands t = []"
    using reduce_payment_cases [OF assms] by (fastforce simp: applied_step_def)
  ultimately show ?thesis by blast
qed

theorem reducer_agrees_with_replay_witness:
  "\<exists>t. reduce_payment sample_payment (PaymentMethodSelected sample_choice) = Inr t
     \<and> pt_reason t = METHOD_SELECTED \<and> ps_method (pc_subject (pw_core (pt_next t))) = Some PIX"
proof -
  let ?c = "reset_core (sample_subject\<lparr>ps_method := Some PIX\<rparr>) None (initial_core sample_subject)"
  have "in_order sample_payment (PaymentMethodSelected sample_choice)" by (simp add: in_order_def sample_payment_def)
  then have "reduce_payment sample_payment (PaymentMethodSelected sample_choice)
      = Inr (applied_step sample_payment (PaymentMethodSelected sample_choice) ?c)"
    using reducer_agrees_with_replay [OF sample_payment_wf sample_choice_wf] sample_choice_replayed by blast
  then show ?thesis by (simp add: applied_step_def extended_def reset_core_def)
qed

section \<open>One settlement command\<close>

definition command_budget :: "payment_workflow \<Rightarrow> nat" where
  "command_budget w = (if pc_command (pw_core w) = None then 1 else 0)"

lemma replay_event_command:
  assumes "core_ok c es" "replay_event c e = Inr c'"
  shows "length (applied_commands e c') + (if pc_command c' = None then 1 else 0) \<le> (if pc_command c = None then 1 else (0::nat))"
proof (cases e)
  case (PaymentMethodSelected x)
  then have "pc_status c \<in> {PAY_AWAITING_METHOD, PAY_AWAITING_FINANCIAL_CONFIRMATION, PAY_AWAITING_EVIDENCE}"
    using assms(2) by (cases "pc_status c") (auto simp: replay_event_def bind_res_Inr_iff)
  then show ?thesis using early_core(3) [OF assms(1)] PaymentMethodSelected by (simp add: applied_commands_def)
next
  case (FinancialSummaryRecorded x)
  then have "pc_status c \<in> {PAY_AWAITING_METHOD, PAY_AWAITING_FINANCIAL_CONFIRMATION, PAY_AWAITING_EVIDENCE}"
    using assms(2) by (cases "pc_status c") (auto simp: replay_event_def bind_res_Inr_iff)
  then show ?thesis using early_core(3) [OF assms(1)] FinancialSummaryRecorded by (simp add: applied_commands_def)
next
  case (PaymentEvidenceRecorded x)
  then have "pc_status c \<in> {PAY_AWAITING_METHOD, PAY_AWAITING_FINANCIAL_CONFIRMATION, PAY_AWAITING_EVIDENCE}"
    using assms(2) by (cases "pc_status c") (auto simp: replay_event_def bind_res_Inr_iff)
  then show ?thesis
    using early_core(3) [OF assms(1)] PaymentEvidenceRecorded assms(2)
    by (auto simp: applied_commands_def replay_event_def replay_evidence_def bind_res_Inr_iff)
qed (use assms(2) in \<open>auto simp: applied_commands_def replay_event_def replay_confirmation_def replay_start_def
    replay_finish_def replay_expired_def replay_cancelled_def bind_res_Inr_iff split: option.splits\<close>)

lemma reduce_payment_budget:
  assumes "wf_payment w" "mk_payment_event e = Inr ()" "reduce_payment w e = Inr t"
  shows "length (pt_commands t) + command_budget (pt_next t) \<le> command_budget w"
  using reduce_payment_cases [OF assms] replay_event_command [OF wf_payment_core [OF assms(1)]]
  by (fastforce simp: command_budget_def applied_step_def extended_def)

text \<open>
  C11: Whatever valid events a payment receives, in whatever order and however often, it commands at
  most one settlement in its life, and none any more once a command exists.
\<close>

theorem payment_commands_at_most_one:
  assumes "wf_payment w" "list_all (\<lambda>e. mk_payment_event e = Inr ()) es"
    and "run reduce_payment pt_next w es = Inr ts"
  shows "length (concat (map pt_commands ts)) \<le> (if pc_command (pw_core w) = None then 1 else 0)
    \<and> wf_payment (final_state pt_next w ts)"
proof
  have "sum_list (map (\<lambda>t. length (pt_commands t)) ts) + command_budget (final_state pt_next w ts) \<le> command_budget w"
    by (rule payment.run_emits [where emitted = "\<lambda>t. length (pt_commands t)" and budget = command_budget, OF _ assms])
       (rule reduce_payment_budget)
  then show "length (concat (map pt_commands ts)) \<le> (if pc_command (pw_core w) = None then 1 else 0)"
    by (simp add: length_concat comp_def command_budget_def split: if_splits)
  show "wf_payment (final_state pt_next w ts)" using payment.run_keeps [OF assms] by blast
qed

theorem payment_commands_at_most_one_witness:
  "\<exists>ts. run reduce_payment pt_next sample_payment [PaymentMethodSelected sample_choice] = Inr ts
     \<and> length (concat (map pt_commands ts)) \<le> 1"
proof -
  have "in_order sample_payment (PaymentMethodSelected sample_choice)" by (simp add: in_order_def sample_payment_def)
  from replay_is_applied [OF sample_payment_wf sample_choice_replayed this]
  obtain t where run: "run reduce_payment pt_next sample_payment [PaymentMethodSelected sample_choice] = Inr [t]" by simp
  have "list_all (\<lambda>e. mk_payment_event e = Inr ()) [PaymentMethodSelected sample_choice]" using sample_choice_wf by simp
  from payment_commands_at_most_one [OF sample_payment_wf this run] run
  show ?thesis by (auto simp: sample_payment_def initial_core_def)
qed

section \<open>Paid\<close>

fun evidence_amount :: "payment_evidence \<Rightarrow> int" where
  "evidence_amount (PixEvidence e) = px_amount_minor e"
| "evidence_amount (WiseEvidence e) = wi_amount_minor e"
| "evidence_amount (StripeEvidence e) = st_amount_minor e"
| "evidence_amount (VisualEvidence e) = vt_amount_minor e"

fun evidence_currency :: "payment_evidence \<Rightarrow> string" where
  "evidence_currency (PixEvidence e) = px_currency e"
| "evidence_currency (WiseEvidence e) = wi_currency e"
| "evidence_currency (StripeEvidence e) = st_currency e"
| "evidence_currency (VisualEvidence e) = vt_currency e"

lemma validate_evidence_matches:
  assumes "validate_evidence s e t = Inr v"
  shows "evidence_amount e = ps_amount_minor s" "evidence_currency e = ps_currency s"
    "Some (evidence_method e) = ps_method s" "an_confirmed_at (ps_anchor s) \<le> observed_time e"
    "ve_payment_id v = ps_payment_id s" "ve_evidence v = e"
proof -
  obtain x u m h k where s: "revalidate_subject s = Inr x" "revalidate_evidence e = Inr u" "ps_method x = Some m"
    and h: "(case u of
             VisualEvidence y \<Rightarrow> bind_res (validate_visual x y t) (\<lambda>_. Inr (visual_hash y))
           | _ \<Rightarrow> bind_res (reject_if (evidence_method u \<noteq> m)
                    ''payment evidence type does not match selected method'') (\<lambda>_.
                  case u of
                    PixEvidence y \<Rightarrow> validate_pix x y t
                  | WiseEvidence y \<Rightarrow> validate_wise x y t
                  | StripeEvidence y \<Rightarrow> validate_stripe x y t
                  | VisualEvidence y \<Rightarrow> Inr (visual_hash y))) = Inr h"
    and k: "mk_verified \<lparr>ve_payment_id = ps_payment_id x, ve_version = ps_version x,
           ve_signature = ps_signature x, ve_method = m, ve_claim_key = k, ve_hash = h, ve_evidence = u\<rparr> = Inr v"
  proof -
    obtain x u t' where a: "revalidate_subject s = Inr x" "revalidate_evidence e = Inr u" "revalidate_trust t = Inr t'"
      using assms by (auto simp: validate_evidence_def bind_res_Inr_iff)
    have "t' = t" using a(3) by (auto simp: revalidate_trust_def bind_res_Inr_iff split: if_splits)
    then show ?thesis
      using assms a that unfolding validate_evidence_def bind_res_simps a
      by (cases "ps_method x") (auto simp: bind_res_Inr_iff)
  qed
  have x: "x = s" using s(1) by (simp add: revalidate_subject_Inr)
  have u: "u = e" using revalidate_evidence_Inr [OF s(2)] .
  note v = mk_verified_Inr [OF k]
  show "ve_payment_id v = ps_payment_id s" "ve_evidence v = e" using v x u by simp_all
  show "evidence_amount e = ps_amount_minor s" "evidence_currency e = ps_currency s"
    "Some (evidence_method e) = ps_method s" "an_confirmed_at (ps_anchor s) \<le> observed_time e"
    using h s(3) unfolding x u
    by (cases e; auto simp: validate_visual_def validate_pix_def validate_wise_def validate_stripe_def
        validate_window_def Let_def bind_res_Inr_iff)+
qed

text \<open>
  C9: A paid workflow is proven: the customer confirmed the summary of exactly this subject, evidence
  of exactly its amount, currency and method, observed after the reservation was confirmed, was
  recorded after that confirmation, the one command derived from it was fenced before the settlement
  finished, and the outcome registers the payment and confirms the reservation target.
\<close>

theorem paid_is_proven:
  assumes "wf_payment w" "pc_status (pw_core w) = PAY_PAID"
  shows "\<exists>sm f r k s x. let c = pw_core w in
    pc_summary c = Some sm \<and> pc_confirmation c = Some f \<and> pc_record c = Some r \<and> pc_command c = Some k
    \<and> pc_start c = Some s \<and> pc_finish c = Some x
    \<and> fs_subject sm = pc_subject c \<and> fc_summary_hash f = fs_hash sm
    \<and> evidence_amount (er_evidence r) = ps_amount_minor (pc_subject c)
    \<and> evidence_currency (er_evidence r) = ps_currency (pc_subject c)
    \<and> Some (evidence_method (er_evidence r)) = ps_method (pc_subject c)
    \<and> an_confirmed_at (ps_anchor (pc_subject c)) \<le> observed_time (er_evidence r)
    \<and> ss_command_id s = sc_id k \<and> sf_command_id x = sc_id k
    \<and> fs_recorded_at sm \<le> fc_confirmed_at f \<and> fc_confirmed_at f \<le> er_recorded_at r
    \<and> er_recorded_at r \<le> ss_started_at s \<and> ss_started_at s \<le> sf_finished_at x
    \<and> so_payment_registered (sf_outcome x) \<and> so_target_confirmed (sf_outcome x)"
proof -
  let ?c = "pw_core w"
  have ok: "core_ok ?c (pw_history w)" by (rule wf_payment_core [OF assms(1)])
  then have ch: "check_confirmation ?c = Inr ()" "check_evidence ?c = Inr ()" "check_start ?c = Inr ()"
    "check_finish ?c = Inr ()" "check_terminal ?c = Inr ()" "check_provenance ?c = Inr ()"
    by (simp_all add: core_ok_def)
  have "pc_status ?c \<in> {PAY_SETTLEMENT_QUEUED, PAY_SETTLING, PAY_PAID, PAY_RETRYABLE, PAY_MANUAL_REVIEW}"
    using assms(2) by simp
  from late_core [OF ok this] obtain sm f r v k where p: "pc_summary ?c = Some sm" "pc_confirmation ?c = Some f"
      "pc_record ?c = Some r" "pc_verified ?c = Some v" "pc_command ?c = Some k" by blast
  obtain x where x: "pc_finish ?c = Some x" "so_certainty (sf_outcome x) = SETTLED"
    using ch(5) assms(2) by (auto simp: check_terminal_def bind_res_Inr_iff)
  obtain s where s: "pc_start ?c = Some s" using ch(4) x p by (auto simp: check_finish_def bind_res_Inr_iff)
  have cc: "fs_subject sm = pc_subject ?c" "fc_summary_hash f = fs_hash sm" "fs_recorded_at sm \<le> fc_confirmed_at f"
    using ch(1) p by (auto simp: check_confirmation_def bind_res_Inr_iff)
  have "validate_evidence (pc_subject ?c) (er_evidence r) (er_trust r) = Inr v" and er: "fc_confirmed_at f \<le> er_recorded_at r"
    using ch(2) p by (auto simp: check_evidence_def bind_res_Inr_iff)
  note ev = validate_evidence_matches [OF this(1)]
  have st: "ss_command_id s = sc_id k" "er_recorded_at r \<le> ss_started_at s"
    using ch(3) p s by (auto simp: check_start_def)
  have fi: "sf_command_id x = sc_id k" "ss_started_at s \<le> sf_finished_at x"
      "project_settlement_outcome (sf_outcome x) True = Inr PAY_PAID"
    using ch(4) p s x assms(2) by (auto simp: check_finish_def bind_res_Inr_iff)
  have "so_payment_registered (sf_outcome x) \<and> so_target_confirmed (sf_outcome x)"
    using fi(3) x(2)
    by (auto simp: project_settlement_outcome_def mk_settlement_outcome_def outcome_shape_def bind_res_Inr_iff)
  with p s x cc er ev(1-4) st fi(1,2) show ?thesis by (simp add: Let_def)
qed

theorem paid_is_proven_witness:
  "\<exists>w sm f x. wf_payment w \<and> pc_status (pw_core w) = PAY_PAID \<and> pc_record (pw_core w) = Some sample_record
     \<and> pc_summary (pw_core w) = Some sm \<and> pc_confirmation (pw_core w) = Some f \<and> pc_finish (pw_core w) = Some x
     \<and> fc_summary_hash f = fs_hash sm \<and> so_payment_registered (sf_outcome x)"
proof -
  obtain w where w: "wf_payment w" "pc_status (pw_core w) = PAY_PAID" "pc_record (pw_core w) = Some sample_record"
    using sample_paid by blast
  from paid_is_proven [OF w(1,2)] show ?thesis using w by (auto simp: Let_def)
qed

section \<open>Claim keys\<close>

text \<open>
  C36: The claim key of a piece of evidence names its transaction and can be read back: its parts are
  the method and the transaction, with the account for Stripe, and it is a key the validator of
  settlement commands accepts, except for a Wise document whose transfer number has a digest that
  does not look random.
\<close>

theorem claim_key_roundtrip:
  assumes "evidence_claim_key e = Inr k"
  shows "key_parts k = claimed_transaction e
    \<and> require_evidence_claim_key k
       = (if random_digest e then Inr k else Inl (ValueError ''Wise evidence claim key is not canonical''))"
proof -
  note f = claim_key_facts [OF assms]
  have "require_evidence_claim_key k = Inl (ValueError ''Wise evidence claim key is not canonical'')" if low: "\<not> random_digest e"
  proof -
    obtain x where x: "e = VisualEvidence x" "vt_method x = WISE" "\<not> high_entropy_digest (sha256_hex (vt_transaction_id x))"
      using low by (cases e) auto
    then show ?thesis using claim_key_cases(3) [OF assms] by (simp add: require_evidence_claim_key_def)
  qed
  with f show ?thesis by simp
qed

theorem claim_key_roundtrip_witness:
  "key_parts ''pix:E1234567820240115ABC12DEF34G'' = [''pix'', ''E1234567820240115ABC12DEF34G'']
     \<and> require_evidence_claim_key ''pix:E1234567820240115ABC12DEF34G'' = Inr ''pix:E1234567820240115ABC12DEF34G''"
  using claim_key_roundtrip [OF sample_key] by simp

text \<open>
  C31: Evidence accepted for a subject can always be settled: unless it is a Wise document whose
  digest does not look random, the command derived from it is a valid command, for the key of that
  evidence, with the identity of the payment's version and economics and nothing else.
\<close>

theorem accepted_evidence_is_settleable:
  assumes "validate_evidence s e t = Inr v" "random_digest e"
  shows "\<exists>k. settlement_command_for s v = Inr k \<and> evidence_claim_key e = Inr (sc_claim_key k)
    \<and> sc_version k = ps_version s \<and> sc_signature k = ps_signature s
    \<and> (sc_id k, sc_idempotency_key k) = settlement_ids (ps_payment_id s) (ps_version s) (ps_signature s)"
proof -
  from settlement_command_total [OF assms] obtain k where k: "settlement_command_for s v = Inr k"
    "sc_claim_key k = ve_claim_key v" "sc_version k = ps_version s" "sc_signature k = ps_signature s"
    "sc_id k = fst (settlement_ids (ps_payment_id s) (ps_version s) (ps_signature s))"
    "sc_idempotency_key k = snd (settlement_ids (ps_payment_id s) (ps_version s) (ps_signature s))" by blast
  then show ?thesis using validate_evidence_parts(2) [OF assms(1)] by (intro exI [of _ k]) simp
qed

theorem accepted_evidence_is_settleable_witness:
  "\<exists>k. settlement_command_for pix_subject sample_verified = Inr k
     \<and> sc_claim_key k = ''pix:E1234567820240115ABC12DEF34G''"
  using accepted_evidence_is_settleable [OF sample_verified_built] sample_key by auto

end
