(* ===== verification/Pay_Claims.thy ===== *)
theory Pay_Claims
  imports Followup_Workflow
begin

text \<open>
  The claims, leases, permits and receipts of \<^verbatim>\<open>reservation_followup/types.py\<close> that pass between the
  payment store and its workers, with the wire text of \<^verbatim>\<open>serialization.py\<close> that a receipt hashes.
  A command, an outcome or a job that a constructor takes was built by its own constructor, so the
  constructor's second construction of it gives it back and has no branch here.
\<close>

section \<open>Enumerations\<close>

datatype claim_status = CLAIM_IN_PROGRESS | CLAIM_COMPLETED | CLAIM_RETRYABLE | CLAIM_MANUAL_REVIEW

datatype release_disposition = SETTLEMENT_REQUEUED | TERMINAL_NOT_DISPATCHED

fun settlement_certainty_value :: "settlement_certainty \<Rightarrow> string" where
  "settlement_certainty_value NOT_DISPATCHED = ''not_dispatched''"
| "settlement_certainty_value DISPATCHED_NO_EFFECT = ''dispatched_no_effect''"
| "settlement_certainty_value SETTLED = ''settled''"
| "settlement_certainty_value PARTIAL_SETTLEMENT = ''partial_settlement''"
| "settlement_certainty_value DISPATCHED_UNKNOWN = ''dispatched_unknown''"

fun payment_effect_value :: "payment_effect_kind \<Rightarrow> string" where
  "payment_effect_value PAID_STATE_TRANSITION = ''paid_state_transition''"
| "payment_effect_value CUSTOMER_PAYMENT_CONFIRMATION = ''customer_payment_confirmation''"
| "payment_effect_value INTERNAL_PAYMENT_EMAIL = ''internal_payment_email''"
| "payment_effect_value BOOKING_FORM = ''booking_form''"
| "payment_effect_value MANUAL_REVIEW_EFFECT = ''manual_review''"

section \<open>Evidence claims\<close>

record evidence_claim =
  ec_verified :: verified_evidence
  ec_status :: claim_status
  ec_claimed_at :: timestamp
  ec_consumed_at :: "timestamp option"

definition mk_evidence_claim ::
  "verified_evidence \<Rightarrow> claim_status \<Rightarrow> timestamp \<Rightarrow> timestamp option \<Rightarrow> evidence_claim res" where
  "mk_evidence_claim verified status claimed_at consumed_at =
     bind_res (if status \<in> {CLAIM_IN_PROGRESS, CLAIM_RETRYABLE}
               then reject_if (consumed_at \<noteq> None) ''active evidence claim cannot be consumed''
               else reject_if (case consumed_at of None \<Rightarrow> True | Some t \<Rightarrow> t < claimed_at)
                      ''terminal evidence claim requires a causal consumed_at'') (\<lambda>_.
     Inr \<lparr>ec_verified = verified, ec_status = status, ec_claimed_at = claimed_at,
          ec_consumed_at = consumed_at\<rparr>)"

section \<open>Settlement leases, claims and permits\<close>

record settlement_lease =
  sl_owner :: string
  sl_token :: int
  sl_acquired :: timestamp
  sl_expires :: timestamp

definition mk_settlement_lease :: "string \<Rightarrow> int \<Rightarrow> timestamp \<Rightarrow> timestamp \<Rightarrow> settlement_lease res" where
  "mk_settlement_lease owner token acquired_at expires_at =
     bind_res (require_id owner ''settlement_lease.owner'') (\<lambda>owner.
     bind_res (positive_int token ''settlement_lease.fencing_token'') (\<lambda>_.
     bind_res (reject_if (expires_at \<le> acquired_at) ''settlement lease must expire after acquisition'') (\<lambda>_.
     Inr \<lparr>sl_owner = owner, sl_token = token, sl_acquired = acquired_at, sl_expires = expires_at\<rparr>)))"

record settlement_claim =
  sn_command :: settlement_command
  sn_lease :: settlement_lease
  sn_count :: int

definition mk_settlement_claim :: "settlement_command \<Rightarrow> settlement_lease \<Rightarrow> int \<Rightarrow> settlement_claim res" where
  "mk_settlement_claim command lease claim_count =
     bind_res (positive_int claim_count ''settlement_claim.claim_count'') (\<lambda>_.
     bind_res (reject_if (claim_count \<noteq> sl_token lease) ''settlement claim token must equal claim count'') (\<lambda>_.
     Inr \<lparr>sn_command = command, sn_lease = lease, sn_count = claim_count\<rparr>))"

record settlement_permit =
  sp_command :: settlement_command
  sp_lease :: settlement_lease
  sp_count :: int
  sp_slot :: int
  sp_request_hash :: string
  sp_fenced_at :: timestamp

definition mk_settlement_permit ::
  "settlement_command \<Rightarrow> settlement_lease \<Rightarrow> int \<Rightarrow> int \<Rightarrow> string \<Rightarrow> timestamp \<Rightarrow> settlement_permit res" where
  "mk_settlement_permit command lease claim_count slot request_hash fenced_at =
     bind_res (mk_settlement_claim command lease claim_count) (\<lambda>claim.
     bind_res (reject_if (slot \<noteq> 1) ''settlement permit dispatch slot must be exact integer 1'') (\<lambda>_.
     bind_res (canonical_hash request_hash ''settlement_permit.request_hash'') (\<lambda>_.
     bind_res (reject_if (\<not> (sl_acquired lease \<le> fenced_at \<and> fenced_at < sl_expires lease))
       ''settlement permit must be fenced during its live lease'') (\<lambda>_.
     Inr \<lparr>sp_command = sn_command claim, sp_lease = lease, sp_count = claim_count, sp_slot = slot,
          sp_request_hash = request_hash, sp_fenced_at = fenced_at\<rparr>))))"

section \<open>Identities derived from a command\<close>

definition settlement_event_id :: "string \<Rightarrow> string \<Rightarrow> string" where
  "settlement_event_id kind command_id =
     ''settlement-'' @ kind @ '':'' @ take 32 (sha256_hex (kind @ [CHR 0x00] @ command_id))"

definition payment_effect_id :: "string \<Rightarrow> payment_effect_kind \<Rightarrow> string" where
  "payment_effect_id command_id kind =
     ''payment-effect:'' @ take 32 (sha256_hex (command_id @ [CHR 0x00] @ payment_effect_value kind))"

definition payment_claim_owner :: "string \<Rightarrow> string \<Rightarrow> int \<Rightarrow> string" where
  "payment_claim_owner worker_id delivery_id delivery_version =
     ''payment-claim:'' @ sha256_hex (join [CHR 0x00] [worker_id, delivery_id, show_int delivery_version])"

definition is_payment_claim_owner :: "string \<Rightarrow> bool" where
  "is_payment_claim_owner v \<longleftrightarrow> take 14 v = ''payment-claim:'' \<and> hash_re (drop 14 v)"

section \<open>Outbox claims and receipts\<close>

record payment_outbox_claim =
  po_message :: payment_job
  po_message_id :: string
  po_payment_id :: string
  po_version :: int
  po_signature :: string
  po_command_id :: string
  po_worker_id :: string
  po_delivery_id :: string
  po_delivery_version :: int
  po_token :: int
  po_acquired :: timestamp
  po_expires :: timestamp
  po_attempts :: int

definition mk_payment_outbox_claim :: "payment_outbox_claim \<Rightarrow> payment_outbox_claim res" where
  "mk_payment_outbox_claim c =
     bind_res (require_id (po_message_id c) ''payment_outbox_claim.message_id'') (\<lambda>message_id.
     bind_res (require_id (po_payment_id c) ''payment_outbox_claim.payment_id'') (\<lambda>payment_id.
     bind_res (require_id (po_command_id c) ''payment_outbox_claim.settlement_command_id'') (\<lambda>command_id.
     bind_res (require_id (po_worker_id c) ''payment_outbox_claim.worker_id'') (\<lambda>worker_id.
     bind_res (require_id (po_delivery_id c) ''payment_outbox_claim.delivery_id'') (\<lambda>delivery_id.
     bind_res (reject_if (message_id \<noteq> payment_effect_id command_id (pj_kind (po_message c)))
       ''payment_outbox_claim.message_id is not bound to message kind and command'') (\<lambda>_.
     bind_res (positive_int (po_version c) ''payment_outbox_claim.payment_version'') (\<lambda>_.
     bind_res (canonical_hash (po_signature c) ''payment_outbox_claim.economic_signature'') (\<lambda>_.
     bind_res (positive_int (po_delivery_version c) ''payment_outbox_claim.delivery_version'') (\<lambda>_.
     bind_res (positive_int (po_token c) ''payment_outbox_claim.fencing_token'') (\<lambda>_.
     bind_res (positive_int (po_attempts c) ''payment_outbox_claim.delivery_attempts'') (\<lambda>_.
     bind_res (reject_if (po_token c \<noteq> po_attempts c)
       ''payment outbox fencing token must equal delivery attempts'') (\<lambda>_.
     bind_res (reject_if (po_expires c \<le> po_acquired c)
       ''payment outbox lease must expire after acquisition'') (\<lambda>_.
     Inr (c\<lparr>po_message_id := message_id, po_payment_id := payment_id, po_command_id := command_id,
            po_worker_id := worker_id, po_delivery_id := delivery_id\<rparr>))))))))))))))"

definition encode_settlement_outcome :: "settlement_outcome \<Rightarrow> json" where
  "encode_settlement_outcome u = JObj [
     (''certainty'', JStr (settlement_certainty_value (so_certainty u))),
     (''payment_registered'', JBool (so_payment_registered u)),
     (''reservation_target_confirmed'', JBool (so_target_confirmed u)),
     (''provider_reference_fingerprint'', json_opt JStr (so_provider_reference u)),
     (''requires_reconciliation'', JBool (so_requires_reconciliation u)),
     (''claim_evidence'', JArr (map JStr (so_claim_evidence u)))]"

definition encode_payment_job :: "payment_job \<Rightarrow> json" where
  "encode_payment_job j = JObj [
     (''kind'', JStr (payment_effect_value (pj_kind j))), (''required'', JBool (pj_required j)),
     (''outcome'', encode_settlement_outcome (pj_outcome j))]"

definition encode_outbox_claim :: "payment_outbox_claim \<Rightarrow> json" where
  "encode_outbox_claim c = JObj [
     (''message'', encode_payment_job (po_message c)), (''message_id'', JStr (po_message_id c)),
     (''payment_id'', JStr (po_payment_id c)), (''payment_version'', JInt (po_version c)),
     (''economic_signature'', JStr (po_signature c)), (''settlement_command_id'', JStr (po_command_id c)),
     (''worker_id'', JStr (po_worker_id c)), (''delivery_id'', JStr (po_delivery_id c)),
     (''delivery_version'', JInt (po_delivery_version c)), (''fencing_token'', JInt (po_token c)),
     (''lease_acquired_at'', JStr (isoformat (po_acquired c))),
     (''lease_expires_at'', JStr (isoformat (po_expires c))), (''delivery_attempts'', JInt (po_attempts c))]"

definition wire_json :: "string \<Rightarrow> json \<Rightarrow> string" where
  "wire_json tag data = dumps (JObj [(''schema_version'', JInt 1), (''type'', JStr tag), (''data'', data)])"

definition outbox_claim_hash :: "payment_outbox_claim \<Rightarrow> string" where
  "outbox_claim_hash c = sha256_hex (wire_json ''payment_outbox_claim'' (encode_outbox_claim c))"

record payment_receipt =
  rt_receipt_id :: string
  rt_idempotency_key :: string
  rt_message_id :: string
  rt_reference :: string
  rt_delivery_id :: string
  rt_delivery_version :: int
  rt_claim_hash :: string
  rt_delivered_at :: timestamp

definition mk_payment_receipt :: "payment_receipt \<Rightarrow> payment_receipt res" where
  "mk_payment_receipt r =
     bind_res (require_id (rt_receipt_id r) ''payment_receipt.receipt_id'') (\<lambda>receipt_id.
     bind_res (require_id (rt_idempotency_key r) ''payment_receipt.idempotency_key'') (\<lambda>idempotency_key.
     bind_res (require_id (rt_message_id r) ''payment_receipt.message_id'') (\<lambda>message_id.
     bind_res (require_id (rt_reference r) ''payment_receipt.delivery_reference'') (\<lambda>reference.
     bind_res (require_id (rt_delivery_id r) ''payment_receipt.delivery_id'') (\<lambda>delivery_id.
     bind_res (positive_int (rt_delivery_version r) ''payment_receipt.delivery_version'') (\<lambda>_.
     bind_res (reject_if (idempotency_key \<noteq> message_id)
       ''payment receipt idempotency key must equal message id'') (\<lambda>_.
     bind_res (canonical_hash (rt_claim_hash r) ''payment_receipt.claim_hash'') (\<lambda>_.
     Inr (r\<lparr>rt_receipt_id := receipt_id, rt_idempotency_key := idempotency_key, rt_message_id := message_id,
            rt_reference := reference, rt_delivery_id := delivery_id\<rparr>)))))))))"

definition receipt_for_claim ::
  "payment_outbox_claim \<Rightarrow> string \<Rightarrow> string \<Rightarrow> timestamp \<Rightarrow> payment_receipt res" where
  "receipt_for_claim c receipt_id reference delivered_at =
     mk_payment_receipt \<lparr>rt_receipt_id = receipt_id, rt_idempotency_key = po_message_id c,
       rt_message_id = po_message_id c, rt_reference = reference, rt_delivery_id = po_delivery_id c,
       rt_delivery_version = po_delivery_version c, rt_claim_hash = outbox_claim_hash c,
       rt_delivered_at = delivered_at\<rparr>"

definition encode_payment_receipt :: "payment_receipt \<Rightarrow> json" where
  "encode_payment_receipt r = JObj [
     (''receipt_id'', JStr (rt_receipt_id r)), (''idempotency_key'', JStr (rt_idempotency_key r)),
     (''message_id'', JStr (rt_message_id r)), (''delivery_reference'', JStr (rt_reference r)),
     (''delivery_id'', JStr (rt_delivery_id r)), (''delivery_version'', JInt (rt_delivery_version r)),
     (''claim_hash'', JStr (rt_claim_hash r)), (''delivered_at'', JStr (isoformat (rt_delivered_at r)))]"

definition receipt_hash :: "payment_receipt \<Rightarrow> string" where
  "receipt_hash r = sha256_hex (wire_json ''payment_receipt'' (encode_payment_receipt r))"

section \<open>Facts\<close>

lemma mk_settlement_lease_Inr [simp]:
  "mk_settlement_lease w n a x = Inr l \<longleftrightarrow>
     id_re (strip w) \<and> 1 \<le> n \<and> a < x
     \<and> l = \<lparr>sl_owner = strip w, sl_token = n, sl_acquired = a, sl_expires = x\<rparr>"
  by (auto simp: mk_settlement_lease_def bind_res_Inr_iff require_id_def Let_def reject_if_def not_le
      simp del: id_re.simps strip_id_re)

lemma mk_settlement_claim_Inr [simp]:
  "mk_settlement_claim k l n = Inr c \<longleftrightarrow>
     1 \<le> n \<and> n = sl_token l \<and> c = \<lparr>sn_command = k, sn_lease = l, sn_count = n\<rparr>"
  by (auto simp: mk_settlement_claim_def bind_res_Inr_iff reject_if_def)

lemma mk_settlement_permit_Inr [simp]:
  "mk_settlement_permit k l n s h t = Inr p \<longleftrightarrow>
     1 \<le> n \<and> n = sl_token l \<and> s = 1 \<and> hash_re h \<and> sl_acquired l \<le> t \<and> t < sl_expires l
     \<and> p = \<lparr>sp_command = k, sp_lease = l, sp_count = n, sp_slot = s, sp_request_hash = h, sp_fenced_at = t\<rparr>"
  by (auto simp: mk_settlement_permit_def bind_res_Inr_iff reject_if_def)

lemma mk_evidence_claim_Inr [simp]:
  "mk_evidence_claim v s t u = Inr c \<longleftrightarrow>
     (if s \<in> {CLAIM_IN_PROGRESS, CLAIM_RETRYABLE} then u = None else \<exists>x. u = Some x \<and> t \<le> x)
     \<and> c = \<lparr>ec_verified = v, ec_status = s, ec_claimed_at = t, ec_consumed_at = u\<rparr>"
  by (auto simp: mk_evidence_claim_def bind_res_Inr_iff reject_if_def split: option.splits)

lemma claim_owner_shape [simp]: "is_payment_claim_owner (payment_claim_owner w d n)"
  by (simp add: is_payment_claim_owner_def payment_claim_owner_def)

end
