(* ===== verification/Pay_Store.thy ===== *)
theory Pay_Store
  imports Pay_Claims Exec_Tables
begin

text \<open>
  \<^verbatim>\<open>reservation_followup/sqlite_store.py\<close>, the payment tables and their reads. As in the execution
  store a row that keeps a serialised value beside its hash keeps the value here, and decoding it
  runs the constructor of its class; the other columns are kept beside it and compared with it as
  the source does. Timestamps compared as ISO text in SQL are compared as instants. The tables are
  those of both schema versions: the columns only version 2 has stay at their defaults in a
  version 1 store.
\<close>

section \<open>Tables\<close>

datatype settlement_status = SETTLEMENT_QUEUED | SETTLEMENT_LEASED | SETTLEMENT_FENCED | SETTLEMENT_RECORDED
  | SETTLEMENT_REVIEW

datatype effect_status = EFFECT_PENDING | EFFECT_LEASED | EFFECT_FENCED | EFFECT_DELIVERED | EFFECT_CANCELLED
  | EFFECT_REVIEW

record payment_row =
  pr_id :: string
  pr_revision :: int
  pr_version :: int
  pr_signature :: string
  pr_status :: payment_status
  pr_state :: payment_workflow
  pr_created_at :: timestamp
  pr_updated_at :: timestamp

record payment_event_row =
  pe_event_id :: string
  pe_payment_id :: string
  pe_revision :: int
  pe_version :: int
  pe_signature :: string
  pe_type :: string
  pe_event :: payment_event
  pe_occurred_at :: timestamp

record claim_row =
  pk_key :: string
  pk_payment_id :: string
  pk_version :: int
  pk_signature :: string
  pk_method :: string
  pk_event :: evidence_recorded
  pk_hash :: string
  pk_status :: claim_status
  pk_claimed_at :: timestamp
  pk_consumed_at :: "timestamp option"

record command_row =
  cr_id :: string
  cr_idempotency_key :: string
  cr_payment_id :: string
  cr_version :: int
  cr_signature :: string
  cr_claim_key :: string
  cr_operation :: string
  cr_value :: settlement_command
  cr_created_at :: timestamp

record settlement_row =
  pl_command_id :: string
  pl_payment_id :: string
  pl_version :: int
  pl_signature :: string
  pl_status :: settlement_status
  pl_owner :: "string option"
  pl_token :: int
  pl_acquired_at :: "timestamp option"
  pl_expires_at :: "timestamp option"
  pl_count :: int
  pl_slots :: int
  pl_request_hash :: "string option"
  pl_fenced_at :: "timestamp option"
  pl_certainty :: "string option"
  pl_outcome :: "settlement_outcome option"
  pl_recorded_at :: "timestamp option"
  pl_updated_at :: timestamp

text \<open>The authority a version 2 outbox row may carry: the columns are filled together or not at all.\<close>

record effect_authority =
  ea_qualification_id :: "string option"
  ea_epoch :: "int option"
  ea_scenario_id :: "string option"
  ea_generation_id :: "string option"
  ea_allocation_id :: "string option"
  ea_binding_hash :: "string option"

definition no_authority :: effect_authority where
  "no_authority = \<lparr>ea_qualification_id = None, ea_epoch = None, ea_scenario_id = None, ea_generation_id = None,
     ea_allocation_id = None, ea_binding_hash = None\<rparr>"

record effect_row =
  pb_message_id :: string
  pb_idempotency_key :: string
  pb_effect_id :: string
  pb_payment_id :: string
  pb_version :: int
  pb_signature :: string
  pb_command_id :: string
  pb_kind :: payment_effect_kind
  pb_template :: string
  pb_job :: payment_job
  pb_status :: effect_status
  pb_owner :: "string option"
  pb_token :: int
  pb_acquired_at :: "timestamp option"
  pb_expires_at :: "timestamp option"
  pb_attempts :: int
  pb_delivered_at :: "timestamp option"
  pb_receipt_hash :: "string option"
  pb_created_at :: timestamp
  pb_updated_at :: timestamp
  pb_slots :: int
  pb_authority :: effect_authority
  pb_deadline :: "timestamp option"
  pb_cas :: int

record receipt_row =
  rr_receipt_id :: string
  rr_idempotency_key :: string
  rr_message_id :: string
  rr_receipt :: payment_receipt
  rr_hash :: string
  rr_delivered_at :: timestamp

record payment_store =
  pd_v2 :: bool
  pd_workflows :: "payment_row list"
  pd_events :: "payment_event_row list"
  pd_claims :: "claim_row list"
  pd_commands :: "command_row list"
  pd_ledger :: "settlement_row list"
  pd_outbox :: "effect_row list"
  pd_receipts :: "receipt_row list"

definition empty_payments :: "bool \<Rightarrow> payment_store" where
  "empty_payments v2 = \<lparr>pd_v2 = v2, pd_workflows = [], pd_events = [], pd_claims = [], pd_commands = [],
     pd_ledger = [], pd_outbox = [], pd_receipts = []\<rparr>"

section \<open>Arguments\<close>

definition exact_text :: "string \<Rightarrow> string \<Rightarrow> string res" where
  "exact_text value field_name =
     (if value = [] \<or> CHR 0x00 \<in> set value
      then Inl (ValueError (field_name @ '' must be exact non-empty text'')) else Inr value)"

definition exact_revision :: "int \<Rightarrow> int res" where
  "exact_revision n = (if n < 0 then Inl (ValueError ''expected_revision must be an integer >= 0'') else Inr n)"

definition positive_ttl :: "timedelta \<Rightarrow> timedelta res" where
  "positive_ttl ttl = (if ttl \<le> 0 then Inl (ValueError ''lease_ttl must be a positive timedelta'') else Inr ttl)"

section \<open>Decoding the financial rows\<close>

definition corrupt_if :: "bool \<Rightarrow> string \<Rightarrow> unit res" where
  "corrupt_if b msg = (if b then Inl (DataCorruption msg) else Inr ())"

lemma corrupt_if_Inr [simp]: "corrupt_if b msg = Inr u \<longleftrightarrow> \<not> b"
  by (simp add: corrupt_if_def)

definition decode_evidence_claim :: "claim_row \<Rightarrow> payment_workflow \<Rightarrow> evidence_claim res" where
  "decode_evidence_claim row w =
     (let c = pw_core w; s = pc_subject c; e = pk_event row
      in bind_res (as_corruption ''payment evidence claim is not canonical''
           (bind_res (mk_evidence_recorded e) (\<lambda>_.
            bind_res (validate_evidence s (er_evidence e) (er_trust e)) (\<lambda>verified.
            mk_evidence_claim verified (pk_status row) (pk_claimed_at row) (pk_consumed_at row))))) (\<lambda>claim.
         let verified = ec_verified claim
         in bind_res (corrupt_if
              (pk_key row \<noteq> ve_claim_key verified \<or> pk_payment_id row \<noteq> ps_payment_id s
               \<or> pk_version row \<noteq> ps_version s \<or> pk_signature row \<noteq> ps_signature s
               \<or> pk_method row \<noteq> method_value (ve_method verified) \<or> pk_hash row \<noteq> ve_hash verified
               \<or> Some e \<noteq> pc_record c \<or> Some verified \<noteq> pc_verified c
               \<or> pk_claimed_at row \<noteq> er_recorded_at e)
              ''payment evidence claim binding is divergent'') (\<lambda>_. Inr claim)))"

definition decode_payment_command :: "command_row \<Rightarrow> payment_workflow \<Rightarrow> settlement_command res" where
  "decode_payment_command row w =
     (let k = cr_value row
      in bind_res (corrupt_if
           (Some k \<noteq> pc_command (pw_core w) \<or> cr_id row \<noteq> sc_id k \<or> cr_idempotency_key row \<noteq> sc_idempotency_key k
            \<or> cr_payment_id row \<noteq> sc_payment_id k \<or> cr_version row \<noteq> sc_version k
            \<or> cr_signature row \<noteq> sc_signature k \<or> cr_claim_key row \<noteq> sc_claim_key k
            \<or> cr_operation row \<noteq> settlement_operation_value (sc_operation k)
            \<or> (case pc_record (pw_core w) of None \<Rightarrow> True | Some r \<Rightarrow> cr_created_at row \<noteq> er_recorded_at r))
           ''payment command binding is divergent'') (\<lambda>_. Inr k))"

definition max_pre_dispatch_claims :: int where
  "max_pre_dispatch_claims = 3"

text \<open>The dictionary the ledger decoder returns.\<close>

record ledger_view =
  lv_status :: settlement_status
  lv_lease :: "settlement_lease option"
  lv_token :: int
  lv_count :: int
  lv_slots :: int
  lv_request_hash :: "string option"
  lv_fenced_at :: "timestamp option"
  lv_outcome :: "settlement_outcome option"
  lv_recorded_at :: "timestamp option"
  lv_updated_at :: timestamp

definition decode_lease :: "settlement_row \<Rightarrow> settlement_lease option res" where
  "decode_lease row =
     (case pl_owner row of
        None \<Rightarrow> bind_res (corrupt_if (pl_acquired_at row \<noteq> None \<or> pl_expires_at row \<noteq> None)
                  ''payment ledger has a partial lease'') (\<lambda>_. Inr None)
      | Some owner \<Rightarrow>
          (case (pl_acquired_at row, pl_expires_at row) of
             (Some a, Some x) \<Rightarrow> bind_res (as_corruption ''payment ledger lease is not canonical''
                 (mk_settlement_lease owner (pl_token row) a x)) (\<lambda>lease. Inr (Some lease))
           | _ \<Rightarrow> Inl (DataCorruption ''payment ledger lease is not canonical'')))"

definition check_dispatch :: "settlement_row \<Rightarrow> settlement_command \<Rightarrow> settlement_lease option \<Rightarrow> unit res" where
  "check_dispatch row command lease =
     (if pl_slots row = 0
      then corrupt_if (pl_request_hash row \<noteq> None \<or> pl_fenced_at row \<noteq> None)
             ''unfenced payment ledger has dispatch evidence''
      else case (pl_request_hash row, pl_fenced_at row) of
             (Some h, Some f) \<Rightarrow>
               bind_res (corrupt_if (\<not> hash_re h) ''fenced payment ledger lacks canonical dispatch evidence'') (\<lambda>_.
               bind_res (corrupt_if (h \<noteq> sha256_hex (sc_payload command))
                 ''payment ledger request hash is not bound to its command'') (\<lambda>_.
               corrupt_if (case lease of None \<Rightarrow> False | Some l \<Rightarrow> \<not> (sl_acquired l \<le> f \<and> f < sl_expires l))
                 ''payment ledger fence falls outside its lease''))
           | _ \<Rightarrow> Inl (DataCorruption ''fenced payment ledger lacks canonical dispatch evidence''))"

definition decode_outcome :: "settlement_row \<Rightarrow> settlement_outcome option res" where
  "decode_outcome row =
     (case pl_certainty row of
        None \<Rightarrow> bind_res (corrupt_if (pl_outcome row \<noteq> None \<or> pl_recorded_at row \<noteq> None)
                  ''payment ledger has a partial outcome'') (\<lambda>_. Inr None)
      | Some certainty \<Rightarrow>
          (case pl_outcome row of
             None \<Rightarrow> Inl (DataCorruption ''settlement outcome bytes/hash have wrong SQLite types'')
           | Some u \<Rightarrow>
               bind_res (as_corruption ''settlement outcome wire value is invalid'' (mk_settlement_outcome u)) (\<lambda>u.
               bind_res (corrupt_if (certainty \<noteq> settlement_certainty_value (so_certainty u) \<or> pl_recorded_at row = None)
                 ''settlement outcome metadata is divergent'') (\<lambda>_. Inr (Some u)))))"

definition decode_ledger :: "settlement_row \<Rightarrow> settlement_command \<Rightarrow> ledger_view res" where
  "decode_ledger row command =
     bind_res (corrupt_if
       (pl_command_id row \<noteq> sc_id command \<or> pl_payment_id row \<noteq> sc_payment_id command
        \<or> pl_version row \<noteq> sc_version command \<or> pl_signature row \<noteq> sc_signature command
        \<or> pl_token row < 0 \<or> pl_count row < 0 \<or> pl_count row > max_pre_dispatch_claims
        \<or> pl_token row \<noteq> pl_count row \<or> pl_slots row \<notin> {0, 1})
       ''payment ledger identity or counters are divergent'') (\<lambda>_.
     bind_res (decode_lease row) (\<lambda>lease.
     bind_res (check_dispatch row command lease) (\<lambda>_.
     bind_res (decode_outcome row) (\<lambda>outcome.
     Inr \<lparr>lv_status = pl_status row, lv_lease = lease, lv_token = pl_token row, lv_count = pl_count row,
          lv_slots = pl_slots row, lv_request_hash = pl_request_hash row, lv_fenced_at = pl_fenced_at row,
          lv_outcome = outcome, lv_recorded_at = pl_recorded_at row, lv_updated_at = pl_updated_at row\<rparr>))))"

section \<open>Validating the outbox of an outcome\<close>

definition receipts_for :: "payment_store \<Rightarrow> string \<Rightarrow> nat" where
  "receipts_for db message_id = count_where (\<lambda>r. rr_message_id r = message_id) (pd_receipts db)"

definition validate_receipt_row :: "payment_store \<Rightarrow> string \<Rightarrow> timestamp \<Rightarrow> string \<Rightarrow> unit res" where
  "validate_receipt_row db message_id delivered_at hash =
     (case find_row rr_message_id message_id (pd_receipts db) of
        None \<Rightarrow> Inl (DataCorruption ''delivered payment effect lacks one receipt'')
      | Some row \<Rightarrow>
          bind_res (as_corruption ''payment receipt wire value is invalid'' (mk_payment_receipt (rr_receipt row))) (\<lambda>r.
          corrupt_if (rr_receipt_id row \<noteq> rt_receipt_id r \<or> rr_idempotency_key row \<noteq> rt_idempotency_key r
              \<or> rr_message_id row \<noteq> rt_message_id r \<or> rt_idempotency_key r \<noteq> message_id \<or> rt_message_id r \<noteq> message_id
              \<or> rr_hash row \<noteq> hash \<or> rr_hash row \<noteq> receipt_hash r \<or> rr_delivered_at row \<noteq> delivered_at
              \<or> rt_delivered_at r \<noteq> delivered_at)
            ''payment receipt binding is divergent''))"

definition effect_lifecycle :: "payment_store \<Rightarrow> effect_row \<Rightarrow> unit res" where
  "effect_lifecycle db r =
     (case pb_status r of
        EFFECT_PENDING \<Rightarrow>
          corrupt_if (\<not> (pb_owner r = None \<and> pb_acquired_at r = None \<and> pb_expires_at r = None
              \<and> pb_delivered_at r = None \<and> pb_receipt_hash r = None \<and> receipts_for db (pb_message_id r) = 0))
            ''payment outbox lifecycle is divergent''
      | EFFECT_LEASED \<Rightarrow>
          (case (pb_acquired_at r, pb_expires_at r) of
             (Some a, Some x) \<Rightarrow>
               corrupt_if (\<not> (opt_all is_payment_claim_owner (pb_owner r) \<and> pb_owner r \<noteq> None \<and> pb_token r \<ge> 1
                   \<and> pb_attempts r \<ge> 1 \<and> x > a \<and> a = pb_updated_at r \<and> pb_delivered_at r = None
                   \<and> pb_receipt_hash r = None \<and> receipts_for db (pb_message_id r) = 0))
                 ''payment outbox lifecycle is divergent''
           | (None, _) \<Rightarrow> Inl (DataCorruption ''payment outbox lease_acquired_at has the wrong SQLite type'')
           | _ \<Rightarrow> Inl (DataCorruption ''payment outbox lease_expires_at has the wrong SQLite type''))
      | EFFECT_DELIVERED \<Rightarrow>
          (case (pb_delivered_at r, pb_receipt_hash r) of
             (Some d, Some h) \<Rightarrow>
               bind_res (corrupt_if (\<not> (pb_owner r = None \<and> pb_acquired_at r = None \<and> pb_expires_at r = None
                   \<and> pb_token r \<ge> 1 \<and> pb_attempts r \<ge> 1 \<and> hash_re h \<and> pb_created_at r \<le> d \<and> d \<le> pb_updated_at r))
                 ''payment outbox lifecycle is divergent'') (\<lambda>_.
               validate_receipt_row db (pb_message_id r) d h)
           | (None, _) \<Rightarrow> Inl (DataCorruption ''payment outbox delivered_at has the wrong SQLite type'')
           | _ \<Rightarrow> Inl (DataCorruption ''payment outbox lifecycle is divergent''))
      | _ \<Rightarrow> Inl (DataCorruption ''payment outbox lifecycle is divergent''))"

definition check_effect_binding ::
  "settlement_command \<Rightarrow> timestamp option \<Rightarrow> payment_job list \<Rightarrow> payment_effect_kind list \<Rightarrow> effect_row \<Rightarrow> unit res" where
  "check_effect_binding command recorded_at expected seen r =
     bind_res (as_corruption ''payment outbox payload wire value is invalid''
       (mk_payment_job (pj_kind (pb_job r)) (pj_required (pb_job r)) (pj_outcome (pb_job r)))) (\<lambda>job.
     let effect_id = payment_effect_id (sc_id command) (pb_kind r)
     in corrupt_if (pb_kind r \<in> set seen
         \<or> List.find (\<lambda>j. pj_kind j = pb_kind r) expected \<noteq> Some job
         \<or> pb_message_id r \<noteq> effect_id \<or> pb_idempotency_key r \<noteq> effect_id \<or> pb_effect_id r \<noteq> effect_id
         \<or> pb_payment_id r \<noteq> sc_payment_id command \<or> pb_version r \<noteq> sc_version command
         \<or> pb_signature r \<noteq> sc_signature command \<or> pb_command_id r \<noteq> sc_id command
         \<or> pb_template r \<noteq> payment_effect_value (pb_kind r) \<or> pb_token r \<noteq> pb_attempts r \<or> pb_token r < 0
         \<or> Some (pb_created_at r) \<noteq> recorded_at \<or> pb_updated_at r < pb_created_at r)
       ''payment outbox binding is divergent'')"

fun check_effects ::
  "payment_store \<Rightarrow> settlement_command \<Rightarrow> timestamp option \<Rightarrow> payment_job list \<Rightarrow> payment_effect_kind list
   \<Rightarrow> effect_row list \<Rightarrow> unit res" where
  "check_effects db command recorded_at expected seen [] = Inr ()"
| "check_effects db command recorded_at expected seen (r # rs) =
     bind_res (check_effect_binding command recorded_at expected seen r) (\<lambda>_.
     bind_res (effect_lifecycle db r) (\<lambda>_.
     check_effects db command recorded_at expected (pb_kind r # seen) rs))"

definition validate_payment_jobs ::
  "payment_store \<Rightarrow> payment_workflow \<Rightarrow> settlement_command \<Rightarrow> ledger_view \<Rightarrow> unit res" where
  "validate_payment_jobs db w command ledger =
     (let rows = sort_key (payment_effect_value \<circ> pb_kind)
                   (filter (\<lambda>r. pb_payment_id r = sc_payment_id command) (pd_outbox db))
      in bind_res (case lv_outcome ledger of None \<Rightarrow> Inr [] | Some u \<Rightarrow> required_payment_effects u (pw_policy w))
           (\<lambda>expected.
         bind_res (corrupt_if (length rows \<noteq> length expected \<or> \<not> distinct (map pj_kind expected))
           ''payment outbox does not match required outcome effects'') (\<lambda>_.
         check_effects db command (lv_recorded_at ledger) expected [] rows)))"

section \<open>The financial records of a payment\<close>

definition recorded_consistently :: "payment_core \<Rightarrow> ledger_view \<Rightarrow> settlement_outcome \<Rightarrow> bool" where
  "recorded_consistently c ledger u \<longleftrightarrow>
     (case pc_finish c of
        None \<Rightarrow> False
      | Some f \<Rightarrow> sf_outcome f = u \<and> Some (sf_finished_at f) = lv_recorded_at ledger)"

definition financial_status_valid :: "payment_core \<Rightarrow> ledger_view \<Rightarrow> claim_status \<Rightarrow> bool" where
  "financial_status_valid c ledger claim_status =
     (case lv_status ledger of
        SETTLEMENT_QUEUED \<Rightarrow>
          lv_lease ledger = None \<and> lv_slots ledger = 0 \<and> lv_outcome ledger = None
          \<and> pc_status c = PAY_SETTLEMENT_QUEUED \<and> pc_start c = None \<and> pc_finish c = None
          \<and> claim_status \<in> {CLAIM_IN_PROGRESS, CLAIM_RETRYABLE}
      | SETTLEMENT_LEASED \<Rightarrow>
          lv_lease ledger \<noteq> None \<and> lv_slots ledger = 0 \<and> lv_outcome ledger = None
          \<and> pc_status c = PAY_SETTLEMENT_QUEUED \<and> pc_start c = None \<and> pc_finish c = None
          \<and> claim_status = CLAIM_IN_PROGRESS
      | SETTLEMENT_FENCED \<Rightarrow>
          lv_lease ledger \<noteq> None \<and> lv_slots ledger = 1 \<and> lv_outcome ledger = None
          \<and> pc_status c = PAY_SETTLING \<and> pc_finish c = None
          \<and> (case pc_start c of None \<Rightarrow> False | Some s \<Rightarrow> Some (ss_started_at s) = lv_fenced_at ledger)
          \<and> claim_status = CLAIM_IN_PROGRESS
      | SETTLEMENT_RECORDED \<Rightarrow>
          lv_lease ledger = None \<and> claim_status = CLAIM_COMPLETED
          \<and> (case lv_outcome ledger of
               None \<Rightarrow> False
             | Some u \<Rightarrow> recorded_consistently c ledger u
                 \<and> (so_certainty u = NOT_DISPATCHED \<and> lv_slots ledger = 0 \<and> pc_status c = PAY_RETRYABLE
                    \<or> so_certainty u = SETTLED \<and> lv_slots ledger = 1 \<and> pc_status c = PAY_PAID))
      | SETTLEMENT_REVIEW \<Rightarrow>
          lv_lease ledger = None \<and> lv_slots ledger = 1 \<and> claim_status = CLAIM_MANUAL_REVIEW
          \<and> pc_status c = PAY_MANUAL_REVIEW
          \<and> (case lv_outcome ledger of
               None \<Rightarrow> False
             | Some u \<Rightarrow> recorded_consistently c ledger u
                 \<and> so_certainty u \<in> {DISPATCHED_NO_EFFECT, PARTIAL_SETTLEMENT, DISPATCHED_UNKNOWN}))"

record financial_records =
  fr_claim :: evidence_claim
  fr_command :: settlement_command
  fr_ledger :: ledger_view

definition payment_financial_records :: "payment_store \<Rightarrow> payment_workflow \<Rightarrow> financial_records option res" where
  "payment_financial_records db w =
     (let pid = ps_payment_id (pc_subject (pw_core w));
          counts = (count_where (\<lambda>r. pk_payment_id r = pid) (pd_claims db),
                    count_where (\<lambda>r. cr_payment_id r = pid) (pd_commands db),
                    count_where (\<lambda>r. pl_payment_id r = pid) (pd_ledger db))
      in case pc_command (pw_core w) of
           None \<Rightarrow> bind_res (corrupt_if (counts \<noteq> (0, 0, 0)) ''pre-evidence payment owns financial rows'') (\<lambda>_. Inr None)
         | Some command \<Rightarrow>
             bind_res (corrupt_if (counts \<noteq> (1, 1, 1)) ''post-evidence payment lacks one closed financial tuple'') (\<lambda>_.
             case (find_row pk_key (sc_claim_key command) (pd_claims db),
                   find_row cr_id (sc_id command) (pd_commands db),
                   find_row pl_command_id (sc_id command) (pd_ledger db)) of
               (Some claim_row, Some command_row, Some ledger_row) \<Rightarrow>
                 bind_res (decode_evidence_claim claim_row w) (\<lambda>claim.
                 bind_res (decode_payment_command command_row w) (\<lambda>persisted.
                 bind_res (decode_ledger ledger_row persisted) (\<lambda>ledger.
                 bind_res (validate_payment_jobs db w persisted ledger) (\<lambda>_.
                 bind_res (corrupt_if (\<not> financial_status_valid (pw_core w) ledger (ec_status claim))
                   ''payment workflow and financial ledger disagree'') (\<lambda>_.
                 Inr (Some \<lparr>fr_claim = claim, fr_command = persisted, fr_ledger = ledger\<rparr>))))))
             | _ \<Rightarrow> Inl (DataCorruption ''payment financial tuple is incomplete'')))"

section \<open>Loading a payment\<close>

fun payment_event_type :: "payment_event \<Rightarrow> string" where
  "payment_event_type (PaymentMethodSelected _) = ''PaymentMethodSelected''"
| "payment_event_type (FinancialSummaryRecorded _) = ''FinancialSummaryRecorded''"
| "payment_event_type (FinancialConfirmationReceived _) = ''FinancialConfirmationReceived''"
| "payment_event_type (PaymentEvidenceRecorded _) = ''PaymentEvidenceRecorded''"
| "payment_event_type (SettlementStarted _) = ''SettlementStarted''"
| "payment_event_type (SettlementFinished _) = ''SettlementFinished''"
| "payment_event_type (PaymentExpired _) = ''PaymentExpired''"
| "payment_event_type (PaymentCancelled _) = ''PaymentCancelled''"

definition payment_event_types :: "string list" where
  "payment_event_types = [''PaymentMethodSelected'', ''FinancialSummaryRecorded'', ''FinancialConfirmationReceived'',
     ''PaymentEvidenceRecorded'', ''SettlementStarted'', ''SettlementFinished'', ''PaymentExpired'', ''PaymentCancelled'']"

definition decode_payment_event :: "payment_event_row \<Rightarrow> payment_event res" where
  "decode_payment_event row =
     bind_res (reject_if (payment_event_type (pe_event row) \<noteq> pe_type row) ''wire type does not match expected_type'') (\<lambda>_.
     bind_res (mk_payment_event (pe_event row)) (\<lambda>_. Inr (pe_event row)))"

definition unexpected_command :: "payment_event \<Rightarrow> payment_transition \<Rightarrow> bool" where
  "unexpected_command e t \<longleftrightarrow>
     pt_commands t \<noteq> []
     \<and> (payment_event_type e \<noteq> ''PaymentEvidenceRecorded'' \<or> length (pt_commands t) \<noteq> 1
        \<or> Some (hd (pt_commands t)) \<noteq> pc_command (pw_core (pt_next t)))"

fun replay_payment_rows ::
  "string \<Rightarrow> payment_workflow \<Rightarrow> payment_event_row list \<Rightarrow> (payment_workflow \<times> payment_event list) res" where
  "replay_payment_rows pid w [] = Inr (w, [])"
| "replay_payment_rows pid w (row # rows) =
     bind_res (corrupt_if (pe_type row \<notin> set payment_event_types)
       ''payment event type is outside the closed universe'') (\<lambda>_.
     bind_res (as_corruption ''payment event wire value is invalid'' (decode_payment_event row)) (\<lambda>e.
     bind_res (as_corruption ''payment history cannot be replayed'' (reduce_payment w e)) (\<lambda>t.
     bind_res (corrupt_if (pt_result t \<noteq> PT_APPLIED) ''payment history contains a reducer no-op'') (\<lambda>_.
     bind_res (corrupt_if (unexpected_command e t) ''payment history emitted an unexpected command'') (\<lambda>_.
     let s = pc_subject (pw_core (pt_next t))
     in bind_res (corrupt_if
          (pe_event_id row \<noteq> payment_event_id e \<or> pe_payment_id row \<noteq> pid \<or> pe_version row \<noteq> ps_version s
           \<or> pe_signature row \<noteq> ps_signature s \<or> pe_occurred_at row \<noteq> payment_event_time e)
          ''payment event metadata is divergent'') (\<lambda>_.
        bind_res (replay_payment_rows pid (pt_next t) rows) (\<lambda>(w', es). Inr (w', e # es))))))))"

definition payment_event_rows :: "payment_store \<Rightarrow> string \<Rightarrow> payment_event_row list" where
  "payment_event_rows db pid = sort_key pe_revision (filter (\<lambda>r. pe_payment_id r = pid) (pd_events db))"

definition payment_updated_at :: "payment_workflow \<Rightarrow> payment_event list \<Rightarrow> timestamp" where
  "payment_updated_at w es =
     (if es = [] then an_confirmed_at (ps_anchor (pc_subject (pw_core w))) else payment_event_time (last es))"

definition load_payment :: "payment_store \<Rightarrow> string \<Rightarrow> (payment_workflow \<times> int) res" where
  "load_payment db payment_id =
     bind_res (exact_text payment_id ''payment_id'') (\<lambda>pid.
     case find_row pr_id pid (pd_workflows db) of
       None \<Rightarrow> Inl (PaymentNotFound (''payment not found: '' @ pid))
     | Some row \<Rightarrow>
         bind_res (as_corruption ''payment state wire value is invalid'' (mk_payment_workflow (pr_state row))) (\<lambda>w.
         let rows = payment_event_rows db pid; s = pc_subject (pw_core w)
         in bind_res (corrupt_if (map pe_revision rows \<noteq> map int [1..<Suc (length rows)])
              ''payment event revisions are not contiguous'') (\<lambda>_.
            bind_res (as_corruption ''payment bootstrap cannot be reconstructed''
              (new_payment (ps_anchor s) (pw_policy w))) (\<lambda>opening.
            bind_res (replay_payment_rows pid (pt_next opening) rows) (\<lambda>(replayed, events).
            bind_res (corrupt_if
              (replayed \<noteq> w \<or> events \<noteq> pw_history w \<or> pr_id row \<noteq> ps_payment_id s
               \<or> pr_revision row \<noteq> int (length rows) \<or> pr_version row \<noteq> ps_version s
               \<or> pr_signature row \<noteq> ps_signature s \<or> pr_status row \<noteq> pc_status (pw_core w)
               \<or> pr_created_at row \<noteq> an_confirmed_at (ps_anchor s)
               \<or> pr_updated_at row \<noteq> payment_updated_at w events)
              ''payment workflow row disagrees with full replay'') (\<lambda>_.
            bind_res (payment_financial_records db w) (\<lambda>_. Inr (w, int (length rows)))))))))"

definition payments_for_reservation :: "payment_store \<Rightarrow> string \<Rightarrow> payment_workflow list res" where
  "payments_for_reservation db command_id =
     bind_res (map_res (\<lambda>row. bind_res (load_payment db (pr_id row)) (\<lambda>(w, _). Inr w))
                (sort_key pr_id (pd_workflows db))) (\<lambda>ws.
     Inr (filter (\<lambda>w. an_command_id (ps_anchor (pc_subject (pw_core w))) = command_id) ws))"

definition load_evidence_claim :: "payment_store \<Rightarrow> string \<Rightarrow> evidence_claim res" where
  "load_evidence_claim db claim_key =
     bind_res (exact_text claim_key ''claim_key'') (\<lambda>key.
     case find_row pk_key key (pd_claims db) of
       None \<Rightarrow> Inl (PaymentNotFound (''payment evidence claim not found: '' @ key))
     | Some row \<Rightarrow>
         bind_res (load_payment db (pk_payment_id row)) (\<lambda>(w, _). decode_evidence_claim row w))"

end
