(* ===== verification/Pay_Intake.thy ===== *)
theory Pay_Intake
  imports Pay_Store
begin

text \<open>
  \<^verbatim>\<open>reservation_followup/sqlite_store.py\<close>, the writes that open a payment, apply an event to it and
  claim its evidence. An operation returns \<open>Inl\<close> with the exception, in which case its transaction
  rolled back, or the new store with its result. An \<open>INSERT\<close> checks the primary and unique keys of
  its table; its foreign keys name rows the same transaction has just written or read.
\<close>

section \<open>Writing rows\<close>

definition sqlite_integrity :: "string \<Rightarrow> py_error" where
  "sqlite_integrity operation = DataCorruption (operation @ '' detected SQLite corruption'')"

definition insert_unique :: "('r \<Rightarrow> 'k) \<Rightarrow> string \<Rightarrow> 'r \<Rightarrow> 'r list \<Rightarrow> 'r list res" where
  "insert_unique key operation r rows =
     (if key r \<in> key ` set rows then Inl (sqlite_integrity operation) else Inr (rows @ [r]))"

definition payment_row_of :: "payment_workflow \<Rightarrow> int \<Rightarrow> timestamp \<Rightarrow> timestamp \<Rightarrow> payment_row" where
  "payment_row_of w revision created_at updated_at =
     (let s = pc_subject (pw_core w)
      in \<lparr>pr_id = ps_payment_id s, pr_revision = revision, pr_version = ps_version s,
          pr_signature = ps_signature s, pr_status = pc_status (pw_core w), pr_state = w,
          pr_created_at = created_at, pr_updated_at = updated_at\<rparr>)"

definition payment_event_row_of :: "string \<Rightarrow> int \<Rightarrow> payment_event \<Rightarrow> payment_workflow \<Rightarrow> payment_event_row" where
  "payment_event_row_of pid revision e w =
     \<lparr>pe_event_id = payment_event_id e, pe_payment_id = pid, pe_revision = revision,
      pe_version = ps_version (pc_subject (pw_core w)), pe_signature = ps_signature (pc_subject (pw_core w)),
      pe_type = payment_event_type e, pe_event = e, pe_occurred_at = payment_event_time e\<rparr>"

definition insert_payment_event ::
  "string \<Rightarrow> payment_store \<Rightarrow> string \<Rightarrow> int \<Rightarrow> payment_event \<Rightarrow> payment_workflow \<Rightarrow> payment_store res" where
  "insert_payment_event operation db pid revision e w =
     (if list_ex (\<lambda>r. pe_event_id r = payment_event_id e \<or> pe_payment_id r = pid \<and> pe_revision r = revision)
           (pd_events db)
      then Inl (sqlite_integrity operation)
      else Inr (db\<lparr>pd_events := pd_events db @ [payment_event_row_of pid revision e w]\<rparr>))"

definition advanced_row :: "int \<Rightarrow> payment_workflow \<Rightarrow> timestamp \<Rightarrow> payment_row \<Rightarrow> payment_row" where
  "advanced_row revision w updated_at r =
     (let s = pc_subject (pw_core w)
      in r\<lparr>pr_revision := revision + 1, pr_version := ps_version s, pr_signature := ps_signature s,
           pr_status := pc_status (pw_core w), pr_state := w, pr_updated_at := updated_at\<rparr>)"

lemma advanced_row_id [simp]: "pr_id (advanced_row n w t r) = pr_id r"
  by (simp add: advanced_row_def Let_def)

definition update_payment_row ::
  "payment_store \<Rightarrow> string \<Rightarrow> int \<Rightarrow> payment_workflow \<Rightarrow> timestamp \<Rightarrow> payment_store res" where
  "update_payment_row db pid revision w updated_at =
     bind_res (swap_one (\<lambda>r. pr_id r = pid \<and> pr_revision r = revision) (advanced_row revision w updated_at)
       (ConcurrencyConflict ''payment optimistic revision was lost'') (pd_workflows db)) (\<lambda>rows.
     Inr (db\<lparr>pd_workflows := rows\<rparr>))"

section \<open>Opening a payment\<close>

definition open_payment ::
  "payment_store \<Rightarrow> confirmed_anchor \<Rightarrow> payment_policy \<Rightarrow> (payment_store \<times> payment_transition) res" where
  "open_payment db anchor policy =
     bind_res (new_payment anchor policy) (\<lambda>t.
     let w = pt_next t; pid = ps_payment_id (pc_subject (pw_core w))
     in case find_row pr_id pid (pd_workflows db) of
          Some _ \<Rightarrow>
            bind_res (load_payment db pid) (\<lambda>(persisted, _).
            if ps_anchor (pc_subject (pw_core persisted)) = anchor \<and> pw_policy persisted = policy
            then Inr (db, noop persisted)
            else Inl (IdentityConflict ''payment identity already exists with divergent data''))
        | None \<Rightarrow>
            bind_res (exact_text pid ''payment_id'') (\<lambda>_.
            Inr (db\<lparr>pd_workflows := pd_workflows db
                   @ [payment_row_of w 0 (an_confirmed_at anchor) (an_confirmed_at anchor)]\<rparr>, t)))"

section \<open>Applying an event\<close>

definition operational_payment_event :: "payment_event \<Rightarrow> bool" where
  "operational_payment_event e \<longleftrightarrow>
     payment_event_type e \<in> {''PaymentEvidenceRecorded'', ''SettlementStarted'', ''SettlementFinished''}"

text \<open>The row an event's identity already has: the same event again, or a conflict.\<close>

definition recorded_event :: "payment_store \<Rightarrow> string \<Rightarrow> payment_event \<Rightarrow> bool option" where
  "recorded_event db pid e =
     map_option (\<lambda>r. pe_payment_id r = pid \<and> pe_type r = payment_event_type e \<and> pe_event r = e)
       (find_row pe_event_id (payment_event_id e) (pd_events db))"

definition later_persistence :: py_error where
  "later_persistence = UnsupportedEffect ''payment event requires Task 8/9 claim, ledger, or outbox persistence''"

definition stale_revision :: "int \<Rightarrow> int \<Rightarrow> py_error" where
  "stale_revision expected current =
     ConcurrencyConflict (''stale payment revision: expected='' @ show_int expected @ '', current='' @ show_int current)"

definition apply_payment ::
  "payment_store \<Rightarrow> string \<Rightarrow> int \<Rightarrow> payment_event \<Rightarrow> (payment_store \<times> payment_transition) res" where
  "apply_payment db payment_id expected_revision e =
     bind_res (exact_text payment_id ''payment_id'') (\<lambda>pid.
     bind_res (exact_revision expected_revision) (\<lambda>expected.
     if operational_payment_event e then Inl later_persistence
     else bind_res (load_payment db pid) (\<lambda>(current, revision).
     case recorded_event db pid e of
       Some same \<Rightarrow>
         if same then Inr (db, noop current)
         else Inl (IdentityConflict ''payment event identity has divergent data'')
     | None \<Rightarrow>
         if revision \<noteq> expected then Inl (stale_revision expected revision)
         else bind_res (reduce_payment current e) (\<lambda>t.
         if pt_commands t \<noteq> [] then Inl later_persistence
         else if pt_result t \<noteq> PT_APPLIED then Inr (db, t)
         else bind_res (update_payment_row db pid revision (pt_next t) (payment_event_time e)) (\<lambda>db.
              bind_res (insert_payment_event ''apply_payment'' db pid (revision + 1) e (pt_next t)) (\<lambda>db.
              Inr (db, t)))))))"

text \<open>\<open>_persist_operational_payment_transition\<close>.\<close>

definition persist_transition ::
  "string \<Rightarrow> payment_store \<Rightarrow> payment_workflow \<Rightarrow> int \<Rightarrow> payment_event \<Rightarrow> payment_transition \<Rightarrow> payment_store res" where
  "persist_transition operation db current revision e t =
     bind_res (corrupt_if (pt_result t \<noteq> PT_APPLIED \<or> pt_events t \<noteq> [e])
       ''operational payment transition is not persistable'') (\<lambda>_.
     let pid = ps_payment_id (pc_subject (pw_core current))
     in bind_res (update_payment_row db pid revision (pt_next t) (payment_event_time e)) (\<lambda>db.
        insert_payment_event operation db pid (revision + 1) e (pt_next t)))"

section \<open>Claiming evidence\<close>

definition claim_row_of :: "settlement_command \<Rightarrow> verified_evidence \<Rightarrow> evidence_recorded \<Rightarrow> claim_row" where
  "claim_row_of command verified e =
     \<lparr>pk_key = ve_claim_key verified, pk_payment_id = sc_payment_id command, pk_version = sc_version command,
      pk_signature = sc_signature command, pk_method = method_value (ve_method verified), pk_event = e,
      pk_hash = ve_hash verified, pk_status = CLAIM_IN_PROGRESS, pk_claimed_at = er_recorded_at e,
      pk_consumed_at = None\<rparr>"

definition command_row_of :: "settlement_command \<Rightarrow> timestamp \<Rightarrow> command_row" where
  "command_row_of command created_at =
     \<lparr>cr_id = sc_id command, cr_idempotency_key = sc_idempotency_key command,
      cr_payment_id = sc_payment_id command, cr_version = sc_version command,
      cr_signature = sc_signature command, cr_claim_key = sc_claim_key command,
      cr_operation = settlement_operation_value (sc_operation command), cr_value = command,
      cr_created_at = created_at\<rparr>"

definition queued_row_of :: "settlement_command \<Rightarrow> timestamp \<Rightarrow> settlement_row" where
  "queued_row_of command updated_at =
     \<lparr>pl_command_id = sc_id command, pl_payment_id = sc_payment_id command, pl_version = sc_version command,
      pl_signature = sc_signature command, pl_status = SETTLEMENT_QUEUED, pl_owner = None, pl_token = 0,
      pl_acquired_at = None, pl_expires_at = None, pl_count = 0, pl_slots = 0, pl_request_hash = None,
      pl_fenced_at = None, pl_certainty = None, pl_outcome = None, pl_recorded_at = None,
      pl_updated_at = updated_at\<rparr>"

definition insert_financial_rows ::
  "string \<Rightarrow> payment_store \<Rightarrow> settlement_command \<Rightarrow> verified_evidence \<Rightarrow> evidence_recorded \<Rightarrow> payment_store res" where
  "insert_financial_rows operation db command verified e =
     bind_res (insert_unique pk_key operation (claim_row_of command verified e) (pd_claims db)) (\<lambda>claims.
     let row = command_row_of command (er_recorded_at e)
     in if list_ex (\<lambda>r. cr_id r = cr_id row \<or> cr_idempotency_key r = cr_idempotency_key row
            \<or> cr_payment_id r = cr_payment_id row \<and> cr_version r = cr_version row \<and> cr_signature r = cr_signature row)
          (pd_commands db)
        then Inl (sqlite_integrity operation)
        else let ledger = queued_row_of command (er_recorded_at e)
     in if list_ex (\<lambda>r. pl_command_id r = pl_command_id ledger
            \<or> pl_payment_id r = pl_payment_id ledger \<and> pl_version r = pl_version ledger
              \<and> pl_signature r = pl_signature ledger) (pd_ledger db)
        then Inl (sqlite_integrity operation)
        else Inr (db\<lparr>pd_claims := claims, pd_commands := pd_commands db @ [row],
                     pd_ledger := pd_ledger db @ [ledger]\<rparr>))"

text \<open>The evidence claim once no event of its identity is recorded, and from the reduced event on.\<close>

definition claim_reduced_evidence ::
  "payment_store \<Rightarrow> payment_workflow \<Rightarrow> int \<Rightarrow> evidence_recorded \<Rightarrow> payment_transition
   \<Rightarrow> (payment_store \<times> payment_transition) res" where
  "claim_reduced_evidence db current revision x t =
     (if pt_result t \<noteq> PT_APPLIED then Inr (db, t)
      else case (pt_commands t, pc_command (pw_core (pt_next t)), pc_verified (pw_core (pt_next t))) of
        ([command], Some derived, Some verified) \<Rightarrow>
          bind_res (corrupt_if (command \<noteq> derived) ''payment evidence did not derive one canonical command'') (\<lambda>_.
          if find_row pk_key (ve_claim_key verified) (pd_claims db) \<noteq> None
          then Inl (IdentityConflict ''global payment evidence already belongs to another financial subject'')
          else if list_ex (\<lambda>r. cr_id r = sc_id command \<or> cr_idempotency_key r = sc_idempotency_key command)
                    (pd_commands db)
          then Inl (IdentityConflict ''payment command identity already exists'')
          else bind_res (insert_financial_rows ''claim_payment_evidence'' db command verified x) (\<lambda>db.
               bind_res (persist_transition ''claim_payment_evidence'' db current revision (PaymentEvidenceRecorded x) t) (\<lambda>db.
               Inr (db, t))))
      | _ \<Rightarrow> Inl (DataCorruption ''payment evidence did not derive one canonical command''))"

definition claim_new_evidence ::
  "payment_store \<Rightarrow> int \<Rightarrow> evidence_recorded \<Rightarrow> payment_workflow \<Rightarrow> int
   \<Rightarrow> (payment_store \<times> payment_transition) res" where
  "claim_new_evidence db expected x current revision =
     (if pc_record (pw_core current) \<noteq> None
      then (case reduce_payment current (PaymentEvidenceRecorded x) of
              Inl (ValueError _) \<Rightarrow> Inl (IdentityConflict ''payment evidence replay has divergent identity or payload'')
            | Inl (TypeError _) \<Rightarrow> Inl (IdentityConflict ''payment evidence replay has divergent identity or payload'')
            | Inl err \<Rightarrow> Inl err
            | Inr replay \<Rightarrow>
                if pt_result replay = PT_NOOP then Inr (db, replay)
                else Inl (IdentityConflict ''payment already owns a different evidence claim''))
      else if revision \<noteq> expected then Inl (stale_revision expected revision)
      else bind_res (reduce_payment current (PaymentEvidenceRecorded x)) (claim_reduced_evidence db current revision x))"

definition claim_payment_evidence ::
  "payment_store \<Rightarrow> string \<Rightarrow> int \<Rightarrow> evidence_recorded \<Rightarrow> (payment_store \<times> payment_transition) res" where
  "claim_payment_evidence db payment_id expected_revision x =
     bind_res (exact_text payment_id ''payment_id'') (\<lambda>pid.
     bind_res (exact_revision expected_revision) (\<lambda>expected.
     bind_res (load_payment db pid) (\<lambda>(current, revision).
     case recorded_event db pid (PaymentEvidenceRecorded x) of
       Some same \<Rightarrow>
         if same then Inr (db, noop current)
         else Inl (IdentityConflict ''payment event identity has divergent data'')
     | None \<Rightarrow> claim_new_evidence db expected x current revision)))"

definition record_payment_command ::
  "payment_store \<Rightarrow> string \<Rightarrow> int \<Rightarrow> evidence_recorded \<Rightarrow> (payment_store \<times> payment_transition) res" where
  "record_payment_command = claim_payment_evidence"

end
