(* ===== verification/Pay_Settlement.thy ===== *)
theory Pay_Settlement
  imports Pay_Intake
begin

text \<open>
  \<^verbatim>\<open>reservation_followup/sqlite_store.py\<close>, the settlement ledger: claiming a command under a lease,
  releasing it before dispatch, fencing the one dispatch, recording its outcome, and the two
  recoveries of expired leases. Every write is the source's \<open>UPDATE\<close> with the condition of its
  \<open>WHERE\<close> clause and the check of its row count.
\<close>

section \<open>Updates\<close>

definition update_settlement ::
  "payment_store \<Rightarrow> (settlement_row \<Rightarrow> bool) \<Rightarrow> (settlement_row \<Rightarrow> settlement_row) \<Rightarrow> py_error \<Rightarrow> payment_store res" where
  "update_settlement db p f err =
     bind_res (swap_one p f err (pd_ledger db)) (\<lambda>rows. Inr (db\<lparr>pd_ledger := rows\<rparr>))"

definition update_claim ::
  "payment_store \<Rightarrow> string \<Rightarrow> claim_status set \<Rightarrow> claim_status \<Rightarrow> timestamp option \<Rightarrow> string \<Rightarrow> payment_store res" where
  "update_claim db key from status consumed msg =
     bind_res (swap_one (\<lambda>r. pk_key r = key \<and> pk_status r \<in> from \<and> pk_consumed_at r = None)
       (\<lambda>r. r\<lparr>pk_status := status, pk_consumed_at := consumed\<rparr>) (DataCorruption msg) (pd_claims db)) (\<lambda>rows.
     Inr (db\<lparr>pd_claims := rows\<rparr>))"

definition leased_settlement :: "string \<Rightarrow> timestamp \<Rightarrow> timestamp \<Rightarrow> int \<Rightarrow> settlement_row \<Rightarrow> settlement_row" where
  "leased_settlement owner now expires_at claim_count r =
     r\<lparr>pl_status := SETTLEMENT_LEASED, pl_owner := Some owner, pl_token := claim_count, pl_acquired_at := Some now,
       pl_expires_at := Some expires_at, pl_count := claim_count, pl_updated_at := now\<rparr>"

definition requeued_settlement :: "timestamp \<Rightarrow> settlement_row \<Rightarrow> settlement_row" where
  "requeued_settlement now r =
     r\<lparr>pl_status := SETTLEMENT_QUEUED, pl_owner := None, pl_acquired_at := None, pl_expires_at := None,
       pl_updated_at := now\<rparr>"

definition fenced_settlement :: "string \<Rightarrow> timestamp \<Rightarrow> settlement_row \<Rightarrow> settlement_row" where
  "fenced_settlement request_hash now r =
     r\<lparr>pl_status := SETTLEMENT_FENCED, pl_slots := 1, pl_request_hash := Some request_hash,
       pl_fenced_at := Some now, pl_updated_at := now\<rparr>"

definition closed_settlement ::
  "settlement_status \<Rightarrow> settlement_outcome \<Rightarrow> timestamp \<Rightarrow> settlement_row \<Rightarrow> settlement_row" where
  "closed_settlement status u now r =
     r\<lparr>pl_status := status, pl_owner := None, pl_acquired_at := None, pl_expires_at := None,
       pl_certainty := Some (settlement_certainty_value (so_certainty u)), pl_outcome := Some u, pl_recorded_at := Some now,
       pl_updated_at := now\<rparr>"

text \<open>The rows a lease of a command that is not dispatched holds, as every \<open>WHERE\<close> clause spells it.\<close>

definition held_settlement :: "string \<Rightarrow> settlement_lease \<Rightarrow> int \<Rightarrow> settlement_row \<Rightarrow> bool" where
  "held_settlement command_id lease claim_count r \<longleftrightarrow>
     pl_command_id r = command_id \<and> pl_status r = SETTLEMENT_LEASED \<and> pl_owner r = Some (sl_owner lease)
     \<and> pl_token r = sl_token lease \<and> pl_count r = claim_count \<and> pl_slots r = 0"

definition expired_settlement :: "timestamp \<Rightarrow> settlement_row \<Rightarrow> bool" where
  "expired_settlement now r \<longleftrightarrow> (case pl_expires_at r of None \<Rightarrow> False | Some x \<Rightarrow> x \<le> now)"

definition settlement_order :: "settlement_row \<Rightarrow> timestamp \<times> string" where
  "settlement_order r = (pl_updated_at r, pl_command_id r)"

definition required_records :: "payment_store \<Rightarrow> payment_workflow \<Rightarrow> py_error \<Rightarrow> financial_records res" where
  "required_records db w err =
     bind_res (payment_financial_records db w) (\<lambda>records.
     case records of None \<Rightarrow> Inl err | Some fr \<Rightarrow> Inr fr)"

definition insert_payment_jobs ::
  "string \<Rightarrow> payment_store \<Rightarrow> settlement_command \<Rightarrow> payment_policy \<Rightarrow> settlement_outcome \<Rightarrow> timestamp
   \<Rightarrow> payment_store res" where
  "insert_payment_jobs operation db command policy outcome created_at =
     bind_res (required_payment_effects outcome policy) (\<lambda>jobs.
     bind_res (fold (\<lambda>job rows. bind_res rows (insert_unique pb_message_id operation
         (let effect_id = payment_effect_id (sc_id command) (pj_kind job)
          in \<lparr>pb_message_id = effect_id, pb_idempotency_key = effect_id, pb_effect_id = effect_id,
              pb_payment_id = sc_payment_id command, pb_version = sc_version command,
              pb_signature = sc_signature command, pb_command_id = sc_id command, pb_kind = pj_kind job,
              pb_template = payment_effect_value (pj_kind job), pb_job = job, pb_status = EFFECT_PENDING,
              pb_owner = None, pb_token = 0, pb_acquired_at = None, pb_expires_at = None, pb_attempts = 0,
              pb_delivered_at = None, pb_receipt_hash = None, pb_created_at = created_at,
              pb_updated_at = created_at, pb_slots = 0, pb_authority = no_authority,
              pb_deadline = None, pb_cas = 0\<rparr>)))
       jobs (Inr (pd_outbox db))) (\<lambda>rows.
     Inr (db\<lparr>pd_outbox := rows\<rparr>)))"

section \<open>Claiming\<close>

definition settlement_candidates :: "payment_store \<Rightarrow> settlement_row list" where
  "settlement_candidates db = sort_key settlement_order
     (filter (\<lambda>r. pl_status r \<in> {SETTLEMENT_QUEUED, SETTLEMENT_LEASED} \<and> pl_slots r = 0 \<and> pl_outcome r = None)
       (pd_ledger db))"

fun select_settlement :: "payment_store \<Rightarrow> timestamp \<Rightarrow> settlement_row list \<Rightarrow> financial_records option res" where
  "select_settlement db now [] = Inr None"
| "select_settlement db now (row # rows) =
     bind_res (load_payment db (pl_payment_id row)) (\<lambda>(w, _).
     bind_res (required_records db w (DataCorruption ''claimable ledger lacks financial records'')) (\<lambda>fr.
     bind_res (corrupt_if (sc_id (fr_command fr) \<noteq> pl_command_id row)
       ''claimable ledger command selection is divergent'') (\<lambda>_.
     let ledger = fr_ledger fr
     in if lv_count ledger \<ge> max_pre_dispatch_claims then select_settlement db now rows
        else if lv_status ledger = SETTLEMENT_QUEUED
          \<or> lv_status ledger = SETTLEMENT_LEASED
            \<and> (case lv_lease ledger of None \<Rightarrow> False | Some l \<Rightarrow> now \<ge> sl_expires l)
        then Inr (Some fr)
        else select_settlement db now rows)))"

definition claim_settlement ::
  "payment_store \<Rightarrow> string \<Rightarrow> timestamp \<Rightarrow> timedelta \<Rightarrow> (payment_store \<times> settlement_claim option) res" where
  "claim_settlement db worker_id now lease_ttl =
     bind_res (exact_text worker_id ''worker_id'') (\<lambda>worker.
     bind_res (positive_ttl lease_ttl) (\<lambda>ttl.
     bind_res (select_settlement db now (settlement_candidates db)) (\<lambda>selected.
     case selected of
       None \<Rightarrow> Inr (db, None)
     | Some fr \<Rightarrow>
         (case add_timedelta now ttl of
            None \<Rightarrow> Inl (OverflowError ''date value out of range'')
          | Some expires_at \<Rightarrow>
              let command = fr_command fr; ledger = fr_ledger fr; claim_count = lv_count ledger + 1
              in bind_res (update_settlement db
                   (\<lambda>r. pl_command_id r = sc_id command \<and> pl_token r = lv_token ledger
                      \<and> pl_count r = lv_count ledger \<and> pl_slots r = 0
                      \<and> (if lv_status ledger = SETTLEMENT_QUEUED
                         then pl_status r = SETTLEMENT_QUEUED \<and> pl_owner r = None
                         else pl_status r = SETTLEMENT_LEASED \<and> pl_owner r = map_option sl_owner (lv_lease ledger)
                              \<and> pl_expires_at r = map_option sl_expires (lv_lease ledger)))
                   (leased_settlement worker now expires_at claim_count)
                   (ConcurrencyConflict ''settlement claim lost its compare-and-swap'')) (\<lambda>db.
                 bind_res (update_claim db (sc_claim_key command) {CLAIM_IN_PROGRESS, CLAIM_RETRYABLE}
                   CLAIM_IN_PROGRESS None ''settlement claim evidence lifecycle is divergent'') (\<lambda>db.
                 bind_res (mk_settlement_lease worker claim_count now expires_at) (\<lambda>lease.
                 bind_res (mk_settlement_claim command lease claim_count) (\<lambda>claim.
                 Inr (db, Some claim)))))))))"

definition assert_live_settlement_claim ::
  "settlement_claim \<Rightarrow> timestamp \<Rightarrow> financial_records \<Rightarrow> unit res" where
  "assert_live_settlement_claim claim now fr =
     (let ledger = fr_ledger fr
      in if fr_command fr \<noteq> sn_command claim \<or> lv_status ledger \<noteq> SETTLEMENT_LEASED
            \<or> lv_lease ledger \<noteq> Some (sn_lease claim) \<or> lv_token ledger \<noteq> sl_token (sn_lease claim)
            \<or> lv_count ledger \<noteq> sn_count claim \<or> lv_slots ledger \<noteq> 0 \<or> lv_outcome ledger \<noteq> None
            \<or> ec_status (fr_claim fr) \<noteq> CLAIM_IN_PROGRESS \<or> now \<ge> sl_expires (sn_lease claim)
         then Inl (StaleLease ''settlement claim is expired, superseded, or divergent'') else Inr ())"

section \<open>Events of a settlement\<close>

definition not_dispatched_outcome :: settlement_outcome where
  "not_dispatched_outcome = \<lparr>so_certainty = NOT_DISPATCHED, so_payment_registered = False,
     so_target_confirmed = False, so_provider_reference = None, so_requires_reconciliation = False,
     so_claim_evidence = []\<rparr>"

definition unknown_settlement :: "string \<Rightarrow> settlement_outcome" where
  "unknown_settlement request_hash = \<lparr>so_certainty = DISPATCHED_UNKNOWN, so_payment_registered = False,
     so_target_confirmed = False, so_provider_reference = None, so_requires_reconciliation = True,
     so_claim_evidence = [request_hash]\<rparr>"

definition finish_event :: "settlement_command \<Rightarrow> settlement_outcome \<Rightarrow> timestamp \<Rightarrow> settlement_finished" where
  "finish_event command outcome now =
     \<lparr>sf_event_id = settlement_event_id ''finish'' (sc_id command), sf_payment_id = sc_payment_id command,
      sf_version = sc_version command, sf_signature = sc_signature command, sf_command_id = sc_id command,
      sf_outcome = outcome, sf_finished_at = now\<rparr>"

definition start_event :: "settlement_command \<Rightarrow> timestamp \<Rightarrow> settlement_started" where
  "start_event command now =
     \<lparr>ss_event_id = settlement_event_id ''start'' (sc_id command), ss_payment_id = sc_payment_id command,
      ss_version = sc_version command, ss_signature = sc_signature command, ss_command_id = sc_id command,
      ss_idempotency_key = sc_idempotency_key command, ss_started_at = now\<rparr>"

text \<open>
  The tail every closing operation shares: the ledger row closed under its \<open>WHERE\<close> condition, the
  evidence claim consumed, the effects of the outcome queued and the finish event persisted. The
  effects are those of the stored command, the rest names the command the operation works on.
\<close>

definition close_settlement ::
  "string \<Rightarrow> payment_store \<Rightarrow> settlement_command \<Rightarrow> settlement_command \<Rightarrow> payment_workflow \<Rightarrow> int
   \<Rightarrow> (settlement_row \<Rightarrow> bool) \<Rightarrow> settlement_status \<Rightarrow> claim_status \<Rightarrow> settlement_outcome \<Rightarrow> timestamp
   \<Rightarrow> string \<Rightarrow> string \<Rightarrow> (payment_store \<times> payment_transition) res" where
  "close_settlement operation db command stored current revision held status claim_status outcome now lost_msg evidence_msg =
     (let e = SettlementFinished (finish_event command outcome now)
      in bind_res (mk_payment_event e) (\<lambda>_.
         bind_res (reduce_payment current e) (\<lambda>t.
         bind_res (update_settlement db held (closed_settlement status outcome now) (StaleLease lost_msg)) (\<lambda>db.
         bind_res (update_claim db (sc_claim_key command) {CLAIM_IN_PROGRESS} claim_status (Some now) evidence_msg) (\<lambda>db.
         bind_res (insert_payment_jobs operation db stored (pw_policy current) outcome now) (\<lambda>db.
         bind_res (persist_transition operation db current revision e t) (\<lambda>db.
         Inr (db, t))))))))"

section \<open>Release before dispatch\<close>

definition release_pre_dispatch_settlement ::
  "payment_store \<Rightarrow> settlement_claim \<Rightarrow> bool \<Rightarrow> timestamp \<Rightarrow> (payment_store \<times> release_disposition) res" where
  "release_pre_dispatch_settlement db claim retryable now =
     (let command = sn_command claim; lease = sn_lease claim
      in bind_res (load_payment db (sc_payment_id command)) (\<lambda>(current, revision).
         bind_res (required_records db current (DataCorruption ''settlement release lacks financial records'')) (\<lambda>fr.
         bind_res (assert_live_settlement_claim claim now fr) (\<lambda>_.
         if retryable \<and> sn_count claim < max_pre_dispatch_claims
         then bind_res (update_settlement db (held_settlement (sc_id command) lease (sn_count claim))
                (requeued_settlement now) (StaleLease ''settlement release lost its live lease'')) (\<lambda>db.
              bind_res (update_claim db (sc_claim_key command) {CLAIM_IN_PROGRESS} CLAIM_RETRYABLE None
                ''settlement release evidence lifecycle is divergent'') (\<lambda>db.
              Inr (db, SETTLEMENT_REQUEUED)))
         else bind_res (mk_settlement_outcome not_dispatched_outcome) (\<lambda>outcome.
              bind_res (close_settlement ''release_pre_dispatch_settlement'' db command command current revision
                (held_settlement (sc_id command) lease (sn_count claim)) SETTLEMENT_RECORDED CLAIM_COMPLETED
                outcome now ''terminal settlement release lost its live lease''
                ''terminal settlement evidence lifecycle is divergent'') (\<lambda>(db, _).
              Inr (db, TERMINAL_NOT_DISPATCHED)))))))"

section \<open>The permanent fence\<close>

definition fence_settlement ::
  "payment_store \<Rightarrow> settlement_claim \<Rightarrow> string \<Rightarrow> timestamp \<Rightarrow> (payment_store \<times> settlement_permit) res" where
  "fence_settlement db claim request now =
     (let command = sn_command claim; lease = sn_lease claim
      in bind_res (reject_if (request \<noteq> sc_payload command)
           ''settlement fence request must equal the canonical command payload'') (\<lambda>_.
         bind_res (load_payment db (sc_payment_id command)) (\<lambda>(current, revision).
         bind_res (required_records db current (DataCorruption ''settlement fence lacks financial records'')) (\<lambda>fr.
         bind_res (assert_live_settlement_claim claim now fr) (\<lambda>_.
         let request_hash = sha256_hex request; e = SettlementStarted (start_event command now)
         in bind_res (mk_payment_event e) (\<lambda>_.
            bind_res (reduce_payment current e) (\<lambda>t.
            bind_res (update_settlement db (held_settlement (sc_id command) lease (sn_count claim))
              (fenced_settlement request_hash now) (StaleLease ''settlement fence lost its live lease'')) (\<lambda>db.
            bind_res (persist_transition ''fence_settlement'' db current revision e t) (\<lambda>db.
            bind_res (mk_settlement_permit command lease (sn_count claim) 1 request_hash now) (\<lambda>permit.
            Inr (db, permit)))))))))))"

definition assert_live_settlement_permit :: "payment_store \<Rightarrow> settlement_permit \<Rightarrow> timestamp \<Rightarrow> unit res" where
  "assert_live_settlement_permit db permit now =
     bind_res (load_payment db (sc_payment_id (sp_command permit))) (\<lambda>(w, _).
     bind_res (required_records db w (StaleLease ''settlement financial records are unavailable'')) (\<lambda>fr.
     let ledger = fr_ledger fr
     in if fr_command fr \<noteq> sp_command permit \<or> lv_status ledger \<noteq> SETTLEMENT_FENCED \<or> lv_outcome ledger \<noteq> None
           \<or> lv_lease ledger \<noteq> Some (sp_lease permit) \<or> lv_token ledger \<noteq> sl_token (sp_lease permit)
           \<or> lv_count ledger \<noteq> sp_count permit \<or> lv_slots ledger \<noteq> 1
           \<or> lv_request_hash ledger \<noteq> Some (sp_request_hash permit)
           \<or> lv_fenced_at ledger \<noteq> Some (sp_fenced_at permit) \<or> ec_status (fr_claim fr) \<noteq> CLAIM_IN_PROGRESS
           \<or> \<not> (sp_fenced_at permit \<le> now \<and> now < sl_expires (sp_lease permit))
        then Inl (StaleLease ''settlement dispatch lost its permanent fence'') else Inr ()))"

section \<open>Recording an outcome\<close>

definition outcome_settlement_status :: "settlement_outcome \<Rightarrow> settlement_status" where
  "outcome_settlement_status u = (if so_certainty u = SETTLED then SETTLEMENT_RECORDED else SETTLEMENT_REVIEW)"

definition outcome_claim_status :: "settlement_outcome \<Rightarrow> claim_status" where
  "outcome_claim_status u = (if so_certainty u = SETTLED then CLAIM_COMPLETED else CLAIM_MANUAL_REVIEW)"

text \<open>The rows a fence holds.\<close>

definition fenced_under :: "string \<Rightarrow> settlement_lease \<Rightarrow> int \<Rightarrow> string \<Rightarrow> timestamp \<Rightarrow> settlement_row \<Rightarrow> bool" where
  "fenced_under command_id lease claim_count request_hash fenced_at r \<longleftrightarrow>
     pl_command_id r = command_id \<and> pl_status r = SETTLEMENT_FENCED \<and> pl_owner r = Some (sl_owner lease)
     \<and> pl_token r = sl_token lease \<and> pl_count r = claim_count \<and> pl_slots r = 1
     \<and> pl_request_hash r = Some request_hash \<and> pl_fenced_at r = Some fenced_at"

text \<open>
  The transaction of the operation once the payment and its records are read: the replay of a recorded
  outcome, or the closing of the fenced command. Only the replay compares the stored command.
\<close>

definition record_loaded ::
  "payment_store \<Rightarrow> settlement_claim \<Rightarrow> settlement_permit \<Rightarrow> settlement_outcome \<Rightarrow> timestamp
   \<Rightarrow> payment_workflow \<Rightarrow> int \<Rightarrow> financial_records \<Rightarrow> (payment_store \<times> payment_transition) res" where
  "record_loaded db claim permit outcome now current revision fr =
     (let command = sn_command claim; lease = sn_lease claim; ledger = fr_ledger fr
      in case lv_outcome ledger of
           Some u \<Rightarrow>
             if u = outcome \<and> fr_command fr = command \<and> lv_token ledger = sl_token lease
                \<and> lv_count ledger = sn_count claim \<and> lv_slots ledger = 1
                \<and> lv_request_hash ledger = Some (sp_request_hash permit)
                \<and> lv_fenced_at ledger = Some (sp_fenced_at permit)
             then Inr (db, noop current)
             else Inl (IdentityConflict ''settlement outcome replay is divergent'')
         | None \<Rightarrow>
             if lv_status ledger \<noteq> SETTLEMENT_FENCED \<or> lv_lease ledger \<noteq> Some lease
                \<or> lv_token ledger \<noteq> sl_token lease \<or> lv_count ledger \<noteq> sn_count claim \<or> lv_slots ledger \<noteq> 1
                \<or> lv_request_hash ledger \<noteq> Some (sp_request_hash permit)
                \<or> lv_fenced_at ledger \<noteq> Some (sp_fenced_at permit)
                \<or> ec_status (fr_claim fr) \<noteq> CLAIM_IN_PROGRESS \<or> now \<ge> sl_expires lease
             then Inl (StaleLease ''settlement outcome lost its permanent fence'')
             else close_settlement ''record_settlement_outcome'' db command (fr_command fr) current revision
                    (\<lambda>r. fenced_under (sc_id command) lease (sn_count claim) (sp_request_hash permit)
                           (sp_fenced_at permit) r \<and> \<not> expired_settlement now r)
                    (outcome_settlement_status outcome) (outcome_claim_status outcome) outcome now
                    ''settlement outcome lost its permanent fence''
                    ''settlement outcome evidence lifecycle is divergent'')"

definition record_settlement_outcome ::
  "payment_store \<Rightarrow> settlement_claim \<Rightarrow> settlement_permit \<Rightarrow> settlement_outcome \<Rightarrow> timestamp
   \<Rightarrow> (payment_store \<times> payment_transition) res" where
  "record_settlement_outcome db claim permit outcome now =
     (let command = sn_command claim; lease = sn_lease claim
      in bind_res (mk_settlement_lease (sl_owner lease) (sl_token lease) (sl_acquired lease) (sl_expires lease)) (\<lambda>cl.
         bind_res (mk_settlement_claim command cl (sn_count claim)) (\<lambda>clean_claim.
         bind_res (mk_settlement_lease (sl_owner (sp_lease permit)) (sl_token (sp_lease permit))
           (sl_acquired (sp_lease permit)) (sl_expires (sp_lease permit))) (\<lambda>pl.
         bind_res (mk_settlement_permit (sp_command permit) pl (sp_count permit) (sp_slot permit)
           (sp_request_hash permit) (sp_fenced_at permit)) (\<lambda>clean_permit.
         bind_res (reject_if (clean_claim \<noteq> claim \<or> clean_permit \<noteq> permit)
           ''settlement outcome claim or permit is noncanonical'') (\<lambda>_.
         if sp_command permit \<noteq> command \<or> sp_lease permit \<noteq> lease \<or> sp_count permit \<noteq> sn_count claim
         then Inl (StaleLease ''settlement permit does not bind the claim'')
         else
         bind_res (reject_if (so_certainty outcome = NOT_DISPATCHED)
           ''not_dispatched is valid only before the permanent fence'') (\<lambda>_.
         bind_res (reject_if (sp_request_hash permit \<notin> set (so_claim_evidence outcome))
           ''settlement outcome does not cite the fenced request'') (\<lambda>_.
         bind_res (load_payment db (sc_payment_id command)) (\<lambda>(current, revision).
         bind_res (required_records db current (DataCorruption ''settlement outcome lacks financial records'')) (\<lambda>fr.
         record_loaded db claim permit outcome now current revision fr))))))))))"

section \<open>Recovering expired leases\<close>

definition expired_candidates :: "payment_store \<Rightarrow> timestamp \<Rightarrow> settlement_status \<Rightarrow> int \<Rightarrow> settlement_row list" where
  "expired_candidates db now status slots = sort_key settlement_order
     (filter (\<lambda>r. pl_status r = status \<and> pl_slots r = slots \<and> pl_outcome r = None \<and> expired_settlement now r)
       (pd_ledger db))"

text \<open>Both recoveries work on the oldest candidate only, from its loaded payment and records on.\<close>

definition recover_pre_loaded ::
  "payment_store \<Rightarrow> timestamp \<Rightarrow> settlement_row \<Rightarrow> payment_workflow \<Rightarrow> int \<Rightarrow> financial_records
   \<Rightarrow> (payment_store \<times> (release_disposition \<times> string) option) res" where
  "recover_pre_loaded db now row current revision fr =
     (let command = fr_command fr; ledger = fr_ledger fr
      in case lv_lease ledger of
           None \<Rightarrow> Inl (DataCorruption ''expired pre-fence settlement is divergent'')
         | Some lease \<Rightarrow>
             bind_res (corrupt_if
               (sc_id command \<noteq> pl_command_id row \<or> lv_status ledger \<noteq> SETTLEMENT_LEASED
                \<or> lv_slots ledger \<noteq> 0 \<or> lv_outcome ledger \<noteq> None \<or> now < sl_expires lease
                \<or> ec_status (fr_claim fr) \<noteq> CLAIM_IN_PROGRESS)
               ''expired pre-fence settlement is divergent'') (\<lambda>_.
             let held = (\<lambda>r. held_settlement (sc_id command) lease (lv_count ledger) r \<and> expired_settlement now r)
             in if lv_count ledger < max_pre_dispatch_claims
                then bind_res (update_settlement db held (requeued_settlement now)
                       (StaleLease ''expired pre-fence recovery lost its lease'')) (\<lambda>db.
                     bind_res (update_claim db (sc_claim_key command) {CLAIM_IN_PROGRESS} CLAIM_RETRYABLE None
                       ''pre-fence recovery evidence lifecycle is divergent'') (\<lambda>db.
                     Inr (db, Some (SETTLEMENT_REQUEUED, sc_id command))))
                else bind_res (mk_settlement_outcome not_dispatched_outcome) (\<lambda>outcome.
                     bind_res (close_settlement ''recover_expired_pre_dispatch_settlement'' db command command current
                       revision held SETTLEMENT_RECORDED CLAIM_COMPLETED outcome now
                       ''terminal pre-fence recovery lost its lease''
                       ''terminal pre-fence evidence lifecycle is divergent'') (\<lambda>(db, _).
                     Inr (db, Some (TERMINAL_NOT_DISPATCHED, sc_id command))))))"

definition recover_expired_pre_dispatch_settlement ::
  "payment_store \<Rightarrow> timestamp \<Rightarrow> (payment_store \<times> (release_disposition \<times> string) option) res" where
  "recover_expired_pre_dispatch_settlement db now =
     (case expired_candidates db now SETTLEMENT_LEASED 0 of
        [] \<Rightarrow> Inr (db, None)
      | row # _ \<Rightarrow>
          bind_res (load_payment db (pl_payment_id row)) (\<lambda>(current, revision).
          bind_res (required_records db current (DataCorruption ''expired pre-fence ledger lacks financial records''))
            (recover_pre_loaded db now row current revision)))"

definition recover_fenced_loaded ::
  "payment_store \<Rightarrow> timestamp \<Rightarrow> settlement_row \<Rightarrow> payment_workflow \<Rightarrow> int \<Rightarrow> financial_records
   \<Rightarrow> (payment_store \<times> string option) res" where
  "recover_fenced_loaded db now row current revision fr =
     (let command = fr_command fr; ledger = fr_ledger fr
      in case (lv_lease ledger, lv_request_hash ledger, lv_fenced_at ledger) of
           (Some lease, Some request_hash, Some fenced_at) \<Rightarrow>
             bind_res (corrupt_if
               (sc_id command \<noteq> pl_command_id row \<or> lv_status ledger \<noteq> SETTLEMENT_FENCED
                \<or> lv_slots ledger \<noteq> 1 \<or> lv_outcome ledger \<noteq> None \<or> now < sl_expires lease
                \<or> \<not> hash_re request_hash \<or> ec_status (fr_claim fr) \<noteq> CLAIM_IN_PROGRESS)
               ''expired fenced settlement is divergent'') (\<lambda>_.
             bind_res (mk_settlement_outcome (unknown_settlement request_hash)) (\<lambda>outcome.
             bind_res (close_settlement ''recover_expired_fenced_settlement'' db command command current revision
               (\<lambda>r. fenced_under (sc_id command) lease (lv_count ledger) request_hash fenced_at r
                  \<and> expired_settlement now r)
               SETTLEMENT_REVIEW CLAIM_MANUAL_REVIEW outcome now
               ''expired fenced recovery lost its permanent fence''
               ''fenced recovery evidence lifecycle is divergent'') (\<lambda>(db, _).
             Inr (db, Some (sc_id command)))))
         | _ \<Rightarrow> Inl (DataCorruption ''expired fenced settlement is divergent''))"

definition recover_expired_fenced_settlement ::
  "payment_store \<Rightarrow> timestamp \<Rightarrow> (payment_store \<times> string option) res" where
  "recover_expired_fenced_settlement db now =
     (case expired_candidates db now SETTLEMENT_FENCED 1 of
        [] \<Rightarrow> Inr (db, None)
      | row # _ \<Rightarrow>
          bind_res (load_payment db (pl_payment_id row)) (\<lambda>(current, revision).
          bind_res (required_records db current (DataCorruption ''expired fenced ledger lacks financial records''))
            (recover_fenced_loaded db now row current revision)))"

end
