(* ===== verification/Pay_Outbox.thy ===== *)
theory Pay_Outbox
  imports Pay_Settlement
begin

text \<open>
  \<^verbatim>\<open>reservation_followup/sqlite_store.py\<close>, the delivery of payment effects: claiming the next effect
  under a lease, releasing it and completing it with a receipt. In a version 2 store the first claim
  of an effect fixes its dispatch deadline, which only an observation may pass.
\<close>

section \<open>Live claims\<close>

definition claim_payment_job :: "payment_outbox_claim \<Rightarrow> payment_outbox_claim res" where
  "claim_payment_job c =
     bind_res (mk_payment_outbox_claim c) (\<lambda>clean.
     bind_res (reject_if (clean \<noteq> c) ''payment outbox claim is noncanonical'') (\<lambda>_. Inr clean))"

definition effect_row_of :: "payment_store \<Rightarrow> string \<Rightarrow> effect_row option" where
  "effect_row_of db message_id = find_row pb_message_id message_id (pd_outbox db)"

definition assert_payment_claim_binding :: "payment_outbox_claim \<Rightarrow> effect_row option \<Rightarrow> effect_row res" where
  "assert_payment_claim_binding c found =
     bind_res (claim_payment_job c) (\<lambda>clean.
     case found of
       None \<Rightarrow> Inl (StaleLease ''payment outbox message no longer exists'')
     | Some row \<Rightarrow>
         let job = pb_job row
         in bind_res (as_corruption ''payment outbox payload wire value is invalid''
              (mk_payment_job (pj_kind job) (pj_required job) (pj_outcome job))) (\<lambda>message.
            let expected_id = payment_effect_id (po_command_id clean) (pj_kind message)
            in if message \<noteq> po_message clean \<or> po_message_id clean \<noteq> expected_id \<or> pb_message_id row \<noteq> expected_id
                  \<or> pb_idempotency_key row \<noteq> expected_id \<or> pb_effect_id row \<noteq> expected_id
                  \<or> pb_payment_id row \<noteq> po_payment_id clean \<or> pb_version row \<noteq> po_version clean
                  \<or> pb_signature row \<noteq> po_signature clean \<or> pb_command_id row \<noteq> po_command_id clean
                  \<or> pb_kind row \<noteq> pj_kind message \<or> pb_template row \<noteq> payment_effect_value (pj_kind message)
               then Inl (IdentityConflict ''payment claim message binding is divergent'')
               else Inr row))"

definition assert_live_payment_claim :: "payment_store \<Rightarrow> payment_outbox_claim \<Rightarrow> timestamp \<Rightarrow> effect_row res" where
  "assert_live_payment_claim db c now =
     bind_res (exact_text (po_message_id c) ''message_id'') (\<lambda>mid.
     bind_res (assert_payment_claim_binding c (effect_row_of db mid)) (\<lambda>row.
     if pb_status row \<noteq> EFFECT_LEASED
        \<or> pb_owner row \<noteq> Some (payment_claim_owner (po_worker_id c) (po_delivery_id c) (po_delivery_version c))
        \<or> pb_token row \<noteq> po_token c \<or> pb_acquired_at row \<noteq> Some (po_acquired c)
        \<or> pb_expires_at row \<noteq> Some (po_expires c) \<or> pb_attempts row \<noteq> po_attempts c
        \<or> po_token c \<noteq> po_attempts c \<or> now < po_acquired c \<or> now \<ge> po_expires c
        \<or> pb_delivered_at row \<noteq> None \<or> pb_receipt_hash row \<noteq> None
     then Inl (StaleLease ''payment outbox lease is stale, expired, or divergent'')
     else Inr row))"

definition update_effect ::
  "payment_store \<Rightarrow> (effect_row \<Rightarrow> bool) \<Rightarrow> (effect_row \<Rightarrow> effect_row) \<Rightarrow> py_error \<Rightarrow> payment_store res" where
  "update_effect db p f err =
     bind_res (swap_one p f err (pd_outbox db)) (\<lambda>rows. Inr (db\<lparr>pd_outbox := rows\<rparr>))"

section \<open>Claiming\<close>

fun effect_rank :: "payment_effect_kind \<Rightarrow> nat" where
  "effect_rank PAID_STATE_TRANSITION = 0"
| "effect_rank CUSTOMER_PAYMENT_CONFIRMATION = 1"
| "effect_rank MANUAL_REVIEW_EFFECT = 2"
| "effect_rank BOOKING_FORM = 3"
| "effect_rank INTERNAL_PAYMENT_EMAIL = 4"

definition effect_order :: "effect_row \<Rightarrow> nat \<times> timestamp \<times> string" where
  "effect_order r = (effect_rank (pb_kind r), pb_created_at r, pb_message_id r)"

definition effect_expired :: "timestamp \<Rightarrow> effect_row \<Rightarrow> bool" where
  "effect_expired now r \<longleftrightarrow> (case pb_expires_at r of None \<Rightarrow> False | Some x \<Rightarrow> x \<le> now)"

definition observable_effect :: "effect_row \<Rightarrow> bool" where
  "observable_effect r \<longleftrightarrow> pb_slots r = 0
     \<and> pb_kind r \<in> {PAID_STATE_TRANSITION, CUSTOMER_PAYMENT_CONFIRMATION, MANUAL_REVIEW_EFFECT}"

definition claimable_effect :: "bool \<Rightarrow> timestamp \<Rightarrow> effect_row \<Rightarrow> bool" where
  "claimable_effect observation_only now r \<longleftrightarrow>
     (observation_only \<longrightarrow> observable_effect r)
     \<and> (pb_status r = EFFECT_PENDING \<and> pb_owner r = None \<or> pb_status r = EFFECT_LEASED \<and> effect_expired now r)"

text \<open>The loads of every payment that has an outcome, for their check of the outbox.\<close>

definition load_terminal_payments :: "payment_store \<Rightarrow> unit res" where
  "load_terminal_payments db =
     bind_res (map_res (\<lambda>r. load_payment db (pl_payment_id r))
       (sort_key pl_payment_id (filter (\<lambda>r. pl_outcome r \<noteq> None) (pd_ledger db)))) (\<lambda>_. Inr ())"

definition leased_effect :: "string \<Rightarrow> timestamp \<Rightarrow> timestamp \<Rightarrow> effect_row \<Rightarrow> effect_row" where
  "leased_effect owner now expires_at r =
     r\<lparr>pb_status := EFFECT_LEASED, pb_owner := Some owner, pb_token := pb_token r + 1,
       pb_acquired_at := Some now, pb_expires_at := Some expires_at, pb_attempts := pb_attempts r + 1,
       pb_updated_at := now\<rparr>"

definition free_effect :: "timestamp \<Rightarrow> effect_row \<Rightarrow> bool" where
  "free_effect now r \<longleftrightarrow>
     pb_status r = EFFECT_PENDING \<and> pb_owner r = None \<and> pb_acquired_at r = None \<and> pb_expires_at r = None
     \<or> pb_status r = EFFECT_LEASED \<and> effect_expired now r"

text \<open>The compare-and-swap of both schema versions: the second fixes and checks the dispatch deadline.\<close>

definition lease_effect ::
  "bool \<Rightarrow> payment_store \<Rightarrow> string \<Rightarrow> timestamp \<Rightarrow> timestamp \<Rightarrow> effect_row \<Rightarrow> payment_store res" where
  "lease_effect observation_only db owner now expires_at row =
     (if pd_v2 db
      then let deadline = or_else (pb_deadline row) expires_at
           in bind_res (reject_if (\<not> observation_only \<and> (now \<ge> deadline \<or> expires_at > deadline))
                ''payment lease exceeds immutable dispatch deadline'') (\<lambda>_.
              update_effect db
                (\<lambda>r. pb_message_id r = pb_message_id row \<and> pb_token r = pb_token row
                   \<and> pb_attempts r = pb_attempts row \<and> pb_cas r = pb_cas row \<and> free_effect now r)
                (\<lambda>r. (leased_effect owner now expires_at r)\<lparr>
                   pb_deadline := Some (or_else (pb_deadline r) deadline), pb_cas := pb_cas r + 1\<rparr>)
                (ConcurrencyConflict ''payment outbox claim lost its compare-and-swap''))
      else update_effect db
             (\<lambda>r. pb_message_id r = pb_message_id row \<and> pb_token r = pb_token row
                \<and> pb_attempts r = pb_attempts row \<and> free_effect now r)
             (leased_effect owner now expires_at)
             (ConcurrencyConflict ''payment outbox claim lost its compare-and-swap''))"

definition claimed_effect ::
  "payment_store \<Rightarrow> payment_job \<Rightarrow> string \<Rightarrow> string \<Rightarrow> string \<Rightarrow> int \<Rightarrow> payment_outbox_claim res" where
  "claimed_effect db job mid worker delivery delivery_version =
     (case effect_row_of db mid of
        None \<Rightarrow> Inl (TypeError ''object is not subscriptable'')
      | Some updated \<Rightarrow>
          (case (pb_acquired_at updated, pb_expires_at updated) of
             (Some acquired, Some expires) \<Rightarrow>
               mk_payment_outbox_claim
                 \<lparr>po_message = job, po_message_id = pb_message_id updated,
                  po_payment_id = pb_payment_id updated, po_version = pb_version updated,
                  po_signature = pb_signature updated, po_command_id = pb_command_id updated,
                  po_worker_id = worker, po_delivery_id = delivery, po_delivery_version = delivery_version,
                  po_token = pb_token updated, po_acquired = acquired, po_expires = expires,
                  po_attempts = pb_attempts updated\<rparr>
           | _ \<Rightarrow> Inl (DataCorruption ''payment outbox lease_acquired_at has the wrong SQLite type'')))"

definition claim_payment_effect ::
  "bool \<Rightarrow> payment_store \<Rightarrow> string \<Rightarrow> string \<Rightarrow> int \<Rightarrow> timestamp \<Rightarrow> timedelta
   \<Rightarrow> (payment_store \<times> payment_outbox_claim option) res" where
  "claim_payment_effect observation_only db worker_id delivery_id delivery_version now lease_ttl =
     bind_res (exact_text worker_id ''worker_id'') (\<lambda>worker.
     bind_res (exact_text delivery_id ''delivery_id'') (\<lambda>delivery.
     bind_res (reject_if (delivery_version < 1) ''delivery_version must be an integer >= 1'') (\<lambda>_.
     bind_res (positive_ttl lease_ttl) (\<lambda>ttl.
     case add_timedelta now ttl of
       None \<Rightarrow> Inl (ValueError ''lease_ttl overflows datetime range'')
     | Some expires_at \<Rightarrow>
         bind_res (load_terminal_payments db) (\<lambda>_.
         bind_res (reject_if (observation_only \<and> \<not> pd_v2 db) ''payment observations require the V2 store'') (\<lambda>_.
         case first_by effect_order (claimable_effect observation_only now) (pd_outbox db) of
           None \<Rightarrow> Inr (db, None)
         | Some row \<Rightarrow>
             bind_res (load_payment db (pb_payment_id row)) (\<lambda>_.
             bind_res (reject_if (now < pb_created_at row \<or> now < pb_updated_at row)
               ''claim time cannot predate the payment outbox state'') (\<lambda>_.
             bind_res (lease_effect observation_only db (payment_claim_owner worker delivery delivery_version)
               now expires_at row) (\<lambda>db.
             bind_res (claimed_effect db (pb_job row) (pb_message_id row) worker delivery delivery_version) (\<lambda>claim.
             Inr (db, Some claim)))))))))))"

definition claim_payment_outbox ::
  "payment_store \<Rightarrow> string \<Rightarrow> string \<Rightarrow> int \<Rightarrow> timestamp \<Rightarrow> timedelta
   \<Rightarrow> (payment_store \<times> payment_outbox_claim option) res" where
  "claim_payment_outbox = claim_payment_effect False"

definition claim_payment_observation ::
  "payment_store \<Rightarrow> string \<Rightarrow> string \<Rightarrow> int \<Rightarrow> timestamp \<Rightarrow> timedelta
   \<Rightarrow> (payment_store \<times> payment_outbox_claim option) res" where
  "claim_payment_observation = claim_payment_effect True"

section \<open>Releasing and completing\<close>

definition lease_of_claim :: "payment_outbox_claim \<Rightarrow> effect_row \<Rightarrow> effect_row \<Rightarrow> bool" where
  "lease_of_claim c row r \<longleftrightarrow>
     pb_message_id r = po_message_id c \<and> pb_status r = EFFECT_LEASED \<and> pb_owner r = pb_owner row
     \<and> pb_token r = po_token c \<and> pb_acquired_at r = Some (po_acquired c)
     \<and> pb_expires_at r = Some (po_expires c) \<and> pb_attempts r = po_attempts c"

definition released_effect :: "timestamp \<Rightarrow> effect_row \<Rightarrow> effect_row" where
  "released_effect now r =
     r\<lparr>pb_status := EFFECT_PENDING, pb_owner := None, pb_acquired_at := None, pb_expires_at := None,
       pb_updated_at := now\<rparr>"

definition release_payment_outbox ::
  "payment_store \<Rightarrow> payment_outbox_claim \<Rightarrow> timestamp \<Rightarrow> (payment_store \<times> payment_outbox_claim) res" where
  "release_payment_outbox db claim now =
     bind_res (claim_payment_job claim) (\<lambda>c.
     bind_res (load_payment db (po_payment_id c)) (\<lambda>_.
     bind_res (assert_live_payment_claim db c now) (\<lambda>row.
     bind_res (if pd_v2 db
               then update_effect db (\<lambda>r. lease_of_claim c row r \<and> pb_cas r = pb_cas row)
                      (\<lambda>r. (released_effect now r)\<lparr>pb_cas := pb_cas r + 1\<rparr>)
                      (StaleLease ''payment outbox release lost its live lease'')
               else update_effect db (lease_of_claim c row) (released_effect now)
                      (StaleLease ''payment outbox release lost its live lease'')) (\<lambda>db.
     Inr (db, c)))))"

definition delivered_effect :: "payment_receipt \<Rightarrow> timestamp \<Rightarrow> effect_row \<Rightarrow> effect_row" where
  "delivered_effect receipt now r =
     r\<lparr>pb_status := EFFECT_DELIVERED, pb_owner := None, pb_acquired_at := None, pb_expires_at := None,
       pb_delivered_at := Some (rt_delivered_at receipt), pb_receipt_hash := Some (receipt_hash receipt),
       pb_updated_at := now\<rparr>"

definition receipt_row_of :: "payment_receipt \<Rightarrow> receipt_row" where
  "receipt_row_of receipt =
     \<lparr>rr_receipt_id = rt_receipt_id receipt, rr_idempotency_key = rt_idempotency_key receipt,
      rr_message_id = rt_message_id receipt, rr_receipt = receipt, rr_hash = receipt_hash receipt,
      rr_delivered_at = rt_delivered_at receipt\<rparr>"

definition same_receipt_identity :: "payment_receipt \<Rightarrow> receipt_row \<Rightarrow> bool" where
  "same_receipt_identity receipt r \<longleftrightarrow>
     rr_receipt_id r = rt_receipt_id receipt \<or> rr_idempotency_key r = rt_idempotency_key receipt
     \<or> rr_message_id r = rt_message_id receipt"

definition delivered_with :: "payment_receipt \<Rightarrow> effect_row \<Rightarrow> bool" where
  "delivered_with receipt row \<longleftrightarrow>
     pb_status row = EFFECT_DELIVERED \<and> pb_owner row = None \<and> pb_acquired_at row = None
     \<and> pb_expires_at row = None \<and> pb_delivered_at row = Some (rt_delivered_at receipt)
     \<and> pb_receipt_hash row = Some (receipt_hash receipt)"

definition complete_payment_outbox ::
  "payment_store \<Rightarrow> payment_outbox_claim \<Rightarrow> payment_receipt \<Rightarrow> timestamp
   \<Rightarrow> (payment_store \<times> payment_outbox_claim) res" where
  "complete_payment_outbox db claim given now =
     bind_res (claim_payment_job claim) (\<lambda>c.
     bind_res (mk_payment_receipt given) (\<lambda>receipt.
     bind_res (reject_if (receipt \<noteq> given) ''payment receipt is noncanonical'') (\<lambda>_.
     bind_res (load_payment db (po_payment_id c)) (\<lambda>_.
     bind_res (exact_text (po_message_id c) ''message_id'') (\<lambda>mid.
     bind_res (assert_payment_claim_binding c (effect_row_of db mid)) (\<lambda>row.
     if rt_message_id receipt \<noteq> po_message_id c \<or> rt_idempotency_key receipt \<noteq> po_message_id c
        \<or> rt_delivery_id receipt \<noteq> po_delivery_id c \<or> rt_delivery_version receipt \<noteq> po_delivery_version c
        \<or> rt_claim_hash receipt \<noteq> outbox_claim_hash c
     then Inl (IdentityConflict ''payment receipt is not bound to its claim'')
     else case List.find (same_receipt_identity receipt) (pd_receipts db) of
       Some existing \<Rightarrow>
         if existing = receipt_row_of receipt \<and> delivered_with receipt row then Inr (db, c)
         else Inl (IdentityConflict ''payment receipt identity has divergent data'')
     | None \<Rightarrow>
         bind_res (assert_live_payment_claim db c now) (\<lambda>row.
         bind_res (reject_if (rt_delivered_at receipt < pb_created_at row \<or> rt_delivered_at receipt < po_acquired c
             \<or> now < rt_delivered_at receipt) ''payment receipt chronology is invalid'') (\<lambda>_.
         bind_res (update_effect db (lease_of_claim c row) (delivered_effect receipt now)
           (StaleLease ''payment outbox completion lost its live lease'')) (\<lambda>db.
         Inr (db\<lparr>pd_receipts := pd_receipts db @ [receipt_row_of receipt]\<rparr>, c))))))))))"

end
