(* ===== verification/Pay_Worker.thy ===== *)
theory Pay_Worker
  imports Pay_Outbox
begin

text \<open>
  The one-shot workers of \<^verbatim>\<open>reservation_followup/workers.py\<close> and the recovery of
  \<^verbatim>\<open>reservation_followup/reconciliation.py\<close>. The settlement port and the delivery port are the
  caller's code: a port is a function from what it is called with to what it returned, and the
  clock of each step is an argument. A run returns the store it leaves, whether or not it raises,
  because every call of the store is a transaction of its own.
\<close>

section \<open>Results\<close>

datatype settlement_disposition = WORKER_IDLE | PREPARATION_REQUEUED | PREPARATION_TERMINAL | WORKER_SETTLED
  | WORKER_MANUAL_REVIEW

record settlement_result =
  sw_disposition :: settlement_disposition
  sw_command_id :: "string option"

definition mk_settlement_result :: "settlement_disposition \<Rightarrow> string option \<Rightarrow> settlement_result res" where
  "mk_settlement_result disposition command_id =
     bind_res (case command_id of
                 None \<Rightarrow> Inr None
               | Some c \<Rightarrow> bind_res (require_id c ''settlement_worker_result.settlement_command_id'') (\<lambda>c. Inr (Some c)))
       (\<lambda>command_id.
     bind_res (reject_if ((disposition = WORKER_IDLE) \<noteq> (command_id = None))
       ''idle is the only settlement result without a command'') (\<lambda>_.
     Inr \<lparr>sw_disposition = disposition, sw_command_id = command_id\<rparr>))"

text \<open>
  What \<open>prepare\<close> did: a returned value (\<open>None\<close> for one that is not text), or one of the two
  preparation errors. Any other exception of the port is retried like the retryable one.
\<close>

datatype preparation = Prepared_text "string option" | Prepare_retryable | Prepare_terminal | Prepare_raised

text \<open>What \<open>dispatch\<close> did: a \<open>SettlementOutcome\<close>, another object, or an exception.\<close>

datatype dispatched = Dispatched_outcome settlement_outcome | Dispatched_other | Dispatch_raised

definition canonical_dispatch_outcome :: "dispatched \<Rightarrow> string \<Rightarrow> settlement_outcome res" where
  "canonical_dispatch_outcome candidate request_hash =
     (let unknown = mk_settlement_outcome (unknown_settlement request_hash)
      in case candidate of
           Dispatched_outcome u \<Rightarrow>
             (case mk_settlement_outcome u of
                Inl _ \<Rightarrow> unknown
              | Inr clean \<Rightarrow>
                  if clean \<noteq> u \<or> so_certainty clean = NOT_DISPATCHED \<or> request_hash \<notin> set (so_claim_evidence clean)
                  then unknown else Inr clean)
         | _ \<Rightarrow> unknown)"

section \<open>The settlement worker\<close>

text \<open>What \<open>__init__\<close> of both workers accepts: the identity of the port and of the worker, and the lease.\<close>

definition worker_configuration ::
  "string \<Rightarrow> string \<Rightarrow> int \<Rightarrow> string \<Rightarrow> timedelta \<Rightarrow> (string \<times> string) res" where
  "worker_configuration port port_id port_version worker_id lease_ttl =
     bind_res (require_id port_id (port @ ''.'' @ port @ ''_id'')) (\<lambda>pid.
     bind_res (reject_if (port_version < 1) (port @ ''.'' @ port @ ''_version must be an integer >= 1'')) (\<lambda>_.
     bind_res (reject_if (lease_ttl \<le> 0) ''lease_ttl must be a positive timedelta'') (\<lambda>_.
     bind_res (require_id worker_id ''worker_id'') (\<lambda>wid. Inr (pid, wid)))))"

text \<open>The instants at which a run reads its clock.\<close>

record settlement_clock =
  clock_claim :: timestamp
  clock_release :: timestamp
  clock_fence :: timestamp
  clock_record :: timestamp

definition preparation_retryable :: "settlement_command \<Rightarrow> preparation \<Rightarrow> bool option" where
  "preparation_retryable command p =
     (case p of
        Prepared_text request \<Rightarrow> if request = Some (sc_payload command) then None else Some False
      | Prepare_terminal \<Rightarrow> Some False
      | _ \<Rightarrow> Some True)"

definition release_disposition_result :: "release_disposition \<Rightarrow> settlement_disposition" where
  "release_disposition_result d = (if d = SETTLEMENT_REQUEUED then PREPARATION_REQUEUED else PREPARATION_TERMINAL)"

definition run_settlement_worker ::
  "(settlement_command \<Rightarrow> preparation) \<Rightarrow> (settlement_permit \<Rightarrow> dispatched) \<Rightarrow> string \<Rightarrow> timedelta
   \<Rightarrow> settlement_clock \<Rightarrow> payment_store \<Rightarrow> payment_store \<times> settlement_result res" where
  "run_settlement_worker prepare dispatch worker_id ttl clock db =
     (case claim_settlement db worker_id (clock_claim clock) ttl of
        Inl err \<Rightarrow> (db, Inl err)
      | Inr (db1, None) \<Rightarrow> (db1, mk_settlement_result WORKER_IDLE None)
      | Inr (db1, Some claim) \<Rightarrow>
          let command = sn_command claim
          in case preparation_retryable command (prepare command) of
               Some retryable \<Rightarrow>
                 (case release_pre_dispatch_settlement db1 claim retryable (clock_release clock) of
                    Inl err \<Rightarrow> (db1, Inl err)
                  | Inr (db2, d) \<Rightarrow> (db2, mk_settlement_result (release_disposition_result d) (Some (sc_id command))))
             | None \<Rightarrow>
                 (case fence_settlement db1 claim (sc_payload command) (clock_fence clock) of
                    Inl err \<Rightarrow> (db1, Inl err)
                  | Inr (db2, permit) \<Rightarrow>
                      (case canonical_dispatch_outcome (dispatch permit) (sp_request_hash permit) of
                         Inl err \<Rightarrow> (db2, Inl err)
                       | Inr outcome \<Rightarrow>
                           (case record_settlement_outcome db2 claim permit outcome (clock_record clock) of
                              Inl err \<Rightarrow> (db2, Inl err)
                            | Inr (db3, _) \<Rightarrow>
                                (db3, mk_settlement_result
                                   (if so_certainty outcome = SETTLED then WORKER_SETTLED else WORKER_MANUAL_REVIEW)
                                   (Some (sc_id command)))))))"

section \<open>The outbox worker\<close>

datatype outbox_disposition = OUTBOX_IDLE | OUTBOX_DELIVERED | OUTBOX_RETRYABLE_FAILURE

record outbox_result =
  ow_disposition :: outbox_disposition
  ow_message_id :: "string option"

definition mk_outbox_result :: "outbox_disposition \<Rightarrow> string option \<Rightarrow> outbox_result res" where
  "mk_outbox_result disposition message_id =
     bind_res (case message_id of
                 None \<Rightarrow> Inr None
               | Some m \<Rightarrow> bind_res (require_id m ''payment_outbox_worker_result.message_id'') (\<lambda>m. Inr (Some m))) (\<lambda>message_id.
     bind_res (reject_if ((disposition = OUTBOX_IDLE) \<noteq> (message_id = None))
       ''idle is the only result without a message_id'') (\<lambda>_.
     Inr \<lparr>ow_disposition = disposition, ow_message_id = message_id\<rparr>))"

text \<open>A delivery port; \<open>deliver\<close> returns a receipt, or \<open>None\<close> when it raised or returned another object.\<close>

record delivery_port =
  port_delivery_id :: string
  port_delivery_version :: int
  port_observation_only :: bool
  port_deliver :: "payment_outbox_claim \<Rightarrow> payment_receipt option"

definition run_payment_outbox_worker ::
  "delivery_port \<Rightarrow> string \<Rightarrow> timedelta \<Rightarrow> timestamp \<Rightarrow> timestamp \<Rightarrow> payment_store
   \<Rightarrow> payment_store \<times> outbox_result res" where
  "run_payment_outbox_worker port worker_id ttl now completed_at db =
     (case claim_payment_effect (port_observation_only port) db worker_id (port_delivery_id port)
             (port_delivery_version port) now ttl of
        Inl err \<Rightarrow> (db, Inl err)
      | Inr (db1, None) \<Rightarrow> (db1, mk_outbox_result OUTBOX_IDLE None)
      | Inr (db1, Some claim) \<Rightarrow>
          (case port_deliver port claim of
             None \<Rightarrow>
               (case release_payment_outbox db1 claim completed_at of
                  Inl err \<Rightarrow> (db1, Inl err)
                | Inr (db2, _) \<Rightarrow> (db2, mk_outbox_result OUTBOX_RETRYABLE_FAILURE (Some (po_message_id claim))))
           | Some receipt \<Rightarrow>
               (case complete_payment_outbox db1 claim receipt completed_at of
                  Inl err \<Rightarrow> (db1, Inl err)
                | Inr (db2, _) \<Rightarrow> (db2, mk_outbox_result OUTBOX_DELIVERED (Some (po_message_id claim))))))"

section \<open>The reconciler\<close>

datatype recovery_disposition = RECOVERY_IDLE | PRE_FENCE_REQUEUED | PRE_FENCE_TERMINAL | POST_FENCE_MANUAL_REVIEW

record recovery_result =
  rv_disposition :: recovery_disposition
  rv_command_id :: "string option"

definition mk_recovery_result :: "recovery_disposition \<Rightarrow> string option \<Rightarrow> recovery_result res" where
  "mk_recovery_result disposition command_id =
     bind_res (case command_id of
                 None \<Rightarrow> Inr None
               | Some c \<Rightarrow> bind_res (require_id c ''settlement_recovery_result.settlement_command_id'') (\<lambda>c. Inr (Some c)))
       (\<lambda>command_id.
     bind_res (reject_if ((disposition = RECOVERY_IDLE) \<noteq> (command_id = None))
       ''idle is the only recovery result without a command'') (\<lambda>_.
     Inr \<lparr>rv_disposition = disposition, rv_command_id = command_id\<rparr>))"

definition reconcile_payments :: "timestamp \<Rightarrow> payment_store \<Rightarrow> payment_store \<times> recovery_result res" where
  "reconcile_payments now db =
     (case recover_expired_fenced_settlement db now of
        Inl err \<Rightarrow> (db, Inl err)
      | Inr (db1, Some command_id) \<Rightarrow> (db1, mk_recovery_result POST_FENCE_MANUAL_REVIEW (Some command_id))
      | Inr (db1, None) \<Rightarrow>
          (case recover_expired_pre_dispatch_settlement db1 now of
             Inl err \<Rightarrow> (db1, Inl err)
           | Inr (db2, None) \<Rightarrow> (db2, mk_recovery_result RECOVERY_IDLE None)
           | Inr (db2, Some (d, command_id)) \<Rightarrow>
               (db2, mk_recovery_result (if d = SETTLEMENT_REQUEUED then PRE_FENCE_REQUEUED else PRE_FENCE_TERMINAL)
                  (Some command_id))))"

end
