(* ===== verification/Pay_Views.thy ===== *)
theory Pay_Views
  imports Pay_Worker Followup_Payment_Laws
begin

text \<open>
  What a successful load of a payment says about the tables, and which rows it depends on: the
  rows of one payment form its view, a load reads nothing else, and so an operation on another
  payment cannot disturb it.
\<close>

section \<open>Tables with unique keys\<close>

lemma find_row_iff:
  "distinct (map key rows) \<Longrightarrow> find_row key k rows = Some r \<longleftrightarrow> r \<in> set rows \<and> key r = k"
  using find_row_unique find_row_Some by metis

lemma count_filter: "count_where p rows = length (filter p rows)"
  by (simp add: count_where_def)

lemma filter_single:
  assumes "length (filter p rows) = 1" "r \<in> set rows" "p r"
  shows "filter p rows = [r]"
proof -
  have "r \<in> set (filter p rows)" using assms by simp
  then show ?thesis using assms(1) by (cases "filter p rows") (auto simp del: filter_eq_Cons_iff)
qed

lemma single_member:
  assumes "filter p rows = [r]"
  shows "r \<in> set rows \<and> p r"
proof -
  have "r \<in> set (filter p rows)" by (simp add: assms)
  then show ?thesis by simp
qed

lemma insert_unique_Inr [simp]:
  "insert_unique key op r rows = Inr rows' \<longleftrightarrow> key r \<notin> key ` set rows \<and> rows' = rows @ [r]"
  by (auto simp: insert_unique_def)

text \<open>An update that keeps a column keeps the rows selected by it, up to the update.\<close>

lemma filter_update_where:
  assumes "\<And>r. p r \<Longrightarrow> q (f r) = q r"
  shows "filter q (update_where p f rows) = update_where p f (filter q rows)"
  using assms by (induction rows) (auto simp: update_where_def)

lemma update_where_other: "(\<And>r. r \<in> set rows \<Longrightarrow> \<not> p r) \<Longrightarrow> update_where p f rows = rows"
  by (induction rows) (auto simp: update_where_def)

lemma update_where_Nil [simp]: "update_where p f [] = []"
  by (simp add: update_where_def)

lemma update_where_Cons [simp]:
  "update_where p f (r # rs) = (if p r then f r else r) # update_where p f rs"
  by (simp add: update_where_def)

lemma map_update_where:
  "(\<And>r. p r \<Longrightarrow> key (f r) = key r) \<Longrightarrow> map key (update_where p f rows) = map key rows"
  by (induction rows) auto

lemma swap_one_Some:
  assumes "distinct (map key rows)" "r \<in> set rows" "p r" "\<And>x. x \<in> set rows \<Longrightarrow> p x \<Longrightarrow> key x = key r"
  shows "swap_one p f err rows = Inr (update_where p f rows)"
proof -
  have "find_row key (key r) rows = Some r" by (rule find_row_unique [OF assms(1,2)])
  then have "count_where p rows = 1" 
    using count_where_one [of key rows "key r" r p] assms by blast
  then show ?thesis by (simp add: swap_one_Inr)
qed

lemma corrupt_if_simps [simp]: "corrupt_if False m = Inr ()" "corrupt_if True m = Inl (DataCorruption m)"
  by (simp_all add: corrupt_if_def)

section \<open>Unique keys\<close>

definition payment_keys :: "payment_store \<Rightarrow> bool" where
  "payment_keys db \<longleftrightarrow>
     distinct (map pr_id (pd_workflows db)) \<and> distinct (map pe_event_id (pd_events db))
     \<and> distinct (map pk_key (pd_claims db)) \<and> distinct (map cr_id (pd_commands db))
     \<and> distinct (map cr_idempotency_key (pd_commands db))
     \<and> distinct (map pl_command_id (pd_ledger db)) \<and> distinct (map pb_message_id (pd_outbox db))
     \<and> distinct (map rr_receipt_id (pd_receipts db)) \<and> distinct (map rr_message_id (pd_receipts db))"

section \<open>The command of a payment\<close>

lemma settlement_command_of:
  assumes "wf_payment w" "pc_command (pw_core w) = Some k"
  shows "\<exists>v. pc_verified (pw_core w) = Some v \<and> settlement_command_for (pc_subject (pw_core w)) v = Inr k"
  using wf_payment_core [OF assms(1)] assms(2)
  by (auto simp: core_ok_def check_evidence_def bind_res_Inr_iff split: option.splits)

lemma mk_settlement_command_Inr: "mk_settlement_command c payload = Inr d \<Longrightarrow> d = c"
  by (auto simp: mk_settlement_command_def bind_res_Inr_iff Let_def split: prod.splits)

lemma settlement_command_for_fields:
  assumes "settlement_command_for s v = Inr k"
  shows "sc_payment_id k = ps_payment_id s" "sc_version k = ps_version s" "sc_signature k = ps_signature s"
    "sc_claim_key k = ve_claim_key v" "sc_id k = fst (settlement_ids (ps_payment_id s) (ps_version s) (ps_signature s))"
    "sc_idempotency_key k = snd (settlement_ids (ps_payment_id s) (ps_version s) (ps_signature s))"
    "sc_payload k = dumps (JObj (settlement_payload s v))"
  using assms by (auto simp: settlement_command_for_def Let_def split: prod.splits dest!: mk_settlement_command_Inr)

lemma command_fields:
  assumes "wf_payment w" "pc_command (pw_core w) = Some k"
  shows "sc_payment_id k = ps_payment_id (pc_subject (pw_core w))" "sc_version k = ps_version (pc_subject (pw_core w))"
    "sc_signature k = ps_signature (pc_subject (pw_core w))"
  using settlement_command_of [OF assms] settlement_command_for_fields by blast+

section \<open>The financial rows as one tuple\<close>

definition tuple_rows ::
  "payment_store \<Rightarrow> string \<Rightarrow> settlement_command \<Rightarrow> claim_row \<Rightarrow> command_row \<Rightarrow> settlement_row \<Rightarrow> bool" where
  "tuple_rows db pid k c m l \<longleftrightarrow>
     filter (\<lambda>r. pk_payment_id r = pid) (pd_claims db) = [c] \<and> pk_key c = sc_claim_key k
     \<and> filter (\<lambda>r. cr_payment_id r = pid) (pd_commands db) = [m] \<and> cr_id m = sc_id k
     \<and> filter (\<lambda>r. pl_payment_id r = pid) (pd_ledger db) = [l] \<and> pl_command_id l = sc_id k"

lemma tuple_rows_mem:
  assumes "tuple_rows db pid k c m l"
  shows "c \<in> set (pd_claims db)" "m \<in> set (pd_commands db)" "l \<in> set (pd_ledger db)"
    "pk_payment_id c = pid" "cr_payment_id m = pid" "pl_payment_id l = pid"
  using assms single_member [of "\<lambda>r. pk_payment_id r = pid" "pd_claims db" c]
    single_member [of "\<lambda>r. cr_payment_id r = pid" "pd_commands db" m]
    single_member [of "\<lambda>r. pl_payment_id r = pid" "pd_ledger db" l]
  unfolding tuple_rows_def by simp_all

text \<open>What the checks of the three rows and of the outbox establish.\<close>

definition records_valid ::
  "payment_store \<Rightarrow> payment_workflow \<Rightarrow> settlement_command \<Rightarrow> claim_row \<Rightarrow> command_row \<Rightarrow> settlement_row
   \<Rightarrow> financial_records \<Rightarrow> bool" where
  "records_valid db w k c m l fr \<longleftrightarrow>
     decode_evidence_claim c w = Inr (fr_claim fr) \<and> decode_payment_command m w = Inr k
     \<and> decode_ledger l k = Inr (fr_ledger fr) \<and> validate_payment_jobs db w k (fr_ledger fr) = Inr ()
     \<and> financial_status_valid (pw_core w) (fr_ledger fr) (ec_status (fr_claim fr)) \<and> fr_command fr = k"

lemma decode_claim_row:
  assumes "decode_evidence_claim c w = Inr claim"
  shows "pk_payment_id c = ps_payment_id (pc_subject (pw_core w))" "ec_status claim = pk_status c"
  using assms by (auto simp: decode_evidence_claim_def Let_def bind_res_Inr_iff)

lemma decode_command_row: "decode_payment_command m w = Inr k' \<Longrightarrow> pc_command (pw_core w) = Some k'
    \<and> k' = cr_value m \<and> cr_id m = sc_id k' \<and> cr_payment_id m = sc_payment_id k'"
  by (auto simp: decode_payment_command_def Let_def bind_res_Inr_iff)

lemma decode_ledger_row: "decode_ledger l k = Inr v \<Longrightarrow> pl_command_id l = sc_id k \<and> pl_payment_id l = sc_payment_id k
    \<and> lv_status v = pl_status l \<and> lv_token v = pl_token l \<and> lv_count v = pl_count l \<and> lv_slots v = pl_slots l
    \<and> lv_request_hash v = pl_request_hash l \<and> lv_fenced_at v = pl_fenced_at l \<and> lv_recorded_at v = pl_recorded_at l
    \<and> decode_lease l = Inr (lv_lease v) \<and> check_dispatch l k (lv_lease v) = Inr () \<and> decode_outcome l = Inr (lv_outcome v)
    \<and> 0 \<le> pl_count l \<and> pl_count l \<le> 3 \<and> pl_token l = pl_count l \<and> pl_slots l \<in> {0, 1}"
  by (auto simp: decode_ledger_def bind_res_Inr_iff max_pre_dispatch_claims_def)

lemma financial_records_none:
  assumes "pc_command (pw_core w) = None"
  shows "payment_financial_records db w = Inr x \<longleftrightarrow>
    x = None \<and> filter (\<lambda>r. pk_payment_id r = ps_payment_id (pc_subject (pw_core w))) (pd_claims db) = []
    \<and> filter (\<lambda>r. cr_payment_id r = ps_payment_id (pc_subject (pw_core w))) (pd_commands db) = []
    \<and> filter (\<lambda>r. pl_payment_id r = ps_payment_id (pc_subject (pw_core w))) (pd_ledger db) = []"
  using assms by (auto simp: payment_financial_records_def Let_def bind_res_Inr_iff count_filter)

lemma financial_records_some:
  assumes "payment_keys db" "wf_payment w" "pc_command (pw_core w) = Some k"
  shows "payment_financial_records db w = Inr x \<longleftrightarrow>
    (\<exists>c m l fr. x = Some fr \<and> tuple_rows db (ps_payment_id (pc_subject (pw_core w))) k c m l
       \<and> records_valid db w k c m l fr)" (is "?l \<longleftrightarrow> ?r")
proof
  let ?pid = "ps_payment_id (pc_subject (pw_core w))"
  note d = assms(1) [unfolded payment_keys_def]
  assume ?l
  then obtain c m l claim k' ledger where
      n: "length (filter (\<lambda>r. pk_payment_id r = ?pid) (pd_claims db)) = 1"
        "length (filter (\<lambda>r. cr_payment_id r = ?pid) (pd_commands db)) = 1"
        "length (filter (\<lambda>r. pl_payment_id r = ?pid) (pd_ledger db)) = 1"
      and f: "find_row pk_key (sc_claim_key k) (pd_claims db) = Some c"
        "find_row cr_id (sc_id k) (pd_commands db) = Some m" "find_row pl_command_id (sc_id k) (pd_ledger db) = Some l"
      and v: "decode_evidence_claim c w = Inr claim" "decode_payment_command m w = Inr k'"
        "decode_ledger l k' = Inr ledger" "validate_payment_jobs db w k' ledger = Inr ()"
        "financial_status_valid (pw_core w) ledger (ec_status claim)"
        "x = Some \<lparr>fr_claim = claim, fr_command = k', fr_ledger = ledger\<rparr>"
    unfolding payment_financial_records_def Let_def assms(3) option.case
    by (auto simp: bind_res_Inr_iff count_filter split: option.splits)
  have k: "k' = k" using decode_command_row [OF v(2)] assms(3) by simp
  have pid: "sc_payment_id k = ?pid" using command_fields(1) [OF assms(2,3)] .
  note rows = find_row_Some [OF f(1)] find_row_Some [OF f(2)] find_row_Some [OF f(3)]
  have "filter (\<lambda>r. pk_payment_id r = ?pid) (pd_claims db) = [c]"
    using n(1) rows(1) decode_claim_row(1) [OF v(1)] by (intro filter_single) simp_all
  moreover have "cr_payment_id m = ?pid" "pl_payment_id l = ?pid"
    using decode_command_row [OF v(2)] decode_ledger_row [OF v(3)] unfolding k pid [symmetric] by blast+
  then have "filter (\<lambda>r. cr_payment_id r = ?pid) (pd_commands db) = [m]"
      "filter (\<lambda>r. pl_payment_id r = ?pid) (pd_ledger db) = [l]"
    using n(2,3) rows(2,3) by (simp_all add: filter_single del: filter_eq_Cons_iff)
  ultimately have "tuple_rows db ?pid k c m l" using rows by (simp add: tuple_rows_def)
  moreover have "records_valid db w k c m l \<lparr>fr_claim = claim, fr_command = k', fr_ledger = ledger\<rparr>"
    using v by (simp add: records_valid_def k)
  ultimately show ?r using v(6) by blast
next
  let ?pid = "ps_payment_id (pc_subject (pw_core w))"
  note d = assms(1) [unfolded payment_keys_def]
  assume ?r
  then obtain c m l fr where x: "x = Some fr" and t: "tuple_rows db ?pid k c m l" and v: "records_valid db w k c m l fr"
    by blast
  note mem = tuple_rows_mem [OF t]
  have "find_row pk_key (pk_key c) (pd_claims db) = Some c" by (rule find_row_unique) (use d mem in simp_all)
  moreover have "find_row cr_id (cr_id m) (pd_commands db) = Some m" by (rule find_row_unique) (use d mem in simp_all)
  moreover have "find_row pl_command_id (pl_command_id l) (pd_ledger db) = Some l"
    by (rule find_row_unique) (use d mem in simp_all)
  ultimately show ?l
    using t v x assms(3)
    by (cases fr) (simp add: payment_financial_records_def Let_def count_filter tuple_rows_def records_valid_def)
qed

section \<open>The outbox of an outcome\<close>

definition effect_sound ::
  "payment_store \<Rightarrow> settlement_command \<Rightarrow> timestamp option \<Rightarrow> payment_job list \<Rightarrow> effect_row \<Rightarrow> bool" where
  "effect_sound db k t jobs r \<longleftrightarrow> check_effect_binding k t jobs [] r = Inr () \<and> effect_lifecycle db r = Inr ()"

lemma check_effect_binding_seen:
  "check_effect_binding k t jobs seen r = Inr () \<longleftrightarrow>
     check_effect_binding k t jobs [] r = Inr () \<and> pb_kind r \<notin> set seen"
  by (auto simp: check_effect_binding_def Let_def bind_res_Inr_iff)

lemma check_effects_iff:
  "check_effects db k t jobs seen rows = Inr () \<longleftrightarrow>
     list_all (effect_sound db k t jobs) rows \<and> distinct (map pb_kind rows) \<and> set (map pb_kind rows) \<inter> set seen = {}"
proof (induction rows arbitrary: seen)
  case (Cons r rs)
  show ?case
    using check_effect_binding_seen [of k t jobs seen r] by (auto simp: bind_res_Inr_iff effect_sound_def Cons.IH)
qed simp

definition expected_jobs :: "payment_workflow \<Rightarrow> settlement_outcome option \<Rightarrow> payment_job list res" where
  "expected_jobs w u = (case u of None \<Rightarrow> Inr [] | Some u \<Rightarrow> required_payment_effects u (pw_policy w))"

definition payment_effects :: "payment_store \<Rightarrow> string \<Rightarrow> effect_row list" where
  "payment_effects db pid = filter (\<lambda>r. pb_payment_id r = pid) (pd_outbox db)"

lemma validate_jobs_iff:
  "validate_payment_jobs db w k ledger = Inr () \<longleftrightarrow>
     (\<exists>jobs. expected_jobs w (lv_outcome ledger) = Inr jobs
        \<and> length (payment_effects db (sc_payment_id k)) = length jobs \<and> distinct (map pj_kind jobs)
        \<and> distinct (map pb_kind (payment_effects db (sc_payment_id k)))
        \<and> (\<forall>r \<in> set (payment_effects db (sc_payment_id k)). effect_sound db k (lv_recorded_at ledger) jobs r))"
proof -
  have "mset (map pb_kind (sort_key f rows)) = mset (map pb_kind rows)" for f :: "effect_row \<Rightarrow> string" and rows
    by simp
  then have "distinct (map pb_kind (sort_key f rows)) = distinct (map pb_kind rows)"
    for f :: "effect_row \<Rightarrow> string" and rows
    using mset_eq_imp_distinct_iff by blast
  then show ?thesis
    by (auto simp: validate_payment_jobs_def Let_def bind_res_Inr_iff expected_jobs_def check_effects_iff
        payment_effects_def list_all_iff split: option.splits)
qed

section \<open>The load\<close>

definition event_history :: "payment_store \<Rightarrow> string \<Rightarrow> payment_workflow \<Rightarrow> int \<Rightarrow> bool" where
  "event_history db pid w n \<longleftrightarrow>
     (let rows = payment_event_rows db pid
      in n = int (length rows) \<and> map pe_revision rows = map int [1..<Suc (length rows)]
         \<and> (\<exists>t. new_payment (ps_anchor (pc_subject (pw_core w))) (pw_policy w) = Inr t
               \<and> replay_payment_rows pid (pt_next t) rows = Inr (w, pw_history w)))"

lemma load_payment_iff:
  "load_payment db pid = Inr (w, n) \<longleftrightarrow>
     exact_text pid ''payment_id'' = Inr pid \<and> ps_payment_id (pc_subject (pw_core w)) = pid \<and> wf_payment w
     \<and> find_row pr_id pid (pd_workflows db)
         = Some (payment_row_of w n (an_confirmed_at (ps_anchor (pc_subject (pw_core w)))) (payment_updated_at w (pw_history w)))
     \<and> event_history db pid w n \<and> (\<exists>x. payment_financial_records db w = Inr x)" (is "?l \<longleftrightarrow> ?r")
proof
  assume ?l
  then obtain row t replayed events where
      pid: "exact_text pid ''payment_id'' = Inr pid" and row: "find_row pr_id pid (pd_workflows db) = Some row"
      and w: "mk_payment_workflow (pr_state row) = Inr w"
      and rows: "map pe_revision (payment_event_rows db pid) = map int [1..<Suc (length (payment_event_rows db pid))]"
      and t: "new_payment (ps_anchor (pc_subject (pw_core w))) (pw_policy w) = Inr t"
      and rep: "replay_payment_rows pid (pt_next t) (payment_event_rows db pid) = Inr (replayed, events)"
      and eqs: "replayed = w" "events = pw_history w" "pr_id row = ps_payment_id (pc_subject (pw_core w))"
        "pr_revision row = n" "pr_version row = ps_version (pc_subject (pw_core w))"
        "pr_signature row = ps_signature (pc_subject (pw_core w))" "pr_status row = pc_status (pw_core w)"
        "pr_created_at row = an_confirmed_at (ps_anchor (pc_subject (pw_core w)))"
        "pr_updated_at row = payment_updated_at w (pw_history w)" "n = int (length (payment_event_rows db pid))"
      and fin: "\<exists>x. payment_financial_records db w = Inr x"
    unfolding load_payment_def Let_def
    by (auto simp: bind_res_Inr_iff exact_text_def split: option.splits if_splits)
  have w: "w = pr_state row" "wf_payment w"
    using mk_payment_workflow_Inr(1) [OF w] w by (simp_all add: wf_payment_def)
  have "row = payment_row_of w n (an_confirmed_at (ps_anchor (pc_subject (pw_core w)))) (payment_updated_at w (pw_history w))"
    using eqs w(1) by (cases row) (simp add: payment_row_of_def Let_def)
  moreover have "ps_payment_id (pc_subject (pw_core w)) = pid" using find_row_Some [OF row] eqs(3) by simp
  ultimately show ?r
    using pid row w(2) fin rows t rep eqs(1,2,10) by (simp add: event_history_def Let_def)
next
  assume r: ?r
  then obtain t where "new_payment (ps_anchor (pc_subject (pw_core w))) (pw_policy w) = Inr t"
      "replay_payment_rows pid (pt_next t) (payment_event_rows db pid) = Inr (w, pw_history w)"
    by (auto simp: event_history_def Let_def)
  with r show ?l
    by (auto simp: load_payment_def Let_def payment_row_of_def wf_payment_def event_history_def as_corruption_def)
qed

lemma load_payment_facts:
  assumes "load_payment db pid = Inr (w, n)"
  shows "wf_payment w" "ps_payment_id (pc_subject (pw_core w)) = pid" "event_history db pid w n"
    "find_row pr_id pid (pd_workflows db)
       = Some (payment_row_of w n (an_confirmed_at (ps_anchor (pc_subject (pw_core w)))) (payment_updated_at w (pw_history w)))"
    "\<exists>x. payment_financial_records db w = Inr x"
  using assms by (simp_all add: load_payment_iff)

section \<open>Other payments\<close>

text \<open>Two stores that have the same rows for a payment.\<close>

definition same_payment :: "string \<Rightarrow> payment_store \<Rightarrow> payment_store \<Rightarrow> bool" where
  "same_payment pid db db' \<longleftrightarrow>
     find_row pr_id pid (pd_workflows db') = find_row pr_id pid (pd_workflows db)
     \<and> filter (\<lambda>r. pe_payment_id r = pid) (pd_events db') = filter (\<lambda>r. pe_payment_id r = pid) (pd_events db)
     \<and> filter (\<lambda>r. pk_payment_id r = pid) (pd_claims db') = filter (\<lambda>r. pk_payment_id r = pid) (pd_claims db)
     \<and> filter (\<lambda>r. cr_payment_id r = pid) (pd_commands db') = filter (\<lambda>r. cr_payment_id r = pid) (pd_commands db)
     \<and> filter (\<lambda>r. pl_payment_id r = pid) (pd_ledger db') = filter (\<lambda>r. pl_payment_id r = pid) (pd_ledger db)
     \<and> payment_effects db' pid = payment_effects db pid
     \<and> (\<forall>r \<in> set (payment_effects db pid).
          filter (\<lambda>x. rr_message_id x = pb_message_id r) (pd_receipts db')
            = filter (\<lambda>x. rr_message_id x = pb_message_id r) (pd_receipts db))"

lemma find_row_filter: "find_row key k rows = find_row key k (filter (\<lambda>r. key r = k) rows)"
  by (induction rows) auto

lemma effect_lifecycle_receipts:
  assumes "filter (\<lambda>x. rr_message_id x = pb_message_id r) (pd_receipts db')
      = filter (\<lambda>x. rr_message_id x = pb_message_id r) (pd_receipts db)"
  shows "effect_lifecycle db' r = effect_lifecycle db r"
proof -
  have "receipts_for db' (pb_message_id r) = receipts_for db (pb_message_id r)"
    "find_row rr_message_id (pb_message_id r) (pd_receipts db') = find_row rr_message_id (pb_message_id r) (pd_receipts db)"
    using assms find_row_filter [of rr_message_id "pb_message_id r" "pd_receipts db"]
      find_row_filter [of rr_message_id "pb_message_id r" "pd_receipts db'"] by (simp_all add: receipts_for_def count_filter)
  then show ?thesis by (simp add: effect_lifecycle_def validate_receipt_row_def cong: option.case_cong effect_status.case_cong)
qed

lemma validate_jobs_frame:
  assumes "payment_effects db' (sc_payment_id k) = payment_effects db (sc_payment_id k)"
    and "\<And>r. r \<in> set (payment_effects db (sc_payment_id k)) \<Longrightarrow>
          filter (\<lambda>x. rr_message_id x = pb_message_id r) (pd_receipts db')
            = filter (\<lambda>x. rr_message_id x = pb_message_id r) (pd_receipts db)"
  shows "validate_payment_jobs db' w k v = Inr () \<longleftrightarrow> validate_payment_jobs db w k v = Inr ()"
  using assms(1) effect_lifecycle_receipts [OF assms(2)]
  by (auto simp: validate_jobs_iff effect_sound_def)

lemma load_payment_frame:
  assumes keys: "payment_keys db" "payment_keys db'" and same: "same_payment pid db db'"
    and load: "load_payment db pid = Inr (w, n)"
  shows "load_payment db' pid = Inr (w, n) \<and> payment_financial_records db' w = payment_financial_records db w"
proof -
  note f = load_payment_facts [OF load]
  have fin: "payment_financial_records db' w = Inr x \<longleftrightarrow> payment_financial_records db w = Inr x" for x
  proof (cases "pc_command (pw_core w)")
    case None
    then show ?thesis using same f(2) by (simp add: financial_records_none same_payment_def)
  next
    case (Some k)
    have pid: "sc_payment_id k = pid" using command_fields(1) [OF f(1) Some] f(2) by simp
    have "tuple_rows db' pid k c m l = tuple_rows db pid k c m l" for c m l
      using same by (simp add: tuple_rows_def same_payment_def)
    moreover have "records_valid db' w k c m l fr = records_valid db w k c m l fr" for c m l fr
      using validate_jobs_frame [of db' k db w] same pid by (simp add: records_valid_def same_payment_def)
    ultimately show ?thesis
      by (simp add: financial_records_some [OF keys(1) f(1) Some] financial_records_some [OF keys(2) f(1) Some] f(2))
  qed
  obtain x where "payment_financial_records db w = Inr x" using f(5) by blast
  moreover from this have "payment_financial_records db' w = Inr x" using fin by blast
  moreover have "payment_event_rows db' pid = payment_event_rows db pid"
    using same by (simp add: same_payment_def payment_event_rows_def)
  ultimately show ?thesis
    using load same by (simp add: load_payment_iff same_payment_def event_history_def)
qed

end
