(* ===== verification/Pay_Steps.thy ===== *)
theory Pay_Steps
  imports Pay_Views Fenced_Rows
begin

text \<open>
  The invariant of the payment store and the writes that keep it: keys are unique, no row is an
  orphan, and every payment loads. Each statement of an operation touches the rows of one payment
  only, so the loads of all others are untouched.
\<close>

section \<open>The invariant\<close>

definition payment_ids :: "payment_store \<Rightarrow> string set" where
  "payment_ids db = pr_id ` set (pd_workflows db)"

definition no_orphans :: "payment_store \<Rightarrow> bool" where
  "no_orphans db \<longleftrightarrow>
     pe_payment_id ` set (pd_events db) \<subseteq> payment_ids db \<and> pk_payment_id ` set (pd_claims db) \<subseteq> payment_ids db
     \<and> cr_payment_id ` set (pd_commands db) \<subseteq> payment_ids db \<and> pl_payment_id ` set (pd_ledger db) \<subseteq> payment_ids db
     \<and> pb_payment_id ` set (pd_outbox db) \<subseteq> cr_payment_id ` set (pd_commands db)
     \<and> rr_message_id ` set (pd_receipts db) \<subseteq> pb_message_id ` set (pd_outbox db)"

definition tables_ok :: "payment_store \<Rightarrow> bool" where
  "tables_ok db \<longleftrightarrow> payment_keys db \<and> no_orphans db"

definition payments_ok :: "payment_store \<Rightarrow> bool" where
  "payments_ok db \<longleftrightarrow> tables_ok db \<and> (\<forall>pid \<in> payment_ids db. \<exists>w n. load_payment db pid = Inr (w, n))"

lemma empty_payments_ok: "payments_ok (empty_payments v2)"
  by (simp add: payments_ok_def tables_ok_def payment_keys_def no_orphans_def payment_ids_def empty_payments_def)

section \<open>Touching one payment\<close>

definition touches :: "string \<Rightarrow> payment_store \<Rightarrow> payment_store \<Rightarrow> bool" where
  "touches pid db db' \<longleftrightarrow>
     tables_ok db' \<and> payment_ids db' - {pid} = payment_ids db - {pid} \<and> pd_v2 db' = pd_v2 db
     \<and> (\<forall>q. q \<noteq> pid \<longrightarrow> same_payment q db db')"

lemma same_payment_refl: "same_payment q db db"
  by (simp add: same_payment_def)

lemma same_payment_trans: "same_payment q a b \<Longrightarrow> same_payment q b c \<Longrightarrow> same_payment q a c"
  by (simp add: same_payment_def)

lemma touches_refl: "tables_ok db \<Longrightarrow> touches pid db db"
  by (simp add: touches_def same_payment_refl)

lemma touches_trans:
  assumes "touches pid a b" "touches pid b c"
  shows "touches pid a c"
proof -
  have "same_payment q a c" if "q \<noteq> pid" for q
    using assms that same_payment_trans [of q a b c] by (simp add: touches_def)
  then show ?thesis using assms by (simp add: touches_def)
qed

lemma touches_ok: "touches pid db db' \<Longrightarrow> tables_ok db'"
  by (simp add: touches_def)

lemma payments_ok_touches:
  assumes "payments_ok db" "touches pid db db'"
    and "pid \<in> payment_ids db' \<Longrightarrow> \<exists>w n. load_payment db' pid = Inr (w, n)"
  shows "payments_ok db'"
proof -
  have "\<exists>w n. load_payment db' q = Inr (w, n)" if q: "q \<in> payment_ids db'" for q
  proof (cases "q = pid")
    case False
    then have "q \<in> payment_ids db" using q assms(2) by (auto simp: touches_def)
    then obtain w n where "load_payment db q = Inr (w, n)" using assms(1) by (auto simp: payments_ok_def)
    then show ?thesis
      using load_payment_frame [of db db' q w n] assms(1,2) False
      by (auto simp: payments_ok_def touches_def tables_ok_def)
  qed (use q assms(3) in simp)
  then show ?thesis using assms(2) by (simp add: payments_ok_def touches_def)
qed

section \<open>The statements\<close>

lemma filter_update_other:
  assumes "\<And>r. r \<in> set rows \<Longrightarrow> p r \<Longrightarrow> owner r = pid" "\<And>r. owner (f r) = owner r" "q \<noteq> pid"
  shows "filter (\<lambda>r. owner r = q) (update_where p f rows) = filter (\<lambda>r. owner r = q) rows"
  using assms by (induction rows) auto

lemma image_update: "(\<And>r. key (f r) = key r) \<Longrightarrow> key ` set (update_where p f rows) = key ` set rows"
  using map_update_where [of p key f rows] by (metis set_map)

lemma update_payment_row_touches:
  assumes "tables_ok db" "update_payment_row db pid n w at = Inr db'"
  shows "touches pid db db'"
proof -
  let ?p = "\<lambda>r. pr_id r = pid \<and> pr_revision r = n"
  let ?f = "advanced_row n w at"
  have db': "db' = db\<lparr>pd_workflows := update_where ?p ?f (pd_workflows db)\<rparr>"
    using assms(2) by (auto simp: update_payment_row_def bind_res_Inr_iff swap_one_Inr)
  have m: "map pr_id (update_where ?p ?f (pd_workflows db)) = map pr_id (pd_workflows db)"
    by (rule map_update_where) simp
  then have ids: "payment_ids db' = payment_ids db" unfolding payment_ids_def db' by (simp flip: set_map)
  have other: "find_row pr_id q (update_where ?p ?f (pd_workflows db)) = find_row pr_id q (pd_workflows db)"
    if "q \<noteq> pid" for q
  proof -
    have "find_row pr_id q (update_where ?p ?f (pd_workflows db))
        = map_option (\<lambda>r. if ?p r then ?f r else r) (find_row pr_id q (pd_workflows db))"
      by (rule find_update) simp
    also have "\<dots> = find_row pr_id q (pd_workflows db)"
    proof (cases "find_row pr_id q (pd_workflows db)")
      case (Some r)
      then have "pr_id r \<noteq> pid" using that find_row_Some [OF Some] by simp
      with Some show ?thesis by simp
    qed simp
    finally show ?thesis .
  qed
  have "same_payment q db db'" if "q \<noteq> pid" for q
    unfolding same_payment_def db' using other [OF that] by (simp add: payment_effects_def)
  moreover have "tables_ok db'"
    using assms(1) m ids unfolding tables_ok_def payment_keys_def no_orphans_def by (simp add: db')
  ultimately show ?thesis
    using ids unfolding touches_def by (simp add: db')
qed

lemma insert_payment_event_touches:
  assumes "tables_ok db" "insert_payment_event op db pid n e w = Inr db'" "pid \<in> payment_ids db"
  shows "touches pid db db'"
proof -
  let ?r = "payment_event_row_of pid n e w"
  have r: "pe_event_id ?r \<notin> pe_event_id ` set (pd_events db)" "pe_payment_id ?r = pid"
    and db': "db' = db\<lparr>pd_events := pd_events db @ [?r]\<rparr>"
    using assms(2) by (auto simp: insert_payment_event_def list_ex_iff payment_event_row_of_def split: if_splits)
  show ?thesis
    unfolding db' using assms(1,3) r
    by (simp add: touches_def tables_ok_def payment_keys_def no_orphans_def same_payment_def payment_ids_def payment_effects_def)
qed

lemma update_settlement_touches:
  assumes "tables_ok db" "update_settlement db p f err = Inr db'"
    and "\<And>r. r \<in> set (pd_ledger db) \<Longrightarrow> p r \<Longrightarrow> pl_payment_id r = pid"
    and f: "\<And>r. pl_payment_id (f r) = pl_payment_id r" "\<And>r. pl_command_id (f r) = pl_command_id r"
  shows "touches pid db db'"
proof -
  have db': "db' = db\<lparr>pd_ledger := update_where p f (pd_ledger db)\<rparr>"
    using assms(2) by (auto simp: update_settlement_def bind_res_Inr_iff swap_one_Inr)
  show ?thesis
    using assms(1) map_update_where [of p pl_command_id f "pd_ledger db"] image_update [of pl_payment_id f p "pd_ledger db"]
      filter_update_other [of "pd_ledger db" p pl_payment_id pid f] assms(3) f
    by (simp add: touches_def tables_ok_def payment_keys_def no_orphans_def same_payment_def payment_ids_def
        payment_effects_def db')
qed

lemma update_claim_touches:
  assumes "tables_ok db" "update_claim db key from st u msg = Inr db'"
    and "\<And>r. r \<in> set (pd_claims db) \<Longrightarrow> pk_key r = key \<Longrightarrow> pk_payment_id r = pid"
  shows "touches pid db db'"
proof -
  let ?p = "\<lambda>r. pk_key r = key \<and> pk_status r \<in> from \<and> pk_consumed_at r = None"
  let ?f = "\<lambda>r. r\<lparr>pk_status := st, pk_consumed_at := u\<rparr>"
  have db': "db' = db\<lparr>pd_claims := update_where ?p ?f (pd_claims db)\<rparr>"
    using assms(2) by (auto simp: update_claim_def bind_res_Inr_iff swap_one_Inr)
  show ?thesis
    using assms(1) map_update_where [of ?p pk_key ?f "pd_claims db"] image_update [of pk_payment_id ?f ?p "pd_claims db"]
      filter_update_other [of "pd_claims db" ?p pk_payment_id pid ?f] assms(3)
    by (simp add: touches_def tables_ok_def payment_keys_def no_orphans_def same_payment_def payment_ids_def
        payment_effects_def db')
qed

lemma insert_financial_rows_touches:
  assumes "tables_ok db" "insert_financial_rows op db k v e = Inr db'" "sc_payment_id k = pid" "pid \<in> payment_ids db"
  shows "touches pid db db'"
proof -
  let ?c = "claim_row_of k v e" and ?m = "command_row_of k (er_recorded_at e)" and ?l = "queued_row_of k (er_recorded_at e)"
  have new: "pk_key ?c \<notin> pk_key ` set (pd_claims db)" "cr_id ?m \<notin> cr_id ` set (pd_commands db)"
      "cr_idempotency_key ?m \<notin> cr_idempotency_key ` set (pd_commands db)"
      "pl_command_id ?l \<notin> pl_command_id ` set (pd_ledger db)"
    and db': "db' = db\<lparr>pd_claims := pd_claims db @ [?c], pd_commands := pd_commands db @ [?m],
        pd_ledger := pd_ledger db @ [?l]\<rparr>"
    using assms(2) by (auto simp: insert_financial_rows_def bind_res_Inr_iff Let_def list_ex_iff split: if_splits)
  have "pk_payment_id ?c = pid" "cr_payment_id ?m = pid" "pl_payment_id ?l = pid"
    using assms(3) by (simp_all add: claim_row_of_def command_row_of_def queued_row_of_def)
  then show ?thesis
    unfolding db' using assms(1,4) new
    by (simp add: subset_insertI2 touches_def tables_ok_def payment_keys_def no_orphans_def same_payment_def payment_ids_def payment_effects_def)
qed

lemma update_effect_touches:
  assumes "tables_ok db" "update_effect db p f err = Inr db'"
    and "\<And>r. r \<in> set (pd_outbox db) \<Longrightarrow> p r \<Longrightarrow> pb_payment_id r = pid"
    and f: "\<And>r. pb_payment_id (f r) = pb_payment_id r" "\<And>r. pb_message_id (f r) = pb_message_id r"
  shows "touches pid db db'"
proof -
  have db': "db' = db\<lparr>pd_outbox := update_where p f (pd_outbox db)\<rparr>"
    using assms(2) by (auto simp: update_effect_def bind_res_Inr_iff swap_one_Inr)
  show ?thesis
    using assms(1) map_update_where [of p pb_message_id f "pd_outbox db"] image_update [of pb_payment_id f p "pd_outbox db"]
      image_update [of pb_message_id f p "pd_outbox db"] filter_update_other [of "pd_outbox db" p pb_payment_id pid f] assms(3) f
    by (simp add: touches_def tables_ok_def payment_keys_def no_orphans_def same_payment_def payment_ids_def
        payment_effects_def db')
qed

text \<open>The rows the jobs of an outcome insert.\<close>

definition job_row_of :: "settlement_command \<Rightarrow> timestamp \<Rightarrow> payment_job \<Rightarrow> effect_row" where
  "job_row_of k at job =
     (let effect_id = payment_effect_id (sc_id k) (pj_kind job)
      in \<lparr>pb_message_id = effect_id, pb_idempotency_key = effect_id, pb_effect_id = effect_id,
          pb_payment_id = sc_payment_id k, pb_version = sc_version k, pb_signature = sc_signature k,
          pb_command_id = sc_id k, pb_kind = pj_kind job, pb_template = payment_effect_value (pj_kind job),
          pb_job = job, pb_status = EFFECT_PENDING, pb_owner = None, pb_token = 0, pb_acquired_at = None,
          pb_expires_at = None, pb_attempts = 0, pb_delivered_at = None, pb_receipt_hash = None,
          pb_created_at = at, pb_updated_at = at, pb_slots = 0, pb_authority = no_authority,
          pb_deadline = None, pb_cas = 0\<rparr>)"

lemma fold_Inl: "fold (\<lambda>x rows. bind_res rows (f x)) xs (Inl e) = Inl e"
  by (induction xs) simp_all

lemma fold_insert_unique:
  "fold (\<lambda>x rows. bind_res rows (insert_unique key op (g x))) xs (Inr rows) = Inr rows' \<longleftrightarrow>
     rows' = rows @ map g xs \<and> distinct (map (key \<circ> g) xs) \<and> (\<forall>x \<in> set xs. key (g x) \<notin> key ` set rows)"
proof (induction xs arbitrary: rows)
  case (Cons x xs)
  show ?case
  proof (cases "key (g x) \<in> key ` set rows")
    case True
    then show ?thesis by (simp add: insert_unique_def fold_Inl)
  next
    case False
    then have "insert_unique key op (g x) rows = Inr (rows @ [g x])" by simp
    then show ?thesis using False by (auto simp: Cons.IH simp del: insert_unique_Inr) (metis imageI)
  qed
qed auto

lemma insert_payment_jobs_Inr:
  "insert_payment_jobs op db k policy u at = Inr db' \<longleftrightarrow>
     (\<exists>jobs. required_payment_effects u policy = Inr jobs
        \<and> distinct (map (pb_message_id \<circ> job_row_of k at) jobs)
        \<and> (\<forall>j \<in> set jobs. pb_message_id (job_row_of k at j) \<notin> pb_message_id ` set (pd_outbox db))
        \<and> db' = db\<lparr>pd_outbox := pd_outbox db @ map (job_row_of k at) jobs\<rparr>)"
proof -
  have *: "insert_payment_jobs op db k policy u at =
      bind_res (required_payment_effects u policy) (\<lambda>jobs.
      bind_res (fold (\<lambda>job rows. bind_res rows (insert_unique pb_message_id op (job_row_of k at job))) jobs
        (Inr (pd_outbox db))) (\<lambda>rows. Inr (db\<lparr>pd_outbox := rows\<rparr>)))"
    by (simp add: insert_payment_jobs_def job_row_of_def Let_def)
  show ?thesis unfolding * by (auto simp: bind_res_Inr_iff fold_insert_unique)
qed

lemma job_row_fields [simp]:
  "pb_message_id (job_row_of k at j) = payment_effect_id (sc_id k) (pj_kind j)"
  "pb_payment_id (job_row_of k at j) = sc_payment_id k" "pb_kind (job_row_of k at j) = pj_kind j"
  by (simp_all add: job_row_of_def Let_def)

lemma insert_payment_jobs_touches:
  assumes "tables_ok db" "insert_payment_jobs op db k policy u at = Inr db'" "sc_payment_id k = pid"
    and "pid \<in> cr_payment_id ` set (pd_commands db)"
  shows "touches pid db db'"
proof -
  obtain jobs where d: "distinct (map (pb_message_id \<circ> job_row_of k at) jobs)"
      and new: "\<forall>j \<in> set jobs. pb_message_id (job_row_of k at j) \<notin> pb_message_id ` set (pd_outbox db)"
      and db': "db' = db\<lparr>pd_outbox := pd_outbox db @ map (job_row_of k at) jobs\<rparr>"
    using assms(2) by (auto simp: insert_payment_jobs_Inr)
  have "set (map pb_message_id (pd_outbox db)) \<inter> set (map (pb_message_id \<circ> job_row_of k at) jobs) = {}"
    using new by auto (metis imageI)
  then have keys: "distinct (map pb_message_id (pd_outbox db @ map (job_row_of k at) jobs))"
    using assms(1) d by (simp add: tables_ok_def payment_keys_def)
  have "filter (\<lambda>r. pb_payment_id r = q) (map (job_row_of k at) jobs) = []" if "q \<noteq> pid" for q
    using assms(3) that by (simp add: filter_empty_conv)
  moreover have "pb_payment_id ` set (pd_outbox db @ map (job_row_of k at) jobs) \<subseteq> cr_payment_id ` set (pd_commands db)"
    using assms(1,3,4) by (auto simp: tables_ok_def no_orphans_def)
  ultimately show ?thesis
    unfolding db' using assms(1) keys
    by (auto simp: touches_def tables_ok_def payment_keys_def no_orphans_def same_payment_def payment_ids_def payment_effects_def)
qed

text \<open>A receipt for a message of the payment.\<close>

lemma insert_receipt_touches:
  assumes ok: "tables_ok db" and r: "r \<in> set (pd_outbox db)" "pb_payment_id r = pid" "rr_message_id x = pb_message_id r"
    and new: "rr_message_id x \<notin> rr_message_id ` set (pd_receipts db)" "rr_receipt_id x \<notin> rr_receipt_id ` set (pd_receipts db)"
  shows "touches pid db (db\<lparr>pd_receipts := pd_receipts db @ [x]\<rparr>)"
proof -
  have "pb_message_id y \<noteq> pb_message_id r" if "y \<in> set (payment_effects db q)" "q \<noteq> pid" for y q
    using ok r that by (auto simp: payment_effects_def tables_ok_def payment_keys_def distinct_map inj_on_def)
  then have "\<forall>y \<in> set (payment_effects db q). rr_message_id x \<noteq> pb_message_id y" if "q \<noteq> pid" for q
    using r(3) that by fastforce
  moreover have "rr_message_id x \<in> pb_message_id ` set (pd_outbox db)" using r by simp
  ultimately show ?thesis
    using ok new
    by (simp add: touches_def tables_ok_def payment_keys_def no_orphans_def same_payment_def payment_ids_def
        payment_effects_def)
qed

end
