(* ===== verification/Pay_Advance.thy ===== *)
theory Pay_Advance
  imports Pay_Steps
begin

text \<open>
  One step of one payment: the workflow row and the event row a transition persists are the ones
  the next load replays, and the financial rows move together with them.
\<close>

section \<open>The event history grows at its end\<close>

lemma insort_key_snoc: "f y \<le> f x \<Longrightarrow> insort_key f y (zs @ [x]) = insort_key f y zs @ [x]"
  by (induction zs) auto

lemma sort_key_snoc: "(\<And>y. y \<in> set xs \<Longrightarrow> f y \<le> f x) \<Longrightarrow> sort_key f (xs @ [x]) = sort_key f xs @ [x]"
  by (induction xs) (simp_all add: insort_key_snoc)

lemma bind_res_assoc: "bind_res (bind_res m f) g = bind_res m (\<lambda>x. bind_res (f x) g)"
  by (cases m) simp_all

lemma replay_payment_rows_append:
  "replay_payment_rows pid w (xs @ ys) =
     bind_res (replay_payment_rows pid w xs) (\<lambda>(w', es).
     bind_res (replay_payment_rows pid w' ys) (\<lambda>(w'', fs). Inr (w'', es @ fs)))"
proof (induction xs arbitrary: w)
  case Nil
  show ?case by (cases "replay_payment_rows pid w ys") auto
next
  case (Cons r xs)
  show ?case
    by (simp add: Cons.IH Let_def bind_res_assoc split_def)
qed

lemma event_type_known [simp]: "payment_event_type e \<in> set payment_event_types"
  by (cases e) (simp_all add: payment_event_types_def)

lemma applied_command_expected: "\<not> unexpected_command e (applied_step w e c)"
  by (cases e) (auto simp: unexpected_command_def applied_step_def applied_commands_def extended_def split: option.splits)

text \<open>What an applied transition is, for a well-formed payment and event.\<close>

lemma applied_transition:
  assumes "wf_payment w" "mk_payment_event e = Inr ()" "reduce_payment w e = Inr t" "pt_result t = PT_APPLIED"
  obtains c' where "replay_event (pw_core w) e = Inr c'" "in_order w e" "t = applied_step w e c'"
    "wf_payment (pt_next t)" "pw_core (pt_next t) = c'" "pw_history (pt_next t) = pw_history w @ [e]"
    "pw_policy (pt_next t) = pw_policy w" "ps_anchor (pc_subject c') = ps_anchor (pc_subject (pw_core w))"
    "ps_payment_id (pc_subject c') = ps_payment_id (pc_subject (pw_core w))" "pt_events t = [e]"
proof -
  obtain c' where c: "replay_event (pw_core w) e = Inr c'" "in_order w e" "t = applied_step w e c'"
    using reduce_payment_cases [OF assms(1-3)] assms(4) by auto
  note f = mk_payment_workflow_Inr [OF assms(1) [unfolded wf_payment_def]]
  have ok: "core_ok (pw_core w) (pw_history w)" using wf_payment_core [OF assms(1)] .
  obtain s0 where s0: "subject_from_anchor (ps_anchor (pc_subject (pw_core w))) (ps_payment_id (pc_subject (pw_core w)))
        None same_economics None = Inr s0" "replay_events (initial_core s0) (pw_history w) = Inr (pw_core w)"
    using f(5) by (auto simp: replay_payment_history_def bind_res_Inr_iff)
  note id = replay_event_identity [OF ok c(1)]
  have "replay_payment_history (pc_subject c') (pw_history w @ [e]) = Inr c'"
    using s0 c(1) id by (simp add: replay_payment_history_def replay_events_append)
  moreover have "check_history (pw_history w @ [e]) = Inr ()"
    using check_history_snoc [OF f(4)] c(2) by (simp add: in_order_def)
  moreover have "wf_subject (pc_subject c')" using replay_event_ok [OF ok c(1)] by (simp add: core_ok_def)
  ultimately have "wf_payment (extended w e c')"
    using f(3) replayed_workflow [of "extended w e c'"] by (simp add: wf_payment_def extended_def)
  then show ?thesis using that [of c'] c id by (simp add: applied_step_def extended_def)
qed

lemma event_history_snoc:
  assumes h: "event_history db pid w n" and w: "wf_payment w" and e: "mk_payment_event e = Inr ()"
    and t: "reduce_payment w e = Inr t" "pt_result t = PT_APPLIED"
    and db': "pd_events db' = pd_events db @ [payment_event_row_of pid (n + 1) e (pt_next t)]"
  shows "event_history db' pid (pt_next t) (n + 1)"
proof -
  let ?rows = "payment_event_rows db pid" and ?r = "payment_event_row_of pid (n + 1) e (pt_next t)"
  obtain c' where a: "t = applied_step w e c'" "pw_history (pt_next t) = pw_history w @ [e]" "pw_core (pt_next t) = c'"
    "pw_policy (pt_next t) = pw_policy w" "ps_anchor (pc_subject c') = ps_anchor (pc_subject (pw_core w))"
    using applied_transition [OF w e t] by metis
  have n: "n = int (length ?rows)" and revs: "map pe_revision ?rows = map int [1..<Suc (length ?rows)]"
    using h by (simp_all add: event_history_def Let_def)
  have "pe_revision r \<le> pe_revision ?r" if "r \<in> set (filter (\<lambda>r. pe_payment_id r = pid) (pd_events db))" for r
  proof -
    have "r \<in> set ?rows" using that by (simp add: payment_event_rows_def)
    then have "pe_revision r \<in> set (map int [1..<Suc (length ?rows)])" unfolding revs [symmetric] by simp
    then show ?thesis using n by (auto simp: payment_event_row_of_def)
  qed
  then have "sort_key pe_revision (filter (\<lambda>r. pe_payment_id r = pid) (pd_events db) @ [?r]) = ?rows @ [?r]"
    unfolding payment_event_rows_def by (rule sort_key_snoc)
  moreover have "pe_payment_id ?r = pid" by (simp add: payment_event_row_of_def)
  ultimately have "payment_event_rows db' pid = ?rows @ [?r]"
    unfolding payment_event_rows_def [of db'] db' by simp
  moreover obtain op where "new_payment (ps_anchor (pc_subject (pw_core w))) (pw_policy w) = Inr op"
      "replay_payment_rows pid (pt_next op) ?rows = Inr (w, pw_history w)"
    using h by (auto simp: event_history_def Let_def)
  moreover have "replay_payment_rows pid w [?r] = Inr (pt_next t, [e])"
    using applied_command_expected [of e w c'] e t
    by (simp add: payment_event_row_of_def decode_payment_event_def as_corruption_def a(1))
  ultimately show ?thesis
    using a n revs by (simp add: event_history_def Let_def replay_payment_rows_append payment_event_row_of_def)
qed

section \<open>Persisting a transition\<close>

text \<open>The tables of the settlement are those of another store.\<close>

definition same_finance :: "payment_store \<Rightarrow> payment_store \<Rightarrow> bool" where
  "same_finance db db' \<longleftrightarrow> pd_claims db' = pd_claims db \<and> pd_commands db' = pd_commands db
     \<and> pd_ledger db' = pd_ledger db \<and> pd_outbox db' = pd_outbox db \<and> pd_receipts db' = pd_receipts db"

lemma same_finance_records: "same_finance db db' \<Longrightarrow> payment_financial_records db' w = payment_financial_records db w"
proof -
  assume s: "same_finance db db'"
  have "effect_lifecycle db' = effect_lifecycle db"
    by (rule ext, rule effect_lifecycle_receipts) (use s in \<open>simp add: same_finance_def\<close>)
  then have "check_effects db' k t jobs seen rows = check_effects db k t jobs seen rows" for k t jobs seen rows
    by (induction rows arbitrary: seen) simp_all
  then have jobs: "validate_payment_jobs db' = validate_payment_jobs db"
    using s by (simp add: same_finance_def validate_payment_jobs_def fun_eq_iff)
  have "pd_claims db' = pd_claims db" "pd_commands db' = pd_commands db" "pd_ledger db' = pd_ledger db"
    using s by (simp_all add: same_finance_def)
  then show ?thesis unfolding payment_financial_records_def by (simp only: jobs)
qed

lemma persisted_payment:
  assumes load: "load_payment db pid = Inr (w, n)" and e: "mk_payment_event e = Inr ()"
    and t: "reduce_payment w e = Inr t" "pt_result t = PT_APPLIED"
    and db1: "tables_ok db1" "pd_workflows db1 = pd_workflows db" "pd_events db1 = pd_events db"
    and up: "update_payment_row db1 pid n (pt_next t) (payment_event_time e) = Inr db2"
    and ins: "insert_payment_event op db2 pid (n + 1) e (pt_next t) = Inr db3"
  shows "touches pid db1 db3" "same_finance db1 db3"
    "(\<exists>x. payment_financial_records db1 (pt_next t) = Inr x) \<Longrightarrow> load_payment db3 pid = Inr (pt_next t, n + 1)"
    "payment_ids db3 = payment_ids db1"
proof -
  note f = load_payment_facts [OF load]
  obtain c' where a: "pw_history (pt_next t) = pw_history w @ [e]" "pw_core (pt_next t) = c'" "wf_payment (pt_next t)"
    "ps_anchor (pc_subject c') = ps_anchor (pc_subject (pw_core w))"
    "ps_payment_id (pc_subject c') = ps_payment_id (pc_subject (pw_core w))"
    using applied_transition [OF f(1) e t] by metis
  have pid: "pid \<in> payment_ids db1" using find_row_Some [OF f(4)] db1(2) by (auto simp: payment_ids_def)
  have t1: "touches pid db1 db2" using update_payment_row_touches [OF db1(1) up] .
  obtain rows where rows: "swap_one (\<lambda>r. pr_id r = pid \<and> pr_revision r = n)
       (advanced_row n (pt_next t) (payment_event_time e))
       (ConcurrencyConflict ''payment optimistic revision was lost'') (pd_workflows db1) = Inr rows"
      "db2 = db1\<lparr>pd_workflows := rows\<rparr>"
    using up by (auto simp: update_payment_row_def bind_res_Inr_iff)
  have ids2: "payment_ids db2 = payment_ids db1"
    using rows image_update [of pr_id "advanced_row n (pt_next t) (payment_event_time e)"]
    by (simp add: payment_ids_def swap_one_Inr)
  have db3: "db3 = db2\<lparr>pd_events := pd_events db2 @ [payment_event_row_of pid (n + 1) e (pt_next t)]\<rparr>"
    using ins by (simp add: insert_payment_event_def split: if_splits)
  have "touches pid db2 db3" using insert_payment_event_touches [OF touches_ok [OF t1] ins] pid ids2 by simp
  with t1 show "touches pid db1 db3" using touches_trans by blast
  show fin: "same_finance db1 db3" by (simp add: same_finance_def db3 rows(2))
  show "payment_ids db3 = payment_ids db1" using ids2 by (simp add: payment_ids_def db3)
  have d: "distinct (map pr_id (pd_workflows db1))" using db1(1) by (simp add: tables_ok_def payment_keys_def)
  obtain r where r: "find_row pr_id pid (pd_workflows db1) = Some r"
      "find_row pr_id pid (pd_workflows db3) = Some (advanced_row n (pt_next t) (payment_event_time e) r)"
    using swap_one_hits [OF rows(1) d, of pid] by (auto simp: db3 rows(2))
  have "r = payment_row_of w n (an_confirmed_at (ps_anchor (pc_subject (pw_core w)))) (payment_updated_at w (pw_history w))"
    using r(1) f(4) db1(2) by simp
  then have row: "find_row pr_id pid (pd_workflows db3)
      = Some (payment_row_of (pt_next t) (n + 1) (an_confirmed_at (ps_anchor (pc_subject c')))
                (payment_updated_at (pt_next t) (pw_history w @ [e])))"
    using r(2) f(2) a by (simp add: payment_row_of_def advanced_row_def Let_def payment_updated_at_def)
  have "event_history db3 pid (pt_next t) (n + 1)"
    by (rule event_history_snoc [OF f(3,1) e t]) (simp add: db3 rows(2) db1(3))
  then show "(\<exists>x. payment_financial_records db1 (pt_next t) = Inr x) \<Longrightarrow> load_payment db3 pid = Inr (pt_next t, n + 1)"
    using load row a f(2) same_finance_records [OF fin] by (simp add: load_payment_iff)
qed

lemma persist_transition_facts:
  assumes "load_payment db pid = Inr (w, n)" "mk_payment_event e = Inr ()" "reduce_payment w e = Inr t"
    and "tables_ok db1" "pd_workflows db1 = pd_workflows db" "pd_events db1 = pd_events db"
    and "persist_transition op db1 w n e t = Inr db3"
  shows "pt_result t = PT_APPLIED" "touches pid db1 db3" "same_finance db1 db3"
    "(\<exists>x. payment_financial_records db1 (pt_next t) = Inr x) \<Longrightarrow> load_payment db3 pid = Inr (pt_next t, n + 1)"
    "payment_ids db3 = payment_ids db1"
proof -
  have pid: "ps_payment_id (pc_subject (pw_core w)) = pid" using load_payment_facts(2) [OF assms(1)] .
  obtain db2 where p: "pt_result t = PT_APPLIED"
      "update_payment_row db1 pid n (pt_next t) (payment_event_time e) = Inr db2"
      "insert_payment_event op db2 pid (n + 1) e (pt_next t) = Inr db3"
    using assms(7) by (auto simp: persist_transition_def Let_def bind_res_Inr_iff pid)
  show "pt_result t = PT_APPLIED" by (rule p(1))
  show "touches pid db1 db3" "same_finance db1 db3" "payment_ids db3 = payment_ids db1"
    "(\<exists>x. payment_financial_records db1 (pt_next t) = Inr x) \<Longrightarrow> load_payment db3 pid = Inr (pt_next t, n + 1)"
    using persisted_payment [OF assms(1-3) p(1) assms(4-6) p(2,3)] by blast+
qed

section \<open>Updating the rows of a tuple\<close>

lemma swap_one_single:
  assumes "swap_one p f err rows = Inr rows'" "distinct (map key rows)" "filter (\<lambda>r. owner r = pid) rows = [l]"
    and "\<And>r. p r \<Longrightarrow> key r = key l" and "\<And>r. owner (f r) = owner r"
  shows "p l \<and> filter (\<lambda>r. owner r = pid) rows' = [f l]"
proof -
  have l: "l \<in> set rows" using single_member [OF assms(3)] by simp
  obtain r where r: "r \<in> set rows" "p r"
    using assms(1) by (auto simp: swap_one_Inr count_where_def filter_empty_conv length_Suc_conv dest: arg_cong [of _ _ length])
      (metis filter_empty_conv list.distinct(1))
  have "r = l" using r l assms(2,4) by (auto simp: distinct_map inj_on_def)
  then have p: "p l" using r by simp
  have "rows' = update_where p f rows" using assms(1) by (simp add: swap_one_Inr)
  then have "filter (\<lambda>r. owner r = pid) rows' = update_where p f [l]"
    using filter_update_where [of p "\<lambda>r. owner r = pid" f rows] assms(3,5) by simp
  with p show ?thesis by simp
qed

lemma update_settlement_tuple:
  assumes "tables_ok db" "update_settlement db p f err = Inr db'" "tuple_rows db pid k c m l"
    and "\<And>r. p r \<Longrightarrow> pl_command_id r = sc_id k"
    and f: "\<And>r. pl_payment_id (f r) = pl_payment_id r" "\<And>r. pl_command_id (f r) = pl_command_id r"
  shows "p l \<and> tuple_rows db' pid k c m (f l) \<and> touches pid db db'
    \<and> db' = db\<lparr>pd_ledger := update_where p f (pd_ledger db)\<rparr>"
proof -
  obtain rows where rows: "swap_one p f err (pd_ledger db) = Inr rows" "db' = db\<lparr>pd_ledger := rows\<rparr>"
    using assms(2) by (auto simp: update_settlement_def bind_res_Inr_iff)
  have d: "distinct (map pl_command_id (pd_ledger db))" using assms(1) by (simp add: tables_ok_def payment_keys_def)
  have l: "l \<in> set (pd_ledger db)" "pl_payment_id l = pid" "pl_command_id l = sc_id k"
    using tuple_rows_mem [OF assms(3)] assms(3) by (simp_all add: tuple_rows_def)
  have "p l \<and> filter (\<lambda>r. pl_payment_id r = pid) rows = [f l]"
    by (rule swap_one_single [OF rows(1) d]) (use assms(3,4) l f in \<open>simp_all add: tuple_rows_def\<close>)
  moreover have "touches pid db db'"
  proof (rule update_settlement_touches [OF assms(1,2) _ f])
    fix r assume "r \<in> set (pd_ledger db)" "p r"
    then have "r = l" using l d assms(4) by (auto simp: distinct_map inj_on_def)
    then show "pl_payment_id r = pid" using l by simp
  qed
  ultimately show ?thesis using assms(3) rows f by (simp add: tuple_rows_def swap_one_Inr)
qed

lemma update_claim_tuple:
  assumes "tables_ok db" "update_claim db (sc_claim_key k) from st u msg = Inr db'" "tuple_rows db pid k c m l"
  shows "pk_status c \<in> from \<and> pk_consumed_at c = None
    \<and> tuple_rows db' pid k (c\<lparr>pk_status := st, pk_consumed_at := u\<rparr>) m l \<and> touches pid db db'
    \<and> db' = db\<lparr>pd_claims := pd_claims db'\<rparr>"
proof -
  let ?p = "\<lambda>r. pk_key r = sc_claim_key k \<and> pk_status r \<in> from \<and> pk_consumed_at r = None"
  let ?f = "\<lambda>r. r\<lparr>pk_status := st, pk_consumed_at := u\<rparr>"
  obtain rows where rows: "swap_one ?p ?f (DataCorruption msg) (pd_claims db) = Inr rows" "db' = db\<lparr>pd_claims := rows\<rparr>"
    using assms(2) by (auto simp: update_claim_def bind_res_Inr_iff)
  have d: "distinct (map pk_key (pd_claims db))" using assms(1) by (simp add: tables_ok_def payment_keys_def)
  have c: "c \<in> set (pd_claims db)" "pk_payment_id c = pid" "pk_key c = sc_claim_key k"
    using tuple_rows_mem [OF assms(3)] assms(3) by (simp_all add: tuple_rows_def)
  have "?p c \<and> filter (\<lambda>r. pk_payment_id r = pid) rows = [?f c]"
    by (rule swap_one_single [OF rows(1) d]) (use assms(3) c in \<open>simp_all add: tuple_rows_def\<close>)
  moreover have "touches pid db db'"
  proof (rule update_claim_touches [OF assms(1,2)])
    fix r assume "r \<in> set (pd_claims db)" "pk_key r = sc_claim_key k"
    then have "r = c" using c d by (auto simp: distinct_map inj_on_def)
    then show "pk_payment_id r = pid" using c by simp
  qed
  ultimately show ?thesis using assms(3) rows by (simp add: tuple_rows_def)
qed

end
