(* ===== verification/Pay_Evolve.thy ===== *)
theory Pay_Evolve
  imports Pay_Advance
begin

text \<open>
  How the tables of the payment store evolve: no row is ever removed, events, commands and receipts
  never change, a settlement row's counters only grow, its one dispatch slot is never given back and
  its recorded outcome is final, consumed evidence stays consumed, a delivered effect stays
  delivered and a closed payment stays as it is; the columns that only version 2 of the outbox has
  keep their constraints. A statement of an operation is a stage: it touches one payment and moves
  every row along its relation.
\<close>

section \<open>Rows\<close>

definition closed_payment :: "payment_status \<Rightarrow> bool" where
  "closed_payment s \<longleftrightarrow> s \<in> {PAY_PAID, PAY_RETRYABLE, PAY_MANUAL_REVIEW, PAY_EXPIRED, PAY_CANCELLED}"

definition workflow_evolves :: "payment_row \<Rightarrow> payment_row \<Rightarrow> bool" where
  "workflow_evolves a b \<longleftrightarrow>
     pr_id b = pr_id a \<and> pr_created_at b = pr_created_at a \<and> pr_revision a \<le> pr_revision b
     \<and> (closed_payment (pr_status a) \<longrightarrow> b = a)"

definition settlement_evolves :: "settlement_row \<Rightarrow> settlement_row \<Rightarrow> bool" where
  "settlement_evolves a b \<longleftrightarrow>
     pl_command_id b = pl_command_id a \<and> pl_payment_id b = pl_payment_id a \<and> pl_version b = pl_version a
     \<and> pl_signature b = pl_signature a \<and> pl_token a \<le> pl_token b \<and> pl_count a \<le> pl_count b
     \<and> (pl_slots a \<noteq> 0 \<longrightarrow> pl_slots b = pl_slots a \<and> pl_token b = pl_token a
          \<and> pl_request_hash b = pl_request_hash a \<and> pl_fenced_at b = pl_fenced_at a)
     \<and> (pl_outcome a \<noteq> None \<longrightarrow> b = a)"

definition claim_evolves :: "claim_row \<Rightarrow> claim_row \<Rightarrow> bool" where
  "claim_evolves a b \<longleftrightarrow>
     b = a\<lparr>pk_status := pk_status b, pk_consumed_at := pk_consumed_at b\<rparr> \<and> (pk_consumed_at a \<noteq> None \<longrightarrow> b = a)"

text \<open>The CHECK constraints of the outbox columns that schema version 2 adds.\<close>

definition named_or_null :: "string option \<Rightarrow> bool" where
  "named_or_null v \<longleftrightarrow> opt_all (\<lambda>x. x \<noteq> [] \<and> CHR 0x00 \<notin> set x) v"

definition authority_ok :: "effect_authority \<Rightarrow> bool" where
  "authority_ok a \<longleftrightarrow>
     named_or_null (ea_qualification_id a) \<and> opt_all (\<lambda>n. 1 \<le> n) (ea_epoch a) \<and> named_or_null (ea_scenario_id a)
     \<and> named_or_null (ea_generation_id a) \<and> named_or_null (ea_allocation_id a) \<and> opt_all hash_re (ea_binding_hash a)
     \<and> (a = no_authority
        \<or> ea_qualification_id a \<noteq> None \<and> ea_epoch a \<noteq> None \<and> ea_scenario_id a \<noteq> None
          \<and> ea_generation_id a \<noteq> None \<and> ea_allocation_id a \<noteq> None \<and> ea_binding_hash a \<noteq> None)"

definition v2_columns_ok :: "effect_row \<Rightarrow> bool" where
  "v2_columns_ok r \<longleftrightarrow>
     pb_slots r \<in> {0, 1} \<and> authority_ok (pb_authority r) \<and> 0 \<le> pb_cas r
     \<and> opt_all (\<lambda>d. pb_created_at r \<le> d) (pb_deadline r)"

definition effect_evolves :: "effect_row \<Rightarrow> effect_row \<Rightarrow> bool" where
  "effect_evolves a b \<longleftrightarrow>
     pb_message_id b = pb_message_id a \<and> pb_payment_id b = pb_payment_id a \<and> pb_command_id b = pb_command_id a
     \<and> pb_kind b = pb_kind a \<and> pb_job b = pb_job a \<and> pb_created_at b = pb_created_at a
     \<and> pb_token a \<le> pb_token b \<and> pb_attempts a \<le> pb_attempts b \<and> pb_cas a \<le> pb_cas b
     \<and> (pb_deadline a \<noteq> None \<longrightarrow> pb_deadline b = pb_deadline a) \<and> (v2_columns_ok a \<longrightarrow> v2_columns_ok b)
     \<and> (pb_status a = EFFECT_DELIVERED \<longrightarrow> b = a)"

interpretation workflows: keyed_rows pr_id workflow_evolves
  by unfold_locales (auto simp: workflow_evolves_def)

interpretation settlements: fenced_rows pl_command_id settlement_evolves pl_token
  by unfold_locales (auto simp: settlement_evolves_def)

lemma claim_evolves_trans:
  assumes "claim_evolves a b" "claim_evolves b c"
  shows "claim_evolves a c"
proof (cases "pk_consumed_at a")
  case None
  have "b = a\<lparr>pk_status := pk_status b, pk_consumed_at := pk_consumed_at b\<rparr>"
    "c = b\<lparr>pk_status := pk_status c, pk_consumed_at := pk_consumed_at c\<rparr>"
    using assms by (simp_all add: claim_evolves_def)
  then have "c = a\<lparr>pk_status := pk_status c, pk_consumed_at := pk_consumed_at c\<rparr>" by (cases a; cases b; cases c) simp
  with None show ?thesis by (simp add: claim_evolves_def)
qed (use assms in \<open>auto simp: claim_evolves_def\<close>)

lemma claim_evolves_key: "claim_evolves a b \<Longrightarrow> pk_key b = pk_key a"
  unfolding claim_evolves_def by (metis claim_row.select_convs(1) claim_row.update_convs(8,10) claim_row.surjective)

interpretation claims: keyed_rows pk_key claim_evolves
  by unfold_locales (auto intro: claim_evolves_trans claim_evolves_key simp: claim_evolves_def [of r r for r])

interpretation effects: fenced_rows pb_message_id effect_evolves pb_token
  by unfold_locales (auto simp: effect_evolves_def)

section \<open>Stores\<close>

definition payments_evolve :: "payment_store \<Rightarrow> payment_store \<Rightarrow> bool" where
  "payments_evolve a b \<longleftrightarrow>
     table_evolves pr_id workflow_evolves (pd_workflows a) (pd_workflows b)
     \<and> table_evolves pl_command_id settlement_evolves (pd_ledger a) (pd_ledger b)
     \<and> table_evolves pk_key claim_evolves (pd_claims a) (pd_claims b)
     \<and> table_evolves pb_message_id effect_evolves (pd_outbox a) (pd_outbox b)
     \<and> (\<exists>new. pd_events b = pd_events a @ new) \<and> (\<exists>new. pd_commands b = pd_commands a @ new)
     \<and> (\<exists>new. pd_receipts b = pd_receipts a @ new)
     \<and> (list_all v2_columns_ok (pd_outbox a) \<longrightarrow> list_all v2_columns_ok (pd_outbox b))"

lemma payments_evolve_refl [simp]: "payments_evolve a a"
  by (simp add: payments_evolve_def)

lemma payments_evolve_trans: "payments_evolve a b \<Longrightarrow> payments_evolve b c \<Longrightarrow> payments_evolve a c"
  unfolding payments_evolve_def
  by (auto intro: workflows.table_trans settlements.table_trans claims.table_trans effects.table_trans)

definition stage :: "string \<Rightarrow> payment_store \<Rightarrow> payment_store \<Rightarrow> bool" where
  "stage pid db db' \<longleftrightarrow> touches pid db db' \<and> payments_evolve db db'"

lemma stage_trans: "stage pid a b \<Longrightarrow> stage pid b c \<Longrightarrow> stage pid a c"
  using touches_trans payments_evolve_trans by (simp add: stage_def) blast

lemma stage_ok: "stage pid db db' \<Longrightarrow> tables_ok db'"
  unfolding stage_def using touches_ok by blast

text \<open>What a committed operation does to the store.\<close>

definition payment_step :: "payment_store \<Rightarrow> payment_store \<Rightarrow> bool" where
  "payment_step db db' \<longleftrightarrow> (payments_ok db \<longrightarrow> payments_ok db' \<and> payments_evolve db db')"

lemma payment_step_refl [simp]: "payment_step db db"
  by (simp add: payment_step_def)

lemma payment_stepI:
  assumes "payments_ok db \<Longrightarrow> stage pid db db' \<and> (\<exists>w n. load_payment db' pid = Inr (w, n))"
  shows "payment_step db db'"
  using assms payments_ok_touches [of db pid db'] by (auto simp: payment_step_def stage_def)

section \<open>The statements are stages\<close>

lemma unique_row:
  assumes "distinct (map key rows)" "l \<in> set rows" "r \<in> set rows" "key r = key l"
  shows "r = l"
  using assms by (auto simp: distinct_map inj_on_def)

lemma settlement_stage:
  assumes "tables_ok db" "update_settlement db p f err = Inr db'" "tuple_rows db pid k c m l"
    and p: "\<And>r. p r \<Longrightarrow> pl_command_id r = sc_id k"
    and f: "\<And>r. pl_payment_id (f r) = pl_payment_id r" "\<And>r. pl_command_id (f r) = pl_command_id r"
    and ev: "p l \<Longrightarrow> settlement_evolves l (f l)"
  shows "p l \<and> tuple_rows db' pid k c m (f l) \<and> stage pid db db'
    \<and> db' = db\<lparr>pd_ledger := update_where p f (pd_ledger db)\<rparr>"
proof -
  have d: "distinct (map pl_command_id (pd_ledger db))" using assms(1) by (simp add: tables_ok_def payment_keys_def)
  have l: "l \<in> set (pd_ledger db)" "pl_command_id l = sc_id k"
    using tuple_rows_mem [OF assms(3)] assms(3) by (simp_all add: tuple_rows_def)
  have "settlement_evolves r (f r)" if "r \<in> set (pd_ledger db)" "p r" for r
    using unique_row [OF d l(1) that(1)] p [OF that(2)] l(2) ev that by simp
  then have "table_evolves pl_command_id settlement_evolves (pd_ledger db) (update_where p f (pd_ledger db))"
    using settlements.table_update by blast
  moreover have u: "p l" "tuple_rows db' pid k c m (f l)" "touches pid db db'"
      "db' = db\<lparr>pd_ledger := update_where p f (pd_ledger db)\<rparr>"
    using update_settlement_tuple [OF assms(1-3) p f] by blast+
  ultimately have "payments_evolve db db'" by (simp add: payments_evolve_def)
  with u show ?thesis by (simp only: stage_def simp_thms)
qed

lemma claim_stage:
  assumes "tables_ok db" "update_claim db (sc_claim_key k) from st u msg = Inr db'" "tuple_rows db pid k c m l"
  shows "pk_status c \<in> from \<and> tuple_rows db' pid k (c\<lparr>pk_status := st, pk_consumed_at := u\<rparr>) m l
    \<and> stage pid db db' \<and> db' = db\<lparr>pd_claims := pd_claims db'\<rparr>"
proof -
  let ?p = "\<lambda>r. pk_key r = sc_claim_key k \<and> pk_status r \<in> from \<and> pk_consumed_at r = None"
  let ?f = "\<lambda>r. r\<lparr>pk_status := st, pk_consumed_at := u\<rparr>"
  have "pd_claims db' = update_where ?p ?f (pd_claims db)"
    using assms(2) by (auto simp: update_claim_def bind_res_Inr_iff swap_one_Inr)
  moreover have "claim_evolves r (?f r)" if "?p r" for r using that by (simp add: claim_evolves_def)
  then have "table_evolves pk_key claim_evolves (pd_claims db) (update_where ?p ?f (pd_claims db))"
    using claims.table_update [of "pd_claims db" ?p ?f] by blast
  ultimately have "table_evolves pk_key claim_evolves (pd_claims db) (pd_claims db')" by simp
  moreover have "db' = db\<lparr>pd_claims := pd_claims db'\<rparr>" using update_claim_tuple [OF assms] by blast
  then have "pd_workflows db' = pd_workflows db" "pd_events db' = pd_events db" "pd_commands db' = pd_commands db"
    "pd_ledger db' = pd_ledger db" "pd_outbox db' = pd_outbox db" "pd_receipts db' = pd_receipts db"
    by (metis payment_store.select_convs payment_store.surjective payment_store.update_convs(4))+
  ultimately show ?thesis
    using update_claim_tuple [OF assms] by (simp add: stage_def payments_evolve_def)
qed

lemma new_job_columns: "v2_columns_ok (job_row_of k at j)"
  by (simp add: v2_columns_ok_def job_row_of_def Let_def authority_ok_def no_authority_def named_or_null_def opt_all_def)

lemma jobs_stage:
  assumes "tables_ok db" "insert_payment_jobs op db k policy u at = Inr db'" "sc_payment_id k = pid"
    and "pid \<in> cr_payment_id ` set (pd_commands db)"
  shows "stage pid db db'"
  using insert_payment_jobs_touches [OF assms] assms(2)
  by (auto simp: stage_def payments_evolve_def insert_payment_jobs_Inr list_all_iff new_job_columns)

lemma receipt_stage:
  assumes "tables_ok db" "r \<in> set (pd_outbox db)" "pb_payment_id r = pid" "rr_message_id x = pb_message_id r"
    and "rr_message_id x \<notin> rr_message_id ` set (pd_receipts db)" "rr_receipt_id x \<notin> rr_receipt_id ` set (pd_receipts db)"
  shows "stage pid db (db\<lparr>pd_receipts := pd_receipts db @ [x]\<rparr>)"
  using insert_receipt_touches [OF assms] by (simp add: stage_def payments_evolve_def)

lemma effect_stage:
  assumes "tables_ok db" "update_effect db p f err = Inr db'" "r \<in> set (pd_outbox db)" "pb_payment_id r = pid"
    and p: "\<And>x. p x \<Longrightarrow> pb_message_id x = pb_message_id r" and ev: "p r \<Longrightarrow> effect_evolves r (f r)"
    and f: "\<And>x. pb_payment_id (f x) = pb_payment_id x" "\<And>x. pb_message_id (f x) = pb_message_id x"
  shows "p r \<and> stage pid db db' \<and> db' = db\<lparr>pd_outbox := update_where p f (pd_outbox db)\<rparr>"
proof -
  have d: "distinct (map pb_message_id (pd_outbox db))" using assms(1) by (simp add: tables_ok_def payment_keys_def)
  have db': "db' = db\<lparr>pd_outbox := update_where p f (pd_outbox db)\<rparr>" and one: "count_where p (pd_outbox db) = 1"
    using assms(2) by (auto simp: update_effect_def bind_res_Inr_iff swap_one_Inr)
  have only: "x = r" if "x \<in> set (pd_outbox db)" "p x" for x
    using unique_row [OF d assms(3) that(1)] p [OF that(2)] by simp
  obtain x where "x \<in> set (pd_outbox db)" "p x"
    using one by (metis count_filter filter_False length_0_conv zero_neq_one)
  with only have hit: "p r" by blast
  have "effect_evolves x (f x)" if "x \<in> set (pd_outbox db)" "p x" for x
    using only [OF that] ev hit by simp
  then have "table_evolves pb_message_id effect_evolves (pd_outbox db) (update_where p f (pd_outbox db))"
    using effects.table_update by blast
  moreover have "touches pid db db'"
  proof (rule update_effect_touches [OF assms(1,2) _ f])
    fix x assume "x \<in> set (pd_outbox db)" "p x"
    then show "pb_payment_id x = pid" using only assms(4) by blast
  qed
  moreover have "list_all v2_columns_ok (update_where p f (pd_outbox db))" if "list_all v2_columns_ok (pd_outbox db)"
    using that only ev by (auto simp: list_all_iff update_where_def effect_evolves_def)
  ultimately show ?thesis using hit by (simp add: stage_def payments_evolve_def db')
qed

text \<open>A transition that is applied starts from an open payment.\<close>

lemma replayed_open: "replay_event c e = Inr c' \<Longrightarrow> \<not> closed_payment (pc_status c)"
  by (cases e; cases "pc_status c") (auto simp: replay_event_def bind_res_Inr_iff closed_payment_def)

lemma persist_stage:
  assumes load: "load_payment db pid = Inr (w, n)" and e: "mk_payment_event e = Inr ()"
    and t: "reduce_payment w e = Inr t" "pt_result t = PT_APPLIED"
    and db1: "tables_ok db1" "pd_workflows db1 = pd_workflows db" "pd_events db1 = pd_events db"
    and up: "update_payment_row db1 pid n (pt_next t) (payment_event_time e) = Inr db2"
    and ins: "insert_payment_event op db2 pid (n + 1) e (pt_next t) = Inr db3"
  shows "stage pid db1 db3"
proof -
  let ?p = "\<lambda>r. pr_id r = pid \<and> pr_revision r = n" and ?f = "advanced_row n (pt_next t) (payment_event_time e)"
  note f = load_payment_facts [OF load]
  have open_w: "\<not> closed_payment (pc_status (pw_core w))"
    using applied_transition [OF f(1) e t] replayed_open by metis
  have db3: "pd_workflows db3 = update_where ?p ?f (pd_workflows db1)" "pd_ledger db3 = pd_ledger db1"
    "pd_claims db3 = pd_claims db1" "pd_outbox db3 = pd_outbox db1" "pd_commands db3 = pd_commands db1"
    "pd_receipts db3 = pd_receipts db1" "\<exists>new. pd_events db3 = pd_events db1 @ new"
    using up ins by (auto simp: update_payment_row_def insert_payment_event_def bind_res_Inr_iff swap_one_Inr split: if_splits)
  have d: "distinct (map pr_id (pd_workflows db1))" using db1(1) by (simp add: tables_ok_def payment_keys_def)
  have "pr_status r = pc_status (pw_core w)" if "r \<in> set (pd_workflows db1)" "pr_id r = pid" for r
    using find_row_unique [OF d that(1)] that(2) f(4) db1(2) by (auto simp: payment_row_of_def Let_def)
  then have "workflow_evolves r (?f r)" if "r \<in> set (pd_workflows db1)" "?p r" for r
    using that open_w by (simp add: workflow_evolves_def advanced_row_def Let_def)
  then have "table_evolves pr_id workflow_evolves (pd_workflows db1) (pd_workflows db3)"
    unfolding db3(1) using workflows.table_update [of "pd_workflows db1" ?p ?f] by blast
  then show ?thesis
    using persisted_payment(1) [OF assms] db3 by (simp add: stage_def payments_evolve_def)
qed

end
