(* ===== verification/Pay_Ops.thy ===== *)
theory Pay_Ops
  imports Pay_Evolve
begin

text \<open>
  The operations on the settlement ledger keep the invariant of the payment store. An operation
  loads one payment, whose financial rows are then a tuple of three valid rows; it writes rows of
  that payment alone; and the rows it writes are valid again, so that every payment still loads.
\<close>

section \<open>The records a load returns\<close>

definition financed ::
  "payment_store \<Rightarrow> payment_workflow \<Rightarrow> settlement_command \<Rightarrow> claim_row \<Rightarrow> command_row \<Rightarrow> settlement_row
   \<Rightarrow> financial_records \<Rightarrow> bool" where
  "financed db w k c m l fr \<longleftrightarrow>
     wf_payment w \<and> pc_command (pw_core w) = Some k \<and> tuple_rows db (sc_payment_id k) k c m l
     \<and> records_valid db w k c m l fr"

lemma loaded_records:
  assumes "tables_ok db" "load_payment db pid = Inr (w, n)" "required_records db w err = Inr fr"
  shows "\<exists>c m l. financed db w (fr_command fr) c m l fr \<and> sc_payment_id (fr_command fr) = pid"
proof -
  note f = load_payment_facts [OF assms(2)]
  have fr: "payment_financial_records db w = Inr (Some fr)"
    using assms(3) by (auto simp: required_records_def bind_res_Inr_iff split: option.splits)
  then obtain k where k: "pc_command (pw_core w) = Some k"
    using financial_records_none [of w db "Some fr"] by (cases "pc_command (pw_core w)") auto
  have keys: "payment_keys db" using assms(1) by (simp add: tables_ok_def)
  obtain c m l where t: "tuple_rows db pid k c m l" "records_valid db w k c m l fr"
    using fr financial_records_some [OF keys f(1) k, of "Some fr"] f(2) by auto
  moreover have "sc_payment_id k = pid" using command_fields(1) [OF f(1) k] f(2) by simp
  moreover have "fr_command fr = k" using t(2) by (simp add: records_valid_def)
  ultimately show ?thesis using f(1) k by (auto simp: financed_def)
qed

lemma financed_records:
  assumes "tables_ok db" "financed db w k c m l fr"
  shows "payment_financial_records db w = Inr (Some fr)"
proof -
  have w: "wf_payment w" "pc_command (pw_core w) = Some k" using assms(2) by (simp_all add: financed_def)
  have keys: "payment_keys db" using assms(1) by (simp add: tables_ok_def)
  show ?thesis
    using assms(2) command_fields(1) [OF w] financial_records_some [OF keys w, of "Some fr"]
    by (auto simp: financed_def)
qed

lemma decode_lease_Inr:
  "decode_lease l = Inr x \<longleftrightarrow>
     (case x of
        None \<Rightarrow> pl_owner l = None \<and> pl_acquired_at l = None \<and> pl_expires_at l = None
      | Some s \<Rightarrow> \<exists>raw. pl_owner l = Some raw \<and> id_re (strip raw) \<and> 1 \<le> pl_token l \<and> sl_acquired s < sl_expires s
          \<and> sl_owner s = strip raw \<and> sl_token s = pl_token l \<and> pl_acquired_at l = Some (sl_acquired s)
          \<and> pl_expires_at l = Some (sl_expires s))"
  by (cases "pl_owner l"; cases "pl_acquired_at l"; cases "pl_expires_at l"; cases x)
     (auto simp: decode_lease_def bind_res_Inr_iff simp del: id_re.simps strip_id_re)

lemma decode_outcome_Inr:
  "decode_outcome l = Inr x \<longleftrightarrow>
     (case x of
        None \<Rightarrow> pl_certainty l = None \<and> pl_outcome l = None \<and> pl_recorded_at l = None
      | Some u \<Rightarrow> pl_outcome l = Some u \<and> mk_settlement_outcome u = Inr u \<and> pl_recorded_at l \<noteq> None
          \<and> pl_certainty l = Some (settlement_certainty_value (so_certainty u)))"
  by (cases "pl_certainty l"; cases "pl_outcome l"; cases x)
     (auto simp: decode_outcome_def bind_res_Inr_iff dest: mk_settlement_outcome_Inr)

lemma check_dispatch_Inr:
  "check_dispatch l k x = Inr () \<longleftrightarrow>
     (if pl_slots l = 0 then pl_request_hash l = None \<and> pl_fenced_at l = None
      else hash_re (sha256_hex (sc_payload k)) \<and> pl_request_hash l = Some (sha256_hex (sc_payload k))
        \<and> (\<exists>f. pl_fenced_at l = Some f \<and> opt_all (\<lambda>s. sl_acquired s \<le> f \<and> f < sl_expires s) x))"
  by (auto simp: check_dispatch_def bind_res_Inr_iff opt_all_def split: option.splits)

text \<open>The row of a command, decoded: the checks in terms of its columns.\<close>

lemma decode_ledger_Inr:
  "decode_ledger l k = Inr v \<longleftrightarrow>
     pl_command_id l = sc_id k \<and> pl_payment_id l = sc_payment_id k \<and> pl_version l = sc_version k
     \<and> pl_signature l = sc_signature k \<and> 0 \<le> pl_count l \<and> pl_count l \<le> 3 \<and> pl_token l = pl_count l
     \<and> pl_slots l \<in> {0, 1} \<and> decode_lease l = Inr (lv_lease v) \<and> check_dispatch l k (lv_lease v) = Inr ()
     \<and> decode_outcome l = Inr (lv_outcome v)
     \<and> v = \<lparr>lv_status = pl_status l, lv_lease = lv_lease v, lv_token = pl_token l, lv_count = pl_count l,
          lv_slots = pl_slots l, lv_request_hash = pl_request_hash l, lv_fenced_at = pl_fenced_at l,
          lv_outcome = lv_outcome v, lv_recorded_at = pl_recorded_at l, lv_updated_at = pl_updated_at l\<rparr>"
  by (cases v) (auto simp: decode_ledger_def bind_res_Inr_iff max_pre_dispatch_claims_def)

text \<open>The claim row reads the evidence of the payment and its own lifecycle.\<close>

lemma decode_claim_again:
  assumes "decode_evidence_claim c w = Inr claim"
    and "pc_subject (pw_core w') = pc_subject (pw_core w)" "pc_record (pw_core w') = pc_record (pw_core w)"
      "pc_verified (pw_core w') = pc_verified (pw_core w)"
    and "if st \<in> {CLAIM_IN_PROGRESS, CLAIM_RETRYABLE} then u = None else \<exists>x. u = Some x \<and> pk_claimed_at c \<le> x"
  shows "decode_evidence_claim (c\<lparr>pk_status := st, pk_consumed_at := u\<rparr>) w'
    = Inr (claim\<lparr>ec_status := st, ec_consumed_at := u\<rparr>)"
  using assms by (auto simp: decode_evidence_claim_def Let_def bind_res_Inr_iff split: if_splits)

lemma decode_command_again:
  assumes "decode_payment_command m w = Inr k"
    and "pc_command (pw_core w') = pc_command (pw_core w)" "pc_record (pw_core w') = pc_record (pw_core w)"
  shows "decode_payment_command m w' = Inr k"
  using assms by (auto simp: decode_payment_command_def Let_def bind_res_Inr_iff)

lemma claimed_at_recorded: "decode_evidence_claim c w = Inr claim \<Longrightarrow>
    \<exists>e. pc_record (pw_core w) = Some e \<and> pk_claimed_at c = er_recorded_at e"
  by (force simp: decode_evidence_claim_def Let_def bind_res_Inr_iff)

section \<open>Writing a valid tuple\<close>

text \<open>
  New rows for the tuple of a payment, possibly of its next state, make a valid tuple again when
  the ledger row decodes, the statuses fit and the outbox holds the effects of the outcome.
\<close>

definition same_subject :: "payment_workflow \<Rightarrow> payment_workflow \<Rightarrow> bool" where
  "same_subject w w' \<longleftrightarrow>
     pc_subject (pw_core w') = pc_subject (pw_core w) \<and> pc_record (pw_core w') = pc_record (pw_core w)
     \<and> pc_verified (pw_core w') = pc_verified (pw_core w) \<and> pc_command (pw_core w') = pc_command (pw_core w)"

lemma same_subject_refl [simp]: "same_subject w w"
  by (simp add: same_subject_def)

lemma financed_again:
  assumes fin: "financed db w k c m l fr" and w': "same_subject w w'" "wf_payment w'"
    and t: "tuple_rows db' (sc_payment_id k) k (c\<lparr>pk_status := st, pk_consumed_at := u\<rparr>) m l'"
    and u: "if st \<in> {CLAIM_IN_PROGRESS, CLAIM_RETRYABLE} then u = None else \<exists>x. u = Some x \<and> pk_claimed_at c \<le> x"
    and l': "decode_ledger l' k = Inr v" and v: "financial_status_valid (pw_core w') v st"
    and jobs: "validate_payment_jobs db' w' k v = Inr ()"
  shows "financed db' w' k (c\<lparr>pk_status := st, pk_consumed_at := u\<rparr>) m l'
    \<lparr>fr_claim = (fr_claim fr)\<lparr>ec_status := st, ec_consumed_at := u\<rparr>, fr_command = k, fr_ledger = v\<rparr>"
proof -
  have r: "decode_evidence_claim c w = Inr (fr_claim fr)" "decode_payment_command m w = Inr k"
    using fin by (simp_all add: financed_def records_valid_def)
  note s = w'(1) [unfolded same_subject_def]
  show ?thesis
    using decode_claim_again [OF r(1) _ _ _ u, of w'] decode_command_again [OF r(2), of w'] s w'(2) t l' v jobs fin
    by (simp add: financed_def records_valid_def)
qed

text \<open>The outbox of a payment without an outcome is empty.\<close>

lemma validate_jobs_open:
  assumes "lv_outcome v = None"
  shows "validate_payment_jobs db w k v = Inr () \<longleftrightarrow> payment_effects db (sc_payment_id k) = []"
  using assms by (auto simp: validate_jobs_iff expected_jobs_def)

lemma load_again:
  assumes "load_payment db pid = Inr (w, n)" "pd_workflows db' = pd_workflows db" "pd_events db' = pd_events db"
    and "payment_financial_records db' w = Inr x"
  shows "load_payment db' pid = Inr (w, n)"
  using assms by (auto simp: load_payment_iff event_history_def payment_event_rows_def)

text \<open>An update of the lease of a command and of its evidence claim, by a holder or a successor.\<close>

lemma relet_settlement:
  assumes ok: "payments_ok db" and load: "load_payment db pid = Inr (w, n)" and rec: "required_records db w err = Inr fr"
    and up: "update_settlement db p f err' = Inr db1"
    and cl: "update_claim db1 (sc_claim_key (fr_command fr)) from st None msg = Inr db2"
    and st: "st \<in> {CLAIM_IN_PROGRESS, CLAIM_RETRYABLE}"
    and p: "\<And>r. p r \<Longrightarrow> pl_command_id r = sc_id (fr_command fr)"
    and f: "\<And>r. pl_payment_id (f r) = pl_payment_id r" "\<And>r. pl_command_id (f r) = pl_command_id r"
    and new: "\<And>c m l. financed db w (fr_command fr) c m l fr \<Longrightarrow> p l \<Longrightarrow>
      settlement_evolves l (f l) \<and> lv_outcome (fr_ledger fr) = None
      \<and> (\<exists>v. decode_ledger (f l) (fr_command fr) = Inr v \<and> lv_outcome v = None
            \<and> financial_status_valid (pw_core w) v st)"
  shows "stage pid db db2 \<and> load_payment db2 pid = Inr (w, n)
    \<and> db2 = db\<lparr>pd_ledger := update_where p f (pd_ledger db), pd_claims := pd_claims db2\<rparr>"
proof -
  let ?k = "fr_command fr"
  have t0: "tables_ok db" using ok by (simp add: payments_ok_def)
  obtain c m l where fin: "financed db w ?k c m l fr" and pid: "sc_payment_id ?k = pid"
    using loaded_records [OF t0 load rec] by blast
  have t: "tuple_rows db pid ?k c m l" using fin pid by (simp add: financed_def)
  obtain 1: "p l" "tuple_rows db1 pid ?k c m (f l)" "stage pid db db1"
      and db1: "db1 = db\<lparr>pd_ledger := update_where p f (pd_ledger db)\<rparr>"
    using settlement_stage [OF t0 up t p f] new [OF fin] by blast
  obtain 2: "tuple_rows db2 pid ?k (c\<lparr>pk_status := st, pk_consumed_at := None\<rparr>) m (f l)" "stage pid db1 db2"
      and db2: "db2 = db1\<lparr>pd_claims := pd_claims db2\<rparr>"
    using claim_stage [OF stage_ok [OF 1(3)] cl 1(2)] by blast
  obtain v where v: "decode_ledger (f l) ?k = Inr v" "lv_outcome v = None" "financial_status_valid (pw_core w) v st"
      and none: "lv_outcome (fr_ledger fr) = None"
    using new [OF fin 1(1)] by blast
  obtain x where x: "db2 = db\<lparr>pd_ledger := update_where p f (pd_ledger db), pd_claims := x\<rparr>"
    using db1 db2 by simp
  have "payment_effects db (sc_payment_id ?k) = []"
    using fin validate_jobs_open [OF none] by (simp add: financed_def records_valid_def)
  then have jobs: "validate_payment_jobs db2 w ?k v = Inr ()"
    unfolding validate_jobs_open [OF v(2)] by (simp add: x payment_effects_def)
  have w: "wf_payment w" using fin by (simp add: financed_def)
  have "financed db2 w ?k (c\<lparr>pk_status := st, pk_consumed_at := None\<rparr>) m (f l)
      \<lparr>fr_claim = (fr_claim fr)\<lparr>ec_status := st, ec_consumed_at := None\<rparr>, fr_command = ?k, fr_ledger = v\<rparr>"
    by (rule financed_again [OF fin same_subject_refl w _ _ v(1,3) jobs]) (use 2(1) pid st in auto)
  then have "load_payment db2 pid = Inr (w, n)"
    using load_again [OF load] financed_records [OF stage_ok [OF 2(2)]] x by simp
  then show ?thesis using stage_trans [OF 1(3) 2(2)] x by simp
qed

section \<open>Advancing the workflow\<close>

lemma persisted_stage:
  assumes load: "load_payment db pid = Inr (w, n)" and e: "mk_payment_event e = Inr ()" "reduce_payment w e = Inr t"
    and s: "stage pid db db1" "pd_workflows db1 = pd_workflows db" "pd_events db1 = pd_events db"
    and persist: "persist_transition op db1 w n e t = Inr db2"
    and fin: "pt_result t = PT_APPLIED \<Longrightarrow> \<exists>c m l fr. financed db1 (pt_next t) k c m l fr"
  shows "pt_result t = PT_APPLIED \<and> stage pid db db2 \<and> load_payment db2 pid = Inr (pt_next t, n + 1)
    \<and> same_finance db1 db2"
proof -
  note facts = persist_transition_facts [OF load e stage_ok [OF s(1)] s(2,3) persist]
  have pid: "ps_payment_id (pc_subject (pw_core w)) = pid" using load_payment_facts(2) [OF load] .
  obtain db' where "update_payment_row db1 pid n (pt_next t) (payment_event_time e) = Inr db'"
      "insert_payment_event op db' pid (n + 1) e (pt_next t) = Inr db2"
    using persist by (auto simp: persist_transition_def Let_def bind_res_Inr_iff pid)
  then have "stage pid db1 db2"
    using persist_stage [OF load e facts(1) stage_ok [OF s(1)] s(2,3)] by blast
  then show ?thesis
    using facts(1,3,4) stage_trans [OF s(1)] fin financed_records [OF stage_ok [OF s(1)]] by blast
qed

lemma started_step:
  assumes "wf_payment w" "mk_payment_event (SettlementStarted x) = Inr ()"
    and "reduce_payment w (SettlementStarted x) = Inr t" "pt_result t = PT_APPLIED"
  shows "same_subject w (pt_next t)" "wf_payment (pt_next t)" "pc_status (pw_core (pt_next t)) = PAY_SETTLING"
    "pc_start (pw_core (pt_next t)) = Some x" "pc_finish (pw_core (pt_next t)) = pc_finish (pw_core w)"
proof -
  obtain c' where c: "replay_event (pw_core w) (SettlementStarted x) = Inr c'" "pw_core (pt_next t) = c'"
    "wf_payment (pt_next t)" using applied_transition [OF assms] by metis
  then have c': "c' = (pw_core w)\<lparr>pc_status := PAY_SETTLING, pc_start := Some x\<rparr>"
    by (auto simp: replay_event_def replay_start_def bind_res_Inr_iff split: option.splits)
  then show "same_subject w (pt_next t)" "wf_payment (pt_next t)" "pc_status (pw_core (pt_next t)) = PAY_SETTLING"
    "pc_start (pw_core (pt_next t)) = Some x" "pc_finish (pw_core (pt_next t)) = pc_finish (pw_core w)"
    using c by (simp_all add: same_subject_def)
qed

lemma finished_step:
  assumes "wf_payment w" "mk_payment_event (SettlementFinished x) = Inr ()"
    and "reduce_payment w (SettlementFinished x) = Inr t" "pt_result t = PT_APPLIED"
  shows "same_subject w (pt_next t)" "wf_payment (pt_next t)" "pw_policy (pt_next t) = pw_policy w"
    "project_settlement_outcome (sf_outcome x) (pc_start (pw_core w) \<noteq> None) = Inr (pc_status (pw_core (pt_next t)))"
    "pc_start (pw_core (pt_next t)) = pc_start (pw_core w)" "pc_finish (pw_core (pt_next t)) = Some x"
    "\<exists>r. pc_record (pw_core w) = Some r \<and> er_recorded_at r \<le> sf_finished_at x"
proof -
  let ?c = "pw_core w"
  obtain c' where c: "replay_event ?c (SettlementFinished x) = Inr c'" "pw_core (pt_next t) = c'"
    "wf_payment (pt_next t)" "pw_policy (pt_next t) = pw_policy w" using applied_transition [OF assms] by metis
  then have "replay_finish ?c x = Inr c'" by (auto simp: replay_event_def bind_res_Inr_iff)
  then obtain st where c': "c' = ?c\<lparr>pc_status := st, pc_finish := Some x\<rparr>"
      and st: "project_settlement_outcome (sf_outcome x) (pc_start ?c \<noteq> None) = Inr st"
      and k: "map_option sc_id (pc_command ?c) = Some (sf_command_id x)"
      and b: "\<not> (case boundary_time ?c of None \<Rightarrow> True | Some b \<Rightarrow> sf_finished_at x < b)"
    unfolding replay_finish_def bind_res_Inr_iff reject_if_Inr by blast
  show "same_subject w (pt_next t)" "wf_payment (pt_next t)" "pw_policy (pt_next t) = pw_policy w"
    "project_settlement_outcome (sf_outcome x) (pc_start ?c \<noteq> None) = Inr (pc_status (pw_core (pt_next t)))"
    "pc_start (pw_core (pt_next t)) = pc_start ?c" "pc_finish (pw_core (pt_next t)) = Some x"
    using c st c' by (simp_all add: same_subject_def)
  have ok: "core_ok ?c (pw_history w)" by (rule wf_payment_core [OF assms(1)])
  obtain r where r: "pc_record ?c = Some r" using core_record [OF ok] k by auto
  have "er_recorded_at r \<le> sf_finished_at x"
  proof (cases "pc_start ?c")
    case None
    then show ?thesis using b r by (simp add: boundary_time_def)
  next
    case (Some s)
    then have "er_recorded_at r \<le> ss_started_at s"
      using ok r by (auto simp: core_ok_def check_start_def bind_res_Inr_iff split: option.splits)
    then show ?thesis using b Some by (simp add: boundary_time_def)
  qed
  with r show "\<exists>r. pc_record ?c = Some r \<and> er_recorded_at r \<le> sf_finished_at x" by blast
qed

end
