(* ===== verification/Pay_Settle_Laws.thy ===== *)
theory Pay_Settle_Laws
  imports Pay_Ops
begin

text \<open>
  Every operation on the settlement ledger keeps the invariant and evolves the store; with it comes
  what the operation does to the row of its command.
\<close>

section \<open>The rows of an open settlement\<close>

text \<open>A command that is queued or leased has no trace of a dispatch or an outcome.\<close>

lemma unfenced_row:
  assumes "financed db w k c m l fr" "lv_status (fr_ledger fr) \<in> {SETTLEMENT_QUEUED, SETTLEMENT_LEASED}"
  shows "pl_slots l = 0" "pl_outcome l = None" "pl_certainty l = None" "pl_recorded_at l = None" "pl_request_hash l = None"
    "pl_fenced_at l = None" "pl_token l = pl_count l" "0 \<le> pl_count l" "lv_outcome (fr_ledger fr) = None"
    "pc_status (pw_core w) = PAY_SETTLEMENT_QUEUED" "pc_start (pw_core w) = None" "pc_finish (pw_core w) = None"
    "pl_status l = lv_status (fr_ledger fr)" "lv_count (fr_ledger fr) = pl_count l"
proof -
  have d: "decode_ledger l k = Inr (fr_ledger fr)"
      "financial_status_valid (pw_core w) (fr_ledger fr) (ec_status (fr_claim fr))"
    using assms(1) by (simp_all add: financed_def records_valid_def)
  note r = decode_ledger_row [OF d(1)]
  have o: "lv_outcome (fr_ledger fr) = None" "lv_slots (fr_ledger fr) = 0" "pc_status (pw_core w) = PAY_SETTLEMENT_QUEUED"
      "pc_start (pw_core w) = None" "pc_finish (pw_core w) = None"
    using d(2) assms(2) by (auto simp: financial_status_valid_def)
  then show "pl_slots l = 0" "pl_outcome l = None" "pl_certainty l = None" "pl_recorded_at l = None" "pl_request_hash l = None"
    "pl_fenced_at l = None" "pl_token l = pl_count l" "0 \<le> pl_count l" "lv_outcome (fr_ledger fr) = None"
    "pc_status (pw_core w) = PAY_SETTLEMENT_QUEUED" "pc_start (pw_core w) = None" "pc_finish (pw_core w) = None"
    "pl_status l = lv_status (fr_ledger fr)" "lv_count (fr_ledger fr) = pl_count l"
    using r decode_outcome_Inr [of l None] by (auto simp: check_dispatch_Inr)
qed

lemma fenced_settlement_row:
  assumes "financed db w k c m l fr" "lv_status (fr_ledger fr) = SETTLEMENT_FENCED"
  shows "pl_slots l = 1" "pl_outcome l = None" "pl_certainty l = None" "pl_recorded_at l = None" "pl_token l = pl_count l"
    "hash_re (sha256_hex (sc_payload k))" "pl_request_hash l = Some (sha256_hex (sc_payload k))"
    "lv_outcome (fr_ledger fr) = None" "\<exists>s. pc_start (pw_core w) = Some s \<and> pl_fenced_at l = Some (ss_started_at s)"
    "pl_status l = SETTLEMENT_FENCED" "lv_count (fr_ledger fr) = pl_count l"
proof -
  have d: "decode_ledger l k = Inr (fr_ledger fr)"
      "financial_status_valid (pw_core w) (fr_ledger fr) (ec_status (fr_claim fr))"
    using assms(1) by (simp_all add: financed_def records_valid_def)
  note r = decode_ledger_row [OF d(1)]
  have o: "lv_outcome (fr_ledger fr) = None" "lv_slots (fr_ledger fr) = 1"
      "\<exists>s. pc_start (pw_core w) = Some s \<and> lv_fenced_at (fr_ledger fr) = Some (ss_started_at s)"
    using d(2) assms(2) by (auto simp: financial_status_valid_def split: option.splits)
  then show "pl_slots l = 1" "pl_outcome l = None" "pl_certainty l = None" "pl_recorded_at l = None" "pl_token l = pl_count l"
    "hash_re (sha256_hex (sc_payload k))" "pl_request_hash l = Some (sha256_hex (sc_payload k))"
    "lv_outcome (fr_ledger fr) = None" "\<exists>s. pc_start (pw_core w) = Some s \<and> pl_fenced_at l = Some (ss_started_at s)"
    "pl_status l = SETTLEMENT_FENCED" "lv_count (fr_ledger fr) = pl_count l"
    using r decode_outcome_Inr [of l None] assms(2) by (auto simp: check_dispatch_Inr)
qed

lemma financed_ledger: "financed db w k c m l fr \<Longrightarrow> decode_ledger l k = Inr (fr_ledger fr)"
  by (simp add: financed_def records_valid_def)

section \<open>Claiming\<close>

text \<open>The row a claim writes, from a row that is queued or whose lease has run out.\<close>

lemma leased_row_valid:
  assumes fin: "financed db w k c m l fr" and st: "lv_status (fr_ledger fr) \<in> {SETTLEMENT_QUEUED, SETTLEMENT_LEASED}"
    and n: "n = lv_count (fr_ledger fr) + 1" "n \<le> 3" and owner: "id_re (strip owner)" and time: "now < x"
  shows "settlement_evolves l (leased_settlement owner now x n l) \<and> lv_outcome (fr_ledger fr) = None
    \<and> (\<exists>v. decode_ledger (leased_settlement owner now x n l) k = Inr v \<and> lv_outcome v = None
          \<and> financial_status_valid (pw_core w) v CLAIM_IN_PROGRESS)"
proof -
  note d = financed_ledger [OF fin] and l = unfenced_row [OF fin st]
  let ?l = "leased_settlement owner now x n l"
  let ?v = "\<lparr>lv_status = SETTLEMENT_LEASED,
      lv_lease = Some \<lparr>sl_owner = strip owner, sl_token = n, sl_acquired = now, sl_expires = x\<rparr>,
      lv_token = n, lv_count = n, lv_slots = 0, lv_request_hash = None, lv_fenced_at = None, lv_outcome = None,
      lv_recorded_at = None, lv_updated_at = now\<rparr>"
  have "decode_ledger ?l k = Inr ?v"
    using d l n owner time
    by (simp add: decode_ledger_Inr leased_settlement_def decode_lease_Inr check_dispatch_Inr decode_outcome_Inr
        del: id_re.simps strip_id_re)
  moreover have "financial_status_valid (pw_core w) ?v CLAIM_IN_PROGRESS" using l by (simp add: financial_status_valid_def)
  moreover have "settlement_evolves l ?l" using l n by (simp add: settlement_evolves_def leased_settlement_def)
  ultimately show ?thesis using l(9) by fastforce
qed

lemma requeued_row_valid:
  assumes fin: "financed db w k c m l fr" and st: "lv_status (fr_ledger fr) = SETTLEMENT_LEASED"
  shows "settlement_evolves l (requeued_settlement now l) \<and> lv_outcome (fr_ledger fr) = None
    \<and> (\<exists>v. decode_ledger (requeued_settlement now l) k = Inr v \<and> lv_outcome v = None
          \<and> financial_status_valid (pw_core w) v CLAIM_RETRYABLE)"
proof -
  have st': "lv_status (fr_ledger fr) \<in> {SETTLEMENT_QUEUED, SETTLEMENT_LEASED}" using st by simp
  note d = financed_ledger [OF fin] and l = unfenced_row [OF fin st']
  let ?l = "requeued_settlement now l"
  let ?v = "\<lparr>lv_status = SETTLEMENT_QUEUED, lv_lease = None, lv_token = pl_count l, lv_count = pl_count l, lv_slots = 0,
      lv_request_hash = None, lv_fenced_at = None, lv_outcome = None, lv_recorded_at = None, lv_updated_at = now\<rparr>"
  have "decode_ledger ?l k = Inr ?v"
    using d l by (simp add: decode_ledger_Inr requeued_settlement_def decode_lease_Inr check_dispatch_Inr decode_outcome_Inr)
  moreover have "financial_status_valid (pw_core w) ?v CLAIM_RETRYABLE" using l by (simp add: financial_status_valid_def)
  moreover have "settlement_evolves l ?l" using l by (simp add: settlement_evolves_def requeued_settlement_def)
  ultimately show ?thesis using l(9) by fastforce
qed

lemma select_settlement_Some:
  "select_settlement db now rows = Inr (Some fr) \<Longrightarrow>
     \<exists>pid w n. load_payment db pid = Inr (w, n)
       \<and> required_records db w (DataCorruption ''claimable ledger lacks financial records'') = Inr fr
       \<and> lv_count (fr_ledger fr) < max_pre_dispatch_claims
       \<and> (lv_status (fr_ledger fr) = SETTLEMENT_QUEUED
          \<or> lv_status (fr_ledger fr) = SETTLEMENT_LEASED
            \<and> (\<exists>s. lv_lease (fr_ledger fr) = Some s \<and> sl_expires s \<le> now))"
proof (induction rows)
  case (Cons r rs)
  then obtain w n fr' where 1: "load_payment db (pl_payment_id r) = Inr (w, n)"
      "required_records db w (DataCorruption ''claimable ledger lacks financial records'') = Inr fr'"
    and 2: "(if lv_count (fr_ledger fr') \<ge> max_pre_dispatch_claims then select_settlement db now rs
        else if lv_status (fr_ledger fr') = SETTLEMENT_QUEUED
          \<or> lv_status (fr_ledger fr') = SETTLEMENT_LEASED
            \<and> (case lv_lease (fr_ledger fr') of None \<Rightarrow> False | Some l \<Rightarrow> now \<ge> sl_expires l)
        then Inr (Some fr') else select_settlement db now rs) = Inr (Some fr)"
    by (auto simp: bind_res_Inr_iff Let_def)
  show ?case
  proof (cases "select_settlement db now rs = Inr (Some fr)")
    case False
    then have "fr = fr'" "lv_count (fr_ledger fr') < max_pre_dispatch_claims"
        "lv_status (fr_ledger fr') = SETTLEMENT_QUEUED
          \<or> lv_status (fr_ledger fr') = SETTLEMENT_LEASED
            \<and> (case lv_lease (fr_ledger fr') of None \<Rightarrow> False | Some l \<Rightarrow> now \<ge> sl_expires l)"
      using 2 by (auto simp: not_le split: if_splits)
    then show ?thesis using 1 by (auto split: option.splits)
  qed (use Cons.IH in simp)
qed simp

definition selected_settlement :: "financial_records \<Rightarrow> settlement_row \<Rightarrow> bool" where
  "selected_settlement fr r \<longleftrightarrow>
     pl_command_id r = sc_id (fr_command fr) \<and> pl_token r = lv_token (fr_ledger fr)
     \<and> pl_count r = lv_count (fr_ledger fr) \<and> pl_slots r = 0
     \<and> (if lv_status (fr_ledger fr) = SETTLEMENT_QUEUED
        then pl_status r = SETTLEMENT_QUEUED \<and> pl_owner r = None
        else pl_status r = SETTLEMENT_LEASED \<and> pl_owner r = map_option sl_owner (lv_lease (fr_ledger fr))
             \<and> pl_expires_at r = map_option sl_expires (lv_lease (fr_ledger fr)))"

definition claim_selected ::
  "payment_store \<Rightarrow> string \<Rightarrow> timestamp \<Rightarrow> timedelta \<Rightarrow> financial_records \<Rightarrow> (payment_store \<times> settlement_claim option) res" where
  "claim_selected db worker now ttl fr =
     (case add_timedelta now ttl of
        None \<Rightarrow> Inl (OverflowError ''date value out of range'')
      | Some x \<Rightarrow>
          bind_res (update_settlement db (selected_settlement fr)
            (leased_settlement worker now x (lv_count (fr_ledger fr) + 1))
            (ConcurrencyConflict ''settlement claim lost its compare-and-swap'')) (\<lambda>db.
          bind_res (update_claim db (sc_claim_key (fr_command fr)) {CLAIM_IN_PROGRESS, CLAIM_RETRYABLE}
            CLAIM_IN_PROGRESS None ''settlement claim evidence lifecycle is divergent'') (\<lambda>db.
          bind_res (mk_settlement_lease worker (lv_count (fr_ledger fr) + 1) now x) (\<lambda>lease.
          bind_res (mk_settlement_claim (fr_command fr) lease (lv_count (fr_ledger fr) + 1)) (\<lambda>claim.
          Inr (db, Some claim))))))"

text \<open>The claim, with the work on the command it selected as one function.\<close>

lemma claim_settlement_selected:
  "claim_settlement db worker now ttl =
     bind_res (exact_text worker ''worker_id'') (\<lambda>_.
     bind_res (positive_ttl ttl) (\<lambda>_.
     bind_res (select_settlement db now (settlement_candidates db)) (\<lambda>selected.
     case selected of None \<Rightarrow> Inr (db, None) | Some fr \<Rightarrow> claim_selected db worker now ttl fr)))"
  unfolding claim_settlement_def claim_selected_def selected_settlement_def [abs_def] Let_def
  by (simp add: exact_text_def positive_ttl_def)

lemma claim_settlement_effect:
  assumes ok: "payments_ok db" and r: "claim_settlement db worker now ttl = Inr (db', Some claim)"
  shows "\<exists>pid w n l x. stage pid db db' \<and> load_payment db' pid = Inr (w, n)
    \<and> find_row pl_command_id (sc_id (sn_command claim)) (pd_ledger db) = Some l \<and> pl_slots l = 0 \<and> pl_count l < 3
    \<and> (pl_status l = SETTLEMENT_QUEUED \<or> pl_status l = SETTLEMENT_LEASED \<and> expired_settlement now l)
    \<and> find_row pl_command_id (sc_id (sn_command claim)) (pd_ledger db')
        = Some (leased_settlement worker now x (pl_count l + 1) l)
    \<and> sn_count claim = pl_count l + 1 \<and> sn_command claim \<in> cr_value ` set (pd_commands db)
    \<and> sn_lease claim = \<lparr>sl_owner = strip worker, sl_token = pl_count l + 1, sl_acquired = now, sl_expires = x\<rparr>"
proof -
  obtain sel where sel0: "select_settlement db now (settlement_candidates db) = Inr sel"
      and run: "(case sel of None \<Rightarrow> Inr (db, None) | Some fr \<Rightarrow> claim_selected db worker now ttl fr) = Inr (db', Some claim)"
    using r unfolding claim_settlement_selected bind_res_Inr_iff by blast
  obtain fr where sel: "select_settlement db now (settlement_candidates db) = Inr (Some fr)"
      and run: "claim_selected db worker now ttl fr = Inr (db', Some claim)"
    using sel0 run by (cases sel) auto
  let ?p = "selected_settlement fr" and ?f = "\<lambda>x. leased_settlement worker now x (lv_count (fr_ledger fr) + 1)"
  obtain x where x: "add_timedelta now ttl = Some x"
    using run by (auto simp: claim_selected_def split: option.splits)
  obtain db1 s where
      up: "update_settlement db ?p (?f x) (ConcurrencyConflict ''settlement claim lost its compare-and-swap'') = Inr db1"
      and cl: "update_claim db1 (sc_claim_key (fr_command fr)) {CLAIM_IN_PROGRESS, CLAIM_RETRYABLE}
             CLAIM_IN_PROGRESS None ''settlement claim evidence lifecycle is divergent'' = Inr db'"
      and lease: "mk_settlement_lease worker (lv_count (fr_ledger fr) + 1) now x = Inr s"
      and claim: "mk_settlement_claim (fr_command fr) s (lv_count (fr_ledger fr) + 1) = Inr claim"
    using run unfolding claim_selected_def x option.case bind_res_Inr_iff
    by (elim exE conjE) (simp del: mk_settlement_lease_Inr mk_settlement_claim_Inr)
  have s: "s = sn_lease claim" using claim by simp
  let ?f = "?f x"
  obtain pid w n where load: "load_payment db pid = Inr (w, n)"
      and rec: "required_records db w (DataCorruption ''claimable ledger lacks financial records'') = Inr fr"
      and count: "lv_count (fr_ledger fr) < 3"
      and st: "lv_status (fr_ledger fr) = SETTLEMENT_QUEUED
          \<or> lv_status (fr_ledger fr) = SETTLEMENT_LEASED
            \<and> (\<exists>s. lv_lease (fr_ledger fr) = Some s \<and> sl_expires s \<le> now)"
    using select_settlement_Some [OF sel] unfolding max_pre_dispatch_claims_def by blast
  have owner: "id_re (strip worker)" "now < x" using lease by (simp_all del: id_re.simps strip_id_re)
  have new: "settlement_evolves l (?f l) \<and> lv_outcome (fr_ledger fr) = None
      \<and> (\<exists>v. decode_ledger (?f l) (fr_command fr) = Inr v \<and> lv_outcome v = None
            \<and> financial_status_valid (pw_core w) v CLAIM_IN_PROGRESS)"
    if "financed db w (fr_command fr) c m l fr" for c m l
    by (rule leased_row_valid [OF that _ refl _ owner]) (use count st in auto)
  have s: "stage pid db db' \<and> load_payment db' pid = Inr (w, n)
      \<and> db' = db\<lparr>pd_ledger := update_where ?p ?f (pd_ledger db), pd_claims := pd_claims db'\<rparr>"
    by (rule relet_settlement [OF ok load rec up cl])
       (erule new | simp add: selected_settlement_def leased_settlement_def)+
  have t0: "tables_ok db" using ok by (simp add: payments_ok_def)
  obtain c m l where fin: "financed db w (fr_command fr) c m l fr" "sc_payment_id (fr_command fr) = pid"
    using loaded_records [OF t0 load rec] by blast
  have dl: "decode_ledger l (fr_command fr) = Inr (fr_ledger fr)" using fin by (simp add: financed_def records_valid_def)
  note lr = decode_ledger_row [OF dl]
  have tu: "tuple_rows db pid (fr_command fr) c m l" using fin by (simp add: financed_def)
  have d: "distinct (map pl_command_id (pd_ledger db))" using t0 by (simp add: tables_ok_def payment_keys_def)
  have found: "find_row pl_command_id (sc_id (fr_command fr)) (pd_ledger db) = Some l"
    using find_row_unique [OF d tuple_rows_mem(3) [OF tu]] lr by simp
  have hit: "?p l"
    by (rule update_settlement_tuple [OF t0 up tu, THEN conjunct1])
       (simp_all add: leased_settlement_def selected_settlement_def)
  have ledger': "pd_ledger db' = update_where ?p ?f (pd_ledger db)"
    using s by (metis (no_types, lifting) payment_store.select_convs(6) payment_store.surjective payment_store.update_convs(4,6))
  have "find_row pl_command_id (sc_id (fr_command fr)) (pd_ledger db') = map_option (\<lambda>r. if ?p r then ?f r else r) (Some l)"
    unfolding ledger' found [symmetric] by (rule find_update) (simp add: leased_settlement_def)
  then have found': "find_row pl_command_id (sc_id (fr_command fr)) (pd_ledger db') = Some (?f l)" using hit by simp
  have exp: "pl_status l = SETTLEMENT_QUEUED \<or> pl_status l = SETTLEMENT_LEASED \<and> expired_settlement now l"
    using st lr by (auto simp: decode_lease_Inr expired_settlement_def)
  have k: "sn_command claim = fr_command fr" "sn_count claim = lv_count (fr_ledger fr) + 1"
    and lease': "sn_lease claim = \<lparr>sl_owner = strip worker, sl_token = lv_count (fr_ledger fr) + 1, sl_acquired = now, sl_expires = x\<rparr>"
    using claim lease s by (auto simp del: id_re.simps strip_id_re)
  have n: "lv_count (fr_ledger fr) = pl_count l" "pl_slots l = 0"
    using lr hit by (simp_all add: selected_settlement_def)
  have "stage pid db db'" "load_payment db' pid = Inr (w, n)" using s by blast+
  moreover have "pl_count l < 3" using count n by simp
  moreover have "decode_payment_command m w = Inr (fr_command fr)" using fin(1) by (simp add: financed_def records_valid_def)
  then have "fr_command fr \<in> cr_value ` set (pd_commands db)"
    using decode_command_row tuple_rows_mem(2) [OF tu] by blast
  ultimately show ?thesis
    using found found' exp n(2) unfolding k lease' n(1) by blast
qed

section \<open>Releasing and fencing\<close>

lemma live_claim_Inr:
  "assert_live_settlement_claim claim now fr = Inr () \<longleftrightarrow>
     fr_command fr = sn_command claim \<and> lv_status (fr_ledger fr) = SETTLEMENT_LEASED
     \<and> lv_lease (fr_ledger fr) = Some (sn_lease claim) \<and> lv_token (fr_ledger fr) = sl_token (sn_lease claim)
     \<and> lv_count (fr_ledger fr) = sn_count claim \<and> lv_slots (fr_ledger fr) = 0 \<and> lv_outcome (fr_ledger fr) = None
     \<and> ec_status (fr_claim fr) = CLAIM_IN_PROGRESS \<and> now < sl_expires (sn_lease claim)"
  by (auto simp: assert_live_settlement_claim_def Let_def)

lemma requeue_settlement:
  assumes ok: "payments_ok db" and load: "load_payment db pid = Inr (w, n)" and rec: "required_records db w err = Inr fr"
    and st: "lv_status (fr_ledger fr) = SETTLEMENT_LEASED"
    and up: "update_settlement db p (requeued_settlement now) err' = Inr db1"
    and cl: "update_claim db1 (sc_claim_key (fr_command fr)) {CLAIM_IN_PROGRESS} CLAIM_RETRYABLE None msg = Inr db'"
    and p: "\<And>r. p r \<Longrightarrow> pl_command_id r = sc_id (fr_command fr)"
  shows "stage pid db db' \<and> load_payment db' pid = Inr (w, n)
    \<and> db' = db\<lparr>pd_ledger := update_where p (requeued_settlement now) (pd_ledger db), pd_claims := pd_claims db'\<rparr>"
  by (rule relet_settlement [OF ok load rec up cl])
     (erule requeued_row_valid [OF _ st] p | simp add: requeued_settlement_def)+

lemma fenced_row_valid:
  assumes fin: "financed db w k c m l fr" and st: "lv_status (fr_ledger fr) = SETTLEMENT_LEASED"
    and lease: "lv_lease (fr_ledger fr) = Some s" "sl_acquired s \<le> now" "now < sl_expires s"
    and hash: "hash_re (sha256_hex (sc_payload k))" and x: "ss_started_at x = now"
    and w': "pc_status c' = PAY_SETTLING" "pc_start c' = Some x" "pc_finish c' = pc_finish (pw_core w)"
  shows "settlement_evolves l (fenced_settlement (sha256_hex (sc_payload k)) now l)"
    "\<exists>v. decode_ledger (fenced_settlement (sha256_hex (sc_payload k)) now l) k = Inr v \<and> lv_outcome v = None
       \<and> financial_status_valid c' v CLAIM_IN_PROGRESS"
proof -
  have st': "lv_status (fr_ledger fr) \<in> {SETTLEMENT_QUEUED, SETTLEMENT_LEASED}" using st by simp
  note d = financed_ledger [OF fin] and l = unfenced_row [OF fin st']
  let ?h = "sha256_hex (sc_payload k)" let ?l = "fenced_settlement ?h now l"
  show "settlement_evolves l ?l" using l by (simp add: settlement_evolves_def fenced_settlement_def)
  let ?v = "\<lparr>lv_status = SETTLEMENT_FENCED, lv_lease = Some s, lv_token = pl_count l, lv_count = pl_count l, lv_slots = 1,
      lv_request_hash = Some ?h, lv_fenced_at = Some now, lv_outcome = None, lv_recorded_at = None, lv_updated_at = now\<rparr>"
  have "decode_ledger ?l k = Inr ?v"
    using d l lease hash
    by (simp add: decode_ledger_Inr fenced_settlement_def decode_lease_Inr check_dispatch_Inr decode_outcome_Inr opt_all_def)
  moreover have "financial_status_valid c' ?v CLAIM_IN_PROGRESS" using l w' x by (simp add: financial_status_valid_def)
  ultimately show "\<exists>v. decode_ledger ?l k = Inr v \<and> lv_outcome v = None \<and> financial_status_valid c' v CLAIM_IN_PROGRESS"
    by fastforce
qed

lemma fence_settlement_effect:
  assumes ok: "payments_ok db" and r: "fence_settlement db claim request now = Inr (db', permit)"
  shows "\<exists>pid w n l. stage pid db db' \<and> load_payment db' pid = Inr (w, n)
    \<and> find_row pl_command_id (sc_id (sn_command claim)) (pd_ledger db) = Some l
    \<and> pl_status l = SETTLEMENT_LEASED \<and> pl_slots l = 0 \<and> pl_token l = sl_token (sn_lease claim)
    \<and> pl_owner l = Some (sl_owner (sn_lease claim)) \<and> request = sc_payload (sn_command claim)
    \<and> now < sl_expires (sn_lease claim)
    \<and> find_row pl_command_id (sc_id (sn_command claim)) (pd_ledger db')
        = Some (fenced_settlement (sha256_hex request) now l)
    \<and> mk_settlement_permit (sn_command claim) (sn_lease claim) (sn_count claim) 1 (sha256_hex request) now = Inr permit"
proof -
  let ?k = "sn_command claim" and ?s = "sn_lease claim" and ?h = "sha256_hex request"
  let ?x = "start_event ?k now" let ?e = "SettlementStarted ?x"
  obtain w n fr t db1 where req: "request = sc_payload ?k" and load: "load_payment db (sc_payment_id ?k) = Inr (w, n)"
      and rec: "required_records db w (DataCorruption ''settlement fence lacks financial records'') = Inr fr"
      and live: "assert_live_settlement_claim claim now fr = Inr ()"
      and e: "mk_payment_event ?e = Inr ()" "reduce_payment w ?e = Inr t"
      and up: "update_settlement db (held_settlement (sc_id ?k) ?s (sn_count claim)) (fenced_settlement ?h now)
          (StaleLease ''settlement fence lost its live lease'') = Inr db1"
      and persist: "persist_transition ''fence_settlement'' db1 w n ?e t = Inr db'"
      and permit: "mk_settlement_permit ?k ?s (sn_count claim) 1 ?h now = Inr permit"
    using r unfolding fence_settlement_def Let_def
    by (auto simp: bind_res_Inr_iff simp del: mk_settlement_permit_Inr mk_payment_event.simps)
  have t0: "tables_ok db" using ok by (simp add: payments_ok_def)
  note lv = live [unfolded live_claim_Inr]
  obtain c m l where fin: "financed db w ?k c m l fr"
    using loaded_records [OF t0 load rec] lv by auto
  have tu: "tuple_rows db (sc_payment_id ?k) ?k c m l" using fin by (simp add: financed_def)
  have w: "wf_payment w" using fin by (simp add: financed_def)
  have time: "hash_re ?h" "sl_acquired ?s \<le> now" using permit by simp_all
  have held: "\<And>r. held_settlement (sc_id ?k) ?s (sn_count claim) r \<Longrightarrow> pl_command_id r = sc_id ?k"
    by (simp add: held_settlement_def)
  have f: "\<And>r. pl_payment_id (fenced_settlement ?h now r) = pl_payment_id r"
    "\<And>r. pl_command_id (fenced_settlement ?h now r) = pl_command_id r" by (simp_all add: fenced_settlement_def)
  have st': "lv_status (fr_ledger fr) \<in> {SETTLEMENT_QUEUED, SETTLEMENT_LEASED}" using lv by simp
  have "settlement_evolves l (fenced_settlement ?h now l)"
    using unfenced_row [OF fin st'] by (simp add: settlement_evolves_def fenced_settlement_def)
  then obtain hit: "held_settlement (sc_id ?k) ?s (sn_count claim) l"
      and tu1: "tuple_rows db1 (sc_payment_id ?k) ?k c m (fenced_settlement ?h now l)"
      and s1: "stage (sc_payment_id ?k) db db1"
      and db1: "db1 = db\<lparr>pd_ledger := update_where (held_settlement (sc_id ?k) ?s (sn_count claim))
          (fenced_settlement ?h now) (pd_ledger db)\<rparr>"
    using settlement_stage [OF t0 up tu held f] by blast
  have fin1: "\<exists>c m l fr. financed db1 (pt_next t) ?k c m l fr" if ap: "pt_result t = PT_APPLIED"
  proof -
    note sw = started_step [OF w e ap]
    obtain v where v: "decode_ledger (fenced_settlement ?h now l) ?k = Inr v" "lv_outcome v = None"
        "financial_status_valid (pw_core (pt_next t)) v CLAIM_IN_PROGRESS"
      using fenced_row_valid(2) [OF fin, of ?s now ?x "pw_core (pt_next t)"] lv time sw req by (auto simp: start_event_def)
    have none: "lv_outcome (fr_ledger fr) = None" using lv by simp
    have "payment_effects db (sc_payment_id ?k) = []"
      using fin validate_jobs_open [OF none] by (simp add: financed_def records_valid_def)
    then have jobs: "validate_payment_jobs db1 (pt_next t) ?k v = Inr ()"
      unfolding validate_jobs_open [OF v(2)] by (simp add: db1 payment_effects_def)
    have c: "pk_status c = CLAIM_IN_PROGRESS" "pk_consumed_at c = None"
    proof -
      have "decode_evidence_claim c w = Inr (fr_claim fr)" using fin by (simp add: financed_def records_valid_def)
      then show "pk_status c = CLAIM_IN_PROGRESS" "pk_consumed_at c = None"
        using lv decode_claim_row(2) by (auto simp: decode_evidence_claim_def Let_def bind_res_Inr_iff)
    qed
    then have cc: "c\<lparr>pk_status := CLAIM_IN_PROGRESS, pk_consumed_at := None\<rparr> = c" by simp
    have u: "if CLAIM_IN_PROGRESS \<in> {CLAIM_IN_PROGRESS, CLAIM_RETRYABLE} then (None :: timestamp option) = None
        else \<exists>x. (None :: timestamp option) = Some x \<and> pk_claimed_at c \<le> x" by simp
    have tu2: "tuple_rows db1 (sc_payment_id ?k) ?k (c\<lparr>pk_status := CLAIM_IN_PROGRESS, pk_consumed_at := None\<rparr>) m
        (fenced_settlement ?h now l)" using tu1 by (simp only: cc)
    show ?thesis
      using financed_again [OF fin sw(1,2) tu2 u v(1,3) jobs] by blast
  qed
  have same: "pd_workflows db1 = pd_workflows db" "pd_events db1 = pd_events db" by (simp_all add: db1)
  have p: "stage (sc_payment_id ?k) db db'" "load_payment db' (sc_payment_id ?k) = Inr (pt_next t, n + 1)"
      "same_finance db1 db'"
    using persisted_stage [OF load e s1 same persist fin1] by blast+
  have d: "distinct (map pl_command_id (pd_ledger db))" using t0 by (simp add: tables_ok_def payment_keys_def)
  have id: "pl_command_id l = sc_id ?k" using tu by (simp add: tuple_rows_def)
  have found: "find_row pl_command_id (sc_id ?k) (pd_ledger db) = Some l"
    using find_row_unique [OF d tuple_rows_mem(3) [OF tu]] id by simp
  have "pd_ledger db' = pd_ledger db1" using p by (simp add: same_finance_def)
  then have "find_row pl_command_id (sc_id ?k) (pd_ledger db')
      = map_option (\<lambda>r. if held_settlement (sc_id ?k) ?s (sn_count claim) r then fenced_settlement ?h now r else r) (Some l)"
    unfolding found [symmetric] db1 by (simp add: find_update fenced_settlement_def)
  then have "find_row pl_command_id (sc_id ?k) (pd_ledger db') = Some (fenced_settlement ?h now l)" using hit by simp
  moreover have "pl_status l = SETTLEMENT_LEASED" "pl_slots l = 0" "pl_token l = sl_token ?s" "pl_owner l = Some (sl_owner ?s)"
    using hit by (simp_all add: held_settlement_def)
  moreover have "now < sl_expires ?s" using lv by simp
  ultimately show ?thesis
    using p found req permit
    by (intro exI [of _ "sc_payment_id ?k"] exI [of _ "pt_next t"] exI [of _ "n + 1"] exI [of _ l])
       (simp only: simp_thms)
qed

end
