(* ===== verification/Pay_Close.thy ===== *)
theory Pay_Close
  imports Pay_Settle_Laws
begin

text \<open>
  Closing a settlement: the ledger row takes its outcome, the evidence is consumed, exactly the
  effects the outcome requires are queued and the workflow takes its last step. Release, recording
  and both recoveries close this way.
\<close>

section \<open>The effects of an outcome\<close>

lemma mk_payment_job_Inr: "mk_payment_job kd r u = Inr j \<Longrightarrow>
    j = \<lparr>pj_kind = kd, pj_required = r, pj_outcome = u\<rparr> \<and> mk_settlement_outcome u = Inr u"
  by (auto simp: mk_payment_job_def bind_res_Inr_iff split: if_splits dest: mk_settlement_outcome_Inr)

lemma map_jobs_kinds:
  "map_res (\<lambda>(kind, required). mk_payment_job kind required u) ks = Inr jobs \<Longrightarrow>
     map pj_kind jobs = map fst ks \<and> (\<forall>j \<in> set jobs. mk_payment_job (pj_kind j) (pj_required j) (pj_outcome j) = Inr j)"
proof (induction ks arbitrary: jobs)
  case (Cons x ks)
  obtain kd r where x: "x = (kd, r)" by (cases x)
  obtain j js where j: "mk_payment_job kd r u = Inr j" "jobs = j # js"
      "map_res (\<lambda>(kind, required). mk_payment_job kind required u) ks = Inr js"
    using Cons.prems by (auto simp: x bind_res_Inr_iff)
  then show ?case using Cons.IH mk_payment_job_Inr [OF j(1)] x by auto
qed simp

lemma required_jobs:
  assumes "required_payment_effects u policy = Inr jobs"
  shows "distinct (map pj_kind jobs)" "\<forall>j \<in> set jobs. mk_payment_job (pj_kind j) (pj_required j) (pj_outcome j) = Inr j"
    "mk_settlement_outcome u = Inr u"
proof -
  obtain clean where u: "mk_settlement_outcome u = Inr clean" and clean: "clean = u"
    and rest: "(if so_certainty clean \<noteq> SETTLED
       then bind_res (mk_payment_job MANUAL_REVIEW_EFFECT True clean) (\<lambda>j. Inr [j])
       else map_res (\<lambda>(kind, required). mk_payment_job kind required clean)
         ([(PAID_STATE_TRANSITION, True), (CUSTOMER_PAYMENT_CONFIRMATION, True)]
          @ (if pp_internal_email policy = EFFECT_OPTIONAL then [(INTERNAL_PAYMENT_EMAIL, False)] else [])
          @ (if pp_booking_form policy \<noteq> EFFECT_DISABLED
             then [(BOOKING_FORM, pp_booking_form policy = EFFECT_REQUIRED)] else []))) = Inr jobs"
    using assms unfolding required_payment_effects_def bind_res_Inr_iff guard_Inr_iff by blast
  show "mk_settlement_outcome u = Inr u" using u clean by simp
  have "distinct (map pj_kind jobs) \<and> (\<forall>j \<in> set jobs. mk_payment_job (pj_kind j) (pj_required j) (pj_outcome j) = Inr j)"
  proof (cases "so_certainty clean = SETTLED")
    case True
    then have m: "map_res (\<lambda>(kind, required). mk_payment_job kind required clean)
         ([(PAID_STATE_TRANSITION, True), (CUSTOMER_PAYMENT_CONFIRMATION, True)]
          @ (if pp_internal_email policy = EFFECT_OPTIONAL then [(INTERNAL_PAYMENT_EMAIL, False)] else [])
          @ (if pp_booking_form policy \<noteq> EFFECT_DISABLED
             then [(BOOKING_FORM, pp_booking_form policy = EFFECT_REQUIRED)] else [])) = Inr jobs" using rest by simp
    show ?thesis unfolding map_jobs_kinds [OF m, THEN conjunct1] using map_jobs_kinds [OF m] by simp
  next
    case False
    then obtain j where "mk_payment_job MANUAL_REVIEW_EFFECT True clean = Inr j" "jobs = [j]"
      using rest by (auto simp: bind_res_Inr_iff)
    then show ?thesis using mk_payment_job_Inr by fastforce
  qed
  then show "distinct (map pj_kind jobs)" "\<forall>j \<in> set jobs. mk_payment_job (pj_kind j) (pj_required j) (pj_outcome j) = Inr j"
    by blast+
qed

lemma find_kind:
  "distinct (map pj_kind jobs) \<Longrightarrow> j \<in> set jobs \<Longrightarrow> List.find (\<lambda>x. pj_kind x = pj_kind j) jobs = Some j"
  by (induction jobs) (auto simp: image_iff)

lemma job_row_sound:
  assumes jobs: "required_payment_effects u policy = Inr jobs" and j: "j \<in> set jobs"
    and new: "receipts_for db (payment_effect_id (sc_id k) (pj_kind j)) = 0"
  shows "effect_sound db k (Some at) jobs (job_row_of k at j)"
proof -
  note r = required_jobs [OF jobs]
  have "mk_payment_job (pj_kind j) (pj_required j) (pj_outcome j) = Inr j" using r(2) j by blast
  moreover have "List.find (\<lambda>x. pj_kind x = pj_kind j) jobs = Some j" by (rule find_kind [OF r(1) j])
  ultimately have "check_effect_binding k (Some at) jobs [] (job_row_of k at j) = Inr ()"
    by (simp add: check_effect_binding_def job_row_of_def Let_def as_corruption_def)
  moreover have "effect_lifecycle db (job_row_of k at j) = Inr ()"
    using new by (simp add: effect_lifecycle_def job_row_of_def Let_def)
  ultimately show ?thesis by (simp add: effect_sound_def)
qed

lemma queued_jobs_valid:
  assumes ok: "tables_ok db" and ins: "insert_payment_jobs op db k policy u at = Inr db'"
    and none: "payment_effects db (sc_payment_id k) = []" and w: "pw_policy w = policy"
    and v: "lv_outcome v = Some u" "lv_recorded_at v = Some at"
  shows "validate_payment_jobs db' w k v = Inr ()"
proof -
  obtain jobs where jobs: "required_payment_effects u policy = Inr jobs"
      and new: "\<forall>j \<in> set jobs. pb_message_id (job_row_of k at j) \<notin> pb_message_id ` set (pd_outbox db)"
      and db': "db' = db\<lparr>pd_outbox := pd_outbox db @ map (job_row_of k at) jobs\<rparr>"
    using ins by (auto simp: insert_payment_jobs_Inr)
  have fresh: "receipts_for db' (payment_effect_id (sc_id k) (pj_kind j)) = 0" if "j \<in> set jobs" for j
  proof -
    have "payment_effect_id (sc_id k) (pj_kind j) \<notin> pb_message_id ` set (pd_outbox db)" using bspec [OF new that] by simp
    moreover have "rr_message_id ` set (pd_receipts db) \<subseteq> pb_message_id ` set (pd_outbox db)"
      using ok by (simp add: tables_ok_def no_orphans_def)
    ultimately have "payment_effect_id (sc_id k) (pj_kind j) \<notin> rr_message_id ` set (pd_receipts db)" by (rule contra_subsetD [rotated])
    then show ?thesis by (auto simp: receipts_for_def count_filter db' filter_empty_conv) (metis imageI)
  qed
  have eff: "payment_effects db' (sc_payment_id k) = map (job_row_of k at) jobs"
    using none by (simp add: payment_effects_def db' filter_True)
  have "map pb_kind (map (job_row_of k at) jobs) = map pj_kind jobs" by simp
  then show ?thesis
    using required_jobs(1) [OF jobs] job_row_sound [OF jobs _ fresh]
    by (auto simp: validate_jobs_iff expected_jobs_def v w jobs eff comp_def)
qed

section \<open>The row a closing writes\<close>

definition closing_fits ::
  "ledger_view \<Rightarrow> settlement_outcome \<Rightarrow> settlement_status \<Rightarrow> claim_status \<Rightarrow> bool" where
  "closing_fits v u st cst \<longleftrightarrow>
     lv_status v = SETTLEMENT_LEASED \<and> u = not_dispatched_outcome \<and> st = SETTLEMENT_RECORDED \<and> cst = CLAIM_COMPLETED
     \<or> lv_status v = SETTLEMENT_FENCED \<and> so_certainty u \<noteq> NOT_DISPATCHED \<and> st = outcome_settlement_status u
       \<and> cst = outcome_claim_status u"

lemma mk_not_dispatched [simp]: "mk_settlement_outcome not_dispatched_outcome = Inr not_dispatched_outcome"
  by (simp add: mk_settlement_outcome_def not_dispatched_outcome_def outcome_shape_def)

lemma closing_open:
  assumes fin: "financed db w k c m l fr" and fits: "closing_fits (fr_ledger fr) u st cst"
  shows "lv_outcome (fr_ledger fr) = None" "pl_outcome l = None" "settlement_evolves l (closed_settlement st' u' now l)"
    "pc_start (pw_core w) \<noteq> None \<longleftrightarrow> so_certainty u \<noteq> NOT_DISPATCHED" "pl_slots l = (if so_certainty u = NOT_DISPATCHED then 0 else 1)"
proof -
  consider (leased) "lv_status (fr_ledger fr) \<in> {SETTLEMENT_QUEUED, SETTLEMENT_LEASED}" "so_certainty u = NOT_DISPATCHED"
    | (fenced) "lv_status (fr_ledger fr) = SETTLEMENT_FENCED" "so_certainty u \<noteq> NOT_DISPATCHED"
    using fits by (auto simp: closing_fits_def not_dispatched_outcome_def)
  then have "lv_outcome (fr_ledger fr) = None \<and> pl_outcome l = None
    \<and> (pc_start (pw_core w) \<noteq> None \<longleftrightarrow> so_certainty u \<noteq> NOT_DISPATCHED)
    \<and> pl_slots l = (if so_certainty u = NOT_DISPATCHED then 0 else 1)"
  proof cases
    case leased
    show ?thesis using unfenced_row [OF fin leased(1)] leased(2) by simp
  next
    case fenced
    show ?thesis using fenced_settlement_row [OF fin fenced(1)] fenced(2) by auto
  qed
  then show "lv_outcome (fr_ledger fr) = None" "pl_outcome l = None" "settlement_evolves l (closed_settlement st' u' now l)"
    "pc_start (pw_core w) \<noteq> None \<longleftrightarrow> so_certainty u \<noteq> NOT_DISPATCHED" "pl_slots l = (if so_certainty u = NOT_DISPATCHED then 0 else 1)"
    by (simp_all add: settlement_evolves_def closed_settlement_def)
qed

lemma closed_row_valid:
  assumes fin: "financed db w k c m l fr" and fits: "closing_fits (fr_ledger fr) u st cst"
    and u: "mk_settlement_outcome u = Inr u"
    and c': "project_settlement_outcome u (pc_start (pw_core w) \<noteq> None) = Inr (pc_status c')"
      "pc_start c' = pc_start (pw_core w)" "pc_finish c' = Some f" "sf_outcome f = u" "sf_finished_at f = now"
  shows "\<exists>v. decode_ledger (closed_settlement st u now l) k = Inr v \<and> lv_outcome v = Some u \<and> lv_recorded_at v = Some now
    \<and> financial_status_valid c' v cst"
proof -
  let ?l = "closed_settlement st u now l"
  let ?v = "\<lparr>lv_status = st, lv_lease = None, lv_token = pl_count l, lv_count = pl_count l, lv_slots = pl_slots l,
      lv_request_hash = pl_request_hash l, lv_fenced_at = pl_fenced_at l, lv_outcome = Some u, lv_recorded_at = Some now,
      lv_updated_at = now\<rparr>"
  note d = financed_ledger [OF fin, unfolded decode_ledger_Inr]
  note o = closing_open [OF fin fits] and p = project_settlement_status [OF c'(1)]
  have "check_dispatch ?l k None = Inr ()"
    using d by (auto simp: check_dispatch_Inr closed_settlement_def opt_all_def)
  then have "decode_ledger ?l k = Inr ?v"
    using d u by (simp add: decode_ledger_Inr closed_settlement_def decode_lease_Inr decode_outcome_Inr)
  moreover have "financial_status_valid c' ?v cst"
  proof (cases "so_certainty u = NOT_DISPATCHED")
    case True
    then have "st = SETTLEMENT_RECORDED" "cst = CLAIM_COMPLETED" "pc_start (pw_core w) = None" "pl_slots l = 0"
      using fits o(4,5) by (auto simp: closing_fits_def)
    then show ?thesis using True p c' by (simp add: financial_status_valid_def recorded_consistently_def)
  next
    case False
    then have s: "st = outcome_settlement_status u" "cst = outcome_claim_status u" "pl_slots l = 1"
        "pc_start (pw_core w) \<noteq> None"
      using fits o(4,5) by (auto simp: closing_fits_def not_dispatched_outcome_def)
    show ?thesis
    proof (cases "so_certainty u = SETTLED")
      case True
      then show ?thesis using s p c'
        by (simp add: financial_status_valid_def recorded_consistently_def outcome_settlement_status_def outcome_claim_status_def)
    next
      case other: False
      then have "pc_status c' = PAY_MANUAL_REVIEW" using p False by auto
      moreover have "so_certainty u \<in> {DISPATCHED_NO_EFFECT, PARTIAL_SETTLEMENT, DISPATCHED_UNKNOWN}"
        using other False by (cases "so_certainty u") simp_all
      ultimately show ?thesis using s other c'
        by (simp add: financial_status_valid_def recorded_consistently_def outcome_settlement_status_def outcome_claim_status_def)
    qed
  qed
  ultimately show ?thesis by fastforce
qed

section \<open>Closing\<close>

lemma close_settlement_effect:
  assumes ok: "payments_ok db" and load: "load_payment db pid = Inr (w, n)" and rec: "required_records db w err = Inr fr"
    and fits: "closing_fits (fr_ledger fr) u st cst"
    and held: "\<And>r. held r \<Longrightarrow> pl_command_id r = sc_id (fr_command fr)"
    and run: "close_settlement op db (fr_command fr) (fr_command fr) w n held st cst u now m1 m2 = Inr (db', t)"
  shows "\<exists>l. stage pid db db' \<and> load_payment db' pid = Inr (pt_next t, n + 1) \<and> held l
    \<and> find_row pl_command_id (sc_id (fr_command fr)) (pd_ledger db) = Some l
    \<and> find_row pl_command_id (sc_id (fr_command fr)) (pd_ledger db') = Some (closed_settlement st u now l)
    \<and> pl_status l = lv_status (fr_ledger fr)"
proof -
  let ?k = "fr_command fr" let ?x = "finish_event ?k u now" let ?e = "SettlementFinished ?x"
  obtain db1 db2 db3 where e: "mk_payment_event ?e = Inr ()" "reduce_payment w ?e = Inr t"
      and up: "update_settlement db held (closed_settlement st u now) (StaleLease m1) = Inr db1"
      and cl: "update_claim db1 (sc_claim_key ?k) {CLAIM_IN_PROGRESS} cst (Some now) m2 = Inr db2"
      and ins: "insert_payment_jobs op db2 ?k (pw_policy w) u now = Inr db3"
      and persist: "persist_transition op db3 w n ?e t = Inr db'"
    using run unfolding close_settlement_def Let_def by (auto simp: bind_res_Inr_iff simp del: mk_payment_event.simps)
  have t0: "tables_ok db" using ok by (simp add: payments_ok_def)
  obtain c m l where fin: "financed db w ?k c m l fr" and pid: "sc_payment_id ?k = pid"
    using loaded_records [OF t0 load rec] by blast
  have tu: "tuple_rows db pid ?k c m l" and w: "wf_payment w" using fin pid by (simp_all add: financed_def)
  note o = closing_open [OF fin fits]
  have f: "\<And>r. pl_payment_id (closed_settlement st u now r) = pl_payment_id r"
    "\<And>r. pl_command_id (closed_settlement st u now r) = pl_command_id r" by (simp_all add: closed_settlement_def)
  obtain hit: "held l" and 1: "tuple_rows db1 pid ?k c m (closed_settlement st u now l)" "stage pid db db1"
      and db1: "db1 = db\<lparr>pd_ledger := update_where held (closed_settlement st u now) (pd_ledger db)\<rparr>"
    using settlement_stage [OF t0 up tu held f o(3)] by blast
  obtain 2: "tuple_rows db2 pid ?k (c\<lparr>pk_status := cst, pk_consumed_at := Some now\<rparr>) m (closed_settlement st u now l)"
      "stage pid db1 db2" and db2: "db2 = db1\<lparr>pd_claims := pd_claims db2\<rparr>"
    using claim_stage [OF stage_ok [OF 1(2)] cl 1(1)] by blast
  obtain x2 where x2: "db2 = db\<lparr>pd_ledger := pd_ledger db1, pd_claims := x2\<rparr>" using db1 db2 by simp
  have "pid \<in> cr_payment_id ` set (pd_commands db2)"
    using tuple_rows_mem(2,5) [OF 2(1)] by force
  then have 3: "stage pid db2 db3" using jobs_stage [OF stage_ok [OF 2(2)] ins pid] by simp
  obtain x3 where x3: "db3 = db2\<lparr>pd_outbox := x3\<rparr>" using ins by (auto simp: insert_payment_jobs_Inr)
  have s3: "stage pid db db3" using stage_trans [OF stage_trans [OF 1(2) 2(2)] 3] .
  have same: "pd_workflows db3 = pd_workflows db" "pd_events db3 = pd_events db" by (simp_all add: x3 x2)
  have none: "lv_outcome (fr_ledger fr) = None" by (rule o(1))
  have "payment_effects db (sc_payment_id ?k) = []"
    using fin validate_jobs_open [OF none] by (simp add: financed_def records_valid_def)
  then have empty: "payment_effects db2 (sc_payment_id ?k) = []" by (simp add: x2 payment_effects_def)
  have u: "mk_settlement_outcome u = Inr u" using ins required_jobs(3) by (auto simp: insert_payment_jobs_Inr)
  have fin3: "\<exists>c m l fr. financed db3 (pt_next t) ?k c m l fr" if ap: "pt_result t = PT_APPLIED"
  proof -
    note fs = finished_step [OF w e ap]
    have x: "sf_outcome ?x = u" "sf_finished_at ?x = now" by (simp_all add: finish_event_def)
    obtain v where v: "decode_ledger (closed_settlement st u now l) ?k = Inr v" "lv_outcome v = Some u"
        "lv_recorded_at v = Some now" "financial_status_valid (pw_core (pt_next t)) v cst"
      using closed_row_valid [OF fin fits u fs(4) [unfolded x] fs(5,6) x] by blast
    have jobs: "validate_payment_jobs db3 (pt_next t) ?k v = Inr ()"
      by (rule queued_jobs_valid [OF stage_ok [OF 2(2)] ins empty fs(3) v(2,3)])
    have "decode_evidence_claim c w = Inr (fr_claim fr)" using fin by (simp add: financed_def records_valid_def)
    then have "pk_claimed_at c \<le> now" using claimed_at_recorded fs(7) x(2) by fastforce
    then have cst: "if cst \<in> {CLAIM_IN_PROGRESS, CLAIM_RETRYABLE} then Some now = None
        else \<exists>x. Some now = Some x \<and> pk_claimed_at c \<le> x"
      using fits by (auto simp: closing_fits_def outcome_claim_status_def split: if_splits)
    have tu3: "tuple_rows db3 (sc_payment_id ?k) ?k (c\<lparr>pk_status := cst, pk_consumed_at := Some now\<rparr>) m
        (closed_settlement st u now l)" using 2(1) by (simp add: x3 pid tuple_rows_def)
    show ?thesis using financed_again [OF fin fs(1,2) tu3 cst v(1,4) jobs] by blast
  qed
  have p: "stage pid db db'" "load_payment db' pid = Inr (pt_next t, n + 1)" "same_finance db3 db'"
    using persisted_stage [OF load e s3 same persist fin3] by blast+
  have d: "distinct (map pl_command_id (pd_ledger db))" using t0 by (simp add: tables_ok_def payment_keys_def)
  have id: "pl_command_id l = sc_id ?k" using tu by (simp add: tuple_rows_def)
  have found: "find_row pl_command_id (sc_id ?k) (pd_ledger db) = Some l"
    using find_row_unique [OF d tuple_rows_mem(3) [OF tu]] id by simp
  have "pd_ledger db' = pd_ledger db1" using p(3) by (simp add: same_finance_def x3 x2)
  then have "find_row pl_command_id (sc_id ?k) (pd_ledger db')
      = map_option (\<lambda>r. if held r then closed_settlement st u now r else r) (Some l)"
    unfolding found [symmetric] db1 by (simp add: find_update closed_settlement_def)
  then have found': "find_row pl_command_id (sc_id ?k) (pd_ledger db') = Some (closed_settlement st u now l)" using hit by simp
  have "pl_status l = lv_status (fr_ledger fr)" using financed_ledger [OF fin] by (metis decode_ledger_row)
  then show ?thesis using p(1,2) hit found found' by blast
qed

section \<open>Release, recording and recovery\<close>

text \<open>What an operation that ends the lease of a command does to its row: requeued, or closed.\<close>

lemma requeue_effect:
  assumes ok: "payments_ok db" and load: "load_payment db pid = Inr (w, n)" and rec: "required_records db w err = Inr fr"
    and st: "lv_status (fr_ledger fr) = SETTLEMENT_LEASED"
    and up: "update_settlement db p (requeued_settlement now) err' = Inr db1"
    and cl: "update_claim db1 (sc_claim_key (fr_command fr)) {CLAIM_IN_PROGRESS} CLAIM_RETRYABLE None msg = Inr db'"
    and p: "\<And>r. p r \<Longrightarrow> pl_command_id r = sc_id (fr_command fr)"
  shows "\<exists>l. stage pid db db' \<and> load_payment db' pid = Inr (w, n) \<and> p l
    \<and> find_row pl_command_id (sc_id (fr_command fr)) (pd_ledger db) = Some l
    \<and> find_row pl_command_id (sc_id (fr_command fr)) (pd_ledger db') = Some (requeued_settlement now l)"
proof -
  obtain s: "stage pid db db'" "load_payment db' pid = Inr (w, n)"
      and db': "db' = db\<lparr>pd_ledger := update_where p (requeued_settlement now) (pd_ledger db), pd_claims := pd_claims db'\<rparr>"
    using requeue_settlement [OF ok load rec st up cl p] by blast
  have t0: "tables_ok db" using ok by (simp add: payments_ok_def)
  have d: "distinct (map pl_command_id (pd_ledger db))" using t0 by (simp add: tables_ok_def payment_keys_def)
  obtain rows where rows: "swap_one p (requeued_settlement now) err' (pd_ledger db) = Inr rows" "db1 = db\<lparr>pd_ledger := rows\<rparr>"
    using up by (auto simp: update_settlement_def bind_res_Inr_iff)
  have "pl_command_id (requeued_settlement now r) = pl_command_id r" for r by (simp add: requeued_settlement_def)
  then obtain l where l: "find_row pl_command_id (sc_id (fr_command fr)) (pd_ledger db) = Some l" "p l"
      "find_row pl_command_id (sc_id (fr_command fr)) rows = Some (requeued_settlement now l)"
    using swap_one_hits [OF rows(1) d p] by blast
  have "pd_ledger db' = rows" using cl rows(2) by (auto simp: update_claim_def bind_res_Inr_iff)
  with s l show ?thesis by blast
qed

definition ended :: "timestamp \<Rightarrow> settlement_row \<Rightarrow> settlement_row \<Rightarrow> bool" where
  "ended now l l' \<longleftrightarrow> pl_count l < 3 \<and> l' = requeued_settlement now l
     \<or> l' = closed_settlement SETTLEMENT_RECORDED not_dispatched_outcome now l"

lemma release_effect:
  assumes ok: "payments_ok db" and r: "release_pre_dispatch_settlement db claim retryable now = Inr (db', d)"
  shows "\<exists>pid w n l l'. stage pid db db' \<and> load_payment db' pid = Inr (w, n)
    \<and> held_settlement (sc_id (sn_command claim)) (sn_lease claim) (sn_count claim) l
    \<and> find_row pl_command_id (sc_id (sn_command claim)) (pd_ledger db) = Some l
    \<and> find_row pl_command_id (sc_id (sn_command claim)) (pd_ledger db') = Some l' \<and> ended now l l'
    \<and> (d = SETTLEMENT_REQUEUED \<longleftrightarrow> retryable \<and> pl_count l < 3)
    \<and> (d = SETTLEMENT_REQUEUED \<longrightarrow> l' = requeued_settlement now l)"
proof -
  let ?k = "sn_command claim" and ?n = "sn_count claim"
  let ?held = "held_settlement (sc_id ?k) (sn_lease claim) ?n"
  obtain w n fr where load: "load_payment db (sc_payment_id ?k) = Inr (w, n)"
      and rec: "required_records db w (DataCorruption ''settlement release lacks financial records'') = Inr fr"
      and live: "assert_live_settlement_claim claim now fr = Inr ()"
      and rest: "(if retryable \<and> ?n < max_pre_dispatch_claims
         then bind_res (update_settlement db ?held
                (requeued_settlement now) (StaleLease ''settlement release lost its live lease'')) (\<lambda>db.
              bind_res (update_claim db (sc_claim_key ?k) {CLAIM_IN_PROGRESS} CLAIM_RETRYABLE None
                ''settlement release evidence lifecycle is divergent'') (\<lambda>db.
              Inr (db, SETTLEMENT_REQUEUED)))
         else bind_res (mk_settlement_outcome not_dispatched_outcome) (\<lambda>outcome.
              bind_res (close_settlement ''release_pre_dispatch_settlement'' db ?k ?k w n
                ?held SETTLEMENT_RECORDED CLAIM_COMPLETED
                outcome now ''terminal settlement release lost its live lease''
                ''terminal settlement evidence lifecycle is divergent'') (\<lambda>(db, _).
              Inr (db, TERMINAL_NOT_DISPATCHED)))) = Inr (db', d)"
    using r unfolding release_pre_dispatch_settlement_def Let_def by (auto simp: bind_res_Inr_iff simp del: if_split)
  note lv = live [unfolded live_claim_Inr]
  have k: "fr_command fr = ?k" and st: "lv_status (fr_ledger fr) = SETTLEMENT_LEASED" using lv by simp_all
  have held: "\<And>r. ?held r \<Longrightarrow> pl_command_id r = sc_id (fr_command fr)" by (simp add: held_settlement_def k)
  have count: "?held r \<Longrightarrow> pl_count r = ?n" for r by (simp add: held_settlement_def)
  show ?thesis
  proof (cases "retryable \<and> ?n < max_pre_dispatch_claims")
    case True
    then obtain db1 where up: "update_settlement db ?held
                (requeued_settlement now) (StaleLease ''settlement release lost its live lease'') = Inr db1"
        and cl: "update_claim db1 (sc_claim_key (fr_command fr)) {CLAIM_IN_PROGRESS} CLAIM_RETRYABLE None
                ''settlement release evidence lifecycle is divergent'' = Inr db'" and d: "d = SETTLEMENT_REQUEUED"
      using rest by (auto simp: bind_res_Inr_iff k)
    obtain l where l: "stage (sc_payment_id ?k) db db'" "load_payment db' (sc_payment_id ?k) = Inr (w, n)" "?held l"
        "find_row pl_command_id (sc_id ?k) (pd_ledger db) = Some l"
        "find_row pl_command_id (sc_id ?k) (pd_ledger db') = Some (requeued_settlement now l)"
      using requeue_effect [OF ok load rec st up cl held] unfolding k by blast
    have "pl_count l < 3" using True count [OF l(3)] by (simp add: max_pre_dispatch_claims_def)
    then show ?thesis using l d True by (auto simp: ended_def)
  next
    case False
    then obtain t where run: "close_settlement ''release_pre_dispatch_settlement'' db (fr_command fr) (fr_command fr) w n
                ?held SETTLEMENT_RECORDED CLAIM_COMPLETED
                not_dispatched_outcome now ''terminal settlement release lost its live lease''
                ''terminal settlement evidence lifecycle is divergent'' = Inr (db', t)" and d: "d = TERMINAL_NOT_DISPATCHED"
      using rest by (auto simp: bind_res_Inr_iff k dest: mk_settlement_outcome_Inr simp del: if_split)
    have fits: "closing_fits (fr_ledger fr) not_dispatched_outcome SETTLEMENT_RECORDED CLAIM_COMPLETED"
      by (simp add: closing_fits_def st)
    obtain l where l: "stage (sc_payment_id ?k) db db'" "load_payment db' (sc_payment_id ?k) = Inr (pt_next t, n + 1)" "?held l"
        "find_row pl_command_id (sc_id ?k) (pd_ledger db) = Some l"
        "find_row pl_command_id (sc_id ?k) (pd_ledger db')
          = Some (closed_settlement SETTLEMENT_RECORDED not_dispatched_outcome now l)"
      using close_settlement_effect [OF ok load rec fits held run] unfolding k by blast
    have "\<not> (retryable \<and> pl_count l < 3)" using False count [OF l(3)] by (simp add: max_pre_dispatch_claims_def)
    then show ?thesis using l d by (auto simp: ended_def)
  qed
qed

lemma mk_unknown [simp]: "hash_re h \<Longrightarrow> mk_settlement_outcome (unknown_settlement h) = Inr (unknown_settlement h)"
  by (simp add: mk_settlement_outcome_def unknown_settlement_def outcome_shape_def digest_hash_def)

text \<open>The command of a stored row belongs to a payment that loads with it.\<close>

lemma stored_financed:
  assumes ok: "payments_ok db" and m: "m \<in> set (pd_commands db)"
  shows "\<exists>w n c l fr. load_payment db (cr_payment_id m) = Inr (w, n)
    \<and> payment_financial_records db w = Inr (Some fr) \<and> financed db w (cr_value m) c m l fr
    \<and> sc_payment_id (cr_value m) = cr_payment_id m \<and> fr_command fr = cr_value m"
proof -
  have t0: "tables_ok db" and "cr_payment_id m \<in> payment_ids db"
    using ok m by (auto simp: payments_ok_def tables_ok_def no_orphans_def)
  then obtain w n where load: "load_payment db (cr_payment_id m) = Inr (w, n)"
    using ok by (auto simp: payments_ok_def)
  note f = load_payment_facts [OF load]
  obtain x where x: "payment_financial_records db w = Inr x" using f(5) by blast
  have ne: "filter (\<lambda>r. cr_payment_id r = cr_payment_id m) (pd_commands db) \<noteq> []" using m by (auto simp: filter_empty_conv)
  have "\<exists>fr. x = Some fr"
  proof (cases "pc_command (pw_core w)")
    case None
    then show ?thesis using financial_records_none [OF None, of db x] x ne f(2) by auto
  next
    case (Some k)
    have keys: "payment_keys db" using t0 by (simp add: tables_ok_def)
    show ?thesis using financial_records_some [OF keys f(1) Some, of x] x by blast
  qed
  then obtain fr where fr: "payment_financial_records db w = Inr (Some fr)" using x by blast
  then have rec: "required_records db w (DataCorruption []) = Inr fr" by (simp add: required_records_def)
  obtain c m' l where fin: "financed db w (fr_command fr) c m' l fr" "sc_payment_id (fr_command fr) = cr_payment_id m"
    using loaded_records [OF t0 load rec] by blast
  then have "filter (\<lambda>r. cr_payment_id r = cr_payment_id m) (pd_commands db) = [m']"
    by (simp add: financed_def tuple_rows_def)
  moreover have "m \<in> set (filter (\<lambda>r. cr_payment_id r = cr_payment_id m) (pd_commands db))" using m by simp
  ultimately have m': "m' = m" by simp
  have "decode_payment_command m w = Inr (fr_command fr)"
    using fin(1) by (simp add: financed_def records_valid_def m')
  then have "cr_value m = fr_command fr" using decode_command_row by metis
  then show ?thesis using load fr fin m' by auto
qed

definition issued_command :: "payment_store \<Rightarrow> settlement_command \<Rightarrow> bool" where
  "issued_command db k \<longleftrightarrow> k \<in> cr_value ` set (pd_commands db)"

lemma issued_records:
  assumes "payments_ok db" "issued_command db k" "load_payment db (sc_payment_id k) = Inr (w, n)"
    and "required_records db w err = Inr fr"
  shows "fr_command fr = k"
proof -
  obtain m where m: "m \<in> set (pd_commands db)" "k = cr_value m" using assms(2) by (auto simp: issued_command_def)
  then show ?thesis
    using stored_financed [OF assms(1) m(1)] assms(3,4) by (auto simp: required_records_def)
qed

lemma record_effect:
  assumes ok: "payments_ok db" and issued: "issued_command db (sn_command claim)"
    and r: "record_settlement_outcome db claim permit u now = Inr (db', t)"
  shows "db' = db \<or> (\<exists>pid w n l. stage pid db db' \<and> load_payment db' pid = Inr (w, n)
    \<and> fenced_under (sc_id (sn_command claim)) (sn_lease claim) (sn_count claim) (sp_request_hash permit) (sp_fenced_at permit) l
    \<and> \<not> expired_settlement now l \<and> so_certainty u \<noteq> NOT_DISPATCHED
    \<and> find_row pl_command_id (sc_id (sn_command claim)) (pd_ledger db) = Some l
    \<and> find_row pl_command_id (sc_id (sn_command claim)) (pd_ledger db')
        = Some (closed_settlement (outcome_settlement_status u) u now l))"
proof -
  let ?k = "sn_command claim" and ?s = "sn_lease claim" and ?n = "sn_count claim"
  let ?held = "\<lambda>r. fenced_under (sc_id ?k) ?s ?n (sp_request_hash permit) (sp_fenced_at permit) r \<and> \<not> expired_settlement now r"
  obtain wn where cert: "so_certainty u \<noteq> NOT_DISPATCHED"
      and wn: "load_payment db (sc_payment_id ?k) = Inr wn"
      and run: "(case wn of (w, n) \<Rightarrow>
        bind_res (required_records db w (DataCorruption ''settlement outcome lacks financial records''))
          (record_loaded db claim permit u now w n)) = Inr (db', t)"
    using r unfolding record_settlement_outcome_def Let_def bind_res_Inr_iff guard_Inr_iff reject_if_Inr by blast
  obtain w n where wn': "wn = (w, n)" by (cases wn)
  obtain fr where load: "load_payment db (sc_payment_id ?k) = Inr (w, n)"
      and rec: "required_records db w (DataCorruption ''settlement outcome lacks financial records'') = Inr fr"
      and rest: "record_loaded db claim permit u now w n fr = Inr (db', t)"
    using run wn unfolding wn' case_prod_conv bind_res_Inr_iff by blast
  have k: "fr_command fr = ?k" by (rule issued_records [OF ok issued load rec])
  show ?thesis
  proof (cases "lv_outcome (fr_ledger fr)")
    case None
    then have st: "lv_status (fr_ledger fr) = SETTLEMENT_FENCED"
        and run: "close_settlement ''record_settlement_outcome'' db (fr_command fr) (fr_command fr) w n ?held
                   (outcome_settlement_status u) (outcome_claim_status u) u now
                   ''settlement outcome lost its permanent fence''
                   ''settlement outcome evidence lifecycle is divergent'' = Inr (db', t)"
      using rest unfolding record_loaded_def Let_def None option.case guard_Inr_iff k by blast+
    have fits: "closing_fits (fr_ledger fr) u (outcome_settlement_status u) (outcome_claim_status u)"
      by (simp add: closing_fits_def st cert)
    have held: "?held r \<Longrightarrow> pl_command_id r = sc_id (fr_command fr)" for r by (simp add: fenced_under_def k)
    show ?thesis using close_settlement_effect [OF ok load rec fits held run] cert unfolding k by blast
  next
    case (Some u')
    then show ?thesis using rest by (simp add: record_loaded_def Let_def split: if_splits)
  qed
qed

lemma recover_pre_effect:
  assumes ok: "payments_ok db" and r: "recover_expired_pre_dispatch_settlement db now = Inr (db', res)"
  shows "(res = None \<and> db' = db) \<or> (\<exists>d cid pid w n l l'. res = Some (d, cid) \<and> stage pid db db' \<and> load_payment db' pid = Inr (w, n)
    \<and> pl_status l = SETTLEMENT_LEASED \<and> pl_slots l = 0 \<and> expired_settlement now l
    \<and> find_row pl_command_id cid (pd_ledger db) = Some l \<and> find_row pl_command_id cid (pd_ledger db') = Some l'
    \<and> ended now l l' \<and> (d = SETTLEMENT_REQUEUED \<longleftrightarrow> pl_count l < 3)
    \<and> (d = SETTLEMENT_REQUEUED \<longrightarrow> l' = requeued_settlement now l))"
proof (cases "expired_candidates db now SETTLEMENT_LEASED 0")
  case Nil
  then show ?thesis using r by (simp add: recover_expired_pre_dispatch_settlement_def)
next
  case (Cons row rows)
  obtain w n fr where load: "load_payment db (pl_payment_id row) = Inr (w, n)"
      and rec: "required_records db w (DataCorruption ''expired pre-fence ledger lacks financial records'') = Inr fr"
      and rest0: "recover_pre_loaded db now row w n fr = Inr (db', res)"
    using r unfolding recover_expired_pre_dispatch_settlement_def Cons list.case
    by (auto simp: bind_res_Inr_iff)
  note rest = rest0 [unfolded recover_pre_loaded_def Let_def]
  obtain lease where lease: "lv_lease (fr_ledger fr) = Some lease" using rest by (cases "lv_lease (fr_ledger fr)") auto
  let ?k = "fr_command fr"
  let ?held = "\<lambda>r. held_settlement (sc_id ?k) lease (lv_count (fr_ledger fr)) r \<and> expired_settlement now r"
  have st: "lv_status (fr_ledger fr) = SETTLEMENT_LEASED"
    using rest unfolding lease option.case bind_res_Inr_iff corrupt_if_Inr by blast
  have held: "\<And>r. ?held r \<Longrightarrow> pl_command_id r = sc_id ?k" by (simp add: held_settlement_def)
  have row: "?held r \<Longrightarrow> pl_status r = SETTLEMENT_LEASED \<and> pl_slots r = 0 \<and> pl_count r = lv_count (fr_ledger fr)" for r
    by (simp add: held_settlement_def)
  show ?thesis
  proof (cases "lv_count (fr_ledger fr) < max_pre_dispatch_claims")
    case True
    then obtain db1 where up: "update_settlement db ?held (requeued_settlement now)
           (StaleLease ''expired pre-fence recovery lost its lease'') = Inr db1"
        and cl: "update_claim db1 (sc_claim_key ?k) {CLAIM_IN_PROGRESS} CLAIM_RETRYABLE None
           ''pre-fence recovery evidence lifecycle is divergent'' = Inr db'" and res: "res = Some (SETTLEMENT_REQUEUED, sc_id ?k)"
      using rest by (auto simp: lease bind_res_Inr_iff Let_def)
    obtain l where l: "stage (pl_payment_id row) db db'" "load_payment db' (pl_payment_id row) = Inr (w, n)" "?held l"
        "find_row pl_command_id (sc_id ?k) (pd_ledger db) = Some l"
        "find_row pl_command_id (sc_id ?k) (pd_ledger db') = Some (requeued_settlement now l)"
      using requeue_effect [OF ok load rec st up cl held] by blast
    have "pl_count l < 3" using True row [OF l(3)] by (simp add: max_pre_dispatch_claims_def)
    then show ?thesis using l res row [OF l(3)] by (auto simp: ended_def)
  next
    case False
    then obtain t where run: "close_settlement ''recover_expired_pre_dispatch_settlement'' db ?k ?k w n
           ?held SETTLEMENT_RECORDED CLAIM_COMPLETED not_dispatched_outcome now
           ''terminal pre-fence recovery lost its lease''
           ''terminal pre-fence evidence lifecycle is divergent'' = Inr (db', t)" and res: "res = Some (TERMINAL_NOT_DISPATCHED, sc_id ?k)"
      using rest by (auto simp: lease bind_res_Inr_iff Let_def)
    have fits: "closing_fits (fr_ledger fr) not_dispatched_outcome SETTLEMENT_RECORDED CLAIM_COMPLETED"
      by (simp add: closing_fits_def st)
    obtain l where l: "stage (pl_payment_id row) db db'" "load_payment db' (pl_payment_id row) = Inr (pt_next t, n + 1)" "?held l"
        "find_row pl_command_id (sc_id ?k) (pd_ledger db) = Some l"
        "find_row pl_command_id (sc_id ?k) (pd_ledger db')
          = Some (closed_settlement SETTLEMENT_RECORDED not_dispatched_outcome now l)"
      using close_settlement_effect [OF ok load rec fits held run] by blast
    have "\<not> pl_count l < 3" using False row [OF l(3)] by (simp add: max_pre_dispatch_claims_def)
    then show ?thesis using l res row [OF l(3)] by (auto simp: ended_def)
  qed
qed

lemma recover_fenced_effect:
  assumes ok: "payments_ok db" and r: "recover_expired_fenced_settlement db now = Inr (db', res)"
  shows "(res = None \<and> db' = db) \<or> (\<exists>cid pid w n l h. res = Some cid \<and> stage pid db db' \<and> load_payment db' pid = Inr (w, n)
    \<and> pl_status l = SETTLEMENT_FENCED \<and> pl_slots l = 1 \<and> expired_settlement now l \<and> pl_request_hash l = Some h
    \<and> find_row pl_command_id cid (pd_ledger db) = Some l
    \<and> find_row pl_command_id cid (pd_ledger db') = Some (closed_settlement SETTLEMENT_REVIEW (unknown_settlement h) now l))"
proof (cases "expired_candidates db now SETTLEMENT_FENCED 1")
  case Nil
  then show ?thesis using r by (simp add: recover_expired_fenced_settlement_def)
next
  case (Cons row rows)
  obtain w n fr where load: "load_payment db (pl_payment_id row) = Inr (w, n)"
      and rec: "required_records db w (DataCorruption ''expired fenced ledger lacks financial records'') = Inr fr"
      and rest0: "recover_fenced_loaded db now row w n fr = Inr (db', res)"
    using r unfolding recover_expired_fenced_settlement_def Cons list.case
    by (auto simp: bind_res_Inr_iff)
  obtain lease h f where lv: "lv_lease (fr_ledger fr) = Some lease" "lv_request_hash (fr_ledger fr) = Some h"
      "lv_fenced_at (fr_ledger fr) = Some f"
    using rest0 by (auto simp: recover_fenced_loaded_def Let_def split: option.splits)
  note rest = rest0 [unfolded recover_fenced_loaded_def Let_def lv option.case prod.case]
  let ?k = "fr_command fr"
  let ?held = "\<lambda>r. fenced_under (sc_id ?k) lease (lv_count (fr_ledger fr)) h f r \<and> expired_settlement now r"
  have st: "lv_status (fr_ledger fr) = SETTLEMENT_FENCED" and h: "hash_re h"
    using rest unfolding bind_res_Inr_iff corrupt_if_Inr by blast+
  obtain t where run: "close_settlement ''recover_expired_fenced_settlement'' db ?k ?k w n ?held
                   SETTLEMENT_REVIEW CLAIM_MANUAL_REVIEW (unknown_settlement h) now
                   ''expired fenced recovery lost its permanent fence''
                   ''fenced recovery evidence lifecycle is divergent'' = Inr (db', t)" and res: "res = Some (sc_id ?k)"
    using rest mk_unknown [OF h] by (auto simp: bind_res_Inr_iff)
  have fits: "closing_fits (fr_ledger fr) (unknown_settlement h) SETTLEMENT_REVIEW CLAIM_MANUAL_REVIEW"
    by (simp add: closing_fits_def st unknown_settlement_def outcome_settlement_status_def outcome_claim_status_def)
  have held: "\<And>r. ?held r \<Longrightarrow> pl_command_id r = sc_id ?k" by (simp add: fenced_under_def)
  obtain l where l: "stage (pl_payment_id row) db db'" "load_payment db' (pl_payment_id row) = Inr (pt_next t, n + 1)" "?held l"
      "find_row pl_command_id (sc_id ?k) (pd_ledger db) = Some l"
      "find_row pl_command_id (sc_id ?k) (pd_ledger db')
        = Some (closed_settlement SETTLEMENT_REVIEW (unknown_settlement h) now l)"
    using close_settlement_effect [OF ok load rec fits held run] by blast
  then show ?thesis using res by (auto simp: fenced_under_def)
qed

end
