(* ===== verification/Pay_Intake_Laws.thy ===== *)
theory Pay_Intake_Laws
  imports Pay_Close
begin

text \<open>
  Opening a payment, applying an event to it and claiming its evidence keep the invariant of the
  store and evolve it.
\<close>

section \<open>Opening\<close>

lemma new_payment_facts:
  assumes "new_payment anchor policy = Inr t"
  shows "wf_payment (pt_next t)" "ps_anchor (pc_subject (pw_core (pt_next t))) = anchor" "pw_policy (pt_next t) = policy"
    "pw_history (pt_next t) = []" "pc_command (pw_core (pt_next t)) = None"
proof -
  obtain p s w where p: "mk_payment_policy policy = Inr p"
      and s: "subject_from_anchor anchor
        (stable_id ''payment'' [JStr (an_workflow_id anchor), JStr (an_target_id anchor)]) None same_economics None = Inr s"
      and w: "mk_payment_workflow \<lparr>pw_core = initial_core s, pw_policy = p, pw_history = []\<rparr> = Inr w"
      and t: "t = \<lparr>pt_next = w, pt_result = PT_APPLIED, pt_reason = PAYMENT_OPENED, pt_events = [], pt_commands = []\<rparr>"
    using assms unfolding new_payment_def by (auto simp: bind_res_Inr_iff)
  have w': "w = \<lparr>pw_core = initial_core s, pw_policy = p, pw_history = []\<rparr>" by (rule mk_payment_workflow_Inr(1) [OF w])
  have "p = policy" using p by (auto simp: mk_payment_policy_def split: if_splits)
  moreover have "ps_anchor s = anchor" using from_anchor_wf [OF s] by simp
  ultimately show "wf_payment (pt_next t)" "ps_anchor (pc_subject (pw_core (pt_next t))) = anchor"
    "pw_policy (pt_next t) = policy" "pw_history (pt_next t) = []" "pc_command (pw_core (pt_next t)) = None"
    using w by (simp_all add: t w' initial_core_def wf_payment_def)
qed

lemma orphan_free:
  assumes "tables_ok db" "pid \<notin> payment_ids db"
  shows "filter (\<lambda>r. pe_payment_id r = pid) (pd_events db) = []" "filter (\<lambda>r. pk_payment_id r = pid) (pd_claims db) = []"
    "filter (\<lambda>r. cr_payment_id r = pid) (pd_commands db) = []" "filter (\<lambda>r. pl_payment_id r = pid) (pd_ledger db) = []"
  using assms by (auto simp: tables_ok_def no_orphans_def filter_empty_conv)

lemma open_payment_step:
  assumes r: "open_payment db anchor policy = Inr (db', t)"
  shows "payment_step db db'"
proof (cases "db' = db")
  case False
  obtain t0 where new: "new_payment anchor policy = Inr t0" using r by (auto simp: open_payment_def bind_res_Inr_iff)
  let ?w = "pt_next t0"
  let ?pid = "ps_payment_id (pc_subject (pw_core ?w))"
  let ?row = "payment_row_of ?w 0 (an_confirmed_at anchor) (an_confirmed_at anchor)"
  note f = new_payment_facts [OF new]
  have none: "find_row pr_id ?pid (pd_workflows db) = None"
    using r False new by (auto simp: open_payment_def bind_res_Inr_iff Let_def split: option.splits prod.splits if_splits)
  then have named: "exact_text ?pid ''payment_id'' = Inr ?pid" and db': "db' = db\<lparr>pd_workflows := pd_workflows db @ [?row]\<rparr>"
    using r new by (auto simp: open_payment_def bind_res_Inr_iff Let_def exact_text_def split: if_splits)
  have fresh: "?pid \<notin> payment_ids db" using none by (simp add: find_row_None payment_ids_def)
  have id: "pr_id ?row = ?pid" by (simp add: payment_row_of_def Let_def)
  show ?thesis
  proof (rule payment_stepI [of db ?pid])
    assume ok: "payments_ok db"
    then have t0: "tables_ok db" by (simp add: payments_ok_def)
    note empty = orphan_free [OF t0 fresh]
    have ids: "payment_ids db' = insert ?pid (payment_ids db)" by (simp add: payment_ids_def db' id)
    have "tables_ok db'"
      using t0 fresh ids id unfolding tables_ok_def payment_keys_def no_orphans_def payment_ids_def [symmetric]
      by (auto simp: db' payment_ids_def)
    moreover have "same_payment q db db'" if "q \<noteq> ?pid" for q
      using that id by (simp add: same_payment_def db' find_row_append payment_effects_def split: option.splits)
    ultimately have "touches ?pid db db'" using ids by (auto simp: touches_def db')
    then have "stage ?pid db db'" by (simp add: stage_def payments_evolve_def db')
    moreover have "find_row pr_id ?pid (pd_workflows db') = Some ?row"
      using none id by (simp add: db' find_row_append)
    moreover have "event_history db' ?pid ?w 0"
      using empty(1) new f by (simp add: event_history_def payment_event_rows_def db')
    moreover have "payment_financial_records db' ?w = Inr None"
      using empty by (simp add: financial_records_none [OF f(5)] db')
    ultimately show "stage ?pid db db' \<and> (\<exists>w n. load_payment db' ?pid = Inr (w, n))"
      using named f by (auto simp: load_payment_iff payment_updated_at_def)
  qed
qed simp

section \<open>Applying an event\<close>

lemma nonoperational_command:
  assumes "core_ok c es" "replay_event c e = Inr c'" "\<not> operational_payment_event e"
  shows "pc_command c = None \<and> pc_command c' = None"
proof -
  have "pc_status c \<in> {PAY_AWAITING_METHOD, PAY_AWAITING_FINANCIAL_CONFIRMATION, PAY_AWAITING_EVIDENCE}"
    using assms(2,3)
    by (cases e; cases "pc_status c") (auto simp: replay_event_def bind_res_Inr_iff operational_payment_event_def)
  then have "pc_command c = None" by (rule early_core(3) [OF assms(1)])
  then show ?thesis
    using assms(2,3)
    by (cases e) (auto simp: replay_event_def bind_res_Inr_iff operational_payment_event_def replay_method_def
        replay_summary_def replay_confirmation_def replay_expired_def replay_cancelled_def reset_core_def split: option.splits)
qed

lemma apply_payment_step:
  assumes e: "mk_payment_event e = Inr ()" and r: "apply_payment db pid expected e = Inr (db', t)"
  shows "payment_step db db'"
proof (cases "db' = db")
  case False
  have "\<not> operational_payment_event e"
    using r by (auto simp: apply_payment_def bind_res_Inr_iff exact_text_def exact_revision_def)
  obtain w n where load: "load_payment db pid = Inr (w, n)"
    using r by (auto simp: apply_payment_def bind_res_Inr_iff exact_text_def exact_revision_def split: if_splits)
  obtain db1 where red: "reduce_payment w e = Inr t" "pt_result t = PT_APPLIED"
      and up: "update_payment_row db pid n (pt_next t) (payment_event_time e) = Inr db1"
      and ins: "insert_payment_event ''apply_payment'' db1 pid (n + 1) e (pt_next t) = Inr db'"
    using r False load
    by (auto simp: apply_payment_def bind_res_Inr_iff exact_text_def exact_revision_def split: if_splits option.splits)
  note f = load_payment_facts [OF load]
  obtain c' where c': "replay_event (pw_core w) e = Inr c'" "pw_core (pt_next t) = c'"
      "ps_payment_id (pc_subject c') = ps_payment_id (pc_subject (pw_core w))"
    using applied_transition [OF f(1) e red] by metis
  have none: "pc_command (pw_core w) = None" "pc_command (pw_core (pt_next t)) = None"
    using nonoperational_command [OF wf_payment_core [OF f(1)] c'(1)] c'(2) \<open>\<not> operational_payment_event e\<close> by simp_all
  have fin: "\<exists>x. payment_financial_records db (pt_next t) = Inr x"
    using f(5) c' by (auto simp: financial_records_none [OF none(1)] financial_records_none [OF none(2)])
  show ?thesis
  proof (rule payment_stepI)
    assume "payments_ok db"
    then have t0: "tables_ok db" by (simp add: payments_ok_def)
    show "stage pid db db' \<and> (\<exists>w n. load_payment db' pid = Inr (w, n))"
      using persist_stage [OF load e red t0 refl refl up ins] persisted_payment(3) [OF load e red t0 refl refl up ins fin]
      by blast
  qed
qed simp

section \<open>Claiming evidence\<close>

lemma evidence_step:
  assumes "wf_payment w" "mk_payment_event (PaymentEvidenceRecorded x) = Inr ()"
    and "reduce_payment w (PaymentEvidenceRecorded x) = Inr t" "pt_result t = PT_APPLIED"
  shows "\<exists>v k. validate_evidence (pc_subject (pw_core w)) (er_evidence x) (er_trust x) = Inr v
    \<and> settlement_command_for (pc_subject (pw_core w)) v = Inr k
    \<and> pw_core (pt_next t) = (pw_core w)\<lparr>pc_status := PAY_SETTLEMENT_QUEUED, pc_record := Some x,
         pc_verified := Some v, pc_command := Some k\<rparr>
    \<and> pc_command (pw_core w) = None \<and> pc_start (pw_core w) = None \<and> pc_finish (pw_core w) = None
    \<and> wf_payment (pt_next t)"
proof -
  obtain c' where c: "replay_event (pw_core w) (PaymentEvidenceRecorded x) = Inr c'" "pw_core (pt_next t) = c'"
    "wf_payment (pt_next t)" using applied_transition [OF assms] by metis
  have "pc_status (pw_core w) = PAY_AWAITING_EVIDENCE"
    using c(1) by (cases "pc_status (pw_core w)") (auto simp: replay_event_def bind_res_Inr_iff)
  then have "pc_command (pw_core w) = None" "pc_start (pw_core w) = None" "pc_finish (pw_core w) = None"
    using early_core [OF wf_payment_core [OF assms(1)]] by simp_all
  then show ?thesis using c by (auto simp: replay_event_def replay_evidence_def bind_res_Inr_iff)
qed

lemma queued_row_valid:
  "decode_ledger (queued_row_of k at) k = Inr \<lparr>lv_status = SETTLEMENT_QUEUED, lv_lease = None,
     lv_token = 0, lv_count = 0, lv_slots = 0, lv_request_hash = None, lv_fenced_at = None, lv_outcome = None,
     lv_recorded_at = None, lv_updated_at = at\<rparr>"
  by (simp add: decode_ledger_Inr queued_row_of_def decode_lease_Inr check_dispatch_Inr decode_outcome_Inr)

lemma claim_reduced_same: "claim_reduced_evidence db w n x t = Inr (db', t') \<Longrightarrow> t' = t"
  by (auto simp: claim_reduced_evidence_def bind_res_Inr_iff split: if_splits list.splits option.splits)

lemma claim_evidence_effect:
  assumes ok: "payments_ok db" and e: "mk_payment_event (PaymentEvidenceRecorded x) = Inr ()"
    and r: "claim_payment_evidence db pid expected x = Inr (db', t)" and ne: "db' \<noteq> db"
  shows "\<exists>w n k v. stage pid db db' \<and> load_payment db' pid = Inr (w, n) \<and> pt_next t = w
    \<and> pt_commands t = [k] \<and> pd_commands db' = pd_commands db @ [command_row_of k (er_recorded_at x)]
    \<and> pd_claims db' = pd_claims db @ [claim_row_of k v x] \<and> pc_verified (pw_core w) = Some v
    \<and> ve_claim_key v \<notin> pk_key ` set (pd_claims db) \<and> sc_id k \<notin> cr_id ` set (pd_commands db)"
proof -
  let ?e = "PaymentEvidenceRecorded x"
  obtain w n where load: "load_payment db pid = Inr (w, n)"
    using r by (auto simp: claim_payment_evidence_def bind_res_Inr_iff exact_text_def exact_revision_def split: if_splits)
  have rest: "(case recorded_event db pid ?e of
       Some same \<Rightarrow>
         if same then Inr (db, noop w)
         else Inl (IdentityConflict ''payment event identity has divergent data'')
     | None \<Rightarrow> claim_new_evidence db expected x w n) = Inr (db', t)"
    using r load
    by (auto simp: claim_payment_evidence_def bind_res_Inr_iff exact_text_def exact_revision_def Let_def split: if_splits)
  have "recorded_event db pid ?e = None"
    using rest ne by (cases "recorded_event db pid ?e") (auto split: if_splits)
  then have rest: "claim_new_evidence db expected x w n = Inr (db', t)" using rest by simp
  have rec: "pc_record (pw_core w) = None"
  proof (rule ccontr)
    assume "pc_record (pw_core w) \<noteq> None"
    then have "db' = db"
      using rest by (auto simp: claim_new_evidence_def split: sum.splits py_error.splits if_splits)
    then show False using ne by simp
  qed
  have "n = expected" using rest rec by (auto simp: claim_new_evidence_def split: if_splits)
  then have rest: "bind_res (reduce_payment w ?e) (claim_reduced_evidence db w n x) = Inr (db', t)"
    using rest rec by (simp add: claim_new_evidence_def)
  then have red: "reduce_payment w ?e = Inr t" and rest: "claim_reduced_evidence db w n x t = Inr (db', t)"
    unfolding bind_res_Inr_iff using claim_reduced_same by blast+
  have ap: "pt_result t = PT_APPLIED" using rest ne by (auto simp: claim_reduced_evidence_def split: if_splits)
  note f = load_payment_facts [OF load]
  let ?w = "pt_next t"
  obtain v k where v: "validate_evidence (pc_subject (pw_core w)) (er_evidence x) (er_trust x) = Inr v"
      and k: "settlement_command_for (pc_subject (pw_core w)) v = Inr k"
      and w': "pw_core ?w = (pw_core w)\<lparr>pc_status := PAY_SETTLEMENT_QUEUED, pc_record := Some x,
         pc_verified := Some v, pc_command := Some k\<rparr>"
      and none: "pc_command (pw_core w) = None" "pc_start (pw_core w) = None" "pc_finish (pw_core w) = None"
      and wf: "wf_payment ?w"
    using evidence_step [OF f(1) e red ap] by blast
  have cmds: "pt_commands t = [k]"
  proof -
    obtain c' where "t = applied_step w ?e c'" "pw_core ?w = c'" using applied_transition [OF f(1) e red ap] by metis
    then show ?thesis using w' by (simp add: applied_step_def applied_commands_def)
  qed
  obtain db1 where ins: "insert_financial_rows ''claim_payment_evidence'' db k v x = Inr db1"
      and persist: "persist_transition ''claim_payment_evidence'' db1 w n ?e t = Inr db'"
    using rest cmds w' ap by (auto simp: claim_reduced_evidence_def bind_res_Inr_iff split: if_splits)
  have t0: "tables_ok db" using ok by (simp add: payments_ok_def)
  note kf = settlement_command_for_fields [OF k]
  have pid: "sc_payment_id k = pid" using kf(1) f(2) by simp
  let ?c = "claim_row_of k v x" and ?m = "command_row_of k (er_recorded_at x)" and ?l = "queued_row_of k (er_recorded_at x)"
  have db1: "db1 = db\<lparr>pd_claims := pd_claims db @ [?c], pd_commands := pd_commands db @ [?m], pd_ledger := pd_ledger db @ [?l]\<rparr>"
    and new: "pk_key ?c \<notin> pk_key ` set (pd_claims db)" "cr_id ?m \<notin> cr_id ` set (pd_commands db)"
    using ins by (auto simp: insert_financial_rows_def bind_res_Inr_iff Let_def list_ex_iff split: if_splits)
  have mem: "pid \<in> payment_ids db" using find_row_Some [OF f(4)] by (auto simp: payment_ids_def)
  have s1: "stage pid db db1"
    using insert_financial_rows_touches [OF t0 ins pid mem] by (simp add: stage_def payments_evolve_def db1)
  have same: "pd_workflows db1 = pd_workflows db" "pd_events db1 = pd_events db" by (simp_all add: db1)
  obtain y where "payment_financial_records db w = Inr y" using f(5) by blast
  then have empty: "filter (\<lambda>r. pk_payment_id r = pid) (pd_claims db) = []" "filter (\<lambda>r. cr_payment_id r = pid) (pd_commands db) = []"
      "filter (\<lambda>r. pl_payment_id r = pid) (pd_ledger db) = []"
    using financial_records_none [OF none(1), of db y] f(2) by simp_all
  then have "pid \<notin> cr_payment_id ` set (pd_commands db)" by (auto simp: filter_empty_conv)
  moreover have "pb_payment_id ` set (pd_outbox db) \<subseteq> cr_payment_id ` set (pd_commands db)"
    using t0 by (simp add: tables_ok_def no_orphans_def)
  ultimately have noeff: "payment_effects db pid = []"
    unfolding payment_effects_def filter_empty_conv by (metis image_eqI subsetD)
  have rows: "pk_payment_id ?c = pid" "cr_payment_id ?m = pid" "pl_payment_id ?l = pid" "pk_key ?c = sc_claim_key k"
      "cr_id ?m = sc_id k" "pl_command_id ?l = sc_id k"
    using pid kf(4) by (simp_all add: claim_row_of_def command_row_of_def queued_row_of_def)
  then have tu: "tuple_rows db1 (sc_payment_id k) k ?c ?m ?l" using empty by (simp add: tuple_rows_def db1 pid)
  let ?v = "\<lparr>lv_status = SETTLEMENT_QUEUED, lv_lease = None, lv_token = 0, lv_count = 0, lv_slots = 0,
     lv_request_hash = None, lv_fenced_at = None, lv_outcome = None, lv_recorded_at = None, lv_updated_at = er_recorded_at x\<rparr>"
  let ?ec = "\<lparr>ec_verified = v, ec_status = CLAIM_IN_PROGRESS, ec_claimed_at = er_recorded_at x, ec_consumed_at = None\<rparr>"
  have "mk_evidence_recorded x = Inr ()" using e by simp
  then have "decode_evidence_claim ?c ?w = Inr ?ec"
    using v w' kf by (simp add: decode_evidence_claim_def Let_def claim_row_of_def bind_res_Inr_iff)
  moreover have "decode_payment_command ?m ?w = Inr k"
    using w' kf by (simp add: decode_payment_command_def Let_def command_row_of_def bind_res_Inr_iff)
  moreover have "validate_payment_jobs db1 ?w k ?v = Inr ()"
    using noeff by (simp add: validate_jobs_open payment_effects_def db1 pid)
  moreover have "financial_status_valid (pw_core ?w) ?v CLAIM_IN_PROGRESS"
    using w' none by (simp add: financial_status_valid_def)
  ultimately have "records_valid db1 ?w k ?c ?m ?l \<lparr>fr_claim = ?ec, fr_command = k, fr_ledger = ?v\<rparr>"
    using queued_row_valid [of k "er_recorded_at x"] by (simp add: records_valid_def)
  then have fin: "\<exists>c m l fr. financed db1 ?w k c m l fr" using tu wf w' by (auto simp: financed_def)
  have p: "stage pid db db'" "load_payment db' pid = Inr (?w, n + 1)" "same_finance db1 db'"
    using persisted_stage [OF load e red s1 same persist fin] by blast+
  have keys: "ve_claim_key v \<notin> pk_key ` set (pd_claims db)" "sc_id k \<notin> cr_id ` set (pd_commands db)"
    using new rows(4,5) kf(4) by simp_all
  have "pd_commands db' = pd_commands db @ [?m]" "pd_claims db' = pd_claims db @ [?c]" "pc_verified (pw_core ?w) = Some v"
    using p(3) w' by (simp_all add: same_finance_def db1)
  then show ?thesis using p(1,2) cmds keys by blast
qed

lemma claim_evidence_step:
  assumes "mk_payment_event (PaymentEvidenceRecorded x) = Inr ()" "claim_payment_evidence db pid expected x = Inr (db', t)"
  shows "payment_step db db'"
proof (cases "db' = db")
  case False
  show ?thesis by (rule payment_stepI) (use claim_evidence_effect [OF _ assms False] in blast)
qed simp

end
