(* ===== verification/Pay_Outbox_Laws.thy ===== *)
theory Pay_Outbox_Laws
  imports Pay_Close
begin

text \<open>
  Claiming, releasing and completing an effect keep the invariant of the store and evolve it: the
  row they write is a valid effect of its payment again, whose other rows they do not read or write.
\<close>

section \<open>A row of the outbox\<close>

text \<open>The payment of an effect, its command and what its load checked of the row.\<close>

lemma stored_effect:
  assumes ok: "payments_ok db" and r: "r \<in> set (pd_outbox db)"
  shows "\<exists>w n k c m l fr jobs. load_payment db (pb_payment_id r) = Inr (w, n) \<and> financed db w k c m l fr
    \<and> sc_payment_id k = pb_payment_id r \<and> lv_outcome (fr_ledger fr) \<noteq> None
    \<and> expected_jobs w (lv_outcome (fr_ledger fr)) = Inr jobs
    \<and> effect_sound db k (lv_recorded_at (fr_ledger fr)) jobs r"
proof -
  have "pb_payment_id r \<in> cr_payment_id ` set (pd_commands db)"
    using ok r by (auto simp: payments_ok_def tables_ok_def no_orphans_def)
  then obtain m where m: "m \<in> set (pd_commands db)" "cr_payment_id m = pb_payment_id r" by auto
  obtain w n c l fr where load: "load_payment db (pb_payment_id r) = Inr (w, n)"
      and fin: "financed db w (cr_value m) c m l fr" and pid: "sc_payment_id (cr_value m) = pb_payment_id r"
    using stored_financed [OF ok m(1)] m(2) by auto
  have "validate_payment_jobs db w (cr_value m) (fr_ledger fr) = Inr ()"
    using fin by (simp add: financed_def records_valid_def)
  then obtain jobs where jobs: "expected_jobs w (lv_outcome (fr_ledger fr)) = Inr jobs"
      "length (payment_effects db (pb_payment_id r)) = length jobs"
      "\<forall>x \<in> set (payment_effects db (pb_payment_id r)). effect_sound db (cr_value m) (lv_recorded_at (fr_ledger fr)) jobs x"
    unfolding validate_jobs_iff pid by blast
  have mem: "r \<in> set (payment_effects db (pb_payment_id r))" using r by (simp add: payment_effects_def)
  moreover have "lv_outcome (fr_ledger fr) \<noteq> None"
    using jobs(1,2) mem by (cases "lv_outcome (fr_ledger fr)") (auto simp: expected_jobs_def)
  ultimately show ?thesis using load fin pid jobs by blast
qed

lemma sound_row:
  assumes "effect_sound db k at jobs r"
  shows "pb_token r = pb_attempts r" "0 \<le> pb_token r" "pb_created_at r \<le> pb_updated_at r" "at = Some (pb_created_at r)"
    "pb_message_id r = payment_effect_id (sc_id k) (pb_kind r)" "effect_lifecycle db r = Inr ()"
  using assms by (auto simp: effect_sound_def check_effect_binding_def Let_def bind_res_Inr_iff not_less)

lemma effect_columns_binding:
  assumes "check_effect_binding k at jobs [] r = Inr ()"
    and "pb_message_id r' = pb_message_id r" "pb_idempotency_key r' = pb_idempotency_key r" "pb_effect_id r' = pb_effect_id r"
      "pb_payment_id r' = pb_payment_id r" "pb_version r' = pb_version r" "pb_signature r' = pb_signature r"
      "pb_command_id r' = pb_command_id r" "pb_kind r' = pb_kind r" "pb_template r' = pb_template r" "pb_job r' = pb_job r"
      "pb_created_at r' = pb_created_at r"
    and "pb_token r' = pb_attempts r'" "0 \<le> pb_token r'" "pb_created_at r \<le> pb_updated_at r'"
  shows "check_effect_binding k at jobs [] r' = Inr ()"
  using assms by (auto simp: check_effect_binding_def Let_def bind_res_Inr_iff)

text \<open>The columns an update of the outbox never writes.\<close>

definition same_columns :: "effect_row \<Rightarrow> effect_row \<Rightarrow> bool" where
  "same_columns r r' \<longleftrightarrow>
     r' = r\<lparr>pb_status := pb_status r', pb_owner := pb_owner r', pb_token := pb_token r',
            pb_acquired_at := pb_acquired_at r', pb_expires_at := pb_expires_at r', pb_attempts := pb_attempts r',
            pb_delivered_at := pb_delivered_at r', pb_receipt_hash := pb_receipt_hash r',
            pb_updated_at := pb_updated_at r', pb_deadline := pb_deadline r', pb_cas := pb_cas r'\<rparr>"

lemma same_columnsD:
  assumes "same_columns r r'"
  shows "pb_message_id r' = pb_message_id r" "pb_idempotency_key r' = pb_idempotency_key r" "pb_effect_id r' = pb_effect_id r"
      "pb_payment_id r' = pb_payment_id r" "pb_version r' = pb_version r" "pb_signature r' = pb_signature r"
      "pb_command_id r' = pb_command_id r" "pb_kind r' = pb_kind r" "pb_template r' = pb_template r" "pb_job r' = pb_job r"
      "pb_created_at r' = pb_created_at r"
  by (subst assms [unfolded same_columns_def], simp)+

lemma same_columns_v2:
  assumes "same_columns r r'" "pb_cas r \<le> pb_cas r'"
    and "pb_deadline r' = pb_deadline r \<or> pb_deadline r' = Some d \<and> pb_created_at r \<le> d" "v2_columns_ok r"
  shows "v2_columns_ok r'"
proof -
  have "pb_slots r' = pb_slots r" "pb_authority r' = pb_authority r" "pb_created_at r' = pb_created_at r"
    by (subst assms(1) [unfolded same_columns_def], simp)+
  then show ?thesis using assms(2-) by (auto simp: v2_columns_ok_def opt_all_def)
qed

text \<open>
  The payment of an updated effect still loads when the new row is in a valid stage of its life.
\<close>

lemma updated_effect_loads:
  assumes ok: "payments_ok db" and r: "r \<in> set (pd_outbox db)"
    and p: "\<And>x. p x \<Longrightarrow> pb_message_id x = pb_message_id r" and pr: "p r"
    and f: "\<And>x. same_columns x (f x)"
    and row: "pb_token (f r) = pb_attempts (f r)" "0 \<le> pb_token (f r)" "pb_created_at r \<le> pb_updated_at (f r)"
    and db': "db' = db\<lparr>pd_outbox := update_where p f (pd_outbox db), pd_receipts := receipts\<rparr>"
    and receipts: "\<And>i. i \<noteq> pb_message_id r \<Longrightarrow>
      filter (\<lambda>x. rr_message_id x = i) receipts = filter (\<lambda>x. rr_message_id x = i) (pd_receipts db)"
    and life: "effect_lifecycle db' (f r) = Inr ()" and tables: "tables_ok db'"
  shows "\<exists>w n. load_payment db' (pb_payment_id r) = Inr (w, n)"
proof -
  let ?pid = "pb_payment_id r"
  obtain w n k c m l fr where load: "load_payment db ?pid = Inr (w, n)" and fin: "financed db w k c m l fr"
      and pid: "sc_payment_id k = ?pid"
    using stored_effect [OF ok r] by blast
  have d: "distinct (map pb_message_id (pd_outbox db))" using ok by (simp add: payments_ok_def tables_ok_def payment_keys_def)
  have only: "x = r" if "x \<in> set (pd_outbox db)" "p x" for x using unique_row [OF d r that(1)] p [OF that(2)] by simp
  let ?at = "lv_recorded_at (fr_ledger fr)"
  obtain jobs where jobs: "expected_jobs w (lv_outcome (fr_ledger fr)) = Inr jobs"
      "length (payment_effects db ?pid) = length jobs" "distinct (map pj_kind jobs)"
      "distinct (map pb_kind (payment_effects db ?pid))"
      and sound: "\<And>x. x \<in> set (payment_effects db ?pid) \<Longrightarrow> effect_sound db k ?at jobs x"
    using fin unfolding financed_def records_valid_def validate_jobs_iff pid by blast
  have keep: "pb_payment_id (f x) = pb_payment_id x" "pb_kind (f x) = pb_kind x" for x
    using same_columnsD [OF f [of x]] by simp_all
  have eff: "payment_effects db' ?pid = update_where p f (payment_effects db ?pid)"
    by (simp add: payment_effects_def db' filter_update_where keep)
  have "effect_sound db' k ?at jobs x" if x: "x \<in> set (payment_effects db' ?pid)" for x
  proof -
    consider (new) "x = f r" | (old) "x \<in> set (payment_effects db ?pid)" "\<not> p x"
      using set_update_where [of x p f "payment_effects db ?pid"] x only unfolding eff by (auto simp: payment_effects_def)
    then show ?thesis
    proof cases
      case new
      have "r \<in> set (payment_effects db ?pid)" using r by (simp add: payment_effects_def)
      then have "check_effect_binding k ?at jobs [] r = Inr ()" using sound by (simp add: effect_sound_def)
      then have "check_effect_binding k ?at jobs [] (f r) = Inr ()"
        by (rule effect_columns_binding [OF _ same_columnsD [OF f] row])
      then show ?thesis using life by (simp add: effect_sound_def new)
    next
      case old
      have "x \<noteq> r" using old(2) pr by blast
      then have "pb_message_id x \<noteq> pb_message_id r" using old(1) r unique_row [OF d r, of x] by (auto simp: payment_effects_def)
      then have "effect_lifecycle db' x = effect_lifecycle db x"
        by (intro effect_lifecycle_receipts) (simp add: db' receipts)
      then show ?thesis using sound [OF old(1)] by (simp add: effect_sound_def)
    qed
  qed
  moreover have "map pb_kind (payment_effects db' ?pid) = map pb_kind (payment_effects db ?pid)"
    unfolding eff by (rule map_update_where) (simp add: keep)
  moreover have "length (payment_effects db' ?pid) = length (payment_effects db ?pid)" by (simp add: eff update_where_def)
  ultimately have "validate_payment_jobs db' w k (fr_ledger fr) = Inr ()"
    unfolding validate_jobs_iff pid using jobs by auto
  then have "financed db' w k c m l fr"
    using fin by (simp add: financed_def records_valid_def tuple_rows_def db')
  then have "load_payment db' ?pid = Inr (w, n)"
    using load_again [OF load, of db'] financed_records [OF tables] by (simp add: db')
  then show ?thesis by blast
qed

section \<open>Claiming\<close>

lemma effect_id_text: "id_re (payment_effect_id c kd)"
proof -
  have "list_all hex_char (sha256_hex x)" for x using sha256_hex_hash_re [of x] by (simp add: hash_re_def)
  then have "list_all hex_char (take 32 (sha256_hex x))" for x
    by (metis append_take_drop_id list_all_append)
  then have "list_all id_char (take 32 (sha256_hex x))" for x by (auto simp: list_all_iff dest: hex_char_props)
  moreover have "length (sha256_hex x) = 64" for x using sha256_hex_hash_re [of x] by (simp add: hash_re_def)
  ultimately show ?thesis by (simp add: payment_effect_id_def char_class_defs ordc_def)
qed

lemma free_effect_receipts:
  assumes "effect_lifecycle db r = Inr ()" "pb_status r \<in> {EFFECT_PENDING, EFFECT_LEASED}"
  shows "receipts_for db (pb_message_id r) = 0" "pb_delivered_at r = None" "pb_receipt_hash r = None"
    "pb_status r = EFFECT_LEASED \<Longrightarrow> pb_acquired_at r = Some (pb_updated_at r) \<and> 1 \<le> pb_token r"
  using assms by (auto simp: effect_lifecycle_def split: option.splits)

lemma effect_update_step:
  assumes ok: "payments_ok db" and up: "update_effect db p f err = Inr db'" and r: "r \<in> set (pd_outbox db)"
    and p: "\<And>x. p x \<Longrightarrow> pb_message_id x = pb_message_id r" and ev: "p r \<Longrightarrow> effect_evolves r (f r)"
    and f: "\<And>x. same_columns x (f x)"
    and row: "p r \<Longrightarrow> pb_token (f r) = pb_attempts (f r) \<and> 0 \<le> pb_token (f r) \<and> pb_created_at r \<le> pb_updated_at (f r)"
    and life: "p r \<Longrightarrow> effect_lifecycle db' (f r) = Inr ()"
  shows "p r" "stage (pb_payment_id r) db db'" "\<exists>w n. load_payment db' (pb_payment_id r) = Inr (w, n)"
    "db' = db\<lparr>pd_outbox := update_where p f (pd_outbox db)\<rparr>"
proof -
  have t0: "tables_ok db" using ok by (simp add: payments_ok_def)
  have keep: "pb_payment_id (f x) = pb_payment_id x" "pb_message_id (f x) = pb_message_id x" for x
    using same_columnsD [OF f [of x]] by simp_all
  obtain pr: "p r" and s: "stage (pb_payment_id r) db db'"
      and db': "db' = db\<lparr>pd_outbox := update_where p f (pd_outbox db)\<rparr>"
    using effect_stage [OF t0 up r refl p ev keep] by blast
  then show "p r" "stage (pb_payment_id r) db db'" "db' = db\<lparr>pd_outbox := update_where p f (pd_outbox db)\<rparr>" by blast+
  have db'': "db' = db\<lparr>pd_outbox := update_where p f (pd_outbox db), pd_receipts := pd_receipts db\<rparr>" using db' by simp
  show "\<exists>w n. load_payment db' (pb_payment_id r) = Inr (w, n)"
    using updated_effect_loads [OF ok r p pr f _ _ _ db'' refl] row [OF pr] life [OF pr] stage_ok [OF s] by blast
qed

definition claimed_effect_row :: "string \<Rightarrow> timestamp \<Rightarrow> timestamp \<Rightarrow> effect_row \<Rightarrow> effect_row \<Rightarrow> bool" where
  "claimed_effect_row owner now x r r' \<longleftrightarrow>
     same_columns r r' \<and> pb_status r' = EFFECT_LEASED \<and> pb_owner r' = Some owner \<and> pb_token r' = pb_token r + 1
     \<and> pb_attempts r' = pb_attempts r + 1 \<and> pb_acquired_at r' = Some now \<and> pb_expires_at r' = Some x
     \<and> pb_updated_at r' = now \<and> pb_delivered_at r' = pb_delivered_at r \<and> pb_receipt_hash r' = pb_receipt_hash r
     \<and> pb_cas r \<le> pb_cas r' \<and> (pb_deadline r \<noteq> None \<longrightarrow> pb_deadline r' = pb_deadline r)"

lemma or_else_simps [simp]: "or_else None x = x" "or_else (Some y) x = y"
  by (simp_all add: or_else_def)

lemma or_else_deadline: "Some (or_else d (or_else d x)) = d \<or> or_else d (or_else d x) = x"
  by (cases d) simp_all

lemma lease_effect_step:
  assumes ok: "payments_ok db" and r: "r \<in> set (pd_outbox db)" and time: "pb_created_at r \<le> now" "now < x"
    and owner: "is_payment_claim_owner owner"
    and run: "lease_effect obs db owner now x r = Inr db'"
  shows "free_effect now r" "stage (pb_payment_id r) db db'" "\<exists>w n. load_payment db' (pb_payment_id r) = Inr (w, n)"
    "\<exists>r'. find_row pb_message_id (pb_message_id r) (pd_outbox db') = Some r' \<and> claimed_effect_row owner now x r r'"
proof -
  obtain k at jobs where sound: "effect_sound db k at jobs r"
    using stored_effect [OF ok r] by (elim exE conjE) (rule that)
  note s = sound_row [OF sound]
  obtain p f err where up: "update_effect db p f err = Inr db'"
      and p: "\<And>y. p y \<Longrightarrow> pb_message_id y = pb_message_id r" "\<And>y. p y \<Longrightarrow> free_effect now y"
      and f: "\<And>y. claimed_effect_row owner now x y (f y)"
      and dl: "pb_deadline (f r) = pb_deadline r \<or> pb_deadline (f r) = Some x"
  proof (cases "pd_v2 db")
    case True
    show ?thesis
      by (rule that [of "\<lambda>y. pb_message_id y = pb_message_id r \<and> pb_token y = pb_token r
                   \<and> pb_attempts y = pb_attempts r \<and> pb_cas y = pb_cas r \<and> free_effect now y"
            "\<lambda>y. (leased_effect owner now x y)\<lparr>
                   pb_deadline := Some (or_else (pb_deadline y) (or_else (pb_deadline r) x)), pb_cas := pb_cas y + 1\<rparr>"])
         (use run True or_else_deadline [of "pb_deadline r" x] in
           \<open>auto simp: lease_effect_def Let_def bind_res_Inr_iff claimed_effect_row_def same_columns_def leased_effect_def\<close>)
  next
    case False
    show ?thesis
      by (rule that [of "\<lambda>y. pb_message_id y = pb_message_id r \<and> pb_token y = pb_token r
                   \<and> pb_attempts y = pb_attempts r \<and> free_effect now y" "leased_effect owner now x"])
         (use run False in \<open>auto simp: lease_effect_def claimed_effect_row_def same_columns_def leased_effect_def\<close>)
  qed
  have same: "\<And>y. same_columns y (f y)" using f by (simp add: claimed_effect_row_def)
  note fr' = f [of r, unfolded claimed_effect_row_def] and cols = same_columnsD [OF same [of r]]
  have open_r: "p r \<Longrightarrow> pb_status r \<in> {EFFECT_PENDING, EFFECT_LEASED}" using p(2) by (auto simp: free_effect_def)
  have ev: "p r \<Longrightarrow> effect_evolves r (f r)"
    using open_r fr' cols dl time same_columns_v2 [OF same [of r], of x] by (auto simp: effect_evolves_def)
  have row: "p r \<Longrightarrow> pb_token (f r) = pb_attempts (f r) \<and> 0 \<le> pb_token (f r) \<and> pb_created_at r \<le> pb_updated_at (f r)"
    using fr' s(1,2) time(1) by simp
  have rec: "pd_receipts db' = pd_receipts db" using up by (auto simp: update_effect_def bind_res_Inr_iff)
  have life: "effect_lifecycle db' (f r) = Inr ()" if "p r"
    using free_effect_receipts [OF s(6) open_r [OF that]] fr' cols(1) owner time(2) s(1,2) rec
    by (simp add: effect_lifecycle_def opt_all_def receipts_for_def)
  note st = effect_update_step [OF ok up r p(1) ev same row life]
  show "free_effect now r" using p(2) st(1) by blast
  show "stage (pb_payment_id r) db db'" by (rule st(2))
  show "\<exists>w n. load_payment db' (pb_payment_id r) = Inr (w, n)" by (rule st(3))
  have d: "distinct (map pb_message_id (pd_outbox db))" using ok by (simp add: payments_ok_def tables_ok_def payment_keys_def)
  have out: "pd_outbox db' = update_where p f (pd_outbox db)" using arg_cong [OF st(4), of pd_outbox] by simp
  have "find_row pb_message_id (pb_message_id r) (pd_outbox db')
      = map_option (\<lambda>y. if p y then f y else y) (find_row pb_message_id (pb_message_id r) (pd_outbox db))"
    unfolding out by (rule find_update) (rule same_columnsD(1) [OF same])
  then show "\<exists>r'. find_row pb_message_id (pb_message_id r) (pd_outbox db') = Some r' \<and> claimed_effect_row owner now x r r'"
    using find_row_unique [OF d r] st(1) f [of r] by simp
qed

lemma claim_effect_step:
  assumes ok: "payments_ok db" and run: "claim_payment_effect obs db worker delivery version now ttl = Inr (db', res)"
  shows "(res = None \<and> db' = db) \<or> (\<exists>r x r' claim. res = Some claim \<and> r \<in> set (pd_outbox db) \<and> claimable_effect obs now r
    \<and> stage (pb_payment_id r) db db' \<and> (\<exists>w n. load_payment db' (pb_payment_id r) = Inr (w, n))
    \<and> find_row pb_message_id (pb_message_id r) (pd_outbox db') = Some r'
    \<and> claimed_effect_row (payment_claim_owner worker delivery version) now x r r'
    \<and> po_message_id claim = pb_message_id r \<and> po_token claim = pb_token r + 1)"
proof -
  obtain x where x: "add_timedelta now ttl = Some x" "0 < ttl" and worker: "exact_text worker ''worker_id'' = Inr worker"
      "exact_text delivery ''delivery_id'' = Inr delivery"
    using run unfolding claim_payment_effect_def
    by (cases "add_timedelta now ttl") (auto simp: bind_res_Inr_iff exact_text_def positive_ttl_def split: if_splits)
  have rest: "(case first_by effect_order (claimable_effect obs now) (pd_outbox db) of
       None \<Rightarrow> Inr (db, None)
     | Some row \<Rightarrow>
         bind_res (load_payment db (pb_payment_id row)) (\<lambda>_.
         bind_res (reject_if (now < pb_created_at row \<or> now < pb_updated_at row)
           ''claim time cannot predate the payment outbox state'') (\<lambda>_.
         bind_res (lease_effect obs db (payment_claim_owner worker delivery version) now x row) (\<lambda>db.
         bind_res (claimed_effect db (pb_job row) (pb_message_id row) worker delivery version) (\<lambda>claim.
         Inr (db, Some claim)))))) = Inr (db', res)"
    using run worker x by (auto simp: claim_payment_effect_def bind_res_Inr_iff positive_ttl_def)
  show ?thesis
  proof (cases "first_by effect_order (claimable_effect obs now) (pd_outbox db)")
    case None
    then show ?thesis using rest by simp
  next
    case (Some r)
    note sel = first_by_Some [OF Some]
    obtain claim where time: "pb_created_at r \<le> now"
        and lease: "lease_effect obs db (payment_claim_owner worker delivery version) now x r = Inr db'"
        and claim: "claimed_effect db' (pb_job r) (pb_message_id r) worker delivery version = Inr claim" "res = Some claim"
      using rest Some by (auto simp: bind_res_Inr_iff not_less)
    have r: "r \<in> set (pd_outbox db)" using sel by blast
    have "now < x" using x by simp
    note st = lease_effect_step [OF ok r time this claim_owner_shape lease]
    obtain r' where r': "find_row pb_message_id (pb_message_id r) (pd_outbox db') = Some r'"
        "claimed_effect_row (payment_claim_owner worker delivery version) now x r r'" using st(4) by blast
    obtain k at jobs where sound: "effect_sound db k at jobs r"
      using stored_effect [OF ok r] by (elim exE conjE) (rule that)
    have "strip (pb_message_id r) = pb_message_id r" using sound_row(5) [OF sound] effect_id_text by simp
    then have "po_message_id claim = pb_message_id r \<and> po_token claim = pb_token r + 1"
      using claim(1) r' find_row_Some [OF r'(1)]
      by (auto simp: claimed_effect_def effect_row_of_def claimed_effect_row_def mk_payment_outbox_claim_def bind_res_Inr_iff
          require_id_def Let_def split: if_splits)
    then show ?thesis using sel st(2,3) r' claim(2) by blast
  qed
qed

section \<open>Releasing and completing\<close>

lemma claim_payment_job_Inr: "claim_payment_job c = Inr x \<Longrightarrow> x = c"
  by (auto simp: claim_payment_job_def bind_res_Inr_iff)

lemma claim_binding_row:
  assumes "assert_payment_claim_binding c found = Inr row"
  shows "found = Some row" "pb_payment_id row = po_payment_id c"
  using assms
  by (auto simp: assert_payment_claim_binding_def bind_res_Inr_iff Let_def dest!: claim_payment_job_Inr split: option.splits if_splits)

lemma live_effect_row:
  assumes "assert_live_payment_claim db c now = Inr row"
  shows "find_row pb_message_id (po_message_id c) (pd_outbox db) = Some row" "pb_payment_id row = po_payment_id c"
    "pb_status row = EFFECT_LEASED" "pb_token row = po_token c" "pb_acquired_at row = Some (po_acquired c)"
    "pb_expires_at row = Some (po_expires c)" "po_acquired c \<le> now" "now < po_expires c"
proof -
  have b: "assert_payment_claim_binding c (effect_row_of db (po_message_id c)) = Inr row"
    and s: "pb_status row = EFFECT_LEASED" "pb_token row = po_token c" "pb_acquired_at row = Some (po_acquired c)"
      "pb_expires_at row = Some (po_expires c)" "po_acquired c \<le> now" "now < po_expires c"
    using assms by (auto simp: assert_live_payment_claim_def bind_res_Inr_iff exact_text_def not_less split: if_splits)
  show "find_row pb_message_id (po_message_id c) (pd_outbox db) = Some row" "pb_payment_id row = po_payment_id c"
    "pb_status row = EFFECT_LEASED" "pb_token row = po_token c" "pb_acquired_at row = Some (po_acquired c)"
    "pb_expires_at row = Some (po_expires c)" "po_acquired c \<le> now" "now < po_expires c"
    using claim_binding_row [OF b] s by (simp_all add: effect_row_of_def)
qed

lemma release_effect_step:
  assumes ok: "payments_ok db" and run: "release_payment_outbox db claim now = Inr (db', c)"
  shows "\<exists>r. stage (pb_payment_id r) db db' \<and> (\<exists>w n. load_payment db' (pb_payment_id r) = Inr (w, n))
    \<and> find_row pb_message_id (po_message_id claim) (pd_outbox db) = Some r \<and> pb_status r = EFFECT_LEASED
    \<and> pb_token r = po_token claim"
proof -
  obtain row where live: "assert_live_payment_claim db claim now = Inr row"
      and upd: "(if pd_v2 db
               then update_effect db (\<lambda>r. lease_of_claim claim row r \<and> pb_cas r = pb_cas row)
                      (\<lambda>r. (released_effect now r)\<lparr>pb_cas := pb_cas r + 1\<rparr>)
                      (StaleLease ''payment outbox release lost its live lease'')
               else update_effect db (lease_of_claim claim row) (released_effect now)
                      (StaleLease ''payment outbox release lost its live lease'')) = Inr db'"
    using run by (auto simp: release_payment_outbox_def bind_res_Inr_iff dest!: claim_payment_job_Inr simp del: if_split)
  note lv = live_effect_row [OF live]
  have r: "row \<in> set (pd_outbox db)" and id: "pb_message_id row = po_message_id claim"
    using find_row_Some [OF lv(1)] by simp_all
  obtain k at jobs where sound: "effect_sound db k at jobs row"
    using stored_effect [OF ok r] by (elim exE conjE) (rule that)
  note s = sound_row [OF sound]
  have fr: "receipts_for db (pb_message_id row) = 0" "pb_delivered_at row = None" "pb_receipt_hash row = None"
      "pb_updated_at row = po_acquired claim"
    using free_effect_receipts [OF s(6)] lv(3,5) by simp_all
  obtain p f err where up: "update_effect db p f err = Inr db'" and p: "\<And>y. p y \<Longrightarrow> pb_message_id y = pb_message_id row"
      and f: "\<And>y. same_columns y (f y) \<and> pb_status (f y) = EFFECT_PENDING \<and> pb_owner (f y) = None
        \<and> pb_acquired_at (f y) = None \<and> pb_expires_at (f y) = None \<and> pb_token (f y) = pb_token y
        \<and> pb_attempts (f y) = pb_attempts y \<and> pb_delivered_at (f y) = pb_delivered_at y
        \<and> pb_receipt_hash (f y) = pb_receipt_hash y \<and> pb_updated_at (f y) = now \<and> pb_cas y \<le> pb_cas (f y)
        \<and> pb_deadline (f y) = pb_deadline y"
  proof (cases "pd_v2 db")
    case True
    show ?thesis
      by (rule that [of "\<lambda>r. lease_of_claim claim row r \<and> pb_cas r = pb_cas row" "\<lambda>r. (released_effect now r)\<lparr>pb_cas := pb_cas r + 1\<rparr>"])
         (use upd True id in \<open>simp_all add: same_columns_def released_effect_def lease_of_claim_def\<close>)
  next
    case False
    show ?thesis
      by (rule that [of "lease_of_claim claim row" "released_effect now"])
         (use upd False id in \<open>simp_all add: same_columns_def released_effect_def lease_of_claim_def\<close>)
  qed
  have same: "\<And>y. same_columns y (f y)" using f by blast
  note fr' = f [of row] and cols = same_columnsD [OF same [of row]]
  have rec: "pd_receipts db' = pd_receipts db" using up by (auto simp: update_effect_def bind_res_Inr_iff)
  have ev: "effect_evolves row (f row)" using fr' cols lv(3) same_columns_v2 [OF same [of row]] by (simp add: effect_evolves_def)
  have row: "pb_token (f row) = pb_attempts (f row) \<and> 0 \<le> pb_token (f row) \<and> pb_created_at row \<le> pb_updated_at (f row)"
    using fr' s(1-3) fr(4) lv(7) by simp
  have life: "effect_lifecycle db' (f row) = Inr ()"
    using fr' fr cols(1) rec by (simp add: effect_lifecycle_def receipts_for_def)
  show ?thesis
    using effect_update_step(2,3) [OF ok up r p ev same row life] lv(1,3,4) by blast
qed

lemma complete_effect_step:
  assumes ok: "payments_ok db" and run: "complete_payment_outbox db claim receipt now = Inr (db', c)" and ne: "db' \<noteq> db"
  shows "\<exists>r. stage (pb_payment_id r) db db' \<and> (\<exists>w n. load_payment db' (pb_payment_id r) = Inr (w, n))
    \<and> find_row pb_message_id (po_message_id claim) (pd_outbox db) = Some r \<and> pb_status r = EFFECT_LEASED
    \<and> pb_token r = po_token claim
    \<and> find_row pb_message_id (po_message_id claim) (pd_outbox db') = Some (delivered_effect receipt now r)
    \<and> pd_receipts db' = pd_receipts db @ [receipt_row_of receipt] \<and> rt_claim_hash receipt = outbox_claim_hash claim"
proof -
  have mk: "mk_payment_receipt receipt = Inr receipt"
      and bound: "rt_message_id receipt = po_message_id claim" "rt_idempotency_key receipt = po_message_id claim"
        "rt_claim_hash receipt = outbox_claim_hash claim"
    using run unfolding complete_payment_outbox_def
    by (auto simp: bind_res_Inr_iff exact_text_def dest!: claim_payment_job_Inr split: if_splits)
  obtain row db1 where fresh: "List.find (same_receipt_identity receipt) (pd_receipts db) = None"
      and live: "assert_live_payment_claim db claim now = Inr row"
      and time: "pb_created_at row \<le> rt_delivered_at receipt" "rt_delivered_at receipt \<le> now"
      and up: "update_effect db (lease_of_claim claim row) (delivered_effect receipt now)
           (StaleLease ''payment outbox completion lost its live lease'') = Inr db1"
      and db': "db' = db1\<lparr>pd_receipts := pd_receipts db1 @ [receipt_row_of receipt]\<rparr>"
    using run ne unfolding complete_payment_outbox_def
    by (auto simp: bind_res_Inr_iff exact_text_def not_less dest!: claim_payment_job_Inr split: if_splits option.splits)
  note lv = live_effect_row [OF live]
  have r: "row \<in> set (pd_outbox db)" and id: "pb_message_id row = po_message_id claim"
    using find_row_Some [OF lv(1)] by simp_all
  let ?p = "lease_of_claim claim row" and ?f = "delivered_effect receipt now"
  have t0: "tables_ok db" using ok by (simp add: payments_ok_def)
  obtain k at jobs where sound: "effect_sound db k at jobs row"
    using stored_effect [OF ok r] by (elim exE conjE) (rule that)
  note s = sound_row [OF sound]
  have fr: "1 \<le> pb_token row" using free_effect_receipts(4) [OF s(6)] lv(3) by simp
  have p: "\<And>x. ?p x \<Longrightarrow> pb_message_id x = pb_message_id row" by (simp add: lease_of_claim_def id)
  have same: "\<And>y. same_columns y (?f y)" by (simp add: same_columns_def delivered_effect_def)
  have keep: "pb_payment_id (?f x) = pb_payment_id x" "pb_message_id (?f x) = pb_message_id x" for x
    by (simp_all add: delivered_effect_def)
  have ev: "effect_evolves row (?f row)" using lv(3) by (simp add: effect_evolves_def delivered_effect_def v2_columns_ok_def)
  obtain pr: "?p row" and s1: "stage (pb_payment_id row) db db1"
      and db1: "db1 = db\<lparr>pd_outbox := update_where ?p ?f (pd_outbox db)\<rparr>"
    using effect_stage [OF t0 up r refl p ev keep] by blast
  have new: "rr_message_id x \<noteq> rt_message_id receipt \<and> rr_receipt_id x \<noteq> rt_receipt_id receipt" if "x \<in> set (pd_receipts db)" for x
    using fresh that by (auto simp: find_None_iff same_receipt_identity_def)
  then have new': "rt_message_id receipt \<notin> rr_message_id ` set (pd_receipts db)" "rt_receipt_id receipt \<notin> rr_receipt_id ` set (pd_receipts db)"
    by fastforce+
  have row1: "?f row \<in> set (pd_outbox db1)" using r pr by (auto simp: db1 update_where_def)
  have s2: "stage (pb_payment_id row) db1 db'"
    unfolding db'
    by (rule receipt_stage [OF stage_ok [OF s1] row1])
       (use new' in \<open>simp_all add: keep receipt_row_of_def bound id db1\<close>)
  have stage: "stage (pb_payment_id row) db db'" by (rule stage_trans [OF s1 s2])
  have full: "db' = db\<lparr>pd_outbox := update_where ?p ?f (pd_outbox db), pd_receipts := pd_receipts db @ [receipt_row_of receipt]\<rparr>"
    by (simp add: db' db1)
  have "find_row rr_message_id (pb_message_id row) (pd_receipts db') = Some (receipt_row_of receipt)"
    using new by (auto simp: full find_row_append find_row_None receipt_row_of_def bound id split: option.splits)
      (metis find_row_Some bound(1) id)
  then have "validate_receipt_row db' (pb_message_id row) (rt_delivered_at receipt) (receipt_hash receipt) = Inr ()"
    using mk bound id by (simp add: validate_receipt_row_def receipt_row_of_def as_corruption_def)
  then have life: "effect_lifecycle db' (?f row) = Inr ()"
    using fr s(1) time by (simp add: effect_lifecycle_def delivered_effect_def receipt_hash_def)
  have load: "\<exists>w n. load_payment db' (pb_payment_id row) = Inr (w, n)"
    by (rule updated_effect_loads [OF ok r p pr same _ _ _ full _ life stage_ok [OF stage]])
       (use s(1-3) time in \<open>auto simp: delivered_effect_def receipt_row_of_def bound id\<close>)
  have "find_row pb_message_id (po_message_id claim) (pd_outbox db')
      = map_option (\<lambda>y. if ?p y then ?f y else y) (find_row pb_message_id (po_message_id claim) (pd_outbox db))"
    by (simp add: full find_update keep)
  then have "find_row pb_message_id (po_message_id claim) (pd_outbox db') = Some (?f row)" using lv(1) pr by simp
  then show ?thesis using stage load lv(1,3,4) bound(3) full by auto
qed

end
