(* ===== verification/Pay_Service.thy ===== *)
theory Pay_Service
  imports Pay_Intake_Laws Pay_Outbox_Laws
begin

text \<open>
  The payment store as a service: its calls, each a transaction that commits or leaves the store as
  it was, and the histories of calls in any order by any number of workers. A history is a trace of
  calls with their replies; a worker records an outcome only under a claim the store gave out.
\<close>

section \<open>Calls\<close>

datatype payment_call =
    OpenPayment confirmed_anchor payment_policy
  | ApplyPayment string int payment_event
  | ClaimEvidence string int evidence_recorded
  | ClaimSettlement string timestamp timedelta
  | ReleaseSettlement settlement_claim bool timestamp
  | FenceSettlement settlement_claim string timestamp
  | RecordSettlement settlement_claim settlement_permit settlement_outcome timestamp
  | RecoverPreDispatch timestamp
  | RecoverFenced timestamp
  | ClaimEffect bool string string int timestamp timedelta
  | ReleaseEffect payment_outbox_claim timestamp
  | CompleteEffect payment_outbox_claim payment_receipt timestamp

datatype payment_reply =
    PaymentError py_error
  | PaymentTransitioned payment_transition
  | SettlementClaimed "settlement_claim option"
  | SettlementReleased release_disposition
  | SettlementPermitted settlement_permit
  | PreDispatchRecovered "(release_disposition \<times> string) option"
  | FencedRecovered "string option"
  | EffectClaimed "payment_outbox_claim option"
  | EffectStored payment_outbox_claim

definition payment_transaction :: "payment_store \<Rightarrow> ('a \<Rightarrow> payment_reply) \<Rightarrow> (payment_store \<times> 'a) res \<Rightarrow> payment_store \<times> payment_reply" where
  "payment_transaction db reply result =
     (case result of Inl err \<Rightarrow> (db, PaymentError err) | Inr (db', x) \<Rightarrow> (db', reply x))"

fun serve_payment :: "payment_store \<Rightarrow> payment_call \<Rightarrow> payment_store \<times> payment_reply" where
  "serve_payment db (OpenPayment a p) = payment_transaction db PaymentTransitioned (open_payment db a p)"
| "serve_payment db (ApplyPayment pid n e) = payment_transaction db PaymentTransitioned (apply_payment db pid n e)"
| "serve_payment db (ClaimEvidence pid n x) = payment_transaction db PaymentTransitioned (claim_payment_evidence db pid n x)"
| "serve_payment db (ClaimSettlement w now ttl) = payment_transaction db SettlementClaimed (claim_settlement db w now ttl)"
| "serve_payment db (ReleaseSettlement c again now) =
     payment_transaction db SettlementReleased (release_pre_dispatch_settlement db c again now)"
| "serve_payment db (FenceSettlement c q now) = payment_transaction db SettlementPermitted (fence_settlement db c q now)"
| "serve_payment db (RecordSettlement c p u now) =
     payment_transaction db PaymentTransitioned (record_settlement_outcome db c p u now)"
| "serve_payment db (RecoverPreDispatch now) =
     payment_transaction db PreDispatchRecovered (recover_expired_pre_dispatch_settlement db now)"
| "serve_payment db (RecoverFenced now) = payment_transaction db FencedRecovered (recover_expired_fenced_settlement db now)"
| "serve_payment db (ClaimEffect obs w d n now ttl) = payment_transaction db EffectClaimed (claim_payment_effect obs db w d n now ttl)"
| "serve_payment db (ReleaseEffect c now) = payment_transaction db EffectStored (release_payment_outbox db c now)"
| "serve_payment db (CompleteEffect c x now) = payment_transaction db EffectStored (complete_payment_outbox db c x now)"

text \<open>Arguments the constructors of the source can build.\<close>

fun wf_payment_call :: "payment_call \<Rightarrow> bool" where
  "wf_payment_call (ApplyPayment _ _ e) \<longleftrightarrow> mk_payment_event e = Inr ()"
| "wf_payment_call (ClaimEvidence _ _ x) \<longleftrightarrow> mk_payment_event (PaymentEvidenceRecorded x) = Inr ()"
| "wf_payment_call _ \<longleftrightarrow> True"

fun settlement_call :: "payment_call \<Rightarrow> bool" where
  "settlement_call (ClaimSettlement _ _ _) \<longleftrightarrow> True"
| "settlement_call (ReleaseSettlement _ _ _) \<longleftrightarrow> True"
| "settlement_call (FenceSettlement _ _ _) \<longleftrightarrow> True"
| "settlement_call (RecordSettlement _ _ _ _) \<longleftrightarrow> True"
| "settlement_call (RecoverPreDispatch _) \<longleftrightarrow> True"
| "settlement_call (RecoverFenced _) \<longleftrightarrow> True"
| "settlement_call _ \<longleftrightarrow> False"

section \<open>The life of a settlement row\<close>

inductive settlement_move :: "settlement_row \<Rightarrow> settlement_row \<Rightarrow> bool" where
  take: "pl_slots l = 0 \<Longrightarrow> pl_count l < 3
      \<Longrightarrow> pl_status l = SETTLEMENT_QUEUED \<or> pl_status l = SETTLEMENT_LEASED \<and> expired_settlement now l
      \<Longrightarrow> settlement_move l (leased_settlement owner now x (pl_count l + 1) l)"
| requeue: "pl_slots l = 0 \<Longrightarrow> pl_status l = SETTLEMENT_LEASED \<Longrightarrow> pl_count l < 3
      \<Longrightarrow> settlement_move l (requeued_settlement now l)"
| abandon: "pl_slots l = 0 \<Longrightarrow> pl_status l = SETTLEMENT_LEASED
      \<Longrightarrow> settlement_move l (closed_settlement SETTLEMENT_RECORDED not_dispatched_outcome now l)"
| fence: "pl_slots l = 0 \<Longrightarrow> pl_status l = SETTLEMENT_LEASED \<Longrightarrow> settlement_move l (fenced_settlement h now l)"
| close: "pl_slots l = 1 \<Longrightarrow> pl_status l = SETTLEMENT_FENCED \<Longrightarrow> so_certainty u \<noteq> NOT_DISPATCHED
      \<Longrightarrow> settlement_move l (closed_settlement (outcome_settlement_status u) u now l)"

lemmas settlement_row_updates = leased_settlement_def requeued_settlement_def closed_settlement_def fenced_settlement_def

lemma move_changes: "settlement_move l l' \<Longrightarrow> l' \<noteq> l"
proof
  assume m: "settlement_move l l'" and "l' = l"
  then have "pl_count l' = pl_count l" "pl_status l' = pl_status l" by simp_all
  with m show False
    by cases (auto simp: settlement_row_updates outcome_settlement_status_def split: if_splits)
qed

text \<open>What a settlement call does: nothing, or one move of one row.\<close>

definition ledger_step :: "payment_store \<Rightarrow> payment_store \<Rightarrow> string \<Rightarrow> settlement_row \<Rightarrow> settlement_row \<Rightarrow> bool" where
  "ledger_step db db' cid l l' \<longleftrightarrow> (\<exists>pid w n. stage pid db db' \<and> load_payment db' pid = Inr (w, n))
     \<and> find_row pl_command_id cid (pd_ledger db) = Some l \<and> find_row pl_command_id cid (pd_ledger db') = Some l'
     \<and> settlement_move l l'"

lemma ledger_step_ok: "payments_ok db \<Longrightarrow> ledger_step db db' cid l l' \<Longrightarrow> payment_step db db'"
  using payment_stepI [of db _ db'] by (auto simp: ledger_step_def)

lemma ended_moves:
  "ended now l l' \<Longrightarrow> pl_slots l = 0 \<Longrightarrow> pl_status l = SETTLEMENT_LEASED \<Longrightarrow> settlement_move l l'"
  by (auto simp: ended_def intro: settlement_move.intros)

text \<open>The claims and the permits for a command that a reply gives out.\<close>

fun claims_in :: "payment_reply \<Rightarrow> string \<Rightarrow> int" where
  "claims_in (SettlementClaimed (Some claim)) cid = (if sc_id (sn_command claim) = cid then 1 else 0)"
| "claims_in _ cid = 0"

fun permits_in :: "payment_reply \<Rightarrow> string \<Rightarrow> int" where
  "permits_in (SettlementPermitted p) cid = (if sc_id (sp_command p) = cid then 1 else 0)"
| "permits_in _ cid = 0"

definition accounts :: "payment_reply \<Rightarrow> string \<Rightarrow> settlement_row \<Rightarrow> settlement_row \<Rightarrow> bool" where
  "accounts r cid l l' \<longleftrightarrow>
     (\<forall>i. claims_in r i = (if i = cid then pl_count l' - pl_count l else 0)
        \<and> permits_in r i = (if i = cid then pl_slots l' - pl_slots l else 0))"

definition silent :: "payment_reply \<Rightarrow> bool" where
  "silent r \<longleftrightarrow> (\<forall>i. claims_in r i = 0 \<and> permits_in r i = 0)"

lemma silent_simps [simp]:
  "silent (PaymentError err)" "silent (PaymentTransitioned t)" "silent (SettlementClaimed None)" "silent (SettlementReleased d)"
  "silent (PreDispatchRecovered x)" "silent (FencedRecovered y)" "silent (EffectClaimed z)" "silent (EffectStored e)"
  by (simp_all add: silent_def)

lemma silent_accounts: "silent r \<Longrightarrow> pl_count l' = pl_count l \<Longrightarrow> pl_slots l' = pl_slots l \<Longrightarrow> accounts r cid l l'"
  by (simp add: silent_def accounts_def)

text \<open>What each settlement call does: nothing and gives out nothing, or one move of one row, whose counters
  tell what it gave out.\<close>

definition settles :: "payment_store \<Rightarrow> payment_store \<Rightarrow> payment_reply \<Rightarrow> bool" where
  "settles db db' r \<longleftrightarrow> db' = db \<and> silent r \<or> (\<exists>cid l l'. ledger_step db db' cid l l' \<and> accounts r cid l l')"

lemma settles_transaction:
  assumes "\<And>db' x. result = Inr (db', x) \<Longrightarrow> settles db db' (reply x)" "payment_transaction db reply result = (db', r)"
  shows "settles db db' r"
  using assms by (cases result) (auto simp: payment_transaction_def settles_def)

lemma settlesI:
  assumes "stage pid db db'" "load_payment db' pid = Inr (w, n)" "find_row pl_command_id cid (pd_ledger db) = Some l"
    "find_row pl_command_id cid (pd_ledger db') = Some l'" "settlement_move l l'" "accounts r cid l l'"
  shows "settles db db' r"
  using assms by (auto simp: settles_def ledger_step_def)

lemma ended_counts: "ended now l l' \<Longrightarrow> pl_count l' = pl_count l \<and> pl_slots l' = pl_slots l"
  by (auto simp: ended_def settlement_row_updates)

lemma claim_settles:
  assumes "payments_ok db" "claim_settlement db w now ttl = Inr (db', res)"
  shows "settles db db' (SettlementClaimed res)"
proof (cases res)
  case None
  then have "db' = db" using assms(2)
    by (auto simp: claim_settlement_selected bind_res_Inr_iff claim_selected_def split: option.splits)
  then show ?thesis by (simp add: settles_def None)
next
  case (Some claim)
  obtain pid v n l x where e: "stage pid db db'" "load_payment db' pid = Inr (v, n)"
      "find_row pl_command_id (sc_id (sn_command claim)) (pd_ledger db) = Some l" "pl_slots l = 0" "pl_count l < 3"
      "pl_status l = SETTLEMENT_QUEUED \<or> pl_status l = SETTLEMENT_LEASED \<and> expired_settlement now l"
      "find_row pl_command_id (sc_id (sn_command claim)) (pd_ledger db')
        = Some (leased_settlement w now x (pl_count l + 1) l)"
    using claim_settlement_effect [OF assms(1), of w now ttl db' claim] assms(2) Some by blast
  have "accounts (SettlementClaimed res) (sc_id (sn_command claim)) l (leased_settlement w now x (pl_count l + 1) l)"
    by (simp add: accounts_def Some leased_settlement_def)
  then show ?thesis using settlesI [OF e(1-3,7) settlement_move.take [OF e(4-6)]] by blast
qed

lemma release_settles:
  assumes "payments_ok db" "release_pre_dispatch_settlement db claim again now = Inr (db', d)"
  shows "settles db db' (SettlementReleased d)"
proof -
  obtain pid w n l l' where e: "stage pid db db'" "load_payment db' pid = Inr (w, n)"
      "held_settlement (sc_id (sn_command claim)) (sn_lease claim) (sn_count claim) l"
      "find_row pl_command_id (sc_id (sn_command claim)) (pd_ledger db) = Some l"
      "find_row pl_command_id (sc_id (sn_command claim)) (pd_ledger db') = Some l'" "ended now l l'"
    using release_effect [OF assms] by blast
  then have "settlement_move l l'" by (auto simp: held_settlement_def intro: ended_moves)
  then show ?thesis using settlesI [OF e(1,2,4,5)] silent_accounts [of "SettlementReleased d" l' l] ended_counts [OF e(6)] by simp
qed

lemma fence_settles:
  assumes "payments_ok db" "fence_settlement db claim q now = Inr (db', p)"
  shows "settles db db' (SettlementPermitted p)"
proof -
  obtain pid w n l where e: "stage pid db db'" "load_payment db' pid = Inr (w, n)"
      "find_row pl_command_id (sc_id (sn_command claim)) (pd_ledger db) = Some l"
      "pl_status l = SETTLEMENT_LEASED" "pl_slots l = 0"
      "find_row pl_command_id (sc_id (sn_command claim)) (pd_ledger db') = Some (fenced_settlement (sha256_hex q) now l)"
      "mk_settlement_permit (sn_command claim) (sn_lease claim) (sn_count claim) 1 (sha256_hex q) now = Inr p"
    using fence_settlement_effect [OF assms] by blast
  have "sp_command p = sn_command claim" using e(7) by simp
  then have "accounts (SettlementPermitted p) (sc_id (sn_command claim)) l (fenced_settlement (sha256_hex q) now l)"
    using e(5) by (simp add: accounts_def fenced_settlement_def)
  then show ?thesis using settlesI [OF e(1-3,6) settlement_move.fence [OF e(5,4)]] by blast
qed

lemma record_settles:
  assumes "payments_ok db" "issued_command db (sn_command claim)" "record_settlement_outcome db claim p u now = Inr (db', t)"
  shows "settles db db' (PaymentTransitioned t)"
proof -
  consider "db' = db" | pid w n l where "stage pid db db'" "load_payment db' pid = Inr (w, n)"
      "fenced_under (sc_id (sn_command claim)) (sn_lease claim) (sn_count claim) (sp_request_hash p) (sp_fenced_at p) l"
      "so_certainty u \<noteq> NOT_DISPATCHED" "find_row pl_command_id (sc_id (sn_command claim)) (pd_ledger db) = Some l"
      "find_row pl_command_id (sc_id (sn_command claim)) (pd_ledger db')
        = Some (closed_settlement (outcome_settlement_status u) u now l)"
    using record_effect [OF assms] by blast
  then show ?thesis
  proof cases
    case 2
    have m: "settlement_move l (closed_settlement (outcome_settlement_status u) u now l)"
      by (rule settlement_move.close) (use 2(3,4) in \<open>simp_all add: fenced_under_def\<close>)
    show ?thesis
      by (rule settlesI [OF 2(1,2,5,6) m]) (simp add: silent_accounts closed_settlement_def)
  qed (simp add: settles_def)
qed

lemma recover_pre_settles:
  assumes "payments_ok db" "recover_expired_pre_dispatch_settlement db now = Inr (db', res)"
  shows "settles db db' (PreDispatchRecovered res)"
proof -
  consider "db' = db" | cid pid w n l l' where "stage pid db db'" "load_payment db' pid = Inr (w, n)"
      "pl_status l = SETTLEMENT_LEASED" "pl_slots l = 0" "find_row pl_command_id cid (pd_ledger db) = Some l"
      "find_row pl_command_id cid (pd_ledger db') = Some l'" "ended now l l'"
    using recover_pre_effect [OF assms] by blast
  then show ?thesis
  proof cases
    case 2
    show ?thesis
      by (rule settlesI [OF 2(1,2,5,6) ended_moves [OF 2(7,4,3)]]) (use ended_counts [OF 2(7)] in \<open>simp add: silent_accounts\<close>)
  qed (simp add: settles_def)
qed

lemma recover_fenced_settles:
  assumes "payments_ok db" "recover_expired_fenced_settlement db now = Inr (db', res)"
  shows "settles db db' (FencedRecovered res)"
proof -
  consider "db' = db" | cid pid w n l h where "stage pid db db'" "load_payment db' pid = Inr (w, n)"
      "pl_status l = SETTLEMENT_FENCED" "pl_slots l = 1" "find_row pl_command_id cid (pd_ledger db) = Some l"
      "find_row pl_command_id cid (pd_ledger db') = Some (closed_settlement SETTLEMENT_REVIEW (unknown_settlement h) now l)"
    using recover_fenced_effect [OF assms] by blast
  then show ?thesis
  proof cases
    case 2
    have "settlement_move l (closed_settlement (outcome_settlement_status (unknown_settlement h)) (unknown_settlement h) now l)"
      by (rule settlement_move.close) (simp_all add: 2 unknown_settlement_def)
    then have m: "settlement_move l (closed_settlement SETTLEMENT_REVIEW (unknown_settlement h) now l)"
      by (simp add: outcome_settlement_status_def unknown_settlement_def)
    show ?thesis
      by (rule settlesI [OF 2(1,2,5,6) m]) (simp add: silent_accounts closed_settlement_def)
  qed (simp add: settles_def)
qed

definition from_store :: "payment_store \<Rightarrow> payment_call \<Rightarrow> bool" where
  "from_store db c \<longleftrightarrow> (case c of RecordSettlement claim _ _ _ \<Rightarrow> issued_command db (sn_command claim) | _ \<Rightarrow> True)"

lemma settlement_call_settles:
  assumes "payments_ok db" "settlement_call c" "from_store db c" "serve_payment db c = (db', r)"
  shows "settles db db' r"
  using assms
  by (cases c) (auto simp: from_store_def elim!: settles_transaction [rotated]
      intro: claim_settles release_settles fence_settles record_settles recover_pre_settles recover_fenced_settles)

section \<open>The other calls\<close>

lemma transaction_cases:
  assumes "payment_transaction db reply result = (db', r)"
  obtains "db' = db" "\<exists>err. r = PaymentError err" | x where "result = Inr (db', x)" "r = reply x"
  using assms by (cases result) (auto simp: payment_transaction_def)

text \<open>They leave the ledger alone, up to the row of a new command.\<close>

lemma update_rows_ledger:
  "update_payment_row db pid n w t = Inr db' \<Longrightarrow> pd_ledger db' = pd_ledger db"
  "insert_payment_event op db pid n e w = Inr db' \<Longrightarrow> pd_ledger db' = pd_ledger db"
  "persist_transition op db w n e t' = Inr db' \<Longrightarrow> pd_ledger db' = pd_ledger db"
  "update_effect db p f err = Inr db' \<Longrightarrow> pd_ledger db' = pd_ledger db"
proof -
  show 1: "update_payment_row db pid n w t = Inr db' \<Longrightarrow> pd_ledger db' = pd_ledger db" for db pid n w t db'
    by (auto simp: update_payment_row_def bind_res_Inr_iff)
  show 2: "insert_payment_event op db pid n e w = Inr db' \<Longrightarrow> pd_ledger db' = pd_ledger db" for op db pid n e w db'
    by (auto simp: insert_payment_event_def split: if_splits)
  show "persist_transition op db w n e t' = Inr db' \<Longrightarrow> pd_ledger db' = pd_ledger db"
    using 1 2 by (fastforce simp: persist_transition_def Let_def bind_res_Inr_iff)
  show "update_effect db p f err = Inr db' \<Longrightarrow> pd_ledger db' = pd_ledger db"
    by (auto simp: update_effect_def bind_res_Inr_iff)
qed

lemma open_ledger: "open_payment db a p = Inr (db', t) \<Longrightarrow> pd_ledger db' = pd_ledger db"
  by (auto simp: open_payment_def Let_def bind_res_Inr_iff split: option.splits prod.splits if_splits)

lemma apply_ledger:
  assumes "apply_payment db pid n e = Inr (db', t)"
  shows "pd_ledger db' = pd_ledger db"
  using assms update_rows_ledger(1,2)
  by (fastforce simp: apply_payment_def bind_res_Inr_iff exact_text_def exact_revision_def
      split: if_splits option.splits prod.splits)

lemma claim_effect_ledger: "claim_payment_effect obs db w d n now ttl = Inr (db', res) \<Longrightarrow> pd_ledger db' = pd_ledger db"
proof -
  assume run: "claim_payment_effect obs db w d n now ttl = Inr (db', res)"
  have "lease_effect obs db owner now x row = Inr db'' \<Longrightarrow> pd_ledger db'' = pd_ledger db" for owner x row db''
    by (auto simp: lease_effect_def Let_def bind_res_Inr_iff split: if_splits dest: update_rows_ledger(4))
  then show ?thesis
    using run
    by (auto simp: claim_payment_effect_def bind_res_Inr_iff exact_text_def positive_ttl_def split: option.splits if_splits)
qed

lemma release_effect_ledger: "release_payment_outbox db c now = Inr (db', x) \<Longrightarrow> pd_ledger db' = pd_ledger db"
  by (auto simp: release_payment_outbox_def bind_res_Inr_iff split: if_splits dest: update_rows_ledger(4))

lemma complete_effect_ledger: "complete_payment_outbox db c x now = Inr (db', y) \<Longrightarrow> pd_ledger db' = pd_ledger db"
  by (auto simp: complete_payment_outbox_def bind_res_Inr_iff split: if_splits option.splits dest: update_rows_ledger(4))

end
