(* ===== verification/Pay_History.thy ===== *)
theory Pay_History
  imports Pay_Service
begin

text \<open>
  Histories of the payment store. Whatever calls any number of workers make in whatever order, every
  payment of the store loads with its whole history and its financial records, no row is lost, and
  the ledger counts exactly the claims and the permits the store gave out.
\<close>

section \<open>One call\<close>

lemma claim_evidence_ledger:
  assumes "claim_payment_evidence db pid n x = Inr (db', t)"
  shows "pd_ledger db' = pd_ledger db \<or> (\<exists>k. pd_ledger db' = pd_ledger db @ [queued_row_of k (er_recorded_at x)])"
proof -
  have ins: "insert_financial_rows op db k v x = Inr db1 \<Longrightarrow> pd_ledger db1 = pd_ledger db @ [queued_row_of k (er_recorded_at x)]"
    for op k v db1 by (auto simp: insert_financial_rows_def bind_res_Inr_iff Let_def split: if_splits)
  have red: "claim_reduced_evidence db w m x t0 = Inr (db', t)
      \<Longrightarrow> pd_ledger db' = pd_ledger db \<or> (\<exists>k. pd_ledger db' = pd_ledger db @ [queued_row_of k (er_recorded_at x)])" for w m t0
    by (auto simp: claim_reduced_evidence_def bind_res_Inr_iff dest!: ins update_rows_ledger(3)
        split: if_splits list.splits option.splits)
  have "claim_new_evidence db n x w m = Inr (db', t)
      \<Longrightarrow> pd_ledger db' = pd_ledger db \<or> (\<exists>k. pd_ledger db' = pd_ledger db @ [queued_row_of k (er_recorded_at x)])" for w m
    using red by (auto simp: claim_new_evidence_def bind_res_Inr_iff split: if_splits sum.splits py_error.splits)
  then show ?thesis
    using assms by (auto simp: claim_payment_evidence_def bind_res_Inr_iff exact_text_def exact_revision_def
        split: if_splits option.splits)
qed

text \<open>A call that is not about a settlement keeps the ledger and appends at most unclaimed rows.\<close>

definition ledger_grows :: "payment_store \<Rightarrow> payment_store \<Rightarrow> bool" where
  "ledger_grows db db' \<longleftrightarrow> (\<exists>new. pd_ledger db' = pd_ledger db @ new \<and> (\<forall>l \<in> set new. pl_count l = 0 \<and> pl_slots l = 0))"

lemma same_ledger_grows: "pd_ledger db' = pd_ledger db \<Longrightarrow> ledger_grows db db'"
  by (auto simp: ledger_grows_def intro: exI [of _ "[]"])

definition serves :: "payment_store \<Rightarrow> payment_store \<Rightarrow> payment_reply \<Rightarrow> bool" where
  "serves db db' r \<longleftrightarrow> payment_step db db' \<and> (settles db db' r \<or> silent r \<and> ledger_grows db db')"

lemma serves_silent: "payment_step db db' \<Longrightarrow> silent r \<Longrightarrow> pd_ledger db' = pd_ledger db \<Longrightarrow> serves db db' r"
  by (simp add: serves_def same_ledger_grows)

lemma serves_error [simp]: "serves db db (PaymentError err)"
  by (simp add: serves_def settles_def)

lemma open_serves:
  assumes "open_payment db a p = Inr (db', t)" shows "serves db db' (PaymentTransitioned t)"
  by (rule serves_silent) (use assms open_payment_step open_ledger in \<open>auto\<close>)

lemma apply_serves:
  assumes "mk_payment_event e = Inr ()" "apply_payment db pid n e = Inr (db', t)"
  shows "serves db db' (PaymentTransitioned t)"
  by (rule serves_silent) (use assms apply_payment_step apply_ledger in \<open>auto\<close>)

lemma evidence_serves:
  assumes "mk_payment_event (PaymentEvidenceRecorded x) = Inr ()" "claim_payment_evidence db pid n x = Inr (db', t)"
  shows "serves db db' (PaymentTransitioned t)"
proof -
  have "ledger_grows db db'"
    using claim_evidence_ledger [OF assms(2)]
    by (auto simp: ledger_grows_def queued_row_of_def intro: exI [of _ "[]"])
  then show ?thesis using claim_evidence_step [OF assms] by (simp add: serves_def)
qed

lemma stage_step:
  "\<exists>r. stage (pb_payment_id r) db db' \<and> (\<exists>w n. load_payment db' (pb_payment_id r) = Inr (w, n)) \<and> P r \<Longrightarrow> payment_step db db'"
  using payment_stepI by blast

lemma claim_effect_serves:
  assumes "payments_ok db" "claim_payment_effect obs db w d n now ttl = Inr (db', res)"
  shows "serves db db' (EffectClaimed res)"
proof (rule serves_silent)
  show "payment_step db db'"
    using claim_effect_step [OF assms] stage_step [of db db' "\<lambda>_. True"] by (metis payment_step_refl)
qed (use claim_effect_ledger [OF assms(2)] in simp_all)

lemma release_effect_serves:
  assumes "payments_ok db" "release_payment_outbox db claim now = Inr (db', c)"
  shows "serves db db' (EffectStored c)"
proof (rule serves_silent)
  show "payment_step db db'" using release_effect_step [OF assms] by (rule stage_step)
qed (use release_effect_ledger [OF assms(2)] in simp_all)

lemma complete_effect_serves:
  assumes "payments_ok db" "complete_payment_outbox db claim x now = Inr (db', c)"
  shows "serves db db' (EffectStored c)"
proof (rule serves_silent)
  show "payment_step db db'"
    using complete_effect_step [OF assms] stage_step [of db db' "\<lambda>_. True"] by (metis payment_step_refl)
qed (use complete_effect_ledger [OF assms(2)] in simp_all)

lemma settles_serves: "payments_ok db \<Longrightarrow> settles db db' r \<Longrightarrow> serves db db' r"
  using ledger_step_ok by (auto simp: serves_def settles_def)

lemma serves_transaction:
  assumes "\<And>db' x. result = Inr (db', x) \<Longrightarrow> serves db db' (reply x)" "payment_transaction db reply result = (db', r)"
  shows "serves db db' r"
  using assms by (cases result) (auto simp: payment_transaction_def)

lemma serve_payment_serves:
  assumes ok: "payments_ok db" and c: "wf_payment_call c" "from_store db c" and s: "serve_payment db c = (db', r)"
  shows "serves db db' r"
proof (cases "settlement_call c")
  case True
  show ?thesis by (rule settles_serves [OF ok settlement_call_settles [OF ok True c(2) s]])
next
  case False
  with assms show ?thesis
    by (cases c) (auto elim!: serves_transaction [rotated]
      intro: open_serves apply_serves evidence_serves claim_effect_serves release_effect_serves complete_effect_serves)
qed

section \<open>The ledger rows of a step\<close>

lemma payment_financed:
  assumes ok: "payments_ok db" and pid: "pid \<in> payment_ids db"
    and rows: "filter (\<lambda>r. pk_payment_id r = pid) (pd_claims db) \<noteq> [] \<or> filter (\<lambda>r. cr_payment_id r = pid) (pd_commands db) \<noteq> []
      \<or> filter (\<lambda>r. pl_payment_id r = pid) (pd_ledger db) \<noteq> []"
  shows "\<exists>w n k c m l fr. load_payment db pid = Inr (w, n) \<and> financed db w k c m l fr \<and> sc_payment_id k = pid"
proof -
  have t0: "tables_ok db" using ok by (simp add: payments_ok_def)
  obtain w n where load: "load_payment db pid = Inr (w, n)" using ok pid by (auto simp: payments_ok_def)
  note f = load_payment_facts [OF load]
  obtain x where x: "payment_financial_records db w = Inr x" using f(5) by blast
  have "\<exists>fr. x = Some fr"
  proof (cases "pc_command (pw_core w)")
    case None
    then show ?thesis using financial_records_none [OF None, of db x] x rows f(2) by auto
  next
    case (Some k)
    have keys: "payment_keys db" using t0 by (simp add: tables_ok_def)
    show ?thesis using financial_records_some [OF keys f(1) Some, of x] x by blast
  qed
  then obtain fr where "payment_financial_records db w = Inr (Some fr)" using x by blast
  then have rec: "required_records db w (DataCorruption []) = Inr fr" by (simp add: required_records_def)
  obtain c m l where "financed db w (fr_command fr) c m l fr" "sc_payment_id (fr_command fr) = pid"
    using loaded_records [OF t0 load rec] by blast
  then show ?thesis using load by blast
qed

lemma single_row:
  assumes "filter p rows = [x]" "r \<in> set rows" "p r"
  shows "r = x"
proof -
  have "r \<in> set (filter p rows)" using assms(2,3) by simp
  then show ?thesis by (simp add: assms(1))
qed

lemma payment_ledger_row:
  assumes ok: "payments_ok db" and l: "l \<in> set (pd_ledger db)"
  shows "\<exists>w n k c m fr. load_payment db (pl_payment_id l) = Inr (w, n) \<and> financed db w k c m l fr
    \<and> sc_payment_id k = pl_payment_id l"
proof -
  have pid: "pl_payment_id l \<in> payment_ids db"
    using ok l by (auto simp: payments_ok_def tables_ok_def no_orphans_def)
  have "filter (\<lambda>r. pl_payment_id r = pl_payment_id l) (pd_ledger db) \<noteq> []" using l by (auto simp: filter_empty_conv)
  then obtain w n k c m l' fr where fin: "load_payment db (pl_payment_id l) = Inr (w, n)" "financed db w k c m l' fr"
      "sc_payment_id k = pl_payment_id l" using payment_financed [OF ok pid] by blast
  then have "filter (\<lambda>r. pl_payment_id r = pl_payment_id l) (pd_ledger db) = [l']"
    by (simp add: financed_def tuple_rows_def)
  from single_row [OF this l] have "l = l'" by simp
  then show ?thesis using fin by blast
qed

lemma ledger_row_counters:
  assumes "payments_ok db" "l \<in> set (pd_ledger db)"
  shows "0 \<le> pl_count l" "pl_count l \<le> 3" "pl_token l = pl_count l" "pl_slots l \<in> {0, 1}"
proof -
  obtain w k c m fr where "financed db w k c m l fr" using payment_ledger_row [OF assms] by blast
  from financed_ledger [OF this] show "0 \<le> pl_count l" "pl_count l \<le> 3" "pl_token l = pl_count l" "pl_slots l \<in> {0, 1}"
    by (simp_all add: decode_ledger_Inr)
qed

text \<open>A payment has one ledger row, so a step on the row of one command leaves all others as they are.\<close>

lemma ledger_row_of_payment:
  assumes "payments_ok db" "l \<in> set (pd_ledger db)" "l' \<in> set (pd_ledger db)" "pl_payment_id l' = pl_payment_id l"
  shows "l' = l"
proof -
  obtain w n k c m fr where "financed db w k c m l fr" "sc_payment_id k = pl_payment_id l"
    using payment_ledger_row [OF assms(1,2)] by blast
  then have "filter (\<lambda>r. pl_payment_id r = pl_payment_id l) (pd_ledger db) = [l]"
    by (simp add: financed_def tuple_rows_def)
  moreover have "l' \<in> set (filter (\<lambda>r. pl_payment_id r = pl_payment_id l) (pd_ledger db))" using assms(3,4) by simp
  ultimately show ?thesis by simp
qed

lemma stage_other_row:
  assumes s: "stage pid db db'" and r: "find_row pl_command_id cid (pd_ledger db) = Some r" "pl_payment_id r \<noteq> pid"
  shows "find_row pl_command_id cid (pd_ledger db') = Some r"
proof -
  have "same_payment (pl_payment_id r) db db'" using s r(2) by (simp add: stage_def touches_def)
  then have "filter (\<lambda>x. pl_payment_id x = pl_payment_id r) (pd_ledger db')
      = filter (\<lambda>x. pl_payment_id x = pl_payment_id r) (pd_ledger db)" by (simp add: same_payment_def)
  moreover have "r \<in> set (filter (\<lambda>x. pl_payment_id x = pl_payment_id r) (pd_ledger db))"
    using find_row_Some [OF r(1)] by simp
  ultimately have "r \<in> set (pd_ledger db')" by (metis filter_is_subset subsetD)
  moreover have "distinct (map pl_command_id (pd_ledger db'))"
    using stage_ok [OF s] by (simp add: tables_ok_def payment_keys_def)
  ultimately show ?thesis using find_row_unique find_row_Some [OF r(1)] by metis
qed

lemma ledger_step_others:
  assumes ok: "payments_ok db" and st: "ledger_step db db' cid l l'"
    and r: "find_row pl_command_id i (pd_ledger db) = Some r" "i \<noteq> cid"
  shows "find_row pl_command_id i (pd_ledger db') = Some r"
proof -
  obtain pid where s: "stage pid db db'" using st by (auto simp: ledger_step_def)
  have l: "find_row pl_command_id cid (pd_ledger db) = Some l" "find_row pl_command_id cid (pd_ledger db') = Some l'" "l' \<noteq> l"
    using st move_changes by (auto simp: ledger_step_def)
  have "pl_payment_id l = pid" using stage_other_row [OF s l(1)] l(2,3) by auto
  moreover have "r \<noteq> l" using find_row_Some [OF r(1)] find_row_Some [OF l(1)] r(2) by auto
  ultimately have "pl_payment_id r \<noteq> pid"
    using ledger_row_of_payment [OF ok, of l r] find_row_Some [OF r(1)] find_row_Some [OF l(1)] by auto
  then show ?thesis by (rule stage_other_row [OF s r(1)])
qed

text \<open>What a call does to the row of a command, with what its reply gave out for it.\<close>

lemma serves_row:
  assumes ok: "payments_ok db" and s: "serves db db' r" and l: "find_row pl_command_id cid (pd_ledger db) = Some l"
  shows "\<exists>l'. find_row pl_command_id cid (pd_ledger db') = Some l' \<and> (l' = l \<or> settlement_move l l')
    \<and> pl_count l' = pl_count l + claims_in r cid \<and> pl_slots l' = pl_slots l + permits_in r cid"
proof -
  consider (grows) "silent r" "ledger_grows db db'" | (same) "db' = db" "silent r"
    | (step) i a b where "ledger_step db db' i a b" "accounts r i a b"
    using s by (auto simp: serves_def settles_def)
  then show ?thesis
  proof cases
    case grows
    then show ?thesis using l by (auto simp: ledger_grows_def find_row_append silent_def)
  next
    case same
    then show ?thesis using l by (simp add: silent_def)
  next
    case step
    show ?thesis
    proof (cases "cid = i")
      case True
      then have "a = l" "find_row pl_command_id cid (pd_ledger db') = Some b" "settlement_move a b"
        using step(1) l by (auto simp: ledger_step_def)
      then show ?thesis using step(2) True by (auto simp: accounts_def)
    next
      case False
      then show ?thesis using ledger_step_others [OF ok step(1) l] step(2) by (simp add: accounts_def)
    qed
  qed
qed

lemma serves_new_row:
  assumes ok: "payments_ok db" and s: "serves db db' r" and l: "find_row pl_command_id cid (pd_ledger db) = None"
  shows "claims_in r cid = 0 \<and> permits_in r cid = 0
    \<and> (case find_row pl_command_id cid (pd_ledger db') of None \<Rightarrow> True | Some l' \<Rightarrow> pl_count l' = 0 \<and> pl_slots l' = 0)"
proof -
  consider (grows) "silent r" "ledger_grows db db'" | (same) "db' = db" "silent r"
    | (step) i a b where "ledger_step db db' i a b" "accounts r i a b"
    using s by (auto simp: serves_def settles_def)
  then show ?thesis
  proof cases
    case grows
    then obtain new where new: "pd_ledger db' = pd_ledger db @ new" "\<forall>l \<in> set new. pl_count l = 0 \<and> pl_slots l = 0"
      by (auto simp: ledger_grows_def)
    then show ?thesis
      using l grows(1) find_row_Some [of pl_command_id cid new]
      by (auto simp: find_row_append silent_def split: option.splits)
  next
    case same
    then show ?thesis using l by (simp add: silent_def)
  next
    case step
    have a: "find_row pl_command_id i (pd_ledger db) = Some a" using step(1) by (simp add: ledger_step_def)
    then have ne: "i \<noteq> cid" using l by auto
    have "find_row pl_command_id cid (pd_ledger db') = None"
    proof (rule ccontr)
      assume "find_row pl_command_id cid (pd_ledger db') \<noteq> None"
      then obtain y where y: "y \<in> set (pd_ledger db')" "pl_command_id y = cid" using find_row_Some by fastforce
      obtain pid where st: "stage pid db db'" using step(1) by (auto simp: ledger_step_def)
      have ok': "payments_ok db'" using ledger_step_ok [OF ok step(1)] ok by (simp add: payment_step_def)
      have fb: "find_row pl_command_id i (pd_ledger db') = Some b" "settlement_move a b"
        using step(1) by (simp_all add: ledger_step_def)
      have b: "b \<in> set (pd_ledger db')" "pl_command_id b = i" "b \<noteq> a"
        using find_row_Some [OF fb(1)] move_changes [OF fb(2)] by simp_all
      have "pl_payment_id a = pid" using stage_other_row [OF st a] step(1) b(3) by (auto simp: ledger_step_def)
      moreover have "pl_payment_id b = pl_payment_id a"
        using step(1) by (auto simp: ledger_step_def settlement_row_updates elim!: settlement_move.cases)
      ultimately have "pl_payment_id y \<noteq> pid"
        using ledger_row_of_payment [OF ok' b(1) y(1)] y(2) b(2) ne by auto
      then have "same_payment (pl_payment_id y) db db'" using st by (simp add: stage_def touches_def)
      then have "filter (\<lambda>x. pl_payment_id x = pl_payment_id y) (pd_ledger db')
          = filter (\<lambda>x. pl_payment_id x = pl_payment_id y) (pd_ledger db)" by (simp add: same_payment_def)
      moreover have "y \<in> set (filter (\<lambda>x. pl_payment_id x = pl_payment_id y) (pd_ledger db'))" using y(1) by simp
      ultimately have "y \<in> set (pd_ledger db)" by simp
      then show False using l y(2) by (auto simp: find_row_None)
    qed
    then show ?thesis using step(2) ne by (simp add: accounts_def)
  qed
qed

section \<open>Histories\<close>

type_synonym payment_trace = "(payment_call \<times> payment_reply) list"

text \<open>A worker records an outcome only under a claim that a reply of the history gave out.\<close>

definition holds_claim :: "payment_trace \<Rightarrow> payment_call \<Rightarrow> bool" where
  "holds_claim tr c \<longleftrightarrow>
     (case c of RecordSettlement claim _ _ _ \<Rightarrow> SettlementClaimed (Some claim) \<in> snd ` set tr | _ \<Rightarrow> True)"

inductive payment_history :: "bool \<Rightarrow> payment_trace \<Rightarrow> payment_store \<Rightarrow> bool" for v2 where
  start: "payment_history v2 [] (empty_payments v2)"
| call: "payment_history v2 tr db \<Longrightarrow> wf_payment_call c \<Longrightarrow> holds_claim tr c \<Longrightarrow> serve_payment db c = (db', r)
      \<Longrightarrow> payment_history v2 (tr @ [(c, r)]) db'"

inductive_simps payment_history_Nil: "payment_history v2 [] db"
inductive_simps payment_history_snoc: "payment_history v2 (tr @ [(c, r)]) db"

definition claims_of :: "payment_trace \<Rightarrow> string \<Rightarrow> int" where
  "claims_of tr cid = sum_list (map (\<lambda>(c, r). claims_in r cid) tr)"

definition permits_of :: "payment_trace \<Rightarrow> string \<Rightarrow> int" where
  "permits_of tr cid = sum_list (map (\<lambda>(c, r). permits_in r cid) tr)"

lemma claims_of_append [simp]:
  "claims_of [] cid = 0" "claims_of [(c, r)] cid = claims_in r cid"
  "claims_of (tr @ tr') cid = claims_of tr cid + claims_of tr' cid"
  by (simp_all add: claims_of_def split_def)

lemma permits_of_append [simp]:
  "permits_of [] cid = 0" "permits_of [(c, r)] cid = permits_in r cid"
  "permits_of (tr @ tr') cid = permits_of tr cid + permits_of tr' cid"
  by (simp_all add: permits_of_def split_def)

lemma issued_evolves: "payments_evolve db db' \<Longrightarrow> issued_command db k \<Longrightarrow> issued_command db' k"
  by (auto simp: payments_evolve_def issued_command_def)

lemma claimed_issued:
  assumes ok: "payments_ok db" and s: "serve_payment db c = (db', SettlementClaimed (Some claim))"
  shows "issued_command db (sn_command claim)"
proof (cases c)
  case (ClaimSettlement w now ttl)
  then have "claim_settlement db w now ttl = Inr (db', Some claim)"
    using s by (auto simp: payment_transaction_def split: sum.splits prod.splits)
  from claim_settlement_effect [OF ok this] show ?thesis by (auto simp: issued_command_def)
qed (use s in \<open>auto simp: payment_transaction_def split: sum.splits prod.splits\<close>)

lemma history_ok:
  assumes "payment_history v2 tr db"
  shows "payments_ok db \<and> (\<forall>claim. SettlementClaimed (Some claim) \<in> snd ` set tr \<longrightarrow> issued_command db (sn_command claim))"
  using assms
proof (induction rule: payment_history.induct)
  case start
  then show ?case by (simp add: empty_payments_ok)
next
  case (call tr db c db' r)
  then have ok: "payments_ok db" and held: "\<And>claim. SettlementClaimed (Some claim) \<in> snd ` set tr \<Longrightarrow> issued_command db (sn_command claim)"
    by blast+
  have from_db: "from_store db c"
    using call.hyps(3) held by (auto simp: from_store_def holds_claim_def split: payment_call.splits)
  have st: "payment_step db db'"
    using serve_payment_serves [OF ok call.hyps(2) from_db call.hyps(4)] by (simp add: serves_def)
  then have ok': "payments_ok db'" and ev: "payments_evolve db db'" using ok by (simp_all add: payment_step_def)
  have "issued_command db (sn_command claim)" if "SettlementClaimed (Some claim) \<in> snd ` set (tr @ [(c, r)])" for claim
    using that held claimed_issued [OF ok, of c db' claim] call.hyps(4) by auto
  then show ?case using ok' issued_evolves [OF ev] by blast
qed

lemma history_serves:
  assumes h: "payment_history v2 tr db" and c: "wf_payment_call c" "holds_claim tr c" and s: "serve_payment db c = (db', r)"
  shows "payments_ok db" "serves db db' r" "payments_ok db'" "payments_evolve db db'"
proof -
  note ok = history_ok [OF h]
  have "from_store db c" using ok c(2) by (auto simp: from_store_def holds_claim_def split: payment_call.splits)
  then show "payments_ok db" "serves db db' r" "payments_ok db'" "payments_evolve db db'"
    using serve_payment_serves [OF _ c(1) _ s] ok by (auto simp: serves_def payment_step_def)
qed

lemma history_prefix:
  assumes "payment_history v2 (tr @ tr') db'"
  shows "\<exists>db. payment_history v2 tr db \<and> payments_evolve db db'"
  using assms
proof (induction tr' arbitrary: db' rule: rev_induct)
  case (snoc x tr')
  obtain c r where x: "x = (c, r)" by (cases x)
  have "payment_history v2 ((tr @ tr') @ [(c, r)]) db'" using snoc.prems by (simp add: x)
  then obtain db1 where h: "payment_history v2 (tr @ tr') db1" and c: "wf_payment_call c" "holds_claim (tr @ tr') c"
      "serve_payment db1 c = (db', r)"
    unfolding payment_history_snoc by blast
  obtain db where "payment_history v2 tr db" "payments_evolve db db1" using snoc.IH [OF h] by blast
  then show ?case using history_serves(4) [OF h c] payments_evolve_trans by blast
qed auto

text \<open>The counters of the ledger are the claims and the permits of the history.\<close>

lemma history_counts:
  assumes "payment_history v2 tr db"
  shows "claims_of tr cid = (case find_row pl_command_id cid (pd_ledger db) of None \<Rightarrow> 0 | Some l \<Rightarrow> pl_count l)
    \<and> permits_of tr cid = (case find_row pl_command_id cid (pd_ledger db) of None \<Rightarrow> 0 | Some l \<Rightarrow> pl_slots l)"
  using assms
proof (induction rule: payment_history.induct)
  case start
  then show ?case by (simp add: empty_payments_def)
next
  case (call tr db c db' r)
  note s = history_serves [OF call.hyps]
  show ?case
  proof (cases "find_row pl_command_id cid (pd_ledger db)")
    case None
    then show ?thesis using serves_new_row [OF s(1,2) None] call.IH by (simp split: option.splits)
  next
    case (Some l)
    then show ?thesis using serves_row [OF s(1,2) Some] call.IH by auto
  qed
qed

end
