(* ===== verification/Pay_Schema.thy ===== *)
theory Pay_Schema
  imports Pay_History
begin

text \<open>
  The table contracts of \<^verbatim>\<open>reservation_followup/schema.py\<close>: the CHECK constraints of the columns and of
  the rows, the primary and unique keys and the foreign keys of the payment tables of schema version
  2. Version 1 has the same tables and constraints without the last columns of the outbox, which stay
  at their defaults in a version 1 store; its status check is the narrower one, with the three
  statuses the matrix of both versions admits. A text column that SQLite accepts is not empty and holds no NUL; a serialised
  column and its hash are the value and its digest here and satisfy their checks as such. The database
  would refuse a row that breaks a constraint; no row that the operations write ever does.
\<close>

section \<open>The constraints\<close>

definition text_ok :: "string \<Rightarrow> bool" where
  "text_ok v \<longleftrightarrow> v \<noteq> [] \<and> CHR 0x00 \<notin> set v"

definition workflow_row_ok :: "payment_row \<Rightarrow> bool" where
  "workflow_row_ok r \<longleftrightarrow>
     text_ok (pr_id r) \<and> 0 \<le> pr_revision r \<and> 1 \<le> pr_version r \<and> hash_re (pr_signature r)"

definition event_row_ok :: "payment_event_row \<Rightarrow> bool" where
  "event_row_ok r \<longleftrightarrow>
     text_ok (pe_event_id r) \<and> text_ok (pe_payment_id r) \<and> 1 \<le> pe_revision r \<and> 1 \<le> pe_version r
     \<and> hash_re (pe_signature r) \<and> text_ok (pe_type r)"

definition claim_row_ok :: "claim_row \<Rightarrow> bool" where
  "claim_row_ok r \<longleftrightarrow>
     text_ok (pk_key r) \<and> text_ok (pk_payment_id r) \<and> 1 \<le> pk_version r \<and> hash_re (pk_signature r)
     \<and> pk_method r \<in> {''pix'', ''wise'', ''stripe''} \<and> hash_re (pk_hash r)
     \<and> (if pk_status r \<in> {CLAIM_IN_PROGRESS, CLAIM_RETRYABLE} then pk_consumed_at r = None
        else case pk_consumed_at r of None \<Rightarrow> False | Some t \<Rightarrow> pk_claimed_at r \<le> t)"

definition command_row_ok :: "command_row \<Rightarrow> bool" where
  "command_row_ok r \<longleftrightarrow>
     text_ok (cr_id r) \<and> text_ok (cr_idempotency_key r) \<and> text_ok (cr_payment_id r) \<and> 1 \<le> cr_version r
     \<and> hash_re (cr_signature r) \<and> text_ok (cr_claim_key r) \<and> cr_operation r = ''register_and_confirm''"

text \<open>The lease and the dispatch of a ledger row, its outcome, and the matrix of its statuses.\<close>

definition lease_tuple_ok :: "string option \<Rightarrow> int \<Rightarrow> timestamp option \<Rightarrow> timestamp option \<Rightarrow> bool" where
  "lease_tuple_ok owner token acquired expires \<longleftrightarrow>
     (case (owner, acquired, expires) of
        (None, None, None) \<Rightarrow> True
      | (Some w, Some a, Some x) \<Rightarrow> text_ok w \<and> 1 \<le> token \<and> a < x
      | _ \<Rightarrow> False)"

definition dispatch_tuple_ok :: "settlement_row \<Rightarrow> bool" where
  "dispatch_tuple_ok r \<longleftrightarrow>
     pl_slots r = 0 \<and> pl_request_hash r = None \<and> pl_fenced_at r = None
     \<or> pl_slots r = 1 \<and> opt_all hash_re (pl_request_hash r) \<and> pl_request_hash r \<noteq> None \<and> pl_fenced_at r \<noteq> None
       \<and> 1 \<le> pl_token r"

definition outcome_tuple_ok :: "settlement_row \<Rightarrow> bool" where
  "outcome_tuple_ok r \<longleftrightarrow>
     pl_certainty r = None \<and> pl_outcome r = None \<and> pl_recorded_at r = None
     \<or> pl_outcome r \<noteq> None \<and> pl_recorded_at r \<noteq> None
       \<and> pl_certainty r \<in> {Some ''not_dispatched'', Some ''dispatched_no_effect'', Some ''settled'',
            Some ''partial_settlement'', Some ''dispatched_unknown''}"

definition ledger_matrix_ok :: "settlement_row \<Rightarrow> bool" where
  "ledger_matrix_ok r \<longleftrightarrow>
     (case pl_status r of
        SETTLEMENT_QUEUED \<Rightarrow> pl_owner r = None \<and> 0 \<le> pl_count r \<and> pl_slots r = 0 \<and> pl_outcome r = None
      | SETTLEMENT_LEASED \<Rightarrow> pl_owner r \<noteq> None \<and> 1 \<le> pl_count r \<and> pl_slots r = 0 \<and> pl_outcome r = None
      | SETTLEMENT_FENCED \<Rightarrow> pl_owner r \<noteq> None \<and> 1 \<le> pl_count r \<and> pl_slots r = 1 \<and> pl_outcome r = None
      | SETTLEMENT_RECORDED \<Rightarrow> pl_owner r = None \<and> pl_outcome r \<noteq> None
          \<and> (pl_certainty r = Some ''not_dispatched'' \<and> pl_slots r = 0
             \<or> pl_certainty r = Some ''settled'' \<and> pl_slots r = 1)
      | SETTLEMENT_REVIEW \<Rightarrow> pl_owner r = None \<and> pl_outcome r \<noteq> None \<and> pl_slots r = 1
          \<and> pl_certainty r \<in> {Some ''dispatched_no_effect'', Some ''partial_settlement'', Some ''dispatched_unknown''})"

definition ledger_row_ok :: "settlement_row \<Rightarrow> bool" where
  "ledger_row_ok r \<longleftrightarrow>
     text_ok (pl_command_id r) \<and> text_ok (pl_payment_id r) \<and> 1 \<le> pl_version r \<and> hash_re (pl_signature r)
     \<and> 0 \<le> pl_token r \<and> 0 \<le> pl_count r \<and> pl_token r = pl_count r \<and> 0 \<le> pl_slots r \<and> pl_slots r \<le> 1
     \<and> lease_tuple_ok (pl_owner r) (pl_token r) (pl_acquired_at r) (pl_expires_at r)
     \<and> dispatch_tuple_ok r \<and> outcome_tuple_ok r \<and> ledger_matrix_ok r"

definition effect_matrix_ok :: "effect_row \<Rightarrow> bool" where
  "effect_matrix_ok r \<longleftrightarrow>
     (case pb_status r of
        EFFECT_PENDING \<Rightarrow> pb_owner r = None \<and> pb_delivered_at r = None
      | EFFECT_LEASED \<Rightarrow> pb_owner r \<noteq> None \<and> pb_delivered_at r = None
      | EFFECT_DELIVERED \<Rightarrow> pb_owner r = None \<and> pb_acquired_at r = None \<and> pb_expires_at r = None
          \<and> 1 \<le> pb_token r \<and> 1 \<le> pb_attempts r \<and> pb_delivered_at r \<noteq> None
      | _ \<Rightarrow> False)"

definition effect_base_ok :: "effect_row \<Rightarrow> bool" where
  "effect_base_ok r \<longleftrightarrow>
     text_ok (pb_message_id r) \<and> text_ok (pb_idempotency_key r) \<and> text_ok (pb_effect_id r)
     \<and> text_ok (pb_payment_id r) \<and> 1 \<le> pb_version r \<and> hash_re (pb_signature r) \<and> text_ok (pb_command_id r)
     \<and> text_ok (pb_template r) \<and> 0 \<le> pb_token r \<and> 0 \<le> pb_attempts r \<and> pb_token r = pb_attempts r
     \<and> lease_tuple_ok (pb_owner r) (pb_token r) (pb_acquired_at r) (pb_expires_at r)
     \<and> (pb_delivered_at r = None) = (pb_receipt_hash r = None) \<and> opt_all hash_re (pb_receipt_hash r)
     \<and> effect_matrix_ok r"

definition effect_row_ok :: "effect_row \<Rightarrow> bool" where
  "effect_row_ok r \<longleftrightarrow> effect_base_ok r \<and> v2_columns_ok r"

definition receipt_row_ok :: "receipt_row \<Rightarrow> bool" where
  "receipt_row_ok r \<longleftrightarrow>
     text_ok (rr_receipt_id r) \<and> text_ok (rr_idempotency_key r) \<and> text_ok (rr_message_id r) \<and> hash_re (rr_hash r)"

definition row_checks :: "payment_store \<Rightarrow> bool" where
  "row_checks db \<longleftrightarrow>
     list_all workflow_row_ok (pd_workflows db) \<and> list_all event_row_ok (pd_events db)
     \<and> list_all claim_row_ok (pd_claims db) \<and> list_all command_row_ok (pd_commands db)
     \<and> list_all ledger_row_ok (pd_ledger db) \<and> list_all effect_row_ok (pd_outbox db)
     \<and> list_all receipt_row_ok (pd_receipts db)"

text \<open>The primary keys and the other unique keys.\<close>

definition unique_keys :: "payment_store \<Rightarrow> bool" where
  "unique_keys db \<longleftrightarrow>
     distinct (map pr_id (pd_workflows db)) \<and> distinct (map pe_event_id (pd_events db))
     \<and> distinct (map (\<lambda>r. (pe_payment_id r, pe_revision r)) (pd_events db))
     \<and> distinct (map pk_key (pd_claims db)) \<and> distinct (map cr_id (pd_commands db))
     \<and> distinct (map cr_idempotency_key (pd_commands db))
     \<and> distinct (map (\<lambda>r. (cr_payment_id r, cr_version r, cr_signature r)) (pd_commands db))
     \<and> distinct (map pl_command_id (pd_ledger db))
     \<and> distinct (map (\<lambda>r. (pl_payment_id r, pl_version r, pl_signature r)) (pd_ledger db))
     \<and> distinct (map pb_message_id (pd_outbox db)) \<and> distinct (map pb_idempotency_key (pd_outbox db))
     \<and> distinct (map pb_effect_id (pd_outbox db)) \<and> distinct (map rr_receipt_id (pd_receipts db))
     \<and> distinct (map rr_idempotency_key (pd_receipts db)) \<and> distinct (map rr_message_id (pd_receipts db))"

definition foreign_keys :: "payment_store \<Rightarrow> bool" where
  "foreign_keys db \<longleftrightarrow>
     pe_payment_id ` set (pd_events db) \<subseteq> pr_id ` set (pd_workflows db)
     \<and> pk_payment_id ` set (pd_claims db) \<subseteq> pr_id ` set (pd_workflows db)
     \<and> cr_payment_id ` set (pd_commands db) \<subseteq> pr_id ` set (pd_workflows db)
     \<and> (\<lambda>r. (cr_claim_key r, cr_payment_id r, cr_version r, cr_signature r)) ` set (pd_commands db)
         \<subseteq> (\<lambda>r. (pk_key r, pk_payment_id r, pk_version r, pk_signature r)) ` set (pd_claims db)
     \<and> (\<lambda>r. (pl_command_id r, pl_payment_id r, pl_version r, pl_signature r)) ` set (pd_ledger db)
         \<subseteq> (\<lambda>r. (cr_id r, cr_payment_id r, cr_version r, cr_signature r)) ` set (pd_commands db)
     \<and> pb_payment_id ` set (pd_outbox db) \<subseteq> pr_id ` set (pd_workflows db)
     \<and> (\<lambda>r. (pb_command_id r, pb_payment_id r, pb_version r, pb_signature r)) ` set (pd_outbox db)
         \<subseteq> (\<lambda>r. (cr_id r, cr_payment_id r, cr_version r, cr_signature r)) ` set (pd_commands db)
     \<and> (\<lambda>r. (rr_message_id r, Some (rr_hash r), Some (rr_delivered_at r))) ` set (pd_receipts db)
         \<subseteq> (\<lambda>r. (pb_message_id r, pb_receipt_hash r, pb_delivered_at r)) ` set (pd_outbox db)"

definition payment_schema :: "payment_store \<Rightarrow> bool" where
  "payment_schema db \<longleftrightarrow> row_checks db \<and> unique_keys db \<and> foreign_keys db"

end
