(* ===== verification/Pay_Schema_Laws.thy ===== *)
theory Pay_Schema_Laws
  imports Pay_Schema Followup_Claims
begin

text \<open>
  Every row the payment store writes satisfies the constraints of its table: the rows of a payment
  that loads do, and in a history every payment loads.
\<close>

section \<open>Texts\<close>

lemma text_ok_id: "id_re v \<Longrightarrow> text_ok v"
  using id_re_chars [of v] id_re_length [of v] by (auto simp: text_ok_def list_all_iff char_class_defs ordc_def)

lemma text_ok_hex: "list_all hex_char v \<Longrightarrow> CHR 0x00 \<notin> set v"
  by (auto simp: list_all_iff hex_char_def char_class_defs ordc_def)

lemma text_ok_exact: "exact_text v f = Inr x \<Longrightarrow> text_ok v"
  by (simp add: exact_text_def text_ok_def split: if_splits)

lemma text_ok_effect: "text_ok (payment_effect_id k kind)"
proof -
  have "list_all hex_char (take 32 (sha256_hex r))" for r
    using sha256_hex_hash_re [of r] by (simp add: hash_re_def list_all_take)
  then show ?thesis by (simp add: text_ok_def payment_effect_id_def text_ok_hex)
qed

lemma set_lstrip: "set s \<subseteq> set (lstrip s) \<union> {c. is_space c}"
  by (induction s) (auto simp: lstrip_def)

lemma set_strip_space: "set s \<subseteq> set (strip s) \<union> {c. is_space c}"
  using set_lstrip [of s] set_lstrip [of "rev (lstrip s)"] by (auto simp: strip_def)

lemma text_ok_owner: "id_re (strip v) \<Longrightarrow> text_ok v"
proof -
  assume v: "id_re (strip v)"
  have "\<not> is_space (CHR 0x00)" by (simp add: is_space_def in_range_def ordc_def)
  then have "CHR 0x00 \<notin> set v" using text_ok_id [OF v] set_strip_space [of v] unfolding text_ok_def by blast
  moreover have "v \<noteq> []" using text_ok_id [OF v] by (auto simp: text_ok_def)
  ultimately show ?thesis by (simp add: text_ok_def)
qed

lemma no_nul_split: "CHR 0x00 \<notin> set (take n v) \<Longrightarrow> CHR 0x00 \<notin> set (drop n v) \<Longrightarrow> CHR 0x00 \<notin> set v"
  using append_take_drop_id [of n v] by (metis Un_iff set_append)

lemma text_ok_claim_owner: "is_payment_claim_owner v \<Longrightarrow> text_ok v"
proof -
  assume v: "is_payment_claim_owner v"
  then have "CHR 0x00 \<notin> set (drop 14 v)"
    using text_ok_hex [of "drop 14 v"] by (simp add: is_payment_claim_owner_def hash_re_def)
  moreover have "CHR 0x00 \<notin> set (take 14 v)" using v by (simp add: is_payment_claim_owner_def)
  ultimately have "CHR 0x00 \<notin> set v" by (rule no_nul_split [rotated])
  moreover have "v \<noteq> []" using v by (auto simp: is_payment_claim_owner_def)
  ultimately show ?thesis by (simp add: text_ok_def)
qed

text \<open>A claim key is made of printable parts.\<close>

lemma alnum_no_nul: "list_all is_alnum v \<Longrightarrow> CHR 0x00 \<notin> set v"
  by (auto simp: list_all_iff char_class_defs ordc_def)

lemma e2e_no_nul: "e2e_re v \<Longrightarrow> CHR 0x00 \<notin> set v"
proof -
  assume v: "e2e_re v"
  have "CHR 0x00 \<notin> set (take 16 (drop 1 v))" "CHR 0x00 \<notin> set (drop 16 (drop 1 v))"
    using v by (auto simp: e2e_re_def list_all_iff is_upper_alnum_def char_class_defs ordc_def)
  then have "CHR 0x00 \<notin> set (drop 1 v)" by (rule no_nul_split)
  moreover have "CHR 0x00 \<notin> set (take 1 v)" using v by (simp add: e2e_re_def)
  ultimately show ?thesis by (rule no_nul_split [rotated])
qed

lemma stripe_id_no_nul: "stripe_event_re v \<Longrightarrow> CHR 0x00 \<notin> set v"
  using no_nul_split [of 4 v] alnum_no_nul [of "drop 4 v"] by (simp add: stripe_event_re_def)

lemma rsplit_colon_Some:
  assumes "rsplit_colon v = Some (a, b)"
  shows "set v \<subseteq> set a \<union> set b \<union> {CHR '':''}"
proof
  fix c assume c: "c \<in> set v"
  let ?p = "\<lambda>c. c \<noteq> CHR '':''" and ?d = "dropWhile (\<lambda>c. c \<noteq> CHR '':'') (rev v)"
  have ab: "set a = set (tl ?d)" "set b = set (takeWhile ?p (rev v))" "?d \<noteq> []"
    using assms by (auto simp: rsplit_colon_def dropWhile_eq_Nil_conv split: if_splits)
  have "set v = set (takeWhile ?p (rev v) @ ?d)" by (simp only: takeWhile_dropWhile_id set_rev)
  then have "set v = set b \<union> set ?d" by (simp only: set_append ab(2))
  moreover have "hd ?d = CHR '':''" using ab(3) hd_dropWhile [of ?p "rev v"] by blast
  then have "set ?d = insert (CHR '':'') (set (tl ?d))" using ab(3) by (metis list.collapse list.simps(15))
  ultimately show "c \<in> set a \<union> set b \<union> {CHR '':''}" using c ab(1) by blast
qed

lemma claim_key_text:
  assumes k: "require_evidence_claim_key v = Inr z"
  shows "text_ok v"
proof -
  consider (pix) "take 4 v = ''pix:''" "canonical_e2e (drop 4 v) \<or> list_all is_alnum (drop 4 v)"
    | (wise) "take 5 v = ''wise:''" "high_entropy_digest (drop 5 v)"
    | (stripe) a b where "take 7 v = ''stripe:''" "rsplit_colon (drop 7 v) = Some (a, b)" "id_re a" "stripe_event_re b"
  proof (cases "take 4 v = ''pix:''")
    case True
    then show ?thesis using k that(1) unfolding require_evidence_claim_key_def if_P [OF True] bind_res_Inr_iff reject_if_Inr by blast
  next
    case npix: False
    show ?thesis
    proof (cases "take 5 v = ''wise:''")
      case True
      then show ?thesis using k that(2)
        unfolding require_evidence_claim_key_def if_not_P [OF npix] if_P [OF True] bind_res_Inr_iff reject_if_Inr by blast
    next
      case nwise: False
      show ?thesis
        using k that(3) unfolding require_evidence_claim_key_def if_not_P [OF npix] if_not_P [OF nwise]
        by (cases "take 7 v = ''stripe:''"; cases "rsplit_colon (drop 7 v)")
          (auto simp: bind_res_Inr_iff canonical_stripe_event_id_def simp del: id_re.simps)
    qed
  qed
  then have "CHR 0x00 \<notin> set v"
  proof cases
    case pix
    have "e2e_re (drop 4 v) \<or> list_all is_alnum (drop 4 v)" using pix(2) unfolding canonical_e2e_def by blast
    then have "CHR 0x00 \<notin> set (drop 4 v)" using e2e_no_nul alnum_no_nul by blast
    then show ?thesis using pix(1) no_nul_split [of 4 v] by simp
  next
    case wise
    then have "CHR 0x00 \<notin> set (drop 5 v)" using text_ok_hex by (simp add: high_entropy_digest_def hash_re_def)
    then show ?thesis using wise(1) no_nul_split [of 5 v] by simp
  next
    case stripe
    have "CHR 0x00 \<notin> set a" using text_ok_id [OF stripe(3)] by (simp add: text_ok_def)
    then have "CHR 0x00 \<notin> set (drop 7 v)"
      using rsplit_colon_Some [OF stripe(2)] stripe_id_no_nul [OF stripe(4)] by auto
    then show ?thesis using stripe(1) no_nul_split [of 7 v] by simp
  qed
  moreover have "v \<noteq> []" using k by (auto simp: require_evidence_claim_key_def)
  ultimately show ?thesis by (simp add: text_ok_def)
qed

section \<open>The workflow and its events\<close>

lemma subject_columns:
  assumes "wf_payment w"
  shows "1 \<le> ps_version (pc_subject (pw_core w))" "hash_re (ps_signature (pc_subject (pw_core w)))"
proof -
  have "mk_subject (pc_subject (pw_core w)) = Inr (pc_subject (pw_core w))"
    using mk_payment_workflow_Inr(2) [of w w] assms by (simp add: wf_payment_def wf_subject_def)
  from mk_subject_Inr [OF this] show "1 \<le> ps_version (pc_subject (pw_core w))" "hash_re (ps_signature (pc_subject (pw_core w)))"
    by simp_all
qed

lemma event_id_text: "mk_payment_event e = Inr () \<Longrightarrow> text_ok (payment_event_id e)"
  by (cases e) (auto intro!: text_ok_id simp: mk_method_selected_def mk_financial_summary_def mk_financial_confirmation_def
      mk_evidence_recorded_def mk_settlement_started_def mk_settlement_finished_def mk_payment_expired_def
      mk_payment_cancelled_def bind_res_Inr_iff simp del: id_re.simps)

lemma event_type_text: "text_ok (payment_event_type e)"
  by (cases e) (simp_all add: text_ok_def)

definition replayed_row :: "string \<Rightarrow> payment_event_row \<Rightarrow> bool" where
  "replayed_row pid r \<longleftrightarrow> text_ok (pe_event_id r) \<and> pe_payment_id r = pid \<and> 1 \<le> pe_version r
     \<and> hash_re (pe_signature r) \<and> text_ok (pe_type r)"

lemma replay_rows_ok:
  assumes "replay_payment_rows pid w rows = Inr (w', es)" "wf_payment w"
  shows "list_all (replayed_row pid) rows"
  using assms
proof (induction rows arbitrary: w es)
  case (Cons r rows)
  obtain e t es' where e: "decode_payment_event r = Inr e" and t: "reduce_payment w e = Inr t" "pt_result t = PT_APPLIED"
    and m: "pe_event_id r = payment_event_id e" "pe_payment_id r = pid"
      "pe_version r = ps_version (pc_subject (pw_core (pt_next t)))"
      "pe_signature r = ps_signature (pc_subject (pw_core (pt_next t)))"
    and rest: "replay_payment_rows pid (pt_next t) rows = Inr (w', es')"
    using Cons.prems(1) by (auto simp: bind_res_Inr_iff Let_def)
  have ev: "mk_payment_event e = Inr ()" "payment_event_type e = pe_type r"
    using e by (auto simp: decode_payment_event_def bind_res_Inr_iff)
  have next_w: "wf_payment (pt_next t)" using applied_transition [OF Cons.prems(2) ev(1) t] by metis
  show ?case
    using Cons.IH [OF rest next_w] event_id_text [OF ev(1)] event_type_text [of e] subject_columns [OF next_w] m ev(2)
    by (simp add: replayed_row_def)
qed simp

lemma loaded_event_rows:
  assumes "load_payment db pid = Inr (w, n)"
  shows "\<forall>r \<in> set (pd_events db). pe_payment_id r = pid \<longrightarrow> event_row_ok r"
    "distinct (map pe_revision (filter (\<lambda>r. pe_payment_id r = pid) (pd_events db)))"
proof -
  let ?rows = "payment_event_rows db pid"
  note f = load_payment_facts [OF assms]
  obtain t where revs: "map pe_revision ?rows = map int [1..<Suc (length ?rows)]"
      and t: "new_payment (ps_anchor (pc_subject (pw_core w))) (pw_policy w) = Inr t"
      "replay_payment_rows pid (pt_next t) ?rows = Inr (w, pw_history w)"
    using f(3) by (auto simp: event_history_def Let_def)
  have named: "text_ok pid" using assms text_ok_exact by (auto simp: load_payment_iff)
  have rows: "list_all (replayed_row pid) ?rows" using replay_rows_ok [OF t(2) new_payment_facts(1) [OF t(1)]] .
  show "\<forall>r \<in> set (pd_events db). pe_payment_id r = pid \<longrightarrow> event_row_ok r"
  proof (intro ballI impI)
    fix r assume "r \<in> set (pd_events db)" "pe_payment_id r = pid"
    then have mem: "r \<in> set ?rows" by (simp add: payment_event_rows_def)
    then have "pe_revision r \<in> set (map int [1..<Suc (length ?rows)])" unfolding revs [symmetric] by simp
    then have "1 \<le> pe_revision r" by auto
    then show "event_row_ok r" using rows mem named by (auto simp: list_all_iff replayed_row_def event_row_ok_def)
  qed
  have "distinct (map pe_revision ?rows)" unfolding revs by (simp add: distinct_map)
  moreover have "mset (map pe_revision ?rows) = mset (map pe_revision (filter (\<lambda>r. pe_payment_id r = pid) (pd_events db)))"
    by (simp add: payment_event_rows_def)
  ultimately show "distinct (map pe_revision (filter (\<lambda>r. pe_payment_id r = pid) (pd_events db)))"
    using mset_eq_imp_distinct_iff by blast
qed

lemma workflow_row_loaded:
  assumes "payments_ok db" "r \<in> set (pd_workflows db)"
  shows "workflow_row_ok r"
proof -
  obtain w n where load: "load_payment db (pr_id r) = Inr (w, n)"
    using assms by (auto simp: payments_ok_def payment_ids_def)
  note f = load_payment_facts [OF load]
  have d: "distinct (map pr_id (pd_workflows db))" using assms(1) by (simp add: payments_ok_def tables_ok_def payment_keys_def)
  have "find_row pr_id (pr_id r) (pd_workflows db) = Some r" by (rule find_row_unique [OF d assms(2)])
  then have r: "r = payment_row_of w n (an_confirmed_at (ps_anchor (pc_subject (pw_core w)))) (payment_updated_at w (pw_history w))"
    using f(4) by simp
  have "text_ok (pr_id r)" using load text_ok_exact by (auto simp: load_payment_iff)
  moreover have "0 \<le> n" using f(3) by (simp add: event_history_def Let_def)
  ultimately show ?thesis using subject_columns [OF f(1)] r by (simp add: workflow_row_ok_def payment_row_of_def Let_def)
qed

section \<open>The financial rows\<close>

lemma command_texts:
  assumes "settlement_command_for s v = Inr k"
  shows "text_ok (sc_id k)" "text_ok (sc_idempotency_key k)" "text_ok (sc_claim_key k)" "text_ok (sc_payment_id k)"
proof -
  have "mk_settlement_command k (settlement_payload s v) = Inr k"
    using assms mk_settlement_command_Inr by (auto simp: settlement_command_for_def Let_def split: prod.splits)
  then obtain z where "id_re (sc_id k)" "id_re (sc_idempotency_key k)" "id_re (sc_payment_id k)"
      "require_evidence_claim_key (sc_claim_key k) = Inr z"
    by (auto simp: mk_settlement_command_def bind_res_Inr_iff split: prod.splits simp del: id_re.simps)
  then show "text_ok (sc_id k)" "text_ok (sc_idempotency_key k)" "text_ok (sc_claim_key k)" "text_ok (sc_payment_id k)"
    using text_ok_id claim_key_text by blast+
qed

lemma claim_columns:
  assumes "decode_evidence_claim c w = Inr claim"
  shows "pk_payment_id c = ps_payment_id (pc_subject (pw_core w))" "pk_version c = ps_version (pc_subject (pw_core w))"
    "pk_signature c = ps_signature (pc_subject (pw_core w))" "\<exists>m. pk_method c = method_value m" "hash_re (pk_hash c)"
    "if pk_status c \<in> {CLAIM_IN_PROGRESS, CLAIM_RETRYABLE} then pk_consumed_at c = None
     else \<exists>t. pk_consumed_at c = Some t \<and> pk_claimed_at c \<le> t"
proof -
  obtain v where v: "validate_evidence (pc_subject (pw_core w)) (er_evidence (pk_event c)) (er_trust (pk_event c)) = Inr v"
      "mk_evidence_claim v (pk_status c) (pk_claimed_at c) (pk_consumed_at c) = Inr claim"
    and m: "pk_payment_id c = ps_payment_id (pc_subject (pw_core w))" "pk_version c = ps_version (pc_subject (pw_core w))"
      "pk_signature c = ps_signature (pc_subject (pw_core w))" "pk_method c = method_value (ve_method (ec_verified claim))"
      "pk_hash c = ve_hash (ec_verified claim)"
    using assms by (auto simp: decode_evidence_claim_def Let_def bind_res_Inr_iff simp del: mk_evidence_claim_Inr)
  show "pk_payment_id c = ps_payment_id (pc_subject (pw_core w))" "pk_version c = ps_version (pc_subject (pw_core w))"
    "pk_signature c = ps_signature (pc_subject (pw_core w))" "\<exists>m. pk_method c = method_value m" using m by auto
  show "hash_re (pk_hash c)" using validate_evidence_parts(3) [OF v(1)] v(2) m(5) by simp
  show "if pk_status c \<in> {CLAIM_IN_PROGRESS, CLAIM_RETRYABLE} then pk_consumed_at c = None
     else \<exists>t. pk_consumed_at c = Some t \<and> pk_claimed_at c \<le> t" using v(2) by simp
qed

lemma method_texts: "method_value m \<in> {''pix'', ''wise'', ''stripe''}"
  by (cases m) simp_all

lemma financed_claim_command:
  assumes fin: "financed db w k c m l fr"
  shows "claim_row_ok c" "command_row_ok m"
    "(cr_claim_key m, cr_payment_id m, cr_version m, cr_signature m) = (pk_key c, pk_payment_id c, pk_version c, pk_signature c)"
    "(pl_command_id l, pl_payment_id l, pl_version l, pl_signature l) = (cr_id m, cr_payment_id m, cr_version m, cr_signature m)"
proof -
  have w: "wf_payment w" "pc_command (pw_core w) = Some k" and t: "pk_key c = sc_claim_key k"
    and d: "decode_evidence_claim c w = Inr (fr_claim fr)" "decode_payment_command m w = Inr k"
      "decode_ledger l k = Inr (fr_ledger fr)"
    using fin by (simp_all add: financed_def tuple_rows_def records_valid_def)
  obtain v where v: "settlement_command_for (pc_subject (pw_core w)) v = Inr k" using settlement_command_of [OF w] by blast
  note k = command_texts [OF v] and s = subject_columns [OF w(1)] and c = claim_columns [OF d(1)] and f = command_fields [OF w]
  have m: "cr_id m = sc_id k" "cr_idempotency_key m = sc_idempotency_key k" "cr_payment_id m = sc_payment_id k"
      "cr_version m = sc_version k" "cr_signature m = sc_signature k" "cr_claim_key m = sc_claim_key k"
      "cr_operation m = settlement_operation_value (sc_operation k)"
    using d(2) by (auto simp: decode_payment_command_def Let_def bind_res_Inr_iff)
  have op: "settlement_operation_value (sc_operation k) = ''register_and_confirm''" by (cases "sc_operation k") simp
  show "claim_row_ok c"
    using k c s t f method_texts by (auto simp: claim_row_ok_def split: if_splits)
  show "command_row_ok m" using k m s f op by (simp add: command_row_ok_def)
  show "(cr_claim_key m, cr_payment_id m, cr_version m, cr_signature m) = (pk_key c, pk_payment_id c, pk_version c, pk_signature c)"
    using m c t f by simp
  show "(pl_command_id l, pl_payment_id l, pl_version l, pl_signature l) = (cr_id m, cr_payment_id m, cr_version m, cr_signature m)"
    using d(3) m by (simp add: decode_ledger_Inr)
qed

lemma certainty_texts: "settlement_certainty_value u \<in> {''not_dispatched'', ''dispatched_no_effect'', ''settled'',
    ''partial_settlement'', ''dispatched_unknown''}"
  by (cases u) simp_all

lemma decoded_lease_ok: "decode_lease l = Inr x \<Longrightarrow> lease_tuple_ok (pl_owner l) (pl_token l) (pl_acquired_at l) (pl_expires_at l)
    \<and> (x = None) = (pl_owner l = None) \<and> (x \<noteq> None \<longrightarrow> 1 \<le> pl_token l)"
  using text_ok_owner by (auto simp: decode_lease_Inr lease_tuple_ok_def split: option.splits)

lemma decoded_outcome_ok: "decode_outcome l = Inr x \<Longrightarrow> outcome_tuple_ok l \<and> x = pl_outcome l
    \<and> (case x of None \<Rightarrow> pl_certainty l = None | Some u \<Rightarrow> pl_certainty l = Some (settlement_certainty_value (so_certainty u)))"
  using certainty_texts by (auto simp: decode_outcome_Inr outcome_tuple_ok_def split: option.splits)

lemma financed_ledger_ok:
  assumes fin: "financed db w k c m l fr" and tok: "pl_slots l = 1 \<Longrightarrow> 1 \<le> pl_token l"
  shows "ledger_row_ok l"
proof -
  let ?v = "fr_ledger fr"
  have w: "wf_payment w" "pc_command (pw_core w) = Some k" and d: "decode_ledger l k = Inr ?v"
    and st: "financial_status_valid (pw_core w) ?v (ec_status (fr_claim fr))"
    using fin by (simp_all add: financed_def records_valid_def)
  obtain v where v: "settlement_command_for (pc_subject (pw_core w)) v = Inr k" using settlement_command_of [OF w] by blast
  note s = subject_columns [OF w(1)] and f = command_fields [OF w]
  have l: "pl_command_id l = sc_id k" "pl_payment_id l = sc_payment_id k" "pl_version l = sc_version k"
      "pl_signature l = sc_signature k" "0 \<le> pl_count l" "pl_token l = pl_count l" "pl_slots l \<in> {0, 1}"
      "decode_lease l = Inr (lv_lease ?v)" "check_dispatch l k (lv_lease ?v) = Inr ()" "decode_outcome l = Inr (lv_outcome ?v)"
    using d by (simp_all add: decode_ledger_Inr)
  have view: "lv_status ?v = pl_status l" "lv_slots ?v = pl_slots l"
    using decode_ledger_row [OF d] by simp_all
  note lease = decoded_lease_ok [OF l(8)] and out = decoded_outcome_ok [OF l(10)]
  have "dispatch_tuple_ok l"
    using l(7,9) tok by (auto simp: check_dispatch_Inr dispatch_tuple_ok_def opt_all_def split: if_splits)
  moreover have "ledger_matrix_ok l"
    using st lease out l(5,6) unfolding financial_status_valid_def view
    by (auto simp: ledger_matrix_ok_def split: settlement_status.splits option.splits)
  ultimately show ?thesis
    using lease out l command_texts [OF v] s f by (auto simp: ledger_row_ok_def)
qed

end
