(* ===== verification/Pay_Schema_Store.thy ===== *)
theory Pay_Schema_Store
  imports Pay_Schema_Laws
begin

text \<open>
  The schema of a whole payment store: the effects and the receipts, the keys between the tables, and
  the store every history leaves.
\<close>

section \<open>Effects and receipts\<close>

lemma effect_texts: "text_ok (payment_effect_value kind)"
  by (cases kind) (simp_all add: text_ok_def)

lemma sound_effect_ok:
  assumes e: "effect_sound db k t jobs r" and k: "text_ok (sc_id k)" "text_ok (sc_payment_id k)" "1 \<le> sc_version k" "hash_re (sc_signature k)"
  shows "effect_base_ok r"
    "pb_idempotency_key r = pb_message_id r \<and> pb_effect_id r = pb_message_id r
      \<and> (pb_command_id r, pb_payment_id r, pb_version r, pb_signature r)
        = (sc_id k, sc_payment_id k, sc_version k, sc_signature k)"
proof -
  have b: "pb_message_id r = payment_effect_id (sc_id k) (pb_kind r)" "pb_idempotency_key r = payment_effect_id (sc_id k) (pb_kind r)"
      "pb_effect_id r = payment_effect_id (sc_id k) (pb_kind r)" "pb_payment_id r = sc_payment_id k"
      "pb_version r = sc_version k" "pb_signature r = sc_signature k" "pb_command_id r = sc_id k"
      "pb_template r = payment_effect_value (pb_kind r)" "pb_token r = pb_attempts r" "0 \<le> pb_token r"
    using e by (auto simp: effect_sound_def check_effect_binding_def Let_def bind_res_Inr_iff)
  have l: "effect_lifecycle db r = Inr ()" using e by (simp add: effect_sound_def)
  have "lease_tuple_ok (pb_owner r) (pb_token r) (pb_acquired_at r) (pb_expires_at r)
      \<and> (pb_delivered_at r = None) = (pb_receipt_hash r = None) \<and> opt_all hash_re (pb_receipt_hash r) \<and> effect_matrix_ok r"
    using l text_ok_claim_owner
    by (auto simp: effect_lifecycle_def lease_tuple_ok_def effect_matrix_ok_def opt_all_def bind_res_Inr_iff
        split: effect_status.splits option.splits)
  then show "effect_base_ok r"
    using b k text_ok_effect effect_texts by (simp add: effect_base_ok_def)
  show "pb_idempotency_key r = pb_message_id r \<and> pb_effect_id r = pb_message_id r
      \<and> (pb_command_id r, pb_payment_id r, pb_version r, pb_signature r)
        = (sc_id k, sc_payment_id k, sc_version k, sc_signature k)"
    using b by simp
qed

lemma delivered_receipt:
  assumes "effect_lifecycle db r = Inr ()" "x \<in> set (pd_receipts db)" "rr_message_id x = pb_message_id r"
    and "distinct (map rr_message_id (pd_receipts db))"
  shows "receipt_row_ok x" "rr_idempotency_key x = rr_message_id x"
    "pb_receipt_hash r = Some (rr_hash x)" "pb_delivered_at r = Some (rr_delivered_at x)"
proof -
  have "receipts_for db (pb_message_id r) \<noteq> 0"
    using assms(2,3) by (auto simp: receipts_for_def count_filter filter_empty_conv)
  then obtain d h where del: "pb_delivered_at r = Some d" "pb_receipt_hash r = Some h" "hash_re h"
      "validate_receipt_row db (pb_message_id r) d h = Inr ()"
    using assms(1) by (auto simp: effect_lifecycle_def bind_res_Inr_iff split: effect_status.splits option.splits)
  have "find_row rr_message_id (pb_message_id r) (pd_receipts db) = Some x"
    using find_row_unique [OF assms(4,2)] assms(3) by simp
  then obtain y where y: "mk_payment_receipt (rr_receipt x) = Inr y" "rr_receipt_id x = rt_receipt_id y"
      "rr_idempotency_key x = rt_idempotency_key y" "rr_message_id x = rt_message_id y"
      "rt_idempotency_key y = pb_message_id r" "rt_message_id y = pb_message_id r" "rr_hash x = h" "rr_delivered_at x = d"
    using del(4) by (auto simp: validate_receipt_row_def bind_res_Inr_iff)
  have "id_re (rt_receipt_id y)" "id_re (rt_message_id y)"
    using y(1) by (auto simp: mk_payment_receipt_def bind_res_Inr_iff require_id_Inr simp del: id_re.simps strip_id_re)
  then show "receipt_row_ok x" using y del(3) text_ok_id by (simp add: receipt_row_ok_def)
  show "rr_idempotency_key x = rr_message_id x" "pb_receipt_hash r = Some (rr_hash x)"
    "pb_delivered_at r = Some (rr_delivered_at x)" using y del by simp_all
qed

section \<open>The rows of a payment\<close>

lemma row_owner:
  assumes "payments_ok db"
  shows "e \<in> set (pd_events db) \<Longrightarrow> pe_payment_id e \<in> payment_ids db"
    "c \<in> set (pd_claims db) \<Longrightarrow> pk_payment_id c \<in> payment_ids db"
    "m \<in> set (pd_commands db) \<Longrightarrow> cr_payment_id m \<in> payment_ids db"
    "l \<in> set (pd_ledger db) \<Longrightarrow> pl_payment_id l \<in> payment_ids db"
    "r \<in> set (pd_outbox db) \<Longrightarrow> pb_payment_id r \<in> cr_payment_id ` set (pd_commands db)"
    "x \<in> set (pd_receipts db) \<Longrightarrow> rr_message_id x \<in> pb_message_id ` set (pd_outbox db)"
  using assms by (auto simp: payments_ok_def tables_ok_def no_orphans_def)

lemma claim_financed:
  assumes "payments_ok db" "c \<in> set (pd_claims db)"
  shows "\<exists>w k m l fr. financed db w k c m l fr \<and> sc_payment_id k = pk_payment_id c"
proof -
  have "filter (\<lambda>r. pk_payment_id r = pk_payment_id c) (pd_claims db) \<noteq> []" using assms(2) by (auto simp: filter_empty_conv)
  then obtain w k c' m l fr where fin: "financed db w k c' m l fr" "sc_payment_id k = pk_payment_id c"
    using payment_financed [OF assms(1) row_owner(2) [OF assms]] by blast
  then have "filter (\<lambda>r. pk_payment_id r = pk_payment_id c) (pd_claims db) = [c']" by (simp add: financed_def tuple_rows_def)
  from single_row [OF this assms(2)] have "c = c'" by simp
  then show ?thesis using fin by blast
qed

lemma command_financed:
  assumes "payments_ok db" "m \<in> set (pd_commands db)"
  shows "\<exists>w k c l fr. financed db w k c m l fr \<and> sc_payment_id k = cr_payment_id m"
proof -
  have "filter (\<lambda>r. cr_payment_id r = cr_payment_id m) (pd_commands db) \<noteq> []" using assms(2) by (auto simp: filter_empty_conv)
  then obtain w k c m' l fr where fin: "financed db w k c m' l fr" "sc_payment_id k = cr_payment_id m"
    using payment_financed [OF assms(1) row_owner(3) [OF assms]] by blast
  then have "filter (\<lambda>r. cr_payment_id r = cr_payment_id m) (pd_commands db) = [m']" by (simp add: financed_def tuple_rows_def)
  from single_row [OF this assms(2)] have "m = m'" by simp
  then show ?thesis using fin by blast
qed

lemma financed_mem:
  assumes "financed db w k c m l fr"
  shows "c \<in> set (pd_claims db)" "m \<in> set (pd_commands db)" "l \<in> set (pd_ledger db)"
  using assms tuple_rows_mem [of db "sc_payment_id k" k c m l] by (simp_all add: financed_def)

lemma command_columns:
  assumes "financed db w k c m l fr"
  shows "text_ok (sc_id k)" "text_ok (sc_payment_id k)" "1 \<le> sc_version k" "hash_re (sc_signature k)"
    "(cr_id m, cr_payment_id m, cr_version m, cr_signature m) = (sc_id k, sc_payment_id k, sc_version k, sc_signature k)"
proof -
  have w: "wf_payment w" "pc_command (pw_core w) = Some k" and d: "decode_payment_command m w = Inr k"
    using assms by (simp_all add: financed_def records_valid_def)
  obtain v where v: "settlement_command_for (pc_subject (pw_core w)) v = Inr k" using settlement_command_of [OF w] by blast
  show "text_ok (sc_id k)" "text_ok (sc_payment_id k)" using command_texts [OF v] by simp_all
  show "1 \<le> sc_version k" "hash_re (sc_signature k)"
    using subject_columns [OF w(1)] command_fields [OF w] by simp_all
  show "(cr_id m, cr_payment_id m, cr_version m, cr_signature m) = (sc_id k, sc_payment_id k, sc_version k, sc_signature k)"
    using d by (auto simp: decode_payment_command_def Let_def bind_res_Inr_iff)
qed

lemma effect_financed:
  assumes "payments_ok db" "r \<in> set (pd_outbox db)"
  shows "\<exists>w k c m l fr jobs. financed db w k c m l fr \<and> sc_payment_id k = pb_payment_id r
    \<and> effect_sound db k (lv_recorded_at (fr_ledger fr)) jobs r"
proof -
  obtain m where "m \<in> set (pd_commands db)" "cr_payment_id m = pb_payment_id r" using row_owner(5) [OF assms] by force
  then obtain w k c l fr where fin: "financed db w k c m l fr" "sc_payment_id k = pb_payment_id r"
    using command_financed [OF assms(1)] by metis
  then have "validate_payment_jobs db w k (fr_ledger fr) = Inr ()" "r \<in> set (payment_effects db (sc_payment_id k))"
    using assms(2) by (simp_all add: financed_def records_valid_def payment_effects_def)
  then show ?thesis using fin unfolding validate_jobs_iff by blast
qed

section \<open>The store\<close>

lemma distinct_by:
  assumes "distinct (map key rows)" "\<And>a b. a \<in> set rows \<Longrightarrow> b \<in> set rows \<Longrightarrow> key' a = key' b \<Longrightarrow> key a = key b"
  shows "distinct (map key' rows)"
  using assms unfolding distinct_map inj_on_def by blast

lemma event_keys:
  assumes ok: "payments_ok db"
  shows "distinct (map (\<lambda>r. (pe_payment_id r, pe_revision r)) (pd_events db))"
proof -
  have d: "distinct (map pe_event_id (pd_events db))" using ok by (simp add: payments_ok_def tables_ok_def payment_keys_def)
  have "a = b" if ab: "a \<in> set (pd_events db)" "b \<in> set (pd_events db)" "pe_payment_id a = pe_payment_id b" "pe_revision a = pe_revision b" for a b
  proof -
    obtain w n where "load_payment db (pe_payment_id a) = Inr (w, n)" using row_owner(1) [OF ok ab(1)] ok by (auto simp: payments_ok_def)
    from loaded_event_rows(2) [OF this]
    have "inj_on pe_revision (set (filter (\<lambda>r. pe_payment_id r = pe_payment_id a) (pd_events db)))" by (simp add: distinct_map)
    then show ?thesis using ab by (auto simp: inj_on_def)
  qed
  then show ?thesis using d by (auto simp: distinct_map inj_on_def)
qed

lemma payments_ok_unique:
  assumes ok: "payments_ok db"
  shows "unique_keys db"
proof -
  have keys: "payment_keys db" using ok by (simp add: payments_ok_def tables_ok_def)
  note d = keys [unfolded payment_keys_def]
  have ledger: "a = b" if "a \<in> set (pd_ledger db)" "b \<in> set (pd_ledger db)" "pl_payment_id a = pl_payment_id b" for a b
    using ledger_row_of_payment [OF ok that(2,1,3)] by simp
  have command: "a = b" if ab: "a \<in> set (pd_commands db)" "b \<in> set (pd_commands db)" "cr_payment_id a = cr_payment_id b" for a b
  proof -
    obtain w k c l fr where "financed db w k c b l fr" "sc_payment_id k = cr_payment_id b" using command_financed [OF ok ab(2)] by blast
    then have "filter (\<lambda>r. cr_payment_id r = cr_payment_id b) (pd_commands db) = [b]" by (simp add: financed_def tuple_rows_def)
    from single_row [OF this ab(1) ab(3)] show ?thesis .
  qed
  have effect: "pb_idempotency_key r = pb_message_id r \<and> pb_effect_id r = pb_message_id r" if r: "r \<in> set (pd_outbox db)" for r
  proof -
    obtain w k c m l fr jobs where fin: "financed db w k c m l fr" "effect_sound db k (lv_recorded_at (fr_ledger fr)) jobs r"
      using effect_financed [OF ok r] by blast
    from sound_effect_ok(2) [OF fin(2) command_columns(1-4) [OF fin(1)]] show ?thesis by simp
  qed
  have receipt: "rr_idempotency_key x = rr_message_id x" if x: "x \<in> set (pd_receipts db)" for x
  proof -
    obtain r where r: "r \<in> set (pd_outbox db)" "pb_message_id r = rr_message_id x" using row_owner(6) [OF ok x] by force
    have "effect_lifecycle db r = Inr ()" using effect_financed [OF ok r(1)] by (auto simp: effect_sound_def)
    from delivered_receipt(2) [OF this x] show ?thesis using r(2) d by simp
  qed
  have "distinct (map (\<lambda>r. (cr_payment_id r, cr_version r, cr_signature r)) (pd_commands db))"
    by (rule distinct_by [of cr_id]) (use d command in auto)
  moreover have "distinct (map (\<lambda>r. (pl_payment_id r, pl_version r, pl_signature r)) (pd_ledger db))"
    by (rule distinct_by [of pl_command_id]) (use d ledger in auto)
  moreover have "distinct (map pb_idempotency_key (pd_outbox db))" "distinct (map pb_effect_id (pd_outbox db))"
    by (rule distinct_by [of pb_message_id]; use d effect in auto)+
  moreover have "distinct (map rr_idempotency_key (pd_receipts db))"
    by (rule distinct_by [of rr_message_id]) (use d receipt in auto)
  ultimately show ?thesis unfolding unique_keys_def using d event_keys [OF ok] by simp
qed

lemma payments_ok_foreign:
  assumes ok: "payments_ok db"
  shows "foreign_keys db"
proof -
  have d: "distinct (map rr_message_id (pd_receipts db))" using ok by (simp add: payments_ok_def tables_ok_def payment_keys_def)
  have commands: "(\<lambda>r. (cr_claim_key r, cr_payment_id r, cr_version r, cr_signature r)) ` set (pd_commands db)
      \<subseteq> (\<lambda>r. (pk_key r, pk_payment_id r, pk_version r, pk_signature r)) ` set (pd_claims db)"
  proof (rule image_subsetI)
    fix m assume "m \<in> set (pd_commands db)"
    then obtain w k c l fr where fin: "financed db w k c m l fr" using command_financed [OF ok] by blast
    show "(cr_claim_key m, cr_payment_id m, cr_version m, cr_signature m)
      \<in> (\<lambda>r. (pk_key r, pk_payment_id r, pk_version r, pk_signature r)) ` set (pd_claims db)"
      unfolding financed_claim_command(3) [OF fin] using financed_mem(1) [OF fin] by (rule imageI)
  qed
  have ledger: "(\<lambda>r. (pl_command_id r, pl_payment_id r, pl_version r, pl_signature r)) ` set (pd_ledger db)
      \<subseteq> (\<lambda>r. (cr_id r, cr_payment_id r, cr_version r, cr_signature r)) ` set (pd_commands db)"
  proof (rule image_subsetI)
    fix l assume "l \<in> set (pd_ledger db)"
    then obtain w n k c m fr where fin: "financed db w k c m l fr" using payment_ledger_row [OF ok] by blast
    show "(pl_command_id l, pl_payment_id l, pl_version l, pl_signature l)
      \<in> (\<lambda>r. (cr_id r, cr_payment_id r, cr_version r, cr_signature r)) ` set (pd_commands db)"
      unfolding financed_claim_command(4) [OF fin] using financed_mem(2) [OF fin] by (rule imageI)
  qed
  have outbox: "(\<lambda>r. (pb_command_id r, pb_payment_id r, pb_version r, pb_signature r)) ` set (pd_outbox db)
      \<subseteq> (\<lambda>r. (cr_id r, cr_payment_id r, cr_version r, cr_signature r)) ` set (pd_commands db)"
  proof (rule image_subsetI)
    fix r assume "r \<in> set (pd_outbox db)"
    then obtain w k c m l fr jobs where fin: "financed db w k c m l fr" "effect_sound db k (lv_recorded_at (fr_ledger fr)) jobs r"
      using effect_financed [OF ok] by blast
    have "(pb_command_id r, pb_payment_id r, pb_version r, pb_signature r) = (cr_id m, cr_payment_id m, cr_version m, cr_signature m)"
      using sound_effect_ok(2) [OF fin(2) command_columns(1-4) [OF fin(1)]] command_columns(5) [OF fin(1)] by simp
    then show "(pb_command_id r, pb_payment_id r, pb_version r, pb_signature r)
      \<in> (\<lambda>r. (cr_id r, cr_payment_id r, cr_version r, cr_signature r)) ` set (pd_commands db)"
      using financed_mem(2) [OF fin(1)] by (auto intro: rev_image_eqI)
  qed
  have receipts: "(\<lambda>r. (rr_message_id r, Some (rr_hash r), Some (rr_delivered_at r))) ` set (pd_receipts db)
      \<subseteq> (\<lambda>r. (pb_message_id r, pb_receipt_hash r, pb_delivered_at r)) ` set (pd_outbox db)"
  proof (rule image_subsetI)
    fix x assume x: "x \<in> set (pd_receipts db)"
    obtain r where r: "r \<in> set (pd_outbox db)" "pb_message_id r = rr_message_id x" using row_owner(6) [OF ok x] by force
    have "effect_lifecycle db r = Inr ()" using effect_financed [OF ok r(1)] by (auto simp: effect_sound_def)
    from delivered_receipt(3,4) [OF this x r(2) [symmetric] d]
    show "(rr_message_id x, Some (rr_hash x), Some (rr_delivered_at x))
      \<in> (\<lambda>r. (pb_message_id r, pb_receipt_hash r, pb_delivered_at r)) ` set (pd_outbox db)"
      using r by (auto intro: rev_image_eqI)
  qed
  have "pb_payment_id ` set (pd_outbox db) \<subseteq> pr_id ` set (pd_workflows db)"
    using row_owner(3,5) [OF ok] by (force simp: payment_ids_def)
  then show ?thesis
    unfolding foreign_keys_def using commands ledger outbox receipts row_owner(1-3) [OF ok] by (auto simp: payment_ids_def)
qed

lemma payments_ok_checks:
  assumes ok: "payments_ok db" and tok: "\<And>l. l \<in> set (pd_ledger db) \<Longrightarrow> pl_slots l = 1 \<Longrightarrow> 1 \<le> pl_token l"
    and v2: "list_all v2_columns_ok (pd_outbox db)"
  shows "row_checks db"
proof -
  have d: "distinct (map rr_message_id (pd_receipts db))" using ok by (simp add: payments_ok_def tables_ok_def payment_keys_def)
  have "event_row_ok e" if e: "e \<in> set (pd_events db)" for e
  proof -
    obtain w n where "load_payment db (pe_payment_id e) = Inr (w, n)" using row_owner(1) [OF ok e] ok by (auto simp: payments_ok_def)
    from loaded_event_rows(1) [OF this] e show ?thesis by blast
  qed
  moreover have "effect_row_ok r" if r: "r \<in> set (pd_outbox db)" for r
  proof -
    obtain w k c m l fr jobs where fin: "financed db w k c m l fr" "effect_sound db k (lv_recorded_at (fr_ledger fr)) jobs r"
      using effect_financed [OF ok r] by blast
    from sound_effect_ok(1) [OF fin(2) command_columns(1-4) [OF fin(1)]] v2 r show ?thesis
      by (simp add: effect_row_ok_def list_all_iff)
  qed
  moreover have "receipt_row_ok x" if x: "x \<in> set (pd_receipts db)" for x
  proof -
    obtain r where r: "r \<in> set (pd_outbox db)" "pb_message_id r = rr_message_id x" using row_owner(6) [OF ok x] by force
    have "effect_lifecycle db r = Inr ()" using effect_financed [OF ok r(1)] by (auto simp: effect_sound_def)
    from delivered_receipt(1) [OF this x r(2) [symmetric] d] show ?thesis .
  qed
  moreover have "ledger_row_ok l" if "l \<in> set (pd_ledger db)" for l
    using payment_ledger_row [OF ok that] financed_ledger_ok tok [OF that] by blast
  moreover have "claim_row_ok c" if "c \<in> set (pd_claims db)" for c
    using claim_financed [OF ok that] financed_claim_command(1) by blast
  moreover have "command_row_ok m" if "m \<in> set (pd_commands db)" for m
    using command_financed [OF ok that] financed_claim_command(2) by blast
  ultimately show ?thesis using workflow_row_loaded [OF ok] by (simp add: row_checks_def list_all_iff)
qed

section \<open>A fenced row was claimed\<close>

lemma leased_row_claimed:
  assumes "payments_ok db" "l \<in> set (pd_ledger db)" "pl_status l = SETTLEMENT_LEASED"
  shows "1 \<le> pl_token l"
proof -
  obtain w n k c m fr where fin: "financed db w k c m l fr" using payment_ledger_row [OF assms(1,2)] by blast
  then have d: "decode_ledger l k = Inr (fr_ledger fr)"
    and st: "financial_status_valid (pw_core w) (fr_ledger fr) (ec_status (fr_claim fr))"
    by (simp_all add: financed_def records_valid_def)
  have "lv_lease (fr_ledger fr) \<noteq> None" "decode_lease l = Inr (lv_lease (fr_ledger fr))"
    using st decode_ledger_row [OF d] assms(3) by (simp_all add: financial_status_valid_def)
  then show ?thesis using decoded_lease_ok by blast
qed

lemma history_fenced_claimed:
  assumes "payment_history v2 tr db" "l \<in> set (pd_ledger db)" "pl_slots l = 1"
  shows "1 \<le> pl_token l"
  using assms
proof (induction arbitrary: l rule: payment_history.induct)
  case start
  then show ?case by (simp add: empty_payments_def)
next
  case (call tr db c db' r)
  note s = history_serves [OF call.hyps]
  have d: "distinct (map pl_command_id (pd_ledger db'))" using s(3) by (simp add: payments_ok_def tables_ok_def payment_keys_def)
  have l: "find_row pl_command_id (pl_command_id l) (pd_ledger db') = Some l" using find_row_unique [OF d call.prems(1)] .
  show ?case
  proof (cases "find_row pl_command_id (pl_command_id l) (pd_ledger db)")
    case None
    then show ?thesis using serves_new_row [OF s(1,2) None] l call.prems(2) by simp
  next
    case (Some a)
    have a: "a \<in> set (pd_ledger db)" using find_row_Some [OF Some] by simp
    consider "l = a" | "settlement_move a l" using serves_row [OF s(1,2) Some] l by auto
    then show ?thesis
    proof cases
      case 1
      then show ?thesis using call.IH [OF a] call.prems(2) by simp
    next
      case 2
      then show ?thesis
        using leased_row_claimed [OF s(1) a] call.IH [OF a] call.prems(2)
        by cases (auto simp: settlement_row_updates)
    qed
  qed
qed

lemma history_v2_columns: "payment_history v2 tr db \<Longrightarrow> list_all v2_columns_ok (pd_outbox db)"
proof (induction rule: payment_history.induct)
  case start
  then show ?case by (simp add: empty_payments_def)
next
  case (call tr db c db' r)
  then show ?case using history_serves(4) [OF call.hyps] by (simp add: payments_evolve_def)
qed

lemma history_schema:
  assumes "payment_history v2 tr db"
  shows "payment_schema db"
proof -
  have ok: "payments_ok db" using history_ok [OF assms] by simp
  show ?thesis
    unfolding payment_schema_def
    using payments_ok_checks [OF ok history_fenced_claimed [OF assms] history_v2_columns [OF assms]] payments_ok_unique [OF ok] payments_ok_foreign [OF ok] by blast
qed

end
