(* ===== verification/Pay_Progress.thy ===== *)
theory Pay_Progress
  imports Pay_Schema_Store
begin

text \<open>
  The operations of the payment store do succeed. The laws say what a committed call did; these
  lemmas say which calls commit: the statements of a transaction find the one row they name, and the
  rows they insert are new.
\<close>

section \<open>Persisting a transition\<close>

lemma loaded_row:
  assumes "load_payment db pid = Inr (w, n)" "tables_ok db1" "pd_workflows db1 = pd_workflows db"
  shows "\<exists>db2. update_payment_row db1 pid n w' t = Inr db2 \<and> pd_events db2 = pd_events db1"
proof -
  note f = load_payment_facts [OF assms(1)]
  have d: "distinct (map pr_id (pd_workflows db1))" using assms(2) by (simp add: tables_ok_def payment_keys_def)
  obtain r where r: "r \<in> set (pd_workflows db1)" "pr_id r = pid" "pr_revision r = n"
    using find_row_Some [OF f(4)] assms(3) by (auto simp: payment_row_of_def Let_def)
  have "swap_one (\<lambda>r. pr_id r = pid \<and> pr_revision r = n) (advanced_row n w' t) err (pd_workflows db1)
      = Inr (update_where (\<lambda>r. pr_id r = pid \<and> pr_revision r = n) (advanced_row n w' t) (pd_workflows db1))" for err
    by (rule swap_one_Some [OF d r(1)]) (use r in auto)
  then show ?thesis by (simp add: update_payment_row_def)
qed

lemma revision_fresh:
  assumes "load_payment db pid = Inr (w, n)" "r \<in> set (pd_events db)" "pe_payment_id r = pid"
  shows "pe_revision r \<noteq> n + 1"
proof -
  let ?rows = "payment_event_rows db pid"
  have h: "n = int (length ?rows)" "map pe_revision ?rows = map int [1..<Suc (length ?rows)]"
    using load_payment_facts(3) [OF assms(1)] by (simp_all add: event_history_def Let_def)
  have "r \<in> set ?rows" using assms(2,3) by (simp add: payment_event_rows_def)
  then have "pe_revision r \<in> set (map int [1..<Suc (length ?rows)])" unfolding h(2) [symmetric] by simp
  then show ?thesis using h(1) by auto
qed

definition new_event :: "payment_store \<Rightarrow> payment_event \<Rightarrow> bool" where
  "new_event db e \<longleftrightarrow> payment_event_id e \<notin> pe_event_id ` set (pd_events db)"

lemma event_inserted:
  assumes "load_payment db pid = Inr (w, n)" "pd_events db1 = pd_events db" "new_event db e"
  shows "insert_payment_event op db1 pid (n + 1) e w' = Inr (db1\<lparr>pd_events := pd_events db1 @ [payment_event_row_of pid (n + 1) e w']\<rparr>)"
proof -
  have "\<not> list_ex (\<lambda>r. pe_event_id r = payment_event_id e \<or> pe_payment_id r = pid \<and> pe_revision r = n + 1) (pd_events db1)"
    using revision_fresh [OF assms(1)] assms(2,3) unfolding new_event_def list_ex_iff by (metis image_eqI)
  then show ?thesis by (simp add: insert_payment_event_def)
qed

lemma persist_commits:
  assumes load: "load_payment db pid = Inr (w, n)" and t: "pt_result t = PT_APPLIED" "pt_events t = [e]"
    and db1: "tables_ok db1" "pd_workflows db1 = pd_workflows db" "pd_events db1 = pd_events db" and e: "new_event db e"
  shows "\<exists>db2. persist_transition op db1 w n e t = Inr db2"
proof -
  obtain db2 where up: "update_payment_row db1 pid n (pt_next t) (payment_event_time e) = Inr db2"
      and ev: "pd_events db2 = pd_events db" using loaded_row [OF load db1(1,2)] db1(3) by metis
  show ?thesis
    using up event_inserted [OF load ev e, of op "pt_next t"] load_payment_facts(2) [OF load] t
    by (simp add: persist_transition_def Let_def)
qed

text \<open>The event a transition persisted is the last row of the events.\<close>

lemma persist_events:
  assumes "persist_transition op db w n e t = Inr db'"
  shows "pd_events db' = pd_events db @ [payment_event_row_of (ps_payment_id (pc_subject (pw_core w))) (n + 1) e (pt_next t)]"
  using assms
  by (auto simp: persist_transition_def Let_def bind_res_Inr_iff update_payment_row_def insert_payment_event_def split: if_splits)

section \<open>Applying an event\<close>

lemma recorded_new: "new_event db e \<Longrightarrow> recorded_event db pid e = None"
  by (simp add: recorded_event_def new_event_def find_row_None)

lemma loaded_named: "load_payment db pid = Inr (w, n) \<Longrightarrow> exact_text pid f = Inr pid"
  by (auto simp: load_payment_iff exact_text_def split: if_splits)

lemma loaded_revision: "load_payment db pid = Inr (w, n) \<Longrightarrow> exact_revision n = Inr n"
  by (auto simp: load_payment_iff event_history_def Let_def exact_revision_def)

lemma apply_commits:
  assumes ok: "payments_ok db" and load: "load_payment db pid = Inr (w, n)" and e: "mk_payment_event e = Inr ()"
    and op: "\<not> operational_payment_event e" and new: "new_event db e"
    and r: "replay_event (pw_core w) e = Inr c'" "in_order w e"
  shows "\<exists>db'. apply_payment db pid n e = Inr (db', applied_step w e c')
    \<and> load_payment db' pid = Inr (extended w e c', n + 1)
    \<and> pd_events db' = pd_events db @ [payment_event_row_of pid (n + 1) e (extended w e c')]
    \<and> same_finance db db'"
proof -
  let ?t = "applied_step w e c'"
  note f = load_payment_facts [OF load]
  have t: "reduce_payment w e = Inr ?t" using replay_is_applied [OF f(1) r] .
  have ap: "pt_result ?t = PT_APPLIED" "pt_events ?t = [e]" "pt_next ?t = extended w e c'" by (simp_all add: applied_step_def)
  have cmds: "pt_commands ?t = []" using op by (cases e) (simp_all add: applied_step_def applied_commands_def operational_payment_event_def)
  have t0: "tables_ok db" using ok by (simp add: payments_ok_def)
  obtain db1 where up: "update_payment_row db pid n (pt_next ?t) (payment_event_time e) = Inr db1"
      and ev: "pd_events db1 = pd_events db" using loaded_row [OF load t0 refl] by metis
  let ?db = "db1\<lparr>pd_events := pd_events db1 @ [payment_event_row_of pid (n + 1) e (pt_next ?t)]\<rparr>"
  have ins: "insert_payment_event op db1 pid (n + 1) e (pt_next ?t) = Inr ?db" for op
    by (rule event_inserted [OF load ev new])
  have none: "pc_command (pw_core w) = None" "pc_command c' = None"
    using nonoperational_command [OF wf_payment_core [OF f(1)] r(1) op] by simp_all
  have id: "ps_payment_id (pc_subject c') = ps_payment_id (pc_subject (pw_core w))"
    using replay_event_identity [OF wf_payment_core [OF f(1)] r(1)] by simp
  have fin: "\<exists>x. payment_financial_records db (pt_next ?t) = Inr x"
    using f(5) none id by (auto simp: ap(3) extended_def financial_records_none)
  have "load_payment ?db pid = Inr (pt_next ?t, n + 1)" "same_finance db ?db"
    using persisted_payment(2,3) [OF load e t ap(1) t0 refl refl up ins] fin by blast+
  moreover have "apply_payment db pid n e = Inr (?db, ?t)"
    using loaded_named [OF load] loaded_revision [OF load] op load recorded_new [OF new] t cmds ap(1) up ins
    by (simp add: apply_payment_def)
  ultimately show ?thesis using ev ap(3) by (intro exI [of _ ?db]) simp
qed

section \<open>Claiming evidence\<close>

lemma ledger_commands:
  assumes "payments_ok db" "l \<in> set (pd_ledger db)"
  shows "pl_command_id l \<in> cr_id ` set (pd_commands db)"
proof -
  obtain w k c m fr where "financed db w k c m l fr" using payment_ledger_row [OF assms] by blast
  then have t: "tuple_rows db (sc_payment_id k) k c m l" by (simp add: financed_def)
  then have "pl_command_id l = cr_id m" by (simp add: tuple_rows_def)
  then show ?thesis using tuple_rows_mem(2) [OF t] by simp
qed

lemma evidence_commits:
  assumes ok: "payments_ok db" and load: "load_payment db pid = Inr (w, n)" and e: "mk_payment_event (PaymentEvidenceRecorded x) = Inr ()"
    and new: "new_event db (PaymentEvidenceRecorded x)"
    and r: "replay_event (pw_core w) (PaymentEvidenceRecorded x) = Inr c'" "in_order w (PaymentEvidenceRecorded x)"
    and k: "pc_verified c' = Some v" "pc_command c' = Some k"
    and fresh: "ve_claim_key v \<notin> pk_key ` set (pd_claims db)" "sc_id k \<notin> cr_id ` set (pd_commands db)"
      "sc_idempotency_key k \<notin> cr_idempotency_key ` set (pd_commands db)"
  shows "\<exists>db' w' m. claim_payment_evidence db pid n x = Inr (db', applied_step w (PaymentEvidenceRecorded x) c')
    \<and> load_payment db' pid = Inr (w', m) \<and> pw_core w' = c' \<and> pw_history w' = pw_history w @ [PaymentEvidenceRecorded x]
    \<and> pd_ledger db' = pd_ledger db @ [queued_row_of k (er_recorded_at x)]
    \<and> pd_commands db' = pd_commands db @ [command_row_of k (er_recorded_at x)]
    \<and> pe_event_id ` set (pd_events db') = insert (er_event_id x) (pe_event_id ` set (pd_events db))
    \<and> pd_outbox db' = pd_outbox db"
proof -
  let ?e = "PaymentEvidenceRecorded x" let ?t = "applied_step w (PaymentEvidenceRecorded x) c'"
  note f = load_payment_facts [OF load]
  have t0: "tables_ok db" using ok by (simp add: payments_ok_def)
  have red: "reduce_payment w ?e = Inr ?t" using replay_is_applied [OF f(1) r] .
  have ap: "pt_result ?t = PT_APPLIED" "pt_events ?t = [?e]" "pt_next ?t = extended w ?e c'" "pt_commands ?t = [k]"
    using k(2) by (simp_all add: applied_step_def applied_commands_def)
  have none: "pc_command (pw_core w) = None" "pc_record (pw_core w) = None"
  proof -
    have "pc_status (pw_core w) = PAY_AWAITING_EVIDENCE"
      using r(1) by (cases "pc_status (pw_core w)") (auto simp: replay_event_def bind_res_Inr_iff)
    then show "pc_command (pw_core w) = None" "pc_record (pw_core w) = None"
      using early_core [OF wf_payment_core [OF f(1)]] by simp_all
  qed
  have pid: "sc_payment_id k = pid"
    using r(1) k(2) f(2) by (auto simp: replay_event_def replay_evidence_def bind_res_Inr_iff settlement_command_for_fields(1))
  have empty: "filter (\<lambda>r. cr_payment_id r = pid) (pd_commands db) = []" "filter (\<lambda>r. pl_payment_id r = pid) (pd_ledger db) = []"
    using f(2,5) by (auto simp: financial_records_none [OF none(1)])
  let ?db = "db\<lparr>pd_claims := pd_claims db @ [claim_row_of k v x], pd_commands := pd_commands db @ [command_row_of k (er_recorded_at x)],
      pd_ledger := pd_ledger db @ [queued_row_of k (er_recorded_at x)]\<rparr>"
  have "\<not> list_ex (\<lambda>r. cr_id r = sc_id k \<or> cr_idempotency_key r = sc_idempotency_key k
        \<or> cr_payment_id r = pid \<and> cr_version r = sc_version k \<and> cr_signature r = sc_signature k) (pd_commands db)"
    using empty(1) fresh(2,3) by (auto simp: list_ex_iff filter_empty_conv rev_image_eqI)
  moreover have "sc_id k \<notin> pl_command_id ` set (pd_ledger db)" using ledger_commands [OF ok] fresh(2) by auto
  then have "\<not> list_ex (\<lambda>r. pl_command_id r = sc_id k
        \<or> pl_payment_id r = pid \<and> pl_version r = sc_version k \<and> pl_signature r = sc_signature k) (pd_ledger db)"
    using empty(2) by (auto simp: list_ex_iff filter_empty_conv rev_image_eqI)
  ultimately have ins: "insert_financial_rows ''claim_payment_evidence'' db k v x = Inr ?db"
    using fresh(1) pid by (simp add: insert_financial_rows_def insert_unique_def Let_def claim_row_of_def command_row_of_def queued_row_of_def)
  have mem: "sc_payment_id k \<in> payment_ids db" using find_row_Some [OF f(4)] pid by (auto simp: payment_ids_def rev_image_eqI)
  have t1: "tables_ok ?db" using insert_financial_rows_touches [OF t0 ins refl mem] touches_ok by blast
  obtain db' where persist: "persist_transition ''claim_payment_evidence'' ?db w n ?e ?t = Inr db'"
    using persist_commits [OF load ap(1,2) t1 _ _ new, of "''claim_payment_evidence''"] by auto
  have nocmd: "\<not> list_ex (\<lambda>r. cr_id r = sc_id k \<or> cr_idempotency_key r = sc_idempotency_key k) (pd_commands db)"
    using fresh(2,3) by (auto simp: list_ex_iff rev_image_eqI)
  have "find_row pk_key (ve_claim_key v) (pd_claims db) = None" using fresh(1) by (simp add: find_row_None)
  then have "claim_reduced_evidence db w n x ?t = Inr (db', ?t)"
    using ap k ins persist nocmd by (simp add: claim_reduced_evidence_def extended_def)
  then have run: "claim_payment_evidence db pid n x = Inr (db', ?t)"
    using loaded_named [OF load] loaded_revision [OF load] load recorded_new [OF new] none(2) red
    by (simp add: claim_payment_evidence_def claim_new_evidence_def)
  have rows: "pd_events db' = pd_events db @ [payment_event_row_of pid (n + 1) ?e (pt_next ?t)]"
    using persist_events [OF persist] f(2) by simp
  have "db' \<noteq> db" using rows by auto
  then obtain w' m where w': "load_payment db' pid = Inr (w', m)" "pt_next ?t = w'"
    using claim_evidence_effect [OF ok e run] by blast
  have fin: "same_finance ?db db'" using persist_transition_facts(3) [OF load e red t1 _ _ persist] by simp
  have "pw_core w' = c'" "pw_history w' = pw_history w @ [?e]" using w'(2) ap(3) by (auto simp: extended_def)
  then show ?thesis
    using run w'(1) rows fin
    by (intro exI [of _ db'] exI [of _ w'] exI [of _ m]) (simp add: same_finance_def payment_event_row_of_def)
qed

section \<open>Claiming a settlement\<close>

definition claimable_settlement :: "timestamp \<Rightarrow> settlement_row \<Rightarrow> bool" where
  "claimable_settlement now l \<longleftrightarrow> pl_slots l = 0 \<and> pl_count l < 3
     \<and> (pl_status l = SETTLEMENT_QUEUED \<or> pl_status l = SETTLEMENT_LEASED \<and> expired_settlement now l)"

definition exact_owner :: "settlement_row \<Rightarrow> bool" where
  "exact_owner l \<longleftrightarrow> opt_all (\<lambda>o'. strip o' = o') (pl_owner l)"

lemma ledger_records:
  assumes ok: "payments_ok db" and l: "l \<in> set (pd_ledger db)"
  shows "\<exists>w n fr. load_payment db (pl_payment_id l) = Inr (w, n) \<and> required_records db w err = Inr fr
    \<and> (\<exists>c m. financed db w (fr_command fr) c m l fr) \<and> sc_id (fr_command fr) = pl_command_id l
    \<and> sc_payment_id (fr_command fr) = pl_payment_id l"
proof -
  obtain w n k c m fr where load: "load_payment db (pl_payment_id l) = Inr (w, n)" and fin: "financed db w k c m l fr"
      and k: "sc_payment_id k = pl_payment_id l" using payment_ledger_row [OF assms] by blast
  have "tables_ok db" using ok by (simp add: payments_ok_def)
  then have "required_records db w err = Inr fr" using financed_records [OF _ fin] by (simp add: required_records_def)
  moreover have "fr_command fr = k" "pl_command_id l = sc_id k"
    using fin by (simp_all add: financed_def records_valid_def tuple_rows_def)
  ultimately show ?thesis using load fin k by metis
qed

lemma open_claim_row:
  assumes "financed db w k c m l fr" "lv_status (fr_ledger fr) \<in> {SETTLEMENT_QUEUED, SETTLEMENT_LEASED, SETTLEMENT_FENCED}"
  shows "pk_consumed_at c = None" "pk_status c \<in> {CLAIM_IN_PROGRESS, CLAIM_RETRYABLE}"
    "lv_status (fr_ledger fr) \<noteq> SETTLEMENT_QUEUED \<Longrightarrow> pk_status c = CLAIM_IN_PROGRESS"
proof -
  have d: "decode_evidence_claim c w = Inr (fr_claim fr)"
      "financial_status_valid (pw_core w) (fr_ledger fr) (ec_status (fr_claim fr))"
    using assms(1) by (simp_all add: financed_def records_valid_def)
  have "ec_status (fr_claim fr) = pk_status c" by (rule decode_claim_row(2) [OF d(1)])
  then show s: "pk_status c \<in> {CLAIM_IN_PROGRESS, CLAIM_RETRYABLE}"
    "lv_status (fr_ledger fr) \<noteq> SETTLEMENT_QUEUED \<Longrightarrow> pk_status c = CLAIM_IN_PROGRESS"
    using d(2) assms(2) by (auto simp: financial_status_valid_def)
  show "pk_consumed_at c = None"
    using d(1) s(1) by (auto simp: decode_evidence_claim_def Let_def bind_res_Inr_iff)
qed

lemma select_claimable:
  assumes ok: "payments_ok db" and rows: "set rows \<subseteq> set (pd_ledger db)" and l: "l \<in> set rows" "claimable_settlement now l"
  shows "\<exists>fr. select_settlement db now rows = Inr (Some fr)"
  using rows l(1)
proof (induction rows)
  case (Cons r rs)
  let ?err = "DataCorruption ''claimable ledger lacks financial records''"
  have r: "r \<in> set (pd_ledger db)" using Cons.prems by simp
  obtain w n fr c m where a: "load_payment db (pl_payment_id r) = Inr (w, n)" "required_records db w ?err = Inr fr"
      "financed db w (fr_command fr) c m r fr" "sc_id (fr_command fr) = pl_command_id r"
    using ledger_records [OF ok r] by blast
  note d = decode_ledger_row [OF financed_ledger [OF a(3)]]
  show ?case
  proof (cases "l \<in> set rs")
    case True
    then obtain fr' where "select_settlement db now rs = Inr (Some fr')" using Cons by auto
    then show ?thesis using a by (simp add: Let_def)
  next
    case False
    then have "r = l" using Cons.prems by simp
    then have "lv_count (fr_ledger fr) < 3" "lv_status (fr_ledger fr) = SETTLEMENT_QUEUED
        \<or> lv_status (fr_ledger fr) = SETTLEMENT_LEASED \<and> (\<exists>s. lv_lease (fr_ledger fr) = Some s \<and> sl_expires s \<le> now)"
      using l(2) d by (auto simp: claimable_settlement_def expired_settlement_def decode_lease_Inr split: option.splits)
    then show ?thesis using a by (auto simp: Let_def max_pre_dispatch_claims_def)
  qed
qed simp

text \<open>An update of the row of a loaded command finds it.\<close>

lemma settlement_updated:
  assumes "tables_ok db" "tuple_rows db pid k c m l" "p l" "\<And>r. p r \<Longrightarrow> pl_command_id r = sc_id k"
  shows "update_settlement db p f err = Inr (db\<lparr>pd_ledger := update_where p f (pd_ledger db)\<rparr>)"
proof -
  have d: "distinct (map pl_command_id (pd_ledger db))" using assms(1) by (simp add: tables_ok_def payment_keys_def)
  have l: "l \<in> set (pd_ledger db)" "pl_command_id l = sc_id k"
    using tuple_rows_mem [OF assms(2)] assms(2) by (simp_all add: tuple_rows_def)
  have "swap_one p f err (pd_ledger db) = Inr (update_where p f (pd_ledger db))"
    by (rule swap_one_Some [OF d l(1)]) (use assms(3,4) l(2) in auto)
  then show ?thesis by (simp add: update_settlement_def)
qed

lemma claim_updated:
  assumes "tables_ok db" "tuple_rows db pid k c m l" "pk_status c \<in> from" "pk_consumed_at c = None"
  shows "\<exists>db'. update_claim db (sc_claim_key k) from st u msg = Inr db'"
proof -
  let ?p = "\<lambda>r. pk_key r = sc_claim_key k \<and> pk_status r \<in> from \<and> pk_consumed_at r = None"
    and ?f = "\<lambda>r. r\<lparr>pk_status := st, pk_consumed_at := u\<rparr>"
  have d: "distinct (map pk_key (pd_claims db))" using assms(1) by (simp add: tables_ok_def payment_keys_def)
  have c: "c \<in> set (pd_claims db)" "pk_key c = sc_claim_key k"
    using tuple_rows_mem [OF assms(2)] assms(2) by (simp_all add: tuple_rows_def)
  have "swap_one ?p ?f (DataCorruption msg) (pd_claims db) = Inr (update_where ?p ?f (pd_claims db))"
    by (rule swap_one_Some [OF d c(1)]) (use assms(3,4) c(2) in auto)
  then show ?thesis by (simp add: update_claim_def)
qed

lemma selected_row:
  assumes fin: "financed db w k c m l fr" and own: "exact_owner l"
    and st: "lv_status (fr_ledger fr) \<in> {SETTLEMENT_QUEUED, SETTLEMENT_LEASED}"
  shows "selected_settlement fr l"
proof -
  note d = decode_ledger_row [OF financed_ledger [OF fin]] and u = unfenced_row [OF fin st]
  have fr: "fr_command fr = k" and valid: "financial_status_valid (pw_core w) (fr_ledger fr) (ec_status (fr_claim fr))"
    using fin by (simp_all add: financed_def records_valid_def)
  show ?thesis
  proof (cases "lv_status (fr_ledger fr) = SETTLEMENT_QUEUED")
    case True
    then have "lv_lease (fr_ledger fr) = None" using valid by (simp add: financial_status_valid_def)
    then have "pl_owner l = None" using d by (simp add: decode_lease_Inr)
    then show ?thesis using True d u(1) fr by (simp add: selected_settlement_def)
  next
    case False
    then have leased: "lv_status (fr_ledger fr) = SETTLEMENT_LEASED" using st by simp
    then obtain s where s: "lv_lease (fr_ledger fr) = Some s" using valid by (auto simp: financial_status_valid_def)
    have lease: "decode_lease l = Inr (Some s)" using d s by simp
    obtain raw where raw: "pl_owner l = Some raw" "sl_owner s = strip raw" "pl_expires_at l = Some (sl_expires s)"
      using lease unfolding decode_lease_Inr option.case by blast
    then have "pl_owner l = Some (sl_owner s)" "pl_expires_at l = Some (sl_expires s)"
      using own by (simp_all add: exact_owner_def opt_all_def)
    then show ?thesis using leased s d u(1) fr by (simp add: selected_settlement_def)
  qed
qed

lemma claim_commits:
  assumes ok: "payments_ok db" and own: "\<forall>l \<in> set (pd_ledger db). exact_owner l"
    and l: "l \<in> set (pd_ledger db)" "claimable_settlement now l"
    and args: "exact_text worker ''worker_id'' = Inr worker" "id_re (strip worker)" "0 < ttl"
      "add_timedelta now ttl = Some x"
  shows "\<exists>db' claim. claim_settlement db worker now ttl = Inr (db', Some claim)"
proof -
  have t0: "tables_ok db" using ok by (simp add: payments_ok_def)
  have "pl_outcome l = None"
  proof -
    obtain w k c m fr where fin: "financed db w k c m l fr" using payment_ledger_row [OF ok l(1)] by blast
    have "lv_status (fr_ledger fr) = pl_status l" using decode_ledger_row [OF financed_ledger [OF fin]] by (elim conjE)
    then have "lv_status (fr_ledger fr) \<in> {SETTLEMENT_QUEUED, SETTLEMENT_LEASED}"
      using l(2) by (auto simp: claimable_settlement_def)
    then show ?thesis by (rule unfenced_row(2) [OF fin])
  qed
  then have "l \<in> set (settlement_candidates db)" using l by (auto simp: settlement_candidates_def claimable_settlement_def)
  moreover have "set (settlement_candidates db) \<subseteq> set (pd_ledger db)" by (auto simp: settlement_candidates_def)
  ultimately obtain fr where sel: "select_settlement db now (settlement_candidates db) = Inr (Some fr)"
    using select_claimable [OF ok _ _ l(2)] by blast
  let ?n = "lv_count (fr_ledger fr) + 1"
  obtain pid w n where load: "load_payment db pid = Inr (w, n)"
      and rec: "required_records db w (DataCorruption ''claimable ledger lacks financial records'') = Inr fr"
      and st: "lv_status (fr_ledger fr) \<in> {SETTLEMENT_QUEUED, SETTLEMENT_LEASED}"
    using select_settlement_Some [OF sel] by blast
  obtain c m l' where fin: "financed db w (fr_command fr) c m l' fr" using loaded_records [OF t0 load rec] by blast
  then have tu: "tuple_rows db (sc_payment_id (fr_command fr)) (fr_command fr) c m l'" by (simp add: financed_def)
  have l': "l' \<in> set (pd_ledger db)" by (rule tuple_rows_mem(3) [OF tu])
  have hit: "selected_settlement fr l'" using selected_row [OF fin _ st] own l' by blast
  let ?f = "leased_settlement worker now x ?n"
  let ?db1 = "db\<lparr>pd_ledger := update_where (selected_settlement fr) ?f (pd_ledger db)\<rparr>"
  have id: "\<And>r. selected_settlement fr r \<Longrightarrow> pl_command_id r = sc_id (fr_command fr)" by (simp add: selected_settlement_def)
  have up: "update_settlement db (selected_settlement fr) ?f err = Inr ?db1" for err
    by (rule settlement_updated [where p = "selected_settlement fr" and f = ?f, OF t0 tu hit id])
  have keep: "pl_payment_id (?f r) = pl_payment_id r" "pl_command_id (?f r) = pl_command_id r" for r
    by (simp_all add: leased_settlement_def)
  have u1: "tuple_rows ?db1 (sc_payment_id (fr_command fr)) (fr_command fr) c m (?f l')"
      and t1: "touches (sc_payment_id (fr_command fr)) db ?db1"
    using update_settlement_tuple [where p = "selected_settlement fr" and f = ?f, OF t0 up tu id keep] by (simp_all only: simp_thms)
  have c: "pk_status c \<in> {CLAIM_IN_PROGRESS, CLAIM_RETRYABLE}" "pk_consumed_at c = None"
    using open_claim_row(1,2) [OF fin] st by blast+
  obtain db2 where cl: "update_claim ?db1 (sc_claim_key (fr_command fr)) {CLAIM_IN_PROGRESS, CLAIM_RETRYABLE} CLAIM_IN_PROGRESS None
      ''settlement claim evidence lifecycle is divergent'' = Inr db2"
    by (rule exE [OF claim_updated [OF touches_ok [OF t1] u1 c]])
  have n: "1 \<le> ?n" using unfenced_row(8,14) [OF fin st] by simp
  let ?s = "\<lparr>sl_owner = strip worker, sl_token = ?n, sl_acquired = now, sl_expires = x\<rparr>"
  have lease: "mk_settlement_lease worker ?n now x = Inr ?s" using n args by (simp del: id_re.simps strip_id_re)
  have claim: "mk_settlement_claim (fr_command fr) ?s ?n = Inr \<lparr>sn_command = fr_command fr, sn_lease = ?s, sn_count = ?n\<rparr>"
    using n by simp
  have "claim_selected db worker now ttl fr = Inr (db2, Some \<lparr>sn_command = fr_command fr, sn_lease = ?s, sn_count = ?n\<rparr>)"
    unfolding claim_selected_def args(4) option.case up bind_res_simps cl lease claim by (rule refl)
  then show ?thesis
    unfolding claim_settlement_selected args(1) bind_res_simps sel option.case
    using args(3) by (simp add: positive_ttl_def)
qed

end
