(* ===== verification/Pay_Fence_Progress.thy ===== *)
theory Pay_Fence_Progress
  imports Pay_Progress
begin

text \<open>
  The fence and the closings of a settlement do succeed: their events are the next of the payment's
  history, and the ledger, the evidence and the outbox have the rows they name.
\<close>

section \<open>The last event of an open settlement\<close>

lemma loaded_history_ids:
  assumes "load_payment db pid = Inr (w, n)" "x \<in> set (pw_history w)"
  shows "payment_event_id x \<in> pe_event_id ` set (pd_events db)"
proof -
  have ids: "replay_payment_rows p v rows = Inr (v', es) \<Longrightarrow> map payment_event_id es = map pe_event_id rows" for p v rows v' es
    by (induction rows arbitrary: v es) (auto simp: bind_res_Inr_iff Let_def)
  obtain t where "replay_payment_rows pid t (payment_event_rows db pid) = Inr (w, pw_history w)"
    using load_payment_facts(3) [OF assms(1)] by (auto simp: event_history_def Let_def)
  from ids [OF this] have "payment_event_id x \<in> pe_event_id ` set (payment_event_rows db pid)"
    using assms(2) by (metis image_eqI set_map)
  then show ?thesis by (auto simp: payment_event_rows_def)
qed

lemma projected_closed: "project_settlement_outcome u b = Inr st \<Longrightarrow> st \<noteq> PAY_SETTLEMENT_QUEUED \<and> st \<noteq> PAY_SETTLING"
  by (cases "so_certainty u") (auto simp: project_settlement_outcome_def bind_res_Inr_iff dest!: mk_settlement_outcome_Inr split: if_splits)

lemma queued_by_evidence:
  assumes "replay_event c e = Inr c'" "pc_status c' = PAY_SETTLEMENT_QUEUED"
  shows "\<exists>r. e = PaymentEvidenceRecorded r \<and> pc_record c' = Some r"
  using assms
  by (cases e) (auto simp: replay_event_def bind_res_Inr_iff replay_method_def replay_summary_def replay_confirmation_def
      replay_evidence_def replay_start_def replay_finish_def replay_expired_def replay_cancelled_def reset_core_def
      dest: projected_closed split: option.splits)

lemma settling_by_start:
  assumes "replay_event c e = Inr c'" "pc_status c' = PAY_SETTLING"
  shows "\<exists>s. e = SettlementStarted s \<and> pc_start c' = Some s"
  using assms
  by (cases e) (auto simp: replay_event_def bind_res_Inr_iff replay_method_def replay_summary_def replay_confirmation_def
      replay_evidence_def replay_start_def replay_finish_def replay_expired_def replay_cancelled_def reset_core_def
      dest: projected_closed split: option.splits)

lemma last_event:
  assumes w: "wf_payment w" and st: "pc_status (pw_core w) \<noteq> PAY_AWAITING_METHOD"
  shows "\<exists>es e c. pw_history w = es @ [e] \<and> replay_event c e = Inr (pw_core w)
    \<and> (\<forall>x \<in> set (pw_history w). payment_event_time x \<le> payment_event_time e)"
proof -
  note f = mk_payment_workflow_Inr [OF w [unfolded wf_payment_def]]
  obtain s where s: "replay_events (initial_core s) (pw_history w) = Inr (pw_core w)"
    using f(5) by (auto simp: replay_payment_history_def bind_res_Inr_iff)
  have ne: "pw_history w \<noteq> []"
  proof
    assume "pw_history w = []"
    then have "pw_core w = initial_core s" using s by simp
    then show False using st by (simp add: initial_core_def)
  qed
  then obtain es e where h: "pw_history w = es @ [e]" by (metis rev_exhaust)
  then obtain c where "replay_event c e = Inr (pw_core w)" using s by (auto simp: replay_events_append bind_res_Inr_iff)
  moreover have "\<forall>x \<in> set (pw_history w). payment_event_time x \<le> payment_event_time e"
    using f(4) unfolding h check_history_snoc [of es e] check_history_def
    by (auto simp: bind_res_Inr_iff sorted_append)
  ultimately show ?thesis using h by blast
qed

lemma queued_history:
  assumes "wf_payment w" "pc_status (pw_core w) = PAY_SETTLEMENT_QUEUED" "pc_record (pw_core w) = Some r"
    "x \<in> set (pw_history w)"
  shows "payment_event_time x \<le> er_recorded_at r"
proof -
  obtain c e where e: "replay_event c e = Inr (pw_core w)" "\<forall>x \<in> set (pw_history w). payment_event_time x \<le> payment_event_time e"
    using last_event [OF assms(1)] assms(2) by auto
  then have "e = PaymentEvidenceRecorded r" using queued_by_evidence [OF e(1) assms(2)] assms(3) by auto
  then show ?thesis using e(2) assms(4) by auto
qed

lemma settling_history:
  assumes "wf_payment w" "pc_status (pw_core w) = PAY_SETTLING" "pc_start (pw_core w) = Some s"
    "x \<in> set (pw_history w)"
  shows "payment_event_time x \<le> ss_started_at s"
proof -
  obtain c e where e: "replay_event c e = Inr (pw_core w)" "\<forall>x \<in> set (pw_history w). payment_event_time x \<le> payment_event_time e"
    using last_event [OF assms(1)] assms(2) by auto
  then have "e = SettlementStarted s" using settling_by_start [OF e(1) assms(2)] assms(3) by auto
  then show ?thesis using e(2) assms(4) by auto
qed

section \<open>The events of a settlement are accepted\<close>

lemma command_built:
  assumes "wf_payment w" "pc_command (pw_core w) = Some k"
  shows "id_re (sc_payment_id k)" "1 \<le> sc_version k" "hash_re (sc_signature k)" "id_re (sc_id k)" "id_re (sc_idempotency_key k)"
proof -
  obtain v where "settlement_command_for (pc_subject (pw_core w)) v = Inr k" using settlement_command_of [OF assms] by blast
  then obtain c p where "mk_settlement_command c p = Inr k" by (auto simp: settlement_command_for_def Let_def split: prod.splits)
  then show "id_re (sc_payment_id k)" "1 \<le> sc_version k" "hash_re (sc_signature k)" "id_re (sc_id k)" "id_re (sc_idempotency_key k)"
    by (auto simp: mk_settlement_command_def bind_res_Inr_iff opaque_id_def positive_int_def digest_hash_def Let_def
        simp del: id_re.simps split: prod.splits if_splits)
qed

lemma settlement_event_ids: "id_re (settlement_event_id ''start'' c)" "id_re (settlement_event_id ''finish'' c)"
proof -
  have "list_all id_char ''ettlement-start:''" "list_all id_char ''ettlement-finish:''" "is_alnum (CHR ''s'')"
    by (simp_all add: char_class_defs ordc_def)
  from hex_prefix_id [OF this(1,3)] hex_prefix_id [OF this(2,3)]
  show "id_re (settlement_event_id ''start'' c)" "id_re (settlement_event_id ''finish'' c)"
    by (simp_all add: settlement_event_id_def del: id_re.simps)
qed

lemma start_accepted:
  assumes load: "load_payment db pid = Inr (w, n)" and k: "pc_command (pw_core w) = Some k"
    and st: "pc_status (pw_core w) = PAY_SETTLEMENT_QUEUED" "pc_record (pw_core w) = Some r" "er_recorded_at r \<le> now"
    and new: "new_event db (SettlementStarted (start_event k now))"
  shows "mk_payment_event (SettlementStarted (start_event k now)) = Inr ()"
    "\<exists>c'. replay_event (pw_core w) (SettlementStarted (start_event k now)) = Inr c'"
    "in_order w (SettlementStarted (start_event k now))"
proof -
  note f = load_payment_facts [OF load]
  note b = command_built [OF f(1) k] and c = command_fields [OF f(1) k]
  show e: "mk_payment_event (SettlementStarted (start_event k now)) = Inr ()"
    using b settlement_event_ids
    by (simp add: mk_settlement_started_def start_event_def opaque_id_def positive_int_def digest_hash_def del: id_re.simps)
  have "replay_start (pw_core w) (start_event k now) = Inr ((pw_core w)\<lparr>pc_status := PAY_SETTLING, pc_start := Some (start_event k now)\<rparr>)"
    using k st(2,3) by (simp add: replay_start_def start_event_def reject_if_def not_less)
  then show "\<exists>c'. replay_event (pw_core w) (SettlementStarted (start_event k now)) = Inr c'"
    using e c st(1)
    by (simp add: replay_event_def version_binding_def start_event_def reject_if_def del: mk_payment_event.simps)
  have "payment_event_time x \<le> now" "payment_event_id x \<noteq> ss_event_id (start_event k now)" if "x \<in> set (pw_history w)" for x
  proof -
    show "payment_event_time x \<le> now" using queued_history [OF f(1) st(1,2) that] st(3) by simp
    show "payment_event_id x \<noteq> ss_event_id (start_event k now)"
      using loaded_history_ids [OF load that] new by (metis new_event_def payment_event_id.simps(5))
  qed
  then show "in_order w (SettlementStarted (start_event k now))"
    unfolding in_order_def list_all_iff by (simp add: image_iff) (metis start_event_def settlement_started.select_convs(7))
qed

lemma finish_accepted:
  assumes load: "load_payment db pid = Inr (w, n)" and k: "pc_command (pw_core w) = Some k"
    and st: "pc_status (pw_core w) = PAY_SETTLING" "pc_start (pw_core w) = Some s" "ss_started_at s \<le> now"
    and u: "mk_settlement_outcome u = Inr u" "so_certainty u \<noteq> NOT_DISPATCHED"
    and new: "new_event db (SettlementFinished (finish_event k u now))"
  shows "mk_payment_event (SettlementFinished (finish_event k u now)) = Inr ()"
    "\<exists>c'. replay_event (pw_core w) (SettlementFinished (finish_event k u now)) = Inr c'"
    "in_order w (SettlementFinished (finish_event k u now))"
proof -
  note f = load_payment_facts [OF load]
  note b = command_built [OF f(1) k] and c = command_fields [OF f(1) k]
  show e: "mk_payment_event (SettlementFinished (finish_event k u now)) = Inr ()"
    using b settlement_event_ids u
    by (simp add: mk_settlement_finished_def finish_event_def opaque_id_def positive_int_def digest_hash_def del: id_re.simps)
  have "\<exists>c'. replay_finish (pw_core w) (finish_event k u now) = Inr c'"
    using k st u by (simp add: replay_finish_def finish_event_def reject_if_def not_less boundary_time_def project_settlement_outcome_def)
  then show "\<exists>c'. replay_event (pw_core w) (SettlementFinished (finish_event k u now)) = Inr c'"
    using e c st(1)
    by (simp add: replay_event_def version_binding_def finish_event_def reject_if_def del: mk_payment_event.simps)
  have "payment_event_time x \<le> now" "payment_event_id x \<noteq> sf_event_id (finish_event k u now)" if "x \<in> set (pw_history w)" for x
  proof -
    show "payment_event_time x \<le> now" using settling_history [OF f(1) st(1,2) that] st(3) by simp
    show "payment_event_id x \<noteq> sf_event_id (finish_event k u now)"
      using loaded_history_ids [OF load that] new by (metis new_event_def payment_event_id.simps(6))
  qed
  then show "in_order w (SettlementFinished (finish_event k u now))"
    unfolding in_order_def list_all_iff by (simp add: image_iff) (metis finish_event_def settlement_finished.select_convs(7))
qed

section \<open>Fencing\<close>

text \<open>A stored command with its ledger row, and the lease that row holds.\<close>

lemma stored_settlement:
  assumes ok: "payments_ok db" and m: "m \<in> set (pd_commands db)"
    and l: "l \<in> set (pd_ledger db)" "pl_command_id l = cr_id m"
  shows "\<exists>w n c fr. load_payment db (sc_payment_id (cr_value m)) = Inr (w, n)
    \<and> (\<forall>err. required_records db w err = Inr fr) \<and> financed db w (cr_value m) c m l fr \<and> fr_command fr = cr_value m
    \<and> sc_id (cr_value m) = cr_id m"
proof -
  obtain w n c l' fr where a: "load_payment db (cr_payment_id m) = Inr (w, n)" "payment_financial_records db w = Inr (Some fr)"
      "financed db w (cr_value m) c m l' fr" "sc_payment_id (cr_value m) = cr_payment_id m" "fr_command fr = cr_value m"
    using stored_financed [OF ok m] by (elim exE conjE) (rule that)
  have t: "tuple_rows db (sc_payment_id (cr_value m)) (cr_value m) c m l'" using a(3) by (simp add: financed_def)
  have id: "cr_id m = sc_id (cr_value m)" "pl_command_id l' = sc_id (cr_value m)" using t by (simp_all add: tuple_rows_def)
  have "distinct (map pl_command_id (pd_ledger db))" using ok by (simp add: payments_ok_def tables_ok_def payment_keys_def)
  from unique_row [OF this l(1) tuple_rows_mem(3) [OF t]] have "l' = l" using id l(2) by simp
  moreover have "\<forall>err. required_records db w err = Inr fr" using a(2) by (simp add: required_records_def)
  ultimately show ?thesis using a id(1) by (intro exI [of _ w] exI [of _ n] exI [of _ c] exI [of _ fr]) simp
qed

lemma recorded_with_command:
  assumes "financed db w k c m l fr"
  shows "\<exists>r. pc_record (pw_core w) = Some r \<and> cr_created_at m = er_recorded_at r"
  using assms by (auto simp: financed_def records_valid_def decode_payment_command_def Let_def bind_res_Inr_iff split: option.splits)

definition leased_as :: "settlement_lease \<Rightarrow> settlement_row \<Rightarrow> bool" where
  "leased_as s l \<longleftrightarrow> pl_status l = SETTLEMENT_LEASED \<and> pl_owner l = Some (sl_owner s) \<and> pl_token l = sl_token s
     \<and> pl_acquired_at l = Some (sl_acquired s) \<and> pl_expires_at l = Some (sl_expires s) \<and> strip (sl_owner s) = sl_owner s"

lemma leased_live:
  assumes fin: "financed db w k c m l fr" and s: "leased_as s l" and now: "now < sl_expires s"
    and claim: "claim = \<lparr>sn_command = k, sn_lease = s, sn_count = pl_count l\<rparr>"
  shows "assert_live_settlement_claim claim now fr = Inr ()" "held_settlement (sc_id k) s (pl_count l) l"
    "lv_status (fr_ledger fr) = SETTLEMENT_LEASED"
proof -
  have fr: "fr_command fr = k" using fin by (simp add: financed_def records_valid_def)
  have d: "lv_status (fr_ledger fr) = pl_status l" "lv_token (fr_ledger fr) = pl_token l" "lv_count (fr_ledger fr) = pl_count l"
      "lv_slots (fr_ledger fr) = pl_slots l" "decode_lease l = Inr (lv_lease (fr_ledger fr))" "pl_command_id l = sc_id k"
    using decode_ledger_row [OF financed_ledger [OF fin]] by (simp_all only: simp_thms)
  show st: "lv_status (fr_ledger fr) = SETTLEMENT_LEASED" using d(1) s by (simp add: leased_as_def)
  then have st': "lv_status (fr_ledger fr) \<in> {SETTLEMENT_QUEUED, SETTLEMENT_LEASED}" by simp
  note u = unfenced_row(1,9) [OF fin st']
  obtain s' where s': "lv_lease (fr_ledger fr) = Some s'" using d(5) s by (cases "lv_lease (fr_ledger fr)") (auto simp: decode_lease_Inr leased_as_def)
  then have dl: "decode_lease l = Inr (Some s')" using d(5) by simp
  obtain raw where "pl_owner l = Some raw" "sl_owner s' = strip raw" "sl_token s' = pl_token l" "pl_acquired_at l = Some (sl_acquired s')"
      "pl_expires_at l = Some (sl_expires s')"
    using dl unfolding decode_lease_Inr option.case by blast
  then have "s' = s" using s by (simp add: leased_as_def)
  moreover have "ec_status (fr_claim fr) = CLAIM_IN_PROGRESS"
    using fin st by (auto simp: financed_def records_valid_def financial_status_valid_def)
  ultimately show "assert_live_settlement_claim claim now fr = Inr ()"
    unfolding live_claim_Inr claim using s' st d(2-4) u s now fr by (simp add: leased_as_def)
  show "held_settlement (sc_id k) s (pl_count l) l" using s u(1) d(6) by (simp add: held_settlement_def leased_as_def)
qed

lemma fence_commits:
  assumes ok: "payments_ok db" and m: "m \<in> set (pd_commands db)"
    and l: "l \<in> set (pd_ledger db)" "pl_command_id l = cr_id m" "leased_as s l"
    and now: "sl_acquired s \<le> now" "now < sl_expires s" "cr_created_at m \<le> now"
    and new: "new_event db (SettlementStarted (start_event (cr_value m) now))"
  shows "\<exists>db' p. fence_settlement db \<lparr>sn_command = cr_value m, sn_lease = s, sn_count = pl_count l\<rparr> (sc_payload (cr_value m)) now = Inr (db', p)"
proof -
  let ?k = "cr_value m" let ?e = "SettlementStarted (start_event ?k now)" let ?h = "sha256_hex (sc_payload ?k)"
  let ?held = "held_settlement (sc_id ?k) s (pl_count l)"
  obtain w n c fr where load: "load_payment db (sc_payment_id ?k) = Inr (w, n)" and rec: "\<forall>err. required_records db w err = Inr fr"
      and fin: "financed db w ?k c m l fr" using stored_settlement [OF ok m l(1,2)] by blast
  note live = leased_live [OF fin l(3) now(2) refl]
  have t0: "tables_ok db" using ok by (simp add: payments_ok_def)
  have st': "lv_status (fr_ledger fr) \<in> {SETTLEMENT_QUEUED, SETTLEMENT_LEASED}" using live(3) by simp
  note u = unfenced_row [OF fin st']
  have k: "pc_command (pw_core w) = Some ?k" and tu: "tuple_rows db (sc_payment_id ?k) ?k c m l" using fin by (simp_all add: financed_def)
  obtain r where r: "pc_record (pw_core w) = Some r" "er_recorded_at r \<le> now" using recorded_with_command [OF fin] now(3) by auto
  note e = start_accepted [OF load k u(10) r new]
  obtain c' where c': "replay_event (pw_core w) ?e = Inr c'" using e(2) by blast
  have w: "wf_payment w" using fin by (simp add: financed_def)
  have red: "reduce_payment w ?e = Inr (applied_step w ?e c')" by (rule replay_is_applied [OF w c' e(3)])
  let ?db1 = "db\<lparr>pd_ledger := update_where ?held (fenced_settlement ?h now) (pd_ledger db)\<rparr>"
  have id: "\<And>r. ?held r \<Longrightarrow> pl_command_id r = sc_id ?k" by (simp add: held_settlement_def)
  have up: "update_settlement db ?held (fenced_settlement ?h now) err = Inr ?db1" for err
    by (rule settlement_updated [where p = ?held, OF t0 tu live(2) id])
  have keep: "pl_payment_id (fenced_settlement ?h now r) = pl_payment_id r"
      "pl_command_id (fenced_settlement ?h now r) = pl_command_id r" for r by (simp_all add: fenced_settlement_def)
  have t1: "touches (sc_payment_id ?k) db ?db1"
    using update_settlement_tuple [where p = ?held, OF t0 up tu id keep] by (simp only: simp_thms)
  obtain db2 where persist: "persist_transition ''fence_settlement'' ?db1 w n ?e (applied_step w ?e c') = Inr db2"
    using persist_commits [OF load _ _ touches_ok [OF t1] _ _ new, of "applied_step w ?e c'" "''fence_settlement''"]
    by (auto simp: applied_step_def)
  have count: "1 \<le> pl_count l" "pl_count l = sl_token s"
  proof -
    have "decode_lease l = Inr (lv_lease (fr_ledger fr))" using decode_ledger_row [OF financed_ledger [OF fin]] by (elim conjE)
    then show "1 \<le> pl_count l" "pl_count l = sl_token s"
      using u(7) l(3) by (cases "lv_lease (fr_ledger fr)"; auto simp: decode_lease_Inr leased_as_def)+
  qed
  let ?permit = "\<lparr>sp_command = ?k, sp_lease = s, sp_count = pl_count l, sp_slot = 1, sp_request_hash = ?h, sp_fenced_at = now\<rparr>"
  have permit: "mk_settlement_permit ?k s (pl_count l) 1 ?h now = Inr ?permit" using count now by simp
  show ?thesis
    using load rec live(1) e(1) red up persist permit
    by (simp add: fence_settlement_def Let_def reject_if_def del: mk_settlement_permit_Inr mk_payment_event.simps)
qed

section \<open>Closing after the fence\<close>

definition queueable :: "payment_store \<Rightarrow> settlement_command \<Rightarrow> payment_policy \<Rightarrow> settlement_outcome \<Rightarrow> bool" where
  "queueable db k policy u \<longleftrightarrow> (\<exists>jobs. required_payment_effects u policy = Inr jobs
     \<and> distinct (map (\<lambda>j. payment_effect_id (sc_id k) (pj_kind j)) jobs)
     \<and> (\<forall>j \<in> set jobs. payment_effect_id (sc_id k) (pj_kind j) \<notin> pb_message_id ` set (pd_outbox db)))"

lemma jobs_inserted:
  assumes "queueable db k policy u" "pd_outbox db1 = pd_outbox db"
  shows "\<exists>db2. insert_payment_jobs op db1 k policy u at = Inr db2"
  using assms by (auto simp: queueable_def insert_payment_jobs_Inr comp_def)

lemma review_queueable:
  assumes "mk_settlement_outcome u = Inr u" "so_certainty u \<noteq> SETTLED"
    "payment_effect_id (sc_id k) MANUAL_REVIEW_EFFECT \<notin> pb_message_id ` set (pd_outbox db)"
  shows "queueable db k policy u"
  using assms by (simp add: queueable_def required_payment_effects_def mk_payment_job_def)

lemma close_fenced_commits:
  assumes ok: "payments_ok db" and load: "load_payment db (sc_payment_id k) = Inr (w, n)"
    and fin: "financed db w k c m l fr" and st: "lv_status (fr_ledger fr) = SETTLEMENT_FENCED"
    and u: "mk_settlement_outcome u = Inr u" "so_certainty u \<noteq> NOT_DISPATCHED" "queueable db k (pw_policy w) u"
    and now: "pl_fenced_at l = Some f" "f \<le> now" and new: "new_event db (SettlementFinished (finish_event k u now))"
    and held: "held l" "\<And>r. held r \<Longrightarrow> pl_command_id r = sc_id k"
    and cst: "st' = outcome_settlement_status u" "cst = outcome_claim_status u"
  shows "\<exists>db' t. close_settlement op db k k w n held st' cst u now m1 m2 = Inr (db', t)"
proof -
  let ?e = "SettlementFinished (finish_event k u now)"
  have t0: "tables_ok db" using ok by (simp add: payments_ok_def)
  have w: "wf_payment w" "pc_command (pw_core w) = Some k" and tu: "tuple_rows db (sc_payment_id k) k c m l"
    using fin by (simp_all add: financed_def)
  note row = fenced_settlement_row [OF fin st]
  obtain s where s: "pc_start (pw_core w) = Some s" "ss_started_at s = f" using row(9) now(1) by auto
  have settling: "pc_status (pw_core w) = PAY_SETTLING"
    using fin st by (auto simp: financed_def records_valid_def financial_status_valid_def)
  note e = finish_accepted [OF load w(2) settling s(1) _ u(1,2) new]
  have at: "ss_started_at s \<le> now" using s(2) now(2) by simp
  obtain c' where c': "replay_event (pw_core w) ?e = Inr c'" using e(2) [OF at] by blast
  have red: "reduce_payment w ?e = Inr (applied_step w ?e c')" by (rule replay_is_applied [OF w(1) c' e(3) [OF at]])
  let ?f = "closed_settlement st' u now"
  let ?db1 = "db\<lparr>pd_ledger := update_where held ?f (pd_ledger db)\<rparr>"
  have up: "update_settlement db held ?f err = Inr ?db1" for err
    by (rule settlement_updated [where p = held, OF t0 tu held])
  have keep: "pl_payment_id (?f r) = pl_payment_id r" "pl_command_id (?f r) = pl_command_id r" for r
    by (simp_all add: closed_settlement_def)
  have tu1: "tuple_rows ?db1 (sc_payment_id k) k c m (?f l)" and t1: "touches (sc_payment_id k) db ?db1"
    using update_settlement_tuple [where p = held, OF t0 up tu held(2) keep] by (simp_all only: simp_thms)
  have open_row: "pk_status c \<in> {CLAIM_IN_PROGRESS}" "pk_consumed_at c = None"
    using open_claim_row(1,3) [OF fin] st by simp_all
  obtain db2 where cl: "update_claim ?db1 (sc_claim_key k) {CLAIM_IN_PROGRESS} cst (Some now) m2 = Inr db2"
    by (rule exE [OF claim_updated [OF touches_ok [OF t1] tu1 open_row]])
  note t2 = update_claim_tuple [OF touches_ok [OF t1] cl tu1]
  have same2: "pd_outbox db2 = pd_outbox db" "pd_workflows db2 = pd_workflows db" "pd_events db2 = pd_events db"
    using cl by (auto simp: update_claim_def bind_res_Inr_iff)
  have t2': "tables_ok db2" using t2 touches_ok by (elim conjE)
  have m2': "sc_payment_id k \<in> cr_payment_id ` set (pd_commands db2)"
    using t2 tuple_rows_mem(2,5) by (metis image_eqI)
  obtain db3 where ins: "insert_payment_jobs op db2 k (pw_policy w) u now = Inr db3"
    using jobs_inserted [OF u(3) same2(1)] by blast
  have same3: "pd_workflows db3 = pd_workflows db" "pd_events db3 = pd_events db"
    using ins same2 by (auto simp: insert_payment_jobs_Inr)
  have t3: "tables_ok db3" using jobs_stage [OF t2' ins refl m2'] stage_ok by blast
  obtain db4 where persist: "persist_transition op db3 w n ?e (applied_step w ?e c') = Inr db4"
    using persist_commits [OF load _ _ t3 same3 new, of "applied_step w ?e c'" op] by (auto simp: applied_step_def)
  show ?thesis
    unfolding close_settlement_def Let_def e(1) [OF at] red up cl ins persist bind_res_simps by blast
qed

text \<open>An expired fence goes to review.\<close>

lemma recover_fenced_commits:
  assumes ok: "payments_ok db" and rows: "expired_candidates db now SETTLEMENT_FENCED 1 = l # ls"
    and own: "exact_owner l" and m: "m \<in> set (pd_commands db)" "cr_id m = pl_command_id l"
    and new: "new_event db (SettlementFinished (finish_event (cr_value m) (unknown_settlement (sha256_hex (sc_payload (cr_value m)))) now))"
    and effect: "payment_effect_id (cr_id m) MANUAL_REVIEW_EFFECT \<notin> pb_message_id ` set (pd_outbox db)"
  shows "\<exists>db'. recover_expired_fenced_settlement db now = Inr (db', Some (cr_id m))"
proof -
  let ?k = "cr_value m" and ?u = "unknown_settlement (sha256_hex (sc_payload (cr_value m)))"
  have "l \<in> set (expired_candidates db now SETTLEMENT_FENCED 1)" using rows by simp
  then have l: "l \<in> set (pd_ledger db)" "pl_status l = SETTLEMENT_FENCED" "pl_slots l = 1" "expired_settlement now l"
    by (simp_all add: expired_candidates_def)
  obtain w n c fr where a: "load_payment db (sc_payment_id ?k) = Inr (w, n)" "\<forall>err. required_records db w err = Inr fr"
      "financed db w ?k c m l fr" "fr_command fr = ?k" "sc_id ?k = cr_id m"
    using stored_settlement [OF ok m(1) l(1) m(2) [symmetric]] by (elim exE conjE) (rule that)
  have d: "lv_status (fr_ledger fr) = pl_status l" "lv_count (fr_ledger fr) = pl_count l" "lv_token (fr_ledger fr) = pl_token l"
      "lv_request_hash (fr_ledger fr) = pl_request_hash l" "lv_fenced_at (fr_ledger fr) = pl_fenced_at l"
      "decode_lease l = Inr (lv_lease (fr_ledger fr))" "check_dispatch l ?k (lv_lease (fr_ledger fr)) = Inr ()"
      "pl_payment_id l = sc_payment_id ?k" "lv_slots (fr_ledger fr) = pl_slots l"
    using decode_ledger_row [OF financed_ledger [OF a(3)]] by (simp_all only: simp_thms)
  have st: "lv_status (fr_ledger fr) = SETTLEMENT_FENCED" using d(1) l(2) by simp
  have valid: "lv_lease (fr_ledger fr) \<noteq> None" "ec_status (fr_claim fr) = CLAIM_IN_PROGRESS"
    using a(3) st by (simp_all add: financed_def records_valid_def financial_status_valid_def)
  then obtain s where s: "lv_lease (fr_ledger fr) = Some s" by blast
  have dl: "decode_lease l = Inr (Some s)" using d(6) s by simp
  obtain raw where raw: "pl_owner l = Some raw" "sl_owner s = strip raw" "sl_token s = pl_token l" "pl_expires_at l = Some (sl_expires s)"
    using dl unfolding decode_lease_Inr option.case by blast
  have owner: "sl_owner s = raw" using raw(1,2) own by (simp add: exact_owner_def opt_all_def)
  have exp: "sl_expires s \<le> now" using l(4) raw(4) by (simp add: expired_settlement_def)
  obtain f where f: "pl_fenced_at l = Some f" "f < sl_expires s" "pl_request_hash l = Some (sha256_hex (sc_payload ?k))"
    using d(7) l(3) s by (auto simp: check_dispatch_Inr opt_all_def)
  let ?held = "\<lambda>r. fenced_under (sc_id ?k) s (pl_count l) (sha256_hex (sc_payload ?k)) f r \<and> expired_settlement now r"
  have held: "?held l"
    using l raw owner f a(5) m(2) fenced_settlement_row(5) [OF a(3) st] by (simp add: fenced_under_def)
  have u: "mk_settlement_outcome ?u = Inr ?u" "so_certainty ?u \<noteq> NOT_DISPATCHED"
    by (rule mk_unknown) (simp_all add: unknown_settlement_def)
  have q: "queueable db ?k (pw_policy w) ?u"
    by (rule review_queueable [OF u(1)]) (use effect a(5) in \<open>simp_all add: unknown_settlement_def\<close>)
  have status: "outcome_settlement_status ?u = SETTLEMENT_REVIEW" "outcome_claim_status ?u = CLAIM_MANUAL_REVIEW"
    by (simp_all add: outcome_settlement_status_def outcome_claim_status_def unknown_settlement_def)
  obtain db' t where close: "close_settlement ''recover_expired_fenced_settlement'' db ?k ?k w n ?held SETTLEMENT_REVIEW CLAIM_MANUAL_REVIEW
      ?u now ''expired fenced recovery lost its permanent fence'' ''fenced recovery evidence lifecycle is divergent'' = Inr (db', t)"
    using close_fenced_commits [where held = ?held, OF ok a(1,3) st u q f(1) _ new held _ status [symmetric],
        of "''recover_expired_fenced_settlement''" "''expired fenced recovery lost its permanent fence''"
          "''fenced recovery evidence lifecycle is divergent''"] f(2) exp
    by (auto simp: fenced_under_def)
  have "recover_fenced_loaded db now l w n fr = Inr (db', Some (cr_id m))"
    unfolding recover_fenced_loaded_def Let_def s d(4,5) f(1,3) option.case prod.case d(2)
    using a(4,5) m(2) st d(9) l(3) fenced_settlement_row(8) [OF a(3) st] exp valid(2) u(1) close
    by (simp add: not_less)
  then show ?thesis
    using rows a(1,2) d(8) by (simp add: recover_expired_fenced_settlement_def)
qed

end
