(* ===== verification/Pay_Example.thy ===== *)
theory Pay_Example
  imports Pay_Fence_Progress Followup_Sample
begin

text \<open>
  A concrete history of the payment store: the sample payment is opened, its method chosen, its
  summary shown and confirmed, its Pix proof claimed, and its settlement claimed, fenced and, when
  the worker never answers, sent to review. The properties of the payment store are applied to it.
\<close>

section \<open>Extending a history\<close>

lemma history_step:
  assumes "payment_history v2 tr db" "wf_payment_call c" "holds_claim tr c" "serve_payment db c = (db', r)"
  shows "payment_history v2 (tr @ [(c, r)]) db'"
  by (rule payment_history.call [OF assms])

lemma served: "result = Inr (db', x) \<Longrightarrow> payment_transaction db reply result = (db', reply x)"
  by (simp add: payment_transaction_def)

definition apply_call :: "string \<Rightarrow> int \<Rightarrow> payment_event \<Rightarrow> payment_call" where
  "apply_call pid n e = (case e of PaymentEvidenceRecorded x \<Rightarrow> ClaimEvidence pid n x | _ \<Rightarrow> ApplyPayment pid n e)"

text \<open>A payment that is not yet claimed: no event of a settlement, no financial row.\<close>

definition early_store :: "payment_store \<Rightarrow> payment_workflow \<Rightarrow> int \<Rightarrow> string set \<Rightarrow> bool" where
  "early_store db w n ids \<longleftrightarrow> load_payment db sample_pid = Inr (w, n) \<and> pe_event_id ` set (pd_events db) = ids
     \<and> pd_claims db = [] \<and> pd_commands db = [] \<and> pd_ledger db = [] \<and> pd_outbox db = []"

lemma early_apply:
  assumes h: "payment_history v2 tr db" "early_store db w n ids" and e: "mk_payment_event e = Inr ()" "\<not> operational_payment_event e"
    and new: "payment_event_id e \<notin> ids" and r: "replay_event (pw_core w) e = Inr c'" "in_order w e"
  shows "\<exists>tr' db'. payment_history v2 tr' db' \<and> early_store db' (extended w e c') (n + 1) (insert (payment_event_id e) ids)
    \<and> fst ` set tr' = insert (ApplyPayment sample_pid n e) (fst ` set tr)"
proof -
  have ok: "payments_ok db" using history_ok [OF h(1)] by blast
  have load: "load_payment db sample_pid = Inr (w, n)" and "new_event db e"
    using h(2) new by (simp_all add: early_store_def new_event_def)
  then obtain db' where db': "apply_payment db sample_pid n e = Inr (db', applied_step w e c')"
      "load_payment db' sample_pid = Inr (extended w e c', n + 1)"
      "pd_events db' = pd_events db @ [payment_event_row_of sample_pid (n + 1) e (extended w e c')]" "same_finance db db'"
    using apply_commits [OF ok _ e _ r] by blast
  have "payment_history v2 (tr @ [(ApplyPayment sample_pid n e, PaymentTransitioned (applied_step w e c'))]) db'"
    by (rule history_step [OF h(1)]) (simp_all add: e(1) holds_claim_def served [OF db'(1)] del: mk_payment_event.simps)
  moreover have "early_store db' (extended w e c') (n + 1) (insert (payment_event_id e) ids)"
    using h(2) db'(2-4) by (simp add: early_store_def same_finance_def payment_event_row_of_def)
  ultimately show ?thesis by force
qed

section \<open>The payment until its evidence\<close>

lemma sample_opened: "new_payment sample_anchor sample_payment_policy =
    Inr \<lparr>pt_next = sample_payment, pt_result = PT_APPLIED, pt_reason = PAYMENT_OPENED, pt_events = [], pt_commands = []\<rparr>"
proof -
  have "an_workflow_id sample_anchor = ''wf:1''" "an_target_id sample_anchor = ''target:1''" by (simp_all add: sample_anchor_def)
  moreover have "mk_payment_workflow sample_payment = Inr sample_payment" using sample_payment_wf by (simp add: wf_payment_def)
  moreover have "mk_payment_policy sample_payment_policy = Inr sample_payment_policy"
    by (simp add: mk_payment_policy_def sample_payment_policy_def)
  ultimately show ?thesis
    using sample_subject_built by (simp add: new_payment_def sample_pid_def sample_payment_def)
qed

lemma sample_open_history:
  "\<exists>tr db. payment_history v2 tr db \<and> early_store db sample_payment 0 {} \<and> fst ` set tr = {OpenPayment sample_anchor sample_payment_policy}"
proof -
  let ?row = "payment_row_of sample_payment 0 1000 1000"
  let ?db = "(empty_payments v2)\<lparr>pd_workflows := [?row]\<rparr>"
  let ?t = "\<lparr>pt_next = sample_payment, pt_result = PT_APPLIED, pt_reason = PAYMENT_OPENED, pt_events = [], pt_commands = []\<rparr>"
  have pid: "ps_payment_id (pc_subject (pw_core sample_payment)) = sample_pid"
    by (simp add: sample_payment_def initial_core_def)
  have named: "exact_text sample_pid ''payment_id'' = Inr sample_pid"
    using text_ok_id [OF sample_pid_id] by (simp add: exact_text_def text_ok_def)
  have run: "open_payment (empty_payments v2) sample_anchor sample_payment_policy = Inr (?db, ?t)"
    using named pid by (simp add: open_payment_def sample_opened empty_payments_def)
  have h: "payment_history v2 ([] @ [(OpenPayment sample_anchor sample_payment_policy, PaymentTransitioned ?t)]) ?db"
    by (rule history_step [OF payment_history.start]) (simp_all add: holds_claim_def served [OF run])
  have "sample_pid \<in> payment_ids ?db" by (simp add: payment_ids_def payment_row_of_def Let_def pid)
  then obtain w n where load: "load_payment ?db sample_pid = Inr (w, n)"
    using history_ok [OF h] unfolding payments_ok_def by blast
  from load_payment_facts(4) [OF load] have "w = sample_payment" "n = 0"
    by (auto simp: payment_row_of_def Let_def pid)
  then have "early_store ?db sample_payment 0 {}" using load by (simp add: early_store_def empty_payments_def)
  then show ?thesis using h by force
qed

text \<open>The customer chooses Pix, sees the summary and confirms it.\<close>

definition chosen_payment :: payment_workflow where
  "chosen_payment = extended sample_payment (PaymentMethodSelected sample_choice) chosen_core"

definition summarised_payment :: payment_workflow where
  "summarised_payment = extended chosen_payment (FinancialSummaryRecorded sample_summary) summarised_core"

definition agreed_payment :: payment_workflow where
  "agreed_payment = extended summarised_payment (FinancialConfirmationReceived sample_confirmation) agreed_core"

lemma sample_cores: "pw_core sample_payment = initial_core sample_subject" "pw_core chosen_payment = chosen_core"
    "pw_core summarised_payment = summarised_core" "pw_core agreed_payment = agreed_core"
  by (simp_all add: sample_payment_def chosen_payment_def summarised_payment_def agreed_payment_def extended_def)

lemma sample_histories: "pw_history sample_payment = []"
    "pw_history chosen_payment = [PaymentMethodSelected sample_choice]"
    "pw_history summarised_payment = [PaymentMethodSelected sample_choice, FinancialSummaryRecorded sample_summary]"
    "pw_history agreed_payment = [PaymentMethodSelected sample_choice, FinancialSummaryRecorded sample_summary,
       FinancialConfirmationReceived sample_confirmation]"
  by (simp_all add: sample_payment_def chosen_payment_def summarised_payment_def agreed_payment_def extended_def)

lemma sample_agreed_history:
  "\<exists>tr db n. payment_history v2 tr db \<and> early_store db agreed_payment n {''event:1'', ''event:2'', ''event:3''}
    \<and> (\<forall>c \<in> fst ` set tr. \<not> settlement_call c)"
proof -
  let ?e1 = "PaymentMethodSelected sample_choice" and ?e2 = "FinancialSummaryRecorded sample_summary"
    and ?e3 = "FinancialConfirmationReceived sample_confirmation"
  have ids: "payment_event_id ?e1 = ''event:1''" "payment_event_id ?e2 = ''event:2''" "payment_event_id ?e3 = ''event:3''"
    and times: "payment_event_time ?e1 = 2000" "payment_event_time ?e2 = 3000" "payment_event_time ?e3 = 4000"
    by (simp_all add: sample_choice_def sample_summary_def sample_confirmation_def)
  have built: "mk_payment_event ?e2 = Inr ()" "mk_payment_event ?e3 = Inr ()"
    using sample_summary_built sample_events_built by simp_all
  have ordered: "in_order sample_payment ?e1" "in_order chosen_payment ?e2" "in_order summarised_payment ?e3"
    by (simp_all add: in_order_def sample_histories sample_choice_def sample_summary_def sample_confirmation_def)
  have cores: "replay_event (pw_core sample_payment) ?e1 = Inr chosen_core" "replay_event (pw_core chosen_payment) ?e2 = Inr summarised_core"
      "replay_event (pw_core summarised_payment) ?e3 = Inr agreed_core"
    unfolding sample_cores by (rule chosen_replayed summarised_replayed agreed_replayed)+
  have intake: "\<not> operational_payment_event ?e1" "\<not> operational_payment_event ?e2" "\<not> operational_payment_event ?e3"
    by (simp_all add: operational_payment_event_def)
  obtain tr0 db0 where 0: "payment_history v2 tr0 db0" "early_store db0 sample_payment 0 {}"
      "fst ` set tr0 = {OpenPayment sample_anchor sample_payment_policy}" using sample_open_history by blast
  have new: "payment_event_id ?e1 \<notin> {}" by simp
  obtain tr1 db1 where 1: "payment_history v2 tr1 db1" "early_store db1 chosen_payment (0 + 1) {''event:1''}"
      "fst ` set tr1 = insert (ApplyPayment sample_pid 0 ?e1) (fst ` set tr0)"
    using early_apply [OF 0(1,2) sample_choice_wf intake(1) new cores(1) ordered(1), folded chosen_payment_def, unfolded ids]
    by (elim exE conjE) (rule that)
  have new: "payment_event_id ?e2 \<notin> {''event:1''}" by (simp only: ids) simp
  obtain tr2 db2 where 2: "payment_history v2 tr2 db2" "early_store db2 summarised_payment (0 + 1 + 1) {''event:2'', ''event:1''}"
      "fst ` set tr2 = insert (ApplyPayment sample_pid (0 + 1) ?e2) (fst ` set tr1)"
    using early_apply [OF 1(1,2) built(1) intake(2) new cores(2) ordered(2), folded summarised_payment_def, unfolded ids]
    by (elim exE conjE) (rule that)
  have new: "payment_event_id ?e3 \<notin> {''event:2'', ''event:1''}" by (simp only: ids) simp
  obtain tr3 db3 where 3: "payment_history v2 tr3 db3" "early_store db3 agreed_payment (0 + 1 + 1 + 1) {''event:3'', ''event:2'', ''event:1''}"
      "fst ` set tr3 = insert (ApplyPayment sample_pid (0 + 1 + 1) ?e3) (fst ` set tr2)"
    using early_apply [OF 2(1,2) built(2) intake(3) new cores(3) ordered(3), folded agreed_payment_def, unfolded ids]
    by (elim exE conjE) (rule that)
  have calls: "\<forall>c \<in> fst ` set tr3. \<not> settlement_call c" unfolding 3(3) 2(3) 1(3) 0(3) by simp
  have "{''event:3'', ''event:2'', ''event:1''} = {''event:1'', ''event:2'', ''event:3''}" by blast
  then show ?thesis using 3(1,2) calls by (intro exI [of _ tr3] exI [of _ db3] exI [of _ "0 + 1 + 1 + 1"]) simp
qed

section \<open>The settlement\<close>

text \<open>The evidence is recorded and its command queued.\<close>

lemma sample_queued_history:
  "\<exists>tr db k w n. payment_history v2 tr db \<and> load_payment db sample_pid = Inr (w, n) \<and> pw_core w = queued_core k
    \<and> settlement_command_for pix_subject sample_verified = Inr k
    \<and> pd_ledger db = [queued_row_of k 5000] \<and> pd_commands db = [command_row_of k 5000] \<and> pd_outbox db = []
    \<and> pe_event_id ` set (pd_events db) = {''event:1'', ''event:2'', ''event:3'', ''event:4''}
    \<and> (\<forall>c \<in> fst ` set tr. \<not> settlement_call c)"
proof -
  let ?e = "PaymentEvidenceRecorded sample_record"
  obtain tr db n where h: "payment_history v2 tr db" "early_store db agreed_payment n {''event:1'', ''event:2'', ''event:3''}"
      and calls: "\<forall>c \<in> fst ` set tr. \<not> settlement_call c"
    using sample_agreed_history by blast
  have ok: "payments_ok db" using history_ok [OF h(1)] by blast
  note st = h(2) [unfolded early_store_def]
  obtain k where k: "settlement_command_for pix_subject sample_verified = Inr k" using settlement_command_total [OF sample_verified_built] by auto
  have r: "replay_event (pw_core agreed_payment) ?e = Inr (queued_core k)"
    unfolding sample_cores by (rule queued_replayed [OF k])
  have o: "in_order agreed_payment ?e"
    by (simp add: in_order_def sample_histories sample_choice_def sample_summary_def sample_confirmation_def sample_record_def)
  have e: "mk_payment_event ?e = Inr ()" using sample_events_built by simp
  have id: "er_event_id sample_record = ''event:4''" "er_recorded_at sample_record = 5000" by (simp_all add: sample_record_def)
  have new: "new_event db ?e" using st by (simp add: new_event_def id)
  have load: "load_payment db sample_pid = Inr (agreed_payment, n)" using st by blast
  have core: "pc_verified (queued_core k) = Some sample_verified" "pc_command (queued_core k) = Some k"
    by (simp_all add: queued_core_def)
  have fresh: "ve_claim_key sample_verified \<notin> pk_key ` set (pd_claims db)" "sc_id k \<notin> cr_id ` set (pd_commands db)"
      "sc_idempotency_key k \<notin> cr_idempotency_key ` set (pd_commands db)"
    using st by simp_all
  obtain db' w' m where db': "claim_payment_evidence db sample_pid n sample_record = Inr (db', applied_step agreed_payment ?e (queued_core k))"
      "load_payment db' sample_pid = Inr (w', m)" "pw_core w' = queued_core k"
      "pd_ledger db' = pd_ledger db @ [queued_row_of k (er_recorded_at sample_record)]"
      "pd_commands db' = pd_commands db @ [command_row_of k (er_recorded_at sample_record)]"
      "pe_event_id ` set (pd_events db') = insert (er_event_id sample_record) (pe_event_id ` set (pd_events db))"
      "pd_outbox db' = pd_outbox db"
    using evidence_commits [OF ok load e new r o core fresh] by blast
  let ?tr = "tr @ [(ClaimEvidence sample_pid n sample_record, PaymentTransitioned (applied_step agreed_payment ?e (queued_core k)))]"
  have 1: "payment_history v2 ?tr db'"
    by (rule history_step [OF h(1)]) (use e in \<open>simp_all add: holds_claim_def served [OF db'(1)] del: mk_payment_event.simps\<close>)
  have 2: "pd_ledger db' = [queued_row_of k 5000]" "pd_commands db' = [command_row_of k 5000]" "pd_outbox db' = []"
    using db'(4,5,7) st id by simp_all
  have 3: "pe_event_id ` set (pd_events db') = {''event:1'', ''event:2'', ''event:3'', ''event:4''}"
    using db'(6) st id by auto
  have 4: "\<forall>c \<in> fst ` set ?tr. \<not> settlement_call c" using calls by simp
  show ?thesis
    by (intro exI [of _ ?tr] exI [of _ db'] exI [of _ k] exI [of _ w'] exI [of _ m] conjI 1 2 3 4 k db'(2,3))
qed

text \<open>A worker claims it.\<close>

lemma updated_rows:
  "update_settlement db p f err = Inr db' \<Longrightarrow> db' = db\<lparr>pd_ledger := update_where p f (pd_ledger db)\<rparr>"
  "update_claim db key old st u msg = Inr db' \<Longrightarrow> db' = db\<lparr>pd_claims := pd_claims db'\<rparr>"
  by (auto simp: update_settlement_def update_claim_def bind_res_Inr_iff swap_one_Inr)

lemma claim_rows:
  assumes "claim_settlement db worker now ttl = Inr (db', Some claim)"
  shows "\<exists>p f c. db' = db\<lparr>pd_ledger := update_where p f (pd_ledger db), pd_claims := c\<rparr>" "sl_expires (sn_lease claim) = now + ttl"
proof -
  obtain sel where sel: "(case sel of None \<Rightarrow> Inr (db, None) | Some fr \<Rightarrow> claim_selected db worker now ttl fr) = Inr (db', Some claim)"
    using assms unfolding claim_settlement_selected bind_res_Inr_iff by blast
  then obtain fr where run: "claim_selected db worker now ttl fr = Inr (db', Some claim)" by (cases sel) auto
  then obtain x where x: "add_timedelta now ttl = Some x" by (auto simp: claim_selected_def split: option.splits)
  obtain db1 s p f err key old st u msg where 1: "update_settlement db p f err = Inr db1" "update_claim db1 key old st u msg = Inr db'"
      and s: "mk_settlement_lease worker (lv_count (fr_ledger fr) + 1) now x = Inr s"
        "mk_settlement_claim (fr_command fr) s (lv_count (fr_ledger fr) + 1) = Inr claim"
    using run unfolding claim_selected_def x option.case bind_res_Inr_iff
    by (elim exE conjE) (simp del: mk_settlement_lease_Inr mk_settlement_claim_Inr)
  show "\<exists>p f c. db' = db\<lparr>pd_ledger := update_where p f (pd_ledger db), pd_claims := c\<rparr>"
    using updated_rows(1) [OF 1(1)] updated_rows(2) [OF 1(2)] by auto
  show "sl_expires (sn_lease claim) = now + ttl" using s x by auto
qed

definition sample_lease :: settlement_lease where
  "sample_lease = \<lparr>sl_owner = ''worker:1'', sl_token = 1, sl_acquired = 5500, sl_expires = 6500\<rparr>"

lemma sample_worker: "id_re ''worker:1''" "strip ''worker:1'' = ''worker:1''" "exact_text ''worker:1'' f = Inr ''worker:1''"
proof -
  show id: "id_re ''worker:1''" by (simp add: char_class_defs ordc_def)
  show "strip ''worker:1'' = ''worker:1''" by (rule strip_id_re [OF id])
  show "exact_text ''worker:1'' f = Inr ''worker:1''" by (simp add: exact_text_def)
qed

definition sample_claim :: "settlement_command \<Rightarrow> settlement_claim" where
  "sample_claim k = \<lparr>sn_command = k, sn_lease = sample_lease, sn_count = 1\<rparr>"

definition sample_leased_row :: "settlement_command \<Rightarrow> settlement_row" where
  "sample_leased_row k = leased_settlement ''worker:1'' 5500 6500 1 (queued_row_of k 5000)"

lemma sample_claimed_history:
  "\<exists>tr db k. payment_history v2 tr db \<and> settlement_command_for pix_subject sample_verified = Inr k
    \<and> SettlementClaimed (Some (sample_claim k)) \<in> snd ` set tr
    \<and> pd_ledger db = [sample_leased_row k] \<and> pd_commands db = [command_row_of k 5000] \<and> pd_outbox db = []
    \<and> pe_event_id ` set (pd_events db) = {''event:1'', ''event:2'', ''event:3'', ''event:4''}
    \<and> (\<forall>w now ttl. ClaimSettlement w now ttl \<in> fst ` set tr \<longrightarrow> strip w = w)"
proof -
  obtain tr db k w n where h: "payment_history v2 tr db" "settlement_command_for pix_subject sample_verified = Inr k"
      and rows: "pd_ledger db = [queued_row_of k 5000]" "pd_commands db = [command_row_of k 5000]" "pd_outbox db = []"
      and ids: "pe_event_id ` set (pd_events db) = {''event:1'', ''event:2'', ''event:3'', ''event:4''}"
      and calls: "\<forall>c \<in> fst ` set tr. \<not> settlement_call c"
    using sample_queued_history [of v2] by (elim exE conjE) (rule that)
  have ok: "payments_ok db" using history_ok [OF h(1)] by blast
  have "claimable_settlement 5500 (queued_row_of k 5000)" by (simp add: claimable_settlement_def queued_row_of_def)
  moreover have "add_timedelta 5500 1000 = Some 6500" by (simp add: add_timedelta_def max_timestamp_def us_per_day_def)
  ultimately obtain db' claim where run: "claim_settlement db ''worker:1'' 5500 1000 = Inr (db', Some claim)"
    using claim_commits [OF ok, of "queued_row_of k 5000" 5500 "''worker:1''" 1000 6500] rows(1) sample_worker
    by (auto simp: exact_owner_def queued_row_of_def opt_all_def simp del: id_re.simps add_timedelta_Some)
  obtain l x where c: "find_row pl_command_id (sc_id (sn_command claim)) (pd_ledger db) = Some l"
      "find_row pl_command_id (sc_id (sn_command claim)) (pd_ledger db') = Some (leased_settlement ''worker:1'' 5500 x (pl_count l + 1) l)"
      "sn_count claim = pl_count l + 1" "sn_command claim \<in> cr_value ` set (pd_commands db)"
      "sn_lease claim = \<lparr>sl_owner = strip ''worker:1'', sl_token = pl_count l + 1, sl_acquired = 5500, sl_expires = x\<rparr>"
    using claim_settlement_effect [OF ok run] by (elim exE conjE) (rule that)
  have k: "sn_command claim = k" using c(4) rows(2) by (simp add: command_row_of_def)
  have l: "l = queued_row_of k 5000" using c(1) rows(1) by (simp split: if_splits)
  have x: "x = 6500" using claim_rows(2) [OF run] c(5) by simp
  have claim: "claim = sample_claim k"
    using c(3,5) k l x sample_worker(2) by (cases claim) (simp add: sample_claim_def sample_lease_def queued_row_of_def)
  obtain p f e where db': "db' = db\<lparr>pd_ledger := update_where p f (pd_ledger db), pd_claims := e\<rparr>"
    using claim_rows(1) [OF run] by blast
  then obtain y where y: "pd_ledger db' = [y]" using rows(1) by simp
  then have ledger: "pd_ledger db' = [sample_leased_row k]"
    using c(2) l x by (simp add: sample_leased_row_def queued_row_of_def split: if_splits)
  let ?tr = "tr @ [(ClaimSettlement ''worker:1'' 5500 1000, SettlementClaimed (Some claim))]"
  have 1: "payment_history v2 ?tr db'"
    by (rule history_step [OF h(1)]) (simp_all add: holds_claim_def served [OF run])
  have 2: "SettlementClaimed (Some (sample_claim k)) \<in> snd ` set ?tr" by (simp add: claim)
  have 3: "pd_commands db' = [command_row_of k 5000]" "pd_outbox db' = []"
      "pe_event_id ` set (pd_events db') = {''event:1'', ''event:2'', ''event:3'', ''event:4''}"
    using rows ids by (simp_all add: db')
  have 4: "\<forall>w now ttl. ClaimSettlement w now ttl \<in> fst ` set ?tr \<longrightarrow> strip w = w"
    using calls sample_worker(2) by fastforce
  show ?thesis
    by (intro exI [of _ ?tr] exI [of _ db'] exI [of _ k] conjI 1 2 3 4 ledger h(2))
qed

text \<open>It is fenced for its one dispatch.\<close>

lemma persist_rows:
  assumes "persist_transition op db w n e t = Inr db'"
  shows "pd_ledger db' = pd_ledger db" "pd_commands db' = pd_commands db" "pd_outbox db' = pd_outbox db"
    "pe_event_id ` set (pd_events db') = insert (payment_event_id e) (pe_event_id ` set (pd_events db))"
  using assms persist_events [OF assms]
  by (auto simp: persist_transition_def Let_def bind_res_Inr_iff update_payment_row_def insert_payment_event_def
      payment_event_row_of_def split: if_splits)

lemma fence_rows:
  assumes "fence_settlement db claim request now = Inr (db', permit)"
  shows "\<exists>p f. pd_ledger db' = update_where p f (pd_ledger db)" "pd_commands db' = pd_commands db" "pd_outbox db' = pd_outbox db"
    "pe_event_id ` set (pd_events db') = insert (settlement_event_id ''start'' (sc_id (sn_command claim))) (pe_event_id ` set (pd_events db))"
proof -
  obtain db1 p f err w n t where up: "update_settlement db p f err = Inr db1"
      and persist: "persist_transition ''fence_settlement'' db1 w n (SettlementStarted (start_event (sn_command claim) now)) t = Inr db'"
    using assms unfolding fence_settlement_def Let_def
    by (auto simp: bind_res_Inr_iff simp del: mk_settlement_permit_Inr mk_payment_event.simps)
  note u = updated_rows(1) [OF up] and r = persist_rows [OF persist]
  show "\<exists>p f. pd_ledger db' = update_where p f (pd_ledger db)" using r(1) by (auto simp: u)
  show "pd_commands db' = pd_commands db" "pd_outbox db' = pd_outbox db" using r(2,3) by (simp_all add: u)
  show "pe_event_id ` set (pd_events db') = insert (settlement_event_id ''start'' (sc_id (sn_command claim))) (pe_event_id ` set (pd_events db))"
    using r(4) by (simp add: u start_event_def)
qed

definition sample_permit :: "settlement_command \<Rightarrow> settlement_permit" where
  "sample_permit k = \<lparr>sp_command = k, sp_lease = sample_lease, sp_count = 1, sp_slot = 1,
     sp_request_hash = sha256_hex (sc_payload k), sp_fenced_at = 5600\<rparr>"

definition sample_fenced_row :: "settlement_command \<Rightarrow> settlement_row" where
  "sample_fenced_row k = fenced_settlement (sha256_hex (sc_payload k)) 5600 (sample_leased_row k)"

lemma sample_leased_fields [simp]:
  "pl_status (sample_leased_row k) = SETTLEMENT_LEASED" "pl_owner (sample_leased_row k) = Some ''worker:1''"
  "pl_token (sample_leased_row k) = 1" "pl_count (sample_leased_row k) = 1" "pl_acquired_at (sample_leased_row k) = Some 5500"
  "pl_expires_at (sample_leased_row k) = Some 6500" "pl_command_id (sample_leased_row k) = sc_id k"
  by (simp_all add: sample_leased_row_def leased_settlement_def queued_row_of_def)

lemma command_row_fields [simp]: "cr_id (command_row_of k t) = sc_id k" "cr_value (command_row_of k t) = k"
    "cr_created_at (command_row_of k t) = t"
  by (simp_all add: command_row_of_def)

lemma sample_fenced_history:
  "\<exists>tr db k. payment_history v2 tr db \<and> settlement_command_for pix_subject sample_verified = Inr k
    \<and> SettlementClaimed (Some (sample_claim k)) \<in> snd ` set tr \<and> SettlementPermitted (sample_permit k) \<in> snd ` set tr
    \<and> pd_ledger db = [sample_fenced_row k] \<and> pd_commands db = [command_row_of k 5000] \<and> pd_outbox db = []
    \<and> pe_event_id ` set (pd_events db) = {settlement_event_id ''start'' (sc_id k), ''event:1'', ''event:2'', ''event:3'', ''event:4''}
    \<and> (\<forall>w now ttl. ClaimSettlement w now ttl \<in> fst ` set tr \<longrightarrow> strip w = w)"
proof -
  obtain tr db k where h: "payment_history v2 tr db" "settlement_command_for pix_subject sample_verified = Inr k"
      "SettlementClaimed (Some (sample_claim k)) \<in> snd ` set tr"
      and rows: "pd_ledger db = [sample_leased_row k]" "pd_commands db = [command_row_of k 5000]" "pd_outbox db = []"
      and ids: "pe_event_id ` set (pd_events db) = {''event:1'', ''event:2'', ''event:3'', ''event:4''}"
      and calls: "\<forall>w now ttl. ClaimSettlement w now ttl \<in> fst ` set tr \<longrightarrow> strip w = w"
    using sample_claimed_history [of v2] by (elim exE conjE) (rule that)
  let ?m = "command_row_of k 5000" and ?l = "sample_leased_row k"
  have ok: "payments_ok db" using history_ok [OF h(1)] by blast
  have mem: "?m \<in> set (pd_commands db)" "?l \<in> set (pd_ledger db)" using rows by simp_all
  have lease: "leased_as sample_lease ?l" using sample_worker(2) by (simp add: leased_as_def sample_lease_def)
  have claim: "\<lparr>sn_command = cr_value ?m, sn_lease = sample_lease, sn_count = pl_count ?l\<rparr> = sample_claim k" by (simp add: sample_claim_def)
  have new: "new_event db (SettlementStarted (start_event (cr_value ?m) 5600))"
    by (simp add: new_event_def ids start_event_def settlement_event_id_def)
  obtain db' p where run: "fence_settlement db (sample_claim k) (sc_payload k) 5600 = Inr (db', p)"
    using fence_commits [OF ok mem _ lease _ _ _ new] unfolding claim by (auto simp: sample_lease_def)
  obtain l where f: "find_row pl_command_id (sc_id k) (pd_ledger db) = Some l"
      "find_row pl_command_id (sc_id k) (pd_ledger db') = Some (fenced_settlement (sha256_hex (sc_payload k)) 5600 l)"
      "mk_settlement_permit k sample_lease 1 1 (sha256_hex (sc_payload k)) 5600 = Inr p"
    using fence_settlement_effect [OF ok run] by (auto simp: sample_claim_def simp del: mk_settlement_permit_Inr)
  have p: "p = sample_permit k" using f(3) by (simp add: sample_permit_def)
  have l: "l = ?l" using f(1) rows(1) by simp
  obtain q g where "pd_ledger db' = update_where q g (pd_ledger db)" using fence_rows(1) [OF run] by blast
  then obtain y where y: "pd_ledger db' = [y]" using rows(1) by simp
  then have ledger: "pd_ledger db' = [sample_fenced_row k]" using f(2) l by (simp add: sample_fenced_row_def split: if_splits)
  let ?tr = "tr @ [(FenceSettlement (sample_claim k) (sc_payload k) 5600, SettlementPermitted p)]"
  have 1: "payment_history v2 ?tr db'"
    by (rule history_step [OF h(1)]) (simp_all add: holds_claim_def served [OF run])
  have 2: "SettlementClaimed (Some (sample_claim k)) \<in> snd ` set ?tr" "SettlementPermitted (sample_permit k) \<in> snd ` set ?tr"
    using h(3) by (simp_all add: p)
  have 3: "pd_commands db' = [command_row_of k 5000]" "pd_outbox db' = []"
      "pe_event_id ` set (pd_events db') = {settlement_event_id ''start'' (sc_id k), ''event:1'', ''event:2'', ''event:3'', ''event:4''}"
    using fence_rows(2-4) [OF run] rows ids by (simp_all add: sample_claim_def)
  have 4: "\<forall>w now ttl. ClaimSettlement w now ttl \<in> fst ` set ?tr \<longrightarrow> strip w = w" using calls by auto
  show ?thesis
    by (intro exI [of _ ?tr] exI [of _ db'] exI [of _ k] conjI 1 2 3 4 ledger h(2))
qed

text \<open>The worker never answers: once the lease has run out the recovery sends the payment to review.\<close>

lemma sample_fenced_fields [simp]:
  "pl_status (sample_fenced_row k) = SETTLEMENT_FENCED" "pl_owner (sample_fenced_row k) = Some ''worker:1''"
  "pl_slots (sample_fenced_row k) = 1" "pl_outcome (sample_fenced_row k) = None" "pl_expires_at (sample_fenced_row k) = Some 6500"
  "pl_command_id (sample_fenced_row k) = sc_id k" "pl_request_hash (sample_fenced_row k) = Some (sha256_hex (sc_payload k))"
  "pl_count (sample_fenced_row k) = 1" "pl_token (sample_fenced_row k) = 1"
  by (simp_all add: sample_fenced_row_def fenced_settlement_def) (simp_all add: sample_leased_row_def leased_settlement_def queued_row_of_def)

lemma sample_reviewable:
  assumes "payment_history v2 tr db" "pd_ledger db = [sample_fenced_row k]" "pd_commands db = [command_row_of k 5000]" "pd_outbox db = []"
    "pe_event_id ` set (pd_events db) = {settlement_event_id ''start'' (sc_id k), ''event:1'', ''event:2'', ''event:3'', ''event:4''}"
  shows "expired_candidates db 7000 SETTLEMENT_FENCED 1 = [sample_fenced_row k]" "exact_owner (sample_fenced_row k)"
    "new_event db (SettlementFinished (finish_event k (unknown_settlement (sha256_hex (sc_payload k))) 7000))"
  using assms(2,5) sample_worker(2)
  by (simp_all add: expired_candidates_def expired_settlement_def exact_owner_def opt_all_def new_event_def finish_event_def
      settlement_event_id_def)

lemma recover_fenced_rows:
  assumes "recover_expired_fenced_settlement db now = Inr (db', Some cid)"
  shows "\<exists>p f. pd_ledger db' = update_where p f (pd_ledger db)" "pd_commands db' = pd_commands db"
proof -
  have "\<exists>row w n fr. recover_fenced_loaded db now row w n fr = Inr (db', Some cid)"
    using assms by (auto simp: recover_expired_fenced_settlement_def bind_res_Inr_iff split: list.splits)
  then obtain row w' n' fr where run: "recover_fenced_loaded db now row w' n' fr = Inr (db', Some cid)" by blast
  obtain lease h f where lv: "lv_lease (fr_ledger fr) = Some lease" "lv_request_hash (fr_ledger fr) = Some h"
      "lv_fenced_at (fr_ledger fr) = Some f"
    using run by (auto simp: recover_fenced_loaded_def Let_def split: option.splits)
  note rest = run [unfolded recover_fenced_loaded_def Let_def lv option.case prod.case]
  obtain op k k' w n held st cst u m1 m2 t where
      "close_settlement op db k k' w n held st cst u now m1 m2 = Inr (db', t)"
    using rest by (auto simp: bind_res_Inr_iff)
  then obtain db1 db2 db3 e where 1: "update_settlement db held (closed_settlement st u now) (StaleLease m1) = Inr db1"
      "update_claim db1 (sc_claim_key k) {CLAIM_IN_PROGRESS} cst (Some now) m2 = Inr db2"
      "insert_payment_jobs op db2 k' (pw_policy w) u now = Inr db3" "persist_transition op db3 w n e t = Inr db'"
    unfolding close_settlement_def Let_def by (auto simp: bind_res_Inr_iff simp del: mk_payment_event.simps)
  have 2: "db1 = db\<lparr>pd_ledger := update_where held (closed_settlement st u now) (pd_ledger db)\<rparr>" "db2 = db1\<lparr>pd_claims := pd_claims db2\<rparr>"
      "\<exists>x. db3 = db2\<lparr>pd_outbox := x\<rparr>"
    using updated_rows 1(1-3) by (auto simp: insert_payment_jobs_Inr)
  then obtain c x where 3: "db3 = db\<lparr>pd_ledger := update_where held (closed_settlement st u now) (pd_ledger db), pd_claims := c, pd_outbox := x\<rparr>"
    by metis
  show "\<exists>p f. pd_ledger db' = update_where p f (pd_ledger db)" "pd_commands db' = pd_commands db"
    using persist_rows(1,2) [OF 1(4)] by (auto simp: 3)
qed

definition sample_closed_row :: "settlement_command \<Rightarrow> settlement_row" where
  "sample_closed_row k = closed_settlement SETTLEMENT_REVIEW (unknown_settlement (sha256_hex (sc_payload k))) 7000 (sample_fenced_row k)"

lemma sample_reviewed_history:
  "\<exists>tr db k. payment_history v2 tr db \<and> settlement_command_for pix_subject sample_verified = Inr k
    \<and> SettlementClaimed (Some (sample_claim k)) \<in> snd ` set tr \<and> SettlementPermitted (sample_permit k) \<in> snd ` set tr
    \<and> FencedRecovered (Some (sc_id k)) \<in> snd ` set tr
    \<and> pd_ledger db = [sample_closed_row k] \<and> pd_commands db = [command_row_of k 5000]"
proof -
  obtain tr db k where h: "payment_history v2 tr db" "settlement_command_for pix_subject sample_verified = Inr k"
      "SettlementClaimed (Some (sample_claim k)) \<in> snd ` set tr" "SettlementPermitted (sample_permit k) \<in> snd ` set tr"
      and rows: "pd_ledger db = [sample_fenced_row k]" "pd_commands db = [command_row_of k 5000]" "pd_outbox db = []"
      and ids: "pe_event_id ` set (pd_events db) = {settlement_event_id ''start'' (sc_id k), ''event:1'', ''event:2'', ''event:3'', ''event:4''}"
    using sample_fenced_history [of v2] by (elim exE conjE) (rule that)
  have ok: "payments_ok db" using history_ok [OF h(1)] by blast
  note r = sample_reviewable [OF h(1) rows ids]
  obtain db' where run: "recover_expired_fenced_settlement db 7000 = Inr (db', Some (sc_id k))"
    using recover_fenced_commits [OF ok r(1,2), of "command_row_of k 5000"] r(3) rows(2,3) by auto
  obtain l g where e: "pl_request_hash l = Some g" "find_row pl_command_id (sc_id k) (pd_ledger db) = Some l"
      "find_row pl_command_id (sc_id k) (pd_ledger db') = Some (closed_settlement SETTLEMENT_REVIEW (unknown_settlement g) 7000 l)"
    using recover_fenced_effect [OF ok run] by auto
  then have l: "l = sample_fenced_row k" "g = sha256_hex (sc_payload k)" using rows(1) by auto
  obtain p f where "pd_ledger db' = update_where p f (pd_ledger db)" using recover_fenced_rows(1) [OF run] by blast
  then obtain y where y: "pd_ledger db' = [y]" using rows(1) by simp
  then have 3: "pd_ledger db' = [sample_closed_row k]" using e(3) l by (simp add: sample_closed_row_def split: if_splits)
  have 4: "pd_commands db' = [command_row_of k 5000]" using recover_fenced_rows(2) [OF run] rows(2) by simp
  let ?tr = "tr @ [(RecoverFenced 7000, FencedRecovered (Some (sc_id k)))]"
  have 1: "payment_history v2 ?tr db'"
    by (rule history_step [OF h(1)]) (simp_all add: holds_claim_def served [OF run])
  have 2: "SettlementClaimed (Some (sample_claim k)) \<in> snd ` set ?tr" "SettlementPermitted (sample_permit k) \<in> snd ` set ?tr"
      "FencedRecovered (Some (sc_id k)) \<in> snd ` set ?tr"
    using h(3,4) by simp_all
  show ?thesis by (intro exI [of _ ?tr] exI [of _ db'] exI [of _ k] conjI 1 2 3 4 h(2))
qed

lemma sample_command_payment: "settlement_command_for pix_subject sample_verified = Inr k \<Longrightarrow> sc_payment_id k = sample_pid"
  using settlement_command_for_fields(1) [of pix_subject sample_verified k] by simp

lemma sample_payment_stored:
  assumes "payment_history v2 tr db" "settlement_command_for pix_subject sample_verified = Inr k"
    "pd_commands db = [command_row_of k 5000]"
  shows "sample_pid \<in> payment_ids db"
proof -
  have "cr_payment_id ` set (pd_commands db) \<subseteq> payment_ids db"
    using history_ok [OF assms(1)] by (simp add: payments_ok_def tables_ok_def no_orphans_def)
  then show ?thesis using sample_command_payment [OF assms(2)] assms(3) by (simp add: command_row_of_def)
qed

end
