(* ===== verification/Pay_Safety.thy ===== *)
theory Pay_Safety
  imports Pay_Example
begin

text \<open>
  The properties of the payment store over whole histories: any calls, by any number of workers, in
  any order, some of which fail and roll back. They are what keeps a customer's payment from being
  settled twice, one proof of payment from paying for two reservations, and an answer of the
  settlement provider from being lost or overwritten.
\<close>

section \<open>Histories and their stores\<close>

lemma history_unique: "payment_history v2 tr db \<Longrightarrow> payment_history v2 tr db' \<Longrightarrow> db' = db"
proof (induction tr arbitrary: db db' rule: rev_induct)
  case Nil
  then show ?case by (simp add: payment_history_Nil)
next
  case (snoc x tr)
  then show ?case by (cases x) (fastforce simp: payment_history_snoc)
qed

lemma history_extended:
  assumes "payment_history v2 tr db" "payment_history v2 (tr @ tr') db'"
  shows "payments_evolve db db'"
  using history_prefix [OF assms(2)] history_unique [OF assms(1)] by blast

lemma evolved_ledger:
  "payments_evolve a b \<Longrightarrow> find_row pl_command_id cid (pd_ledger a) = Some l
    \<Longrightarrow> \<exists>l'. find_row pl_command_id cid (pd_ledger b) = Some l' \<and> settlement_evolves l l'"
  unfolding payments_evolve_def table_evolves_def by blast

lemma history_tables: "payment_history v2 tr db \<Longrightarrow> tables_ok db"
  using history_ok by (auto simp: payments_ok_def)

lemma history_keys: "payment_history v2 tr db \<Longrightarrow> payment_keys db"
  using history_tables by (auto simp: tables_ok_def)

section \<open>The tables\<close>

text \<open>
  C22: Whatever calls the store served, its payment tables satisfy the constraints the schema
  declares for them: the shape of every column, the lifecycle matrices of the ledger and the outbox,
  the columns version 2 adds to the outbox (a dispatch slot of 0 or 1, an authority that is complete
  or absent, a revision that is not negative, a dispatch deadline not before the row's creation), the
  primary and unique keys and the foreign keys. No call the code commits leaves a row that the
  database would have refused.
\<close>

theorem payment_tables_typed:
  assumes "payment_history v2 tr db"
  shows "payment_schema db"
  by (rule history_schema [OF assms])

theorem payment_tables_typed_witness:
  "\<exists>tr db k. payment_history True tr db \<and> FencedRecovered (Some k) \<in> snd ` set tr \<and> payment_schema db"
  using sample_reviewed_history [of True] payment_tables_typed by blast

text \<open>
  C5: In every store a history leaves, every payment loads: its row is the replay of its events, and
  it has one evidence claim, one command and one ledger row, all of its own command, when its
  evidence was accepted and none otherwise. No row belongs to a payment that is not there.
\<close>

theorem every_payment_loads:
  assumes h: "payment_history v2 tr db"
  shows "if pid \<in> payment_ids db
    then \<exists>w n. load_payment db pid = Inr (w, n) \<and> wf_payment w \<and> ps_payment_id (pc_subject (pw_core w)) = pid
       \<and> (case pc_command (pw_core w) of
            None \<Rightarrow> pid \<notin> pk_payment_id ` set (pd_claims db) \<union> cr_payment_id ` set (pd_commands db) \<union> pl_payment_id ` set (pd_ledger db)
          | Some k \<Rightarrow> \<exists>c m l. tuple_rows db pid k c m l \<and> cr_value m = k)
    else \<exists>err. load_payment db pid = Inl err
       \<and> pid \<notin> pk_payment_id ` set (pd_claims db) \<union> cr_payment_id ` set (pd_commands db) \<union> pl_payment_id ` set (pd_ledger db)
         \<union> pb_payment_id ` set (pd_outbox db)"
proof (cases "pid \<in> payment_ids db")
  case True
  have ok: "payments_ok db" using history_ok [OF h] by blast
  obtain w n where load: "load_payment db pid = Inr (w, n)" using ok True by (auto simp: payments_ok_def)
  note f = load_payment_facts [OF load]
  obtain x where x: "payment_financial_records db w = Inr x" using f(5) by blast
  show ?thesis
  proof (cases "pc_command (pw_core w)")
    case None
    then show ?thesis using True load f(1,2) x by (auto simp: financial_records_none [OF None] filter_empty_conv)
  next
    case (Some k)
    then obtain c m l fr where t: "tuple_rows db pid k c m l" "records_valid db w k c m l fr"
      using x financial_records_some [OF history_keys [OF h] f(1) Some] f(2) by auto
    then have "decode_payment_command m w = Inr k" by (simp add: records_valid_def)
    then have "cr_value m = k" using decode_command_row by blast
    then show ?thesis using True load f(1,2) Some t(1) by auto
  qed
next
  case False
  have t0: "tables_ok db" by (rule history_tables [OF h])
  have "pid \<notin> cr_payment_id ` set (pd_commands db)" "pb_payment_id ` set (pd_outbox db) \<subseteq> cr_payment_id ` set (pd_commands db)"
    using t0 False by (auto simp: tables_ok_def no_orphans_def)
  then have "pid \<notin> pb_payment_id ` set (pd_outbox db)" by blast
  then show ?thesis
    using t0 False load_payment_facts(4) [of db pid]
    by (cases "load_payment db pid") (auto simp: tables_ok_def no_orphans_def payment_ids_def dest!: find_row_Some)
qed

theorem every_payment_loads_witness:
  "\<exists>tr db (k :: settlement_command) w n. payment_history True tr db \<and> FencedRecovered (Some (sc_id k)) \<in> snd ` set tr
     \<and> load_payment db sample_pid = Inr (w, n) \<and> wf_payment w"
proof -
  obtain tr db k where h: "payment_history True tr db" "settlement_command_for pix_subject sample_verified = Inr k"
      "FencedRecovered (Some (sc_id k)) \<in> snd ` set tr" "pd_commands db = [command_row_of k 5000]"
    using sample_reviewed_history [of True] by (elim exE conjE) (rule that)
  obtain w n where "load_payment db sample_pid = Inr (w, n)" "wf_payment w"
    using every_payment_loads [OF h(1), of sample_pid, unfolded if_P [OF sample_payment_stored [OF h(1,2,4)]]] by blast
  then show ?thesis using h(1,3)
    by (intro exI [of _ tr] exI [of _ db] exI [of _ k] exI [of _ w] exI [of _ n] conjI)
qed

section \<open>One dispatch per payment\<close>

lemma history_bounds:
  assumes "payment_history v2 tr db"
  shows "claims_of tr cid \<le> 3 \<and> permits_of tr cid \<le> 1"
proof (cases "find_row pl_command_id cid (pd_ledger db)")
  case (Some l)
  then have "l \<in> set (pd_ledger db)" using find_row_Some [OF Some] by blast
  from ledger_row_counters [OF _ this] show ?thesis
    using history_counts [OF assms, of cid] history_ok [OF assms] Some by auto
qed (use history_counts [OF assms, of cid] in simp)

text \<open>
  C3: For every settlement command the store gives out at most three claims and at most one permit
  to dispatch it, whoever asks and in whatever order, and once it has given out the permit it gives
  out neither a claim nor a permit for it again.
\<close>

theorem settlement_dispatched_once:
  assumes h: "payment_history v2 (tr @ tr') db"
  shows "claims_of (tr @ tr') cid \<le> 3 \<and> permits_of (tr @ tr') cid \<le> 1
    \<and> (permits_of tr cid = 0 \<or> claims_of tr' cid = 0 \<and> permits_of tr' cid = 0)"
proof -
  obtain db1 where h1: "payment_history v2 tr db1" and ev: "payments_evolve db1 db" using history_prefix [OF h] by blast
  have ok1: "payments_ok db1" and ok: "payments_ok db" using history_ok [OF h1] history_ok [OF h] by blast+
  note c1 = history_counts [OF h1, of cid] and c = history_counts [OF h, of cid]
  have "claims_of tr' cid = 0 \<and> permits_of tr' cid = 0" if p: "permits_of tr cid \<noteq> 0"
  proof -
    obtain l where l: "find_row pl_command_id cid (pd_ledger db1) = Some l" "pl_slots l \<noteq> 0"
      using p c1 by (cases "find_row pl_command_id cid (pd_ledger db1)") auto
    obtain l' where l': "find_row pl_command_id cid (pd_ledger db) = Some l'" "settlement_evolves l l'"
      using evolved_ledger [OF ev l(1)] by blast
    have "pl_count l = pl_token l" "pl_count l' = pl_token l'"
      using ledger_row_counters(3) [OF ok1] ledger_row_counters(3) [OF ok] find_row_Some [OF l(1)] find_row_Some [OF l'(1)] by simp_all
    then have "pl_count l' = pl_count l" "pl_slots l' = pl_slots l" using l'(2) l(2) by (simp_all add: settlement_evolves_def)
    then show ?thesis using c1 c l(1) l'(1) by simp
  qed
  with history_bounds [OF h, of cid] show ?thesis by blast
qed

theorem settlement_dispatched_once_witness:
  "\<exists>tr db k. payment_history True tr db \<and> SettlementPermitted (sample_permit k) \<in> snd ` set tr
     \<and> claims_of (tr @ []) (sc_id k) \<le> 3 \<and> permits_of (tr @ []) (sc_id k) \<le> 1"
proof -
  obtain tr db k where h: "payment_history True tr db" "SettlementPermitted (sample_permit k) \<in> snd ` set tr"
    using sample_reviewed_history [of True] by blast
  have "payment_history True (tr @ []) db" using h(1) by simp
  from settlement_dispatched_once [OF this, of "sc_id k"] h show ?thesis by blast
qed

section \<open>What is recorded stays\<close>

lemma final_row:
  assumes "table_evolves key evolves rows rows'" "distinct (map key rows)" "r \<in> set rows" "\<And>r'. evolves r r' \<Longrightarrow> r' = r"
  shows "r \<in> set rows'"
proof -
  obtain r' where "find_row key (key r) rows' = Some r'" "evolves r r'"
    using assms(1) find_row_unique [OF assms(2,3)] by (auto simp: table_evolves_def)
  then show ?thesis using assms(4) find_row_Some by metis
qed

text \<open>
  C8: A settlement whose outcome is recorded, evidence that is consumed, an effect that is delivered
  and a payment that is closed are never changed again, and the events, the commands and the
  receipts are only appended to, whatever is called afterwards.
\<close>

theorem recorded_settlement_final:
  assumes h: "payment_history v2 tr db" and h': "payment_history v2 (tr @ tr') db'"
  shows "{l \<in> set (pd_ledger db). pl_outcome l \<noteq> None} \<subseteq> set (pd_ledger db')
    \<and> {c \<in> set (pd_claims db). pk_consumed_at c \<noteq> None} \<subseteq> set (pd_claims db')
    \<and> {r \<in> set (pd_outbox db). pb_status r = EFFECT_DELIVERED} \<subseteq> set (pd_outbox db')
    \<and> {w \<in> set (pd_workflows db). closed_payment (pr_status w)} \<subseteq> set (pd_workflows db')
    \<and> (\<exists>events commands receipts. pd_events db' = pd_events db @ events \<and> pd_commands db' = pd_commands db @ commands
         \<and> pd_receipts db' = pd_receipts db @ receipts)"
proof -
  have ev: "payments_evolve db db'" by (rule history_extended [OF h h'])
  note e = ev [unfolded payments_evolve_def] and d = history_keys [OF h, unfolded payment_keys_def]
  have "l \<in> set (pd_ledger db')" if "l \<in> set (pd_ledger db)" "pl_outcome l \<noteq> None" for l
    by (rule final_row [of pl_command_id settlement_evolves "pd_ledger db"]) (use e d that in \<open>simp_all add: settlement_evolves_def\<close>)
  moreover have "c \<in> set (pd_claims db')" if "c \<in> set (pd_claims db)" "pk_consumed_at c \<noteq> None" for c
    by (rule final_row [of pk_key claim_evolves "pd_claims db"]) (use e d that in \<open>simp_all add: claim_evolves_def\<close>)
  moreover have "r \<in> set (pd_outbox db')" if "r \<in> set (pd_outbox db)" "pb_status r = EFFECT_DELIVERED" for r
    by (rule final_row [of pb_message_id effect_evolves "pd_outbox db"]) (use e d that in \<open>simp_all add: effect_evolves_def\<close>)
  moreover have "w \<in> set (pd_workflows db')" if "w \<in> set (pd_workflows db)" "closed_payment (pr_status w)" for w
    by (rule final_row [of pr_id workflow_evolves "pd_workflows db"]) (use e d that in \<open>simp_all add: workflow_evolves_def\<close>)
  ultimately show ?thesis using e by blast
qed

theorem recorded_settlement_final_witness:
  "\<exists>tr db k. payment_history True tr db \<and> FencedRecovered (Some (sc_id k)) \<in> snd ` set tr
     \<and> {l \<in> set (pd_ledger db). pl_outcome l \<noteq> None} = {sample_closed_row k}
     \<and> {l \<in> set (pd_ledger db). pl_outcome l \<noteq> None} \<subseteq> set (pd_ledger db)"
proof -
  obtain tr db k where h: "payment_history True tr db" "FencedRecovered (Some (sc_id k)) \<in> snd ` set tr"
      "pd_ledger db = [sample_closed_row k]"
    using sample_reviewed_history [of True] by (elim exE conjE) (rule that)
  have "payment_history True (tr @ []) db" using h(1) by simp
  from recorded_settlement_final [OF h(1) this] have "{l \<in> set (pd_ledger db). pl_outcome l \<noteq> None} \<subseteq> set (pd_ledger db)" by blast
  moreover have "pl_outcome (sample_closed_row k) \<noteq> None" by (simp add: sample_closed_row_def closed_settlement_def)
  ultimately show ?thesis using h by (intro exI [of _ tr] exI [of _ db] exI [of _ k]) auto
qed

section \<open>One proof of payment, one payment\<close>

text \<open>The sum of a count over the rows with a given key, of which there is at most one.\<close>

lemma sum_one_row:
  assumes "inj_on key (set rows)" "distinct rows" "\<And>m. num m \<le> (1 :: int)"
  shows "sum_list (map num (filter (\<lambda>m. key m = x) rows)) \<le> 1"
proof -
  define ms where "ms = filter (\<lambda>m. key m = x) rows"
  have same: "m = m'" if "m \<in> set ms" "m' \<in> set ms" for m m'
    using that assms(1) by (auto simp: ms_def inj_on_def)
  have d: "distinct ms" using assms(2) by (simp add: ms_def)
  have "sum_list (map num ms) \<le> 1"
  proof (cases ms)
    case (Cons m ns)
    have "ns = []"
    proof (cases ns)
      case (Cons m' _)
      then show ?thesis using same [of m m'] d \<open>ms = m # ns\<close> by simp
    qed simp
    then show ?thesis using Cons assms(3) by simp
  qed simp
  then show ?thesis by (simp add: ms_def)
qed

lemma permitted_commands:
  assumes "payment_history v2 tr db"
  shows "{cid. permits_of tr cid \<noteq> 0} \<subseteq> cr_id ` set (pd_commands db)"
proof
  fix cid assume "cid \<in> {cid. permits_of tr cid \<noteq> 0}"
  then obtain l where "find_row pl_command_id cid (pd_ledger db) = Some l"
    using history_counts [OF assms, of cid] by (cases "find_row pl_command_id cid (pd_ledger db)") auto
  then have l: "l \<in> set (pd_ledger db)" "pl_command_id l = cid" using find_row_Some by fastforce+
  have ok: "payments_ok db" using history_ok [OF assms] by blast
  obtain w n k c m fr where fin: "financed db w k c m l fr" using payment_ledger_row [OF ok l(1)] by blast
  then have "pl_command_id l = cr_id m" using financed_claim_command(4) by blast
  moreover have "m \<in> set (pd_commands db)" using financed_mem(2) [OF fin] .
  ultimately show "cid \<in> cr_id ` set (pd_commands db)" using l(2) by blast
qed

text \<open>The evidence, the idempotency key and the payment each name one command of the store.\<close>

lemma command_keys_unique:
  assumes h: "payment_history v2 tr db"
  shows "inj_on (sc_claim_key \<circ> cr_value) (set (pd_commands db)) \<and> inj_on (sc_idempotency_key \<circ> cr_value) (set (pd_commands db))
    \<and> inj_on (sc_payment_id \<circ> cr_value) (set (pd_commands db))"
proof -
  have ok: "payments_ok db" using history_ok [OF h] by blast
  note d = history_keys [OF h, unfolded payment_keys_def]
  have rows: "\<exists>c l. tuple_rows db (sc_payment_id (cr_value m)) (cr_value m) c m l \<and> cr_idempotency_key m = sc_idempotency_key (cr_value m)"
    if mem: "m \<in> set (pd_commands db)" for m
  proof -
    obtain w c l fr where f: "financed db w (cr_value m) c m l fr" using stored_financed [OF ok mem] by blast
    then have "decode_payment_command m w = Inr (cr_value m)" by (simp add: financed_def records_valid_def)
    then have "cr_idempotency_key m = sc_idempotency_key (cr_value m)" by (auto simp: decode_payment_command_def Let_def bind_res_Inr_iff)
    with f show ?thesis by (auto simp: financed_def)
  qed
  have same: "m' = m" if m: "m \<in> set (pd_commands db)" "m' \<in> set (pd_commands db)"
      and pid: "sc_payment_id (cr_value m') = sc_payment_id (cr_value m)" for m m'
  proof -
    obtain c l where "tuple_rows db (sc_payment_id (cr_value m)) (cr_value m) c m l" using rows [OF m(1)] by blast
    then have one: "filter (\<lambda>r. cr_payment_id r = sc_payment_id (cr_value m)) (pd_commands db) = [m]" by (simp add: tuple_rows_def)
    obtain c' l' where "tuple_rows db (sc_payment_id (cr_value m')) (cr_value m') c' m' l'" using rows [OF m(2)] by blast
    then have "cr_payment_id m' = sc_payment_id (cr_value m)" using tuple_rows_mem(5) pid by fastforce
    then show ?thesis by (rule single_row [OF one m(2)])
  qed
  have by_key: "m' = m" if m: "m \<in> set (pd_commands db)" "m' \<in> set (pd_commands db)"
      and key: "sc_claim_key (cr_value m') = sc_claim_key (cr_value m)" for m m'
  proof -
    obtain c l c' l' where t: "tuple_rows db (sc_payment_id (cr_value m)) (cr_value m) c m l"
        "tuple_rows db (sc_payment_id (cr_value m')) (cr_value m') c' m' l'"
      using rows [OF m(1)] rows [OF m(2)] by blast
    have "pk_key c' = pk_key c" using t key by (simp add: tuple_rows_def)
    moreover have "distinct (map pk_key (pd_claims db))" using d by simp
    ultimately have "c' = c" using unique_row [OF _ tuple_rows_mem(1) [OF t(1)] tuple_rows_mem(1) [OF t(2)]] by blast
    then have "sc_payment_id (cr_value m') = sc_payment_id (cr_value m)" using tuple_rows_mem(4) [OF t(1)] tuple_rows_mem(4) [OF t(2)] by simp
    then show ?thesis by (rule same [OF m])
  qed
  have by_idem: "m' = m" if m: "m \<in> set (pd_commands db)" "m' \<in> set (pd_commands db)"
      and key: "sc_idempotency_key (cr_value m') = sc_idempotency_key (cr_value m)" for m m'
  proof (rule unique_row [of cr_idempotency_key "pd_commands db"])
    show "distinct (map cr_idempotency_key (pd_commands db))" using d by simp
    show "cr_idempotency_key m' = cr_idempotency_key m" using rows [OF m(1)] rows [OF m(2)] key by auto
  qed (use m in simp_all)
  show ?thesis by (intro conjI inj_onI) (rule by_key by_idem same, assumption+, simp)+
qed

text \<open>
  C10: One claim key settles one payment, once: whatever the store served, no two of its commands have
  the same evidence claim key, the same idempotency key or the same payment; a permit was only ever
  given out for a command that is stored; and over the whole history at most one permit to dispatch
  was given out for all commands with a given claim key together. The claim key names what was
  attested: a Wise digest, a Stripe account and event, a Pix end-to-end identifier or provider
  reference. A Pix transfer that is attested once under each of the two Pix identifiers has two claim
  keys, and the store does not recognise it as one transfer.
\<close>

theorem evidence_settles_once:
  assumes h: "payment_history v2 tr db"
  shows "inj_on (sc_claim_key \<circ> cr_value) (set (pd_commands db)) \<and> inj_on (sc_idempotency_key \<circ> cr_value) (set (pd_commands db))
    \<and> inj_on (sc_payment_id \<circ> cr_value) (set (pd_commands db))
    \<and> {cid. permits_of tr cid \<noteq> 0} \<subseteq> cr_id ` set (pd_commands db)
    \<and> sum_list (map (\<lambda>m. permits_of tr (cr_id m)) (filter (\<lambda>m. sc_claim_key (cr_value m) = key) (pd_commands db))) \<le> 1"
proof -
  note inj = command_keys_unique [OF h]
  have "distinct (map cr_id (pd_commands db))" using history_keys [OF h] by (simp add: payment_keys_def)
  then have "distinct (pd_commands db)" by (simp add: distinct_map)
  from sum_one_row [OF conjunct1 [OF inj] this, of "\<lambda>m. permits_of tr (cr_id m)" key]
  have "sum_list (map (\<lambda>m. permits_of tr (cr_id m)) (filter (\<lambda>m. sc_claim_key (cr_value m) = key) (pd_commands db))) \<le> 1"
    using history_bounds [OF h] by simp
  with inj permitted_commands [OF h] show ?thesis by blast
qed

theorem evidence_settles_once_witness:
  "\<exists>tr db k. payment_history True tr db \<and> pd_commands db = [command_row_of k 5000] \<and> sc_payment_id k = sample_pid
     \<and> SettlementPermitted (sample_permit k) \<in> snd ` set tr
     \<and> inj_on (sc_claim_key \<circ> cr_value) (set (pd_commands db))
     \<and> sum_list (map (\<lambda>m. permits_of tr (cr_id m)) (filter (\<lambda>m. sc_claim_key (cr_value m) = sc_claim_key k) (pd_commands db))) = 1"
proof -
  obtain tr db k where h: "payment_history True tr db" "settlement_command_for pix_subject sample_verified = Inr k"
      "pd_commands db = [command_row_of k 5000]" "SettlementPermitted (sample_permit k) \<in> snd ` set tr"
      "pd_ledger db = [sample_closed_row k]"
    using sample_reviewed_history [of True] by (elim exE conjE) (rule that)
  have rows: "filter (\<lambda>m. sc_claim_key (cr_value m) = sc_claim_key k) (pd_commands db) = [command_row_of k 5000]"
    by (simp add: h(3) command_row_of_def)
  have "find_row pl_command_id (sc_id k) (pd_ledger db) = Some (sample_closed_row k)" "pl_slots (sample_closed_row k) = 1"
    by (simp_all add: h(5) sample_closed_row_def closed_settlement_def sample_fenced_row_def fenced_settlement_def
        sample_leased_row_def leased_settlement_def queued_row_of_def)
  then have "permits_of tr (sc_id k) = 1" using history_counts [OF h(1), of "sc_id k"] by simp
  then show ?thesis
    using evidence_settles_once [OF h(1), of "sc_claim_key k"] sample_command_payment [OF h(2)] h rows
    by (intro exI [of _ tr] exI [of _ db] exI [of _ k]) (auto simp: command_row_of_def)
qed

section \<open>The payment and its ledger agree\<close>

lemma history_financed:
  assumes h: "payment_history v2 tr db" and load: "load_payment db pid = Inr (w, n)" and k: "pc_command (pw_core w) = Some k"
  shows "\<exists>c m l fr. financed db w k c m l fr \<and> find_row pl_command_id (sc_id k) (pd_ledger db) = Some l \<and> sc_payment_id k = pid"
proof -
  note f = load_payment_facts [OF load]
  obtain x where x: "payment_financial_records db w = Inr x" using f(5) by blast
  obtain c m l fr where t: "tuple_rows db pid k c m l" "records_valid db w k c m l fr"
    using x financial_records_some [OF history_keys [OF h] f(1) k, of x] f(2) by auto
  have pid: "sc_payment_id k = pid" using command_fields(1) [OF f(1) k] f(2) by simp
  have "find_row pl_command_id (pl_command_id l) (pd_ledger db) = Some l"
    by (rule find_row_unique) (use history_keys [OF h] tuple_rows_mem(3) [OF t(1)] in \<open>simp_all add: payment_keys_def\<close>)
  then have "find_row pl_command_id (sc_id k) (pd_ledger db) = Some l" using t(1) by (simp add: tuple_rows_def)
  moreover have "financed db w k c m l fr" using f(1) k t pid by (simp add: financed_def)
  ultimately show ?thesis using pid by blast
qed

lemma decoded_outcome:
  assumes "financed db w k c m l fr"
  shows "lv_outcome (fr_ledger fr) = pl_outcome l"
proof -
  have "decode_outcome l = Inr (lv_outcome (fr_ledger fr))" using decode_ledger_row [OF financed_ledger [OF assms]] by (elim conjE)
  then show ?thesis by (cases "lv_outcome (fr_ledger fr)") (auto simp: decode_outcome_Inr)
qed

text \<open>
  C20: A payment says of its money what the ledger can prove: it waits while nothing was dispatched,
  settles while one request is out, is paid exactly when that request was answered with a settled
  outcome, can be tried again only if no request ever went out, and goes to review whenever one did
  and the answer is anything else. The one request is the canonical payload of its command.
\<close>

theorem payment_agrees_with_ledger:
  assumes "payment_history v2 tr db" "load_payment db pid = Inr (w, n)" "pc_command (pw_core w) = Some k"
  shows "\<exists>l. find_row pl_command_id (sc_id k) (pd_ledger db) = Some l
    \<and> pl_request_hash l = (if pl_slots l = 1 then Some (sha256_hex (sc_payload k)) else None)
    \<and> (case pc_status (pw_core w) of
         PAY_SETTLEMENT_QUEUED \<Rightarrow> pl_slots l = 0 \<and> pl_outcome l = None
       | PAY_SETTLING \<Rightarrow> pl_slots l = 1 \<and> pl_outcome l = None
       | PAY_PAID \<Rightarrow> pl_slots l = 1 \<and> map_option so_certainty (pl_outcome l) = Some SETTLED
       | PAY_RETRYABLE \<Rightarrow> pl_slots l = 0 \<and> map_option so_certainty (pl_outcome l) = Some NOT_DISPATCHED
       | PAY_MANUAL_REVIEW \<Rightarrow> pl_slots l = 1
           \<and> map_option so_certainty (pl_outcome l) \<in> Some ` {DISPATCHED_NO_EFFECT, PARTIAL_SETTLEMENT, DISPATCHED_UNKNOWN}
       | _ \<Rightarrow> False)"
proof -
  obtain c m l fr where fin: "financed db w k c m l fr" and l: "find_row pl_command_id (sc_id k) (pd_ledger db) = Some l"
    using history_financed [OF assms] by blast
  note o = decoded_outcome [OF fin]
  have d: "check_dispatch l k (lv_lease (fr_ledger fr)) = Inr ()" "lv_slots (fr_ledger fr) = pl_slots l" "pl_slots l \<in> {0, 1}"
    using decode_ledger_row [OF financed_ledger [OF fin]] by (simp_all only: simp_thms)
  have v: "financial_status_valid (pw_core w) (fr_ledger fr) (ec_status (fr_claim fr))"
    using fin by (simp add: financed_def records_valid_def)
  have "pl_request_hash l = (if pl_slots l = 1 then Some (sha256_hex (sc_payload k)) else None)"
    using d(1,3) by (auto simp: check_dispatch_Inr)
  moreover have "case pc_status (pw_core w) of
         PAY_SETTLEMENT_QUEUED \<Rightarrow> pl_slots l = 0 \<and> pl_outcome l = None
       | PAY_SETTLING \<Rightarrow> pl_slots l = 1 \<and> pl_outcome l = None
       | PAY_PAID \<Rightarrow> pl_slots l = 1 \<and> map_option so_certainty (pl_outcome l) = Some SETTLED
       | PAY_RETRYABLE \<Rightarrow> pl_slots l = 0 \<and> map_option so_certainty (pl_outcome l) = Some NOT_DISPATCHED
       | PAY_MANUAL_REVIEW \<Rightarrow> pl_slots l = 1
           \<and> map_option so_certainty (pl_outcome l) \<in> Some ` {DISPATCHED_NO_EFFECT, PARTIAL_SETTLEMENT, DISPATCHED_UNKNOWN}
       | _ \<Rightarrow> False"
    using v unfolding financial_status_valid_def o d(2)
    by (cases "lv_status (fr_ledger fr)") (auto split: option.splits)
  ultimately show ?thesis using l by blast
qed

theorem payment_agrees_with_ledger_witness:
  "\<exists>tr db k w n l. payment_history True tr db \<and> load_payment db sample_pid = Inr (w, n) \<and> pc_command (pw_core w) = Some k
     \<and> find_row pl_command_id (sc_id k) (pd_ledger db) = Some l \<and> pc_status (pw_core w) = PAY_SETTLEMENT_QUEUED
     \<and> pl_slots l = 0 \<and> pl_outcome l = None"
proof -
  obtain tr db k w n where h: "payment_history True tr db" "load_payment db sample_pid = Inr (w, n)" "pw_core w = queued_core k"
    using sample_queued_history [of True] by (elim exE conjE) (rule that)
  have core: "pc_command (pw_core w) = Some k" "pc_status (pw_core w) = PAY_SETTLEMENT_QUEUED" by (simp_all add: h(3) queued_core_def)
  from payment_agrees_with_ledger [OF h(1,2) core(1)] obtain l where "find_row pl_command_id (sc_id k) (pd_ledger db) = Some l"
      "pl_slots l = 0" "pl_outcome l = None" using core(2) by auto
  with h core show ?thesis by blast
qed

text \<open>The kinds of effect an outcome requires under a policy, and whether each is required.\<close>

lemma required_kinds:
  assumes "required_payment_effects u policy = Inr jobs"
  shows "(\<lambda>j. (pj_kind j, pj_required j)) ` set jobs
    = (if so_certainty u = SETTLED
       then {(PAID_STATE_TRANSITION, True), (CUSTOMER_PAYMENT_CONFIRMATION, True)}
         \<union> (if pp_internal_email policy = EFFECT_OPTIONAL then {(INTERNAL_PAYMENT_EMAIL, False)} else {})
         \<union> (if pp_booking_form policy = EFFECT_DISABLED then {} else {(BOOKING_FORM, pp_booking_form policy = EFFECT_REQUIRED)})
       else {(MANUAL_REVIEW_EFFECT, True)})
    \<and> (\<forall>j \<in> set jobs. pj_outcome j = u)"
  using assms
  by (auto simp: required_payment_effects_def mk_payment_job_def bind_res_Inr_iff split: if_splits)

lemma effect_jobs:
  assumes "payment_history v2 tr db" "load_payment db pid = Inr (w, n)" "pc_command (pw_core w) = Some k"
  shows "\<exists>l jobs. find_row pl_command_id (sc_id k) (pd_ledger db) = Some l \<and> expected_jobs w (pl_outcome l) = Inr jobs
    \<and> distinct (map pb_kind (payment_effects db pid)) \<and> pb_job ` set (payment_effects db pid) = set jobs
    \<and> (\<forall>r \<in> set (payment_effects db pid). pj_kind (pb_job r) = pb_kind r)"
proof -
  obtain c m l fr where fin: "financed db w k c m l fr" and l: "find_row pl_command_id (sc_id k) (pd_ledger db) = Some l"
      and pid: "sc_payment_id k = pid"
    using history_financed [OF assms] by blast
  note o = decoded_outcome [OF fin]
  let ?rows = "payment_effects db pid"
  have "validate_payment_jobs db w k (fr_ledger fr) = Inr ()" using fin by (simp add: financed_def records_valid_def)
  then obtain jobs where j: "expected_jobs w (pl_outcome l) = Inr jobs" "length ?rows = length jobs" "distinct (map pj_kind jobs)"
      "distinct (map pb_kind ?rows)" "\<forall>r \<in> set ?rows. effect_sound db k (lv_recorded_at (fr_ledger fr)) jobs r"
    unfolding validate_jobs_iff o pid by blast
  have job: "pb_job r \<in> set jobs \<and> pj_kind (pb_job r) = pb_kind r" if "r \<in> set ?rows" for r
  proof -
    have "check_effect_binding k (lv_recorded_at (fr_ledger fr)) jobs [] r = Inr ()" using j(5) that by (simp add: effect_sound_def)
    then obtain job where "mk_payment_job (pj_kind (pb_job r)) (pj_required (pb_job r)) (pj_outcome (pb_job r)) = Inr job"
        "List.find (\<lambda>j. pj_kind j = pb_kind r) jobs = Some job"
      by (auto simp: check_effect_binding_def Let_def bind_res_Inr_iff)
    moreover from this have "job = pb_job r" using mk_payment_job_Inr by fastforce
    ultimately show ?thesis by (auto simp: find_Some_iff)
  qed
  have "pb_job ` set ?rows = set jobs"
  proof (rule card_subset_eq)
    show "pb_job ` set ?rows \<subseteq> set jobs" using job by blast
    have "inj_on pb_kind (set ?rows)" "distinct ?rows" using j(4) by (simp_all add: distinct_map)
    then have "inj_on pb_job (set ?rows)" using job unfolding inj_on_def by metis
    then have "card (pb_job ` set ?rows) = length ?rows" using \<open>distinct ?rows\<close> by (simp add: card_image distinct_card)
    moreover have "card (set jobs) = length jobs" using j(3) by (simp add: distinct_map distinct_card)
    ultimately show "card (pb_job ` set ?rows) = card (set jobs)" using j(2) by simp
  qed simp
  with j l job show ?thesis by blast
qed

text \<open>
  C21: The rows of the outbox follow the recorded outcome. Before an outcome is recorded there is no
  row for the payment. After a settled outcome there is one row for the paid-state transition and one
  for the confirmation to the customer, both required, one for the internal mail if the policy makes
  it optional, and one for the booking form unless the policy disables it; after any other outcome
  the only row asks for a manual review. No kind has two rows, every row carries the recorded outcome,
  and so a confirmation to the customer is queued only for a payment that was settled. How often a
  queued row is handed to a deliverer is not stated here: a lease that runs out is given out again.
\<close>

theorem effects_follow_outcome:
  assumes "payment_history v2 tr db" "load_payment db pid = Inr (w, n)" "pc_command (pw_core w) = Some k"
  shows "\<exists>l. find_row pl_command_id (sc_id k) (pd_ledger db) = Some l \<and> distinct (map pb_kind (payment_effects db pid))
    \<and> (case pl_outcome l of
         None \<Rightarrow> payment_effects db pid = []
       | Some u \<Rightarrow>
           (\<lambda>r. (pb_kind r, pj_required (pb_job r))) ` set (payment_effects db pid)
             = (if so_certainty u = SETTLED
                then {(PAID_STATE_TRANSITION, True), (CUSTOMER_PAYMENT_CONFIRMATION, True)}
                  \<union> (if pp_internal_email (pw_policy w) = EFFECT_OPTIONAL then {(INTERNAL_PAYMENT_EMAIL, False)} else {})
                  \<union> (if pp_booking_form (pw_policy w) = EFFECT_DISABLED then {}
                     else {(BOOKING_FORM, pp_booking_form (pw_policy w) = EFFECT_REQUIRED)})
                else {(MANUAL_REVIEW_EFFECT, True)})
           \<and> (\<lambda>r. pj_outcome (pb_job r)) ` set (payment_effects db pid) = {u})"
proof -
  let ?rows = "payment_effects db pid"
  obtain l jobs where l: "find_row pl_command_id (sc_id k) (pd_ledger db) = Some l" "expected_jobs w (pl_outcome l) = Inr jobs"
      "distinct (map pb_kind ?rows)" "pb_job ` set ?rows = set jobs" "\<forall>r \<in> set ?rows. pj_kind (pb_job r) = pb_kind r"
    using effect_jobs [OF assms] by blast
  show ?thesis
  proof (cases "pl_outcome l")
    case None
    then show ?thesis using l by (intro exI [of _ l]) (simp add: expected_jobs_def)
  next
    case (Some u)
    then have req: "required_payment_effects u (pw_policy w) = Inr jobs" using l(2) by (simp add: expected_jobs_def)
    have "(\<lambda>r. (pb_kind r, pj_required (pb_job r))) ` set ?rows = (\<lambda>j. (pj_kind j, pj_required j)) ` pb_job ` set ?rows"
      using l(5) by (simp add: image_image cong: image_cong)
    moreover have "(\<lambda>r. pj_outcome (pb_job r)) ` set ?rows = pj_outcome ` set jobs"
      unfolding l(4) [symmetric] by (simp add: image_image)
    moreover have "pj_outcome ` set jobs = {u}"
    proof -
      have "(\<lambda>j. (pj_kind j, pj_required j)) ` set jobs \<noteq> {}" unfolding conjunct1 [OF required_kinds [OF req]] by simp
      then have "set jobs \<noteq> {}" by blast
      moreover have "pj_outcome ` set jobs = (\<lambda>_. u) ` set jobs"
        by (rule image_cong) (use required_kinds [OF req] in auto)
      ultimately show ?thesis by (simp add: image_constant_conv)
    qed
    ultimately show ?thesis using l(1,3,4) required_kinds [OF req] Some by (intro exI [of _ l]) simp
  qed
qed

lemma sample_reviewed_payment:
  "\<exists>tr db k w n. payment_history v2 tr db \<and> load_payment db sample_pid = Inr (w, n) \<and> pc_command (pw_core w) = Some k
     \<and> pd_ledger db = [sample_closed_row k]"
proof -
  obtain tr db k where h: "payment_history v2 tr db" "settlement_command_for pix_subject sample_verified = Inr k"
      "pd_ledger db = [sample_closed_row k]" "pd_commands db = [command_row_of k 5000]"
    using sample_reviewed_history [of v2] by (elim exE conjE) (rule that)
  have ok: "payments_ok db" using history_ok [OF h(1)] by blast
  have m: "command_row_of k 5000 \<in> set (pd_commands db)" using h(4) by simp
  obtain w n c l fr where f: "load_payment db (cr_payment_id (command_row_of k 5000)) = Inr (w, n)" "financed db w k c (command_row_of k 5000) l fr"
    using stored_financed [OF ok m] unfolding command_row_fields by blast
  have "load_payment db sample_pid = Inr (w, n)" using f(1) sample_command_payment [OF h(2)] by (simp add: command_row_of_def)
  moreover have "pc_command (pw_core w) = Some k" using f(2) by (simp add: financed_def)
  ultimately show ?thesis using h(1,3) by blast
qed

theorem effects_follow_outcome_witness:
  "\<exists>tr db k w n l u. payment_history True tr db \<and> load_payment db sample_pid = Inr (w, n) \<and> pc_command (pw_core w) = Some k
     \<and> find_row pl_command_id (sc_id k) (pd_ledger db) = Some l \<and> pl_outcome l = Some u \<and> so_certainty u = DISPATCHED_UNKNOWN
     \<and> map pb_kind (payment_effects db sample_pid) = [MANUAL_REVIEW_EFFECT]"
proof -
  obtain tr db k w n where h: "payment_history True tr db" "load_payment db sample_pid = Inr (w, n)" "pc_command (pw_core w) = Some k"
      "pd_ledger db = [sample_closed_row k]"
    using sample_reviewed_payment [of True] by (elim exE conjE) (rule that)
  let ?u = "unknown_settlement (sha256_hex (sc_payload k))" and ?rows = "payment_effects db sample_pid"
  have l: "find_row pl_command_id (sc_id k) (pd_ledger db) = Some (sample_closed_row k)"
    using effects_follow_outcome [OF h(1-3)] h(4) by (auto split: if_splits)
  have u: "pl_outcome (sample_closed_row k) = Some ?u" by (simp add: sample_closed_row_def closed_settlement_def)
  have certainty: "so_certainty ?u = DISPATCHED_UNKNOWN" by (simp add: unknown_settlement_def)
  have d: "distinct (map pb_kind ?rows)" and k: "(\<lambda>r. (pb_kind r, pj_required (pb_job r))) ` set ?rows = {(MANUAL_REVIEW_EFFECT, True)}"
    using effects_follow_outcome [OF h(1-3)] l u certainty by auto
  have "fst ` (\<lambda>r. (pb_kind r, pj_required (pb_job r))) ` set ?rows = {MANUAL_REVIEW_EFFECT}" unfolding k by simp
  then have "set (map pb_kind ?rows) = {MANUAL_REVIEW_EFFECT}" by (simp add: image_image)
  then have "map pb_kind ?rows = [MANUAL_REVIEW_EFFECT]" using d
    by (cases "map pb_kind ?rows" rule: remdups_adj.cases) auto
  with h(1-3) l u certainty show ?thesis
    by (intro exI [of _ tr] exI [of _ db] exI [of _ k] exI [of _ w] exI [of _ n] exI [of _ "sample_closed_row k"]
        exI [of _ ?u] conjI)
qed

section \<open>The ledger refines the life of a settlement\<close>

text \<open>
  C7: Every call on a store a history leaves moves the ledger row of every command by nothing or by
  one step of the abstract life of a settlement (taken, requeued, abandoned, fenced or closed), and
  the row's two counters grow by exactly the claims and the permits the reply gave out for it.
\<close>

theorem calls_refine_settlement:
  assumes "payment_history v2 tr db" "wf_payment_call c" "holds_claim tr c" "serve_payment db c = (db', r)"
    "find_row pl_command_id cid (pd_ledger db) = Some l"
  shows "\<exists>l'. find_row pl_command_id cid (pd_ledger db') = Some l' \<and> settlement_move\<^sup>=\<^sup>= l l'
    \<and> pl_count l' = pl_count l + claims_in r cid \<and> pl_slots l' = pl_slots l + permits_in r cid"
proof -
  note s = history_serves [OF assms(1-4)]
  show ?thesis using serves_row [OF s(1,2) assms(5)] by auto
qed

theorem calls_refine_settlement_witness:
  "\<exists>tr db k db' r l'. payment_history True tr db \<and> serve_payment db (FenceSettlement (sample_claim k) (sc_payload k) 5600) = (db', r)
     \<and> find_row pl_command_id (sc_id k) (pd_ledger db') = Some l' \<and> settlement_move\<^sup>=\<^sup>= (sample_leased_row k) l'
     \<and> pl_count l' = 1 + claims_in r (sc_id k)"
proof -
  obtain tr db k where h: "payment_history True tr db" "pd_ledger db = [sample_leased_row k]"
    using sample_claimed_history [of True] by (elim exE conjE) (rule that)
  obtain db' r where s: "serve_payment db (FenceSettlement (sample_claim k) (sc_payload k) 5600) = (db', r)" by (meson surj_pair)
  have c: "wf_payment_call (FenceSettlement (sample_claim k) (sc_payload k) 5600)"
      "holds_claim tr (FenceSettlement (sample_claim k) (sc_payload k) 5600)" by (simp_all add: holds_claim_def)
  have l: "find_row pl_command_id (sc_id k) (pd_ledger db) = Some (sample_leased_row k)" using h(2) by simp
  from calls_refine_settlement [OF h(1) c s l] obtain l' where "find_row pl_command_id (sc_id k) (pd_ledger db') = Some l'"
      "settlement_move\<^sup>=\<^sup>= (sample_leased_row k) l'" "pl_count l' = 1 + claims_in r (sc_id k)" by auto
  with h(1) s show ?thesis by blast
qed

end
