(* ===== verification/Pay_Liveness.thy ===== *)
theory Pay_Liveness
  imports Pay_Safety
begin

text \<open>
  What the payment store gets done: a claimable settlement is claimed and an expired fence is sent to
  review, over the histories in which no worker id carries outer space; the recovery also needs the
  identifiers it derives to be unused. A claim under an id with outer space can be neither released
  nor fenced, and recovery and a new claim compare the same column. A run of the settlement worker is
  a history of its own calls.
\<close>

section \<open>Owners without outer space\<close>

definition exact_workers :: "payment_trace \<Rightarrow> bool" where
  "exact_workers tr \<longleftrightarrow> (\<forall>w now ttl. ClaimSettlement w now ttl \<in> fst ` set tr \<longrightarrow> strip w = w)"

lemma unclaimed_owner:
  assumes ok: "payments_ok db" and l: "l \<in> set (pd_ledger db)" "pl_count l = 0"
  shows "pl_owner l = None"
proof -
  obtain w n k c m fr where fin: "financed db w k c m l fr" using payment_ledger_row [OF ok l(1)] by blast
  have "decode_lease l = Inr (lv_lease (fr_ledger fr))" using decode_ledger_row [OF financed_ledger [OF fin]] by (elim conjE)
  then show ?thesis
    using ledger_row_counters(3) [OF ok l(1)] l(2) by (cases "lv_lease (fr_ledger fr)") (auto simp: decode_lease_Inr)
qed

lemma claim_reply:
  assumes "serve_payment db c = (db', r)" "claims_in r cid \<noteq> 0"
  shows "\<exists>w now ttl claim. c = ClaimSettlement w now ttl \<and> claim_settlement db w now ttl = Inr (db', Some claim)
    \<and> r = SettlementClaimed (Some claim) \<and> sc_id (sn_command claim) = cid"
proof -
  obtain claim where r: "r = SettlementClaimed (Some claim)" "sc_id (sn_command claim) = cid"
    using assms(2) by (cases "(r, cid)" rule: claims_in.cases) (auto split: if_splits)
  then show ?thesis
    using assms(1) by (cases c) (auto simp: payment_transaction_def split: sum.splits prod.splits)
qed

lemma unclaiming_owner: "settlement_move l l' \<Longrightarrow> pl_count l' = pl_count l \<Longrightarrow> pl_owner l' \<in> {pl_owner l, None}"
  by (cases rule: settlement_move.cases) (auto simp: settlement_row_updates)

lemma history_exact_owners:
  assumes "payment_history v2 tr db" "exact_workers tr"
  shows "\<forall>l \<in> set (pd_ledger db). exact_owner l"
  using assms
proof (induction rule: payment_history.induct)
  case start
  then show ?case by (simp add: empty_payments_def)
next
  case (call tr db c db' r)
  note s = history_serves [OF call.hyps]
  have "exact_workers tr" using call.prems unfolding exact_workers_def by auto
  then have IH: "\<forall>l \<in> set (pd_ledger db). exact_owner l" by (rule call.IH)
  show ?case
  proof
    fix l' assume l': "l' \<in> set (pd_ledger db')"
    have "distinct (map pl_command_id (pd_ledger db'))" using s(3) by (simp add: payments_ok_def tables_ok_def payment_keys_def)
    then have found: "find_row pl_command_id (pl_command_id l') (pd_ledger db') = Some l'" by (rule find_row_unique [OF _ l'])
    show "exact_owner l'"
    proof (cases "find_row pl_command_id (pl_command_id l') (pd_ledger db)")
      case None
      then have "pl_count l' = 0" using serves_new_row [OF s(1,2) None] found by simp
      then show ?thesis using unclaimed_owner [OF s(3) l'] by (simp add: exact_owner_def opt_all_def)
    next
      case (Some l)
      then have own: "exact_owner l" using IH find_row_Some by fast
      have m: "l' = l \<or> settlement_move l l'" "pl_count l' = pl_count l + claims_in r (pl_command_id l')"
        using serves_row [OF s(1,2) Some] found by auto
      show ?thesis
      proof (cases "claims_in r (pl_command_id l') = 0")
        case True
        then have "pl_count l' = pl_count l" using m(2) by simp
        then have "pl_owner l' \<in> {pl_owner l, None}" using m(1) unclaiming_owner [of l l'] by blast
        then show ?thesis using own by (auto simp: exact_owner_def opt_all_def)
      next
        case False
        obtain w now ttl claim where c: "c = ClaimSettlement w now ttl" "claim_settlement db w now ttl = Inr (db', Some claim)"
            "sc_id (sn_command claim) = pl_command_id l'"
          using claim_reply [OF call.hyps(4) False] by blast
        obtain x n where "find_row pl_command_id (pl_command_id l') (pd_ledger db') = Some (leased_settlement w now x n l)"
          using claim_settlement_effect [OF s(1) c(2)] Some unfolding c(3) by auto
        then have "pl_owner l' = Some w" using found by (simp add: leased_settlement_def)
        moreover have "strip w = w" using call.prems c(1) by (simp add: exact_workers_def)
        ultimately show ?thesis by (simp add: exact_owner_def opt_all_def)
      qed
    qed
  qed
qed

section \<open>A claimable settlement is claimed\<close>

text \<open>
  C28: After any history in which every settlement was claimed under a worker id without outer space,
  as long as some settlement is queued, or leased under a lease that has run out, and was claimed
  fewer than three times and never fenced, a worker with a proper id that asks for work, for a
  positive time that ends before the calendar does, is given some: the scan never stops at a row it
  cannot read, and the update never loses. Without the condition on the ids it may raise: a lease
  held under a padded id is not found again by the update that would take it over.
\<close>

theorem claimable_settlement_is_claimed:
  assumes "payment_history v2 tr db" "exact_workers tr" "l \<in> set (pd_ledger db)" "claimable_settlement now l"
    and "id_re w" "0 < ttl" "add_timedelta now ttl = Some x"
  shows "\<exists>db' claim. claim_settlement db w now ttl = Inr (db', Some claim) \<and> sl_owner (sn_lease claim) = w
    \<and> sl_expires (sn_lease claim) = x"
proof -
  have ok: "payments_ok db" using history_ok [OF assms(1)] by blast
  have w: "exact_text w ''worker_id'' = Inr w" "strip w = w" "id_re (strip w)"
    using text_ok_id [OF assms(5)] strip_id_re [OF assms(5)] assms(5) by (simp_all add: exact_text_def text_ok_def del: id_re.simps)
  obtain db' claim where run: "claim_settlement db w now ttl = Inr (db', Some claim)"
    using claim_commits [OF ok history_exact_owners [OF assms(1,2)] assms(3,4) w(1,3) assms(6,7)] by blast
  moreover have "sl_owner (sn_lease claim) = w" using claim_settlement_effect [OF ok run] w(2) by auto
  moreover have "sl_expires (sn_lease claim) = x" using claim_rows(2) [OF run] assms(7) by simp
  ultimately show ?thesis by blast
qed

lemma sample_exact_workers: "\<forall>c \<in> fst ` set tr. \<not> settlement_call c \<Longrightarrow> exact_workers tr"
  unfolding exact_workers_def by fastforce

theorem claimable_settlement_is_claimed_witness:
  "\<exists>tr db k db' claim. payment_history True tr db \<and> queued_row_of k 5000 \<in> set (pd_ledger db)
     \<and> claim_settlement db ''worker:1'' 5500 1000 = Inr (db', Some claim) \<and> sl_expires (sn_lease claim) = 6500"
proof -
  obtain tr db k where h: "payment_history True tr db" "pd_ledger db = [queued_row_of k 5000]"
      "\<forall>c \<in> fst ` set tr. \<not> settlement_call c"
    using sample_queued_history [of True] by (elim exE conjE) (rule that)
  have l: "queued_row_of k 5000 \<in> set (pd_ledger db)" "claimable_settlement 5500 (queued_row_of k 5000)"
    using h(2) by (simp_all add: claimable_settlement_def queued_row_of_def)
  have x: "add_timedelta 5500 1000 = Some 6500" "(0::int) < 1000" by (simp_all add: add_timedelta_def max_timestamp_def us_per_day_def)
  from claimable_settlement_is_claimed [OF h(1) sample_exact_workers [OF h(3)] l sample_worker(1) x(2,1)] h(1) l(1)
  show ?thesis by blast
qed

section \<open>An expired fence goes to review\<close>

text \<open>
  C27: After any history in which every settlement was claimed under a worker id without outer space,
  a settlement that was dispatched and whose worker never answered is closed by the next
  reconciliation once its lease has run out and it is the first of the expired ones: the outcome
  recorded is that nothing is known of the dispatched request, and the ledger row goes to review. This
  needs two derived identifiers to be unused, that of the event that finishes the settlement (which a
  caller may have taken for an event of its own) and that of the review effect; if one is taken, or
  the lease is held under a padded id, the recovery raises and the fence stays.
\<close>

theorem expired_fence_is_reviewed:
  assumes h: "payment_history v2 tr db" "exact_workers tr"
    and rows: "expired_candidates db now SETTLEMENT_FENCED 1 = l # ls" "find_row cr_id (pl_command_id l) (pd_commands db) = Some m"
    and new: "new_event db (SettlementFinished (finish_event (cr_value m) (unknown_settlement (sha256_hex (sc_payload (cr_value m)))) now))"
      "payment_effect_id (cr_id m) MANUAL_REVIEW_EFFECT \<notin> pb_message_id ` set (pd_outbox db)"
  shows "\<exists>db' l'. reconcile_payments now db = (db', mk_recovery_result POST_FENCE_MANUAL_REVIEW (Some (cr_id m)))
    \<and> find_row pl_command_id (cr_id m) (pd_ledger db') = Some l' \<and> pl_status l' = SETTLEMENT_REVIEW
    \<and> pl_outcome l' = Some (unknown_settlement (sha256_hex (sc_payload (cr_value m))))"
proof -
  have ok: "payments_ok db" using history_ok [OF h(1)] by blast
  have m: "m \<in> set (pd_commands db)" "cr_id m = pl_command_id l" using find_row_Some [OF rows(2)] by simp_all
  have "l \<in> set (expired_candidates db now SETTLEMENT_FENCED 1)" using rows(1) by simp
  then have l: "l \<in> set (pd_ledger db)" "pl_status l = SETTLEMENT_FENCED" "pl_slots l = 1" by (simp_all add: expired_candidates_def)
  have own: "exact_owner l" using history_exact_owners [OF h] l(1) by blast
  obtain db' where run: "recover_expired_fenced_settlement db now = Inr (db', Some (cr_id m))"
    using recover_fenced_commits [OF ok rows(1) own m new] by blast
  obtain l0 g where e: "pl_request_hash l0 = Some g" "find_row pl_command_id (cr_id m) (pd_ledger db) = Some l0"
      "find_row pl_command_id (cr_id m) (pd_ledger db') = Some (closed_settlement SETTLEMENT_REVIEW (unknown_settlement g) now l0)"
    using recover_fenced_effect [OF ok run] by auto
  have "distinct (map pl_command_id (pd_ledger db))" using history_keys [OF h(1)] by (simp add: payment_keys_def)
  then have "l0 = l" using find_row_unique [OF _ l(1)] e(2) m(2) by fastforce
  obtain w n c fr where fin: "financed db w (cr_value m) c m l fr" using stored_settlement [OF ok m(1) l(1) m(2) [symmetric]] by blast
  have "check_dispatch l (cr_value m) (lv_lease (fr_ledger fr)) = Inr ()" using decode_ledger_row [OF financed_ledger [OF fin]] by (elim conjE)
  then have "g = sha256_hex (sc_payload (cr_value m))" using e(1) l(3) \<open>l0 = l\<close> by (auto simp: check_dispatch_Inr)
  then show ?thesis using run e(3) by (simp add: reconcile_payments_def closed_settlement_def)
qed

theorem expired_fence_is_reviewed_witness:
  "\<exists>tr db k db' l'. payment_history True tr db \<and> pd_ledger db = [sample_fenced_row k]
     \<and> reconcile_payments 7000 db = (db', mk_recovery_result POST_FENCE_MANUAL_REVIEW (Some (sc_id k)))
     \<and> find_row pl_command_id (sc_id k) (pd_ledger db') = Some l' \<and> pl_status l' = SETTLEMENT_REVIEW"
proof -
  obtain tr db k where h: "payment_history True tr db" "pd_ledger db = [sample_fenced_row k]" "pd_commands db = [command_row_of k 5000]"
      "pd_outbox db = []"
      "pe_event_id ` set (pd_events db) = {settlement_event_id ''start'' (sc_id k), ''event:1'', ''event:2'', ''event:3'', ''event:4''}"
      "\<forall>w now ttl. ClaimSettlement w now ttl \<in> fst ` set tr \<longrightarrow> strip w = w"
    using sample_fenced_history [of True] by (elim exE conjE) (rule that)
  note r = sample_reviewable [OF h(1-5)]
  have w: "exact_workers tr" using h(6) by (simp add: exact_workers_def)
  have m: "find_row cr_id (pl_command_id (sample_fenced_row k)) (pd_commands db) = Some (command_row_of k 5000)" by (simp add: h(3))
  have e: "payment_effect_id (cr_id (command_row_of k 5000)) MANUAL_REVIEW_EFFECT \<notin> pb_message_id ` set (pd_outbox db)" by (simp add: h(4))
  have n: "new_event db (SettlementFinished (finish_event (cr_value (command_row_of k 5000))
      (unknown_settlement (sha256_hex (sc_payload (cr_value (command_row_of k 5000))))) 7000))" using r(3) by simp
  from expired_fence_is_reviewed [OF h(1) w r(1) m n e] obtain db' l' where
      "reconcile_payments 7000 db = (db', mk_recovery_result POST_FENCE_MANUAL_REVIEW (Some (sc_id k)))"
      "find_row pl_command_id (sc_id k) (pd_ledger db') = Some l'" "pl_status l' = SETTLEMENT_REVIEW"
    unfolding command_row_fields by blast
  with h(1,2) show ?thesis by blast
qed

section \<open>A worker id with outer space\<close>

text \<open>
  C37: The store keeps the worker id it is given and the lease strips it, so a claim under an id with
  outer space can be neither released nor fenced: no update finds its row again.
\<close>

theorem padded_worker_is_stuck:
  assumes h: "payment_history v2 tr db" and claim: "claim_settlement db w now ttl = Inr (db', Some claim)" and pad: "strip w \<noteq> w"
  shows "\<exists>e1 e2. release_pre_dispatch_settlement db' claim again t = Inl e1 \<and> fence_settlement db' claim request t = Inl e2"
proof -
  have ok: "payments_ok db" using history_ok [OF h] by blast
  have "serve_payment db (ClaimSettlement w now ttl) = (db', SettlementClaimed (Some claim))" by (simp add: served [OF claim])
  from history_serves(3) [OF h _ _ this] have ok': "payments_ok db'" by (simp add: holds_claim_def)
  obtain l x where l: "find_row pl_command_id (sc_id (sn_command claim)) (pd_ledger db') = Some (leased_settlement w now x (pl_count l + 1) l)"
      "sl_owner (sn_lease claim) = strip w"
    using claim_settlement_effect [OF ok claim] by auto
  have "\<nexists>y. release_pre_dispatch_settlement db' claim again t = Inr y"
  proof
    assume "\<exists>y. release_pre_dispatch_settlement db' claim again t = Inr y"
    then obtain db2 d where "release_pre_dispatch_settlement db' claim again t = Inr (db2, d)" by auto
    from release_effect [OF ok' this] show False using l pad by (auto simp: held_settlement_def leased_settlement_def)
  qed
  moreover have "\<nexists>y. fence_settlement db' claim request t = Inr y"
  proof
    assume "\<exists>y. fence_settlement db' claim request t = Inr y"
    then obtain db2 p where "fence_settlement db' claim request t = Inr (db2, p)" by auto
    from fence_settlement_effect [OF ok' this] show False using l pad by (auto simp: leased_settlement_def)
  qed
  ultimately show ?thesis by (metis sum.exhaust)
qed

lemma padded_sample: "strip '' worker:1'' = ''worker:1''" "exact_text '' worker:1'' f = Inr '' worker:1''"
  by code_simp (simp add: exact_text_def)

theorem padded_worker_is_stuck_witness:
  "\<exists>tr db db' claim e1 e2. payment_history True tr db \<and> claim_settlement db '' worker:1'' 5500 1000 = Inr (db', Some claim)
     \<and> release_pre_dispatch_settlement db' claim True 5600 = Inl e1
     \<and> fence_settlement db' claim (sc_payload (sn_command claim)) 5600 = Inl e2"
proof -
  obtain tr db k where h: "payment_history True tr db" "pd_ledger db = [queued_row_of k 5000]"
    using sample_queued_history [of True] by (elim exE conjE) (rule that)
  have ok: "payments_ok db" using history_ok [OF h(1)] by blast
  have l: "queued_row_of k 5000 \<in> set (pd_ledger db)" "claimable_settlement 5500 (queued_row_of k 5000)"
      "\<forall>l \<in> set (pd_ledger db). exact_owner l"
    using h(2) by (simp_all add: claimable_settlement_def queued_row_of_def exact_owner_def opt_all_def)
  have id: "id_re (strip '' worker:1'')" unfolding padded_sample by (rule sample_worker(1))
  have x: "add_timedelta 5500 1000 = Some 6500" "(0::int) < 1000" by (simp_all add: add_timedelta_def max_timestamp_def us_per_day_def)
  obtain db' claim where c: "claim_settlement db '' worker:1'' 5500 1000 = Inr (db', Some claim)"
    using claim_commits [OF ok l(3,1,2) padded_sample(2) id x(2,1)] by blast
  have "strip '' worker:1'' \<noteq> '' worker:1''" unfolding padded_sample by simp
  from padded_worker_is_stuck [OF h(1) c this, of True 5600 "sc_payload (sn_command claim)"] h(1) c show ?thesis by blast
qed

section \<open>A run of the settlement worker\<close>








end
