(* ===== verification/Spec2Isabelle.thy ===== *)
theory Spec2Isabelle
  imports Domain_Honest Domain_Package Exec_Loops Followup_Handoff_Laws Followup_Payment_Safety
    Pay_Liveness
begin

text \<open>
  The core of the reservation agent: what a lead has confirmed is sent to a provider at most once,
  what a customer has paid is settled at most once, and no answer of a provider is lost. Three
  packages of \<^verbatim>\<open>src/reservation_*\<close> are modelled.

  \<^item> \<^verbatim>\<open>reservation_domain\<close>, the pure reducer. A workflow takes events (search results, a shown
  draft, the lead's answer, execution notices) and emits a command when the lead confirms the draft
  that was presented. \<open>Domain_Values\<close>, \<open>Domain_Records\<close> and \<open>Domain_States\<close> model \<^verbatim>\<open>types.py\<close> (a
  dataclass is a record or a constructor, its \<open>__post_init__\<close> a function \<open>mk_C\<close> that raises or
  yields the normalised value), \<open>Domain_Signature\<close> and \<open>Domain_Package\<close> model \<^verbatim>\<open>signature.py\<close>,
  \<open>Domain_Encoding\<close> the writing half of \<^verbatim>\<open>serialization.py\<close>, \<open>Domain_Reducer\<close> models
  \<^verbatim>\<open>reducer.py\<close>. \<open>Domain_Reducer_Laws\<close> and \<open>Domain_Workflow\<close> show that a step never raises on
  well-formed arguments and keeps them well formed, that a history emits at most one command and
  only for an accepted draft, and that an event delivered again does nothing; \<open>Domain_Honest\<close> shows
  that an outcome phase says what a report of the executor said, \<open>Domain_Package\<close> how a package is
  split and what the signed text of a draft depends on.

  \<^item> \<^verbatim>\<open>reservation_execution\<close>, the durable execution of that command. \<open>Exec_Types\<close> models
  \<^verbatim>\<open>types.py\<close> and \<^verbatim>\<open>adapter.py\<close>, \<open>Exec_Projection\<close> models \<^verbatim>\<open>projection.py\<close>; \<^verbatim>\<open>sqlite_store.py\<close> is
  spread over \<open>Exec_Tables\<close> and \<open>Exec_Store\<close> (tables and reads), \<open>Exec_History\<close> (verifying
  reads), \<open>Exec_Apply\<close> (workflows and events), \<open>Exec_Dispatch\<close> (claims, leases, the fence),
  \<open>Exec_Outcome\<close> and \<open>Exec_Recovery\<close> (the end of an execution), \<open>Exec_Outbox\<close> (deliveries);
  \<open>Exec_Worker\<close> models \<^verbatim>\<open>worker.py\<close> and \<^verbatim>\<open>reconciliation.py\<close>. \<open>Exec_Laws\<close>, \<open>Exec_Steps\<close>
  and \<open>Exec_Facts\<close> say how each operation moves the rows, \<open>Exec_Progress\<close> and
  \<open>Exec_Recovery_Progress\<close> (the pass over expired dispatches) when it commits;
  \<open>Exec_Service\<close> runs histories of calls, \<open>Exec_Safety\<close>, \<open>Exec_Contract\<close> and \<open>Exec_Loops\<close> hold
  the properties: one dispatch permit per command, a store that only evolves, recorded outcomes
  included, workers that call the adapter behind the fence and record what it said.

  \<^item> \<^verbatim>\<open>reservation_followup\<close>, what happens after a reservation. \<open>Followup_Types\<close>,
  \<open>Followup_Evidence\<close>, \<open>Followup_Payment\<close> and \<open>Followup_Workflow\<close> model \<^verbatim>\<open>payment.py\<close> with the
  shared part of \<^verbatim>\<open>types.py\<close>, \<open>Followup_Handoff\<close> models \<^verbatim>\<open>handoff.py\<close> and its part of
  \<^verbatim>\<open>projection.py\<close>. \<open>Followup_Payment_Laws\<close> shows that a payment is its replayed history and
  that the reducer applies exactly what the replay accepts. The payment half of
  \<^verbatim>\<open>sqlite_store.py\<close> is in \<open>Pay_Claims\<close> and \<open>Pay_Store\<close> (claims, tables, verifying reads),
  \<open>Pay_Intake\<close> (payments, events, evidence), \<open>Pay_Settlement\<close> (the settlement ledger) and
  \<open>Pay_Outbox\<close> (effects), \<open>Pay_Worker\<close> models \<^verbatim>\<open>workers.py\<close>, \<open>Pay_Schema\<close> the constraints of
  \<^verbatim>\<open>schema.py\<close>, those of the outbox columns of version 2 included. \<open>Pay_Views\<close> says which rows a payment depends on, \<open>Pay_Steps\<close>,
  \<open>Pay_Advance\<close>, \<open>Pay_Ops\<close>, \<open>Pay_Settle_Laws\<close>, \<open>Pay_Close\<close>, \<open>Pay_Intake_Laws\<close> and
  \<open>Pay_Outbox_Laws\<close> that every operation keeps every payment loadable and moves rows only along the
  relations of \<open>Pay_Evolve\<close>; \<open>Pay_Service\<close> and \<open>Pay_History\<close> lift this to histories of calls,
  \<open>Pay_Schema_Laws\<close> and \<open>Pay_Schema_Store\<close> derive the table constraints. \<open>Pay_Progress\<close> and
  \<open>Pay_Fence_Progress\<close> say which calls commit, \<open>Pay_Example\<close> runs one payment from its opening to
  the review of a lost dispatch, \<open>Pay_Safety\<close> and \<open>Pay_Liveness\<close> hold the properties: one dispatch
  permit per command, at most one per claim key, outcomes that never change, work that is claimed
  and dispatches that end in review.

  The parts meet at three interfaces. \<open>Event_Sourcing\<close> is the contract of a reducer over a history,
  kept by the reservation reducer, the payment replay, the handoff reducer and the execution store.
  \<open>Fenced_Rows\<close> is the contract of a table whose rows carry a fencing token, kept by the ledgers
  and outboxes of both stores. \<open>Py_Prelude\<close> holds the digest format that signatures, identities and
  payload hashes share.

  Below them, \<open>Py_Prelude\<close>, \<open>Py_Time\<close>, \<open>Py_Json\<close> and \<open>Py_Sha256\<close> model the Python the source
  uses, and \<open>Py_Json_Read\<close> is a reader of JSON that inverts the printer up to the order of members,
  which is how two printed subjects are told apart. An exception is the left value of \<open>'a res\<close>. A \<open>str\<close> is a HOL string, whose characters have
  code points below 256. A timezone-aware instant is an \<open>int\<close> of microseconds, already normalised to
  UTC. The canonical JSON printer, UTF-8 and SHA-256 are written out and compute.
  \<open>isinstance\<close> guards are typing here and have no branch.

  A table is a list of rows in insertion order. A transaction is a function from the store to an
  error or the new store, so that an error rolls back. Rows keep the value beside its hash where the
  source keeps its JSON text and decodes it; decoding runs the same constructor on the value. SQL
  compares instants as ISO text, in the one fixed format the source writes, where text order is time
  order. A settlement command is built from the JSON object its payload text stands for.

  Code outside the modelled packages is a parameter: the delivery port of the outbox, the settlement
  port and the effect delivery port are functions of the request, the reservation adapter is a
  function of the request and of the store at the time it is called, which makes the order of the
  fence and the call visible, and \<open>summary_validator\<close>, the renderer of \<^verbatim>\<open>reservation_confirmation\<close>,
  is an argument of the execution store. A worker's properties hold whatever they answer; the
  command worker's ask that an answer is a value of the outcome's constructor.

  No loop of these packages is unbounded, so there is no fuel: every definition is a total function
  by structural recursion, and a drain of the reconciler recurs over the limit it is given. Only the
  JSON reader counts down a bound, one more than twice the length of its text; \<open>json_loads_dumps\<close>
  shows that this is enough for every printed value.

  Not modelled: the relay receipts by which \<^verbatim>\<open>reservation_boundary\<close> hands a booking to the execution
  store, and the schema migrations, connection handling and file permissions of both stores (SQL and
  operating system calls); the handoff tables of the follow-up store, its version 2 authority checks
  and its handoff outbox worker, which repeat the shape of the payment effects; the decoding half of
  both \<^verbatim>\<open>serialization.py\<close>; the harnesses that search for counterexamples. Of the rest of
  the repository, \<^verbatim>\<open>reservation_boundary\<close>, \<^verbatim>\<open>reservation_confirmation\<close>, \<^verbatim>\<open>reservation_lookup\<close> and
  the version 2 application with its adapters and operations (\<^verbatim>\<open>v2_*\<close>) and the release scripts call
  these packages over HTTP, databases, language models and the file system.
\<close>

end
